(* ===== verification/Prelude.thy ===== *)
theory Prelude
  imports Main "HOL-Library.Char_ord" "HOL-Library.List_Lexorder" "HOL-Library.Product_Lexorder"
begin

text \<open>
  What every component shares: the exceptions of the source as a datatype, results as a sum with
  sequencing (\<open>bindE\<close>, \<open>require\<close>, \<open>mapE\<close>), and the Python string operations the source uses.
  A Python \<open>str\<close> is the list of its UTF-8 bytes. UTF-8 keeps the order of code points, so
  comparing and sorting bytes is comparing and sorting strings, \<open>len(s.encode())\<close> is \<open>length\<close>, and
  the ASCII patterns of the source match the same strings. Operations that count or fold code
  points (\<open>len\<close>, \<open>strip\<close>, \<open>lower\<close>, \<open>casefold\<close>) work on the list of code points \<open>chunks s\<close>.
\<close>

named_theorems result_simps "facts that turn a successful run of a sequence of checks into a conjunction"
named_theorems string_defs "definitions of the string predicates, for evaluating them on literals"

section \<open>Exceptions and results\<close>

text \<open>One constructor for each exception class the modelled code raises, with its message, or the
  code and HTTP status of \<open>ControllerRequestError\<close>.\<close>

datatype exn =
    OperationAuthoringError string
  | BulkContractError string
  | BulkOrchestrationError string
  | ControllerRequestError string nat
  | ValueError string
  | TypeError string
  | AttributeError string
  | KeyError string
  | RuntimeError string
  | ProtocolNegotiationError string
  | NoCommonProtocolVersion string
  | FeatureConfigError string
  | IngestionSchemaError string
  | IngestionOwnershipError string
  | IngestionConflictError string
  | UnknownOperationError string
  | InventorySchemaError string
  | InventoryOwnershipError string
  | InventoryConflictError string
  | InventoryReconciliationError string
  | DispatchConflict string
  | ApprovalNotSatisfied string
  | ValidationError string
  | PermissionError string
  | DuplicateEntryError string
  | DoesNotExistError string
  | IntegrityError string
  | OverflowError string
  | ReadinessError string
  | ControllerSettingsError string
  | OSError
  | JSONDecodeError
  | UnicodeEncodeError
  | UnicodeDecodeError

type_synonym 'a result = "exn + 'a"

definition bindE :: "'a result \<Rightarrow> ('a \<Rightarrow> 'b result) \<Rightarrow> 'b result" where
  "bindE m f = (case m of Inl e \<Rightarrow> Inl e | Inr x \<Rightarrow> f x)"

definition require :: "bool \<Rightarrow> exn \<Rightarrow> unit result" where
  "require c e = (if c then Inr () else Inl e)"

definition is_ok :: "'a result \<Rightarrow> bool" where
  "is_ok r = (case r of Inl _ \<Rightarrow> False | Inr _ \<Rightarrow> True)"

fun mapE :: "('a \<Rightarrow> 'b result) \<Rightarrow> 'a list \<Rightarrow> 'b list result" where
  "mapE f [] = Inr []"
| "mapE f (x # xs) = bindE (f x) (\<lambda>y. bindE (mapE f xs) (\<lambda>ys. Inr (y # ys)))"

fun foldE :: "('a \<Rightarrow> 'b \<Rightarrow> 'b result) \<Rightarrow> 'a list \<Rightarrow> 'b \<Rightarrow> 'b result" where
  "foldE f [] b = Inr b"
| "foldE f (x # xs) b = bindE (f x b) (\<lambda>b'. foldE f xs b')"

lemma bindE_Inl [simp]: "bindE (Inl e) f = Inl e"
  by (simp add: bindE_def)

lemma bindE_Inr [simp]: "bindE (Inr x) f = f x"
  by (simp add: bindE_def)

lemma bindE_eq_Inr [result_simps]: "bindE m f = Inr y \<longleftrightarrow> (\<exists>x. m = Inr x \<and> f x = Inr y)"
  by (cases m) (auto simp: bindE_def)

lemma bindE_eq_Inl: "bindE m f = Inl e \<longleftrightarrow> m = Inl e \<or> (\<exists>x. m = Inr x \<and> f x = Inl e)"
  by (cases m) (auto simp: bindE_def)

lemma require_True [simp]: "require True e = Inr ()"
  by (simp add: require_def)

lemma require_False [simp]: "require False e = Inl e"
  by (simp add: require_def)

lemma require_eq_Inr [result_simps]: "require c e = Inr u \<longleftrightarrow> c"
  by (auto simp: require_def)

lemma require_eq_Inl: "require c e = Inl e' \<longleftrightarrow> \<not> c \<and> e' = e"
  by (auto simp: require_def)

lemma is_ok_Inl [simp]: "\<not> is_ok (Inl e)"
  by (simp add: is_ok_def)

lemma is_ok_Inr [simp]: "is_ok (Inr x)"
  by (simp add: is_ok_def)

lemma is_ok_iff: "is_ok r \<longleftrightarrow> (\<exists>x. r = Inr x)"
  by (cases r) auto

lemma is_ok_bindE: "is_ok (bindE m f) \<longleftrightarrow> (\<exists>x. m = Inr x \<and> is_ok (f x))"
  by (cases m) auto

lemma is_ok_require [simp]: "is_ok (require c e) \<longleftrightarrow> c"
  by (simp add: require_def)

text \<open>The first argument of a sequence decides the exception: a failing check is what is raised.\<close>

lemma bindE_require_fails: "\<not> c \<Longrightarrow> bindE (require c e) f = Inl e"
  by simp

lemma bindE_assoc: "bindE (bindE m f) g = bindE m (\<lambda>x. bindE (f x) g)"
  by (cases m) auto

lemma mapE_eq_Inr: "mapE f xs = Inr ys \<longleftrightarrow> list_all2 (\<lambda>x y. f x = Inr y) xs ys"
proof (induction xs arbitrary: ys)
  case Nil
  show ?case by auto
next
  case (Cons x xs)
  show ?case by (cases ys) (auto simp: bindE_eq_Inr Cons.IH)
qed

lemma mapE_length: "mapE f xs = Inr ys \<Longrightarrow> length ys = length xs"
  by (auto simp: mapE_eq_Inr dest: list_all2_lengthD)

lemma mapE_in_set: "mapE f xs = Inr ys \<Longrightarrow> y \<in> set ys \<Longrightarrow> \<exists>x\<in>set xs. f x = Inr y"
  by (auto simp: mapE_eq_Inr list_all2_conv_all_nth in_set_conv_nth) (metis nth_mem)

lemma mapE_map: "(\<And>x. x \<in> set xs \<Longrightarrow> f x = Inr (g x)) \<Longrightarrow> mapE f xs = Inr (map g xs)"
  by (induction xs) auto

lemma mapE_nth: "mapE f xs = Inr ys \<Longrightarrow> i < length xs \<Longrightarrow> f (xs ! i) = Inr (ys ! i)"
  by (auto simp: mapE_eq_Inr list_all2_conv_all_nth)

lemma mapE_cong [fundef_cong]:
  "xs = ys \<Longrightarrow> (\<And>x. x \<in> set ys \<Longrightarrow> f x = g x) \<Longrightarrow> mapE f xs = mapE g ys"
proof (induction ys arbitrary: xs)
  case Nil
  then show ?case by simp
next
  case (Cons y ys)
  then show ?case by simp
qed

lemma bindE_cong [fundef_cong]:
  "m = m' \<Longrightarrow> (\<And>x. m' = Inr x \<Longrightarrow> f x = g x) \<Longrightarrow> bindE m f = bindE m' g"
  by (cases m') auto

text \<open>A fold of steps that all keep an invariant keeps it.\<close>

lemma foldE_invariant:
  assumes "foldE f xs b = Inr b'" and "P b"
    and "\<And>x b b'. x \<in> set xs \<Longrightarrow> P b \<Longrightarrow> f x b = Inr b' \<Longrightarrow> P b'"
  shows "P b'"
  using assms
proof (induction xs arbitrary: b)
  case Nil
  then show ?case by simp
next
  case (Cons x xs)
  from Cons.prems(1) obtain c where c: "f x b = Inr c" and r: "foldE f xs c = Inr b'"
    by (auto simp: bindE_eq_Inr)
  have "P c" using Cons.prems(2,3) c by auto
  then show ?case using Cons.IH [OF r] Cons.prems(3) by auto
qed

text \<open>A check of every element in turn, as a \<open>for\<close> loop whose body only raises.\<close>

fun eachE :: "('a \<Rightarrow> unit result) \<Rightarrow> 'a list \<Rightarrow> unit result" where
  "eachE f [] = Inr ()"
| "eachE f (x # xs) = bindE (f x) (\<lambda>_. eachE f xs)"

lemma eachE_eq_Inr [result_simps]: "eachE f xs = Inr u \<longleftrightarrow> (\<forall>x\<in>set xs. f x = Inr ())"
  by (induction xs) (auto simp: bindE_eq_Inr)

lemma eachE_cong [fundef_cong]:
  "xs = ys \<Longrightarrow> (\<And>x. x \<in> set ys \<Longrightarrow> f x = g x) \<Longrightarrow> eachE f xs = eachE g ys"
proof (induction ys arbitrary: xs)
  case Nil
  then show ?case by simp
next
  case (Cons y ys)
  then show ?case by simp
qed

text \<open>\<open>try: ... except\<close>: another exception in place of those that satisfy a condition.\<close>

definition catchE :: "(exn \<Rightarrow> exn option) \<Rightarrow> 'a result \<Rightarrow> 'a result" where
  "catchE h m = (case m of Inl e \<Rightarrow> (case h e of None \<Rightarrow> Inl e | Some e' \<Rightarrow> Inl e') | Inr x \<Rightarrow> Inr x)"

definition of_option :: "exn \<Rightarrow> 'a option \<Rightarrow> 'a result" where
  "of_option e m = (case m of None \<Rightarrow> Inl e | Some x \<Rightarrow> Inr x)"

lemma catchE_eq_Inr [result_simps]: "catchE h m = Inr x \<longleftrightarrow> m = Inr x"
  by (cases m) (auto simp: catchE_def split: option.splits)

lemma catchE_Inr [simp]: "catchE h (Inr x) = Inr x"
  by (simp add: catchE_def)

lemma of_option_eq_Inr [result_simps]: "of_option e m = Inr x \<longleftrightarrow> m = Some x"
  by (cases m) (auto simp: of_option_def)

lemma of_option_simps [simp]: "of_option e None = Inl e" "of_option e (Some x) = Inr x"
  by (simp_all add: of_option_def)

section \<open>Python strings\<close>

definition is_cont :: "char \<Rightarrow> bool" where
  "is_cont c \<longleftrightarrow> CHR 0x80 \<le> c \<and> c \<le> CHR 0xBF"

text \<open>The code points of a string, each as its UTF-8 bytes.\<close>

function chunks :: "string \<Rightarrow> string list" where
  "chunks [] = []"
| "chunks (c # cs) = (c # takeWhile is_cont cs) # chunks (dropWhile is_cont cs)"
  by pat_completeness auto
termination
  by (relation "measure length") (auto simp: le_imp_less_Suc length_dropWhile_le)

lemma concat_chunks [simp]: "concat (chunks s) = s"
  by (induction s rule: chunks.induct) auto

definition ascii :: "string \<Rightarrow> bool" where
  "ascii s \<longleftrightarrow> (\<forall>c\<in>set s. c < CHR 0x80)"

lemma not_is_cont: "c < CHR 0x80 \<Longrightarrow> \<not> is_cont c"
  by (auto simp: is_cont_def)

lemma chunks_ascii: "ascii s \<Longrightarrow> chunks s = map (\<lambda>c. [c]) s"
proof (induction s)
  case Nil
  show ?case by simp
next
  case (Cons c cs)
  have tw: "takeWhile is_cont cs = []"
    using Cons.prems by (cases cs) (auto simp: ascii_def not_is_cont)
  have dw: "dropWhile is_cont cs = cs"
    using Cons.prems by (cases cs) (auto simp: ascii_def not_is_cont)
  have "chunks cs = map (\<lambda>c. [c]) cs" using Cons by (auto simp: ascii_def)
  then show ?case by (simp add: tw dw)
qed

text \<open>\<open>len(s)\<close> counts code points.\<close>

definition py_len :: "string \<Rightarrow> nat" where
  "py_len s = length (chunks s)"

text \<open>The code points \<open>str.isspace\<close> accepts, which \<open>str.strip\<close> removes.\<close>

definition space_chunks :: "string list" where
  "space_chunks =
     map (\<lambda>c. [c]) [CHR 0x09, CHR 0x0A, CHR 0x0B, CHR 0x0C, CHR 0x0D, CHR 0x1C, CHR 0x1D,
       CHR 0x1E, CHR 0x1F, CHR 0x20]
     @ [[CHR 0xC2, CHR 0x85], [CHR 0xC2, CHR 0xA0], [CHR 0xE1, CHR 0x9A, CHR 0x80]]
     @ map (\<lambda>c. [CHR 0xE2, CHR 0x80, c]) [CHR 0x80, CHR 0x81, CHR 0x82, CHR 0x83, CHR 0x84,
       CHR 0x85, CHR 0x86, CHR 0x87, CHR 0x88, CHR 0x89, CHR 0x8A, CHR 0xA8, CHR 0xA9, CHR 0xAF]
     @ [[CHR 0xE2, CHR 0x81, CHR 0x9F], [CHR 0xE3, CHR 0x80, CHR 0x80]]"

definition is_space_chunk :: "string \<Rightarrow> bool" where
  "is_space_chunk k \<longleftrightarrow> k \<in> set space_chunks"

definition py_strip :: "string \<Rightarrow> string" where
  "py_strip s =
     concat (rev (dropWhile is_space_chunk (rev (dropWhile is_space_chunk (chunks s)))))"

definition lower_char :: "char \<Rightarrow> char" where
  "lower_char c = (if CHR ''A'' \<le> c \<and> c \<le> CHR ''Z'' then char_of ((of_char c :: nat) + 32) else c)"

text \<open>
  \<open>str.lower\<close> and \<open>str.casefold\<close> on the letters of ASCII and on every code point whose result
  holds an ASCII letter; other letters stay as they are. What the source compares the results
  with is ASCII, so the answer is the one Python gives.
\<close>

definition lower_chunk :: "string \<Rightarrow> string" where
  "lower_chunk k =
     (case k of [c] \<Rightarrow> [lower_char c]
      | _ \<Rightarrow> if k = [CHR 0xE2, CHR 0x84, CHR 0xAA] then ''k''
            else if k = [CHR 0xC4, CHR 0xB0] then [CHR ''i'', CHR 0xCC, CHR 0x87]
            else k)"

definition py_lower :: "string \<Rightarrow> string" where
  "py_lower s = concat (map lower_chunk (chunks s))"

definition casefold_table :: "(string \<times> string) list" where
  "casefold_table =
     [([CHR 0xC3, CHR 0x9F], ''ss''), ([CHR 0xC4, CHR 0xB0], [CHR ''i'', CHR 0xCC, CHR 0x87]),
      ([CHR 0xC5, CHR 0x89], [CHR 0xCA, CHR 0xBC, CHR ''n'']), ([CHR 0xC5, CHR 0xBF], ''s''),
      ([CHR 0xC7, CHR 0xB0], [CHR ''j'', CHR 0xCC, CHR 0x8C]),
      ([CHR 0xE1, CHR 0xBA, CHR 0x96], [CHR ''h'', CHR 0xCC, CHR 0xB1]),
      ([CHR 0xE1, CHR 0xBA, CHR 0x97], [CHR ''t'', CHR 0xCC, CHR 0x88]),
      ([CHR 0xE1, CHR 0xBA, CHR 0x98], [CHR ''w'', CHR 0xCC, CHR 0x8A]),
      ([CHR 0xE1, CHR 0xBA, CHR 0x99], [CHR ''y'', CHR 0xCC, CHR 0x8A]),
      ([CHR 0xE1, CHR 0xBA, CHR 0x9A], [CHR ''a'', CHR 0xCA, CHR 0xBE]),
      ([CHR 0xE1, CHR 0xBA, CHR 0x9E], ''ss''), ([CHR 0xE2, CHR 0x84, CHR 0xAA], ''k''),
      ([CHR 0xEF, CHR 0xAC, CHR 0x80], ''ff''), ([CHR 0xEF, CHR 0xAC, CHR 0x81], ''fi''),
      ([CHR 0xEF, CHR 0xAC, CHR 0x82], ''fl''), ([CHR 0xEF, CHR 0xAC, CHR 0x83], ''ffi''),
      ([CHR 0xEF, CHR 0xAC, CHR 0x84], ''ffl''), ([CHR 0xEF, CHR 0xAC, CHR 0x85], ''st''),
      ([CHR 0xEF, CHR 0xAC, CHR 0x86], ''st'')]"

definition casefold_chunk :: "string \<Rightarrow> string" where
  "casefold_chunk k =
     (case k of [c] \<Rightarrow> [lower_char c]
      | _ \<Rightarrow> (case map_of casefold_table k of Some r \<Rightarrow> r | None \<Rightarrow> k))"

definition py_casefold :: "string \<Rightarrow> string" where
  "py_casefold s = concat (map casefold_chunk (chunks s))"

definition replace_char :: "char \<Rightarrow> char \<Rightarrow> string \<Rightarrow> string" where
  "replace_char a b s = map (\<lambda>c. if c = a then b else c) s"

fun contains :: "string \<Rightarrow> string \<Rightarrow> bool" where
  "contains pat [] \<longleftrightarrow> pat = []"
| "contains pat (x # xs) \<longleftrightarrow> take (length pat) (x # xs) = pat \<or> contains pat xs"

definition starts_with :: "string \<Rightarrow> string \<Rightarrow> bool" where
  "starts_with p s \<longleftrightarrow> take (length p) s = p"

definition ends_with :: "string \<Rightarrow> string \<Rightarrow> bool" where
  "ends_with p s \<longleftrightarrow> length p \<le> length s \<and> drop (length s - length p) s = p"

fun join :: "string \<Rightarrow> string list \<Rightarrow> string" where
  "join sep [] = []"
| "join sep [x] = x"
| "join sep (x # y # ys) = x @ sep @ join sep (y # ys)"

text \<open>\<open>s.encode("utf-8")\<close> raises on a surrogate; \<open>bytes.decode\<close> on what is not UTF-8.\<close>

fun has_surrogate :: "string \<Rightarrow> bool" where
  "has_surrogate [] = False"
| "has_surrogate (c # cs) =
     (c = CHR 0xED \<and> cs \<noteq> [] \<and> CHR 0xA0 \<le> hd cs \<and> hd cs \<le> CHR 0xBF \<or> has_surrogate cs)"

definition encodeE :: "string \<Rightarrow> string result" where
  "encodeE s = (if has_surrogate s then Inl UnicodeEncodeError else Inr s)"

definition chunk_ok :: "string \<Rightarrow> bool" where
  "chunk_ok k =
     (case k of
        [a] \<Rightarrow> a < CHR 0x80
      | [a, b] \<Rightarrow> CHR 0xC2 \<le> a \<and> a \<le> CHR 0xDF \<and> is_cont b
      | [a, b, c] \<Rightarrow> CHR 0xE0 \<le> a \<and> a \<le> CHR 0xEF \<and> is_cont b \<and> is_cont c
          \<and> (a = CHR 0xE0 \<longrightarrow> CHR 0xA0 \<le> b) \<and> (a = CHR 0xED \<longrightarrow> b < CHR 0xA0)
      | [a, b, c, d] \<Rightarrow> CHR 0xF0 \<le> a \<and> a \<le> CHR 0xF4 \<and> is_cont b \<and> is_cont c \<and> is_cont d
          \<and> (a = CHR 0xF0 \<longrightarrow> CHR 0x90 \<le> b) \<and> (a = CHR 0xF4 \<longrightarrow> b < CHR 0x90)
      | _ \<Rightarrow> False)"

definition decodeE :: "string \<Rightarrow> string result" where
  "decodeE s = (if list_all chunk_ok (chunks s) then Inr s else Inl UnicodeDecodeError)"

lemma encodeE_eq_Inr [result_simps]: "encodeE s = Inr t \<longleftrightarrow> t = s \<and> \<not> has_surrogate s"
  by (auto simp: encodeE_def)

lemma decodeE_eq_Inr [result_simps]: "decodeE s = Inr t \<longleftrightarrow> t = s \<and> list_all chunk_ok (chunks s)"
  by (auto simp: decodeE_def)

text \<open>Decimal numerals, as \<open>str\<close> of an \<open>int\<close> writes them.\<close>

definition digit_char :: "nat \<Rightarrow> char" where
  "digit_char d = char_of (48 + d)"

fun nat_str :: "nat \<Rightarrow> string" where
  "nat_str n = (if n < 10 then [digit_char n] else nat_str (n div 10) @ [digit_char (n mod 10)])"

declare nat_str.simps [simp del]

lemma nat_str_small: "n < 10 \<Longrightarrow> nat_str n = [digit_char n]"
  by (simp add: nat_str.simps)

lemma nat_str_big: "\<not> n < 10 \<Longrightarrow> nat_str n = nat_str (n div 10) @ [digit_char (n mod 10)]"
  by (simp add: nat_str.simps [of n])

definition digit_val :: "char \<Rightarrow> nat" where
  "digit_val c = of_char c - 48"

definition digits_val :: "string \<Rightarrow> nat" where
  "digits_val s = foldl (\<lambda>a c. 10 * a + digit_val c) 0 s"

definition int_str :: "int \<Rightarrow> string" where
  "int_str i = (if i < 0 then CHR ''-'' # nat_str (nat (- i)) else nat_str (nat i))"

lemma ends_with_append [simp]: "ends_with p (xs @ p)"
  by (simp add: ends_with_def)

lemma ends_with_iff: "ends_with p s \<longleftrightarrow> (\<exists>q. s = q @ p)"
proof
  assume "ends_with p s"
  then have "s = take (length s - length p) s @ p"
    by (metis append_take_drop_id ends_with_def)
  then show "\<exists>q. s = q @ p" by blast
qed auto

lemma starts_with_iff: "starts_with p s \<longleftrightarrow> (\<exists>q. s = p @ q)"
  by (metis append_eq_conv_conj starts_with_def)

section \<open>Character classes and the patterns built from them\<close>

definition is_digit :: "char \<Rightarrow> bool" where
  "is_digit c \<longleftrightarrow> CHR ''0'' \<le> c \<and> c \<le> CHR ''9''"

definition is_lower :: "char \<Rightarrow> bool" where
  "is_lower c \<longleftrightarrow> CHR ''a'' \<le> c \<and> c \<le> CHR ''z''"

definition is_upper :: "char \<Rightarrow> bool" where
  "is_upper c \<longleftrightarrow> CHR ''A'' \<le> c \<and> c \<le> CHR ''Z''"

definition is_alnum :: "char \<Rightarrow> bool" where
  "is_alnum c \<longleftrightarrow> is_lower c \<or> is_upper c \<or> is_digit c"

definition is_hex :: "char \<Rightarrow> bool" where
  "is_hex c \<longleftrightarrow> is_digit c \<or> CHR ''a'' \<le> c \<and> c \<le> CHR ''f''"

definition is_hex_any :: "char \<Rightarrow> bool" where
  "is_hex_any c \<longleftrightarrow> is_hex c \<or> CHR ''A'' \<le> c \<and> c \<le> CHR ''F''"

text \<open>\<open>head tail{0,n}\<close>: a first character of one class and at most \<open>n\<close> of another.\<close>

definition head_tail :: "(char \<Rightarrow> bool) \<Rightarrow> (char \<Rightarrow> bool) \<Rightarrow> nat \<Rightarrow> string \<Rightarrow> bool" where
  "head_tail h t n s \<longleftrightarrow>
     (case s of [] \<Rightarrow> False | c # cs \<Rightarrow> h c \<and> list_all t cs \<and> length cs \<le> n)"

text \<open>\<open>[0-9a-f]{64}\<close>, the SHA-256 digest pattern of every module.\<close>

definition is_sha256 :: "string \<Rightarrow> bool" where
  "is_sha256 s \<longleftrightarrow> length s = 64 \<and> list_all is_hex s"

declare is_digit_def [string_defs] is_lower_def [string_defs] is_upper_def [string_defs]
  is_alnum_def [string_defs] is_hex_def [string_defs] is_hex_any_def [string_defs]
  head_tail_def [string_defs] starts_with_def [string_defs]
  ends_with_def [string_defs] py_strip_def [string_defs] py_lower_def [string_defs]
  lower_chunk_def [string_defs] lower_char_def [string_defs] is_space_chunk_def [string_defs]
  space_chunks_def [string_defs] is_cont_def [string_defs] py_casefold_def [string_defs]
  casefold_chunk_def [string_defs] replace_char_def [string_defs] py_len_def [string_defs]

lemma is_sha256_replicate [simp]: "is_hex c \<Longrightarrow> is_sha256 (replicate 64 c)"
  by (simp add: is_sha256_def list_all_iff)

lemma is_sha256_not_Nil [simp]: "is_sha256 s \<Longrightarrow> s \<noteq> []"
  by (auto simp: is_sha256_def)

text \<open>Split at a separator character, as \<open>str.split(c)\<close>.\<close>

fun split_on :: "char \<Rightarrow> string \<Rightarrow> string list" where
  "split_on c [] = [[]]"
| "split_on c (x # xs) =
     (if x = c then [] # split_on c xs
      else (case split_on c xs of [] \<Rightarrow> [[x]] | w # ws \<Rightarrow> (x # w) # ws))"

text \<open>
  The domain pattern of the source:
  \<open>(?=.{1,253}\Z)(?:[a-z0-9](?:[a-z0-9-]{0,61}[a-z0-9])?\.)+[a-z0-9](?:[a-z0-9-]{0,61}[a-z0-9])?\<close>:
  at least two dot-separated labels of 1 to 63 letters, digits and inner hyphens.
\<close>

definition label_ok :: "string \<Rightarrow> bool" where
  "label_ok l \<longleftrightarrow> l \<noteq> [] \<and> length l \<le> 63
     \<and> list_all (\<lambda>c. is_lower c \<or> is_digit c \<or> c = CHR ''-'') l
     \<and> hd l \<noteq> CHR ''-'' \<and> last l \<noteq> CHR ''-''"

definition is_domain :: "string \<Rightarrow> bool" where
  "is_domain s \<longleftrightarrow> length s \<le> 253 \<and> 2 \<le> length (split_on (CHR ''.'') s)
     \<and> list_all label_ok (split_on (CHR ''.'') s)"

declare label_ok_def [string_defs] is_domain_def [string_defs]

section \<open>Optional values\<close>

text \<open>Python truth of an optional string, and \<open>x or None\<close>.\<close>

definition truthy :: "string option \<Rightarrow> bool" where
  "truthy x = (case x of None \<Rightarrow> False | Some s \<Rightarrow> s \<noteq> [])"

definition or_none :: "string option \<Rightarrow> string option" where
  "or_none x = (if truthy x then x else None)"

definition or_empty :: "string option \<Rightarrow> string" where
  "or_empty x = (case x of None \<Rightarrow> [] | Some s \<Rightarrow> s)"

lemma truthy_simps [simp]: "\<not> truthy None" "truthy (Some s) \<longleftrightarrow> s \<noteq> []"
  by (simp_all add: truthy_def)

lemma or_none_simps [simp]: "or_none None = None" "s \<noteq> [] \<Longrightarrow> or_none (Some s) = Some s"
    "or_none (Some []) = None"
  by (simp_all add: or_none_def)

lemma or_none_eq_Some: "or_none x = Some s \<longleftrightarrow> x = Some s \<and> s \<noteq> []"
  by (cases x) (auto simp: or_none_def)

lemma or_empty_simps [simp]: "or_empty None = []" "or_empty (Some s) = s"
  by (simp_all add: or_empty_def)

section \<open>Lists and maps\<close>

text \<open>\<open>len(set(xs)) != len(xs)\<close> is the negation of \<open>distinct\<close>; \<open>enumerate\<close> is \<open>enumerate 0\<close>.\<close>

lemma card_set_distinct: "card (set xs) = length xs \<longleftrightarrow> distinct xs"
  by (metis card_distinct distinct_card)

lemma sort_key_mset_perm [simp]: "set (sort_key f xs) = set xs"
  by simp

text \<open>The rows of a table that satisfy a condition, in the order of their names.\<close>

definition rows_where :: "('k::linorder \<times> 'r) list \<Rightarrow> ('r \<Rightarrow> bool) \<Rightarrow> 'r list" where
  "rows_where t p = filter p (map snd t)"

lemma rows_where_set: "r \<in> set (rows_where t p) \<longleftrightarrow> p r \<and> r \<in> snd ` set t"
  by (auto simp: rows_where_def)

end
