(* ===== verification/PyTime.thy ===== *)
theory PyTime
  imports Prelude
begin

text \<open>
  \<open>datetime\<close> values and the two renderings the controller uses. An aware value is the
  microsecond of its instant since 1970-01-01T00:00Z, a naive one the microsecond its wall clock
  shows; the database columns hold naive UTC values. \<open>fromisoformat\<close> is the reader of ISO 8601 text.
\<close>

datatype datetime = Aware int | Naive int

definition us_per_second :: int where
  "us_per_second = 1000000"

definition us_per_day :: int where
  "us_per_day = 86400000000"

text \<open>\<open>timedelta(seconds=n)\<close> in microseconds.\<close>

definition seconds :: "int \<Rightarrow> int" where
  "seconds n = n * us_per_second"

section \<open>The proleptic Gregorian calendar\<close>

definition civil_from_days :: "int \<Rightarrow> int \<times> int \<times> int" where
  "civil_from_days z0 =
     (let z = z0 + 719468; era = z div 146097; doe = z mod 146097;
          yoe = (doe - doe div 1460 + doe div 36524 - doe div 146096) div 365;
          doy = doe - (365 * yoe + yoe div 4 - yoe div 100);
          mp = (5 * doy + 2) div 153;
          d = doy - (153 * mp + 2) div 5 + 1;
          m = (if mp < 10 then mp + 3 else mp - 9);
          y = yoe + era * 400 + (if m \<le> 2 then 1 else 0)
      in (y, m, d))"

definition days_from_civil :: "int \<Rightarrow> int \<Rightarrow> int \<Rightarrow> int" where
  "days_from_civil y0 m d =
     (let y = (if m \<le> 2 then y0 - 1 else y0); era = y div 400; yoe = y mod 400;
          doy = (153 * (if m > 2 then m - 3 else m + 9) + 2) div 5 + d - 1;
          doe = yoe * 365 + yoe div 4 - yoe div 100 + doy
      in era * 146097 + doe - 719468)"

definition is_leap :: "int \<Rightarrow> bool" where
  "is_leap y \<longleftrightarrow> y mod 4 = 0 \<and> (y mod 100 \<noteq> 0 \<or> y mod 400 = 0)"

definition days_in_month :: "int \<Rightarrow> int \<Rightarrow> int" where
  "days_in_month y m =
     (if m = 2 then (if is_leap y then 29 else 28)
      else if m \<in> {4, 6, 9, 11} then 30 else 31)"

section \<open>Rendering\<close>

definition pad :: "nat \<Rightarrow> int \<Rightarrow> string" where
  "pad n i = (let s = nat_str (nat i) in replicate (n - length s) CHR ''0'' @ s)"

definition iso_seconds :: "int \<Rightarrow> string" where
  "iso_seconds t =
     (let (y, m, d) = civil_from_days (t div us_per_day);
          s = (t mod us_per_day) div us_per_second
      in pad 4 y @ ''-'' @ pad 2 m @ ''-'' @ pad 2 d @ ''T''
         @ pad 2 (s div 3600) @ '':'' @ pad 2 (s div 60 mod 60) @ '':'' @ pad 2 (s mod 60))"

text \<open>\<open>utc(value).isoformat(timespec="microseconds").replace("+00:00", "Z")\<close>.\<close>

definition micro_timestamp :: "int \<Rightarrow> string" where
  "micro_timestamp t = iso_seconds t @ ''.'' @ pad 6 (t mod us_per_second) @ ''Z''"

text \<open>\<open>isoformat()\<close> of an aware UTC value: the fraction only where it is not zero.\<close>

definition isoformat_utc :: "int \<Rightarrow> string" where
  "isoformat_utc t =
     iso_seconds t @ (if t mod us_per_second = 0 then [] else ''.'' @ pad 6 (t mod us_per_second))
       @ ''+00:00''"

text \<open>\<open>str\<close> of a naive value.\<close>

definition datetime_str :: "int \<Rightarrow> string" where
  "datetime_str t =
     take 10 (iso_seconds t) @ '' '' @ drop 11 (iso_seconds t)
       @ (if t mod us_per_second = 0 then [] else ''.'' @ pad 6 (t mod us_per_second))"

section \<open>Parsing\<close>

text \<open>
  \<open>datetime.fromisoformat\<close> of Python 3.14: a date in its extended, basic or week form, any one code
  point, and a time with consistent separators, an optional fraction and an optional offset. A code
  point beyond ASCII may only be the separator, so it is read as one byte no field accepts.
\<close>

definition digits_at :: "nat \<Rightarrow> string \<Rightarrow> (int \<times> string) option" where
  "digits_at n s =
     (if n \<le> length s \<and> list_all is_digit (take n s)
      then Some (int (digits_val (take n s)), drop n s) else None)"

definition first_day :: int where
  "first_day = days_from_civil 1 1 1"

definition last_day :: int where
  "last_day = days_from_civil 9999 12 31"

definition weekday :: "int \<Rightarrow> int" where
  "weekday z = (z + 3) mod 7"

definition calendar_date :: "int \<Rightarrow> int \<Rightarrow> int \<Rightarrow> int option" where
  "calendar_date y m d =
     (if 1 \<le> y \<and> 1 \<le> m \<and> m \<le> 12 \<and> 1 \<le> d \<and> d \<le> days_in_month y m
      then Some (days_from_civil y m d) else None)"

text \<open>Week 1 holds the fourth of January; a year has 53 weeks where it begins on a Thursday, or on a
  Wednesday and is a leap year.\<close>

definition week_date :: "int \<Rightarrow> int \<Rightarrow> int \<Rightarrow> int option" where
  "week_date y w d =
     (let jan4 = days_from_civil y 1 4; monday = jan4 - weekday jan4;
          jan1 = weekday (days_from_civil y 1 1); z = monday + (w - 1) * 7 + d - 1
      in if 1 \<le> y \<and> 1 \<le> w \<and> (w \<le> 52 \<or> w = 53 \<and> (jan1 = 3 \<or> jan1 = 2 \<and> is_leap y))
            \<and> 1 \<le> d \<and> d \<le> 7 \<and> first_day \<le> z \<and> z \<le> last_day
         then Some z else None)"

definition iso_date :: "string \<Rightarrow> int option" where
  "iso_date t =
     (case digits_at 4 t of None \<Rightarrow> None
      | Some (y, r) \<Rightarrow>
          (let sep = (take 1 r = ''-''); r1 = (if sep then tl r else r) in
           if take 1 r1 = ''W''
           then (case digits_at 2 (tl r1) of None \<Rightarrow> None
                 | Some (w, r2) \<Rightarrow>
                     if r2 = [] then week_date y w 1
                     else if (take 1 r2 = ''-'') \<noteq> sep then None
                     else (case digits_at 1 (if sep then tl r2 else r2) of
                             Some (d, []) \<Rightarrow> week_date y w d | _ \<Rightarrow> None))
           else (case digits_at 2 r1 of None \<Rightarrow> None
                 | Some (m, r2) \<Rightarrow>
                     if (take 1 r2 = ''-'') \<noteq> sep then None
                     else (case digits_at 2 (if sep then tl r2 else r2) of
                             Some (d, []) \<Rightarrow> calendar_date y m d | _ \<Rightarrow> None))))"

text \<open>\<open>HH[:MM[:SS[.f]]]\<close> with or without the colons; a fraction is cut off after six digits.\<close>

definition iso_fraction :: "string \<Rightarrow> int option" where
  "iso_fraction r =
     (if r = [] then Some 0
      else if (hd r = CHR ''.'' \<or> hd r = CHR '','') \<and> tl r \<noteq> [] \<and> list_all is_digit (tl r)
      then Some (int (digits_val (take 6 (tl r @ ''000000'')))) else None)"

definition iso_clock :: "string \<Rightarrow> (int \<times> int \<times> int \<times> int) option" where
  "iso_clock t =
     (case digits_at 2 t of None \<Rightarrow> None
      | Some (h, r) \<Rightarrow>
          if r = [] then Some (h, 0, 0, 0)
          else (let sep = (hd r = CHR '':'') in
            case digits_at 2 (if sep then tl r else r) of None \<Rightarrow> None
            | Some (m, r2) \<Rightarrow>
                if r2 = [] then Some (h, m, 0, 0)
                else if sep \<and> hd r2 \<noteq> CHR '':'' then None
                else (case digits_at 2 (if sep then tl r2 else r2) of None \<Rightarrow> None
                      | Some (s, r3) \<Rightarrow> map_option (\<lambda>us. (h, m, s, us)) (iso_fraction r3))))"

definition clock_us :: "int \<times> int \<times> int \<times> int \<Rightarrow> int" where
  "clock_us = (\<lambda>(h, m, s, us). seconds (h * 3600 + m * 60 + s) + us)"

text \<open>The offset after the clock: nothing, \<open>Z\<close>, or a signed clock of less than a day.\<close>

definition iso_offset :: "string \<Rightarrow> int option option" where
  "iso_offset r =
     (if r = [] then Some None
      else if hd r = CHR ''Z'' then (if tl r = [] then Some (Some 0) else None)
      else (case iso_clock (tl r) of None \<Rightarrow> None
            | Some c \<Rightarrow> if clock_us c < us_per_day
                        then Some (Some (if hd r = CHR ''-'' then - clock_us c else clock_us c)) else None))"

text \<open>Midnight may be written as hour 24 of the day before.\<close>

definition day_and_clock :: "int \<Rightarrow> int \<times> int \<times> int \<times> int \<Rightarrow> int option" where
  "day_and_clock z c =
     (case c of (h, m, s, us) \<Rightarrow>
        if h = 24 then (if m = 0 \<and> s = 0 \<and> us = 0 \<and> z < last_day then Some ((z + 1) * us_per_day) else None)
        else if h \<le> 23 \<and> m \<le> 59 \<and> s \<le> 59 then Some (z * us_per_day + clock_us c) else None)"

definition is_sign :: "char \<Rightarrow> bool" where
  "is_sign c \<longleftrightarrow> c = CHR ''+'' \<or> c = CHR ''-'' \<or> c = CHR ''Z''"

definition iso_time :: "int \<Rightarrow> string \<Rightarrow> datetime option" where
  "iso_time z t =
     (if t = [] then Some (Naive (z * us_per_day))
      else case Option.bind (iso_clock (takeWhile (\<lambda>c. \<not> is_sign c) t)) (day_and_clock z) of
             None \<Rightarrow> None
           | Some us \<Rightarrow>
               (case iso_offset (dropWhile (\<lambda>c. \<not> is_sign c) t) of
                  None \<Rightarrow> None
                | Some None \<Rightarrow> Some (Naive us)
                | Some (Some off) \<Rightarrow> Some (Aware (us - off))))"

text \<open>Where the date ends.\<close>

definition digit_run_end :: "string \<Rightarrow> nat" where
  "digit_run_end t = 7 + length (takeWhile is_digit (drop 7 t))"

definition separator_at :: "string \<Rightarrow> nat" where
  "separator_at t =
     (if length t = 7 then 7
      else if t ! 4 = CHR ''-''
      then (if t ! 5 = CHR ''W''
            then (if 8 < length t \<and> t ! 8 = CHR ''-''
                  then (if 10 < length t \<and> is_digit (t ! 10) then 8 else 10)
                  else 8)
            else 10)
      else if t ! 4 = CHR ''W''
      then (if digit_run_end t < 9 then digit_run_end t else if even (digit_run_end t) then 7 else 8)
      else 8)"

definition code_points :: "string \<Rightarrow> string" where
  "code_points s = map (\<lambda>k. case k of [c] \<Rightarrow> c | _ \<Rightarrow> CHR 0xFF) (chunks s)"

definition fromisoformat :: "string \<Rightarrow> datetime option" where
  "fromisoformat s =
     (let t = code_points s in
      if length t < 7 then None
      else Option.bind (iso_date (take (separator_at t) t)) (\<lambda>z. iso_time z (drop (Suc (separator_at t)) t)))"

text \<open>\<open>astimezone(UTC)\<close> of an aware value overflows outside the years 1 to 9999.\<close>

definition astimezone_utc :: "int \<Rightarrow> int result" where
  "astimezone_utc t =
     bindE (require (first_day * us_per_day \<le> t \<and> t < (last_day + 1) * us_per_day)
              (OverflowError ''date value out of range'')) (\<lambda>_. Inr t)"

text \<open>\<open>text.replace("Z", "+00:00")\<close>.\<close>

definition replace_Z :: "string \<Rightarrow> string" where
  "replace_Z s = concat (map (\<lambda>c. if c = CHR ''Z'' then ''+00:00'' else [c]) s)"

lemma astimezone_utc_ok [result_simps]:
  "astimezone_utc t = Inr u \<longleftrightarrow> first_day * us_per_day \<le> t \<and> t < (last_day + 1) * us_per_day \<and> u = t"
  by (auto simp: astimezone_utc_def bindE_eq_Inr require_eq_Inr)

end
