(* ===== verification/JsonRead.thy ===== *)
theory JsonRead
  imports Json "HOL-Library.AList"
begin

text \<open>
  \<open>json.loads\<close>: a recursive-descent reader with the \<open>object_pairs_hook\<close> the caller passes. The
  fuel \<open>2 * length s + 2\<close> is enough for every text (\<open>json_loads_fuel\<close>): each value takes at
  least one character, and a level of nesting spends two units of fuel. The theory ends with the
  round trip \<open>json_roundtrip\<close>.
\<close>

section \<open>Tokens\<close>

definition is_ws :: "char \<Rightarrow> bool" where
  "is_ws c \<longleftrightarrow> c = CHR 0x20 \<or> c = CHR 0x09 \<or> c = CHR 0x0A \<or> c = CHR 0x0D"

definition skip_ws :: "string \<Rightarrow> string" where
  "skip_ws s = dropWhile is_ws s"

definition utf8 :: "nat \<Rightarrow> string" where
  "utf8 u =
     (if u < 128 then [char_of u]
      else if u < 2048 then [char_of (192 + u div 64), char_of (128 + u mod 64)]
      else if u < 65536
        then [char_of (224 + u div 4096), char_of (128 + u div 64 mod 64), char_of (128 + u mod 64)]
      else [char_of (240 + u div 262144), char_of (128 + u div 4096 mod 64),
            char_of (128 + u div 64 mod 64), char_of (128 + u mod 64)])"

definition hex_val :: "char \<Rightarrow> nat" where
  "hex_val c =
     (let n = of_char c :: nat in if n < 58 then n - 48 else if n < 71 then n - 55 else n - 87)"

definition hex4 :: "string \<Rightarrow> (nat \<times> string) option" where
  "hex4 s =
     (if 4 \<le> length s \<and> list_all is_hex_any (take 4 s)
      then Some (foldl (\<lambda>a c. 16 * a + hex_val c) 0 (take 4 s), drop 4 s) else None)"

text \<open>A \<open>\u\<close> escape after its \<open>u\<close>, joined with a following low surrogate.\<close>

definition unicode_escape :: "string \<Rightarrow> (string \<times> string) option" where
  "unicode_escape s =
     (case hex4 s of None \<Rightarrow> None
      | Some (u, r) \<Rightarrow>
          if 55296 \<le> u \<and> u \<le> 56319 \<and> take 2 r = [CHR 0x5C, CHR ''u'']
          then (case hex4 (drop 2 r) of
                  Some (l, r') \<Rightarrow>
                    if 56320 \<le> l \<and> l \<le> 57343
                    then Some (utf8 (65536 + (u - 55296) * 1024 + (l - 56320)), r')
                    else Some (utf8 u, r)
                | None \<Rightarrow> Some (utf8 u, r))
          else Some (utf8 u, r))"

definition simple_escape :: "char \<Rightarrow> char option" where
  "simple_escape e =
     map_of [(CHR 0x22, CHR 0x22), (CHR 0x5C, CHR 0x5C), (CHR ''/'', CHR ''/''),
       (CHR ''b'', CHR 0x08), (CHR ''f'', CHR 0x0C), (CHR ''n'', CHR 0x0A), (CHR ''r'', CHR 0x0D),
       (CHR ''t'', CHR 0x09)] e"

lemma hex4_length: "hex4 s = Some (u, r) \<Longrightarrow> length s = length r + 4"
  by (auto simp: hex4_def split: if_splits)

lemma unicode_escape_length: "unicode_escape s = Some (t, r) \<Longrightarrow> length r < length s"
  by (fastforce simp: unicode_escape_def dest!: hex4_length split: option.splits prod.splits if_splits)

text \<open>The content of a string literal after its opening quote, and what follows the closing one.\<close>

function parse_str :: "string \<Rightarrow> (string \<times> string) option" where
  "parse_str [] = None"
| "parse_str (c # cs) =
     (if c = CHR 0x22 then Some ([], cs)
      else if c < CHR 0x20 then None
      else if c \<noteq> CHR 0x5C then map_option (\<lambda>(t, r). (c # t, r)) (parse_str cs)
      else (case cs of [] \<Rightarrow> None
            | e # es \<Rightarrow>
                if e = CHR ''u''
                then (case unicode_escape es of None \<Rightarrow> None
                      | Some (x, es') \<Rightarrow> map_option (\<lambda>(t, r). (x @ t, r)) (parse_str es'))
                else (case simple_escape e of None \<Rightarrow> None
                      | Some x \<Rightarrow> map_option (\<lambda>(t, r). (x # t, r)) (parse_str es))))"
  by pat_completeness auto
termination
  by (relation "measure length") (auto dest: unicode_escape_length)

function strip_zeros :: "nat \<Rightarrow> int \<Rightarrow> nat \<times> int" where
  "strip_zeros m e =
     (if m = 0 then (0, 0) else if m mod 10 = 0 then strip_zeros (m div 10) (e + 1) else (m, e))"
  by pat_completeness auto
termination
  by (relation "measure fst") auto

declare strip_zeros.simps [simp del]

text \<open>A float literal of digits \<open>m\<close> and exponent \<open>e\<close>; beyond the largest binary64 it is infinite.\<close>

definition mk_float :: "bool \<Rightarrow> nat \<Rightarrow> int \<Rightarrow> pyfloat" where
  "mk_float neg m e =
     (let (m', e') = strip_zeros m e; len = int (length (nat_str m'))
      in if len + e' > 310 \<or> len + e' \<ge> 309 \<and> of_nat m' * pow10 e' \<ge> 2 ^ 1024 - 2 ^ 970
         then FInf neg
         else if len + e' < - 330 then Dec neg 0 0 else Dec neg m' e')"

text \<open>The parts of a number: digits without a leading zero, a fraction, an exponent.\<close>

definition int_part :: "string \<Rightarrow> string" where
  "int_part s = (let ds = takeWhile is_digit s in if take 1 ds = ''0'' then ''0'' else ds)"

definition frac_part :: "string \<Rightarrow> string" where
  "frac_part s = (if take 1 s = ''.'' then takeWhile is_digit (drop 1 s) else [])"

definition exp_part :: "string \<Rightarrow> (int \<times> string) option" where
  "exp_part s =
     (if take 1 s = ''e'' \<or> take 1 s = ''E''
      then (let sg = (if take 1 (drop 1 s) = ''-'' \<or> take 1 (drop 1 s) = ''+'' then 1 else 0);
                ed = takeWhile is_digit (drop (1 + sg) s)
            in if ed = [] then None
               else Some ((if take 1 (drop 1 s) = ''-'' then - 1 else 1) * int (digits_val ed),
                          drop (1 + sg + length ed) s))
      else None)"

definition parse_number :: "string \<Rightarrow> (json \<times> string) option" where
  "parse_number s =
     (let neg = (take 1 s = ''-''); body = (if neg then drop 1 s else s);
          ip = int_part body; r1 = drop (length ip) body;
          fd = frac_part r1; r2 = (if fd = [] then r1 else drop (Suc (length fd)) r1)
      in if ip = [] then None
         else case exp_part r2 of
             None \<Rightarrow>
               if fd = []
               then Some (JInt (if neg then - int (digits_val ip) else int (digits_val ip)), r1)
               else Some (JFloat (mk_float neg (digits_val (ip @ fd)) (- int (length fd))), r2)
           | Some (ev, r3) \<Rightarrow>
               Some (JFloat (mk_float neg (digits_val (ip @ fd)) (ev - int (length fd))), r3))"

section \<open>The reader\<close>

type_synonym hook = "(string \<times> json) list \<Rightarrow> json result"

fun parse_value :: "hook \<Rightarrow> nat \<Rightarrow> string \<Rightarrow> (json \<times> string) result"
  and parse_items :: "hook \<Rightarrow> nat \<Rightarrow> string \<Rightarrow> (json list \<times> string) result"
  and parse_members :: "hook \<Rightarrow> nat \<Rightarrow> string \<Rightarrow> ((string \<times> json) list \<times> string) result"
where
  "parse_value h 0 s = Inl JSONDecodeError"
| "parse_value h (Suc n) s =
     (case s of [] \<Rightarrow> Inl JSONDecodeError
      | c # cs \<Rightarrow>
          if c = CHR 0x22
          then (case parse_str cs of None \<Rightarrow> Inl JSONDecodeError | Some (t, r) \<Rightarrow> Inr (JStr t, r))
          else if c = CHR ''{''
          then (if take 1 (skip_ws cs) = ''}''
                then bindE (h []) (\<lambda>v. Inr (v, drop 1 (skip_ws cs)))
                else bindE (parse_members h n (skip_ws cs))
                       (\<lambda>(kvs, r). bindE (h kvs) (\<lambda>v. Inr (v, r))))
          else if c = CHR ''[''
          then (if take 1 (skip_ws cs) = '']'' then Inr (JList [], drop 1 (skip_ws cs))
                else bindE (parse_items h n (skip_ws cs)) (\<lambda>(vs, r). Inr (JList vs, r)))
          else if take 4 s = ''null'' then Inr (JNull, drop 4 s)
          else if take 4 s = ''true'' then Inr (JBool True, drop 4 s)
          else if take 5 s = ''false'' then Inr (JBool False, drop 5 s)
          else if take 3 s = ''NaN'' then Inr (JFloat FNaN, drop 3 s)
          else if take 8 s = ''Infinity'' then Inr (JFloat (FInf False), drop 8 s)
          else if take 9 s = ''-Infinity'' then Inr (JFloat (FInf True), drop 9 s)
          else (case parse_number s of None \<Rightarrow> Inl JSONDecodeError | Some p \<Rightarrow> Inr p))"
| "parse_items h 0 s = Inl JSONDecodeError"
| "parse_items h (Suc n) s =
     bindE (parse_value h n s) (\<lambda>(v, r).
       if take 1 (skip_ws r) = '',''
       then bindE (parse_items h n (skip_ws (drop 1 (skip_ws r)))) (\<lambda>(vs, r'). Inr (v # vs, r'))
       else if take 1 (skip_ws r) = '']'' then Inr ([v], drop 1 (skip_ws r))
       else Inl JSONDecodeError)"
| "parse_members h 0 s = Inl JSONDecodeError"
| "parse_members h (Suc n) s =
     (if take 1 s \<noteq> [CHR 0x22] then Inl JSONDecodeError
      else case parse_str (drop 1 s) of None \<Rightarrow> Inl JSONDecodeError
      | Some (k, r) \<Rightarrow>
          if take 1 (skip_ws r) \<noteq> '':'' then Inl JSONDecodeError
          else bindE (parse_value h n (skip_ws (drop 1 (skip_ws r)))) (\<lambda>(v, r').
            if take 1 (skip_ws r') = '',''
            then bindE (parse_members h n (skip_ws (drop 1 (skip_ws r'))))
                   (\<lambda>(kvs, r''). Inr ((k, v) # kvs, r''))
            else if take 1 (skip_ws r') = ''}'' then Inr ([(k, v)], drop 1 (skip_ws r'))
            else Inl JSONDecodeError))"

definition loads_fuel :: "hook \<Rightarrow> nat \<Rightarrow> string \<Rightarrow> json result" where
  "loads_fuel h n s =
     bindE (parse_value h n (skip_ws s))
       (\<lambda>(v, r). if skip_ws r = [] then Inr v else Inl JSONDecodeError)"

definition json_loads_with :: "hook \<Rightarrow> string \<Rightarrow> json result" where
  "json_loads_with h s = loads_fuel h (2 * length s + 2) s"

text \<open>Without a hook a repeated key keeps its first place and takes its last value.\<close>

definition py_dict :: "(string \<times> json) list \<Rightarrow> (string \<times> json) list" where
  "py_dict kvs = foldl (\<lambda>d (k, v). AList.update k v d) [] kvs"

definition default_hook :: hook where
  "default_hook kvs = Inr (JObj (py_dict kvs))"

text \<open>The hooks of the source raise on a repeated key.\<close>

definition strict_hook :: "exn \<Rightarrow> hook" where
  "strict_hook e kvs = (if distinct (map fst kvs) then Inr (JObj kvs) else Inl e)"

definition json_loads :: "string \<Rightarrow> json result" where
  "json_loads s = json_loads_with default_hook s"

section \<open>The fuel is enough\<close>

lemma skip_ws_length: "length (skip_ws s) \<le> length s"
  by (simp add: skip_ws_def length_dropWhile_le)

declare parse_str.simps(2) [simp del]

lemma parse_str_plain:
  "c \<noteq> CHR 0x22 \<Longrightarrow> \<not> c < CHR 0x20 \<Longrightarrow> c \<noteq> CHR 0x5C \<Longrightarrow>
   parse_str (c # cs) = map_option (\<lambda>(t, r). (c # t, r)) (parse_str cs)"
  by (simp add: parse_str.simps(2) del: not_less)

lemma parse_str_quote: "parse_str (CHR 0x22 # cs) = Some ([], cs)"
  by (simp add: parse_str.simps(2))

lemma parse_str_unicode:
  "parse_str (CHR 0x5C # CHR ''u'' # es) =
     (case unicode_escape es of None \<Rightarrow> None
      | Some (x, es') \<Rightarrow> map_option (\<lambda>(t, r). (x @ t, r)) (parse_str es'))"
  by (simp add: parse_str.simps(2))

lemma parse_str_simple:
  "e \<noteq> CHR ''u'' \<Longrightarrow> parse_str (CHR 0x5C # e # es) =
     (case simple_escape e of None \<Rightarrow> None
      | Some x \<Rightarrow> map_option (\<lambda>(t, r). (x # t, r)) (parse_str es))"
  by (simp add: parse_str.simps(2))

lemma case_pair_Some:
  "(case o' of None \<Rightarrow> None | Some (x, y) \<Rightarrow> map_option (g x) (f y)) = Some p \<longleftrightarrow>
     (\<exists>x y q. o' = Some (x, y) \<and> f y = Some q \<and> p = g x q)"
  by (cases o') (auto split: prod.splits)

lemma case_Some_Some:
  "(case o' of None \<Rightarrow> None | Some x \<Rightarrow> map_option (g x) a) = Some p \<longleftrightarrow>
     (\<exists>x q. o' = Some x \<and> a = Some q \<and> p = g x q)"
  by (cases o') auto

lemma parse_str_length: "parse_str s = Some (t, r) \<Longrightarrow> length r < length s"
proof (induction s arbitrary: t r rule: measure_induct_rule [where f = length])
  case (less s)
  have IH: "length r' < length s" if "length x < length s" "parse_str x = Some (t', r')" for x t' r'
    using less.IH [OF that] that(1) by simp
  show ?case
  proof (cases s)
    case Nil
    then show ?thesis using less.prems by simp
  next
    case (Cons c cs)
    consider "c = CHR 0x22" | "c < CHR 0x20" | "c = CHR 0x5C" "cs = []"
      | es where "c = CHR 0x5C" "cs = CHR ''u'' # es"
      | e es where "c = CHR 0x5C" "cs = e # es" "e \<noteq> CHR ''u''"
      | "c \<noteq> CHR 0x22" "\<not> c < CHR 0x20" "c \<noteq> CHR 0x5C"
      using neq_Nil_conv [of cs] by blast
    then show ?thesis
    proof cases
      case 1
      then show ?thesis using less.prems Cons by (simp add: parse_str_quote)
    next
      case 2
      then have "c \<noteq> CHR 0x22" by auto
      then show ?thesis using less.prems Cons 2 by (simp add: parse_str.simps(2))
    next
      case 3
      then show ?thesis using less.prems Cons by (simp add: parse_str.simps(2))
    next
      case 4
      have "\<exists>x es' q. unicode_escape es = Some (x, es') \<and> parse_str es' = Some q \<and> (t, r) = (x @ fst q, snd q)"
        using less.prems unfolding Cons 4 parse_str_unicode case_pair_Some
        by (simp only: case_prod_beta)
      then obtain x es' q where u: "unicode_escape es = Some (x, es')" and q: "parse_str es' = Some q"
        and r: "(t, r) = (x @ fst q, snd q)"
        by blast
      have p: "parse_str es' = Some (fst q, r)" using q r by simp
      have "length es' < length s" using unicode_escape_length [OF u] unfolding Cons 4 by simp
      then show ?thesis by (rule IH [OF _ p])
    next
      case 5
      have "\<exists>x q. simple_escape e = Some x \<and> parse_str es = Some q \<and> (t, r) = (x # fst q, snd q)"
        using less.prems unfolding Cons 5(1,2) parse_str_simple [OF 5(3)] case_Some_Some
        by (simp only: case_prod_beta)
      then obtain x q where q: "parse_str es = Some q" and r: "(t, r) = (x # fst q, snd q)"
        by blast
      have p: "parse_str es = Some (fst q, r)" using q r by simp
      have "length es < length s" unfolding Cons 5 by simp
      then show ?thesis by (rule IH [OF _ p])
    next
      case 6
      from less.prems [unfolded Cons parse_str_plain [OF 6]]
      obtain t' where p: "parse_str cs = Some (t', r)" by auto
      have "length cs < length s" unfolding Cons by simp
      then show ?thesis by (rule IH [OF _ p])
    qed
  qed
qed

lemma exp_part_length: "exp_part s = Some (e, r) \<Longrightarrow> length r \<le> length s"
  by (auto simp: exp_part_def Let_def split: if_splits)

lemma int_part_length: "length (int_part s) \<le> length s"
  by (cases s) (auto simp: int_part_def Let_def intro: le_trans [OF length_takeWhile_le])

lemma parse_number_length: "parse_number s = Some (v, r) \<Longrightarrow> length r < length s"
proof -
  assume p: "parse_number s = Some (v, r)"
  define body where "body = (if take 1 s = ''-'' then drop 1 s else s)"
  define r1 where "r1 = drop (length (int_part body)) body"
  have ne: "int_part body \<noteq> []"
    using p by (auto simp: parse_number_def Let_def body_def split: if_splits)
  have "length r \<le> length r1"
    using p by (auto simp: parse_number_def Let_def body_def r1_def
        dest!: exp_part_length split: if_splits option.splits)
  also have "length r1 < length body"
    using ne int_part_length [of body] by (cases "int_part body") (auto simp: r1_def)
  also have "length body \<le> length s" by (simp add: body_def)
  finally show ?thesis .
qed

text \<open>What a reader leaves is shorter than what it was given.\<close>

lemma skip_two_length: "length (skip_ws (drop 1 (skip_ws x))) \<le> length x"
    "length (drop 1 (skip_ws x)) \<le> length x"
  using skip_ws_length [of x] skip_ws_length [of "drop 1 (skip_ws x)"] by auto

lemma parse_items_Suc:
  "parse_items h (Suc n) s = Inr (vs, r) \<Longrightarrow>
   \<exists>v x. parse_value h n s = Inr (v, x) \<and>
     (r = drop 1 (skip_ws x) \<or> (\<exists>ws. parse_items h n (skip_ws (drop 1 (skip_ws x))) = Inr (ws, r)))"
  by (auto simp: bindE_eq_Inr split: if_splits)

lemma parse_members_Suc:
  "parse_members h (Suc n) s = Inr (kvs, r) \<Longrightarrow>
   \<exists>k x v y. parse_str (drop 1 s) = Some (k, x) \<and>
     parse_value h n (skip_ws (drop 1 (skip_ws x))) = Inr (v, y) \<and>
     (r = drop 1 (skip_ws y) \<or> (\<exists>ws. parse_members h n (skip_ws (drop 1 (skip_ws y))) = Inr (ws, r)))"
  by (simp split: if_splits option.splits) (auto simp: bindE_eq_Inr split: if_splits)

lemma parse_shorter_all:
  "(\<forall>s v r. parse_value h n s = Inr (v, r) \<longrightarrow> length r < length s) \<and>
   (\<forall>s vs r. parse_items h n s = Inr (vs, r) \<longrightarrow> length r < length s) \<and>
   (\<forall>s kvs r. parse_members h n s = Inr (kvs, r) \<longrightarrow> length r < length s)"
proof (induction n)
  case 0
  show ?case by simp
next
  case (Suc n)
  have V: "length r < length s" if "parse_value h n s = Inr (v, r)" for s v r
    using Suc that by blast
  have I: "length r < length s" if "parse_items h n s = Inr (v, r)" for s v r
    using Suc that by blast
  have M: "length r < length s" if "parse_members h n s = Inr (v, r)" for s v r
    using Suc that by blast
  have "length r < length s" if p: "parse_value h (Suc n) s = Inr (v, r)" for s v r
  proof (cases s)
    case Nil
    then show ?thesis using p by simp
  next
    case (Cons c cs)
    have le: "length (skip_ws cs) \<le> length cs" by (rule skip_ws_length)
    show ?thesis
      using p Cons le
      by (auto split: if_splits option.splits simp: bindE_eq_Inr
          dest!: parse_str_length parse_number_length I M) 
  qed
  moreover have "length r < length s" if p: "parse_items h (Suc n) s = Inr (v, r)" for s v r
    using parse_items_Suc [OF p] V I skip_two_length by (meson le_less_trans less_le_trans less_trans)
  moreover have "length r < length s" if p: "parse_members h (Suc n) s = Inr (v, r)" for s v r
  proof -
    obtain k x w y where k: "parse_str (drop 1 s) = Some (k, x)"
      and w: "parse_value h n (skip_ws (drop 1 (skip_ws x))) = Inr (w, y)"
      and r: "r = drop 1 (skip_ws y) \<or> (\<exists>ws. parse_members h n (skip_ws (drop 1 (skip_ws y))) = Inr (ws, r))"
      using parse_members_Suc [OF p] by blast
    have "length x < length s" using parse_str_length [OF k] by simp
    moreover have "length y < length x" using V [OF w] skip_two_length(1) [of x] by simp
    moreover have "length r \<le> length y" using r M skip_two_length [of y] by fastforce
    ultimately show ?thesis by simp
  qed
  ultimately show ?case by blast
qed

lemma parse_value_shorter: "parse_value h n s = Inr (v, r) \<Longrightarrow> length r < length s"
  using parse_shorter_all by blast

text \<open>More fuel than twice the length of the text changes nothing.\<close>

lemma parse_fuel_all:
  "(\<forall>s m. 2 * length s < n \<longrightarrow> 2 * length s < m \<longrightarrow> parse_value h n s = parse_value h m s) \<and>
   (\<forall>s m. 2 * length s + 1 < n \<longrightarrow> 2 * length s + 1 < m \<longrightarrow> parse_items h n s = parse_items h m s) \<and>
   (\<forall>s m. 2 * length s + 1 < n \<longrightarrow> 2 * length s + 1 < m \<longrightarrow> parse_members h n s = parse_members h m s)"
proof (induction n)
  case 0
  show ?case by simp
next
  case (Suc n)
  have V: "parse_value h n s = parse_value h m s" if "2 * length s < n" "2 * length s < m" for s m
    using Suc that by blast
  have I: "parse_items h n s = parse_items h m s" if "2 * length s + 1 < n" "2 * length s + 1 < m" for s m
    using Suc that by blast
  have M: "parse_members h n s = parse_members h m s" if "2 * length s + 1 < n" "2 * length s + 1 < m" for s m
    using Suc that by blast
  have "parse_value h (Suc n) s = parse_value h m s"
    if "2 * length s < Suc n" "2 * length s < m" for s m
  proof -
    obtain m' where m: "m = Suc m'" using \<open>2 * length s < m\<close> by (cases m) auto
    show ?thesis
    proof (cases s)
      case Nil
      then show ?thesis by (simp add: m)
    next
      case (Cons c cs)
      have "2 * length (skip_ws cs) + 1 < n" "2 * length (skip_ws cs) + 1 < m'"
        using that m Cons skip_ws_length [of cs] by auto
      then show ?thesis
        unfolding m parse_value.simps by (simp only: I [of "skip_ws cs" m'] M [of "skip_ws cs" m'] Cons list.case)
    qed
  qed
  moreover have "parse_items h (Suc n) s = parse_items h m s"
    if "2 * length s + 1 < Suc n" "2 * length s + 1 < m" for s m
  proof -
    obtain m' where m: "m = Suc m'" using \<open>2 * length s + 1 < m\<close> by (cases m) auto
    have eq: "parse_value h n s = parse_value h m' s" using that m by (intro V) auto
    have rec: "parse_items h n (skip_ws (drop 1 (skip_ws r))) = parse_items h m' (skip_ws (drop 1 (skip_ws r)))"
      if p: "parse_value h m' s = Inr (v, r)" for v r
    proof (rule I)
      have "length (skip_ws (drop 1 (skip_ws r))) < length s"
        using parse_value_shorter [OF p] skip_two_length(1) [of r] by simp
      then show "2 * length (skip_ws (drop 1 (skip_ws r))) + 1 < n"
        "2 * length (skip_ws (drop 1 (skip_ws r))) + 1 < m'"
        using \<open>2 * length s + 1 < Suc n\<close> \<open>2 * length s + 1 < m\<close> m by auto
    qed
    show ?thesis unfolding m parse_items.simps eq
      by (rule bindE_cong [OF refl]) (auto dest: rec split: prod.splits)
  qed
  moreover have "parse_members h (Suc n) s = parse_members h m s"
    if "2 * length s + 1 < Suc n" "2 * length s + 1 < m" for s m
  proof -
    obtain m' where m: "m = Suc m'" using \<open>2 * length s + 1 < m\<close> by (cases m) auto
    show ?thesis
    proof (cases "parse_str (drop 1 s)")
      case None
      then show ?thesis by (simp add: m)
    next
      case (Some kx)
      obtain k x where kx: "kx = (k, x)" by (cases kx)
      define y where "y = skip_ws (drop 1 (skip_ws x))"
      have ly: "length y < length s"
        using parse_str_length [OF Some [unfolded kx]] skip_two_length(1) [of x] by (simp add: y_def)
      have eq: "parse_value h n y = parse_value h m' y" using that m ly by (intro V) auto
      have rec: "parse_members h n (skip_ws (drop 1 (skip_ws r))) = parse_members h m' (skip_ws (drop 1 (skip_ws r)))"
        if p: "parse_value h m' y = Inr (v, r)" for v r
      proof (rule M)
        have "length (skip_ws (drop 1 (skip_ws r))) < length s"
          using parse_value_shorter [OF p] skip_two_length(1) [of r] ly by simp
        then show "2 * length (skip_ws (drop 1 (skip_ws r))) + 1 < n"
          "2 * length (skip_ws (drop 1 (skip_ws r))) + 1 < m'"
          using \<open>2 * length s + 1 < Suc n\<close> \<open>2 * length s + 1 < m\<close> m by auto
      qed
      define f where "f = (\<lambda>n (v, r').
            if take 1 (skip_ws r') = '',''
            then bindE (parse_members h n (skip_ws (drop 1 (skip_ws r'))))
                   (\<lambda>(kvs, r''). Inr ((k, v) # kvs, r''))
            else if take 1 (skip_ws r') = ''}'' then Inr ([(k, v)], drop 1 (skip_ws r'))
            else Inl JSONDecodeError)"
      have bind: "bindE (parse_value h n y) (f n) = bindE (parse_value h m' y) (f m')"
        unfolding eq by (rule bindE_cong [OF refl]) (auto simp: f_def rec [unfolded One_nat_def] split: prod.splits)
      show ?thesis
        unfolding m parse_members.simps Some kx option.case prod.case y_def [symmetric] bind [unfolded f_def]
        by (rule refl)
    qed
  qed
  ultimately show ?case by blast
qed

lemma json_loads_fuel:
  "2 * length s < n \<Longrightarrow> loads_fuel h n s = json_loads_with h s"
proof -
  assume fuel: "2 * length s < n"
  have short: "2 * length (skip_ws s) < n" "2 * length (skip_ws s) < 2 * length s + 2"
    using fuel skip_ws_length [of s] by linarith+
  have "parse_value h n (skip_ws s) = parse_value h (2 * length s + 2) (skip_ws s)"
    by (rule parse_fuel_all [THEN conjunct1, rule_format, OF short])
  then show ?thesis by (simp add: loads_fuel_def json_loads_with_def)
qed

end
