(* ===== verification/JsonRoundtrip.thy ===== *)
theory JsonRoundtrip
  imports JsonRead "HOL-Library.AList"
begin

section \<open>Decimal numerals\<close>

lemma digit_char_digit: "d < 10 \<Longrightarrow> is_digit (digit_char d)"
proof -
  assume "d < 10"
  then have "d \<in> {0, 1, 2, 3, 4, 5, 6, 7, 8, 9}" by auto
  then show ?thesis by (elim insertE) (simp_all add: digit_char_def is_digit_def char_of_def bit_0)
qed

lemma digit_val_char [simp]: "d < 10 \<Longrightarrow> digit_val (digit_char d) = d"
  by (simp add: digit_val_def digit_char_def of_char_of)

lemma nat_str_digits: "list_all is_digit (nat_str n)"
proof (induction n rule: nat_str.induct)
  case (1 n)
  then show ?case
    by (cases "n < 10") (simp_all add: nat_str_small nat_str_big digit_char_digit)
qed

lemma nat_str_not_Nil [simp]: "nat_str n \<noteq> []"
  by (cases "n < 10") (simp_all add: nat_str_small nat_str_big)

lemma digits_val_snoc: "digits_val (xs @ [c]) = 10 * digits_val xs + digit_val c"
  by (simp add: digits_val_def)

lemma digits_val_nat_str [simp]: "digits_val (nat_str n) = n"
proof (induction n rule: nat_str.induct)
  case (1 n)
  show ?case
  proof (cases "n < 10")
    case True
    then show ?thesis by (simp add: nat_str_small digits_val_def)
  next
    case False
    then have "digits_val (nat_str (n div 10)) = n div 10" using 1 by simp
    then show ?thesis by (simp only: nat_str_big [OF False] digits_val_snoc) simp
  qed
qed

lemma nat_str_hd: "0 < n \<Longrightarrow> hd (nat_str n) \<noteq> CHR ''0''"
proof (induction n rule: nat_str.induct)
  case (1 n)
  show ?case
  proof (cases "n < 10")
    case True
    then have "n \<in> {1, 2, 3, 4, 5, 6, 7, 8, 9}" using \<open>0 < n\<close> by auto
    then show ?thesis
      by (elim insertE) (simp_all add: nat_str_small digit_char_def char_of_def bit_0)
  next
    case False
    then show ?thesis using 1 by (simp add: nat_str_big)
  qed
qed

lemma int_part_nat_str:
  assumes "r = [] \<or> \<not> is_digit (hd r)"
  shows "int_part (nat_str n @ r) = nat_str n"
proof -
  have tw: "takeWhile is_digit (nat_str n @ r) = nat_str n"
    using assms nat_str_digits [of n] by (cases r) (auto simp: list_all_iff takeWhile_append)
  show ?thesis
  proof (cases "n = 0")
    case True
    then have "nat_str n = ''0''" by (simp add: nat_str_small digit_char_def char_of_def bit_0)
    then show ?thesis using tw by (simp add: int_part_def)
  next
    case False
    then have "take 1 (nat_str n) \<noteq> ''0''"
      using nat_str_hd [of n] by (cases "nat_str n") auto
    then show ?thesis using tw by (simp add: int_part_def)
  qed
qed

text \<open>What may follow a value in canonical output.\<close>

definition delim :: "string \<Rightarrow> bool" where
  "delim r \<longleftrightarrow> r = [] \<or> hd r = CHR '','' \<or> hd r = CHR '']'' \<or> hd r = CHR ''}''"

lemma delim_simps [simp]: "delim []" "delim (CHR '','' # r)" "delim (CHR '']'' # r)" "delim (CHR ''}'' # r)"
  by (simp_all add: delim_def)

lemma delim_not_digit: "delim r \<Longrightarrow> r = [] \<or> \<not> is_digit (hd r)"
  by (auto simp: delim_def is_digit_def)

lemma delim_frac: "delim r \<Longrightarrow> frac_part r = []"
  by (cases r) (auto simp: delim_def frac_part_def)

lemma delim_exp: "delim r \<Longrightarrow> exp_part r = None"
  by (cases r) (auto simp: delim_def exp_part_def)

lemma nat_str_not_minus: "take 1 (nat_str n @ r) \<noteq> ''-''"
  using nat_str_digits [of n] by (cases "nat_str n") (auto simp: is_digit_def)

lemma parse_number_int:
  assumes "delim r"
  shows "parse_number (int_str i @ r) = Some (JInt i, r)"
proof (cases "i < 0")
  case True
  then show ?thesis
    using int_part_nat_str [OF delim_not_digit [OF assms], of "nat (- i)"]
    by (simp add: parse_number_def int_str_def Let_def delim_frac [OF assms] delim_exp [OF assms])
next
  case False
  then show ?thesis
    using int_part_nat_str [OF delim_not_digit [OF assms], of "nat i"] nat_str_not_minus [of "nat i" r]
    by (simp add: parse_number_def int_str_def Let_def delim_frac [OF assms] delim_exp [OF assms])
qed

section \<open>Strings\<close>

lemma hex_digit_cases: "d < 16 \<Longrightarrow> is_hex_any (hex_digit d) \<and> hex_val (hex_digit d) = d"
proof -
  assume "d < 16"
  then have "d \<in> {0, 1, 2, 3, 4, 5, 6, 7, 8, 9, 10, 11, 12, 13, 14, 15}" by (simp only: insert_iff empty_iff) presburger
  then show ?thesis
    by (elim insertE)
      (simp_all add: hex_digit_def hex_val_def is_hex_any_def is_hex_def is_digit_def char_of_def bit_0)
qed

lemma char_less_of_char: "c < d \<longleftrightarrow> (of_char c :: nat) < of_char d"
  by (simp add: less_char_def)

lemma unicode_escape_control:
  assumes "c < CHR 0x20"
  shows "unicode_escape
      ([CHR ''0'', CHR ''0'', hex_digit (of_char c div 16), hex_digit (of_char c mod 16)] @ r) = Some ([c], r)"
proof -
  have c: "(of_char c :: nat) < 32" using assms by (simp add: char_less_of_char)
  have "(of_char c :: nat) div 16 < 16" "(of_char c :: nat) mod 16 < 16" using c by auto
  note h = hex_digit_cases [OF this(1)] hex_digit_cases [OF this(2)]
  have "16 * ((of_char c :: nat) div 16) + of_char c mod 16 = of_char c" by simp
  then have "hex4 ([CHR ''0'', CHR ''0'', hex_digit (of_char c div 16), hex_digit (of_char c mod 16)] @ r)
      = Some (of_char c, r)"
    using h by (simp add: hex4_def) (simp add: hex_val_def is_hex_any_def is_hex_def is_digit_def)
  then show ?thesis using c by (simp add: unicode_escape_def utf8_def)
qed

lemma parse_escaped: "parse_str (escape_char c @ s) = map_option (\<lambda>(t, r). (c # t, r)) (parse_str s)"
proof -
  consider "c \<in> {CHR 0x22, CHR 0x5C, CHR 0x0A, CHR 0x0D, CHR 0x09, CHR 0x0C, CHR 0x08}"
    | "c \<notin> {CHR 0x22, CHR 0x5C, CHR 0x0A, CHR 0x0D, CHR 0x09, CHR 0x0C, CHR 0x08}" "c < CHR 0x20"
    | "c \<noteq> CHR 0x22" "\<not> c < CHR 0x20" "c \<noteq> CHR 0x5C"
    by blast
  then show ?thesis
  proof cases
    case 1
    then show ?thesis
      by (elim insertE) (simp_all add: escape_char_def parse_str_simple simple_escape_def)
  next
    case 2
    then have "escape_char c = CHR 0x5C # CHR ''u'' #
        [CHR ''0'', CHR ''0'', hex_digit (of_char c div 16), hex_digit (of_char c mod 16)]"
      by (simp add: escape_char_def)
    then show ?thesis
      using unicode_escape_control [OF 2(2), of s] by (simp add: parse_str_unicode)
  next
    case 3
    then have "c \<noteq> CHR 0x0A" "c \<noteq> CHR 0x0D" "c \<noteq> CHR 0x09" "c \<noteq> CHR 0x0C" "c \<noteq> CHR 0x08" by auto
    then have "escape_char c = [c]" using 3 by (simp add: escape_char_def)
    then show ?thesis using parse_str_plain [OF 3] by simp
  qed
qed

lemma parse_quoted: "parse_str (concat (map escape_char s) @ CHR 0x22 # r) = Some (s, r)"
  by (induction s) (simp_all add: parse_str_quote parse_escaped)

section \<open>The round trip\<close>

text \<open>Values with no repeated key and no float, and the value with its keys in order.\<close>

fun plain_json :: "json \<Rightarrow> bool" where
  "plain_json (JFloat f) = False"
| "plain_json (JList xs) = list_all plain_json xs"
| "plain_json (JObj kvs) = (distinct (map fst kvs) \<and> list_all (\<lambda>(k, v). plain_json v) kvs)"
| "plain_json _ = True"

function canon :: "json \<Rightarrow> json" where
  "canon (JList xs) = JList (map canon xs)"
| "canon (JObj kvs) = JObj (map (\<lambda>(k, v). (k, canon v)) (sort_key fst kvs))"
| "canon JNull = JNull"
| "canon (JBool b) = JBool b"
| "canon (JInt i) = JInt i"
| "canon (JFloat f) = JFloat f"
| "canon (JStr s) = JStr s"
  by pat_completeness auto
termination
  by (relation "measure size") (auto simp: size_json_list size_json_obj)

text \<open>
  The text of a value with the strings written by \<open>q\<close>: \<open>json_dumps\<close> quotes with \<open>quote_str\<close>, and
  \<open>ensure_ascii\<close> is another \<open>q\<close>. What the reader needs of \<open>q\<close> is the locale \<open>quoting\<close>: a quoted string
  starts with a quote and is read back, for the strings \<open>ok\<close> accepts.
\<close>

function json_text :: "(string \<Rightarrow> string) \<Rightarrow> json \<Rightarrow> string" where
  "json_text q JNull = ''null''"
| "json_text q (JBool b) = (if b then ''true'' else ''false'')"
| "json_text q (JInt i) = int_str i"
| "json_text q (JFloat f) = float_repr f"
| "json_text q (JStr s) = q s"
| "json_text q (JList xs) = ''['' @ join '','' (map (json_text q) xs) @ '']''"
| "json_text q (JObj kvs) =
     ''{'' @ join '','' (map (\<lambda>(k, v). q k @ '':'' @ json_text q v) (sort_key fst kvs)) @ ''}''"
  by pat_completeness auto
termination
  by (relation "measure (\<lambda>(q, v). size v)") (auto simp: size_json_list size_json_obj)

fun texts :: "(string \<Rightarrow> bool) \<Rightarrow> json \<Rightarrow> bool" where
  "texts ok (JStr s) = ok s"
| "texts ok (JList xs) = list_all (texts ok) xs"
| "texts ok (JObj kvs) = list_all (\<lambda>(k, v). ok k \<and> texts ok v) kvs"
| "texts ok _ = True"

lemma json_text_dumps: "json_text quote_str v = json_dumps v"
proof (induction v rule: json_dumps.induct)
  case (6 xs)
  then show ?case by (simp cong: map_cong)
next
  case (7 kvs)
  then have "map (\<lambda>(k, v). quote_str k @ '':'' @ json_text quote_str v) (sort_key fst kvs)
      = map (\<lambda>(k, v). quote_str k @ '':'' @ json_dumps v) (sort_key fst kvs)" by auto
  then show ?case by (simp only: json_text.simps json_dumps.simps)
qed simp_all

lemma texts_True: "(\<And>s. ok s) \<Longrightarrow> texts ok v"
  by (induction v rule: canon.induct) (auto simp: list_all_iff)

text \<open>The reader gives \<open>v\<close> back from its text, with enough fuel.\<close>

definition reads :: "(string \<Rightarrow> string) \<Rightarrow> hook \<Rightarrow> json \<Rightarrow> bool" where
  "reads q h v \<longleftrightarrow> (\<forall>r. delim r \<longrightarrow>
     (\<exists>N. \<forall>n\<ge>N. parse_value h n (json_text q v @ r) = Inr (canon v, r)))"

definition member_text :: "(string \<Rightarrow> string) \<Rightarrow> string \<times> json \<Rightarrow> string" where
  "member_text q kv = q (fst kv) @ '':'' @ json_text q (snd kv)"

text \<open>A hook that keeps objects with distinct keys, as both hooks of the source do.\<close>

definition keeps :: "hook \<Rightarrow> bool" where
  "keeps h \<longleftrightarrow> (\<forall>kvs. distinct (map fst kvs) \<longrightarrow> h kvs = Inr (JObj kvs))"

lemma readsI:
  assumes "\<And>r n. delim r \<Longrightarrow> parse_value h (Suc n) (json_text q v @ r) = Inr (canon v, r)"
  shows "reads q h v"
  unfolding reads_def
proof (intro allI impI exI)
  fix r n assume "delim r" "(1::nat) \<le> n"
  then show "parse_value h n (json_text q v @ r) = Inr (canon v, r)"
    using assms by (cases n) auto
qed

lemma int_str_head: "\<exists>c cs. int_str i @ r = c # cs \<and> (is_digit c \<or> c = CHR ''-'' \<and> is_digit (hd cs) \<and> cs \<noteq> [])"
  using nat_str_digits [of "nat (- i)"] nat_str_digits [of "nat i"]
  by (cases "nat_str (nat (- i))"; cases "nat_str (nat i)") (auto simp: int_str_def)

lemma reads_JInt: "reads q h (JInt i)"
proof (rule readsI)
  fix r n assume r: "delim r"
  obtain c cs where s: "int_str i @ r = c # cs"
    and c: "is_digit c \<or> c = CHR ''-'' \<and> is_digit (hd cs) \<and> cs \<noteq> []"
    using int_str_head by blast
  have "parse_number (c # cs) = Some (JInt i, r)" using parse_number_int [OF r, of i] s by simp
  moreover have "c \<noteq> CHR 0x22" "c \<noteq> CHR ''{''" "c \<noteq> CHR ''[''" "c \<noteq> CHR ''n''" "c \<noteq> CHR ''t''"
    "c \<noteq> CHR ''f''" "c \<noteq> CHR ''N''" "c \<noteq> CHR ''I''"
    using c by (auto simp: is_digit_def)
  moreover have "take 9 (c # cs) \<noteq> ''-Infinity''"
    using c by (cases cs) (auto simp: is_digit_def)
  ultimately show "parse_value h (Suc n) (json_text q (JInt i) @ r) = Inr (canon (JInt i), r)"
    by (simp add: s)
qed

lemma skip_ws_token [simp]: "\<not> is_ws c \<Longrightarrow> skip_ws (c # r) = c # r"
  by (simp add: skip_ws_def)

lemma is_ws_tokens [simp]: "\<not> is_ws (CHR '','')" "\<not> is_ws (CHR '']'')" "\<not> is_ws (CHR ''}'')"
    "\<not> is_ws (CHR '':'')" "\<not> is_ws (CHR 0x22)"
  by (simp_all add: is_ws_def)

lemma join_Cons: "join sep (x # xs) = x @ (if xs = [] then [] else sep @ join sep xs)"
  by (cases xs) simp_all

lemma join_head: "xs \<noteq> [] \<Longrightarrow> join sep xs = hd xs @ (if tl xs = [] then [] else sep @ join sep (tl xs))"
  by (cases xs) (simp_all add: join_Cons)

locale quoting =
  fixes q :: "string \<Rightarrow> string" and ok :: "string \<Rightarrow> bool"
  assumes q_quote: "q s = CHR 0x22 # tl (q s)"
    and q_parse: "ok s \<Longrightarrow> parse_str (tl (q s) @ r) = Some (s, r)"
begin

lemma q_start: "q s @ r = CHR 0x22 # tl (q s) @ r"
  by (subst q_quote) simp

lemma reads_JStr: "ok s \<Longrightarrow> reads q h (JStr s)"
  by (rule readsI) (simp add: q_start q_parse)

lemma dumps_head: "\<exists>c cs. json_text q v @ r = c # cs \<and> \<not> is_ws c \<and> c \<noteq> CHR '']''" if "plain_json v"
proof (cases v)
  case (JInt i)
  then show ?thesis using int_str_head [of i r] by (auto simp: is_ws_def is_digit_def)
qed (use that in \<open>auto simp: is_ws_def q_start\<close>)

lemma skip_ws_dumps [simp]: "plain_json v \<Longrightarrow> skip_ws (json_text q v @ r) = json_text q v @ r"
  using dumps_head [of v r] by (auto simp: skip_ws_def)

lemma skip_ws_quote [simp]: "skip_ws (q k @ r) = q k @ r"
  by (simp add: q_start)

lemma reads_items:
  assumes "xs \<noteq> []" and "\<And>x. x \<in> set xs \<Longrightarrow> reads q h x \<and> plain_json x"
  shows "\<exists>N. \<forall>n\<ge>N. parse_items h n (join '','' (map (json_text q) xs) @ CHR '']'' # r) = Inr (map canon xs, r)"
  using assms
proof (induction xs)
  case Nil
  then show ?case by simp
next
  case (Cons x xs)
  define rest where "rest = (if xs = [] then [] else '','' @ join '','' (map (json_text q) xs)) @ CHR '']'' # r"
  have d: "delim rest" by (simp add: rest_def)
  obtain N where N: "\<And>n. N \<le> n \<Longrightarrow> parse_value h n (json_text q x @ rest) = Inr (canon x, rest)"
    using Cons.prems(2) [of x] d unfolding reads_def by auto
  have render: "join '','' (map (json_text q) (x # xs)) @ CHR '']'' # r = json_text q x @ rest"
    by (simp add: join_Cons rest_def del: join.simps)
  show ?case
  proof (cases "xs = []")
    case True
    have "parse_items h (Suc n) (json_text q x @ rest) = Inr (map canon (x # xs), r)" if "N \<le> n" for n
      using N [OF that] True by (simp add: rest_def)
    then show ?thesis unfolding render by (metis Suc_le_D Suc_le_mono)
  next
    case False
    then obtain M where M: "\<And>n. M \<le> n \<Longrightarrow>
        parse_items h n (join '','' (map (json_text q) xs) @ CHR '']'' # r) = Inr (map canon xs, r)"
      using Cons by auto
    have skip: "skip_ws (join '','' (map (json_text q) xs) @ CHR '']'' # r) = join '','' (map (json_text q) xs) @ CHR '']'' # r"
      using False Cons.prems(2) by (cases xs) (auto simp: join_Cons simp del: join.simps)
    have "parse_items h (Suc n) (json_text q x @ rest) = Inr (map canon (x # xs), r)" if "max N M \<le> n" for n
      using N [of n] M [of n] that False by (simp add: rest_def skip)
    then show ?thesis unfolding render by (metis Suc_le_D Suc_le_mono)
  qed
qed

lemma parse_member_text:
  assumes "plain_json v" "ok k" "parse_value h n (json_text q v @ rest) = Inr (w, rest)"
  shows "parse_members h (Suc n) (member_text q (k, v) @ rest) =
    (if take 1 (skip_ws rest) = '',''
     then bindE (parse_members h n (skip_ws (drop 1 (skip_ws rest)))) (\<lambda>(kvs, r''). Inr ((k, w) # kvs, r''))
     else if take 1 (skip_ws rest) = ''}'' then Inr ([(k, w)], drop 1 (skip_ws rest))
     else Inl JSONDecodeError)"
proof -
  have s: "member_text q (k, v) @ rest
      = CHR 0x22 # tl (q k) @ CHR '':'' # json_text q v @ rest"
    by (simp add: member_text_def q_start)
  have p: "parse_str (drop 1 (member_text q (k, v) @ rest)) = Some (k, CHR '':'' # json_text q v @ rest)"
    unfolding s by (simp add: q_parse [OF assms(2)])
  have t: "take 1 (member_text q (k, v) @ rest) = [CHR 0x22]" unfolding s by simp
  have c: "take 1 (skip_ws (CHR '':'' # json_text q v @ rest)) = '':''" by simp
  have d: "skip_ws (drop 1 (skip_ws (CHR '':'' # json_text q v @ rest))) = json_text q v @ rest"
    using assms(1) by simp
  show ?thesis
    unfolding parse_members.simps p t by (simp only: c d assms(3) bindE_Inr option.case prod.case if_False simp_thms)
qed

lemma reads_members:
  assumes "xs \<noteq> []" and "\<And>x. x \<in> set xs \<Longrightarrow> reads q h (snd x) \<and> plain_json (snd x) \<and> ok (fst x)"
  shows "\<exists>N. \<forall>n\<ge>N. parse_members h n (join '','' (map (member_text q) xs) @ CHR ''}'' # r)
      = Inr (map (\<lambda>(k, v). (k, canon v)) xs, r)"
  using assms
proof (induction xs)
  case Nil
  then show ?case by simp
next
  case (Cons x xs)
  obtain k v where x: "x = (k, v)" by (cases x)
  define rest where "rest = (if xs = [] then [] else '','' @ join '','' (map (member_text q) xs)) @ CHR ''}'' # r"
  have d: "delim rest" by (simp add: rest_def)
  have pv: "plain_json v" "ok k" using Cons.prems(2) [of x] x by simp_all
  obtain N where N: "\<And>n. N \<le> n \<Longrightarrow> parse_value h n (json_text q v @ rest) = Inr (canon v, rest)"
    using Cons.prems(2) [of x] d unfolding reads_def x snd_conv by (meson list.set_intros(1))
  have render: "join '','' (map (member_text q) (x # xs)) @ CHR ''}'' # r = member_text q (k, v) @ rest"
    by (simp add: join_Cons rest_def x del: join.simps)
  note step = parse_member_text [OF pv N]
  show ?case
  proof (cases "xs = []")
    case True
    have "parse_members h (Suc n) (member_text q (k, v) @ rest)
        = Inr (map (\<lambda>(k, v). (k, canon v)) (x # xs), r)" if "N \<le> n" for n
      unfolding step [OF that] by (simp add: rest_def x True)
    then show ?thesis unfolding render by (metis Suc_le_D Suc_le_mono)
  next
    case False
    then obtain M where M: "\<And>n. M \<le> n \<Longrightarrow>
        parse_members h n (join '','' (map (member_text q) xs) @ CHR ''}'' # r) = Inr (map (\<lambda>(k, v). (k, canon v)) xs, r)"
      using Cons.IH [OF False] Cons.prems(2) by (meson list.set_intros(2))
    have skip: "skip_ws (join '','' (map (member_text q) xs) @ CHR ''}'' # r) = join '','' (map (member_text q) xs) @ CHR ''}'' # r"
      using False by (cases xs) (auto simp: join_Cons member_text_def simp del: join.simps)
    have "parse_members h (Suc n) (member_text q (k, v) @ rest)
        = Inr (map (\<lambda>(k, v). (k, canon v)) (x # xs), r)" if le: "max N M \<le> n" for n
    proof -
      have "N \<le> n" "M \<le> n" using le by auto
      have "rest = CHR '','' # join '','' (map (member_text q) xs) @ CHR ''}'' # r"
        using False by (simp add: rest_def)
      then show ?thesis unfolding step [OF \<open>N \<le> n\<close>] by (simp add: skip M [OF \<open>M \<le> n\<close>] x)
    qed
    then show ?thesis unfolding render by (metis Suc_le_D Suc_le_mono)
  qed
qed

lemma reads_plain:
  assumes h: "keeps h"
  shows "plain_json v \<Longrightarrow> texts ok v \<Longrightarrow> reads q h v"
proof (induction v rule: measure_induct_rule [where f = size])
  case (less v)
  show ?case
  proof (cases v)
    case JNull
    show ?thesis unfolding JNull by (rule readsI) simp
  next
    case (JBool b)
    show ?thesis unfolding JBool by (rule readsI) simp
  next
    case (JInt i)
    show ?thesis unfolding JInt by (rule reads_JInt)
  next
    case (JFloat f)
    then show ?thesis using less.prems by simp
  next
    case (JStr s)
    show ?thesis using less.prems unfolding JStr by (simp add: reads_JStr)
  next
    case (JList xs)
    have el: "reads q h x \<and> plain_json x" if "x \<in> set xs" for x
      using less.IH [of x] less.prems that JList size_json_list [OF that] by (auto simp: list_all_iff)
    show ?thesis
    proof (cases xs)
      case Nil
      show ?thesis unfolding JList Nil by (rule readsI) simp
    next
      case (Cons y ys)
      show ?thesis unfolding reads_def
      proof (intro allI impI)
        fix r :: string
        obtain N where N: "\<And>n. N \<le> n \<Longrightarrow>
            parse_items h n (join '','' (map (json_text q) xs) @ CHR '']'' # r) = Inr (map canon xs, r)"
          using reads_items [of xs h r] el Cons by blast
        obtain c cs where hd: "join '','' (map (json_text q) xs) @ CHR '']'' # r = c # cs"
          and c: "\<not> is_ws c" "c \<noteq> CHR '']''"
          using dumps_head [of y "(if ys = [] then [] else '','' @ join '','' (map (json_text q) ys)) @ CHR '']'' # r"]
            el [of y] Cons by (auto simp: join_Cons simp del: join.simps)
        have "parse_value h (Suc n) (json_text q v @ r) = Inr (canon v, r)" if "N \<le> n" for n
          using N [OF that] c by (simp add: JList hd)
        then show "\<exists>N. \<forall>n\<ge>N. parse_value h n (json_text q v @ r) = Inr (canon v, r)"
          by (metis Suc_le_D Suc_le_mono)
      qed
    qed
  next
    case (JObj kvs)
    have el: "reads q h (snd x) \<and> plain_json (snd x) \<and> ok (fst x)" if "x \<in> set (sort_key fst kvs)" for x
      using less.IH [of "snd x"] less.prems that JObj size_json_obj [of "fst x" "snd x" kvs]
      by (cases x) (auto simp: list_all_iff)
    have dist: "distinct (map fst (map (\<lambda>(k, v). (k, canon v)) (sort_key fst kvs)))"
    proof -
      have "distinct (map fst (sort_key fst kvs))"
        using less.prems JObj by (simp add: distinct_map)
      then show ?thesis by (simp add: comp_def case_prod_beta)
    qed
    have mt: "map (\<lambda>(k, v). q k @ '':'' @ json_text q v) l = map (member_text q) l" for l
      by (auto simp: member_text_def)
    have render: "json_text q v @ r = CHR ''{'' # join '','' (map (member_text q) (sort_key fst kvs)) @ CHR ''}'' # r" for r
      unfolding JObj json_text.simps mt by simp
    show ?thesis
    proof (cases "sort_key fst kvs")
      case Nil
      have "parse_value h (Suc n) (json_text q v @ r) = Inr (canon v, r)" for n r
        using h unfolding render JObj Nil by (simp add: keeps_def Nil)
      then show ?thesis by (intro readsI)
    next
      case (Cons y ys)
      show ?thesis unfolding reads_def
      proof (intro allI impI)
        fix r :: string
        obtain N where N: "\<And>n. N \<le> n \<Longrightarrow>
            parse_members h n (join '','' (map (member_text q) (sort_key fst kvs)) @ CHR ''}'' # r)
              = Inr (map (\<lambda>(k, v). (k, canon v)) (sort_key fst kvs), r)"
          using reads_members [of "sort_key fst kvs" h r] el Cons by (metis list.distinct(1))
        obtain cs where hd: "join '','' (map (member_text q) (sort_key fst kvs)) @ CHR ''}'' # r = CHR 0x22 # cs"
          using Cons by (auto simp: join_Cons member_text_def q_start simp del: join.simps)
        have "parse_value h (Suc n) (json_text q v @ r) = Inr (canon v, r)" if "N \<le> n" for n
          using N [OF that] h dist unfolding render hd by (simp add: JObj keeps_def)
        then show "\<exists>N. \<forall>n\<ge>N. parse_value h n (json_text q v @ r) = Inr (canon v, r)"
          by (metis Suc_le_D Suc_le_mono)
      qed
    qed
  qed
qed

lemma loads_text:
  assumes "keeps h" "plain_json v" "texts ok v"
  shows "json_loads_with h (json_text q v) = Inr (canon v)"
proof -
  obtain N where N: "\<And>n. N \<le> n \<Longrightarrow> parse_value h n (json_text q v) = Inr (canon v, [])"
    using reads_plain [OF assms] unfolding reads_def by (metis append_Nil2 delim_simps(1))
  define n where "n = max N (2 * length (json_text q v) + 1)"
  have "loads_fuel h n (json_text q v) = Inr (canon v)"
    using N [of n] skip_ws_dumps [OF assms(2), of "[]"] by (simp add: loads_fuel_def n_def skip_ws_def)
  then show ?thesis using json_loads_fuel [of "json_text q v" n h] by (simp add: n_def)
qed

end

interpretation plain: quoting quote_str "\<lambda>_. True"
  by unfold_locales (simp_all add: quote_str_def parse_quoted)

lemma loads_dumps:
  assumes "keeps h" "plain_json v"
  shows "json_loads_with h (json_dumps v) = Inr (canon v)"
  using plain.loads_text [OF assms texts_True] by (simp add: json_text_dumps)

lemma AList_update_fresh: "k \<notin> fst ` set d \<Longrightarrow> AList.update k v d = d @ [(k, v)]"
  by (induction d) auto

lemma py_dict_distinct: "distinct (map fst kvs) \<Longrightarrow> py_dict kvs = kvs"
proof -
  have "distinct (map fst (d @ kvs)) \<Longrightarrow> foldl (\<lambda>d (k, v). AList.update k v d) d kvs = d @ kvs" for d
    by (induction kvs arbitrary: d) (auto simp: AList_update_fresh split: prod.splits)
  from this [of "[]"] show "distinct (map fst kvs) \<Longrightarrow> py_dict kvs = kvs" by (simp add: py_dict_def)
qed

lemma keeps_hooks: "keeps default_hook" "keeps (strict_hook e)"
  by (simp_all add: keeps_def default_hook_def strict_hook_def py_dict_distinct)

section \<open>Text that is ASCII\<close>

fun ascii_json :: "json \<Rightarrow> bool" where
  "ascii_json (JFloat f) = float_finite f"
| "ascii_json (JStr s) = ascii s"
| "ascii_json (JList xs) = list_all ascii_json xs"
| "ascii_json (JObj kvs) = list_all (\<lambda>(k, v). ascii k \<and> ascii_json v) kvs"
| "ascii_json _ = True"

lemma ascii_simps [simp]: "ascii []" "ascii (c # s) \<longleftrightarrow> c < CHR 0x80 \<and> ascii s"
    "ascii (s @ t) \<longleftrightarrow> ascii s \<and> ascii t"
  by (auto simp: ascii_def)

lemma ascii_join: "\<forall>s\<in>set ss. ascii s \<Longrightarrow> ascii sep \<Longrightarrow> ascii (join sep ss)"
  by (induction sep ss rule: join.induct) auto

lemma digit_ascii: "is_digit c \<Longrightarrow> c < CHR 0x80"
  by (auto simp: is_digit_def intro: le_less_trans)

lemma ascii_nat_str: "ascii (nat_str n)"
  using nat_str_digits [of n] digit_ascii by (auto simp: ascii_def list_all_iff)

lemma ascii_int_str: "ascii (int_str i)"
  by (simp add: int_str_def ascii_nat_str)

lemma hex_digit_ascii: "d < 16 \<Longrightarrow> hex_digit d < CHR 0x80"
proof -
  have "\<forall>d\<in>set [0..<16]. hex_digit d < CHR 0x80"
    by (simp add: hex_digit_def char_of_def bit_0 upt_rec)
  then show "d < 16 \<Longrightarrow> hex_digit d < CHR 0x80" by simp
qed

lemma ascii_escape: "c < CHR 0x80 \<Longrightarrow> ascii (escape_char c)"
proof -
  have "(of_char c :: nat) div 16 < 16"
    using nat_of_char_less_256 [of c] by (simp add: less_mult_imp_div_less)
  then show "c < CHR 0x80 \<Longrightarrow> ascii (escape_char c)"
    by (auto simp: escape_char_def intro!: hex_digit_ascii)
qed

lemma ascii_quote: "ascii s \<Longrightarrow> ascii (quote_str s)"
  by (auto simp: quote_str_def ascii_def ascii_escape [unfolded ascii_def])

lemma ascii_parts: "ascii s \<Longrightarrow> ascii (take k s)" "ascii s \<Longrightarrow> ascii (drop k s)"
  by (auto simp: ascii_def dest: in_set_takeD in_set_dropD)

lemma ascii_zeros: "ascii (replicate k CHR ''0'')"
  by (simp add: ascii_def)

lemma ascii_float: "ascii (float_repr f)"
  using ascii_nat_str
  by (cases f) (auto simp: float_repr_def Let_def intro!: ascii_parts ascii_nat_str ascii_zeros)

lemma ascii_dumps: "ascii_json v \<Longrightarrow> ascii (json_dumps v)"
proof (induction v rule: json_dumps.induct)
  case (7 kvs)
  have "ascii (quote_str k @ '':'' @ json_dumps v)" if "(k, v) \<in> set kvs" for k v
    using 7 that by (auto simp: list_all_iff ascii_quote)
  then show ?case by (auto intro!: ascii_join)
qed (auto simp: ascii_int_str ascii_quote ascii_float list_all_iff intro!: ascii_join)

lemma ascii_no_surrogate: "ascii s \<Longrightarrow> \<not> has_surrogate s"
  by (induction s) auto

section \<open>Canonical values\<close>

lemma sort_key_map_fst: "sort_key fst (map (\<lambda>(k, v). (k, f v)) kvs) = map (\<lambda>(k, v). (k, f v)) (sort_key fst kvs)"
proof (induction kvs)
  case Nil
  then show ?case by simp
next
  case (Cons kv kvs)
  obtain k v where kv: "kv = (k, v)" by (cases kv)
  have "insort_key fst (k, f v) (map (\<lambda>(k, v). (k, f v)) xs) = map (\<lambda>(k, v). (k, f v)) (insort_key fst (k, v) xs)"
    for xs by (induction xs) auto
  then show ?case using Cons.IH by (simp add: kv)
qed

lemma sort_key_idem: "sort_key fst (sort_key fst kvs) = sort_key fst kvs"
  by (simp add: sort_key_id_if_sorted)

lemma dumps_canon: "json_dumps (canon v) = json_dumps v"
proof (induction v rule: json_dumps.induct)
  case (6 xs)
  then show ?case by (simp add: o_def cong: map_cong)
next
  case (7 kvs)
  have s: "sort_key fst (map (\<lambda>(k, v). (k, canon v)) (sort_key fst kvs))
      = map (\<lambda>(k, v). (k, canon v)) (sort_key fst kvs)"
    by (simp only: sort_key_map_fst sort_key_idem)
  have "map (\<lambda>(k, v). quote_str k @ '':'' @ json_dumps v) (map (\<lambda>(k, v). (k, canon v)) (sort_key fst kvs))
      = map (\<lambda>(k, v). quote_str k @ '':'' @ json_dumps v) (sort_key fst kvs)"
    using 7 by auto
  then show ?case by (simp only: canon.simps json_dumps.simps s)
qed simp_all

lemma finite_canon: "finite_json (canon v) = finite_json v"
  by (induction v rule: canon.induct) (auto simp: list_all_iff)

lemma py_eq_canon: "plain_json v \<Longrightarrow> py_eq (canon v) v"
proof (induction v rule: canon.induct)
  case (1 xs)
  then show ?case by (auto simp: list_all_iff set_zip)
next
  case (2 kvs)
  have same: "v = w" if "(k, v) \<in> set kvs" "(k, w) \<in> set kvs" for k v w
    using 2(2) that eq_key_imp_eq_value [of kvs k v w] by simp
  have eq: "py_eq (canon v) v" if "(k, v) \<in> set kvs" for k v
    using 2(1) [of "(k, v)"] 2(2) that by (auto simp: list_all_iff)
  have "fst ` set (map (\<lambda>(k, v). (k, canon v)) (sort_key fst kvs)) = fst ` set kvs"
    by (force simp: image_iff)
  moreover have "list_all (\<lambda>(k, x). list_all (\<lambda>(k', y). k = k' \<longrightarrow> py_eq x y) kvs)
      (map (\<lambda>(k, v). (k, canon v)) (sort_key fst kvs))"
    by (auto simp: list_all_iff) (metis same eq)
  ultimately show ?case by (simp only: canon.simps py_eq.simps)
qed auto

lemma map_of_sort_key: "distinct (map fst kvs) \<Longrightarrow> map_of (sort_key fst kvs) = map_of kvs"
proof -
  assume d: "distinct (map fst kvs)"
  then have "distinct (map fst (sort_key fst kvs))"
    by (simp add: distinct_map)
  then show ?thesis using d by (simp add: map_of_inject_set)
qed

lemma jget_canon:
  assumes "canon (JObj kvs) = JObj kvs'" "distinct (map fst kvs)"
  shows "jget kvs' k = canon (jget kvs k)"
proof -
  have "map_of kvs' k = map_option canon (map_of kvs k)"
    using assms map_of_sort_key [OF assms(2)] by (auto simp: map_of_map)
  then show ?thesis by (simp add: jget_def split: option.split)
qed

lemma canon_filter:
  "canon (JObj kvs) = JObj kvs' \<Longrightarrow>
   JObj (filter (\<lambda>(k, _). P k) kvs') = canon (JObj (filter (\<lambda>(k, _). P k) kvs))"
proof -
  assume "canon (JObj kvs) = JObj kvs'"
  then have k: "kvs' = map (\<lambda>(k, v). (k, canon v)) (sort_key fst kvs)" by simp
  have "filter (\<lambda>(k, _). P k) (map (\<lambda>(k, v). (k, canon v)) xs)
      = map (\<lambda>(k, v). (k, canon v)) (filter (\<lambda>(k, _). P k) xs)" for xs
    by (induction xs) auto
  then show ?thesis by (simp add: k filter_sort)
qed

end
