(* ===== verification/Digests.thy ===== *)
theory Digests
  imports JsonRead "HOL-Library.Word"
begin

text \<open>
  The digests and identifiers of Python's standard library that the controller stores and compares:
  \<open>hashlib.sha256\<close>, HMAC over it, SHA-1 for \<open>uuid.uuid5\<close>, and \<open>uuid.UUID\<close> on a string. They are the
  published algorithms on 32-bit words (FIPS 180-4, RFC 2104, RFC 4122). The proofs about the
  controller use no more of them than the shape of a digest: 64 lower-case hexadecimal digits.
  \<open>int(text, 16)\<close> inside \<open>uuid.UUID\<close> also reads decimal digits of other scripts, which are left out:
  such a text is refused here as no UUID.
\<close>

unbundle bit_operations_syntax

type_synonym w32 = "32 word"

section \<open>SHA-256\<close>

text \<open>
  The constants are, as the standard defines them, the first 32 bits of the fractional parts of
  the cube roots of the first sixty-four primes, and of the square roots of the first eight.
\<close>

definition small_primes :: "nat list" where
  "small_primes =
    [2, 3, 5, 7, 11, 13, 17, 19, 23, 29, 31, 37, 41, 43, 47, 53,
     59, 61, 67, 71, 73, 79, 83, 89, 97, 101, 103, 107, 109, 113, 127, 131,
     137, 139, 149, 151, 157, 163, 167, 173, 179, 181, 191, 193, 197, 199, 211, 223,
     227, 229, 233, 239, 241, 251, 257, 263, 269, 271, 277, 281, 283, 293, 307, 311]"

definition iroot :: "nat \<Rightarrow> nat \<Rightarrow> nat" where
  "iroot k n = foldl (\<lambda>r i. if (r + 2 ^ i) ^ k \<le> n then r + 2 ^ i else r) 0 (rev [0..<40])"

definition root_bits :: "nat \<Rightarrow> nat \<Rightarrow> w32" where
  "root_bits k p = word_of_nat (iroot k (p * 2 ^ (32 * k)))"

definition sha256_k :: "w32 list" where
  "sha256_k = map (root_bits 3) small_primes"

definition sha256_h0 :: "w32 list" where
  "sha256_h0 = map (root_bits 2) (take 8 small_primes)"

definition bytes_w32 :: "string \<Rightarrow> w32" where
  "bytes_w32 bs = word_of_nat (foldl (\<lambda>a b. 256 * a + of_char b) 0 bs)"

fun blocks :: "nat \<Rightarrow> string \<Rightarrow> string list" where
  "blocks n [] = []"
| "blocks n (x # xs) = (if n = 0 then [] else take n (x # xs) # blocks n (drop n (x # xs)))"

definition be64 :: "nat \<Rightarrow> string" where
  "be64 n = map (\<lambda>i. char_of (n div 256 ^ (7 - i) mod 256)) [0..<8]"

text \<open>The padding both hashes share: a one bit, zeros, the length in bits.\<close>

definition md_pad :: "string \<Rightarrow> string" where
  "md_pad s = s @ CHR 0x80 # replicate ((119 - length s mod 64) mod 64) CHR 0x00 @ be64 (8 * length s)"

definition small_sigma0 :: "w32 \<Rightarrow> w32" where
  "small_sigma0 x = (word_rotr 7 x XOR word_rotr 18 x) XOR drop_bit 3 x"

definition small_sigma1 :: "w32 \<Rightarrow> w32" where
  "small_sigma1 x = (word_rotr 17 x XOR word_rotr 19 x) XOR drop_bit 10 x"

fun sha256_extend :: "nat \<Rightarrow> w32 list \<Rightarrow> w32 list" where
  "sha256_extend 0 w = w"
| "sha256_extend (Suc n) w =
     (let t = length w in
      sha256_extend n (w @ [small_sigma1 (w ! (t - 2)) + w ! (t - 7)
                            + small_sigma0 (w ! (t - 15)) + w ! (t - 16)]))"

fun sha256_round :: "w32 list \<Rightarrow> w32 \<times> w32 \<Rightarrow> w32 list" where
  "sha256_round [a, b, c, d, e, f, g, h] (k, w) =
     (let s1 = (word_rotr 6 e XOR word_rotr 11 e) XOR word_rotr 25 e;
          ch = (e AND f) XOR (NOT e AND g);
          t1 = h + s1 + ch + k + w;
          s0 = (word_rotr 2 a XOR word_rotr 13 a) XOR word_rotr 22 a;
          maj = ((a AND b) XOR (a AND c)) XOR (b AND c)
      in [t1 + (s0 + maj), a, b, c, d + t1, e, f, g])"
| "sha256_round st _ = st"

definition sha256_block :: "w32 list \<Rightarrow> string \<Rightarrow> w32 list" where
  "sha256_block st b =
     (let w = sha256_extend 48 (map bytes_w32 (blocks 4 b))
      in map2 (+) st (foldl sha256_round st (zip sha256_k w)))"

definition w32_bytes :: "w32 \<Rightarrow> string" where
  "w32_bytes w = map (\<lambda>i. char_of (unat w div 256 ^ (3 - i) mod 256)) [0..<4]"

definition hex_bytes :: "string \<Rightarrow> string" where
  "hex_bytes bs = concat (map (\<lambda>b. [hex_digit (of_char b div 16), hex_digit (of_char b mod 16)]) bs)"

definition sha256_raw :: "string \<Rightarrow> string" where
  "sha256_raw s = concat (map w32_bytes (foldl sha256_block sha256_h0 (blocks 64 (md_pad s))))"

definition sha256_hex :: "string \<Rightarrow> string" where
  "sha256_hex s = hex_bytes (sha256_raw s)"

text \<open>\<open>hmac.new(key, message, hashlib.sha256).hexdigest()\<close>.\<close>

definition xor_byte :: "nat \<Rightarrow> char \<Rightarrow> char" where
  "xor_byte n c = char_of ((n :: nat) XOR of_char c)"

definition hmac_sha256 :: "string \<Rightarrow> string \<Rightarrow> string" where
  "hmac_sha256 key msg =
     (let k0 = (if 64 < length key then sha256_raw key else key);
          k = k0 @ replicate (64 - length k0) CHR 0x00
      in sha256_hex (map (xor_byte 92) k @ sha256_raw (map (xor_byte 54) k @ msg)))"

section \<open>SHA-1\<close>

fun sha1_extend :: "nat \<Rightarrow> w32 list \<Rightarrow> w32 list" where
  "sha1_extend 0 w = w"
| "sha1_extend (Suc n) w =
     (let t = length w in
      sha1_extend n (w @ [word_rotl 1 (((w ! (t - 3) XOR w ! (t - 8)) XOR w ! (t - 14)) XOR w ! (t - 16))]))"

fun sha1_round :: "w32 list \<Rightarrow> nat \<times> w32 \<Rightarrow> w32 list" where
  "sha1_round [a, b, c, d, e] (i, w) =
     (let f = (if i < 20 then (b AND c) OR (NOT b AND d)
               else if i < 40 then (b XOR c) XOR d
               else if i < 60 then ((b AND c) OR (b AND d)) OR (c AND d)
               else (b XOR c) XOR d);
          k = (if i < 20 then 0x5A827999 else if i < 40 then 0x6ED9EBA1
               else if i < 60 then 0x8F1BBCDC else 0xCA62C1D6)
      in [word_rotl 5 a + f + e + k + w, a, word_rotl 30 b, c, d])"
| "sha1_round st _ = st"

definition sha1_block :: "w32 list \<Rightarrow> string \<Rightarrow> w32 list" where
  "sha1_block st b = map2 (+) st
     (foldl sha1_round st (enumerate 0 (sha1_extend 64 (map bytes_w32 (blocks 4 b)))))"

definition sha1_raw :: "string \<Rightarrow> string" where
  "sha1_raw s = concat (map w32_bytes
     (foldl sha1_block [0x67452301, 0xEFCDAB89, 0x98BADCFE, 0x10325476, 0xC3D2E1F0]
        (blocks 64 (md_pad s))))"

section \<open>UUIDs\<close>

definition uuid_text :: "string \<Rightarrow> string" where
  "uuid_text h = take 8 h @ ''-'' @ take 4 (drop 8 h) @ ''-'' @ take 4 (drop 12 h) @ ''-''
     @ take 4 (drop 16 h) @ ''-'' @ drop 20 h"

text \<open>\<open>str.replace(pat, "")\<close>, and \<open>int(text, 16)\<close> of a text without its surrounding space.\<close>

fun remove_all :: "nat \<Rightarrow> string \<Rightarrow> string \<Rightarrow> string" where
  "remove_all 0 pat s = s"
| "remove_all (Suc n) pat s =
     (if s = [] then []
      else if take (length pat) s = pat then remove_all n pat (drop (length pat) s)
      else hd s # remove_all n pat (tl s))"

definition hex_body :: "string \<Rightarrow> string" where
  "hex_body s =
     (if take 2 s = ''0x'' \<or> take 2 s = ''0X''
      then (if take 1 (drop 2 s) = ''_'' then drop 3 s else drop 2 s)
      else s)"

definition hex_digits_ok :: "string \<Rightarrow> bool" where
  "hex_digits_ok s \<longleftrightarrow> list_all (\<lambda>g. g \<noteq> [] \<and> list_all is_hex_any g) (split_on (CHR ''_'') s)"

definition int16 :: "string \<Rightarrow> int option" where
  "int16 text =
     (let s = py_strip text;
          neg = (take 1 s = ''-'');
          b = hex_body (if neg \<or> take 1 s = ''+'' then drop 1 s else s)
      in if hex_digits_ok b
         then Some ((if neg then - 1 else 1)
                * int (foldl (\<lambda>a c. 16 * a + hex_val c) 0 (filter (\<lambda>c. c \<noteq> CHR ''_'') b)))
         else None)"

fun hex_text :: "nat \<Rightarrow> nat \<Rightarrow> string" where
  "hex_text 0 n = []"
| "hex_text (Suc w) n = hex_text w (n div 16) @ [hex_digit (n mod 16)]"

definition is_brace :: "char \<Rightarrow> bool" where
  "is_brace c \<longleftrightarrow> c = CHR ''{'' \<or> c = CHR ''}''"

text \<open>\<open>str(uuid.UUID(s))\<close>, with \<open>None\<close> where the constructor raises.\<close>

definition py_uuid :: "string \<Rightarrow> string option" where
  "py_uuid s =
     (let a = remove_all (length s) ''urn:'' s; b = remove_all (length a) ''uuid:'' a;
          c = rev (dropWhile is_brace (rev (dropWhile is_brace b)));
          h = filter (\<lambda>x. x \<noteq> CHR ''-'') c
      in if py_len h \<noteq> 32 then None
         else case int16 h of None \<Rightarrow> None
           | Some i \<Rightarrow> (if 0 \<le> i \<and> i < 2 ^ 128 then Some (uuid_text (hex_text 32 (nat i))) else None))"

text \<open>\<open>uuid.uuid5\<close>: the first sixteen bytes of the SHA-1 digest, with the version and the variant.\<close>

definition uuid_bytes :: "string \<Rightarrow> string" where
  "uuid_bytes u =
     map (\<lambda>p. char_of (foldl (\<lambda>a c. 16 * a + hex_val c) 0 p)) (blocks 2 (filter (\<lambda>x. x \<noteq> CHR ''-'') u))"

definition uuid5 :: "string \<Rightarrow> string \<Rightarrow> string" where
  "uuid5 namespace name =
     (let d = take 16 (sha1_raw (uuid_bytes namespace @ name));
          d6 = d[6 := char_of (80 + of_char (d ! 6) mod 16 :: nat)];
          d8 = d6[8 := char_of (128 + of_char (d6 ! 8) mod 64 :: nat)]
      in uuid_text (hex_bytes d8))"

definition uuid_namespace_url :: string where
  "uuid_namespace_url = ''6ba7b811-9dad-11d1-80b4-00c04fd430c8''"

section \<open>The shape of digests and identifiers\<close>

lemma hex_digit_lower: "d < 16 \<Longrightarrow> is_hex (hex_digit d)"
proof -
  assume "d < 16"
  then have "d \<in> {0, 1, 2, 3, 4, 5, 6, 7, 8, 9, 10, 11, 12, 13, 14, 15}"
    by (simp only: insert_iff empty_iff) presburger
  then show ?thesis
    by (elim insertE) (simp_all add: hex_digit_def is_hex_def is_digit_def char_of_def bit_0)
qed

lemma hex_digit_val: "is_hex c \<Longrightarrow> hex_val c < 16 \<and> hex_digit (hex_val c) = c"
proof -
  assume c: "is_hex c"
  have "48 \<le> (of_char c :: nat) \<and> (of_char c :: nat) \<le> 57 \<or> 97 \<le> (of_char c :: nat) \<and> (of_char c :: nat) \<le> 102"
    using c by (auto simp: is_hex_def is_digit_def less_eq_char_def)
  then show ?thesis
  proof (elim disjE conjE)
    assume a: "48 \<le> (of_char c :: nat)" "(of_char c :: nat) \<le> 57"
    then have "(of_char c :: nat) - 48 < 10" "48 + ((of_char c :: nat) - 48) = of_char c"
      "(of_char c :: nat) < 58" by auto
    then show ?thesis by (simp add: hex_val_def hex_digit_def del: le_add_diff_inverse)
  next
    assume a: "97 \<le> (of_char c :: nat)" "(of_char c :: nat) \<le> 102"
    then have "\<not> (of_char c :: nat) - 87 < 10" "87 + ((of_char c :: nat) - 87) = of_char c"
      "\<not> (of_char c :: nat) < 58" "\<not> (of_char c :: nat) < 71" "(of_char c :: nat) - 87 < 16" by auto
    then show ?thesis by (simp add: hex_val_def hex_digit_def del: le_add_diff_inverse)
  qed
qed

lemma hex_bytes_length [simp]: "length (hex_bytes bs) = 2 * length bs"
  by (induction bs) (simp_all add: hex_bytes_def)

lemma hex_bytes_hex: "list_all is_hex (hex_bytes bs)"
proof (induction bs)
  case Nil
  show ?case by (simp add: hex_bytes_def)
next
  case (Cons b bs)
  have "(of_char b :: nat) < 256" by (rule nat_of_char_less_256)
  then have "(of_char b :: nat) div 16 < 16" by (intro less_mult_imp_div_less) simp
  then show ?case using Cons by (simp add: hex_bytes_def hex_digit_lower)
qed

lemma sha256_round_length: "length (sha256_round st p) = length st"
  by (induction st p rule: sha256_round.induct) (simp_all add: Let_def)

lemma foldl_sha256_length: "length (foldl sha256_round st ps) = length st"
  by (induction ps arbitrary: st) (simp_all add: sha256_round_length)

lemma foldl_block_length: "length (foldl sha256_block st bs) = length st"
  by (induction bs arbitrary: st) (simp_all add: sha256_block_def Let_def foldl_sha256_length)

lemma concat_map_length: "(\<And>x. length (f x) = n) \<Longrightarrow> length (concat (map f xs)) = n * length xs"
  by (induction xs) simp_all

lemma sha256_raw_length [simp]: "length (sha256_raw s) = 32"
proof -
  have "length (foldl sha256_block sha256_h0 (blocks 64 (md_pad s))) = 8"
    unfolding foldl_block_length by (simp add: sha256_h0_def small_primes_def)
  moreover have "length (w32_bytes w) = 4" for w by (simp add: w32_bytes_def)
  ultimately show ?thesis unfolding sha256_raw_def by (subst concat_map_length [where n = 4]) simp_all
qed

lemma sha256_hex_shape [simp]: "is_sha256 (sha256_hex s)"
  by (simp add: is_sha256_def sha256_hex_def hex_bytes_hex)

lemma hmac_sha256_shape [simp]: "is_sha256 (hmac_sha256 key msg)"
  by (simp add: hmac_sha256_def Let_def)

declare sha256_round.simps [simp del] sha256_extend.simps [simp del] sha1_round.simps [simp del]
  sha1_extend.simps [simp del]

text \<open>A canonical UUID: lower-case hexadecimal digits in groups of 8, 4, 4, 4 and 12.\<close>

definition no_dash :: "string \<Rightarrow> string" where
  "no_dash s = filter (\<lambda>x. x \<noteq> CHR ''-'') s"

definition is_uuid :: "string \<Rightarrow> bool" where
  "is_uuid s \<longleftrightarrow> length (no_dash s) = 32 \<and> list_all is_hex (no_dash s) \<and> uuid_text (no_dash s) = s"

lemma is_hex_not_dash: "is_hex c \<Longrightarrow> c \<noteq> CHR ''-''"
  by (auto simp: is_hex_def is_digit_def)

lemma no_dash_text: "list_all is_hex h \<Longrightarrow> no_dash (uuid_text h) = h"
proof -
  assume h: "list_all is_hex h"
  then have id: "filter (\<lambda>x. x \<noteq> CHR ''-'') t = t" if "set t \<subseteq> set h" for t
    using that by (auto simp: filter_id_conv list_all_iff dest: is_hex_not_dash)
  have "no_dash (uuid_text h) = take 8 h @ take 4 (drop 8 h) @ take 4 (drop 12 h) @ take 4 (drop 16 h) @ drop 20 h"
    by (simp add: no_dash_def uuid_text_def id set_take_subset set_drop_subset
        order.trans [OF set_take_subset set_drop_subset])
  also have "\<dots> = h"
    using append_take_drop_id [of 8 h] append_take_drop_id [of 4 "drop 8 h"]
      append_take_drop_id [of 4 "drop 12 h"] append_take_drop_id [of 4 "drop 16 h"] by simp
  finally show ?thesis .
qed

lemma is_uuid_text: "length h = 32 \<Longrightarrow> list_all is_hex h \<Longrightarrow> is_uuid (uuid_text h)"
  by (simp add: is_uuid_def no_dash_text)

lemma hex_text_length [simp]: "length (hex_text w n) = w"
  by (induction w arbitrary: n) simp_all

lemma hex_text_hex: "list_all is_hex (hex_text w n)"
  by (induction w arbitrary: n) (simp_all add: hex_digit_lower)

lemma py_uuid_shape: "py_uuid s = Some t \<Longrightarrow> is_uuid t"
  by (auto simp: py_uuid_def Let_def hex_text_hex is_uuid_text split: if_splits option.splits)

definition hex_num :: "string \<Rightarrow> nat" where
  "hex_num h = foldl (\<lambda>a c. 16 * a + hex_val c) 0 h"

lemma hex_num_snoc: "hex_num (xs @ [c]) = 16 * hex_num xs + hex_val c"
  by (simp add: hex_num_def)

lemma hex_num_text: "list_all is_hex h \<Longrightarrow> hex_num h < 16 ^ length h \<and> hex_text (length h) (hex_num h) = h"
proof (induction h rule: rev_induct)
  case Nil
  show ?case by (simp add: hex_num_def)
next
  case (snoc c h)
  have c: "hex_val c < 16" "hex_digit (hex_val c) = c" using snoc.prems hex_digit_val by auto
  then show ?case using snoc by (simp add: hex_num_snoc)
qed

lemma remove_all_absent: "hd pat \<notin> set s \<Longrightarrow> pat \<noteq> [] \<Longrightarrow> remove_all n pat s = s"
proof (induction n pat s rule: remove_all.induct)
  case (2 n pat s)
  then show ?case by (cases s; cases pat) auto
qed simp

lemma split_on_absent: "c \<notin> set s \<Longrightarrow> split_on c s = [s]"
  by (induction s) auto

lemma hex_ascii: "is_hex c \<Longrightarrow> c < CHR 0x80"
  by (auto simp: is_hex_def is_digit_def less_char_def less_eq_char_def)

lemma is_hex_not: "is_hex c \<Longrightarrow> c \<notin> {CHR ''u'', CHR ''-'', CHR ''+'', CHR ''_'', CHR ''x'', CHR ''X'', CHR ''{'', CHR ''}'', CHR '' ''}"
  by (auto simp: is_hex_def is_digit_def)

lemma is_hex_not_space: "is_hex c \<Longrightarrow> \<not> is_space_chunk [c]"
  by (auto simp: is_space_chunk_def space_chunks_def is_hex_def is_digit_def)

lemma dropWhile_none: "(\<And>x. x \<in> set xs \<Longrightarrow> \<not> P x) \<Longrightarrow> dropWhile P xs = xs"
  by (cases xs) auto

lemma py_strip_none:
  assumes "ascii s" "\<And>c. c \<in> set s \<Longrightarrow> \<not> is_space_chunk [c]"
  shows "py_strip s = s"
proof -
  have d: "dropWhile is_space_chunk xs = xs" if "set xs \<subseteq> set (map (\<lambda>c. [c]) s)" for xs
    using assms(2) that by (intro dropWhile_none) auto
  have "py_strip s = concat (map (\<lambda>c. [c]) s)"
    unfolding py_strip_def chunks_ascii [OF assms(1)] by (simp add: d)
  then show ?thesis by simp
qed

lemma py_uuid_canonical:
  assumes "is_uuid s"
  shows "py_uuid s = Some s"
proof -
  define h where "h = no_dash s"
  have h: "length h = 32" "list_all is_hex h" "uuid_text h = s" using assms by (auto simp: is_uuid_def h_def)
  have cs: "c = CHR ''-'' \<or> is_hex c" if "c \<in> set s" for c
    using that h(2) by (auto simp: h_def no_dash_def list_all_iff)
  have hs: "is_hex c" if "c \<in> set h" for c using that h(2) by (auto simp: list_all_iff)
  have out: "c \<notin> {CHR ''u'', CHR ''+'', CHR ''{'', CHR ''}''}" if "c \<in> set s" for c
    using cs [OF that] is_hex_not [of c] by auto
  have r: "remove_all n ''urn:'' s = s" "remove_all n ''uuid:'' s = s" for n
    by (rule remove_all_absent; use out in fastforce)+
  have b: "dropWhile is_brace s = s" "dropWhile is_brace (rev s) = rev s"
    by (rule dropWhile_none; use out in \<open>fastforce simp: is_brace_def\<close>)+
  have asc: "ascii h" using hs hex_ascii by (auto simp: ascii_def)
  have strip: "py_strip h = h" by (rule py_strip_none [OF asc]) (use hs is_hex_not_space in auto)
  obtain x y zs where hxy: "h = x # y # zs"
    using h(1) by (cases h; cases "tl h") auto
  have xy: "is_hex x" "is_hex y" using hs hxy by auto
  have ne: "x \<noteq> CHR ''-''" "x \<noteq> CHR ''+''" "y \<noteq> CHR ''x''" "y \<noteq> CHR ''X''" using xy is_hex_not by auto
  have us: "CHR ''_'' \<notin> set h" using hs is_hex_not by fastforce
  have body: "hex_body h = h" using ne hxy by (simp add: hex_body_def)
  have ok: "hex_digits_ok h"
    unfolding hex_digits_ok_def split_on_absent [OF us]
    using h(1,2) by (auto simp: is_hex_any_def list_all_iff)
  have flt: "filter (\<lambda>c. c \<noteq> CHR ''_'') h = h" using us by (auto simp: filter_id_conv)
  have t1: "take 1 h \<noteq> ''-''" "take 1 h \<noteq> ''+''" using ne hxy by auto
  have i16: "int16 h = Some (int (hex_num h))"
    unfolding int16_def Let_def strip using t1 body ok flt by (simp add: hex_num_def)
  have num: "hex_num h < 16 ^ 32" "hex_text 32 (hex_num h) = h" using hex_num_text [OF h(2)] h(1) by auto
  have "int (hex_num h) < 2 ^ 128" using num(1) by simp
  moreover have "py_len h = 32" using chunks_ascii [OF asc] h(1) by (simp add: py_len_def)
  ultimately show ?thesis
    unfolding py_uuid_def Let_def r b rev_rev_ident no_dash_def [symmetric] h_def [symmetric]
    using i16 num(2) h(3) by simp
qed

end
