(* ===== verification/Security.thy ===== *)
theory Security
  imports JsonRoundtrip Digests PyTime
begin

text \<open>
  \<open>security.py\<close>: the boundary values whose constructors check identities, digests and certificate
  bundles, and the strict JSON helpers of the routes. A dataclass is a record and its
  \<open>__post_init__\<close> a function from the record to a result; the fields are typed, so the
  \<open>isinstance\<close> tests on them cannot fail in the model. \<open>ControllerRequestError(code, status)\<close>
  carries both arguments.
\<close>

section \<open>Identities\<close>

definition is_agent_id :: "string \<Rightarrow> bool" where
  "is_agent_id s \<longleftrightarrow>
     head_tail is_alnum (\<lambda>c. is_alnum c \<or> c = CHR ''.'' \<or> c = CHR ''_'' \<or> c = CHR ''-'') 127 s"

definition is_serial :: "string \<Rightarrow> bool" where
  "is_serial s \<longleftrightarrow> s \<noteq> [] \<and> length s \<le> 64 \<and> list_all is_hex_any s"

definition forbidden_keys :: "string list" where
  "forbidden_keys =
     [''api_key'', ''api_secret'', ''authorization'', ''client_secret'', ''credential'',
      ''db_password'', ''password'', ''private_key'', ''secret'', ''token'']"

definition routing_keys :: "string list" where
  "routing_keys =
     [''compose_file'', ''backend_service'', ''sites_path'', ''host_staging_path'',
      ''container_staging_path'', ''db_secret_ref'', ''command'', ''shell'', ''sql'']"

definition protocol_version :: string where
  "protocol_version = ''1.0''"

definition audience :: string where
  "audience = ''frappe-controller''"

definition max_request_bytes :: nat where
  "max_request_bytes = 1048576"

definition network_isolated_serial :: string where
  "network_isolated_serial = ''0''"

definition network_isolated_fingerprint :: string where
  "network_isolated_fingerprint = replicate 64 CHR ''0''"

definition require_agent_id :: "string \<Rightarrow> string result" where
  "require_agent_id s =
     bindE (require (is_agent_id s) (ValueError ''agent_id is invalid'')) (\<lambda>_. Inr s)"

record trusted_administrator =
  ta_actor_id :: string
  ta_authentication :: string

definition check_administrator :: "trusted_administrator \<Rightarrow> trusted_administrator result" where
  "check_administrator a =
     bindE (require (ta_actor_id a \<noteq> []) (ValueError ''administrator actor is invalid'')) (\<lambda>_.
     bindE (require (ta_authentication a \<in> set [''frappe_session'', ''service_token'', ''one_time_token''])
              (ValueError ''administrator authentication context is untrusted'')) (\<lambda>_. Inr a))"

record trusted_peer =
  tp_agent_id :: string
  tp_serial :: string
  tp_fingerprint :: string
  tp_verification :: string

definition check_peer :: "trusted_peer \<Rightarrow> trusted_peer result" where
  "check_peer p =
     bindE (require_agent_id (tp_agent_id p)) (\<lambda>_.
     bindE (require (is_serial (tp_serial p)) (ValueError ''certificate serial is invalid'')) (\<lambda>_.
     bindE (require (is_sha256 (tp_fingerprint p)) (ValueError ''certificate fingerprint is invalid''))
       (\<lambda>_. Inr p)))"

record verified_csr =
  vc_agent_id :: string
  vc_public_key :: string
  vc_csr_sha256 :: string
  vc_csr_der :: string

definition check_csr :: "verified_csr \<Rightarrow> verified_csr result" where
  "check_csr c =
     bindE (require_agent_id (vc_agent_id c)) (\<lambda>_.
     bindE (require (is_sha256 (vc_public_key c) \<and> is_sha256 (vc_csr_sha256 c))
              (ValueError ''verified CSR digests are invalid'')) (\<lambda>_.
     bindE (require (length (vc_csr_der c) \<le> 64 * 1024)
              (ValueError ''verified CSR payload is invalid'')) (\<lambda>_.
     bindE (require (vc_csr_der c = [] \<or> sha256_hex (vc_csr_der c) = vc_csr_sha256 c)
              (ValueError ''verified CSR digest does not match its payload'')) (\<lambda>_. Inr c))))"

definition utc :: "datetime \<Rightarrow> int result" where
  "utc d = (case d of Aware t \<Rightarrow> Inr t | Naive _ \<Rightarrow> Inl (ValueError ''timestamp must be timezone-aware''))"

definition timestamp :: "datetime \<Rightarrow> string result" where
  "timestamp d = bindE (utc d) (\<lambda>t. Inr (micro_timestamp t))"

record issuance =
  ci_serial :: string
  ci_fingerprint :: string
  ci_public_key :: string
  ci_not_before :: datetime
  ci_not_after :: datetime
  ci_certificate_pem :: string
  ci_chain_pem :: string

definition check_issuance :: "issuance \<Rightarrow> issuance result" where
  "check_issuance i =
     bindE (require (is_serial (ci_serial i)) (ValueError ''issued certificate serial is invalid'')) (\<lambda>_.
     bindE (require (is_sha256 (ci_fingerprint i) \<and> is_sha256 (ci_public_key i))
              (ValueError ''issued certificate digest is invalid'')) (\<lambda>_.
     bindE (utc (ci_not_after i)) (\<lambda>na. bindE (utc (ci_not_before i)) (\<lambda>nb.
     bindE (require (\<not> na \<le> nb) (ValueError ''issued certificate validity is invalid'')) (\<lambda>_.
     bindE (require (\<not> contains ''PRIVATE KEY'' (ci_certificate_pem i)
                     \<and> \<not> contains ''PRIVATE KEY'' (ci_chain_pem i))
              (ValueError ''certificate response must never contain a private key'')) (\<lambda>_.
     bindE (require (contains ''BEGIN CERTIFICATE'' (ci_certificate_pem i))
              (ValueError ''issued certificate PEM is invalid'')) (\<lambda>_. Inr i)))))))"

section \<open>Strict JSON\<close>

definition request_error :: "string \<Rightarrow> exn" where
  "request_error code = ControllerRequestError code 400"

definition strict_object :: hook where
  "strict_object = strict_hook (request_error ''duplicate_json_key'')"

definition normalized_key :: "string \<Rightarrow> string" where
  "normalized_key k = replace_char (CHR ''-'') (CHR ''_'') (py_casefold k)"

fun validate_json :: "bool \<Rightarrow> bool \<Rightarrow> json \<Rightarrow> unit result" where
  "validate_json sens rout (JObj kvs) =
     eachE (\<lambda>(key, child).
       bindE (require (\<not> (sens \<and> list_ex (\<lambda>m. contains m (normalized_key key)) forbidden_keys))
                (request_error ''secret_field_rejected'')) (\<lambda>_.
       bindE (require (\<not> (rout \<and> normalized_key key \<in> set routing_keys))
                (request_error ''routing_field_rejected'')) (\<lambda>_.
       validate_json sens rout child))) kvs"
| "validate_json sens rout (JList xs) = eachE (validate_json sens rout) xs"
| "validate_json sens rout (JFloat f) =
     require (float_finite f) (request_error ''invalid_json'')"
| "validate_json sens rout v = Inr ()"

definition canonical_json :: "json \<Rightarrow> string result" where
  "canonical_json v = bindE (validate_json False False v) (\<lambda>_. dumpsE v)"

definition sha256_json :: "json \<Rightarrow> string result" where
  "sha256_json v = bindE (canonical_json v) (\<lambda>t. bindE (encodeE t) (\<lambda>b. Inr (sha256_hex b)))"

datatype raw_body = RawBytes string | RawText string | RawMapping "(string \<times> json) list" | RawOther

text \<open>The exceptions \<open>parse_exact_json\<close> turns into \<open>invalid_json\<close>.\<close>

definition invalid_text :: "exn \<Rightarrow> exn option" where
  "invalid_text e = (if e = JSONDecodeError \<or> e = UnicodeDecodeError
                     then Some (request_error ''invalid_json'') else None)"

definition decode_body :: "raw_body \<Rightarrow> nat \<Rightarrow> json result" where
  "decode_body raw limit =
     (case raw of
        RawBytes b \<Rightarrow>
          bindE (require (length b \<le> limit) (ControllerRequestError ''request_too_large'' 413)) (\<lambda>_.
          catchE invalid_text (bindE (decodeE b) (json_loads_with strict_object)))
      | RawText s \<Rightarrow>
          bindE (encodeE s) (\<lambda>b.
          bindE (require (length b \<le> limit) (ControllerRequestError ''request_too_large'' 413)) (\<lambda>_.
          catchE invalid_text (json_loads_with strict_object s)))
      | RawMapping kvs \<Rightarrow> Inr (JObj kvs)
      | RawOther \<Rightarrow> Inl (request_error ''invalid_json''))"

definition parse_exact_json :: "raw_body \<Rightarrow> string list \<Rightarrow> nat \<Rightarrow> (string \<times> json) list result" where
  "parse_exact_json raw wanted limit =
     bindE (decode_body raw limit) (\<lambda>decoded.
     case decoded of
       JObj kvs \<Rightarrow>
         bindE (require (jkeys kvs = set wanted) (request_error ''invalid_fields'')) (\<lambda>_.
         bindE (validate_json False False decoded) (\<lambda>_.
         bindE (canonical_json decoded) (\<lambda>t. bindE (encodeE t) (\<lambda>b.
         bindE (require (length b \<le> limit) (ControllerRequestError ''request_too_large'' 413)) (\<lambda>_.
         Inr kvs)))))
     | _ \<Rightarrow> Inl (request_error ''invalid_fields''))"

definition validate_common :: "(string \<times> json) list \<Rightarrow> string \<Rightarrow> string result" where
  "validate_common body path_agent =
     bindE (require (is_agent_id path_agent) (ControllerRequestError ''invalid_agent'' 404)) (\<lambda>_.
     bindE (require (py_eq (jget body ''protocol_version'') (JStr protocol_version))
              (request_error ''unsupported_protocol'')) (\<lambda>_.
     bindE (require (py_eq (jget body ''audience'') (JStr audience))
              (ControllerRequestError ''wrong_audience'' 403)) (\<lambda>_.
     bindE (require (py_eq (jget body ''agent_id'') (JStr path_agent))
              (ControllerRequestError ''agent_binding_mismatch'' 403)) (\<lambda>_.
     Inr path_agent))))"

section \<open>What a successful check gives\<close>

text \<open>Every key at every depth of a value.\<close>

fun all_keys :: "json \<Rightarrow> string set" where
  "all_keys (JObj kvs) = (\<Union>(k, v)\<in>set kvs. insert k (all_keys v))"
| "all_keys (JList xs) = (\<Union>x\<in>set xs. all_keys x)"
| "all_keys _ = {}"

definition sensitive_marker :: "string \<Rightarrow> bool" where
  "sensitive_marker k \<longleftrightarrow> (\<exists>m\<in>set forbidden_keys. contains m (normalized_key k))"

lemma validate_json_iff:
  "validate_json sens rout v = Inr () \<longleftrightarrow>
     finite_json v \<and> (sens \<longrightarrow> (\<forall>k\<in>all_keys v. \<not> sensitive_marker k))
       \<and> (rout \<longrightarrow> (\<forall>k\<in>all_keys v. normalized_key k \<notin> set routing_keys))"
proof (induction v rule: finite_json.induct)
  case (2 xs)
  then show ?case by (auto simp: result_simps list_all_iff)
next
  case (3 kvs)
  show ?case
    by (simp add: result_simps list_all_iff list_ex_iff case_prod_beta split: prod.splits)
       (use 3 in \<open>fastforce simp: sensitive_marker_def\<close>)
qed (auto simp: require_eq_Inr)

lemma canonical_json_eq: "canonical_json v = Inr t \<longleftrightarrow> finite_json v \<and> t = json_dumps v"
  by (auto simp: canonical_json_def dumpsE_def result_simps validate_json_iff)

lemma sha256_json_shape: "sha256_json v = Inr h \<Longrightarrow> is_sha256 h"
  by (auto simp: sha256_json_def result_simps)

lemma is_agent_id_not_Nil: "is_agent_id s \<Longrightarrow> s \<noteq> []"
  by (auto simp: is_agent_id_def head_tail_def)

text \<open>A CSR value that was accepted carries no payload or one with its own digest.\<close>

lemma check_csr_ok: "check_csr c = Inr c' \<Longrightarrow>
    c' = c \<and> is_agent_id (vc_agent_id c) \<and> is_sha256 (vc_public_key c)
    \<and> (vc_csr_der c = [] \<or> sha256_hex (vc_csr_der c) = vc_csr_sha256 c)"
  by (auto simp: check_csr_def require_agent_id_def result_simps)

lemma check_issuance_ok: "check_issuance i = Inr i' \<Longrightarrow>
    i' = i \<and> is_serial (ci_serial i) \<and> is_sha256 (ci_fingerprint i) \<and> is_sha256 (ci_public_key i)
    \<and> (\<exists>na nb. ci_not_after i = Aware na \<and> ci_not_before i = Aware nb \<and> nb < na)
    \<and> \<not> contains ''PRIVATE KEY'' (ci_certificate_pem i) \<and> \<not> contains ''PRIVATE KEY'' (ci_chain_pem i)"
  by (auto simp: check_issuance_def utc_def result_simps split: datetime.splits)

text \<open>Keys of an object the strict reader accepted are distinct at every depth.\<close>

lemma decode_body_keeps: "keeps strict_object"
  by (simp add: strict_object_def keeps_hooks)

end
