(* ===== verification/Negotiation.thy ===== *)
theory Negotiation
  imports Json
begin

text \<open>
  \<open>protocol_negotiation.py\<close>: the choice of the highest protocol version both sides reviewed, and
  \<open>operation_catalog.py\<close>: the catalog of operation keys and its insertion into the database.
\<close>

section \<open>Protocol versions\<close>

definition reviewed_versions :: "json" where
  "reviewed_versions = JList [JStr ''1.0'']"

definition max_protocol_versions :: nat where
  "max_protocol_versions = 8"

text \<open>\<open>0|[1-9][0-9]{0,3}\<close>, and the pair the version pattern captures.\<close>

definition version_part :: "string \<Rightarrow> bool" where
  "version_part s \<longleftrightarrow> s = ''0'' \<or>
     head_tail (\<lambda>c. is_digit c \<and> c \<noteq> CHR ''0'') is_digit 3 s"

definition version_key :: "string \<Rightarrow> (nat \<times> nat) result" where
  "version_key s =
     (case split_on (CHR ''.'') s of
        [a, b] \<Rightarrow>
          (if version_part a \<and> version_part b then Inr (digits_val a, digits_val b)
           else Inl (ProtocolNegotiationError ''invalid protocol version''))
      | _ \<Rightarrow> Inl (ProtocolNegotiationError ''invalid protocol version''))"

fun str_of :: "json \<Rightarrow> string" where
  "str_of (JStr s) = s"
| "str_of _ = []"

definition versions_of :: "json \<Rightarrow> string list result" where
  "versions_of value =
     (case value of
        JList xs \<Rightarrow>
          bindE (require (1 \<le> length xs \<and> length xs \<le> max_protocol_versions)
                   (ProtocolNegotiationError ''protocol version count is invalid'')) (\<lambda>_.
          bindE (require (list_all is_str xs)
                   (ProtocolNegotiationError ''protocol version is invalid'')) (\<lambda>_.
          bindE (mapE version_key (map str_of xs)) (\<lambda>keys.
          bindE (require (distinct (map str_of xs) \<and> keys = rev (sort keys))
                   (ProtocolNegotiationError ''protocol versions are not a unique highest-first set''))
            (\<lambda>_. Inr (map str_of xs)))))
      | _ \<Rightarrow> Inl (ProtocolNegotiationError ''protocol versions must be an array''))"

text \<open>\<open>max(common, key=_key)\<close>: every version of \<open>common\<close> has a key, since its list was checked.\<close>

definition key_of :: "string \<Rightarrow> nat \<times> nat" where
  "key_of s = (case version_key s of Inr k \<Rightarrow> k | Inl _ \<Rightarrow> (0, 0))"

fun max_by_key :: "string \<Rightarrow> string list \<Rightarrow> string" where
  "max_by_key v [] = v"
| "max_by_key v (w # ws) = max_by_key (if key_of v < key_of w then w else v) ws"

definition select_protocol_version :: "json \<Rightarrow> json \<Rightarrow> string result" where
  "select_protocol_version agent controller =
     bindE (versions_of agent) (\<lambda>offered.
     bindE (versions_of controller) (\<lambda>reviewed.
     case filter (\<lambda>v. v \<in> set reviewed) offered of
       [] \<Rightarrow> Inl (NoCommonProtocolVersion ''no common reviewed protocol version'')
     | v # vs \<Rightarrow> Inr (max_by_key v vs)))"

lemma max_by_key_in: "max_by_key v vs \<in> set (v # vs)"
  by (induction vs arbitrary: v) (auto split: if_splits)

lemma max_by_key_ge: "w \<in> set (v # vs) \<Longrightarrow> key_of w \<le> key_of (max_by_key v vs)"
proof (induction vs arbitrary: v w)
  case Nil
  then show ?case by simp
next
  case (Cons x xs)
  define u where "u = (if key_of v < key_of x then x else v)"
  have u: "key_of v \<le> key_of u" "key_of x \<le> key_of u" by (auto simp: u_def)
  have m: "key_of u \<le> key_of (max_by_key u xs)" using Cons.IH by simp
  have eq: "max_by_key v (x # xs) = max_by_key u xs" by (simp add: u_def)
  consider "w = v" | "w = x" | "w \<in> set xs" using Cons.prems by auto
  then show ?case
    unfolding eq by cases (use u m Cons.IH in \<open>auto intro: order_trans\<close>)
qed

lemma versions_of_keys:
  "versions_of value = Inr vs \<Longrightarrow> v \<in> set vs \<Longrightarrow> \<exists>k. version_key v = Inr k"
proof -
  assume ok: "versions_of value = Inr vs" and v: "v \<in> set vs"
  then obtain keys where m: "mapE version_key vs = Inr keys"
    by (auto simp: versions_of_def result_simps split: json.splits)
  have "list_all2 (\<lambda>x y. version_key x = Inr y) vs keys" using m unfolding mapE_eq_Inr .
  then show ?thesis using v by (auto simp: list_all2_conv_all_nth in_set_conv_nth)
qed

lemma select_version_member:
  assumes "select_protocol_version agent controller = Inr v"
  shows "\<exists>os rs. versions_of agent = Inr os \<and> versions_of controller = Inr rs
    \<and> v \<in> set os \<and> v \<in> set rs \<and> (\<forall>w\<in>set os \<inter> set rs. key_of w \<le> key_of v)"
proof -
  obtain os rs x xs where o: "versions_of agent = Inr os" and r: "versions_of controller = Inr rs"
    and f: "filter (\<lambda>v. v \<in> set rs) os = x # xs" and v: "v = max_by_key x xs"
    using assms by (auto simp: select_protocol_version_def result_simps neq_Nil_conv split: list.splits)
  have common: "set os \<inter> set rs = set (x # xs)" unfolding f [symmetric] by auto
  then have "v \<in> set os \<inter> set rs" using max_by_key_in v by blast
  moreover have "key_of w \<le> key_of v" if "w \<in> set os \<inter> set rs" for w
    using max_by_key_ge that common v by blast
  ultimately show ?thesis using o r by blast
qed

section \<open>The operation catalog\<close>

definition operation_types :: "(string \<times> string \<times> string) list" where
  "operation_types =
     [(''site.create'', ''Create Site (Compatibility)'', ''Site Lifecycle''),
      (''site.create_blank'', ''Create Blank Site'', ''Site Lifecycle''),
      (''site.create_from_backup'', ''Create Site from Backup'', ''Site Lifecycle''),
      (''site.backup'', ''Back Up Site'', ''Backup and Recovery''),
      (''site.verify'', ''Verify Site'', ''Backup and Recovery''),
      (''site.restore'', ''Restore Site'', ''Backup and Recovery''),
      (''site.reinstall'', ''Reinstall Site'', ''Site Lifecycle''),
      (''site.delete'', ''Delete Site'', ''Site Lifecycle''),
      (''site.migrate'', ''Migrate Site'', ''Site Lifecycle''),
      (''site.scheduler.enable'', ''Enable Scheduler'', ''Routine Operations''),
      (''site.scheduler.disable'', ''Disable Scheduler'', ''Routine Operations''),
      (''site.maintenance.enable'', ''Enable Maintenance Mode'', ''Routine Operations''),
      (''site.maintenance.disable'', ''Disable Maintenance Mode'', ''Routine Operations''),
      (''site.config.update'', ''Update Site Configuration'', ''Routine Operations''),
      (''site.config.set'', ''Set Site Configuration (Compatibility)'', ''Routine Operations''),
      (''data.update'', ''Update Site Data'', ''Data Updates''),
      (''data.update.break_glass'', ''Emergency Site Data Update'', ''Data Updates''),
      (''operation.cancel'', ''Cancel Operation'', ''Operation Control'')]"

definition operation_type_keys :: "string list" where
  "operation_type_keys = map fst operation_types"

text \<open>The Operation Type rows, each with its display name and category; \<open>None\<close> without the DocType.\<close>

type_synonym catalog_rows = "(string \<times> string \<times> string) list"

definition sync_row :: "catalog_rows \<Rightarrow> string \<times> string \<times> string \<Rightarrow> catalog_rows" where
  "sync_row rows entry = (if fst entry \<in> set (map fst rows) then rows else rows @ [entry])"

definition sync_operation_types :: "catalog_rows option \<Rightarrow> catalog_rows option" where
  "sync_operation_types db = map_option (\<lambda>rows. foldl sync_row rows operation_types) db"

lemma sync_row_keys: "fst ` set (foldl sync_row rows es) = fst ` set rows \<union> fst ` set es"
  by (induction es arbitrary: rows) (auto simp: sync_row_def image_iff)

lemma sync_row_keeps: "\<exists>new. foldl sync_row rows es = rows @ new \<and> set new \<subseteq> set es"
proof (induction es arbitrary: rows)
  case Nil
  show ?case by simp
next
  case (Cons e es)
  obtain new where "foldl sync_row (sync_row rows e) es = sync_row rows e @ new" "set new \<subseteq> set es"
    using Cons by blast
  then show ?case
    by (cases "fst e \<in> set (map fst rows)") (auto simp: sync_row_def [of rows e])
qed

lemma sync_row_present: "fst ` set es \<subseteq> fst ` set rows \<Longrightarrow> foldl sync_row rows es = rows"
  by (induction es) (auto simp: sync_row_def image_iff)

lemma sync_row_distinct: "distinct (map fst rows) \<Longrightarrow> distinct (map fst (foldl sync_row rows es))"
  by (induction es arbitrary: rows) (auto simp: sync_row_def)

end
