(* ===== verification/OperationService.thy ===== *)
theory OperationService
  imports Security
begin

text \<open>
  \<open>operation_service.py\<close>: the authoring of a single-target operation. The values are records, the
  repository the service is given is a record of functions on its state, the payload validator a
  function; \<open>author\<close> is \<open>OperationAuthoringService.author\<close> with the repository's state passed through.
\<close>

section \<open>Values\<close>

definition environments :: "string list" where
  "environments = [''development'', ''staging'', ''production'']"

definition sensitive_keys :: "string list" where
  "sensitive_keys = [''api_key'', ''credential'', ''encryption_key'', ''password'', ''private_key'',
     ''secret'', ''token'']"

record target_snapshot =
  ts_server_agent :: string
  ts_agent_id :: string
  ts_bench :: string
  ts_bench_id :: string
  ts_managed_site :: "string option"
  ts_site_domain :: "string option"
  ts_environment :: string
  ts_inventory_revision :: string
  ts_capabilities :: "string list"
  ts_agent_enabled :: bool
  ts_site_active :: bool

definition check_snapshot :: "target_snapshot \<Rightarrow> target_snapshot result" where
  "check_snapshot t =
     bindE (require (ts_server_agent t \<noteq> [] \<and> ts_agent_id t \<noteq> [] \<and> ts_bench t \<noteq> [] \<and> ts_bench_id t \<noteq> [])
              (OperationAuthoringError ''target identity is incomplete'')) (\<lambda>_.
     bindE (require (ts_environment t \<in> set environments)
              (OperationAuthoringError ''target environment is invalid'')) (\<lambda>_.
     bindE (require (is_sha256 (ts_inventory_revision t))
              (OperationAuthoringError ''target inventory revision is invalid'')) (\<lambda>_.
     bindE (require ((ts_managed_site t = None) = (ts_site_domain t = None))
              (OperationAuthoringError ''site identity must be complete or absent'')) (\<lambda>_. Inr t))))"

record approval_rule =
  ar_name :: string
  ar_environment :: string
  ar_pattern :: string
  ar_minimum :: int
  ar_backup :: bool
  ar_enabled :: bool

definition key_char :: "char \<Rightarrow> bool" where
  "key_char c \<longleftrightarrow> is_lower c \<or> is_digit c \<or> c = CHR ''_'' \<or> c = CHR ''.'' \<or> c = CHR ''-''"

text \<open>\<open>[a-z][a-z0-9_.-]*(?:\.\*)?\<close>.\<close>

definition operation_pattern_ok :: "string \<Rightarrow> bool" where
  "operation_pattern_ok s \<longleftrightarrow>
     (let p = (if ends_with ''.*'' s then take (length s - 2) s else s)
      in head_tail is_lower key_char (length p) p)"

definition check_rule :: "approval_rule \<Rightarrow> approval_rule result" where
  "check_rule r =
     bindE (require (ar_name r \<noteq> [] \<and> (ar_environment r \<in> set environments \<or> ar_environment r = ''any''))
              (OperationAuthoringError ''approval rule identity is invalid'')) (\<lambda>_.
     bindE (require (1 \<le> ar_minimum r)
              (OperationAuthoringError ''approval rule threshold is invalid'')) (\<lambda>_.
     bindE (require (operation_pattern_ok (ar_pattern r))
              (OperationAuthoringError ''approval operation pattern is invalid'')) (\<lambda>_. Inr r)))"

definition rule_matches :: "approval_rule \<Rightarrow> string \<Rightarrow> string \<Rightarrow> bool" where
  "rule_matches r env operation =
     (if \<not> ar_enabled r \<or> (ar_environment r \<noteq> ''any'' \<and> ar_environment r \<noteq> env) then False
      else if ends_with ''.*'' (ar_pattern r)
        then starts_with (butlast (ar_pattern r)) operation
        else operation = ar_pattern r)"

record authorization =
  au_payload :: "(string \<times> json) list"
  au_site_required :: bool
  au_destructive :: bool
  au_backup :: bool
  au_approval :: bool
  au_site_identity :: bool
  au_preview :: bool

type_synonym payload_validator = "string \<Rightarrow> (string \<times> json) list \<Rightarrow> authorization result"

record operation_request =
  rq_operation_id :: string
  rq_operation_type :: string
  rq_server_agent :: string
  rq_bench :: string
  rq_managed_site :: "string option"
  rq_payload :: "(string \<times> json) list"
  rq_preview_of :: "string option"
  rq_preview_hash :: "string option"
  rq_retry_of :: "string option"

record authored =
  ao_operation_id :: string
  ao_idempotency_key :: string
  ao_protocol_version :: string
  ao_server_agent :: string
  ao_agent_id :: string
  ao_bench :: string
  ao_bench_id :: string
  ao_managed_site :: "string option"
  ao_site_domain :: "string option"
  ao_operation_type :: string
  ao_payload_json :: string
  ao_payload_hash :: string
  ao_requested_by :: string
  ao_policy :: "string option"
  ao_approval_status :: string
  ao_required :: int
  ao_state :: string
  ao_inventory_revision :: string
  ao_target_key :: string
  ao_preview_of :: "string option"
  ao_preview_hash :: "string option"
  ao_retry_of :: "string option"

record 's authoring_repository =
  resolve_target :: "'s \<Rightarrow> string \<Rightarrow> string \<Rightarrow> string option \<Rightarrow> target_snapshot result"
  approval_rules :: "'s \<Rightarrow> approval_rule list result"
  create_operation :: "authored \<Rightarrow> 's \<Rightarrow> 's result"

section \<open>The payload\<close>

definition sensitive_key :: "string \<Rightarrow> bool" where
  "sensitive_key k \<longleftrightarrow>
     list_ex (\<lambda>m. contains m (replace_char (CHR ''-'') (CHR ''_'') (py_casefold k))) sensitive_keys"

fun has_sensitive_key :: "json \<Rightarrow> bool" where
  "has_sensitive_key (JObj kvs) = list_ex (\<lambda>(k, v). sensitive_key k \<or> has_sensitive_key v) kvs"
| "has_sensitive_key (JList xs) = list_ex has_sensitive_key xs"
| "has_sensitive_key _ = False"

definition canonical_payload :: "(string \<times> json) list \<Rightarrow> (string \<times> string) result" where
  "canonical_payload payload =
     bindE (require (\<not> has_sensitive_key (JObj payload))
              (OperationAuthoringError ''operation payload contains a sensitive field'')) (\<lambda>_.
     bindE (require (finite_json (JObj payload))
              (OperationAuthoringError ''operation payload is not canonical JSON'')) (\<lambda>_.
     bindE (encodeE (json_dumps (JObj payload))) (\<lambda>encoded.
     bindE (require (length encoded \<le> 256 * 1024)
              (OperationAuthoringError ''operation payload exceeds its size limit'')) (\<lambda>_.
     Inr (encoded, sha256_hex encoded)))))"

section \<open>The approval rule\<close>

definition rule_rank :: "string \<Rightarrow> approval_rule \<Rightarrow> bool \<times> bool \<times> nat" where
  "rule_rank env r = (ar_environment r = env, \<not> ends_with ''.*'' (ar_pattern r), py_len (ar_pattern r))"

text \<open>\<open>sort(reverse=True)\<close> keeps the order of equal ranks.\<close>

definition select_approval_rule ::
  "approval_rule list \<Rightarrow> string \<Rightarrow> string \<Rightarrow> approval_rule option result" where
  "select_approval_rule rules env operation =
     (let matching = filter (\<lambda>r. rule_matches r env operation) rules;
          ordered = rev (sort_key (rule_rank env) (rev matching))
      in case ordered of
           [] \<Rightarrow> Inr None
         | best # _ \<Rightarrow>
             bindE (require (length (filter (\<lambda>r. rule_rank env r = rule_rank env best) ordered) = 1)
                      (OperationAuthoringError ''approval policy selection is ambiguous''))
               (\<lambda>_. Inr (Some best)))"

section \<open>Authoring\<close>

text \<open>\<open>[a-z][a-z0-9_.-]{2,127}\<close>.\<close>

definition operation_type_ok :: "string \<Rightarrow> bool" where
  "operation_type_ok s \<longleftrightarrow> head_tail is_lower key_char 127 s \<and> 3 \<le> length s"

definition check_identity :: "operation_request \<Rightarrow> string \<Rightarrow> string result" where
  "check_identity req actor =
     bindE (require (actor \<noteq> []) (OperationAuthoringError ''authenticated actor is required'')) (\<lambda>_.
     bindE (of_option (OperationAuthoringError ''operation id must be a UUID'')
              (py_uuid (rq_operation_id req))) (\<lambda>operation_uuid.
     bindE (require (operation_uuid = py_lower (rq_operation_id req))
              (OperationAuthoringError ''operation id must be canonical'')) (\<lambda>_.
     bindE (require (operation_type_ok (rq_operation_type req))
              (OperationAuthoringError ''operation type is invalid'')) (\<lambda>_.
     Inr operation_uuid))))"

definition check_target :: "operation_request \<Rightarrow> target_snapshot \<Rightarrow> unit result" where
  "check_target req target =
     bindE (require (\<not> (\<not> ts_agent_enabled target
                        \<or> truthy (ts_managed_site target) \<and> \<not> ts_site_active target))
              (OperationAuthoringError ''operation target is inactive'')) (\<lambda>_.
     require (rq_operation_type req \<in> set (ts_capabilities target))
       (OperationAuthoringError ''operation is not supported by the target''))"

definition check_authorization :: "target_snapshot \<Rightarrow> authorization \<Rightarrow> unit result" where
  "check_authorization target a =
     bindE (require (\<not> (au_preview a \<and> (au_destructive a \<or> au_approval a)))
              (OperationAuthoringError ''pre-approval preview contract is invalid'')) (\<lambda>_.
     bindE (require (au_site_required a = (ts_managed_site target \<noteq> None))
              (OperationAuthoringError ''operation target kind does not match payload contract'')) (\<lambda>_.
     bindE (require (\<not> (au_site_identity a \<and>
                        (case ts_site_domain target of None \<Rightarrow> False
                         | Some d \<Rightarrow> \<not> py_eq (jget (au_payload a) ''domain'') (JStr d))))
              (OperationAuthoringError ''payload site does not match target snapshot'')) (\<lambda>_.
     require (\<not> (\<not> au_backup a \<and> au_destructive a))
       (OperationAuthoringError ''destructive operation requires a pre-operation backup''))))"

definition check_policy ::
  "target_snapshot \<Rightarrow> authorization \<Rightarrow> approval_rule option \<Rightarrow> unit result" where
  "check_policy target a policy =
     bindE (require (\<not> ((au_destructive a \<or> au_approval a) \<and> policy = None))
              (OperationAuthoringError ''operation requires an approval policy'')) (\<lambda>_.
     bindE (require (\<not> (ts_environment target = ''production'' \<and> policy = None \<and> \<not> au_preview a))
              (OperationAuthoringError ''production operation has no approval policy'')) (\<lambda>_.
     require (\<not> (case policy of None \<Rightarrow> False | Some p \<Rightarrow> ar_backup p \<and> \<not> au_backup a))
       (OperationAuthoringError ''approval policy requires a pre-operation backup'')))"

definition preview_lineage :: "operation_request \<Rightarrow> string option result" where
  "preview_lineage req =
     bindE (require ((rq_preview_of req = None) = (rq_preview_hash req = None))
              (OperationAuthoringError ''preview lineage is incomplete'')) (\<lambda>_.
     case rq_preview_of req of
       None \<Rightarrow> Inr None
     | Some p \<Rightarrow>
         bindE (require (rq_operation_type req \<in> set [''data.update'', ''data.update.break_glass''])
                  (OperationAuthoringError ''preview lineage is only valid for data updates'')) (\<lambda>_.
         bindE (of_option (OperationAuthoringError ''preview operation id must be a UUID'') (py_uuid p))
           (\<lambda>preview.
         bindE (require (preview = py_lower p \<and> is_sha256 (or_empty (rq_preview_hash req)))
                  (OperationAuthoringError ''preview lineage is invalid'')) (\<lambda>_. Inr (Some preview)))))"

definition json_opt :: "string option \<Rightarrow> json" where
  "json_opt x = (case x of None \<Rightarrow> JNull | Some s \<Rightarrow> JStr s)"

definition target_identity :: "string \<Rightarrow> target_snapshot \<Rightarrow> string result" where
  "target_identity operation_uuid target =
     encodeE (json_dumps (JList [JStr operation_uuid, JStr (ts_agent_id target),
       JStr (ts_bench_id target), json_opt (ts_managed_site target), JStr (ts_inventory_revision target)]))"

definition authored_operation ::
  "operation_request \<Rightarrow> string \<Rightarrow> string \<Rightarrow> target_snapshot \<Rightarrow> approval_rule option \<Rightarrow>
   string \<times> string \<Rightarrow> string option \<Rightarrow> string \<Rightarrow> authored" where
  "authored_operation req actor operation_uuid target policy payload preview identity =
     (let required = (case policy of None \<Rightarrow> 0 | Some p \<Rightarrow> ar_minimum p) in
      \<lparr>ao_operation_id = operation_uuid,
       ao_idempotency_key = ''controller:'' @ operation_uuid,
       ao_protocol_version = ''1.0'',
       ao_server_agent = ts_server_agent target,
       ao_agent_id = ts_agent_id target,
       ao_bench = ts_bench target,
       ao_bench_id = ts_bench_id target,
       ao_managed_site = ts_managed_site target,
       ao_site_domain = ts_site_domain target,
       ao_operation_type = rq_operation_type req,
       ao_payload_json = fst payload,
       ao_payload_hash = snd payload,
       ao_requested_by = actor,
       ao_policy = map_option ar_name policy,
       ao_approval_status = (if required \<noteq> 0 then ''pending'' else ''not_required''),
       ao_required = required,
       ao_state = ''awaiting_approval'',
       ao_inventory_revision = ts_inventory_revision target,
       ao_target_key = sha256_hex identity,
       ao_preview_of = preview,
       ao_preview_hash = rq_preview_hash req,
       ao_retry_of = rq_retry_of req\<rparr>)"

definition author ::
  "'s authoring_repository \<Rightarrow> payload_validator \<Rightarrow> operation_request \<Rightarrow> string \<Rightarrow> 's \<Rightarrow> (authored \<times> 's) result" where
  "author repo validator req actor st =
     bindE (check_identity req actor) (\<lambda>operation_uuid.
     bindE (resolve_target repo st (rq_server_agent req) (rq_bench req) (rq_managed_site req)) (\<lambda>target.
     bindE (check_target req target) (\<lambda>_.
     bindE (validator (rq_operation_type req) (rq_payload req)) (\<lambda>a.
     bindE (check_authorization target a) (\<lambda>_.
     bindE (if au_preview a then Inr None
            else bindE (approval_rules repo st) (\<lambda>rules.
                   select_approval_rule rules (ts_environment target) (rq_operation_type req))) (\<lambda>policy.
     bindE (check_policy target a policy) (\<lambda>_.
     bindE (canonical_payload (au_payload a)) (\<lambda>payload.
     bindE (preview_lineage req) (\<lambda>preview.
     bindE (target_identity operation_uuid target) (\<lambda>identity.
     let op = authored_operation req actor operation_uuid target policy payload preview identity in
     bindE (create_operation repo op st) (\<lambda>st'. Inr (op, st'))))))))))))"

section \<open>The rule that is chosen\<close>

definition ranked :: "approval_rule list \<Rightarrow> string \<Rightarrow> string \<Rightarrow> approval_rule list" where
  "ranked rules env operation =
     rev (sort_key (rule_rank env) (rev (filter (\<lambda>r. rule_matches r env operation) rules)))"

lemma set_ranked: "set (ranked rules env operation) = {r \<in> set rules. rule_matches r env operation}"
  by (auto simp: ranked_def)

lemma length_filter_ranked:
  "length (filter P (ranked rules env operation))
     = length (filter (\<lambda>r. rule_matches r env operation \<and> P r) rules)"
  by (simp add: ranked_def rev_filter [symmetric] filter_sort conj_commute)

lemma ranked_head:
  assumes "ranked rules env operation = b # bs" "r \<in> set rules" "rule_matches r env operation"
  shows "rule_rank env r \<le> rule_rank env b"
proof -
  have "sorted (map (rule_rank env) (rev (b # bs)))"
    unfolding assms(1) [symmetric] ranked_def rev_rev_ident by (rule sorted_sort_key)
  then have "\<forall>x\<in>set bs. rule_rank env x \<le> rule_rank env b"
    by (simp add: sorted_append)
  moreover have "r \<in> set (b # bs)"
    using assms(2,3) unfolding assms(1) [symmetric] set_ranked by simp
  ultimately show ?thesis by auto
qed

lemma two_indices: "2 \<le> length (filter P xs) \<Longrightarrow> \<exists>i j. i < j \<and> j < length xs \<and> P (xs ! i) \<and> P (xs ! j)"
proof -
  assume "2 \<le> length (filter P xs)"
  then have "2 \<le> card {i. i < length xs \<and> P (xs ! i)}" by (simp add: length_filter_conv_card)
  then have "\<not> (\<forall>i\<in>{i. i < length xs \<and> P (xs ! i)}. \<forall>j\<in>{i. i < length xs \<and> P (xs ! i)}. i = j)"
    by (subst card_le_Suc0_iff_eq [symmetric]) auto
  then obtain i j where ij: "i < length xs" "P (xs ! i)" "j < length xs" "P (xs ! j)" "i \<noteq> j"
    by auto
  show ?thesis
  proof (cases "i < j")
    case True
    then show ?thesis using ij by blast
  next
    case False
    then have "j < i" using ij(5) by simp
    then show ?thesis using ij by blast
  qed
qed

lemma select_Nil: "ranked rules env operation = [] \<Longrightarrow> select_approval_rule rules env operation = Inr None"
  by (simp add: select_approval_rule_def Let_def ranked_def)

lemma select_Cons: "ranked rules env operation = b # bs \<Longrightarrow>
   select_approval_rule rules env operation =
     (if length (filter (\<lambda>r. rule_rank env r = rule_rank env b) (b # bs)) = 1 then Inr (Some b)
      else Inl (OperationAuthoringError ''approval policy selection is ambiguous''))"
  unfolding select_approval_rule_def Let_def ranked_def by (simp add: require_def)

lemma select_Some:
  assumes "select_approval_rule rules env operation = Inr (Some b)"
  shows "b \<in> set rules \<and> rule_matches b env operation
    \<and> (\<forall>r\<in>set rules. rule_matches r env operation \<longrightarrow> r = b \<or> rule_rank env r < rule_rank env b)"
proof (cases "ranked rules env operation")
  case Nil
  then show ?thesis using assms select_Nil by simp
next
  case (Cons x xs)
  then have b: "x = b" and one: "length (filter (\<lambda>r. rule_rank env r = rule_rank env b) (b # xs)) = 1"
    using assms select_Cons [OF Cons] by (auto split: if_splits)
  then have none: "\<forall>r\<in>set xs. rule_rank env r \<noteq> rule_rank env b" by (simp add: filter_empty_conv)
  have mem: "set (b # xs) = {r \<in> set rules. rule_matches r env operation}"
    using set_ranked Cons b by metis
  have "r = b \<or> rule_rank env r < rule_rank env b"
    if "r \<in> set rules" "rule_matches r env operation" for r
  proof -
    have "r \<in> set (b # xs)" using that mem by auto
    then show ?thesis using none ranked_head [OF Cons that] b by (auto simp: order.order_iff_strict)
  qed
  moreover have "b \<in> set rules" "rule_matches b env operation" using mem by auto
  ultimately show ?thesis by blast
qed

lemma select_Inl:
  assumes "select_approval_rule rules env operation = Inl e"
  shows "e = OperationAuthoringError ''approval policy selection is ambiguous'' \<and>
    (\<exists>i j. i < j \<and> j < length rules \<and> rule_matches (rules ! i) env operation
       \<and> rule_matches (rules ! j) env operation \<and> rule_rank env (rules ! i) = rule_rank env (rules ! j)
       \<and> (\<forall>r\<in>set rules. rule_matches r env operation \<longrightarrow> rule_rank env r \<le> rule_rank env (rules ! i)))"
proof (cases "ranked rules env operation")
  case Nil
  then show ?thesis using assms select_Nil by simp
next
  case (Cons b bs)
  define same where "same = (\<lambda>r. rule_rank env r = rule_rank env b)"
  have e: "e = OperationAuthoringError ''approval policy selection is ambiguous''"
    and "length (filter same (b # bs)) \<noteq> 1"
    using assms select_Cons [OF Cons] by (auto simp: same_def split: if_splits)
  moreover have "1 \<le> length (filter same (b # bs))" by (simp add: same_def)
  ultimately have "2 \<le> length (filter same (ranked rules env operation))" unfolding Cons by linarith
  then obtain i j where ij: "i < j" "j < length rules" "rule_matches (rules ! i) env operation"
    "rule_matches (rules ! j) env operation" "same (rules ! i)" "same (rules ! j)"
    using two_indices [of "\<lambda>r. rule_matches r env operation \<and> same r" rules]
    unfolding length_filter_ranked by blast
  have "\<forall>r\<in>set rules. rule_matches r env operation \<longrightarrow> rule_rank env r \<le> rule_rank env (rules ! i)"
    using ranked_head [OF Cons] ij(5) by (simp add: same_def)
  moreover have "rule_rank env (rules ! i) = rule_rank env (rules ! j)" using ij by (simp add: same_def)
  ultimately show ?thesis using e ij by blast
qed

lemma select_None:
  "select_approval_rule rules env operation = Inr None \<longleftrightarrow> (\<forall>r\<in>set rules. \<not> rule_matches r env operation)"
proof (cases "ranked rules env operation")
  case Nil
  then show ?thesis using select_Nil set_ranked [of rules env operation] by auto
next
  case (Cons b bs)
  then show ?thesis using select_Cons [OF Cons] set_ranked [of rules env operation] by auto
qed

text \<open>
  C1: the approval rule of an operation. \<open>select_approval_rule\<close> answers no rule exactly where none
  matches; the rule it answers matches and outranks every other matching rule (exact environment
  before any, exact operation before a pattern, the longer pattern first); and it fails only as
  ambiguous, where two entries of the list match and share the highest rank.
\<close>

theorem select_rule_correct:
  "case select_approval_rule rules env operation of
     Inr None \<Rightarrow> \<forall>r\<in>set rules. \<not> rule_matches r env operation
   | Inr (Some b) \<Rightarrow> b \<in> set rules \<and> rule_matches b env operation
       \<and> (\<forall>r\<in>set rules. rule_matches r env operation \<longrightarrow> r = b \<or> rule_rank env r < rule_rank env b)
   | Inl e \<Rightarrow> e = OperationAuthoringError ''approval policy selection is ambiguous''
       \<and> (\<exists>i j. i < j \<and> j < length rules \<and> rule_matches (rules ! i) env operation
            \<and> rule_matches (rules ! j) env operation
            \<and> rule_rank env (rules ! i) = rule_rank env (rules ! j)
            \<and> (\<forall>r\<in>set rules. rule_matches r env operation
                 \<longrightarrow> rule_rank env r \<le> rule_rank env (rules ! i)))"
proof (cases "select_approval_rule rules env operation")
  case (Inl e)
  then show ?thesis using select_Inl [OF Inl] by simp
next
  case (Inr r)
  show ?thesis
  proof (cases r)
    case None
    then show ?thesis using Inr select_None [of rules env operation] by simp
  next
    case (Some b)
    then show ?thesis using Inr select_Some [of rules env operation b] by simp
  qed
qed

definition demo_rule :: "string \<Rightarrow> string \<Rightarrow> approval_rule" where
  "demo_rule env pat = \<lparr>ar_name = ''R'', ar_environment = env, ar_pattern = pat, ar_minimum = 2,
     ar_backup = True, ar_enabled = True\<rparr>"

lemma demo_rule_selected:
  "select_approval_rule [demo_rule ''any'' ''site.*'', demo_rule ''any'' ''site.delete''] ''staging'' ''site.delete''
     = Inr (Some (demo_rule ''any'' ''site.delete''))"
  by (simp add: select_approval_rule_def demo_rule_def rule_matches_def rule_rank_def string_defs
      less_prod_def' less_eq_prod_def)

theorem select_rule_correct_witness:
  "rule_matches (demo_rule ''any'' ''site.delete'') ''staging'' ''site.delete''
   \<and> rule_rank ''staging'' (demo_rule ''any'' ''site.*'') < rule_rank ''staging'' (demo_rule ''any'' ''site.delete'')"
  using select_rule_correct [of "[demo_rule ''any'' ''site.*'', demo_rule ''any'' ''site.delete'']" "''staging''"
      "''site.delete''"]
  by (simp add: demo_rule_selected) (simp add: demo_rule_def rule_matches_def string_defs)

section \<open>What was authored\<close>

lemma has_sensitive_key_iff: "has_sensitive_key v \<longleftrightarrow> (\<exists>k\<in>all_keys v. sensitive_key k)"
proof (induction v rule: has_sensitive_key.induct)
  case (1 kvs)
  then show ?case by (fastforce simp: list_ex_iff)
next
  case (2 xs)
  then show ?case by (auto simp: list_ex_iff)
qed auto

lemma canonical_payload_ok:
  "canonical_payload payload = Inr (t, h) \<Longrightarrow>
     t = json_dumps (JObj payload) \<and> h = sha256_hex t \<and> length t \<le> 256 * 1024
     \<and> (\<forall>k\<in>all_keys (JObj payload). \<not> sensitive_key k) \<and> finite_json (JObj payload)"
  by (auto simp: canonical_payload_def result_simps has_sensitive_key_iff simp del: all_keys.simps)

text \<open>The steps of a successful authoring.\<close>

lemma author_steps:
  assumes "author repo validator req actor st = Inr (op, st')"
  obtains u target a policy payload preview identity where
    "check_identity req actor = Inr u"
    "resolve_target repo st (rq_server_agent req) (rq_bench req) (rq_managed_site req) = Inr target"
    "check_target req target = Inr ()"
    "validator (rq_operation_type req) (rq_payload req) = Inr a"
    "check_authorization target a = Inr ()"
    "(if au_preview a then Inr None
      else bindE (approval_rules repo st) (\<lambda>rules.
             select_approval_rule rules (ts_environment target) (rq_operation_type req))) = Inr policy"
    "check_policy target a policy = Inr ()"
    "canonical_payload (au_payload a) = Inr payload"
    "preview_lineage req = Inr preview"
    "target_identity u target = Inr identity"
    "op = authored_operation req actor u target policy payload preview identity"
    "create_operation repo op st = Inr st'"
  using assms unfolding author_def bindE_eq_Inr Let_def by (elim exE conjE) simp

definition demo_uuid :: string where
  "demo_uuid = ''6ba7b811-9dad-41d1-80b4-00c04fd430c8''"

lemma demo_uuid_canonical: "is_uuid demo_uuid"
  by (simp add: demo_uuid_def is_uuid_def no_dash_def uuid_text_def is_hex_def is_digit_def)

definition demo_target :: target_snapshot where
  "demo_target = \<lparr>ts_server_agent = ''SA'', ts_agent_id = ''agent'', ts_bench = ''B'', ts_bench_id = ''b'',
     ts_managed_site = Some ''S'', ts_site_domain = Some ''a.b'', ts_environment = ''staging'',
     ts_inventory_revision = replicate 64 CHR ''a'', ts_capabilities = [''site.delete''],
     ts_agent_enabled = True, ts_site_active = True\<rparr>"

definition demo_authorization :: authorization where
  "demo_authorization = \<lparr>au_payload = [(''domain'', JStr ''a.b'')], au_site_required = True,
     au_destructive = True, au_backup = True, au_approval = False, au_site_identity = True,
     au_preview = False\<rparr>"

definition demo_request :: operation_request where
  "demo_request = \<lparr>rq_operation_id = demo_uuid, rq_operation_type = ''site.delete'',
     rq_server_agent = ''SA'', rq_bench = ''B'', rq_managed_site = Some ''S'', rq_payload = [],
     rq_preview_of = None, rq_preview_hash = None, rq_retry_of = None\<rparr>"

definition demo_repository :: "authored list authoring_repository" where
  "demo_repository = \<lparr>resolve_target = \<lambda>_ _ _ _. Inr demo_target,
     approval_rules = \<lambda>_. Inr [demo_rule ''any'' ''site.*'', demo_rule ''any'' ''site.delete''],
     create_operation = \<lambda>op ops. Inr (op # ops)\<rparr>"

lemma py_lower_demo: "py_lower demo_uuid = demo_uuid"
  by (simp add: demo_uuid_def string_defs)

lemma demo_authored:
  "\<exists>op. author demo_repository (\<lambda>_ _. Inr demo_authorization) demo_request ''alice'' [] = Inr (op, [op])"
proof -
  have i: "check_identity demo_request ''alice'' = Inr demo_uuid"
    using py_uuid_canonical [OF demo_uuid_canonical] py_lower_demo
    by (simp add: check_identity_def demo_request_def operation_type_ok_def key_char_def string_defs)
  have t: "check_target demo_request demo_target = Inr ()"
    by (simp add: check_target_def demo_request_def demo_target_def)
  have a: "check_authorization demo_target demo_authorization = Inr ()"
    by (simp add: check_authorization_def demo_target_def demo_authorization_def jget_def)
  have p: "check_policy demo_target demo_authorization (Some (demo_rule ''any'' ''site.delete'')) = Inr ()"
    by (simp add: check_policy_def demo_target_def demo_authorization_def)
  have c: "\<exists>x. canonical_payload (au_payload demo_authorization) = Inr x"
    by (simp add: canonical_payload_def demo_authorization_def sensitive_key_def sensitive_keys_def
        string_defs quote_str_def escape_char_def encodeE_def)
  have l: "preview_lineage demo_request = Inr None"
    by (simp add: preview_lineage_def demo_request_def)
  have d: "\<exists>x. target_identity demo_uuid demo_target = Inr x"
    by (simp add: target_identity_def demo_target_def demo_uuid_def json_opt_def quote_str_def
        escape_char_def encodeE_def numeral_eq_Suc)
  show ?thesis
    using i t a p c l d demo_rule_selected
    by (auto simp: author_def demo_repository_def demo_request_def demo_target_def demo_authorization_def Let_def)
qed

text \<open>
  C2: the policy behind an authored operation. A successful \<open>author\<close> resolved an enabled target that
  has the operation among its capabilities; a destructive operation has a pre-operation backup and
  a policy of at least one approval; every operation outside a pre-approval preview in production
  has a policy; a policy that wants a backup got one; and the operation is stored as awaiting
  approval, under the actor, with the snapshot's inventory revision.
\<close>

theorem author_policy:
  assumes ok: "author repo validator req actor st = Inr (op, st')"
    and rules: "\<And>rs r. approval_rules repo st = Inr rs \<Longrightarrow> r \<in> set rs \<Longrightarrow> check_rule r = Inr r"
  shows "\<exists>target a policy.
     resolve_target repo st (rq_server_agent req) (rq_bench req) (rq_managed_site req) = Inr target
   \<and> validator (rq_operation_type req) (rq_payload req) = Inr a
   \<and> ts_agent_enabled target \<and> rq_operation_type req \<in> set (ts_capabilities target)
   \<and> (truthy (ts_managed_site target) \<longrightarrow> ts_site_active target)
   \<and> (au_destructive a \<or> au_approval a \<longrightarrow> policy \<noteq> None)
   \<and> (au_destructive a \<longrightarrow> au_backup a)
   \<and> (ts_environment target = ''production'' \<longrightarrow> au_preview a \<or> policy \<noteq> None)
   \<and> ao_policy op = map_option ar_name policy
   \<and> (case policy of
        None \<Rightarrow> ao_required op = 0 \<and> ao_approval_status op = ''not_required''
      | Some p \<Rightarrow> rule_matches p (ts_environment target) (rq_operation_type req)
          \<and> (ar_backup p \<longrightarrow> au_backup a) \<and> 1 \<le> ao_required op \<and> ao_required op = ar_minimum p
          \<and> ao_approval_status op = ''pending'')
   \<and> ao_state op = ''awaiting_approval'' \<and> ao_requested_by op = actor \<and> actor \<noteq> []
   \<and> ao_inventory_revision op = ts_inventory_revision target
   \<and> create_operation repo op st = Inr st'"
proof -
  from ok obtain u target a policy payload preview identity where s:
    "check_identity req actor = Inr u"
    "resolve_target repo st (rq_server_agent req) (rq_bench req) (rq_managed_site req) = Inr target"
    "check_target req target = Inr ()"
    "validator (rq_operation_type req) (rq_payload req) = Inr a"
    "check_authorization target a = Inr ()"
    "(if au_preview a then Inr None
      else bindE (approval_rules repo st) (\<lambda>rules.
             select_approval_rule rules (ts_environment target) (rq_operation_type req))) = Inr policy"
    "check_policy target a policy = Inr ()"
    "op = authored_operation req actor u target policy payload preview identity"
    "create_operation repo op st = Inr st'"
    by (rule author_steps) blast
  have pol: "rule_matches p (ts_environment target) (rq_operation_type req) \<and> 1 \<le> ar_minimum p"
    if "policy = Some p" for p
  proof -
    obtain rs where rs: "approval_rules repo st = Inr rs"
      and sel: "select_approval_rule rs (ts_environment target) (rq_operation_type req) = Inr (Some p)"
      using s(6) unfolding \<open>policy = Some p\<close> by (auto simp: bindE_eq_Inr split: if_splits)
    have "p \<in> set rs" "rule_matches p (ts_environment target) (rq_operation_type req)"
      using select_Some [OF sel] by auto
    then show ?thesis using rules [OF rs, of p] by (auto simp: check_rule_def result_simps)
  qed
  have t: "ts_agent_enabled target" "rq_operation_type req \<in> set (ts_capabilities target)"
    "truthy (ts_managed_site target) \<longrightarrow> ts_site_active target"
    using s(3) by (auto simp: check_target_def result_simps)
  have au: "au_destructive a \<longrightarrow> au_backup a"
    using s(5) by (auto simp: check_authorization_def result_simps)
  have cp: "au_destructive a \<or> au_approval a \<longrightarrow> policy \<noteq> None"
    "ts_environment target = ''production'' \<longrightarrow> au_preview a \<or> policy \<noteq> None"
    "\<And>p. policy = Some p \<Longrightarrow> ar_backup p \<longrightarrow> au_backup a"
    using s(7) by (auto simp: check_policy_def result_simps)
  have act: "actor \<noteq> []" using s(1) by (auto simp: check_identity_def result_simps)
  show ?thesis
    using s(2,4,9) t au cp act pol unfolding s(8)
    by (intro exI [of _ target] exI [of _ a] exI [of _ policy])
       (auto simp: authored_operation_def Let_def split: option.splits)
qed

theorem author_policy_witness:
  "\<exists>op. author demo_repository (\<lambda>_ _. Inr demo_authorization) demo_request ''alice'' [] = Inr (op, [op])
     \<and> ao_approval_status op = ''pending''"
proof -
  obtain op where op: "author demo_repository (\<lambda>_ _. Inr demo_authorization) demo_request ''alice'' []
      = Inr (op, [op])"
    using demo_authored by blast
  have r: "check_rule r = Inr r" if "approval_rules demo_repository [] = Inr rs" "r \<in> set rs" for rs r
    using that by (auto simp: demo_repository_def demo_rule_def check_rule_def environments_def
        operation_pattern_ok_def key_char_def string_defs)
  have "\<exists>a policy. Inr demo_authorization = (Inr a :: authorization result)
      \<and> (au_destructive a \<or> au_approval a \<longrightarrow> policy \<noteq> None)
      \<and> (case policy of None \<Rightarrow> True | Some p \<Rightarrow> ao_approval_status op = ''pending'')"
    using author_policy [OF op] r by (fastforce split: option.splits)
  then have "ao_approval_status op = ''pending''"
    by (auto simp: demo_authorization_def)
  then show ?thesis using op by blast
qed

text \<open>
  C3: the payload of an authored operation. It is the canonical JSON of what the validator
  normalised, of at most 256 KiB, with no key at any depth that holds a sensitive marker; its hash
  is the SHA-256 digest of exactly that text; and reading the text back gives the payload with its
  keys in order, whenever the payload has no repeated key and no float.
\<close>

theorem author_payload:
  assumes "author repo validator req actor st = Inr (op, st')"
    and "validator (rq_operation_type req) (rq_payload req) = Inr a"
  shows "ao_payload_json op = json_dumps (JObj (au_payload a))
    \<and> ao_payload_hash op = sha256_hex (ao_payload_json op)
    \<and> length (ao_payload_json op) \<le> 262144
    \<and> (\<forall>k\<in>all_keys (JObj (au_payload a)). \<not> sensitive_key k)
    \<and> (plain_json (JObj (au_payload a)) \<longrightarrow>
         json_loads (ao_payload_json op) = Inr (canon (JObj (au_payload a))))"
proof -
  from assms(1) obtain u target b policy payload preview identity where
    "validator (rq_operation_type req) (rq_payload req) = Inr b"
    "canonical_payload (au_payload b) = Inr payload"
    "op = authored_operation req actor u target policy payload preview identity"
    by (rule author_steps) blast
  then have c: "canonical_payload (au_payload a) = Inr (ao_payload_json op, ao_payload_hash op)"
    using assms(2) by (simp add: authored_operation_def Let_def)
  show ?thesis
    using canonical_payload_ok [OF c] loads_dumps [OF keeps_hooks(1), of "JObj (au_payload a)"]
    by (auto simp: json_loads_def simp del: json_dumps.simps all_keys.simps plain_json.simps canon.simps)
qed

theorem author_payload_witness:
  "\<exists>op. author demo_repository (\<lambda>_ _. Inr demo_authorization) demo_request ''alice'' [] = Inr (op, [op])
     \<and> json_loads (ao_payload_json op) = Inr (JObj [(''domain'', JStr ''a.b'')])"
proof -
  obtain op where op: "author demo_repository (\<lambda>_ _. Inr demo_authorization) demo_request ''alice'' []
      = Inr (op, [op])"
    using demo_authored by blast
  have "json_loads (ao_payload_json op) = Inr (JObj [(''domain'', JStr ''a.b'')])"
  proof -
    have "plain_json (JObj (au_payload demo_authorization)) \<longrightarrow>
        json_loads (ao_payload_json op) = Inr (canon (JObj (au_payload demo_authorization)))"
      using author_payload [OF op refl] by blast
    then show ?thesis by (simp add: demo_authorization_def)
  qed
  then show ?thesis using op by blast
qed

end
