(* ===== verification/LifecycleAuthoring.thy ===== *)
theory LifecycleAuthoring
  imports OperationService
begin

text \<open>
  \<open>lifecycle_authoring.py\<close>: the normalisation of lifecycle payloads, the validator that
  \<open>OperationAuthoringService\<close> is given for them. The IDNA codec of Python is written out for ASCII
  text; what it makes of other text is the parameter \<open>idna\<close>.
\<close>

definition lifecycle_error :: exn where
  "lifecycle_error = OperationAuthoringError ''lifecycle payload is invalid''"

definition config_key_ok :: "string \<Rightarrow> bool" where
  "config_key_ok s \<longleftrightarrow> head_tail is_lower (\<lambda>c. is_lower c \<or> is_digit c \<or> c = CHR ''_'') 63 s"

definition create_backup_ops :: "string list" where
  "create_backup_ops = [''site.create'', ''site.create_from_backup'']"

definition base_only_ops :: "string list" where
  "base_only_ops =
     [''site.create_blank'', ''site.migrate'', ''site.scheduler.enable'', ''site.scheduler.disable'',
      ''site.maintenance.enable'', ''site.maintenance.disable'']"

definition destructive_ops :: "string list" where
  "destructive_ops = [''site.restore'', ''site.reinstall'', ''site.delete'']"

definition lifecycle_operations :: "string list" where
  "lifecycle_operations =
     create_backup_ops @ base_only_ops @ destructive_ops @ [''site.backup'', ''site.config.update'']"

text \<open>\<open>str.encode("idna")\<close>: ASCII text is kept when each label but the last has 1 to 63 bytes and the last
  fewer than 64.\<close>

definition idna_encode :: "(string \<Rightarrow> string option) \<Rightarrow> string \<Rightarrow> string option" where
  "idna_encode idna s =
     (if ascii s
      then (let ls = split_on (CHR ''.'') s in
            if list_all (\<lambda>l. 0 < length l \<and> length l < 64) (butlast ls) \<and> length (last ls) < 64
            then Some s else None)
      else idna s)"

definition rstrip_dots :: "string \<Rightarrow> string" where
  "rstrip_dots s = rev (dropWhile (\<lambda>c. c = CHR ''.'') (rev s))"

definition lifecycle_domain :: "(string \<Rightarrow> string option) \<Rightarrow> json \<Rightarrow> string result" where
  "lifecycle_domain idna value =
     (case value of
        JStr s \<Rightarrow>
          bindE (of_option lifecycle_error (idna_encode idna (py_lower (rstrip_dots s)))) (\<lambda>normalized.
          bindE (require (is_domain normalized) lifecycle_error) (\<lambda>_. Inr normalized))
      | _ \<Rightarrow> Inl lifecycle_error)"

definition jget_default :: "(string \<times> json) list \<Rightarrow> string \<Rightarrow> json \<Rightarrow> json" where
  "jget_default kvs k d = (case map_of kvs k of None \<Rightarrow> d | Some v \<Rightarrow> v)"

fun is_int :: "json \<Rightarrow> bool" where
  "is_int (JInt _) = True"
| "is_int _ = False"

fun int_of :: "json \<Rightarrow> int" where
  "int_of (JInt i) = i"
| "int_of _ = 0"

definition is_digest_json :: "json \<Rightarrow> bool" where
  "is_digest_json v = (case v of JStr s \<Rightarrow> is_sha256 s | _ \<Rightarrow> False)"

definition lifecycle_base ::
  "(string \<Rightarrow> string option) \<Rightarrow> (string \<times> json) list \<Rightarrow> string list \<Rightarrow> (string \<times> json) list result" where
  "lifecycle_base idna payload allowed =
     bindE (require (jkeys payload \<subseteq> set allowed \<and> ''domain'' \<in> jkeys payload) lifecycle_error) (\<lambda>_.
     let timeout = jget_default payload ''execution_timeout_seconds'' (JInt 3600) in
     bindE (require (is_int timeout \<and> 60 \<le> int_of timeout \<and> int_of timeout \<le> 86400) lifecycle_error) (\<lambda>_.
     let digest = jget payload ''expected_inventory_digest'' in
     bindE (require (digest = JNull \<or> is_digest_json digest) lifecycle_error) (\<lambda>_.
     bindE (lifecycle_domain idna (jget payload ''domain'')) (\<lambda>domain.
     Inr [(''domain'', JStr domain), (''execution_timeout_seconds'', timeout),
          (''expected_inventory_digest'', digest)]))))"

definition trimmed_text :: "json \<Rightarrow> nat \<Rightarrow> nat \<Rightarrow> json result" where
  "trimmed_text value lo hi =
     (case value of
        JStr s \<Rightarrow>
          bindE (require (lo \<le> py_len s \<and> py_len s \<le> hi \<and> s = py_strip s \<and> CHR 0x00 \<notin> set s)
                   lifecycle_error) (\<lambda>_. Inr value)
      | _ \<Rightarrow> Inl lifecycle_error)"

definition optional_text :: "json \<Rightarrow> nat \<Rightarrow> nat \<Rightarrow> json result" where
  "optional_text value lo hi = (if value = JNull then Inr JNull else trimmed_text value lo hi)"

fun is_bool :: "json \<Rightarrow> bool" where
  "is_bool (JBool _) = True"
| "is_bool _ = False"

definition bool_field :: "(string \<times> json) list \<Rightarrow> bool \<Rightarrow> string \<Rightarrow> (string \<times> json) result" where
  "bool_field payload d k =
     (let v = jget_default payload k (JBool d) in
      bindE (require (is_bool v) lifecycle_error) (\<lambda>_. Inr (k, v)))"

definition common_fields :: "string list" where
  "common_fields = [''domain'', ''execution_timeout_seconds'', ''expected_inventory_digest'']"

definition restore_fields :: "string list" where
  "restore_fields = [''template_name'', ''bucket_name'', ''backup_prefix'', ''restore_public_files'',
     ''restore_private_files'', ''restore_encryption_key'']"

definition backup_payload ::
  "(string \<Rightarrow> string option) \<Rightarrow> string \<Rightarrow> (string \<times> json) list \<Rightarrow> (string \<times> json) list result" where
  "backup_payload idna operation payload =
     bindE (lifecycle_base idna payload
       (common_fields @ restore_fields
        @ (if operation \<in> set destructive_ops then [''confirmation'', ''pre_operation_backup''] else [])))
       (\<lambda>normalized.
     bindE (trimmed_text (jget payload ''template_name'') 1 253) (\<lambda>template.
     bindE (optional_text (jget payload ''bucket_name'') 3 63) (\<lambda>bucket.
     bindE (optional_text (jget payload ''backup_prefix'') 0 512) (\<lambda>prefix.
     bindE (mapE (bool_field payload False)
              [''restore_public_files'', ''restore_private_files'', ''restore_encryption_key'']) (\<lambda>flags.
     Inr (normalized @ [(''template_name'', template), (''bucket_name'', bucket), (''backup_prefix'', prefix)]
            @ flags))))))"

definition config_value_ok :: "json \<Rightarrow> unit result" where
  "config_value_ok value =
     (case value of
        JInt i \<Rightarrow> require (- (2 ^ 31) \<le> i \<and> i < 2 ^ 31) lifecycle_error
      | JBool _ \<Rightarrow> Inr ()
      | JStr s \<Rightarrow>
          bindE (require (s \<noteq> [] \<and> s = py_strip s) lifecycle_error) (\<lambda>_.
          bindE (encodeE s) (\<lambda>b.
          require (length b \<le> 2048 \<and> list_all (\<lambda>c. c \<notin> set s) [CHR 0x00, CHR 0x0A, CHR 0x0D]) lifecycle_error))
      | _ \<Rightarrow> Inl lifecycle_error)"

definition config_payload ::
  "(string \<Rightarrow> string option) \<Rightarrow> (string \<times> json) list \<Rightarrow> (string \<times> json) list result" where
  "config_payload idna payload =
     bindE (lifecycle_base idna payload (common_fields @ [''key'', ''value'', ''reason''])) (\<lambda>normalized.
     bindE (case jget payload ''key'' of
              JStr k \<Rightarrow> require (config_key_ok k \<and> \<not> list_ex (\<lambda>m. contains m (py_casefold k)) sensitive_keys)
                          lifecycle_error
            | _ \<Rightarrow> Inl lifecycle_error) (\<lambda>_.
     bindE (config_value_ok (jget payload ''value'')) (\<lambda>_.
     bindE (trimmed_text (jget payload ''reason'') 1 512) (\<lambda>reason.
     Inr (normalized @ [(''key'', jget payload ''key''), (''value'', jget payload ''value''), (''reason'', reason)])))))"

definition delete_payload ::
  "(string \<Rightarrow> string option) \<Rightarrow> (string \<times> json) list \<Rightarrow> (string \<times> json) list result" where
  "delete_payload idna payload =
     bindE (lifecycle_base idna payload
       (common_fields @ [''confirmation'', ''pre_operation_backup'', ''quarantine_days'', ''purge''])) (\<lambda>normalized.
     let days = jget_default payload ''quarantine_days'' (JInt 7) in
     bindE (require (is_int days \<and> 1 \<le> int_of days \<and> int_of days \<le> 90
                     \<and> jget_default payload ''purge'' (JBool False) = JBool False) lifecycle_error) (\<lambda>_.
     Inr (normalized @ [(''quarantine_days'', days), (''purge'', JBool False)])))"

definition normalized_payload ::
  "(string \<Rightarrow> string option) \<Rightarrow> string \<Rightarrow> (string \<times> json) list \<Rightarrow> (string \<times> json) list result" where
  "normalized_payload idna operation payload =
     (if operation \<in> set create_backup_ops \<or> operation \<in> set [''site.restore'', ''site.reinstall'']
      then backup_payload idna operation payload
      else if operation = ''site.backup''
      then bindE (lifecycle_base idna payload (common_fields @ [''with_files''])) (\<lambda>normalized.
           bindE (bool_field payload True ''with_files'') (\<lambda>f. Inr (normalized @ [f])))
      else if operation = ''site.delete'' then delete_payload idna payload
      else if operation = ''site.config.update'' then config_payload idna payload
      else lifecycle_base idna payload common_fields)"

definition confirmed_payload ::
  "(string \<Rightarrow> string option) \<Rightarrow> string \<Rightarrow> (string \<times> json) list \<Rightarrow> (string \<times> json) list \<Rightarrow> (string \<times> json) list result"
where
  "confirmed_payload idna operation payload normalized =
     (if operation \<in> set destructive_ops
      then bindE (lifecycle_domain idna (jget payload ''confirmation'')) (\<lambda>confirmation.
           bindE (require (jget normalized ''domain'' = JStr confirmation
                           \<and> jget payload ''pre_operation_backup'' = JBool True) lifecycle_error) (\<lambda>_.
           Inr (normalized @ [(''confirmation'', JStr confirmation), (''pre_operation_backup'', JBool True)])))
      else Inr normalized)"

definition validate_lifecycle_payload :: "(string \<Rightarrow> string option) \<Rightarrow> payload_validator" where
  "validate_lifecycle_payload idna operation payload =
     bindE (require (operation \<in> set lifecycle_operations)
              (OperationAuthoringError ''unsupported lifecycle operation'')) (\<lambda>_.
     bindE (normalized_payload idna operation payload) (\<lambda>base.
     bindE (confirmed_payload idna operation payload base) (\<lambda>normalized.
     Inr \<lparr>au_payload = normalized,
          au_site_required =
            (operation \<notin> set [''site.create'', ''site.create_blank'', ''site.create_from_backup'']),
          au_destructive = (operation \<in> set destructive_ops),
          au_backup = (jget_default normalized ''pre_operation_backup'' (JBool False) = JBool True),
          au_approval = False,
          au_site_identity = True,
          au_preview = False\<rparr>)))"

section \<open>Normalised domains\<close>

lemma split_on_not_Nil [simp]: "split_on c s \<noteq> []"
  by (induction s) (auto split: list.splits)

lemma split_on_chars: "x \<in> set s \<Longrightarrow> x = c \<or> (\<exists>l\<in>set (split_on c s). x \<in> set l)"
proof (induction s)
  case (Cons y ys)
  then show ?case by (cases "split_on c ys") auto
qed simp

lemma split_on_snoc: "split_on c (s @ [c]) = split_on c s @ [[]]"
  by (induction s) (auto split: list.splits)

definition domain_char :: "char \<Rightarrow> bool" where
  "domain_char c \<longleftrightarrow> is_lower c \<or> is_digit c \<or> c = CHR ''-'' \<or> c = CHR ''.''"

lemma is_domain_chars: "is_domain d \<Longrightarrow> c \<in> set d \<Longrightarrow> domain_char c"
  using split_on_chars [of c d "CHR ''.''"]
  by (auto simp: is_domain_def label_ok_def list_all_iff domain_char_def)

lemma domain_char_ascii: "domain_char c \<Longrightarrow> c < CHR 0x80 \<and> lower_char c = c"
  by (auto simp: domain_char_def is_lower_def is_digit_def lower_char_def less_char_def less_eq_char_def)

lemma py_lower_same: "ascii s \<Longrightarrow> (\<And>c. c \<in> set s \<Longrightarrow> lower_char c = c) \<Longrightarrow> py_lower s = s"
proof -
  assume a: "ascii s" and l: "\<And>c. c \<in> set s \<Longrightarrow> lower_char c = c"
  have "map lower_chunk (chunks s) = map (\<lambda>c. [c]) s"
    unfolding chunks_ascii [OF a] by (simp add: lower_chunk_def l)
  then show ?thesis by (simp add: py_lower_def)
qed

lemma is_domain_no_dot_end: "is_domain d \<Longrightarrow> rstrip_dots d = d"
proof (cases d rule: rev_cases)
  case Nil
  then show ?thesis by (simp add: rstrip_dots_def)
next
  case (snoc xs x)
  assume d: "is_domain d"
  have "x \<noteq> CHR ''.''"
  proof
    assume "x = CHR ''.''"
    then have "[] \<in> set (split_on (CHR ''.'') d)" unfolding snoc by (simp add: split_on_snoc)
    then show False using d by (auto simp: is_domain_def label_ok_def list_all_iff)
  qed
  then show ?thesis by (simp add: rstrip_dots_def snoc)
qed

lemma is_domain_label: "is_domain d \<Longrightarrow> l \<in> set (split_on (CHR ''.'') d) \<Longrightarrow> label_ok l"
  by (simp add: is_domain_def list_all_iff)

lemma idna_encode_domain: "is_domain d \<Longrightarrow> idna_encode idna d = Some d"
proof -
  assume d: "is_domain d"
  have "ascii d" using is_domain_chars [OF d] domain_char_ascii by (auto simp: ascii_def)
  moreover have "0 < length l \<and> length l < 64" if "l \<in> set (split_on (CHR ''.'') d)" for l
    using is_domain_label [OF d that] by (simp add: label_ok_def)
  ultimately show ?thesis
    by (auto simp: idna_encode_def Let_def list_all_iff dest: in_set_butlastD)
qed

lemma lifecycle_domain_fixed: "is_domain d \<Longrightarrow> lifecycle_domain idna (JStr d) = Inr d"
proof -
  assume d: "is_domain d"
  have "py_lower d = d"
    using is_domain_chars [OF d] domain_char_ascii by (intro py_lower_same) (auto simp: ascii_def)
  then show ?thesis
    using d by (simp add: lifecycle_domain_def is_domain_no_dot_end idna_encode_domain)
qed

lemma lifecycle_domain_ok: "lifecycle_domain idna v = Inr d \<Longrightarrow> is_domain d"
  by (auto simp: lifecycle_domain_def result_simps split: json.splits)

section \<open>What a validated payload holds\<close>

lemma jget_default_Cons [simp]:
  "jget_default ((k, v) # kvs) k' d = (if k = k' then v else jget_default kvs k' d)" "jget_default [] k' d = d"
  by (simp_all add: jget_default_def)

lemma lifecycle_base_ok:
  assumes "lifecycle_base idna payload allowed = Inr n"
  obtains d t g where
    "n = [(''domain'', JStr d), (''execution_timeout_seconds'', JInt t), (''expected_inventory_digest'', g)]"
    "is_domain d" "60 \<le> t" "t \<le> 86400" "g = JNull \<or> is_digest_json g" "jkeys payload \<subseteq> set allowed"
proof -
  have "\<exists>d t g. n = [(''domain'', JStr d), (''execution_timeout_seconds'', JInt t), (''expected_inventory_digest'', g)]
    \<and> is_domain d \<and> 60 \<le> t \<and> t \<le> 86400 \<and> (g = JNull \<or> is_digest_json g) \<and> jkeys payload \<subseteq> set allowed"
    using assms unfolding lifecycle_base_def Let_def
    by (cases "jget_default payload ''execution_timeout_seconds'' (JInt 3600)")
       (auto simp: result_simps dest: lifecycle_domain_ok)
  then show ?thesis using that by blast
qed

lemma lifecycle_base_again:
  assumes "is_domain d" "60 \<le> t" "t \<le> 86400" "g = JNull \<or> is_digest_json g" "set (map fst rest) \<subseteq> set allowed"
    and "set common_fields \<subseteq> set allowed"
  shows "lifecycle_base idna ((''domain'', JStr d) # (''execution_timeout_seconds'', JInt t)
      # (''expected_inventory_digest'', g) # rest) allowed
    = Inr [(''domain'', JStr d), (''execution_timeout_seconds'', JInt t), (''expected_inventory_digest'', g)]"
  using assms by (auto simp: lifecycle_base_def Let_def lifecycle_domain_fixed jkeys_def common_fields_def)

lemma trimmed_text_ok: "trimmed_text v lo hi = Inr w \<Longrightarrow> w = v \<and> v \<noteq> JNull"
  by (auto simp: trimmed_text_def result_simps split: json.splits)

lemma optional_text_ok: "optional_text v lo hi = Inr w \<Longrightarrow> w = v"
  by (auto simp: optional_text_def dest: trimmed_text_ok split: if_splits)

lemma bool_field_ok: "bool_field p d k = Inr f \<Longrightarrow> \<exists>b. f = (k, JBool b)"
  by (cases "jget_default p k (JBool d)") (auto simp: bool_field_def Let_def result_simps)

lemma bool_field_again [simp]: "jget_default p k (JBool d) = JBool b \<Longrightarrow> bool_field p d k = Inr (k, JBool b)"
  by (simp add: bool_field_def Let_def)

lemma mapE_bool_fields:
  "mapE (bool_field p d) [a, b, c] = Inr fs \<Longrightarrow> \<exists>x y z. fs = [(a, JBool x), (b, JBool y), (c, JBool z)]"
  by (auto simp: result_simps dest!: bool_field_ok)

text \<open>The fields a branch of the validator appends to the three common ones.\<close>

definition normal_head :: "(string \<times> json) list \<Rightarrow> bool" where
  "normal_head n \<longleftrightarrow> (\<exists>d t g rest.
     n = (''domain'', JStr d) # (''execution_timeout_seconds'', JInt t) # (''expected_inventory_digest'', g) # rest
     \<and> is_domain d \<and> 60 \<le> t \<and> t \<le> 86400 \<and> (g = JNull \<or> is_digest_json g))"

lemma normal_headI:
  "is_domain d \<Longrightarrow> 60 \<le> t \<Longrightarrow> t \<le> 86400 \<Longrightarrow> g = JNull \<or> is_digest_json g \<Longrightarrow>
   normal_head ((''domain'', JStr d) # (''execution_timeout_seconds'', JInt t) # (''expected_inventory_digest'', g) # rest)"
  by (auto simp: normal_head_def)

lemma normal_head_append: "normal_head n \<Longrightarrow> normal_head (n @ rest)"
  by (auto simp: normal_head_def)

lemma base_head: "lifecycle_base idna payload allowed = Inr n \<Longrightarrow> normal_head n"
  by (erule lifecycle_base_ok) (simp add: normal_headI)

lemma normalized_head: "normalized_payload idna operation payload = Inr n \<Longrightarrow> normal_head n"
  by (auto simp: normalized_payload_def backup_payload_def delete_payload_def config_payload_def Let_def
      bindE_eq_Inr simp del: mapE.simps dest!: base_head intro: normal_head_append split: if_splits)

lemma confirmed_cases:
  assumes "confirmed_payload idna operation payload base = Inr n"
  shows "if operation \<in> set destructive_ops
    then \<exists>c. lifecycle_domain idna (jget payload ''confirmation'') = Inr c \<and> is_domain c
       \<and> jget base ''domain'' = JStr c \<and> jget payload ''pre_operation_backup'' = JBool True
       \<and> n = base @ [(''confirmation'', JStr c), (''pre_operation_backup'', JBool True)]
    else n = base"
  using assms
  by (auto simp: confirmed_payload_def result_simps dest: lifecycle_domain_ok split: if_splits)

lemma jget_default_append:
  "jget_default (xs @ ys) k d = (if k \<in> jkeys xs then jget_default xs k d else jget_default ys k d)"
  by (induction xs) auto

lemma normalized_no_backup_key:
  "normalized_payload idna operation payload = Inr n \<Longrightarrow> ''pre_operation_backup'' \<notin> jkeys n"
  by (auto simp: normalized_payload_def backup_payload_def delete_payload_def config_payload_def Let_def
      bindE_eq_Inr require_eq_Inr simp del: mapE.simps
      dest!: mapE_bool_fields bool_field_ok elim!: lifecycle_base_ok split: if_splits)

text \<open>
  C4: what the lifecycle validator lets through. The domain is canonical, the timeout between a
  minute and a day; a destructive operation repeats the domain as its confirmation and asks for a
  backup, and is marked destructive and backed up; no other operation claims a backup.
\<close>

theorem lifecycle_validated:
  assumes "validate_lifecycle_payload idna operation payload = Inr a"
  shows "operation \<in> set lifecycle_operations
    \<and> (\<exists>d t. jget (au_payload a) ''domain'' = JStr d \<and> is_domain d
         \<and> jget (au_payload a) ''execution_timeout_seconds'' = JInt t \<and> 60 \<le> t \<and> t \<le> 86400)
    \<and> au_destructive a = (operation \<in> set destructive_ops) \<and> au_backup a = au_destructive a
    \<and> (au_destructive a \<longrightarrow>
         jget payload ''pre_operation_backup'' = JBool True
         \<and> lifecycle_domain idna (jget payload ''confirmation'')
           = lifecycle_domain idna (jget (au_payload a) ''domain''))"
proof -
  obtain base n where op: "operation \<in> set lifecycle_operations"
    and b: "normalized_payload idna operation payload = Inr base"
    and c: "confirmed_payload idna operation payload base = Inr n" and n: "au_payload a = n"
    and d: "au_destructive a = (operation \<in> set destructive_ops)"
    and bk: "au_backup a = (jget_default n ''pre_operation_backup'' (JBool False) = JBool True)"
    using assms by (auto simp: validate_lifecycle_payload_def result_simps)
  obtain dom t g rest where base: "base = (''domain'', JStr dom) # (''execution_timeout_seconds'', JInt t)
      # (''expected_inventory_digest'', g) # rest" "is_domain dom" "60 \<le> t" "t \<le> 86400"
    using normalized_head [OF b] by (auto simp: normal_head_def)
  show ?thesis
  proof (cases "operation \<in> set destructive_ops")
    case True
    then obtain cf where cf: "lifecycle_domain idna (jget payload ''confirmation'') = Inr cf" "is_domain cf"
      "jget base ''domain'' = JStr cf" "jget payload ''pre_operation_backup'' = JBool True"
      "n = base @ [(''confirmation'', JStr cf), (''pre_operation_backup'', JBool True)]"
      using confirmed_cases [OF c] by auto
    have "dom = cf" using cf(3) base(1) by simp
    moreover have "jget_default n ''pre_operation_backup'' (JBool False) = JBool True"
      using normalized_no_backup_key [OF b] unfolding cf(5) jget_default_append by simp
    ultimately show ?thesis
      using True op d bk cf base unfolding n by (simp add: lifecycle_domain_fixed)
  next
    case False
    then have "n = base" using confirmed_cases [OF c] by simp
    moreover have "map_of base ''pre_operation_backup'' = None"
      using normalized_no_backup_key [OF b] by (simp add: jkeys_def map_of_eq_None_iff)
    then have "jget_default base ''pre_operation_backup'' (JBool False) = JBool False"
      by (simp add: jget_default_def)
    ultimately show ?thesis using False op d bk base unfolding n by simp
  qed
qed

definition demo_delete :: "(string \<times> json) list" where
  "demo_delete = [(''domain'', JStr ''a.b''), (''confirmation'', JStr ''a.b''),
     (''pre_operation_backup'', JBool True)]"

lemma demo_domain: "lifecycle_domain idna (JStr ''a.b'') = Inr ''a.b''"
  by (rule lifecycle_domain_fixed) (simp add: string_defs)

lemma demo_delete_validated:
  "validate_lifecycle_payload idna ''site.delete'' demo_delete = Inr
     \<lparr>au_payload = [(''domain'', JStr ''a.b''), (''execution_timeout_seconds'', JInt 3600),
        (''expected_inventory_digest'', JNull), (''quarantine_days'', JInt 7), (''purge'', JBool False),
        (''confirmation'', JStr ''a.b''), (''pre_operation_backup'', JBool True)],
      au_site_required = True, au_destructive = True, au_backup = True, au_approval = False,
      au_site_identity = True, au_preview = False\<rparr>"
  by (simp add: validate_lifecycle_payload_def lifecycle_operations_def create_backup_ops_def base_only_ops_def
      destructive_ops_def normalized_payload_def delete_payload_def lifecycle_base_def demo_delete_def
      common_fields_def demo_domain confirmed_payload_def Let_def)

theorem lifecycle_validated_witness:
  "\<exists>a. validate_lifecycle_payload (\<lambda>_. None) ''site.delete'' demo_delete = Inr a \<and> au_destructive a \<and> au_backup a"
  using lifecycle_validated [OF demo_delete_validated [of "\<lambda>_. None"]] demo_delete_validated [of "\<lambda>_. None"] by auto

section \<open>The restore fields and the sensitive markers\<close>

definition restore_ops :: "string list" where
  "restore_ops = [''site.create'', ''site.create_from_backup'', ''site.restore'', ''site.reinstall'']"

lemma restore_key_sensitive: "sensitive_key ''restore_encryption_key''"
  by (simp add: sensitive_key_def sensitive_keys_def string_defs)

lemma restore_payload_key:
  assumes "operation \<in> set restore_ops" "validate_lifecycle_payload idna operation payload = Inr a"
  shows "''restore_encryption_key'' \<in> jkeys (au_payload a)"
proof -
  have "operation \<in> set create_backup_ops \<or> operation \<in> set [''site.restore'', ''site.reinstall'']"
    using assms(1) by (auto simp: restore_ops_def create_backup_ops_def)
  then obtain base where b: "backup_payload idna operation payload = Inr base"
    and c: "confirmed_payload idna operation payload base = Inr (au_payload a)"
    using assms(2) by (auto simp: validate_lifecycle_payload_def normalized_payload_def result_simps
        simp del: list.set)
  have "''restore_encryption_key'' \<in> jkeys base"
    using b by (auto simp: backup_payload_def bindE_eq_Inr simp del: mapE.simps dest!: mapE_bool_fields)
  then show ?thesis using confirmed_cases [OF c] by (auto split: if_splits)
qed

lemma all_keys_obj: "jkeys kvs \<subseteq> all_keys (JObj kvs)"
  by (auto simp: jkeys_def)

text \<open>
  C5: creating a site from a backup, restoring and reinstalling can never be authored. The validator
  always puts \<open>restore_encryption_key\<close> into their payload, and the sensitive marker
  \<open>encryption_key\<close> of the authoring service refuses any payload with such a key, so \<open>author\<close> fails for
  every payload, target and policy.
\<close>

theorem restore_never_authored:
  assumes "rq_operation_type req \<in> set restore_ops"
  shows "author repo (validate_lifecycle_payload idna) req actor st \<noteq> Inr (op, st')"
proof
  assume "author repo (validate_lifecycle_payload idna) req actor st = Inr (op, st')"
  then obtain a payload where v: "validate_lifecycle_payload idna (rq_operation_type req) (rq_payload req) = Inr a"
    and c: "canonical_payload (au_payload a) = Inr payload"
    by (rule author_steps) blast
  obtain t h where p: "payload = (t, h)" by (cases payload)
  have "\<forall>k\<in>all_keys (JObj (au_payload a)). \<not> sensitive_key k"
    using canonical_payload_ok [OF c [unfolded p]] by blast
  moreover have "''restore_encryption_key'' \<in> all_keys (JObj (au_payload a))"
    using restore_payload_key [OF assms v] all_keys_obj by blast
  ultimately show False using restore_key_sensitive by blast
qed

lemma demo_restore_validated: "is_ok (validate_lifecycle_payload idna ''site.restore''
    [(''domain'', JStr ''a.b''), (''template_name'', JStr ''t''), (''confirmation'', JStr ''a.b''),
     (''pre_operation_backup'', JBool True)])"
  by (simp add: validate_lifecycle_payload_def lifecycle_operations_def create_backup_ops_def base_only_ops_def
    destructive_ops_def normalized_payload_def backup_payload_def lifecycle_base_def common_fields_def
    restore_fields_def demo_domain confirmed_payload_def Let_def trimmed_text_def optional_text_def
    bool_field_def string_defs)

theorem restore_never_authored_witness:
  "(\<forall>op ops. author demo_repository (validate_lifecycle_payload (\<lambda>_. None))
      (demo_request\<lparr>rq_operation_type := ''site.restore''\<rparr>) ''alice'' [] \<noteq> Inr (op, ops))
   \<and> is_ok (validate_lifecycle_payload (\<lambda>_. None) ''site.restore''
        [(''domain'', JStr ''a.b''), (''template_name'', JStr ''t''), (''confirmation'', JStr ''a.b''),
         (''pre_operation_backup'', JBool True)])"
  using restore_never_authored [of "demo_request\<lparr>rq_operation_type := ''site.restore''\<rparr>" demo_repository
      "\<lambda>_. None" "''alice''" "[]"] demo_restore_validated
  by (simp add: restore_ops_def)

section \<open>Validating again\<close>

lemma normal_again:
  assumes "lifecycle_base idna p allowed = Inr n" "jkeys rest \<subseteq> set allowed" "set common_fields \<subseteq> set allowed"
  shows "lifecycle_base idna (n @ rest) allowed = Inr n"
  using assms(1)
proof (rule lifecycle_base_ok)
  fix d t g
  assume n: "n = [(''domain'', JStr d), (''execution_timeout_seconds'', JInt t), (''expected_inventory_digest'', g)]"
    and ok: "is_domain d" "60 \<le> t" "t \<le> 86400" "g = JNull \<or> is_digest_json g"
  show ?thesis
    using lifecycle_base_again [OF ok, of rest allowed] assms(2,3) unfolding n by (simp add: jkeys_def)
qed

lemma base_keys: "lifecycle_base idna p allowed = Inr n \<Longrightarrow> jkeys n = set common_fields"
  by (erule lifecycle_base_ok) (auto simp: common_fields_def)

lemma backup_again:
  assumes "backup_payload idna operation p = Inr n"
    and "jkeys rest \<subseteq> (if operation \<in> set destructive_ops then {''confirmation'', ''pre_operation_backup''} else {})"
  shows "backup_payload idna operation (n @ rest) = Inr n"
proof -
  define allowed where "allowed = common_fields @ restore_fields
    @ (if operation \<in> set destructive_ops then [''confirmation'', ''pre_operation_backup''] else [])"
  obtain b t bu pr fs where b: "lifecycle_base idna p allowed = Inr b"
    and t: "trimmed_text (jget p ''template_name'') 1 253 = Inr t"
    and bu: "optional_text (jget p ''bucket_name'') 3 63 = Inr bu"
    and pr: "optional_text (jget p ''backup_prefix'') 0 512 = Inr pr"
    and fs: "mapE (bool_field p False) [''restore_public_files'', ''restore_private_files'', ''restore_encryption_key''] = Inr fs"
    and n: "n = b @ [(''template_name'', t), (''bucket_name'', bu), (''backup_prefix'', pr)] @ fs"
    using assms(1) by (auto simp: backup_payload_def bindE_eq_Inr allowed_def simp del: mapE.simps)
  obtain x y z where fs': "fs = [(''restore_public_files'', JBool x), (''restore_private_files'', JBool y),
      (''restore_encryption_key'', JBool z)]"
    using mapE_bool_fields [OF fs] by blast
  have same: "t = jget p ''template_name''" "bu = jget p ''bucket_name''" "pr = jget p ''backup_prefix''"
    using trimmed_text_ok [OF t] optional_text_ok [OF bu] optional_text_ok [OF pr] by auto
  have bk: "jkeys b = {''domain'', ''execution_timeout_seconds'', ''expected_inventory_digest''}"
    using base_keys [OF b] by (simp add: common_fields_def)
  have al: "set allowed = set common_fields \<union> set restore_fields
      \<union> (if operation \<in> set destructive_ops then {''confirmation'', ''pre_operation_backup''} else {})"
    by (cases "operation \<in> set destructive_ops") (simp_all add: allowed_def insert_commute Un_assoc)
  have "jkeys ([(''template_name'', t), (''bucket_name'', bu), (''backup_prefix'', pr)] @ fs) \<subseteq> set restore_fields"
    by (simp add: fs' restore_fields_def)
  then have "jkeys (([(''template_name'', t), (''bucket_name'', bu), (''backup_prefix'', pr)] @ fs) @ rest) \<subseteq> set allowed"
    unfolding al jkeys_simps using assms(2) by blast
  then have "lifecycle_base idna (n @ rest) allowed = Inr b"
    unfolding n append_assoc using al by (intro normal_again [OF b]) auto
  moreover have "jget (n @ rest) ''template_name'' = t" "jget (n @ rest) ''bucket_name'' = bu"
    "jget (n @ rest) ''backup_prefix'' = pr"
    by (simp_all add: n fs' jget_append bk)
  moreover have "mapE (bool_field (n @ rest) False)
      [''restore_public_files'', ''restore_private_files'', ''restore_encryption_key''] = Inr fs"
    by (simp add: n fs' jget_default_append bk)
  moreover have "trimmed_text t 1 253 = Inr t" "optional_text bu 3 63 = Inr bu" "optional_text pr 0 512 = Inr pr"
    using t bu pr same by auto
  ultimately show ?thesis
    unfolding backup_payload_def allowed_def [symmetric] by (simp add: n del: mapE.simps)
qed

lemma delete_again:
  assumes "delete_payload idna p = Inr n" and "jkeys rest \<subseteq> {''confirmation'', ''pre_operation_backup''}"
  shows "delete_payload idna (n @ rest) = Inr n"
proof -
  define allowed where "allowed = common_fields @ [''confirmation'', ''pre_operation_backup'', ''quarantine_days'', ''purge'']"
  obtain b d where b: "lifecycle_base idna p allowed = Inr b" and d: "is_int d" "1 \<le> int_of d" "int_of d \<le> 90"
    and n: "n = b @ [(''quarantine_days'', d), (''purge'', JBool False)]"
    using assms(1) by (auto simp: delete_payload_def result_simps allowed_def Let_def)
  have bk: "jkeys b = {''domain'', ''execution_timeout_seconds'', ''expected_inventory_digest''}"
    using base_keys [OF b] by (simp add: common_fields_def)
  have "lifecycle_base idna (n @ rest) allowed = Inr b"
    unfolding n append_assoc
    by (rule normal_again [OF b]) (use assms(2) in \<open>auto simp: allowed_def\<close>)
  then show ?thesis
    unfolding delete_payload_def allowed_def [symmetric] by (simp add: n jget_default_append bk d Let_def)
qed

lemma config_again:
  assumes "config_payload idna p = Inr n"
  shows "config_payload idna n = Inr n"
proof -
  define allowed where "allowed = common_fields @ [''key'', ''value'', ''reason'']"
  obtain b r k where b: "lifecycle_base idna p allowed = Inr b" and r: "trimmed_text (jget p ''reason'') 1 512 = Inr r"
    and k: "jget p ''key'' = JStr k" "config_key_ok k" "\<not> list_ex (\<lambda>m. contains m (py_casefold k)) sensitive_keys"
    and v: "config_value_ok (jget p ''value'') = Inr ()"
    and n: "n = b @ [(''key'', jget p ''key''), (''value'', jget p ''value''), (''reason'', r)]"
    using assms by (auto simp: config_payload_def result_simps allowed_def split: json.splits)
  have bk: "jkeys b = {''domain'', ''execution_timeout_seconds'', ''expected_inventory_digest''}"
    using base_keys [OF b] by (simp add: common_fields_def)
  have "lifecycle_base idna n allowed = Inr b"
    unfolding n by (rule normal_again [OF b]) (auto simp: allowed_def)
  then show ?thesis
    using r trimmed_text_ok [OF r] k v unfolding config_payload_def allowed_def [symmetric]
    by (simp add: n jget_append bk)
qed

lemma files_again:
  assumes "lifecycle_base idna p (common_fields @ [''with_files'']) = Inr b" "bool_field p True ''with_files'' = Inr f"
  shows "lifecycle_base idna (b @ [f]) (common_fields @ [''with_files'']) = Inr b
    \<and> bool_field (b @ [f]) True ''with_files'' = Inr f"
proof
  obtain x where f: "f = (''with_files'', JBool x)" using bool_field_ok [OF assms(2)] by blast
  show "lifecycle_base idna (b @ [f]) (common_fields @ [''with_files'']) = Inr b"
    by (rule normal_again [OF assms(1)]) (auto simp: f)
  show "bool_field (b @ [f]) True ''with_files'' = Inr f"
    using base_keys [OF assms(1)] by (simp add: f jget_default_append common_fields_def)
qed

lemma normalized_again:
  assumes "normalized_payload idna operation p = Inr n"
    and "jkeys rest \<subseteq> (if operation \<in> set destructive_ops then {''confirmation'', ''pre_operation_backup''} else {})"
  shows "normalized_payload idna operation (n @ rest) = Inr n"
proof -
  have nil: "rest = []" if "operation \<notin> set destructive_ops"
    using assms(2) that by (cases rest) auto
  consider "operation \<in> set create_backup_ops \<or> operation \<in> set [''site.restore'', ''site.reinstall'']"
    | "operation = ''site.backup''" | "operation = ''site.delete''" | "operation = ''site.config.update''"
    | "operation \<notin> set create_backup_ops" "operation \<notin> set destructive_ops"
        "operation \<notin> {''site.backup'', ''site.config.update''}"
    unfolding destructive_ops_def by auto
  then show ?thesis
  proof cases
    case 1
    then show ?thesis using assms backup_again by (simp add: normalized_payload_def del: list.set)
  next
    case 2
    then show ?thesis
      using assms(1) nil files_again [of idna p]
      by (auto simp: normalized_payload_def create_backup_ops_def destructive_ops_def bindE_eq_Inr)
  next
    case 3
    then show ?thesis
      using assms delete_again [of idna p n rest]
      by (simp add: normalized_payload_def create_backup_ops_def destructive_ops_def)
  next
    case 4
    then show ?thesis
      using assms(1) nil config_again [of idna p n]
      by (simp add: normalized_payload_def create_backup_ops_def destructive_ops_def)
  next
    case 5
    then have r: "rest = []" using nil by blast
    have "lifecycle_base idna p common_fields = Inr n"
      using assms(1) 5 by (simp add: normalized_payload_def destructive_ops_def)
    then have "lifecycle_base idna (n @ []) common_fields = Inr n"
      by (rule normal_again) simp_all
    then show ?thesis using 5 r by (simp add: normalized_payload_def destructive_ops_def)
  qed
qed

lemma normalized_no_confirmation:
  "normalized_payload idna operation payload = Inr n \<Longrightarrow> ''confirmation'' \<notin> jkeys n"
  by (auto simp: normalized_payload_def backup_payload_def delete_payload_def config_payload_def Let_def
      bindE_eq_Inr require_eq_Inr simp del: mapE.simps
      dest!: mapE_bool_fields bool_field_ok elim!: lifecycle_base_ok split: if_splits)

text \<open>
  The validator is idempotent: what it normalised is accepted again as it is, so the agent,
  which applies the same rules to the payload it receives, sees the payload the controller hashed.
\<close>

theorem lifecycle_idempotent:
  assumes "validate_lifecycle_payload idna operation payload = Inr a"
  shows "validate_lifecycle_payload idna operation (au_payload a) = Inr a"
proof -
  obtain base n where op: "operation \<in> set lifecycle_operations"
    and b: "normalized_payload idna operation payload = Inr base"
    and c: "confirmed_payload idna operation payload base = Inr n"
    and a: "validate_lifecycle_payload idna operation payload = Inr a" "au_payload a = n"
    using assms by (auto simp: validate_lifecycle_payload_def result_simps)
  have again: "normalized_payload idna operation n = Inr base \<and> confirmed_payload idna operation n base = Inr n"
  proof (cases "operation \<in> set destructive_ops")
    case True
    then obtain cf where cf: "is_domain cf" "jget base ''domain'' = JStr cf"
      "n = base @ [(''confirmation'', JStr cf), (''pre_operation_backup'', JBool True)]"
      using confirmed_cases [OF c] by auto
    have "normalized_payload idna operation n = Inr base"
      unfolding cf(3) by (rule normalized_again [OF b]) (use True in auto)
    moreover have "jget n ''confirmation'' = JStr cf" "jget n ''pre_operation_backup'' = JBool True"
      using normalized_no_confirmation [OF b] normalized_no_backup_key [OF b]
      by (simp_all add: cf(3) jget_append)
    ultimately show ?thesis
      using True cf by (simp add: confirmed_payload_def lifecycle_domain_fixed)
  next
    case False
    then have "n = base" using confirmed_cases [OF c] by simp
    then show ?thesis
      using normalized_again [OF b, of "[]"] False by (simp add: confirmed_payload_def)
  qed
  then show ?thesis
    using a op b c by (simp add: validate_lifecycle_payload_def)
qed

theorem lifecycle_idempotent_witness:
  "\<exists>a. validate_lifecycle_payload (\<lambda>_. None) ''site.delete'' demo_delete = Inr a
     \<and> validate_lifecycle_payload (\<lambda>_. None) ''site.delete'' (au_payload a) = Inr a"
  using lifecycle_idempotent [OF demo_delete_validated [of "\<lambda>_. None"]] demo_delete_validated by blast

end
