(* ===== verification/Bulk.thy ===== *)
theory Bulk
  imports JsonRoundtrip Digests
begin

text \<open>
  \<open>bulk.py\<close>: the contracts of a bulk operation (selector, target snapshot, execution policy, plan),
  the digest of a plan, its waves, the aggregate of child states and the failure budget. A ratio is
  a Python float; the division of two counts is rounded to binary64 as Python does.
\<close>

section \<open>Identifiers\<close>

definition bulk_id :: "string \<Rightarrow> bool" where
  "bulk_id s \<longleftrightarrow>
     head_tail is_alnum (\<lambda>c. is_alnum c \<or> c \<in> set [CHR ''.'', CHR ''_'', CHR '':'', CHR ''-'']) 254 s"

definition bulk_environments :: "string list" where
  "bulk_environments = [''development'', ''staging'', ''production'']"

definition failure_states :: "string list" where
  "failure_states = [''failed'', ''timed_out'', ''dead_letter'', ''needs_intervention'', ''rejected'']"

definition bulk_terminal :: "string list" where
  "bulk_terminal = failure_states @ [''succeeded'', ''cancelled'']"

definition check_identifier :: "string \<Rightarrow> string \<Rightarrow> string result" where
  "check_identifier value what =
     bindE (require (bulk_id value) (BulkContractError (''invalid '' @ what))) (\<lambda>_. Inr value)"

definition check_digest :: "string \<Rightarrow> string \<Rightarrow> string result" where
  "check_digest value what =
     bindE (require (is_sha256 value) (BulkContractError (''invalid '' @ what))) (\<lambda>_. Inr value)"

definition unique_ids :: "string list \<Rightarrow> string \<Rightarrow> nat \<Rightarrow> string list result" where
  "unique_ids values what maximum =
     bindE (require (length values \<le> maximum) (BulkContractError (''invalid '' @ what))) (\<lambda>_.
     bindE (mapE (\<lambda>v. check_identifier v what) values) (\<lambda>normalized.
     bindE (require (distinct normalized) (BulkContractError (''duplicate '' @ what))) (\<lambda>_.
     Inr (sort normalized))))"

section \<open>Contracts\<close>

record bulk_selector =
  bs_sites :: "string list"
  bs_environment :: "string option"
  bs_agents :: "string list"
  bs_benches :: "string list"
  bs_labels :: "string list"

definition check_selector :: "bulk_selector \<Rightarrow> bulk_selector result" where
  "check_selector s =
     bindE (unique_ids (bs_sites s) ''site id'' 1000) (\<lambda>sites.
     bindE (unique_ids (bs_agents s) ''agent id'' 128) (\<lambda>agents.
     bindE (unique_ids (bs_benches s) ''bench id'' 128) (\<lambda>benches.
     bindE (unique_ids (bs_labels s) ''label'' 32) (\<lambda>labels.
     bindE (require (case bs_environment s of None \<Rightarrow> True | Some e \<Rightarrow> e \<in> set bulk_environments)
              (BulkContractError ''invalid environment'')) (\<lambda>_.
     bindE (require (sites \<noteq> [] \<or> truthy (bs_environment s) \<or> agents \<noteq> [] \<or> benches \<noteq> [] \<or> labels \<noteq> [])
              (BulkContractError ''bulk selector cannot match the entire fleet'')) (\<lambda>_.
     Inr (s\<lparr>bs_sites := sites, bs_agents := agents, bs_benches := benches, bs_labels := labels\<rparr>)))))))"

record target =
  bt_ordinal :: int
  bt_agent :: string
  bt_bench :: string
  bt_site :: string
  bt_domain :: string
  bt_environment :: string
  bt_revision :: string

definition check_target_snapshot :: "target \<Rightarrow> target result" where
  "check_target_snapshot t =
     bindE (require (0 \<le> bt_ordinal t) (BulkContractError ''invalid target ordinal'')) (\<lambda>_.
     bindE (check_identifier (bt_agent t) ''agent_id'') (\<lambda>_.
     bindE (check_identifier (bt_bench t) ''bench_id'') (\<lambda>_.
     bindE (check_identifier (bt_site t) ''site_id'') (\<lambda>_.
     bindE (require (bt_domain t = py_lower (bt_domain t) \<and> is_domain (bt_domain t))
              (BulkContractError ''invalid site domain'')) (\<lambda>_.
     bindE (require (bt_environment t \<in> set bulk_environments)
              (BulkContractError ''invalid target environment'')) (\<lambda>_.
     bindE (check_digest (bt_revision t) ''inventory revision'') (\<lambda>_. Inr t)))))))"

definition key_part :: "string \<Rightarrow> string" where
  "key_part v = nat_str (length v) @ '':'' @ v"

definition target_key :: "target \<Rightarrow> string" where
  "target_key t = join ''|'' (map key_part [bt_agent t, bt_bench t, bt_site t])"

record policy =
  bp_maximum_targets :: int
  bp_canary_size :: int
  bp_global :: int
  bp_per_agent :: int
  bp_per_bench :: int
  bp_max_failures :: int
  bp_max_ratio :: pyfloat

definition bounded :: "string \<times> int \<times> int \<times> int \<Rightarrow> unit result" where
  "bounded b = (case b of (what, value, lo, hi) \<Rightarrow>
     require (lo \<le> value \<and> value \<le> hi) (BulkContractError (''invalid '' @ what)))"

definition ratio_ok :: "pyfloat \<Rightarrow> bool" where
  "ratio_ok f = (case float_val f of None \<Rightarrow> False | Some x \<Rightarrow> 0 \<le> x \<and> x \<le> 1)"

definition check_execution_policy :: "policy \<Rightarrow> policy result" where
  "check_execution_policy p =
     bindE (eachE bounded
       [(''maximum_targets'', bp_maximum_targets p, 1, 1000),
        (''canary_size'', bp_canary_size p, 1, 100),
        (''global_concurrency'', bp_global p, 1, 256),
        (''per_agent_concurrency'', bp_per_agent p, 1, 64),
        (''per_bench_concurrency'', bp_per_bench p, 1, 32),
        (''maximum_failures'', bp_max_failures p, 0, 1000)]) (\<lambda>_.
     bindE (require (bp_canary_size p \<le> bp_maximum_targets p)
              (BulkContractError ''canary exceeds maximum targets'')) (\<lambda>_.
     bindE (require (bp_per_agent p \<le> bp_global p)
              (BulkContractError ''agent concurrency exceeds global concurrency'')) (\<lambda>_.
     bindE (require (bp_per_bench p \<le> bp_per_agent p)
              (BulkContractError ''bench concurrency exceeds agent concurrency'')) (\<lambda>_.
     bindE (require (ratio_ok (bp_max_ratio p))
              (BulkContractError ''invalid maximum failure ratio'')) (\<lambda>_. Inr p)))))"

record plan =
  pl_parent :: string
  pl_type :: string
  pl_payload_hash :: string
  pl_selector :: bulk_selector
  pl_targets :: "target list"
  pl_dry_run_hash :: string
  pl_policy :: policy
  pl_retry_of :: "string option"

definition check_plan :: "plan \<Rightarrow> plan result" where
  "check_plan p =
     bindE (check_identifier (pl_parent p) ''parent operation id'') (\<lambda>_.
     bindE (check_identifier (pl_type p) ''operation type'') (\<lambda>_.
     bindE (check_digest (pl_payload_hash p) ''payload hash'') (\<lambda>_.
     bindE (check_digest (pl_dry_run_hash p) ''dry-run hash'') (\<lambda>_.
     bindE (case pl_retry_of p of None \<Rightarrow> Inr [] | Some r \<Rightarrow> check_identifier r ''retry parent'') (\<lambda>_.
     bindE (require (pl_targets p \<noteq> []) (BulkContractError ''bulk plan requires targets'')) (\<lambda>_.
     bindE (require (int (length (pl_targets p)) \<le> bp_maximum_targets (pl_policy p))
              (BulkContractError ''bulk target count exceeds policy'')) (\<lambda>_.
     bindE (require (map bt_ordinal (pl_targets p) = map int [0..<length (pl_targets p)])
              (BulkContractError ''bulk targets must use deterministic contiguous order'')) (\<lambda>_.
     let keys = map target_key (pl_targets p); sel = pl_selector p in
     bindE (require (distinct keys) (BulkContractError ''bulk target snapshot contains duplicates'')) (\<lambda>_.
     bindE (require (keys = sort keys)
              (BulkContractError ''bulk target snapshot is not deterministically sorted'')) (\<lambda>_.
     bindE (require (case bs_environment sel of None \<Rightarrow> True
                     | Some e \<Rightarrow> list_all (\<lambda>t. bt_environment t = e) (pl_targets p))
              (BulkContractError ''target environment escapes selector'')) (\<lambda>_.
     bindE (require (\<not> (bs_environment sel = Some ''staging''
                        \<and> list_ex (\<lambda>t. bt_environment t = ''production'') (pl_targets p)))
              (BulkContractError ''staging selector cannot include production'')) (\<lambda>_.
     bindE (require (\<not> (bs_sites sel \<noteq> [] \<and> list_ex (\<lambda>t. bt_site t \<notin> set (bs_sites sel)) (pl_targets p)))
              (BulkContractError ''target escapes exact-site selector'')) (\<lambda>_.
     Inr p)))))))))))))"

definition waves :: "plan \<Rightarrow> target list list" where
  "waves p =
     (let n = min (nat (bp_canary_size (pl_policy p))) (length (pl_targets p));
          canary = take n (pl_targets p); remaining = drop n (pl_targets p)
      in if remaining = [] then [canary] else [canary, remaining])"

section \<open>The digest of a plan\<close>

definition json_strs :: "string list \<Rightarrow> json" where
  "json_strs xs = JList (map JStr xs)"

definition json_optional :: "string option \<Rightarrow> json" where
  "json_optional x = (case x of None \<Rightarrow> JNull | Some s \<Rightarrow> JStr s)"

definition selector_json :: "bulk_selector \<Rightarrow> json" where
  "selector_json s =
     JObj [(''exact_site_ids'', json_strs (bs_sites s)), (''environment'', json_optional (bs_environment s)),
           (''agent_ids'', json_strs (bs_agents s)), (''bench_ids'', json_strs (bs_benches s)),
           (''labels'', json_strs (bs_labels s))]"

definition target_json :: "target \<Rightarrow> json" where
  "target_json t =
     JObj [(''ordinal'', JInt (bt_ordinal t)), (''agent_id'', JStr (bt_agent t)), (''bench_id'', JStr (bt_bench t)),
           (''site_id'', JStr (bt_site t)), (''site_domain'', JStr (bt_domain t)),
           (''environment'', JStr (bt_environment t)), (''inventory_revision'', JStr (bt_revision t))]"

definition policy_json :: "policy \<Rightarrow> json" where
  "policy_json p =
     JObj [(''maximum_targets'', JInt (bp_maximum_targets p)), (''canary_size'', JInt (bp_canary_size p)),
           (''global_concurrency'', JInt (bp_global p)), (''per_agent_concurrency'', JInt (bp_per_agent p)),
           (''per_bench_concurrency'', JInt (bp_per_bench p)), (''maximum_failures'', JInt (bp_max_failures p)),
           (''maximum_failure_ratio'', JFloat (bp_max_ratio p))]"

definition plan_json :: "plan \<Rightarrow> json" where
  "plan_json p =
     JObj [(''version'', JInt 1), (''parent_operation_id'', JStr (pl_parent p)),
           (''operation_type'', JStr (pl_type p)), (''payload_hash'', JStr (pl_payload_hash p)),
           (''dry_run_hash'', JStr (pl_dry_run_hash p)), (''retry_of'', json_optional (pl_retry_of p)),
           (''selector'', selector_json (pl_selector p)), (''targets'', JList (map target_json (pl_targets p))),
           (''policy'', policy_json (pl_policy p))]"

definition canonical_bulk_hash :: "plan \<Rightarrow> string result" where
  "canonical_bulk_hash p =
     bindE (dumpsE (plan_json p)) (\<lambda>t. bindE (encodeE t) (\<lambda>b. Inr (sha256_hex b)))"

section \<open>Child states\<close>

record aggregate =
  ag_total :: int
  ag_planned :: int
  ag_queued :: int
  ag_running :: int
  ag_succeeded :: int
  ag_failed :: int
  ag_cancelled :: int
  ag_needs_intervention :: int

definition bucket_sum :: "aggregate \<Rightarrow> int" where
  "bucket_sum a = ag_planned a + ag_queued a + ag_running a + ag_succeeded a + ag_failed a
     + ag_cancelled a + ag_needs_intervention a"

definition check_aggregate :: "aggregate \<Rightarrow> aggregate result" where
  "check_aggregate a =
     bindE (require (list_all (\<lambda>v. 0 \<le> v)
              [ag_total a, ag_planned a, ag_queued a, ag_running a, ag_succeeded a, ag_failed a,
               ag_cancelled a, ag_needs_intervention a])
              (BulkContractError ''bulk aggregate counts must be non-negative integers'')) (\<lambda>_.
     bindE (require (bucket_sum a = ag_total a)
              (BulkContractError ''bulk aggregate buckets must equal total targets'')) (\<lambda>_. Inr a))"

definition empty_aggregate :: aggregate where
  "empty_aggregate = \<lparr>ag_total = 0, ag_planned = 0, ag_queued = 0, ag_running = 0, ag_succeeded = 0,
     ag_failed = 0, ag_cancelled = 0, ag_needs_intervention = 0\<rparr>"

definition count_state :: "string \<Rightarrow> aggregate \<Rightarrow> aggregate result" where
  "count_state state a0 =
     (let a = a0\<lparr>ag_total := ag_total a0 + 1\<rparr> in
      if state \<in> set [''timed_out'', ''dead_letter'', ''rejected''] then Inr (a\<lparr>ag_failed := ag_failed a + 1\<rparr>)
      else if state = ''awaiting_approval'' then Inr (a\<lparr>ag_planned := ag_planned a + 1\<rparr>)
      else if state = ''leased'' then Inr (a\<lparr>ag_running := ag_running a + 1\<rparr>)
      else if state = ''planned'' then Inr (a\<lparr>ag_planned := ag_planned a + 1\<rparr>)
      else if state = ''queued'' then Inr (a\<lparr>ag_queued := ag_queued a + 1\<rparr>)
      else if state = ''running'' then Inr (a\<lparr>ag_running := ag_running a + 1\<rparr>)
      else if state = ''succeeded'' then Inr (a\<lparr>ag_succeeded := ag_succeeded a + 1\<rparr>)
      else if state = ''failed'' then Inr (a\<lparr>ag_failed := ag_failed a + 1\<rparr>)
      else if state = ''cancelled'' then Inr (a\<lparr>ag_cancelled := ag_cancelled a + 1\<rparr>)
      else if state = ''needs_intervention''
        then Inr (a\<lparr>ag_needs_intervention := ag_needs_intervention a + 1\<rparr>)
      else Inl (BulkContractError ''unknown child state''))"

definition aggregate_child_states :: "string list \<Rightarrow> aggregate result" where
  "aggregate_child_states states = bindE (foldE count_state states empty_aggregate) check_aggregate"

definition is_failure :: "string \<Rightarrow> bool" where
  "is_failure s \<longleftrightarrow> s \<in> set failure_states"

definition is_terminal :: "string \<Rightarrow> bool" where
  "is_terminal s \<longleftrightarrow> s \<in> set bulk_terminal"

definition failure_ratio :: "nat \<Rightarrow> nat \<Rightarrow> rat" where
  "failure_ratio failures terminal = (if terminal = 0 then 0 else fl (of_nat failures / of_nat terminal))"

definition ratio_reached :: "rat \<Rightarrow> pyfloat \<Rightarrow> bool" where
  "ratio_reached x f = (case float_val f of Some r \<Rightarrow> x \<ge> r | None \<Rightarrow> f = FInf True)"

definition failure_budget_exhausted :: "string list \<Rightarrow> policy \<Rightarrow> bool" where
  "failure_budget_exhausted states p =
     (let failures = length (filter is_failure states); terminal = length (filter is_terminal states);
          count_exhausted = (0 < failures
             \<and> (bp_max_failures p = 0 \<or> int failures \<ge> bp_max_failures p));
          ratio_exhausted = (0 < failures
             \<and> ratio_reached (failure_ratio failures terminal) (bp_max_ratio p))
      in count_exhausted \<or> ratio_exhausted)"

section \<open>Target keys\<close>

lemma numeral_prefix:
  assumes "nat_str n @ CHR '':'' # x = nat_str m @ CHR '':'' # y"
  shows "n = m \<and> x = y"
proof -
  have tw: "takeWhile is_digit (nat_str k @ CHR '':'' # z) = nat_str k" for k z
    using nat_str_digits [of k] by (simp add: takeWhile_append list_all_iff is_digit_def)
  have "nat_str n = nat_str m" using tw [of n x] tw [of m y] assms by simp
  then have "n = m" by (metis digits_val_nat_str)
  then show ?thesis using assms by simp
qed

lemma key_part_prefix:
  assumes "key_part v @ x = key_part w @ y"
  shows "v = w \<and> x = y"
proof -
  have "nat_str (length v) @ CHR '':'' # v @ x = nat_str (length w) @ CHR '':'' # w @ y"
    using assms by (simp add: key_part_def)
  from numeral_prefix [OF this] show ?thesis using append_eq_append_conv [of v w x y] by simp
qed

lemma target_key_eq: "target_key a = target_key b \<longleftrightarrow>
    bt_agent a = bt_agent b \<and> bt_bench a = bt_bench b \<and> bt_site a = bt_site b"
proof
  assume eq: "target_key a = target_key b"
  have "key_part (bt_agent a) @ ''|'' @ key_part (bt_bench a) @ ''|'' @ key_part (bt_site a)
      = key_part (bt_agent b) @ ''|'' @ key_part (bt_bench b) @ ''|'' @ key_part (bt_site b)"
    using eq by (simp add: target_key_def)
  from key_part_prefix [OF this]
  have 1: "bt_agent a = bt_agent b" and "key_part (bt_bench a) @ ''|'' @ key_part (bt_site a)
      = key_part (bt_bench b) @ ''|'' @ key_part (bt_site b)" by simp_all
  from key_part_prefix [OF this(2)]
  have 2: "bt_bench a = bt_bench b" and 3: "key_part (bt_site a) @ [] = key_part (bt_site b) @ []" by simp_all
  show "bt_agent a = bt_agent b \<and> bt_bench a = bt_bench b \<and> bt_site a = bt_site b"
    using 1 2 key_part_prefix [OF 3] by simp
qed (simp add: target_key_def)

section \<open>Plans and waves\<close>

lemma eq_sort_sorted: "xs = sort xs \<Longrightarrow> sorted xs"
  by (metis sorted_sort)

lemma check_plan_ok:
  assumes "check_plan p = Inr p'"
  shows "p' = p \<and> pl_targets p \<noteq> [] \<and> int (length (pl_targets p)) \<le> bp_maximum_targets (pl_policy p)
    \<and> map bt_ordinal (pl_targets p) = map int [0..<length (pl_targets p)]
    \<and> distinct (map target_key (pl_targets p)) \<and> sorted (map target_key (pl_targets p))
    \<and> (\<forall>e. bs_environment (pl_selector p) = Some e \<longrightarrow> (\<forall>t\<in>set (pl_targets p). bt_environment t = e))
    \<and> (bs_sites (pl_selector p) \<noteq> [] \<longrightarrow> (\<forall>t\<in>set (pl_targets p). bt_site t \<in> set (bs_sites (pl_selector p))))"
  using assms unfolding check_plan_def Let_def bindE_eq_Inr require_eq_Inr
  by (auto simp: list_all_iff list_ex_iff dest: eq_sort_sorted)

lemma waves_concat: "concat (waves p) = pl_targets p"
  by (simp add: waves_def Let_def)

lemma check_execution_policy_ok:
  "check_execution_policy p = Inr p' \<Longrightarrow>
     p' = p \<and> 1 \<le> bp_canary_size p \<and> bp_canary_size p \<le> bp_maximum_targets p \<and> bp_maximum_targets p \<le> 1000
     \<and> 1 \<le> bp_per_bench p \<and> bp_per_bench p \<le> bp_per_agent p \<and> bp_per_agent p \<le> bp_global p \<and> bp_global p \<le> 256
     \<and> 0 \<le> bp_max_failures p \<and> ratio_ok (bp_max_ratio p)"
  by (auto simp: check_execution_policy_def result_simps bounded_def)

text \<open>
  C6: the waves of a plan. The canary wave comes first, is not empty and has at most the policy's
  canary size; the waves together are exactly the targets in their order; and no two targets of a
  plan name the same agent, bench and site.
\<close>

theorem waves_partition:
  assumes "check_plan p = Inr p'" "check_execution_policy (pl_policy p) = Inr pol"
  shows "concat (waves p) = pl_targets p
    \<and> (\<exists>canary rest. waves p = canary # rest \<and> canary \<noteq> [] \<and> length rest \<le> 1
         \<and> int (length canary) \<le> bp_canary_size (pl_policy p) \<and> [] \<notin> set rest)
    \<and> (\<forall>i j. i < length (pl_targets p) \<longrightarrow> j < length (pl_targets p) \<longrightarrow>
         (bt_agent (pl_targets p ! i), bt_bench (pl_targets p ! i), bt_site (pl_targets p ! i))
           = (bt_agent (pl_targets p ! j), bt_bench (pl_targets p ! j), bt_site (pl_targets p ! j)) \<longrightarrow> i = j)"
proof -
  have ne: "pl_targets p \<noteq> []" and d: "distinct (map target_key (pl_targets p))"
    using check_plan_ok [OF assms(1)] by auto
  have c: "1 \<le> bp_canary_size (pl_policy p)" using check_execution_policy_ok [OF assms(2)] by simp
  have "\<exists>canary rest. waves p = canary # rest \<and> canary \<noteq> [] \<and> length rest \<le> 1
         \<and> int (length canary) \<le> bp_canary_size (pl_policy p) \<and> [] \<notin> set rest"
    using ne c by (auto simp: waves_def Let_def)
  moreover have "i = j" if "i < length (pl_targets p)" "j < length (pl_targets p)"
    "target_key (pl_targets p ! i) = target_key (pl_targets p ! j)" for i j
    using d that nth_eq_iff_index_eq [OF d, of i j] by simp
  ultimately show ?thesis by (auto simp: waves_concat target_key_eq)
qed

section \<open>Counting child states\<close>

definition count_in :: "string list \<Rightarrow> string list \<Rightarrow> int" where
  "count_in bucket states = int (length (filter (\<lambda>s. s \<in> set bucket) states))"

definition child_states :: "string list" where
  "child_states = [''planned'', ''awaiting_approval'', ''queued'', ''running'', ''leased'', ''succeeded'',
     ''failed'', ''timed_out'', ''dead_letter'', ''rejected'', ''cancelled'', ''needs_intervention'']"

definition counted :: "string list \<Rightarrow> aggregate" where
  "counted states =
     \<lparr>ag_total = int (length states),
      ag_planned = count_in [''planned'', ''awaiting_approval''] states,
      ag_queued = count_in [''queued''] states,
      ag_running = count_in [''running'', ''leased''] states,
      ag_succeeded = count_in [''succeeded''] states,
      ag_failed = count_in [''failed'', ''timed_out'', ''dead_letter'', ''rejected''] states,
      ag_cancelled = count_in [''cancelled''] states,
      ag_needs_intervention = count_in [''needs_intervention''] states\<rparr>"

lemma count_state_counted:
  "count_state s (counted xs) =
     (if s \<in> set child_states then Inr (counted (xs @ [s])) else Inl (BulkContractError ''unknown child state''))"
proof (cases "s \<in> set child_states")
  case True
  then show ?thesis
    unfolding child_states_def
    by (simp only: list.set insert_iff empty_iff simp_thms, elim disjE)
       (simp_all add: count_state_def counted_def count_in_def Let_def child_states_def)
next
  case False
  then show ?thesis by (simp add: count_state_def child_states_def Let_def)
qed

lemma foldE_counted:
  "foldE count_state ys (counted xs) =
     (if set ys \<subseteq> set child_states then Inr (counted (xs @ ys))
      else Inl (BulkContractError ''unknown child state''))"
proof (induction ys arbitrary: xs)
  case Nil
  show ?case by simp
next
  case (Cons y ys)
  then show ?case
    using Cons.IH [of "xs @ [y]"] by (simp add: count_state_counted)
qed

lemma counted_sum: "set xs \<subseteq> set child_states \<Longrightarrow> bucket_sum (counted xs) = int (length xs)"
proof (induction xs)
  case Nil
  show ?case by (simp add: bucket_sum_def counted_def count_in_def)
next
  case (Cons x xs)
  have "bucket_sum (counted (x # xs)) = bucket_sum (counted xs) + 1"
    using Cons.prems unfolding child_states_def
    by (simp only: list.set insert_subset insert_iff empty_iff simp_thms, elim conjE disjE)
       (simp_all add: bucket_sum_def counted_def count_in_def)
  then show ?case using Cons by simp
qed

text \<open>
  The aggregate of a parent. Exactly when every child state is known,
  \<open>aggregate_child_states\<close> answers, and its buckets are the numbers of children in their states,
  add up to the total and the total is the number of children: the checks of
  \<open>BulkAggregate\<close> never fail on it.
\<close>

theorem aggregate_counts:
  "aggregate_child_states states =
     (if set states \<subseteq> set child_states then Inr (counted states)
      else Inl (BulkContractError ''unknown child state''))
   \<and> (set states \<subseteq> set child_states \<longrightarrow>
        bucket_sum (counted states) = ag_total (counted states)
        \<and> ag_total (counted states) = int (length states))"
proof -
  have e: "empty_aggregate = counted []"
    by (simp add: empty_aggregate_def counted_def count_in_def)
  have "check_aggregate (counted states) = Inr (counted states)" if "set states \<subseteq> set child_states"
    using counted_sum [OF that] by (simp add: check_aggregate_def counted_def count_in_def)
  moreover have "ag_total (counted states) = int (length states)" by (simp add: counted_def)
  ultimately show ?thesis
    using counted_sum [of states] by (simp add: aggregate_child_states_def e foldE_counted)
qed

theorem aggregate_counts_witness:
  "aggregate_child_states [''planned'', ''leased'', ''dead_letter''] = Inr (counted [''planned'', ''leased'', ''dead_letter''])
   \<and> bucket_sum (counted [''planned'', ''leased'', ''dead_letter'']) = 3"
  using aggregate_counts [of "[''planned'', ''leased'', ''dead_letter'']"] by (simp add: child_states_def counted_def)

section \<open>The failure budget\<close>

lemma fl_one: "fl 1 = 1"
proof -
  have q: "quotient_of 1 = (1, 1)" by simp
  have n: "nlog2 (Suc 0) = 0" by (simp add: nlog2.simps)
  have "round_half_even (4503599627370496 :: rat) = 4503599627370496"
    by (simp add: round_half_even_def Let_def)
  then show ?thesis by (simp add: fl_def q Let_def n pow2_def)
qed

lemma failure_is_terminal: "is_failure s \<Longrightarrow> is_terminal s"
  by (simp add: is_failure_def is_terminal_def bulk_terminal_def)

lemma budget_terminal_only:
  "failure_budget_exhausted (filter is_terminal states) p = failure_budget_exhausted states p"
proof -
  have "filter is_failure (filter is_terminal states) = filter is_failure states"
    using failure_is_terminal by (auto intro: filter_cong)
  then show ?thesis by (simp add: failure_budget_exhausted_def)
qed

text \<open>
  The failure budget. It looks at finished children only; it is never exhausted without a
  failure; as many failures as the policy's count exhaust it (a count of 0 meaning the first one);
  and it is exhausted when every finished child failed, whatever the policy's ratio.
\<close>

theorem failure_budget_bounds:
  "failure_budget_exhausted states p = failure_budget_exhausted (filter is_terminal states) p
   \<and> (filter is_failure states = [] \<longrightarrow> \<not> failure_budget_exhausted states p)
   \<and> (filter is_failure states \<noteq> [] \<and> int (length (filter is_failure states)) \<ge> bp_max_failures p
        \<longrightarrow> failure_budget_exhausted states p)
   \<and> (ratio_ok (bp_max_ratio p) \<and> filter is_failure states \<noteq> []
        \<and> filter is_failure states = filter is_terminal states \<longrightarrow> failure_budget_exhausted states p)"
proof -
  have r: "failure_ratio n n = 1" if "0 < n" for n
    using that by (simp add: failure_ratio_def fl_one)
  have "failure_budget_exhausted states p"
    if "ratio_ok (bp_max_ratio p)" "filter is_failure states \<noteq> []" "filter is_failure states = filter is_terminal states"
  proof -
    have pos: "0 < length (filter is_terminal states)" using that(2,3) by simp
    then show ?thesis
      using that r [OF pos]
      by (auto simp: failure_budget_exhausted_def Let_def ratio_reached_def ratio_ok_def split: option.splits)
  qed
  then show ?thesis
    by (auto simp: budget_terminal_only) (auto simp: failure_budget_exhausted_def Let_def)
qed

definition demo_policy :: policy where
  "demo_policy = \<lparr>bp_maximum_targets = 10, bp_canary_size = 1, bp_global = 4, bp_per_agent = 2,
     bp_per_bench = 1, bp_max_failures = 2, bp_max_ratio = Dec False 1 0\<rparr>"

lemma demo_ratio: "float_val (Dec False 1 0) = Some 1"
  by (simp add: pow10_def fl_one)

lemma demo_policy_ok: "check_execution_policy demo_policy = Inr demo_policy"
  using demo_ratio by (simp add: check_execution_policy_def demo_policy_def bounded_def ratio_ok_def)

theorem failure_budget_bounds_witness:
  "failure_budget_exhausted [''planned'', ''failed''] demo_policy
   \<and> \<not> failure_budget_exhausted [''succeeded'', ''planned''] demo_policy"
proof -
  have f: "filter is_failure [''planned'', ''failed''] = [''failed'']" "filter is_terminal [''planned'', ''failed''] = [''failed'']"
    "filter is_failure [''succeeded'', ''planned''] = []"
    by (simp_all add: is_failure_def is_terminal_def failure_states_def bulk_terminal_def)
  have r: "ratio_ok (bp_max_ratio demo_policy)" using demo_ratio by (simp add: demo_policy_def ratio_ok_def)
  show ?thesis
    using failure_budget_bounds [of "[''planned'', ''failed'']" demo_policy, THEN conjunct2]
      failure_budget_bounds [of "[''succeeded'', ''planned'']" demo_policy, THEN conjunct2] f r by simp
qed

definition plan_target :: "int \<Rightarrow> string \<Rightarrow> target" where
  "plan_target i s = \<lparr>bt_ordinal = i, bt_agent = ''a'', bt_bench = ''b'', bt_site = s, bt_domain = ''a.b'',
     bt_environment = ''staging'', bt_revision = replicate 64 CHR ''a''\<rparr>"

definition demo_plan :: plan where
  "demo_plan = \<lparr>pl_parent = ''p'', pl_type = ''site.backup'', pl_payload_hash = replicate 64 CHR ''a'',
     pl_selector = \<lparr>bs_sites = [], bs_environment = Some ''staging'', bs_agents = [], bs_benches = [], bs_labels = []\<rparr>,
     pl_targets = [plan_target 0 ''s'', plan_target 1 ''t''], pl_dry_run_hash = replicate 64 CHR ''b'',
     pl_policy = demo_policy, pl_retry_of = None\<rparr>"

lemma demo_bulk_keys: "target_key (plan_target 0 ''s'') = ''1:a|1:b|1:s''"
    "target_key (plan_target 1 ''t'') = ''1:a|1:b|1:t''"
  by (simp_all add: target_key_def plan_target_def key_part_def nat_str_small digit_char_def char_of_def bit_0)

lemma is_sha256_a: "is_sha256 (replicate 64 CHR ''a'')" "is_sha256 (replicate 64 CHR ''b'')"
  by (rule is_sha256_replicate, simp add: is_hex_def)+

lemma demo_plan_ok: "check_plan demo_plan = Inr demo_plan"
  using is_sha256_a
  by (simp add: check_plan_def demo_plan_def demo_policy_def demo_bulk_keys Let_def check_identifier_def
      check_digest_def bulk_id_def string_defs)
     (simp add: plan_target_def)

theorem waves_partition_witness:
  "concat (waves demo_plan) = pl_targets demo_plan \<and> waves demo_plan = [[plan_target 0 ''s''], [plan_target 1 ''t'']]"
  using waves_partition [OF demo_plan_ok, of demo_policy] demo_policy_ok
  by (simp add: waves_def demo_plan_def demo_policy_def Let_def)

end
