(* ===== verification/BulkSelection.thy ===== *)
theory BulkSelection
  imports Bulk "HOL-Library.Multiset"
begin

text \<open>
  \<open>bulk_selection.py\<close>: the resolution of a selector into an ordered snapshot. The repository's
  \<open>candidates\<close> is an argument, and the service checks what it returns; the theory shows that what
  \<open>resolve\<close> answers always satisfies the contract of \<open>BulkPlan\<close>.
\<close>

record site =
  ss_server_agent :: string
  ss_agent :: string
  ss_bench :: string
  ss_bench_id :: string
  ss_managed_site :: string
  ss_site_id :: string
  ss_domain :: string
  ss_environment :: string
  ss_revision :: string
  ss_labels :: "string list"
  ss_capabilities :: "string list"
  ss_agent_enabled :: bool
  ss_bench_enabled :: bool
  ss_site_enabled :: bool

record resolved =
  rs_selector :: bulk_selector
  rs_targets :: "target list"
  rs_counts :: "(string \<times> nat) list"
  rs_sites :: "site list"

definition check_site :: "bulk_selector \<Rightarrow> string \<Rightarrow> site \<Rightarrow> unit result" where
  "check_site sel operation row =
     bindE (require (ss_agent_enabled row \<and> ss_bench_enabled row \<and> ss_site_enabled row)
              (BulkContractError ''bulk target is disabled'')) (\<lambda>_.
     bindE (require (operation \<in> set (ss_capabilities row))
              (BulkContractError ''bulk target lacks required capability'')) (\<lambda>_.
     bindE (require (\<not> (bs_sites sel \<noteq> [] \<and> ss_site_id row \<notin> set (bs_sites sel)))
              (BulkContractError ''bulk target escapes exact-site selector'')) (\<lambda>_.
     bindE (require (\<not> (truthy (bs_environment sel) \<and> Some (ss_environment row) \<noteq> bs_environment sel))
              (BulkContractError ''bulk target escapes environment selector'')) (\<lambda>_.
     bindE (require (\<not> (bs_agents sel \<noteq> [] \<and> ss_agent row \<notin> set (bs_agents sel)))
              (BulkContractError ''bulk target escapes agent selector'')) (\<lambda>_.
     bindE (require (\<not> (bs_benches sel \<noteq> [] \<and> ss_bench_id row \<notin> set (bs_benches sel)))
              (BulkContractError ''bulk target escapes bench selector'')) (\<lambda>_.
     require (\<not> (bs_labels sel \<noteq> [] \<and> \<not> set (bs_labels sel) \<subseteq> set (ss_labels row)))
       (BulkContractError ''bulk target escapes label selector'')))))))"

text \<open>The loop that fills \<open>by_site\<close>.\<close>

definition scan_site ::
  "bulk_selector \<Rightarrow> string \<Rightarrow> site \<Rightarrow> (string \<times> site) list \<Rightarrow> (string \<times> site) list result" where
  "scan_site sel operation row by_site =
     bindE (require (ss_site_id row \<notin> set (map fst by_site))
              (BulkContractError ''bulk repository returned duplicate sites'')) (\<lambda>_.
     bindE (check_site sel operation row) (\<lambda>_. Inr (by_site @ [(ss_site_id row, row)])))"

definition snapshot_of :: "int \<Rightarrow> site \<Rightarrow> target" where
  "snapshot_of i row = \<lparr>bt_ordinal = i, bt_agent = ss_agent row, bt_bench = ss_bench_id row,
     bt_site = ss_site_id row, bt_domain = ss_domain row, bt_environment = ss_environment row,
     bt_revision = ss_revision row\<rparr>"

definition resolve ::
  "int \<Rightarrow> (bulk_selector \<Rightarrow> site list result) \<Rightarrow> bulk_selector \<Rightarrow> string \<Rightarrow> int \<Rightarrow> bool \<Rightarrow> resolved result" where
  "resolve system_maximum candidates sel operation policy_maximum mixed =
     bindE (require (1 \<le> policy_maximum \<and> policy_maximum \<le> system_maximum)
              (BulkContractError ''invalid bulk policy maximum'')) (\<lambda>_.
     bindE (candidates sel) (\<lambda>rows.
     bindE (require (rows \<noteq> []) (BulkContractError ''bulk selector resolved no targets'')) (\<lambda>_.
     bindE (require (\<not> (int (length rows) > policy_maximum \<or> int (length rows) > system_maximum))
              (BulkContractError ''bulk target count exceeds policy'')) (\<lambda>_.
     bindE (foldE (scan_site sel operation) rows []) (\<lambda>by_site.
     bindE (require (\<not> (bs_sites sel \<noteq> [] \<and> set (map fst by_site) \<noteq> set (bs_sites sel)))
              (BulkContractError ''one or more exact sites are unknown or disabled'')) (\<lambda>_.
     let environments = remdups (map ss_environment rows) in
     bindE (require (\<not> (bs_environment sel = Some ''staging'' \<and> ''production'' \<in> set environments))
              (BulkContractError ''staging selector included production'')) (\<lambda>_.
     bindE (require (\<not> (length environments > 1 \<and> \<not> mixed))
              (BulkContractError ''mixed-environment bulk selection is not authorized'')) (\<lambda>_.
     bindE (mapE (\<lambda>row. check_target_snapshot (snapshot_of 0 row)) rows) (\<lambda>provisional.
     let ordered = sort_key target_key provisional in
     bindE (mapE (\<lambda>(i, t). check_target_snapshot (t\<lparr>bt_ordinal := int i\<rparr>)) (enumerate 0 ordered)) (\<lambda>targets.
     bindE (mapE (\<lambda>t. of_option (KeyError (bt_site t)) (map_of by_site (bt_site t))) targets) (\<lambda>sites.
     Inr \<lparr>rs_selector = sel, rs_targets = targets,
          rs_counts = map (\<lambda>e. (e, length (filter (\<lambda>r. ss_environment r = e) rows))) (sort environments),
          rs_sites = sites\<rparr>)))))))))))"

section \<open>What is resolved\<close>

lemma scan_ok:
  assumes "foldE (scan_site sel operation) rows acc = Inr by_site" "distinct (map fst acc)"
  shows "by_site = acc @ map (\<lambda>r. (ss_site_id r, r)) rows \<and> distinct (map fst by_site)
    \<and> (\<forall>r\<in>set rows. check_site sel operation r = Inr ())"
  using assms
proof (induction rows arbitrary: acc)
  case Nil
  then show ?case by simp
next
  case (Cons r rows)
  have ok: "ss_site_id r \<notin> set (map fst acc)" "check_site sel operation r = Inr ()"
    and rest: "foldE (scan_site sel operation) rows (acc @ [(ss_site_id r, r)]) = Inr by_site"
    using Cons.prems(1) by (auto simp: scan_site_def [of sel operation r acc] result_simps)
  have "distinct (map fst (acc @ [(ss_site_id r, r)]))" using ok Cons.prems(2) by simp
  note ih = Cons.IH [OF rest this]
  show ?case
  proof (intro conjI)
    show "by_site = acc @ map (\<lambda>r. (ss_site_id r, r)) (r # rows)" using ih by simp
    show "distinct (map fst by_site)" using ih by blast
    show "\<forall>x\<in>set (r # rows). check_site sel operation x = Inr ()" using ih ok by simp
  qed
qed

lemma check_snapshot_same: "check_target_snapshot t = Inr t' \<Longrightarrow> t' = t"
  by (auto simp: check_target_snapshot_def result_simps)

lemma mapE_same:
  assumes "mapE f xs = Inr ys" "\<And>x y. x \<in> set xs \<Longrightarrow> f x = Inr y \<Longrightarrow> y = g x"
  shows "ys = map g xs"
  using assms
proof (induction xs arbitrary: ys)
  case (Cons x xs)
  then show ?case by (fastforce simp: bindE_eq_Inr)
qed simp

lemma target_key_ordinal [simp]: "target_key (t\<lparr>bt_ordinal := i\<rparr>) = target_key t"
  by (simp add: target_key_def)

text \<open>The parts of a successful resolution.\<close>

lemma resolve_parts:
  assumes "resolve sysmax candidates sel operation maxi mixed = Inr r"
  obtains rows where
    "candidates sel = Inr rows" "rows \<noteq> []" "int (length rows) \<le> maxi"
    "distinct (map ss_site_id rows)" "\<forall>x\<in>set rows. check_site sel operation x = Inr ()"
    "\<not> (bs_environment sel = Some ''staging'' \<and> ''production'' \<in> ss_environment ` set rows)"
    "rs_targets r = map (\<lambda>(i, t). t\<lparr>bt_ordinal := int i\<rparr>) (enumerate 0 (sort_key target_key (map (snapshot_of 0) rows)))"
    "mapE (\<lambda>t. of_option (KeyError (bt_site t)) (map_of (map (\<lambda>r. (ss_site_id r, r)) rows) (bt_site t))) (rs_targets r)
       = Inr (rs_sites r)"
    "rs_selector r = sel"
proof -
  obtain rows by_site provisional targets where
    rows: "candidates sel = Inr rows" "rows \<noteq> []" "int (length rows) \<le> maxi"
    and scan: "foldE (scan_site sel operation) rows [] = Inr by_site"
    and env: "\<not> (bs_environment sel = Some ''staging'' \<and> ''production'' \<in> ss_environment ` set rows)"
    and prov: "mapE (\<lambda>row. check_target_snapshot (snapshot_of 0 row)) rows = Inr provisional"
    and tgt: "mapE (\<lambda>(i, t). check_target_snapshot (t\<lparr>bt_ordinal := int i\<rparr>))
        (enumerate 0 (sort_key target_key provisional)) = Inr targets"
    and sites: "mapE (\<lambda>t. of_option (KeyError (bt_site t)) (map_of by_site (bt_site t))) targets = Inr (rs_sites r)"
    and r: "rs_targets r = targets" "rs_selector r = sel"
    using assms unfolding resolve_def Let_def bindE_eq_Inr require_eq_Inr by auto
  have s: "by_site = map (\<lambda>r. (ss_site_id r, r)) rows" "distinct (map ss_site_id rows)"
    "\<forall>x\<in>set rows. check_site sel operation x = Inr ()"
    using scan_ok [OF scan] by (auto simp: comp_def)
  have p: "provisional = map (snapshot_of 0) rows"
    by (rule mapE_same [OF prov]) (auto dest: check_snapshot_same)
  have t: "targets = map (\<lambda>(i, t). t\<lparr>bt_ordinal := int i\<rparr>) (enumerate 0 (sort_key target_key provisional))"
    by (rule mapE_same [OF tgt]) (auto dest: check_snapshot_same)
  show ?thesis
    using that [OF rows s(2,3) env t [unfolded p r(1) [symmetric]] sites [unfolded s(1) r(1) [symmetric]] r(2)] .
qed

lemma numbered: "map (\<lambda>(i, t). t\<lparr>bt_ordinal := int i\<rparr>) (enumerate 0 ts) = map2 (\<lambda>i t. t\<lparr>bt_ordinal := int i\<rparr>) [0..<length ts] ts"
  by (simp add: enumerate_eq_zip)

lemma map2_second: "length is = length ts \<Longrightarrow> (\<And>i t. g (f i t) = g t) \<Longrightarrow> map g (map2 f is ts) = map g ts"
  by (induction "is" ts rule: list_induct2) simp_all

lemma map2_first: "length is = length ts \<Longrightarrow> (\<And>i t. g (f i t) = h i) \<Longrightarrow> map g (map2 f is ts) = map h is"
  by (induction "is" ts rule: list_induct2) simp_all

lemma resolved_targets:
  assumes "resolve sysmax candidates sel operation maxi mixed = Inr r"
  obtains rows ts where "candidates sel = Inr rows" "rows \<noteq> []"
    "mset ts = mset (map (snapshot_of 0) rows)" "sorted (map target_key ts)"
    "rs_targets r = map2 (\<lambda>i t. t\<lparr>bt_ordinal := int i\<rparr>) [0..<length ts] ts"
    "length ts = length rows" "int (length rows) \<le> maxi"
    "distinct (map ss_site_id rows)" "\<forall>x\<in>set rows. check_site sel operation x = Inr ()"
    "\<not> (bs_environment sel = Some ''staging'' \<and> ''production'' \<in> ss_environment ` set rows)"
proof -
  obtain rows where rows: "candidates sel = Inr rows" "rows \<noteq> []" "int (length rows) \<le> maxi"
    "distinct (map ss_site_id rows)" "\<forall>x\<in>set rows. check_site sel operation x = Inr ()"
    "\<not> (bs_environment sel = Some ''staging'' \<and> ''production'' \<in> ss_environment ` set rows)"
    "rs_targets r = map (\<lambda>(i, t). t\<lparr>bt_ordinal := int i\<rparr>) (enumerate 0 (sort_key target_key (map (snapshot_of 0) rows)))"
    by (rule resolve_parts [OF assms]) blast
  define ts where "ts = sort_key target_key (map (snapshot_of 0) rows)"
  have "mset ts = mset (map (snapshot_of 0) rows)" "sorted (map target_key ts)" "length ts = length rows"
    by (simp_all add: ts_def)
  then show ?thesis
    using that [OF rows(1,2), of ts] rows(3-7) unfolding ts_def [symmetric] numbered by blast
qed

text \<open>The plan contract that the resolved targets meet.\<close>

lemma resolved_contract:
  assumes "resolve sysmax candidates sel operation maxi mixed = Inr r" and env: "bs_environment sel \<noteq> Some []"
  shows "rs_targets r \<noteq> []" "int (length (rs_targets r)) \<le> maxi"
    "map bt_ordinal (rs_targets r) = map int [0..<length (rs_targets r)]"
    "distinct (map target_key (rs_targets r))" "sorted (map target_key (rs_targets r))"
    "\<And>e. bs_environment sel = Some e \<Longrightarrow> \<forall>t\<in>set (rs_targets r). bt_environment t = e"
    "bs_sites sel \<noteq> [] \<Longrightarrow> \<forall>t\<in>set (rs_targets r). bt_site t \<in> set (bs_sites sel)"
proof -
  obtain rows ts where rows: "candidates sel = Inr rows" "rows \<noteq> []"
    and ts: "mset ts = mset (map (snapshot_of 0) rows)" "sorted (map target_key ts)"
    and r: "rs_targets r = map2 (\<lambda>i t. t\<lparr>bt_ordinal := int i\<rparr>) [0..<length ts] ts"
    and len: "length ts = length rows" "int (length rows) \<le> maxi"
    and d: "distinct (map ss_site_id rows)" and chk: "\<forall>x\<in>set rows. check_site sel operation x = Inr ()"
    by (rule resolved_targets [OF assms(1)]) blast
  have keys: "map target_key (rs_targets r) = map target_key ts"
    unfolding r by (rule map2_second) simp_all
  have field: "map g (rs_targets r) = map g ts" if "\<And>i t. g (t\<lparr>bt_ordinal := i\<rparr>) = g t" for g :: "target \<Rightarrow> string"
    unfolding r by (rule map2_second) (simp_all add: that)
  have set_ts: "set ts = snapshot_of 0 ` set rows" using ts(1) by (metis set_map set_mset_mset)
  show "rs_targets r \<noteq> []" using rows(2) len by (auto simp: r)
  show "int (length (rs_targets r)) \<le> maxi" using len by (simp add: r)
  show "map bt_ordinal (rs_targets r) = map int [0..<length (rs_targets r)]"
    unfolding r by (subst map2_first [where h = int]) simp_all
  have "mset (map bt_site ts) = mset (map bt_site (map (snapshot_of 0) rows))"
    using ts(1) by (metis mset_map)
  moreover have "map bt_site (map (snapshot_of 0) rows) = map ss_site_id rows" by (simp add: snapshot_of_def)
  ultimately have "distinct (map bt_site ts)" using d by (metis mset_eq_imp_distinct_iff)
  then have "distinct ts" "inj_on bt_site (set ts)" by (simp_all add: distinct_map)
  then have "inj_on target_key (set ts)" by (auto simp: inj_on_def target_key_eq)
  then show "distinct (map target_key (rs_targets r))" unfolding keys using \<open>distinct ts\<close> by (simp add: distinct_map)
  show "sorted (map target_key (rs_targets r))" unfolding keys by (rule ts(2))
  have ck: "ss_environment x = e" if "x \<in> set rows" "bs_environment sel = Some e" for x e
    using chk that env by (auto simp: check_site_def result_simps)
  have cs: "ss_site_id x \<in> set (bs_sites sel)" if "x \<in> set rows" "bs_sites sel \<noteq> []" for x
    using chk that by (auto simp: check_site_def result_simps)
  show "\<forall>t\<in>set (rs_targets r). bt_environment t = e" if "bs_environment sel = Some e" for e
  proof -
    have "set (map bt_environment (rs_targets r)) = bt_environment ` set ts"
      by (subst field) simp_all
    also have "\<dots> \<subseteq> {e}" using ck that by (auto simp: set_ts snapshot_of_def)
    finally show ?thesis by auto
  qed
  show "\<forall>t\<in>set (rs_targets r). bt_site t \<in> set (bs_sites sel)" if "bs_sites sel \<noteq> []"
  proof -
    have "set (map bt_site (rs_targets r)) = bt_site ` set ts"
      by (subst field) simp_all
    also have "\<dots> \<subseteq> set (bs_sites sel)" using cs that by (auto simp: set_ts snapshot_of_def)
    finally show ?thesis by auto
  qed
qed

text \<open>
  C7: what \<open>resolve\<close> answers is a valid plan. For a checked selector, any plan made of the resolved
  targets, with well-formed identifiers and a policy that allows as many targets as the resolution
  did, passes every check of \<open>BulkPlan\<close>; and every site of the repository's answer is in the
  resolution exactly once.
\<close>

theorem resolve_gives_plan:
  assumes res: "resolve sysmax candidates sel operation maxi mixed = Inr r"
    and sel: "check_selector raw = Inr sel"
    and p: "pl_targets p = rs_targets r" "pl_selector p = sel" "maxi \<le> bp_maximum_targets (pl_policy p)"
    and ids: "bulk_id (pl_parent p)" "bulk_id (pl_type p)" "is_sha256 (pl_payload_hash p)"
      "is_sha256 (pl_dry_run_hash p)" "case pl_retry_of p of None \<Rightarrow> True | Some x \<Rightarrow> bulk_id x"
  shows "check_plan p = Inr p
    \<and> (\<exists>rows. candidates sel = Inr rows
         \<and> mset (map (\<lambda>t. t\<lparr>bt_ordinal := 0\<rparr>) (rs_targets r)) = mset (map (snapshot_of 0) rows))"
proof
  have env: "bs_environment sel \<noteq> Some []"
    using sel by (auto simp: check_selector_def result_simps bulk_environments_def split: option.splits)
  note c = resolved_contract [OF res env]
  have stag: "\<not> (bs_environment sel = Some ''staging'' \<and> list_ex (\<lambda>t. bt_environment t = ''production'') (rs_targets r))"
    using c(6) by (force simp: list_ex_iff)
  have srt: "sort (map target_key (rs_targets r)) = map target_key (rs_targets r)"
    using c(5) by (simp add: sorted_sort_id)
  have e1: "case bs_environment sel of None \<Rightarrow> True | Some e \<Rightarrow> list_all (\<lambda>t. bt_environment t = e) (rs_targets r)"
    using c(6) by (auto simp: list_all_iff split: option.splits)
  have e2: "\<not> (bs_sites sel \<noteq> [] \<and> list_ex (\<lambda>t. bt_site t \<notin> set (bs_sites sel)) (rs_targets r))"
    using c(7) by (auto simp: list_ex_iff)
  have e3: "int (length (rs_targets r)) \<le> bp_maximum_targets (pl_policy p)" using c(2) p(3) by simp
  have e4: "\<exists>x. (case pl_retry_of p of None \<Rightarrow> Inr [] | Some r \<Rightarrow> check_identifier r ''retry parent'') = Inr x"
    using ids(5) by (auto simp: check_identifier_def split: option.splits)
  show "check_plan p = Inr p"
    unfolding check_plan_def Let_def p(1,2)
    using e4 c(1,3,4) srt stag e1 e2 e3 ids(1-4) by (auto simp: check_identifier_def check_digest_def)
  obtain rows ts where rows: "candidates sel = Inr rows"
    and ts: "mset ts = mset (map (snapshot_of 0) rows)"
    and r: "rs_targets r = map2 (\<lambda>i t. t\<lparr>bt_ordinal := int i\<rparr>) [0..<length ts] ts"
    by (rule resolved_targets [OF res]) blast
  have zero: "map (\<lambda>t. t\<lparr>bt_ordinal := 0\<rparr>) ts = ts"
  proof (rule map_idI)
    fix t assume "t \<in> set ts"
    then have "t \<in> snapshot_of 0 ` set rows" using ts by (metis set_map set_mset_mset)
    then show "t\<lparr>bt_ordinal := 0\<rparr> = t" by (auto simp: snapshot_of_def)
  qed
  have "map (\<lambda>t. t\<lparr>bt_ordinal := 0\<rparr>) (rs_targets r) = map (\<lambda>t. t\<lparr>bt_ordinal := 0\<rparr>) ts"
    unfolding r by (rule map2_second) simp_all
  then show "\<exists>rows. candidates sel = Inr rows
      \<and> mset (map (\<lambda>t. t\<lparr>bt_ordinal := 0\<rparr>) (rs_targets r)) = mset (map (snapshot_of 0) rows)"
    using rows ts zero by metis
qed

definition picked_site :: "string \<Rightarrow> site" where
  "picked_site s = \<lparr>ss_server_agent = ''SA'', ss_agent = ''a'', ss_bench = ''B'', ss_bench_id = ''b'',
     ss_managed_site = s, ss_site_id = s, ss_domain = ''a.b'', ss_environment = ''staging'',
     ss_revision = replicate 64 CHR ''a'', ss_labels = [], ss_capabilities = [''site.backup''],
     ss_agent_enabled = True, ss_bench_enabled = True, ss_site_enabled = True\<rparr>"

definition demo_selector :: bulk_selector where
  "demo_selector = pl_selector demo_plan"

lemma demo_selector_ok: "check_selector demo_selector = Inr demo_selector"
  by (simp add: demo_selector_def demo_plan_def check_selector_def unique_ids_def bulk_environments_def)

lemma demo_snapshot_ok: "s \<in> {''s'', ''t''} \<Longrightarrow> 0 \<le> i \<Longrightarrow>
    check_target_snapshot (plan_target i s) = Inr (plan_target i s)"
  using is_sha256_a(1)
  by (auto simp: check_target_snapshot_def plan_target_def check_identifier_def check_digest_def bulk_id_def
      bulk_environments_def string_defs)

lemma demo_resolved:
  "resolve 1000 (\<lambda>_. Inr [picked_site ''t'', picked_site ''s'']) demo_selector ''site.backup'' 10 False
     = Inr \<lparr>rs_selector = demo_selector, rs_targets = pl_targets demo_plan, rs_counts = [(''staging'', 2)],
         rs_sites = [picked_site ''s'', picked_site ''t'']\<rparr>"
proof -
  have ids: "ss_site_id (picked_site x) = x" "ss_environment (picked_site x) = ''staging''" for x
    by (simp_all add: picked_site_def)
  have chk: "check_site demo_selector ''site.backup'' (picked_site x) = Inr ()" for x
    by (simp add: check_site_def picked_site_def demo_selector_def demo_plan_def)
  have snap: "snapshot_of i (picked_site x) = plan_target i x" for i x
    by (simp add: snapshot_of_def picked_site_def plan_target_def)
  have ord: "(plan_target i x)\<lparr>bt_ordinal := j\<rparr> = plan_target j x" for i j x
    by (simp add: plan_target_def)
  have key: "target_key (plan_target i x) = target_key (plan_target j x)" for i j x
    by (simp add: target_key_def plan_target_def)
  have site: "bt_site (plan_target i x) = x" for i x by (simp add: plan_target_def)
  have sel: "bs_sites demo_selector = []" "bs_environment demo_selector = Some ''staging''"
    by (simp_all add: demo_selector_def demo_plan_def)
  have "sort_key target_key [plan_target 0 ''t'', plan_target 0 ''s'']
      = [plan_target 0 ''s'', plan_target 0 ''t'']"
    using demo_bulk_keys by (simp add: key [of 0 "''t''" 1])
  then show ?thesis
    by (simp add: resolve_def scan_site_def ids chk snap sel demo_snapshot_ok ord site Let_def demo_plan_def)
qed

theorem resolve_gives_plan_witness:
  "check_plan demo_plan = Inr demo_plan
   \<and> (\<exists>r. resolve 1000 (\<lambda>_. Inr [picked_site ''t'', picked_site ''s'']) demo_selector ''site.backup'' 10 False = Inr r
        \<and> rs_targets r = pl_targets demo_plan)"
proof -
  have "check_plan demo_plan = Inr demo_plan"
    using resolve_gives_plan [OF demo_resolved demo_selector_ok, of demo_plan] is_sha256_a
    by (simp add: demo_plan_def demo_policy_def demo_selector_def bulk_id_def string_defs)
  then show ?thesis using demo_resolved by auto
qed

end
