(* ===== verification/BulkOrchestrator.thy ===== *)
theory BulkOrchestrator
  imports Bulk
begin

text \<open>
  \<open>bulk_orchestrator.py\<close>: the fan-out of a bulk plan into child operations. The repository is a record
  of functions on its state, the laws its client relies on are the locales at the end, and
  \<open>reconcile\<close> is \<open>BulkOrchestrator.reconcile\<close> with the state passed through every repository call.
\<close>

record parent_runtime =
  pr_parent :: string
  pr_plan :: plan
  pr_state :: string
  pr_pause :: bool
  pr_cancel :: bool

record target_runtime =
  tr_snapshot :: target
  tr_state :: string
  tr_child :: "string option"
  tr_attempt :: int
  tr_cancel_sent :: bool

record inflight =
  in_global :: int
  in_agents :: "string \<rightharpoonup> int"
  in_benches :: "string \<times> string \<rightharpoonup> int"

definition count_of :: "('k \<rightharpoonup> int) \<Rightarrow> 'k \<Rightarrow> int" where
  "count_of m k = (case m k of None \<Rightarrow> 0 | Some n \<Rightarrow> n)"

record 's bulk_repository =
  lock_parent :: "string \<Rightarrow> 's \<Rightarrow> parent_runtime result"
  targets_of :: "string \<Rightarrow> 's \<Rightarrow> target_runtime list result"
  inflight_counts :: "'s \<Rightarrow> inflight"
  can_start :: "target_runtime \<Rightarrow> 's \<Rightarrow> bool result"
  create_child :: "string \<Rightarrow> target_runtime \<Rightarrow> string \<Rightarrow> string \<Rightarrow> 's \<Rightarrow> 's result"
  request_child_cancel :: "string \<Rightarrow> target_runtime \<Rightarrow> 's \<Rightarrow> 's result"
  mark_unstarted_cancelled :: "string \<Rightarrow> target_runtime \<Rightarrow> 's \<Rightarrow> 's result"
  update_parent :: "string \<Rightarrow> string \<Rightarrow> aggregate \<Rightarrow> 's \<Rightarrow> 's result"

definition child_identity :: "string \<Rightarrow> string \<Rightarrow> int \<Rightarrow> string \<times> string" where
  "child_identity parent key attempt =
     (let namespace = uuid5 uuid_namespace_url (''frappe-controller:bulk:'' @ parent);
          child = uuid5 namespace (key @ '':'' @ int_str attempt)
      in (child, ''bulk:'' @ parent @ '':'' @ key @ '':'' @ int_str attempt @ '':'' @ child))"

definition finish_state :: "string \<Rightarrow> aggregate \<Rightarrow> string list \<Rightarrow> string" where
  "finish_state active a states =
     (if list_all is_terminal states
      then if ag_succeeded a = ag_total a then ''succeeded''
           else if ag_cancelled a = ag_total a then ''cancelled'' else ''partial''
      else active)"

definition update_state ::
  "'s bulk_repository \<Rightarrow> string \<Rightarrow> string \<Rightarrow> 's \<Rightarrow> (string \<times> 's) result" where
  "update_state repo parent active st =
     bindE (targets_of repo parent st) (\<lambda>targets.
     bindE (aggregate_child_states (map tr_state targets)) (\<lambda>a.
     let state = finish_state active a (map tr_state targets) in
     bindE (update_parent repo parent state a st) (\<lambda>st'. Inr (state, st'))))"

definition cancel_target :: "'s bulk_repository \<Rightarrow> string \<Rightarrow> target_runtime \<Rightarrow> 's \<Rightarrow> 's result" where
  "cancel_target repo parent t st =
     (if tr_state t = ''planned'' then mark_unstarted_cancelled repo parent t st
      else if \<not> is_terminal (tr_state t) \<and> \<not> tr_cancel_sent t then request_child_cancel repo parent t st
      else Inr st)"

text \<open>The loop that starts children; the counters are the loop's, the stop flag is its \<open>break\<close>.\<close>

fun start_children ::
  "'s bulk_repository \<Rightarrow> string \<Rightarrow> policy \<Rightarrow> target_runtime list \<Rightarrow> inflight \<Rightarrow> 's \<Rightarrow> 's result" where
  "start_children repo parent pol [] c st = Inr st"
| "start_children repo parent pol (t # ts) c st =
     (if tr_state t \<noteq> ''planned'' then start_children repo parent pol ts c st
      else bindE (can_start repo t st) (\<lambda>ok.
        if \<not> ok then start_children repo parent pol ts c st
        else let agent = bt_agent (tr_snapshot t); bench = (agent, bt_bench (tr_snapshot t)) in
          if in_global c \<ge> bp_global pol then Inr st
          else if count_of (in_agents c) agent \<ge> bp_per_agent pol then start_children repo parent pol ts c st
          else if count_of (in_benches c) bench \<ge> bp_per_bench pol then start_children repo parent pol ts c st
          else let (child, key) = child_identity parent (target_key (tr_snapshot t)) (tr_attempt t) in
            bindE (create_child repo parent t child key st) (\<lambda>st'.
            start_children repo parent pol ts
              \<lparr>in_global = in_global c + 1,
               in_agents = (in_agents c)(agent \<mapsto> count_of (in_agents c) agent + 1),
               in_benches = (in_benches c)(bench \<mapsto> count_of (in_benches c) bench + 1)\<rparr> st')))"

definition canaries :: "policy \<Rightarrow> target_runtime list \<Rightarrow> target_runtime list" where
  "canaries pol targets = take (min (nat (bp_canary_size pol)) (length targets)) targets"

definition final_parent :: "string \<Rightarrow> bool" where
  "final_parent s \<longleftrightarrow> s \<in> set [''succeeded'', ''partial'', ''cancelled'', ''failed'']"

definition check_targets :: "parent_runtime \<Rightarrow> target_runtime list \<Rightarrow> unit result" where
  "check_targets parent targets =
     bindE (require (length targets = length (pl_targets (pr_plan parent)))
              (BulkOrchestrationError ''bulk target snapshot count changed'')) (\<lambda>_.
     eachE (\<lambda>(persisted, planned). require (tr_snapshot persisted = planned)
              (BulkOrchestrationError ''bulk target snapshot changed''))
       (zip targets (pl_targets (pr_plan parent))))"

definition advance ::
  "'s bulk_repository \<Rightarrow> string \<Rightarrow> policy \<Rightarrow> target_runtime list \<Rightarrow> 's \<Rightarrow> (string \<times> 's) result" where
  "advance repo parent_id pol targets st =
     (let canary = canaries pol targets;
          canary_terminal = list_all (\<lambda>t. is_terminal (tr_state t)) canary
      in if canary_terminal \<and> failure_budget_exhausted (map tr_state canary) pol
         then update_state repo parent_id ''paused'' st
         else bindE (start_children repo parent_id pol (if canary_terminal then targets else canary)
                       (inflight_counts repo st) st) (\<lambda>st'.
              bindE (targets_of repo parent_id st') (\<lambda>refreshed.
              if failure_budget_exhausted (map tr_state refreshed) pol
              then update_state repo parent_id ''paused'' st'
              else update_state repo parent_id (if canary_terminal then ''running'' else ''canary'') st')))"

definition reconcile :: "'s bulk_repository \<Rightarrow> string \<Rightarrow> 's \<Rightarrow> (string \<times> 's) result" where
  "reconcile repo parent_id st =
     bindE (lock_parent repo parent_id st) (\<lambda>parent.
     bindE (targets_of repo parent_id st) (\<lambda>targets.
     bindE (check_targets parent targets) (\<lambda>_.
     if final_parent (pr_state parent) then Inr (pr_state parent, st)
     else if pr_cancel parent
     then bindE (foldE (cancel_target repo parent_id) targets st) (\<lambda>st'.
          update_state repo parent_id ''cancelling'' st')
     else if pr_pause parent then update_state repo parent_id ''paused'' st
     else advance repo parent_id (pl_policy (pr_plan parent)) targets st)))"

definition retry_failed :: "string \<Rightarrow> int result" where
  "retry_failed parent_id =
     Inl (BulkOrchestrationError ''failed targets require a new approval-bound parent with fresh previews'')"

section \<open>The states a reconciliation ends in\<close>

lemma update_state_cases:
  assumes "update_state repo parent active st = Inr (s, st')"
  shows "\<exists>ts a. targets_of repo parent st = Inr ts \<and> aggregate_child_states (map tr_state ts) = Inr a
    \<and> s = finish_state active a (map tr_state ts) \<and> update_parent repo parent s a st = Inr st'"
  using assms by (auto simp: update_state_def bindE_eq_Inr Let_def)

lemma finish_state_range: "finish_state active a states \<in> {active, ''succeeded'', ''cancelled'', ''partial''}"
  by (simp add: finish_state_def)

lemma reconcile_final:
  "reconcile repo parent_id st = Inr (s, st') \<Longrightarrow> lock_parent repo parent_id st = Inr parent \<Longrightarrow>
   final_parent (pr_state parent) \<Longrightarrow> s = pr_state parent \<and> st' = st"
  by (auto simp: reconcile_def bindE_eq_Inr)

lemma start_children_step:
  assumes "start_children repo p pol (t # ts) c s = Inr s'"
  obtains (skip) "start_children repo p pol ts c s = Inr s'"
  | (stop) "s' = s"
  | (create) s1 where "tr_state t = ''planned''" "in_global c < bp_global pol"
      "count_of (in_agents c) (bt_agent (tr_snapshot t)) < bp_per_agent pol"
      "count_of (in_benches c) (bt_agent (tr_snapshot t), bt_bench (tr_snapshot t)) < bp_per_bench pol"
      "create_child repo p t (fst (child_identity p (target_key (tr_snapshot t)) (tr_attempt t)))
         (snd (child_identity p (target_key (tr_snapshot t)) (tr_attempt t))) s = Inr s1"
      "start_children repo p pol ts
         \<lparr>in_global = in_global c + 1,
          in_agents = (in_agents c)(bt_agent (tr_snapshot t) \<mapsto> count_of (in_agents c) (bt_agent (tr_snapshot t)) + 1),
          in_benches = (in_benches c)((bt_agent (tr_snapshot t), bt_bench (tr_snapshot t)) \<mapsto>
            count_of (in_benches c) (bt_agent (tr_snapshot t), bt_bench (tr_snapshot t)) + 1)\<rparr> s1 = Inr s'"
proof (cases "tr_state t = ''planned''")
  case False
  then show ?thesis using assms skip by simp
next
  case planned: True
  obtain ok where ok: "can_start repo t s = Inr ok"
    using assms planned by (cases "can_start repo t s") auto
  show ?thesis
  proof (cases "ok \<and> in_global c < bp_global pol
      \<and> count_of (in_agents c) (bt_agent (tr_snapshot t)) < bp_per_agent pol
      \<and> count_of (in_benches c) (bt_agent (tr_snapshot t), bt_bench (tr_snapshot t)) < bp_per_bench pol")
    case True
    then obtain s1 where "create_child repo p t (fst (child_identity p (target_key (tr_snapshot t)) (tr_attempt t)))
         (snd (child_identity p (target_key (tr_snapshot t)) (tr_attempt t))) s = Inr s1"
      "start_children repo p pol ts
         \<lparr>in_global = in_global c + 1,
          in_agents = (in_agents c)(bt_agent (tr_snapshot t) \<mapsto> count_of (in_agents c) (bt_agent (tr_snapshot t)) + 1),
          in_benches = (in_benches c)((bt_agent (tr_snapshot t), bt_bench (tr_snapshot t)) \<mapsto>
            count_of (in_benches c) (bt_agent (tr_snapshot t), bt_bench (tr_snapshot t)) + 1)\<rparr> s1 = Inr s'"
      using assms planned ok by (auto simp: bindE_eq_Inr Let_def case_prod_beta)
    then show ?thesis using create planned True by blast
  next
    case False
    then have "start_children repo p pol ts c s = Inr s' \<or> s' = s"
      using assms planned ok by (cases ok; cases "in_global c < bp_global pol";
        cases "count_of (in_agents c) (bt_agent (tr_snapshot t)) < bp_per_agent pol") (simp_all add: Let_def)
    then show ?thesis using skip stop by blast
  qed
qed

section \<open>The contract of a repository\<close>

text \<open>
  What the orchestrator relies on: a measure of the child operations of the state that only
  \<open>create_child\<close> changes, by at most the child it names, and the counters of work in flight that only
  \<open>create_child\<close> raises, by at most one for the target's agent and bench. The laws hold on the
  states of an invariant that every operation keeps.
\<close>

locale bulk_contract =
  fixes repo :: "'s bulk_repository"
    and inv :: "string \<Rightarrow> 's \<Rightarrow> bool"
    and children :: "'s \<Rightarrow> string set"
  assumes create_inv: "inv p s \<Longrightarrow> create_child repo p t c k s = Inr s' \<Longrightarrow> inv p s'"
    and cancel_inv: "inv p s \<Longrightarrow> request_child_cancel repo p t s = Inr s' \<Longrightarrow> inv p s'"
    and mark_inv: "inv p s \<Longrightarrow> mark_unstarted_cancelled repo p t s = Inr s' \<Longrightarrow> inv p s'"
    and update_inv: "inv p s \<Longrightarrow> update_parent repo p x a s = Inr s' \<Longrightarrow> inv p s'"
    and create_children: "inv p s \<Longrightarrow> create_child repo p t c k s = Inr s' \<Longrightarrow> children s' \<subseteq> insert c (children s)"
    and cancel_children: "inv p s \<Longrightarrow> request_child_cancel repo p t s = Inr s' \<Longrightarrow> children s' = children s"
    and mark_children: "inv p s \<Longrightarrow> mark_unstarted_cancelled repo p t s = Inr s' \<Longrightarrow> children s' = children s"
    and update_children: "inv p s \<Longrightarrow> update_parent repo p x a s = Inr s' \<Longrightarrow> children s' = children s"
begin

lemma update_state_keeps:
  assumes "inv p s" "update_state repo p active s = Inr (x, s')"
  shows "inv p s' \<and> children s' = children s"
proof -
  obtain a where "update_parent repo p x a s = Inr s'" using update_state_cases [OF assms(2)] by blast
  then show ?thesis using update_inv [OF assms(1)] update_children [OF assms(1)] by blast
qed

lemma cancel_target_keeps:
  assumes "inv p s" "cancel_target repo p t s = Inr s'"
  shows "inv p s' \<and> children s' = children s"
proof -
  have "mark_unstarted_cancelled repo p t s = Inr s' \<or> request_child_cancel repo p t s = Inr s' \<or> s' = s"
    using assms(2) by (simp add: cancel_target_def split: if_splits)
  then show ?thesis
    using assms(1) cancel_inv [OF assms(1)] cancel_children [OF assms(1)] mark_inv [OF assms(1)]
      mark_children [OF assms(1)] by blast
qed

lemma cancel_targets_keep:
  assumes "inv p s" "foldE (cancel_target repo p) ts s = Inr s'"
  shows "inv p s' \<and> children s' = children s"
proof -
  have "(\<lambda>x. inv p x \<and> children x = children s) s'"
    by (rule foldE_invariant [OF assms(2)]) (use assms(1) cancel_target_keeps in auto)
  then show ?thesis .
qed

text \<open>A cancelled or paused parent starts no child.\<close>

lemma cancel_starts_nothing:
  assumes "inv p s" "lock_parent repo p s = Inr parent" "pr_cancel parent \<or> pr_pause parent"
    and "reconcile repo p s = Inr (x, s')"
  shows "inv p s' \<and> children s' = children s"
proof -
  obtain ts where r: "(if final_parent (pr_state parent) then Inr (pr_state parent, s)
     else if pr_cancel parent
     then bindE (foldE (cancel_target repo p) ts s) (\<lambda>st'. update_state repo p ''cancelling'' st')
     else if pr_pause parent then update_state repo p ''paused'' s
     else advance repo p (pl_policy (pr_plan parent)) ts s) = Inr (x, s')"
    using assms(2,4) by (auto simp: reconcile_def bindE_eq_Inr)
  show ?thesis
  proof (cases "final_parent (pr_state parent)")
    case True
    then show ?thesis using r assms(1) by simp
  next
    case False
    show ?thesis
    proof (cases "pr_cancel parent")
      case True
      then obtain s1 where s1: "foldE (cancel_target repo p) ts s = Inr s1"
        and u: "update_state repo p ''cancelling'' s1 = Inr (x, s')"
        using r False by (auto simp: bindE_eq_Inr)
      show ?thesis
        using cancel_targets_keep [OF assms(1) s1] update_state_keeps [OF _ u] by auto
    next
      case no: False
      then show ?thesis using r False assms(1,3) update_state_keeps by simp
    qed
  qed
qed

text \<open>The children a run of the loop may create are those of the targets it was given.\<close>

lemma start_children_only:
  assumes "inv p s" "start_children repo p pol ts c s = Inr s'"
  shows "inv p s' \<and> children s' \<subseteq> children s \<union>
    (\<lambda>t. fst (child_identity p (target_key (tr_snapshot t)) (tr_attempt t))) ` {t \<in> set ts. tr_state t = ''planned''}"
  using assms
proof (induction ts arbitrary: c s)
  case Nil
  then show ?case by simp
next
  case (Cons t ts)
  define new where "new = (\<lambda>t :: target_runtime. fst (child_identity p (target_key (tr_snapshot t)) (tr_attempt t)))"
  have rest: ?case if "start_children repo p pol ts c' s = Inr s'" for c'
    using Cons.IH [OF Cons.prems(1) that] by auto
  show ?case
  proof (rule start_children_step [OF Cons.prems(2)])
    assume "start_children repo p pol ts c s = Inr s'"
    then show ?thesis by (rule rest)
  next
    assume "s' = s"
    then show ?thesis using Cons.prems(1) by simp
  next
    fix s1
    assume planned: "tr_state t = ''planned''"
      and cr: "create_child repo p t (fst (child_identity p (target_key (tr_snapshot t)) (tr_attempt t)))
         (snd (child_identity p (target_key (tr_snapshot t)) (tr_attempt t))) s = Inr s1"
      and st: "start_children repo p pol ts
         \<lparr>in_global = in_global c + 1,
          in_agents = (in_agents c)(bt_agent (tr_snapshot t) \<mapsto> count_of (in_agents c) (bt_agent (tr_snapshot t)) + 1),
          in_benches = (in_benches c)((bt_agent (tr_snapshot t), bt_bench (tr_snapshot t)) \<mapsto>
            count_of (in_benches c) (bt_agent (tr_snapshot t), bt_bench (tr_snapshot t)) + 1)\<rparr> s1 = Inr s'"
    have i1: "inv p s1" using create_inv [OF Cons.prems(1) cr] .
    have c1: "children s1 \<subseteq> insert (new t) (children s)"
      using create_children [OF Cons.prems(1) cr] by (simp add: new_def)
    have "children s' \<subseteq> children s1 \<union> new ` {t \<in> set ts. tr_state t = ''planned''}" "inv p s'"
      using Cons.IH [OF i1 st] by (simp_all add: new_def)
    moreover have "new t \<in> new ` {x \<in> set (t # ts). tr_state x = ''planned''}" using planned by auto
    ultimately show ?thesis using c1 unfolding new_def [symmetric] by auto
  qed
qed

end

definition counts_le :: "inflight \<Rightarrow> inflight \<Rightarrow> bool" where
  "counts_le c d \<longleftrightarrow> in_global c \<le> in_global d \<and> (\<forall>a. count_of (in_agents c) a \<le> count_of (in_agents d) a)
     \<and> (\<forall>b. count_of (in_benches c) b \<le> count_of (in_benches d) b)"

definition one_more :: "inflight \<Rightarrow> string \<Rightarrow> string \<times> string \<Rightarrow> inflight" where
  "one_more c agent bench = \<lparr>in_global = in_global c + 1,
     in_agents = (in_agents c)(agent \<mapsto> count_of (in_agents c) agent + 1),
     in_benches = (in_benches c)(bench \<mapsto> count_of (in_benches c) bench + 1)\<rparr>"

text \<open>The counters \<open>c\<close>, or the limits of the policy where those are higher.\<close>

definition limited :: "inflight \<Rightarrow> policy \<Rightarrow> inflight \<Rightarrow> bool" where
  "limited d pol c \<longleftrightarrow> in_global d \<le> max (in_global c) (bp_global pol)
     \<and> (\<forall>a. count_of (in_agents d) a \<le> max (count_of (in_agents c) a) (bp_per_agent pol))
     \<and> (\<forall>b. count_of (in_benches d) b \<le> max (count_of (in_benches c) b) (bp_per_bench pol))"

lemma count_of_upd [simp]: "count_of (m(k \<mapsto> n)) j = (if j = k then n else count_of m j)"
  by (simp add: count_of_def)

lemma counts_le_refl [simp]: "counts_le c c"
  by (simp add: counts_le_def)

lemma counts_le_limited: "counts_le d c \<Longrightarrow> limited d pol c"
  by (auto simp: counts_le_def limited_def le_max_iff_disj)

lemma limited_counts_le: "limited d pol c \<Longrightarrow> counts_le e d \<Longrightarrow> limited e pol c"
  unfolding limited_def counts_le_def by (meson order_trans)

lemma counts_le_one_more: "counts_le d c \<Longrightarrow> counts_le e (one_more d a b) \<Longrightarrow> counts_le e (one_more c a b)"
  unfolding counts_le_def one_more_def by (fastforce intro: order_trans)

lemma limited_one_more:
  assumes "in_global c < bp_global pol" "count_of (in_agents c) a < bp_per_agent pol"
    "count_of (in_benches c) b < bp_per_bench pol" "limited d pol (one_more c a b)"
  shows "limited d pol c"
proof -
  have ball: "count_of (in_benches d) y \<le> max (count_of (in_benches (one_more c a b)) y) (bp_per_bench pol)" for y
    using assms(4) unfolding limited_def by blast
  have g: "in_global d \<le> max (in_global c) (bp_global pol)"
    using assms(1,4) by (simp add: limited_def one_more_def)
  have a: "count_of (in_agents d) x \<le> max (count_of (in_agents c) x) (bp_per_agent pol)" for x
  proof (cases "x = a")
    case True
    have "count_of (in_agents d) a \<le> max (count_of (in_agents c) a + 1) (bp_per_agent pol)"
      using assms(4) unfolding limited_def one_more_def by (auto dest: spec [of _ a])
    then show ?thesis using assms(2) True by simp
  next
    case False
    then show ?thesis using assms(4) unfolding limited_def one_more_def by (auto dest: spec [of _ x])
  qed
  have b: "count_of (in_benches d) x \<le> max (count_of (in_benches c) x) (bp_per_bench pol)" for x
  proof (cases "x = b")
    case True
    have "count_of (in_benches d) b \<le> max (count_of (in_benches c) b + 1) (bp_per_bench pol)"
      using ball [of b] by (simp add: one_more_def)
    then show ?thesis using assms(3) True by simp
  next
    case False
    then show ?thesis using ball [of x] by (simp add: one_more_def)
  qed
  show ?thesis using g a b by (simp add: limited_def)
qed

locale bulk_counters = bulk_contract +
  assumes create_counts: "inv p s \<Longrightarrow> create_child repo p t c k s = Inr s' \<Longrightarrow>
      counts_le (inflight_counts repo s')
        (one_more (inflight_counts repo s) (bt_agent (tr_snapshot t)) (bt_agent (tr_snapshot t), bt_bench (tr_snapshot t)))"
    and update_counts: "inv p s \<Longrightarrow> update_parent repo p x a s = Inr s' \<Longrightarrow>
      counts_le (inflight_counts repo s') (inflight_counts repo s)"
begin

text \<open>The loop never takes a counter over its limit.\<close>

lemma start_children_limited:
  assumes "inv p s" "counts_le (inflight_counts repo s) c" "start_children repo p pol ts c s = Inr s'"
  shows "limited (inflight_counts repo s') pol c"
  using assms
proof (induction ts arbitrary: c s)
  case Nil
  then show ?case by (simp add: counts_le_limited)
next
  case (Cons t ts)
  show ?case
  proof (rule start_children_step [OF Cons.prems(3)])
    assume "start_children repo p pol ts c s = Inr s'"
    then show ?thesis using Cons.IH Cons.prems(1,2) by blast
  next
    assume "s' = s"
    then show ?thesis using Cons.prems(2) by (simp add: counts_le_limited)
  next
    let ?a = "bt_agent (tr_snapshot t)" and ?b = "(bt_agent (tr_snapshot t), bt_bench (tr_snapshot t))"
    fix s1
    assume lt: "in_global c < bp_global pol" "count_of (in_agents c) ?a < bp_per_agent pol"
        "count_of (in_benches c) ?b < bp_per_bench pol"
      and cr: "create_child repo p t (fst (child_identity p (target_key (tr_snapshot t)) (tr_attempt t)))
         (snd (child_identity p (target_key (tr_snapshot t)) (tr_attempt t))) s = Inr s1"
      and st: "start_children repo p pol ts
         \<lparr>in_global = in_global c + 1, in_agents = (in_agents c)(?a \<mapsto> count_of (in_agents c) ?a + 1),
          in_benches = (in_benches c)(?b \<mapsto> count_of (in_benches c) ?b + 1)\<rparr> s1 = Inr s'"
    have i1: "inv p s1" using create_inv [OF Cons.prems(1) cr] .
    have "counts_le (inflight_counts repo s1) (one_more c ?a ?b)"
      using counts_le_one_more [OF Cons.prems(2) create_counts [OF Cons.prems(1) cr]] .
    then have "limited (inflight_counts repo s') pol (one_more c ?a ?b)"
      using Cons.IH [OF i1 _ st [folded one_more_def]] by blast
    then show ?thesis by (rule limited_one_more [OF lt])
  qed
qed

lemma advance_limited:
  assumes "inv p s" "advance repo p pol ts s = Inr (x, s')"
  shows "limited (inflight_counts repo s') pol (inflight_counts repo s)"
proof -
  obtain s1 y where u: "update_state repo p y s1 = Inr (x, s')"
    and s1: "s1 = s \<or> (\<exists>us. start_children repo p pol us (inflight_counts repo s) s = Inr s1)"
    using assms(2) by (auto simp: advance_def Let_def bindE_eq_Inr split: if_splits)
  have l1: "limited (inflight_counts repo s1) pol (inflight_counts repo s)" and i1: "inv p s1"
    using s1 start_children_limited [OF assms(1)] start_children_only [OF assms(1)] assms(1)
    by (auto simp: counts_le_limited)
  obtain a where up: "update_parent repo p x a s1 = Inr s'" using update_state_cases [OF u] by blast
  show ?thesis by (rule limited_counts_le [OF l1 update_counts [OF i1 up]])
qed

text \<open>No reconciliation but a cancellation takes the work in flight over a limit of the plan's policy.\<close>

lemma reconcile_limited:
  assumes "inv p s" "lock_parent repo p s = Inr parent" "\<not> pr_cancel parent" "reconcile repo p s = Inr (x, s')"
  shows "limited (inflight_counts repo s') (pl_policy (pr_plan parent)) (inflight_counts repo s)"
proof -
  have "s' = s \<or> update_state repo p ''paused'' s = Inr (x, s')
      \<or> (\<exists>ts. advance repo p (pl_policy (pr_plan parent)) ts s = Inr (x, s'))"
    using assms(2-4) by (auto simp: reconcile_def bindE_eq_Inr split: if_splits)
  then show ?thesis
  proof (elim disjE exE)
    assume "s' = s"
    then show ?thesis by (simp add: counts_le_limited)
  next
    assume "update_state repo p ''paused'' s = Inr (x, s')"
    from update_state_cases [OF this] obtain a where "update_parent repo p x a s = Inr s'" by blast
    from update_counts [OF assms(1) this] show ?thesis by (rule counts_le_limited)
  next
    fix ts
    assume "advance repo p (pl_policy (pr_plan parent)) ts s = Inr (x, s')"
    then show ?thesis by (rule advance_limited [OF assms(1)])
  qed
qed

text \<open>Until every canary has finished, only canaries are started; after that, only planned targets.\<close>

lemma advance_children:
  assumes "inv p s" "advance repo p pol ts s = Inr (x, s')"
  shows "children s' \<subseteq> children s \<union>
    (\<lambda>t. fst (child_identity p (target_key (tr_snapshot t)) (tr_attempt t)))
      ` {t \<in> set (if list_all (\<lambda>t. is_terminal (tr_state t)) (canaries pol ts) then ts else canaries pol ts).
           tr_state t = ''planned''}"
proof -
  define us where "us = (if list_all (\<lambda>t. is_terminal (tr_state t)) (canaries pol ts) then ts else canaries pol ts)"
  obtain s1 y where u: "update_state repo p y s1 = Inr (x, s')"
    and s1: "s1 = s \<or> start_children repo p pol us (inflight_counts repo s) s = Inr s1"
    using assms(2) by (auto simp: advance_def Let_def bindE_eq_Inr us_def split: if_splits)
  have i1: "inv p s1"
    and c1: "children s1 \<subseteq> children s \<union> (\<lambda>t. fst (child_identity p (target_key (tr_snapshot t)) (tr_attempt t)))
      ` {t \<in> set us. tr_state t = ''planned''}"
    using s1 start_children_only [OF assms(1)] assms(1) by blast+
  show ?thesis using update_state_keeps [OF i1 u] c1 unfolding us_def by blast
qed

end

end
