(* ===== verification/Database.thy ===== *)
theory Database
  imports PyTime JsonRead
begin

text \<open>
  The controller's tables. A DocType is a record with its fields in the order of its JSON
  definition, a table the list of its rows in the order of their creation, and the database the
  record of the tables. Columns no modelled code reads are left out. A Data, Link or Datetime column that may be empty is an option, a Check a
  boolean; a datetime is the microsecond of its naive UTC value. The theory also holds what the
  code reads of its Frappe runtime (\<open>runtime\<close>): the session user, the roles, the clock, the
  deployment's feature file, and the name a new document of a hash-named DocType gets.
\<close>

section \<open>Rows\<close>

record agent_row =
  sa_name :: string
  sa_agent_id :: string
  sa_environment :: string
  sa_enabled :: bool
  sa_status :: string
  sa_protocol_version :: string
  sa_audience :: string
  sa_agent_version :: "string option"
  sa_public_ip :: "string option"
  sa_site_suffixes :: "string option"
  sa_operations :: "string option"
  sa_setup_apps :: "string option"
  sa_drain_requested :: bool
  sa_drain_by :: "string option"
  sa_drain_at :: "int option"
  sa_upgrade_state :: string
  sa_desired_version :: "string option"
  sa_desired_digest :: "string option"
  sa_previous_version :: "string option"
  sa_previous_digest :: "string option"
  sa_observed_digest :: "string option"
  sa_upgrade_by :: "string option"
  sa_upgrade_at :: "int option"
  sa_deployed_at :: "int option"
  sa_verified_at :: "int option"
  sa_failure_code :: "string option"
  sa_capabilities :: "string option"
  sa_reported_status :: "string option"
  sa_last_seen :: "int option"
  sa_inventory_at :: "int option"
  sa_inventory_revision :: int
  sa_inventory_digest :: "string option"
  sa_inventory_snapshot :: "string option"
  sa_token_hash :: "string option"
  sa_enrollment_expires :: "int option"
  sa_enrollment_consumed :: "int option"
  sa_enrollment_completed :: "int option"
  sa_expected_key :: "string option"
  sa_signing_key :: "string option"
  sa_last_signed_ns :: "string option"

record bench_row =
  be_name :: string
  be_bench_id :: string
  be_server_agent :: string
  be_environment :: string
  be_enabled :: bool
  be_frappe_version :: "string option"
  be_erpnext_version :: "string option"
  be_installed_apps :: "string option"
  be_required_apps :: "string option"
  be_capabilities :: "string option"
  be_health :: string
  be_inventory_at :: "int option"

record site_row =
  si_name :: string
  si_site_id :: string
  si_domain :: string
  si_server_agent :: string
  si_bench :: string
  si_environment :: string
  si_status :: string
  si_installed_apps :: "string option"
  si_labels :: "string option"
  si_database :: "string option"
  si_scheduler :: bool
  si_maintenance :: bool
  si_health :: string
  si_inventory_at :: "int option"

record op_row =
  op_name :: string
  op_operation_id :: string
  op_idempotency_key :: string
  op_protocol_version :: string
  op_server_agent :: string
  op_bench :: string
  op_managed_site :: "string option"
  op_bulk_parent :: "string option"
  op_bulk_target :: "string option"
  op_retry_of :: "string option"
  op_preview_of :: "string option"
  op_preview_hash :: "string option"
  op_type :: string
  op_payload_json :: "string option"
  op_payload_hash :: string
  op_requested_by :: string
  op_policy :: "string option"
  op_approval_status :: string
  op_required :: int
  op_approval_count :: int
  op_state :: string
  op_command_json :: "string option"
  op_command_hash :: "string option"
  op_issued_at :: "int option"
  op_expires_at :: "int option"
  op_lease_expires :: "int option"
  op_last_sequence :: int
  op_result_json :: "string option"
  op_result_hash :: "string option"
  op_credential :: "string option"
  op_credential_received :: "int option"
  op_credential_consumed :: "int option"
  op_error_code :: "string option"
  op_started_at :: "int option"
  op_completed_at :: "int option"

record optarget_row =
  ot_name :: string
  ot_operation :: string
  ot_target_key :: string
  ot_server_agent :: string
  ot_bench :: string
  ot_managed_site :: "string option"
  ot_bulk_parent :: "string option"
  ot_bulk_target :: "string option"
  ot_retry_of :: "string option"
  ot_site_domain :: "string option"
  ot_type :: string
  ot_payload_hash :: string
  ot_revision :: "string option"
  ot_state :: string
  ot_attempt :: int
  ot_result_json :: "string option"
  ot_error_code :: "string option"

record event_row =
  ev_name :: string
  ev_operation :: string
  ev_operation_id :: string
  ev_sequence :: int
  ev_attempt :: "int option"
  ev_step :: "string option"
  ev_kind :: string
  ev_details :: "string option"
  ev_body_hash :: string
  ev_created_at :: int
  ev_received_at :: int

record approval_row =
  ap_name :: string
  ap_operation :: string
  ap_policy :: string
  ap_decision :: string
  ap_approver :: string
  ap_decided_at :: int
  ap_comment :: "string option"
  ap_payload_hash :: string
  ap_target_key :: string
  ap_preview_hash :: "string option"
  ap_decision_hash :: string

record policy_row =
  po_name :: string
  po_enabled :: bool
  po_environment :: string
  po_pattern :: string
  po_minimum :: int
  po_backup :: bool
  po_bulk_threshold :: int
  po_maximum_targets :: int

record bulk_row =
  bu_name :: string
  bu_bulk_id :: string
  bu_retry_of :: "string option"
  bu_idempotency_key :: string
  bu_type :: string
  bu_payload_json :: "string option"
  bu_payload_hash :: string
  bu_selector_json :: "string option"
  bu_selector_hash :: string
  bu_snapshot_hash :: string
  bu_dry_run_hash :: string
  bu_environments :: "string option"
  bu_requested_by :: string
  bu_policy :: string
  bu_approval_status :: string
  bu_required :: int
  bu_approval_count :: int
  bu_maximum_targets :: int
  bu_canary :: int
  bu_global :: int
  bu_per_agent :: int
  bu_per_bench :: int
  bu_max_failures :: int
  bu_max_ratio :: pyfloat
  bu_state :: string
  bu_total :: int
  bu_planned :: int
  bu_queued :: int
  bu_running :: int
  bu_succeeded :: int
  bu_failed :: int
  bu_cancelled :: int
  bu_needs_intervention :: int
  bu_pause :: bool
  bu_pause_by :: "string option"
  bu_pause_at :: "int option"
  bu_cancel :: bool
  bu_cancel_by :: "string option"
  bu_cancel_at :: "int option"
  bu_requested_at :: int
  bu_previewed_at :: int
  bu_approved_at :: "int option"
  bu_started_at :: "int option"
  bu_completed_at :: "int option"

record bulktarget_row =
  bx_name :: string
  bx_bulk :: string
  bx_target_key :: string
  bx_ordinal :: int
  bx_wave :: int
  bx_attempt :: int
  bx_server_agent :: string
  bx_bench :: string
  bx_managed_site :: string
  bx_agent_id :: string
  bx_bench_id :: string
  bx_site_id :: string
  bx_domain :: string
  bx_environment :: string
  bx_revision :: string
  bx_preview :: "string option"
  bx_preview_hash :: "string option"
  bx_retry_source :: "string option"
  bx_state :: string
  bx_child :: "string option"
  bx_cancellation :: "string option"
  bx_retry_of :: "string option"
  bx_result_json :: "string option"
  bx_error_code :: "string option"
  bx_started_at :: "int option"
  bx_completed_at :: "int option"

record bulkapproval_row =
  ba_name :: string
  ba_bulk :: string
  ba_policy :: string
  ba_decision :: string
  ba_approver :: string
  ba_decided_at :: int
  ba_comment :: "string option"
  ba_snapshot_hash :: string
  ba_payload_hash :: string
  ba_dry_run_hash :: string
  ba_decision_hash :: string

record certificate_row =
  ce_name :: string
  ce_server_agent :: string
  ce_serial :: string
  ce_fingerprint :: string
  ce_public_key :: string
  ce_status :: string
  ce_valid_from :: int
  ce_valid_until :: int
  ce_issued_at :: int
  ce_issued_by :: string
  ce_overlap_until :: "int option"
  ce_revoked_at :: "int option"
  ce_revoked_by :: "string option"
  ce_reason :: "string option"

record db =
  agents :: "agent_row list"
  benches :: "bench_row list"
  sites :: "site_row list"
  operations :: "op_row list"
  optargets :: "optarget_row list"
  events :: "event_row list"
  approvals :: "approval_row list"
  policies :: "policy_row list"
  bulks :: "bulk_row list"
  bulktargets :: "bulktarget_row list"
  bulkapprovals :: "bulkapproval_row list"
  certificates :: "certificate_row list"

section \<open>Queries and updates\<close>

text \<open>\<open>db.get_value\<close> with a name or a filter, and \<open>db.set_value\<close>.\<close>

definition get_row :: "('r \<Rightarrow> string) \<Rightarrow> 'r list \<Rightarrow> string \<Rightarrow> 'r option" where
  "get_row key t n = find (\<lambda>r. key r = n) t"

definition set_rows :: "('r \<Rightarrow> bool) \<Rightarrow> ('r \<Rightarrow> 'r) \<Rightarrow> 'r list \<Rightarrow> 'r list" where
  "set_rows p f t = map (\<lambda>r. if p r then f r else r) t"

lemma find_mem: "find P xs = Some x \<Longrightarrow> x \<in> set xs \<and> P x"
  by (auto simp: find_Some_iff in_set_conv_nth)

lemma get_row_Some: "get_row key t n = Some r \<Longrightarrow> r \<in> set t \<and> key r = n"
  by (auto simp: get_row_def dest: find_mem)

lemma get_row_None: "get_row key t n = None \<longleftrightarrow> n \<notin> key ` set t"
  by (auto simp: get_row_def find_None_iff)

lemma get_row_append: "get_row key (t @ [r]) n =
    (case get_row key t n of Some x \<Rightarrow> Some x | None \<Rightarrow> if key r = n then Some r else None)"
  by (induction t) (auto simp: get_row_def)

lemma get_row_set_rows:
  assumes "\<And>r. key (f r) = key r"
  shows "get_row key (set_rows (\<lambda>r. key r = m) f t) n =
    (if n = m then map_option f (get_row key t n) else get_row key t n)"
  using assms by (induction t) (auto simp: get_row_def set_rows_def)

lemma set_rows_key: "(\<And>r. key (f r) = key r) \<Longrightarrow> map key (set_rows p f t) = map key t"
  by (auto simp: set_rows_def)

lemma set_rows_in: "r \<in> set (set_rows p f t) \<longleftrightarrow> (\<exists>x\<in>set t. r = (if p x then f x else x))"
  by (auto simp: set_rows_def)

lemma length_set_rows [simp]: "length (set_rows p f t) = length t"
  by (simp add: set_rows_def)

lemma filter_set_rows: "(\<And>r. r \<in> set t \<Longrightarrow> p r \<Longrightarrow> q (f r) = q r) \<Longrightarrow>
    length (filter q (set_rows p f t)) = length (filter q t)"
  by (induction t) (auto simp: set_rows_def)

section \<open>The runtime\<close>

record file_info =
  fi_symlink :: bool
  fi_regular :: bool
  fi_uid :: int
  fi_group_writable :: bool
  fi_other_writable :: bool
  fi_size :: nat
  fi_bytes :: "string option"

record runtime =
  rt_user :: string
  rt_roles :: "string \<Rightarrow> string list"
  rt_now :: int
  rt_conf_path :: json
  rt_site_path :: string
  rt_files :: "string \<Rightarrow> file_info option"
  rt_in_test :: bool
  rt_fresh :: "db \<Rightarrow> string"

end
