(* ===== verification/FeatureFlags.thy ===== *)
theory FeatureFlags
  imports Database JsonRoundtrip
begin

text \<open>
  The deployment's feature gates (\<open>feature_flags.py\<close>): the file that switches features on for
  environments, its validation, the feature each operation type belongs to, and what the Desk shows.
  A \<open>frozenset\<close> of environments is a list without duplicates. What \<open>json.loads\<close> makes of a file in
  UTF-16 or UTF-32 is a parameter \<open>wide\<close>.
\<close>

section \<open>Tables\<close>

definition schema_version :: int where
  "schema_version = 1"

definition max_config_bytes :: nat where
  "max_config_bytes = 64 * 1024"

definition feature_environments :: "string list" where
  "feature_environments = [''development'', ''staging'', ''production'']"

definition feature_names :: "string list" where
  "feature_names =
     [''inventory'', ''backup_and_verify'', ''routine_operations'', ''restore_and_reinstall'',
      ''quarantine_delete'', ''data_update_preview'', ''data_update_apply'', ''bulk_operations'',
      ''agent_upgrades'']"

definition top_fields :: "string set" where
  "top_fields = {''schema_version'', ''master_enabled'', ''features''}"

definition operation_features :: "(string \<times> string) list" where
  "operation_features =
     [(''site.backup'', ''backup_and_verify''),
      (''site.verify'', ''backup_and_verify''),
      (''site.scheduler.enable'', ''routine_operations''),
      (''site.scheduler.disable'', ''routine_operations''),
      (''site.maintenance.enable'', ''routine_operations''),
      (''site.maintenance.disable'', ''routine_operations''),
      (''site.config.update'', ''routine_operations''),
      (''site.config.set'', ''routine_operations''),
      (''site.create'', ''restore_and_reinstall''),
      (''site.create_blank'', ''restore_and_reinstall''),
      (''site.create_from_backup'', ''restore_and_reinstall''),
      (''site.restore'', ''restore_and_reinstall''),
      (''site.reinstall'', ''restore_and_reinstall''),
      (''site.migrate'', ''restore_and_reinstall''),
      (''site.delete'', ''quarantine_delete'')]"

section \<open>Configurations\<close>

record feature_config =
  fc_master :: bool
  fc_features :: "(string \<times> string list) list"

definition disabled_config :: feature_config where
  "disabled_config = \<lparr>fc_master = False, fc_features = map (\<lambda>f. (f, [])) feature_names\<rparr>"

definition feature_set :: "feature_config \<Rightarrow> string \<Rightarrow> string list" where
  "feature_set c f = (case map_of (fc_features c) f of None \<Rightarrow> [] | Some es \<Rightarrow> es)"

definition feature_enabled :: "feature_config \<Rightarrow> string \<Rightarrow> string \<Rightarrow> bool" where
  "feature_enabled c f e =
     (fc_master c \<and> map_of (fc_features c) f \<noteq> None \<and> e \<in> set (feature_set c f))"

definition feature_visible :: "feature_config \<Rightarrow> string \<Rightarrow> bool" where
  "feature_visible c f = (fc_master c \<and> feature_set c f \<noteq> [])"

definition workspace_visible :: "feature_config \<Rightarrow> bool" where
  "workspace_visible c = (fc_master c \<and> list_ex (\<lambda>(_, es). es \<noteq> []) (fc_features c))"

definition public_value :: "feature_config \<Rightarrow> json" where
  "public_value c =
     JObj [(''master_enabled'', JBool (fc_master c)),
           (''workspace_visible'', JBool (workspace_visible c)),
           (''features'', JObj (map (\<lambda>f. (f, JList (map JStr
              (filter (\<lambda>e. e \<in> set (feature_set c f)) feature_environments)))) feature_names))]"

section \<open>Loading\<close>

definition config_error :: "string \<Rightarrow> exn" where
  "config_error msg = FeatureConfigError msg"

text \<open>The decoding \<open>json.loads\<close> applies to bytes; a lone surrogate passes.\<close>

definition wide_text :: "string \<Rightarrow> bool" where
  "wide_text b =
     (take 2 b = [CHR 0xFE, CHR 0xFF] \<or> take 2 b = [CHR 0xFF, CHR 0xFE]
      \<or> take 4 b = [CHR 0x00, CHR 0x00, CHR 0xFE, CHR 0xFF]
      \<or> (4 \<le> length b \<or> length b = 2) \<and> (b ! 0 = CHR 0x00 \<or> b ! 1 = CHR 0x00))"

definition chunk_pass :: "string \<Rightarrow> bool" where
  "chunk_pass k =
     (chunk_ok k \<or> (\<exists>b\<in>set (take 1 (drop 1 k)). \<exists>c\<in>set (drop 2 k).
        k = [CHR 0xED, b, c] \<and> CHR 0xA0 \<le> b \<and> is_cont b \<and> is_cont c))"

definition json_text :: "(string \<Rightarrow> string result) \<Rightarrow> string \<Rightarrow> string result" where
  "json_text wide b =
     (if wide_text b then wide b
      else let t = (if take 3 b = [CHR 0xEF, CHR 0xBB, CHR 0xBF] then drop 3 b else b)
           in if list_all chunk_pass (chunks t) then Inr t else Inl UnicodeDecodeError)"

definition document_ok :: "json \<Rightarrow> bool" where
  "document_ok doc =
     (case doc of
        JObj kvs \<Rightarrow>
          jkeys kvs = top_fields \<and> py_eq (jget kvs ''schema_version'') (JInt schema_version)
          \<and> (case jget kvs ''master_enabled'' of JBool _ \<Rightarrow> True | _ \<Rightarrow> False)
          \<and> (case jget kvs ''features'' of JObj fs \<Rightarrow> jkeys fs = set feature_names | _ \<Rightarrow> False)
      | _ \<Rightarrow> False)"

definition environment_names :: "json \<Rightarrow> string list result" where
  "environment_names v =
     (case v of
        JList items \<Rightarrow>
          bindE (require (list_all is_str items) (config_error ''feature environment list is invalid''))
            (\<lambda>_. let names = map (\<lambda>x. case x of JStr s \<Rightarrow> s | _ \<Rightarrow> []) items in
          bindE (require (distinct names \<and> set names \<subseteq> set feature_environments)
                   (config_error ''feature environment list is invalid''))
            (\<lambda>_. Inr names))
      | _ \<Rightarrow> Inl (config_error ''feature environment list is invalid''))"

definition normalized_config :: "(string \<times> json) list \<Rightarrow> feature_config result" where
  "normalized_config kvs =
     (let fs = (case jget kvs ''features'' of JObj fs \<Rightarrow> fs | _ \<Rightarrow> []) in
      bindE (mapE (\<lambda>f. bindE (environment_names (jget fs f)) (\<lambda>es. Inr (f, es))) feature_names)
        (\<lambda>table. let get = (\<lambda>f. set (the (map_of table f))) in
      bindE (require (list_all (\<lambda>(_, es). set es \<subseteq> get ''inventory'') table)
               (config_error ''enabled features require inventory in the same environment''))
        (\<lambda>_.
      bindE (require (get ''data_update_apply'' \<subseteq> get ''data_update_preview'')
               (config_error ''data update apply requires preview''))
        (\<lambda>_.
      bindE (require (get ''bulk_operations'' \<subseteq> get ''data_update_apply'')
               (config_error ''bulk operations require data update apply''))
        (\<lambda>_. Inr \<lparr>fc_master = (jget kvs ''master_enabled'' = JBool True), fc_features = table\<rparr>)))))"

definition read_config_file ::
  "(string \<Rightarrow> string result) \<Rightarrow> (string \<Rightarrow> file_info option) \<Rightarrow> string \<Rightarrow> bool \<Rightarrow> json result" where
  "read_config_file wide files path require_root_owner =
     bindE (require (starts_with ''/'' path)
              (config_error ''feature configuration path must be absolute'')) (\<lambda>_.
     bindE (of_option (config_error ''feature configuration is unavailable'') (files path)) (\<lambda>info.
     bindE (require (\<not> fi_symlink info \<and> fi_regular info)
              (config_error ''feature configuration must be a regular file'')) (\<lambda>_.
     bindE (require (require_root_owner \<longrightarrow> fi_uid info = 0)
              (config_error ''feature configuration must be root-owned'')) (\<lambda>_.
     bindE (require (\<not> fi_group_writable info \<and> \<not> fi_other_writable info)
              (config_error ''feature configuration is group/world writable'')) (\<lambda>_.
     bindE (require (0 < fi_size info \<and> fi_size info \<le> max_config_bytes)
              (config_error ''feature configuration size is invalid'')) (\<lambda>_.
     bindE (of_option (config_error ''feature configuration is invalid JSON'') (fi_bytes info)) (\<lambda>raw.
     bindE (require (length raw = fi_size info)
              (config_error ''feature configuration changed while reading'')) (\<lambda>_.
     catchE (\<lambda>e. if e = UnicodeDecodeError \<or> e = JSONDecodeError
                 then Some (config_error ''feature configuration is invalid JSON'') else None)
       (bindE (json_text wide raw)
         (json_loads_with
           (strict_hook (config_error ''feature configuration contains duplicate fields''))))))))))))"

definition load_feature_config ::
  "(string \<Rightarrow> string result) \<Rightarrow> (string \<Rightarrow> file_info option) \<Rightarrow> string \<Rightarrow> bool \<Rightarrow> feature_config result" where
  "load_feature_config wide files path require_root_owner =
     bindE (read_config_file wide files path require_root_owner) (\<lambda>doc.
     bindE (require (document_ok doc)
              (config_error ''feature configuration fields or version are invalid'')) (\<lambda>_.
     normalized_config (case doc of JObj kvs \<Rightarrow> kvs | _ \<Rightarrow> [])))"

definition feature_config_path :: "runtime \<Rightarrow> string result" where
  "feature_config_path rt =
     (case rt_conf_path rt of
        JNull \<Rightarrow> Inr (rt_site_path rt)
      | JStr s \<Rightarrow> bindE (require (s \<noteq> []) (config_error ''feature configuration path is invalid'')) (\<lambda>_. Inr s)
      | _ \<Rightarrow> Inl (config_error ''feature configuration path is invalid''))"

text \<open>\<open>except FeatureConfigError\<close> is the only handler: what else the decoding may raise passes.\<close>

definition runtime_feature_config :: "(string \<Rightarrow> string result) \<Rightarrow> runtime \<Rightarrow> feature_config result" where
  "runtime_feature_config wide rt =
     (case bindE (feature_config_path rt)
             (\<lambda>path. load_feature_config wide (rt_files rt) path (\<not> rt_in_test rt)) of
        Inl (FeatureConfigError _) \<Rightarrow> Inr disabled_config
      | r \<Rightarrow> r)"

section \<open>Environments and gates\<close>

definition environment_or_none :: "string option \<Rightarrow> string option" where
  "environment_or_none e =
     (case e of None \<Rightarrow> None | Some s \<Rightarrow> if s \<in> set feature_environments then Some s else None)"

definition agent_environment :: "db \<Rightarrow> string \<Rightarrow> string option" where
  "agent_environment d agent_id =
     (if agent_id = [] then None
      else environment_or_none (map_option sa_environment (get_row sa_agent_id (agents d) agent_id)))"

definition target_environment :: "db \<Rightarrow> string \<Rightarrow> string option \<Rightarrow> string option" where
  "target_environment d agent_id managed_site =
     (if truthy managed_site
      then environment_or_none (map_option si_environment (get_row si_name (sites d) (the managed_site)))
      else agent_environment d agent_id)"

definition data_update_types :: "string list" where
  "data_update_types = [''data.update'', ''data.update.break_glass'']"

definition operation_feature :: "string \<Rightarrow> string option \<Rightarrow> string option" where
  "operation_feature operation payload_json =
     (if operation \<in> set data_update_types then
        (case json_loads (or_empty payload_json) of
           Inr (JObj command) \<Rightarrow>
             (case jget command ''payload'' of
                JObj payload \<Rightarrow>
                  (case jget payload ''dry_run'' of
                     JBool dry_run \<Rightarrow> Some (if dry_run then ''data_update_preview'' else ''data_update_apply'')
                   | _ \<Rightarrow> None)
              | _ \<Rightarrow> None)
         | _ \<Rightarrow> None)
      else map_of operation_features operation)"

definition operation_enabled ::
  "feature_config \<Rightarrow> string \<Rightarrow> string \<Rightarrow> string option \<Rightarrow> string option \<Rightarrow> bool" where
  "operation_enabled c environment operation payload_json bulk_parent =
     (if operation = ''operation.cancel'' then True
      else case operation_feature operation payload_json of
             None \<Rightarrow> False
           | Some f \<Rightarrow>
               if \<not> feature_enabled c f environment then False
               else \<not> truthy bulk_parent \<or> feature_enabled c ''bulk_operations'' environment)"

definition feature_disabled :: exn where
  "feature_disabled = PermissionError ''Controller feature is disabled''"

definition require_feature ::
  "(string \<Rightarrow> string result) \<Rightarrow> runtime \<Rightarrow> string \<Rightarrow> string option \<Rightarrow> unit result" where
  "require_feature wide rt feature environment =
     (case environment_or_none environment of
        None \<Rightarrow> Inl feature_disabled
      | Some e \<Rightarrow> bindE (runtime_feature_config wide rt)
                   (\<lambda>c. require (feature_enabled c feature e) feature_disabled))"

definition require_operation ::
  "(string \<Rightarrow> string result) \<Rightarrow> runtime \<Rightarrow> string option \<Rightarrow> string \<Rightarrow> string option \<Rightarrow> string option
     \<Rightarrow> unit result" where
  "require_operation wide rt environment operation payload_json bulk_parent =
     bindE (runtime_feature_config wide rt) (\<lambda>c.
       case environment_or_none environment of
         None \<Rightarrow> Inl feature_disabled
       | Some e \<Rightarrow> require (operation_enabled c e operation payload_json bulk_parent) feature_disabled)"

definition enabled_operations_for_agent ::
  "(string \<Rightarrow> string result) \<Rightarrow> runtime \<Rightarrow> db \<Rightarrow> string \<Rightarrow> string list result" where
  "enabled_operations_for_agent wide rt d agent_id =
     (case agent_environment d agent_id of
        None \<Rightarrow> Inr [''operation.cancel'']
      | Some e \<Rightarrow> bindE (runtime_feature_config wide rt) (\<lambda>c.
          Inr (sort (remdups
            (map fst (filter (\<lambda>(_, f). feature_enabled c f e) operation_features)
             @ (if feature_enabled c ''data_update_preview'' e \<or> feature_enabled c ''data_update_apply'' e
                then data_update_types else [])
             @ [''operation.cancel''])))))"

text \<open>The operation here is what the mapping of the source holds: the environment, the type, the
  payload, and the bulk parent.\<close>

definition command_enabled_for_agent ::
  "(string \<Rightarrow> string result) \<Rightarrow> runtime \<Rightarrow> string option \<Rightarrow> string \<Rightarrow> string option \<Rightarrow> string option
     \<Rightarrow> bool result" where
  "command_enabled_for_agent wide rt environment operation payload_json bulk_parent =
     (case environment of
        None \<Rightarrow> Inr (operation = ''operation.cancel'')
      | Some e \<Rightarrow> bindE (runtime_feature_config wide rt)
                   (\<lambda>c. Inr (operation_enabled c e operation payload_json bulk_parent)))"

definition bulk_parent_enabled ::
  "(string \<Rightarrow> string result) \<Rightarrow> runtime \<Rightarrow> db \<Rightarrow> string \<Rightarrow> bool result" where
  "bulk_parent_enabled wide rt d parent_id =
     (let es = take 1001 (map bx_environment (filter (\<lambda>t. bx_bulk t = parent_id) (bulktargets d))) in
      bindE (runtime_feature_config wide rt) (\<lambda>c.
        Inr (es \<noteq> [] \<and> list_all (\<lambda>e. e \<in> set feature_environments
                                     \<and> feature_enabled c ''bulk_operations'' e) es)))"

section \<open>What the Desk shows\<close>

definition controller_roles :: "string list" where
  "controller_roles = [''System Manager'', ''Controller Admin'', ''Operator'', ''Approver'', ''Auditor'']"

definition source_data_role :: string where
  "source_data_role = ''Source Data Manager''"

definition desk_route :: "string \<Rightarrow> string" where
  "desk_route path = ''/desk/'' @ dropWhile (\<lambda>c. c = CHR ''/'') path"

definition session_roles :: "runtime \<Rightarrow> string list" where
  "session_roles rt =
     (if rt_user rt = [] \<or> rt_user rt = ''Guest'' then [] else rt_roles rt (rt_user rt))"

definition has_app_permission :: "(string \<Rightarrow> string result) \<Rightarrow> runtime \<Rightarrow> bool result" where
  "has_app_permission wide rt =
     (if rt_user rt = [] \<or> rt_user rt = ''Guest'' then Inr False
      else if list_ex (\<lambda>r. r \<in> set (controller_roles @ [source_data_role])) (rt_roles rt (rt_user rt))
           then bindE (runtime_feature_config wide rt) (\<lambda>c. Inr (workspace_visible c))
           else Inr False)"

text \<open>The boot information: the apps of the Desk (name, title, route, shown), the feature values,
  and the workspaces, each the name, label and title it has.\<close>

record boot_app =
  app_name :: string
  app_title :: string
  app_route :: string
  app_shown :: bool

record boot_workspace =
  ws_name :: "string option"
  ws_label :: "string option"
  ws_title :: "string option"

record bootinfo =
  bi_apps :: "boot_app list"
  bi_features :: json
  bi_allowed :: "boot_workspace list"
  bi_workspaces :: "boot_workspace list"

definition other_workspace :: "boot_workspace \<Rightarrow> bool" where
  "other_workspace w = (ws_name w \<noteq> Some ''Frappe Controller'' \<and> ws_label w \<noteq> Some ''Frappe Controller''
                        \<and> ws_title w \<noteq> Some ''Frappe Controller'')"

definition source_data_app :: "bool \<Rightarrow> boot_app \<Rightarrow> boot_app" where
  "source_data_app visible a =
     (if app_name a = ''frappe_controller''
      then a\<lparr>app_title := ''Source Data'',
             app_route := (if visible then desk_route ''frappe-controller/source-data'' else []),
             app_shown := visible\<rparr>
      else a)"

definition extend_bootinfo ::
  "(string \<Rightarrow> string result) \<Rightarrow> runtime \<Rightarrow> bootinfo \<Rightarrow> bootinfo result" where
  "extend_bootinfo wide rt b =
     (let roles = session_roles rt;
          controller = list_ex (\<lambda>r. r \<in> set controller_roles) roles in
      bindE (if controller then runtime_feature_config wide rt else Inr disabled_config) (\<lambda>c.
      bindE (if source_data_role \<in> set roles \<and> \<not> controller
             then bindE (runtime_feature_config wide rt)
                    (\<lambda>v. Inr (b\<lparr>bi_apps := map (source_data_app (workspace_visible v)) (bi_apps b)\<rparr>))
             else Inr b) (\<lambda>b1.
      let b2 = b1\<lparr>bi_features := public_value c\<rparr> in
      Inr (if workspace_visible c then b2
           else b2\<lparr>bi_allowed := filter other_workspace (bi_allowed b2),
                   bi_workspaces := filter other_workspace (bi_workspaces b2)\<rparr>))))"

record desk_workspace =
  dw_hidden :: bool
  dw_links :: "(string \<times> bool) list"
  dw_content :: "json list"

definition link_groups :: "(string \<times> string) list" where
  "link_groups =
     [(''Fleet Inventory'', ''Fleet Inventory''),
      (''Server Agents'', ''Fleet Inventory''),
      (''Benches'', ''Fleet Inventory''),
      (''Managed Sites'', ''Fleet Inventory''),
      (''Controller Settings'', ''Fleet Inventory''),
      (''Operations and Failures'', ''Operations and Failures''),
      (''Site Actions'', ''Operations and Failures''),
      (''Operations'', ''Operations and Failures''),
      (''Operation Types'', ''Operations and Failures''),
      (''Agent Operations'', ''Operations and Failures''),
      (''Operation Failures'', ''Operations and Failures''),
      (''Bulk Operations'', ''Bulk Operations''),
      (''Bulk Targets'', ''Bulk Operations''),
      (''Bulk Progress'', ''Bulk Operations''),
      (''Bulk Failures'', ''Bulk Operations''),
      (''Source Data'', ''Source Data''),
      (''Browse Source Data'', ''Source Data'')]"

definition operations_visible :: "feature_config \<Rightarrow> bool" where
  "operations_visible c =
     list_ex (feature_visible c)
       [''backup_and_verify'', ''routine_operations'', ''restore_and_reinstall'',
        ''quarantine_delete'', ''data_update_preview'', ''data_update_apply'']"

definition visible_groups :: "feature_config \<Rightarrow> (string \<times> bool) list" where
  "visible_groups c =
     [(''Fleet Inventory'', feature_visible c ''inventory''),
      (''Operations and Failures'', operations_visible c),
      (''Bulk Operations'', feature_visible c ''bulk_operations''),
      (''Source Data'', workspace_visible c)]"

definition group_shown :: "feature_config \<Rightarrow> string \<Rightarrow> bool" where
  "group_shown c g = (map_of (visible_groups c) g = Some True)"

definition card_shown :: "feature_config \<Rightarrow> json \<Rightarrow> bool" where
  "card_shown c block =
     (case block of
        JObj kvs \<Rightarrow>
          jget kvs ''type'' \<noteq> JStr ''card''
          \<or> (case jget kvs ''data'' of
               JObj data \<Rightarrow> (case jget data ''card_name'' of JStr g \<Rightarrow> group_shown c g | _ \<Rightarrow> False)
             | _ \<Rightarrow> False)
      | _ \<Rightarrow> False)"

text \<open>The workspace the site has, if it has one, and the blocks of the standard one.\<close>

definition sync_workspace_visibility ::
  "(string \<Rightarrow> string result) \<Rightarrow> runtime \<Rightarrow> json list \<Rightarrow> desk_workspace option
     \<Rightarrow> ((string \<times> bool) list \<times> desk_workspace option) result" where
  "sync_workspace_visibility wide rt blocks workspace =
     bindE (runtime_feature_config wide rt) (\<lambda>c.
       case workspace of
         None \<Rightarrow> Inr ([(''workspace_visible'', False), (''inventory'', False),
                       (''operations'', False), (''bulk'', False)], None)
       | Some w \<Rightarrow>
           Inr ([(''workspace_visible'', workspace_visible c),
                 (''inventory'', feature_visible c ''inventory''),
                 (''operations'', operations_visible c),
                 (''bulk'', feature_visible c ''bulk_operations'')],
                Some (w\<lparr>dw_hidden := \<not> workspace_visible c,
                        dw_links := map (\<lambda>(l, _). (l, case map_of link_groups l of
                                       None \<Rightarrow> True | Some g \<Rightarrow> \<not> group_shown c g)) (dw_links w),
                        dw_content := filter (card_shown c) blocks\<rparr>)))"

section \<open>What a loaded configuration guarantees\<close>

definition config_wf :: "feature_config \<Rightarrow> bool" where
  "config_wf c =
     (map fst (fc_features c) = feature_names
      \<and> list_all (\<lambda>f. set (feature_set c f) \<subseteq> set feature_environments
                     \<and> set (feature_set c f) \<subseteq> set (feature_set c ''inventory'')) feature_names
      \<and> set (feature_set c ''data_update_apply'') \<subseteq> set (feature_set c ''data_update_preview'')
      \<and> set (feature_set c ''bulk_operations'') \<subseteq> set (feature_set c ''data_update_apply''))"

lemma disabled_config_wf: "config_wf disabled_config"
  by (simp add: config_wf_def disabled_config_def feature_set_def feature_names_def)

lemma distinct_feature_names: "distinct feature_names"
  by (simp add: feature_names_def)

lemma environment_names_ok:
  "environment_names v = Inr es \<Longrightarrow> distinct es \<and> set es \<subseteq> set feature_environments"
  by (auto simp: environment_names_def Let_def bindE_eq_Inr require_eq_Inr split: json.splits)

lemma mapE_keys: "mapE (\<lambda>x. bindE (g x) (\<lambda>y. Inr (x, y))) xs = Inr ys \<Longrightarrow> map fst ys = xs"
  by (induction xs arbitrary: ys) (auto simp: bindE_eq_Inr)

lemma normalized_config_wf: "normalized_config kvs = Inr c \<Longrightarrow> config_wf c"
proof -
  assume ok: "normalized_config kvs = Inr c"
  define fs where "fs = (case jget kvs ''features'' of JObj fs \<Rightarrow> fs | _ \<Rightarrow> [])"
  from ok obtain table where
    t: "mapE (\<lambda>f. bindE (environment_names (jget fs f)) (\<lambda>es. Inr (f, es))) feature_names = Inr table"
    and c: "fc_features c = table"
    and inv: "\<forall>(f, es)\<in>set table. set es \<subseteq> set (the (map_of table ''inventory''))"
    and ap: "set (the (map_of table ''data_update_apply'')) \<subseteq> set (the (map_of table ''data_update_preview''))"
    and bu: "set (the (map_of table ''bulk_operations'')) \<subseteq> set (the (map_of table ''data_update_apply''))"
    unfolding fs_def
    by (auto simp: normalized_config_def Let_def bindE_eq_Inr require_eq_Inr list_all_iff simp del: mapE.simps)
  have names: "map fst table = feature_names"
    using t by (rule mapE_keys)
  have mem: "f \<in> set feature_names \<Longrightarrow> (f, feature_set c f) \<in> set table" for f
  proof -
    assume "f \<in> set feature_names"
    then have "f \<in> fst ` set table" unfolding names [symmetric] by simp
    then obtain es where "map_of table f = Some es"
      using map_of_eq_None_iff [of table f] by auto
    then show "(f, feature_set c f) \<in> set table" by (auto simp: feature_set_def c dest: map_of_SomeD)
  qed
  have the: "f \<in> set feature_names \<Longrightarrow> the (map_of table f) = feature_set c f" for f
    using mem [of f] unfolding names [symmetric]
    by (auto simp: feature_set_def c map_of_eq_None_iff image_iff split: option.splits)
  have envs: "set (feature_set c f) \<subseteq> set feature_environments" if f: "f \<in> set feature_names" for f
  proof -
    obtain g where "bindE (environment_names (jget fs g)) (\<lambda>es. Inr (g, es)) = Inr (f, feature_set c f)"
      using mapE_in_set [OF t mem [OF f]] by auto
    then show ?thesis using environment_names_ok by (auto simp: bindE_eq_Inr)
  qed
  have "f \<in> set feature_names \<Longrightarrow> set (feature_set c f) \<subseteq> set (feature_set c ''inventory'')" for f
    using inv mem [of f] the [of "''inventory''"] by (auto simp: feature_names_def)
  moreover have "set (feature_set c ''data_update_apply'') \<subseteq> set (feature_set c ''data_update_preview'')"
    using ap the [of "''data_update_apply''"] the [of "''data_update_preview''"] by (simp add: feature_names_def)
  moreover have "set (feature_set c ''bulk_operations'') \<subseteq> set (feature_set c ''data_update_apply'')"
    using bu the [of "''data_update_apply''"] the [of "''bulk_operations''"] by (simp add: feature_names_def)
  ultimately show ?thesis using names envs by (auto simp: config_wf_def c list_all_iff)
qed

lemma runtime_config_wf: "runtime_feature_config wide rt = Inr c \<Longrightarrow> config_wf c"
  by (auto simp: runtime_feature_config_def load_feature_config_def bindE_eq_Inr
      intro: disabled_config_wf normalized_config_wf split: sum.splits exn.splits)

lemma enabled_names: "config_wf c \<Longrightarrow> feature_enabled c f e \<Longrightarrow> f \<in> set feature_names"
  unfolding config_wf_def feature_enabled_def
  by (metis map_of_eq_None_iff list.set_map)

text \<open>
  C8: whatever file the deployment has, a feature that the running configuration enables is one of
  the nine, its environment is one of the three, inventory is enabled there too, and bulk operations
  need apply, and apply needs preview, in the same environment.
\<close>

theorem feature_chain:
  assumes "runtime_feature_config wide rt = Inr c" and "feature_enabled c f e"
  shows "f \<in> set feature_names \<and> e \<in> set feature_environments \<and> feature_enabled c ''inventory'' e
    \<and> (f = ''bulk_operations'' \<longrightarrow> feature_enabled c ''data_update_apply'' e)
    \<and> (f = ''data_update_apply'' \<longrightarrow> feature_enabled c ''data_update_preview'' e)"
proof -
  have wf: "config_wf c" using assms(1) by (rule runtime_config_wf)
  have f: "f \<in> set feature_names" using wf assms(2) by (rule enabled_names)
  have e: "e \<in> set (feature_set c f)" and m: "fc_master c" using assms(2) by (auto simp: feature_enabled_def)
  have some: "map_of (fc_features c) g \<noteq> None" if "g \<in> set feature_names" for g
    using wf that unfolding config_wf_def map_of_eq_None_iff by (metis list.set_map)
  have in_names: "''inventory'' \<in> set feature_names" "''data_update_apply'' \<in> set feature_names"
      "''data_update_preview'' \<in> set feature_names"
    by (simp_all add: feature_names_def)
  have on: "feature_enabled c g e" if "g \<in> set feature_names" "e \<in> set (feature_set c g)" for g
    using m some [OF that(1)] that(2) by (simp add: feature_enabled_def)
  have sets: "e \<in> set feature_environments" "e \<in> set (feature_set c ''inventory'')"
    using wf f e unfolding config_wf_def list_all_iff by blast+
  have "f = ''bulk_operations'' \<Longrightarrow> feature_enabled c ''data_update_apply'' e"
    using wf e by (intro on in_names) (auto simp: config_wf_def)
  moreover have "f = ''data_update_apply'' \<Longrightarrow> feature_enabled c ''data_update_preview'' e"
    using wf e by (intro on in_names) (auto simp: config_wf_def)
  ultimately show ?thesis using f sets on [OF in_names(1)] by blast
qed

section \<open>A deployment\<close>

definition demo_flags :: json where
  "demo_flags =
     JObj [(''features'', JObj
              [(''agent_upgrades'', JList []), (''backup_and_verify'', JList [JStr ''staging'']),
               (''bulk_operations'', JList [JStr ''staging'']),
               (''data_update_apply'', JList [JStr ''staging'']),
               (''data_update_preview'', JList [JStr ''staging'']),
               (''inventory'', JList [JStr ''staging'']), (''quarantine_delete'', JList []),
               (''restore_and_reinstall'', JList [JStr ''staging'']), (''routine_operations'', JList [])]),
           (''master_enabled'', JBool True), (''schema_version'', JInt 1)]"

definition demo_config :: feature_config where
  "demo_config =
     \<lparr>fc_master = True,
      fc_features =
        [(''inventory'', [''staging'']), (''backup_and_verify'', [''staging'']),
         (''routine_operations'', []), (''restore_and_reinstall'', [''staging'']), (''quarantine_delete'', []),
         (''data_update_preview'', [''staging'']), (''data_update_apply'', [''staging'']),
         (''bulk_operations'', [''staging'']), (''agent_upgrades'', [])]\<rparr>"

definition demo_file :: file_info where
  "demo_file =
     \<lparr>fi_symlink = False, fi_regular = True, fi_uid = 0, fi_group_writable = False,
      fi_other_writable = False, fi_size = length (json_dumps demo_flags),
      fi_bytes = Some (json_dumps demo_flags)\<rparr>"

definition demo_runtime :: runtime where
  "demo_runtime =
     \<lparr>rt_user = ''alice'', rt_roles = (\<lambda>_. [''Operator'', ''Approver'', ''Controller Admin'']), rt_now = 0,
      rt_conf_path = JStr ''/etc/flags.json'', rt_site_path = [],
      rt_files = (\<lambda>_. Some demo_file), rt_in_test = False, rt_fresh = (\<lambda>_. ''new'')\<rparr>"

definition no_wide :: "string \<Rightarrow> string result" where
  "no_wide b = Inl UnicodeDecodeError"

lemma demo_flags_canon: "canon demo_flags = demo_flags"
  by (simp add: demo_flags_def)

lemma chunk_ok_single: "c < CHR 0x80 \<Longrightarrow> chunk_ok [c]"
  by (simp add: chunk_ok_def)

lemma take_head: "take n s = x # r \<Longrightarrow> x \<in> set s"
  by (metis in_set_takeD list.set_intros(1))

lemma json_text_ascii:
  assumes "ascii s" and "\<forall>c\<in>set s. c \<noteq> CHR 0x00" and "s \<noteq> []"
  shows "json_text wide s = Inr s"
proof -
  have no: "x \<notin> set s" if "CHR 0x80 \<le> x" for x
    using assms(1) that by (auto simp: ascii_def)
  have "take 2 s \<noteq> [CHR 0xFE, CHR 0xFF]" "take 2 s \<noteq> [CHR 0xFF, CHR 0xFE]"
      "take 3 s \<noteq> [CHR 0xEF, CHR 0xBB, CHR 0xBF]"
    using no [of "CHR 0xFE"] no [of "CHR 0xFF"] no [of "CHR 0xEF"]
    by (auto dest: take_head)
  moreover have "take 4 s \<noteq> [CHR 0x00, CHR 0x00, CHR 0xFE, CHR 0xFF]"
    using assms(2) by (auto dest: take_head)
  moreover have "s ! 0 \<noteq> CHR 0x00" using assms(2,3) by (cases s) auto
  moreover have "2 \<le> length s \<Longrightarrow> s ! 1 \<noteq> CHR 0x00" using assms(2) by auto
  ultimately have "\<not> wide_text s" by (auto simp: wide_text_def)
  moreover have "list_all chunk_pass (chunks s)"
    using assms(1) by (auto simp: chunks_ascii list_all_iff chunk_pass_def chunk_ok_single ascii_def)
  ultimately show ?thesis
    using \<open>take 3 s \<noteq> [CHR 0xEF, CHR 0xBB, CHR 0xBF]\<close> by (simp add: json_text_def)
qed

lemma demo_flags_ascii:
  "ascii (json_dumps demo_flags)" "\<forall>c\<in>set (json_dumps demo_flags). c \<noteq> CHR 0x00"
  "json_dumps demo_flags \<noteq> []" "length (json_dumps demo_flags) \<le> max_config_bytes"
  by (simp_all add: demo_flags_def quote_str_def escape_char_def ascii_def max_config_bytes_def
      int_str_def nat_str_small digit_char_def char_of_def bit_0)

lemma demo_read: "read_config_file wide (rt_files demo_runtime) ''/etc/flags.json'' True = Inr demo_flags"
  using demo_flags_ascii loads_dumps [OF keeps_hooks(2), of demo_flags]
  by (simp add: read_config_file_def demo_runtime_def demo_file_def starts_with_def json_text_ascii
      demo_flags_canon) (simp add: demo_flags_def)

lemma demo_config: "runtime_feature_config wide demo_runtime = Inr demo_config"
proof -
  have "feature_config_path demo_runtime = Inr ''/etc/flags.json''" "rt_in_test demo_runtime = False"
    by (simp_all add: feature_config_path_def demo_runtime_def)
  moreover have "document_ok demo_flags"
    by (simp add: document_ok_def demo_flags_def top_fields_def feature_names_def schema_version_def
        insert_commute)
  moreover have "normalized_config (case demo_flags of JObj kvs \<Rightarrow> kvs | _ \<Rightarrow> []) = Inr demo_config"
    by (simp add: normalized_config_def demo_flags_def feature_names_def environment_names_def
        feature_environments_def demo_config_def)
  ultimately show ?thesis
    by (simp add: runtime_feature_config_def load_feature_config_def demo_read)
qed

theorem feature_chain_witness:
  "feature_enabled demo_config ''data_update_preview'' ''staging''"
  using feature_chain [OF demo_config [of no_wide], of "''data_update_apply''" "''staging''"]
  by (simp add: feature_enabled_def feature_set_def demo_config_def)

section \<open>What an agent is told it may run\<close>

definition dry_run_payload :: "bool \<Rightarrow> string" where
  "dry_run_payload b = json_dumps (JObj [(''payload'', JObj [(''dry_run'', JBool b)])])"

lemma dry_run_feature:
  "operation \<in> set data_update_types \<Longrightarrow>
   operation_feature operation (Some (dry_run_payload b)) =
     Some (if b then ''data_update_preview'' else ''data_update_apply'')"
  using loads_dumps [OF keeps_hooks(1), of "JObj [(''payload'', JObj [(''dry_run'', JBool b)])]"]
  by (simp add: operation_feature_def dry_run_payload_def json_loads_def)

lemma data_update_feature:
  "operation \<in> set data_update_types \<Longrightarrow> operation_feature operation p = Some f \<Longrightarrow>
   f = ''data_update_preview'' \<or> f = ''data_update_apply''"
  by (auto simp: operation_feature_def split: sum.splits json.splits if_splits)

lemma catalog_feature:
  "operation \<notin> set data_update_types \<Longrightarrow> operation_feature operation p = map_of operation_features operation"
  by (simp add: operation_feature_def)

lemma distinct_operation_features: "distinct (map fst operation_features)"
  by (simp add: operation_features_def)

lemma data_update_not_catalog: "operation \<in> set data_update_types \<Longrightarrow> map_of operation_features operation = None"
proof -
  have "list_all (\<lambda>o1. map_of operation_features o1 = None) data_update_types"
    by (simp add: data_update_types_def operation_features_def)
  then show "operation \<in> set data_update_types \<Longrightarrow> map_of operation_features operation = None"
    by (simp add: list_all_iff)
qed

lemma cancel_feature: "operation_feature ''operation.cancel'' p = None"
  by (simp add: operation_feature_def data_update_types_def operation_features_def)

text \<open>
  The operations an agent is told it may run are, sorted and without duplicates, those that
  some command of the type would pass the gate with, in the environment of the agent: cancel
  always, nothing else for an unknown agent or where the features are off.
\<close>

theorem agent_operations_agree:
  assumes "enabled_operations_for_agent wide rt d agent = Inr ops"
  shows "sorted ops \<and> distinct ops \<and>
    (\<forall>operation. operation \<in> set ops \<longleftrightarrow>
       operation = ''operation.cancel''
       \<or> (\<exists>e c payload. agent_environment d agent = Some e \<and> runtime_feature_config wide rt = Inr c
            \<and> operation_enabled c e operation payload None))"
proof (cases "agent_environment d agent")
  case None
  then show ?thesis using assms by (auto simp: enabled_operations_for_agent_def)
next
  case (Some e)
  then obtain c where c: "runtime_feature_config wide rt = Inr c"
    and ops: "ops = sort (remdups (map fst (filter (\<lambda>(_, f). feature_enabled c f e) operation_features)
             @ (if feature_enabled c ''data_update_preview'' e \<or> feature_enabled c ''data_update_apply'' e
                then data_update_types else [])
             @ [''operation.cancel'']))"
    using assms by (auto simp: enabled_operations_for_agent_def bindE_eq_Inr)
  have "(\<exists>payload. operation_enabled c e operation payload None) \<longleftrightarrow> operation \<in> set ops"
    if "operation \<noteq> ''operation.cancel''" for operation
  proof (cases "operation \<in> set data_update_types")
    case True
    have "operation \<in> set ops \<longleftrightarrow>
        feature_enabled c ''data_update_preview'' e \<or> feature_enabled c ''data_update_apply'' e"
      using that True data_update_not_catalog [OF True] unfolding ops map_of_eq_None_iff
      by (auto simp: image_iff split: if_splits)
    moreover have "(\<exists>payload. operation_enabled c e operation payload None) \<longleftrightarrow>
        feature_enabled c ''data_update_preview'' e \<or> feature_enabled c ''data_update_apply'' e"
    proof
      assume "\<exists>payload. operation_enabled c e operation payload None"
      then show "feature_enabled c ''data_update_preview'' e \<or> feature_enabled c ''data_update_apply'' e"
        using that data_update_feature [OF True]
        unfolding operation_enabled_def by (auto split: option.splits if_splits)
    next
      assume "feature_enabled c ''data_update_preview'' e \<or> feature_enabled c ''data_update_apply'' e"
      then have "operation_enabled c e operation (Some (dry_run_payload True)) None
          \<or> operation_enabled c e operation (Some (dry_run_payload False)) None"
        by (auto simp: operation_enabled_def dry_run_feature [OF True])
      then show "\<exists>payload. operation_enabled c e operation payload None" by blast
    qed
    ultimately show ?thesis by blast
  next
    case False
    have "(\<exists>payload. operation_enabled c e operation payload None) \<longleftrightarrow>
        (\<exists>f. (operation, f) \<in> set operation_features \<and> feature_enabled c f e)"
      using that unfolding operation_enabled_def catalog_feature [OF False]
        map_of_eq_Some_iff [OF distinct_operation_features, symmetric]
      by (simp split: option.split)
    then show ?thesis using that False unfolding ops by (force split: if_splits)
  qed
  then show ?thesis using Some c unfolding ops by auto
qed


definition demo_agent :: agent_row where
  "demo_agent =
     \<lparr>sa_name = ''agent-1'', sa_agent_id = ''agent-1'', sa_environment = ''staging'', sa_enabled = True,
      sa_status = ''active'', sa_protocol_version = ''1.0'', sa_audience = ''frappe-controller'',
      sa_agent_version = None, sa_public_ip = None, sa_site_suffixes = None, sa_operations = None,
      sa_setup_apps = None, sa_drain_requested = False, sa_drain_by = None, sa_drain_at = None,
      sa_upgrade_state = ''none'', sa_desired_version = None, sa_desired_digest = None,
      sa_previous_version = None, sa_previous_digest = None, sa_observed_digest = None,
      sa_upgrade_by = None, sa_upgrade_at = None, sa_deployed_at = None, sa_verified_at = None,
      sa_failure_code = None, sa_capabilities = None, sa_reported_status = None, sa_last_seen = None,
      sa_inventory_at = None, sa_inventory_revision = 0, sa_inventory_digest = None,
      sa_inventory_snapshot = None, sa_token_hash = None, sa_enrollment_expires = None,
      sa_enrollment_consumed = None, sa_enrollment_completed = None, sa_expected_key = None,
      sa_signing_key = None, sa_last_signed_ns = None\<rparr>"

definition empty_db :: db where
  "empty_db =
     \<lparr>agents = [], benches = [], sites = [], operations = [], optargets = [], events = [],
      approvals = [], policies = [], bulks = [], bulktargets = [], bulkapprovals = [],
      certificates = []\<rparr>"

theorem agent_operations_agree_witness:
  "\<exists>ops. enabled_operations_for_agent no_wide demo_runtime (empty_db\<lparr>agents := [demo_agent]\<rparr>) ''agent-1''
      = Inr ops \<and> distinct ops \<and> ''operation.cancel'' \<in> set ops"
proof -
  obtain ops where ops: "enabled_operations_for_agent no_wide demo_runtime
      (empty_db\<lparr>agents := [demo_agent]\<rparr>) ''agent-1'' = Inr ops"
    by (simp add: enabled_operations_for_agent_def agent_environment_def get_row_def demo_agent_def
        environment_or_none_def feature_environments_def demo_config)
  show ?thesis using agent_operations_agree [OF ops] ops by blast
qed

end
