(* ===== verification/DocRules.thy ===== *)
theory DocRules
  imports Database JsonRoundtrip
begin

text \<open>
  The rules every DocType class shares (\<open>doctype/_invariants.py\<close>): digests, JSON columns,
  immutable fields, links, and the table of legal state transitions. \<open>frappe.throw\<close> is the
  exception it is given. A document before a save is compared with the row it replaces, \<open>None\<close> for
  a new document; \<open>save_row\<close> and \<open>insert_row\<close> are the part of \<open>Document.save\<close> and
  \<open>Document.insert\<close> the controller relies on: the row must exist, the name and the unique columns
  must be free.
\<close>

section \<open>Checks\<close>

definition invalid :: "string \<Rightarrow> exn" where
  "invalid msg = ValidationError msg"

text \<open>Fields by name, each with the comparison of its value in two documents.\<close>

type_synonym 'r field = "string \<times> ('r \<Rightarrow> 'r \<Rightarrow> bool)"

definition same :: "('r \<Rightarrow> 'v) \<Rightarrow> 'r \<Rightarrow> 'r \<Rightarrow> bool" where
  "same f p r = (f p = f r)"

definition immutable_fields :: "'r field list \<Rightarrow> 'r option \<Rightarrow> 'r \<Rightarrow> unit result" where
  "immutable_fields fs previous document =
     (case previous of
        None \<Rightarrow> Inr ()
      | Some p \<Rightarrow> eachE (\<lambda>(f, eq). require (eq p document) (invalid (f @ '' is immutable''))) fs)"

definition prevent_delete :: "string \<Rightarrow> 'a result" where
  "prevent_delete label = Inl (PermissionError (label @ '' records are retained and cannot be deleted''))"

definition require_sha256 :: "string option \<Rightarrow> string \<Rightarrow> unit result" where
  "require_sha256 value f =
     require (case value of None \<Rightarrow> False | Some s \<Rightarrow> is_sha256 s)
       (invalid (f @ '' must be a lowercase SHA-256 digest''))"

datatype json_shape = Mapping_shape | List_shape

definition has_shape :: "json_shape \<Rightarrow> json \<Rightarrow> bool" where
  "has_shape sh v = (case v of JObj _ \<Rightarrow> sh = Mapping_shape | JList _ \<Rightarrow> sh = List_shape | _ \<Rightarrow> False)"

definition require_json :: "string option \<Rightarrow> string \<Rightarrow> json_shape \<Rightarrow> json result" where
  "require_json value f sh =
     (case json_loads (or_empty value) of
        Inl _ \<Rightarrow> Inl (invalid (f @ '' must contain valid JSON''))
      | Inr v \<Rightarrow> bindE (require (has_shape sh v) (invalid (f @ '' has the wrong JSON shape''))) (\<lambda>_. Inr v))"

definition legal_transition ::
  "(string \<times> string list) list \<Rightarrow> string option \<Rightarrow> string \<Rightarrow> unit result" where
  "legal_transition transitions previous state =
     (case previous of
        None \<Rightarrow> Inr ()
      | Some p \<Rightarrow>
          if p = state then Inr ()
          else require (case map_of transitions p of None \<Rightarrow> False | Some ts \<Rightarrow> state \<in> set ts)
                 (invalid (''Illegal state transition: '' @ p @ '' to '' @ state)))"

text \<open>\<open>actual\<close> is what the database holds for the linked document, \<open>None\<close> where there is none.\<close>

definition require_link_value :: "string \<Rightarrow> string option \<Rightarrow> string \<Rightarrow> unit result" where
  "require_link_value name actual expected =
     require (name \<noteq> [] \<and> actual = Some expected) (invalid ''Linked ownership does not match'')"

lemma has_shape_cases: "has_shape sh v \<longleftrightarrow>
    (\<exists>kvs. v = JObj kvs \<and> sh = Mapping_shape) \<or> (\<exists>xs. v = JList xs \<and> sh = List_shape)"
  by (cases v) (auto simp: has_shape_def)

lemma require_sha256_ok [result_simps]: "require_sha256 v f = Inr u \<longleftrightarrow> (\<exists>s. v = Some s \<and> is_sha256 s)"
  by (auto simp: require_sha256_def require_eq_Inr split: option.splits)

lemma require_json_ok [result_simps]:
  "require_json v f sh = Inr j \<longleftrightarrow> json_loads (or_empty v) = Inr j \<and> has_shape sh j"
  by (auto simp: require_json_def bindE_eq_Inr require_eq_Inr split: sum.splits)

lemma require_link_ok [result_simps]:
  "require_link_value n a e = Inr u \<longleftrightarrow> n \<noteq> [] \<and> a = Some e"
  by (auto simp: require_link_value_def require_eq_Inr)

lemma immutable_fields_ok [result_simps]:
  "immutable_fields fs p r = Inr u \<longleftrightarrow> (\<forall>q. p = Some q \<longrightarrow> (\<forall>(f, eq)\<in>set fs. eq q r))"
  by (auto simp: immutable_fields_def eachE_eq_Inr require_eq_Inr split: option.splits)

lemma immutable_fields_None [simp]: "immutable_fields fs None r = Inr ()"
  by (simp add: immutable_fields_def)

lemma legal_transition_None [simp]: "legal_transition ts None s = Inr ()"
  by (simp add: legal_transition_def)

lemma legal_transition_ok [result_simps]:
  "legal_transition ts p s = Inr u \<longleftrightarrow>
     (\<forall>q. p = Some q \<longrightarrow> q = s \<or> (\<exists>l. map_of ts q = Some l \<and> s \<in> set l))"
  by (auto simp: legal_transition_def require_eq_Inr split: option.splits if_splits)

section \<open>Rows\<close>

definition insert_row ::
  "('r \<Rightarrow> string) \<Rightarrow> ('r \<Rightarrow> string option) list \<Rightarrow> 'r \<Rightarrow> 'r list \<Rightarrow> 'r list result" where
  "insert_row key uniques r t =
     bindE (require (get_row key t (key r) = None) (DuplicateEntryError (key r))) (\<lambda>_.
     bindE (require (list_all (\<lambda>u. u r = None \<or> list_all (\<lambda>x. u x \<noteq> u r) t) uniques)
              (DuplicateEntryError (key r))) (\<lambda>_.
     Inr (t @ [r])))"

definition save_row :: "('r \<Rightarrow> string) \<Rightarrow> 'r \<Rightarrow> 'r list \<Rightarrow> 'r list" where
  "save_row key r t = set_rows (\<lambda>x. key x = key r) (\<lambda>_. r) t"

definition old_row :: "('r \<Rightarrow> string) \<Rightarrow> 'r list \<Rightarrow> 'r \<Rightarrow> 'r result" where
  "old_row key t r = of_option (DoesNotExistError (key r)) (get_row key t (key r))"

lemma insert_row_ok: "insert_row key us r t = Inr t' \<Longrightarrow> t' = t @ [r] \<and> key r \<notin> key ` set t"
  by (auto simp: insert_row_def bindE_eq_Inr require_eq_Inr get_row_None)

lemma insert_row_unique:
  "insert_row key us r t = Inr t' \<Longrightarrow> u \<in> set us \<Longrightarrow> u r = Some v \<Longrightarrow> \<forall>x\<in>set t. u x \<noteq> Some v"
  by (auto simp: insert_row_def bindE_eq_Inr require_eq_Inr list_all_iff)

lemma get_save_row:
  "get_row key (save_row key r t) n = (if n = key r then map_option (\<lambda>_. r) (get_row key t n) else get_row key t n)"
  by (induction t) (auto simp: get_row_def save_row_def set_rows_def)

lemma save_row_keys [simp]: "map key (save_row key r t) = map key t"
  by (auto simp: save_row_def set_rows_def)

lemma save_row_in: "x \<in> set (save_row key r t) \<Longrightarrow> x = r \<or> x \<in> set t \<and> key x \<noteq> key r"
  by (auto simp: save_row_def set_rows_def split: if_splits)

section \<open>Lifecycles\<close>

text \<open>
  The contract of a table of transitions: it covers the states, leads to states only, and its final
  states have no way out. What follows holds for any sequence of saves of a document.
\<close>

locale lifecycle =
  fixes table :: "(string \<times> string list) list"
    and final :: "string list"
  assumes closed: "map_of table p = Some ts \<Longrightarrow> s \<in> set ts \<Longrightarrow> map_of table s \<noteq> None"
    and final_empty: "p \<in> set final \<Longrightarrow> map_of table p = Some []"
begin

definition step :: "string \<Rightarrow> string \<Rightarrow> bool" where
  "step p s = is_ok (legal_transition table (Some p) s)"

inductive run :: "string \<Rightarrow> string \<Rightarrow> bool" where
  stay: "run s s"
| move: "run s t \<Longrightarrow> step t u \<Longrightarrow> run s u"

lemma step_iff: "step p s \<longleftrightarrow> p = s \<or> (\<exists>ts. map_of table p = Some ts \<and> s \<in> set ts)"
  by (auto simp: step_def is_ok_iff legal_transition_ok)

lemma final_step: "p \<in> set final \<Longrightarrow> step p s \<longleftrightarrow> s = p"
  by (auto simp: step_iff final_empty)

lemma final_stays: "run p s \<Longrightarrow> p \<in> set final \<Longrightarrow> s = p"
  by (induction rule: run.induct) (auto simp: final_step)

lemma run_closed: "run p s \<Longrightarrow> map_of table p \<noteq> None \<Longrightarrow> map_of table s \<noteq> None"
proof (induction rule: run.induct)
  case (move s t u)
  from move.hyps(2) move.IH move.prems show ?case
    unfolding step_iff using closed [of t _ u] by metis
qed

end

text \<open>The two contracts, checked on a concrete table by evaluation.\<close>

definition table_ok :: "(string \<times> string list) list \<Rightarrow> string list \<Rightarrow> bool" where
  "table_ok table final =
     (list_all (\<lambda>(_, ts). list_all (\<lambda>s. map_of table s \<noteq> None) ts) table
      \<and> list_all (\<lambda>p. map_of table p = Some []) final)"

lemma lifecycleI: "table_ok table final \<Longrightarrow> lifecycle table final"
proof
  fix p ts s
  assume ok: "table_ok table final" and p: "map_of table p = Some ts" and s: "s \<in> set ts"
  have "(p, ts) \<in> set table" using p by (rule map_of_SomeD)
  then show "map_of table s \<noteq> None" using ok s by (auto simp: table_ok_def list_all_iff)
next
  fix p
  assume "table_ok table final" "p \<in> set final"
  then show "map_of table p = Some []" by (auto simp: table_ok_def list_all_iff)
qed

end
