(* ===== verification/OperationDocs.thy ===== *)
theory OperationDocs
  imports DocRules FeatureFlags LifecycleAuthoring
begin

text \<open>
  The documents of one operation: \<open>ControllerOperation\<close>, its \<open>OperationTarget\<close>, its
  \<open>OperationEvent\<close>s and \<open>OperationApproval\<close>s, each with what its class checks before a row is
  written and what the insertion changes. \<open>svc\<close> is the flag \<open>controller_service\<close>. The e-mail
  \<open>ControllerOperation.after_insert\<close> sends to approvers changes no table and is left out.
\<close>

section \<open>Operations\<close>

definition op_terminal :: "string list" where
  "op_terminal = [''succeeded'', ''failed'', ''cancelled'', ''timed_out'', ''needs_intervention'',
                  ''dead_letter'', ''rejected'']"

definition op_transitions :: "(string \<times> string list) list" where
  "op_transitions =
     [(''awaiting_approval'', [''queued'', ''cancelled'']),
      (''queued'', [''leased'', ''failed'', ''cancelled'', ''timed_out'']),
      (''leased'', [''queued'', ''running'', ''cancelled'', ''timed_out'']),
      (''running'', ''queued'' # op_terminal)]
     @ map (\<lambda>s. (s, [])) op_terminal"

definition op_identity_fields :: "op_row field list" where
  "op_identity_fields =
     [(''operation_id'', same op_operation_id), (''idempotency_key'', same op_idempotency_key),
      (''protocol_version'', same op_protocol_version), (''server_agent'', same op_server_agent),
      (''bench'', same op_bench), (''managed_site'', same op_managed_site),
      (''operation_type'', same op_type), (''payload_json'', same op_payload_json),
      (''payload_hash'', same op_payload_hash), (''requested_by'', same op_requested_by),
      (''approval_policy'', same op_policy), (''required_approvals'', same op_required),
      (''command_json'', same op_command_json), (''command_hash'', same op_command_hash),
      (''bulk_parent'', same op_bulk_parent), (''bulk_target'', same op_bulk_target),
      (''retry_of'', same op_retry_of), (''preview_of'', same op_preview_of),
      (''preview_result_hash'', same op_preview_hash)]"

definition op_credentials :: "op_row \<Rightarrow> string option \<times> int option \<times> int option" where
  "op_credentials o1 = (op_credential o1, op_credential_received o1, op_credential_consumed o1)"

definition op_before_insert :: "runtime \<Rightarrow> op_row \<Rightarrow> op_row result" where
  "op_before_insert rt o1 =
     (if op_requested_by o1 = [] then Inr (o1\<lparr>op_requested_by := rt_user rt\<rparr>)
      else bindE (require (rt_user rt = ''Administrator'' \<or> op_requested_by o1 = rt_user rt)
                    (PermissionError ''requested_by must be the authenticated user'')) (\<lambda>_. Inr o1))"

definition op_formats :: "op_row \<Rightarrow> unit result" where
  "op_formats o1 =
     bindE (require (op_protocol_version o1 = ''1.0'')
              (invalid ''Unsupported operation protocol version'')) (\<lambda>_.
     bindE (require_json (op_payload_json o1) ''payload_json'' Mapping_shape) (\<lambda>_.
     bindE (require_sha256 (Some (op_payload_hash o1)) ''payload_hash'') (\<lambda>_.
     bindE (if truthy (op_command_json o1)
            then bindE (require_json (op_command_json o1) ''command_json'' Mapping_shape) (\<lambda>_. Inr ())
            else Inr ()) (\<lambda>_.
     bindE (if truthy (op_command_hash o1) then require_sha256 (op_command_hash o1) ''command_hash''
            else Inr ()) (\<lambda>_.
     bindE (require (truthy (op_preview_of o1) = truthy (op_preview_hash o1))
              (invalid ''Data update preview lineage is incomplete'')) (\<lambda>_.
     if truthy (op_preview_hash o1) then require_sha256 (op_preview_hash o1) ''preview_result_hash''
     else Inr ()))))))"

text \<open>The command of a data update and its \<open>dry_run\<close> flag, and the command that applies a preview.\<close>

definition data_update_command :: "string option \<Rightarrow> (json \<times> bool) option" where
  "data_update_command text1 =
     (case json_loads (or_empty text1) of
        Inr (JObj command) \<Rightarrow>
          (case jget command ''payload'' of
             JObj payload \<Rightarrow>
               (case jget payload ''dry_run'' of
                  JBool dry_run \<Rightarrow>
                    if jkeys command = {''policy_id'', ''payload''} then Some (JObj command, dry_run) else None
                | _ \<Rightarrow> None)
           | _ \<Rightarrow> None)
      | _ \<Rightarrow> None)"

definition apply_of :: "json \<Rightarrow> json option" where
  "apply_of command =
     (case command of
        JObj kvs \<Rightarrow>
          (case jget kvs ''payload'' of
             JObj payload \<Rightarrow>
               Some (JObj (AList.update ''payload''
                 (JObj (AList.update ''dry_run'' (JBool False) payload)) kvs))
           | _ \<Rightarrow> None)
      | _ \<Rightarrow> None)"

definition is_dry_run :: "json \<Rightarrow> bool" where
  "is_dry_run command =
     (case command of
        JObj kvs \<Rightarrow> (case jget kvs ''payload'' of
                      JObj payload \<Rightarrow> jget payload ''dry_run'' = JBool True | _ \<Rightarrow> False)
      | _ \<Rightarrow> False)"

definition preview_applies :: "op_row \<Rightarrow> json \<Rightarrow> op_row \<Rightarrow> bool" where
  "preview_applies o1 command p =
     (case json_loads (or_empty (op_payload_json p)) of
        Inl _ \<Rightarrow> False
      | Inr preview \<Rightarrow>
          (case apply_of preview of
             None \<Rightarrow> False
           | Some expected \<Rightarrow>
               op_type p = op_type o1 \<and> op_server_agent p = op_server_agent o1
               \<and> op_bench p = op_bench o1 \<and> op_managed_site p = op_managed_site o1
               \<and> op_requested_by p = op_requested_by o1 \<and> op_state p = ''succeeded''
               \<and> op_result_hash p = op_preview_hash o1 \<and> is_dry_run preview
               \<and> py_eq command expected))"

definition op_preview :: "db \<Rightarrow> op_row \<Rightarrow> json \<Rightarrow> string \<Rightarrow> unit result" where
  "op_preview d o1 command p =
     bindE (require
        (\<not> list_ex (\<lambda>x. op_preview_of x = Some p \<and> op_name x \<noteq> op_name o1) (operations d)
         \<and> (case find (\<lambda>t. bx_preview t = Some p) (bulktargets d) of
              None \<Rightarrow> True | Some t \<Rightarrow> bx_name t = or_empty (op_bulk_target o1)))
        (DuplicateEntryError ''A data update preview may authorize only one apply lineage'')) (\<lambda>_.
     require (case get_row op_name (operations d) p of
                None \<Rightarrow> False | Some r \<Rightarrow> preview_applies o1 command r)
       (PermissionError ''Data update preview binding is invalid''))"

definition op_data_update :: "db \<Rightarrow> op_row \<Rightarrow> unit result" where
  "op_data_update d o1 =
     (if op_type o1 \<in> set data_update_types then
        (case data_update_command (op_payload_json o1) of
           None \<Rightarrow> Inl (invalid ''Data update operation payload is invalid'')
         | Some (command, dry_run) \<Rightarrow>
             bindE (require (\<not> (dry_run \<and> truthy (op_preview_of o1)))
                      (invalid ''A dry run cannot be promoted as an actual update'')) (\<lambda>_.
             bindE (require (dry_run \<or> truthy (op_preview_of o1))
                      (PermissionError ''An actual data update requires a successful preview'')) (\<lambda>_.
             if truthy (op_preview_of o1) then op_preview d o1 command (the (op_preview_of o1))
             else Inr ())))
      else require (\<not> truthy (op_preview_of o1) \<and> \<not> truthy (op_preview_hash o1))
             (invalid ''Preview lineage is only valid for data updates''))"

definition op_links :: "db \<Rightarrow> op_row \<Rightarrow> unit result" where
  "op_links d o1 =
     bindE (require_link_value (op_bench o1)
              (map_option be_server_agent (get_row be_name (benches d) (op_bench o1)))
              (op_server_agent o1)) (\<lambda>_.
     if truthy (op_managed_site o1) then
       (let site = get_row si_name (sites d) (the (op_managed_site o1)) in
        bindE (require_link_value (the (op_managed_site o1)) (map_option si_bench site) (op_bench o1)) (\<lambda>_.
        require_link_value (the (op_managed_site o1)) (map_option si_server_agent site) (op_server_agent o1)))
     else Inr ())"

definition retryable_states :: "string list" where
  "retryable_states = [''failed'', ''timed_out'', ''needs_intervention'', ''dead_letter'', ''rejected'']"

definition opt_row :: "('r \<Rightarrow> string) \<Rightarrow> 'r list \<Rightarrow> string option \<Rightarrow> 'r option" where
  "opt_row key t n = Option.bind n (get_row key t)"

definition bulk_lineage :: "db \<Rightarrow> op_row \<Rightarrow> bulktarget_row \<Rightarrow> bool" where
  "bulk_lineage d o1 t =
     (let lineage = (if truthy (bx_retry_of t) then bx_retry_of t else bx_retry_source t);
          previous_target = Option.bind (opt_row bx_name (bulktargets d) lineage) bx_child
      in truthy (op_retry_of o1) \<and> previous_target = op_retry_of o1
         \<and> (case opt_row op_name (operations d) (op_retry_of o1) of
              None \<Rightarrow> False
            | Some p \<Rightarrow>
                (op_bulk_parent p = op_bulk_parent o1
                 \<or> op_bulk_parent p
                   = Option.bind (opt_row bu_name (bulks d) (op_bulk_parent o1)) bu_retry_of)
                \<and> op_type p = op_type o1 \<and> op_payload_hash p = op_payload_hash o1
                \<and> op_state p \<in> set retryable_states))"

definition op_bulk_links :: "db \<Rightarrow> op_row \<Rightarrow> unit result" where
  "op_bulk_links d o1 =
     bindE (require (truthy (op_bulk_parent o1) \<and> truthy (op_bulk_target o1) \<and> truthy (op_managed_site o1))
              (invalid ''Bulk child operation linkage is incomplete'')) (\<lambda>_.
     case get_row bx_name (bulktargets d) (the (op_bulk_target o1)) of
       None \<Rightarrow> Inl (invalid ''Bulk child operation target does not match'')
     | Some t \<Rightarrow>
         bindE (require (bx_bulk t = the (op_bulk_parent o1) \<and> bx_server_agent t = op_server_agent o1
                         \<and> bx_bench t = op_bench o1 \<and> Some (bx_managed_site t) = op_managed_site o1)
                  (invalid ''Bulk child operation target does not match'')) (\<lambda>_.
         bindE (require (\<not> (bx_attempt t = 0 \<and> truthy (op_retry_of o1) \<and> \<not> truthy (bx_retry_source t)))
                  (invalid ''Initial bulk child cannot have retry lineage'')) (\<lambda>_.
         require (bx_attempt t > 0 \<or> truthy (bx_retry_source t) \<longrightarrow> bulk_lineage d o1 t)
           (invalid ''Bulk child retry lineage is invalid''))))"

text \<open>\<open>operation_retry.py\<close>.\<close>

definition retry_states :: "string list" where
  "retry_states = [''failed'', ''cancelled'', ''timed_out'', ''needs_intervention'', ''dead_letter'',
                   ''rejected'']"

definition recovery_states :: "string list" where
  "recovery_states = [''timed_out'', ''needs_intervention'']"

definition validate_retry_source :: "op_row \<Rightarrow> bool \<Rightarrow> unit result" where
  "validate_retry_source o1 recovery_confirmed =
     bindE (require (op_state o1 \<in> set retry_states)
        (OperationAuthoringError ''Only finished, unsuccessful operations can be retried'')) (\<lambda>_.
     bindE (require (\<not> truthy (op_bulk_parent o1) \<and> \<not> truthy (op_bulk_target o1))
        (OperationAuthoringError ''Retry bulk children through the Bulk Operation workflow'')) (\<lambda>_.
     bindE (require (op_type o1 \<in> set lifecycle_operations)
        (OperationAuthoringError
           ''This operation requires its dedicated workflow and a fresh preview'')) (\<lambda>_.
     require (\<not> (op_state o1 \<in> set recovery_states \<and> \<not> recovery_confirmed))
       (OperationAuthoringError
          ''Review the original job and verify it has stopped and any partial changes are safe before confirming recovery''))))"

definition op_retry_lineage :: "bool \<Rightarrow> db \<Rightarrow> op_row option \<Rightarrow> op_row \<Rightarrow> unit result" where
  "op_retry_lineage svc d previous o1 =
     bindE (require (\<not> (previous = None \<and> \<not> svc)) (PermissionError ''Retry lineage is service-owned'')) (\<lambda>_.
     bindE (of_option (DoesNotExistError (the (op_retry_of o1)))
              (opt_row op_name (operations d) (op_retry_of o1))) (\<lambda>source.
     bindE (catchE (\<lambda>e. case e of OperationAuthoringError msg \<Rightarrow> Some (invalid msg) | _ \<Rightarrow> None)
              (validate_retry_source source True)) (\<lambda>_.
     require (op_type o1 = op_type source \<and> op_server_agent o1 = op_server_agent source
              \<and> op_bench o1 = op_bench source
              \<and> or_none (op_managed_site o1) = or_none (op_managed_site source)
              \<and> op_payload_hash o1 = op_payload_hash source)
       (invalid ''Retry must preserve the original operation payload and target''))))"

definition op_approval_counts :: "op_row \<Rightarrow> unit result" where
  "op_approval_counts o1 =
     bindE (require (0 \<le> op_required o1 \<and> 0 \<le> op_approval_count o1)
              (invalid ''Approval counts cannot be negative'')) (\<lambda>_.
     bindE (require (\<not> (op_state o1 \<in> {''queued'', ''leased''}
                        \<and> op_approval_status o1 \<notin> {''approved'', ''not_required''}))
              (PermissionError ''Operation approval threshold is not satisfied'')) (\<lambda>_.
     require (\<not> (op_approval_status o1 = ''not_required'' \<and> op_required o1 \<noteq> 0))
       (PermissionError ''Required approvals cannot be bypassed'')))"

definition op_credential_owned :: "bool \<Rightarrow> op_row option \<Rightarrow> op_row \<Rightarrow> unit result" where
  "op_credential_owned svc previous o1 =
     require (svc \<or> (case previous of
                       Some p \<Rightarrow> op_credentials p = op_credentials o1
                     | None \<Rightarrow> \<not> truthy (op_credential o1) \<and> op_credential_received o1 = None
                               \<and> op_credential_consumed o1 = None))
       (PermissionError ''Operation credential fields are service-owned'')"

definition op_validate :: "bool \<Rightarrow> db \<Rightarrow> op_row option \<Rightarrow> op_row \<Rightarrow> unit result" where
  "op_validate svc d previous o1 =
     bindE (op_formats o1) (\<lambda>_.
     bindE (op_data_update d o1) (\<lambda>_.
     bindE (require (op_state o1 \<in> set ([''queued'', ''leased'', ''running''] @ op_terminal)
                     \<longrightarrow> truthy (op_command_json o1) \<and> truthy (op_command_hash o1))
              (invalid ''Dispatched operation requires an immutable command snapshot'')) (\<lambda>_.
     bindE (op_links d o1) (\<lambda>_.
     bindE (if truthy (op_bulk_parent o1) \<or> truthy (op_bulk_target o1) then op_bulk_links d o1
            else if truthy (op_retry_of o1) then op_retry_lineage svc d previous o1
            else Inr ()) (\<lambda>_.
     bindE (op_approval_counts o1) (\<lambda>_.
     bindE (immutable_fields op_identity_fields previous o1) (\<lambda>_.
     bindE (op_credential_owned svc previous o1) (\<lambda>_.
     legal_transition op_transitions (map_option op_state previous) (op_state o1)))))))))"

definition op_insert :: "bool \<Rightarrow> runtime \<Rightarrow> op_row \<Rightarrow> db \<Rightarrow> db result" where
  "op_insert svc rt o1 d =
     bindE (op_before_insert rt o1) (\<lambda>o2.
     let o3 = o2\<lparr>op_name := op_operation_id o2\<rparr> in
     bindE (op_validate svc d None o3) (\<lambda>_.
     bindE (insert_row op_name [\<lambda>x. Some (op_idempotency_key x), op_bulk_target] o3 (operations d)) (\<lambda>t.
     Inr (d\<lparr>operations := t\<rparr>))))"

definition op_save :: "bool \<Rightarrow> op_row \<Rightarrow> db \<Rightarrow> db result" where
  "op_save svc o1 d =
     bindE (old_row op_name (operations d) o1) (\<lambda>p.
     bindE (op_validate svc d (Some p) o1) (\<lambda>_.
     Inr (d\<lparr>operations := save_row op_name o1 (operations d)\<rparr>)))"

definition op_set :: "string \<Rightarrow> (op_row \<Rightarrow> op_row) \<Rightarrow> db \<Rightarrow> db" where
  "op_set n f d = d\<lparr>operations := set_rows (\<lambda>r. op_name r = n) f (operations d)\<rparr>"

section \<open>Targets\<close>

definition ot_identity_fields :: "optarget_row field list" where
  "ot_identity_fields =
     [(''operation'', same ot_operation), (''target_key'', same ot_target_key),
      (''server_agent'', same ot_server_agent), (''bench'', same ot_bench),
      (''managed_site'', same ot_managed_site), (''site_domain_snapshot'', same ot_site_domain),
      (''operation_type_snapshot'', same ot_type), (''payload_hash_snapshot'', same ot_payload_hash),
      (''inventory_revision_snapshot'', same ot_revision), (''bulk_parent'', same ot_bulk_parent),
      (''bulk_target'', same ot_bulk_target), (''retry_of'', same ot_retry_of)]"

definition target_of :: "db \<Rightarrow> string \<Rightarrow> optarget_row option" where
  "target_of d operation = get_row ot_operation (optargets d) operation"

definition ot_bulk_links :: "op_row \<Rightarrow> optarget_row \<Rightarrow> unit result" where
  "ot_bulk_links p t =
     (if truthy (op_bulk_parent p) \<or> truthy (op_bulk_target p) \<or> truthy (ot_bulk_parent t)
         \<or> truthy (ot_bulk_target t)
      then bindE (require (truthy (ot_bulk_parent t) \<and> truthy (ot_bulk_target t))
                    (invalid ''Bulk Operation Target linkage is incomplete'')) (\<lambda>_.
           require (ot_bulk_parent t = op_bulk_parent p \<and> ot_bulk_target t = op_bulk_target p)
             (invalid ''Operation Target bulk linkage differs from Operation''))
      else Inr ())"

definition ot_validate :: "db \<Rightarrow> optarget_row option \<Rightarrow> optarget_row \<Rightarrow> unit result" where
  "ot_validate d previous t =
     bindE (require_sha256 (Some (ot_payload_hash t)) ''payload_hash_snapshot'') (\<lambda>_.
     bindE (if truthy (ot_revision t) then require_sha256 (ot_revision t) ''inventory_revision_snapshot''
            else Inr ()) (\<lambda>_.
     bindE (require_link_value (ot_bench t)
              (map_option be_server_agent (get_row be_name (benches d) (ot_bench t)))
              (ot_server_agent t)) (\<lambda>_.
     bindE (if truthy (ot_managed_site t)
            then require_link_value (the (ot_managed_site t))
                   (map_option si_bench (get_row si_name (sites d) (the (ot_managed_site t)))) (ot_bench t)
            else Inr ()) (\<lambda>_.
     bindE (of_option (invalid ''Operation Target snapshot differs from its parent'')
              (get_row op_name (operations d) (ot_operation t))) (\<lambda>p.
     bindE (require (op_server_agent p = ot_server_agent t \<and> op_bench p = ot_bench t
                     \<and> op_managed_site p = ot_managed_site t \<and> op_type p = ot_type t
                     \<and> op_payload_hash p = ot_payload_hash t)
              (invalid ''Operation Target snapshot differs from its parent'')) (\<lambda>_.
     bindE (ot_bulk_links p t) (\<lambda>_.
     bindE (if truthy (op_retry_of p)
            then bindE (of_option (invalid ''Retry source target is missing'')
                          (target_of d (the (op_retry_of p)))) (\<lambda>r. Inr (Some (ot_name r)))
            else Inr None) (\<lambda>expected.
     bindE (require (ot_retry_of t = expected)
              (invalid ''Operation Target retry lineage differs from Operation'')) (\<lambda>_.
     bindE (immutable_fields ot_identity_fields previous t) (\<lambda>_.
     legal_transition op_transitions (map_option ot_state previous) (ot_state t)))))))))))"

definition ot_insert :: "runtime \<Rightarrow> optarget_row \<Rightarrow> db \<Rightarrow> db result" where
  "ot_insert rt t d =
     (let t1 = t\<lparr>ot_name := rt_fresh rt d\<rparr> in
      bindE (ot_validate d None t1) (\<lambda>_.
      bindE (insert_row ot_name [\<lambda>x. Some (ot_target_key x), ot_bulk_target] t1 (optargets d)) (\<lambda>rows.
      Inr (d\<lparr>optargets := rows\<rparr>))))"

definition ot_save :: "optarget_row \<Rightarrow> db \<Rightarrow> db result" where
  "ot_save t d =
     bindE (old_row ot_name (optargets d) t) (\<lambda>p.
     bindE (ot_validate d (Some p) t) (\<lambda>_.
     Inr (d\<lparr>optargets := save_row ot_name t (optargets d)\<rparr>)))"

section \<open>Events\<close>

definition ev_fields :: "event_row field list" where
  "ev_fields =
     [(''operation'', same ev_operation), (''operation_id'', same ev_operation_id),
      (''sequence'', same ev_sequence), (''attempt'', same ev_attempt), (''step'', same ev_step),
      (''kind'', same ev_kind), (''details_json'', same ev_details), (''body_hash'', same ev_body_hash),
      (''agent_created_at'', same ev_created_at), (''received_at'', same ev_received_at)]"

definition ev_before_insert :: "runtime \<Rightarrow> int option \<Rightarrow> event_row \<Rightarrow> event_row" where
  "ev_before_insert rt received e =
     e\<lparr>ev_received_at := (case received of None \<Rightarrow> rt_now rt | Some t \<Rightarrow> t)\<rparr>"

definition ev_validate :: "db \<Rightarrow> event_row option \<Rightarrow> event_row \<Rightarrow> unit result" where
  "ev_validate d previous e =
     bindE (require (1 \<le> ev_sequence e \<and> (case ev_attempt e of None \<Rightarrow> True | Some a \<Rightarrow> 0 \<le> a))
              (invalid ''Event sequence and attempt are invalid'')) (\<lambda>_.
     bindE (if ev_details e \<noteq> None
            then bindE (require_json (ev_details e) ''details_json'' Mapping_shape) (\<lambda>_. Inr ())
            else Inr ()) (\<lambda>_.
     bindE (require_sha256 (Some (ev_body_hash e)) ''body_hash'') (\<lambda>_.
     bindE (of_option (invalid ''Event operation identity does not match'')
              (get_row op_name (operations d) (ev_operation e))) (\<lambda>o1.
     bindE (require (op_operation_id o1 = ev_operation_id e)
              (invalid ''Event operation identity does not match'')) (\<lambda>_.
     bindE (case find (\<lambda>x. ev_operation x = ev_operation e \<and> ev_sequence x = ev_sequence e) (events d) of
              None \<Rightarrow> Inr ()
            | Some x \<Rightarrow>
                Inl (if ev_body_hash x = ev_body_hash e
                     then DuplicateEntryError
                       ''Exact event duplicates must be resolved by the idempotent ingestion service''
                     else invalid ''Event sequence conflicts with immutable history'')) (\<lambda>_.
     bindE (require (previous = None \<longrightarrow> ev_sequence e = op_last_sequence o1 + 1)
              (invalid ''Event sequence is not contiguous'')) (\<lambda>_.
     immutable_fields ev_fields previous e)))))))"

definition ev_after_insert :: "event_row \<Rightarrow> db \<Rightarrow> db" where
  "ev_after_insert e d = op_set (ev_operation e) (\<lambda>o1. o1\<lparr>op_last_sequence := ev_sequence e\<rparr>) d"

definition ev_insert :: "runtime \<Rightarrow> int option \<Rightarrow> event_row \<Rightarrow> db \<Rightarrow> db result" where
  "ev_insert rt received e d =
     (let e1 = (ev_before_insert rt received e)\<lparr>ev_name := rt_fresh rt d\<rparr> in
      bindE (ev_validate d None e1) (\<lambda>_.
      bindE (insert_row ev_name [] e1 (events d)) (\<lambda>rows.
      Inr (ev_after_insert e1 (d\<lparr>events := rows\<rparr>)))))"

section \<open>Approvals\<close>

definition ap_fields :: "approval_row field list" where
  "ap_fields =
     [(''operation'', same ap_operation), (''approval_policy'', same ap_policy),
      (''decision'', same ap_decision), (''approver'', same ap_approver),
      (''decided_at'', same ap_decided_at), (''comment'', same ap_comment),
      (''payload_hash_snapshot'', same ap_payload_hash), (''target_key_snapshot'', same ap_target_key),
      (''preview_result_hash_snapshot'', same ap_preview_hash), (''decision_hash'', same ap_decision_hash)]"

definition ap_body :: "approval_row \<Rightarrow> json" where
  "ap_body a =
     JObj [(''operation'', JStr (ap_operation a)), (''policy'', JStr (ap_policy a)),
           (''decision'', JStr (ap_decision a)), (''approver'', JStr (ap_approver a)),
           (''decided_at'', JStr (datetime_str (ap_decided_at a))),
           (''comment'', JStr (or_empty (ap_comment a))), (''payload_hash'', JStr (ap_payload_hash a)),
           (''target_key'', JStr (ap_target_key a)), (''preview_result_hash'', json_opt (ap_preview_hash a))]"

definition ap_before_insert :: "runtime \<Rightarrow> db \<Rightarrow> approval_row \<Rightarrow> approval_row result" where
  "ap_before_insert rt d a =
     bindE (of_option (invalid ''Operation approval target does not exist'')
              (get_row op_name (operations d) (ap_operation a))) (\<lambda>o1.
     bindE (of_option (invalid ''Operation approval target does not exist'')
              (target_of d (ap_operation a))) (\<lambda>t.
     bindE (require (ot_target_key t \<noteq> []) (invalid ''Operation approval target does not exist'')) (\<lambda>_.
     let a1 = a\<lparr>ap_approver := rt_user rt, ap_decided_at := rt_now rt,
                ap_payload_hash := op_payload_hash o1, ap_target_key := ot_target_key t,
                ap_preview_hash := op_preview_hash o1\<rparr> in
     bindE (encodeE (json_dumps (ap_body a1))) (\<lambda>body.
     Inr (a1\<lparr>ap_decision_hash := sha256_hex body\<rparr>)))))"

definition ap_validate ::
  "(string \<Rightarrow> string result) \<Rightarrow> runtime \<Rightarrow> db \<Rightarrow> approval_row option \<Rightarrow> approval_row \<Rightarrow> unit result" where
  "ap_validate wide rt d previous a =
     bindE (require_sha256 (Some (ap_decision_hash a)) ''decision_hash'') (\<lambda>_.
     bindE (require_sha256 (Some (ap_payload_hash a)) ''payload_hash_snapshot'') (\<lambda>_.
     bindE (require (ap_target_key a \<noteq> []) (invalid ''Approval target key snapshot is invalid'')) (\<lambda>_.
     bindE (if truthy (ap_preview_hash a)
            then require_sha256 (ap_preview_hash a) ''preview_result_hash_snapshot'' else Inr ()) (\<lambda>_.
     bindE (require (''Approver'' \<in> set (rt_roles rt (ap_approver a)))
              (PermissionError ''Approver role is required'')) (\<lambda>_.
     bindE (of_option (invalid ''Approval policy does not match the operation'')
              (get_row op_name (operations d) (ap_operation a))) (\<lambda>o1.
     bindE (require (op_policy o1 = Some (ap_policy a))
              (invalid ''Approval policy does not match the operation'')) (\<lambda>_.
     bindE (require (op_requested_by o1 \<noteq> ap_approver a)
              (PermissionError ''An operation requester cannot approve their own operation'')) (\<lambda>_.
     bindE (require_operation wide rt (target_environment d (op_server_agent o1) (op_managed_site o1))
              (op_type o1) (op_payload_json o1) (op_bulk_parent o1)) (\<lambda>_.
     bindE (require (op_approval_status o1 = ''pending'')
              (invalid ''Operation is not accepting approvals'')) (\<lambda>_.
     bindE (require (op_payload_hash o1 = ap_payload_hash a \<and> op_preview_hash o1 = ap_preview_hash a
                     \<and> map_option ot_target_key (target_of d (ap_operation a)) = Some (ap_target_key a))
              (invalid ''Approval snapshot does not match the operation'')) (\<lambda>_.
     bindE (require (\<not> list_ex (\<lambda>x. ap_operation x = ap_operation a \<and> ap_approver x = ap_approver a)
                        (approvals d))
              (DuplicateEntryError ''Each approver may decide only once'')) (\<lambda>_.
     immutable_fields ap_fields previous a))))))))))))"

definition approved_count :: "db \<Rightarrow> string \<Rightarrow> nat" where
  "approved_count d operation =
     length (filter (\<lambda>x. ap_operation x = operation \<and> ap_decision x = ''approved'') (approvals d))"

definition ap_after_insert :: "approval_row \<Rightarrow> db \<Rightarrow> db" where
  "ap_after_insert a d =
     (if ap_decision a = ''rejected''
      then op_set (ap_operation a) (\<lambda>o1. o1\<lparr>op_approval_status := ''rejected''\<rparr>) d
      else
        (let approved = int (approved_count d (ap_operation a));
             required = (case get_row op_name (operations d) (ap_operation a) of
                           None \<Rightarrow> 0 | Some o1 \<Rightarrow> op_required o1)
         in op_set (ap_operation a)
              (\<lambda>o1. if approved \<ge> required
                    then o1\<lparr>op_approval_count := approved, op_approval_status := ''approved''\<rparr>
                    else o1\<lparr>op_approval_count := approved\<rparr>) d))"

definition ap_insert :: "(string \<Rightarrow> string result) \<Rightarrow> runtime \<Rightarrow> approval_row \<Rightarrow> db \<Rightarrow> db result" where
  "ap_insert wide rt a d =
     bindE (ap_before_insert rt d a) (\<lambda>a1.
     let a2 = a1\<lparr>ap_name := rt_fresh rt d\<rparr> in
     bindE (ap_validate wide rt d None a2) (\<lambda>_.
     bindE (insert_row ap_name [] a2 (approvals d)) (\<lambda>rows.
     Inr (ap_after_insert a2 (d\<lparr>approvals := rows\<rparr>)))))"

section \<open>The tables of transitions\<close>

interpretation op_cycle: lifecycle op_transitions op_terminal
  by (rule lifecycleI) (simp add: table_ok_def op_transitions_def op_terminal_def)

lemma op_set_simps [simp]:
  "approvals (op_set n f d) = approvals d" "events (op_set n f d) = events d"
  "optargets (op_set n f d) = optargets d" "bulktargets (op_set n f d) = bulktargets d"
  "bulks (op_set n f d) = bulks d" "sites (op_set n f d) = sites d" "benches (op_set n f d) = benches d"
  "agents (op_set n f d) = agents d" "policies (op_set n f d) = policies d"
  by (simp_all add: op_set_def)

lemma operations_op_set: "operations (op_set n f d) = set_rows (\<lambda>r. op_name r = n) f (operations d)"
  by (simp add: op_set_def)

lemma op_save_ok:
  "op_save svc o1 d = Inr d' \<Longrightarrow> \<exists>p. get_row op_name (operations d) (op_name o1) = Some p
     \<and> op_validate svc d (Some p) o1 = Inr () \<and> d' = d\<lparr>operations := save_row op_name o1 (operations d)\<rparr>"
  by (auto simp: op_save_def old_row_def bindE_eq_Inr of_option_eq_Inr)

lemma op_validate_ok:
  assumes "op_validate svc d previous o1 = Inr u"
  shows "op_formats o1 = Inr ()" "op_data_update d o1 = Inr ()"
    "op_approval_counts o1 = Inr ()" "op_links d o1 = Inr ()"
    "op_state o1 \<in> set ([''queued'', ''leased'', ''running''] @ op_terminal)
       \<Longrightarrow> truthy (op_command_json o1) \<and> truthy (op_command_hash o1)"
    "immutable_fields op_identity_fields previous o1 = Inr ()"
    "op_credential_owned svc previous o1 = Inr ()"
    "legal_transition op_transitions (map_option op_state previous) (op_state o1) = Inr ()"
  using assms by (auto simp: op_validate_def bindE_eq_Inr require_eq_Inr simp del: set_append)


section \<open>Approvals are by distinct people other than the requester\<close>

definition decisions :: "db \<Rightarrow> string \<Rightarrow> approval_row list" where
  "decisions d operation = filter (\<lambda>a. ap_operation a = operation) (approvals d)"

lemma approved_count_decisions:
  "approved_count d n = length (filter (\<lambda>x. ap_decision x = ''approved'') (decisions d n))"
  by (simp add: approved_count_def decisions_def conj_commute)

definition op_approvals_ok :: "db \<Rightarrow> op_row \<Rightarrow> bool" where
  "op_approvals_ok d o1 =
     (distinct (map ap_approver (decisions d (op_name o1)))
      \<and> list_all (\<lambda>a. ap_approver a \<noteq> op_requested_by o1 \<and> Some (ap_policy a) = op_policy o1
                     \<and> ap_payload_hash a = op_payload_hash o1) (decisions d (op_name o1))
      \<and> (op_approval_status o1 = ''approved'' \<longrightarrow> op_required o1 \<le> int (approved_count d (op_name o1)))
      \<and> (op_approval_status o1 = ''not_required'' \<longrightarrow> op_required o1 = 0))"

definition approvals_ok :: "db \<Rightarrow> bool" where
  "approvals_ok d = (distinct (map op_name (operations d)) \<and> list_all (op_approvals_ok d) (operations d))"

lemma distinct_get_row: "distinct (map key t) \<Longrightarrow> r \<in> set t \<Longrightarrow> get_row key t (key r) = Some r"
  by (induction t) (auto simp: get_row_def)

lemma ap_insert_ok:
  assumes "ap_insert wide rt a d = Inr d'"
  obtains o1 b where
    "get_row op_name (operations d) (ap_operation b) = Some o1" "ap_operation b = ap_operation a"
    "ap_decision b = ap_decision a" "ap_approver b = rt_user rt" "ap_policy b = ap_policy a"
    "d' = ap_after_insert b (d\<lparr>approvals := approvals d @ [b]\<rparr>)"
    "''Approver'' \<in> set (rt_roles rt (rt_user rt))" "op_requested_by o1 \<noteq> rt_user rt"
    "op_policy o1 = Some (ap_policy b)" "op_approval_status o1 = ''pending''"
    "ap_payload_hash b = op_payload_hash o1" "rt_user rt \<notin> ap_approver ` set (decisions d (op_name o1))"
    "\<exists>t. target_of d (op_name o1) = Some t \<and> ap_target_key b = ot_target_key t"
proof -
  obtain c where c: "ap_before_insert rt d a = Inr c"
    and v: "ap_validate wide rt d None (c\<lparr>ap_name := rt_fresh rt d\<rparr>) = Inr ()"
    and d': "d' = ap_after_insert (c\<lparr>ap_name := rt_fresh rt d\<rparr>)
               (d\<lparr>approvals := approvals d @ [c\<lparr>ap_name := rt_fresh rt d\<rparr>]\<rparr>)"
    using assms by (auto simp: ap_insert_def Let_def bindE_eq_Inr dest!: insert_row_ok)
  define b where "b = c\<lparr>ap_name := rt_fresh rt d\<rparr>"
  have cb: "ap_operation b = ap_operation a" "ap_decision b = ap_decision a" "ap_approver b = rt_user rt"
      "ap_policy b = ap_policy a"
    using c by (auto simp: ap_before_insert_def Let_def bindE_eq_Inr require_eq_Inr of_option_eq_Inr b_def)
  obtain o1 where o1: "get_row op_name (operations d) (ap_operation b) = Some o1"
    and rest: "''Approver'' \<in> set (rt_roles rt (ap_approver b))" "op_requested_by o1 \<noteq> ap_approver b"
      "op_policy o1 = Some (ap_policy b)" "op_approval_status o1 = ''pending''"
      "op_payload_hash o1 = ap_payload_hash b"
      "map_option ot_target_key (target_of d (ap_operation b)) = Some (ap_target_key b)"
      "\<not> list_ex (\<lambda>x. ap_operation x = ap_operation b \<and> ap_approver x = ap_approver b) (approvals d)"
    using v unfolding b_def [symmetric] ap_validate_def bindE_eq_Inr require_eq_Inr of_option_eq_Inr
    by blast
  have name: "op_name o1 = ap_operation b" using o1 by (auto dest: get_row_Some)
  have "rt_user rt \<notin> ap_approver ` set (decisions d (op_name o1))"
    using rest(7) cb(3) by (auto simp: name decisions_def list_ex_iff)
  moreover have "\<exists>t. target_of d (op_name o1) = Some t \<and> ap_target_key b = ot_target_key t"
    using rest(6) by (auto simp: name)
  ultimately show ?thesis
    using that [OF o1 cb(1,2,3,4) d' [folded b_def]] rest(1-5) cb(3) by simp
qed

lemma op_set_member:
  assumes "distinct (map op_name (operations d))" "get_row op_name (operations d) n = Some o1"
    and "x \<in> set (operations (op_set n f d))"
  shows "x = f o1 \<or> x \<in> set (operations d) \<and> op_name x \<noteq> n"
proof -
  obtain y where y: "y \<in> set (operations d)" "x = (if op_name y = n then f y else y)"
    using assms(3) by (auto simp: operations_op_set set_rows_in)
  then show ?thesis using distinct_get_row [OF assms(1) y(1)] assms(2) by (cases "op_name y = n") auto
qed

definition decided :: "approval_row \<Rightarrow> int \<Rightarrow> int \<Rightarrow> op_row \<Rightarrow> op_row" where
  "decided a required approved o1 =
     (if ap_decision a = ''rejected'' then o1\<lparr>op_approval_status := ''rejected''\<rparr>
      else if required \<le> approved
      then o1\<lparr>op_approval_count := approved, op_approval_status := ''approved''\<rparr>
      else o1\<lparr>op_approval_count := approved\<rparr>)"

lemma decided_simps [simp]:
  "op_name (decided a r k o1) = op_name o1" "op_requested_by (decided a r k o1) = op_requested_by o1"
  "op_policy (decided a r k o1) = op_policy o1" "op_payload_hash (decided a r k o1) = op_payload_hash o1"
  "op_required (decided a r k o1) = op_required o1"
  "op_operation_id (decided a r k o1) = op_operation_id o1"
  "op_last_sequence (decided a r k o1) = op_last_sequence o1" "op_state (decided a r k o1) = op_state o1"
  by (simp_all add: decided_def)

lemma ap_after_insert_set:
  "get_row op_name (operations d) (ap_operation a) = Some o1 \<Longrightarrow>
   ap_after_insert a d =
     op_set (ap_operation a) (decided a (op_required o1) (int (approved_count d (ap_operation a)))) d"
  by (simp add: ap_after_insert_def Let_def decided_def [abs_def])

lemma ap_after_insert_other:
  "approvals (ap_after_insert b d) = approvals d" "events (ap_after_insert b d) = events d"
  by (simp_all add: ap_after_insert_def Let_def)

lemma decisions_snoc:
  "decisions (d\<lparr>approvals := approvals d @ [b]\<rparr>) n = decisions d n @ (if ap_operation b = n then [b] else [])"
  by (simp add: decisions_def)

lemma decisions_cong: "approvals d = approvals d' \<Longrightarrow> decisions d n = decisions d' n"
  by (simp add: decisions_def)

lemma approvals_ok_insert:
  assumes ok: "approvals_ok d" and ins: "ap_insert wide rt a d = Inr d'"
  shows "approvals_ok d'"
proof -
  obtain o1 b where o1: "get_row op_name (operations d) (ap_operation b) = Some o1"
    and b: "ap_approver b = rt_user rt"
    and d': "d' = ap_after_insert b (d\<lparr>approvals := approvals d @ [b]\<rparr>)"
    and new: "op_requested_by o1 \<noteq> rt_user rt" "op_policy o1 = Some (ap_policy b)"
      "op_approval_status o1 = ''pending''" "ap_payload_hash b = op_payload_hash o1"
      "rt_user rt \<notin> ap_approver ` set (decisions d (op_name o1))"
    by (rule ap_insert_ok [OF ins]) blast
  define e where "e = d\<lparr>approvals := approvals d @ [b]\<rparr>"
  have name: "op_name o1 = ap_operation b" using o1 by (auto dest: get_row_Some)
  have dist: "distinct (map op_name (operations e))" using ok by (simp add: approvals_ok_def e_def)
  have get: "get_row op_name (operations e) (ap_operation b) = Some o1" using o1 by (simp add: e_def)
  have eff: "d' = op_set (ap_operation b)
      (decided b (op_required o1) (int (approved_count e (ap_operation b)))) e"
    using get by (simp add: d' e_def [symmetric] ap_after_insert_set)
  have old: "op_approvals_ok d o1"
    using ok get_row_Some [OF o1] by (auto simp: approvals_ok_def list_all_iff)
  have dec: "decisions d' n = decisions d n @ (if ap_operation b = n then [b] else [])" for n
    by (simp add: eff e_def decisions_def)
  have cnt: "approved_count d' n = approved_count e n" for n
    by (simp add: approved_count_def d' ap_after_insert_other e_def)
  have other: "op_approvals_ok d' x" if "x \<in> set (operations d)" "op_name x \<noteq> ap_operation b" for x
    using ok that by (auto simp: approvals_ok_def op_approvals_ok_def list_all_iff dec approved_count_decisions)
  have mine: "op_approvals_ok d' x"
    if "op_name x = op_name o1" "op_requested_by x = op_requested_by o1" "op_policy x = op_policy o1"
      "op_payload_hash x = op_payload_hash o1" "op_required x = op_required o1"
      "op_approval_status x = ''approved'' \<longrightarrow> op_required o1 \<le> int (approved_count d' (op_name o1))"
      "op_approval_status x \<noteq> ''not_required''" for x
    using old new that b by (auto simp: op_approvals_ok_def dec name list_all_iff)
  have "list_all (op_approvals_ok d') (operations d')"
    unfolding list_all_iff
  proof
    fix x assume "x \<in> set (operations d')"
    from op_set_member [OF dist get this [unfolded eff]] show "op_approvals_ok d' x"
    proof
      assume x: "x = decided b (op_required o1) (int (approved_count e (ap_operation b))) o1"
      show ?thesis
        by (rule mine) (use x new(3) cnt name in \<open>auto simp: decided_def split: if_splits\<close>)
    next
      assume "x \<in> set (operations e) \<and> op_name x \<noteq> ap_operation b"
      then show ?thesis using other by (simp add: e_def)
    qed
  qed
  moreover have "map op_name (operations d') = map op_name (operations d)"
    by (simp add: eff operations_op_set set_rows_key e_def)
  ultimately show ?thesis using ok by (simp add: approvals_ok_def)
qed

text \<open>
  C10: a recorded decision is the session user's, who holds the Approver role, did not request the
  operation and has not decided before; it is bound to the payload and the target; the operation
  was pending, and becomes approved exactly when the approvals reach the required number. So in
  every database approvals are by distinct people other than the requester, and an approved
  operation has at least as many as its policy requires.
\<close>

theorem approval_recorded:
  assumes "approvals_ok d" and "ap_insert wide rt a d = Inr d'"
  shows "approvals_ok d' \<and> (\<exists>o1 b o2.
      get_row op_name (operations d) (ap_operation a) = Some o1 \<and> op_approval_status o1 = ''pending''
      \<and> approvals d' = approvals d @ [b] \<and> ap_operation b = ap_operation a
      \<and> ap_approver b = rt_user rt \<and> ''Approver'' \<in> set (rt_roles rt (rt_user rt))
      \<and> op_requested_by o1 \<noteq> rt_user rt
      \<and> (\<forall>x\<in>set (approvals d). ap_operation x = ap_operation a \<longrightarrow> ap_approver x \<noteq> rt_user rt)
      \<and> ap_payload_hash b = op_payload_hash o1
      \<and> (\<exists>t. target_of d (ap_operation a) = Some t \<and> ap_target_key b = ot_target_key t)
      \<and> get_row op_name (operations d') (ap_operation a) = Some o2
      \<and> op_approval_status o2 =
          (if ap_decision a = ''rejected'' then ''rejected''
           else if op_required o1 \<le> int (approved_count d' (ap_operation a)) then ''approved'' else ''pending'')
      \<and> op_state o2 = op_state o1)"
proof -
  obtain o1 b where o1: "get_row op_name (operations d) (ap_operation b) = Some o1"
    and b: "ap_operation b = ap_operation a" "ap_decision b = ap_decision a" "ap_approver b = rt_user rt"
    and d': "d' = ap_after_insert b (d\<lparr>approvals := approvals d @ [b]\<rparr>)"
    and rest: "''Approver'' \<in> set (rt_roles rt (rt_user rt))" "op_requested_by o1 \<noteq> rt_user rt"
      "op_approval_status o1 = ''pending''" "ap_payload_hash b = op_payload_hash o1"
      "rt_user rt \<notin> ap_approver ` set (decisions d (op_name o1))"
      "\<exists>t. target_of d (op_name o1) = Some t \<and> ap_target_key b = ot_target_key t"
    by (rule ap_insert_ok [OF assms(2)]) blast
  have name: "op_name o1 = ap_operation a" using get_row_Some [OF o1] b(1) by simp
  define e where "e = d\<lparr>approvals := approvals d @ [b]\<rparr>"
  define k where "k = int (approved_count e (ap_operation a))"
  have eff: "d' = op_set (ap_operation a) (decided b (op_required o1) k) e"
    using o1 b(1) by (simp add: d' e_def k_def ap_after_insert_set)
  have cnt: "int (approved_count d' (ap_operation a)) = k"
    by (simp add: k_def approved_count_def eff)
  have apps: "approvals d' = approvals d @ [b]" by (simp add: eff e_def)
  have get: "get_row op_name (operations d') (ap_operation a) = Some (decided b (op_required o1) k o1)"
    using o1 b(1) by (simp add: eff operations_op_set get_row_set_rows e_def)
  have status: "op_approval_status (decided b (op_required o1) k o1) =
      (if ap_decision a = ''rejected'' then ''rejected'' else if op_required o1 \<le> k then ''approved'' else ''pending'')"
    using rest(3) b(2) by (simp add: decided_def)
  have fresh: "\<forall>x\<in>set (approvals d). ap_operation x = ap_operation a \<longrightarrow> ap_approver x \<noteq> rt_user rt"
    using rest(5) unfolding decisions_def name by (auto simp: image_iff)
  show ?thesis
    using approvals_ok_insert [OF assms] o1 b(1,3) rest(1-4,6) apps get status fresh unfolding cnt name
    by (intro conjI exI [of _ o1] exI [of _ b] exI [of _ "decided b (op_required o1) k o1"]) simp_all
qed

section \<open>Events are numbered without gaps\<close>

definition event_numbers :: "db \<Rightarrow> string \<Rightarrow> int list" where
  "event_numbers d operation = map ev_sequence (filter (\<lambda>e. ev_operation e = operation) (events d))"

definition events_ok :: "db \<Rightarrow> bool" where
  "events_ok d =
     (distinct (map op_name (operations d))
      \<and> list_all (\<lambda>o1. 0 \<le> op_last_sequence o1
           \<and> event_numbers d (op_name o1) = [1..op_last_sequence o1]) (operations d))"

lemma ev_insert_ok:
  assumes "ev_insert rt received e d = Inr d'"
  obtains o1 b where
    "get_row op_name (operations d) (ev_operation e) = Some o1" "ev_sequence e = op_last_sequence o1 + 1"
    "b = e\<lparr>ev_received_at := ev_received_at b, ev_name := ev_name b\<rparr>" "op_operation_id o1 = ev_operation_id e"
    "d' = op_set (ev_operation e) (\<lambda>o1. o1\<lparr>op_last_sequence := ev_sequence e\<rparr>) (d\<lparr>events := events d @ [b]\<rparr>)"
    "\<forall>x\<in>set (events d). ev_operation x = ev_operation e \<longrightarrow> ev_sequence x \<noteq> ev_sequence e"
proof -
  define b where "b = (ev_before_insert rt received e)\<lparr>ev_name := rt_fresh rt d\<rparr>"
  have v: "ev_validate d None b = Inr ()" and d': "d' = ev_after_insert b (d\<lparr>events := events d @ [b]\<rparr>)"
    using assms by (auto simp: ev_insert_def Let_def bindE_eq_Inr b_def dest!: insert_row_ok)
  have b: "ev_operation b = ev_operation e" "ev_sequence b = ev_sequence e"
      "ev_operation_id b = ev_operation_id e" "b = e\<lparr>ev_received_at := ev_received_at b, ev_name := ev_name b\<rparr>"
    by (simp_all add: b_def ev_before_insert_def)
  obtain o1 where o1: "get_row op_name (operations d) (ev_operation b) = Some o1"
    "op_operation_id o1 = ev_operation_id b" "ev_sequence b = op_last_sequence o1 + 1"
    and none: "find (\<lambda>x. ev_operation x = ev_operation b \<and> ev_sequence x = ev_sequence b) (events d) = None"
    using v unfolding ev_validate_def bindE_eq_Inr require_eq_Inr of_option_eq_Inr
    by (auto split: option.splits)
  have "\<forall>x\<in>set (events d). ev_operation x = ev_operation e \<longrightarrow> ev_sequence x \<noteq> ev_sequence e"
    using none by (auto simp: find_None_iff b(1,2))
  then show ?thesis using that [of o1 b] o1 b(4) d' unfolding ev_after_insert_def b(1,2,3) by simp
qed

text \<open>An insertion that succeeds takes the next number and keeps the numbering.\<close>

lemma ev_insert_appends:
  assumes "events_ok d" and "ev_insert rt received e d = Inr d'"
  shows "events_ok d' \<and> (\<exists>b. events d' = events d @ [b] \<and> ev_body_hash b = ev_body_hash e)
    \<and> event_numbers d' (ev_operation e) = [1..ev_sequence e]
    \<and> map_option op_last_sequence (get_row op_name (operations d') (ev_operation e)) = Some (ev_sequence e)"
proof -
  obtain o1 b where o1: "get_row op_name (operations d) (ev_operation e) = Some o1"
    and seq: "ev_sequence e = op_last_sequence o1 + 1"
    and b: "b = e\<lparr>ev_received_at := ev_received_at b, ev_name := ev_name b\<rparr>"
    and d': "d' = op_set (ev_operation e) (\<lambda>o1. o1\<lparr>op_last_sequence := ev_sequence e\<rparr>)
               (d\<lparr>events := events d @ [b]\<rparr>)"
    by (rule ev_insert_ok [OF assms(2)]) blast
  have be: "ev_operation b = ev_operation e" "ev_sequence b = ev_sequence e" "ev_body_hash b = ev_body_hash e"
    by (subst b, simp)+
  have nums: "event_numbers d' n = event_numbers d n @ (if n = ev_operation e then [ev_sequence e] else [])" for n
    by (auto simp: event_numbers_def d' be)
  have mem: "o1 \<in> set (operations d)" and name: "op_name o1 = ev_operation e" using get_row_Some [OF o1] by auto
  have old: "0 \<le> op_last_sequence o1" "event_numbers d (ev_operation e) = [1..op_last_sequence o1]"
    using assms(1) mem name by (auto simp: events_ok_def list_all_iff)
  have mine: "event_numbers d' (ev_operation e) = [1..ev_sequence e]"
    using old seq by (simp add: nums upto_rec2)
  have dist: "distinct (map op_name (operations d))" using assms(1) by (simp add: events_ok_def)
  have "0 \<le> op_last_sequence x \<and> event_numbers d' (op_name x) = [1..op_last_sequence x]"
    if x: "x \<in> set (operations d')" for x
  proof -
    have "x = o1\<lparr>op_last_sequence := ev_sequence e\<rparr> \<or> x \<in> set (operations d) \<and> op_name x \<noteq> ev_operation e"
      using op_set_member [of "d\<lparr>events := events d @ [b]\<rparr>" "ev_operation e" o1 x] dist o1 x
      unfolding d' by simp
    then show ?thesis
      using mine old seq name assms(1) by (auto simp: events_ok_def list_all_iff nums)
  qed
  moreover have "map op_name (operations d') = map op_name (operations d)"
    by (simp add: d' operations_op_set set_rows_key)
  moreover have "map_option op_last_sequence (get_row op_name (operations d') (ev_operation e)) = Some (ev_sequence e)"
    using o1 by (simp add: d' operations_op_set get_row_set_rows)
  ultimately show ?thesis
    using dist mine be(3) by (auto simp: events_ok_def list_all_iff d')
qed

text \<open>
  C11: an event is accepted only with the next number of its operation, which it then becomes, so
  the history of every operation stays 1, 2, 3, ... without a gap, a repetition or a change.
\<close>

theorem event_appended:
  assumes "events_ok d" and "ev_insert rt received e d = Inr d'"
  shows "events_ok d' \<and> (\<exists>b. events d' = events d @ [b] \<and> ev_body_hash b = ev_body_hash e)
    \<and> event_numbers d' (ev_operation e) = [1..ev_sequence e]
    \<and> map_option op_last_sequence (get_row op_name (operations d') (ev_operation e)) = Some (ev_sequence e)"
  using ev_insert_appends [OF assms] by simp

section \<open>A small database\<close>

definition demo_payload :: string where
  "demo_payload = json_dumps (JObj [(''domain'', JStr ''a.example'')])"

definition demo_op :: op_row where
  "demo_op =
     \<lparr>op_name = ''op-1'', op_operation_id = ''op-1'', op_idempotency_key = ''controller:op-1'',
      op_protocol_version = ''1.0'', op_server_agent = ''agent-1'', op_bench = ''bench-1'',
      op_managed_site = Some ''site-1'', op_bulk_parent = None, op_bulk_target = None,
      op_retry_of = None, op_preview_of = None, op_preview_hash = None, op_type = ''site.backup'',
      op_payload_json = Some demo_payload, op_payload_hash = sha256_hex demo_payload,
      op_requested_by = ''bob'', op_policy = Some ''staging'', op_approval_status = ''pending'',
      op_required = 1, op_approval_count = 0, op_state = ''awaiting_approval'',
      op_command_json = None, op_command_hash = None, op_issued_at = None, op_expires_at = None,
      op_lease_expires = None, op_last_sequence = 0, op_result_json = None, op_result_hash = None,
      op_credential = None, op_credential_received = None, op_credential_consumed = None,
      op_error_code = None, op_started_at = None, op_completed_at = None\<rparr>"

definition demo_optarget :: optarget_row where
  "demo_optarget =
     \<lparr>ot_name = ''t-1'', ot_operation = ''op-1'', ot_target_key = replicate 64 CHR ''a'',
      ot_server_agent = ''agent-1'', ot_bench = ''bench-1'', ot_managed_site = Some ''site-1'',
      ot_bulk_parent = None, ot_bulk_target = None, ot_retry_of = None,
      ot_site_domain = Some ''a.example'', ot_type = ''site.backup'',
      ot_payload_hash = sha256_hex demo_payload, ot_revision = None, ot_state = ''awaiting_approval'',
      ot_attempt = 0, ot_result_json = None, ot_error_code = None\<rparr>"

definition demo_bench :: bench_row where
  "demo_bench =
     \<lparr>be_name = ''bench-1'', be_bench_id = ''bench-1'', be_server_agent = ''agent-1'',
      be_environment = ''staging'', be_enabled = True, be_frappe_version = None,
      be_erpnext_version = None, be_installed_apps = None, be_required_apps = None,
      be_capabilities = None, be_health = ''healthy'', be_inventory_at = None\<rparr>"

definition demo_site :: site_row where
  "demo_site =
     \<lparr>si_name = ''site-1'', si_site_id = ''site-1'', si_domain = ''a.example'',
      si_server_agent = ''agent-1'', si_bench = ''bench-1'', si_environment = ''staging'',
      si_status = ''active'', si_installed_apps = None, si_labels = None, si_database = None,
      si_scheduler = True, si_maintenance = False, si_health = ''healthy'', si_inventory_at = None\<rparr>"

definition demo_db :: db where
  "demo_db = empty_db\<lparr>agents := [demo_agent], benches := [demo_bench], sites := [demo_site],
      operations := [demo_op], optargets := [demo_optarget]\<rparr>"

definition demo_decision :: approval_row where
  "demo_decision =
     \<lparr>ap_name = [], ap_operation = ''op-1'', ap_policy = ''staging'', ap_decision = ''approved'',
      ap_approver = [], ap_decided_at = 0, ap_comment = None, ap_payload_hash = [], ap_target_key = [],
      ap_preview_hash = None, ap_decision_hash = []\<rparr>"

definition demo_event :: event_row where
  "demo_event =
     \<lparr>ev_name = [], ev_operation = ''op-1'', ev_operation_id = ''op-1'', ev_sequence = 1,
      ev_attempt = Some 1, ev_step = None, ev_kind = ''progress'', ev_details = None,
      ev_body_hash = replicate 64 CHR ''b'', ev_created_at = 0, ev_received_at = 0\<rparr>"

lemma demo_payload_json: "json_loads demo_payload = Inr (JObj [(''domain'', JStr ''a.example'')])"
  using loads_dumps [OF keeps_hooks(1), of "JObj [(''domain'', JStr ''a.example'')]"]
  by (simp add: json_loads_def demo_payload_def)

lemma demo_op_valid: "op_validate False demo_db (Some demo_op) demo_op = Inr ()"
  by (simp add: op_validate_def op_formats_def require_json_def demo_op_def demo_payload_json has_shape_def
      require_sha256_def op_data_update_def data_update_types_def op_terminal_def op_links_def demo_db_def
      require_link_value_def get_row_def demo_bench_def demo_site_def op_approval_counts_def
      immutable_fields_def op_identity_fields_def same_def op_credential_owned_def legal_transition_def
      Let_def)


lemma ascii_pad: "ascii (pad n i)"
  by (auto simp: pad_def Let_def ascii_nat_str ascii_def [of "replicate _ _"])

lemma ascii_iso: "ascii (iso_seconds t)"
  by (simp add: iso_seconds_def Let_def ascii_pad split: prod.split)

lemma ascii_micro: "ascii (micro_timestamp t)"
  by (simp add: micro_timestamp_def ascii_iso ascii_pad)

lemma ascii_datetime: "ascii (datetime_str t)"
proof -
  have "ascii (take n (iso_seconds s))" "ascii (drop n (iso_seconds s))" for n s
    using ascii_iso [of s] by (auto simp: ascii_def dest: in_set_takeD in_set_dropD)
  then show ?thesis by (simp add: datetime_str_def ascii_pad)
qed

lemma ascii_sha256: "ascii (sha256_hex s)"
  using sha256_hex_shape [of s] hex_ascii by (auto simp: is_sha256_def ascii_def list_all_iff)

lemma demo_before_insert:
  "\<exists>h. is_sha256 h \<and> ap_before_insert demo_runtime demo_db demo_decision = Inr (demo_decision
     \<lparr>ap_approver := ''alice'', ap_payload_hash := sha256_hex demo_payload,
      ap_target_key := replicate 64 CHR ''a'', ap_decision_hash := h\<rparr>)"
proof -
  have "\<not> has_surrogate (json_dumps (ap_body (demo_decision\<lparr>ap_approver := ''alice'',
      ap_decided_at := 0, ap_payload_hash := sha256_hex demo_payload,
      ap_target_key := replicate 64 CHR ''a'', ap_preview_hash := None\<rparr>)))"
    by (intro ascii_no_surrogate ascii_dumps)
      (simp add: ap_body_def demo_decision_def json_opt_def ascii_datetime ascii_sha256 ascii_def [of "replicate _ _"])
  then show ?thesis
    by (simp add: ap_before_insert_def demo_db_def get_row_def demo_op_def demo_decision_def target_of_def
        demo_optarget_def Let_def encodeE_def demo_runtime_def)
qed

lemma demo_gate:
  "require_operation no_wide demo_runtime (Some ''staging'') ''site.backup'' p None = Inr ()"
  by (simp add: require_operation_def demo_config environment_or_none_def feature_environments_def
      operation_enabled_def operation_feature_def data_update_types_def operation_features_def
      feature_enabled_def feature_set_def demo_config_def)

lemma demo_decided: "\<exists>d'. ap_insert no_wide demo_runtime demo_decision demo_db = Inr d'"
proof -
  obtain h where h: "is_sha256 h" and b: "ap_before_insert demo_runtime demo_db demo_decision = Inr
     (demo_decision\<lparr>ap_approver := ''alice'', ap_payload_hash := sha256_hex demo_payload,
      ap_target_key := replicate 64 CHR ''a'', ap_decision_hash := h\<rparr>)"
    using demo_before_insert by blast
  have env: "target_environment demo_db ''agent-1'' (Some ''site-1'') = Some ''staging''"
    by (simp add: target_environment_def demo_db_def get_row_def demo_site_def environment_or_none_def
        feature_environments_def)
  have "ap_validate no_wide demo_runtime demo_db None
     (demo_decision\<lparr>ap_approver := ''alice'', ap_payload_hash := sha256_hex demo_payload,
      ap_target_key := replicate 64 CHR ''a'', ap_decision_hash := h, ap_name := x\<rparr>) = Inr ()" for x
    using h env demo_gate
    by (simp add: ap_validate_def require_sha256_def demo_decision_def demo_runtime_def get_row_def
        demo_op_def demo_db_def target_of_def demo_optarget_def empty_db_def)
  moreover have "approvals demo_db = []" by (simp add: demo_db_def empty_db_def)
  ultimately show ?thesis
    by (simp add: ap_insert_def b Let_def insert_row_def get_row_def)
qed

lemma demo_approvals_ok: "approvals_ok demo_db"
  by (simp add: approvals_ok_def demo_db_def empty_db_def op_approvals_ok_def decisions_def demo_op_def)

theorem approval_recorded_witness:
  "\<exists>d' o2. ap_insert no_wide demo_runtime demo_decision demo_db = Inr d' \<and> approvals_ok d'
     \<and> get_row op_name (operations d') ''op-1'' = Some o2"
proof -
  obtain d' where d': "ap_insert no_wide demo_runtime demo_decision demo_db = Inr d'"
    using demo_decided by blast
  show ?thesis
    using approval_recorded [OF demo_approvals_ok d'] d' unfolding demo_decision_def by auto
qed

theorem event_appended_witness:
  "\<exists>d'. ev_insert demo_runtime None demo_event demo_db = Inr d' \<and> event_numbers d' ''op-1'' = [1]"
proof -
  have ok: "events_ok demo_db"
    by (simp add: events_ok_def demo_db_def empty_db_def event_numbers_def demo_op_def)
  obtain d' where d': "ev_insert demo_runtime None demo_event demo_db = Inr d'"
    by (simp add: ev_insert_def Let_def ev_before_insert_def ev_validate_def demo_event_def demo_db_def
        empty_db_def get_row_def demo_op_def require_sha256_def insert_row_def is_hex_def is_digit_def)
  show ?thesis using event_appended [OF ok d'] d' by (simp add: demo_event_def)
qed

end
