(* ===== verification/Dispatcher.thy ===== *)
theory Dispatcher
  imports OperationDocs Security
begin

text \<open>
  \<open>dispatcher.py\<close>: the conversion of an approved operation into the command envelope an agent
  executes. \<open>envelope\<close> checks every binding (agent, protocol identity, payload digest, target
  snapshot, inventory revision, approvals) and builds the envelope; \<open>dispatch\<close> queues it;
  \<open>validate_persisted\<close> binds a stored command back to its operation before a lease. An envelope is
  the list of its members in the order the code writes them. Row locks are no part of the
  sequential model.
\<close>

type_synonym envelope = "(string \<times> json) list"

definition conflict :: "string \<Rightarrow> exn" where
  "conflict msg = DispatchConflict msg"

definition naive_utc :: "datetime \<Rightarrow> int" where
  "naive_utc t = (case t of Aware u \<Rightarrow> u | Naive u \<Rightarrow> u)"

definition immutable_command :: "envelope \<Rightarrow> envelope" where
  "immutable_command env = filter (\<lambda>(k, _). k \<notin> {''issued_at'', ''expires_at''}) env"

definition immutable_command_hash :: "envelope \<Rightarrow> string result" where
  "immutable_command_hash env = sha256_json (JObj (immutable_command env))"

definition check_lifetime :: "int \<Rightarrow> unit result" where
  "check_lifetime n =
     require (1 \<le> n \<and> n \<le> 300) (ValueError ''command lifetime must be between 1 and 300 seconds'')"

section \<open>The rows a dispatch reads\<close>

record joined =
  jo_op :: op_row
  jo_agent :: agent_row
  jo_bench :: bench_row
  jo_site :: "site_row option"

definition joined_operation :: "db \<Rightarrow> string \<Rightarrow> joined option" where
  "joined_operation d n =
     (case get_row op_name (operations d) n of
        None \<Rightarrow> None
      | Some o1 \<Rightarrow>
          (case (get_row sa_name (agents d) (op_server_agent o1), get_row be_name (benches d) (op_bench o1)) of
             (Some a, Some b) \<Rightarrow>
               Some \<lparr>jo_op = o1, jo_agent = a, jo_bench = b,
                     jo_site = opt_row si_name (sites d) (op_managed_site o1)\<rparr>
           | _ \<Rightarrow> None))"

definition single_target :: "db \<Rightarrow> string \<Rightarrow> optarget_row result" where
  "single_target d n =
     (case filter (\<lambda>t. ot_operation t = n) (optargets d) of
        [t] \<Rightarrow> Inr t
      | _ \<Rightarrow> Inl (conflict ''an operation must have exactly one immutable target''))"

section \<open>Approval claims\<close>

definition claim_json :: "string \<Rightarrow> string \<Rightarrow> string \<Rightarrow> int \<Rightarrow> json" where
  "claim_json name approver digest decided_at =
     JObj [(''approval_id'', JStr name), (''approved_by'', JStr approver),
           (''decision_hash'', JStr digest), (''decided_at'', JStr (micro_timestamp decided_at))]"

definition check_approval :: "op_row \<Rightarrow> optarget_row \<Rightarrow> string list \<Rightarrow> approval_row \<Rightarrow> unit result" where
  "check_approval o1 t approvers a =
     bindE (require (Some (ap_policy a) = op_policy o1)
              (conflict ''approval policy does not match operation'')) (\<lambda>_.
     bindE (require (\<not> (ap_approver a = op_requested_by o1 \<or> ap_approver a \<in> set approvers))
              (conflict ''approval attribution is invalid'')) (\<lambda>_.
     bindE (require (is_sha256 (ap_decision_hash a)) (conflict ''approval decision hash is invalid'')) (\<lambda>_.
     require (ap_payload_hash a = op_payload_hash o1 \<and> ap_target_key a = ot_target_key t
              \<and> or_none (ap_preview_hash a) = or_none (op_preview_hash o1))
       (conflict ''approval evidence snapshot changed''))))"

fun collect_claims ::
  "('r \<Rightarrow> string) \<Rightarrow> ('r \<Rightarrow> json) \<Rightarrow> (string list \<Rightarrow> 'r \<Rightarrow> unit result) \<Rightarrow> string list \<Rightarrow> 'r list
     \<Rightarrow> json list result" where
  "collect_claims who claim check approvers [] = Inr []"
| "collect_claims who claim check approvers (a # as) =
     bindE (check approvers a) (\<lambda>_.
     bindE (collect_claims who claim check (who a # approvers) as) (\<lambda>cs. Inr (claim a # cs)))"

definition approval_claim :: "approval_row \<Rightarrow> json" where
  "approval_claim a = claim_json (ap_name a) (ap_approver a) (ap_decision_hash a) (ap_decided_at a)"

definition bulk_claim :: "bulkapproval_row \<Rightarrow> json" where
  "bulk_claim a = claim_json (ba_name a) (ba_approver a) (ba_decision_hash a) (ba_decided_at a)"

definition bulk_binding :: "op_row \<Rightarrow> bulk_row \<Rightarrow> bulktarget_row \<Rightarrow> bool" where
  "bulk_binding o1 p t =
     (bu_requested_by p = op_requested_by o1 \<and> Some (bu_policy p) = op_policy o1
      \<and> bu_type p = op_type o1 \<and> bu_payload_hash p = op_payload_hash o1
      \<and> bx_preview_hash t = op_preview_hash o1 \<and> bu_approval_status p = ''approved''
      \<and> bu_state p \<in> set [''approved'', ''canary'', ''running'', ''paused'']
      \<and> bu_required p = op_required o1 \<and> bu_approval_count p = op_approval_count o1)"

definition check_bulk_approval :: "bulk_row \<Rightarrow> string list \<Rightarrow> bulkapproval_row \<Rightarrow> unit result" where
  "check_bulk_approval p approvers a =
     require (ba_policy a = bu_policy p \<and> ba_approver a \<noteq> bu_requested_by p
              \<and> ba_approver a \<notin> set approvers \<and> ba_snapshot_hash a = bu_snapshot_hash p
              \<and> ba_payload_hash a = bu_payload_hash p \<and> ba_dry_run_hash a = bu_dry_run_hash p
              \<and> is_sha256 (ba_decision_hash a))
       (conflict ''bulk approval attribution or evidence changed'')"

definition bulk_approval_claims :: "db \<Rightarrow> op_row \<Rightarrow> json list result" where
  "bulk_approval_claims d o1 =
     (case (opt_row bu_name (bulks d) (op_bulk_parent o1),
            opt_row bx_name (bulktargets d) (op_bulk_target o1)) of
        (Some p, Some t) \<Rightarrow>
          bindE (require (bx_bulk t = bu_name p \<and> bulk_binding o1 p t)
                   (ApprovalNotSatisfied ''bulk approval binding is not satisfied'')) (\<lambda>_.
          bindE (require (list_all is_sha256 [bu_snapshot_hash p, bu_payload_hash p, bu_dry_run_hash p])
                   (conflict ''bulk approval evidence hash is invalid'')) (\<lambda>_.
          let rows = sort_key (\<lambda>a. (ba_decided_at a, ba_name a))
                       (filter (\<lambda>a. Some (ba_bulk a) = op_bulk_parent o1) (bulkapprovals d));
              approved = filter (\<lambda>a. ba_decision a = ''approved'') rows in
          bindE (require (\<not> list_ex (\<lambda>a. ba_decision a = ''rejected'') rows)
                   (ApprovalNotSatisfied ''bulk operation has a rejection'')) (\<lambda>_.
          bindE (require (1 \<le> bu_required p \<and> bu_required p \<le> int (length approved)
                          \<and> int (length approved) = bu_approval_count p)
                   (ApprovalNotSatisfied ''bulk approval threshold is not satisfied'')) (\<lambda>_.
          collect_claims ba_approver bulk_claim (check_bulk_approval p) [] approved))))
      | _ \<Rightarrow> Inl (ApprovalNotSatisfied ''bulk approval binding is not satisfied''))"

definition approval_claims :: "db \<Rightarrow> op_row \<Rightarrow> optarget_row \<Rightarrow> json list result" where
  "approval_claims d o1 t =
     (if truthy (op_bulk_parent o1) then bulk_approval_claims d o1
      else
        (let rows = sort_key (\<lambda>a. (ap_decided_at a, ap_name a))
                      (filter (\<lambda>a. ap_operation a = op_name o1) (approvals d));
             approved = filter (\<lambda>a. ap_decision a = ''approved'') rows in
         bindE (require (\<not> list_ex (\<lambda>a. ap_decision a = ''rejected'') rows)
                  (ApprovalNotSatisfied ''operation has a rejection'')) (\<lambda>_.
         if op_required o1 = 0 then
           bindE (require (op_approval_status o1 = ''not_required'')
                    (ApprovalNotSatisfied ''approval bypass is inconsistent'')) (\<lambda>_. Inr [])
         else
           bindE (require (op_approval_status o1 = ''approved'' \<and> op_required o1 \<le> int (length approved))
                    (ApprovalNotSatisfied ''approval threshold is not satisfied'')) (\<lambda>_.
           bindE (require (op_approval_count o1 = int (length approved))
                    (conflict ''stored approval count is stale'')) (\<lambda>_.
           collect_claims ap_approver approval_claim (check_approval o1 t) [] approved)))))"

section \<open>The envelope\<close>

definition dispatch_payload :: "op_row \<Rightarrow> ((string \<times> json) list \<times> string) result" where
  "dispatch_payload o1 =
     (case json_loads (or_empty (op_payload_json o1)) of
        Inl _ \<Rightarrow> Inl (conflict ''operation payload is invalid JSON'')
      | Inr (JObj payload) \<Rightarrow>
          bindE (require (is_ok (validate_json True False (JObj payload)))
                   (conflict ''operation payload contains forbidden data'')) (\<lambda>_.
          bindE (sha256_json (JObj payload)) (\<lambda>h.
          bindE (require (ascii (op_payload_hash o1))
                   (TypeError ''comparing strings with non-ASCII characters is not supported'')) (\<lambda>_.
          bindE (require (h = op_payload_hash o1) (conflict ''operation payload hash changed'')) (\<lambda>_.
          Inr (payload, h)))))
      | Inr _ \<Rightarrow> Inl (conflict ''operation payload must be an object''))"

definition check_identity_binding :: "joined \<Rightarrow> string result" where
  "check_identity_binding j =
     (let o1 = jo_op j in
      bindE (require (sa_enabled (jo_agent j)) (conflict ''operation targets a disabled agent'')) (\<lambda>_.
      bindE (require (\<not> sa_drain_requested (jo_agent j)) (conflict ''operation targets a draining agent'')) (\<lambda>_.
      bindE (require (op_protocol_version o1 = ''1.0'' \<and> sa_audience (jo_agent j) = ''frappe-controller'')
               (conflict ''operation protocol identity is invalid'')) (\<lambda>_.
      bindE (of_option (conflict ''operation UUID is invalid'') (py_uuid (op_operation_id o1))) (\<lambda>operation_id.
      bindE (require (operation_id = py_lower (op_operation_id o1))
               (conflict ''operation UUID is not canonical'')) (\<lambda>_.
      bindE (require (ends_with operation_id (op_idempotency_key o1))
               (conflict ''idempotency key is not bound to the operation'')) (\<lambda>_.
      Inr operation_id)))))))"

definition check_snapshot_binding :: "joined \<Rightarrow> optarget_row \<Rightarrow> unit result" where
  "check_snapshot_binding j t =
     (let o1 = jo_op j in
      bindE (require (ot_server_agent t = op_server_agent o1 \<and> ot_bench t = op_bench o1
                      \<and> ot_managed_site t = op_managed_site o1
                      \<and> ot_site_domain t = map_option si_domain (jo_site j)
                      \<and> ot_type t = op_type o1 \<and> ot_payload_hash t = op_payload_hash o1)
               (conflict ''operation target snapshot changed'')) (\<lambda>_.
      require (case or_none (ot_revision t) of
                 None \<Rightarrow> True
               | Some r \<Rightarrow> is_sha256 r \<and> sa_inventory_digest (jo_agent j) = Some r)
        (conflict ''operation inventory snapshot changed'')))"

definition envelope_of ::
  "int \<Rightarrow> joined \<Rightarrow> string \<Rightarrow> (string \<times> json) list \<times> string \<Rightarrow> json list \<Rightarrow> int \<Rightarrow> envelope" where
  "envelope_of lifetime j operation_id payload claims current =
     [(''protocol_version'', JStr ''1.0''),
      (''operation_id'', JStr operation_id),
      (''idempotency_key'', JStr (op_idempotency_key (jo_op j))),
      (''agent_id'', JStr (sa_agent_id (jo_agent j))),
      (''audience'', JStr (sa_audience (jo_agent j))),
      (''bench_id'', JStr (be_bench_id (jo_bench j))),
      (''site_id'', json_opt (map_option si_site_id (jo_site j))),
      (''operation'', JStr (op_type (jo_op j))),
      (''payload'', JObj (fst payload)),
      (''requested_by'', JStr (op_requested_by (jo_op j))),
      (''approval_claims'', JList claims),
      (''issued_at'', JStr (micro_timestamp current)),
      (''expires_at'', JStr (micro_timestamp (current + seconds lifetime))),
      (''payload_hash'', JStr (snd payload))]"

definition build_envelope :: "int \<Rightarrow> db \<Rightarrow> string \<Rightarrow> datetime \<Rightarrow> envelope result" where
  "build_envelope lifetime d n now =
     bindE (of_option (conflict ''unknown operation'') (joined_operation d n)) (\<lambda>j.
     bindE (check_identity_binding j) (\<lambda>operation_id.
     bindE (dispatch_payload (jo_op j)) (\<lambda>payload.
     bindE (single_target d (op_name (jo_op j))) (\<lambda>t.
     bindE (check_snapshot_binding j t) (\<lambda>_.
     bindE (approval_claims d (jo_op j) t) (\<lambda>claims.
     Inr (envelope_of lifetime j operation_id payload claims (naive_utc now))))))))"

definition target_set :: "string \<Rightarrow> (optarget_row \<Rightarrow> optarget_row) \<Rightarrow> db \<Rightarrow> db" where
  "target_set n f d = d\<lparr>optargets := set_rows (\<lambda>t. ot_operation t = n) f (optargets d)\<rparr>"

definition dispatch :: "int \<Rightarrow> string \<Rightarrow> datetime \<Rightarrow> db \<Rightarrow> (envelope \<times> db) result" where
  "dispatch lifetime n now d =
     bindE (build_envelope lifetime d n now) (\<lambda>env.
     bindE (of_option (conflict ''unknown operation'') (get_row op_name (operations d) n)) (\<lambda>o1.
     bindE (immutable_command_hash env) (\<lambda>digest.
     if op_state o1 = ''queued'' \<and> or_none (op_command_hash o1) = Some digest then Inr (env, d)
     else
       bindE (require (op_state o1 = ''awaiting_approval'' \<and> or_none (op_command_hash o1) = None)
                (conflict ''operation is not dispatchable'')) (\<lambda>_.
       bindE (canonical_json (JObj env)) (\<lambda>command.
       Inr (env, target_set n (\<lambda>t. t\<lparr>ot_state := ''queued''\<rparr>)
                   (op_set n (\<lambda>x. x\<lparr>op_state := ''queued'', op_command_json := Some command,
                                     op_command_hash := Some digest\<rparr>) d)))))))"

section \<open>Stored commands\<close>

definition expected_members :: "joined \<Rightarrow> json \<Rightarrow> (string \<times> json) list" where
  "expected_members j payload =
     [(''protocol_version'', JStr (op_protocol_version (jo_op j))),
      (''operation_id'', JStr (op_operation_id (jo_op j))),
      (''idempotency_key'', JStr (op_idempotency_key (jo_op j))),
      (''agent_id'', JStr (sa_agent_id (jo_agent j))),
      (''audience'', JStr (sa_audience (jo_agent j))),
      (''bench_id'', JStr (be_bench_id (jo_bench j))),
      (''site_id'', json_opt (map_option si_site_id (jo_site j))),
      (''operation'', JStr (op_type (jo_op j))),
      (''payload'', payload),
      (''requested_by'', JStr (op_requested_by (jo_op j))),
      (''payload_hash'', JStr (op_payload_hash (jo_op j)))]"

definition check_stored_target :: "op_row \<Rightarrow> optarget_row \<Rightarrow> unit result" where
  "check_stored_target o1 t =
     bindE (require (ot_server_agent t = op_server_agent o1 \<and> ot_bench t = op_bench o1
                     \<and> or_none (ot_managed_site t) = or_none (op_managed_site o1)
                     \<and> ot_type t = op_type o1 \<and> ot_payload_hash t = op_payload_hash o1)
              (conflict ''operation target snapshot changed'')) (\<lambda>_.
     require (case or_none (ot_revision t) of None \<Rightarrow> True | Some r \<Rightarrow> is_sha256 r)
       (conflict ''operation inventory snapshot is invalid''))"

definition read_stored :: "string option \<Rightarrow> string option \<Rightarrow> envelope result" where
  "read_stored command_json command_hash =
     (case json_loads (or_empty command_json) of
        Inl _ \<Rightarrow> Inl (conflict ''persisted command is invalid'')
      | Inr (JObj persisted) \<Rightarrow>
          bindE (require (is_sha256 (or_empty command_hash)) (conflict ''persisted command hash changed'')) (\<lambda>_.
          bindE (immutable_command_hash persisted) (\<lambda>h.
          bindE (require (Some h = command_hash) (conflict ''persisted command hash changed'')) (\<lambda>_.
          Inr persisted)))
      | Inr _ \<Rightarrow> Inl (conflict ''persisted command must be an object''))"

definition restamp :: "int \<Rightarrow> int \<Rightarrow> envelope \<Rightarrow> envelope" where
  "restamp lifetime current env =
     AList.update ''expires_at'' (JStr (micro_timestamp (current + seconds lifetime)))
       (AList.update ''issued_at'' (JStr (micro_timestamp current)) env)"

definition validate_persisted ::
  "int \<Rightarrow> db \<Rightarrow> string \<Rightarrow> string option \<Rightarrow> string option \<Rightarrow> datetime \<Rightarrow> envelope result" where
  "validate_persisted lifetime d n command_json command_hash now =
     bindE (read_stored command_json command_hash) (\<lambda>persisted.
     bindE (of_option (conflict ''unknown operation'') (joined_operation d n)) (\<lambda>j.
     bindE (catchE (\<lambda>_. Some (conflict ''operation payload is invalid JSON''))
              (json_loads (or_empty (op_payload_json (jo_op j))))) (\<lambda>payload.
     bindE (require (list_all (\<lambda>(k, v). py_eq (jget persisted k) v) (expected_members j payload))
              (conflict ''persisted command no longer matches operation'')) (\<lambda>_.
     bindE (require (case jget persisted ''approval_claims'' of JList _ \<Rightarrow> True | _ \<Rightarrow> False)
              (conflict ''persisted approval claims are invalid'')) (\<lambda>_.
     bindE (single_target d n) (\<lambda>t.
     bindE (check_stored_target (jo_op j) t) (\<lambda>_.
     bindE (approval_claims d (jo_op j) t) (\<lambda>claims.
     bindE (require (py_eq (jget persisted ''approval_claims'') (JList claims))
              (conflict ''persisted approval claims changed'')) (\<lambda>_.
     Inr (restamp lifetime (naive_utc now) persisted))))))))))"

section \<open>The contract of a claim check\<close>

text \<open>
  Both kinds of approval are collected by the same loop. Its contract: a check that succeeds means
  the approver is neither the requester nor one seen before.
\<close>

locale claim_check =
  fixes who :: "'r \<Rightarrow> string"
    and claim :: "'r \<Rightarrow> json"
    and check :: "string list \<Rightarrow> 'r \<Rightarrow> unit result"
    and requester :: string
    and evidence :: "'r \<Rightarrow> bool"
  assumes attributed: "check seen a = Inr u \<Longrightarrow> who a \<notin> set seen \<and> who a \<noteq> requester \<and> evidence a"
begin

lemma collected_seen:
  "collect_claims who claim check seen as = Inr cs \<Longrightarrow>
   cs = map claim as \<and> distinct (map who as) \<and> set (map who as) \<inter> set seen = {}
   \<and> (\<forall>a\<in>set as. who a \<noteq> requester \<and> evidence a)"
proof (induction as arbitrary: seen cs)
  case Nil
  then show ?case by simp
next
  case (Cons a as)
  then obtain cs' where c: "check seen a = Inr ()"
    and r: "collect_claims who claim check (who a # seen) as = Inr cs'" and cs: "cs = claim a # cs'"
    by (auto simp: bindE_eq_Inr)
  from Cons.IH [OF r] attributed [OF c] show ?case unfolding cs by auto
qed

lemma collected:
  assumes "collect_claims who claim check [] as = Inr cs"
  shows "cs = map claim as" "distinct (map who as)" "\<forall>a\<in>set as. who a \<noteq> requester \<and> evidence a"
  using collected_seen [OF assms] by auto

end

interpretation op_claims: claim_check ap_approver approval_claim "check_approval o1 t" "op_requested_by o1"
    "\<lambda>a. ap_payload_hash a = op_payload_hash o1 \<and> ap_target_key a = ot_target_key t" for o1 t
  by unfold_locales (auto simp: check_approval_def bindE_eq_Inr require_eq_Inr)

interpretation bulk_claims: claim_check ba_approver bulk_claim "check_bulk_approval p" "bu_requested_by p"
    "\<lambda>a. ba_payload_hash a = bu_payload_hash p \<and> ba_snapshot_hash a = bu_snapshot_hash p" for p
  by unfold_locales (auto simp: check_bulk_approval_def require_eq_Inr)

section \<open>What a dispatch has checked\<close>

lemma build_envelope_ok:
  assumes "build_envelope lifetime d n now = Inr env"
  obtains j operation_id payload t claims where
    "joined_operation d n = Some j" "check_identity_binding j = Inr operation_id"
    "dispatch_payload (jo_op j) = Inr payload" "single_target d (op_name (jo_op j)) = Inr t"
    "check_snapshot_binding j t = Inr ()" "approval_claims d (jo_op j) t = Inr claims"
    "env = envelope_of lifetime j operation_id payload claims (naive_utc now)"
  using assms that by (auto simp: build_envelope_def bindE_eq_Inr of_option_eq_Inr)

lemma joined_operation_ok:
  "joined_operation d n = Some j \<Longrightarrow> get_row op_name (operations d) n = Some (jo_op j)
     \<and> op_name (jo_op j) = n \<and> get_row sa_name (agents d) (op_server_agent (jo_op j)) = Some (jo_agent j)
     \<and> get_row be_name (benches d) (op_bench (jo_op j)) = Some (jo_bench j)
     \<and> jo_site j = opt_row si_name (sites d) (op_managed_site (jo_op j))"
  by (auto simp: joined_operation_def dest: get_row_Some split: option.splits)

lemma dispatch_payload_ok:
  assumes "dispatch_payload o1 = Inr p"
  shows "json_loads (or_empty (op_payload_json o1)) = Inr (JObj (fst p))"
    "snd p = op_payload_hash o1" "sha256_json (JObj (fst p)) = Inr (op_payload_hash o1)"
    "\<forall>k\<in>all_keys (JObj (fst p)). \<not> sensitive_marker k"
  using assms
  by (auto simp: dispatch_payload_def bindE_eq_Inr require_eq_Inr is_ok_iff validate_json_iff
      simp del: validate_json.simps split: sum.splits json.splits)

lemma claims_single:
  assumes "approval_claims d o1 t = Inr claims" and "\<not> truthy (op_bulk_parent o1)"
  shows "\<exists>as. claims = map approval_claim as \<and> set as \<subseteq> {a \<in> set (approvals d). ap_operation a = op_name o1
        \<and> ap_decision a = ''approved'' \<and> ap_payload_hash a = op_payload_hash o1
        \<and> ap_target_key a = ot_target_key t \<and> ap_approver a \<noteq> op_requested_by o1}
      \<and> distinct (map ap_approver as) \<and> op_required o1 \<le> int (length as)
      \<and> (op_required o1 = 0 \<longrightarrow> op_approval_status o1 = ''not_required'')
      \<and> (\<forall>a\<in>set (approvals d). ap_operation a = op_name o1 \<longrightarrow> ap_decision a \<noteq> ''rejected'')"
proof -
  define rows where "rows = sort_key (\<lambda>a. (ap_decided_at a, ap_name a))
      (filter (\<lambda>a. ap_operation a = op_name o1) (approvals d))"
  define as where "as = filter (\<lambda>a. ap_decision a = ''approved'') rows"
  have no: "\<forall>a\<in>set (approvals d). ap_operation a = op_name o1 \<longrightarrow> ap_decision a \<noteq> ''rejected''"
    using assms by (auto simp: approval_claims_def Let_def bindE_eq_Inr require_eq_Inr list_ex_iff)
  have mem: "set as \<subseteq> {a \<in> set (approvals d). ap_operation a = op_name o1 \<and> ap_decision a = ''approved''}"
    by (auto simp: as_def rows_def)
  show ?thesis
  proof (cases "op_required o1 = 0")
    case True
    then have "claims = []" "op_approval_status o1 = ''not_required''"
      using assms by (auto simp: approval_claims_def Let_def bindE_eq_Inr require_eq_Inr)
    then show ?thesis using no True by (intro exI [of _ "[]"]) auto
  next
    case False
    then have c: "collect_claims ap_approver approval_claim (check_approval o1 t) [] as = Inr claims"
      and n: "op_required o1 \<le> int (length as)"
      using assms by (auto simp: approval_claims_def Let_def bindE_eq_Inr require_eq_Inr as_def rows_def)
    show ?thesis
      using op_claims.collected [OF c] mem n no False by (intro exI [of _ as]) auto
  qed
qed

lemma claims_bulk:
  assumes "approval_claims d o1 t = Inr claims" and "truthy (op_bulk_parent o1)"
  shows "\<exists>p as. opt_row bu_name (bulks d) (op_bulk_parent o1) = Some p \<and> bu_approval_status p = ''approved''
      \<and> bu_payload_hash p = op_payload_hash o1 \<and> bu_requested_by p = op_requested_by o1
      \<and> claims = map bulk_claim as \<and> set as \<subseteq> {a \<in> set (bulkapprovals d).
          Some (ba_bulk a) = op_bulk_parent o1 \<and> ba_decision a = ''approved''
          \<and> ba_payload_hash a = op_payload_hash o1 \<and> ba_approver a \<noteq> op_requested_by o1}
      \<and> distinct (map ba_approver as) \<and> 1 \<le> op_required o1 \<and> op_required o1 \<le> int (length as)"
proof -
  have b: "bulk_approval_claims d o1 = Inr claims" using assms by (simp add: approval_claims_def)
  obtain p bt where p: "opt_row bu_name (bulks d) (op_bulk_parent o1) = Some p"
    and bind: "bulk_binding o1 p bt"
    using b unfolding bulk_approval_claims_def by (auto simp: bindE_eq_Inr require_eq_Inr split: option.splits)
  define as where "as = filter (\<lambda>a. ba_decision a = ''approved'') (sort_key (\<lambda>a. (ba_decided_at a, ba_name a))
      (filter (\<lambda>a. Some (ba_bulk a) = op_bulk_parent o1) (bulkapprovals d)))"
  have c: "collect_claims ba_approver bulk_claim (check_bulk_approval p) [] as = Inr claims"
    and n: "1 \<le> bu_required p" "bu_required p \<le> int (length as)"
    using b p unfolding bulk_approval_claims_def as_def
    by (auto simp: bindE_eq_Inr require_eq_Inr Let_def split: option.splits)
  have mem: "set as \<subseteq> {a \<in> set (bulkapprovals d).
      Some (ba_bulk a) = op_bulk_parent o1 \<and> ba_decision a = ''approved''}"
    by (auto simp: as_def)
  show ?thesis
    using bulk_claims.collected [OF c] mem n p bind
    by (intro exI [of _ p] exI [of _ as]) (auto simp: bulk_binding_def)
qed

text \<open>The approvers a list of claims names, and what makes them enough for an operation.\<close>

definition claim_approvers :: "json list \<Rightarrow> json list" where
  "claim_approvers claims = map (\<lambda>c. case c of JObj kvs \<Rightarrow> jget kvs ''approved_by'' | _ \<Rightarrow> JNull) claims"

definition enough_approvers :: "db \<Rightarrow> op_row \<Rightarrow> string list \<Rightarrow> bool" where
  "enough_approvers d o1 names =
     (distinct names \<and> op_requested_by o1 \<notin> set names \<and> op_required o1 \<le> int (length names)
      \<and> (if truthy (op_bulk_parent o1)
         then 1 \<le> op_required o1 \<and>
           (\<forall>x\<in>set names. \<exists>a\<in>set (bulkapprovals d). ba_approver a = x
              \<and> Some (ba_bulk a) = op_bulk_parent o1 \<and> ba_decision a = ''approved''
              \<and> ba_payload_hash a = op_payload_hash o1)
         else (\<forall>x\<in>set names. \<exists>a\<in>set (approvals d). ap_approver a = x \<and> ap_operation a = op_name o1
              \<and> ap_decision a = ''approved'' \<and> ap_payload_hash a = op_payload_hash o1)
           \<and> (\<forall>a\<in>set (approvals d). ap_operation a = op_name o1 \<longrightarrow> ap_decision a \<noteq> ''rejected'')))"

lemma claim_approvers_simps [simp]:
  "claim_approvers (map approval_claim as) = map (\<lambda>a. JStr (ap_approver a)) as"
  "claim_approvers (map bulk_claim bs) = map (\<lambda>a. JStr (ba_approver a)) bs"
  by (simp_all add: claim_approvers_def approval_claim_def bulk_claim_def claim_json_def)

lemma claims_enough:
  assumes "approval_claims d o1 t = Inr claims"
  shows "\<exists>names. claim_approvers claims = map JStr names \<and> enough_approvers d o1 names"
proof (cases "truthy (op_bulk_parent o1)")
  case True
  obtain as where "claims = map bulk_claim as" "distinct (map ba_approver as)"
    "1 \<le> op_required o1" "op_required o1 \<le> int (length as)"
    "set as \<subseteq> {a \<in> set (bulkapprovals d). Some (ba_bulk a) = op_bulk_parent o1
       \<and> ba_decision a = ''approved'' \<and> ba_payload_hash a = op_payload_hash o1
       \<and> ba_approver a \<noteq> op_requested_by o1}"
    using claims_bulk [OF assms True] by blast
  then show ?thesis
    using True by (intro exI [of _ "map ba_approver as"]) (auto simp: enough_approvers_def)
next
  case False
  obtain as where "claims = map approval_claim as" "distinct (map ap_approver as)"
    "op_required o1 \<le> int (length as)"
    "set as \<subseteq> {a \<in> set (approvals d). ap_operation a = op_name o1 \<and> ap_decision a = ''approved''
       \<and> ap_payload_hash a = op_payload_hash o1 \<and> ap_target_key a = ot_target_key t
       \<and> ap_approver a \<noteq> op_requested_by o1}"
    "\<forall>a\<in>set (approvals d). ap_operation a = op_name o1 \<longrightarrow> ap_decision a \<noteq> ''rejected''"
    using claims_single [OF assms False] by blast
  then show ?thesis
    using False by (intro exI [of _ "map ap_approver as"]) (auto simp: enough_approvers_def)
qed

lemma dispatch_ok:
  assumes "dispatch lifetime n now d = Inr (env, d')"
  obtains o1 digest where
    "build_envelope lifetime d n now = Inr env" "get_row op_name (operations d) n = Some o1"
    "immutable_command_hash env = Inr digest" "is_sha256 digest"
    "op_state o1 = ''queued'' \<and> op_command_hash o1 = Some digest \<and> d' = d \<or>
     op_state o1 = ''awaiting_approval'' \<and> or_none (op_command_hash o1) = None
       \<and> d' = target_set n (\<lambda>t. t\<lparr>ot_state := ''queued''\<rparr>) (op_set n (\<lambda>x. x\<lparr>op_state := ''queued'',
           op_command_json := Some (json_dumps (JObj env)), op_command_hash := Some digest\<rparr>) d)"
proof -
  obtain e o1 digest where e: "build_envelope lifetime d n now = Inr e"
    and o1: "get_row op_name (operations d) n = Some o1" and h: "immutable_command_hash e = Inr digest"
    and r: "(if op_state o1 = ''queued'' \<and> or_none (op_command_hash o1) = Some digest then Inr (e, d)
      else bindE (require (op_state o1 = ''awaiting_approval'' \<and> or_none (op_command_hash o1) = None)
                    (conflict ''operation is not dispatchable'')) (\<lambda>_.
           bindE (canonical_json (JObj e)) (\<lambda>command.
           Inr (e, target_set n (\<lambda>t. t\<lparr>ot_state := ''queued''\<rparr>)
             (op_set n (\<lambda>x. x\<lparr>op_state := ''queued'', op_command_json := Some command,
                               op_command_hash := Some digest\<rparr>) d))))) = Inr (env, d')"
    using assms by (auto simp: dispatch_def bindE_eq_Inr of_option_eq_Inr simp del: json_dumps.simps)
  have sha: "is_sha256 digest"
    using h by (auto simp: immutable_command_hash_def dest: sha256_json_shape)
  show ?thesis
  proof (cases "op_state o1 = ''queued'' \<and> or_none (op_command_hash o1) = Some digest")
    case True
    then have "env = e" "d' = d" using r by simp_all
    then show ?thesis using that [of o1 digest] e o1 h sha True by (auto simp: or_none_eq_Some)
  next
    case False
    then have "bindE (require (op_state o1 = ''awaiting_approval'' \<and> or_none (op_command_hash o1) = None)
                    (conflict ''operation is not dispatchable'')) (\<lambda>_.
           bindE (canonical_json (JObj e)) (\<lambda>command.
           Inr (e, target_set n (\<lambda>t. t\<lparr>ot_state := ''queued''\<rparr>)
             (op_set n (\<lambda>x. x\<lparr>op_state := ''queued'', op_command_json := Some command,
                               op_command_hash := Some digest\<rparr>) d)))) = Inr (env, d')"
      using r by (simp only: if_False)
    then have env: "env = e" and st: "op_state o1 = ''awaiting_approval''" "or_none (op_command_hash o1) = None"
      and d': "d' = target_set n (\<lambda>t. t\<lparr>ot_state := ''queued''\<rparr>) (op_set n (\<lambda>x. x\<lparr>op_state := ''queued'',
           op_command_json := Some (json_dumps (JObj e)), op_command_hash := Some digest\<rparr>) d)"
      by (auto simp: bindE_eq_Inr require_eq_Inr canonical_json_eq simp del: json_dumps.simps)
    show ?thesis
      by (rule that [of o1 digest]) (use e o1 h sha st d' env in \<open>blast+\<close>)
  qed
qed

lemma op_of_dispatch:
  assumes "dispatch lifetime n now d = Inr (env, d')"
  shows "\<exists>o1 o2 digest. get_row op_name (operations d) n = Some o1 \<and> get_row op_name (operations d') n = Some o2
    \<and> op_state o1 \<in> {''awaiting_approval'', ''queued''} \<and> op_state o2 = ''queued''
    \<and> immutable_command_hash env = Inr digest \<and> op_command_hash o2 = Some digest
    \<and> o2 = o1\<lparr>op_state := ''queued'', op_command_json := op_command_json o2, op_command_hash := Some digest\<rparr>
    \<and> (\<forall>m. m \<noteq> n \<longrightarrow> get_row op_name (operations d') m = get_row op_name (operations d) m)"
proof -
  obtain o1 digest where o1: "get_row op_name (operations d) n = Some o1"
    and h: "immutable_command_hash env = Inr digest"
    and c: "op_state o1 = ''queued'' \<and> op_command_hash o1 = Some digest \<and> d' = d \<or>
     op_state o1 = ''awaiting_approval'' \<and> or_none (op_command_hash o1) = None
       \<and> d' = target_set n (\<lambda>t. t\<lparr>ot_state := ''queued''\<rparr>) (op_set n (\<lambda>x. x\<lparr>op_state := ''queued'',
           op_command_json := Some (json_dumps (JObj env)), op_command_hash := Some digest\<rparr>) d)"
    by (rule dispatch_ok [OF assms]) blast
  from c show ?thesis
    using o1 h by (elim disjE) (auto simp: target_set_def operations_op_set get_row_set_rows simp del: json_dumps.simps)
qed

text \<open>
  C12: a dispatched operation targets an enabled agent that is not draining; its envelope carries
  the payload of the operation, whose digest is the one that was approved and which has no
  secret-shaped key; the claims name distinct approvers other than the requester, each with a
  recorded approval of this payload, at least as many as required, and (for an operation of its
  own) nobody rejected it. The operation is queued with the digest of the envelope; no other
  operation changes.
\<close>

theorem dispatch_sound:
  assumes "dispatch lifetime n now d = Inr (env, d')"
  shows "\<exists>j payload names claims o2 digest. joined_operation d n = Some j
    \<and> sa_enabled (jo_agent j) \<and> \<not> sa_drain_requested (jo_agent j)
    \<and> json_loads (or_empty (op_payload_json (jo_op j))) = Inr (JObj payload)
    \<and> jget env ''payload'' = JObj payload \<and> sha256_json (JObj payload) = Inr (op_payload_hash (jo_op j))
    \<and> (\<forall>k\<in>all_keys (JObj payload). \<not> sensitive_marker k)
    \<and> jget env ''approval_claims'' = JList claims \<and> claim_approvers claims = map JStr names
    \<and> enough_approvers d (jo_op j) names
    \<and> get_row op_name (operations d') n = Some o2 \<and> op_state o2 = ''queued''
    \<and> immutable_command_hash env = Inr digest \<and> op_command_hash o2 = Some digest
    \<and> (\<forall>m. m \<noteq> n \<longrightarrow> get_row op_name (operations d') m = get_row op_name (operations d) m)"
proof -
  have b: "build_envelope lifetime d n now = Inr env" by (rule dispatch_ok [OF assms]) blast
  obtain j operation_id payload t claims where j: "joined_operation d n = Some j"
    and i: "check_identity_binding j = Inr operation_id" and p: "dispatch_payload (jo_op j) = Inr payload"
    and c: "approval_claims d (jo_op j) t = Inr claims"
    and env: "env = envelope_of lifetime j operation_id payload claims (naive_utc now)"
    by (rule build_envelope_ok [OF b]) blast
  obtain names where n: "claim_approvers claims = map JStr names" "enough_approvers d (jo_op j) names"
    using claims_enough [OF c] by blast
  have a: "sa_enabled (jo_agent j)" "\<not> sa_drain_requested (jo_agent j)"
    using i by (auto simp: check_identity_binding_def Let_def bindE_eq_Inr require_eq_Inr)
  have e: "jget env ''payload'' = JObj (fst payload)" "jget env ''approval_claims'' = JList claims"
    by (simp_all add: env envelope_of_def)
  show ?thesis
    using j a dispatch_payload_ok [OF p] e n op_of_dispatch [OF assms]
    by (intro exI [of _ j] exI [of _ "fst payload"] exI [of _ names] exI [of _ claims]) blast
qed

lemma validate_persisted_ok:
  assumes "validate_persisted lifetime d n cj h now = Inr env"
  shows "\<exists>persisted j payload t claims. read_stored cj h = Inr persisted \<and> joined_operation d n = Some j
      \<and> json_loads (or_empty (op_payload_json (jo_op j))) = Inr payload
      \<and> list_all (\<lambda>(k, v). py_eq (jget persisted k) v) (expected_members j payload)
      \<and> (case jget persisted ''approval_claims'' of JList _ \<Rightarrow> True | _ \<Rightarrow> False)
      \<and> single_target d n = Inr t \<and> check_stored_target (jo_op j) t = Inr ()
      \<and> approval_claims d (jo_op j) t = Inr claims \<and> py_eq (jget persisted ''approval_claims'') (JList claims)
      \<and> env = restamp lifetime (naive_utc now) persisted"
proof -
  have unit: "P ()" if "P u" for P and u :: unit using that by simp
  show ?thesis
    using assms unfolding validate_persisted_def bindE_eq_Inr require_eq_Inr of_option_eq_Inr catchE_eq_Inr sum.inject
    by (elim exE conjE) (intro exI conjI, assumption+, erule unit, assumption+, rule sym)
qed

section \<open>Dispatching again, and leasing what was dispatched\<close>

lemma single_target_iff: "single_target d n = Inr t \<longleftrightarrow> filter (\<lambda>t. ot_operation t = n) (optargets d) = [t]"
  by (auto simp: single_target_def split: list.splits)

lemma dispatch_payload_cong:
  assumes "op_payload_json o2 = op_payload_json o1" "op_payload_hash o2 = op_payload_hash o1"
  shows "dispatch_payload o2 = dispatch_payload o1"
  unfolding dispatch_payload_def assms by (rule refl)

lemma queued_reads:
  fixes d n cj h
  defines "d' \<equiv> target_set n (\<lambda>t. t\<lparr>ot_state := ''queued''\<rparr>)
      (op_set n (\<lambda>x. x\<lparr>op_state := ''queued'', op_command_json := cj, op_command_hash := h\<rparr>) d)"
  assumes j: "joined_operation d n = Some j"
  shows "joined_operation d' n = Some (j\<lparr>jo_op := (jo_op j)\<lparr>op_state := ''queued'', op_command_json := cj,
      op_command_hash := h\<rparr>\<rparr>)"
    and "single_target d n = Inr t \<Longrightarrow> single_target d' n = Inr (t\<lparr>ot_state := ''queued''\<rparr>)"
proof -
  show "joined_operation d' n = Some (j\<lparr>jo_op := (jo_op j)\<lparr>op_state := ''queued'', op_command_json := cj,
      op_command_hash := h\<rparr>\<rparr>)"
    using j
    by (auto simp: joined_operation_def d'_def target_set_def operations_op_set get_row_set_rows
        split: option.splits)
  have eq: "filter (\<lambda>t. ot_operation t = n) (set_rows (\<lambda>t. ot_operation t = n) (\<lambda>t. t\<lparr>ot_state := ''queued''\<rparr>) ts)
      = map (\<lambda>t. t\<lparr>ot_state := ''queued''\<rparr>) (filter (\<lambda>t. ot_operation t = n) ts)" for ts
    by (induction ts) (auto simp: set_rows_def)
  then show "single_target d n = Inr t \<Longrightarrow> single_target d' n = Inr (t\<lparr>ot_state := ''queued''\<rparr>)"
    by (simp add: single_target_iff d'_def target_set_def eq)
qed

lemma check_approval_cong:
  assumes "op_policy o2 = op_policy o1" "op_requested_by o2 = op_requested_by o1"
    "op_payload_hash o2 = op_payload_hash o1" "op_preview_hash o2 = op_preview_hash o1"
    "ot_target_key t2 = ot_target_key t1"
  shows "check_approval o2 t2 = check_approval o1 t1"
  using assms by (intro ext) (simp add: check_approval_def)

lemma approval_claims_queued:
  "approval_claims (target_set n f (op_set n g d)) (o1\<lparr>op_state := s, op_command_json := cj,
      op_command_hash := h\<rparr>) (t\<lparr>ot_state := q\<rparr>) = approval_claims d o1 t"
proof -
  have c: "check_approval (o1\<lparr>op_state := s, op_command_json := cj, op_command_hash := h\<rparr>) (t\<lparr>ot_state := q\<rparr>)
      = check_approval o1 t"
    by (rule check_approval_cong) simp_all
  have b: "bulk_binding (o1\<lparr>op_state := s, op_command_json := cj, op_command_hash := h\<rparr>) = bulk_binding o1"
    by (intro ext) (simp add: bulk_binding_def)
  have t: "bulks (target_set n f (op_set n g d)) = bulks d"
      "bulktargets (target_set n f (op_set n g d)) = bulktargets d"
      "bulkapprovals (target_set n f (op_set n g d)) = bulkapprovals d"
      "approvals (target_set n f (op_set n g d)) = approvals d"
    by (simp_all add: target_set_def op_set_def)
  show ?thesis
    by (simp add: approval_claims_def bulk_approval_claims_def c b t Let_def cong: if_cong option.case_cong)
qed

lemma build_queued:
  assumes "build_envelope lifetime d n now = Inr env"
    and "d' = d \<or> d' = target_set n (\<lambda>t. t\<lparr>ot_state := ''queued''\<rparr>) (op_set n (\<lambda>x. x\<lparr>op_state := ''queued'',
           op_command_json := cj, op_command_hash := h\<rparr>) d)"
  shows "\<exists>env2. build_envelope lifetime d' n now2 = Inr env2 \<and> immutable_command env2 = immutable_command env"
proof -
  obtain j oid p t cs where j: "joined_operation d n = Some j" and i: "check_identity_binding j = Inr oid"
    and p: "dispatch_payload (jo_op j) = Inr p" and t: "single_target d (op_name (jo_op j)) = Inr t"
    and s: "check_snapshot_binding j t = Inr ()" and c: "approval_claims d (jo_op j) t = Inr cs"
    and env: "env = envelope_of lifetime j oid p cs (naive_utc now)"
    by (rule build_envelope_ok [OF assms(1)]) blast
  have name: "op_name (jo_op j) = n" using joined_operation_ok [OF j] by simp
  from assms(2) show ?thesis
  proof
    assume "d' = d"
    then show ?thesis
      using j i p t s c by (simp add: build_envelope_def env envelope_of_def immutable_command_def)
  next
    assume d': "d' = target_set n (\<lambda>t. t\<lparr>ot_state := ''queued''\<rparr>) (op_set n (\<lambda>x. x\<lparr>op_state := ''queued'',
           op_command_json := cj, op_command_hash := h\<rparr>) d)"
    define j2 where "j2 = j\<lparr>jo_op := (jo_op j)\<lparr>op_state := ''queued'', op_command_json := cj, op_command_hash := h\<rparr>\<rparr>"
    have j2: "joined_operation d' n = Some j2" and t2: "single_target d' n = Inr (t\<lparr>ot_state := ''queued''\<rparr>)"
      using queued_reads(1) [OF j, where cj = cj and h = h] queued_reads(2) [OF j, where t = t and cj = cj and h = h] t unfolding name d' j2_def
      by simp_all
    have "dispatch_payload (jo_op j2) = Inr p"
      using p dispatch_payload_cong [of "jo_op j2" "jo_op j"] by (simp add: j2_def)
    moreover have "check_identity_binding j2 = Inr oid"
      "check_snapshot_binding j2 (t\<lparr>ot_state := ''queued''\<rparr>) = Inr ()" "op_name (jo_op j2) = n"
      using i s name by (simp_all add: j2_def check_identity_binding_def check_snapshot_binding_def Let_def cong: option.case_cong)
    moreover have "approval_claims d' (jo_op j2) (t\<lparr>ot_state := ''queued''\<rparr>) = Inr cs"
      using c by (simp add: j2_def d' approval_claims_queued)
    ultimately show ?thesis
      using j2 t2 by (simp add: build_envelope_def env envelope_of_def immutable_command_def j2_def)
  qed
qed

text \<open>
  Dispatching a dispatched operation again, at any later time, changes nothing and gives the
  same command up to its two time stamps.
\<close>

theorem dispatch_idempotent:
  assumes "dispatch lifetime n now d = Inr (env, d')"
  shows "\<exists>env2. dispatch lifetime n now2 d' = Inr (env2, d') \<and> immutable_command env2 = immutable_command env"
proof -
  obtain o1 digest where b: "build_envelope lifetime d n now = Inr env"
    and o1: "get_row op_name (operations d) n = Some o1" and h: "immutable_command_hash env = Inr digest" and sha: "is_sha256 digest"
    and c: "op_state o1 = ''queued'' \<and> op_command_hash o1 = Some digest \<and> d' = d \<or>
     op_state o1 = ''awaiting_approval'' \<and> or_none (op_command_hash o1) = None
       \<and> d' = target_set n (\<lambda>t. t\<lparr>ot_state := ''queued''\<rparr>) (op_set n (\<lambda>x. x\<lparr>op_state := ''queued'',
           op_command_json := Some (json_dumps (JObj env)), op_command_hash := Some digest\<rparr>) d)"
    by (rule dispatch_ok [OF assms])
  have "d' = d \<or> d' = target_set n (\<lambda>t. t\<lparr>ot_state := ''queued''\<rparr>) (op_set n (\<lambda>x. x\<lparr>op_state := ''queued'',
           op_command_json := Some (json_dumps (JObj env)), op_command_hash := Some digest\<rparr>) d)"
    using c by blast
  from build_queued [OF b this, of now2] obtain env2
    where e2: "build_envelope lifetime d' n now2 = Inr env2" "immutable_command env2 = immutable_command env"
    by blast
  obtain o2 where o2: "get_row op_name (operations d') n = Some o2" "op_state o2 = ''queued''"
      "op_command_hash o2 = Some digest"
    using op_of_dispatch [OF assms] h by auto
  have "immutable_command_hash env2 = Inr digest" using h e2(2) by (simp add: immutable_command_hash_def)
  then have "dispatch lifetime n now2 d' = Inr (env2, d')"
    using e2(1) o2 sha by (simp add: dispatch_def)
  then show ?thesis using e2(2) by blast
qed

lemma check_snapshot_ok:
  "check_snapshot_binding j t = Inr u \<Longrightarrow> ot_server_agent t = op_server_agent (jo_op j)
     \<and> ot_bench t = op_bench (jo_op j) \<and> ot_managed_site t = op_managed_site (jo_op j)
     \<and> ot_type t = op_type (jo_op j) \<and> ot_payload_hash t = op_payload_hash (jo_op j)
     \<and> (\<forall>r. or_none (ot_revision t) = Some r \<longrightarrow> is_sha256 r)"
  by (auto simp: check_snapshot_binding_def Let_def bindE_eq_Inr require_eq_Inr)

lemma claims_plain: "approval_claims d o1 t = Inr claims \<Longrightarrow> list_all plain_json claims"
  using claims_single [of d o1 t claims] claims_bulk [of d o1 t claims]
  by (cases "truthy (op_bulk_parent o1)")
     (auto simp: list_all_iff approval_claim_def bulk_claim_def claim_json_def)

lemma filter_update: "\<not> P k \<Longrightarrow> filter (\<lambda>(x, _). P x) (AList.update k v xs) = filter (\<lambda>(x, _). P x) xs"
  by (induction xs) auto

lemma immutable_restamp: "immutable_command (restamp lifetime now env) = immutable_command env"
  by (simp add: immutable_command_def restamp_def filter_update
      filter_update [where P = "\<lambda>k. k \<noteq> ''issued_at'' \<and> k \<noteq> ''expires_at''"])

lemma envelope_plain:
  assumes "plain_json (JObj (fst payload))" "list_all plain_json claims"
  shows "plain_json (JObj (envelope_of lifetime j oid payload claims current))"
  using assms by (simp add: envelope_of_def json_opt_def split: option.split)

lemma canon_obj: "canon (JObj kvs) = JObj (map (\<lambda>(k, v). (k, canon v)) (sort_key fst kvs))"
  by simp

lemma stored_reads:
  assumes "plain_json (JObj env)" "immutable_command_hash env = Inr digest"
    and k: "canon (JObj env) = JObj stored"
  shows "read_stored (Some (json_dumps (JObj env))) (Some digest) = Inr stored"
    "immutable_command_hash stored = Inr digest"
proof -
  have l: "json_loads (json_dumps (JObj env)) = Inr (JObj stored)"
    using loads_dumps [OF keeps_hooks(1) assms(1)] k by (simp add: json_loads_def)
  have "JObj (immutable_command stored) = canon (JObj (immutable_command env))"
    unfolding immutable_command_def by (rule canon_filter [OF k])
  then show h: "immutable_command_hash stored = Inr digest"
    using assms(2) dumps_canon [of "JObj (immutable_command env)"]
      finite_canon [of "JObj (immutable_command env)"]
    by (auto simp: immutable_command_hash_def sha256_json_def bindE_eq_Inr canonical_json_eq
        simp del: json_dumps.simps finite_json.simps)
  have "is_sha256 digest" using assms(2) by (auto simp: immutable_command_hash_def dest: sha256_json_shape)
  then show "read_stored (Some (json_dumps (JObj env))) (Some digest) = Inr stored"
    using l h by (simp add: read_stored_def del: json_dumps.simps)
qed

lemma plain_canon: "plain_json v \<Longrightarrow> plain_json (canon v)"
proof (induction v rule: canon.induct)
  case (2 kvs)
  have "map fst (map (\<lambda>(k, v). (k, canon v)) (sort_key fst kvs)) = map fst (sort_key fst kvs)" by auto
  moreover have "distinct (map fst (sort_key fst kvs))" using 2(2) by (simp add: distinct_map)
  ultimately have "distinct (map fst (map (\<lambda>(k, v). (k, canon v)) (sort_key fst kvs)))" by (simp only:)
  moreover have "list_all (\<lambda>(k, v). plain_json v) (map (\<lambda>(k, v). (k, canon v)) (sort_key fst kvs))"
    using 2 by (auto simp: list_all_iff)
  ultimately show ?case by (simp only: canon.simps plain_json.simps)
qed (auto simp: list_all_iff)

lemma plain_values_update:
  "list_all (\<lambda>(k, v). plain_json v) kvs \<Longrightarrow> plain_json v \<Longrightarrow>
   list_all (\<lambda>(k, v). plain_json v) (AList.update k v kvs)"
  by (induction kvs) auto

lemma plain_update:
  "plain_json (JObj kvs) \<Longrightarrow> plain_json v \<Longrightarrow> plain_json (JObj (AList.update k v kvs))"
  by (simp add: plain_values_update distinct_update)

lemma dispatched_accepted:
  assumes "dispatch lifetime n now d = Inr (env, d')"
    and "get_row op_name (operations d) n = Some o1" and "op_state o1 = ''awaiting_approval''"
    and "py_lower (op_operation_id o1) = op_operation_id o1"
    and "json_loads (or_empty (op_payload_json o1)) = Inr v" and "plain_json v"
  shows "\<exists>o2 digest command. get_row op_name (operations d') n = Some o2
    \<and> validate_persisted lifetime d' n (op_command_json o2) (op_command_hash o2) later = Inr command
    \<and> immutable_command_hash env = Inr digest \<and> immutable_command_hash command = Inr digest
    \<and> py_eq (jget command ''payload'') v \<and> plain_json (JObj command)"
proof -
  obtain x digest where b: "build_envelope lifetime d n now = Inr env"
    and x: "get_row op_name (operations d) n = Some x"
    and h: "immutable_command_hash env = Inr digest"
    and c: "op_state x = ''queued'' \<and> op_command_hash x = Some digest \<and> d' = d \<or>
     op_state x = ''awaiting_approval'' \<and> or_none (op_command_hash x) = None
       \<and> d' = target_set n (\<lambda>t. t\<lparr>ot_state := ''queued''\<rparr>) (op_set n (\<lambda>x. x\<lparr>op_state := ''queued'',
           op_command_json := Some (json_dumps (JObj env)), op_command_hash := Some digest\<rparr>) d)"
    by (rule dispatch_ok [OF assms(1)])
  define cj where "cj = Some (json_dumps (JObj env))"
  have d': "d' = target_set n (\<lambda>t. t\<lparr>ot_state := ''queued''\<rparr>) (op_set n (\<lambda>x. x\<lparr>op_state := ''queued'',
           op_command_json := cj, op_command_hash := Some digest\<rparr>) d)"
    using c x assms(2,3) unfolding cj_def by auto
  obtain j oid p t cs where j: "joined_operation d n = Some j" and i: "check_identity_binding j = Inr oid"
    and p: "dispatch_payload (jo_op j) = Inr p" and t: "single_target d (op_name (jo_op j)) = Inr t"
    and s: "check_snapshot_binding j t = Inr ()" and cl: "approval_claims d (jo_op j) t = Inr cs"
    and env: "env = envelope_of lifetime j oid p cs (naive_utc now)"
    by (rule build_envelope_ok [OF b])
  have jo: "jo_op j = o1" and name: "op_name o1 = n" using joined_operation_ok [OF j] assms(2) by auto
  have v: "v = JObj (fst p)" "snd p = op_payload_hash o1" using dispatch_payload_ok [OF p] assms(5) jo by auto
  have plain: "plain_json (JObj env)"
    unfolding env by (rule envelope_plain) (use assms(6) v claims_plain [OF cl] in auto)
  have oid: "oid = op_operation_id o1" "sa_audience (jo_agent j) = ''frappe-controller''"
      "op_protocol_version o1 = ''1.0''"
    using i assms(4) jo by (auto simp: check_identity_binding_def Let_def bindE_eq_Inr require_eq_Inr)
  obtain stored where k: "canon (JObj env) = JObj stored" unfolding canon_obj by blast
  have dist: "distinct (map fst env)" using plain by simp
  have get: "jget stored key = canon (jget env key)" for key by (rule jget_canon [OF k dist])
  define o2 where "o2 = o1\<lparr>op_state := ''queued'', op_command_json := cj, op_command_hash := Some digest\<rparr>"
  define j2 where "j2 = j\<lparr>jo_op := o2\<rparr>"
  have o2: "get_row op_name (operations d') n = Some o2"
    using assms(2) by (simp add: d' target_set_def operations_op_set get_row_set_rows o2_def)
  have j2: "joined_operation d' n = Some j2" and t2: "single_target d' n = Inr (t\<lparr>ot_state := ''queued''\<rparr>)"
    using queued_reads(1) [OF j, where cj = cj and h = "Some digest"]
      queued_reads(2) [OF j, where t = t and cj = cj and h = "Some digest"] t
    unfolding jo name d' j2_def o2_def by simp_all
  have read: "read_stored (op_command_json o2) (op_command_hash o2) = Inr stored"
    and hs: "immutable_command_hash stored = Inr digest"
    using stored_reads [OF plain h k] by (simp_all add: o2_def cj_def del: json_dumps.simps)
  have members: "list_all (\<lambda>(k, v). py_eq (jget stored k) v) (expected_members j2 v)"
    using py_eq_canon [OF assms(6)] oid v
    unfolding get by (simp add: expected_members_def j2_def o2_def env envelope_of_def jo json_opt_def split: option.split)
  have claims: "py_eq (jget stored ''approval_claims'') (JList cs)" "jget stored ''approval_claims'' = JList (map canon cs)"
    using py_eq_canon [of "JList cs"] claims_plain [OF cl] unfolding get by (simp_all add: env envelope_of_def)
  have target: "check_stored_target o2 (t\<lparr>ot_state := ''queued''\<rparr>) = Inr ()"
    using check_snapshot_ok [OF s] jo by (simp add: check_stored_target_def o2_def split: option.split)
  have cl2: "approval_claims d' o2 (t\<lparr>ot_state := ''queued''\<rparr>) = Inr cs"
    using cl by (simp add: o2_def jo d' approval_claims_queued)
  have pl: "json_loads (or_empty (op_payload_json o2)) = Inr v" using assms(5) by (simp add: o2_def)
  have "validate_persisted lifetime d' n (op_command_json o2) (op_command_hash o2) later
      = Inr (restamp lifetime (naive_utc later) stored)"
    using pl read j2 t2 members claims target cl2
    by (simp add: validate_persisted_def j2_def)
  moreover have "py_eq (jget (restamp lifetime (naive_utc later) stored) ''payload'') v"
  proof -
    have "jget (restamp lifetime (naive_utc later) stored) ''payload'' = jget stored ''payload''"
      by (simp add: restamp_def jget_def update_conv)
    then show ?thesis using py_eq_canon [OF assms(6)] get v by (simp add: env envelope_of_def)
  qed
  moreover have "plain_json (JObj (restamp lifetime (naive_utc later) stored))"
    using plain_canon [OF plain] unfolding k restamp_def by (intro plain_update) simp_all
  ultimately show ?thesis
    using o2 h hs by (intro exI [of _ o2] exI [of _ digest]) (auto simp: immutable_command_hash_def immutable_restamp)
qed

text \<open>
  C13: the command an operation is queued with is accepted when an agent leases it, however late:
  while nothing else changes, the stored text reads back, its digest is the one recorded at dispatch,
  it matches the operation, its target and its approvals, and the leased command is the dispatched
  one with new time stamps. This needs a canonical operation id, as authoring stores it (an id
  in capitals is dispatched in small letters and then no longer matches), and a payload without
  fractional numbers.
\<close>

theorem dispatched_is_leasable:
  assumes "dispatch lifetime n now d = Inr (env, d')"
    and "get_row op_name (operations d) n = Some o1" and "op_state o1 = ''awaiting_approval''"
    and "py_lower (op_operation_id o1) = op_operation_id o1"
    and "json_loads (or_empty (op_payload_json o1)) = Inr v" and "plain_json v"
  shows "\<exists>o2 digest command. get_row op_name (operations d') n = Some o2
    \<and> validate_persisted lifetime d' n (op_command_json o2) (op_command_hash o2) later = Inr command
    \<and> immutable_command_hash env = Inr digest \<and> immutable_command_hash command = Inr digest
    \<and> py_eq (jget command ''payload'') v"
  using dispatched_accepted [OF assms] by blast

section \<open>A dispatch\<close>

lemma ascii_finite: "ascii_json v \<Longrightarrow> finite_json v"
  by (induction v rule: ascii_json.induct) (auto simp: list_all_iff)

lemma ascii_sha: "ascii_json v \<Longrightarrow> sha256_json v = Inr (sha256_hex (json_dumps v))"
  using ascii_no_surrogate [OF ascii_dumps, of v] canonical_json_eq [of v "json_dumps v"] ascii_finite [of v]
  by (simp add: sha256_json_def encodeE_def)


definition approved_op :: op_row where
  "approved_op = demo_op\<lparr>op_name := demo_uuid, op_operation_id := demo_uuid,
     op_idempotency_key := ''controller:'' @ demo_uuid, op_approval_status := ''approved'',
     op_approval_count := 1\<rparr>"

definition demo_approval :: approval_row where
  "demo_approval =
     \<lparr>ap_name = ''ap-1'', ap_operation = demo_uuid, ap_policy = ''staging'', ap_decision = ''approved'',
      ap_approver = ''alice'', ap_decided_at = 0, ap_comment = None,
      ap_payload_hash = sha256_hex demo_payload, ap_target_key = replicate 64 CHR ''a'',
      ap_preview_hash = None, ap_decision_hash = replicate 64 CHR ''c''\<rparr>"

definition approved_db :: db where
  "approved_db = demo_db\<lparr>operations := [approved_op],
     optargets := [demo_optarget\<lparr>ot_operation := demo_uuid\<rparr>], approvals := [demo_approval]\<rparr>"

definition demo_joined :: joined where
  "demo_joined = \<lparr>jo_op = approved_op, jo_agent = demo_agent, jo_bench = demo_bench, jo_site = Some demo_site\<rparr>"

lemma demo_joined: "joined_operation approved_db demo_uuid = Some demo_joined"
  by (simp add: joined_operation_def approved_db_def demo_joined_def get_row_def approved_op_def demo_op_def
      demo_db_def demo_agent_def demo_bench_def demo_site_def opt_row_def)

lemma demo_domain_key: "\<not> sensitive_marker ''domain''"
  by (simp add: sensitive_marker_def normalized_key_def forbidden_keys_def string_defs)

lemma demo_sha: "sha256_json (JObj [(''domain'', JStr ''a.example'')]) = Inr (sha256_hex demo_payload)"
proof -
  have "\<not> has_surrogate demo_payload" unfolding demo_payload_def by (rule ascii_no_surrogate, rule ascii_dumps) simp
  then show ?thesis
    unfolding sha256_json_def canonical_json_def dumpsE_def demo_payload_def
    by (simp add: encodeE_def)
qed

lemma demo_dispatch_payload:
  "dispatch_payload approved_op = Inr ([(''domain'', JStr ''a.example'')], sha256_hex demo_payload)"
  using demo_domain_key
  by (simp add: dispatch_payload_def approved_op_def demo_op_def demo_payload_json demo_sha ascii_sha256
      is_ok_iff validate_json_iff del: validate_json.simps)

lemma demo_claims: "approval_claims approved_db approved_op (demo_optarget\<lparr>ot_operation := demo_uuid\<rparr>)
    = Inr [approval_claim demo_approval]"
  by (simp add: approval_claims_def approved_op_def demo_op_def approved_db_def demo_approval_def
      check_approval_def demo_optarget_def is_hex_def)

lemma dispatch_runs:
  assumes "joined_operation d n = Some j" "check_identity_binding j = Inr i" "dispatch_payload (jo_op j) = Inr p"
    "single_target d (op_name (jo_op j)) = Inr t" "check_snapshot_binding j t = Inr ()"
    "approval_claims d (jo_op j) t = Inr claims"
    and "ascii_json (JObj (envelope_of lifetime j i p claims (naive_utc now)))"
    and "op_state (jo_op j) = ''awaiting_approval''" "or_none (op_command_hash (jo_op j)) = None"
  shows "\<exists>env d'. dispatch lifetime n now d = Inr (env, d')"
proof -
  define env where "env = envelope_of lifetime j i p claims (naive_utc now)"
  have asc: "ascii_json (JObj env)" using assms(7) unfolding env_def .
  have b: "build_envelope lifetime d n now = Inr env"
    unfolding build_envelope_def assms(1-6) of_option_simps bindE_Inr env_def by (rule refl)
  have "ascii_json (JObj (immutable_command env))" using asc by (auto simp: immutable_command_def list_all_iff)
  then obtain h where h: "immutable_command_hash env = Inr h" by (simp add: immutable_command_hash_def ascii_sha)
  obtain command where cj: "canonical_json (JObj env) = Inr command"
    using canonical_json_eq ascii_finite [OF asc] by blast
  have o1: "get_row op_name (operations d) n = Some (jo_op j)" using joined_operation_ok [OF assms(1)] by (elim conjE)
  show ?thesis unfolding dispatch_def b o1 h cj of_option_simps bindE_Inr assms(8,9) by simp
qed

lemma dispatched_queue:
  assumes "dispatch lifetime n now d = Inr (env, d')" "operations d = [x]" "op_name x = n"
    "op_state x = ''awaiting_approval''"
  shows "\<exists>cj h. operations d' = [x\<lparr>op_state := ''queued'', op_command_json := Some cj, op_command_hash := Some h\<rparr>]
    \<and> agents d' = agents d \<and> bulks d' = bulks d \<and> bulktargets d' = bulktargets d \<and> sites d' = sites d"
proof -
  obtain o1 digest where "build_envelope lifetime d n now = Inr env"
    and o1: "get_row op_name (operations d) n = Some o1"
    and "immutable_command_hash env = Inr digest" "is_sha256 digest"
    and d': "op_state o1 = ''queued'' \<and> op_command_hash o1 = Some digest \<and> d' = d \<or>
     op_state o1 = ''awaiting_approval'' \<and> or_none (op_command_hash o1) = None
       \<and> d' = target_set n (\<lambda>t. t\<lparr>ot_state := ''queued''\<rparr>) (op_set n (\<lambda>x. x\<lparr>op_state := ''queued'',
           op_command_json := Some (json_dumps (JObj env)), op_command_hash := Some digest\<rparr>) d)"
    by (rule dispatch_ok [OF assms(1)])
  have "o1 = x" using o1 assms(2,3) by (simp add: get_row_def)
  then show ?thesis using d' assms(2,3,4)
    by (auto simp: target_set_def op_set_def set_rows_def simp del: json_dumps.simps)
qed

lemma demo_identity:
  assumes "op_protocol_version (jo_op j) = ''1.0''" "op_operation_id (jo_op j) = demo_uuid"
    "op_idempotency_key (jo_op j) = ''controller:'' @ demo_uuid" "jo_agent j = demo_agent"
  shows "check_identity_binding j = Inr demo_uuid"
  using py_uuid_canonical [OF demo_uuid_canonical] py_lower_demo ends_with_append [of demo_uuid "''controller:''"] assms
  by (simp add: check_identity_binding_def demo_agent_def Let_def)

lemma demo_uuid_ascii: "ascii demo_uuid"
  by (simp add: demo_uuid_def)

lemma demo_dispatched: "\<exists>env d'. dispatch 300 demo_uuid (Aware 0) approved_db = Inr (env, d')"
proof -
  define t where "t = demo_optarget\<lparr>ot_operation := demo_uuid\<rparr>"
  have i: "check_identity_binding demo_joined = Inr demo_uuid"
    by (rule demo_identity) (simp_all add: demo_joined_def approved_op_def demo_op_def)
  have t: "single_target approved_db (op_name (jo_op demo_joined)) = Inr t"
    by (simp add: single_target_def approved_db_def demo_joined_def approved_op_def t_def)
  have s: "check_snapshot_binding demo_joined t = Inr ()"
    by (simp add: check_snapshot_binding_def demo_joined_def approved_op_def demo_op_def demo_optarget_def
        demo_site_def Let_def t_def)
  have c: "approval_claims approved_db (jo_op demo_joined) t = Inr [approval_claim demo_approval]"
    using demo_claims by (simp add: demo_joined_def t_def)
  have p: "dispatch_payload (jo_op demo_joined) = Inr ([(''domain'', JStr ''a.example'')], sha256_hex demo_payload)"
    using demo_dispatch_payload by (simp add: demo_joined_def)
  show ?thesis
    by (rule dispatch_runs [OF demo_joined i p t s c])
       (use ascii_sha256 demo_uuid_ascii in \<open>simp_all add: envelope_of_def demo_joined_def approved_op_def demo_op_def
        demo_agent_def demo_bench_def demo_site_def json_opt_def approval_claim_def claim_json_def
        demo_approval_def ascii_micro ascii_def [of "replicate _ _"]\<close>)
qed

theorem dispatch_sound_witness:
  "\<exists>env d' names. dispatch 300 demo_uuid (Aware 0) approved_db = Inr (env, d')
     \<and> enough_approvers approved_db approved_op names"
proof -
  obtain env d' where e: "dispatch 300 demo_uuid (Aware 0) approved_db = Inr (env, d')"
    using demo_dispatched by blast
  then show ?thesis using dispatch_sound [OF e] demo_joined by (auto simp: demo_joined_def)
qed

theorem dispatch_idempotent_witness:
  "\<exists>env d' env2. dispatch 300 demo_uuid (Aware 0) approved_db = Inr (env, d')
     \<and> dispatch 300 demo_uuid (Aware 5) d' = Inr (env2, d')"
proof -
  obtain env d' where e: "dispatch 300 demo_uuid (Aware 0) approved_db = Inr (env, d')"
    using demo_dispatched by blast
  then show ?thesis using dispatch_idempotent [OF e, of "Aware 5"] by blast
qed

theorem dispatched_is_leasable_witness:
  "\<exists>env d' o2 command. dispatch 300 demo_uuid (Aware 0) approved_db = Inr (env, d')
     \<and> get_row op_name (operations d') demo_uuid = Some o2
     \<and> validate_persisted 300 d' demo_uuid (op_command_json o2) (op_command_hash o2) (Aware 9) = Inr command"
proof -
  obtain env d' where e: "dispatch 300 demo_uuid (Aware 0) approved_db = Inr (env, d')"
    using demo_dispatched by blast
  have o1: "get_row op_name (operations approved_db) demo_uuid = Some approved_op"
    by (simp add: approved_db_def get_row_def approved_op_def)
  have f: "op_state approved_op = ''awaiting_approval''" "op_operation_id approved_op = demo_uuid"
      "op_payload_json approved_op = Some demo_payload"
    by (simp_all add: approved_op_def demo_op_def)
  have v: "json_loads (or_empty (op_payload_json approved_op)) = Inr (JObj [(''domain'', JStr ''a.example'')])"
    using f(3) demo_payload_json by simp
  have p: "py_lower (op_operation_id approved_op) = op_operation_id approved_op" using f(2) py_lower_demo by simp
  show ?thesis using dispatched_is_leasable [OF e o1 f(1) p v, of "Aware 9"] e by auto
qed

end
