(* ===== verification/BulkDocs.thy ===== *)
theory BulkDocs
  imports OperationDocs Bulk
begin

text \<open>
  The documents of a bulk operation: \<open>BulkOperation\<close>, its \<open>BulkOperationTarget\<close>s and its
  \<open>BulkOperationApproval\<close>s, each with what its class checks before a row is written and what the
  insertion changes. \<open>svc\<close> is the flag \<open>controller_service\<close>. An Int column holds an integer, so the
  type tests of the source on such a column always pass and are left out.
\<close>

section \<open>Bulk operations\<close>

definition bu_terminal :: "string list" where
  "bu_terminal = [''succeeded'', ''partial'', ''failed'', ''cancelled'', ''needs_intervention'', ''rejected'']"

definition bu_transitions :: "(string \<times> string list) list" where
  "bu_transitions =
     [(''draft'', [''previewed'', ''cancelled'']),
      (''previewed'', [''awaiting_approval'', ''cancelled'']),
      (''awaiting_approval'', [''approved'', ''rejected'', ''cancelled'']),
      (''approved'', [''canary'', ''running'', ''paused'', ''cancelling'', ''cancelled'', ''needs_intervention'']),
      (''canary'', [''running'', ''paused'', ''cancelling''] @ bu_terminal),
      (''running'', [''paused'', ''cancelling''] @ bu_terminal),
      (''paused'', [''canary'', ''running'', ''cancelling'', ''cancelled'']),
      (''cancelling'', [''cancelled'', ''partial'', ''needs_intervention''])]
     @ map (\<lambda>s. (s, [])) bu_terminal"

definition bu_fields :: "bulk_row field list" where
  "bu_fields =
     [(''bulk_operation_id'', same bu_bulk_id), (''retry_of'', same bu_retry_of),
      (''idempotency_key'', same bu_idempotency_key), (''operation_type'', same bu_type),
      (''payload_json'', same bu_payload_json), (''payload_hash'', same bu_payload_hash),
      (''selector_json'', same bu_selector_json), (''selector_hash'', same bu_selector_hash),
      (''snapshot_hash'', same bu_snapshot_hash), (''dry_run_hash'', same bu_dry_run_hash),
      (''environment_counts_json'', same bu_environments), (''requested_by'', same bu_requested_by),
      (''approval_policy'', same bu_policy), (''required_approvals'', same bu_required),
      (''maximum_targets'', same bu_maximum_targets), (''canary_size'', same bu_canary),
      (''global_concurrency'', same bu_global), (''per_agent_concurrency'', same bu_per_agent),
      (''per_bench_concurrency'', same bu_per_bench), (''maximum_failures'', same bu_max_failures),
      (''maximum_failure_ratio'', same bu_max_ratio), (''total_targets'', same bu_total),
      (''requested_at'', same bu_requested_at), (''previewed_at'', same bu_previewed_at)]"

definition bu_counts :: "bulk_row \<Rightarrow> int list" where
  "bu_counts b = [bu_planned b, bu_queued b, bu_running b, bu_succeeded b, bu_failed b, bu_cancelled b,
                  bu_needs_intervention b]"

definition bu_before_insert :: "bool \<Rightarrow> runtime \<Rightarrow> bulk_row \<Rightarrow> bulk_row result" where
  "bu_before_insert svc rt b =
     bindE (require svc (PermissionError ''Bulk Operation creation is restricted to the controller service'')) (\<lambda>_.
     if bu_requested_by b = [] then Inr (b\<lparr>bu_requested_by := rt_user rt\<rparr>)
     else bindE (require (rt_user rt = ''Administrator'' \<or> bu_requested_by b = rt_user rt)
                   (PermissionError ''requested_by must be the authenticated user'')) (\<lambda>_. Inr b))"

definition bu_identity :: "bulk_row \<Rightarrow> unit result" where
  "bu_identity b =
     bindE (of_option (invalid ''Bulk Operation ID must be a canonical UUID'') (py_uuid (bu_bulk_id b))) (\<lambda>i.
     bindE (require (i = py_lower (bu_bulk_id b)) (invalid ''Bulk Operation ID must be a canonical UUID'')) (\<lambda>_.
     require (ends_with i (bu_idempotency_key b))
       (invalid ''Bulk idempotency key must bind the operation UUID'')))"

definition bu_retry_parent :: "db \<Rightarrow> bulk_row option \<Rightarrow> bulk_row \<Rightarrow> unit result" where
  "bu_retry_parent d previous b =
     (if truthy (bu_retry_of b)
      then require (case opt_row bu_name (bulks d) (bu_retry_of b) of
                      None \<Rightarrow> False
                    | Some source \<Rightarrow> bu_type source = bu_type b
                        \<and> (previous = None \<longrightarrow> bu_state source \<in>
                             set [''partial'', ''failed'', ''paused'', ''needs_intervention'']))
             (invalid ''Bulk retry parent lineage is invalid'')
      else Inr ())"

definition json_digest :: "json \<Rightarrow> string result" where
  "json_digest v = bindE (dumpsE v) (\<lambda>t. bindE (encodeE t) (\<lambda>bytes. Inr (sha256_hex bytes)))"

definition check_json_digest :: "json \<Rightarrow> string \<Rightarrow> string \<Rightarrow> unit result" where
  "check_json_digest v h msg = bindE (json_digest v) (\<lambda>digest. require (digest = h) (invalid msg))"

definition env_count :: "json \<Rightarrow> int" where
  "env_count v = (case v of JInt i \<Rightarrow> i | _ \<Rightarrow> 0)"

definition check_environments :: "(string \<times> json) list \<Rightarrow> unit result" where
  "check_environments envs =
     bindE (require (list_all (\<lambda>(k, _). k \<in> set [''development'', ''staging'', ''production'']) envs)
              (invalid ''Environment counts contain an unknown environment'')) (\<lambda>_.
     require (list_all (\<lambda>(_, v). case v of JInt i \<Rightarrow> 0 \<le> i | _ \<Rightarrow> False) envs)
       (invalid ''Environment counts must be non-negative integers''))"

definition bu_evidence :: "bulk_row \<Rightarrow> (string \<times> json) list result" where
  "bu_evidence b =
     bindE (require_json (bu_payload_json b) ''payload_json'' Mapping_shape) (\<lambda>payload.
     bindE (require_json (bu_selector_json b) ''selector_json'' Mapping_shape) (\<lambda>selector.
     bindE (require_json (bu_environments b) ''environment_counts_json'' Mapping_shape) (\<lambda>envs.
     bindE (eachE (\<lambda>(f, h). require_sha256 (Some h) f)
              [(''payload_hash'', bu_payload_hash b), (''selector_hash'', bu_selector_hash b),
               (''snapshot_hash'', bu_snapshot_hash b), (''dry_run_hash'', bu_dry_run_hash b)]) (\<lambda>_.
     bindE (check_json_digest payload (bu_payload_hash b) ''Payload hash does not match payload JSON'') (\<lambda>_.
     bindE (check_json_digest selector (bu_selector_hash b) ''Selector hash does not match selector JSON'') (\<lambda>_.
     let counts = (case envs of JObj kvs \<Rightarrow> kvs | _ \<Rightarrow> []) in
     bindE (check_environments counts) (\<lambda>_. Inr counts)))))))"

definition integer_bounds :: "(string \<times> (bulk_row \<Rightarrow> int) \<times> int \<times> int) list" where
  "integer_bounds =
     [(''maximum_targets'', bu_maximum_targets, 1, 1000), (''canary_size'', bu_canary, 1, 100),
      (''global_concurrency'', bu_global, 1, 256), (''per_agent_concurrency'', bu_per_agent, 1, 64),
      (''per_bench_concurrency'', bu_per_bench, 1, 32), (''maximum_failures'', bu_max_failures, 0, 1000)]"

definition bu_limits :: "bulk_row \<Rightarrow> (string \<times> json) list \<Rightarrow> unit result" where
  "bu_limits b envs =
     bindE (eachE (\<lambda>(f, get, minimum, maximum). require (minimum \<le> get b \<and> get b \<le> maximum)
                     (invalid (f @ '' is outside the safe bound''))) integer_bounds) (\<lambda>_.
     bindE (require (1 \<le> bu_total b \<and> bu_total b \<le> bu_maximum_targets b)
              (invalid ''Bulk target count exceeds policy'')) (\<lambda>_.
     bindE (require (sum_list (map (env_count \<circ> snd) envs) = bu_total b)
              (invalid ''Environment counts must equal total targets'')) (\<lambda>_.
     bindE (require (bu_canary b \<le> bu_total b) (invalid ''Canary size exceeds total targets'')) (\<lambda>_.
     bindE (require (bu_per_agent b \<le> bu_global b)
              (invalid ''Agent concurrency exceeds global concurrency'')) (\<lambda>_.
     bindE (require (bu_per_bench b \<le> bu_per_agent b)
              (invalid ''Bench concurrency exceeds agent concurrency'')) (\<lambda>_.
     require (ratio_ok (bu_max_ratio b)) (invalid ''Maximum failure ratio is invalid'')))))))"

definition bu_counters :: "bulk_row \<Rightarrow> unit result" where
  "bu_counters b =
     bindE (require (list_all (\<lambda>n. 0 \<le> n) (bu_counts b))
              (invalid ''Bulk aggregate counts must be non-negative integers'')) (\<lambda>_.
     bindE (require (sum_list (bu_counts b) = bu_total b)
              (invalid ''Bulk aggregate counts must equal total targets'')) (\<lambda>_.
     bindE (require (1 \<le> bu_required b) (PermissionError ''Bulk operations require approval'')) (\<lambda>_.
     bindE (require (0 \<le> bu_approval_count b \<and> bu_approval_count b \<le> bu_required b)
              (invalid ''Bulk approval count is invalid'')) (\<lambda>_.
     require (\<not> (bu_approval_status b = ''approved'' \<and> bu_approval_count b < bu_required b))
       (PermissionError ''Bulk approval threshold is not satisfied'')))))"

definition bu_requests :: "bulk_row option \<Rightarrow> bulk_row \<Rightarrow> unit result" where
  "bu_requests previous b =
     bindE (require (bu_pause b \<longrightarrow> truthy (bu_pause_by b) \<and> bu_pause_at b \<noteq> None)
              (invalid ''Bulk pause attribution is incomplete'')) (\<lambda>_.
     bindE (require (bu_cancel b \<longrightarrow> truthy (bu_cancel_by b) \<and> bu_cancel_at b \<noteq> None)
              (invalid ''Bulk cancellation attribution is incomplete'')) (\<lambda>_.
     require (case previous of None \<Rightarrow> True
              | Some p \<Rightarrow> bu_cancel p \<longrightarrow>
                  bu_cancel b \<and> bu_cancel_by p = bu_cancel_by b \<and> bu_cancel_at p = bu_cancel_at b)
       (invalid ''Bulk cancellation request is immutable'')))"

definition bulk_pattern :: "string \<Rightarrow> string \<Rightarrow> bool" where
  "bulk_pattern pattern operation =
     (pattern = operation \<or> ends_with ''*'' pattern \<and> starts_with (butlast pattern) operation)"

definition policy_authorizes :: "policy_row \<Rightarrow> bulk_row \<Rightarrow> (string \<times> json) list \<Rightarrow> bool" where
  "policy_authorizes p b envs =
     (po_enabled p \<and> bulk_pattern (po_pattern p) (bu_type b)
      \<and> (po_environment p = ''any''
         \<or> list_all (\<lambda>(e, n). e = po_environment p \<or> env_count n = 0) envs)
      \<and> po_minimum p = bu_required b \<and> po_bulk_threshold p \<le> bu_total b
      \<and> bu_total b \<le> po_maximum_targets p \<and> bu_maximum_targets b \<le> po_maximum_targets p
      \<and> \<not> (bu_type b \<in> set data_update_types \<and> po_backup p))"

definition bu_validate :: "db \<Rightarrow> bulk_row option \<Rightarrow> bulk_row \<Rightarrow> unit result" where
  "bu_validate d previous b =
     bindE (bu_identity b) (\<lambda>_.
     bindE (bu_retry_parent d previous b) (\<lambda>_.
     bindE (bu_evidence b) (\<lambda>envs.
     bindE (bu_limits b envs) (\<lambda>_.
     bindE (bu_counters b) (\<lambda>_.
     bindE (bu_requests previous b) (\<lambda>_.
     bindE (require (case get_row po_name (policies d) (bu_policy b) of
                       None \<Rightarrow> False | Some p \<Rightarrow> policy_authorizes p b envs)
              (PermissionError ''Bulk approval policy does not authorize this snapshot'')) (\<lambda>_.
     bindE (immutable_fields bu_fields previous b) (\<lambda>_.
     legal_transition bu_transitions (map_option bu_state previous) (bu_state b)))))))))"

definition bu_insert :: "bool \<Rightarrow> runtime \<Rightarrow> bulk_row \<Rightarrow> db \<Rightarrow> db result" where
  "bu_insert svc rt b d =
     bindE (bu_before_insert svc rt b) (\<lambda>b1.
     let b2 = b1\<lparr>bu_name := bu_bulk_id b1\<rparr> in
     bindE (bu_validate d None b2) (\<lambda>_.
     bindE (insert_row bu_name [\<lambda>x. Some (bu_idempotency_key x)] b2 (bulks d)) (\<lambda>rows.
     Inr (d\<lparr>bulks := rows\<rparr>))))"

definition bu_save :: "bulk_row \<Rightarrow> db \<Rightarrow> db result" where
  "bu_save b d =
     bindE (old_row bu_name (bulks d) b) (\<lambda>p.
     bindE (bu_validate d (Some p) b) (\<lambda>_.
     Inr (d\<lparr>bulks := save_row bu_name b (bulks d)\<rparr>)))"

definition bulk_set :: "string \<Rightarrow> (bulk_row \<Rightarrow> bulk_row) \<Rightarrow> db \<Rightarrow> db" where
  "bulk_set n f d = d\<lparr>bulks := set_rows (\<lambda>b. bu_name b = n) f (bulks d)\<rparr>"

section \<open>Bulk targets\<close>

definition bx_terminal :: "string list" where
  "bx_terminal = [''succeeded'', ''failed'', ''cancelled'', ''timed_out'', ''dead_letter'',
                  ''needs_intervention'', ''rejected'']"

definition bx_transitions :: "(string \<times> string list) list" where
  "bx_transitions =
     [(''planned'', [''queued'', ''cancelled'']), (''queued'', ''running'' # bx_terminal),
      (''running'', ''queued'' # bx_terminal)] @ map (\<lambda>s. (s, [])) bx_terminal"

definition bx_fields :: "bulktarget_row field list" where
  "bx_fields =
     [(''bulk_operation'', same bx_bulk), (''target_key'', same bx_target_key), (''ordinal'', same bx_ordinal),
      (''wave'', same bx_wave), (''attempt'', same bx_attempt), (''server_agent'', same bx_server_agent),
      (''bench'', same bx_bench), (''managed_site'', same bx_managed_site),
      (''agent_id_snapshot'', same bx_agent_id), (''bench_id_snapshot'', same bx_bench_id),
      (''site_id_snapshot'', same bx_site_id), (''site_domain_snapshot'', same bx_domain),
      (''environment_snapshot'', same bx_environment), (''inventory_revision'', same bx_revision),
      (''preview_operation'', same bx_preview), (''preview_result_hash'', same bx_preview_hash),
      (''retry_source'', same bx_retry_source), (''retry_of'', same bx_retry_of)]"

definition bx_shape :: "bulktarget_row \<Rightarrow> unit result" where
  "bx_shape t =
     bindE (require (0 \<le> bx_ordinal t) (invalid ''Bulk target ordinal is invalid'')) (\<lambda>_.
     bindE (require (0 \<le> bx_wave t) (invalid ''Bulk target wave is invalid'')) (\<lambda>_.
     bindE (require (0 \<le> bx_attempt t) (invalid ''Bulk target attempt is invalid'')) (\<lambda>_.
     bindE (eachE (\<lambda>(f, v). require (v \<noteq> []) (invalid (f @ '' is invalid'')))
              [(''agent_id_snapshot'', bx_agent_id t), (''bench_id_snapshot'', bx_bench_id t),
               (''site_id_snapshot'', bx_site_id t), (''site_domain_snapshot'', bx_domain t)]) (\<lambda>_.
     bindE (require_sha256 (Some (bx_revision t)) ''inventory_revision'') (\<lambda>_.
     bindE (require (truthy (bx_preview t) = truthy (bx_preview_hash t))
              (invalid ''Bulk target preview lineage is incomplete'')) (\<lambda>_.
     bindE (if truthy (bx_preview_hash t) then require_sha256 (bx_preview_hash t) ''preview_result_hash''
            else Inr ()) (\<lambda>_.
     require (bx_target_key t = join ''|'' (map key_part [bx_agent_id t, bx_bench_id t, bx_site_id t]))
       (invalid ''Bulk target key does not match its snapshot''))))))))"

definition expected_wave :: "bulk_row \<Rightarrow> int \<Rightarrow> int" where
  "expected_wave p ordinal = (if ordinal < bu_canary p then 0 else 1)"

definition bx_ownership :: "db \<Rightarrow> bulk_row \<Rightarrow> bulktarget_row \<Rightarrow> unit result" where
  "bx_ownership d p t =
     (let site = get_row si_name (sites d) (bx_managed_site t) in
      bindE (require (bx_wave t = expected_wave p (bx_ordinal t))
               (invalid ''Bulk target wave differs from canary policy'')) (\<lambda>_.
      bindE (require_link_value (bx_bench t)
               (map_option be_server_agent (get_row be_name (benches d) (bx_bench t))) (bx_server_agent t)) (\<lambda>_.
      bindE (require_link_value (bx_managed_site t) (map_option si_server_agent site) (bx_server_agent t)) (\<lambda>_.
      bindE (require_link_value (bx_managed_site t) (map_option si_bench site) (bx_bench t)) (\<lambda>_.
      require (map_option sa_agent_id (get_row sa_name (agents d) (bx_server_agent t)) = Some (bx_agent_id t)
               \<and> map_option be_bench_id (get_row be_name (benches d) (bx_bench t)) = Some (bx_bench_id t)
               \<and> (case site of None \<Rightarrow> False
                  | Some s \<Rightarrow> si_site_id s = bx_site_id t \<and> si_domain s = bx_domain t
                             \<and> si_environment s = bx_environment t))
        (invalid ''Bulk target snapshot differs from inventory ownership''))))))"

definition bulk_preview_applies :: "db \<Rightarrow> bulk_row \<Rightarrow> bulktarget_row \<Rightarrow> op_row \<Rightarrow> bool" where
  "bulk_preview_applies d p t r =
     (case (json_loads (or_empty (op_payload_json r)), json_loads (or_empty (bu_payload_json p)),
            get_row ot_operation (optargets d) (op_name r)) of
        (Inr preview, Inr payload, Some pt) \<Rightarrow>
          (case apply_of preview of
             None \<Rightarrow> False
           | Some expected \<Rightarrow>
               op_type r = bu_type p \<and> op_server_agent r = bx_server_agent t \<and> op_bench r = bx_bench t
               \<and> op_managed_site r = Some (bx_managed_site t) \<and> op_requested_by r = bu_requested_by p
               \<and> op_state r = ''succeeded'' \<and> op_result_hash r = bx_preview_hash t
               \<and> ot_revision pt = Some (bx_revision t) \<and> is_dry_run preview \<and> py_eq expected payload)
      | _ \<Rightarrow> False)"

definition bx_preview_checks :: "db \<Rightarrow> bulk_row \<Rightarrow> bulktarget_row \<Rightarrow> unit result" where
  "bx_preview_checks d p t =
     bindE (require (\<not> (bu_type p \<in> set data_update_types \<and> \<not> truthy (bx_preview t)))
              (PermissionError ''Bulk data update requires a successful preview'')) (\<lambda>_.
     bindE (require (\<not> (truthy (bx_preview t) \<and> bu_type p \<notin> set data_update_types))
              (invalid ''Bulk preview lineage is not supported for this operation'')) (\<lambda>_.
     if truthy (bx_preview t) then
       bindE (require (case opt_row op_name (operations d) (bx_preview t) of
                         None \<Rightarrow> False | Some r \<Rightarrow> bulk_preview_applies d p t r)
                (PermissionError ''Bulk target preview evidence is invalid'')) (\<lambda>_.
       bindE (require (\<not> list_ex (\<lambda>x. bx_preview x = bx_preview t \<and> bx_name x \<noteq> bx_name t) (bulktargets d))
                (DuplicateEntryError ''A dry-run preview may bind only one bulk target'')) (\<lambda>_.
       require (\<not> list_ex (\<lambda>x. op_preview_of x = bx_preview t \<and> op_name x \<noteq> or_empty (bx_child t)) (operations d))
         (DuplicateEntryError ''A dry-run preview is already bound to an apply operation'')))
     else Inr ()))"

definition bx_attempts :: "db \<Rightarrow> bulktarget_row \<Rightarrow> unit result" where
  "bx_attempts d t =
     bindE (require (\<not> list_ex (\<lambda>x. bx_bulk x = bx_bulk t \<and> bx_target_key x = bx_target_key t
                        \<and> bx_attempt x = bx_attempt t \<and> bx_name x \<noteq> bx_name t) (bulktargets d))
              (DuplicateEntryError ''Bulk target attempt already exists'')) (\<lambda>_.
     bindE (require (\<not> list_ex (\<lambda>x. bx_bulk x = bx_bulk t \<and> bx_ordinal x = bx_ordinal t
                        \<and> bx_attempt x = bx_attempt t \<and> bx_name x \<noteq> bx_name t) (bulktargets d))
              (DuplicateEntryError ''Bulk target ordinal attempt already exists'')) (\<lambda>_.
     require (\<not> (bx_attempt t = 0 \<and> truthy (bx_retry_of t)))
       (invalid ''Initial bulk target cannot have retry lineage'')))"

definition stable_owner :: "bulktarget_row \<Rightarrow> string list" where
  "stable_owner t =
     [bx_server_agent t, bx_bench t, bx_managed_site t, bx_agent_id t, bx_bench_id t, bx_site_id t,
      bx_domain t, bx_environment t]"

definition bx_retry_checks :: "db \<Rightarrow> bulk_row \<Rightarrow> bulktarget_row \<Rightarrow> unit result" where
  "bx_retry_checks d p t =
     (if truthy (bx_retry_source t) then
        (case opt_row bx_name (bulktargets d) (bx_retry_source t) of
           None \<Rightarrow> Inl (invalid ''Bulk retry source is invalid'')
         | Some source \<Rightarrow>
             bindE (require (Some (bx_bulk source) = bu_retry_of p \<and> bx_target_key source = bx_target_key t
                             \<and> bx_state source \<in> set retryable_states \<and> truthy (bx_child source))
                      (invalid ''Bulk retry source is invalid'')) (\<lambda>_.
             require (stable_owner source = stable_owner t)
               (invalid ''Bulk retry changed stable target ownership'')))
      else require (\<not> truthy (bu_retry_of p))
             (invalid ''Every retry parent target requires source lineage''))"

definition bx_again_checks :: "db \<Rightarrow> bulktarget_row \<Rightarrow> unit result" where
  "bx_again_checks d t =
     (if bx_attempt t > 0 then
        (case opt_row bx_name (bulktargets d) (bx_retry_of t) of
           None \<Rightarrow> Inl (invalid ''Bulk retry lineage is invalid'')
         | Some q \<Rightarrow>
             bindE (require (bx_bulk q = bx_bulk t \<and> bx_target_key q = bx_target_key t
                             \<and> bx_attempt q + 1 = bx_attempt t \<and> truthy (bx_child q)
                             \<and> bx_state q \<in> set retryable_states)
                      (invalid ''Bulk retry lineage is invalid'')) (\<lambda>_.
             require (bx_ordinal q = bx_ordinal t \<and> bx_wave q = bx_wave t \<and> stable_owner q = stable_owner t
                      \<and> bx_revision q = bx_revision t \<and> bx_preview q = bx_preview t
                      \<and> bx_preview_hash q = bx_preview_hash t)
               (invalid ''Bulk retry changed the immutable target snapshot'')))
      else Inr ())"

definition bx_child_checks :: "db \<Rightarrow> bulktarget_row \<Rightarrow> unit result" where
  "bx_child_checks d t =
     (if truthy (bx_child t) then
        (let lineage = (if truthy (bx_retry_of t) then bx_retry_of t else bx_retry_source t);
             expected_retry = (if truthy lineage
                               then Option.bind (opt_row bx_name (bulktargets d) lineage) bx_child else None)
         in require (case opt_row op_name (operations d) (bx_child t) of
                       None \<Rightarrow> False
                     | Some c \<Rightarrow>
                         op_bulk_parent c = Some (bx_bulk t) \<and> op_bulk_target c = Some (bx_name t)
                         \<and> op_retry_of c = expected_retry \<and> op_server_agent c = bx_server_agent t
                         \<and> op_bench c = bx_bench t \<and> op_managed_site c = Some (bx_managed_site t))
              (invalid ''Bulk target child operation linkage is invalid''))
      else Inr ())"

definition bx_cancel_checks :: "db \<Rightarrow> bulk_row \<Rightarrow> bulktarget_row \<Rightarrow> unit result" where
  "bx_cancel_checks d p t =
     (if truthy (bx_cancellation t) then
        require (case opt_row op_name (operations d) (bx_cancellation t) of
                   None \<Rightarrow> False
                 | Some c \<Rightarrow>
                     op_type c = ''operation.cancel'' \<and> op_server_agent c = bx_server_agent t
                     \<and> op_bench c = bx_bench t \<and> op_managed_site c = Some (bx_managed_site t)
                     \<and> Some (op_requested_by c) = bu_cancel_by p
                     \<and> (case json_loads (or_empty (op_payload_json c)) of
                          Inl _ \<Rightarrow> False
                        | Inr v \<Rightarrow> py_eq v (JObj [(''target_operation_id'', json_opt (bx_child t))])))
          (invalid ''Bulk target cancellation linkage is invalid'')
      else Inr ())"

definition linked_once :: "string option \<Rightarrow> string option \<Rightarrow> bool" where
  "linked_once old new = (truthy old \<longrightarrow> new = old)"

definition bx_validate :: "db \<Rightarrow> bulktarget_row option \<Rightarrow> bulktarget_row \<Rightarrow> unit result" where
  "bx_validate d previous t =
     bindE (bx_shape t) (\<lambda>_.
     bindE (of_option (invalid ''Bulk target ordinal exceeds its parent snapshot'')
              (get_row bu_name (bulks d) (bx_bulk t))) (\<lambda>p.
     bindE (require (bx_ordinal t < bu_total p)
              (invalid ''Bulk target ordinal exceeds its parent snapshot'')) (\<lambda>_.
     bindE (bx_ownership d p t) (\<lambda>_.
     bindE (bx_preview_checks d p t) (\<lambda>_.
     bindE (bx_attempts d t) (\<lambda>_.
     bindE (bx_retry_checks d p t) (\<lambda>_.
     bindE (bx_again_checks d t) (\<lambda>_.
     bindE (bx_child_checks d t) (\<lambda>_.
     bindE (bx_cancel_checks d p t) (\<lambda>_.
     bindE (require (case previous of None \<Rightarrow> True | Some q \<Rightarrow> linked_once (bx_child q) (bx_child t))
              (invalid ''child_operation is immutable once linked'')) (\<lambda>_.
     bindE (require (case previous of None \<Rightarrow> True | Some q \<Rightarrow> linked_once (bx_cancellation q) (bx_cancellation t))
              (invalid ''cancellation_operation is immutable once linked'')) (\<lambda>_.
     bindE (if truthy (bx_result_json t)
            then bindE (require_json (bx_result_json t) ''result_json'' Mapping_shape) (\<lambda>_. Inr ())
            else Inr ()) (\<lambda>_.
     bindE (immutable_fields bx_fields previous t) (\<lambda>_.
     legal_transition bx_transitions (map_option bx_state previous) (bx_state t)))))))))))))))"

definition bx_insert :: "bool \<Rightarrow> runtime \<Rightarrow> bulktarget_row \<Rightarrow> db \<Rightarrow> db result" where
  "bx_insert svc rt t d =
     bindE (require svc
              (PermissionError ''Bulk Operation Target creation is restricted to the controller service'')) (\<lambda>_.
     let t1 = t\<lparr>bx_name := rt_fresh rt d\<rparr> in
     bindE (bx_validate d None t1) (\<lambda>_.
     bindE (insert_row bx_name [bx_preview, bx_retry_source, bx_child, bx_cancellation] t1 (bulktargets d)) (\<lambda>rows.
     Inr (d\<lparr>bulktargets := rows\<rparr>))))"

definition bx_save :: "bulktarget_row \<Rightarrow> db \<Rightarrow> db result" where
  "bx_save t d =
     bindE (old_row bx_name (bulktargets d) t) (\<lambda>q.
     bindE (bx_validate d (Some q) t) (\<lambda>_.
     Inr (d\<lparr>bulktargets := save_row bx_name t (bulktargets d)\<rparr>)))"

section \<open>Decisions about a bulk operation\<close>

definition ba_fields :: "bulkapproval_row field list" where
  "ba_fields =
     [(''bulk_operation'', same ba_bulk), (''approval_policy'', same ba_policy), (''decision'', same ba_decision),
      (''approver'', same ba_approver), (''decided_at'', same ba_decided_at), (''comment'', same ba_comment),
      (''snapshot_hash'', same ba_snapshot_hash), (''payload_hash'', same ba_payload_hash),
      (''dry_run_hash'', same ba_dry_run_hash), (''decision_hash'', same ba_decision_hash)]"

definition ba_body :: "bulkapproval_row \<Rightarrow> json" where
  "ba_body a =
     JObj [(''bulk_operation'', JStr (ba_bulk a)), (''approval_policy'', JStr (ba_policy a)),
           (''decision'', JStr (ba_decision a)), (''approver'', JStr (ba_approver a)),
           (''decided_at'', JStr (datetime_str (ba_decided_at a))), (''comment'', JStr (or_empty (ba_comment a))),
           (''snapshot_hash'', JStr (ba_snapshot_hash a)), (''payload_hash'', JStr (ba_payload_hash a)),
           (''dry_run_hash'', JStr (ba_dry_run_hash a))]"

definition ba_before_insert :: "bool \<Rightarrow> runtime \<Rightarrow> db \<Rightarrow> bulkapproval_row \<Rightarrow> bulkapproval_row result" where
  "ba_before_insert svc rt d a =
     bindE (require svc
              (PermissionError ''Bulk Operation Approval creation is restricted to the controller service'')) (\<lambda>_.
     bindE (of_option (invalid ''Bulk Operation does not exist'') (get_row bu_name (bulks d) (ba_bulk a))) (\<lambda>p.
     let a1 = a\<lparr>ba_approver := rt_user rt, ba_decided_at := rt_now rt, ba_snapshot_hash := bu_snapshot_hash p,
                ba_payload_hash := bu_payload_hash p, ba_dry_run_hash := bu_dry_run_hash p\<rparr> in
     bindE (encodeE (json_dumps (ba_body a1))) (\<lambda>body.
     Inr (a1\<lparr>ba_decision_hash := sha256_hex body\<rparr>))))"

definition ba_validate :: "runtime \<Rightarrow> db \<Rightarrow> bulkapproval_row option \<Rightarrow> bulkapproval_row \<Rightarrow> unit result" where
  "ba_validate rt d previous a =
     bindE (eachE (\<lambda>(f, h). require_sha256 (Some h) f)
              [(''snapshot_hash'', ba_snapshot_hash a), (''payload_hash'', ba_payload_hash a),
               (''dry_run_hash'', ba_dry_run_hash a), (''decision_hash'', ba_decision_hash a)]) (\<lambda>_.
     bindE (require (''Approver'' \<in> set (rt_roles rt (ba_approver a)))
              (PermissionError ''Approver role is required'')) (\<lambda>_.
     bindE (of_option (invalid ''Approval policy does not match Bulk Operation'')
              (get_row bu_name (bulks d) (ba_bulk a))) (\<lambda>p.
     bindE (require (bu_policy p = ba_policy a) (invalid ''Approval policy does not match Bulk Operation'')) (\<lambda>_.
     bindE (require (bu_requested_by p \<noteq> ba_approver a)
              (PermissionError ''Bulk operation requester cannot approve their own request'')) (\<lambda>_.
     bindE (require (bu_approval_status p = ''pending'' \<and> bu_state p = ''awaiting_approval'')
              (invalid ''Bulk Operation is not accepting approvals'')) (\<lambda>_.
     bindE (require (bu_snapshot_hash p = ba_snapshot_hash a \<and> bu_payload_hash p = ba_payload_hash a
                     \<and> bu_dry_run_hash p = ba_dry_run_hash a)
              (invalid ''Bulk approval evidence binding changed'')) (\<lambda>_.
     bindE (require (\<not> list_ex (\<lambda>x. ba_bulk x = ba_bulk a \<and> ba_approver x = ba_approver a) (bulkapprovals d))
              (DuplicateEntryError ''Each approver may decide only once'')) (\<lambda>_.
     immutable_fields ba_fields previous a))))))))"

definition bulk_approved_count :: "db \<Rightarrow> string \<Rightarrow> nat" where
  "bulk_approved_count d n = length (filter (\<lambda>x. ba_bulk x = n \<and> ba_decision x = ''approved'') (bulkapprovals d))"

definition ba_after_insert :: "runtime \<Rightarrow> bulkapproval_row \<Rightarrow> db \<Rightarrow> db" where
  "ba_after_insert rt a d =
     (if ba_decision a = ''rejected''
      then bulk_set (ba_bulk a) (\<lambda>b. b\<lparr>bu_approval_status := ''rejected'', bu_state := ''rejected''\<rparr>) d
      else
        (let approved = int (bulk_approved_count d (ba_bulk a));
             required = (case get_row bu_name (bulks d) (ba_bulk a) of None \<Rightarrow> 0 | Some b \<Rightarrow> bu_required b)
         in bulk_set (ba_bulk a)
              (\<lambda>b. if approved \<ge> required
                   then b\<lparr>bu_approval_count := approved, bu_approval_status := ''approved'',
                          bu_state := ''approved'', bu_approved_at := Some (rt_now rt)\<rparr>
                   else b\<lparr>bu_approval_count := approved\<rparr>) d))"

definition ba_insert :: "bool \<Rightarrow> runtime \<Rightarrow> bulkapproval_row \<Rightarrow> db \<Rightarrow> db result" where
  "ba_insert svc rt a d =
     bindE (ba_before_insert svc rt d a) (\<lambda>a1.
     let a2 = a1\<lparr>ba_name := rt_fresh rt d\<rparr> in
     bindE (ba_validate rt d None a2) (\<lambda>_.
     bindE (insert_row ba_name [] a2 (bulkapprovals d)) (\<lambda>rows.
     Inr (ba_after_insert rt a2 (d\<lparr>bulkapprovals := rows\<rparr>)))))"

section \<open>What a save keeps\<close>

interpretation bu_cycle: lifecycle bu_transitions bu_terminal
  by (rule lifecycleI) (simp add: table_ok_def bu_transitions_def bu_terminal_def)

interpretation bx_cycle: lifecycle bx_transitions bx_terminal
  by (rule lifecycleI) (simp add: table_ok_def bx_transitions_def bx_terminal_def)

lemma bu_save_ok:
  "bu_save b d = Inr d' \<Longrightarrow> \<exists>p. get_row bu_name (bulks d) (bu_name b) = Some p
     \<and> bu_validate d (Some p) b = Inr () \<and> d' = d\<lparr>bulks := save_row bu_name b (bulks d)\<rparr>"
  by (auto simp: bu_save_def old_row_def bindE_eq_Inr of_option_eq_Inr)

lemma bu_validate_ok:
  assumes "bu_validate d previous b = Inr u"
  shows "\<exists>envs. bu_evidence b = Inr envs \<and> bu_limits b envs = Inr ()
      \<and> (\<exists>po. get_row po_name (policies d) (bu_policy b) = Some po \<and> policy_authorizes po b envs)"
    "bu_counters b = Inr ()" "bu_requests previous b = Inr ()"
    "immutable_fields bu_fields previous b = Inr ()"
    "legal_transition bu_transitions (map_option bu_state previous) (bu_state b) = Inr ()"
  using assms by (auto simp: bu_validate_def bindE_eq_Inr require_eq_Inr split: option.splits)

lemma bu_counters_ok:
  "bu_counters b = Inr u \<Longrightarrow> list_all (\<lambda>n. 0 \<le> n) (bu_counts b) \<and> sum_list (bu_counts b) = bu_total b \<and> 1 \<le> bu_required b
     \<and> (bu_approval_status b = ''approved'' \<longrightarrow> bu_approval_count b = bu_required b)"
  by (auto simp: bu_counters_def bindE_eq_Inr require_eq_Inr)

text \<open>What was planned and approved: every column a save may not change.\<close>

definition bulk_plan where
  "bulk_plan b =
     ((bu_bulk_id b, bu_retry_of b, bu_idempotency_key b, bu_type b, bu_payload_json b, bu_payload_hash b),
      (bu_selector_json b, bu_selector_hash b, bu_snapshot_hash b, bu_dry_run_hash b, bu_environments b, bu_total b),
      (bu_requested_by b, bu_policy b, bu_required b, bu_requested_at b, bu_previewed_at b),
      (bu_maximum_targets b, bu_canary b, bu_global b, bu_per_agent b, bu_per_bench b, bu_max_failures b, bu_max_ratio b))"

lemma bu_fields_plan: "immutable_fields bu_fields (Some p) b = Inr u \<longleftrightarrow> bulk_plan b = bulk_plan p"
  by (auto simp: immutable_fields_ok bu_fields_def same_def bulk_plan_def)

text \<open>Its limits, and what its policy has to say of it.\<close>

definition bulk_bounded :: "bulk_row \<Rightarrow> bool" where
  "bulk_bounded b \<longleftrightarrow>
     1 \<le> bu_canary b \<and> bu_canary b \<le> 100 \<and> bu_canary b \<le> bu_total b \<and> bu_total b \<le> bu_maximum_targets b
     \<and> bu_maximum_targets b \<le> 1000 \<and> 0 \<le> bu_max_failures b \<and> bu_max_failures b \<le> 1000 \<and> ratio_ok (bu_max_ratio b)
     \<and> 1 \<le> bu_per_bench b \<and> bu_per_bench b \<le> 32 \<and> bu_per_bench b \<le> bu_per_agent b \<and> bu_per_agent b \<le> 64
     \<and> bu_per_agent b \<le> bu_global b \<and> bu_global b \<le> 256"

definition bulk_allowed :: "policy_row \<Rightarrow> bulk_row \<Rightarrow> (string \<times> json) list \<Rightarrow> bool" where
  "bulk_allowed po b envs \<longleftrightarrow>
     po_enabled po \<and> bulk_pattern (po_pattern po) (bu_type b) \<and> po_minimum po = bu_required b
     \<and> (\<forall>(e, n)\<in>set envs. po_environment po = ''any'' \<or> e = po_environment po \<or> env_count n = 0)
     \<and> po_bulk_threshold po \<le> bu_total b \<and> bu_maximum_targets b \<le> po_maximum_targets po
     \<and> (bu_type b \<in> {''data.update'', ''data.update.break_glass''} \<longrightarrow> \<not> po_backup po)"

lemma bulk_bounded_limits:
  "bu_limits b envs = Inr u \<Longrightarrow> bulk_bounded b \<and> sum_list (map (env_count \<circ> snd) envs) = bu_total b"
  by (auto simp: bu_limits_def bulk_bounded_def integer_bounds_def eachE_eq_Inr bindE_eq_Inr require_eq_Inr)

lemma check_json_digest_ok: "check_json_digest v h msg = Inr u \<longleftrightarrow> json_digest v = Inr h"
  by (auto simp: check_json_digest_def bindE_eq_Inr require_eq_Inr)

lemma bu_evidence_ok:
  assumes "bu_evidence b = Inr envs"
  shows "\<exists>v. json_loads (or_empty (bu_payload_json b)) = Inr v \<and> json_digest v = Inr (bu_payload_hash b)"
    "\<exists>v. json_loads (or_empty (bu_selector_json b)) = Inr v \<and> json_digest v = Inr (bu_selector_hash b)"
    "json_loads (or_empty (bu_environments b)) = Inr (JObj envs)"
proof -
  obtain payload selector counts where "require_json (bu_payload_json b) ''payload_json'' Mapping_shape = Inr payload"
      "require_json (bu_selector_json b) ''selector_json'' Mapping_shape = Inr selector"
      "require_json (bu_environments b) ''environment_counts_json'' Mapping_shape = Inr counts"
      "json_digest payload = Inr (bu_payload_hash b)" "json_digest selector = Inr (bu_selector_hash b)"
      "envs = (case counts of JObj kvs \<Rightarrow> kvs | _ \<Rightarrow> [])"
    using assms unfolding bu_evidence_def Let_def bindE_eq_Inr check_json_digest_ok by auto
  then show "\<exists>v. json_loads (or_empty (bu_payload_json b)) = Inr v \<and> json_digest v = Inr (bu_payload_hash b)"
    "\<exists>v. json_loads (or_empty (bu_selector_json b)) = Inr v \<and> json_digest v = Inr (bu_selector_hash b)"
    "json_loads (or_empty (bu_environments b)) = Inr (JObj envs)"
    by (auto simp: require_json_ok has_shape_def split: json.splits)
qed

text \<open>
  C16: saving a bulk operation never changes what was planned and approved: its identity, type and payload, its
  selector, the digests of its snapshot and dry run, its environment counts, requester, policy and
  threshold, its limits of targets, canaries, concurrency and failures, its number of targets and when it was
  asked for and previewed. A save follows the table of states and leaves a finished operation in its state; a
  cancellation request is never taken back or reattributed, and pauses and cancellations say who asked for them.
  The payload and the selector have their digests, the counters stay non-negative and add up to the number
  of targets, as the environment counts do, an approved operation has the approvals it requires, the limits are
  ordered and within their bounds, and the policy, still enabled, allows the operation.
\<close>

theorem saved_bulk:
  assumes "bu_save b d = Inr d'"
  shows "\<exists>p po envs. get_row bu_name (bulks d) (bu_name b) = Some p
    \<and> get_row bu_name (bulks d') (bu_name b) = Some b
    \<and> (\<forall>n. n \<noteq> bu_name b \<longrightarrow> get_row bu_name (bulks d') n = get_row bu_name (bulks d) n)
    \<and> bulk_plan b = bulk_plan p
    \<and> (bu_state p \<in> set bu_terminal \<longrightarrow> bu_state b = bu_state p)
    \<and> (bu_state b \<noteq> bu_state p \<longrightarrow> (\<exists>ts. map_of bu_transitions (bu_state p) = Some ts \<and> bu_state b \<in> set ts))
    \<and> (bu_cancel p \<longrightarrow> bu_cancel b \<and> bu_cancel_by b = bu_cancel_by p \<and> bu_cancel_at b = bu_cancel_at p)
    \<and> (bu_cancel b \<longrightarrow> truthy (bu_cancel_by b) \<and> bu_cancel_at b \<noteq> None)
    \<and> (bu_pause b \<longrightarrow> truthy (bu_pause_by b) \<and> bu_pause_at b \<noteq> None)
    \<and> (\<exists>v. json_loads (or_empty (bu_payload_json b)) = Inr v \<and> json_digest v = Inr (bu_payload_hash b))
    \<and> (\<exists>v. json_loads (or_empty (bu_selector_json b)) = Inr v \<and> json_digest v = Inr (bu_selector_hash b))
    \<and> list_all (\<lambda>n. 0 \<le> n) (bu_counts b) \<and> sum_list (bu_counts b) = bu_total b
    \<and> json_loads (or_empty (bu_environments b)) = Inr (JObj envs) \<and> sum_list (map (env_count \<circ> snd) envs) = bu_total b
    \<and> 1 \<le> bu_required b \<and> (bu_approval_status b = ''approved'' \<longrightarrow> bu_approval_count b = bu_required b)
    \<and> bulk_bounded b \<and> get_row po_name (policies d) (bu_policy b) = Some po \<and> bulk_allowed po b envs"
proof -
  obtain p where p: "get_row bu_name (bulks d) (bu_name b) = Some p"
    and v: "bu_validate d (Some p) b = Inr ()" and d': "d' = d\<lparr>bulks := save_row bu_name b (bulks d)\<rparr>"
    using bu_save_ok [OF assms] by blast
  have plan: "bulk_plan b = bulk_plan p" using bu_validate_ok(4) [OF v] by (simp add: bu_fields_plan)
  have move: "bu_state p = bu_state b \<or> (\<exists>ts. map_of bu_transitions (bu_state p) = Some ts \<and> bu_state b \<in> set ts)"
    using bu_validate_ok(5) [OF v] by (simp add: legal_transition_ok)
  then have final: "bu_state p \<in> set bu_terminal \<longrightarrow> bu_state b = bu_state p" by (auto simp: bu_cycle.final_empty)
  have requests: "bu_cancel p \<longrightarrow> bu_cancel b \<and> bu_cancel_by b = bu_cancel_by p \<and> bu_cancel_at b = bu_cancel_at p"
      "bu_cancel b \<longrightarrow> truthy (bu_cancel_by b) \<and> bu_cancel_at b \<noteq> None"
      "bu_pause b \<longrightarrow> truthy (bu_pause_by b) \<and> bu_pause_at b \<noteq> None"
    using bu_validate_ok(3) [OF v] by (auto simp: bu_requests_def bindE_eq_Inr require_eq_Inr)
  have rows: "get_row bu_name (bulks d') n = (if n = bu_name b then Some b else get_row bu_name (bulks d) n)" for n
    using p by (simp add: d' get_save_row)
  obtain envs po where e: "bu_evidence b = Inr envs" and l: "bu_limits b envs = Inr ()"
    and po: "get_row po_name (policies d) (bu_policy b) = Some po" "policy_authorizes po b envs"
    using bu_validate_ok(1) [OF v] by blast
  have "bulk_allowed po b envs"
    using po(2) by (auto simp: policy_authorizes_def bulk_allowed_def list_all_iff data_update_types_def)
  then show ?thesis
    using p plan move final requests rows po(1) bu_evidence_ok [OF e] bulk_bounded_limits [OF l]
      bu_counters_ok [OF bu_validate_ok(2) [OF v]]
    by (intro exI [of _ p] exI [of _ po] exI [of _ envs]) auto
qed

section \<open>The targets of a bulk operation\<close>

definition bx_slot :: "bulktarget_row \<Rightarrow> string \<times> int \<times> int" where
  "bx_slot t = (bx_bulk t, bx_attempt t, bx_ordinal t)"

definition bx_ident :: "bulktarget_row \<Rightarrow> string \<times> int \<times> string" where
  "bx_ident t = (bx_bulk t, bx_attempt t, bx_target_key t)"

definition bx_place :: "bulktarget_row \<Rightarrow> string \<times> int \<times> string \<times> string \<times> string" where
  "bx_place t = (bx_bulk t, bx_attempt t, bx_agent_id t, bx_bench_id t, bx_site_id t)"

text \<open>The target of the plan a row stands for.\<close>

definition bx_snapshot :: "bulktarget_row \<Rightarrow> target" where
  "bx_snapshot t =
     \<lparr>bt_ordinal = bx_ordinal t, bt_agent = bx_agent_id t, bt_bench = bx_bench_id t, bt_site = bx_site_id t,
      bt_domain = bx_domain t, bt_environment = bx_environment t, bt_revision = bx_revision t\<rparr>"

definition bx_keyed :: "bulktarget_row \<Rightarrow> bool" where
  "bx_keyed t = (bx_target_key t = target_key (bx_snapshot t))"

definition bulktargets_ok :: "db \<Rightarrow> bool" where
  "bulktargets_ok d =
     (distinct (map bx_name (bulktargets d)) \<and> distinct (map bx_slot (bulktargets d))
      \<and> distinct (map bx_ident (bulktargets d)) \<and> list_all bx_keyed (bulktargets d))"

lemma keyed_place: "bx_keyed t \<Longrightarrow> bx_keyed u \<Longrightarrow> bx_place t = bx_place u \<longleftrightarrow> bx_ident t = bx_ident u"
  by (auto simp: bx_keyed_def bx_place_def bx_ident_def target_key_eq) (simp_all add: bx_snapshot_def)

lemma bx_validate_ok:
  assumes "bx_validate d previous t = Inr u"
  shows "bx_shape t = Inr ()" "bx_attempts d t = Inr ()" "immutable_fields bx_fields previous t = Inr ()"
    "legal_transition bx_transitions (map_option bx_state previous) (bx_state t) = Inr ()"
    "\<exists>p. get_row bu_name (bulks d) (bx_bulk t) = Some p \<and> bx_ordinal t < bu_total p
        \<and> bx_ownership d p t = Inr () \<and> bx_preview_checks d p t = Inr ()"
    "\<And>q. previous = Some q \<Longrightarrow> linked_once (bx_child q) (bx_child t) \<and> linked_once (bx_cancellation q) (bx_cancellation t)"
  using assms by (auto simp: bx_validate_def bindE_eq_Inr require_eq_Inr of_option_eq_Inr)

lemma bx_shape_keyed: "bx_shape t = Inr u \<Longrightarrow> bx_keyed t"
  by (simp add: bx_shape_def bindE_eq_Inr require_eq_Inr bx_keyed_def target_key_def bx_snapshot_def)

lemma bx_attempts_ok:
  assumes "bx_attempts d t = Inr u" "x \<in> set (bulktargets d)" "bx_name x \<noteq> bx_name t"
  shows "bx_slot x \<noteq> bx_slot t" "bx_ident x \<noteq> bx_ident t"
  using assms by (auto simp: bx_attempts_def bindE_eq_Inr require_eq_Inr list_ex_iff bx_slot_def bx_ident_def)

lemma bx_fields_ok:
  assumes "immutable_fields bx_fields (Some q) t = Inr u"
  shows "bx_slot t = bx_slot q" "bx_ident t = bx_ident q" "bx_snapshot t = bx_snapshot q" "bx_wave t = bx_wave q"
    "stable_owner t = stable_owner q"
    "(bx_preview t, bx_preview_hash t, bx_retry_source t, bx_retry_of t)
      = (bx_preview q, bx_preview_hash q, bx_retry_source q, bx_retry_of q)"
  using assms
  by (auto simp: immutable_fields_ok bx_fields_def same_def bx_slot_def bx_ident_def bx_snapshot_def stable_owner_def)

lemma bx_insert_ok:
  "bx_insert svc rt t d = Inr d' \<Longrightarrow> svc \<and> (\<exists>b. b = t\<lparr>bx_name := rt_fresh rt d\<rparr> \<and> bx_validate d None b = Inr ()
     \<and> bx_name b \<notin> bx_name ` set (bulktargets d) \<and> d' = d\<lparr>bulktargets := bulktargets d @ [b]\<rparr>)"
  by (auto simp: bx_insert_def Let_def bindE_eq_Inr require_eq_Inr dest!: insert_row_ok)

lemma bx_save_ok:
  "bx_save t d = Inr d' \<Longrightarrow> \<exists>q. get_row bx_name (bulktargets d) (bx_name t) = Some q
     \<and> bx_validate d (Some q) t = Inr () \<and> d' = d\<lparr>bulktargets := save_row bx_name t (bulktargets d)\<rparr>"
  by (auto simp: bx_save_def old_row_def bindE_eq_Inr of_option_eq_Inr)

lemma bulktargets_ok_insert:
  assumes "bulktargets_ok d" "bx_insert svc rt t d = Inr d'"
  shows "bulktargets_ok d'"
proof -
  obtain b where v: "bx_validate d None b = Inr ()" and n: "bx_name b \<notin> bx_name ` set (bulktargets d)"
    and d': "d' = d\<lparr>bulktargets := bulktargets d @ [b]\<rparr>"
    using bx_insert_ok [OF assms(2)] by blast
  have "bx_slot b \<notin> bx_slot ` set (bulktargets d)" "bx_ident b \<notin> bx_ident ` set (bulktargets d)"
    using bx_attempts_ok [OF bx_validate_ok(2) [OF v]] n unfolding image_iff by metis+
  then show ?thesis
    using assms(1) n bx_shape_keyed [OF bx_validate_ok(1) [OF v]] by (simp add: bulktargets_ok_def d')
qed

lemma save_row_map:
  assumes "distinct (map key rs)" "get_row key rs (key r) = Some q" "f r = f q"
  shows "map f (save_row key r rs) = map f rs"
proof (rule nth_equalityI)
  fix i assume "i < length (map f (save_row key r rs))"
  then have i: "i < length rs" by (simp add: save_row_def set_rows_def)
  have "f (rs ! i) = f r" if "key (rs ! i) = key r"
    using distinct_get_row [OF assms(1), of "rs ! i"] i that assms(2,3) by simp
  then show "map f (save_row key r rs) ! i = map f rs ! i" using i by (simp add: save_row_def set_rows_def)
qed (simp add: save_row_def set_rows_def)

lemma bulktargets_ok_save:
  assumes "bulktargets_ok d" "bx_save t d = Inr d'"
  shows "bulktargets_ok d'"
proof -
  obtain q where q: "get_row bx_name (bulktargets d) (bx_name t) = Some q"
    and v: "bx_validate d (Some q) t = Inr ()" and d': "d' = d\<lparr>bulktargets := save_row bx_name t (bulktargets d)\<rparr>"
    using bx_save_ok [OF assms(2)] by blast
  have names: "distinct (map bx_name (bulktargets d))" using assms(1) by (simp add: bulktargets_ok_def)
  have "list_all bx_keyed (bulktargets d')"
    using assms(1) bx_shape_keyed [OF bx_validate_ok(1) [OF v]]
    by (auto simp: d' bulktargets_ok_def list_all_iff dest!: save_row_in)
  moreover have "map bx_slot (bulktargets d') = map bx_slot (bulktargets d)"
      "map bx_ident (bulktargets d') = map bx_ident (bulktargets d)"
    unfolding d' using save_row_map [OF names q] bx_fields_ok(1,2) [OF bx_validate_ok(3) [OF v]] by simp_all
  ultimately show ?thesis using assms(1) by (simp add: bulktargets_ok_def d')
qed

inductive bulk_target_steps :: "db \<Rightarrow> db \<Rightarrow> bool" where
  none: "bulk_target_steps d d"
| inserted: "bulk_target_steps d e \<Longrightarrow> bx_insert svc rt t e = Inr f \<Longrightarrow> bulk_target_steps d f"
| saved: "bulk_target_steps d e \<Longrightarrow> bx_save t e = Inr f \<Longrightarrow> bulk_target_steps d f"

lemma bulktargets_ok_steps: "bulk_target_steps d e \<Longrightarrow> bulktargets_ok d \<Longrightarrow> bulktargets_ok e"
  by (induction rule: bulk_target_steps.induct) (auto dest: bulktargets_ok_insert bulktargets_ok_save)

text \<open>
  No bulk operation holds the same place twice. Whatever targets are inserted and saved, two
  rows of one bulk operation and attempt never share their ordinal, nor their agent, bench and
  site, and each key is the key of its own snapshot.
\<close>

theorem bulk_places_distinct:
  assumes "bulktargets_ok d" and "bulk_target_steps d e"
  shows "distinct (map bx_place (bulktargets e)) \<and> distinct (map bx_slot (bulktargets e))
    \<and> (\<forall>t\<in>set (bulktargets e). bx_target_key t = target_key (bx_snapshot t))"
proof -
  have ok: "bulktargets_ok e" using bulktargets_ok_steps [OF assms(2,1)] .
  then have "distinct (map bx_place (bulktargets e))"
    using keyed_place by (auto simp: bulktargets_ok_def distinct_map inj_on_def list_all_iff)
  then show ?thesis using ok by (auto simp: bulktargets_ok_def list_all_iff bx_keyed_def)
qed

text \<open>
  A saved target still describes the place it was planned for: its snapshot, its owners, its
  wave and its preview are those of the row it replaces, the child and the cancellation it is linked
  to stay, its state follows the table and stays once final, and its wave is the one of the canary
  size of its bulk operation.
\<close>

theorem saved_bulk_target:
  assumes "bx_save t d = Inr d'"
  shows "\<exists>q p. get_row bx_name (bulktargets d) (bx_name t) = Some q
    \<and> get_row bx_name (bulktargets d') (bx_name t) = Some t
    \<and> bx_snapshot t = bx_snapshot q \<and> stable_owner t = stable_owner q
    \<and> (bx_preview t, bx_preview_hash t, bx_retry_source t, bx_retry_of t)
        = (bx_preview q, bx_preview_hash q, bx_retry_source q, bx_retry_of q)
    \<and> linked_once (bx_child q) (bx_child t) \<and> linked_once (bx_cancellation q) (bx_cancellation t)
    \<and> (bx_state q \<in> set bx_terminal \<longrightarrow> bx_state t = bx_state q)
    \<and> (bx_state t \<noteq> bx_state q \<longrightarrow> bx_state t \<in> set (the (map_of bx_transitions (bx_state q))))
    \<and> get_row bu_name (bulks d) (bx_bulk t) = Some p \<and> bx_wave t = expected_wave p (bx_ordinal t)
    \<and> 0 \<le> bx_ordinal t \<and> bx_ordinal t < bu_total p"
proof -
  obtain q where q: "get_row bx_name (bulktargets d) (bx_name t) = Some q"
    and v: "bx_validate d (Some q) t = Inr ()" and d': "d' = d\<lparr>bulktargets := save_row bx_name t (bulktargets d)\<rparr>"
    using bx_save_ok [OF assms] by blast
  obtain p where p: "get_row bu_name (bulks d) (bx_bulk t) = Some p" "bx_ordinal t < bu_total p"
    and own: "bx_ownership d p t = Inr ()"
    using bx_validate_ok(5) [OF v] by blast
  have "bx_wave t = expected_wave p (bx_ordinal t)" "0 \<le> bx_ordinal t"
    using own bx_validate_ok(1) [OF v] by (simp_all add: bx_ownership_def bx_shape_def Let_def bindE_eq_Inr require_eq_Inr)
  moreover have move: "bx_state q = bx_state t \<or> (\<exists>l. map_of bx_transitions (bx_state q) = Some l \<and> bx_state t \<in> set l)"
    using bx_validate_ok(4) [OF v] by (simp add: legal_transition_ok)
  moreover have "bx_state q \<in> set bx_terminal \<longrightarrow> bx_state t = bx_state q"
    using move by (auto simp: bx_cycle.final_empty)
  moreover have "get_row bx_name (bulktargets d') (bx_name t) = Some t" using q by (simp add: d' get_save_row)
  ultimately show ?thesis
    using q p bx_fields_ok [OF bx_validate_ok(3) [OF v]] bx_validate_ok(6) [OF v refl]
    by (intro exI [of _ q] exI [of _ p]) auto
qed

section \<open>Decisions about a bulk operation are by distinct people other than its requester\<close>

definition bulk_decisions :: "db \<Rightarrow> string \<Rightarrow> bulkapproval_row list" where
  "bulk_decisions d n = filter (\<lambda>a. ba_bulk a = n) (bulkapprovals d)"

definition bulk_approvals_ok :: "db \<Rightarrow> bulk_row \<Rightarrow> bool" where
  "bulk_approvals_ok d b =
     (distinct (map ba_approver (bulk_decisions d (bu_name b)))
      \<and> list_all (\<lambda>a. ba_approver a \<noteq> bu_requested_by b \<and> ba_policy a = bu_policy b
                     \<and> ba_snapshot_hash a = bu_snapshot_hash b \<and> ba_payload_hash a = bu_payload_hash b
                     \<and> ba_dry_run_hash a = bu_dry_run_hash b) (bulk_decisions d (bu_name b))
      \<and> (bu_approval_status b = ''approved'' \<longrightarrow> bu_required b \<le> int (bulk_approved_count d (bu_name b))))"

definition bulks_ok :: "db \<Rightarrow> bool" where
  "bulks_ok d = (distinct (map bu_name (bulks d)) \<and> list_all (bulk_approvals_ok d) (bulks d))"

lemma ba_insert_ok:
  assumes "ba_insert svc rt a d = Inr d'"
  shows "svc \<and> (\<exists>p b. get_row bu_name (bulks d) (ba_bulk b) = Some p \<and> ba_bulk b = ba_bulk a
    \<and> ba_decision b = ba_decision a \<and> ba_approver b = rt_user rt \<and> ba_policy b = bu_policy p
    \<and> ba_snapshot_hash b = bu_snapshot_hash p \<and> ba_payload_hash b = bu_payload_hash p
    \<and> ba_dry_run_hash b = bu_dry_run_hash p \<and> d' = ba_after_insert rt b (d\<lparr>bulkapprovals := bulkapprovals d @ [b]\<rparr>)
    \<and> ''Approver'' \<in> set (rt_roles rt (rt_user rt)) \<and> bu_requested_by p \<noteq> rt_user rt
    \<and> bu_approval_status p = ''pending'' \<and> bu_state p = ''awaiting_approval''
    \<and> rt_user rt \<notin> ba_approver ` set (bulk_decisions d (bu_name p)))"
proof -
  obtain c where svc and c: "ba_before_insert svc rt d a = Inr c"
    and v: "ba_validate rt d None (c\<lparr>ba_name := rt_fresh rt d\<rparr>) = Inr ()"
    and d': "d' = ba_after_insert rt (c\<lparr>ba_name := rt_fresh rt d\<rparr>)
               (d\<lparr>bulkapprovals := bulkapprovals d @ [c\<lparr>ba_name := rt_fresh rt d\<rparr>]\<rparr>)"
    using assms by (auto simp: ba_insert_def Let_def bindE_eq_Inr ba_before_insert_def require_eq_Inr dest!: insert_row_ok)
  define b where "b = c\<lparr>ba_name := rt_fresh rt d\<rparr>"
  have cb: "ba_bulk b = ba_bulk a" "ba_decision b = ba_decision a" "ba_approver b = rt_user rt"
    using c by (auto simp: ba_before_insert_def Let_def bindE_eq_Inr of_option_eq_Inr b_def)
  obtain p where p: "get_row bu_name (bulks d) (ba_bulk b) = Some p"
    and rest: "''Approver'' \<in> set (rt_roles rt (ba_approver b))" "bu_policy p = ba_policy b"
      "bu_requested_by p \<noteq> ba_approver b" "bu_approval_status p = ''pending''" "bu_state p = ''awaiting_approval''"
      "bu_snapshot_hash p = ba_snapshot_hash b" "bu_payload_hash p = ba_payload_hash b"
      "bu_dry_run_hash p = ba_dry_run_hash b"
      "\<not> list_ex (\<lambda>x. ba_bulk x = ba_bulk b \<and> ba_approver x = ba_approver b) (bulkapprovals d)"
    using v unfolding b_def [symmetric] ba_validate_def bindE_eq_Inr require_eq_Inr of_option_eq_Inr by blast
  have name: "bu_name p = ba_bulk b" using p by (auto dest: get_row_Some)
  have "rt_user rt \<notin> ba_approver ` set (bulk_decisions d (bu_name p))"
    using rest(9) cb(3) by (auto simp: name bulk_decisions_def list_ex_iff)
  then show ?thesis
    using \<open>svc\<close> p rest(1-8) cb d' unfolding b_def [symmetric] by (intro conjI exI [of _ p] exI [of _ b]) simp_all
qed

definition bulk_decided :: "runtime \<Rightarrow> bulkapproval_row \<Rightarrow> int \<Rightarrow> int \<Rightarrow> bulk_row \<Rightarrow> bulk_row" where
  "bulk_decided rt a required approved b =
     (if ba_decision a = ''rejected'' then b\<lparr>bu_approval_status := ''rejected'', bu_state := ''rejected''\<rparr>
      else if required \<le> approved
      then b\<lparr>bu_approval_count := approved, bu_approval_status := ''approved'', bu_state := ''approved'',
             bu_approved_at := Some (rt_now rt)\<rparr>
      else b\<lparr>bu_approval_count := approved\<rparr>)"

lemma bulk_decided_simps [simp]:
  "bu_name (bulk_decided rt a r k b) = bu_name b" "bu_requested_by (bulk_decided rt a r k b) = bu_requested_by b"
  "bu_policy (bulk_decided rt a r k b) = bu_policy b" "bu_required (bulk_decided rt a r k b) = bu_required b"
  "bu_snapshot_hash (bulk_decided rt a r k b) = bu_snapshot_hash b"
  "bu_payload_hash (bulk_decided rt a r k b) = bu_payload_hash b"
  "bu_dry_run_hash (bulk_decided rt a r k b) = bu_dry_run_hash b"
  by (simp_all add: bulk_decided_def)

lemma ba_after_insert_set:
  "get_row bu_name (bulks d) (ba_bulk a) = Some p \<Longrightarrow>
   ba_after_insert rt a d =
     bulk_set (ba_bulk a) (bulk_decided rt a (bu_required p) (int (bulk_approved_count d (ba_bulk a)))) d"
  by (simp add: ba_after_insert_def Let_def bulk_decided_def [abs_def])

lemma bulk_set_simps [simp]:
  "bulkapprovals (bulk_set n f d) = bulkapprovals d" "bulktargets (bulk_set n f d) = bulktargets d"
  "operations (bulk_set n f d) = operations d" "bulks (bulk_set n f d) = set_rows (\<lambda>b. bu_name b = n) f (bulks d)"
  "optargets (bulk_set n f d) = optargets d" "agents (bulk_set n f d) = agents d"
  "sites (bulk_set n f d) = sites d" "benches (bulk_set n f d) = benches d" "policies (bulk_set n f d) = policies d"
  by (simp_all add: bulk_set_def)

lemma bulks_ok_insert:
  assumes "bulks_ok d" "ba_insert svc rt a d = Inr d'"
  shows "bulks_ok d'"
proof -
  obtain p b where p: "get_row bu_name (bulks d) (ba_bulk b) = Some p"
    and b: "ba_approver b = rt_user rt" "ba_policy b = bu_policy p" "ba_snapshot_hash b = bu_snapshot_hash p"
      "ba_payload_hash b = bu_payload_hash p" "ba_dry_run_hash b = bu_dry_run_hash p"
    and d': "d' = ba_after_insert rt b (d\<lparr>bulkapprovals := bulkapprovals d @ [b]\<rparr>)"
    and new: "bu_requested_by p \<noteq> rt_user rt" "bu_approval_status p = ''pending''"
      "rt_user rt \<notin> ba_approver ` set (bulk_decisions d (bu_name p))"
    using ba_insert_ok [OF assms(2)] by blast
  have name: "bu_name p = ba_bulk b" using p by (auto dest: get_row_Some)
  define k where "k = int (bulk_approved_count (d\<lparr>bulkapprovals := bulkapprovals d @ [b]\<rparr>) (ba_bulk b))"
  have eff: "d' = bulk_set (ba_bulk b) (bulk_decided rt b (bu_required p) k) (d\<lparr>bulkapprovals := bulkapprovals d @ [b]\<rparr>)"
    using p unfolding d' k_def by (intro ba_after_insert_set) simp
  have old: "distinct (map bu_name (bulks d))" "\<And>x. x \<in> set (bulks d) \<Longrightarrow> bulk_approvals_ok d x"
    using assms(1) by (auto simp: bulks_ok_def list_all_iff)
  have dec: "bulk_decisions d' n = bulk_decisions d n @ (if ba_bulk b = n then [b] else [])" for n
    by (simp add: eff bulk_decisions_def)
  have cnt: "bulk_approved_count d' n = length (filter (\<lambda>x. ba_decision x = ''approved'') (bulk_decisions d' n))" for n
    by (simp add: bulk_approved_count_def bulk_decisions_def conj_commute)
  have k: "k = int (bulk_approved_count d' (ba_bulk b))" by (simp add: k_def eff bulk_approved_count_def)
  have cnt0: "bulk_approved_count d n = length (filter (\<lambda>x. ba_decision x = ''approved'') (bulk_decisions d n))" for n
    by (simp add: bulk_approved_count_def bulk_decisions_def conj_commute)
  have "bulk_approvals_ok d' x" if x: "x \<in> set (bulks d')" for x
  proof -
    obtain y where y: "y \<in> set (bulks d)"
      and xy: "x = (if bu_name y = ba_bulk b then bulk_decided rt b (bu_required p) k y else y)"
      using x by (auto simp: eff set_rows_in)
    show ?thesis
    proof (cases "bu_name y = ba_bulk b")
      case True
      then have "y = p" using distinct_get_row [OF old(1) y] p by simp
      then have xp: "x = bulk_decided rt b (bu_required p) k p" using xy True by simp
      have "bu_approval_status x = ''approved'' \<longrightarrow> bu_required x \<le> k"
        using new(2) by (simp add: xp bulk_decided_def)
      then show ?thesis
        using old(2) [OF y] \<open>y = p\<close> new b xp k
        by (auto simp: bulk_approvals_ok_def dec name list_all_iff)
    next
      case False
      then have "x = y" "ba_bulk b \<noteq> bu_name y" using xy by auto
      then show ?thesis using old(2) [OF y] by (simp add: bulk_approvals_ok_def dec cnt cnt0)
    qed
  qed
  moreover have "map bu_name (bulks d') = map bu_name (bulks d)" by (simp add: eff set_rows_key)
  ultimately show ?thesis using old(1) by (simp add: bulks_ok_def list_all_iff)
qed

text \<open>
  A decision about a bulk operation is the session user's, who holds the Approver role, did not
  request it and has not decided before; it is bound to the plan, the payload and the dry run the
  bulk operation has; the bulk operation was awaiting it, and becomes approved exactly when the
  approvals reach the number its policy requires. So in every database an approved bulk
  operation has at least that many approvals, by distinct people other than its requester.
\<close>

theorem bulk_approval_recorded:
  assumes "bulks_ok d" and "ba_insert svc rt a d = Inr d'"
  shows "svc \<and> bulks_ok d' \<and> (\<exists>p b r.
      get_row bu_name (bulks d) (ba_bulk a) = Some p
      \<and> bu_approval_status p = ''pending'' \<and> bu_state p = ''awaiting_approval''
      \<and> bulkapprovals d' = bulkapprovals d @ [b] \<and> ba_bulk b = ba_bulk a
      \<and> ba_decision b = ba_decision a \<and> ba_approver b = rt_user rt
      \<and> ''Approver'' \<in> set (rt_roles rt (rt_user rt)) \<and> bu_requested_by p \<noteq> rt_user rt
      \<and> (\<forall>x\<in>set (bulkapprovals d). ba_bulk x = ba_bulk a \<longrightarrow> ba_approver x \<noteq> rt_user rt)
      \<and> ba_snapshot_hash b = bu_snapshot_hash p \<and> ba_dry_run_hash b = bu_dry_run_hash p
      \<and> get_row bu_name (bulks d') (ba_bulk a) = Some r
      \<and> bu_approval_status r =
          (if ba_decision a = ''rejected'' then ''rejected''
           else if bu_required p \<le> int (bulk_approved_count d' (ba_bulk a)) then ''approved'' else ''pending'')
      \<and> (bu_approval_status r = ''approved'' \<longleftrightarrow> bu_state r = ''approved''))"
proof -
  obtain p b where svc and p: "get_row bu_name (bulks d) (ba_bulk b) = Some p"
    and b: "ba_bulk b = ba_bulk a" "ba_decision b = ba_decision a" "ba_approver b = rt_user rt"
      "ba_snapshot_hash b = bu_snapshot_hash p" "ba_dry_run_hash b = bu_dry_run_hash p"
    and d': "d' = ba_after_insert rt b (d\<lparr>bulkapprovals := bulkapprovals d @ [b]\<rparr>)"
    and rest: "''Approver'' \<in> set (rt_roles rt (rt_user rt))" "bu_requested_by p \<noteq> rt_user rt"
      "bu_approval_status p = ''pending''" "bu_state p = ''awaiting_approval''"
      "rt_user rt \<notin> ba_approver ` set (bulk_decisions d (bu_name p))"
    using ba_insert_ok [OF assms(2)] by blast
  have name: "bu_name p = ba_bulk a" using p b(1) by (auto dest: get_row_Some)
  define k where "k = int (bulk_approved_count (d\<lparr>bulkapprovals := bulkapprovals d @ [b]\<rparr>) (ba_bulk a))"
  have eff: "d' = bulk_set (ba_bulk a) (bulk_decided rt b (bu_required p) k) (d\<lparr>bulkapprovals := bulkapprovals d @ [b]\<rparr>)"
    using ba_after_insert_set [of "d\<lparr>bulkapprovals := bulkapprovals d @ [b]\<rparr>" b p rt] p b(1) by (simp add: d' k_def)
  have k: "k = int (bulk_approved_count d' (ba_bulk a))" by (simp add: k_def eff bulk_approved_count_def)
  have get: "get_row bu_name (bulks d') (ba_bulk a) = Some (bulk_decided rt b (bu_required p) k p)"
    using p b(1) by (simp add: eff get_row_set_rows)
  have fresh: "\<forall>x\<in>set (bulkapprovals d). ba_bulk x = ba_bulk a \<longrightarrow> ba_approver x \<noteq> rt_user rt"
    using rest(5) unfolding bulk_decisions_def name by (auto simp: image_iff)
  have status: "bu_approval_status (bulk_decided rt b (bu_required p) k p) =
      (if ba_decision a = ''rejected'' then ''rejected'' else if bu_required p \<le> k then ''approved'' else ''pending'')"
    "bu_approval_status (bulk_decided rt b (bu_required p) k p) = ''approved''
      \<longleftrightarrow> bu_state (bulk_decided rt b (bu_required p) k p) = ''approved''"
    using rest(3,4) b(2) by (simp_all add: bulk_decided_def)
  have apps: "bulkapprovals d' = bulkapprovals d @ [b]" by (simp add: eff)
  show ?thesis
    unfolding k [symmetric]
    by (intro conjI \<open>svc\<close> bulks_ok_insert [OF assms], rule exI [of _ p], rule exI [of _ b],
        rule exI [of _ "bulk_decided rt b (bu_required p) k p"])
      (use p b rest(1-4) apps get fresh status in simp)
qed

section \<open>A bulk operation\<close>

definition demo_counts :: "(string \<times> json) list" where
  "demo_counts = [(''staging'', JInt 1)]"

definition demo_bulk :: bulk_row where
  "demo_bulk =
     \<lparr>bu_name = demo_uuid, bu_bulk_id = demo_uuid, bu_retry_of = None, bu_idempotency_key = ''bulk:'' @ demo_uuid,
      bu_type = ''site.backup'', bu_payload_json = Some demo_payload, bu_payload_hash = sha256_hex demo_payload,
      bu_selector_json = Some demo_payload, bu_selector_hash = sha256_hex demo_payload,
      bu_snapshot_hash = replicate 64 CHR ''b'', bu_dry_run_hash = replicate 64 CHR ''d'',
      bu_environments = Some (json_dumps (JObj demo_counts)), bu_requested_by = ''bob'',
      bu_policy = ''staging'', bu_approval_status = ''pending'', bu_required = 1, bu_approval_count = 0,
      bu_maximum_targets = 10, bu_canary = 1, bu_global = 1, bu_per_agent = 1, bu_per_bench = 1,
      bu_max_failures = 1, bu_max_ratio = Dec False 1 0, bu_state = ''awaiting_approval'', bu_total = 1,
      bu_planned = 1, bu_queued = 0, bu_running = 0, bu_succeeded = 0, bu_failed = 0, bu_cancelled = 0,
      bu_needs_intervention = 0, bu_pause = False, bu_pause_by = None, bu_pause_at = None, bu_cancel = False,
      bu_cancel_by = None, bu_cancel_at = None, bu_requested_at = 0, bu_previewed_at = 0,
      bu_approved_at = None, bu_started_at = None, bu_completed_at = None\<rparr>"

definition demo_bulk_policy :: policy_row where
  "demo_bulk_policy =
     \<lparr>po_name = ''staging'', po_enabled = True, po_environment = ''staging'', po_pattern = ''site.*'',
      po_minimum = 1, po_backup = False, po_bulk_threshold = 1, po_maximum_targets = 10\<rparr>"

definition demo_bulk_target :: bulktarget_row where
  "demo_bulk_target =
     \<lparr>bx_name = ''bt-1'', bx_bulk = demo_uuid,
      bx_target_key = join ''|'' (map key_part [''agent-1'', ''bench-1'', ''site-1'']), bx_ordinal = 0, bx_wave = 0,
      bx_attempt = 0, bx_server_agent = ''agent-1'', bx_bench = ''bench-1'', bx_managed_site = ''site-1'',
      bx_agent_id = ''agent-1'', bx_bench_id = be_bench_id demo_bench, bx_site_id = si_site_id demo_site,
      bx_domain = si_domain demo_site, bx_environment = si_environment demo_site,
      bx_revision = replicate 64 CHR ''e'', bx_preview = None, bx_preview_hash = None, bx_retry_source = None,
      bx_state = ''planned'', bx_child = None, bx_cancellation = None, bx_retry_of = None,
      bx_result_json = None, bx_error_code = None, bx_started_at = None, bx_completed_at = None\<rparr>"

definition demo_bulk_db :: db where
  "demo_bulk_db = demo_db\<lparr>policies := [demo_bulk_policy], bulks := [demo_bulk], bulktargets := [demo_bulk_target]\<rparr>"

definition demo_bulk_decision :: bulkapproval_row where
  "demo_bulk_decision =
     \<lparr>ba_name = [], ba_bulk = demo_uuid, ba_policy = ''staging'', ba_decision = ''approved'', ba_approver = [],
      ba_decided_at = 0, ba_comment = None, ba_snapshot_hash = [], ba_payload_hash = [], ba_dry_run_hash = [],
      ba_decision_hash = []\<rparr>"

lemma demo_digest: "json_digest (JObj [(''domain'', JStr ''a.example'')]) = Inr (sha256_hex demo_payload)"
proof -
  have "\<not> has_surrogate demo_payload" unfolding demo_payload_def by (rule ascii_no_surrogate, rule ascii_dumps) simp
  then show ?thesis unfolding json_digest_def dumpsE_def demo_payload_def by (simp add: encodeE_def)
qed

lemma demo_counts_json: "json_loads (json_dumps (JObj demo_counts)) = Inr (JObj demo_counts)"
  using loads_dumps [OF keeps_hooks(1), of "JObj demo_counts"] by (simp add: json_loads_def demo_counts_def)

lemma demo_bulk_identity: "bu_identity demo_bulk = Inr ()"
  using py_uuid_canonical [OF demo_uuid_canonical] py_lower_demo ends_with_append [of demo_uuid "''bulk:''"]
  by (simp add: bu_identity_def demo_bulk_def)

lemma demo_bulk_evidence: "bu_evidence demo_bulk = Inr demo_counts"
  by (simp add: bu_evidence_def require_json_def demo_bulk_def demo_payload_json demo_counts_json has_shape_def
      require_sha256_def is_hex_def check_json_digest_def demo_digest check_environments_def del: json_dumps.simps)
    (simp add: demo_counts_def)

lemma demo_bulk_valid: "bu_validate demo_bulk_db (Some demo_bulk) demo_bulk = Inr ()"
proof -
  have "bu_limits demo_bulk demo_counts = Inr ()"
    by (simp add: bu_limits_def demo_bulk_def integer_bounds_def demo_counts_def env_count_def ratio_ok_def pow10_def fl_one)
  moreover have "bu_counters demo_bulk = Inr ()" "bu_requests (Some demo_bulk) demo_bulk = Inr ()"
      "bu_retry_parent demo_bulk_db (Some demo_bulk) demo_bulk = Inr ()"
    by (simp_all add: bu_counters_def bu_counts_def bu_requests_def bu_retry_parent_def demo_bulk_def)
  moreover have "policy_authorizes demo_bulk_policy demo_bulk demo_counts"
    by (simp add: policy_authorizes_def demo_bulk_policy_def demo_bulk_def bulk_pattern_def demo_counts_def
        env_count_def data_update_types_def string_defs)
  moreover have "get_row po_name (policies demo_bulk_db) (bu_policy demo_bulk) = Some demo_bulk_policy"
    by (simp add: demo_bulk_db_def get_row_def demo_bulk_policy_def demo_bulk_def)
  ultimately show ?thesis
    by (simp add: bu_validate_def demo_bulk_identity demo_bulk_evidence immutable_fields_ok [THEN iffD2]
        immutable_fields_def bu_fields_def same_def legal_transition_def)
qed

theorem saved_bulk_witness:
  "\<exists>d'. bu_save demo_bulk demo_bulk_db = Inr d' \<and> get_row bu_name (bulks d') demo_uuid = Some demo_bulk \<and> bulk_bounded demo_bulk"
proof -
  obtain d' where s: "bu_save demo_bulk demo_bulk_db = Inr d'"
    using demo_bulk_valid by (simp add: bu_save_def old_row_def demo_bulk_db_def get_row_def)
  have "bu_name demo_bulk = demo_uuid" by (simp add: demo_bulk_def)
  then show ?thesis using s saved_bulk [OF s] by auto
qed

lemma demo_bulktargets_ok: "bulktargets_ok demo_bulk_db"
  by (simp add: bulktargets_ok_def demo_bulk_db_def bx_keyed_def target_key_def bx_snapshot_def demo_bulk_target_def
      demo_bench_def demo_site_def)

lemma demo_bulk_target_valid: "bx_validate demo_bulk_db (Some demo_bulk_target) demo_bulk_target = Inr ()"
proof -
  have "bx_shape demo_bulk_target = Inr ()"
    by (simp add: bx_shape_def demo_bulk_target_def require_sha256_def is_hex_def demo_bench_def demo_site_def)
  moreover have "bx_attempts demo_bulk_db demo_bulk_target = Inr ()"
    by (simp add: bx_attempts_def demo_bulk_target_def demo_bulk_db_def)
  moreover have "bx_ownership demo_bulk_db demo_bulk demo_bulk_target = Inr ()"
    by (simp add: bx_ownership_def demo_bulk_target_def demo_bulk_db_def demo_bulk_def expected_wave_def
        require_link_value_def get_row_def demo_db_def demo_bench_def demo_site_def demo_agent_def Let_def)
  moreover have "get_row bu_name (bulks demo_bulk_db) (bx_bulk demo_bulk_target) = Some demo_bulk"
    by (simp add: demo_bulk_db_def get_row_def demo_bulk_def demo_bulk_target_def)
  moreover have "bx_preview_checks demo_bulk_db demo_bulk demo_bulk_target = Inr ()"
      "bx_retry_checks demo_bulk_db demo_bulk demo_bulk_target = Inr ()"
      "bx_again_checks demo_bulk_db demo_bulk_target = Inr ()" "bx_child_checks demo_bulk_db demo_bulk_target = Inr ()"
      "bx_cancel_checks demo_bulk_db demo_bulk demo_bulk_target = Inr ()"
    by (simp_all add: bx_preview_checks_def bx_retry_checks_def bx_again_checks_def bx_child_checks_def
        bx_cancel_checks_def demo_bulk_target_def demo_bulk_def data_update_types_def)
  moreover have "bx_ordinal demo_bulk_target < bu_total demo_bulk" "\<not> truthy (bx_result_json demo_bulk_target)"
    by (simp_all add: demo_bulk_target_def demo_bulk_def)
  ultimately show ?thesis
    by (simp add: bx_validate_def linked_once_def immutable_fields_def bx_fields_def same_def legal_transition_def)
qed

theorem saved_bulk_target_witness:
  "\<exists>d'. bx_save demo_bulk_target demo_bulk_db = Inr d' \<and> get_row bx_name (bulktargets d') ''bt-1'' = Some demo_bulk_target"
proof -
  obtain d' where s: "bx_save demo_bulk_target demo_bulk_db = Inr d'"
    using demo_bulk_target_valid by (simp add: bx_save_def old_row_def demo_bulk_db_def get_row_def)
  show ?thesis using s saved_bulk_target [OF s] by (auto simp: demo_bulk_target_def)
qed

theorem bulk_places_distinct_witness:
  "\<exists>d'. bulk_target_steps demo_bulk_db d' \<and> bulktargets d' \<noteq> [] \<and> distinct (map bx_place (bulktargets d'))"
proof -
  obtain d' where s: "bx_save demo_bulk_target demo_bulk_db = Inr d'"
    using demo_bulk_target_valid by (simp add: bx_save_def old_row_def demo_bulk_db_def get_row_def)
  then have st: "bulk_target_steps demo_bulk_db d'" using bulk_target_steps.saved [OF bulk_target_steps.none] by blast
  have "bulktargets d' \<noteq> []" using bx_save_ok [OF s] by (auto simp: demo_bulk_db_def save_row_def set_rows_def)
  then show ?thesis using st bulk_places_distinct [OF demo_bulktargets_ok st] by blast
qed

lemma demo_bulk_before:
  "\<exists>h. is_sha256 h \<and> ba_before_insert True demo_runtime demo_bulk_db demo_bulk_decision = Inr (demo_bulk_decision
     \<lparr>ba_approver := ''alice'', ba_snapshot_hash := bu_snapshot_hash demo_bulk,
      ba_payload_hash := sha256_hex demo_payload, ba_dry_run_hash := bu_dry_run_hash demo_bulk, ba_decision_hash := h\<rparr>)"
proof -
  have "ascii demo_uuid" by (simp add: demo_uuid_def)
  then have "\<not> has_surrogate (json_dumps (ba_body (demo_bulk_decision\<lparr>ba_approver := ''alice'', ba_decided_at := 0,
      ba_snapshot_hash := replicate 64 CHR ''b'', ba_payload_hash := sha256_hex demo_payload,
      ba_dry_run_hash := replicate 64 CHR ''d''\<rparr>)))"
    by (intro ascii_no_surrogate ascii_dumps)
      (simp add: ba_body_def demo_bulk_decision_def ascii_datetime ascii_sha256 ascii_def [of "replicate _ _"])
  then show ?thesis
    by (simp add: ba_before_insert_def demo_bulk_db_def get_row_def demo_bulk_def demo_bulk_decision_def Let_def
        encodeE_def demo_runtime_def)
qed

theorem bulk_approval_recorded_witness:
  "\<exists>d' r. ba_insert True demo_runtime demo_bulk_decision demo_bulk_db = Inr d' \<and> bulks_ok d'
     \<and> get_row bu_name (bulks d') demo_uuid = Some r \<and> bu_state r = ''approved''"
proof -
  obtain h where h: "is_sha256 h" and b: "ba_before_insert True demo_runtime demo_bulk_db demo_bulk_decision =
     Inr (demo_bulk_decision\<lparr>ba_approver := ''alice'', ba_snapshot_hash := bu_snapshot_hash demo_bulk,
      ba_payload_hash := sha256_hex demo_payload, ba_dry_run_hash := bu_dry_run_hash demo_bulk, ba_decision_hash := h\<rparr>)"
    using demo_bulk_before by blast
  have "ba_validate demo_runtime demo_bulk_db None (demo_bulk_decision\<lparr>ba_approver := ''alice'',
      ba_snapshot_hash := bu_snapshot_hash demo_bulk, ba_payload_hash := sha256_hex demo_payload,
      ba_dry_run_hash := bu_dry_run_hash demo_bulk, ba_decision_hash := h, ba_name := x\<rparr>) = Inr ()" for x
    using h by (simp add: ba_validate_def require_sha256_def demo_bulk_decision_def demo_runtime_def get_row_def
        demo_bulk_def demo_bulk_db_def demo_db_def empty_db_def is_hex_def)
  moreover have none: "bulkapprovals demo_bulk_db = []" by (simp add: demo_bulk_db_def demo_db_def empty_db_def)
  ultimately have "\<exists>d'. ba_insert True demo_runtime demo_bulk_decision demo_bulk_db = Inr d'"
    unfolding ba_insert_def b bindE_Inr Let_def by (simp add: insert_row_def get_row_def none)
  then obtain d' where i: "ba_insert True demo_runtime demo_bulk_decision demo_bulk_db = Inr d'" by blast
  have ok: "bulks_ok demo_bulk_db"
  proof -
    have "bulks demo_bulk_db = [demo_bulk]" "bu_approval_status demo_bulk \<noteq> ''approved''"
      by (simp_all add: demo_bulk_db_def demo_bulk_def)
    then show ?thesis by (simp add: bulks_ok_def bulk_approvals_ok_def bulk_decisions_def none)
  qed
  have p: "get_row bu_name (bulks demo_bulk_db) demo_uuid = Some demo_bulk" "bu_required demo_bulk = 1"
      "ba_bulk demo_bulk_decision = demo_uuid" "ba_decision demo_bulk_decision = ''approved''"
    by (simp_all add: demo_bulk_db_def get_row_def demo_bulk_def demo_bulk_decision_def)
  obtain r v where "bulks_ok d'" and v: "bulkapprovals d' = bulkapprovals demo_bulk_db @ [v]" "ba_bulk v = demo_uuid"
      "ba_decision v = ''approved''"
    and r: "get_row bu_name (bulks d') demo_uuid = Some r"
      "bu_approval_status r = (if bu_required demo_bulk \<le> int (bulk_approved_count d' demo_uuid) then ''approved''
         else ''pending'')" "bu_approval_status r = ''approved'' \<longleftrightarrow> bu_state r = ''approved''"
    using bulk_approval_recorded [OF ok i] p by auto
  have "bulk_approved_count d' demo_uuid = 1" by (simp add: bulk_approved_count_def v none)
  then show ?thesis using i r p(2) \<open>bulks_ok d'\<close> by auto
qed

end
