(* ===== verification/FrappeStore.thy ===== *)
theory FrappeStore
  imports Dispatcher BulkDocs
begin

text \<open>
  \<open>frappe_store.py\<close>: queueing an approved operation and leasing a command to the agent that owns
  it. The candidates are the rows the SQL query selects, in the order of their creation; the filter
  the caller passes is an argument. \<open>SKIP LOCKED\<close> and the commits have no meaning in the
  sequential model; an exception undoes what the call wrote, so it carries no database.
\<close>

section \<open>Queueing\<close>

definition enqueue_approved_operation :: "int \<Rightarrow> string \<Rightarrow> datetime \<Rightarrow> db \<Rightarrow> (envelope \<times> db) result" where
  "enqueue_approved_operation lifetime n now d = dispatch lifetime n (Aware (naive_utc now)) d"

definition enqueue_approved_command :: "int \<Rightarrow> envelope \<Rightarrow> datetime \<Rightarrow> db \<Rightarrow> db result" where
  "enqueue_approved_command lifetime env now d =
     (case jget env ''operation_id'' of
        JStr n \<Rightarrow>
          bindE (dispatch lifetime n (Aware (naive_utc now)) d) (\<lambda>(approved, d').
          bindE (require (py_eq (JObj (immutable_command approved)) (JObj (immutable_command env)))
                   (conflict ''supplied command differs from approved operation'')) (\<lambda>_. Inr d'))
      | _ \<Rightarrow> Inl (ValueError ''command operation_id is invalid''))"

section \<open>Leasing\<close>

definition check_timing :: "int \<Rightarrow> int \<Rightarrow> unit result" where
  "check_timing lifetime skew =
     require (1 \<le> lifetime \<and> lifetime \<le> 300 \<and> 0 \<le> skew) (ValueError ''command timing policy is invalid'')"

definition leasable :: "db \<Rightarrow> string \<Rightarrow> string list option \<Rightarrow> int \<Rightarrow> op_row \<Rightarrow> bool" where
  "leasable d agent_id allowed now o1 =
     (case get_row sa_name (agents d) (op_server_agent o1) of
        None \<Rightarrow> False
      | Some a \<Rightarrow> sa_agent_id a = agent_id \<and> sa_enabled a \<and> \<not> sa_drain_requested a
          \<and> op_command_hash o1 \<noteq> None
          \<and> (op_state o1 = ''queued''
             \<or> op_state o1 = ''leased''
               \<and> (case op_lease_expires o1 of None \<Rightarrow> False | Some e \<Rightarrow> e \<le> now))
          \<and> (case allowed of None \<Rightarrow> True | Some ts \<Rightarrow> op_type o1 \<in> set ts))"

definition candidates :: "db \<Rightarrow> string \<Rightarrow> string list option \<Rightarrow> int \<Rightarrow> op_row list" where
  "candidates d agent_id allowed now = take 1001 (filter (leasable d agent_id allowed now) (operations d))"

definition candidate_environment :: "db \<Rightarrow> op_row \<Rightarrow> string option" where
  "candidate_environment d o1 =
     (case opt_row bx_name (bulktargets d) (op_bulk_target o1) of
        Some t \<Rightarrow> Some (bx_environment t)
      | None \<Rightarrow>
          (case opt_row si_name (sites d) (op_managed_site o1) of
             Some s \<Rightarrow> Some (si_environment s)
           | None \<Rightarrow> map_option sa_environment (get_row sa_name (agents d) (op_server_agent o1))))"

definition bulk_target_set :: "string \<Rightarrow> (bulktarget_row \<Rightarrow> bulktarget_row) \<Rightarrow> db \<Rightarrow> db" where
  "bulk_target_set n f d = d\<lparr>bulktargets := set_rows (\<lambda>t. bx_name t = n) f (bulktargets d)\<rparr>"

definition quarantine :: "int \<Rightarrow> op_row \<Rightarrow> db \<Rightarrow> db" where
  "quarantine now o1 d =
     (let d1 = op_set (op_name o1) (\<lambda>x. x\<lparr>op_state := ''failed'',
                 op_error_code := Some ''command_snapshot_conflict'', op_completed_at := Some now\<rparr>) d;
          d2 = target_set (op_name o1) (\<lambda>t. t\<lparr>ot_state := ''failed'',
                 ot_error_code := Some ''command_snapshot_conflict''\<rparr>) d1
      in if truthy (op_bulk_target o1)
         then bulk_target_set (the (op_bulk_target o1)) (\<lambda>t. t\<lparr>bx_state := ''failed'',
                bx_error_code := Some ''command_snapshot_conflict'', bx_completed_at := Some now\<rparr>) d2
         else d2)"

fun scan_queue ::
  "int \<Rightarrow> (op_row \<Rightarrow> string option \<Rightarrow> bool result) \<Rightarrow> int \<Rightarrow> op_row list \<Rightarrow> db
     \<Rightarrow> ((op_row \<times> envelope) option \<times> db) result" where
  "scan_queue lifetime command_filter now [] d = Inr (None, d)"
| "scan_queue lifetime command_filter now (c # cs) d =
     bindE (command_filter c (candidate_environment d c)) (\<lambda>wanted.
     if \<not> wanted then scan_queue lifetime command_filter now cs d
     else case validate_persisted lifetime d (op_name c) (op_command_json c) (op_command_hash c) (Aware now) of
            Inr env \<Rightarrow> Inr (Some (c, env), d)
          | Inl e \<Rightarrow> (case e of
              DispatchConflict _ \<Rightarrow> scan_queue lifetime command_filter now cs (quarantine now c d)
            | _ \<Rightarrow> Inl e))"

definition lease_row :: "int \<Rightarrow> int \<Rightarrow> int \<Rightarrow> op_row \<Rightarrow> op_row" where
  "lease_row lifetime skew now o1 =
     o1\<lparr>op_state := ''leased'', op_issued_at := Some now, op_expires_at := Some (now + seconds lifetime),
        op_lease_expires := Some (now + seconds lifetime + seconds skew)\<rparr>"

definition lease_command ::
  "int \<Rightarrow> int \<Rightarrow> string \<Rightarrow> string list option \<Rightarrow> (op_row \<Rightarrow> string option \<Rightarrow> bool result) \<Rightarrow> datetime \<Rightarrow> db
     \<Rightarrow> (json option \<times> db) result" where
  "lease_command lifetime skew agent_id allowed command_filter clock d =
     (let now = naive_utc clock in
      if allowed = Some [] then Inr (None, d)
      else
        bindE (scan_queue lifetime command_filter now (candidates d agent_id allowed now) d) (\<lambda>(found, d1).
        case found of
          None \<Rightarrow> Inr (None, d1)
        | Some (c, env) \<Rightarrow>
            let stamped = restamp lifetime now env;
                d2 = target_set (op_name c) (\<lambda>t. t\<lparr>ot_state := ''leased''\<rparr>)
                       (op_set (op_name c) (lease_row lifetime skew now) d1) in
            bindE (canonical_json (JObj stamped)) (\<lambda>t.
            bindE (json_loads t) (\<lambda>command. Inr (Some command, d2)))))"

section \<open>The filter of the route\<close>

definition route_filter ::
  "(string \<Rightarrow> string result) \<Rightarrow> runtime \<Rightarrow> op_row \<Rightarrow> string option \<Rightarrow> bool result" where
  "route_filter wide rt c environment =
     command_enabled_for_agent wide rt environment (op_type c) (op_payload_json c) (op_bulk_parent c)"

section \<open>What a lease does to the queue\<close>

definition quarantined :: "int \<Rightarrow> op_row \<Rightarrow> op_row" where
  "quarantined now o1 = o1\<lparr>op_state := ''failed'', op_error_code := Some ''command_snapshot_conflict'',
     op_completed_at := Some now\<rparr>"

lemma operations_quarantine:
  "operations (quarantine now c d) = set_rows (\<lambda>r. op_name r = op_name c) (quarantined now) (operations d)"
  by (simp add: quarantine_def Let_def bulk_target_set_def target_set_def operations_op_set quarantined_def [abs_def])

lemma quarantined_name [simp]: "op_name (quarantined now o1) = op_name o1"
  "quarantined now (quarantined now o1) = quarantined now o1"
  by (simp_all add: quarantined_def)

lemma get_quarantine:
  "get_row op_name (operations (quarantine now c d)) n =
     (if n = op_name c then map_option (quarantined now) (get_row op_name (operations d) n)
      else get_row op_name (operations d) n)"
  by (simp add: operations_quarantine get_row_set_rows)

lemma agents_quarantine [simp]: "agents (quarantine now c d) = agents d"
  by (simp add: quarantine_def Let_def bulk_target_set_def target_set_def op_set_def)

lemma get_quarantines:
  "get_row op_name (operations (fold (quarantine now) qs d)) n =
     (if n \<in> op_name ` set qs then map_option (quarantined now) (get_row op_name (operations d) n)
      else get_row op_name (operations d) n)"
  by (induction qs arbitrary: d) (auto simp: get_quarantine map_option.compositionality o_def)

lemma agents_quarantines [simp]: "agents (fold (quarantine now) qs d) = agents d"
  by (induction qs arbitrary: d) auto

lemma names_quarantines [simp]:
  "map op_name (operations (fold (quarantine now) qs d)) = map op_name (operations d)"
  by (induction qs arbitrary: d) (simp_all add: operations_quarantine set_rows_key)

lemma environment_quarantine [simp]:
  "candidate_environment (quarantine now x d) c = candidate_environment d c"
  by (cases "op_bulk_target c")
    (auto simp: candidate_environment_def quarantine_def Let_def bulk_target_set_def target_set_def op_set_def opt_row_def
      get_row_set_rows split: option.splits)

lemma environment_quarantines [simp]:
  "candidate_environment (fold (quarantine now) qs d) c = candidate_environment d c"
  by (induction qs arbitrary: d) simp_all

text \<open>Why a candidate before the one that is leased was passed over: it is not wanted, or its command conflicts.\<close>

definition passed_over where
  "passed_over lifetime f now d qs bad x \<longleftrightarrow>
     (if x \<in> set bad
      then f x (candidate_environment d x) = Inr True
        \<and> (\<exists>done m. set done \<subseteq> set qs
             \<and> validate_persisted lifetime (fold (quarantine now) done d) (op_name x) (op_command_json x) (op_command_hash x)
                 (Aware now) = Inl (DispatchConflict m))
      else f x (candidate_environment d x) = Inr False)"

lemma scan_queue_found:
  "scan_queue lifetime f now cs d = Inr (Some (c, env), d1) \<Longrightarrow> distinct cs \<Longrightarrow>
   \<exists>qs rest bad. cs = qs @ c # rest \<and> f c (candidate_environment d c) = Inr True
     \<and> validate_persisted lifetime d1 (op_name c) (op_command_json c) (op_command_hash c) (Aware now) = Inr env
     \<and> set bad \<subseteq> set qs \<and> d1 = fold (quarantine now) bad d \<and> (\<forall>x\<in>set qs. passed_over lifetime f now d qs bad x)"
proof (induction cs arbitrary: d)
  case Nil
  then show ?case by simp
next
  case (Cons x cs)
  obtain wanted where w: "f x (candidate_environment d x) = Inr wanted"
    using Cons.prems by (auto simp: bindE_eq_Inr)
  have later: ?case
    if run: "scan_queue lifetime f now cs (fold (quarantine now) b d) = Inr (Some (c, env), d1)"
      and b: "set b \<subseteq> {x}" and here: "passed_over lifetime f now d [x] b x" for b
  proof -
    obtain qs rest bad where q: "cs = qs @ c # rest" "f c (candidate_environment d c) = Inr True"
      "validate_persisted lifetime d1 (op_name c) (op_command_json c) (op_command_hash c) (Aware now) = Inr env"
      "set bad \<subseteq> set qs" "d1 = fold (quarantine now) bad (fold (quarantine now) b d)"
      "\<forall>y\<in>set qs. passed_over lifetime f now (fold (quarantine now) b d) qs bad y"
      using Cons.IH [OF run] Cons.prems(2) by auto
    have fresh: "x \<notin> set qs" using Cons.prems(2) q(1) by auto
    have "passed_over lifetime f now d (x # qs) (b @ bad) y" if y: "y \<in> set (x # qs)" for y
    proof (cases "y = x")
      case True
      then show ?thesis using here fresh q(4) unfolding passed_over_def
        by (auto split: if_splits)
    next
      case False
      then have p: "passed_over lifetime f now (fold (quarantine now) b d) qs bad y" "y \<notin> set b" using y q(6) b by auto
      show ?thesis
      proof (cases "y \<in> set bad")
        case True
        then obtain ds m where ds: "set ds \<subseteq> set qs" and m: "validate_persisted lifetime (fold (quarantine now) (b @ ds) d)
            (op_name y) (op_command_json y) (op_command_hash y) (Aware now) = Inl (DispatchConflict m)"
          and w: "f y (candidate_environment d y) = Inr True"
          using p(1) by (auto simp: passed_over_def)
        have "set (b @ ds) \<subseteq> set (x # qs)" using ds b by auto
        then have "\<exists>done m. set done \<subseteq> set (x # qs) \<and> validate_persisted lifetime (fold (quarantine now) done d)
            (op_name y) (op_command_json y) (op_command_hash y) (Aware now) = Inl (DispatchConflict m)"
          using m by (intro exI [of _ "b @ ds"] exI [of _ m] conjI)
        then show ?thesis using True w by (simp add: passed_over_def)
      qed (use p in \<open>simp add: passed_over_def\<close>)
    qed
    then show ?thesis
      using q(1-5) b by (intro exI [of _ "x # qs"] exI [of _ rest] exI [of _ "b @ bad"] conjI) auto
  qed
  show ?case
  proof (cases wanted)
    case False
    then show ?thesis using later [of "[]"] Cons.prems w by (simp add: passed_over_def)
  next
    case True
    show ?thesis
    proof (cases "validate_persisted lifetime d (op_name x) (op_command_json x) (op_command_hash x) (Aware now)")
      case (Inr e)
      then have "x = c" "e = env" "d1 = d" using Cons.prems w True by simp_all
      then show ?thesis
        using w True Inr by (intro exI [of _ "[]"] exI [of _ cs] conjI) auto
    next
      case (Inl e)
      then obtain m where m: "e = DispatchConflict m" using Cons.prems w True by (cases e) auto
      have "passed_over lifetime f now d [x] [x] x"
        using Inl m w True unfolding passed_over_def by (auto intro: exI [of _ "[] :: op_row list"])
      then show ?thesis
        using Cons.prems w True later [of "[x]"] Inl m by simp
    qed
  qed
qed

lemma candidates_distinct:
  "distinct (map op_name (operations d)) \<Longrightarrow> distinct (map op_name (candidates d agent allowed now))"
  by (simp add: candidates_def distinct_map_filter take_map [symmetric])

lemma lease_command_found:
  assumes "lease_command lifetime skew agent allowed f clock d = Inr (Some command, d')"
    and "distinct (map op_name (operations d))"
  obtains c env d1 qs rest bad where
    "candidates d agent allowed (naive_utc clock) = qs @ c # rest"
    "f c (candidate_environment d c) = Inr True"
    "validate_persisted lifetime d1 (op_name c) (op_command_json c) (op_command_hash c)
       (Aware (naive_utc clock)) = Inr env"
    "set bad \<subseteq> set qs" "d1 = fold (quarantine (naive_utc clock)) bad d"
    "d' = target_set (op_name c) (\<lambda>t. t\<lparr>ot_state := ''leased''\<rparr>)
       (op_set (op_name c) (lease_row lifetime skew (naive_utc clock)) d1)"
    "json_loads (json_dumps (JObj (restamp lifetime (naive_utc clock) env))) = Inr command"
    "\<forall>x\<in>set qs. passed_over lifetime f (naive_utc clock) d qs bad x"
proof -
  obtain c env d1 where s: "scan_queue lifetime f (naive_utc clock)
      (candidates d agent allowed (naive_utc clock)) d = Inr (Some (c, env), d1)"
    and d': "d' = target_set (op_name c) (\<lambda>t. t\<lparr>ot_state := ''leased''\<rparr>)
       (op_set (op_name c) (lease_row lifetime skew (naive_utc clock)) d1)"
    and l: "json_loads (json_dumps (JObj (restamp lifetime (naive_utc clock) env))) = Inr command"
    using assms(1)
    by (auto simp: lease_command_def Let_def bindE_eq_Inr canonical_json_eq simp del: json_dumps.simps
        split: if_splits option.splits prod.splits)
  have "distinct (candidates d agent allowed (naive_utc clock))"
    using candidates_distinct [OF assms(2)] by (simp add: distinct_map)
  then show ?thesis using scan_queue_found [OF s] that d' l by blast
qed

lemma candidates_ok: "c \<in> set (candidates d agent allowed now) \<Longrightarrow> c \<in> set (operations d) \<and> leasable d agent allowed now c"
  by (auto simp: candidates_def dest: in_set_takeD)

lemma py_eq_JStr: "py_eq v (JStr t) \<longleftrightarrow> v = JStr t"
  by (cases v) auto

lemma jget_restamp:
  "k \<noteq> ''issued_at'' \<Longrightarrow> k \<noteq> ''expires_at'' \<Longrightarrow> jget (restamp lifetime now env) k = jget env k"
  by (simp add: restamp_def jget_def update_conv)

lemma persisted_agent:
  assumes "validate_persisted lifetime d n cj h now = Inr env" "get_row op_name (operations d) n = Some o1"
  shows "\<exists>a. get_row sa_name (agents d) (op_server_agent o1) = Some a \<and> jget env ''agent_id'' = JStr (sa_agent_id a)"
proof -
  obtain persisted j payload where j: "joined_operation d n = Some j"
    and m: "list_all (\<lambda>(k, v). py_eq (jget persisted k) v) (expected_members j payload)"
    and env: "env = restamp lifetime (naive_utc now) persisted"
    using validate_persisted_ok [OF assms(1)] by blast
  have "jget persisted ''agent_id'' = JStr (sa_agent_id (jo_agent j))"
    using m by (simp add: expected_members_def py_eq_JStr)
  then show ?thesis using joined_operation_ok [OF j] assms(2) by (simp add: env jget_restamp)
qed

lemma restamp_again [simp]: "restamp lifetime now (restamp lifetime now env) = restamp lifetime now env"
proof -
  have twice: "AList.update k v (AList.update k' v' (AList.update k v e)) = AList.update k' v' (AList.update k v e)"
    if "k \<noteq> k'" for k k' and v v' :: json and e :: envelope
    using that by (induction e) auto
  have same: "AList.update k v (AList.update k v e) = AList.update k v e" for k and v :: json and e :: envelope
    by (induction e) auto
  show ?thesis by (simp add: restamp_def twice same)
qed

lemma leased_text:
  assumes "json_loads (json_dumps (JObj env)) = Inr command" "plain_json (JObj env)"
  shows "command = canon (JObj env)"
  using assms loads_dumps [OF keeps_hooks(1) assms(2)] by (simp add: json_loads_def)

text \<open>
  C14: an agent is leased only an operation of its own that is queued, or whose lease has run out,
  of a type it may run; the agent is enabled and not draining; the stored command has passed the
  validation and names this agent. What the agent is handed is this stored command, whose digest is
  the recorded one, with only the times of issue and expiry set anew, written out and read back: the same value
  with its members in the canonical order, where it holds no float.
  The operation becomes leased until the lifetime and the clock skew have passed, and so does its target. It
  is the first of the queue that can be leased: each candidate before it is not wanted and stays
  as it is, or its command conflicts and it is quarantined as failed. No other operation changes.
\<close>

theorem lease_sound:
  assumes "lease_command lifetime skew agent allowed f clock d = Inr (Some command, d')"
    and "distinct (map op_name (operations d))"
  shows "\<exists>c persisted env a qs rest bad. candidates d agent allowed (naive_utc clock) = qs @ c # rest
    \<and> c \<in> set (operations d) \<and> leasable d agent allowed (naive_utc clock) c
    \<and> get_row sa_name (agents d) (op_server_agent c) = Some a \<and> sa_agent_id a = agent \<and> sa_enabled a
    \<and> \<not> sa_drain_requested a
    \<and> (op_state c = ''queued'' \<or> op_state c = ''leased'' \<and> (\<exists>e. op_lease_expires c = Some e \<and> e \<le> naive_utc clock))
    \<and> (\<forall>ts. allowed = Some ts \<longrightarrow> op_type c \<in> set ts)
    \<and> f c (candidate_environment d c) = Inr True
    \<and> read_stored (op_command_json c) (op_command_hash c) = Inr persisted
    \<and> (\<exists>h. op_command_hash c = Some h \<and> immutable_command_hash persisted = Inr h)
    \<and> env = restamp lifetime (naive_utc clock) persisted
    \<and> validate_persisted lifetime (fold (quarantine (naive_utc clock)) bad d) (op_name c) (op_command_json c)
        (op_command_hash c) (Aware (naive_utc clock)) = Inr env
    \<and> jget env ''agent_id'' = JStr agent
    \<and> json_loads (json_dumps (JObj env)) = Inr command \<and> (plain_json (JObj env) \<longrightarrow> command = canon (JObj env))
    \<and> get_row op_name (operations d') (op_name c) = Some (lease_row lifetime skew (naive_utc clock) c)
    \<and> (\<forall>t\<in>set (optargets d'). ot_operation t = op_name c \<longrightarrow> ot_state t = ''leased'')
    \<and> set bad \<subseteq> set qs \<and> (\<forall>x\<in>set qs. passed_over lifetime f (naive_utc clock) d qs bad x)
    \<and> (\<forall>x\<in>set (operations d). op_name x \<noteq> op_name c \<longrightarrow>
         get_row op_name (operations d') (op_name x) = Some (if x \<in> set bad then quarantined (naive_utc clock) x else x))"
proof -
  define now where "now = naive_utc clock"
  obtain c env d1 qs rest bad where q: "candidates d agent allowed now = qs @ c # rest"
    and f: "f c (candidate_environment d c) = Inr True"
    and v: "validate_persisted lifetime d1 (op_name c) (op_command_json c) (op_command_hash c) (Aware now) = Inr env"
    and bad: "set bad \<subseteq> set qs" and d1: "d1 = fold (quarantine now) bad d"
    and d': "d' = target_set (op_name c) (\<lambda>t. t\<lparr>ot_state := ''leased''\<rparr>)
       (op_set (op_name c) (lease_row lifetime skew now) d1)"
    and l: "json_loads (json_dumps (JObj (restamp lifetime now env))) = Inr command"
    and over: "\<forall>x\<in>set qs. passed_over lifetime f now d qs bad x"
    unfolding now_def by (rule lease_command_found [OF assms])
  have c: "c \<in> set (operations d)" "leasable d agent allowed now c"
    using candidates_ok [of c d agent allowed now] q by auto
  have fresh: "op_name c \<notin> op_name ` set qs"
    using candidates_distinct [OF assms(2), of agent allowed now] unfolding q by auto
  obtain a where a: "get_row sa_name (agents d) (op_server_agent c) = Some a" "sa_agent_id a = agent"
      "sa_enabled a" "\<not> sa_drain_requested a"
      "op_state c = ''queued'' \<or> op_state c = ''leased'' \<and> (\<exists>e. op_lease_expires c = Some e \<and> e \<le> now)"
      "\<forall>ts. allowed = Some ts \<longrightarrow> op_type c \<in> set ts"
    using c(2) by (auto simp: leasable_def split: option.splits)
  obtain persisted where p: "read_stored (op_command_json c) (op_command_hash c) = Inr persisted"
    and env: "env = restamp lifetime now persisted"
    using validate_persisted_ok [OF v] by (auto simp: naive_utc_def)
  have hash: "\<exists>h. op_command_hash c = Some h \<and> immutable_command_hash persisted = Inr h"
    using p unfolding read_stored_def by (auto simp: result_simps split: sum.splits json.splits)
  have get_c: "get_row op_name (operations d) (op_name c) = Some c" using distinct_get_row [OF assms(2) c(1)] .
  have get1: "get_row op_name (operations d1) (op_name c) = Some c"
    using fresh bad get_c by (auto simp: d1 get_quarantines)
  have name_row: "op_name (lease_row lifetime skew now x) = op_name x" for x by (simp add: lease_row_def)
  have get': "get_row op_name (operations d') n =
      (if n = op_name c then map_option (lease_row lifetime skew now) (get_row op_name (operations d1) n)
       else get_row op_name (operations d1) n)" for n
    by (simp add: d' target_set_def operations_op_set get_row_set_rows name_row)
  have other: "get_row op_name (operations d') (op_name x) = Some (if x \<in> set bad then quarantined now x else x)"
    if x: "x \<in> set (operations d)" "op_name x \<noteq> op_name c" for x
  proof -
    have "y = x" if y: "y \<in> set bad" "op_name y = op_name x" for y
    proof -
      have "y \<in> set (operations d)" using candidates_ok [of y d agent allowed now] q y(1) bad by auto
      then show ?thesis using x(1) y(2) assms(2) by (metis distinct_map inj_onD)
    qed
    then have "op_name x \<in> op_name ` set bad \<longleftrightarrow> x \<in> set bad" by auto
    then show ?thesis using x distinct_get_row [OF assms(2) x(1)] by (simp add: get' d1 get_quarantines)
  qed
  have id: "jget env ''agent_id'' = JStr agent"
    using persisted_agent [OF v get1] a d1 by simp
  have row: "get_row op_name (operations d') (op_name c) = Some (lease_row lifetime skew now c)"
    by (simp add: get' get1)
  have handed: "json_loads (json_dumps (JObj env)) = Inr command" using l unfolding env restamp_again .
  have targets: "\<forall>t\<in>set (optargets d'). ot_operation t = op_name c \<longrightarrow> ot_state t = ''leased''"
    by (auto simp: d' target_set_def set_rows_def)
  show ?thesis
    unfolding now_def [symmetric]
    by (rule exI [of _ c], rule exI [of _ persisted], rule exI [of _ env], rule exI [of _ a], rule exI [of _ qs],
        rule exI [of _ rest], rule exI [of _ bad])
       (intro conjI q c a f p hash env v [unfolded d1] id handed leased_text [OF handed, THEN impI] row targets bad over ballI impI other)
qed

text \<open>
  No command is leased twice at a time: after a lease, and until its lifetime and the clock
  skew have passed, the operation is no candidate for anybody.
\<close>

theorem lease_exclusive:
  assumes "lease_command lifetime skew agent allowed f clock d = Inr (Some command, d')"
    and "distinct (map op_name (operations d))"
  shows "\<exists>c\<in>set (operations d). leasable d agent allowed (naive_utc clock) c
    \<and> (\<forall>agent2 allowed2 now. now < naive_utc clock + seconds lifetime + seconds skew
         \<longrightarrow> op_name c \<notin> op_name ` set (candidates d' agent2 allowed2 now))"
proof -
  define now where "now = naive_utc clock"
  obtain c d1 qs rest bad where q: "candidates d agent allowed now = qs @ c # rest"
    and d1: "d1 = fold (quarantine now) bad d"
    and d': "d' = target_set (op_name c) (\<lambda>t. t\<lparr>ot_state := ''leased''\<rparr>)
       (op_set (op_name c) (lease_row lifetime skew now) d1)"
    unfolding now_def by (rule lease_command_found [OF assms])
  have c: "c \<in> set (operations d)" "leasable d agent allowed now c"
    using candidates_ok [of c d agent allowed now] q by auto
  have rows: "operations d' = set_rows (\<lambda>r. op_name r = op_name c) (lease_row lifetime skew now) (operations d1)"
    by (simp add: d' target_set_def operations_op_set)
  have "op_name c \<notin> op_name ` set (candidates d' agent2 allowed2 t)"
    if t: "t < now + seconds lifetime + seconds skew" for agent2 allowed2 t
  proof
    assume "op_name c \<in> op_name ` set (candidates d' agent2 allowed2 t)"
    then obtain x where x: "x \<in> set (operations d')" "leasable d' agent2 allowed2 t x" "op_name x = op_name c"
      using candidates_ok by force
    obtain y where "x = (if op_name y = op_name c then lease_row lifetime skew now y else y)"
      using x(1) unfolding rows set_rows_in by blast
    then have "x = lease_row lifetime skew now y" using x(3) by (simp split: if_splits)
    then show False using x(2) t by (simp add: leasable_def lease_row_def split: option.splits)
  qed
  then show ?thesis using c unfolding now_def by blast
qed

section \<open>A command that cannot be validated\<close>

definition bulk_state_set :: "string \<Rightarrow> string \<Rightarrow> db \<Rightarrow> db" where
  "bulk_state_set b s d = d\<lparr>bulks := set_rows (\<lambda>p. bu_name p = b) (\<lambda>p. p\<lparr>bu_state := s\<rparr>) (bulks d)\<rparr>"

lemma bulk_state_set_simps [simp]:
  "operations (bulk_state_set b s d) = operations d" "agents (bulk_state_set b s d) = agents d"
  "benches (bulk_state_set b s d) = benches d" "sites (bulk_state_set b s d) = sites d"
  "optargets (bulk_state_set b s d) = optargets d" "bulktargets (bulk_state_set b s d) = bulktargets d"
  by (simp_all add: bulk_state_set_def)

lemma leasable_bulk_state: "leasable (bulk_state_set b s d) = leasable d"
  by (intro ext) (simp add: leasable_def)

lemma blocked_claims:
  assumes "op_bulk_parent o1 = Some b" "b \<noteq> []" "s \<notin> {''approved'', ''canary'', ''running'', ''paused''}"
  shows "approval_claims (bulk_state_set b s d) o1 t =
      Inl (ApprovalNotSatisfied ''bulk approval binding is not satisfied'')"
proof -
  have st: "bu_state p = s" if "opt_row bu_name (bulks (bulk_state_set b s d)) (op_bulk_parent o1) = Some p" for p
    using assms(1) that get_row_set_rows [of bu_name "\<lambda>p. p\<lparr>bu_state := s\<rparr>" b "bulks d" b]
    by (auto simp: opt_row_def bulk_state_set_def)
  show ?thesis
  proof (cases "opt_row bu_name (bulks (bulk_state_set b s d)) (op_bulk_parent o1)")
    case None
    then show ?thesis using assms by (simp add: approval_claims_def bulk_approval_claims_def)
  next
    case (Some p)
    then have no: "\<not> bulk_binding o1 p u" for u using st [OF Some] assms(3) by (auto simp: bulk_binding_def)
    show ?thesis
      using assms(1,2) Some by (cases "opt_row bx_name (bulktargets (bulk_state_set b s d)) (op_bulk_target o1)")
        (simp_all add: approval_claims_def bulk_approval_claims_def no)
  qed
qed

text \<open>
  C15: a command whose approvals no longer hold is not quarantined, it stops the queue. When the
  bulk operation of a queued child leaves the states approved, canary, running and paused (it is
  being cancelled, say), \<open>validate_persisted\<close> raises \<open>ApprovalNotSatisfied\<close>, which
  \<open>lease_command\<close> does not catch: with such a child at the head of its queue every poll of the agent
  fails, and no later command, the cancellation of the child among them, is ever leased.
\<close>

theorem cancelled_parent_blocks_queue:
  assumes "candidates d agent allowed (naive_utc clock) = c # cs" and "allowed \<noteq> Some []"
    and "distinct (map op_name (operations d))"
    and "f c (candidate_environment d c) = Inr True"
    and "validate_persisted lifetime d (op_name c) (op_command_json c) (op_command_hash c)
           (Aware (naive_utc clock)) = Inr env"
    and "op_bulk_parent c = Some b" and "b \<noteq> []"
    and "s \<notin> {''approved'', ''canary'', ''running'', ''paused''}"
  shows "lease_command lifetime skew agent allowed f clock (bulk_state_set b s d) =
      Inl (ApprovalNotSatisfied ''bulk approval binding is not satisfied'')"
proof -
  have cand: "candidates (bulk_state_set b s d) agent allowed (naive_utc clock) = c # cs"
    using assms(1) by (simp add: candidates_def leasable_bulk_state)
  have env: "candidate_environment (bulk_state_set b s d) c = candidate_environment d c"
    by (simp add: candidate_environment_def split: option.split)
  have "c \<in> set (operations d)" using candidates_ok [of c d agent allowed "naive_utc clock"] assms(1) by simp
  then have get: "get_row op_name (operations d) (op_name c) = Some c" by (rule distinct_get_row [OF assms(3)])
  obtain persisted j payload t where r: "read_stored (op_command_json c) (op_command_hash c) = Inr persisted"
    and j: "joined_operation d (op_name c) = Some j"
    and p: "json_loads (or_empty (op_payload_json (jo_op j))) = Inr payload"
    and m: "list_all (\<lambda>(k, v). py_eq (jget persisted k) v) (expected_members j payload)"
    and l: "case jget persisted ''approval_claims'' of JList _ \<Rightarrow> True | _ \<Rightarrow> False"
    and t: "single_target d (op_name c) = Inr t" "check_stored_target (jo_op j) t = Inr ()"
    using validate_persisted_ok [OF assms(5)] by blast
  have jo: "jo_op j = c" using joined_operation_ok(1) [OF j] get by (metis option.inject)
  have j2: "joined_operation (bulk_state_set b s d) (op_name c) = Some j"
    using j unfolding joined_operation_def bulk_state_set_simps .
  have t2: "single_target (bulk_state_set b s d) (op_name c) = Inr t" using t(1) by (simp add: single_target_def)
  have "validate_persisted lifetime (bulk_state_set b s d) (op_name c) (op_command_json c) (op_command_hash c)
      (Aware (naive_utc clock)) = Inl (ApprovalNotSatisfied ''bulk approval binding is not satisfied'')"
    unfolding validate_persisted_def r j2 of_option_simps bindE_Inr p [unfolded jo] catchE_Inr
      m [THEN eqTrueI] l [THEN eqTrueI] require_True t2 t(2) [unfolded jo] jo blocked_claims [OF assms(6,7,8), of d t] bindE_Inl
    by (rule refl)
  then show ?thesis
    using assms(2,4) cand env by (simp add: lease_command_def Let_def)
qed

section \<open>A lease\<close>

lemma plain_finite: "plain_json v \<Longrightarrow> finite_json v"
  by (induction v rule: finite_json.induct) (auto simp: list_all_iff)

lemma lease_head:
  assumes "candidates d agent allowed (naive_utc clock) = c # cs" "allowed \<noteq> Some []"
    and "f c (candidate_environment d c) = Inr True"
    and "validate_persisted lifetime d (op_name c) (op_command_json c) (op_command_hash c)
           (Aware (naive_utc clock)) = Inr env"
    and "plain_json (JObj env)"
  shows "\<exists>command d'. lease_command lifetime skew agent allowed f clock d = Inr (Some command, d')"
proof -
  define r where "r = restamp lifetime (naive_utc clock) env"
  have "plain_json (JObj r)" using assms(5) unfolding r_def restamp_def by (intro plain_update) simp_all
  then have l: "json_loads (json_dumps (JObj r)) = Inr (canon (JObj r))" and fin: "finite_json (JObj r)"
    unfolding json_loads_def by (rule loads_dumps [OF keeps_hooks(1)], rule plain_finite)
  have c: "canonical_json (JObj r) = Inr (json_dumps (JObj r))" using fin canonical_json_eq by blast
  show ?thesis
    using assms(1-4) by (simp add: lease_command_def Let_def r_def [symmetric] c l
        del: json_dumps.simps canon.simps)
qed

lemma queued_head:
  assumes "dispatch 300 demo_uuid (Aware 0) d = Inr (e, d')"
    and "operations d = [x]" "agents d = [demo_agent]" "op_name x = demo_uuid" "op_state x = ''awaiting_approval''"
    and "op_operation_id x = demo_uuid" "op_payload_json x = Some demo_payload" "op_server_agent x = ''agent-1''"
  shows "\<exists>o2 env. operations d' = [o2] \<and> candidates d' ''agent-1'' None 9000000 = [o2]
     \<and> op_name o2 = demo_uuid \<and> op_bulk_parent o2 = op_bulk_parent x
     \<and> validate_persisted 300 d' (op_name o2) (op_command_json o2) (op_command_hash o2) (Aware 9000000) = Inr env
     \<and> plain_json (JObj env)"
proof -
  have o1: "get_row op_name (operations d) demo_uuid = Some x" by (simp add: assms get_row_def)
  have pl: "json_loads (or_empty (op_payload_json x)) = Inr (JObj [(''domain'', JStr ''a.example'')])"
      "py_lower (op_operation_id x) = op_operation_id x"
    using demo_payload_json py_lower_demo by (simp_all add: assms)
  obtain o2 env where o2: "get_row op_name (operations d') demo_uuid = Some o2"
    and v: "validate_persisted 300 d' demo_uuid (op_command_json o2) (op_command_hash o2) (Aware 9000000) = Inr env"
    and p: "plain_json (JObj env)"
    using dispatched_accepted [OF assms(1) o1 assms(5) pl(2) pl(1), of "Aware 9000000"] by auto
  obtain cj h where q: "operations d' = [x\<lparr>op_state := ''queued'', op_command_json := Some cj,
      op_command_hash := Some h\<rparr>]" "agents d' = [demo_agent]"
    using dispatched_queue [OF assms(1,2,4,5)] assms(3) by auto
  then have "o2 = x\<lparr>op_state := ''queued'', op_command_json := Some cj, op_command_hash := Some h\<rparr>"
    using o2 assms(4) by (simp add: get_row_def)
  then have w: "operations d' = [o2]" "op_name o2 = demo_uuid" "op_bulk_parent o2 = op_bulk_parent x"
      "leasable d' ''agent-1'' None 9000000 o2"
    using q assms(4,8) by (simp_all add: leasable_def get_row_def demo_agent_def)
  then have "candidates d' ''agent-1'' None 9000000 = [o2]" by (simp add: candidates_def)
  moreover have "validate_persisted 300 d' (op_name o2) (op_command_json o2) (op_command_hash o2) (Aware 9000000) = Inr env"
    unfolding w(2) by (rule v)
  ultimately show ?thesis using p w by blast
qed

lemma demo_lease:
  "\<exists>d' command d''. lease_command 300 30 ''agent-1'' None (\<lambda>_ _. Inr True) (Aware 9000000) d'
      = Inr (Some command, d'') \<and> distinct (map op_name (operations d'))"
proof -
  obtain e d' where "dispatch 300 demo_uuid (Aware 0) approved_db = Inr (e, d')"
    using demo_dispatched by blast
  then obtain o2 env where q: "operations d' = [o2]" "candidates d' ''agent-1'' None 9000000 = [o2]"
    and v: "validate_persisted 300 d' (op_name o2) (op_command_json o2) (op_command_hash o2) (Aware 9000000) = Inr env"
    and p: "plain_json (JObj env)"
    using queued_head [of approved_db e d' approved_op]
    by (auto simp: approved_db_def demo_db_def approved_op_def demo_op_def)
  have "\<exists>command d''. lease_command 300 30 ''agent-1'' None (\<lambda>_ _. Inr True) (Aware 9000000) d' = Inr (Some command, d'')"
    by (rule lease_head [of d' _ _ _ o2 "[]"]) (use q v p in \<open>simp_all add: naive_utc_def\<close>)
  moreover have "distinct (map op_name (operations d'))" by (simp add: q(1))
  ultimately show ?thesis by blast
qed

theorem lease_sound_witness:
  "\<exists>d command d' c env. lease_command 300 30 ''agent-1'' None (\<lambda>_ _. Inr True) (Aware 9000000) d = Inr (Some command, d')
     \<and> get_row op_name (operations d') (op_name c) = Some (lease_row 300 30 9000000 c)
     \<and> jget env ''agent_id'' = JStr ''agent-1'' \<and> json_loads (json_dumps (JObj env)) = Inr command"
proof -
  obtain d command d' where l: "lease_command 300 30 ''agent-1'' None (\<lambda>_ _. Inr True) (Aware 9000000) d
      = Inr (Some command, d')" and u: "distinct (map op_name (operations d))"
    using demo_lease by blast
  obtain c env where "get_row op_name (operations d') (op_name c) = Some (lease_row 300 30 (naive_utc (Aware 9000000)) c)"
      "jget env ''agent_id'' = JStr ''agent-1''" "json_loads (json_dumps (JObj env)) = Inr command"
    using lease_sound [OF l u] by (elim exE conjE) (rule that)
  then show ?thesis using l by (auto simp: naive_utc_def simp del: json_dumps.simps)
qed

theorem lease_exclusive_witness:
  "\<exists>d command d' (c :: op_row). lease_command 300 30 ''agent-1'' None (\<lambda>_ _. Inr True) (Aware 9000000) d = Inr (Some command, d')
     \<and> op_name c \<notin> op_name ` set (candidates d' ''agent-1'' None 10000000)"
proof -
  obtain d command d' where l: "lease_command 300 30 ''agent-1'' None (\<lambda>_ _. Inr True) (Aware 9000000) d
      = Inr (Some command, d')" and u: "distinct (map op_name (operations d))"
    using demo_lease by blast
  have soon: "(10000000::int) < naive_utc (Aware 9000000) + seconds 300 + seconds 30"
    by (simp add: naive_utc_def seconds_def us_per_second_def)
  obtain c where "leasable d ''agent-1'' None (naive_utc (Aware 9000000)) c
      \<and> (\<forall>agent2 allowed2 now. now < naive_utc (Aware 9000000) + seconds 300 + seconds 30
      \<longrightarrow> op_name c \<notin> op_name ` set (candidates d' agent2 allowed2 now))"
    using lease_exclusive [OF l u] by (rule bexE)
  then have "op_name c \<notin> op_name ` set (candidates d' ''agent-1'' None 10000000)"
    using soon by (elim conjE) (elim allE impE)
  then show ?thesis using l by (intro exI conjI)
qed

text \<open>The same operation as the child of a bulk operation.\<close>

definition running_bulk :: bulk_row where
  "running_bulk = demo_bulk\<lparr>bu_state := ''running'', bu_approval_status := ''approved'', bu_approval_count := 1,
     bu_planned := 0, bu_queued := 1\<rparr>"

definition queued_bulk_target :: bulktarget_row where
  "queued_bulk_target = demo_bulk_target\<lparr>bx_state := ''queued'', bx_child := Some demo_uuid\<rparr>"

definition demo_bulk_approval :: bulkapproval_row where
  "demo_bulk_approval =
     \<lparr>ba_name = ''ba-1'', ba_bulk = demo_uuid, ba_policy = ''staging'', ba_decision = ''approved'',
      ba_approver = ''carol'', ba_decided_at = 0, ba_comment = None, ba_snapshot_hash = replicate 64 CHR ''b'',
      ba_payload_hash = sha256_hex demo_payload, ba_dry_run_hash = replicate 64 CHR ''d'',
      ba_decision_hash = replicate 64 CHR ''c''\<rparr>"

definition child_op :: op_row where
  "child_op = approved_op\<lparr>op_bulk_parent := Some demo_uuid, op_bulk_target := Some ''bt-1''\<rparr>"

definition bulk_db :: db where
  "bulk_db = approved_db\<lparr>operations := [child_op], bulks := [running_bulk], bulktargets := [queued_bulk_target],
     bulkapprovals := [demo_bulk_approval], approvals := []\<rparr>"

lemma child_dispatched: "\<exists>env d'. dispatch 300 demo_uuid (Aware 0) bulk_db = Inr (env, d')"
proof -
  define t where "t = demo_optarget\<lparr>ot_operation := demo_uuid\<rparr>"
  define j where "j = demo_joined\<lparr>jo_op := child_op\<rparr>"
  have jo: "joined_operation bulk_db demo_uuid = Some j"
    by (simp add: joined_operation_def bulk_db_def approved_db_def demo_joined_def j_def get_row_def child_op_def
        approved_op_def demo_op_def demo_db_def demo_agent_def demo_bench_def demo_site_def opt_row_def)
  have i: "check_identity_binding j = Inr demo_uuid"
    by (rule demo_identity) (simp_all add: j_def demo_joined_def child_op_def approved_op_def demo_op_def)
  have t: "single_target bulk_db (op_name (jo_op j)) = Inr t"
    by (simp add: single_target_def bulk_db_def approved_db_def j_def child_op_def approved_op_def t_def)
  have s: "check_snapshot_binding j t = Inr ()"
    by (simp add: check_snapshot_binding_def j_def demo_joined_def child_op_def approved_op_def demo_op_def
        demo_optarget_def demo_site_def Let_def t_def)
  have "demo_uuid \<noteq> []" by (simp add: demo_uuid_def)
  then have c: "approval_claims bulk_db (jo_op j) t = Inr [bulk_claim demo_bulk_approval]"
    by (simp add: approval_claims_def bulk_approval_claims_def bulk_db_def running_bulk_def demo_bulk_def queued_bulk_target_def
        demo_bulk_target_def demo_bulk_approval_def j_def child_op_def approved_op_def demo_op_def opt_row_def get_row_def
        bulk_binding_def check_bulk_approval_def is_hex_def)
  have p: "dispatch_payload (jo_op j) = Inr ([(''domain'', JStr ''a.example'')], sha256_hex demo_payload)"
    using demo_dispatch_payload dispatch_payload_cong [of child_op approved_op] by (simp add: j_def child_op_def)
  show ?thesis
    by (rule dispatch_runs [OF jo i p t s c])
       (use ascii_sha256 demo_uuid_ascii in \<open>simp_all add: envelope_of_def j_def child_op_def demo_joined_def
        approved_op_def demo_op_def demo_agent_def demo_bench_def demo_site_def json_opt_def bulk_claim_def
        claim_json_def demo_bulk_approval_def ascii_micro ascii_def [of "replicate _ _"]\<close>)
qed

theorem cancelled_parent_blocks_queue_witness:
  "\<exists>d c. candidates d ''agent-1'' None 9000000 = [c] \<and> op_bulk_parent c = Some demo_uuid
     \<and> lease_command 300 30 ''agent-1'' None (\<lambda>_ _. Inr True) (Aware 9000000) (bulk_state_set demo_uuid ''cancelling'' d)
         = Inl (ApprovalNotSatisfied ''bulk approval binding is not satisfied'')"
proof -
  obtain e d' where "dispatch 300 demo_uuid (Aware 0) bulk_db = Inr (e, d')"
    using child_dispatched by blast
  then obtain o2 env where q: "operations d' = [o2]" "candidates d' ''agent-1'' None 9000000 = [o2]"
      "op_bulk_parent o2 = Some demo_uuid"
    and v: "validate_persisted 300 d' (op_name o2) (op_command_json o2) (op_command_hash o2) (Aware 9000000) = Inr env"
    using queued_head [of bulk_db e d' child_op]
    by (auto simp: bulk_db_def approved_db_def demo_db_def child_op_def approved_op_def demo_op_def)
  have "lease_command 300 30 ''agent-1'' None (\<lambda>_ _. Inr True) (Aware 9000000) (bulk_state_set demo_uuid ''cancelling'' d')
         = Inl (ApprovalNotSatisfied ''bulk approval binding is not satisfied'')"
    by (rule cancelled_parent_blocks_queue [of d' _ _ _ o2 "[]" _ 300 env])
       (use q v in \<open>simp_all add: naive_utc_def demo_uuid_def\<close>)
  then show ?thesis using q by blast
qed

end
