(* ===== verification/FrappeBulk.thy ===== *)
theory FrappeBulk
  imports FrappeStore BulkOrchestrator
begin

text \<open>
  \<open>frappe_bulk_orchestration.py\<close>: the repository of the bulk orchestrator over the tables, and the
  scheduled job that reconciles every active bulk operation. The clock and the session user are the
  runtime's; the rows of a GROUP BY come in one per agent and bench. The payload of a cancellation is
  written with escapes for characters beyond ASCII, which the name of an operation, a UUID, has none
  of.
\<close>

section \<open>Targets and parents\<close>

definition newer :: "bulktarget_row \<Rightarrow> bulktarget_row option \<Rightarrow> bool" where
  "newer row previous = (case previous of None \<Rightarrow> True | Some q \<Rightarrow> bx_attempt q < bx_attempt row)"

fun latest :: "bulktarget_row list \<Rightarrow> (int \<times> bulktarget_row) list \<Rightarrow> (int \<times> bulktarget_row) list" where
  "latest [] m = m"
| "latest (row # rows) m =
     latest rows (if newer row (map_of m (bx_ordinal row)) then AList.update (bx_ordinal row) row m else m)"

definition bulk_rows :: "db \<Rightarrow> string \<Rightarrow> bulktarget_row list" where
  "bulk_rows d parent_id =
     map snd (sort_key fst (latest (take 1001 (sort_key (\<lambda>t. (bx_ordinal t, bx_attempt t))
       (filter (\<lambda>t. bx_bulk t = parent_id) (bulktargets d)))) []))"

definition runtime_target :: "bulktarget_row \<Rightarrow> target_runtime result" where
  "runtime_target row =
     bindE (check_target_snapshot (bx_snapshot row)) (\<lambda>snapshot.
     Inr \<lparr>tr_snapshot = snapshot, tr_state = bx_state row, tr_child = or_none (bx_child row),
          tr_attempt = bx_attempt row, tr_cancel_sent = truthy (bx_cancellation row)\<rparr>)"

definition repo_targets :: "string \<Rightarrow> db \<Rightarrow> target_runtime list result" where
  "repo_targets parent_id d = mapE runtime_target (bulk_rows d parent_id)"

text \<open>\<open>tuple(value)\<close> of a JSON value, as the list of strings a selector holds.\<close>

definition json_tuple :: "(string \<times> json) list \<Rightarrow> string \<Rightarrow> string list result" where
  "json_tuple kvs key =
     (if key \<notin> jkeys kvs then Inr []
      else case jget kvs key of
        JList vs \<Rightarrow> mapE (\<lambda>v. case v of JStr s \<Rightarrow> Inr s | _ \<Rightarrow> Inl (BulkContractError ''invalid identifier'')) vs
      | JStr s \<Rightarrow> Inr (chunks s)
      | JObj inner \<Rightarrow> Inr (map fst inner)
      | _ \<Rightarrow> Inl (TypeError ''object is not iterable''))"

definition stored_selector :: "string option \<Rightarrow> bulk_selector result" where
  "stored_selector text1 =
     bindE (json_loads (or_empty text1)) (\<lambda>v. case v of
       JObj kvs \<Rightarrow>
         bindE (json_tuple kvs ''exact_site_ids'') (\<lambda>sites.
         bindE (case jget kvs ''environment'' of
                  JNull \<Rightarrow> Inr None | JStr e \<Rightarrow> Inr (Some e)
                | _ \<Rightarrow> Inl (BulkContractError ''invalid environment'')) (\<lambda>environment.
         bindE (json_tuple kvs ''agent_ids'') (\<lambda>as.
         bindE (json_tuple kvs ''bench_ids'') (\<lambda>bs.
         bindE (json_tuple kvs ''labels'') (\<lambda>labels.
         check_selector \<lparr>bs_sites = sites, bs_environment = environment, bs_agents = as,
           bs_benches = bs, bs_labels = labels\<rparr>)))))
     | _ \<Rightarrow> Inl (AttributeError ''object has no attribute get''))"

definition stored_policy :: "bulk_row \<Rightarrow> policy" where
  "stored_policy b =
     \<lparr>bp_maximum_targets = bu_maximum_targets b, bp_canary_size = bu_canary b, bp_global = bu_global b,
      bp_per_agent = bu_per_agent b, bp_per_bench = bu_per_bench b, bp_max_failures = bu_max_failures b,
      bp_max_ratio = bu_max_ratio b\<rparr>"

definition contract_corrupt :: "exn \<Rightarrow> exn option" where
  "contract_corrupt e =
     (case e of
        TypeError _ \<Rightarrow> Some (BulkOrchestrationError ''bulk parent contract is corrupt'')
      | ValueError _ \<Rightarrow> Some (BulkOrchestrationError ''bulk parent contract is corrupt'')
      | BulkContractError _ \<Rightarrow> Some (BulkOrchestrationError ''bulk parent contract is corrupt'')
      | JSONDecodeError \<Rightarrow> Some (BulkOrchestrationError ''bulk parent contract is corrupt'')
      | _ \<Rightarrow> None)"

definition repo_parent :: "string \<Rightarrow> db \<Rightarrow> parent_runtime result" where
  "repo_parent parent_id d =
     bindE (of_option (BulkOrchestrationError ''bulk parent does not exist'')
              (get_row bu_name (bulks d) parent_id)) (\<lambda>b.
     bindE (catchE contract_corrupt
       (bindE (stored_selector (bu_selector_json b)) (\<lambda>selector.
        bindE (repo_targets parent_id d) (\<lambda>targets.
        bindE (check_execution_policy (stored_policy b)) (\<lambda>pol.
        check_plan \<lparr>pl_parent = bu_bulk_id b, pl_type = bu_type b, pl_payload_hash = bu_payload_hash b,
          pl_selector = selector, pl_targets = map tr_snapshot targets, pl_dry_run_hash = bu_dry_run_hash b,
          pl_policy = pol, pl_retry_of = or_none (bu_retry_of b)\<rparr>))))) (\<lambda>plan.
     bindE (canonical_bulk_hash plan) (\<lambda>h.
     bindE (require (h = bu_snapshot_hash b)
              (BulkOrchestrationError ''bulk parent snapshot hash changed'')) (\<lambda>_.
     Inr \<lparr>pr_parent = parent_id, pr_plan = plan, pr_state = bu_state b, pr_pause = bu_pause b,
          pr_cancel = bu_cancel b\<rparr>))))"

section \<open>Work in flight\<close>

definition op_place :: "db \<Rightarrow> op_row \<Rightarrow> (string \<times> string) option" where
  "op_place d o1 =
     (case (get_row sa_name (agents d) (op_server_agent o1), get_row be_name (benches d) (op_bench o1)) of
        (Some a, Some b) \<Rightarrow> Some (sa_agent_id a, be_bench_id b)
      | _ \<Rightarrow> None)"

definition active_state :: "string \<Rightarrow> bool" where
  "active_state s \<longleftrightarrow> s \<in> set [''queued'', ''leased'', ''running'']"

definition active_places :: "db \<Rightarrow> (string \<times> string) list" where
  "active_places d = List.map_filter (op_place d) (filter (\<lambda>o1. active_state (op_state o1)) (operations d))"

definition grouped :: "'k list \<Rightarrow> 'k \<rightharpoonup> int" where
  "grouped ks k = (if k \<in> set ks then Some (int (length (filter (\<lambda>x. x = k) ks))) else None)"

definition repo_inflight :: "db \<Rightarrow> inflight" where
  "repo_inflight d =
     \<lparr>in_global = int (length (active_places d)), in_agents = grouped (map fst (active_places d)),
      in_benches = grouped (active_places d)\<rparr>"

definition repo_can_start ::
  "(string \<Rightarrow> string result) \<Rightarrow> runtime \<Rightarrow> target_runtime \<Rightarrow> db \<Rightarrow> bool result" where
  "repo_can_start wide rt t d =
     (case find (\<lambda>a. sa_agent_id a = bt_agent (tr_snapshot t)) (agents d) of
        None \<Rightarrow> Inr False
      | Some a \<Rightarrow>
          if sa_enabled a \<and> \<not> sa_drain_requested a
          then bindE (runtime_feature_config wide rt)
                 (\<lambda>c. Inr (feature_enabled c ''bulk_operations'' (bt_environment (tr_snapshot t))))
          else Inr False)"

section \<open>Children\<close>

definition target_row :: "string \<Rightarrow> target_runtime \<Rightarrow> db \<Rightarrow> bulktarget_row result" where
  "target_row parent_id t d =
     of_option (BulkOrchestrationError ''bulk target disappeared'')
       (find (\<lambda>r. bx_bulk r = parent_id \<and> bx_target_key r = target_key (tr_snapshot t)
                  \<and> bx_attempt r = tr_attempt t) (bulktargets d))"

definition identity_hash :: "string list \<Rightarrow> string result" where
  "identity_hash parts = bindE (encodeE (json_dumps (JList (map JStr parts)))) (\<lambda>b. Inr (sha256_hex b))"

definition child_lineage :: "db \<Rightarrow> bulktarget_row \<Rightarrow> string option \<times> string option" where
  "child_lineage d row =
     (let lineage = (if truthy (bx_retry_of row) then bx_retry_of row else bx_retry_source row)
      in if truthy lineage then
           (let previous = Option.bind (opt_row bx_name (bulktargets d) lineage) bx_child
            in (previous, map_option ot_name (Option.bind previous (target_of d))))
         else (None, None))"

definition new_operation :: "string \<Rightarrow> string \<Rightarrow> bulktarget_row \<Rightarrow> op_row" where
  "new_operation operation_id key row =
     \<lparr>op_name = [], op_operation_id = operation_id, op_idempotency_key = key, op_protocol_version = ''1.0'',
      op_server_agent = bx_server_agent row, op_bench = bx_bench row, op_managed_site = Some (bx_managed_site row),
      op_bulk_parent = None, op_bulk_target = None, op_retry_of = None, op_preview_of = None,
      op_preview_hash = None, op_type = [], op_payload_json = None, op_payload_hash = [],
      op_requested_by = [], op_policy = None, op_approval_status = [], op_required = 0,
      op_approval_count = 0, op_state = ''awaiting_approval'', op_command_json = None, op_command_hash = None,
      op_issued_at = None, op_expires_at = None, op_lease_expires = None, op_last_sequence = 0,
      op_result_json = None, op_result_hash = None, op_credential = None, op_credential_received = None,
      op_credential_consumed = None, op_error_code = None, op_started_at = None, op_completed_at = None\<rparr>"

definition child_operation ::
  "bulk_row \<Rightarrow> bulktarget_row \<Rightarrow> string option \<Rightarrow> string \<Rightarrow> string \<Rightarrow> op_row" where
  "child_operation p row previous child_id key =
     (new_operation child_id key row)
       \<lparr>op_bulk_parent := Some (bu_name p), op_bulk_target := Some (bx_name row), op_retry_of := previous,
        op_preview_of := bx_preview row, op_preview_hash := bx_preview_hash row, op_type := bu_type p,
        op_payload_json := bu_payload_json p, op_payload_hash := bu_payload_hash p,
        op_requested_by := bu_requested_by p, op_policy := Some (bu_policy p),
        op_approval_status := ''approved'', op_required := bu_required p,
        op_approval_count := bu_approval_count p\<rparr>"

definition operation_target ::
  "op_row \<Rightarrow> target_runtime \<Rightarrow> string \<Rightarrow> string option \<Rightarrow> string \<Rightarrow> int \<Rightarrow> optarget_row" where
  "operation_target o1 t key previous revision attempt =
     \<lparr>ot_name = [], ot_operation = op_operation_id o1, ot_target_key = key, ot_server_agent = op_server_agent o1,
      ot_bench = op_bench o1, ot_managed_site = op_managed_site o1, ot_bulk_parent = op_bulk_parent o1,
      ot_bulk_target = op_bulk_target o1, ot_retry_of = previous, ot_site_domain = Some (bt_domain (tr_snapshot t)),
      ot_type = op_type o1, ot_payload_hash = op_payload_hash o1, ot_revision = Some revision,
      ot_state = ''awaiting_approval'', ot_attempt = attempt, ot_result_json = None, ot_error_code = None\<rparr>"

definition link_target :: "string \<Rightarrow> (bulktarget_row \<Rightarrow> bulktarget_row) \<Rightarrow> db \<Rightarrow> db result" where
  "link_target n f d =
     bindE (of_option (DoesNotExistError n) (get_row bx_name (bulktargets d) n)) (\<lambda>r. bx_save (f r) d)"

definition repo_create_child ::
  "runtime \<Rightarrow> string \<Rightarrow> target_runtime \<Rightarrow> string \<Rightarrow> string \<Rightarrow> db \<Rightarrow> db result" where
  "repo_create_child rt parent_id t child_id key d =
     bindE (target_row parent_id t d) (\<lambda>row.
     bindE (of_option (BulkOrchestrationError ''bulk child is not eligible for creation'')
              (get_row bu_name (bulks d) parent_id)) (\<lambda>p.
     bindE (require (bu_approval_status p = ''approved'' \<and> bu_state p \<in> set [''approved'', ''canary'', ''running'']
                     \<and> bx_state row = ''planned'')
              (BulkOrchestrationError ''bulk child is not eligible for creation'')) (\<lambda>_.
     if truthy (bx_child row) then
       bindE (require (bx_child row = Some child_id)
                (BulkOrchestrationError ''bulk target is linked to another child'')) (\<lambda>_.
       bindE (enqueue_approved_operation 300 child_id (Aware (rt_now rt)) d) (\<lambda>(_, d'). Inr d'))
     else
       (let (previous, previous_target) = child_lineage d row; o1 = child_operation p row previous child_id key in
        bindE (op_insert False rt o1 d) (\<lambda>d1.
        bindE (identity_hash [child_id, bt_agent (tr_snapshot t), bt_bench (tr_snapshot t), bx_managed_site row,
                              bt_revision (tr_snapshot t)]) (\<lambda>h.
        bindE (ot_insert rt (operation_target o1 t h previous_target (bt_revision (tr_snapshot t)) (tr_attempt t)) d1) (\<lambda>d2.
        bindE (link_target (bx_name row) (\<lambda>r. r\<lparr>bx_child := Some child_id\<rparr>) d2) (\<lambda>d3.
        bindE (enqueue_approved_operation 300 child_id (Aware (rt_now rt)) d3) (\<lambda>(_, d4).
        Inr (bulk_target_set (bx_name row) (\<lambda>r. r\<lparr>bx_state := ''queued''\<rparr>) d4))))))))))"

section \<open>Cancellation\<close>

definition cancel_operation :: "bulktarget_row \<Rightarrow> string \<Rightarrow> string \<Rightarrow> string \<Rightarrow> op_row" where
  "cancel_operation row cancellation_id payload requester =
     (new_operation cancellation_id (''controller:bulk-cancel:'' @ cancellation_id) row)
       \<lparr>op_type := ''operation.cancel'', op_payload_json := Some payload, op_payload_hash := sha256_hex payload,
        op_requested_by := requester, op_approval_status := ''not_required''\<rparr>"

definition cancellation_identity :: "string \<Rightarrow> string \<Rightarrow> string" where
  "cancellation_identity parent_id child =
     uuid5 (uuid5 uuid_namespace_url (''frappe-controller:bulk-cancel:'' @ parent_id)) child"

definition insert_cancellation ::
  "runtime \<Rightarrow> target_runtime \<Rightarrow> bulktarget_row \<Rightarrow> string \<Rightarrow> string \<Rightarrow> string \<Rightarrow> string \<Rightarrow> db \<Rightarrow> db result" where
  "insert_cancellation rt t row cancellation_id payload requester revision d =
     (let o1 = cancel_operation row cancellation_id payload requester in
      bindE (op_insert False rt o1 d) (\<lambda>d1.
      bindE (identity_hash [cancellation_id, bt_agent (tr_snapshot t), bt_bench (tr_snapshot t),
                            bx_managed_site row, revision]) (\<lambda>h.
      bindE (ot_insert rt (operation_target o1 t h None revision 0) d1) (\<lambda>d2.
      bindE (link_target (bx_name row) (\<lambda>r. r\<lparr>bx_cancellation := Some cancellation_id\<rparr>) d2) (\<lambda>d3.
      bindE (enqueue_approved_operation 300 cancellation_id (Aware (rt_now rt)) d3) (\<lambda>(_, d4). Inr d4))))))"

definition repo_request_cancel :: "runtime \<Rightarrow> string \<Rightarrow> target_runtime \<Rightarrow> db \<Rightarrow> db result" where
  "repo_request_cancel rt parent_id t d =
     bindE (target_row parent_id t d) (\<lambda>row.
     bindE (of_option (BulkOrchestrationError ''bulk cancellation is not attributed'')
              (get_row bu_name (bulks d) parent_id)) (\<lambda>p.
     bindE (require (bu_cancel p \<and> truthy (bu_cancel_by p))
              (BulkOrchestrationError ''bulk cancellation is not attributed'')) (\<lambda>_.
     bindE (require (truthy (bx_child row) \<and> bx_state row \<notin> set bx_terminal)
              (BulkOrchestrationError ''bulk target is not cancellable'')) (\<lambda>_.
     let child = the (bx_child row); cancellation_id = cancellation_identity parent_id child in
     if truthy (bx_cancellation row) then
       bindE (require (bx_cancellation row = Some cancellation_id)
                (BulkOrchestrationError ''bulk cancellation identity changed'')) (\<lambda>_. Inr d)
     else
       bindE (encodeE (json_dumps (JObj [(''target_operation_id'', JStr child)]))) (\<lambda>payload.
       case Option.bind (get_row sa_name (agents d) (bx_server_agent row)) sa_inventory_digest of
         None \<Rightarrow> Inl (BulkOrchestrationError ''bulk cancellation target inventory is unavailable'')
       | Some revision \<Rightarrow>
           bindE (require (is_sha256 revision)
                    (BulkOrchestrationError ''bulk cancellation target inventory is unavailable'')) (\<lambda>_.
           insert_cancellation rt t row cancellation_id payload (the (bu_cancel_by p)) revision d))))))"

definition repo_mark_cancelled :: "string \<Rightarrow> target_runtime \<Rightarrow> db \<Rightarrow> db result" where
  "repo_mark_cancelled parent_id t d =
     bindE (target_row parent_id t d) (\<lambda>row.
     bindE (require (\<not> truthy (bx_child row) \<and> bx_state row = ''planned'')
              (BulkOrchestrationError ''only an unstarted bulk target can be cancelled locally'')) (\<lambda>_.
     Inr (bulk_target_set (bx_name row) (\<lambda>r. r\<lparr>bx_state := ''cancelled''\<rparr>) d)))"

section \<open>The parent\<close>

definition aggregated :: "int \<Rightarrow> string \<Rightarrow> aggregate \<Rightarrow> bulk_row \<Rightarrow> bulk_row" where
  "aggregated now state a b =
     b\<lparr>bu_state := state, bu_planned := ag_planned a, bu_queued := ag_queued a, bu_running := ag_running a,
       bu_succeeded := ag_succeeded a, bu_failed := ag_failed a, bu_cancelled := ag_cancelled a,
       bu_needs_intervention := ag_needs_intervention a,
       bu_started_at := (if state \<in> set [''canary'', ''running''] \<and> bu_started_at b = None then Some now
                         else bu_started_at b),
       bu_completed_at := (if state \<in> set [''succeeded'', ''partial'', ''failed'', ''cancelled'', ''needs_intervention'']
                           then Some now else bu_completed_at b)\<rparr>"

definition repo_update_parent :: "runtime \<Rightarrow> string \<Rightarrow> string \<Rightarrow> aggregate \<Rightarrow> db \<Rightarrow> db result" where
  "repo_update_parent rt parent_id state a d =
     bindE (of_option (DoesNotExistError parent_id) (get_row bu_name (bulks d) parent_id)) (\<lambda>b.
     bu_save (aggregated (rt_now rt) state a b) d)"

definition frappe_repository :: "(string \<Rightarrow> string result) \<Rightarrow> runtime \<Rightarrow> db bulk_repository" where
  "frappe_repository wide rt =
     \<lparr>lock_parent = repo_parent, targets_of = repo_targets, inflight_counts = repo_inflight,
      can_start = repo_can_start wide rt, create_child = repo_create_child rt,
      request_child_cancel = repo_request_cancel rt, mark_unstarted_cancelled = repo_mark_cancelled,
      update_parent = repo_update_parent rt\<rparr>"

section \<open>The scheduled job\<close>

definition active_bulks :: "db \<Rightarrow> string list" where
  "active_bulks d =
     take 100 (map bu_name (filter (\<lambda>b. bu_state b \<in> set [''approved'', ''canary'', ''running'', ''paused'', ''cancelling''])
       (bulks d)))"

definition reconcile_one :: "(string \<Rightarrow> string result) \<Rightarrow> runtime \<Rightarrow> string \<Rightarrow> db \<Rightarrow> db result" where
  "reconcile_one wide rt n d =
     (case reconcile (frappe_repository wide rt) n d of
        Inr (_, d') \<Rightarrow> Inr d'
      | Inl e \<Rightarrow> (case e of
          BulkOrchestrationError _ \<Rightarrow>
            Inr (bulk_set n (\<lambda>b. b\<lparr>bu_state := ''needs_intervention'', bu_completed_at := Some (rt_now rt)\<rparr>) d)
        | _ \<Rightarrow> Inl e))"

definition reconcile_bulk_operations :: "(string \<Rightarrow> string result) \<Rightarrow> runtime \<Rightarrow> db \<Rightarrow> db result" where
  "reconcile_bulk_operations wide rt d = foldE (reconcile_one wide rt) (active_bulks d) d"

section \<open>What a repository call changes\<close>

lemma op_insert_ok:
  assumes "op_insert svc rt o1 d = Inr d'"
  shows "\<exists>b. d' = d\<lparr>operations := operations d @ [b]\<rparr> \<and> op_name b = op_operation_id o1
    \<and> op_name b \<notin> op_name ` set (operations d) \<and> op_server_agent b = op_server_agent o1 \<and> op_bench b = op_bench o1
    \<and> op_state b = op_state o1 \<and> op_bulk_parent b = op_bulk_parent o1"
proof -
  obtain c where c: "op_before_insert rt o1 = Inr c"
    and d': "d' = d\<lparr>operations := operations d @ [c\<lparr>op_name := op_operation_id c\<rparr>]\<rparr>"
      "op_operation_id c \<notin> op_name ` set (operations d)"
    using assms by (auto simp: op_insert_def Let_def bindE_eq_Inr dest!: insert_row_ok)
  have "op_operation_id c = op_operation_id o1 \<and> op_server_agent c = op_server_agent o1 \<and> op_bench c = op_bench o1
      \<and> op_state c = op_state o1 \<and> op_bulk_parent c = op_bulk_parent o1"
    using c by (auto simp: op_before_insert_def bindE_eq_Inr split: if_splits)
  then show ?thesis using d' by (intro exI [of _ "c\<lparr>op_name := op_operation_id c\<rparr>"]) simp
qed

lemma ot_insert_ok: "ot_insert rt t d = Inr d' \<Longrightarrow> \<exists>rows. d' = d\<lparr>optargets := rows\<rparr>"
  by (auto simp: ot_insert_def Let_def bindE_eq_Inr)

lemma link_target_ok:
  assumes "link_target n f d = Inr d'"
  shows "\<exists>r q. get_row bx_name (bulktargets d) n = Some r \<and> bx_validate d (Some q) (f r) = Inr ()
    \<and> d' = d\<lparr>bulktargets := save_row bx_name (f r) (bulktargets d)\<rparr>"
  using assms by (auto simp: link_target_def bindE_eq_Inr of_option_eq_Inr dest!: bx_save_ok)

definition queued_as :: "string \<Rightarrow> string \<Rightarrow> op_row \<Rightarrow> op_row" where
  "queued_as cj h x = x\<lparr>op_state := ''queued'', op_command_json := Some cj, op_command_hash := Some h\<rparr>"

lemma queued_as_simps [simp]:
  "op_name (queued_as cj h x) = op_name x" "op_server_agent (queued_as cj h x) = op_server_agent x"
  "op_bench (queued_as cj h x) = op_bench x" "op_bulk_parent (queued_as cj h x) = op_bulk_parent x"
  "op_state (queued_as cj h x) = ''queued''"
  by (simp_all add: queued_as_def)

lemma dispatch_effect:
  assumes "dispatch lifetime n now d = Inr (env, d')"
  shows "(operations d' = operations d
      \<or> (\<exists>j cj h. joined_operation d n = Some j \<and> op_state (jo_op j) = ''awaiting_approval''
           \<and> operations d' = set_rows (\<lambda>r. op_name r = n) (queued_as cj h) (operations d)))
    \<and> agents d' = agents d \<and> benches d' = benches d \<and> sites d' = sites d \<and> bulks d' = bulks d
    \<and> bulktargets d' = bulktargets d \<and> policies d' = policies d"
proof -
  obtain o1 digest where b: "build_envelope lifetime d n now = Inr env"
    and o1: "get_row op_name (operations d) n = Some o1"
    and "immutable_command_hash env = Inr digest" "is_sha256 digest"
    and d': "op_state o1 = ''queued'' \<and> op_command_hash o1 = Some digest \<and> d' = d \<or>
     op_state o1 = ''awaiting_approval'' \<and> or_none (op_command_hash o1) = None
       \<and> d' = target_set n (\<lambda>t. t\<lparr>ot_state := ''queued''\<rparr>) (op_set n (\<lambda>x. x\<lparr>op_state := ''queued'',
           op_command_json := Some (json_dumps (JObj env)), op_command_hash := Some digest\<rparr>) d)"
    by (rule dispatch_ok [OF assms])
  obtain j where j: "joined_operation d n = Some j"
    using b by (auto simp: build_envelope_def bindE_eq_Inr of_option_eq_Inr)
  have "jo_op j = o1" using joined_operation_ok [OF j] o1 by (metis option.inject)
  show ?thesis
  proof (cases "d' = d")
    case True
    then show ?thesis by simp
  next
    case False
    then have st: "op_state o1 = ''awaiting_approval''"
      and eff: "d' = target_set n (\<lambda>t. t\<lparr>ot_state := ''queued''\<rparr>)
          (op_set n (queued_as (json_dumps (JObj env)) digest) d)"
      using d' by (auto simp only: queued_as_def [abs_def])
    then have "operations d' = set_rows (\<lambda>r. op_name r = n) (queued_as (json_dumps (JObj env)) digest) (operations d)"
      by (simp add: target_set_def op_set_def)
    then show ?thesis using st j \<open>jo_op j = o1\<close> eff unfolding target_set_def op_set_def by auto
  qed
qed

section \<open>The work in flight\<close>

lemma map_filter_append [simp]: "List.map_filter f (xs @ ys) = List.map_filter f xs @ List.map_filter f ys"
  by (simp add: List.map_filter_def)

lemma count_grouped [simp]: "count_of (grouped ks) k = int (length (filter (\<lambda>x. x = k) ks))"
  by (auto simp: count_of_def grouped_def filter_empty_conv split: option.split)

lemma op_place_cong: "agents d' = agents d \<Longrightarrow> benches d' = benches d \<Longrightarrow> op_place d' = op_place d"
  by (rule ext) (simp add: op_place_def)

lemma inflight_cong:
  "operations d' = operations d \<Longrightarrow> agents d' = agents d \<Longrightarrow> benches d' = benches d \<Longrightarrow> repo_inflight d' = repo_inflight d"
  using op_place_cong [of d' d] unfolding repo_inflight_def active_places_def by simp

lemma inflight_append:
  assumes "operations d' = operations d @ [b]" "\<not> active_state (op_state b)" "agents d' = agents d" "benches d' = benches d"
  shows "repo_inflight d' = repo_inflight d"
  unfolding repo_inflight_def active_places_def op_place_cong [OF assms(3,4)] assms(1) using assms(2) by simp

lemma counts_insert:
  assumes "active_places d = us @ vs" "active_places d' = us @ (a, b) # vs"
  shows "counts_le (repo_inflight d') (one_more (repo_inflight d) a (a, b))"
  by (simp add: counts_le_def one_more_def repo_inflight_def assms)

lemma set_rows_split:
  assumes "distinct (map key rs)" "get_row key rs n = Some r"
  shows "\<exists>xs ys. rs = xs @ r # ys \<and> set_rows (\<lambda>x. key x = n) f rs = xs @ f r # ys"
proof -
  have r: "r \<in> set rs" "key r = n" using get_row_Some [OF assms(2)] by auto
  then obtain xs ys where s: "rs = xs @ r # ys" by (meson split_list)
  have "key x \<noteq> n" if "x \<in> set xs \<union> set ys" for x using assms(1) that r(2) s by (auto simp: image_iff)
  then have "map (\<lambda>x. if key x = n then f x else x) xs = xs" "map (\<lambda>x. if key x = n then f x else x) ys = ys"
    by (auto intro!: map_idI)
  then show ?thesis using s r(2) by (intro exI [of _ xs] exI [of _ ys]) (simp add: set_rows_def)
qed

lemma dispatch_counts:
  assumes "dispatch lifetime n now d = Inr (env, d')" and "distinct (map op_name (operations d))"
    and "get_row op_name (operations d) n = Some o1" "op_place d o1 = Some (a, b)"
  shows "counts_le (repo_inflight d') (one_more (repo_inflight d) a (a, b))"
proof -
  have same: "agents d' = agents d" "benches d' = benches d" using dispatch_effect [OF assms(1)] by simp_all
  consider (same) "operations d' = operations d"
    | (queued) j cj h where "joined_operation d n = Some j" "op_state (jo_op j) = ''awaiting_approval''"
        "operations d' = set_rows (\<lambda>r. op_name r = n) (queued_as cj h) (operations d)"
    using dispatch_effect [OF assms(1)] by blast
  then show ?thesis
  proof cases
    case same
    then show ?thesis using inflight_cong [of d' d] \<open>agents d' = _\<close> \<open>benches d' = _\<close>
      by (simp add: counts_le_def one_more_def)
  next
    case queued
    have o1: "jo_op j = o1" using joined_operation_ok [OF queued(1)] assms(3) by (metis option.inject)
    obtain xs ys where s: "operations d = xs @ o1 # ys"
      and s': "operations d' = xs @ queued_as cj h o1 # ys"
      using set_rows_split [OF assms(2,3)] queued(3) by metis
    have pl: "op_place d' = op_place d" using op_place_cong same by blast
    have "op_place d (queued_as cj h o1) = Some (a, b)" using assms(4) by (simp add: op_place_def)
    then have "active_places d' = List.map_filter (op_place d) (filter (\<lambda>o1. active_state (op_state o1)) xs)
        @ (a, b) # List.map_filter (op_place d) (filter (\<lambda>o1. active_state (op_state o1)) ys)"
      by (simp add: active_places_def s' pl map_filter_simps active_state_def)
    moreover have "active_places d = List.map_filter (op_place d) (filter (\<lambda>o1. active_state (op_state o1)) xs)
        @ List.map_filter (op_place d) (filter (\<lambda>o1. active_state (op_state o1)) ys)"
      using queued(2) o1 by (simp add: active_places_def s active_state_def)
    ultimately show ?thesis using counts_insert by blast
  qed
qed

section \<open>The invariant of the repository\<close>

text \<open>
  Operations have distinct names; a target's key is that of its snapshot, its agent and bench are
  the ones it names, and a child it is linked to exists and runs there.
\<close>

definition child_placed :: "db \<Rightarrow> bulktarget_row \<Rightarrow> bool" where
  "child_placed d t =
     (truthy (bx_child t) \<longrightarrow>
        (case opt_row op_name (operations d) (bx_child t) of
           None \<Rightarrow> False
         | Some c \<Rightarrow> op_server_agent c = bx_server_agent t \<and> op_bench c = bx_bench t))"

definition target_placed :: "db \<Rightarrow> bulktarget_row \<Rightarrow> bool" where
  "target_placed d t =
     (bx_keyed t \<and> map_option sa_agent_id (get_row sa_name (agents d) (bx_server_agent t)) = Some (bx_agent_id t)
      \<and> map_option be_bench_id (get_row be_name (benches d) (bx_bench t)) = Some (bx_bench_id t) \<and> child_placed d t)"

definition repo_ok :: "db \<Rightarrow> bool" where
  "repo_ok d = (distinct (map op_name (operations d)) \<and> list_all (target_placed d) (bulktargets d))"

definition bulk_children :: "db \<Rightarrow> string set" where
  "bulk_children d = set (map op_name (filter (\<lambda>o1. truthy (op_bulk_parent o1)) (operations d)))"

lemma set_rows_filter_map:
  "(\<And>x. key (f x) = key x) \<Longrightarrow> (\<And>x. Q (f x) = Q x) \<Longrightarrow>
   map key (filter Q (set_rows P f rs)) = map key (filter Q rs)"
  by (induction rs) (auto simp: set_rows_def)

text \<open>What a later database keeps of an earlier one's operations.\<close>

definition ops_kept :: "db \<Rightarrow> db \<Rightarrow> bool" where
  "ops_kept d d' =
     (agents d' = agents d \<and> benches d' = benches d
      \<and> (\<forall>n o1. get_row op_name (operations d) n = Some o1 \<longrightarrow>
           (\<exists>o2. get_row op_name (operations d') n = Some o2 \<and> op_server_agent o2 = op_server_agent o1
              \<and> op_bench o2 = op_bench o1)))"

lemma ops_kept_refl: "operations d' = operations d \<Longrightarrow> agents d' = agents d \<Longrightarrow> benches d' = benches d \<Longrightarrow> ops_kept d d'"
  by (simp add: ops_kept_def)

lemma ops_kept_placed:
  assumes "ops_kept d d'" "target_placed d t"
  shows "target_placed d' t"
proof -
  have "child_placed d' t"
    unfolding child_placed_def
  proof
    assume tr: "truthy (bx_child t)"
    then obtain n c where n: "bx_child t = Some n" "get_row op_name (operations d) n = Some c"
        "op_server_agent c = bx_server_agent t" "op_bench c = bx_bench t"
      using assms(2) by (auto simp: target_placed_def child_placed_def opt_row_def bind_eq_Some_conv split: option.splits)
    then obtain c2 where "get_row op_name (operations d') n = Some c2" "op_server_agent c2 = op_server_agent c"
        "op_bench c2 = op_bench c"
      using assms(1) unfolding ops_kept_def by blast
    then show "case opt_row op_name (operations d') (bx_child t) of None \<Rightarrow> False
        | Some c \<Rightarrow> op_server_agent c = bx_server_agent t \<and> op_bench c = bx_bench t"
      using n by (simp add: opt_row_def)
  qed
  then show ?thesis using assms by (simp add: target_placed_def ops_kept_def)
qed

lemma repo_ok_keep:
  assumes "repo_ok d" "ops_kept d d'" "distinct (map op_name (operations d'))"
    and "\<And>t. t \<in> set (bulktargets d') \<Longrightarrow> t \<in> set (bulktargets d) \<or> target_placed d' t"
  shows "repo_ok d'"
  using assms ops_kept_placed [OF assms(2)] by (fastforce simp: repo_ok_def list_all_iff)

lemma op_insert_keeps:
  assumes "repo_ok d" "op_insert svc rt o1 d = Inr d'"
  shows "repo_ok d' \<and> ops_kept d d' \<and> bulktargets d' = bulktargets d
    \<and> bulk_children d' = bulk_children d \<union> (if truthy (op_bulk_parent o1) then {op_operation_id o1} else {})"
proof -
  obtain b where d': "d' = d\<lparr>operations := operations d @ [b]\<rparr>" and b: "op_name b = op_operation_id o1"
      "op_name b \<notin> op_name ` set (operations d)" "op_bulk_parent b = op_bulk_parent o1"
    using op_insert_ok [OF assms(2)] by blast
  have k: "ops_kept d d'" by (auto simp: ops_kept_def d' get_row_append)
  moreover have "distinct (map op_name (operations d'))" using assms(1) b(2) by (simp add: d' repo_ok_def)
  moreover have "bulktargets d' = bulktargets d" by (simp add: d')
  moreover have "bulk_children d' = bulk_children d \<union> (if truthy (op_bulk_parent o1) then {op_operation_id o1} else {})"
    using b(1,3) by (simp add: bulk_children_def d')
  ultimately show ?thesis using repo_ok_keep [OF assms(1) k] by simp
qed

lemma dispatch_keeps:
  assumes "repo_ok d" "dispatch lifetime n now d = Inr (env, d')"
  shows "repo_ok d' \<and> ops_kept d d' \<and> bulktargets d' = bulktargets d \<and> bulk_children d' = bulk_children d"
proof -
  have e: "agents d' = agents d" "benches d' = benches d" "bulktargets d' = bulktargets d"
    using dispatch_effect [OF assms(2)] by simp_all
  have "operations d' = operations d \<or> (\<exists>cj h. operations d' = set_rows (\<lambda>r. op_name r = n) (queued_as cj h) (operations d))"
    using dispatch_effect [OF assms(2)] by blast
  then have "ops_kept d d' \<and> distinct (map op_name (operations d')) \<and> bulk_children d' = bulk_children d"
  proof (elim disjE exE)
    assume "operations d' = operations d"
    then show ?thesis using e assms(1) by (simp add: ops_kept_def bulk_children_def repo_ok_def)
  next
    fix cj h assume s: "operations d' = set_rows (\<lambda>r. op_name r = n) (queued_as cj h) (operations d)"
    have "ops_kept d d'" using e by (auto simp: ops_kept_def s get_row_set_rows)
    moreover have "map op_name (operations d') = map op_name (operations d)" by (simp add: s set_rows_key)
    moreover have "bulk_children d' = bulk_children d"
      unfolding bulk_children_def s by (subst set_rows_filter_map) simp_all
    ultimately show ?thesis using assms(1) by (simp add: repo_ok_def)
  qed
  then show ?thesis using repo_ok_keep [OF assms(1), of d'] e(3) by simp
qed

lemma validated_placed:
  assumes "bx_validate d previous t = Inr u"
  shows "target_placed d t"
proof -
  obtain p where "bx_ownership d p t = Inr ()" using bx_validate_ok(5) [OF assms] by blast
  moreover have "bx_child_checks d t = Inr ()"
    using assms by (auto simp: bx_validate_def bindE_eq_Inr)
  moreover have "bx_keyed t" using bx_validate_ok(1) [OF assms] by (rule bx_shape_keyed)
  ultimately show ?thesis
    by (auto simp: target_placed_def child_placed_def bx_ownership_def bx_child_checks_def Let_def bindE_eq_Inr
        require_eq_Inr split: option.splits)
qed

lemma link_keeps:
  assumes "repo_ok d" "link_target n f d = Inr d'"
  shows "repo_ok d' \<and> ops_kept d d' \<and> operations d' = operations d \<and> bulk_children d' = bulk_children d"
proof -
  obtain r q where v: "bx_validate d (Some q) (f r) = Inr ()"
    and d': "d' = d\<lparr>bulktargets := save_row bx_name (f r) (bulktargets d)\<rparr>"
    using link_target_ok [OF assms(2)] by blast
  have k: "ops_kept d d'" by (simp add: ops_kept_def d')
  have "target_placed d' (f r)" by (rule ops_kept_placed [OF k validated_placed [OF v]])
  then have "repo_ok d'"
    using repo_ok_keep [OF assms(1) k] assms(1) by (auto simp: d' repo_ok_def dest!: save_row_in)
  then show ?thesis using k by (simp add: d' bulk_children_def)
qed

lemma state_set_keeps:
  assumes "repo_ok d"
  shows "repo_ok (bulk_target_set n (\<lambda>r. r\<lparr>bx_state := s\<rparr>) d)
    \<and> bulk_children (bulk_target_set n (\<lambda>r. r\<lparr>bx_state := s\<rparr>) d) = bulk_children d
    \<and> repo_inflight (bulk_target_set n (\<lambda>r. r\<lparr>bx_state := s\<rparr>) d) = repo_inflight d"
proof -
  have "target_placed d (t\<lparr>bx_state := s\<rparr>) = target_placed d t" for t
    by (simp add: target_placed_def child_placed_def bx_keyed_def bx_snapshot_def split: option.split)
  moreover have "target_placed (bulk_target_set n f d) t = target_placed d t" for t f
    by (simp add: target_placed_def child_placed_def bulk_target_set_def split: option.split)
  ultimately show ?thesis
    using assms by (auto simp: repo_ok_def bulk_target_set_def list_all_iff set_rows_in bulk_children_def intro!: inflight_cong)
qed

lemma inflight_of_link: "operations d' = operations d \<Longrightarrow> ops_kept d d' \<Longrightarrow> repo_inflight d' = repo_inflight d"
  by (rule inflight_cong) (simp_all add: ops_kept_def)

lemma target_row_ok:
  assumes "target_row p t d = Inr row" "repo_ok d"
  shows "row \<in> set (bulktargets d)" "target_placed d row" "bx_bulk row = p"
    "bx_agent_id row = bt_agent (tr_snapshot t)" "bx_bench_id row = bt_bench (tr_snapshot t)"
proof -
  have r: "row \<in> set (bulktargets d)" "bx_bulk row = p" "bx_target_key row = target_key (tr_snapshot t)"
    using assms(1) by (auto simp: target_row_def of_option_eq_Inr dest!: find_mem)
  then show "row \<in> set (bulktargets d)" "bx_bulk row = p" and pl: "target_placed d row"
    using assms(2) by (auto simp: repo_ok_def list_all_iff)
  have "target_key (bx_snapshot row) = target_key (tr_snapshot t)" using pl r(3) by (simp add: target_placed_def bx_keyed_def)
  then show "bx_agent_id row = bt_agent (tr_snapshot t)" "bx_bench_id row = bt_bench (tr_snapshot t)"
    unfolding target_key_eq by (simp_all add: bx_snapshot_def)
qed

lemma placed_op:
  assumes "target_placed d row" "op_server_agent c = bx_server_agent row" "op_bench c = bx_bench row"
  shows "op_place d c = Some (bx_agent_id row, bx_bench_id row)"
  using assms by (auto simp: op_place_def target_placed_def)

lemma place_kept: "ops_kept d d' \<Longrightarrow> op_place d' = op_place d"
  by (rule op_place_cong) (simp_all add: ops_kept_def)

lemma ops_kept_trans: "ops_kept d e \<Longrightarrow> ops_kept e f \<Longrightarrow> ops_kept d f"
  unfolding ops_kept_def by metis

text \<open>Inserting an operation with its target, and linking the bulk target to it.\<close>

lemma insert_linked:
  assumes ok: "repo_ok d" and o1: "op_insert svc rt o1 d = Inr d1" and ot: "ot_insert rt ot d1 = Inr d2"
    and l: "link_target n f d2 = Inr d3" and st: "op_state o1 = ''awaiting_approval''"
  shows "repo_ok d3 \<and> ops_kept d d3 \<and> repo_inflight d3 = repo_inflight d
    \<and> bulk_children d3 = bulk_children d \<union> (if truthy (op_bulk_parent o1) then {op_operation_id o1} else {})
    \<and> (\<exists>c. get_row op_name (operations d3) (op_operation_id o1) = Some c \<and> op_server_agent c = op_server_agent o1
          \<and> op_bench c = op_bench o1)"
proof -
  obtain b where d1: "d1 = d\<lparr>operations := operations d @ [b]\<rparr>" and b: "op_name b = op_operation_id o1"
      "op_name b \<notin> op_name ` set (operations d)" "op_server_agent b = op_server_agent o1" "op_bench b = op_bench o1"
      "op_state b = op_state o1"
    using op_insert_ok [OF o1] by blast
  have k1: "repo_ok d1" "ops_kept d d1"
    "bulk_children d1 = bulk_children d \<union> (if truthy (op_bulk_parent o1) then {op_operation_id o1} else {})"
    using op_insert_keeps [OF ok o1] by simp_all
  obtain rows where d2: "d2 = d1\<lparr>optargets := rows\<rparr>" using ot_insert_ok [OF ot] by blast
  have k2: "ops_kept d1 d2" "operations d2 = operations d1" "bulktargets d2 = bulktargets d1"
    by (simp_all add: ops_kept_def d2)
  have ok2: "repo_ok d2" using repo_ok_keep [OF k1(1) k2(1)] k1(1) k2(2,3) by (simp add: repo_ok_def)
  have k3: "repo_ok d3" "ops_kept d2 d3" "operations d3 = operations d2" "bulk_children d3 = bulk_children d2"
    using link_keeps [OF ok2 l] by simp_all
  have "repo_inflight d1 = repo_inflight d"
    by (rule inflight_append [of _ _ b]) (simp_all add: d1 b(5) st active_state_def)
  moreover have "repo_inflight d3 = repo_inflight d1"
    using inflight_of_link [OF k2(2,1)] inflight_of_link [OF k3(3,2)] by simp
  moreover have "bulk_children d2 = bulk_children d1" by (simp add: bulk_children_def k2(2))
  moreover have "get_row op_name (operations d3) (op_operation_id o1) = Some b"
    using b(1,2) get_row_None [of op_name "operations d" "op_operation_id o1"]
    by (simp add: k3(3) k2(2) d1 get_row_append)
  ultimately show ?thesis
    using k1 k3 b(3,4) ops_kept_trans [OF ops_kept_trans [OF k1(2) k2(1)] k3(2)] by simp
qed

lemma enqueue_keeps:
  assumes "repo_ok d" "enqueue_approved_operation lifetime n now d = Inr (env, d')"
    and "get_row op_name (operations d) n = Some c" "op_place d c = Some (a, b)"
  shows "repo_ok d' \<and> bulk_children d' = bulk_children d
    \<and> counts_le (repo_inflight d') (one_more (repo_inflight d) a (a, b))"
proof -
  have e: "dispatch lifetime n (Aware (naive_utc now)) d = Inr (env, d')"
    using assms(2) by (simp add: enqueue_approved_operation_def)
  have "distinct (map op_name (operations d))" using assms(1) by (simp add: repo_ok_def)
  then show ?thesis using dispatch_keeps [OF assms(1) e] dispatch_counts [OF e _ assms(3,4)] by simp
qed

lemma create_child_effect:
  assumes "repo_ok d" "repo_create_child rt p t c k d = Inr d'"
  shows "repo_ok d' \<and> bulk_children d' \<subseteq> insert c (bulk_children d)
    \<and> counts_le (repo_inflight d') (one_more (repo_inflight d) (bt_agent (tr_snapshot t))
        (bt_agent (tr_snapshot t), bt_bench (tr_snapshot t)))"
proof -
  obtain row where row: "target_row p t d = Inr row" using assms(2) by (auto simp: repo_create_child_def bindE_eq_Inr)
  note r = target_row_ok [OF row assms(1)]
  show ?thesis
  proof (cases "truthy (bx_child row)")
    case True
    then obtain env where linked: "bx_child row = Some c"
      and e: "enqueue_approved_operation 300 c (Aware (rt_now rt)) d = Inr (env, d')"
      using assms(2) row by (auto simp: repo_create_child_def bindE_eq_Inr require_eq_Inr of_option_eq_Inr)
    obtain o1 where o1: "get_row op_name (operations d) c = Some o1" "op_server_agent o1 = bx_server_agent row"
        "op_bench o1 = bx_bench row"
      using r(2) True linked by (auto simp: target_placed_def child_placed_def opt_row_def split: option.splits)
    show ?thesis using enqueue_keeps [OF assms(1) e o1(1) placed_op [OF r(2) o1(2,3)]] r(4,5) by auto
  next
    case False
    obtain previous previous_target where lin: "child_lineage d row = (previous, previous_target)" by (rule prod.exhaust)
    obtain b d1 d2 d3 d4 env h where
      o1: "op_insert False rt (child_operation b row previous c k) d = Inr d1"
      and ot: "ot_insert rt (operation_target (child_operation b row previous c k) t h previous_target
          (bt_revision (tr_snapshot t)) (tr_attempt t)) d1 = Inr d2"
      and l: "link_target (bx_name row) (\<lambda>r. r\<lparr>bx_child := Some c\<rparr>) d2 = Inr d3"
      and e: "enqueue_approved_operation 300 c (Aware (rt_now rt)) d3 = Inr (env, d4)"
      and d': "d' = bulk_target_set (bx_name row) (\<lambda>r. r\<lparr>bx_state := ''queued''\<rparr>) d4"
      using assms(2) row False lin by (auto simp: repo_create_child_def bindE_eq_Inr require_eq_Inr of_option_eq_Inr Let_def)
    have f: "op_operation_id (child_operation b row previous c k) = c"
        "op_state (child_operation b row previous c k) = ''awaiting_approval''"
        "op_server_agent (child_operation b row previous c k) = bx_server_agent row"
        "op_bench (child_operation b row previous c k) = bx_bench row"
      by (simp_all add: child_operation_def new_operation_def)
    obtain c1 where k3: "repo_ok d3" "ops_kept d d3" "repo_inflight d3 = repo_inflight d"
        "bulk_children d3 \<subseteq> insert c (bulk_children d)" "get_row op_name (operations d3) c = Some c1"
        "op_server_agent c1 = bx_server_agent row" "op_bench c1 = bx_bench row"
      using insert_linked [OF assms(1) o1 ot l f(2)] unfolding f by (auto split: if_splits)
    have "op_place d3 c1 = Some (bx_agent_id row, bx_bench_id row)"
      unfolding place_kept [OF k3(2)] by (rule placed_op [OF r(2) k3(6,7)])
    then have "repo_ok d4 \<and> bulk_children d4 = bulk_children d3
        \<and> counts_le (repo_inflight d4) (one_more (repo_inflight d3) (bx_agent_id row) (bx_agent_id row, bx_bench_id row))"
      using enqueue_keeps [OF k3(1) e k3(5)] by simp
    then show ?thesis using k3(3,4) r(4,5) state_set_keeps [of d4 "bx_name row" "''queued''"] by (simp add: d')
  qed
qed

lemma request_cancel_effect:
  assumes "repo_ok d" "repo_request_cancel rt p t d = Inr d'"
  shows "repo_ok d' \<and> bulk_children d' = bulk_children d"
proof -
  obtain row where row: "target_row p t d = Inr row" using assms(2) by (auto simp: repo_request_cancel_def bindE_eq_Inr)
  note r = target_row_ok [OF row assms(1)]
  show ?thesis
  proof (cases "truthy (bx_cancellation row)")
    case True
    then have "d' = d"
      using assms(2) row by (auto simp: repo_request_cancel_def bindE_eq_Inr require_eq_Inr of_option_eq_Inr Let_def)
    then show ?thesis using assms(1) by simp
  next
    case False
    obtain n payload requester revision where i: "insert_cancellation rt t row n payload requester revision d = Inr d'"
      using assms(2) row False
      by (auto simp: repo_request_cancel_def bindE_eq_Inr require_eq_Inr of_option_eq_Inr Let_def split: option.splits)
    define o1 where "o1 = cancel_operation row n payload requester"
    have f: "op_operation_id o1 = n" "op_state o1 = ''awaiting_approval''" "op_server_agent o1 = bx_server_agent row"
        "op_bench o1 = bx_bench row" "\<not> truthy (op_bulk_parent o1)"
      by (simp_all add: o1_def cancel_operation_def new_operation_def)
    obtain d1 h d2 d3 env where "op_insert False rt o1 d = Inr d1"
      "ot_insert rt (operation_target o1 t h None revision 0) d1 = Inr d2"
      "link_target (bx_name row) (\<lambda>r. r\<lparr>bx_cancellation := Some n\<rparr>) d2 = Inr d3"
      and e: "enqueue_approved_operation 300 n (Aware (rt_now rt)) d3 = Inr (env, d')"
      using i by (auto simp: insert_cancellation_def Let_def bindE_eq_Inr o1_def)
    then have k3: "repo_ok d3" "bulk_children d3 = bulk_children d"
      using insert_linked [OF assms(1) _ _ _ f(2)] f(5) by auto
    show ?thesis
      using dispatch_keeps [OF k3(1) e [unfolded enqueue_approved_operation_def]] k3(2) by simp
  qed
qed

lemma mark_cancelled_effect:
  "repo_ok d \<Longrightarrow> repo_mark_cancelled p t d = Inr d' \<Longrightarrow> repo_ok d' \<and> bulk_children d' = bulk_children d"
  using state_set_keeps by (auto simp: repo_mark_cancelled_def bindE_eq_Inr)

lemma update_parent_effect:
  assumes "repo_ok d" "repo_update_parent rt p x a d = Inr d'"
  shows "repo_ok d' \<and> bulk_children d' = bulk_children d \<and> repo_inflight d' = repo_inflight d"
proof -
  obtain rows where d': "d' = d\<lparr>bulks := rows\<rparr>"
    using assms(2) by (auto simp: repo_update_parent_def bindE_eq_Inr dest!: bu_save_ok)
  have k: "ops_kept d d'" by (simp add: ops_kept_def d')
  have "repo_ok d'" using repo_ok_keep [OF assms(1) k] assms(1) by (simp add: d' repo_ok_def)
  then show ?thesis using inflight_of_link [OF _ k] by (simp add: d' bulk_children_def)
qed

interpretation bulk_repo: bulk_counters "frappe_repository wide rt" "\<lambda>_. repo_ok" bulk_children
  by (unfold_locales; simp only: frappe_repository_def bulk_repository.select_convs;
      drule (1) create_child_effect request_cancel_effect mark_cancelled_effect update_parent_effect;
      simp only: counts_le_refl)

section \<open>Reconciling a bulk operation over the tables\<close>

text \<open>
  C17: over the controller's tables, no reconciliation but a cancellation takes the operations in
  flight (all those queued, leased or running, of any origin) over the limits of the plan: neither
  their total, nor those of an agent, nor those of a bench, unless they were over it before. The
  invariant of the tables this rests on is kept.
\<close>

theorem reconcile_within_limits:
  assumes "repo_ok d" and "repo_parent n d = Inr parent" and "\<not> pr_cancel parent"
    and "reconcile (frappe_repository wide rt) n d = Inr (s, d')"
  shows "limited (repo_inflight d') (pl_policy (pr_plan parent)) (repo_inflight d)"
  using bulk_repo.reconcile_limited [OF assms(1) _ assms(3,4)] assms(2) by (simp add: frappe_repository_def)

text \<open>
  C18: cancelling or pausing starts nothing: once a bulk operation is asked to stop, a
  reconciliation creates no child operation, for it or for any other.
\<close>

theorem stopped_starts_nothing:
  assumes "repo_ok d" and "repo_parent n d = Inr parent" and "pr_cancel parent \<or> pr_pause parent"
    and "reconcile (frappe_repository wide rt) n d = Inr (s, d')"
  shows "bulk_children d' = bulk_children d \<and> repo_ok d'"
  using bulk_repo.cancel_starts_nothing [OF assms(1) _ assms(3,4)] assms(2) by (simp add: frappe_repository_def)

text \<open>
  C19: canaries go first. Until every canary has finished, a reconciliation creates children of planned
  canaries only, each with the identity its target and attempt determine; after that, of planned
  targets only.
\<close>

theorem canaries_first:
  assumes "repo_ok d" and "repo_parent n d = Inr parent" and "\<not> pr_cancel parent" and "\<not> pr_pause parent"
    and "repo_targets n d = Inr ts" and "reconcile (frappe_repository wide rt) n d = Inr (s, d')"
  shows "bulk_children d' \<subseteq> bulk_children d \<union>
    (\<lambda>t. fst (child_identity n (target_key (tr_snapshot t)) (tr_attempt t)))
      ` {t \<in> set (if list_all (\<lambda>t. is_terminal (tr_state t)) (canaries (pl_policy (pr_plan parent)) ts) then ts
                else canaries (pl_policy (pr_plan parent)) ts). tr_state t = ''planned''}"
proof -
  let ?repo = "frappe_repository wide rt"
  have l: "lock_parent ?repo n d = Inr parent" "targets_of ?repo n d = Inr ts"
    using assms(2,5) by (simp_all add: frappe_repository_def)
  then consider (final) "d' = d" | (run) "advance ?repo n (pl_policy (pr_plan parent)) ts d = Inr (s, d')"
    using assms(3,4,6) by (auto simp: reconcile_def bindE_eq_Inr split: if_splits)
  then show ?thesis
  proof cases
    case final
    then show ?thesis by blast
  next
    case run
    then show ?thesis using bulk_repo.advance_children [OF assms(1)] by blast
  qed
qed

section \<open>A bulk operation that finishes while it is paused\<close>

lemma repo_parent_ok:
  assumes "repo_parent n d = Inr parent"
  shows "\<exists>b ts. get_row bu_name (bulks d) n = Some b \<and> repo_targets n d = Inr ts \<and> pr_state parent = bu_state b
    \<and> pr_pause parent = bu_pause b \<and> pr_cancel parent = bu_cancel b
    \<and> pl_targets (pr_plan parent) = map tr_snapshot ts \<and> check_targets parent ts = Inr ()"
proof -
  obtain b ts plan x where b: "get_row bu_name (bulks d) n = Some b" "repo_targets n d = Inr ts"
      "check_plan x = Inr plan" "pl_targets x = map tr_snapshot ts"
    and p: "pr_state parent = bu_state b" "pr_pause parent = bu_pause b" "pr_cancel parent = bu_cancel b" "pr_plan parent = plan"
    using assms by (auto simp: repo_parent_def bindE_eq_Inr of_option_eq_Inr catchE_eq_Inr)
  have "plan = x" using b(3) by (auto simp: check_plan_def Let_def bindE_eq_Inr)
  then have "pl_targets (pr_plan parent) = map tr_snapshot ts" using b(4) p(4) by simp
  moreover from this have "check_targets parent ts = Inr ()"
    by (auto simp: check_targets_def eachE_eq_Inr require_eq_Inr bindE_eq_Inr zip_map2 [of ts tr_snapshot ts] set_zip)
  ultimately show ?thesis using b p by blast
qed

lemma bu_validate_state:
  assumes "bu_validate d (Some q) b = Inr ()"
    and "c = b\<lparr>bu_state := s, bu_started_at := st, bu_completed_at := e\<rparr>"
  shows "bu_validate d (Some q) c = legal_transition bu_transitions (Some (bu_state q)) s"
proof -
  have f: "bu_identity c = bu_identity b" "bu_retry_parent d (Some q) c = bu_retry_parent d (Some q) b"
    "bu_evidence c = bu_evidence b" "bu_limits c = bu_limits b" "bu_counters c = bu_counters b"
    "bu_requests (Some q) c = bu_requests (Some q) b" "policy_authorizes p c = policy_authorizes p b"
    "immutable_fields bu_fields (Some q) c = immutable_fields bu_fields (Some q) b" "bu_policy c = bu_policy b"
    "bu_state c = s" for p
    unfolding assms(2)
    by (simp_all add: bu_identity_def bu_retry_parent_def bu_evidence_def bu_limits_def [abs_def] integer_bounds_def
        bu_counters_def bu_counts_def bu_requests_def policy_authorizes_def [abs_def] immutable_fields_def bu_fields_def
        same_def cong: option.case_cong)
  show ?thesis
    using assms(1) unfolding bu_validate_def f
    by (auto simp: bindE_eq_Inr require_eq_Inr bindE_def split: sum.splits option.splits)
qed

text \<open>
  C20: a bulk operation that is paused and whose last children then finish stops the scheduled job.
  The orchestrator reports it succeeded (or partial), but the table of states lets a paused bulk
  operation only run again or be cancelled, so saving it raises \<open>ValidationError\<close>; the job catches only
  \<open>BulkOrchestrationError\<close>, and every run ends there: no later bulk operation is reconciled, and this one
  stays paused.
\<close>

theorem paused_completion_stops_job:
  assumes "active_bulks d = n # ns" and "get_row bu_name (bulks d) n = Some b"
    and "bu_state b = ''paused''" and "bu_pause b" and "\<not> bu_cancel b"
    and "repo_parent n d = Inr parent" and "repo_targets n d = Inr ts"
    and "list_all (\<lambda>t. is_terminal (tr_state t)) ts" and "aggregate_child_states (map tr_state ts) = Inr a"
    and "ag_cancelled a \<noteq> ag_total a"
    and "bu_validate d (Some b) (aggregated (rt_now rt) ''paused'' a b) = Inr ()"
  shows "reconcile_bulk_operations wide rt d =
    Inl (ValidationError (''Illegal state transition: paused to '' @
           (if ag_succeeded a = ag_total a then ''succeeded'' else ''partial'')))"
proof -
  define s where "s = (if ag_succeeded a = ag_total a then ''succeeded'' else ''partial'')"
  have fin: "finish_state ''paused'' a (map tr_state ts) = s"
    using assms(8,10) by (simp add: finish_state_def s_def list_all_iff)
  have pr: "pr_state parent = ''paused''" "pr_pause parent" "\<not> pr_cancel parent" "check_targets parent ts = Inr ()"
    using repo_parent_ok [OF assms(6)] assms(2-5,7) by auto
  have name: "bu_name b = n" using assms(2) by (auto dest: get_row_Some)
  have "bu_validate d (Some b) (aggregated (rt_now rt) s a b) = legal_transition bu_transitions (Some ''paused'') s"
    using bu_validate_state [OF assms(11), where c = "aggregated (rt_now rt) s a b" and s = s
        and st = "bu_started_at (aggregated (rt_now rt) s a b)" and e = "bu_completed_at (aggregated (rt_now rt) s a b)"]
      assms(3) by (simp add: aggregated_def)
  moreover have "legal_transition bu_transitions (Some ''paused'') s
      = Inl (ValidationError (''Illegal state transition: paused to '' @ s))"
    by (simp add: legal_transition_def bu_transitions_def bu_terminal_def s_def invalid_def)
  ultimately have up: "repo_update_parent rt n s a d = Inl (ValidationError (''Illegal state transition: paused to '' @ s))"
    using assms(2) name by (simp add: repo_update_parent_def bu_save_def old_row_def aggregated_def)
  have "update_state (frappe_repository wide rt) n ''paused'' d
      = Inl (ValidationError (''Illegal state transition: paused to '' @ s))"
    using assms(7,9) up fin by (simp add: update_state_def frappe_repository_def Let_def)
  then have "reconcile (frappe_repository wide rt) n d
      = Inl (ValidationError (''Illegal state transition: paused to '' @ s))"
    using pr assms(6,7) by (simp add: reconcile_def frappe_repository_def final_parent_def)
  then show ?thesis
    by (simp add: reconcile_bulk_operations_def assms(1) reconcile_one_def s_def)
qed

section \<open>A bulk operation under way\<close>

definition demo_selector_text :: string where
  "demo_selector_text = json_dumps (JObj [(''environment'', JStr ''staging'')])"

definition stored_plan :: plan where
  "stored_plan =
     \<lparr>pl_parent = demo_uuid, pl_type = ''site.backup'', pl_payload_hash = sha256_hex demo_payload,
      pl_selector = \<lparr>bs_sites = [], bs_environment = Some ''staging'', bs_agents = [], bs_benches = [], bs_labels = []\<rparr>,
      pl_targets = [bx_snapshot demo_bulk_target], pl_dry_run_hash = replicate 64 CHR ''d'',
      pl_policy = stored_policy demo_bulk, pl_retry_of = None\<rparr>"

definition active_bulk :: "string \<Rightarrow> bool \<Rightarrow> bulk_row" where
  "active_bulk s pause = demo_bulk
     \<lparr>bu_selector_json := Some demo_selector_text, bu_selector_hash := sha256_hex demo_selector_text,
      bu_snapshot_hash := sha256_hex (json_dumps (plan_json stored_plan)), bu_approval_status := ''approved'',
      bu_approval_count := 1, bu_state := s, bu_pause := pause, bu_pause_by := Some ''bob'', bu_pause_at := Some 0\<rparr>"

definition run_db :: "string \<Rightarrow> bool \<Rightarrow> string \<Rightarrow> db" where
  "run_db s pause target_state = demo_bulk_db
     \<lparr>agents := [demo_agent\<lparr>sa_drain_requested := True\<rparr>], bulks := [active_bulk s pause],
      bulktargets := [demo_bulk_target\<lparr>bx_state := target_state\<rparr>]\<rparr>"

definition run_target :: "string \<Rightarrow> target_runtime" where
  "run_target target_state =
     \<lparr>tr_snapshot = bx_snapshot demo_bulk_target, tr_state = target_state, tr_child = None, tr_attempt = 0,
      tr_cancel_sent = False\<rparr>"

definition run_parent :: "string \<Rightarrow> bool \<Rightarrow> parent_runtime" where
  "run_parent s pause =
     \<lparr>pr_parent = demo_uuid, pr_plan = stored_plan, pr_state = s, pr_pause = pause, pr_cancel = False\<rparr>"

lemma run_rows: "bulk_rows (run_db s pause ts) demo_uuid = [demo_bulk_target\<lparr>bx_state := ts\<rparr>]"
  by (simp add: bulk_rows_def run_db_def newer_def demo_bulk_target_def)

lemma stored_snapshot_ok: "check_target_snapshot (bx_snapshot demo_bulk_target) = Inr (bx_snapshot demo_bulk_target)"
  by (simp add: check_target_snapshot_def bx_snapshot_def demo_bulk_target_def demo_bench_def demo_site_def
      check_identifier_def bulk_id_def string_defs bulk_environments_def check_digest_def is_sha256_replicate is_hex_def)

lemma run_targets: "repo_targets demo_uuid (run_db s pause ts) = Inr [run_target ts]"
proof -
  have "bx_snapshot (demo_bulk_target\<lparr>bx_state := ts\<rparr>) = bx_snapshot demo_bulk_target" by (simp add: bx_snapshot_def)
  then show ?thesis
    by (simp add: repo_targets_def run_rows runtime_target_def stored_snapshot_ok run_target_def)
      (simp add: demo_bulk_target_def)
qed

lemma stored_selector_ok: "stored_selector (Some demo_selector_text) = Inr (pl_selector stored_plan)"
proof -
  have "json_loads demo_selector_text = Inr (JObj [(''environment'', JStr ''staging'')])"
    using loads_dumps [OF keeps_hooks(1), of "JObj [(''environment'', JStr ''staging'')]"]
    by (simp add: json_loads_def demo_selector_text_def)
  then show ?thesis
    by (simp add: stored_selector_def json_tuple_def check_selector_def unique_ids_def bulk_environments_def stored_plan_def)
qed

lemma demo_stored_policy: "check_execution_policy (stored_policy demo_bulk) = Inr (stored_policy demo_bulk)"
  using demo_ratio by (simp add: check_execution_policy_def stored_policy_def demo_bulk_def bounded_def ratio_ok_def)

lemma stored_plan_ok: "check_plan stored_plan = Inr stored_plan"
  by (simp add: check_plan_def stored_plan_def check_identifier_def bulk_id_def demo_uuid_def check_digest_def
      is_sha256_replicate is_hex_def stored_policy_def demo_bulk_def Let_def string_defs)
    (simp add: bx_snapshot_def demo_bulk_target_def demo_site_def)

lemma stored_plan_hash: "canonical_bulk_hash stored_plan = Inr (sha256_hex (json_dumps (plan_json stored_plan)))"
proof -
  have "ascii demo_uuid" by (simp add: demo_uuid_def)
  then have "\<not> has_surrogate (json_dumps (plan_json stored_plan))" "finite_json (plan_json stored_plan)"
    by (intro ascii_no_surrogate ascii_dumps ascii_finite;
      simp add: plan_json_def stored_plan_def selector_json_def json_strs_def json_optional_def target_json_def
        policy_json_def bx_snapshot_def demo_bulk_target_def demo_bench_def demo_site_def ascii_sha256
        ascii_def [of "replicate _ _"] stored_policy_def demo_bulk_def)+
  then show ?thesis by (simp add: canonical_bulk_hash_def dumpsE_def encodeE_def del: json_dumps.simps finite_json.simps)
qed

lemma run_parent: "repo_parent demo_uuid (run_db s pause ts) = Inr (run_parent s pause)"
proof -
  have g: "get_row bu_name (bulks (run_db s pause ts)) demo_uuid = Some (active_bulk s pause)"
    by (simp add: run_db_def get_row_def active_bulk_def demo_bulk_def)
  have f: "bu_selector_json (active_bulk s pause) = Some demo_selector_text"
    "stored_policy (active_bulk s pause) = stored_policy demo_bulk"
    "bu_snapshot_hash (active_bulk s pause) = sha256_hex (json_dumps (plan_json stored_plan))"
    "\<lparr>pl_parent = bu_bulk_id (active_bulk s pause), pl_type = bu_type (active_bulk s pause),
      pl_payload_hash = bu_payload_hash (active_bulk s pause), pl_selector = pl_selector stored_plan,
      pl_targets = map tr_snapshot [run_target ts], pl_dry_run_hash = bu_dry_run_hash (active_bulk s pause),
      pl_policy = stored_policy demo_bulk, pl_retry_of = or_none (bu_retry_of (active_bulk s pause))\<rparr> = stored_plan"
    by (simp_all add: active_bulk_def stored_policy_def stored_plan_def run_target_def) (simp_all add: demo_bulk_def)
  show ?thesis
    unfolding repo_parent_def g of_option_simps bindE_Inr f(1,2,3) stored_selector_ok run_targets demo_stored_policy f(4)
      stored_plan_ok catchE_Inr stored_plan_hash
    by (simp add: run_parent_def) (simp add: active_bulk_def demo_bulk_def)
qed
lemma run_db_simps [simp]:
  "bulks (run_db s pause ts) = [active_bulk s pause]" "bulktargets (run_db s pause ts) = [demo_bulk_target\<lparr>bx_state := ts\<rparr>]"
  "agents (run_db s pause ts) = [demo_agent\<lparr>sa_drain_requested := True\<rparr>]" "benches (run_db s pause ts) = [demo_bench]"
  "operations (run_db s pause ts) = [demo_op]" "policies (run_db s pause ts) = [demo_bulk_policy]"
  by (simp_all add: run_db_def demo_bulk_db_def demo_db_def)

lemma run_ok: "repo_ok (run_db s pause ts)"
  by (simp add: repo_ok_def target_placed_def child_placed_def bx_keyed_def target_key_def bx_snapshot_def get_row_def)
    (simp add: demo_bulk_target_def demo_agent_def demo_bench_def demo_site_def)

lemma run_valid:
  assumes "sum_list [ag_planned a, ag_queued a, ag_running a, ag_succeeded a, ag_failed a, ag_cancelled a,
      ag_needs_intervention a] = 1"
    and "list_all (\<lambda>n. 0 \<le> n) [ag_planned a, ag_queued a, ag_running a, ag_succeeded a, ag_failed a,
      ag_cancelled a, ag_needs_intervention a]"
  shows "bu_validate (run_db s pause ts) (Some (active_bulk s pause)) (aggregated now s a (active_bulk s pause)) = Inr ()"
proof -
  let ?b = "aggregated now s a (active_bulk s pause)" and ?d = "run_db s pause ts"
  have "bu_identity ?b = bu_identity demo_bulk"
    by (simp add: bu_identity_def aggregated_def active_bulk_def)
  moreover have "bu_retry_parent ?d (Some (active_bulk s pause)) ?b = Inr ()"
      "bu_requests (Some (active_bulk s pause)) ?b = Inr ()"
    by (simp_all add: bu_retry_parent_def bu_requests_def aggregated_def active_bulk_def) (simp_all add: demo_bulk_def)
  moreover have "bu_evidence ?b = Inr demo_counts"
  proof -
    have l: "json_loads demo_selector_text = Inr (JObj [(''environment'', JStr ''staging'')])"
      using loads_dumps [OF keeps_hooks(1), of "JObj [(''environment'', JStr ''staging'')]"]
      by (simp add: json_loads_def demo_selector_text_def)
    have "\<not> has_surrogate demo_selector_text" unfolding demo_selector_text_def by (rule ascii_no_surrogate, rule ascii_dumps) simp
    then have g: "json_digest (JObj [(''environment'', JStr ''staging'')]) = Inr (sha256_hex demo_selector_text)"
      unfolding json_digest_def dumpsE_def demo_selector_text_def by (simp add: encodeE_def)
    have f: "bu_payload_json ?b = Some demo_payload" "bu_selector_json ?b = Some demo_selector_text"
        "bu_environments ?b = Some (json_dumps (JObj demo_counts))" "bu_payload_hash ?b = sha256_hex demo_payload"
        "bu_selector_hash ?b = sha256_hex demo_selector_text"
        "bu_snapshot_hash ?b = sha256_hex (json_dumps (plan_json stored_plan))"
        "bu_dry_run_hash ?b = replicate 64 CHR ''d''"
      by (simp_all add: aggregated_def active_bulk_def del: json_dumps.simps) (simp_all add: demo_bulk_def del: json_dumps.simps)
    have "check_environments demo_counts = Inr ()" by (simp add: check_environments_def demo_counts_def)
    then show ?thesis
      unfolding bu_evidence_def f
      by (simp add: require_json_def demo_payload_json l demo_counts_json has_shape_def require_sha256_def
          is_sha256_replicate is_hex_def check_json_digest_def demo_digest g del: json_dumps.simps)
  qed
  moreover have "bu_limits ?b demo_counts = bu_limits demo_bulk demo_counts"
    by (simp add: bu_limits_def integer_bounds_def aggregated_def active_bulk_def)
  moreover have "bu_limits demo_bulk demo_counts = Inr ()"
    by (simp add: bu_limits_def demo_bulk_def integer_bounds_def demo_counts_def env_count_def ratio_ok_def pow10_def fl_one)
  moreover have "bu_counters ?b = Inr ()"
    using assms by (simp add: bu_counters_def bu_counts_def aggregated_def active_bulk_def) (simp add: demo_bulk_def)
  moreover have "policy_authorizes demo_bulk_policy ?b demo_counts"
    by (simp add: policy_authorizes_def demo_bulk_policy_def aggregated_def active_bulk_def demo_bulk_def bulk_pattern_def
        demo_counts_def env_count_def data_update_types_def string_defs)
  moreover have "get_row po_name (policies ?d) (bu_policy ?b) = Some demo_bulk_policy"
    by (simp add: get_row_def demo_bulk_policy_def aggregated_def active_bulk_def demo_bulk_def)
  moreover have "immutable_fields bu_fields (Some (active_bulk s pause)) ?b = Inr ()" "bu_state ?b = s"
      "bu_state (active_bulk s pause) = s"
    by (simp_all add: immutable_fields_def bu_fields_def same_def aggregated_def active_bulk_def)
  ultimately show ?thesis
    by (simp add: bu_validate_def demo_bulk_identity legal_transition_def)
qed

definition one_planned :: aggregate where
  "one_planned = empty_aggregate\<lparr>ag_total := 1, ag_planned := 1\<rparr>"

lemma run_aggregate:
  "aggregate_child_states [''planned''] = Inr one_planned"
  "aggregate_child_states [''succeeded''] = Inr (empty_aggregate\<lparr>ag_total := 1, ag_succeeded := 1\<rparr>)"
  by (simp_all add: aggregate_child_states_def count_state_def check_aggregate_def empty_aggregate_def bucket_sum_def
      Let_def one_planned_def)

lemma run_update:
  "\<exists>d'. update_state (frappe_repository wide rt) demo_uuid s (run_db s pause ''planned'') = Inr (s, d')"
proof -
  have v: "bu_validate (run_db s pause ''planned'') (Some (active_bulk s pause))
      (aggregated (rt_now rt) s one_planned (active_bulk s pause)) = Inr ()"
    by (rule run_valid) (simp_all add: one_planned_def empty_aggregate_def)
  have n: "bu_name (active_bulk s pause) = demo_uuid" by (simp add: active_bulk_def demo_bulk_def)
  have "finish_state s one_planned [''planned''] = s"
    by (simp add: finish_state_def is_terminal_def bulk_terminal_def failure_states_def)
  then show ?thesis
    using v n run_targets [of s pause "''planned''"] run_aggregate(1)
    by (simp add: update_state_def frappe_repository_def run_target_def Let_def repo_update_parent_def get_row_def
        bu_save_def old_row_def aggregated_def [of _ s one_planned "active_bulk s pause"])
qed

lemma run_reconcile:
  "\<exists>d'. reconcile (frappe_repository wide rt) demo_uuid (run_db ''canary'' False ''planned'') = Inr (''canary'', d')"
proof -
  let ?repo = "frappe_repository wide rt" and ?d = "run_db ''canary'' False ''planned''"
  obtain d' where u: "update_state ?repo demo_uuid ''canary'' ?d = Inr (''canary'', d')" using run_update by blast
  have t: "targets_of ?repo demo_uuid ?d = Inr [run_target ''planned'']"
    "lock_parent ?repo demo_uuid ?d = Inr (run_parent ''canary'' False)"
    "can_start ?repo (run_target ''planned'') ?d = Inr False"
    by (simp_all add: frappe_repository_def run_targets run_parent repo_can_start_def run_target_def bx_snapshot_def
        demo_bulk_target_def demo_agent_def)
  have c: "check_targets (run_parent ''canary'' False) [run_target ''planned''] = Inr ()"
    by (simp add: check_targets_def run_parent_def stored_plan_def run_target_def)
  have state: "tr_state (run_target ''planned'') = ''planned''" "\<not> is_terminal ''planned''" "\<not> is_failure ''planned''"
    by (simp_all add: run_target_def is_terminal_def is_failure_def bulk_terminal_def failure_states_def)
  have pol: "bp_canary_size (pl_policy stored_plan) = 1" by (simp add: stored_plan_def stored_policy_def demo_bulk_def)
  have none: "\<not> failure_budget_exhausted [''planned''] (pl_policy stored_plan)"
    using state(2,3) by (simp add: failure_budget_exhausted_def)
  have start: "start_children ?repo demo_uuid (pl_policy stored_plan) [run_target ''planned''] (inflight_counts ?repo ?d) ?d = Inr ?d"
    by (simp add: state t)
  have "advance ?repo demo_uuid (pl_policy stored_plan) [run_target ''planned''] ?d = Inr (''canary'', d')"
    using u start by (simp add: advance_def canaries_def pol state t none Let_def)
  then show ?thesis
    using c t by (auto simp: reconcile_def run_parent_def final_parent_def)
qed

theorem reconcile_within_limits_witness:
  "\<exists>d'. reconcile (frappe_repository no_wide demo_runtime) demo_uuid (run_db ''canary'' False ''planned'') = Inr (''canary'', d')
     \<and> limited (repo_inflight d') (pl_policy stored_plan) (repo_inflight (run_db ''canary'' False ''planned''))"
proof -
  obtain d' where r: "reconcile (frappe_repository no_wide demo_runtime) demo_uuid (run_db ''canary'' False ''planned'') = Inr (''canary'', d')"
    using run_reconcile by blast
  show ?thesis using r reconcile_within_limits [OF run_ok run_parent _ r] by (auto simp: run_parent_def)
qed

theorem canaries_first_witness:
  "\<exists>d'. reconcile (frappe_repository no_wide demo_runtime) demo_uuid (run_db ''canary'' False ''planned'') = Inr (''canary'', d')
     \<and> bulk_children d' \<subseteq> insert (fst (child_identity demo_uuid (target_key (bx_snapshot demo_bulk_target)) 0))
          (bulk_children (run_db ''canary'' False ''planned''))"
proof -
  obtain d' where r: "reconcile (frappe_repository no_wide demo_runtime) demo_uuid (run_db ''canary'' False ''planned'') = Inr (''canary'', d')"
    using run_reconcile by blast
  have t: "tr_snapshot (run_target ''planned'') = bx_snapshot demo_bulk_target" "tr_attempt (run_target ''planned'') = 0"
    by (simp_all add: run_target_def)
  have p: "\<not> pr_cancel (run_parent ''canary'' False)" "\<not> pr_pause (run_parent ''canary'' False)"
    by (simp_all add: run_parent_def)
  define T where "T = {t \<in> set (if list_all (\<lambda>t. is_terminal (tr_state t))
        (canaries (pl_policy (pr_plan (run_parent ''canary'' False))) [run_target ''planned'']) then [run_target ''planned'']
      else canaries (pl_policy (pr_plan (run_parent ''canary'' False))) [run_target ''planned'']). tr_state t = ''planned''}"
  have "T \<subseteq> {run_target ''planned''}" by (auto simp: T_def canaries_def dest: in_set_takeD split: if_splits)
  moreover have "bulk_children d' \<subseteq> bulk_children (run_db ''canary'' False ''planned'') \<union>
      (\<lambda>t. fst (child_identity demo_uuid (target_key (tr_snapshot t)) (tr_attempt t))) ` T"
    unfolding T_def by (rule canaries_first [OF run_ok run_parent p run_targets r])
  ultimately show ?thesis using r t by fastforce
qed

theorem stopped_starts_nothing_witness:
  "\<exists>d'. reconcile (frappe_repository no_wide demo_runtime) demo_uuid (run_db ''paused'' True ''planned'') = Inr (''paused'', d')
     \<and> bulk_children d' = bulk_children (run_db ''paused'' True ''planned'')"
proof -
  obtain d' where u: "update_state (frappe_repository no_wide demo_runtime) demo_uuid ''paused'' (run_db ''paused'' True ''planned'')
      = Inr (''paused'', d')" using run_update by blast
  have "check_targets (run_parent ''paused'' True) [run_target ''planned''] = Inr ()"
    by (simp add: check_targets_def run_parent_def stored_plan_def run_target_def)
  moreover have "targets_of (frappe_repository no_wide demo_runtime) demo_uuid (run_db ''paused'' True ''planned'') = Inr [run_target ''planned'']"
      "lock_parent (frappe_repository no_wide demo_runtime) demo_uuid (run_db ''paused'' True ''planned'') = Inr (run_parent ''paused'' True)"
    by (simp_all add: frappe_repository_def run_targets run_parent)
  moreover have "\<not> final_parent (pr_state (run_parent ''paused'' True))" "pr_pause (run_parent ''paused'' True)"
      "\<not> pr_cancel (run_parent ''paused'' True)"
    by (simp_all add: run_parent_def final_parent_def)
  ultimately have r: "reconcile (frappe_repository no_wide demo_runtime) demo_uuid (run_db ''paused'' True ''planned'') = Inr (''paused'', d')"
    using u by (simp add: reconcile_def)
  show ?thesis using r stopped_starts_nothing [OF run_ok run_parent _ r] by (auto simp: run_parent_def)
qed

theorem paused_completion_stops_job_witness:
  "reconcile_bulk_operations no_wide demo_runtime (run_db ''paused'' True ''succeeded'')
     = Inl (ValidationError ''Illegal state transition: paused to succeeded'')"
proof -
  let ?a = "empty_aggregate\<lparr>ag_total := 1, ag_succeeded := 1\<rparr>"
  have f: "bu_name (active_bulk ''paused'' True) = demo_uuid" "bu_state (active_bulk ''paused'' True) = ''paused''"
      "bu_pause (active_bulk ''paused'' True)" "\<not> bu_cancel (active_bulk ''paused'' True)"
    by (simp_all add: active_bulk_def demo_bulk_def)
  have v: "bu_validate (run_db ''paused'' True ''succeeded'') (Some (active_bulk ''paused'' True))
      (aggregated (rt_now demo_runtime) ''paused'' ?a (active_bulk ''paused'' True)) = Inr ()"
    by (rule run_valid) (simp_all add: empty_aggregate_def)
  have "reconcile_bulk_operations no_wide demo_runtime (run_db ''paused'' True ''succeeded'') =
    Inl (ValidationError (''Illegal state transition: paused to '' @
           (if ag_succeeded ?a = ag_total ?a then ''succeeded'' else ''partial'')))"
  proof (rule paused_completion_stops_job)
    show "active_bulks (run_db ''paused'' True ''succeeded'') = demo_uuid # []"
      by (simp add: active_bulks_def f)
    show "get_row bu_name (bulks (run_db ''paused'' True ''succeeded'')) demo_uuid = Some (active_bulk ''paused'' True)"
      by (simp add: get_row_def f)
    show "repo_targets demo_uuid (run_db ''paused'' True ''succeeded'') = Inr [run_target ''succeeded'']"
      by (rule run_targets)
    show "repo_parent demo_uuid (run_db ''paused'' True ''succeeded'') = Inr (run_parent ''paused'' True)"
      by (rule run_parent)
    show "list_all (\<lambda>t. is_terminal (tr_state t)) [run_target ''succeeded'']"
      by (simp add: run_target_def is_terminal_def bulk_terminal_def)
    show "aggregate_child_states (map tr_state [run_target ''succeeded'']) = Inr ?a"
      using run_aggregate(2) by (simp add: run_target_def)
  qed (use f v in \<open>simp_all add: empty_aggregate_def\<close>)
  then show ?thesis by simp
qed

end
