(* ===== verification/MessageFields.thy ===== *)
theory MessageFields
  imports Json PyTime
begin

text \<open>
  The strict readers of message fields that \<open>ingestion.py\<close> and \<open>inventory.py\<close> each define with their own
  schema exception \<open>sch\<close>: an object with exactly the fields it must have, and a trimmed text of bounded
  length without NUL and newline. A value of the model is an object where Python has a mapping with
  string keys, and a list where it has a sequence that is no string.
\<close>

definition obj_field :: "(string \<Rightarrow> exn) \<Rightarrow> json \<Rightarrow> string \<Rightarrow> (string \<times> json) list result" where
  "obj_field sch value name =
     (case value of JObj kvs \<Rightarrow> Inr kvs | _ \<Rightarrow> Inl (sch (name @ '' must be an object'')))"

definition exact_fields ::
  "(string \<Rightarrow> exn) \<Rightarrow> (string \<times> json) list \<Rightarrow> string list \<Rightarrow> string \<Rightarrow> unit result" where
  "exact_fields sch kvs fields name =
     require (jkeys kvs = set fields) (sch (name @ '' fields do not match protocol v1''))"

definition clean_text :: "string \<Rightarrow> bool" where
  "clean_text s \<longleftrightarrow> s \<noteq> [] \<and> s = py_strip s \<and> CHR 0x00 \<notin> set s \<and> CHR 0x0A \<notin> set s"

definition text_field :: "(string \<Rightarrow> exn) \<Rightarrow> json \<Rightarrow> string \<Rightarrow> nat \<Rightarrow> string result" where
  "text_field sch value name limit =
     (case value of
        JStr s \<Rightarrow>
          bindE (require (clean_text s) (sch (name @ '' is invalid''))) (\<lambda>_.
          bindE (encodeE s) (\<lambda>b.
          bindE (require (length b \<le> limit) (sch (name @ '' is invalid''))) (\<lambda>_. Inr s)))
      | _ \<Rightarrow> Inl (sch (name @ '' is invalid'')))"

lemma obj_field_ok [result_simps]: "obj_field sch v n = Inr kvs \<longleftrightarrow> v = JObj kvs"
  by (cases v) (auto simp: obj_field_def)

lemma exact_fields_ok [result_simps]: "exact_fields sch kvs fs n = Inr u \<longleftrightarrow> jkeys kvs = set fs"
  by (simp add: exact_fields_def require_eq_Inr)

lemma text_field_ok [result_simps]:
  "text_field sch v n l = Inr s \<longleftrightarrow> v = JStr s \<and> clean_text s \<and> \<not> has_surrogate s \<and> length s \<le> l"
  by (cases v) (auto simp: text_field_def bindE_eq_Inr require_eq_Inr encodeE_eq_Inr)

lemma clean_text_ascii:
  assumes "ascii s" "s \<noteq> []" "\<And>c. c \<in> set s \<Longrightarrow> \<not> is_space_chunk [c] \<and> c \<noteq> CHR 0x00"
  shows "clean_text s"
proof -
  have d: "dropWhile is_space_chunk xs = xs" if "set xs \<subseteq> set (map (\<lambda>c. [c]) s)" for xs
    using that assms(3) by (cases xs) auto
  have "py_strip s = concat (map (\<lambda>c. [c]) s)"
    unfolding py_strip_def chunks_ascii [OF assms(1)] by (simp add: d)
  moreover have "CHR 0x0A \<notin> set s" using assms(3) by (auto simp: is_space_chunk_def space_chunks_def)
  ultimately show ?thesis using assms(2,3) by (auto simp: clean_text_def)
qed

end
