(* ===== verification/Ingestion.thy ===== *)
theory Ingestion
  imports MessageFields Security OperationService
begin

text \<open>
  \<open>ingestion.py\<close>: the append-only events and the monotone results an agent reports. The repository is
  a record of functions on its state, and the two handlers pass the state through its calls. The
  locale \<open>event_log\<close> is the contract a repository's events have to meet, and its lemmas say what
  ingesting and ingesting again does; the locale \<open>result_log\<close> is the one of its results.
\<close>

section \<open>Fields\<close>

definition ing :: "string \<Rightarrow> exn" where
  "ing msg = IngestionSchemaError msg"

definition ing_kind :: "string \<Rightarrow> bool" where
  "ing_kind s \<longleftrightarrow> head_tail is_lower (\<lambda>c. is_lower c \<or> is_digit c \<or> c \<in> set ''_.-'') 127 s"

definition ing_step :: "string \<Rightarrow> bool" where
  "ing_step s \<longleftrightarrow> head_tail is_alnum (\<lambda>c. is_alnum c \<or> c \<in> set ''_.:-'') 127 s"

definition ing_error :: "string \<Rightarrow> bool" where
  "ing_error s \<longleftrightarrow> head_tail is_lower (\<lambda>c. is_lower c \<or> is_digit c \<or> c = CHR ''_'') 127 s"

definition ing_terminal :: "string list" where
  "ing_terminal = [''succeeded'', ''failed'', ''cancelled'', ''timed_out'', ''needs_intervention'',
                   ''dead_letter'', ''rejected'']"

definition ing_states :: "string list" where
  "ing_states = ing_terminal @ [''queued'', ''running'']"

definition ing_sensitive_markers :: "string list" where
  "ing_sensitive_markers =
     [''password'', ''passwd'', ''secret'', ''token'', ''credential'', ''private_key'', ''authorization'']"

definition ing_obj :: "json \<Rightarrow> string \<Rightarrow> (string \<times> json) list result" where
  "ing_obj = obj_field ing"

definition ing_exact :: "(string \<times> json) list \<Rightarrow> string list \<Rightarrow> string \<Rightarrow> unit result" where
  "ing_exact = exact_fields ing"

definition ing_text :: "json \<Rightarrow> string \<Rightarrow> nat \<Rightarrow> string result" where
  "ing_text = text_field ing"

definition ing_uuid :: "json \<Rightarrow> string \<Rightarrow> string result" where
  "ing_uuid value name =
     bindE (ing_text value name 36) (\<lambda>text.
     bindE (of_option (ing (name @ '' must be a UUID'')) (py_uuid text)) (\<lambda>parsed.
     bindE (require (parsed = py_lower text) (ing (name @ '' must be canonical''))) (\<lambda>_.
     Inr (py_lower text))))"

definition ing_time :: "json \<Rightarrow> string \<Rightarrow> int result" where
  "ing_time value name =
     bindE (ing_text value name 64) (\<lambda>text.
     bindE (of_option (ing (name @ '' must be RFC3339'')) (fromisoformat (replace_Z text))) (\<lambda>parsed.
     case parsed of Naive _ \<Rightarrow> Inl (ing (name @ '' requires timezone''))
       | Aware t \<Rightarrow> astimezone_utc t))"

definition ing_received :: "datetime \<Rightarrow> int result" where
  "ing_received value =
     (case value of Naive _ \<Rightarrow> Inl (ing ''received_at must be aware'') | Aware t \<Rightarrow> Inr t)"

definition ing_marked :: "string \<Rightarrow> bool" where
  "ing_marked key \<longleftrightarrow>
     list_ex (\<lambda>m. contains m (replace_char (CHR ''-'') (CHR ''_'') (py_lower key))) ing_sensitive_markers"

fun ing_sensitive :: "json \<Rightarrow> bool" where
  "ing_sensitive (JObj kvs) \<longleftrightarrow> list_ex (\<lambda>(k, v). ing_marked k \<or> ing_sensitive v) kvs"
| "ing_sensitive (JList xs) \<longleftrightarrow> list_ex ing_sensitive xs"
| "ing_sensitive _ \<longleftrightarrow> False"

definition ing_canonical :: "json \<Rightarrow> string \<Rightarrow> nat \<Rightarrow> (string \<times> string) result" where
  "ing_canonical value name limit =
     bindE (require (\<not> ing_sensitive value) (ing (name @ '' contains raw secret field''))) (\<lambda>_.
     bindE (require (finite_json value) (ing (name @ '' must be JSON''))) (\<lambda>_.
     bindE (encodeE (json_dumps value)) (\<lambda>encoded.
     bindE (require (length encoded \<le> limit) (ing (name @ '' too large''))) (\<lambda>_.
     Inr (encoded, sha256_hex encoded)))))"

section \<open>What is stored\<close>

record op_identity =
  oi_operation_id :: string
  oi_agent :: string
  oi_bench :: string
  oi_domain :: "string option"
  oi_type :: string
  oi_state :: string
  oi_last :: int

record stored_event =
  se_operation :: string
  se_sequence :: int
  se_hash :: string

record ingested_event =
  ie_operation :: string
  ie_sequence :: int
  ie_attempt :: "int option"
  ie_step :: "string option"
  ie_kind :: string
  ie_details :: "string option"
  ie_hash :: string
  ie_created :: int
  ie_received :: int

record stored_result =
  sr_operation :: string
  sr_status :: string
  sr_hash :: string
  sr_json :: string

record ingested_result =
  ir_operation :: string
  ir_status :: string
  ir_hash :: string
  ir_json :: string
  ir_error :: "string option"
  ir_received :: int

record 'd ingestion_repository =
  repo_operation :: "string \<Rightarrow> 'd \<Rightarrow> op_identity option"
  repo_event :: "string \<Rightarrow> int \<Rightarrow> 'd \<Rightarrow> stored_event option"
  repo_append :: "string \<Rightarrow> string \<Rightarrow> int \<Rightarrow> ingested_event list \<Rightarrow> 'd \<Rightarrow> (int \<times> 'd) result"
  repo_result :: "string \<Rightarrow> 'd \<Rightarrow> stored_result option result"
  repo_commit :: "string \<Rightarrow> string \<Rightarrow> string option \<Rightarrow> ingested_result \<Rightarrow> 'd \<Rightarrow> 'd result"

definition ing_common ::
  "json \<Rightarrow> string list \<Rightarrow> ((string \<times> json) list \<times> string \<times> string) result" where
  "ing_common request expected =
     bindE (ing_obj request ''request'') (\<lambda>raw.
     bindE (ing_exact raw expected ''request'') (\<lambda>_.
     bindE (require (py_eq (jget raw ''protocol_version'') (JStr ''1.0'')) (ing ''protocol version mismatch'')) (\<lambda>_.
     bindE (ing_text (jget raw ''agent_id'') ''agent_id'' 128) (\<lambda>agent.
     bindE (require (py_eq (jget raw ''audience'') (JStr ''frappe-controller'')) (ing ''audience mismatch'')) (\<lambda>_.
     bindE (ing_uuid (jget raw ''operation_id'') ''operation_id'') (\<lambda>operation_id.
     Inr (raw, agent, operation_id)))))))"

definition ing_owner :: "'d ingestion_repository \<Rightarrow> string \<Rightarrow> string \<Rightarrow> 'd \<Rightarrow> op_identity result" where
  "ing_owner repo agent operation_id d =
     bindE (of_option (UnknownOperationError ''unknown operation'') (repo_operation repo operation_id d)) (\<lambda>operation.
     bindE (require (oi_agent operation = agent)
              (IngestionOwnershipError ''operation belongs to another agent'')) (\<lambda>_.
     Inr operation))"

section \<open>Events\<close>

definition opt_int :: "json \<Rightarrow> int option" where
  "opt_int v = (case v of JInt i \<Rightarrow> Some i | _ \<Rightarrow> None)"

definition opt_str :: "json \<Rightarrow> string option" where
  "opt_str v = (case v of JStr s \<Rightarrow> Some s | _ \<Rightarrow> None)"

definition event_fields :: "string list" where
  "event_fields = [''sequence'', ''attempt'', ''step'', ''kind'', ''details'', ''created_at'']"

definition five_minutes :: int where
  "five_minutes = seconds 300"

definition event_body :: "(string \<times> json) list \<Rightarrow> int \<Rightarrow> json" where
  "event_body raw created =
     JObj [(''sequence'', jget raw ''sequence''), (''attempt'', jget raw ''attempt''),
           (''step'', jget raw ''step''), (''kind'', jget raw ''kind''),
           (''details'', jget raw ''details''), (''created_at'', JStr (isoformat_utc created))]"

definition parse_event :: "string \<Rightarrow> json \<Rightarrow> int \<Rightarrow> nat \<Rightarrow> ingested_event result" where
  "parse_event operation_id value now index =
     (let name = ''events['' @ nat_str index @ '']'' in
      bindE (ing_obj value name) (\<lambda>raw.
      bindE (ing_exact raw event_fields name) (\<lambda>_.
      bindE (of_option (ing ''invalid event sequence'') (opt_int (jget raw ''sequence''))) (\<lambda>sequence.
      bindE (require (1 \<le> sequence) (ing ''invalid event sequence'')) (\<lambda>_.
      bindE (require (case jget raw ''attempt'' of JNull \<Rightarrow> True | JInt a \<Rightarrow> 0 \<le> a | _ \<Rightarrow> False)
               (ing ''invalid event attempt'')) (\<lambda>_.
      bindE (if jget raw ''step'' = JNull then Inr ()
             else bindE (ing_text (jget raw ''step'') ''step'' 128) (\<lambda>s.
                  require (ing_step s) (ing ''invalid event step''))) (\<lambda>_.
      bindE (ing_text (jget raw ''kind'') ''kind'' 128) (\<lambda>kind.
      bindE (require (ing_kind kind) (ing ''invalid event kind'')) (\<lambda>_.
      bindE (ing_time (jget raw ''created_at'') ''created_at'') (\<lambda>created.
      bindE (require (created \<le> now + five_minutes) (ing ''future event'')) (\<lambda>_.
      bindE (if jget raw ''details'' = JNull then Inr None
             else bindE (ing_canonical (jget raw ''details'') ''details'' 65536) (\<lambda>p. Inr (Some (fst p)))) (\<lambda>details.
      bindE (ing_canonical (event_body raw created) name 67584) (\<lambda>body.
      Inr \<lparr>ie_operation = operation_id, ie_sequence = sequence, ie_attempt = opt_int (jget raw ''attempt''),
           ie_step = opt_str (jget raw ''step''), ie_kind = kind, ie_details = details,
           ie_hash = snd body, ie_created = created, ie_received = now\<rparr>)))))))))))))"

text \<open>The loop over the parsed events: those stored already are skipped, the others must follow the cursor.\<close>

fun scan_events ::
  "'d ingestion_repository \<Rightarrow> string \<Rightarrow> 'd \<Rightarrow> ingested_event list \<Rightarrow> int \<Rightarrow> ingested_event list
     \<Rightarrow> (int \<times> ingested_event list) result" where
  "scan_events repo operation_id d [] cursor pending = Inr (cursor, pending)"
| "scan_events repo operation_id d (item # items) cursor pending =
     (case repo_event repo operation_id (ie_sequence item) d of
        Some existing \<Rightarrow>
          bindE (require (se_hash existing = ie_hash item) (IngestionConflictError ''event is immutable'')) (\<lambda>_.
          bindE (require (ie_sequence item \<le> cursor) (IngestionConflictError ''inconsistent cursor'')) (\<lambda>_.
          scan_events repo operation_id d items cursor pending))
      | None \<Rightarrow>
          bindE (require (ie_sequence item = cursor + 1) (IngestionConflictError ''event gap'')) (\<lambda>_.
          scan_events repo operation_id d items (ie_sequence item) (pending @ [item])))"

definition parse_events :: "string \<Rightarrow> json \<Rightarrow> int \<Rightarrow> ingested_event list result" where
  "parse_events operation_id values now =
     bindE (of_option (ing ''events must be non-empty bounded array'')
              (case values of JList xs \<Rightarrow> if xs \<noteq> [] \<and> length xs \<le> 250 then Some xs else None | _ \<Rightarrow> None)) (\<lambda>xs.
     bindE (mapE (\<lambda>(i, item). parse_event operation_id item now i) (enumerate 0 xs)) (\<lambda>parsed.
     bindE (require (sorted (map ie_sequence parsed) \<and> distinct (map ie_sequence parsed))
              (ing ''events must be strictly ordered'')) (\<lambda>_.
     Inr parsed)))"

definition ingest_events :: "'d ingestion_repository \<Rightarrow> json \<Rightarrow> datetime \<Rightarrow> 'd \<Rightarrow> (int \<times> 'd) result" where
  "ingest_events repo request received_at d =
     bindE (ing_received received_at) (\<lambda>now.
     bindE (ing_common request [''protocol_version'', ''agent_id'', ''audience'', ''operation_id'', ''events''])
       (\<lambda>(raw, agent, operation_id).
     bindE (ing_owner repo agent operation_id d) (\<lambda>operation.
     bindE (parse_events operation_id (jget raw ''events'') now) (\<lambda>parsed.
     bindE (scan_events repo operation_id d parsed (oi_last operation) []) (\<lambda>(cursor, pending).
     if pending = [] then Inr (cursor, d)
     else bindE (repo_append repo agent operation_id (oi_last operation) pending d) (\<lambda>(committed, d').
          bindE (require (committed = cursor) (IngestionConflictError ''invalid committed cursor'')) (\<lambda>_.
          Inr (cursor, d'))))))))"

section \<open>Results\<close>

definition result_allowed :: "string list" where
  "result_allowed =
     [''status'', ''operation_id'', ''bench_id'', ''site_domain'', ''operation'', ''attempt'', ''max_attempts'',
      ''error_code'', ''result'', ''accepted'', ''target_operation_id'']"

definition result_required :: "string list" where
  "result_required =
     [''status'', ''operation_id'', ''bench_id'', ''site_domain'', ''operation'', ''attempt'', ''max_attempts'',
      ''error_code'']"

text \<open>The identity a full result must name: the operation's own, or the one a cancellation is about.\<close>

definition result_identity ::
  "'d ingestion_repository \<Rightarrow> op_identity \<Rightarrow> (string \<times> json) list \<Rightarrow> string \<Rightarrow> 'd \<Rightarrow> unit result" where
  "result_identity repo operation raw nested d =
     (if oi_type operation = ''operation.cancel''
      then bindE (require (jget raw ''target_operation_id'' \<noteq> JNull) (IngestionOwnershipError ''cancel target mismatch'')) (\<lambda>_.
           bindE (ing_uuid (jget raw ''target_operation_id'') ''target_operation_id'') (\<lambda>target.
           bindE (require (target = nested) (IngestionOwnershipError ''cancel target mismatch'')) (\<lambda>_.
           bindE (ing_owner repo (oi_agent operation) nested d) (\<lambda>target_op.
           require (oi_bench target_op = oi_bench operation) (IngestionOwnershipError ''cancel bench mismatch'')))))
      else require (nested = oi_operation_id operation) (IngestionOwnershipError ''result operation mismatch''))"

definition attempt_ok :: "(string \<times> json) list \<Rightarrow> bool" where
  "attempt_ok raw =
     ((case jget raw ''attempt'' of JInt a \<Rightarrow> 0 \<le> a | _ \<Rightarrow> False)
      \<and> (case jget raw ''max_attempts'' of JInt a \<Rightarrow> 1 \<le> a | _ \<Rightarrow> False))"

definition full_result ::
  "'d ingestion_repository \<Rightarrow> op_identity \<Rightarrow> (string \<times> json) list \<Rightarrow> 'd \<Rightarrow> unit result" where
  "full_result repo operation raw d =
     bindE (require (set result_required \<subseteq> jkeys raw) (ing ''missing result identity'')) (\<lambda>_.
     bindE (ing_uuid (jget raw ''operation_id'') ''result.operation_id'') (\<lambda>nested.
     bindE (result_identity repo operation raw nested d) (\<lambda>_.
     bindE (require (py_eq (jget raw ''bench_id'') (JStr (oi_bench operation)))
              (IngestionOwnershipError ''result bench mismatch'')) (\<lambda>_.
     bindE (require (oi_type operation = ''operation.cancel''
                     \<or> py_eq (jget raw ''site_domain'') (json_opt (oi_domain operation))
                       \<and> py_eq (jget raw ''operation'') (JStr (oi_type operation)))
              (IngestionOwnershipError ''result target mismatch'')) (\<lambda>_.
     bindE (require (attempt_ok raw) (ing ''invalid attempt'')) (\<lambda>_.
     require (''accepted'' \<in> jkeys raw \<longrightarrow> (case jget raw ''accepted'' of JBool _ \<Rightarrow> True | _ \<Rightarrow> False))
       (ing ''accepted must be boolean'')))))))"

definition parse_result ::
  "'d ingestion_repository \<Rightarrow> op_identity \<Rightarrow> json \<Rightarrow> int \<Rightarrow> 'd \<Rightarrow> ingested_result result" where
  "parse_result repo operation value now d =
     bindE (ing_obj value ''result'') (\<lambda>raw.
     bindE (require (jkeys raw \<subseteq> set result_allowed \<and> ''status'' \<in> jkeys raw)
              (ing ''invalid result fields'')) (\<lambda>_.
     bindE (ing_text (jget raw ''status'') ''status'' 32) (\<lambda>status.
     bindE (require (status \<in> set ing_states) (ing ''unsupported result state'')) (\<lambda>_.
     bindE (if jget raw ''error_code'' = JNull then Inr None
            else bindE (ing_text (jget raw ''error_code'') ''error_code'' 128) (\<lambda>e.
                 bindE (require (ing_error e) (ing ''invalid error_code'')) (\<lambda>_. Inr (Some e)))) (\<lambda>error.
     bindE (if status = ''rejected''
            then require (jkeys raw = {''status'', ''error_code''} \<and> error \<noteq> None) (ing ''invalid rejected result'')
            else if jkeys raw = {''status'', ''error_code''}
            then require (status = ''failed'' \<and> error \<noteq> None) (ing ''invalid short result'')
            else full_result repo operation raw d) (\<lambda>_.
     bindE (ing_canonical (JObj raw) ''result'' 262144) (\<lambda>(result_json, body_hash).
     Inr \<lparr>ir_operation = oi_operation_id operation, ir_status = status, ir_hash = body_hash,
          ir_json = result_json, ir_error = error, ir_received = now\<rparr>)))))))"

definition result_follows :: "string \<Rightarrow> string \<Rightarrow> bool" where
  "result_follows old new \<longleftrightarrow>
     old = ''queued'' \<and> (new = ''running'' \<or> new \<in> set ing_terminal) \<or> old = ''running'' \<and> new \<in> set ing_terminal"

definition accept_result ::
  "'d ingestion_repository \<Rightarrow> string \<Rightarrow> string \<Rightarrow> stored_result option \<Rightarrow> ingested_result \<Rightarrow> 'd
     \<Rightarrow> (ingested_result \<times> 'd) result" where
  "accept_result repo agent operation_id existing result d =
     (if map_option sr_hash existing = Some (ir_hash result) then Inr (result, d)
      else
        bindE (require (\<forall>e\<in>set_option existing. sr_status e \<notin> set ing_terminal)
                 (IngestionConflictError ''terminal result immutable'')) (\<lambda>_.
        bindE (require (\<forall>e\<in>set_option existing. result_follows (sr_status e) (ir_status result))
                 (IngestionConflictError ''non-monotonic result'')) (\<lambda>_.
        bindE (repo_commit repo agent operation_id (map_option sr_hash existing) result d) (\<lambda>d'.
        Inr (result, d')))))"

definition ingest_result ::
  "'d ingestion_repository \<Rightarrow> json \<Rightarrow> datetime \<Rightarrow> 'd \<Rightarrow> (ingested_result \<times> 'd) result" where
  "ingest_result repo request received_at d =
     bindE (ing_received received_at) (\<lambda>now.
     bindE (ing_common request [''protocol_version'', ''agent_id'', ''audience'', ''operation_id'', ''result''])
       (\<lambda>(raw, agent, operation_id).
     bindE (ing_owner repo agent operation_id d) (\<lambda>operation.
     bindE (parse_result repo operation (jget raw ''result'') now d) (\<lambda>result.
     bindE (repo_result repo operation_id d) (\<lambda>existing.
     accept_result repo agent operation_id existing result d)))))"

section \<open>What is parsed\<close>

text \<open>Reading the same event later gives the same event, but for the time of its receipt.\<close>

lemma parse_event_later:
  assumes "parse_event n v now i = Inr e" "now \<le> now'"
  shows "parse_event n v now' i = Inr (e\<lparr>ie_received := now'\<rparr>)"
  using assms unfolding parse_event_def Let_def bindE_eq_Inr require_eq_Inr of_option_eq_Inr
  by fastforce

lemma parse_event_facts:
  assumes "parse_event n v now i = Inr e"
  shows "1 \<le> ie_sequence e \<and> is_sha256 (ie_hash e) \<and> ie_received e = now \<and> ie_created e \<le> now + five_minutes"
  using assms unfolding parse_event_def Let_def bindE_eq_Inr require_eq_Inr of_option_eq_Inr
  by (auto simp: ing_canonical_def result_simps)

lemma mapE_later:
  assumes "mapE f xs = Inr ys" "\<And>x y. f x = Inr y \<Longrightarrow> g x = Inr (h y)"
  shows "mapE g xs = Inr (map h ys)"
  using assms(1)
proof (induction xs arbitrary: ys)
  case (Cons x xs)
  then show ?case by (auto simp: bindE_eq_Inr assms(2))
qed simp

lemma parse_events_later:
  assumes "parse_events n v now = Inr es" "now \<le> now'"
  shows "parse_events n v now' = Inr (map (\<lambda>e. e\<lparr>ie_received := now'\<rparr>) es)"
proof -
  obtain xs where xs: "(case v of JList xs \<Rightarrow> if xs \<noteq> [] \<and> length xs \<le> 250 then Some xs else None | _ \<Rightarrow> None) = Some xs"
    and m: "mapE (\<lambda>(i, item). parse_event n item now i) (enumerate 0 xs) = Inr es"
    and s: "sorted (map ie_sequence es)" "distinct (map ie_sequence es)"
    using assms(1) unfolding parse_events_def bindE_eq_Inr of_option_eq_Inr require_eq_Inr by auto
  have "mapE (\<lambda>(i, item). parse_event n item now' i) (enumerate 0 xs)
      = Inr (map (\<lambda>e. e\<lparr>ie_received := now'\<rparr>) es)"
    by (rule mapE_later [OF m]) (auto intro: parse_event_later assms(2))
  then show ?thesis using s by (simp add: parse_events_def xs o_def)
qed

lemma parse_events_sorted:
  "parse_events n v now = Inr es \<Longrightarrow> sorted_wrt (<) (map ie_sequence es)"
  unfolding parse_events_def bindE_eq_Inr require_eq_Inr
  by (auto simp: strict_sorted_iff)

section \<open>The contract of an event log\<close>

definition logged :: "ingested_event \<Rightarrow> int \<times> string" where
  "logged e = (ie_sequence e, ie_hash e)"

lemma logged_received [simp]: "logged (e\<lparr>ie_received := t\<rparr>) = logged e"
  by (simp add: logged_def)

text \<open>
  The log of an operation holds the numbers and digests of its events. It is numbered from 1 to the
  cursor of the operation, \<open>repo_event\<close> looks an event up in it, and appending at the cursor extends it.
\<close>

locale event_log =
  fixes repo :: "'d ingestion_repository"
    and inv :: "'d \<Rightarrow> bool"
    and log :: "string \<Rightarrow> 'd \<Rightarrow> (int \<times> string) list"
  assumes numbered: "inv d \<Longrightarrow> repo_operation repo n d = Some i \<Longrightarrow>
      0 \<le> oi_last i \<and> map fst (log n d) = [1..oi_last i]"
    and looked_up: "inv d \<Longrightarrow> repo_operation repo n d = Some i \<Longrightarrow>
      map_option se_hash (repo_event repo n s d) = map_of (log n d) s"
    and appended: "inv d \<Longrightarrow> repo_operation repo n d = Some i \<Longrightarrow> es \<noteq> [] \<Longrightarrow>
      repo_append repo a n (oi_last i) es d = Inr (c, d') \<Longrightarrow>
      inv d' \<and> log n d' = log n d @ map logged es \<and> (\<forall>m. m \<noteq> n \<longrightarrow> log m d' = log m d)
        \<and> repo_operation repo n d' = Some (i\<lparr>oi_last := c\<rparr>)"
begin

text \<open>What a scan accepts: first events that are in the log, then the next numbers.\<close>

lemma scan_new:
  assumes "inv d" "repo_operation repo n d = Some i" "oi_last i \<le> c"
    and "sorted_wrt (<) (map ie_sequence es)" "\<forall>e\<in>set es. c < ie_sequence e"
    and "scan_events repo n d es c pend = Inr (c', pend')"
  shows "pend' = pend @ es \<and> map ie_sequence es = [c + 1..c'] \<and> c \<le> c'"
  using assms(3-)
proof (induction es arbitrary: c pend)
  case Nil
  then show ?case by simp
next
  case (Cons e es)
  have last: "map fst (log n d) = [1..oi_last i]" using numbered [OF assms(1,2)] by simp
  have "ie_sequence e \<notin> fst ` set (log n d)"
    using Cons.prems(1,3) last by (metis atLeastAtMost_iff dual_order.strict_trans1 leD list.set_intros(1) list.set_map set_upto)
  then have "repo_event repo n (ie_sequence e) d = None"
    using looked_up [OF assms(1,2), of "ie_sequence e"]
    by (metis map_of_eq_None_iff option.map_disc_iff)
  then have e: "ie_sequence e = c + 1"
    and rest: "scan_events repo n d es (ie_sequence e) (pend @ [e]) = Inr (c', pend')"
    using Cons.prems(4) by (auto simp: bindE_eq_Inr require_eq_Inr)
  have "oi_last i \<le> ie_sequence e" using Cons.prems(1) e by simp
  then have "pend' = (pend @ [e]) @ es \<and> map ie_sequence es = [ie_sequence e + 1..c'] \<and> ie_sequence e \<le> c'"
    using Cons.IH [OF _ _ _ rest] Cons.prems(2) by simp
  then show ?case using e by (simp add: upto_rec1)
qed

lemma scan_split:
  assumes "inv d" "repo_operation repo n d = Some i"
    and "sorted_wrt (<) (map ie_sequence es)"
    and "scan_events repo n d es (oi_last i) [] = Inr (c, pend)"
  shows "\<exists>olds. es = olds @ pend \<and> (\<forall>e\<in>set olds. logged e \<in> set (log n d))
    \<and> map ie_sequence pend = [oi_last i + 1..c] \<and> oi_last i \<le> c"
  using assms(3-)
proof (induction es)
  case Nil
  then show ?case by simp
next
  case (Cons e es)
  show ?case
  proof (cases "repo_event repo n (ie_sequence e) d")
    case None
    have seq: "ie_sequence e = oi_last i + 1" using Cons.prems(2) None by (auto simp: bindE_eq_Inr require_eq_Inr)
    have "pend = [] @ e # es \<and> map ie_sequence (e # es) = [oi_last i + 1..c] \<and> oi_last i \<le> c"
      by (rule scan_new [OF assms(1,2) order_refl Cons.prems(1) _ Cons.prems(2)]) (use Cons.prems(1) seq in auto)
    then show ?thesis by simp
  next
    case (Some x)
    have h: "se_hash x = ie_hash e" and rest: "scan_events repo n d es (oi_last i) [] = Inr (c, pend)"
      using Cons.prems(2) Some by (auto simp: bindE_eq_Inr require_eq_Inr)
    have "map_of (log n d) (ie_sequence e) = Some (ie_hash e)"
      using looked_up [OF assms(1,2), of "ie_sequence e"] Some h by simp
    then have "logged e \<in> set (log n d)" by (auto simp: logged_def dest: map_of_SomeD)
    then show ?thesis using Cons.IH [OF _ rest] Cons.prems(1) by (auto simp: Cons_eq_append_conv)
  qed
qed

text \<open>Events that are all in the log are skipped.\<close>

lemma scan_stored:
  assumes "inv d" "repo_operation repo n d = Some i" "\<forall>e\<in>set es. logged e \<in> set (log n d)"
  shows "scan_events repo n d es (oi_last i) [] = Inr (oi_last i, [])"
  using assms(3)
proof (induction es)
  case (Cons e es)
  have nums: "map fst (log n d) = [1..oi_last i]" using numbered [OF assms(1,2)] by simp
  then have dist: "distinct (map fst (log n d))" by simp
  have mem: "(ie_sequence e, ie_hash e) \<in> set (log n d)" using Cons.prems by (simp add: logged_def)
  then have "map_of (log n d) (ie_sequence e) = Some (ie_hash e)" using dist by simp
  then obtain x where x: "repo_event repo n (ie_sequence e) d = Some x" "se_hash x = ie_hash e"
    using looked_up [OF assms(1,2), of "ie_sequence e"] by auto
  have "ie_sequence e \<in> set (map fst (log n d))" using mem by force
  then have "ie_sequence e \<le> oi_last i" unfolding nums by simp
  then show ?case using Cons x by simp
qed simp

text \<open>A request that was accepted extends the log of its operation, and changes nothing again.\<close>

lemma ingested:
  assumes "inv d" "ingest_events repo request (Aware t) d = Inr (c, d')"
  shows "\<exists>n parsed new. inv d' \<and> parse_events n (case request of JObj kvs \<Rightarrow> jget kvs ''events'' | _ \<Rightarrow> JNull) t = Inr parsed
    \<and> log n d' = log n d @ new \<and> map fst (log n d') = [1..c] \<and> (\<forall>m. m \<noteq> n \<longrightarrow> log m d' = log m d)
    \<and> logged ` set parsed \<subseteq> set (log n d')
    \<and> (\<forall>t'\<ge>t. ingest_events repo request (Aware t') d' = Inr (c, d'))"
proof -
  obtain raw a n i es pend where
    common: "ing_common request [''protocol_version'', ''agent_id'', ''audience'', ''operation_id'', ''events''] = Inr (raw, a, n)"
    and own: "ing_owner repo a n d = Inr i"
    and es: "parse_events n (jget raw ''events'') t = Inr es"
    and scan: "scan_events repo n d es (oi_last i) [] = Inr (c, pend)"
    and fin: "pend = [] \<and> d' = d \<or> pend \<noteq> [] \<and> repo_append repo a n (oi_last i) pend d = Inr (c, d')"
    using assms(2) unfolding ingest_events_def bindE_eq_Inr
    by (auto simp: ing_received_def bindE_eq_Inr require_eq_Inr split: if_splits)
  have raw: "request = JObj raw"
    using common by (auto simp: ing_common_def ing_obj_def result_simps)
  have i: "repo_operation repo n d = Some i" "oi_agent i = a"
    using own by (auto simp: ing_owner_def result_simps)
  note nums = numbered [OF assms(1) i(1)]
  obtain olds where olds: "es = olds @ pend" "\<forall>e\<in>set olds. logged e \<in> set (log n d)"
    and new: "map ie_sequence pend = [oi_last i + 1..c]" "oi_last i \<le> c"
    using scan_split [OF assms(1) i(1) parse_events_sorted [OF es] scan] by blast
  have after: "inv d' \<and> log n d' = log n d @ map logged pend \<and> (\<forall>m. m \<noteq> n \<longrightarrow> log m d' = log m d)
      \<and> repo_operation repo n d' = Some (i\<lparr>oi_last := c\<rparr>)"
    using fin
  proof (elim disjE conjE)
    assume "pend = []" "d' = d"
    moreover from this new have "c = oi_last i" by (metis upto_Nil order_antisym_conv not_less list.simps(8) zless_add1_eq)
    ultimately show ?thesis using assms(1) i by simp
  qed (rule appended [OF assms(1) i(1)])
  have "oi_last i = 0 \<or> 1 \<le> oi_last i" using nums by auto
  then have "[1..c] = [1..oi_last i] @ [oi_last i + 1..c]"
    using new(2) upto_split2 [of 1 "oi_last i" c] by (elim disjE) simp_all
  then have all: "map fst (log n d') = [1..c]"
    using after nums new(1) by (simp add: logged_def o_def)
  have stored: "logged ` set es \<subseteq> set (log n d')" using olds after by auto
  have again: "ingest_events repo request (Aware t') d' = Inr (c, d')" if t': "t \<le> t'" for t'
  proof -
    have s: "scan_events repo n d' (map (\<lambda>e. e\<lparr>ie_received := t'\<rparr>) es) (oi_last (i\<lparr>oi_last := c\<rparr>)) []
        = Inr (oi_last (i\<lparr>oi_last := c\<rparr>), [])"
      by (rule scan_stored) (use after stored in auto)
    have o': "ing_owner repo a n d' = Inr (i\<lparr>oi_last := c\<rparr>)"
      using after i(2) by (simp add: ing_owner_def)
    show ?thesis
      using s unfolding ingest_events_def ing_received_def datetime.case bindE_Inr common prod.case o'
        parse_events_later [OF es t'] by simp
  qed
  have v: "(case request of JObj kvs \<Rightarrow> jget kvs ''events'' | _ \<Rightarrow> JNull) = jget raw ''events''"
    by (simp add: raw)
  show ?thesis
    unfolding v using after all stored again es by blast
qed

end

section \<open>The contract of the stored results\<close>

text \<open>One request of an agent, whatever its content and the time of its receipt.\<close>

inductive report :: "'d ingestion_repository \<Rightarrow> 'd \<Rightarrow> 'd \<Rightarrow> bool" for repo where
  of_events: "ingest_events repo request t d = Inr (c, d') \<Longrightarrow> report repo d d'"
| of_result: "ingest_result repo request t d = Inr (r, d') \<Longrightarrow> report repo d d'"

inductive_cases reportE: "report repo d d'"

text \<open>What becomes of a result: it is the one stored already, or it may follow it and is committed.\<close>

lemma accept_result_cases:
  assumes "accept_result repo a n existing result d = Inr (r, d')"
  shows "r = result \<and>
     (map_option sr_hash existing = Some (ir_hash r) \<and> d' = d
      \<or> (\<forall>e. existing = Some e \<longrightarrow> sr_status e \<notin> set ing_terminal \<and> result_follows (sr_status e) (ir_status r))
        \<and> repo_commit repo a n (map_option sr_hash existing) r d = Inr d')"
  using assms unfolding accept_result_def
  by (auto simp: bindE_eq_Inr require_eq_Inr split: if_splits)

lemma ingest_result_steps:
  assumes "ingest_result repo request t d = Inr (r, d')"
  shows "\<exists>a n i existing. ing_owner repo a n d = Inr i \<and> repo_result repo n d = Inr existing
    \<and> accept_result repo a n existing r d = Inr (r, d')"
proof -
  obtain p :: "(string \<times> json) list \<times> string \<times> string" and i res existing where
      f: "ing_owner repo (fst (snd p)) (snd (snd p)) d = Inr i"
      "repo_result repo (snd (snd p)) d = Inr existing"
      "accept_result repo (fst (snd p)) (snd (snd p)) existing res d = Inr (r, d')"
    using assms unfolding ingest_result_def case_prod_beta bindE_eq_Inr by blast
  then have "res = r" using accept_result_cases [OF f(3)] by simp
  then show ?thesis using f by blast
qed

text \<open>
  What is stored of the result of an operation decides what is read of it; the operations of a
  repository change it by committing a result, for its own operation only.
\<close>

locale result_log =
  fixes repo :: "'d ingestion_repository"
    and inv :: "'d \<Rightarrow> bool"
    and stored :: "string \<Rightarrow> 'd \<Rightarrow> 's"
  assumes read: "stored n d = stored n d' \<Longrightarrow> repo_result repo n d = repo_result repo n d'"
    and committed: "inv d \<Longrightarrow> repo_operation repo n d = Some i \<Longrightarrow> repo_commit repo a n h r d = Inr d' \<Longrightarrow>
      inv d' \<and> (\<forall>m. m \<noteq> n \<longrightarrow> stored m d' = stored m d)"
    and appended_keeps: "inv d \<Longrightarrow> repo_append repo a n k es d = Inr (c, d') \<Longrightarrow>
      inv d' \<and> (\<forall>m. stored m d' = stored m d)"
begin

lemma events_keep:
  "inv d \<Longrightarrow> ingest_events repo request t d = Inr (c, d') \<Longrightarrow> inv d' \<and> (\<forall>m. stored m d' = stored m d)"
  unfolding ingest_events_def bindE_eq_Inr
  by (auto simp: bindE_eq_Inr dest: appended_keeps split: if_splits)

lemma result_keeps:
  assumes "inv d" "ingest_result repo request t d = Inr (r, d')"
  shows "inv d' \<and> (repo_result repo n d = Inr (Some e) \<longrightarrow> sr_status e \<in> set ing_terminal \<longrightarrow> stored n d' = stored n d)"
proof -
  obtain a m i existing where own: "ing_owner repo a m d = Inr i" and ex: "repo_result repo m d = Inr existing"
    and c: "accept_result repo a m existing r d = Inr (r, d')"
    using ingest_result_steps [OF assms(2)] by blast
  have i: "repo_operation repo m d = Some i" using own by (auto simp: ing_owner_def result_simps)
  from accept_result_cases [OF c] show ?thesis
  proof (elim conjE disjE)
    assume t: "\<forall>e. existing = Some e \<longrightarrow> sr_status e \<notin> set ing_terminal \<and> result_follows (sr_status e) (ir_status r)"
      and k: "repo_commit repo a m (map_option sr_hash existing) r d = Inr d'"
    show ?thesis using committed [OF assms(1) i k] t ex by (cases "n = m") auto
  qed (use assms(1) in simp)
qed

lemma report_keeps:
  assumes "report repo d d'" "inv d"
  shows "inv d' \<and> (repo_result repo n d = Inr (Some e) \<longrightarrow> sr_status e \<in> set ing_terminal \<longrightarrow> stored n d' = stored n d)"
  using assms by (elim reportE) (blast dest: events_keep result_keeps)+

end

end
