(* ===== verification/AgentIngestion.thy ===== *)
theory AgentIngestion
  imports Ingestion FrappeStore Negotiation
begin

text \<open>
  \<open>FrappeIngestionRepository\<close> of \<open>frappe_repository.py\<close>: the events and results of the agents over the
  tables, with the handover check of \<open>creation_readiness.py\<close> a successful site creation has to pass. The
  joined row of the SQL queries is the operation with its agent, its bench and its site.
\<close>

section \<open>The joined row\<close>

type_synonym joined_row = "op_row \<times> agent_row \<times> bench_row \<times> site_row option"

definition operation_row :: "string \<Rightarrow> db \<Rightarrow> joined_row option" where
  "operation_row operation_id d =
     Option.bind (find (\<lambda>o1. op_operation_id o1 = operation_id
         \<and> get_row sa_name (agents d) (op_server_agent o1) \<noteq> None
         \<and> get_row be_name (benches d) (op_bench o1) \<noteq> None) (operations d)) (\<lambda>o1.
     Option.bind (get_row sa_name (agents d) (op_server_agent o1)) (\<lambda>a.
     Option.bind (get_row be_name (benches d) (op_bench o1)) (\<lambda>b.
     Some (o1, a, b, opt_row si_name (sites d) (op_managed_site o1)))))"

definition creation_types :: "string list" where
  "creation_types = [''site.create'', ''site.create_blank'', ''site.create_from_backup'']"

definition created_site_domain :: "joined_row \<Rightarrow> string option" where
  "created_site_domain row =
     (case row of (o1, a, b, s) \<Rightarrow>
        if op_type o1 \<notin> set creation_types then map_option si_domain s
        else case json_loads (or_empty (op_payload_json o1)) of
               Inr (JObj kvs) \<Rightarrow> opt_str (jget kvs ''domain'')
             | _ \<Rightarrow> None)"

definition fi_operation :: "string \<Rightarrow> db \<Rightarrow> op_identity option" where
  "fi_operation operation_id d =
     map_option (\<lambda>(o1, a, b, s).
       \<lparr>oi_operation_id = op_operation_id o1, oi_agent = sa_agent_id a, oi_bench = be_bench_id b,
        oi_domain = created_site_domain (o1, a, b, s), oi_type = op_type o1, oi_state = op_state o1,
        oi_last = op_last_sequence o1\<rparr>) (operation_row operation_id d)"

section \<open>Events\<close>

definition fi_event :: "string \<Rightarrow> int \<Rightarrow> db \<Rightarrow> stored_event option" where
  "fi_event operation_id sequence d =
     map_option (\<lambda>e. \<lparr>se_operation = ev_operation_id e, se_sequence = ev_sequence e, se_hash = ev_body_hash e\<rparr>)
       (find (\<lambda>e. ev_operation_id e = operation_id \<and> ev_sequence e = sequence) (events d))"

definition event_document :: "string \<Rightarrow> string \<Rightarrow> ingested_event \<Rightarrow> event_row" where
  "event_document name operation_id e =
     \<lparr>ev_name = [], ev_operation = name, ev_operation_id = operation_id, ev_sequence = ie_sequence e,
      ev_attempt = ie_attempt e, ev_step = ie_step e, ev_kind = ie_kind e, ev_details = ie_details e,
      ev_body_hash = ie_hash e, ev_created_at = ie_created e, ev_received_at = ie_received e\<rparr>"

definition append_event ::
  "runtime \<Rightarrow> string \<Rightarrow> string \<Rightarrow> ingested_event \<Rightarrow> int \<times> db \<Rightarrow> (int \<times> db) result" where
  "append_event rt name operation_id e = (\<lambda>(cursor, d).
     bindE (require (ie_sequence e = cursor + 1) (IngestionConflictError ''event gap'')) (\<lambda>_.
     bindE (ev_insert rt (Some (ie_received e)) (event_document name operation_id e) d) (\<lambda>d'.
     Inr (ie_sequence e, d'))))"

text \<open>A batch that another request has stored meanwhile is acknowledged.\<close>

definition replayed :: "string \<Rightarrow> ingested_event list \<Rightarrow> int \<Rightarrow> db \<Rightarrow> bool" where
  "replayed name es cursor d =
     (es \<noteq> [] \<and> cursor = ie_sequence (last es)
      \<and> map (\<lambda>e. (ev_sequence e, ev_body_hash e)) (sort_key ev_sequence
           (filter (\<lambda>e. ev_operation e = name \<and> ie_sequence (hd es) \<le> ev_sequence e
                        \<and> ev_sequence e \<le> ie_sequence (last es)) (events d)))
        = map logged es)"

definition owned_row :: "string \<Rightarrow> string \<Rightarrow> db \<Rightarrow> joined_row result" where
  "owned_row agent_id operation_id d =
     bindE (of_option (IngestionOwnershipError ''operation belongs to another agent'')
              (operation_row operation_id d)) (\<lambda>row.
     bindE (require (sa_agent_id (fst (snd row)) = agent_id)
              (IngestionOwnershipError ''operation belongs to another agent'')) (\<lambda>_. Inr row))"

definition fi_append ::
  "runtime \<Rightarrow> string \<Rightarrow> string \<Rightarrow> int \<Rightarrow> ingested_event list \<Rightarrow> db \<Rightarrow> (int \<times> db) result" where
  "fi_append rt agent_id operation_id expected es d =
     bindE (owned_row agent_id operation_id d) (\<lambda>row.
     let name = op_name (fst row); cursor = op_last_sequence (fst row) in
     if cursor \<noteq> expected
     then (if replayed name es cursor d then Inr (cursor, d)
           else Inl (IngestionConflictError ''event cursor compare-and-set conflict''))
     else bindE (foldE (append_event rt name operation_id) es (cursor, d)) (\<lambda>(last, d').
          bindE (require (map_option op_last_sequence (get_row op_name (operations d') name) = Some last
                          \<or> get_row op_name (operations d') name = None \<and> last = 0)
                   (IngestionConflictError ''event cursor commit conflict'')) (\<lambda>_. Inr (last, d'))))"

section \<open>The handover of a created site\<close>

definition app_name :: "string \<Rightarrow> bool" where
  "app_name s \<longleftrightarrow> head_tail is_lower (\<lambda>c. is_lower c \<or> is_digit c \<or> c = CHR ''_'') 63 s"

definition json_or_null :: "string option \<Rightarrow> json" where
  "json_or_null value =
     (case json_loads (if truthy value then or_empty value else ''null'') of Inr v \<Rightarrow> v | Inl _ \<Rightarrow> JNull)"

fun member_of :: "json \<Rightarrow> string \<Rightarrow> json" where
  "member_of (JObj kvs) k = jget kvs k"
| "member_of _ k = JNull"

definition readiness_apps :: "json \<Rightarrow> string list option" where
  "readiness_apps readiness =
     (case member_of readiness ''required_apps'' of
        JList xs \<Rightarrow> (if list_all is_str xs \<and> JStr ''frappe'' \<in> set xs \<and> list_all (app_name \<circ> str_of) xs
                      \<and> distinct (map str_of xs)
                    then Some (map str_of xs) else None)
      | _ \<Rightarrow> None)"

definition creation_handover_ready :: "string option \<Rightarrow> int option \<Rightarrow> string option \<Rightarrow> bool" where
  "creation_handover_ready result_json received expected =
     (let readiness = member_of (member_of (json_or_null result_json) ''result'') ''readiness'' in
      received \<noteq> None \<and> is_obj readiness \<and> member_of readiness ''version'' = JInt 1
      \<and> member_of readiness ''apps_verified'' = JBool True
      \<and> member_of readiness ''public_https_verified'' = JBool True
      \<and> (case readiness_apps readiness of None \<Rightarrow> False
         | Some apps \<Rightarrow>
             (case expected of None \<Rightarrow> True
              | Some _ \<Rightarrow>
                  (case json_or_null expected of
                     JList xs \<Rightarrow> xs \<noteq> [] \<and> list_all is_str xs \<and> set (map str_of xs) = set apps
                   | _ \<Rightarrow> False))))"

section \<open>Results\<close>

definition stored_status :: "json \<Rightarrow> string option" where
  "stored_status v = opt_str (member_of v ''status'')"

definition read_result :: "string \<Rightarrow> string option \<times> string option \<Rightarrow> stored_result option result" where
  "read_result operation_id = (\<lambda>(text1, hash).
     if \<not> truthy hash then Inr None
     else bindE (of_option (IngestionConflictError ''stored result is invalid'')
            (case json_loads (if truthy text1 then or_empty text1 else ''null'') of
               Inl _ \<Rightarrow> None | Inr v \<Rightarrow> stored_status v)) (\<lambda>status.
          Inr (Some \<lparr>sr_operation = operation_id, sr_status = status, sr_hash = the hash,
                     sr_json = (if truthy text1 then or_empty text1 else ''null'')\<rparr>)))"

definition fi_result :: "string \<Rightarrow> db \<Rightarrow> stored_result option result" where
  "fi_result operation_id d =
     (case operation_row operation_id d of
        None \<Rightarrow> Inr None
      | Some row \<Rightarrow> read_result operation_id (op_result_json (fst row), op_result_hash (fst row)))"

text \<open>The state and the error a result becomes: a creation without its handover is not a success.\<close>

definition result_state :: "joined_row \<Rightarrow> ingested_result \<Rightarrow> (string \<times> string option) result" where
  "result_state row r =
     (case row of (o1, a, b, s) \<Rightarrow>
        if ir_status r = ''succeeded'' \<and> op_type o1 \<in> set creation_types
           \<and> \<not> creation_handover_ready (Some (ir_json r)) (op_credential_received o1)
                (Some (if truthy (be_required_apps b) then or_empty (be_required_apps b) else ''[]''))
        then bindE (json_loads (ir_json r)) (\<lambda>v.
          case v of
            JObj kvs \<Rightarrow>
              (case jget kvs ''result'' of
                 JObj reported \<Rightarrow>
                   if ''readiness'' \<notin> jkeys reported
                   then Inr (''needs_intervention'', Some ''site_handover_unverified'')
                   else Inl (IngestionConflictError ''site creation success requires app/public HTTPS evidence and acknowledged credential delivery'')
               | _ \<Rightarrow> Inl (IngestionConflictError ''site creation success requires app/public HTTPS evidence and acknowledged credential delivery''))
          | _ \<Rightarrow> Inl (AttributeError ''get''))
        else Inr (ir_status r, ir_error r))"

definition op_with_result :: "string \<Rightarrow> string option \<Rightarrow> ingested_result \<Rightarrow> op_row \<Rightarrow> op_row" where
  "op_with_result state error r o1 =
     (let o2 = o1\<lparr>op_result_json := Some (ir_json r), op_result_hash := Some (ir_hash r), op_error_code := error\<rparr>;
          o3 = (if state \<noteq> ''queued'' then o2\<lparr>op_state := state, op_lease_expires := None\<rparr> else o2);
          o4 = (if state = ''running'' \<and> op_state o1 \<noteq> ''running''
                then o3\<lparr>op_started_at := Some (ir_received r)\<rparr> else o3)
      in if state \<in> set op_terminal then o4\<lparr>op_completed_at := Some (ir_received r)\<rparr> else o4)"

definition target_with_result :: "string \<Rightarrow> string option \<Rightarrow> ingested_result \<Rightarrow> optarget_row \<Rightarrow> optarget_row" where
  "target_with_result state error r t =
     (let t1 = t\<lparr>ot_result_json := Some (ir_json r), ot_error_code := error\<rparr>
      in if state \<noteq> ''queued'' then t1\<lparr>ot_state := state\<rparr> else t1)"

definition bulk_target_with_result ::
  "string \<Rightarrow> string option \<Rightarrow> ingested_result \<Rightarrow> bulktarget_row \<Rightarrow> bulktarget_row" where
  "bulk_target_with_result state error r t =
     (let t1 = t\<lparr>bx_result_json := Some (ir_json r), bx_error_code := error\<rparr>;
          t2 = (if state \<noteq> ''queued'' then t1\<lparr>bx_state := state\<rparr> else t1);
          t3 = (if state = ''running'' then t2\<lparr>bx_started_at := Some (ir_received r)\<rparr> else t2)
      in if state \<in> set op_terminal then t3\<lparr>bx_completed_at := Some (ir_received r)\<rparr> else t3)"

definition write_result :: "op_row \<Rightarrow> string \<Rightarrow> string option \<Rightarrow> ingested_result \<Rightarrow> db \<Rightarrow> db" where
  "write_result o1 state error r d =
     (let d1 = op_set (op_name o1) (op_with_result state error r) d;
          d2 = target_set (op_name o1) (target_with_result state error r) d1
      in if truthy (op_bulk_target o1)
         then bulk_target_set (the (op_bulk_target o1)) (bulk_target_with_result state error r) d2
         else d2)"

definition fi_commit ::
  "string \<Rightarrow> string \<Rightarrow> string option \<Rightarrow> ingested_result \<Rightarrow> db \<Rightarrow> db result" where
  "fi_commit agent_id operation_id expected r d =
     bindE (owned_row agent_id operation_id d) (\<lambda>row.
     if or_none (op_result_hash (fst row)) \<noteq> expected
     then (if or_none (op_result_hash (fst row)) = Some (ir_hash r) then Inr d
           else Inl (IngestionConflictError ''result compare-and-set conflict''))
     else bindE (result_state row r) (\<lambda>(state, error). Inr (write_result (fst row) state error r d)))"

definition frappe_ingestion :: "runtime \<Rightarrow> db ingestion_repository" where
  "frappe_ingestion rt =
     \<lparr>repo_operation = fi_operation, repo_event = fi_event, repo_append = fi_append rt,
      repo_result = fi_result, repo_commit = fi_commit\<rparr>"

section \<open>The hooks of the routes\<close>

text \<open>\<open>integration.py\<close>: the request the ingestion service is given for an authenticated agent.\<close>

definition hook_request :: "string \<Rightarrow> string \<Rightarrow> string \<Rightarrow> json \<Rightarrow> json" where
  "hook_request agent_id operation_id field value =
     JObj [(''protocol_version'', JStr ''1.0''), (''agent_id'', JStr agent_id),
           (''audience'', JStr ''frappe-controller''), (''operation_id'', JStr operation_id), (field, value)]"

definition event_ingestion_hook ::
  "'d ingestion_repository \<Rightarrow> string \<Rightarrow> string \<Rightarrow> json list \<Rightarrow> datetime \<Rightarrow> 'd \<Rightarrow> (int \<times> 'd) result" where
  "event_ingestion_hook repo agent_id operation_id evs now d =
     ingest_events repo (hook_request agent_id operation_id ''events'' (JList evs)) now d"

definition result_ingestion_hook ::
  "'d ingestion_repository \<Rightarrow> string \<Rightarrow> string \<Rightarrow> (string \<times> json) list \<Rightarrow> datetime \<Rightarrow> 'd \<Rightarrow> 'd result" where
  "result_ingestion_hook repo agent_id operation_id result now d =
     bindE (ingest_result repo (hook_request agent_id operation_id ''result'' (JObj result)) now d) (\<lambda>(_, d').
     Inr d')"

section \<open>The log of the table of events\<close>

definition event_log_of :: "string \<Rightarrow> db \<Rightarrow> (int \<times> string) list" where
  "event_log_of n d = map (\<lambda>e. (ev_sequence e, ev_body_hash e)) (filter (\<lambda>e. ev_operation e = n) (events d))"

definition ingest_ok :: "db \<Rightarrow> bool" where
  "ingest_ok d \<longleftrightarrow> events_ok d
     \<and> list_all (\<lambda>o1. op_operation_id o1 = op_name o1) (operations d)
     \<and> list_all (\<lambda>e. ev_operation_id e = ev_operation e) (events d)"

lemma operation_row_ok:
  assumes "operation_row n d = Some (o1, a, b, s)"
  shows "o1 \<in> set (operations d) \<and> op_operation_id o1 = n \<and> get_row sa_name (agents d) (op_server_agent o1) = Some a
    \<and> get_row be_name (benches d) (op_bench o1) = Some b"
proof -
  obtain o2 where f: "find (\<lambda>o1. op_operation_id o1 = n \<and> get_row sa_name (agents d) (op_server_agent o1) \<noteq> None
      \<and> get_row be_name (benches d) (op_bench o1) \<noteq> None) (operations d) = Some o2"
    and r: "Option.bind (get_row sa_name (agents d) (op_server_agent o2)) (\<lambda>a.
     Option.bind (get_row be_name (benches d) (op_bench o2)) (\<lambda>b.
     Some (o2, a, b, opt_row si_name (sites d) (op_managed_site o2)))) = Some (o1, a, b, s)"
    using assms unfolding operation_row_def by (auto simp: bind_eq_Some_conv)
  have "o2 = o1" using r by (auto simp: bind_eq_Some_conv)
  then show ?thesis using find_mem [OF f] r by (auto simp: bind_eq_Some_conv)
qed

text \<open>An update of an operation that keeps what the query joins on.\<close>

definition keeps_join :: "(op_row \<Rightarrow> op_row) \<Rightarrow> bool" where
  "keeps_join f \<longleftrightarrow> (\<forall>o1. op_operation_id (f o1) = op_operation_id o1 \<and> op_server_agent (f o1) = op_server_agent o1
     \<and> op_bench (f o1) = op_bench o1 \<and> op_managed_site (f o1) = op_managed_site o1 \<and> op_name (f o1) = op_name o1)"

lemma find_set_rows:
  "(\<And>r. P (f r) = P r) \<Longrightarrow> find P (set_rows q f t) = map_option (\<lambda>r. if q r then f r else r) (find P t)"
  by (induction t) (auto simp: set_rows_def)

lemma operation_row_set:
  assumes "keeps_join f"
  shows "operation_row n (op_set m f d) =
    map_option (\<lambda>(o1, a, b, s). (if op_name o1 = m then f o1 else o1, a, b, s)) (operation_row n d)"
proof -
  have "find (\<lambda>o1. op_operation_id o1 = n \<and> get_row sa_name (agents d) (op_server_agent o1) \<noteq> None
      \<and> get_row be_name (benches d) (op_bench o1) \<noteq> None) (operations (op_set m f d)) =
    map_option (\<lambda>r. if op_name r = m then f r else r)
      (find (\<lambda>o1. op_operation_id o1 = n \<and> get_row sa_name (agents d) (op_server_agent o1) \<noteq> None
        \<and> get_row be_name (benches d) (op_bench o1) \<noteq> None) (operations d))"
    unfolding operations_op_set by (rule find_set_rows) (use assms in \<open>simp add: keeps_join_def\<close>)
  then show ?thesis
    unfolding operation_row_def op_set_simps
    using assms by (auto simp: keeps_join_def bind_eq_Some_conv split: option.split if_splits Option.bind_split)
qed

lemma keeps_join_last: "keeps_join (\<lambda>o1. o1\<lparr>op_last_sequence := c\<rparr>)"
  by (simp add: keeps_join_def)

lemma keeps_join_result: "keeps_join (op_with_result state error r)"
  by (simp add: keeps_join_def op_with_result_def Let_def)

lemma operation_row_other [simp]:
  "operation_row n (d\<lparr>events := es\<rparr>) = operation_row n d"
  "operation_row n (target_set m g d) = operation_row n d"
  "operation_row n (bulk_target_set m h d) = operation_row n d"
  by (simp_all add: operation_row_def target_set_def bulk_target_set_def)

text \<open>What the insertion of one event does to the tables.\<close>

lemma append_event_effect:
  assumes "ingest_ok d" "append_event rt n n e (cursor, d) = Inr (c, d')"
  shows "ingest_ok d' \<and> c = cursor + 1 \<and> event_log_of m d' = event_log_of m d @ (if m = n then [logged e] else [])
    \<and> operation_row m d' = map_option (\<lambda>(o1, a, b, s).
        (if op_name o1 = n then o1\<lparr>op_last_sequence := c\<rparr> else o1, a, b, s)) (operation_row m d)"
proof -
  have c: "ie_sequence e = c" "c = cursor + 1"
    and i: "ev_insert rt (Some (ie_received e)) (event_document n n e) d = Inr d'"
    using assms(2) by (auto simp: append_event_def bindE_eq_Inr require_eq_Inr)
  obtain b where b: "b = (event_document n n e)\<lparr>ev_received_at := ev_received_at b, ev_name := ev_name b\<rparr>"
    and d': "d' = op_set n (\<lambda>o1. o1\<lparr>op_last_sequence := ie_sequence e\<rparr>) (d\<lparr>events := events d @ [b]\<rparr>)"
    by (rule ev_insert_ok [OF i]) (simp add: event_document_def)
  have ok: "events_ok d'" using ev_insert_appends [OF _ i] assms(1) by (simp add: ingest_ok_def)
  have be: "ev_operation b = n" "ev_operation_id b = n" "ev_sequence b = ie_sequence e" "ev_body_hash b = ie_hash e"
    by (subst b, simp add: event_document_def)+
  have "list_all (\<lambda>o1. op_operation_id o1 = op_name o1) (operations d')"
    using assms(1) by (auto simp: ingest_ok_def d' operations_op_set set_rows_def list_all_iff)
  moreover have "event_log_of m d' = event_log_of m d @ (if m = n then [logged e] else [])"
    by (simp add: event_log_of_def d' be logged_def)
  moreover have "operation_row m d' = map_option (\<lambda>(o1, a, b, s).
        (if op_name o1 = n then o1\<lparr>op_last_sequence := c\<rparr> else o1, a, b, s)) (operation_row m d)"
    unfolding d' operation_row_set [OF keeps_join_last] c(1) by simp
  ultimately show ?thesis using ok assms(1) c be by (simp add: ingest_ok_def d')
qed

lemma foldE_append_effect:
  assumes "ingest_ok d" "foldE (append_event rt n n) es (cursor, d) = Inr (c, d')"
    and "operation_row n d = Some (o1, a, b, s)" "op_name o1 = n" "op_last_sequence o1 = cursor"
  shows "ingest_ok d' \<and> event_log_of n d' = event_log_of n d @ map logged es
    \<and> (\<forall>m. m \<noteq> n \<longrightarrow> event_log_of m d' = event_log_of m d \<and> operation_row m d' = operation_row m d)
    \<and> operation_row n d' = Some (o1\<lparr>op_last_sequence := c\<rparr>, a, b, s)"
  using assms
proof (induction es arbitrary: cursor d o1)
  case Nil
  then show ?case by auto
next
  case (Cons e es)
  obtain c1 d1 where s: "append_event rt n n e (cursor, d) = Inr (c1, d1)"
    and r: "foldE (append_event rt n n) es (c1, d1) = Inr (c, d')"
    using Cons.prems(2) by (auto simp: bindE_eq_Inr)
  note eff = append_event_effect [OF Cons.prems(1) s]
  have names: "op_name o2 \<noteq> n" if "operation_row m d = Some (o2, a2, b2, s2)" "m \<noteq> n" for m o2 a2 b2 s2
    using operation_row_ok [OF that(1)] that(2) Cons.prems(1) by (auto simp: ingest_ok_def list_all_iff)
  have same: "operation_row m d1 = operation_row m d" if "m \<noteq> n" for m
    using eff [of m] names [OF _ that] by (cases "operation_row m d") auto
  have "operation_row n d1 = Some (o1\<lparr>op_last_sequence := c1\<rparr>, a, b, s)"
    using eff [of n] Cons.prems(3,4) by simp
  from Cons.IH [OF _ r this] have "ingest_ok d' \<and> event_log_of n d' = event_log_of n d1 @ map logged es
    \<and> (\<forall>m. m \<noteq> n \<longrightarrow> event_log_of m d' = event_log_of m d1 \<and> operation_row m d' = operation_row m d1)
    \<and> operation_row n d' = Some (o1\<lparr>op_last_sequence := c1\<rparr>\<lparr>op_last_sequence := c\<rparr>, a, b, s)"
    using eff Cons.prems(4) by simp
  then show ?case using eff same by simp
qed

lemma map_of_filter_map:
  "map_of (map (\<lambda>e. (f e, g e)) (filter P xs)) k = map_option g (find (\<lambda>e. P e \<and> f e = k) xs)"
  by (induction xs) auto

lemma fi_operation_row:
  assumes "ingest_ok d" "fi_operation n d = Some i"
  shows "\<exists>o1 a b s. operation_row n d = Some (o1, a, b, s) \<and> op_name o1 = n \<and> oi_last i = op_last_sequence o1
    \<and> oi_agent i = sa_agent_id a \<and> o1 \<in> set (operations d)"
proof -
  obtain o1 a b s where r: "operation_row n d = Some (o1, a, b, s)"
    and i: "oi_last i = op_last_sequence o1" "oi_agent i = sa_agent_id a"
    using assms(2) by (auto simp: fi_operation_def)
  have "op_name o1 = n" using operation_row_ok [OF r] assms(1) by (auto simp: ingest_ok_def list_all_iff)
  then show ?thesis using r i operation_row_ok [OF r] by blast
qed

lemma fi_append_ok:
  assumes "fi_append rt a n k es d = Inr (c, d')"
  obtains o1 ag b s where "operation_row n d = Some (o1, ag, b, s)"
    "op_last_sequence o1 \<noteq> k \<and> d' = d
     \<or> op_last_sequence o1 = k \<and> foldE (append_event rt (op_name o1) n) es (k, d) = Inr (c, d')"
proof -
  obtain row where row: "owned_row a n d = Inr row"
    and f: "(if op_last_sequence (fst row) \<noteq> k
     then (if replayed (op_name (fst row)) es (op_last_sequence (fst row)) d then Inr (op_last_sequence (fst row), d)
           else Inl (IngestionConflictError ''event cursor compare-and-set conflict''))
     else bindE (foldE (append_event rt (op_name (fst row)) n) es (op_last_sequence (fst row), d)) (\<lambda>(last, d').
          bindE (require (map_option op_last_sequence (get_row op_name (operations d') (op_name (fst row))) = Some last
                          \<or> get_row op_name (operations d') (op_name (fst row)) = None \<and> last = 0)
                   (IngestionConflictError ''event cursor commit conflict'')) (\<lambda>_. Inr (last, d')))) = Inr (c, d')"
    using assms unfolding fi_append_def bindE_eq_Inr [of "owned_row a n d"] Let_def by blast
  obtain o1 ag b s where r: "row = (o1, ag, b, s)" by (cases row) auto
  have "operation_row n d = Some (o1, ag, b, s)"
    using row by (auto simp: owned_row_def r result_simps)
  then show ?thesis
    by (rule that) (use f in \<open>auto simp: r bindE_eq_Inr split: if_splits prod.splits\<close>)
qed

interpretation agent_events: event_log "frappe_ingestion rt" ingest_ok event_log_of for rt
proof
  fix d n i
  assume d: "ingest_ok d" and "repo_operation (frappe_ingestion rt) n d = Some i"
  then have o': "fi_operation n d = Some i" by (simp add: frappe_ingestion_def)
  obtain o1 where o1: "op_name o1 = n" "oi_last i = op_last_sequence o1" "o1 \<in> set (operations d)"
    using fi_operation_row [OF d o'] by blast
  then show "0 \<le> oi_last i \<and> map fst (event_log_of n d) = [1..oi_last i]"
    using d by (auto simp: ingest_ok_def events_ok_def list_all_iff event_numbers_def event_log_of_def o_def)
  fix s
  have "find (\<lambda>e. ev_operation_id e = n \<and> ev_sequence e = s) (events d)
      = find (\<lambda>e. ev_operation e = n \<and> ev_sequence e = s) (events d)"
    by (rule find_cong) (use d in \<open>auto simp: ingest_ok_def list_all_iff\<close>)
  then show "map_option se_hash (repo_event (frappe_ingestion rt) n s d) = map_of (event_log_of n d) s"
    by (simp add: frappe_ingestion_def fi_event_def event_log_of_def map_of_filter_map option.map_comp o_def)
next
  fix d n i es a c d'
  assume d: "ingest_ok d" and o': "repo_operation (frappe_ingestion rt) n d = Some i"
    and ap: "repo_append (frappe_ingestion rt) a n (oi_last i) es d = Inr (c, d')"
  have o2: "fi_operation n d = Some i" using o' by (simp add: frappe_ingestion_def)
  obtain o1 ag b s where r: "operation_row n d = Some (o1, ag, b, s)" and n: "op_name o1 = n"
    and l: "oi_last i = op_last_sequence o1" using fi_operation_row [OF d o2] by blast
  have f: "foldE (append_event rt n n) es (op_last_sequence o1, d) = Inr (c, d')"
    using fi_append_ok [of rt a n "oi_last i" es d c d'] ap r n l by (auto simp: frappe_ingestion_def)
  note eff = foldE_append_effect [OF d f r n refl]
  have "fi_operation n d' = Some (i\<lparr>oi_last := c\<rparr>)"
    using o2 eff r by (auto simp: fi_operation_def created_site_domain_def)
  then show "ingest_ok d' \<and> event_log_of n d' = event_log_of n d @ map logged es
      \<and> (\<forall>m. m \<noteq> n \<longrightarrow> event_log_of m d' = event_log_of m d)
      \<and> repo_operation (frappe_ingestion rt) n d' = Some (i\<lparr>oi_last := c\<rparr>)"
    using eff by (simp add: frappe_ingestion_def)
qed

section \<open>Stored results\<close>

definition result_of_row :: "joined_row \<Rightarrow> string option \<times> string option" where
  "result_of_row row = (op_result_json (fst row), op_result_hash (fst row))"

definition stored_result_of :: "string \<Rightarrow> db \<Rightarrow> (string option \<times> string option) option" where
  "stored_result_of n d = map_option result_of_row (operation_row n d)"

text \<open>An update of an operation that keeps what the invariant speaks about, and what is stored of its result.\<close>

definition quiet :: "(op_row \<Rightarrow> op_row) \<Rightarrow> bool" where
  "quiet f \<longleftrightarrow> keeps_join f \<and> (\<forall>o1. op_last_sequence (f o1) = op_last_sequence o1)"

definition keeps_result :: "(op_row \<Rightarrow> op_row) \<Rightarrow> bool" where
  "keeps_result f \<longleftrightarrow> (\<forall>o1. op_result_json (f o1) = op_result_json o1 \<and> op_result_hash (f o1) = op_result_hash o1)"

lemma ingest_ok_set:
  assumes "quiet f" "ingest_ok d"
  shows "ingest_ok (op_set n f d)"
proof -
  have "event_numbers (op_set n f d) m = event_numbers d m" for m by (simp add: event_numbers_def)
  moreover have "map op_name (operations (op_set n f d)) = map op_name (operations d)"
    unfolding operations_op_set by (rule set_rows_key) (use assms(1) in \<open>simp add: quiet_def keeps_join_def\<close>)
  ultimately show ?thesis
    using assms by (auto simp: ingest_ok_def events_ok_def list_all_iff operations_op_set set_rows_in quiet_def keeps_join_def)
qed

lemma ingest_ok_other [simp]:
  "ingest_ok (target_set m g d) = ingest_ok d" "ingest_ok (bulk_target_set m h d) = ingest_ok d"
  by (simp_all add: ingest_ok_def events_ok_def event_numbers_def target_set_def bulk_target_set_def)

lemma stored_result_set:
  assumes "keeps_join f" "keeps_result f"
  shows "stored_result_of m (op_set n f d) = stored_result_of m d"
  unfolding stored_result_of_def operation_row_set [OF assms(1)]
  using assms(2) by (cases "operation_row m d") (auto simp: result_of_row_def keeps_result_def)

lemma stored_result_other [simp]:
  "stored_result_of n (target_set m g d) = stored_result_of n d"
  "stored_result_of n (bulk_target_set m h d) = stored_result_of n d"
  by (simp_all add: stored_result_of_def)

lemma quiet_result: "quiet (op_with_result state error r)"
  by (simp add: quiet_def keeps_join_def op_with_result_def Let_def)

lemma fi_result_stored: "stored_result_of n d = stored_result_of n d' \<Longrightarrow> fi_result n d = fi_result n d'"
  by (cases "operation_row n d"; cases "operation_row n d'")
    (auto simp: stored_result_of_def result_of_row_def fi_result_def)

lemma owned_row_ok [result_simps]:
  "owned_row a n d = Inr row \<longleftrightarrow> operation_row n d = Some row \<and> sa_agent_id (fst (snd row)) = a"
  by (cases row) (auto simp: owned_row_def result_simps)

lemma fi_commit_ok:
  assumes "fi_commit a n h r d = Inr d'"
  shows "d' = d \<or> (\<exists>row state error. operation_row n d = Some row \<and> sa_agent_id (fst (snd row)) = a
    \<and> result_state row r = Inr (state, error) \<and> d' = write_result (fst row) state error r d)"
  using assms unfolding fi_commit_def bindE_eq_Inr
  by (auto simp: result_simps split: if_splits prod.splits)

lemma write_result_effect:
  assumes "ingest_ok d" "operation_row n d = Some row"
  shows "ingest_ok (write_result (fst row) state error r d)
    \<and> (m \<noteq> n \<longrightarrow> operation_row m (write_result (fst row) state error r d) = operation_row m d)"
proof -
  have name: "op_name (fst row) = n"
    using operation_row_ok [of n d "fst row" "fst (snd row)" "fst (snd (snd row))" "snd (snd (snd row))"] assms
    by (auto simp: ingest_ok_def list_all_iff)
  have "operation_row m (op_set n (op_with_result state error r) d) = operation_row m d" if "m \<noteq> n"
  proof (cases "operation_row m d")
    case (Some x)
    obtain o2 a2 b2 s2 where x: "x = (o2, a2, b2, s2)" by (cases x) auto
    have "op_name o2 = m" using operation_row_ok [OF Some [unfolded x]] assms(1) by (auto simp: ingest_ok_def list_all_iff)
    then show ?thesis using that by (simp add: operation_row_set [OF keeps_join_result] Some x)
  qed (simp add: operation_row_set [OF keeps_join_result])
  then show ?thesis
    using ingest_ok_set [OF quiet_result assms(1)] by (simp add: write_result_def Let_def name)
qed

interpretation agent_results: result_log "frappe_ingestion rt" ingest_ok stored_result_of for rt
proof
  fix n d d'
  show "stored_result_of n d = stored_result_of n d' \<Longrightarrow>
      repo_result (frappe_ingestion rt) n d = repo_result (frappe_ingestion rt) n d'"
    unfolding frappe_ingestion_def ingestion_repository.simps by (rule fi_result_stored)
next
  fix d n i a h r d'
  assume d: "ingest_ok d" and c: "repo_commit (frappe_ingestion rt) a n h r d = Inr d'"
  have "fi_commit a n h r d = Inr d'" using c by (simp add: frappe_ingestion_def)
  from fi_commit_ok [OF this] show "ingest_ok d' \<and> (\<forall>m. m \<noteq> n \<longrightarrow> stored_result_of m d' = stored_result_of m d)"
    using d write_result_effect [OF d] by (auto simp: stored_result_of_def)
next
  fix d a n k es c d'
  assume d: "ingest_ok d" and "repo_append (frappe_ingestion rt) a n k es d = Inr (c, d')"
  then have ap: "fi_append rt a n k es d = Inr (c, d')" by (simp add: frappe_ingestion_def)
  obtain o1 ag b s where r: "operation_row n d = Some (o1, ag, b, s)"
    and f: "op_last_sequence o1 \<noteq> k \<and> d' = d
     \<or> op_last_sequence o1 = k \<and> foldE (append_event rt (op_name o1) n) es (k, d) = Inr (c, d')"
    by (rule fi_append_ok [OF ap])
  have n: "op_name o1 = n" using operation_row_ok [OF r] d by (auto simp: ingest_ok_def list_all_iff)
  have "ingest_ok d' \<and> stored_result_of m d' = stored_result_of m d" for m
    using f
  proof (elim disjE conjE)
    assume "op_last_sequence o1 = k" "foldE (append_event rt (op_name o1) n) es (k, d) = Inr (c, d')"
    then have "foldE (append_event rt n n) es (op_last_sequence o1, d) = Inr (c, d')" using n by simp
    from foldE_append_effect [OF d this r n refl]
    show ?thesis using r by (cases "m = n") (auto simp: stored_result_of_def result_of_row_def)
  qed (use d in simp)
  then show "ingest_ok d' \<and> (\<forall>m. stored_result_of m d' = stored_result_of m d)" by blast
qed

section \<open>What agents can do to what is stored\<close>

definition harmless :: "db \<Rightarrow> db \<Rightarrow> bool" where
  "harmless d d' \<longleftrightarrow> (ingest_ok d \<longrightarrow> ingest_ok d') \<and> (\<forall>n. stored_result_of n d' = stored_result_of n d)"

lemma harmless_refl [simp]: "harmless d d"
  by (simp add: harmless_def)

lemma harmless_trans: "harmless d d' \<Longrightarrow> harmless d' d'' \<Longrightarrow> harmless d d''"
  by (simp add: harmless_def)

lemma harmless_set: "quiet f \<Longrightarrow> keeps_result f \<Longrightarrow> harmless d (op_set n f d)"
  by (simp add: harmless_def ingest_ok_set stored_result_set quiet_def)

lemma harmless_other [simp]: "harmless d (target_set n g d)" "harmless d (bulk_target_set n h d)"
  by (simp_all add: harmless_def)

lemma quarantine_harmless: "harmless d (quarantine now c d)"
  unfolding quarantine_def Let_def
  by (auto intro!: harmless_trans [OF harmless_trans [OF harmless_set harmless_other(1)] harmless_other(2)]
      harmless_trans [OF harmless_set harmless_other(1)] simp: quiet_def keeps_join_def keeps_result_def)

lemma scan_queue_harmless: "scan_queue lifetime wanted now cs d = Inr (found, d') \<Longrightarrow> harmless d d'"
proof (induction cs arbitrary: d)
  case (Cons c cs)
  then show ?case
    using harmless_trans [OF quarantine_harmless [of d now c]]
    by (auto simp: bindE_eq_Inr split: if_splits sum.splits exn.splits)
qed simp

lemma lease_harmless:
  assumes "lease_command lifetime skew a allowed wanted clock d = Inr (r, d')"
  shows "harmless d d'"
proof (cases "allowed = Some []")
  case False
  define now where "now = naive_utc clock"
  obtain found d1 where sc: "scan_queue lifetime wanted now (candidates d a allowed now) d = Inr (found, d1)"
    and f: "(case found of None \<Rightarrow> Inr (None, d1)
        | Some (c, env) \<Rightarrow>
            let stamped = restamp lifetime now env;
                d2 = target_set (op_name c) (\<lambda>t. t\<lparr>ot_state := ''leased''\<rparr>)
                       (op_set (op_name c) (lease_row lifetime skew now) d1) in
            bindE (canonical_json (JObj stamped)) (\<lambda>t.
            bindE (json_loads t) (\<lambda>command. Inr (Some command, d2)))) = Inr (r, d')"
    using assms False unfolding lease_command_def Let_def now_def [symmetric] if_not_P [OF False] bindE_eq_Inr
    by (auto simp: bindE_eq_Inr)
  have q: "quiet (lease_row lifetime skew now)" "keeps_result (lease_row lifetime skew now)"
    by (simp_all add: quiet_def keeps_join_def keeps_result_def lease_row_def)
  have "harmless d1 d'"
    using f harmless_trans [OF harmless_set [OF q] harmless_other(1)]
    by (auto simp: bindE_eq_Inr Let_def split: option.splits)
  then show ?thesis using harmless_trans [OF scan_queue_harmless [OF sc]] by simp
qed (use assms in \<open>simp add: lease_command_def Let_def\<close>)

text \<open>Any number of reports and polls of any agents, at any times.\<close>

inductive agent_history :: "db \<Rightarrow> db \<Rightarrow> bool" where
  start: "agent_history d d"
| reported: "agent_history d d' \<Longrightarrow> report (frappe_ingestion rt) d' d'' \<Longrightarrow> agent_history d d''"
| polled: "agent_history d d' \<Longrightarrow> lease_command lifetime skew a allowed wanted clock d' = Inr (r, d'')
    \<Longrightarrow> agent_history d d''"

section \<open>Claims\<close>

text \<open>
  C21: a batch of events that is accepted extends the log of one operation, which stays numbered from
  1 to the sequence the agent is answered, and leaves every other log alone; every event of the batch
  is in the log with its digest. Sending the same batch again, at any later time, is answered the same
  and changes nothing.
\<close>

theorem events_ingested:
  assumes "ingest_ok d" and "ingest_events (frappe_ingestion rt) (JObj request) (Aware t) d = Inr (c, d')"
  shows "ingest_ok d' \<and> (\<exists>n parsed new. parse_events n (jget request ''events'') t = Inr parsed
    \<and> event_log_of n d' = event_log_of n d @ new \<and> map fst (event_log_of n d') = [1..c]
    \<and> logged ` set parsed \<subseteq> set (event_log_of n d')
    \<and> (\<forall>m. m \<noteq> n \<longrightarrow> event_log_of m d' = event_log_of m d))
    \<and> (\<forall>t'\<ge>t. ingest_events (frappe_ingestion rt) (JObj request) (Aware t') d' = Inr (c, d'))"
  using agent_events.ingested [OF assms] unfolding json.case by blast

text \<open>
  C22: the result of an operation that was stored with a final status stays what it is, whatever
  events and results agents report and whatever commands they poll afterwards.
\<close>

theorem final_result_kept:
  assumes "agent_history d d'" and "ingest_ok d"
    and "fi_result n d = Inr (Some e)" "sr_status e \<in> set ing_terminal"
  shows "fi_result n d' = Inr (Some e) \<and> stored_result_of n d' = stored_result_of n d"
proof -
  have "ingest_ok d' \<and> stored_result_of n d' = stored_result_of n d"
    using assms
  proof (induction rule: agent_history.induct)
    case (reported d d' rt d'')
    then have ih: "ingest_ok d'" "stored_result_of n d' = stored_result_of n d" by auto
    have "repo_result (frappe_ingestion rt) n d' = Inr (Some e)"
      using reported.prems(2) fi_result_stored [OF ih(2)] by (simp add: frappe_ingestion_def)
    then show ?case
      using agent_results.report_keeps [OF reported.hyps(2) ih(1)] reported.prems(3) ih(2) by simp
  next
    case (polled d d')
    then show ?case using lease_harmless [OF polled.hyps(2)] by (auto simp: harmless_def)
  qed simp
  then show ?thesis using fi_result_stored [of n d' d] assms(3) by simp
qed

text \<open>
  C23: a site creation reaches the state succeeded by a result only with the evidence of its handover:
  apps and public HTTPS verified, the required apps those of the bench, and the credential received.
\<close>

theorem creation_needs_handover:
  assumes "ingest_ok d" and "ingest_result (frappe_ingestion rt) request t d = Inr (r, d')"
    and "get_row op_name (operations d') n = Some o2" "op_state o2 = ''succeeded''" "op_type o2 \<in> set creation_types"
  shows "(\<exists>o1. get_row op_name (operations d) n = Some o1 \<and> op_state o1 = ''succeeded'')
    \<or> (\<exists>b. get_row be_name (benches d) (op_bench o2) = Some b
        \<and> creation_handover_ready (op_result_json o2) (op_credential_received o2)
            (Some (if truthy (be_required_apps b) then or_empty (be_required_apps b) else ''[]'')))"
proof -
  obtain a m existing where "accept_result (frappe_ingestion rt) a m existing r d = Inr (r, d')"
    using ingest_result_steps [OF assms(2)] by blast
  then have "d' = d \<or> fi_commit a m (map_option sr_hash existing) r d = Inr d'"
    using accept_result_cases by (fastforce simp: frappe_ingestion_def)
  then have "d' = d \<or> (\<exists>row state error. operation_row m d = Some row
      \<and> result_state row r = Inr (state, error) \<and> d' = write_result (fst row) state error r d)"
    using fi_commit_ok by blast
  then show ?thesis
  proof (elim disjE exE conjE)
    fix row state error
    assume row: "operation_row m d = Some row" and st: "result_state row r = Inr (state, error)"
      and d': "d' = write_result (fst row) state error r d"
    obtain o1 ag b s where x: "row = (o1, ag, b, s)" by (cases row) auto
    note ok = operation_row_ok [OF row [unfolded x]]
    have ops: "operations d' = set_rows (\<lambda>x. op_name x = op_name o1) (op_with_result state error r) (operations d)"
      by (simp add: d' x write_result_def Let_def target_set_def bulk_target_set_def operations_op_set)
    have g: "get_row op_name (operations d') n =
        (if n = op_name o1 then map_option (op_with_result state error r) (get_row op_name (operations d) n)
         else get_row op_name (operations d) n)"
      unfolding ops by (rule get_row_set_rows) (simp add: op_with_result_def Let_def)
    show ?thesis
    proof (cases "n = op_name o1")
      case True
      have "get_row op_name (operations d) n = Some o1"
        using distinct_get_row [of op_name "operations d" o1] ok assms(1) True by (simp add: ingest_ok_def events_ok_def)
      then have o2: "o2 = op_with_result state error r o1" using g True assms(3) by simp
      have f: "op_type o2 = op_type o1" "op_bench o2 = op_bench o1" "op_result_json o2 = Some (ir_json r)"
          "op_credential_received o2 = op_credential_received o1"
        unfolding o2 by (simp_all add: op_with_result_def Let_def)
      show ?thesis
      proof (cases "op_state o1 = ''succeeded''")
        case False
        then have "state = ''succeeded''" using assms(4) o2 by (simp add: op_with_result_def Let_def split: if_splits)
        then have "creation_handover_ready (Some (ir_json r)) (op_credential_received o1)
            (Some (if truthy (be_required_apps b) then or_empty (be_required_apps b) else ''[]''))"
          using st assms(5) f(1) unfolding x result_state_def prod.case
          by (auto simp: bindE_eq_Inr split: if_splits json.splits)
        then show ?thesis using ok f by auto
      qed (use \<open>get_row op_name (operations d) n = Some o1\<close> in blast)
    qed (use g assms(3,4) in force)
  qed (use assms(3,4) in blast)
qed

section \<open>A finished operation\<close>

text \<open>An instant, and the text it is rendered as.\<close>

lemma demo_instant: "fromisoformat (replace_Z ''1970-01-01T00:00:00Z'') = Some (Aware 0)"
  by (simp add: fromisoformat_def replace_Z_def code_points_def is_cont_def separator_at_def iso_date_def digits_at_def
    is_digit_def digits_val_def digit_val_def calendar_date_def days_in_month_def days_from_civil_def Let_def
    iso_time_def iso_clock_def is_sign_def iso_fraction_def day_and_clock_def clock_us_def seconds_def
    iso_offset_def us_per_second_def us_per_day_def)

lemma demo_instant_text: "isoformat_utc 0 = ''1970-01-01T00:00:00+00:00''"
  by code_simp

definition finished_op :: op_row where
  "finished_op = approved_op\<lparr>op_state := ''succeeded'', op_result_hash := Some (replicate 64 CHR ''d''),
     op_result_json := Some (json_dumps (JObj [(''status'', JStr ''succeeded'')]))\<rparr>"

definition finished_db :: db where
  "finished_db = approved_db\<lparr>operations := [finished_op]\<rparr>"

definition demo_event_json :: json where
  "demo_event_json = JObj [(''sequence'', JInt 1), (''attempt'', JNull), (''step'', JNull), (''kind'', JStr ''done''),
     (''details'', JNull), (''created_at'', JStr ''1970-01-01T00:00:00Z'')]"

definition demo_events :: "(string \<times> json) list" where
  "demo_events = [(''protocol_version'', JStr ''1.0''), (''agent_id'', JStr ''agent-1''),
     (''audience'', JStr ''frappe-controller''), (''operation_id'', JStr demo_uuid),
     (''events'', JList [demo_event_json])]"

lemma demo_uuid_field: "ing_uuid (JStr demo_uuid) n = Inr demo_uuid"
  using py_uuid_canonical [OF demo_uuid_canonical] py_lower_demo
  by (simp add: ing_uuid_def ing_text_def text_field_def encodeE_def)
     (simp add: demo_uuid_def clean_text_def string_defs)

lemma demo_time_field: "ing_time (JStr ''1970-01-01T00:00:00Z'') x = Inr 0"
  by (simp add: ing_time_def ing_text_def text_field_def clean_text_def string_defs encodeE_def demo_instant
     astimezone_utc_def first_day_def last_day_def us_per_day_def days_from_civil_def Let_def)

lemma demo_common: "ing_common (JObj demo_events)
    [''protocol_version'', ''agent_id'', ''audience'', ''operation_id'', ''events''] = Inr (demo_events, ''agent-1'', demo_uuid)"
  by (simp add: ing_common_def ing_obj_def obj_field_def ing_exact_def exact_fields_def demo_events_def demo_uuid_field
     ing_text_def text_field_def clean_text_def string_defs encodeE_def)

lemma demo_event_canonical: "\<exists>p. ing_canonical (event_body [(''sequence'', JInt 1), (''attempt'', JNull), (''step'', JNull), (''kind'', JStr ''done''),
     (''details'', JNull), (''created_at'', JStr ''1970-01-01T00:00:00Z'')] 0) n 67584 = Inr p"
  by (simp add: ing_canonical_def event_body_def demo_instant_text ing_marked_def ing_sensitive_markers_def string_defs
      quote_str_def escape_char_def int_str_def nat_str_small digit_char_def encodeE_def)

lemma demo_parsed: "\<exists>e. parse_events demo_uuid (JList [demo_event_json]) 0 = Inr [e] \<and> ie_sequence e = 1 \<and> ie_details e = None \<and> is_sha256 (ie_hash e)
    \<and> ie_attempt e = None \<and> ie_received e = 0"
proof -
  obtain p where p: "ing_canonical (event_body [(''sequence'', JInt 1), (''attempt'', JNull), (''step'', JNull), (''kind'', JStr ''done''),
     (''details'', JNull), (''created_at'', JStr ''1970-01-01T00:00:00Z'')] 0) (''events['' @ nat_str 0 @ '']'') 67584 = Inr p"
    using demo_event_canonical by blast
  have h: "is_sha256 (snd p)" using p by (auto simp: ing_canonical_def result_simps)
  show ?thesis
    using p h unfolding demo_event_json_def
    by (simp add: parse_events_def parse_event_def ing_obj_def obj_field_def ing_exact_def exact_fields_def event_fields_def
       opt_int_def opt_str_def demo_time_field five_minutes_def seconds_def us_per_second_def ing_text_def text_field_def
       clean_text_def string_defs encodeE_def ing_kind_def insert_commute)
qed
lemma finished_row: "operation_row demo_uuid finished_db = Some (finished_op, demo_agent, demo_bench, Some demo_site)"
  by (simp add: operation_row_def finished_db_def approved_db_def demo_db_def finished_op_def approved_op_def demo_op_def
      get_row_def demo_agent_def demo_bench_def demo_site_def opt_row_def)

lemma finished_ok: "ingest_ok finished_db"
  by (simp add: ingest_ok_def events_ok_def event_numbers_def finished_db_def approved_db_def demo_db_def empty_db_def
      finished_op_def approved_op_def demo_op_def)

lemma finished_result:
  "fi_result demo_uuid finished_db = Inr (Some \<lparr>sr_operation = demo_uuid, sr_status = ''succeeded'',
     sr_hash = replicate 64 CHR ''d'', sr_json = json_dumps (JObj [(''status'', JStr ''succeeded'')])\<rparr>)"
proof -
  have "json_loads (json_dumps (JObj [(''status'', JStr ''succeeded'')])) = Inr (JObj [(''status'', JStr ''succeeded'')])"
    using loads_dumps [OF keeps_hooks(1), of "JObj [(''status'', JStr ''succeeded'')]"] by (simp add: json_loads_def)
  moreover have "json_dumps (JObj [(''status'', JStr ''succeeded'')]) \<noteq> []" by simp
  ultimately show ?thesis
    by (simp add: fi_result_def finished_row read_result_def finished_op_def stored_status_def opt_str_def
        del: json_dumps.simps)
qed

lemma finished_ingest: "\<exists>d'. ingest_events (frappe_ingestion demo_runtime) (JObj demo_events) (Aware 0) finished_db = Inr (1, d')"
proof -
  obtain e where e: "parse_events demo_uuid (JList [demo_event_json]) 0 = Inr [e]" "ie_sequence e = 1" "ie_details e = None"
      "is_sha256 (ie_hash e)" "ie_attempt e = None" "ie_received e = 0" using demo_parsed by blast
  have v: "jget demo_events ''events'' = JList [demo_event_json]" by (simp add: demo_events_def)
  have i: "repo_operation (frappe_ingestion demo_runtime) demo_uuid finished_db = Some
    \<lparr>oi_operation_id = demo_uuid, oi_agent = ''agent-1'', oi_bench = ''bench-1'', oi_domain = Some ''a.example'',
     oi_type = ''site.backup'', oi_state = ''succeeded'', oi_last = 0\<rparr>"
    by (simp add: frappe_ingestion_def fi_operation_def finished_row created_site_domain_def finished_op_def approved_op_def
        demo_op_def demo_agent_def demo_bench_def demo_site_def creation_types_def)
  have own: "ing_owner (frappe_ingestion demo_runtime) ''agent-1'' demo_uuid finished_db = Inr
    \<lparr>oi_operation_id = demo_uuid, oi_agent = ''agent-1'', oi_bench = ''bench-1'', oi_domain = Some ''a.example'',
     oi_type = ''site.backup'', oi_state = ''succeeded'', oi_last = 0\<rparr>"
    by (simp add: ing_owner_def i)
  have s: "scan_events (frappe_ingestion demo_runtime) demo_uuid finished_db [e] 0 [] = Inr (1, [e])"
    using e(2) by (simp add: frappe_ingestion_def fi_event_def finished_db_def approved_db_def demo_db_def empty_db_def)
  have g: "get_row op_name (operations finished_db) demo_uuid = Some finished_op" "op_name finished_op = demo_uuid"
      "op_operation_id finished_op = demo_uuid" "op_last_sequence finished_op = 0" "events finished_db = []"
    by (simp_all add: get_row_def finished_db_def finished_op_def approved_op_def approved_db_def demo_db_def empty_db_def demo_op_def)
  obtain d' where "ev_insert demo_runtime (Some (ie_received e)) (event_document demo_uuid demo_uuid e) finished_db = Inr d'"
    using e g by (simp add: ev_insert_def Let_def ev_before_insert_def event_document_def ev_validate_def require_sha256_def
        insert_row_def get_row_def [of ev_name])
  then have a: "append_event demo_runtime demo_uuid demo_uuid e (0, finished_db) = Inr (1, d')"
    using e(2) by (simp add: append_event_def)
  have "operation_row demo_uuid d' = Some (finished_op\<lparr>op_last_sequence := 1\<rparr>, demo_agent, demo_bench, Some demo_site)"
    using append_event_effect [OF finished_ok a, of demo_uuid] finished_row g(2) by simp
  then have "get_row op_name (operations d') demo_uuid = Some (finished_op\<lparr>op_last_sequence := 1\<rparr>)"
    using append_event_effect [OF finished_ok a, of demo_uuid] operation_row_ok
      distinct_get_row [of op_name "operations d'" "finished_op\<lparr>op_last_sequence := 1\<rparr>"] g(2)
    by (fastforce simp: ingest_ok_def events_ok_def)
  then have "repo_append (frappe_ingestion demo_runtime) ''agent-1'' demo_uuid 0 [e] finished_db = Inr (1, d')"
    using a finished_row g(2,4)
    by (simp add: frappe_ingestion_def fi_append_def owned_row_def demo_agent_def Let_def)
  then show ?thesis
    unfolding ingest_events_def ing_received_def datetime.case bindE_Inr demo_common prod.case own v e(1)
    using s by simp
qed

theorem events_ingested_witness:
  "\<exists>d' n. ingest_events (frappe_ingestion demo_runtime) (JObj demo_events) (Aware 0) finished_db = Inr (1, d')
     \<and> map fst (event_log_of n d') = [1]
     \<and> ingest_events (frappe_ingestion demo_runtime) (JObj demo_events) (Aware 60) d' = Inr (1, d')"
proof -
  obtain d' where d': "ingest_events (frappe_ingestion demo_runtime) (JObj demo_events) (Aware 0) finished_db = Inr (1, d')"
    using finished_ingest by blast
  have a: "\<forall>t'\<ge>0. ingest_events (frappe_ingestion demo_runtime) (JObj demo_events) (Aware t') d' = Inr (1, d')"
    using events_ingested [OF finished_ok d'] by blast
  obtain n where "map fst (event_log_of n d') = [1..1]"
    using events_ingested [OF finished_ok d'] by blast
  then have n: "map fst (event_log_of n d') = [1]" by simp
  show ?thesis by (rule exI [of _ d'], rule exI [of _ n]) (use d' a n in simp)
qed

theorem final_result_kept_witness:
  "\<exists>d'. agent_history finished_db d' \<and> finished_db \<noteq> d' \<and> fi_result demo_uuid d' = fi_result demo_uuid finished_db"
proof -
  obtain d' where d': "ingest_events (frappe_ingestion demo_runtime) (JObj demo_events) (Aware 0) finished_db = Inr (1, d')"
    using finished_ingest by blast
  have h: "agent_history finished_db d'"
    by (rule agent_history.reported [OF agent_history.start report.of_events [OF d']])
  obtain n where "map fst (event_log_of n d') = [1..1]"
    using agent_events.ingested [OF finished_ok d'] by blast
  moreover have "event_log_of n finished_db = []"
    by (simp add: event_log_of_def finished_db_def approved_db_def demo_db_def empty_db_def)
  ultimately have "finished_db \<noteq> d'" by auto
  then show ?thesis
    using h final_result_kept [OF h finished_ok finished_result] finished_result by (auto simp: ing_terminal_def)
qed

section \<open>A site creation\<close>

text \<open>A creation whose agent reports its handover.\<close>

definition creating_op :: op_row where
  "creating_op = approved_op\<lparr>op_state := ''running'', op_type := ''site.create_blank'', op_managed_site := None,
     op_credential_received := Some 5\<rparr>"

definition creating_bench :: bench_row where
  "creating_bench = demo_bench\<lparr>be_required_apps := Some (json_dumps (JList [JStr ''frappe'']))\<rparr>"

definition creating_db :: db where
  "creating_db = approved_db\<lparr>operations := [creating_op], benches := [creating_bench]\<rparr>"

definition handover_evidence :: "(string \<times> json) list" where
  "handover_evidence = [(''apps_verified'', JBool True), (''public_https_verified'', JBool True),
     (''required_apps'', JList [JStr ''frappe'']), (''version'', JInt 1)]"

definition created_result :: "(string \<times> json) list" where
  "created_result = [(''attempt'', JInt 1), (''bench_id'', JStr ''bench-1''), (''error_code'', JNull), (''max_attempts'', JInt 3),
     (''operation'', JStr ''site.create_blank''), (''operation_id'', JStr demo_uuid),
     (''result'', JObj [(''readiness'', JObj handover_evidence)]), (''site_domain'', JStr ''a.example''),
     (''status'', JStr ''succeeded'')]"

definition created_request :: json where
  "created_request = hook_request ''agent-1'' demo_uuid ''result'' (JObj created_result)"

lemma creating_row: "operation_row demo_uuid creating_db = Some (creating_op, demo_agent, creating_bench, None)"
  by (simp add: operation_row_def creating_db_def approved_db_def demo_db_def creating_op_def approved_op_def demo_op_def
      get_row_def demo_agent_def creating_bench_def demo_bench_def opt_row_def)

lemma creating_ok: "ingest_ok creating_db"
  by (simp add: ingest_ok_def events_ok_def event_numbers_def creating_db_def approved_db_def demo_db_def empty_db_def
      creating_op_def approved_op_def demo_op_def)

lemma created_canonical: "\<exists>h. ing_canonical (JObj created_result) ''result'' 262144 = Inr (json_dumps (JObj created_result), h)"
proof -
  have "ascii_json (JObj created_result)" using demo_uuid_ascii by (simp add: created_result_def handover_evidence_def)
  then have "encodeE (json_dumps (JObj created_result)) = Inr (json_dumps (JObj created_result))"
    using ascii_no_surrogate [OF ascii_dumps] by (simp add: encodeE_def del: json_dumps.simps ascii_json.simps)
  moreover have "\<not> ing_sensitive (JObj created_result)"
    by (simp add: created_result_def handover_evidence_def ing_marked_def ing_sensitive_markers_def string_defs)
  moreover have "length (json_dumps (JObj created_result)) \<le> 262144"
    by (simp add: created_result_def handover_evidence_def quote_str_def escape_char_def int_str_def nat_str_small digit_char_def demo_uuid_def)
  moreover have "finite_json (JObj created_result)" by (simp add: created_result_def handover_evidence_def)
  ultimately show ?thesis by (simp add: ing_canonical_def del: json_dumps.simps ing_sensitive.simps finite_json.simps)
qed

lemma created_reads: "json_loads (json_dumps (JObj created_result)) = Inr (JObj created_result)"
proof -
  have "plain_json (JObj created_result)" by (simp add: created_result_def handover_evidence_def)
  moreover have "canon (JObj created_result) = JObj created_result" by (simp add: created_result_def handover_evidence_def)
  ultimately show ?thesis
    using loads_dumps [OF keeps_hooks(1)] by (simp add: json_loads_def del: json_dumps.simps plain_json.simps canon.simps)
qed

lemma created_apps: "json_loads (json_dumps (JList [JStr ''frappe''])) = Inr (JList [JStr ''frappe''])"
  using loads_dumps [OF keeps_hooks(1), of "JList [JStr ''frappe'']"] by (simp add: json_loads_def)

lemma created_common: "ing_common created_request
    [''protocol_version'', ''agent_id'', ''audience'', ''operation_id'', ''result'']
    = Inr ([(''protocol_version'', JStr ''1.0''), (''agent_id'', JStr ''agent-1''),
           (''audience'', JStr ''frappe-controller''), (''operation_id'', JStr demo_uuid), (''result'', JObj created_result)], ''agent-1'', demo_uuid)"
  by (simp add: ing_common_def ing_obj_def obj_field_def ing_exact_def exact_fields_def created_request_def hook_request_def demo_uuid_field
     ing_text_def text_field_def clean_text_def string_defs encodeE_def)

lemma created_ready:
  assumes "json_dumps (JObj created_result) \<noteq> []" "json_dumps (JList [JStr ''frappe'']) \<noteq> []"
  shows "creation_handover_ready (Some (json_dumps (JObj created_result))) (Some 5) (Some (json_dumps (JList [JStr ''frappe''])))"
  using assms created_reads created_apps
  by (simp add: creation_handover_ready_def json_or_null_def Let_def created_result_def [of ] handover_evidence_def readiness_apps_def
       app_name_def string_defs del: json_dumps.simps)


lemma created_parsed: "\<exists>h. parse_result (frappe_ingestion demo_runtime)
    \<lparr>oi_operation_id = demo_uuid, oi_agent = ''agent-1'', oi_bench = ''bench-1'', oi_domain = Some ''a.example'',
     oi_type = ''site.create_blank'', oi_state = ''running'', oi_last = 0\<rparr> (JObj created_result) 7 creating_db
   = Inr \<lparr>ir_operation = demo_uuid, ir_status = ''succeeded'', ir_hash = h, ir_json = json_dumps (JObj created_result),
       ir_error = None, ir_received = 7\<rparr>"
proof -
  obtain h where h: "ing_canonical (JObj created_result) ''result'' 262144 = Inr (json_dumps (JObj created_result), h)"
    using created_canonical by blast
  have k: "jkeys created_result \<subseteq> set result_allowed" "''status'' \<in> jkeys created_result"
      "set result_required \<subseteq> jkeys created_result" "''accepted'' \<notin> jkeys created_result"
      "jkeys created_result \<noteq> {''status'', ''error_code''}"
    by (auto simp: created_result_def result_allowed_def result_required_def insert_eq_iff)
  have g: "jget created_result ''status'' = JStr ''succeeded''" "jget created_result ''error_code'' = JNull"
      "jget created_result ''operation_id'' = JStr demo_uuid" "jget created_result ''bench_id'' = JStr ''bench-1''"
      "jget created_result ''site_domain'' = JStr ''a.example''" "jget created_result ''operation'' = JStr ''site.create_blank''"
      "jget created_result ''attempt'' = JInt 1" "jget created_result ''max_attempts'' = JInt 3"
    by (simp_all add: created_result_def)
  have s: "ing_text (JStr ''succeeded'') ''status'' 32 = Inr ''succeeded''"
    by (simp add: ing_text_def text_field_def clean_text_def string_defs encodeE_def)
  show ?thesis
    using k g s h
    by (simp add: parse_result_def ing_obj_def obj_field_def ing_states_def ing_terminal_def full_result_def demo_uuid_field
       result_identity_def json_opt_def attempt_ok_def del: json_dumps.simps)
qed

lemma created_ingest: "\<exists>r d'. ingest_result (frappe_ingestion demo_runtime) created_request (Aware 7) creating_db = Inr (r, d')
    \<and> (\<exists>o2. get_row op_name (operations d') demo_uuid = Some o2 \<and> op_state o2 = ''succeeded'' \<and> op_type o2 = ''site.create_blank''
        \<and> op_bench o2 = ''bench-1'')"
proof -
  obtain h where p: "parse_result (frappe_ingestion demo_runtime)
    \<lparr>oi_operation_id = demo_uuid, oi_agent = ''agent-1'', oi_bench = ''bench-1'', oi_domain = Some ''a.example'',
     oi_type = ''site.create_blank'', oi_state = ''running'', oi_last = 0\<rparr> (JObj created_result) 7 creating_db
   = Inr \<lparr>ir_operation = demo_uuid, ir_status = ''succeeded'', ir_hash = h, ir_json = json_dumps (JObj created_result),
       ir_error = None, ir_received = 7\<rparr>" using created_parsed by blast
  have own: "ing_owner (frappe_ingestion demo_runtime) ''agent-1'' demo_uuid creating_db = Inr
    \<lparr>oi_operation_id = demo_uuid, oi_agent = ''agent-1'', oi_bench = ''bench-1'', oi_domain = Some ''a.example'',
     oi_type = ''site.create_blank'', oi_state = ''running'', oi_last = 0\<rparr>"
    using demo_payload_json
    by (simp add: ing_owner_def frappe_ingestion_def fi_operation_def creating_row created_site_domain_def creating_op_def
        approved_op_def demo_op_def demo_agent_def creating_bench_def demo_bench_def creation_types_def opt_str_def)
  have x: "repo_result (frappe_ingestion demo_runtime) demo_uuid creating_db = Inr None"
    by (simp add: frappe_ingestion_def fi_result_def creating_row read_result_def creating_op_def approved_op_def demo_op_def)
  have ne: "json_dumps (JObj created_result) \<noteq> []" "json_dumps (JList [JStr ''frappe'']) \<noteq> []" by simp_all
  have f: "op_type creating_op = ''site.create_blank''" "op_credential_received creating_op = Some 5"
      "op_result_hash creating_op = None" "op_name creating_op = demo_uuid" "op_bench creating_op = ''bench-1''"
      "be_required_apps creating_bench = Some (json_dumps (JList [JStr ''frappe'']))" "sa_agent_id demo_agent = ''agent-1''"
      "op_bulk_target creating_op = None" "operations creating_db = [creating_op]"
    by (simp_all add: creating_op_def approved_op_def demo_op_def creating_bench_def demo_agent_def creating_db_def)
  define r where "r = \<lparr>ir_operation = demo_uuid, ir_status = ''succeeded'', ir_hash = h, ir_json = json_dumps (JObj created_result),
       ir_error = None, ir_received = 7\<rparr>"
  have "result_state (creating_op, demo_agent, creating_bench, None) r = Inr (''succeeded'', None)"
    using created_ready [OF ne] f ne by (simp add: result_state_def r_def del: json_dumps.simps)
  then have c: "repo_commit (frappe_ingestion demo_runtime) ''agent-1'' demo_uuid None r creating_db
      = Inr (write_result creating_op ''succeeded'' None r creating_db)"
    using f by (simp add: frappe_ingestion_def fi_commit_def owned_row_def creating_row)
  have i: "ingest_result (frappe_ingestion demo_runtime) created_request (Aware 7) creating_db
      = Inr (r, write_result creating_op ''succeeded'' None r creating_db)"
    unfolding ingest_result_def ing_received_def datetime.case bindE_Inr created_common prod.case own
    using p c x by (simp add: accept_result_def r_def [symmetric] del: json_dumps.simps)
  have "get_row op_name (operations (write_result creating_op ''succeeded'' None r creating_db)) demo_uuid
      = Some (op_with_result ''succeeded'' None r creating_op)"
    using f by (simp add: write_result_def Let_def target_set_def operations_op_set set_rows_def get_row_def op_with_result_def)
  then show ?thesis using i f by (auto simp: op_with_result_def Let_def)
qed

theorem creation_needs_handover_witness:
  "\<exists>r d' o2. ingest_result (frappe_ingestion demo_runtime) created_request (Aware 7) creating_db = Inr (r, d')
     \<and> get_row op_name (operations d') demo_uuid = Some o2 \<and> op_state o2 = ''succeeded''
     \<and> creation_handover_ready (op_result_json o2) (op_credential_received o2) (be_required_apps creating_bench)"
proof -
  obtain r d' o2 where i: "ingest_result (frappe_ingestion demo_runtime) created_request (Aware 7) creating_db = Inr (r, d')"
    and o2: "get_row op_name (operations d') demo_uuid = Some o2" "op_state o2 = ''succeeded''" "op_type o2 = ''site.create_blank''"
      "op_bench o2 = ''bench-1''" using created_ingest by blast
  have t: "op_type o2 \<in> set creation_types" using o2(3) by (simp add: creation_types_def)
  have "\<not> (\<exists>o1. get_row op_name (operations creating_db) demo_uuid = Some o1 \<and> op_state o1 = ''succeeded'')"
    by (simp add: creating_db_def get_row_def creating_op_def approved_op_def)
  moreover have "get_row be_name (benches creating_db) (op_bench o2) = Some creating_bench"
    using o2(4) by (simp add: creating_db_def get_row_def creating_bench_def demo_bench_def)
  moreover have "be_required_apps creating_bench = Some (json_dumps (JList [JStr ''frappe'']))"
    by (simp add: creating_bench_def)
  moreover have "json_dumps (JList [JStr ''frappe'']) \<noteq> []" by simp
  ultimately have "creation_handover_ready (op_result_json o2) (op_credential_received o2) (be_required_apps creating_bench)"
    using creation_needs_handover [OF creating_ok i o2(1,2) t] by (auto simp del: json_dumps.simps)
  then show ?thesis using i o2 by blast
qed

end
