(* ===== verification/JsonAscii.thy ===== *)
theory JsonAscii
  imports JsonRoundtrip
begin

text \<open>
  \<open>json.dumps\<close> with \<open>ensure_ascii\<close>, its default: code points beyond ASCII, and DEL, become \<open>\u\<close>
  escapes of their UTF-16 units. Its strings are another instance of the locale \<open>quoting\<close>, so that
  what it writes reads back, for strings that are UTF-8.
\<close>

definition hex_unit :: "nat \<Rightarrow> string" where
  "hex_unit u = [CHR 0x5C, CHR ''u'', hex_digit (u div 4096 mod 16), hex_digit (u div 256 mod 16),
                 hex_digit (u div 16 mod 16), hex_digit (u mod 16)]"

definition code_point :: "string \<Rightarrow> nat" where
  "code_point k =
     (case map of_char k of
        [a] \<Rightarrow> a
      | [a, b] \<Rightarrow> (a mod 32) * 64 + b mod 64
      | [a, b, c] \<Rightarrow> (a mod 16) * 4096 + (b mod 64) * 64 + c mod 64
      | [a, b, c, d] \<Rightarrow> (a mod 8) * 262144 + (b mod 64) * 4096 + (c mod 64) * 64 + d mod 64
      | _ \<Rightarrow> 0)"

definition ascii_chunk :: "string \<Rightarrow> string" where
  "ascii_chunk k =
     (case k of
        [c] \<Rightarrow> if c = CHR 0x7F then hex_unit 127 else escape_char c
      | _ \<Rightarrow> (let u = code_point k in
              if u < 65536 then hex_unit u
              else hex_unit (55296 + (u - 65536) div 1024) @ hex_unit (56320 + (u - 65536) mod 1024)))"

definition quote_ascii :: "string \<Rightarrow> string" where
  "quote_ascii s = [CHR 0x22] @ concat (map ascii_chunk (chunks s)) @ [CHR 0x22]"

definition dumps_ascii :: "json \<Rightarrow> string" where
  "dumps_ascii v = json_text quote_ascii v"

text \<open>A string that is UTF-8, as every Python string without surrogates is.\<close>

definition utf8_ok :: "string \<Rightarrow> bool" where
  "utf8_ok s = list_all chunk_ok (chunks s)"

section \<open>Reading the escapes back\<close>

lemma hex4_digits:
  assumes "a < 16" "b < 16" "c < 16" "d < 16"
  shows "hex4 ([hex_digit a, hex_digit b, hex_digit c, hex_digit d] @ r) = Some (16 * (16 * (16 * a + b) + c) + d, r)"
  using assms [THEN hex_digit_cases] by (simp add: hex4_def)

lemma hex4_unit:
  assumes "u < 65536"
  shows "hex4 (drop 2 (hex_unit u) @ r) = Some (u, r)"
proof -
  have q: "u div 256 = u div 16 div 16" "u div 4096 = u div 16 div 16 div 16"
    by (simp_all add: div_mult2_eq [symmetric])
  have "u div 4096 < 16" using assms by (simp add: less_mult_imp_div_less)
  then have e: "16 * (16 * (16 * (u div 4096 mod 16) + u div 256 mod 16) + u div 16 mod 16) + u mod 16 = u"
    unfolding q by simp
  have "drop 2 (hex_unit u) = [hex_digit (u div 4096 mod 16), hex_digit (u div 256 mod 16),
      hex_digit (u div 16 mod 16), hex_digit (u mod 16)]" by (simp add: hex_unit_def)
  then show ?thesis
    using hex4_digits [of "u div 4096 mod 16" "u div 256 mod 16" "u div 16 mod 16" "u mod 16" r] unfolding e by simp
qed

lemma hex_unit_parts: "take 2 (hex_unit x @ r) = [CHR 0x5C, CHR ''u'']" "drop 2 (hex_unit x @ r) = drop 2 (hex_unit x) @ r"
  by (simp_all add: hex_unit_def)

lemma escape_unit:
  assumes "u < 65536" "\<not> (55296 \<le> u \<and> u \<le> 56319)"
  shows "unicode_escape (drop 2 (hex_unit u) @ r) = Some (utf8 u, r)"
  unfolding unicode_escape_def hex4_unit [OF assms(1)] using assms(2) by auto

lemma escape_pair:
  assumes "65536 \<le> u" "u < 1114112"
  shows "unicode_escape (drop 2 (hex_unit (55296 + (u - 65536) div 1024)) @ hex_unit (56320 + (u - 65536) mod 1024) @ r)
    = Some (utf8 u, r)"
proof -
  define a where "a = (u - 65536) div 1024"
  define b where "b = (u - 65536) mod 1024"
  have ab: "a < 1024" "b < 1024" "65536 + a * 1024 + b = u"
    using assms by (simp_all add: a_def b_def less_mult_imp_div_less)
  have h: "55296 + a < 65536" "56320 + b < 65536" using ab by simp_all
  show ?thesis
    unfolding a_def [symmetric] b_def [symmetric] unicode_escape_def hex4_unit [OF h(1)] option.case prod.case
      hex_unit_parts hex4_unit [OF h(2)]
    using ab by auto
qed

lemma utf8_arith:
  "b < 64 \<Longrightarrow> (a * 64 + b) div 64 = a" "b < 64 \<Longrightarrow> (a * 64 + b) mod 64 = b"
  "x < 64 \<Longrightarrow> (128 + x) mod 64 = x" "x < 32 \<Longrightarrow> (192 + x) mod 32 = x"
  "x < 16 \<Longrightarrow> (224 + x) mod 16 = x" "x < 8 \<Longrightarrow> (240 + x) mod 8 = x" for a b x :: nat
  using mod_mult_self1 [of x 2 64] mod_mult_self1 [of x 6 32] mod_mult_self1 [of x 14 16] mod_mult_self1 [of x 30 8]
  by (simp_all add: add.commute)

lemma utf8_div: "u div 4096 = u div 64 div 64" "u div 262144 = u div 64 div 64 div 64" for u :: nat
  by (simp_all add: div_mult2_eq [symmetric])

lemma base_64: "u = v * 64 + c \<Longrightarrow> c < 64 \<Longrightarrow> u div 64 = v \<and> u mod 64 = c" for u v c :: nat
  by (simp add: utf8_arith)

lemma nat_offset: "m \<le> n \<Longrightarrow> n < m + k \<Longrightarrow> \<exists>y<k. n = m + y" for m n k :: nat
  by (rule exI [of _ "n - m"]) auto

lemma byte_offset: "CHR 0x80 \<le> c \<Longrightarrow> c \<le> CHR 0xBF \<Longrightarrow> \<exists>y<64. of_char c = 128 + (y::nat)"
  "CHR 0xC2 \<le> c \<Longrightarrow> c \<le> CHR 0xDF \<Longrightarrow> \<exists>y<32. 2 \<le> y \<and> of_char c = 192 + (y::nat)"
  "CHR 0xE0 \<le> c \<Longrightarrow> c \<le> CHR 0xEF \<Longrightarrow> \<exists>y<16. of_char c = 224 + (y::nat)"
  "CHR 0xF0 \<le> c \<Longrightarrow> c \<le> CHR 0xF4 \<Longrightarrow> \<exists>y<5. of_char c = 240 + (y::nat)"
  using nat_offset [of 128 "of_char c" 64] nat_offset [of 194 "of_char c" 30] nat_offset [of 224 "of_char c" 16]
    nat_offset [of 240 "of_char c" 5]
  by (auto simp: less_eq_char_def intro: exI [of _ "Suc (Suc _)"])

lemma lead_byte: "a = CHR 0xE0 \<longleftrightarrow> of_char a = (224::nat)" "a = CHR 0xED \<longleftrightarrow> of_char a = (237::nat)"
  "a = CHR 0xF0 \<longleftrightarrow> of_char a = (240::nat)" "a = CHR 0xF4 \<longleftrightarrow> of_char a = (244::nat)"
  using of_char_eq_iff [where 'a = nat, of a "CHR 0xE0"] of_char_eq_iff [where 'a = nat, of a "CHR 0xED"]
    of_char_eq_iff [where 'a = nat, of a "CHR 0xF0"] of_char_eq_iff [where 'a = nat, of a "CHR 0xF4"] by auto

lemma code_point_read:
  assumes "chunk_ok k" "length k \<noteq> 1"
  shows "utf8 (code_point k) = k \<and> code_point k < 1114112
    \<and> \<not> (55296 \<le> code_point k \<and> code_point k \<le> 57343)"
proof -
  consider a b where "k = [a, b]" | a b c where "k = [a, b, c]" | a b c d where "k = [a, b, c, d]"
    using assms by (auto simp: chunk_ok_def split: list.splits)
  then show ?thesis
  proof cases
    case 1
    obtain x y :: nat where k: "of_char a = 192 + x" "of_char b = 128 + y" and r: "2 \<le> x" "x < 32" "y < 64"
      using assms(1) 1 byte_offset(2) [of a] byte_offset(1) [of b] by (auto simp: chunk_ok_def is_cont_def)
    have u: "code_point k = x * 64 + y" using 1 k r by (simp add: code_point_def utf8_arith)
    have e: "a = char_of (192 + x)" "b = char_of (128 + y)" using k by (metis char_of_char)+
    show ?thesis using r 1 u e by (simp add: utf8_def utf8_arith)
  next
    case 2
    obtain x y z :: nat where k: "of_char a = 224 + x" "of_char b = 128 + y" "of_char c = 128 + z"
      and r: "x < 16" "y < 64" "z < 64"
      using assms(1) 2 byte_offset(3) [of a] byte_offset(1) [of b] byte_offset(1) [of c]
      by (auto simp: chunk_ok_def is_cont_def)
    have s: "x = 0 \<longrightarrow> 32 \<le> y" "x = 13 \<longrightarrow> y < 32"
      using assms(1) 2 k by (auto simp: chunk_ok_def less_eq_char_def less_char_def lead_byte)
    have u: "code_point k = (x * 64 + y) * 64 + z" using 2 k r by (simp add: code_point_def utf8_arith)
    have e: "a = char_of (224 + x)" "b = char_of (128 + y)" "c = char_of (128 + z)" using k by (metis char_of_char)+
    have "x = 0 \<or> 1 \<le> x" "x < 13 \<or> x = 13 \<or> 14 \<le> x" by auto
    then have b: "2048 \<le> (x * 64 + y) * 64 + z" "(x * 64 + y) * 64 + z < 65536"
      "\<not> (55296 \<le> (x * 64 + y) * 64 + z \<and> (x * 64 + y) * 64 + z \<le> 57343)"
      using r s by auto
    note m = base_64 [OF u r(3)] base_64 [OF refl r(2), of x]
    show ?thesis using r 2 e b [folded u] m by (simp add: utf8_def utf8_div)
  next
    case 3
    obtain w x y z :: nat where k: "of_char a = 240 + w" "of_char b = 128 + x" "of_char c = 128 + y" "of_char d = 128 + z"
      and r: "w < 5" "x < 64" "y < 64" "z < 64"
      using assms(1) 3 byte_offset(4) [of a] byte_offset(1) [of b] byte_offset(1) [of c] byte_offset(1) [of d]
      by (auto simp: chunk_ok_def is_cont_def)
    have s: "w = 0 \<longrightarrow> 16 \<le> x" "w = 4 \<longrightarrow> x < 16"
      using assms(1) 3 k by (auto simp: chunk_ok_def less_eq_char_def less_char_def lead_byte)
    have u: "code_point k = ((w * 64 + x) * 64 + y) * 64 + z" using 3 k r by (simp add: code_point_def utf8_arith)
    have e: "a = char_of (240 + w)" "b = char_of (128 + x)" "c = char_of (128 + y)" "d = char_of (128 + z)"
      using k by (metis char_of_char)+
    have "w = 0 \<or> 1 \<le> w" "w < 4 \<or> w = 4" using r by auto
    then have b: "65536 \<le> ((w * 64 + x) * 64 + y) * 64 + z" "((w * 64 + x) * 64 + y) * 64 + z < 1114112"
      using r s by auto
    note m = base_64 [OF u r(4)] base_64 [OF refl r(3), of "w * 64 + x"] base_64 [OF refl r(2), of w]
    show ?thesis using r 3 e b [folded u] m by (simp add: utf8_def utf8_div)
  qed
qed

lemma parse_ascii_chunk:
  assumes "chunk_ok k"
  shows "parse_str (ascii_chunk k @ s) = map_option (\<lambda>(t, r). (k @ t, r)) (parse_str s)"
proof -
  have h: "hex_unit u @ s = CHR 0x5C # CHR ''u'' # drop 2 (hex_unit u) @ s" for u s by (simp add: hex_unit_def)
  show ?thesis
  proof (cases "\<exists>c. k = [c]")
    case True
    then obtain c where c: "k = [c]" by blast
    show ?thesis
    proof (cases "c = CHR 0x7F")
      case True
      then show ?thesis using c escape_unit [of 127 s] by (simp add: ascii_chunk_def h parse_str_unicode utf8_def char_of_def bit_0)
    next
      case False
      then show ?thesis using c parse_escaped [of c s] by (simp add: ascii_chunk_def)
    qed
  next
    case False
    then have l: "length k \<noteq> 1" by (auto simp: length_Suc_conv)
    note r = code_point_read [OF assms l]
    have a: "ascii_chunk k = (if code_point k < 65536 then hex_unit (code_point k)
        else hex_unit (55296 + (code_point k - 65536) div 1024) @ hex_unit (56320 + (code_point k - 65536) mod 1024))"
      using False by (auto simp: ascii_chunk_def Let_def split: list.splits)
    show ?thesis
    proof (cases "code_point k < 65536")
      case True
      then show ?thesis using escape_unit [OF True, of s] r by (auto simp: a h parse_str_unicode)
    next
      case False
      then show ?thesis using escape_pair [of "code_point k" s] r by (simp add: a h parse_str_unicode)
    qed
  qed
qed

interpretation ascii: quoting quote_ascii utf8_ok
proof
  show "quote_ascii s = CHR 0x22 # tl (quote_ascii s)" for s by (simp add: quote_ascii_def)
  have "list_all chunk_ok ks \<Longrightarrow> parse_str (concat (map ascii_chunk ks) @ CHR 0x22 # r) = Some (concat ks, r)" for ks r
    by (induction ks) (simp_all add: parse_str_quote parse_ascii_chunk)
  then show "utf8_ok s \<Longrightarrow> parse_str (tl (quote_ascii s) @ r) = Some (s, r)" for s r
    by (simp add: quote_ascii_def utf8_ok_def)
qed

lemma loads_dumps_ascii:
  "plain_json v \<Longrightarrow> texts utf8_ok v \<Longrightarrow> json_loads (dumps_ascii v) = Inr (canon v)"
  using ascii.loads_text [OF keeps_hooks(1)] by (simp add: json_loads_def dumps_ascii_def)

end
