(* ===== verification/Inventory.thy ===== *)
theory Inventory
  imports MessageFields Security JsonAscii
begin

text \<open>
  \<open>inventory.py\<close>: the inventory an agent reports with its heartbeat, its strict parser, its digest, the
  difference to the inventory before, and the reconciliation and projection services. The repository
  is a record of functions on its state.
\<close>

section \<open>Fields\<close>

definition inv_schema :: "string \<Rightarrow> exn" where
  "inv_schema msg = InventorySchemaError msg"

definition is_bench_id :: "string \<Rightarrow> bool" where
  "is_bench_id s \<longleftrightarrow> head_tail is_lower (\<lambda>c. is_lower c \<or> is_digit c \<or> c = CHR ''-'') 63 s"

definition is_database :: "string \<Rightarrow> bool" where
  "is_database s \<longleftrightarrow> s \<noteq> [] \<and> length s \<le> 64 \<and> list_all (\<lambda>c. is_lower c \<or> is_digit c \<or> c \<in> set ''_-'') s"

definition capability_part :: "string \<Rightarrow> bool" where
  "capability_part s \<longleftrightarrow>
     (case s of [] \<Rightarrow> False | c # cs \<Rightarrow> is_lower c \<and> list_all (\<lambda>c. is_lower c \<or> is_digit c \<or> c = CHR ''_'') cs)"

definition is_capability :: "string \<Rightarrow> bool" where
  "is_capability s \<longleftrightarrow> 2 \<le> length (split_on (CHR ''.'') s) \<and> list_all capability_part (split_on (CHR ''.'') s)"

definition heartbeat_statuses :: "string list" where
  "heartbeat_statuses = [''ready'', ''degraded'', ''error'', ''maintenance'']"

definition inv_obj :: "json \<Rightarrow> string \<Rightarrow> (string \<times> json) list result" where
  "inv_obj = obj_field inv_schema"

definition inv_exact :: "(string \<times> json) list \<Rightarrow> string list \<Rightarrow> string \<Rightarrow> unit result" where
  "inv_exact = exact_fields inv_schema"

definition inv_text :: "json \<Rightarrow> string \<Rightarrow> nat \<Rightarrow> string result" where
  "inv_text = text_field inv_schema"

definition inv_array :: "json \<Rightarrow> string \<Rightarrow> nat \<Rightarrow> json list result" where
  "inv_array value name limit =
     of_option (inv_schema (name @ '' must be a bounded array''))
       (case value of JList xs \<Rightarrow> if length xs \<le> limit then Some xs else None | _ \<Rightarrow> None)"

definition inv_pair :: "string \<Rightarrow> nat \<Rightarrow> json \<Rightarrow> (string \<times> string) result" where
  "inv_pair name index item =
     bindE (inv_array item (name @ ''['' @ nat_str index @ '']'') 2) (\<lambda>pair.
     case pair of
       [a, b] \<Rightarrow> bindE (inv_text a name 128) (\<lambda>k. bindE (inv_text b name 256) (\<lambda>v. Inr (k, v)))
     | _ \<Rightarrow> Inl (inv_schema (name @ '' entries require two values'')))"

definition inv_pairs :: "json \<Rightarrow> string \<Rightarrow> nat \<Rightarrow> (string \<times> string) list result" where
  "inv_pairs value name limit =
     bindE (inv_array value name limit) (\<lambda>xs.
     bindE (mapE (\<lambda>(i, item). inv_pair name i item) (enumerate 0 xs)) (\<lambda>ps.
     bindE (require (sorted ps \<and> distinct (map fst ps)) (inv_schema (name @ '' must be sorted and unique''))) (\<lambda>_.
     Inr ps)))"

definition inv_utc :: "datetime \<Rightarrow> string \<Rightarrow> int result" where
  "inv_utc value name =
     (case value of Naive _ \<Rightarrow> Inl (inv_schema (name @ '' must be timezone-aware'')) | Aware t \<Rightarrow> Inr t)"

section \<open>Snapshots\<close>

record site_snapshot =
  vs_domain :: string
  vs_apps :: "(string \<times> string) list"
  vs_scheduler :: "bool option"
  vs_maintenance :: "bool option"
  vs_database :: string

record bench_snapshot =
  vb_bench_id :: string
  vb_versions :: "(string \<times> string) list"
  vb_capabilities :: "string list"
  vb_sites :: "site_snapshot list"
  vb_required :: "string list option"

record inventory_snapshot =
  vi_schema :: int
  vi_version :: string
  vi_benches :: "bench_snapshot list"

record heartbeat_inventory =
  hb_status :: string
  hb_version :: string
  hb_digest :: string
  hb_inventory :: inventory_snapshot

record stored_inventory =
  st_digest :: string
  st_benches :: "bench_snapshot list"
  st_revision :: int

record inventory_delta =
  dl_previous :: "string option"
  dl_current :: string
  dl_revision :: int
  dl_added_benches :: "string list"
  dl_removed_benches :: "string list"
  dl_changed_benches :: "string list"
  dl_added_sites :: "(string \<times> string) list"
  dl_removed_sites :: "(string \<times> string) list"
  dl_changed_sites :: "(string \<times> string) list"

record agent_projection =
  pj_agent :: string
  pj_reported :: string
  pj_effective :: string
  pj_version :: string
  pj_last_seen :: datetime
  pj_digest :: string
  pj_revision :: int
  pj_capabilities :: "json list"
  pj_online :: bool

text \<open>\<open>canonical_json\<close>: the fields as \<open>asdict\<close> lists them, written with \<open>ensure_ascii\<close>.\<close>

definition json_flag :: "bool option \<Rightarrow> json" where
  "json_flag f = (case f of None \<Rightarrow> JNull | Some b \<Rightarrow> JBool b)"

definition json_pairs :: "(string \<times> string) list \<Rightarrow> json" where
  "json_pairs ps = JList (map (\<lambda>(k, v). JList [JStr k, JStr v]) ps)"

definition site_json :: "site_snapshot \<Rightarrow> json" where
  "site_json s =
     JObj [(''domain'', JStr (vs_domain s)), (''apps'', json_pairs (vs_apps s)),
           (''scheduler_enabled'', json_flag (vs_scheduler s)),
           (''maintenance_mode'', json_flag (vs_maintenance s)), (''database_name'', JStr (vs_database s))]"

definition bench_json :: "bench_snapshot \<Rightarrow> json" where
  "bench_json b =
     JObj ([(''bench_id'', JStr (vb_bench_id b)), (''versions'', json_pairs (vb_versions b)),
            (''capabilities'', JList (map JStr (vb_capabilities b))),
            (''sites'', JList (map site_json (vb_sites b)))]
           @ (case vb_required b of None \<Rightarrow> [] | Some apps \<Rightarrow> [(''required_apps'', JList (map JStr apps))]))"

definition snapshot_json :: "inventory_snapshot \<Rightarrow> json" where
  "snapshot_json i =
     JObj [(''schema_version'', JInt (vi_schema i)), (''inventory_version'', JStr (vi_version i)),
           (''benches'', JList (map bench_json (vi_benches i)))]"

definition inventory_canonical :: "inventory_snapshot \<Rightarrow> string" where
  "inventory_canonical i = dumps_ascii (snapshot_json i)"

definition inventory_digest :: "inventory_snapshot \<Rightarrow> string" where
  "inventory_digest i = sha256_hex (inventory_canonical i)"

section \<open>Parsing\<close>

definition inv_flag :: "json \<Rightarrow> bool option option" where
  "inv_flag v = (case v of JNull \<Rightarrow> Some None | JBool b \<Rightarrow> Some (Some b) | _ \<Rightarrow> None)"

definition parse_site :: "string \<Rightarrow> nat \<Rightarrow> json \<Rightarrow> site_snapshot result" where
  "parse_site parent index value =
     (let name = parent @ ''.sites['' @ nat_str index @ '']'' in
      bindE (inv_obj value name) (\<lambda>raw.
      bindE (inv_exact raw [''domain'', ''apps'', ''scheduler_enabled'', ''maintenance_mode'', ''database_name''] name) (\<lambda>_.
      bindE (inv_text (jget raw ''domain'') ''domain'' 253) (\<lambda>domain.
      bindE (require (py_lower domain = domain \<and> is_domain domain) (inv_schema ''invalid canonical domain'')) (\<lambda>_.
      bindE (inv_text (jget raw ''database_name'') ''database_name'' 64) (\<lambda>database.
      bindE (require (is_database database) (inv_schema ''invalid database_name'')) (\<lambda>_.
      bindE (of_option (inv_schema ''invalid scheduler state'') (inv_flag (jget raw ''scheduler_enabled''))) (\<lambda>scheduler.
      bindE (of_option (inv_schema ''invalid maintenance state'') (inv_flag (jget raw ''maintenance_mode''))) (\<lambda>maintenance.
      bindE (inv_pairs (jget raw ''apps'') ''apps'' 256) (\<lambda>apps.
      Inr \<lparr>vs_domain = domain, vs_apps = apps, vs_scheduler = scheduler, vs_maintenance = maintenance,
           vs_database = database\<rparr>))))))))))"

definition is_app :: "string \<Rightarrow> bool" where
  "is_app s \<longleftrightarrow> head_tail is_lower (\<lambda>c. is_lower c \<or> is_digit c \<or> c = CHR ''_'') 63 s"

definition parse_required :: "(string \<times> json) list \<Rightarrow> string list option result" where
  "parse_required raw =
     (if ''required_apps'' \<notin> jkeys raw then Inr None
      else bindE (inv_array (jget raw ''required_apps'') ''required_apps'' 128) (\<lambda>xs.
           bindE (mapE (\<lambda>item. inv_text item ''required_app'' 64) xs) (\<lambda>apps.
           bindE (require (''frappe'' \<in> set apps \<and> distinct apps \<and> list_all is_app apps)
                    (inv_schema ''required_apps must be unique app names including frappe'')) (\<lambda>_.
           Inr (Some apps)))))"

definition parse_bench :: "nat \<Rightarrow> json \<Rightarrow> bench_snapshot result" where
  "parse_bench index value =
     (let name = ''benches['' @ nat_str index @ '']'' in
      bindE (inv_obj value name) (\<lambda>raw.
      bindE (inv_exact raw ([''bench_id'', ''versions'', ''capabilities'', ''sites'']
               @ (if ''required_apps'' \<in> jkeys raw then [''required_apps''] else [])) name) (\<lambda>_.
      bindE (inv_text (jget raw ''bench_id'') (name @ ''.bench_id'') 64) (\<lambda>bench_id.
      bindE (require (is_bench_id bench_id) (inv_schema ''invalid bench_id'')) (\<lambda>_.
      bindE (inv_array (jget raw ''capabilities'') ''capabilities'' 128) (\<lambda>cs.
      bindE (mapE (\<lambda>item. inv_text item ''capability'' 128) cs) (\<lambda>caps.
      bindE (require (sorted caps \<and> distinct caps \<and> list_all is_capability caps)
               (inv_schema ''capabilities must be sorted typed names'')) (\<lambda>_.
      bindE (inv_array (jget raw ''sites'') ''sites'' 10000) (\<lambda>ss.
      bindE (mapE (\<lambda>(i, item). parse_site name i item) (enumerate 0 ss)) (\<lambda>sites.
      bindE (require (sorted (map vs_domain sites) \<and> distinct (map vs_domain sites))
               (inv_schema ''sites must be sorted and unique'')) (\<lambda>_.
      bindE (parse_required raw) (\<lambda>required.
      bindE (inv_pairs (jget raw ''versions'') ''versions'' 128) (\<lambda>versions.
      Inr \<lparr>vb_bench_id = bench_id, vb_versions = versions, vb_capabilities = caps, vb_sites = sites,
           vb_required = required\<rparr>)))))))))))))"

definition inventory_domains :: "bench_snapshot list \<Rightarrow> string list" where
  "inventory_domains benches = concat (map (\<lambda>b. map vs_domain (vb_sites b)) benches)"

definition parse_inventory :: "json \<Rightarrow> inventory_snapshot result" where
  "parse_inventory value =
     bindE (inv_obj value ''inventory'') (\<lambda>raw.
     bindE (inv_exact raw [''schema_version'', ''inventory_version'', ''benches''] ''inventory'') (\<lambda>_.
     bindE (require (jget raw ''schema_version'' = JInt 1) (inv_schema ''schema_version must be 1'')) (\<lambda>_.
     bindE (require (py_eq (jget raw ''inventory_version'') (JStr ''1.0'')) (inv_schema ''inventory_version must be 1.0'')) (\<lambda>_.
     bindE (inv_array (jget raw ''benches'') ''benches'' 256) (\<lambda>bs.
     bindE (mapE (\<lambda>(i, item). parse_bench i item) (enumerate 0 bs)) (\<lambda>benches.
     bindE (require (sorted (map vb_bench_id benches) \<and> distinct (map vb_bench_id benches))
              (inv_schema ''benches must be sorted and unique'')) (\<lambda>_.
     bindE (require (distinct (inventory_domains benches)) (inv_schema ''duplicate site ownership'')) (\<lambda>_.
     bindE (require (length (inventory_domains benches) \<le> 10000) (inv_schema ''too many sites'')) (\<lambda>_.
     Inr \<lparr>vi_schema = 1, vi_version = ''1.0'', vi_benches = benches\<rparr>)))))))))"

definition parse_heartbeat_state :: "json \<Rightarrow> heartbeat_inventory result" where
  "parse_heartbeat_state value =
     bindE (inv_obj value ''state'') (\<lambda>raw.
     bindE (inv_exact raw [''status'', ''version'', ''inventory_digest'', ''inventory''] ''state'') (\<lambda>_.
     bindE (inv_text (jget raw ''status'') ''state.status'' 32) (\<lambda>status.
     bindE (require (status \<in> set heartbeat_statuses) (inv_schema ''unsupported status'')) (\<lambda>_.
     bindE (inv_text (jget raw ''version'') ''state.version'' 64) (\<lambda>version.
     bindE (inv_text (jget raw ''inventory_digest'') ''inventory_digest'' 64) (\<lambda>digest.
     bindE (require (is_sha256 digest) (inv_schema ''invalid inventory digest'')) (\<lambda>_.
     bindE (parse_inventory (jget raw ''inventory'')) (\<lambda>snapshot.
     bindE (require (inventory_digest snapshot = digest) (inv_schema ''inventory digest mismatch'')) (\<lambda>_.
     Inr \<lparr>hb_status = status, hb_version = version, hb_digest = digest, hb_inventory = snapshot\<rparr>)))))))))"

section \<open>The difference to the inventory before\<close>

definition by_bench :: "bench_snapshot list \<Rightarrow> string \<rightharpoonup> bench_snapshot" where
  "by_bench bs = map_of (rev (map (\<lambda>b. (vb_bench_id b, b)) bs))"

definition site_entries :: "bench_snapshot list \<Rightarrow> ((string \<times> string) \<times> site_snapshot) list" where
  "site_entries bs = concat (map (\<lambda>b. map (\<lambda>s. ((vb_bench_id b, vs_domain s), s)) (vb_sites b)) bs)"

definition by_site :: "bench_snapshot list \<Rightarrow> string \<times> string \<rightharpoonup> site_snapshot" where
  "by_site bs = map_of (rev (site_entries bs))"

definition keys_where :: "('k::linorder) list \<Rightarrow> ('k \<Rightarrow> bool) \<Rightarrow> 'k list" where
  "keys_where ks p = sort (remdups (filter p ks))"

definition inventory_delta_of :: "stored_inventory option \<Rightarrow> inventory_snapshot \<Rightarrow> int \<Rightarrow> inventory_delta" where
  "inventory_delta_of previous current revision =
     (let old = (case previous of None \<Rightarrow> [] | Some p \<Rightarrow> st_benches p); new = vi_benches current;
          ob = map vb_bench_id old; nb = map vb_bench_id new;
          os = map fst (site_entries old); ns = map fst (site_entries new)
      in \<lparr>dl_previous = map_option st_digest previous, dl_current = inventory_digest current,
          dl_revision = revision,
          dl_added_benches = keys_where nb (\<lambda>k. k \<notin> set ob),
          dl_removed_benches = keys_where ob (\<lambda>k. k \<notin> set nb),
          dl_changed_benches = keys_where ob (\<lambda>k. k \<in> set nb \<and> by_bench old k \<noteq> by_bench new k),
          dl_added_sites = keys_where ns (\<lambda>k. k \<notin> set os),
          dl_removed_sites = keys_where os (\<lambda>k. k \<notin> set ns),
          dl_changed_sites = keys_where os (\<lambda>k. k \<in> set ns \<and> by_site old k \<noteq> by_site new k)\<rparr>)"

section \<open>The services\<close>

record 'd inventory_repository =
  rp_current :: "string \<Rightarrow> 'd \<Rightarrow> stored_inventory option result"
  rp_bench_owner :: "string \<Rightarrow> 'd \<Rightarrow> string option"
  rp_site_owner :: "string \<Rightarrow> 'd \<Rightarrow> (string \<times> string) option"
  rp_replace :: "string \<Rightarrow> heartbeat_inventory \<Rightarrow> string option \<Rightarrow> int \<Rightarrow> int \<Rightarrow> 'd \<Rightarrow> 'd result"
  rp_projection :: "string \<Rightarrow> 'd \<Rightarrow> agent_projection option result"

definition check_offline_after :: "int \<Rightarrow> unit result" where
  "check_offline_after n = require (1 \<le> n) (ValueError ''offline threshold must be positive'')"

definition check_bench_owners :: "'d inventory_repository \<Rightarrow> string \<Rightarrow> bench_snapshot list \<Rightarrow> 'd \<Rightarrow> unit result" where
  "check_bench_owners repo agent_id benches d =
     eachE (\<lambda>b.
       bindE (require (rp_bench_owner repo (vb_bench_id b) d \<in> {None, Some agent_id})
                (InventoryOwnershipError ''bench owned by another agent'')) (\<lambda>_.
       eachE (\<lambda>s. require (rp_site_owner repo (vs_domain s) d \<in> {None, Some (agent_id, vb_bench_id b)})
                (InventoryOwnershipError ''site owned by another agent or bench'')) (vb_sites b))) benches"

definition reconcile_inventory ::
  "'d inventory_repository \<Rightarrow> string \<Rightarrow> json \<Rightarrow> datetime \<Rightarrow> 'd \<Rightarrow> (inventory_delta \<times> 'd) result" where
  "reconcile_inventory repo agent state observed_at d =
     bindE (inv_text (JStr agent) ''agent_id'' 128) (\<lambda>agent_id.
     bindE (require (is_agent_id agent_id) (inv_schema ''invalid agent_id'')) (\<lambda>_.
     bindE (inv_utc observed_at ''observed_at'') (\<lambda>observed.
     bindE (parse_heartbeat_state state) (\<lambda>heartbeat.
     bindE (rp_current repo agent_id d) (\<lambda>previous.
     bindE (check_bench_owners repo agent_id (vi_benches (hb_inventory heartbeat)) d) (\<lambda>_.
     let revision = (case previous of None \<Rightarrow> 1 | Some p \<Rightarrow> st_revision p + 1);
         delta = inventory_delta_of previous (hb_inventory heartbeat) revision in
     bindE (rp_replace repo agent_id heartbeat (map_option st_digest previous) revision observed d) (\<lambda>d'.
     Inr (delta, d'))))))))"

definition project_agent ::
  "'d inventory_repository \<Rightarrow> int \<Rightarrow> string \<Rightarrow> datetime \<Rightarrow> 'd \<Rightarrow> agent_projection option result" where
  "project_agent repo offline_after agent_id now d =
     bindE (rp_projection repo agent_id d) (\<lambda>found.
     case found of None \<Rightarrow> Inr None
     | Some p \<Rightarrow>
         bindE (inv_utc now ''now'') (\<lambda>current.
         bindE (inv_utc (pj_last_seen p) ''last_seen_at'') (\<lambda>seen.
         bindE (require (seen \<le> current + seconds 300)
                  (InventoryReconciliationError ''future last_seen_at'')) (\<lambda>_.
         let online = current - seen < seconds offline_after in
         Inr (Some (p\<lparr>pj_effective := if online then pj_reported p else ''offline'',
                      pj_last_seen := Aware seen, pj_online := online\<rparr>))))))"

end
