(* ===== verification/InventoryRoundtrip.thy ===== *)
theory InventoryRoundtrip
  imports Inventory
begin

text \<open>
  The snapshot the controller stores of an accepted heartbeat reads back as the same inventory: what
  the parser of \<open>inventory.py\<close> accepts is \<open>good_inventory\<close>, and it accepts the canonical text of every
  good inventory. The last section characterises the difference of two inventories.
\<close>

section \<open>What was written reads back\<close>

definition good_text :: "nat \<Rightarrow> string \<Rightarrow> bool" where
  "good_text l s \<longleftrightarrow> clean_text s \<and> \<not> has_surrogate s \<and> length s \<le> l"

definition good_pairs :: "nat \<Rightarrow> (string \<times> string) list \<Rightarrow> bool" where
  "good_pairs n ps \<longleftrightarrow> length ps \<le> n \<and> list_all (\<lambda>(k, v). good_text 128 k \<and> good_text 256 v) ps
     \<and> sorted ps \<and> distinct (map fst ps)"

definition good_site :: "site_snapshot \<Rightarrow> bool" where
  "good_site s \<longleftrightarrow> good_text 253 (vs_domain s) \<and> py_lower (vs_domain s) = vs_domain s \<and> is_domain (vs_domain s)
     \<and> good_text 64 (vs_database s) \<and> is_database (vs_database s) \<and> good_pairs 256 (vs_apps s)"

definition good_required :: "string list option \<Rightarrow> bool" where
  "good_required r \<longleftrightarrow> (case r of None \<Rightarrow> True | Some apps \<Rightarrow> length apps \<le> 128 \<and> list_all (good_text 64) apps
     \<and> ''frappe'' \<in> set apps \<and> distinct apps \<and> list_all is_app apps)"

definition good_bench :: "bench_snapshot \<Rightarrow> bool" where
  "good_bench b \<longleftrightarrow> good_text 64 (vb_bench_id b) \<and> is_bench_id (vb_bench_id b)
     \<and> length (vb_capabilities b) \<le> 128 \<and> list_all (good_text 128) (vb_capabilities b)
     \<and> sorted (vb_capabilities b) \<and> distinct (vb_capabilities b) \<and> list_all is_capability (vb_capabilities b)
     \<and> length (vb_sites b) \<le> 10000 \<and> list_all good_site (vb_sites b)
     \<and> sorted (map vs_domain (vb_sites b)) \<and> distinct (map vs_domain (vb_sites b))
     \<and> good_required (vb_required b) \<and> good_pairs 128 (vb_versions b)"

definition good_inventory :: "inventory_snapshot \<Rightarrow> bool" where
  "good_inventory i \<longleftrightarrow> vi_schema i = 1 \<and> vi_version i = ''1.0'' \<and> length (vi_benches i) \<le> 256
     \<and> list_all good_bench (vi_benches i) \<and> sorted (map vb_bench_id (vi_benches i))
     \<and> distinct (map vb_bench_id (vi_benches i)) \<and> distinct (inventory_domains (vi_benches i))
     \<and> length (inventory_domains (vi_benches i)) \<le> 10000"

lemma inv_text_ok [result_simps]: "inv_text v n l = Inr s \<longleftrightarrow> v = JStr s \<and> good_text l s"
  by (simp add: inv_text_def good_text_def text_field_ok)

lemma inv_array_ok [result_simps]: "inv_array v n l = Inr xs \<longleftrightarrow> v = JList xs \<and> length xs \<le> l"
  by (cases v) (auto simp: inv_array_def split: if_splits)

lemma inv_obj_ok [result_simps]: "inv_obj v n = Inr kvs \<longleftrightarrow> v = JObj kvs"
  by (simp add: inv_obj_def obj_field_ok)

lemma inv_exact_ok [result_simps]: "inv_exact kvs fs n = Inr u \<longleftrightarrow> jkeys kvs = set fs"
  by (simp add: inv_exact_def exact_fields_ok)

lemma inv_flag_ok: "inv_flag v = Some f \<longleftrightarrow> v = json_flag f"
  by (cases v; cases f) (auto simp: inv_flag_def json_flag_def)

lemma mapE_enumerate_set:
  "mapE (\<lambda>(i, x). g i x) (enumerate n xs) = Inr ys \<Longrightarrow> y \<in> set ys \<Longrightarrow> \<exists>i x. x \<in> set xs \<and> g i x = Inr y"
proof -
  assume m: "mapE (\<lambda>(i, x). g i x) (enumerate n xs) = Inr ys" and y: "y \<in> set ys"
  obtain i x where "(i, x) \<in> set (enumerate n xs)" "g i x = Inr y" using mapE_in_set [OF m y] by auto
  then show ?thesis using in_set_enumerate_eq [of "(i, x)" n xs] by (metis nth_mem in_set_zipE enumerate_eq_zip)
qed

lemma mapE_enumerate_map:
  "(\<And>i x. x \<in> set xs \<Longrightarrow> g i (f x) = Inr x) \<Longrightarrow> mapE (\<lambda>(i, x). g i x) (enumerate n (map f xs)) = Inr xs"
  by (induction xs arbitrary: n) simp_all

lemma mapE_enumerate_length: "mapE (\<lambda>(i, x). g i x) (enumerate n xs) = Inr ys \<Longrightarrow> length ys = length xs"
  by (auto dest: mapE_length)

lemma mapE_JStr: "mapE (\<lambda>item. inv_text item n l) vs = Inr xs \<longleftrightarrow> vs = map JStr xs \<and> list_all (good_text l) xs"
proof (induction vs arbitrary: xs)
  case Nil
  show ?case by auto
next
  case (Cons v vs)
  show ?case by (cases xs) (auto simp: bindE_eq_Inr inv_text_ok Cons.IH)
qed

lemma inv_pair_ok [result_simps]:
  "inv_pair n i v = Inr (a, b) \<longleftrightarrow> v = JList [JStr a, JStr b] \<and> good_text 128 a \<and> good_text 256 b"
proof -
  have e: "inv_pair n i (JList [x, y]) = bindE (inv_text x n 128) (\<lambda>k. bindE (inv_text y n 256) (\<lambda>v. Inr (k, v)))" for x y
    by (simp add: inv_pair_def inv_array_def)
  consider x y where "v = JList [x, y]" | "\<forall>x y. v \<noteq> JList [x, y]" by blast
  then show ?thesis
  proof cases
    case 1
    show ?thesis unfolding 1 e by (auto simp: bindE_eq_Inr inv_text_ok)
  next
    case 2
    then have "\<not> (\<exists>p. inv_pair n i v = Inr p)"
      by (auto simp: inv_pair_def bindE_eq_Inr inv_array_ok split: list.splits)
    then show ?thesis using 2 by auto
  qed
qed

lemma mapE_pairs: "mapE (\<lambda>(i, x). inv_pair n i x) (enumerate k vs) = Inr ps \<longleftrightarrow>
    vs = map (\<lambda>(a, b). JList [JStr a, JStr b]) ps \<and> list_all (\<lambda>(a, b). good_text 128 a \<and> good_text 256 b) ps"
proof (induction vs arbitrary: ps k)
  case Nil
  then show ?case by auto
next
  case (Cons v vs)
  show ?case by (cases ps) (auto simp: bindE_eq_Inr inv_pair_ok Cons.IH)
qed

lemma inv_pairs_ok [result_simps]: "inv_pairs v n l = Inr ps \<longleftrightarrow> v = json_pairs ps \<and> good_pairs l ps"
  unfolding inv_pairs_def json_pairs_def good_pairs_def bindE_eq_Inr inv_array_ok mapE_pairs require_eq_Inr
  by auto

lemma parse_site_good: "parse_site p i v = Inr s \<Longrightarrow> good_site s"
  unfolding parse_site_def Let_def bindE_eq_Inr inv_obj_ok inv_exact_ok inv_text_ok require_eq_Inr of_option_eq_Inr inv_pairs_ok
    good_site_def
  by clarify (simp only: site_snapshot.simps sum.inject simp_thms)

lemma canon_pairs [simp]: "canon (json_pairs ps) = json_pairs ps"
  by (auto simp: json_pairs_def)

lemma canon_flag [simp]: "canon (json_flag f) = json_flag f"
  by (simp add: json_flag_def split: option.split)

lemma canon_strings [simp]: "canon (JList (map JStr xs)) = JList (map JStr xs)"
  by simp

lemma good_read: "good_text l s \<Longrightarrow> inv_text (JStr s) n l = Inr s"
    "length xs \<le> l \<Longrightarrow> inv_array (JList xs) n l = Inr xs" "inv_obj (JObj kvs) n = Inr kvs"
    "good_pairs l ps \<Longrightarrow> inv_pairs (json_pairs ps) n l = Inr ps" "inv_flag (json_flag f) = Some f"
    "jkeys kvs = set fs \<Longrightarrow> inv_exact kvs fs n = Inr ()"
    "list_all (good_text l) ys \<Longrightarrow> mapE (\<lambda>item. inv_text item n l) (map JStr ys) = Inr ys"
  by (simp_all add: inv_text_ok inv_array_ok inv_obj_ok inv_pairs_ok inv_flag_ok inv_exact_ok mapE_JStr)

lemma canon_site: "canon (site_json s) = JObj [(''apps'', json_pairs (vs_apps s)), (''database_name'', JStr (vs_database s)),
    (''domain'', JStr (vs_domain s)), (''maintenance_mode'', json_flag (vs_maintenance s)),
    (''scheduler_enabled'', json_flag (vs_scheduler s))]"
  by (simp add: site_json_def)

lemma site_keys: "jkeys [(''apps'', a), (''database_name'', b), (''domain'', c), (''maintenance_mode'', e), (''scheduler_enabled'', f)]
    = set [''domain'', ''apps'', ''scheduler_enabled'', ''maintenance_mode'', ''database_name'']"
  by auto

lemma parse_site_written: "good_site s \<Longrightarrow> parse_site p i (canon (site_json s)) = Inr s"
  unfolding canon_site parse_site_def Let_def good_site_def
  by (simp only: good_read(3) good_read(6) [OF site_keys] bindE_Inr)
     (simp add: good_read)

lemma canon_bench: "canon (bench_json b) = JObj ([(''bench_id'', JStr (vb_bench_id b)),
    (''capabilities'', JList (map JStr (vb_capabilities b)))]
    @ (case vb_required b of None \<Rightarrow> [] | Some apps \<Rightarrow> [(''required_apps'', JList (map JStr apps))])
    @ [(''sites'', JList (map (canon \<circ> site_json) (vb_sites b))), (''versions'', json_pairs (vb_versions b))])"
  by (cases "vb_required b") (simp_all add: bench_json_def)

lemma bench_keys: "jkeys [(''bench_id'', a), (''capabilities'', b), (''sites'', c), (''versions'', e)]
    = set ([''bench_id'', ''versions'', ''capabilities'', ''sites''] @ [])"
  "jkeys [(''bench_id'', a), (''capabilities'', b), (''required_apps'', f), (''sites'', c), (''versions'', e)]
    = set ([''bench_id'', ''versions'', ''capabilities'', ''sites''] @ [''required_apps''])"
  by auto

lemma parse_required_good: "parse_required raw = Inr r \<Longrightarrow> good_required r"
  unfolding parse_required_def good_required_def
  by (auto simp: bindE_eq_Inr inv_array_ok require_eq_Inr mapE_JStr split: if_splits)

lemma parse_bench_parts:
  "parse_bench i v = Inr b \<Longrightarrow> \<exists>n ss raw. mapE (\<lambda>(i, item). parse_site n i item) (enumerate 0 ss) = Inr (vb_sites b)
     \<and> length ss \<le> 10000 \<and> v = JObj raw \<and> parse_required raw = Inr (vb_required b)
     \<and> good_text 64 (vb_bench_id b) \<and> is_bench_id (vb_bench_id b)
     \<and> length (vb_capabilities b) \<le> 128 \<and> list_all (good_text 128) (vb_capabilities b)
     \<and> sorted (vb_capabilities b) \<and> distinct (vb_capabilities b) \<and> list_all is_capability (vb_capabilities b)
     \<and> sorted (map vs_domain (vb_sites b)) \<and> distinct (map vs_domain (vb_sites b)) \<and> good_pairs 128 (vb_versions b)"
  unfolding parse_bench_def Let_def bindE_eq_Inr inv_obj_ok inv_exact_ok inv_text_ok inv_array_ok require_eq_Inr mapE_JStr
    inv_pairs_ok
  by (clarsimp simp only: bench_snapshot.simps sum.inject simp_thms length_map) blast

lemma parse_bench_good:
  assumes "parse_bench i v = Inr b" shows "good_bench b"
proof -
  obtain n ss raw where p: "mapE (\<lambda>(i, item). parse_site n i item) (enumerate 0 ss) = Inr (vb_sites b)"
    "length ss \<le> 10000" "parse_required raw = Inr (vb_required b)"
    using parse_bench_parts [OF assms] by blast
  have "list_all good_site (vb_sites b)"
    using mapE_enumerate_set [OF p(1)] parse_site_good unfolding list_all_iff by blast
  moreover have "length (vb_sites b) \<le> 10000" using mapE_length [OF p(1)] p(2) by simp
  ultimately show ?thesis
    using parse_bench_parts [OF assms] parse_required_good [OF p(3)] unfolding good_bench_def by blast
qed

lemma parse_required_written:
  "good_required r \<Longrightarrow> jget raw ''required_apps'' = (case r of None \<Rightarrow> JNull | Some apps \<Rightarrow> JList (map JStr apps)) \<Longrightarrow>
   (''required_apps'' \<in> jkeys raw \<longleftrightarrow> r \<noteq> None) \<Longrightarrow> parse_required raw = Inr r"
  by (cases r) (simp_all add: parse_required_def good_required_def good_read)

lemma parse_bench_written:
  assumes "good_bench b" shows "parse_bench i (canon (bench_json b)) = Inr b"
proof -
  define raw where "raw = [(''bench_id'', JStr (vb_bench_id b)), (''capabilities'', JList (map JStr (vb_capabilities b)))]
    @ (case vb_required b of None \<Rightarrow> [] | Some apps \<Rightarrow> [(''required_apps'', JList (map JStr apps))])
    @ [(''sites'', JList (map (canon \<circ> site_json) (vb_sites b))), (''versions'', json_pairs (vb_versions b))]"
  have g: "jget raw ''bench_id'' = JStr (vb_bench_id b)" "jget raw ''capabilities'' = JList (map JStr (vb_capabilities b))"
      "jget raw ''sites'' = JList (map (canon \<circ> site_json) (vb_sites b))" "jget raw ''versions'' = json_pairs (vb_versions b)"
      "jget raw ''required_apps'' = (case vb_required b of None \<Rightarrow> JNull | Some apps \<Rightarrow> JList (map JStr apps))"
    by (cases "vb_required b"; simp add: raw_def)+
  have k: "''required_apps'' \<in> jkeys raw \<longleftrightarrow> vb_required b \<noteq> None"
      "jkeys raw = set ([''bench_id'', ''versions'', ''capabilities'', ''sites'']
               @ (if ''required_apps'' \<in> jkeys raw then [''required_apps''] else []))"
    by (cases "vb_required b"; auto simp: raw_def)+
  note p = assms [unfolded good_bench_def]
  have s: "mapE (\<lambda>(i, item). parse_site n i item) (enumerate 0 (map (canon \<circ> site_json) (vb_sites b))) = Inr (vb_sites b)" for n
    by (rule mapE_enumerate_map) (use p in \<open>simp add: parse_site_written list_all_iff\<close>)
  have r: "parse_required raw = Inr (vb_required b)"
    by (rule parse_required_written) (use p g(5) k(1) in simp_all)
  show ?thesis
    unfolding canon_bench raw_def [symmetric] parse_bench_def Let_def
    by (simp only: good_read(3) good_read(6) [OF k(2)] bindE_Inr g s r) (simp add: good_read p s)
qed

lemma parse_inventory_parts:
  "parse_inventory v = Inr i \<Longrightarrow> \<exists>bs raw. v = JObj raw \<and> jget raw ''benches'' = JList bs \<and> length bs \<le> 256
     \<and> mapE (\<lambda>(i, item). parse_bench i item) (enumerate 0 bs) = Inr (vi_benches i)
     \<and> vi_schema i = 1 \<and> vi_version i = ''1.0'' \<and> sorted (map vb_bench_id (vi_benches i))
     \<and> distinct (map vb_bench_id (vi_benches i)) \<and> distinct (inventory_domains (vi_benches i))
     \<and> length (inventory_domains (vi_benches i)) \<le> 10000"
  unfolding parse_inventory_def Let_def bindE_eq_Inr inv_obj_ok inv_exact_ok inv_array_ok require_eq_Inr
  by (clarsimp simp only: inventory_snapshot.simps sum.inject simp_thms) blast

lemma parse_inventory_good:
  assumes "parse_inventory v = Inr i" shows "good_inventory i"
proof -
  obtain bs where p: "length bs \<le> 256" "mapE (\<lambda>(i, item). parse_bench i item) (enumerate 0 bs) = Inr (vi_benches i)"
    using parse_inventory_parts [OF assms] by blast
  have "list_all good_bench (vi_benches i)"
    using mapE_enumerate_set [OF p(2)] parse_bench_good unfolding list_all_iff by blast
  moreover have "length (vi_benches i) \<le> 256" using mapE_length [OF p(2)] p(1) by simp
  ultimately show ?thesis using parse_inventory_parts [OF assms] unfolding good_inventory_def by blast
qed

lemma canon_snapshot: "vi_schema i = 1 \<Longrightarrow> vi_version i = ''1.0'' \<Longrightarrow> canon (snapshot_json i) =
    JObj [(''benches'', JList (map (canon \<circ> bench_json) (vi_benches i))), (''inventory_version'', JStr ''1.0''),
      (''schema_version'', JInt 1)]"
  by (simp add: snapshot_json_def)

lemma parse_inventory_written:
  assumes "good_inventory i" shows "parse_inventory (canon (snapshot_json i)) = Inr i"
proof -
  note p = assms [unfolded good_inventory_def]
  have s: "mapE (\<lambda>(i, item). parse_bench i item) (enumerate 0 (map (canon \<circ> bench_json) (vi_benches i))) = Inr (vi_benches i)"
    by (rule mapE_enumerate_map) (use p in \<open>simp add: parse_bench_written list_all_iff\<close>)
  have k: "jkeys [(''benches'', x), (''inventory_version'', y), (''schema_version'', z)]
      = set [''schema_version'', ''inventory_version'', ''benches'']" for x y z by auto
  have "i = \<lparr>vi_schema = 1, vi_version = ''1.0'', vi_benches = vi_benches i\<rparr>" using p by simp
  then show ?thesis
    using p unfolding canon_snapshot [OF conjunct1 [OF p] conjunct1 [OF conjunct2 [OF p]]] parse_inventory_def
    by (simp only: good_read(3) good_read(6) [OF k] bindE_Inr) (simp add: good_read s)
qed

lemma parse_state_parts:
  "parse_heartbeat_state v = Inr h \<Longrightarrow> \<exists>raw. v = JObj raw \<and> parse_inventory (jget raw ''inventory'') = Inr (hb_inventory h)
     \<and> is_sha256 (hb_digest h) \<and> inventory_digest (hb_inventory h) = hb_digest h \<and> good_text 64 (hb_digest h)
     \<and> hb_status h \<in> set heartbeat_statuses \<and> good_text 64 (hb_version h)"
  unfolding parse_heartbeat_state_def bindE_eq_Inr inv_obj_ok inv_text_ok require_eq_Inr
  by (clarsimp simp only: heartbeat_inventory.simps sum.inject simp_thms) blast

section \<open>The strings of an inventory\<close>

lemma texts_jget: "texts ok (JObj kvs) \<Longrightarrow> texts ok (jget kvs k)"
  by (induction kvs) (auto simp: list_all_iff)

lemma ascii_utf8_ok: "ascii s \<Longrightarrow> utf8_ok s"
  by (auto simp: utf8_ok_def chunks_ascii list_all_iff chunk_ok_def ascii_def)

lemma texts_flag [simp]: "texts ok (json_flag f)"
  by (simp add: json_flag_def split: option.split)

lemma parse_site_texts:
  assumes p: "parse_site n i v = Inr s" and v: "texts utf8_ok v" shows "texts utf8_ok (site_json s)"
proof -
  have "\<exists>raw. v = JObj raw \<and> jget raw ''domain'' = JStr (vs_domain s) \<and> jget raw ''database_name'' = JStr (vs_database s)
      \<and> jget raw ''apps'' = json_pairs (vs_apps s)"
    using p unfolding parse_site_def Let_def bindE_eq_Inr inv_obj_ok inv_exact_ok inv_text_ok require_eq_Inr inv_pairs_ok
    by (clarsimp simp only: site_snapshot.simps sum.inject simp_thms) blast
  then obtain raw where "v = JObj raw" and g: "jget raw ''domain'' = JStr (vs_domain s)"
      "jget raw ''database_name'' = JStr (vs_database s)" "jget raw ''apps'' = json_pairs (vs_apps s)"
    by blast
  then have "texts utf8_ok (jget raw k)" for k using v texts_jget by blast
  from this [of "''domain''"] this [of "''database_name''"] this [of "''apps''"] show ?thesis
    by (simp add: site_json_def g ascii_utf8_ok)
qed

lemma parse_required_texts:
  assumes p: "parse_required raw = Inr r" and v: "texts utf8_ok (JObj raw)"
  shows "case r of None \<Rightarrow> True | Some apps \<Rightarrow> list_all utf8_ok apps"
proof (cases r)
  case (Some apps)
  then have "jget raw ''required_apps'' = JList (map JStr apps)"
    using p by (auto simp: parse_required_def bindE_eq_Inr inv_array_ok mapE_JStr require_eq_Inr split: if_splits)
  then show ?thesis using texts_jget [OF v, of "''required_apps''"] Some by (simp add: list_all_iff)
qed simp

lemma parse_bench_texts:
  assumes p: "parse_bench i v = Inr b" and v: "texts utf8_ok v" shows "texts utf8_ok (bench_json b)"
proof -
  have "\<exists>raw ss n. v = JObj raw \<and> jget raw ''bench_id'' = JStr (vb_bench_id b)
      \<and> jget raw ''capabilities'' = JList (map JStr (vb_capabilities b))
      \<and> jget raw ''versions'' = json_pairs (vb_versions b) \<and> jget raw ''sites'' = JList ss
      \<and> mapE (\<lambda>(i, item). parse_site n i item) (enumerate 0 ss) = Inr (vb_sites b)
      \<and> parse_required raw = Inr (vb_required b)"
    using p unfolding parse_bench_def Let_def bindE_eq_Inr inv_obj_ok inv_exact_ok inv_text_ok inv_array_ok require_eq_Inr
      mapE_JStr inv_pairs_ok
    by (clarsimp simp only: bench_snapshot.simps sum.inject simp_thms) blast
  then obtain raw ss n where r: "v = JObj raw" and g: "jget raw ''bench_id'' = JStr (vb_bench_id b)"
      "jget raw ''capabilities'' = JList (map JStr (vb_capabilities b))"
      "jget raw ''versions'' = json_pairs (vb_versions b)" "jget raw ''sites'' = JList ss"
    and m: "mapE (\<lambda>(i, item). parse_site n i item) (enumerate 0 ss) = Inr (vb_sites b)"
    and q: "parse_required raw = Inr (vb_required b)"
    by blast
  have t: "texts utf8_ok (jget raw k)" for k using v r texts_jget by blast
  have "list_all (texts utf8_ok) ss" using t [of "''sites''"] by (simp add: g)
  then have s: "list_all (texts utf8_ok) (map site_json (vb_sites b))"
    using mapE_enumerate_set [OF m] parse_site_texts by (simp add: list_all_iff) blast
  show ?thesis
    using t [of "''bench_id''"] t [of "''capabilities''"] t [of "''versions''"] s parse_required_texts [OF q] v r
    by (simp add: bench_json_def g ascii_utf8_ok list.pred_map o_def split: option.splits)
qed

lemma parse_inventory_texts:
  assumes p: "parse_inventory v = Inr i" and v: "texts utf8_ok v" shows "texts utf8_ok (snapshot_json i)"
proof -
  obtain bs raw where r: "v = JObj raw" "jget raw ''benches'' = JList bs" "vi_version i = ''1.0''"
    and m: "mapE (\<lambda>(i, item). parse_bench i item) (enumerate 0 bs) = Inr (vi_benches i)"
    using parse_inventory_parts [OF p] by blast
  have "list_all (texts utf8_ok) bs" using texts_jget [of utf8_ok raw "''benches''"] v r by simp
  then have "list_all (texts utf8_ok) (map bench_json (vi_benches i))"
    using mapE_enumerate_set [OF m] parse_bench_texts by (simp add: list_all_iff) blast
  then show ?thesis by (simp add: snapshot_json_def r ascii_utf8_ok)
qed

lemma plain_pairs [simp]: "plain_json (json_pairs ps)"
  by (auto simp: json_pairs_def list_all_iff)

lemma plain_flag [simp]: "plain_json (json_flag f)"
  by (simp add: json_flag_def split: option.split)

lemma plain_site: "plain_json (site_json s)"
  by (simp add: site_json_def)

lemma plain_bench: "plain_json (bench_json b)"
  by (simp add: bench_json_def plain_site list_all_iff split: option.split)

lemma plain_snapshot: "plain_json (snapshot_json i)"
  by (simp add: snapshot_json_def plain_bench list_all_iff)

text \<open>A stored snapshot of an accepted heartbeat reads back as its inventory.\<close>

lemma stored_snapshot_reads:
  assumes "parse_heartbeat_state state = Inr h" "texts utf8_ok state"
  shows "\<exists>raw. json_loads (inventory_canonical (hb_inventory h)) = Inr raw \<and> parse_inventory raw = Inr (hb_inventory h)"
proof -
  obtain kvs where k: "state = JObj kvs" "parse_inventory (jget kvs ''inventory'') = Inr (hb_inventory h)"
    using parse_state_parts [OF assms(1)] by blast
  have "texts utf8_ok (jget kvs ''inventory'')" using assms(2) k(1) texts_jget by blast
  then have "json_loads (inventory_canonical (hb_inventory h)) = Inr (canon (snapshot_json (hb_inventory h)))"
    unfolding inventory_canonical_def by (intro loads_dumps_ascii plain_snapshot parse_inventory_texts [OF k(2)])
  then show ?thesis using parse_inventory_written [OF parse_inventory_good [OF k(2)]] by blast
qed

section \<open>The difference of two inventories\<close>

lemma keys_where_set [simp]: "set (keys_where ks p) = {k \<in> set ks. p k}"
  by (auto simp: keys_where_def)

lemma keys_where_sorted: "sorted (keys_where ks p)" "distinct (keys_where ks p)"
  by (simp_all add: keys_where_def)

lemma keys_where_Nil: "keys_where ks p = [] \<longleftrightarrow> (\<forall>k\<in>set ks. \<not> p k)"
  using keys_where_set [of ks p] by (metis (mono_tags, lifting) empty_Collect_eq empty_set set_empty)

lemma by_bench_distinct:
  "distinct (map vb_bench_id bs) \<Longrightarrow> b \<in> set bs \<Longrightarrow> by_bench bs (vb_bench_id b) = Some b"
  unfolding by_bench_def by (rule map_of_is_SomeI) (simp_all add: rev_map o_def distinct_map inj_on_def image_iff)

lemma same_benches:
  assumes "sorted (map vb_bench_id xs)" "distinct (map vb_bench_id xs)"
    and "sorted (map vb_bench_id ys)" "distinct (map vb_bench_id ys)"
    and "vb_bench_id ` set xs = vb_bench_id ` set ys"
    and "\<And>k. k \<in> vb_bench_id ` set xs \<Longrightarrow> by_bench xs k = by_bench ys k"
  shows "xs = ys"
proof -
  have ids: "map vb_bench_id xs = map vb_bench_id ys"
    by (rule sorted_distinct_set_unique) (use assms in simp_all)
  have len: "length xs = length ys" using ids by (metis length_map)
  have "xs ! i = ys ! i" if i: "i < length xs" for i
  proof -
    have k: "vb_bench_id (xs ! i) = vb_bench_id (ys ! i)" using ids i len by (metis nth_map)
    have "by_bench xs (vb_bench_id (xs ! i)) = Some (xs ! i)" using assms(2) i by (simp add: by_bench_distinct)
    moreover have "by_bench ys (vb_bench_id (xs ! i)) = Some (ys ! i)"
      unfolding k using assms(4) i len by (simp add: by_bench_distinct)
    ultimately show ?thesis using assms(6) [of "vb_bench_id (xs ! i)"] i by simp
  qed
  then show ?thesis using len by (simp add: list_eq_iff_nth_eq)
qed

definition no_change :: "inventory_delta \<Rightarrow> bool" where
  "no_change c \<longleftrightarrow> dl_added_benches c = [] \<and> dl_removed_benches c = [] \<and> dl_changed_benches c = []
     \<and> dl_added_sites c = [] \<and> dl_removed_sites c = [] \<and> dl_changed_sites c = []"

lemma no_change_iff:
  assumes "good_inventory old" "good_inventory new" "st_benches p = vi_benches old"
  shows "no_change (inventory_delta_of (Some p) new r) \<longleftrightarrow> vi_benches new = vi_benches old"
proof
  assume n: "no_change (inventory_delta_of (Some p) new r)"
  have "vi_benches old = vi_benches new"
    by (rule same_benches)
       (use assms n in \<open>auto simp: no_change_def inventory_delta_of_def Let_def keys_where_Nil good_inventory_def\<close>)
  then show "vi_benches new = vi_benches old" by simp
qed (use assms in \<open>simp add: no_change_def inventory_delta_of_def Let_def keys_where_Nil\<close>)

end
