(* ===== verification/PlaceDocs.thy ===== *)
theory PlaceDocs
  imports DocRules
begin

text \<open>
  The documents of the places an operation runs at: \<open>Bench\<close> and \<open>ManagedSite\<close>. A bench is named by its
  \<open>bench_id\<close>, a site by its \<open>site_id\<close>; both record the agent that owns them.
\<close>

section \<open>Bench\<close>

definition json_column :: "string option \<Rightarrow> string" where
  "json_column value = (if truthy value then or_empty value else ''[]'')"

definition be_fields :: "bench_row field list" where
  "be_fields = [(''bench_id'', same be_bench_id), (''server_agent'', same be_server_agent)]"

definition be_validate :: "db \<Rightarrow> bench_row option \<Rightarrow> bench_row \<Rightarrow> unit result" where
  "be_validate d prev b =
     bindE (require_json (Some (json_column (be_installed_apps b))) ''installed_apps_json'' List_shape) (\<lambda>_.
     bindE (require_json (Some (json_column (be_capabilities b))) ''capabilities_json'' List_shape) (\<lambda>_.
     bindE (require (get_row sa_name (agents d) (be_server_agent b) \<noteq> None)
              (invalid ''Unknown owning Server Agent'')) (\<lambda>_.
     immutable_fields be_fields prev b)))"

definition be_insert :: "bench_row \<Rightarrow> db \<Rightarrow> db result" where
  "be_insert b d =
     bindE (be_validate d None b) (\<lambda>_.
     bindE (insert_row be_name [Some \<circ> be_bench_id] b (benches d)) (\<lambda>t. Inr (d\<lparr>benches := t\<rparr>)))"

section \<open>Managed Site\<close>

definition rstrip_dot :: "string \<Rightarrow> string" where
  "rstrip_dot s = rev (dropWhile (\<lambda>c. c = CHR ''.'') (rev s))"

text \<open>The top-level label has letters only.\<close>

definition is_fqdn :: "string \<Rightarrow> bool" where
  "is_fqdn s \<longleftrightarrow>
     (let parts = split_on (CHR ''.'') s in
      length s \<le> 253 \<and> 2 \<le> length parts \<and> list_all label_ok (butlast parts)
      \<and> list_all is_lower (last parts) \<and> 2 \<le> length (last parts) \<and> length (last parts) \<le> 63)"

definition is_label :: "string \<Rightarrow> bool" where
  "is_label s \<longleftrightarrow> head_tail is_alnum (\<lambda>c. is_alnum c \<or> c \<in> set ''._:-'') 63 s"

definition si_fields :: "site_row field list" where
  "si_fields = [(''site_id'', same si_site_id), (''domain'', same si_domain),
     (''server_agent'', same si_server_agent), (''bench'', same si_bench)]"

definition labels_ok :: "json \<Rightarrow> bool" where
  "labels_ok v =
     (case v of
        JList xs \<Rightarrow> length xs \<le> 32 \<and> list_all (\<lambda>x. case x of JStr l \<Rightarrow> is_label l | _ \<Rightarrow> False) xs
          \<and> distinct xs \<and> sorted (map (\<lambda>x. case x of JStr l \<Rightarrow> l | _ \<Rightarrow> []) xs)
      | _ \<Rightarrow> False)"

definition si_validate :: "db \<Rightarrow> site_row option \<Rightarrow> site_row \<Rightarrow> unit result" where
  "si_validate d prev s =
     bindE (require (rstrip_dot (py_lower (si_domain s)) = si_domain s \<and> is_fqdn (si_domain s))
              (invalid ''Domain must be a normalized FQDN'')) (\<lambda>_.
     bindE (require_json (Some (json_column (si_installed_apps s))) ''installed_apps_json'' List_shape) (\<lambda>_.
     bindE (require_json (Some (json_column (si_labels s))) ''labels_json'' List_shape) (\<lambda>labels.
     bindE (require (labels_ok labels) (invalid ''Controller labels must be sorted, unique, and bounded'')) (\<lambda>_.
     bindE (require_link_value (si_bench s)
              (map_option be_server_agent (get_row be_name (benches d) (si_bench s))) (si_server_agent s)) (\<lambda>_.
     immutable_fields si_fields prev s)))))"

definition si_insert :: "site_row \<Rightarrow> db \<Rightarrow> db result" where
  "si_insert s d =
     bindE (si_validate d None s) (\<lambda>_.
     bindE (insert_row si_name [Some \<circ> si_site_id, Some \<circ> si_domain] s (sites d)) (\<lambda>t. Inr (d\<lparr>sites := t\<rparr>)))"

definition place_on_trash :: "string \<Rightarrow> 'a result" where
  "place_on_trash label = prevent_delete label"

section \<open>What an insert gives\<close>

lemma be_insert_ok: "be_insert b d = Inr d' \<Longrightarrow> d' = d\<lparr>benches := benches d @ [b]\<rparr>
    \<and> be_name b \<notin> be_name ` set (benches d) \<and> get_row sa_name (agents d) (be_server_agent b) \<noteq> None"
  using insert_row_ok [of be_name "[Some \<circ> be_bench_id]" b "benches d"]
  by (auto simp: be_insert_def be_validate_def result_simps)

lemma si_insert_ok: "si_insert s d = Inr d' \<Longrightarrow> d' = d\<lparr>sites := sites d @ [s]\<rparr>
    \<and> si_name s \<notin> si_name ` set (sites d) \<and> (\<forall>x\<in>set (sites d). si_domain x \<noteq> si_domain s)
    \<and> (\<exists>b. get_row be_name (benches d) (si_bench s) = Some b \<and> be_server_agent b = si_server_agent s)"
  using insert_row_ok [of si_name "[Some \<circ> si_site_id, Some \<circ> si_domain]" s "sites d"]
    insert_row_unique [of si_name "[Some \<circ> si_site_id, Some \<circ> si_domain]" s "sites d" _ "Some \<circ> si_domain"]
  by (auto simp: si_insert_def si_validate_def result_simps)

end
