(* ===== verification/FrappeInventory.thy ===== *)
theory FrappeInventory
  imports InventoryRoundtrip PlaceDocs OperationDocs
begin

text \<open>
  \<open>FrappeInventoryRepository\<close> of \<open>frappe_repository.py\<close>: the inventory of an agent over the tables of
  agents, benches and sites, under the services of \<open>inventory.py\<close>. A heartbeat replaces the stored
  snapshot of its agent and the rows of its benches and sites.
\<close>

section \<open>Reading\<close>

definition find_agent :: "string \<Rightarrow> db \<Rightarrow> agent_row option" where
  "find_agent agent_id d = find (\<lambda>a. sa_agent_id a = agent_id) (agents d)"

definition load_snapshot :: "string \<Rightarrow> string \<Rightarrow> stored_inventory result" where
  "load_snapshot encoded digest =
     bindE (json_loads encoded) (\<lambda>raw.
     bindE (parse_heartbeat_state (JObj [(''status'', JStr ''ready''), (''version'', JStr ''stored''),
              (''inventory_digest'', JStr digest), (''inventory'', raw)])) (\<lambda>h.
     Inr \<lparr>st_digest = digest, st_benches = vi_benches (hb_inventory h), st_revision = 0\<rparr>))"

definition current_inventory :: "string \<Rightarrow> db \<Rightarrow> stored_inventory option result" where
  "current_inventory agent_id d =
     (case find_agent agent_id d of
        None \<Rightarrow> Inr None
      | Some a \<Rightarrow>
          if \<not> truthy (sa_inventory_digest a) \<or> \<not> truthy (sa_inventory_snapshot a) then Inr None
          else bindE (load_snapshot (the (sa_inventory_snapshot a)) (the (sa_inventory_digest a))) (\<lambda>st.
               Inr (Some (st\<lparr>st_revision := sa_inventory_revision a\<rparr>))))"

definition bench_owner :: "string \<Rightarrow> db \<Rightarrow> string option" where
  "bench_owner bench_id d =
     Option.bind (find (\<lambda>b. be_bench_id b = bench_id
        \<and> get_row sa_name (agents d) (be_server_agent b) \<noteq> None) (benches d)) (\<lambda>b.
     map_option sa_agent_id (get_row sa_name (agents d) (be_server_agent b)))"

definition site_owner :: "string \<Rightarrow> db \<Rightarrow> (string \<times> string) option" where
  "site_owner domain d =
     Option.bind (find (\<lambda>s. si_domain s = domain \<and> get_row sa_name (agents d) (si_server_agent s) \<noteq> None
        \<and> get_row be_name (benches d) (si_bench s) \<noteq> None) (sites d)) (\<lambda>s.
     Option.bind (get_row sa_name (agents d) (si_server_agent s)) (\<lambda>a.
     map_option (\<lambda>b. (sa_agent_id a, be_bench_id b)) (get_row be_name (benches d) (si_bench s))))"

section \<open>Replacing\<close>

text \<open>\<open>{site.domain: (bench_id, site)}\<close>: the last bench that names a domain.\<close>

definition bench_of_domain :: "bench_snapshot list \<Rightarrow> string \<rightharpoonup> string" where
  "bench_of_domain bs = map_of (rev (concat (map (\<lambda>b. map (\<lambda>s. (vs_domain s, vb_bench_id b)) (vb_sites b)) bs)))"

definition check_owners :: "string \<Rightarrow> bench_snapshot list \<Rightarrow> db \<Rightarrow> unit result" where
  "check_owners agent_id bs d =
     bindE (eachE (\<lambda>n. require (bench_owner n d \<in> {None, Some agent_id})
              (InventoryOwnershipError ''bench owned by another agent'')) (map vb_bench_id bs)) (\<lambda>_.
     eachE (\<lambda>n. require (site_owner n d \<in> {None, map_option (Pair agent_id) (bench_of_domain bs n)})
              (InventoryOwnershipError ''site owned by another agent or bench'')) (inventory_domains bs))"

definition bench_set :: "string \<Rightarrow> (bench_row \<Rightarrow> bench_row) \<Rightarrow> db \<Rightarrow> db" where
  "bench_set n f d = d\<lparr>benches := set_rows (\<lambda>b. be_name b = n) f (benches d)\<rparr>"

definition site_set :: "string \<Rightarrow> (site_row \<Rightarrow> site_row) \<Rightarrow> db \<Rightarrow> db" where
  "site_set n f d = d\<lparr>sites := set_rows (\<lambda>s. si_name s = n) f (sites d)\<rparr>"

definition agent_set :: "string \<Rightarrow> (agent_row \<Rightarrow> agent_row) \<Rightarrow> db \<Rightarrow> db" where
  "agent_set n f d = d\<lparr>agents := set_rows (\<lambda>a. sa_name a = n) f (agents d)\<rparr>"

definition retire_bench :: "string \<Rightarrow> db \<Rightarrow> db" where
  "retire_bench n = bench_set n (\<lambda>b. b\<lparr>be_enabled := False, be_health := ''unreachable''\<rparr>)"

definition retire_site :: "string \<Rightarrow> db \<Rightarrow> db" where
  "retire_site n = site_set n (\<lambda>s. s\<lparr>si_status := ''missing'', si_health := ''unreachable''\<rparr>)"

definition health_of :: "string \<Rightarrow> string" where
  "health_of status = (if status = ''ready'' then ''healthy'' else ''degraded'')"

definition bench_values :: "agent_row \<Rightarrow> string \<Rightarrow> int \<Rightarrow> bench_snapshot \<Rightarrow> bench_row \<Rightarrow> bench_row" where
  "bench_values a status seen s b =
     b\<lparr>be_server_agent := sa_name a, be_environment := sa_environment a, be_enabled := True,
       be_frappe_version := map_of (rev (vb_versions s)) ''frappe'',
       be_erpnext_version := map_of (rev (vb_versions s)) ''erpnext'',
       be_installed_apps := Some (json_dumps (json_pairs (vb_versions s))),
       be_required_apps := Some (case vb_required s of None \<Rightarrow> ''[]'' | Some xs \<Rightarrow> json_dumps (JList (map JStr xs))),
       be_capabilities := Some (json_dumps (JList (map JStr (vb_capabilities s)))),
       be_health := health_of status, be_inventory_at := Some seen\<rparr>"

definition new_bench :: "string \<Rightarrow> bench_row" where
  "new_bench n =
     \<lparr>be_name = n, be_bench_id = n, be_server_agent = [], be_environment = [], be_enabled = True,
      be_frappe_version = None, be_erpnext_version = None, be_installed_apps = None, be_required_apps = None,
      be_capabilities = None, be_health = ''unknown'', be_inventory_at = None\<rparr>"

definition site_values :: "agent_row \<Rightarrow> string \<Rightarrow> int \<Rightarrow> string \<Rightarrow> site_snapshot \<Rightarrow> site_row \<Rightarrow> site_row" where
  "site_values a status seen bench v s =
     s\<lparr>si_domain := vs_domain v, si_server_agent := sa_name a, si_bench := bench,
       si_environment := sa_environment a,
       si_status := (if vs_maintenance v = Some True then ''maintenance'' else ''active''),
       si_installed_apps := Some (json_dumps (json_pairs (vs_apps v))), si_database := Some (vs_database v),
       si_scheduler := (vs_scheduler v = Some True), si_maintenance := (vs_maintenance v = Some True),
       si_health := health_of status, si_inventory_at := Some seen\<rparr>"

definition new_site :: "string \<Rightarrow> site_row" where
  "new_site n =
     \<lparr>si_name = n, si_site_id = n, si_domain = [], si_server_agent = [], si_bench = [], si_environment = [],
      si_status = ''unknown'', si_installed_apps = None, si_labels = Some ''[]'', si_database = None,
      si_scheduler = False, si_maintenance = False, si_health = ''unknown'', si_inventory_at = None\<rparr>"

definition put_site :: "agent_row \<Rightarrow> string \<Rightarrow> int \<Rightarrow> string \<Rightarrow> site_snapshot \<Rightarrow> db \<Rightarrow> db result" where
  "put_site a status seen bench v d =
     (if get_row si_name (sites d) (vs_domain v) \<noteq> None
      then Inr (site_set (vs_domain v) (site_values a status seen bench v) d)
      else si_insert (site_values a status seen bench v (new_site (vs_domain v))) d)"

definition put_bench :: "agent_row \<Rightarrow> string \<Rightarrow> int \<Rightarrow> bench_snapshot \<Rightarrow> db \<Rightarrow> db result" where
  "put_bench a status seen s d =
     bindE (if get_row be_name (benches d) (vb_bench_id s) \<noteq> None
            then Inr (bench_set (vb_bench_id s) (bench_values a status seen s) d)
            else be_insert (bench_values a status seen s (new_bench (vb_bench_id s))) d) (\<lambda>d1.
     foldE (put_site a status seen (vb_bench_id s)) (vb_sites s) d1)"

definition removed_keys :: "string list \<Rightarrow> string list \<Rightarrow> string list" where
  "removed_keys old new = keys_where old (\<lambda>k. k \<notin> set new)"

definition agent_seen :: "heartbeat_inventory \<Rightarrow> int \<Rightarrow> int \<Rightarrow> agent_row \<Rightarrow> agent_row" where
  "agent_seen h revision seen a =
     a\<lparr>sa_status := ''Online'', sa_reported_status := Some (hb_status h), sa_agent_version := Some (hb_version h),
       sa_capabilities := Some (json_dumps (JList (map JStr (sort (remdups
          (concat (map vb_capabilities (vi_benches (hb_inventory h))))))))),
       sa_last_seen := Some seen, sa_inventory_at := Some seen, sa_inventory_revision := revision,
       sa_inventory_digest := Some (hb_digest h),
       sa_inventory_snapshot := Some (inventory_canonical (hb_inventory h))\<rparr>"

definition benches_before :: "stored_inventory option \<Rightarrow> bench_snapshot list" where
  "benches_before old = (case old of None \<Rightarrow> [] | Some st \<Rightarrow> st_benches st)"

definition replace_inventory ::
  "string \<Rightarrow> heartbeat_inventory \<Rightarrow> string option \<Rightarrow> int \<Rightarrow> int \<Rightarrow> db \<Rightarrow> db result" where
  "replace_inventory agent_id h previous revision seen d =
     (let bs = vi_benches (hb_inventory h) in
      bindE (of_option (InventoryOwnershipError ''unknown or disabled agent'')
               (case find_agent agent_id d of Some a \<Rightarrow> if sa_enabled a then Some a else None | None \<Rightarrow> None)) (\<lambda>a.
      bindE (require (or_none (sa_inventory_digest a) = previous \<and> sa_inventory_revision a + 1 = revision)
               (InventoryConflictError ''inventory compare-and-set conflict'')) (\<lambda>_.
      bindE (check_owners agent_id bs d) (\<lambda>_.
      bindE (current_inventory agent_id d) (\<lambda>old.
      let before = benches_before old;
          d1 = fold retire_bench (removed_keys (map vb_bench_id before) (map vb_bench_id bs)) d;
          d2 = fold retire_site (removed_keys (inventory_domains before) (inventory_domains bs)) d1 in
      bindE (foldE (put_bench a (hb_status h) seen) bs d2) (\<lambda>d3.
      Inr (agent_set (sa_name a) (agent_seen h revision seen) d3)))))))"

text \<open>\<open>tuple(json.loads(...))\<close>: the elements of a list, the keys of an object, the code points of a string.\<close>

definition json_elements :: "json \<Rightarrow> json list result" where
  "json_elements v =
     (case v of JList xs \<Rightarrow> Inr xs | JObj kvs \<Rightarrow> Inr (map (JStr \<circ> fst) kvs) | JStr s \<Rightarrow> Inr (map JStr (chunks s))
      | _ \<Rightarrow> Inl (TypeError ''object is not iterable''))"

definition read_projection :: "string \<Rightarrow> db \<Rightarrow> agent_projection option result" where
  "read_projection agent_id d =
     (case find_agent agent_id d of
        None \<Rightarrow> Inr None
      | Some a \<Rightarrow>
          (case sa_last_seen a of
             None \<Rightarrow> Inr None
           | Some seen \<Rightarrow>
               if \<not> truthy (sa_inventory_digest a) then Inr None
               else bindE (json_loads (json_column (sa_capabilities a))) (\<lambda>v.
                    bindE (json_elements v) (\<lambda>caps.
                    let reported = (if truthy (sa_reported_status a) then or_empty (sa_reported_status a) else ''error'') in
                    Inr (Some \<lparr>pj_agent = agent_id, pj_reported = reported, pj_effective = reported,
                      pj_version = (if truthy (sa_agent_version a) then or_empty (sa_agent_version a) else ''unknown''),
                      pj_last_seen = Aware seen, pj_digest = the (sa_inventory_digest a),
                      pj_revision = sa_inventory_revision a, pj_capabilities = caps, pj_online = True\<rparr>)))))"

definition frappe_inventory :: "db inventory_repository" where
  "frappe_inventory =
     \<lparr>rp_current = current_inventory, rp_bench_owner = bench_owner, rp_site_owner = site_owner,
      rp_replace = replace_inventory, rp_projection = read_projection\<rparr>"

section \<open>Rows that a change leaves alone\<close>

definition outside :: "('r \<Rightarrow> string) \<Rightarrow> string set \<Rightarrow> 'r list \<Rightarrow> 'r list \<Rightarrow> bool" where
  "outside key ns t t' \<longleftrightarrow> (\<forall>r. key r \<notin> ns \<longrightarrow> r \<in> set t \<longleftrightarrow> r \<in> set t')"

lemma outside_refl [simp]: "outside key ns t t"
  by (simp add: outside_def)

lemma outside_trans: "outside key ms t t1 \<Longrightarrow> outside key ns t1 t2 \<Longrightarrow> outside key (ms \<union> ns) t t2"
  by (auto simp: outside_def)

lemma outside_mono: "outside key ms t t' \<Longrightarrow> ms \<subseteq> ns \<Longrightarrow> outside key ns t t'"
  by (auto simp: outside_def)

lemma outside_set_rows: "(\<And>r. key (f r) = key r) \<Longrightarrow> outside key {n} t (set_rows (\<lambda>r. key r = n) f t)"
  by (auto simp: outside_def set_rows_def image_iff)

lemma outside_append: "outside key {key r} t (t @ [r])"
  by (auto simp: outside_def)

text \<open>A change of benches \<open>ids\<close> and sites \<open>doms\<close>, and of nothing else.\<close>

definition places_change :: "string set \<Rightarrow> string set \<Rightarrow> db \<Rightarrow> db \<Rightarrow> bool" where
  "places_change ids doms d d' \<longleftrightarrow> d' = d\<lparr>benches := benches d', sites := sites d'\<rparr>
     \<and> outside be_name ids (benches d) (benches d') \<and> outside si_name doms (sites d) (sites d')"

lemma places_change_refl [simp]: "places_change ids doms d d"
  by (simp add: places_change_def)

lemma places_change_trans:
  "places_change i1 s1 d d1 \<Longrightarrow> places_change i2 s2 d1 d2 \<Longrightarrow> places_change (i1 \<union> i2) (s1 \<union> s2) d d2"
  using outside_trans [of be_name i1 "benches d" "benches d1" i2 "benches d2"]
    outside_trans [of si_name s1 "sites d" "sites d1" s2 "sites d2"]
  by (cases d; cases d1; cases d2) (simp add: places_change_def)

lemma places_change_agents: "places_change ids doms d d' \<Longrightarrow> agents d' = agents d"
  by (cases d; cases d') (simp add: places_change_def)

lemma foldE_places_change:
  assumes "foldE f xs d = Inr d'" "\<And>x d d'. x \<in> set xs \<Longrightarrow> f x d = Inr d' \<Longrightarrow> places_change (i x) (s x) d d'"
  shows "places_change (\<Union>x\<in>set xs. i x) (\<Union>x\<in>set xs. s x) d d'"
  using assms
proof (induction xs arbitrary: d)
  case (Cons x xs)
  obtain d1 where "f x d = Inr d1" "foldE f xs d1 = Inr d'" using Cons.prems(1) by (auto simp: bindE_eq_Inr)
  then show ?case using Cons.IH [of d1] Cons.prems(2) places_change_trans by fastforce
qed simp

lemma fold_places_change:
  assumes "\<And>x d. x \<in> set xs \<Longrightarrow> places_change (i x) (s x) d (f x d)"
  shows "places_change (\<Union>x\<in>set xs. i x) (\<Union>x\<in>set xs. s x) d (fold f xs d)"
  using assms
proof (induction xs arbitrary: d)
  case (Cons x xs)
  then show ?case using places_change_trans [of "i x" "s x" d "f x d"] by simp
qed simp

lemma retire_change: "places_change {n} {} d (retire_bench n d)" "places_change {} {n} d (retire_site n d)"
  by (simp_all add: places_change_def retire_bench_def retire_site_def bench_set_def site_set_def outside_set_rows)

section \<open>The tables of places\<close>

text \<open>
  Agents and benches are named by their ids and sites by their domains; benches and sites belong to
  agents and benches that exist.
\<close>

definition places_ok :: "db \<Rightarrow> bool" where
  "places_ok d \<longleftrightarrow> distinct (map sa_name (agents d)) \<and> distinct (map be_name (benches d)) \<and> distinct (map si_name (sites d))
     \<and> (\<forall>a\<in>set (agents d). sa_agent_id a = sa_name a)
     \<and> (\<forall>b\<in>set (benches d). be_bench_id b = be_name b \<and> be_server_agent b \<in> sa_name ` set (agents d))
     \<and> (\<forall>s\<in>set (sites d). si_domain s = si_name s \<and> si_server_agent s \<in> sa_name ` set (agents d)
          \<and> si_bench s \<in> be_name ` set (benches d))"

lemma bench_values_keys [simp]: "be_name (bench_values a st t s b) = be_name b" "be_bench_id (bench_values a st t s b) = be_bench_id b"
    "be_server_agent (bench_values a st t s b) = sa_name a"
    "bench_values a st t s (bench_values a st t s b) = bench_values a st t s b"
  by (simp_all add: bench_values_def)

lemma site_values_keys [simp]: "si_name (site_values a st t n v s) = si_name s" "si_domain (site_values a st t n v s) = vs_domain v"
    "si_server_agent (site_values a st t n v s) = sa_name a" "si_bench (site_values a st t n v s) = n"
    "site_values a st t n v (site_values a st t n v s) = site_values a st t n v s"
  by (simp_all add: site_values_def)

lemma new_keys [simp]: "be_name (new_bench n) = n" "be_bench_id (new_bench n) = n" "si_name (new_site n) = n"
  by (simp_all add: new_bench_def new_site_def)

lemma set_rows_keys: "(\<And>r. key (f r) = key r) \<Longrightarrow> key ` set (set_rows p f t) = key ` set t"
  using set_rows_key [of key f p t] by (metis list.set_map)

lemma retire_ok: "places_ok d \<Longrightarrow> places_ok (retire_bench n d)" "places_ok d \<Longrightarrow> places_ok (retire_site n d)"
  by (auto simp: places_ok_def retire_bench_def retire_site_def bench_set_def site_set_def set_rows_in set_rows_key set_rows_keys)

lemma put_site_effect:
  assumes "put_site a st t n v d = Inr d'" "places_ok d" "sa_name a \<in> sa_name ` set (agents d)" "n \<in> be_name ` set (benches d)"
  shows "places_change {} {vs_domain v} d d' \<and> places_ok d' \<and> benches d' = benches d
    \<and> (\<exists>r\<in>set (sites d'). si_name r = vs_domain v \<and> r = site_values a st t n v r)"
proof (cases "get_row si_name (sites d) (vs_domain v)")
  case (Some x)
  then have d': "d' = site_set (vs_domain v) (site_values a st t n v) d" using assms(1) by (simp add: put_site_def)
  have "site_values a st t n v x \<in> set (sites d')"
    using get_row_Some [OF Some] by (auto simp: d' site_set_def set_rows_in)
  moreover have "places_ok d'" using assms(2-4) by (auto simp: places_ok_def d' site_set_def set_rows_in set_rows_key)
  ultimately show ?thesis using get_row_Some [OF Some]
    by (auto simp: d' places_change_def site_set_def outside_set_rows intro!: bexI [of _ "site_values a st t n v x"])
next
  case None
  define r where "r = site_values a st t n v (new_site (vs_domain v))"
  have r: "si_name r = vs_domain v" "r = site_values a st t n v r" by (simp_all add: r_def)
  have "si_insert r d = Inr d'" using assms(1) None by (simp add: put_site_def r_def)
  then have d': "d' = d\<lparr>sites := sites d @ [r]\<rparr>" "si_name r \<notin> si_name ` set (sites d)" using si_insert_ok by auto
  have "places_ok d'" using assms(2-4) d'(2) by (auto simp: places_ok_def d'(1) r_def)
  moreover have "places_change {} {vs_domain v} d d'"
    using outside_append [of si_name r "sites d"] by (simp add: places_change_def d'(1) r(1))
  ultimately show ?thesis using r by (auto simp: d'(1))
qed

lemma outside_keeps: "outside key ns t t' \<Longrightarrow> r \<in> set t \<Longrightarrow> key r \<notin> ns \<Longrightarrow> r \<in> set t'"
  by (auto simp: outside_def)

lemma put_sites_effect:
  assumes "foldE (put_site a st t n) vs d = Inr d'" "places_ok d" "sa_name a \<in> sa_name ` set (agents d)"
    "n \<in> be_name ` set (benches d)" "distinct (map vs_domain vs)"
  shows "places_change {} (vs_domain ` set vs) d d' \<and> places_ok d' \<and> benches d' = benches d
    \<and> (\<forall>v\<in>set vs. \<exists>r\<in>set (sites d'). si_name r = vs_domain v \<and> r = site_values a st t n v r)"
  using assms
proof (induction vs arbitrary: d)
  case (Cons v vs)
  obtain d1 where d1: "put_site a st t n v d = Inr d1" "foldE (put_site a st t n) vs d1 = Inr d'"
    using Cons.prems(1) by (auto simp: bindE_eq_Inr)
  note e = put_site_effect [OF d1(1) Cons.prems(2-4)]
  have i: "places_change {} (vs_domain ` set vs) d1 d' \<and> places_ok d' \<and> benches d' = benches d1
    \<and> (\<forall>v\<in>set vs. \<exists>r\<in>set (sites d'). si_name r = vs_domain v \<and> r = site_values a st t n v r)"
    by (rule Cons.IH [OF d1(2)]) (use e Cons.prems places_change_agents in auto)
  obtain r where r: "r \<in> set (sites d1)" "si_name r = vs_domain v" "r = site_values a st t n v r" using e by blast
  have "r \<in> set (sites d')"
    by (rule outside_keeps [OF _ r(1), of si_name "vs_domain ` set vs"])
       (use i r(2) Cons.prems(5) in \<open>simp_all add: places_change_def\<close>)
  moreover have "places_change {} (vs_domain ` set (v # vs)) d d'"
    using places_change_trans [of "{}" "{vs_domain v}" d d1 "{}"] e i by simp
  ultimately show ?case using i e r by auto
qed simp

definition reported_in :: "agent_row \<Rightarrow> string \<Rightarrow> int \<Rightarrow> bench_snapshot \<Rightarrow> db \<Rightarrow> bool" where
  "reported_in a st t s d \<longleftrightarrow>
     (\<exists>r\<in>set (benches d). be_name r = vb_bench_id s \<and> r = bench_values a st t s r)
     \<and> (\<forall>v\<in>set (vb_sites s). \<exists>r\<in>set (sites d). si_name r = vs_domain v \<and> r = site_values a st t (vb_bench_id s) v r)"

lemma put_bench_effect:
  assumes "put_bench a st t s d = Inr d'" "places_ok d" "sa_name a \<in> sa_name ` set (agents d)"
    "distinct (map vs_domain (vb_sites s))"
  shows "places_change {vb_bench_id s} (vs_domain ` set (vb_sites s)) d d' \<and> places_ok d' \<and> reported_in a st t s d'"
proof -
  obtain d1 where d1: "(if get_row be_name (benches d) (vb_bench_id s) \<noteq> None
      then Inr (bench_set (vb_bench_id s) (bench_values a st t s) d)
      else be_insert (bench_values a st t s (new_bench (vb_bench_id s))) d) = Inr d1"
    and rest: "foldE (put_site a st t (vb_bench_id s)) (vb_sites s) d1 = Inr d'"
    using assms(1) by (auto simp: put_bench_def bindE_eq_Inr)
  have e: "places_change {vb_bench_id s} {} d d1 \<and> places_ok d1
      \<and> (\<exists>r\<in>set (benches d1). be_name r = vb_bench_id s \<and> r = bench_values a st t s r)"
  proof (cases "get_row be_name (benches d) (vb_bench_id s)")
    case (Some x)
    then have d1: "d1 = bench_set (vb_bench_id s) (bench_values a st t s) d" using d1 by simp
    have "bench_values a st t s x \<in> set (benches d1)"
      using get_row_Some [OF Some] by (auto simp: d1 bench_set_def set_rows_in)
    moreover have "places_ok d1"
      using assms(2,3) by (auto simp: places_ok_def d1 bench_set_def set_rows_in set_rows_key set_rows_keys)
    ultimately show ?thesis using get_row_Some [OF Some]
      by (auto simp: d1 places_change_def bench_set_def outside_set_rows intro!: bexI [of _ "bench_values a st t s x"])
  next
    case None
    define r where "r = bench_values a st t s (new_bench (vb_bench_id s))"
    have r: "be_name r = vb_bench_id s" "r = bench_values a st t s r" by (simp_all add: r_def)
    have "be_insert r d = Inr d1" using d1 None by (simp add: r_def)
    then have d1: "d1 = d\<lparr>benches := benches d @ [r]\<rparr>" "be_name r \<notin> be_name ` set (benches d)" using be_insert_ok by auto
    have "places_ok d1" using assms(2,3) d1(2) by (auto simp: places_ok_def d1(1) r_def)
    moreover have "places_change {vb_bench_id s} {} d d1"
      using outside_append [of be_name r "benches d"] by (simp add: places_change_def d1(1) r(1))
    ultimately show ?thesis using r by (auto simp: d1(1))
  qed
  then obtain r where r: "r \<in> set (benches d1)" "be_name r = vb_bench_id s" "r = bench_values a st t s r" by blast
  have i: "places_change {} (vs_domain ` set (vb_sites s)) d1 d' \<and> places_ok d' \<and> benches d' = benches d1
    \<and> (\<forall>v\<in>set (vb_sites s). \<exists>r\<in>set (sites d'). si_name r = vs_domain v \<and> r = site_values a st t (vb_bench_id s) v r)"
    by (rule put_sites_effect [OF rest]) (use e assms(3,4) places_change_agents [of _ _ d d1] imageI [OF r(1), of be_name] r(2) in auto)
  have "places_change {vb_bench_id s} (vs_domain ` set (vb_sites s)) d d'"
    using places_change_trans [of "{vb_bench_id s}" "{}" d d1 "{}"] e i by simp
  then show ?thesis using i r unfolding reported_in_def by auto
qed

lemma put_benches_effect:
  assumes "foldE (put_bench a st t) bs d = Inr d'" "places_ok d" "sa_name a \<in> sa_name ` set (agents d)"
    "distinct (map vb_bench_id bs)" "distinct (inventory_domains bs)"
  shows "places_change (vb_bench_id ` set bs) (set (inventory_domains bs)) d d' \<and> places_ok d'
    \<and> (\<forall>s\<in>set bs. reported_in a st t s d')"
  using assms
proof (induction bs arbitrary: d)
  case (Cons s bs)
  obtain d1 where d1: "put_bench a st t s d = Inr d1" "foldE (put_bench a st t) bs d1 = Inr d'"
    using Cons.prems(1) by (auto simp: bindE_eq_Inr)
  have dom: "inventory_domains (s # bs) = map vs_domain (vb_sites s) @ inventory_domains bs"
    by (simp add: inventory_domains_def)
  note dist = Cons.prems(5) [unfolded dom distinct_append]
  have e: "places_change {vb_bench_id s} (vs_domain ` set (vb_sites s)) d d1 \<and> places_ok d1 \<and> reported_in a st t s d1"
    by (rule put_bench_effect [OF d1(1) Cons.prems(2,3)]) (use dist in simp)
  have i: "places_change (vb_bench_id ` set bs) (set (inventory_domains bs)) d1 d' \<and> places_ok d'
      \<and> (\<forall>s\<in>set bs. reported_in a st t s d')"
    by (rule Cons.IH [OF d1(2)]) (use e Cons.prems places_change_agents [of _ _ d d1] dist in auto)
  have "outside be_name (vb_bench_id ` set bs) (benches d1) (benches d')"
      "outside si_name (set (inventory_domains bs)) (sites d1) (sites d')"
    using i by (simp_all add: places_change_def)
  then have "reported_in a st t s d'"
    using e Cons.prems(4) dist unfolding reported_in_def outside_def
    by (metis (no_types, lifting) disjoint_iff distinct.simps(2) image_eqI list.set_map list.simps(9))
  moreover have "places_change (vb_bench_id ` set (s # bs)) (set (inventory_domains (s # bs))) d d'"
    using places_change_trans [OF conjunct1 [OF e] conjunct1 [OF i]] by (simp add: dom)
  ultimately show ?case using i by simp
qed (simp add: inventory_domains_def)

section \<open>The invariant of the inventory\<close>

text \<open>What an agent reported last is in the tables, and is its own.\<close>

definition owns :: "string \<Rightarrow> bench_snapshot \<Rightarrow> db \<Rightarrow> bool" where
  "owns n s d \<longleftrightarrow> (\<exists>r\<in>set (benches d). be_name r = vb_bench_id s \<and> be_server_agent r = n)
     \<and> (\<forall>v\<in>set (vb_sites s). \<exists>r\<in>set (sites d). si_name r = vs_domain v \<and> si_server_agent r = n
          \<and> si_bench r = vb_bench_id s)"

definition stored_owned :: "db \<Rightarrow> bool" where
  "stored_owned d \<longleftrightarrow> (\<forall>a\<in>set (agents d). \<forall>st. current_inventory (sa_agent_id a) d = Inr (Some st) \<longrightarrow>
     (\<forall>s\<in>set (st_benches st). owns (sa_name a) s d))"

definition inventory_ok :: "db \<Rightarrow> bool" where
  "inventory_ok d \<longleftrightarrow> places_ok d \<and> stored_owned d"

lemma reported_owns: "reported_in a st t s d \<Longrightarrow> owns (sa_name a) s d"
  unfolding reported_in_def owns_def by (metis bench_values_keys(3) site_values_keys(3,4))

lemma find_agent_ok:
  assumes "places_ok d" "find_agent n d = Some a"
  shows "a \<in> set (agents d) \<and> sa_agent_id a = n \<and> sa_name a = n"
  using find_mem [of _ "agents d" a] assms unfolding find_agent_def places_ok_def by metis

lemma find_unique:
  assumes "distinct (map key t)" "r \<in> set t" "P r" "\<And>x. x \<in> set t \<Longrightarrow> P x \<Longrightarrow> key x = key r"
  shows "find P t = Some r"
proof -
  obtain y where y: "find P t = Some y" using assms(2,3) by (cases "find P t") (auto simp: find_None_iff)
  then have "y \<in> set t" "key y = key r" using find_mem [OF y] assms(4) by auto
  then show ?thesis using y assms(1,2) by (metis distinct_map inj_onD)
qed

lemma unique_row: "distinct (map key t) \<Longrightarrow> r \<in> set t \<Longrightarrow> get_row key t (key r) = Some r"
  unfolding get_row_def by (rule find_unique [of key]) simp_all

lemma agent_row: "places_ok d \<Longrightarrow> a \<in> set (agents d) \<Longrightarrow> get_row sa_name (agents d) (sa_name a) = Some a"
  unfolding places_ok_def by (rule unique_row) auto

lemma bench_owner_row:
  assumes "places_ok d" "b \<in> set (benches d)"
  shows "bench_owner (be_name b) d = Some (be_server_agent b)"
proof -
  obtain a where a: "a \<in> set (agents d)" "sa_name a = be_server_agent b" using assms unfolding places_ok_def by auto
  have g: "get_row sa_name (agents d) (be_server_agent b) = Some a" using agent_row [OF assms(1) a(1)] a(2) by simp
  have "find (\<lambda>x. be_bench_id x = be_name b \<and> get_row sa_name (agents d) (be_server_agent x) \<noteq> None) (benches d) = Some b"
    by (rule find_unique [of be_name]) (use assms g in \<open>auto simp: places_ok_def\<close>)
  then show ?thesis using g a assms(1) unfolding bench_owner_def places_ok_def by auto
qed

lemma site_owner_row:
  assumes "places_ok d" "s \<in> set (sites d)"
  shows "site_owner (si_name s) d = Some (si_server_agent s, si_bench s)"
proof -
  obtain a where a: "a \<in> set (agents d)" "sa_name a = si_server_agent s" using assms unfolding places_ok_def by auto
  have g: "get_row sa_name (agents d) (si_server_agent s) = Some a" using agent_row [OF assms(1) a(1)] a(2) by simp
  obtain b where b: "b \<in> set (benches d)" "be_name b = si_bench s" using assms unfolding places_ok_def by auto
  have h: "get_row be_name (benches d) (si_bench s) = Some b"
    unfolding b(2) [symmetric] using assms(1) b(1) by (auto simp: places_ok_def intro: unique_row)
  have "find (\<lambda>x. si_domain x = si_name s \<and> get_row sa_name (agents d) (si_server_agent x) \<noteq> None
      \<and> get_row be_name (benches d) (si_bench x) \<noteq> None) (sites d) = Some s"
    by (rule find_unique [of si_name]) (use assms g h in \<open>auto simp: places_ok_def\<close>)
  then show ?thesis using g h a b assms(1) unfolding site_owner_def places_ok_def by auto
qed

lemma check_owners_ok:
  assumes "check_owners n bs d = Inr u" "places_ok d"
  shows "(\<forall>r\<in>set (benches d). be_name r \<in> vb_bench_id ` set bs \<longrightarrow> be_server_agent r = n)
    \<and> (\<forall>r\<in>set (sites d). si_name r \<in> set (inventory_domains bs) \<longrightarrow> si_server_agent r = n)"
proof -
  have b: "bench_owner k d \<in> {None, Some n}" if "k \<in> vb_bench_id ` set bs" for k
    using assms(1) that by (auto simp: check_owners_def bindE_eq_Inr eachE_eq_Inr require_eq_Inr)
  have s: "site_owner k d \<in> {None, map_option (Pair n) (bench_of_domain bs k)}" if "k \<in> set (inventory_domains bs)" for k
    using assms(1) that by (auto simp: check_owners_def bindE_eq_Inr eachE_eq_Inr require_eq_Inr)
  have "be_server_agent r = n" if "r \<in> set (benches d)" "be_name r \<in> vb_bench_id ` set bs" for r
    using b [OF that(2)] bench_owner_row [OF assms(2) that(1)] by simp
  moreover have "si_server_agent r = n" if "r \<in> set (sites d)" "si_name r \<in> set (inventory_domains bs)" for r
    using s [OF that(2)] site_owner_row [OF assms(2) that(1)] by (cases "bench_of_domain bs (si_name r)") auto
  ultimately show ?thesis by blast
qed

lemma removed_in: "k \<in> set (removed_keys old new) \<longleftrightarrow> k \<in> set old \<and> k \<notin> set new"
  by (auto simp: removed_keys_def)

lemma owned_rows:
  assumes "inventory_ok d" "find_agent n d = Some a" "current_inventory n d = Inr (Some st)"
  shows "(\<forall>r\<in>set (benches d). be_name r \<in> vb_bench_id ` set (st_benches st) \<longrightarrow> be_server_agent r = sa_name a)
    \<and> (\<forall>r\<in>set (sites d). si_name r \<in> set (inventory_domains (st_benches st)) \<longrightarrow> si_server_agent r = sa_name a)"
proof -
  have p: "places_ok d" using assms(1) by (simp add: inventory_ok_def)
  have o: "owns (sa_name a) s d" if "s \<in> set (st_benches st)" for s
    using assms find_agent_ok [OF p assms(2)] that unfolding inventory_ok_def stored_owned_def by blast
  have "be_server_agent r = sa_name a" if r: "r \<in> set (benches d)" and s: "s \<in> set (st_benches st)" "be_name r = vb_bench_id s" for r s
  proof -
    obtain r' where "r' \<in> set (benches d)" "be_name r' = vb_bench_id s" "be_server_agent r' = sa_name a"
      using o [OF s(1)] unfolding owns_def by blast
    moreover have "r' = r" using p r s(2) calculation(1,2) unfolding places_ok_def by (metis distinct_map inj_onD)
    ultimately show ?thesis by simp
  qed
  moreover have "si_server_agent r = sa_name a"
    if r: "r \<in> set (sites d)" and s: "s \<in> set (st_benches st)" "v \<in> set (vb_sites s)" "si_name r = vs_domain v" for r s v
  proof -
    obtain r' where "r' \<in> set (sites d)" "si_name r' = vs_domain v" "si_server_agent r' = sa_name a"
      using o [OF s(1)] s(2) unfolding owns_def by blast
    moreover have "r' = r" using p r s(3) calculation(1,2) unfolding places_ok_def by (metis distinct_map inj_onD)
    ultimately show ?thesis by simp
  qed
  ultimately show ?thesis unfolding inventory_domains_def by auto
qed

lemma retired_owner:
  "r \<in> set (benches (fold retire_bench ks d)) \<Longrightarrow> \<exists>r0\<in>set (benches d). be_name r0 = be_name r \<and> be_server_agent r0 = be_server_agent r"
  "q \<in> set (sites (fold retire_site ks d)) \<Longrightarrow> \<exists>q0\<in>set (sites d). si_name q0 = si_name q \<and> si_server_agent q0 = si_server_agent q"
proof (induction ks arbitrary: d)
  case (Cons k ks)
  {
    case 1
    then obtain r1 where "r1 \<in> set (benches (retire_bench k d))" "be_name r1 = be_name r" "be_server_agent r1 = be_server_agent r"
      using Cons.IH(1) [of "retire_bench k d"] by auto
    then show ?case by (auto simp: retire_bench_def bench_set_def set_rows_in split: if_splits)
  next
    case 2
    then obtain r1 where "r1 \<in> set (sites (retire_site k d))" "si_name r1 = si_name q" "si_server_agent r1 = si_server_agent q"
      using Cons.IH(2) [of "retire_site k d"] by auto
    then show ?case by (auto simp: retire_site_def site_set_def set_rows_in split: if_splits)
  }
qed auto

lemma reported_bench:
  assumes "places_ok d" "\<forall>s\<in>set bs. reported_in a st t s d" "r \<in> set (benches d)" "be_name r \<in> vb_bench_id ` set bs"
  shows "be_server_agent r = sa_name a"
proof -
  obtain s where s: "s \<in> set bs" "be_name r = vb_bench_id s" using assms(4) by auto
  then obtain r' where r': "r' \<in> set (benches d)" "be_name r' = vb_bench_id s" "r' = bench_values a st t s r'"
    using assms(2) unfolding reported_in_def by blast
  have "r = r'" using assms(1,3) r'(1,2) s(2) unfolding places_ok_def by (metis distinct_map inj_onD)
  then show ?thesis using r'(3) bench_values_keys(3) by metis
qed

lemma reported_site:
  assumes "places_ok d" "\<forall>s\<in>set bs. reported_in a st t s d" "r \<in> set (sites d)" "si_name r \<in> set (inventory_domains bs)"
  shows "si_server_agent r = sa_name a"
proof -
  obtain s v where s: "s \<in> set bs" "v \<in> set (vb_sites s)" "si_name r = vs_domain v" using assms(4) by (auto simp: inventory_domains_def)
  then obtain r' where r': "r' \<in> set (sites d)" "si_name r' = vs_domain v" "r' = site_values a st t (vb_bench_id s) v r'"
    using assms(2) unfolding reported_in_def by blast
  have "r = r'" using assms(1,3) r'(1,2) s(3) unfolding places_ok_def by (metis distinct_map inj_onD)
  then show ?thesis using r'(3) site_values_keys(3) by metis
qed

lemma replace_effect:
  assumes r: "replace_inventory n h prev revision t d = Inr d'" and ok: "inventory_ok d"
    and dist: "distinct (map vb_bench_id (vi_benches (hb_inventory h)))"
      "distinct (inventory_domains (vi_benches (hb_inventory h)))"
  obtains a d3 ids doms where "find_agent n d = Some a" "sa_enabled a" "revision = sa_inventory_revision a + 1"
    "d' = agent_set (sa_name a) (agent_seen h revision t) d3" "places_change ids doms d d3" "places_ok d3"
    "\<forall>s\<in>set (vi_benches (hb_inventory h)). reported_in a (hb_status h) t s d3"
    "\<forall>r\<in>set (benches d). be_name r \<in> ids \<longrightarrow> be_server_agent r = n"
    "\<forall>r\<in>set (sites d). si_name r \<in> doms \<longrightarrow> si_server_agent r = n"
    "\<forall>r\<in>set (benches d3). be_name r \<in> ids \<longrightarrow> be_server_agent r = n"
    "\<forall>r\<in>set (sites d3). si_name r \<in> doms \<longrightarrow> si_server_agent r = n"
proof -
  define bs where "bs = vi_benches (hb_inventory h)"
  obtain a old u where a: "find_agent n d = Some a" "sa_enabled a" "revision = sa_inventory_revision a + 1"
    and c: "check_owners n bs d = Inr u" and old: "current_inventory n d = Inr old"
    and rest: "\<exists>d3. foldE (put_bench a (hb_status h) t) bs
        (fold retire_site (removed_keys (inventory_domains (benches_before old)) (inventory_domains bs))
        (fold retire_bench (removed_keys (map vb_bench_id (benches_before old)) (map vb_bench_id bs)) d))
        = Inr d3 \<and> d' = agent_set (sa_name a) (agent_seen h revision t) d3"
    using r unfolding replace_inventory_def Let_def bs_def [symmetric]
    by (auto simp: bindE_eq_Inr require_eq_Inr of_option_eq_Inr split: option.splits if_splits)
  define before where "before = (benches_before old)"
  define gone where "gone = removed_keys (map vb_bench_id before) (map vb_bench_id bs)"
  define gone_sites where "gone_sites = removed_keys (inventory_domains before) (inventory_domains bs)"
  define d1 where "d1 = fold retire_bench gone d"
  define d2 where "d2 = fold retire_site gone_sites d1"
  obtain d3 where d3: "foldE (put_bench a (hb_status h) t) bs d2 = Inr d3"
    and d': "d' = agent_set (sa_name a) (agent_seen h revision t) d3"
    using rest unfolding before_def [symmetric] gone_def [symmetric] gone_sites_def [symmetric] d1_def [symmetric]
      d2_def [symmetric] by blast
  have p: "places_ok d" using ok by (simp add: inventory_ok_def)
  have n: "sa_name a = n" "a \<in> set (agents d)" using find_agent_ok [OF p a(1)] by simp_all
  have c1: "places_change (set gone) {} d d1"
    using fold_places_change [of gone "\<lambda>k. {k}" "\<lambda>_. {}" retire_bench d] retire_change(1) by (simp add: d1_def)
  have c2: "places_change {} (set gone_sites) d1 d2"
    using fold_places_change [of gone_sites "\<lambda>_. {}" "\<lambda>k. {k}" retire_site d1] retire_change(2) by (simp add: d2_def)
  have p1: "places_ok d1" unfolding d1_def using p retire_ok(1) by (induction gone arbitrary: d) simp_all
  have p2: "places_ok d2" unfolding d2_def using p1 retire_ok(2) by (induction gone_sites arbitrary: d1) simp_all
  have c12: "places_change (set gone) (set gone_sites) d d2" using places_change_trans [OF c1 c2] by simp
  have e: "places_change (vb_bench_id ` set bs) (set (inventory_domains bs)) d2 d3 \<and> places_ok d3
      \<and> (\<forall>s\<in>set bs. reported_in a (hb_status h) t s d3)"
    by (rule put_benches_effect [OF d3 p2]) (use dist n places_change_agents [OF c12] bs_def in auto)
  have o: "(\<forall>r\<in>set (benches d). be_name r \<in> vb_bench_id ` set before \<longrightarrow> be_server_agent r = n)
      \<and> (\<forall>r\<in>set (sites d). si_name r \<in> set (inventory_domains before) \<longrightarrow> si_server_agent r = n)"
  proof (cases old)
    case (Some st)
    then show ?thesis using owned_rows [OF ok a(1)] old n(1) by (simp add: before_def benches_before_def)
  qed (simp add: before_def inventory_domains_def benches_before_def)
  have g: "set gone \<subseteq> vb_bench_id ` set before" "set gone_sites \<subseteq> set (inventory_domains before)"
    by (auto simp: gone_def gone_sites_def removed_in)
  have old2: "\<exists>r0\<in>set (benches d). be_name r0 = be_name r \<and> be_server_agent r0 = be_server_agent r" if "r \<in> set (benches d2)" for r
    using that retired_owner(1) [of r gone d] c2 by (auto simp: d1_def places_change_def outside_def)
  have old3: "\<exists>r0\<in>set (sites d). si_name r0 = si_name r \<and> si_server_agent r0 = si_server_agent r" if "r \<in> set (sites d2)" for r
    using that retired_owner(2) [of r gone_sites d1] c1 by (auto simp: d2_def places_change_def outside_def)
  have p3: "places_ok d3" "\<forall>s\<in>set bs. reported_in a (hb_status h) t s d3" using e by simp_all
  have nb: "be_server_agent r = n" if r: "r \<in> set (benches d3)" "be_name r \<in> set gone \<union> vb_bench_id ` set bs" for r
  proof (cases "be_name r \<in> vb_bench_id ` set bs")
    case True
    then show ?thesis using reported_bench [OF p3 r(1)] n(1) by simp
  next
    case False
    then have "r \<in> set (benches d2)" using e r(1) by (auto simp: places_change_def outside_def)
    then show ?thesis using old2 o g(1) r(2) False by (metis Un_iff subsetD)
  qed
  have ns: "si_server_agent r = n" if r: "r \<in> set (sites d3)" "si_name r \<in> set gone_sites \<union> set (inventory_domains bs)" for r
  proof (cases "si_name r \<in> set (inventory_domains bs)")
    case True
    then show ?thesis using reported_site [OF p3 r(1)] n(1) by simp
  next
    case False
    then have "r \<in> set (sites d2)" using e r(1) by (auto simp: places_change_def outside_def)
    then show ?thesis using old3 o g(2) r(2) False by (metis Un_iff subsetD)
  qed
  show ?thesis
    by (rule that [OF a d' places_change_trans [OF c12 conjunct1 [OF e]]])
       (use e o g check_owners_ok [OF c p] nb ns in \<open>auto simp: bs_def\<close>)
qed

lemma find_map_row: "(\<And>x. P (f x) = P x) \<Longrightarrow> find P (map f xs) = map_option f (find P xs)"
  by (induction xs) auto

lemma find_agent_set:
  "(\<And>x. sa_agent_id (f x) = sa_agent_id x) \<Longrightarrow> find_agent m (agent_set n f d) =
     map_option (\<lambda>x. if sa_name x = n then f x else x) (find_agent m d)"
  unfolding find_agent_def agent_set_def set_rows_def by (simp add: find_map_row)

lemma agent_seen_keys [simp]: "sa_agent_id (agent_seen h r t a) = sa_agent_id a" "sa_name (agent_seen h r t a) = sa_name a"
    "sa_inventory_digest (agent_seen h r t a) = Some (hb_digest h)" "sa_inventory_revision (agent_seen h r t a) = r"
    "sa_inventory_snapshot (agent_seen h r t a) = Some (inventory_canonical (hb_inventory h))" "sa_enabled (agent_seen h r t a) = sa_enabled a"
  by (simp_all add: agent_seen_def)

lemma current_inventory_agent: "find_agent n d = find_agent n d' \<Longrightarrow> current_inventory n d = current_inventory n d'"
  by (simp add: current_inventory_def)

lemma hex_plain: "is_hex c \<Longrightarrow> c < CHR 0x80 \<and> \<not> is_space_chunk [c] \<and> c \<noteq> CHR 0x00"
  by (auto simp: is_hex_def is_digit_def is_space_chunk_def space_chunks_def intro: le_less_trans)

lemma sha256_ascii: "is_sha256 s \<Longrightarrow> ascii s"
  using hex_plain by (auto simp: is_sha256_def list_all_iff ascii_def)

lemma sha256_text: "is_sha256 s \<Longrightarrow> good_text 64 s"
proof -
  assume s: "is_sha256 s"
  then have "clean_text s"
    using hex_plain sha256_ascii [OF s] by (intro clean_text_ascii) (auto simp: is_sha256_def list_all_iff)
  then show ?thesis using s ascii_no_surrogate [OF sha256_ascii [OF s]] by (simp add: good_text_def is_sha256_def)
qed

lemma dumps_ascii_not_Nil: "dumps_ascii (JObj kvs) \<noteq> []"
  by (simp add: dumps_ascii_def)

text \<open>What is stored of an accepted heartbeat loads as its inventory.\<close>

lemma load_stored:
  assumes "parse_heartbeat_state state = Inr h" "texts utf8_ok state"
  shows "load_snapshot (inventory_canonical (hb_inventory h)) (hb_digest h)
    = Inr \<lparr>st_digest = hb_digest h, st_benches = vi_benches (hb_inventory h), st_revision = 0\<rparr>"
proof -
  obtain raw where r: "json_loads (inventory_canonical (hb_inventory h)) = Inr raw" "parse_inventory raw = Inr (hb_inventory h)"
    using stored_snapshot_reads [OF assms] by blast
  have g: "is_sha256 (hb_digest h)" "inventory_digest (hb_inventory h) = hb_digest h" "good_text 64 (hb_digest h)"
    using parse_state_parts [OF assms(1)] by blast+
  have t: "good_text 32 ''ready''" "good_text 64 ''stored''"
    by (simp_all add: good_text_def clean_text_def string_defs)
  have k: "jkeys [(''status'', JStr ''ready''), (''version'', JStr ''stored''), (''inventory_digest'', JStr (hb_digest h)),
      (''inventory'', raw)] = set [''status'', ''version'', ''inventory_digest'', ''inventory'']" by simp
  show ?thesis
    unfolding load_snapshot_def r(1) bindE_Inr parse_heartbeat_state_def
    by (simp only: good_read(3) good_read(6) [OF k] bindE_Inr) (simp add: good_read t g r(2) heartbeat_statuses_def)
qed

lemma agent_set_stored:
  assumes "parse_heartbeat_state state = Inr h" "texts utf8_ok state" "find_agent n d = Some a"
  shows "current_inventory n (agent_set (sa_name a) (agent_seen h r t) d)
    = Inr (Some \<lparr>st_digest = hb_digest h, st_benches = vi_benches (hb_inventory h), st_revision = r\<rparr>)"
proof -
  have "is_sha256 (hb_digest h)" using parse_state_parts [OF assms(1)] by blast
  moreover have "inventory_canonical (hb_inventory h) \<noteq> []"
    unfolding inventory_canonical_def snapshot_json_def by (rule dumps_ascii_not_Nil)
  ultimately show ?thesis
    using assms(3) load_stored [OF assms(1,2)] by (simp add: current_inventory_def find_agent_set)
qed

section \<open>Heartbeats\<close>

lemma reconcile_parts:
  assumes "reconcile_inventory frappe_inventory n state (Aware t) d = Inr (delta, d')"
  obtains h previous where "parse_heartbeat_state state = Inr h" "current_inventory n d = Inr previous"
    "delta = inventory_delta_of previous (hb_inventory h) (case previous of None \<Rightarrow> 1 | Some p \<Rightarrow> st_revision p + 1)"
    "replace_inventory n h (map_option st_digest previous) (case previous of None \<Rightarrow> 1 | Some p \<Rightarrow> st_revision p + 1) t d = Inr d'"
    "is_agent_id n" "good_text 128 n" "good_inventory (hb_inventory h)"
proof -
  have g: "parse_heartbeat_state state = Inr h \<Longrightarrow> good_inventory (hb_inventory h)" for h
    using parse_state_parts parse_inventory_good by blast
  show ?thesis
    using assms that g unfolding reconcile_inventory_def Let_def bindE_eq_Inr
    by (auto simp: frappe_inventory_def inv_utc_def require_eq_Inr inv_text_ok)
qed

definition others_kept :: "string \<Rightarrow> db \<Rightarrow> db \<Rightarrow> bool" where
  "others_kept n d d' \<longleftrightarrow> d' = d\<lparr>agents := agents d', benches := benches d', sites := sites d'\<rparr>
     \<and> (\<forall>a. sa_name a \<noteq> n \<longrightarrow> a \<in> set (agents d) \<longleftrightarrow> a \<in> set (agents d'))
     \<and> (\<forall>r. be_server_agent r \<noteq> n \<longrightarrow> r \<in> set (benches d) \<longleftrightarrow> r \<in> set (benches d'))
     \<and> (\<forall>r. si_server_agent r \<noteq> n \<longrightarrow> r \<in> set (sites d) \<longleftrightarrow> r \<in> set (sites d'))"

lemma agent_set_places:
  "(\<And>x. sa_name (f x) = sa_name x) \<Longrightarrow> (\<And>x. sa_agent_id (f x) = sa_agent_id x) \<Longrightarrow>
   places_ok d \<Longrightarrow> places_ok (agent_set n f d)"
  by (auto simp: places_ok_def agent_set_def set_rows_in set_rows_key set_rows_keys split: if_splits)

lemma owns_kept: "owns m s d \<Longrightarrow> others_kept n d d' \<Longrightarrow> m \<noteq> n \<Longrightarrow> owns m s d'"
  unfolding owns_def others_kept_def by metis

lemma find_agent_name: "places_ok d \<Longrightarrow> a \<in> set (agents d) \<Longrightarrow> find_agent (sa_agent_id a) d = Some a"
  unfolding find_agent_def by (rule find_unique [of sa_name]) (auto simp: places_ok_def)

lemma heartbeat_effect:
  assumes r: "reconcile_inventory frappe_inventory n state (Aware t) d = Inr (delta, d')" and ok: "inventory_ok d"
    and u: "texts utf8_ok state"
  obtains h a where "parse_heartbeat_state state = Inr h" "find_agent n d = Some a" "sa_enabled a"
    "current_inventory n d' = Inr (Some \<lparr>st_digest = hb_digest h, st_benches = vi_benches (hb_inventory h),
       st_revision = dl_revision delta\<rparr>)"
    "dl_revision delta = sa_inventory_revision a + 1" "find_agent n d' = Some (agent_seen h (dl_revision delta) t a)"
    "\<forall>s\<in>set (vi_benches (hb_inventory h)). reported_in a (hb_status h) t s d'" "others_kept n d d'" "inventory_ok d'"
proof -
  obtain h previous where h: "parse_heartbeat_state state = Inr h"
    and delta: "delta = inventory_delta_of previous (hb_inventory h) (case previous of None \<Rightarrow> 1 | Some p \<Rightarrow> st_revision p + 1)"
    and rep: "replace_inventory n h (map_option st_digest previous) (case previous of None \<Rightarrow> 1 | Some p \<Rightarrow> st_revision p + 1) t d = Inr d'"
    and g: "good_inventory (hb_inventory h)"
    using reconcile_parts [OF r] by metis
  have rev: "(case previous of None \<Rightarrow> 1 | Some p \<Rightarrow> st_revision p + 1) = dl_revision delta"
    by (simp add: delta inventory_delta_of_def Let_def)
  obtain a d3 ids doms where a: "find_agent n d = Some a" "sa_enabled a" "dl_revision delta = sa_inventory_revision a + 1"
    and d': "d' = agent_set (sa_name a) (agent_seen h (dl_revision delta) t) d3"
    and c: "places_change ids doms d d3" and p3: "places_ok d3"
    and rin: "\<forall>s\<in>set (vi_benches (hb_inventory h)). reported_in a (hb_status h) t s d3"
    and ob: "\<forall>r\<in>set (benches d). be_name r \<in> ids \<longrightarrow> be_server_agent r = n"
    and os: "\<forall>r\<in>set (sites d). si_name r \<in> doms \<longrightarrow> si_server_agent r = n"
    and nb: "\<forall>r\<in>set (benches d3). be_name r \<in> ids \<longrightarrow> be_server_agent r = n"
    and ns: "\<forall>r\<in>set (sites d3). si_name r \<in> doms \<longrightarrow> si_server_agent r = n"
    by (rule replace_effect [OF rep [unfolded rev] ok]) (use g in \<open>auto simp: good_inventory_def\<close>)
  have p: "places_ok d" using ok by (simp add: inventory_ok_def)
  have n: "sa_name a = n" "sa_agent_id a = n" "a \<in> set (agents d)" using find_agent_ok [OF p a(1)] by simp_all
  have ag: "agents d3 = agents d" by (rule places_change_agents [OF c])
  have f3: "find_agent m d3 = find_agent m d" for m by (simp add: find_agent_def ag)
  have cur: "current_inventory n d' = Inr (Some \<lparr>st_digest = hb_digest h, st_benches = vi_benches (hb_inventory h),
       st_revision = dl_revision delta\<rparr>)"
    unfolding d' by (rule agent_set_stored [OF h u]) (simp add: f3 a(1))
  have fa: "find_agent n d' = Some (agent_seen h (dl_revision delta) t a)" by (simp add: d' find_agent_set f3 a(1))
  have places: "benches d' = benches d3" "sites d' = sites d3" by (simp_all add: d' agent_set_def)
  have rin': "\<forall>s\<in>set (vi_benches (hb_inventory h)). reported_in a (hb_status h) t s d'"
    using rin by (simp add: reported_in_def places)
  have kept: "others_kept n d d'"
  proof -
    have "d' = d\<lparr>agents := agents d', benches := benches d', sites := sites d'\<rparr>"
      using c by (cases d; cases d3) (simp add: d' agent_set_def places_change_def)
    moreover have "x \<in> set (agents d) \<longleftrightarrow> x \<in> set (agents d')" if "sa_name x \<noteq> n" for x
      using that n(1) by (auto simp: d' agent_set_def ag set_rows_in)
    ultimately show ?thesis using c ob os nb ns unfolding others_kept_def places places_change_def outside_def by blast
  qed
  have "places_ok d'" using p3 by (simp add: d' agent_set_places)
  moreover have "stored_owned d'"
    unfolding stored_owned_def
  proof (intro ballI allI impI)
    fix x st s assume x: "x \<in> set (agents d')" and st: "current_inventory (sa_agent_id x) d' = Inr (Some st)" and s: "s \<in> set (st_benches st)"
    show "owns (sa_name x) s d'"
    proof (cases "sa_name x = n")
      case True
      then have "sa_agent_id x = n" using \<open>places_ok d'\<close> x by (simp add: places_ok_def)
      then have "s \<in> set (vi_benches (hb_inventory h))" using st cur s by auto
      then show ?thesis using rin' reported_owns n(1) True by metis
    next
      case False
      then have xd: "x \<in> set (agents d)" using x n(1) by (auto simp: d' agent_set_def ag set_rows_in split: if_splits)
      have "find_agent (sa_agent_id x) d' = find_agent (sa_agent_id x) d"
        using find_agent_name [OF p xd] False n(1) by (simp add: d' find_agent_set f3)
      then have "current_inventory (sa_agent_id x) d = Inr (Some st)" using st current_inventory_agent by metis
      then have "owns (sa_name x) s d" using ok xd s unfolding inventory_ok_def stored_owned_def by blast
      then show ?thesis using owns_kept [OF _ kept False] by blast
    qed
  qed
  ultimately have "inventory_ok d'" by (simp add: inventory_ok_def)
  then show ?thesis using that [OF h a(1,2) cur a(3) fa rin' kept] by blast
qed

text \<open>The same heartbeat is accepted again: its rows exist and are the agent's.\<close>

definition place_names :: "db \<Rightarrow> string set \<times> string set" where
  "place_names d = (be_name ` set (benches d), si_name ` set (sites d))"

lemma place_names_set [simp]: "(\<And>x. be_name (f x) = be_name x) \<Longrightarrow> place_names (bench_set n f d) = place_names d"
    "(\<And>x. si_name (g x) = si_name x) \<Longrightarrow> place_names (site_set n g d) = place_names d"
  by (simp_all add: place_names_def bench_set_def site_set_def set_rows_keys)

lemma put_site_again:
  "vs_domain v \<in> snd (place_names d) \<Longrightarrow> \<exists>d'. put_site a st t n v d = Inr d' \<and> place_names d' = place_names d"
  using get_row_None [of si_name "sites d" "vs_domain v"] by (simp add: put_site_def place_names_def [of d])

lemma foldE_again:
  assumes "\<And>x d. x \<in> set xs \<Longrightarrow> place_names d = p \<Longrightarrow> \<exists>d'. f x d = Inr d' \<and> place_names d' = p" "place_names d = p"
  shows "\<exists>d'. foldE f xs d = Inr d' \<and> place_names d' = p"
  using assms
proof (induction xs arbitrary: d)
  case (Cons x xs)
  then obtain d1 where "f x d = Inr d1" "place_names d1 = p" by (metis list.set_intros(1))
  then show ?case using Cons.IH [of d1] Cons.prems(1) by simp
qed simp

lemma put_bench_again:
  assumes "vb_bench_id s \<in> fst (place_names d)" "vs_domain ` set (vb_sites s) \<subseteq> snd (place_names d)"
  shows "\<exists>d'. put_bench a st t s d = Inr d' \<and> place_names d' = place_names d"
proof -
  define d1 where "d1 = bench_set (vb_bench_id s) (bench_values a st t s) d"
  have n: "place_names d1 = place_names d" by (simp add: d1_def)
  have "\<exists>d'. foldE (put_site a st t (vb_bench_id s)) (vb_sites s) d1 = Inr d' \<and> place_names d' = place_names d"
  proof (rule foldE_again [OF _ n])
    fix x e assume "x \<in> set (vb_sites s)" "place_names e = place_names d"
    then have "vs_domain x \<in> snd (place_names e)" using assms(2) by auto
    then show "\<exists>d'. put_site a st t (vb_bench_id s) x e = Inr d' \<and> place_names d' = place_names d"
      using put_site_again \<open>place_names e = place_names d\<close> by metis
  qed
  then show ?thesis
    using assms(1) get_row_None [of be_name "benches d" "vb_bench_id s"] by (simp add: put_bench_def d1_def place_names_def [of d])
qed

lemma bench_of_domain_distinct:
  assumes "distinct (inventory_domains bs)" "s \<in> set bs" "v \<in> set (vb_sites s)"
  shows "bench_of_domain bs (vs_domain v) = Some (vb_bench_id s)"
proof -
  have "map fst (concat (map (\<lambda>b. map (\<lambda>s. (vs_domain s, vb_bench_id b)) (vb_sites b)) bs)) = inventory_domains bs"
    by (induction bs) (simp_all add: inventory_domains_def)
  then have "distinct (map fst (rev (concat (map (\<lambda>b. map (\<lambda>s. (vs_domain s, vb_bench_id b)) (vb_sites b)) bs))))"
    using assms(1) by (simp add: rev_map [symmetric])
  then show ?thesis unfolding bench_of_domain_def by (rule map_of_is_SomeI) (use assms(2,3) in auto)
qed

lemma reported_owners:
  assumes "places_ok d" "reported_in a st t s d"
  shows "bench_owner (vb_bench_id s) d = Some (sa_name a)"
    "v \<in> set (vb_sites s) \<Longrightarrow> site_owner (vs_domain v) d = Some (sa_name a, vb_bench_id s)"
    "vb_bench_id s \<in> fst (place_names d)" "vs_domain ` set (vb_sites s) \<subseteq> snd (place_names d)"
proof -
  obtain r where r: "r \<in> set (benches d)" "be_name r = vb_bench_id s" "be_server_agent r = sa_name a"
    using assms(2) unfolding reported_in_def by (metis bench_values_keys(3))
  show "bench_owner (vb_bench_id s) d = Some (sa_name a)" using bench_owner_row [OF assms(1) r(1)] r by simp
  show "vb_bench_id s \<in> fst (place_names d)" using imageI [OF r(1), of be_name] r(2) by (simp add: place_names_def)
  have q: "\<exists>x\<in>set (sites d). si_name x = vs_domain v \<and> si_server_agent x = sa_name a \<and> si_bench x = vb_bench_id s"
    if "v \<in> set (vb_sites s)" for v
    using assms(2) that unfolding reported_in_def by (metis site_values_keys(3,4))
  show "site_owner (vs_domain v) d = Some (sa_name a, vb_bench_id s)" if "v \<in> set (vb_sites s)"
    using q [OF that] site_owner_row [OF assms(1)] by metis
  show "vs_domain ` set (vb_sites s) \<subseteq> snd (place_names d)" 
  proof (rule image_subsetI)
    fix v assume "v \<in> set (vb_sites s)"
    then obtain x where x: "x \<in> set (sites d)" "si_name x = vs_domain v" using q by blast
    show "vs_domain v \<in> snd (place_names d)" using imageI [OF x(1), of si_name] x(2) by (simp add: place_names_def)
  qed
qed

lemma heartbeat_again:
  assumes r: "reconcile_inventory frappe_inventory n state (Aware t) d = Inr (delta, d')" and ok: "inventory_ok d"
    and u: "texts utf8_ok state"
  shows "\<exists>delta' d''. reconcile_inventory frappe_inventory n state (Aware t') d' = Inr (delta', d'')
    \<and> no_change delta' \<and> dl_revision delta' = dl_revision delta + 1"
proof -
  obtain h a where h: "parse_heartbeat_state state = Inr h" and a: "find_agent n d = Some a" "sa_enabled a"
    and cur: "current_inventory n d' = Inr (Some \<lparr>st_digest = hb_digest h, st_benches = vi_benches (hb_inventory h),
       st_revision = dl_revision delta\<rparr>)"
    and fa: "find_agent n d' = Some (agent_seen h (dl_revision delta) t a)"
    and rin: "\<forall>s\<in>set (vi_benches (hb_inventory h)). reported_in a (hb_status h) t s d'" and ok': "inventory_ok d'"
    using heartbeat_effect [OF r ok u] by metis
  define bs where "bs = vi_benches (hb_inventory h)"
  have p': "places_ok d'" using ok' by (simp add: inventory_ok_def)
  have n: "sa_name a = n" using find_agent_ok [OF _ a(1)] ok by (simp add: inventory_ok_def)
  have idn: "is_agent_id n" "good_text 128 n" and g: "good_inventory (hb_inventory h)"
    using reconcile_parts [OF r] h by (metis sum.inject(2))+
  have dg: "hb_digest h \<noteq> []" using parse_state_parts [OF h] by (auto simp: is_sha256_def)
  note ro = reported_owners [OF p' bspec [OF rin]]
  have dist: "distinct (inventory_domains bs)" using g by (simp add: good_inventory_def bs_def)
  have bo: "bench_owner (vb_bench_id s) d' = Some n" if "s \<in> set bs" for s using ro(1) that n bs_def by simp
  have so: "site_owner (vs_domain v) d' = Some (n, vb_bench_id s)" if "s \<in> set bs" "v \<in> set (vb_sites s)" for s v
    using ro(2) that n bs_def by simp
  have c1: "check_bench_owners frappe_inventory n bs d' = Inr ()"
    by (simp add: check_bench_owners_def eachE_eq_Inr bindE_eq_Inr require_eq_Inr frappe_inventory_def bo so)
  have c2: "check_owners n bs d' = Inr ()"
  proof -
    have "site_owner k d' = map_option (Pair n) (bench_of_domain bs k)" if "k \<in> set (inventory_domains bs)" for k
      using that so bench_of_domain_distinct [OF dist] by (auto simp: inventory_domains_def)
    then show ?thesis using bo by (auto simp: check_owners_def bindE_eq_Inr eachE_eq_Inr require_eq_Inr)
  qed
  have nogone: "removed_keys xs xs = []" for xs by (simp add: removed_keys_def keys_where_Nil)
  obtain d3 where d3: "foldE (put_bench (agent_seen h (dl_revision delta) t a) (hb_status h) t') bs d' = Inr d3"
    using foldE_again [of bs "place_names d'" "put_bench (agent_seen h (dl_revision delta) t a) (hb_status h) t'" d']
      put_bench_again ro(3,4) bs_def by metis
  have rep: "replace_inventory n h (Some (hb_digest h)) (dl_revision delta + 1) t' d'
      = Inr (agent_set n (agent_seen h (dl_revision delta + 1) t') d3)"
    using d3 n a(2) dg by (simp add: replace_inventory_def Let_def bs_def [symmetric] fa c2 cur benches_before_def nogone)
  define st where "st = \<lparr>st_digest = hb_digest h, st_benches = bs, st_revision = dl_revision delta\<rparr>"
  have rec: "reconcile_inventory frappe_inventory n state (Aware t') d'
      = Inr (inventory_delta_of (Some st) (hb_inventory h) (dl_revision delta + 1),
             agent_set n (agent_seen h (dl_revision delta + 1) t') d3)"
    using idn c1 rep cur unfolding reconcile_inventory_def
    by (simp add: good_read inv_utc_def h frappe_inventory_def [THEN arg_cong, of rp_current] st_def bs_def [symmetric])
       (simp add: frappe_inventory_def Let_def)
  have "no_change (inventory_delta_of (Some st) (hb_inventory h) (dl_revision delta + 1))"
    using no_change_iff [OF g g, of st] by (simp add: st_def bs_def)
  then show ?thesis using rec by (simp add: inventory_delta_of_def Let_def)
qed

section \<open>What a heartbeat promises\<close>

text \<open>
  C24: an accepted heartbeat is what the tables hold: the stored snapshot reads back as the inventory
  reported, one revision further, and every reported bench and site has its row with the reported
  values. Sent again at any later time it is accepted, and finds nothing to change.
\<close>

theorem heartbeat_stored:
  assumes "reconcile_inventory frappe_inventory n state (Aware t) d = Inr (delta, d')"
    and "inventory_ok d" and "texts utf8_ok state"
  shows "\<exists>h a. parse_heartbeat_state state = Inr h \<and> find_agent n d = Some a \<and> sa_enabled a
    \<and> current_inventory n d' = Inr (Some \<lparr>st_digest = hb_digest h, st_benches = vi_benches (hb_inventory h),
         st_revision = sa_inventory_revision a + 1\<rparr>)
    \<and> (\<forall>s\<in>set (vi_benches (hb_inventory h)). reported_in a (hb_status h) t s d')
    \<and> (\<forall>t'. \<exists>delta' d''. reconcile_inventory frappe_inventory n state (Aware t') d' = Inr (delta', d'')
         \<and> no_change delta' \<and> dl_revision delta' = sa_inventory_revision a + 2)"
proof -
  obtain h a where h: "parse_heartbeat_state state = Inr h" "find_agent n d = Some a" "sa_enabled a"
    "current_inventory n d' = Inr (Some \<lparr>st_digest = hb_digest h, st_benches = vi_benches (hb_inventory h),
       st_revision = dl_revision delta\<rparr>)" "dl_revision delta = sa_inventory_revision a + 1"
    "\<forall>s\<in>set (vi_benches (hb_inventory h)). reported_in a (hb_status h) t s d'"
    using heartbeat_effect [OF assms] by metis
  show ?thesis
    by (rule exI [of _ h], rule exI [of _ a]) (use h heartbeat_again [OF assms] in \<open>simp add: add.commute\<close>)
qed

text \<open>
  A heartbeat changes nothing of another agent: it neither changes nor adds a row of one, a bench
  or a site of one, and touches no other table. What every agent reported last stays in the tables as its own.
\<close>

theorem heartbeat_isolated:
  assumes "reconcile_inventory frappe_inventory n state (Aware t) d = Inr (delta, d')"
    and "inventory_ok d" and "texts utf8_ok state"
  shows "inventory_ok d' \<and> d' = d\<lparr>agents := agents d', benches := benches d', sites := sites d'\<rparr>
    \<and> (\<forall>a. sa_name a \<noteq> n \<longrightarrow> a \<in> set (agents d) \<longleftrightarrow> a \<in> set (agents d'))
    \<and> (\<forall>r. be_server_agent r \<noteq> n \<longrightarrow> r \<in> set (benches d) \<longleftrightarrow> r \<in> set (benches d'))
    \<and> (\<forall>r. si_server_agent r \<noteq> n \<longrightarrow> r \<in> set (sites d) \<longleftrightarrow> r \<in> set (sites d'))"
  using heartbeat_effect [OF assms] unfolding others_kept_def by metis

text \<open>
  C25: after a heartbeat the agent is projected with what it reported, online with its reported
  status as long as less than the threshold has passed, and offline from then on; a clock that is
  more than five minutes behind the heartbeat is an error.
\<close>

theorem heartbeat_projected:
  assumes "reconcile_inventory frappe_inventory n state (Aware t) d = Inr (delta, d')"
    and "inventory_ok d" and "texts utf8_ok state"
  shows "\<exists>h. parse_heartbeat_state state = Inr h \<and>
    project_agent frappe_inventory threshold n (Aware now) d' =
      (if t \<le> now + seconds 300
       then Inr (Some \<lparr>pj_agent = n, pj_reported = hb_status h,
              pj_effective = (if now - t < seconds threshold then hb_status h else ''offline''),
              pj_version = hb_version h, pj_last_seen = Aware t, pj_digest = hb_digest h,
              pj_revision = dl_revision delta,
              pj_capabilities = map JStr (sort (remdups (concat (map vb_capabilities (vi_benches (hb_inventory h)))))),
              pj_online = (now - t < seconds threshold)\<rparr>)
       else Inl (InventoryReconciliationError ''future last_seen_at''))"
proof -
  obtain h a where h: "parse_heartbeat_state state = Inr h"
    and f: "find_agent n d' = Some (agent_seen h (dl_revision delta) t a)"
    using heartbeat_effect [OF assms] by metis
  have ne: "hb_digest h \<noteq> []" "hb_status h \<noteq> []" "hb_version h \<noteq> []"
    using parse_state_parts [OF h] by (auto simp: is_sha256_def heartbeat_statuses_def good_text_def clean_text_def)
  define caps where "caps = sort (remdups (concat (map vb_capabilities (vi_benches (hb_inventory h)))))"
  have l: "json_loads (json_dumps (JList (map JStr caps))) = Inr (JList (map JStr caps))"
    using loads_dumps [OF keeps_hooks(1), of "JList (map JStr caps)"]
    by (simp add: json_loads_def list_all_iff del: json_dumps.simps)
  have c: "json_column (Some (json_dumps (JList (map JStr caps)))) = json_dumps (JList (map JStr caps))"
    by (simp add: json_column_def)
  have "read_projection n d' = Inr (Some \<lparr>pj_agent = n, pj_reported = hb_status h, pj_effective = hb_status h,
      pj_version = hb_version h, pj_last_seen = Aware t, pj_digest = hb_digest h, pj_revision = dl_revision delta,
      pj_capabilities = map JStr caps, pj_online = True\<rparr>)"
    using ne by (simp add: read_projection_def f agent_seen_def caps_def [symmetric] c l json_elements_def Let_def
        del: json_dumps.simps)
  then show ?thesis
    by (intro exI [of _ h]) (simp add: h project_agent_def frappe_inventory_def inv_utc_def caps_def [symmetric] Let_def)
qed

definition recorded_elsewhere :: "string \<Rightarrow> string \<Rightarrow> db \<Rightarrow> bool" where
  "recorded_elsewhere dmn k d \<longleftrightarrow> (\<exists>s\<in>set (sites d). si_domain s = dmn \<and> si_name s = k) \<and> dmn \<notin> si_name ` set (sites d)"

lemma elsewhere_set:
  assumes "recorded_elsewhere dmn k d" "\<And>x. si_name (f x) = si_name x" "\<And>x. n = k \<Longrightarrow> si_domain (f x) = si_domain x"
  shows "recorded_elsewhere dmn k (site_set n f d)"
proof -
  obtain s where s: "s \<in> set (sites d)" "si_domain s = dmn" "si_name s = k" using assms(1) by (auto simp: recorded_elsewhere_def)
  have "(if si_name s = n then f s else s) \<in> set (sites (site_set n f d))"
    using s(1) by (auto simp: site_set_def set_rows_in)
  moreover have "si_name ` set (sites (site_set n f d)) = si_name ` set (sites d)"
    using assms(2) by (simp add: site_set_def set_rows_keys)
  ultimately show ?thesis using assms s unfolding recorded_elsewhere_def by (metis (full_types))
qed

lemma put_site_elsewhere:
  assumes "put_site a st t n v d = Inr d'" "recorded_elsewhere dmn k d" "vs_domain v \<noteq> k"
  shows "vs_domain v \<noteq> dmn \<and> recorded_elsewhere dmn k d'"
proof (cases "get_row si_name (sites d) (vs_domain v)")
  case (Some x)
  then have "vs_domain v \<noteq> dmn" using get_row_Some [OF Some] assms(2) imageI [of x "set (sites d)" si_name]
    by (auto simp: recorded_elsewhere_def)
  moreover have "d' = site_set (vs_domain v) (site_values a st t n v) d" using Some assms(1) by (simp add: put_site_def)
  ultimately show ?thesis using elsewhere_set [OF assms(2)] assms(3) by simp
next
  case None
  then have "si_insert (site_values a st t n v (new_site (vs_domain v))) d = Inr d'" using assms(1) by (simp add: put_site_def)
  from si_insert_ok [OF this] show ?thesis using assms(2) by (auto simp: recorded_elsewhere_def)
qed

lemma put_sites_elsewhere:
  assumes "foldE (put_site a st t n) vs d = Inr d'" "recorded_elsewhere dmn k d" "k \<notin> vs_domain ` set vs"
  shows "dmn \<notin> vs_domain ` set vs \<and> recorded_elsewhere dmn k d'"
  using assms
proof (induction vs arbitrary: d)
  case (Cons v vs)
  obtain d1 where "put_site a st t n v d = Inr d1" "foldE (put_site a st t n) vs d1 = Inr d'"
    using Cons.prems(1) by (auto simp: bindE_eq_Inr)
  then show ?case using put_site_elsewhere [of a st t n v d d1 dmn k] Cons.IH [of d1] Cons.prems(2,3) by auto
qed simp

lemma put_bench_elsewhere:
  assumes "put_bench a st t s d = Inr d'" "recorded_elsewhere dmn k d" "k \<notin> vs_domain ` set (vb_sites s)"
  shows "dmn \<notin> vs_domain ` set (vb_sites s) \<and> recorded_elsewhere dmn k d'"
proof -
  obtain d1 where d1: "(if get_row be_name (benches d) (vb_bench_id s) \<noteq> None
      then Inr (bench_set (vb_bench_id s) (bench_values a st t s) d)
      else be_insert (bench_values a st t s (new_bench (vb_bench_id s))) d) = Inr d1"
    and rest: "foldE (put_site a st t (vb_bench_id s)) (vb_sites s) d1 = Inr d'"
    using assms(1) by (auto simp: put_bench_def bindE_eq_Inr)
  have "sites d1 = sites d" using d1 by (auto simp: bench_set_def split: if_splits dest!: be_insert_ok)
  then show ?thesis using put_sites_elsewhere [OF rest _ assms(3)] assms(2) by (simp add: recorded_elsewhere_def)
qed

lemma put_benches_elsewhere:
  assumes "foldE (put_bench a st t) bs d = Inr d'" "recorded_elsewhere dmn k d" "k \<notin> set (inventory_domains bs)"
  shows "dmn \<notin> set (inventory_domains bs)"
  using assms
proof (induction bs arbitrary: d)
  case (Cons s bs)
  obtain d1 where "put_bench a st t s d = Inr d1" "foldE (put_bench a st t) bs d1 = Inr d'"
    using Cons.prems(1) by (auto simp: bindE_eq_Inr)
  moreover have "inventory_domains (s # bs) = map vs_domain (vb_sites s) @ inventory_domains bs"
    by (simp add: inventory_domains_def)
  ultimately show ?case
    using put_bench_elsewhere [of a st t s d d1 dmn k] Cons.IH [of d1] Cons.prems(2,3) by auto
qed (simp add: inventory_domains_def)

lemma retire_elsewhere:
  "recorded_elsewhere dmn k d \<Longrightarrow> recorded_elsewhere dmn k (retire_bench n d)"
  "recorded_elsewhere dmn k d \<Longrightarrow> recorded_elsewhere dmn k (retire_site n d)"
  by (simp add: recorded_elsewhere_def retire_bench_def bench_set_def)
     (simp add: retire_site_def elsewhere_set)

lemma fold_elsewhere:
  "recorded_elsewhere dmn k d \<Longrightarrow> recorded_elsewhere dmn k (fold retire_site gs (fold retire_bench gone d))"
  by (induction gone arbitrary: d; induction gs arbitrary: d) (simp_all add: retire_elsewhere)

text \<open>
  A site a Controller Admin has recorded under a \<open>site_id\<close> other than its domain blocks the
  heartbeats that report the domain: its row is looked up by name and not found, and the insert
  repeats a unique domain.
\<close>

theorem foreign_site_id_blocks:
  assumes "parse_heartbeat_state state = Inr h" and "dmn \<in> set (inventory_domains (vi_benches (hb_inventory h)))"
    and "s \<in> set (sites d)" "si_domain s = dmn" "get_row si_name (sites d) dmn = None"
    and "si_name s \<notin> set (inventory_domains (vi_benches (hb_inventory h)))"
  shows "\<not> is_ok (reconcile_inventory frappe_inventory n state (Aware t) d)"
proof
  assume "is_ok (reconcile_inventory frappe_inventory n state (Aware t) d)"
  then obtain delta d' where "reconcile_inventory frappe_inventory n state (Aware t) d = Inr (delta, d')"
    by (auto simp: is_ok_iff)
  from reconcile_parts [OF this] assms(1) obtain prev r where
    rep: "replace_inventory n h prev r t d = Inr d'" by (metis sum.inject(2))
  define bs where "bs = vi_benches (hb_inventory h)"
  obtain a gone gone_sites d3 where
    "foldE (put_bench a (hb_status h) t) bs (fold retire_site gone_sites (fold retire_bench gone d)) = Inr d3"
    using rep unfolding replace_inventory_def Let_def bs_def [symmetric] by (auto simp: bindE_eq_Inr)
  moreover have "recorded_elsewhere dmn (si_name s) d"
    using assms(3-5) by (auto simp: recorded_elsewhere_def get_row_None)
  then have "recorded_elsewhere dmn (si_name s) (fold retire_site gone_sites (fold retire_bench gone d))"
    by (rule fold_elsewhere)
  ultimately have "dmn \<notin> set (inventory_domains bs)" using put_benches_elsewhere assms(6) bs_def by blast
  then show False using assms(2) by (simp add: bs_def)
qed

section \<open>A heartbeat\<close>

definition demo_inventory :: inventory_snapshot where
  "demo_inventory = \<lparr>vi_schema = 1, vi_version = ''1.0'', vi_benches =
     [\<lparr>vb_bench_id = ''bench-1'', vb_versions = [(''frappe'', ''16'')], vb_capabilities = [''site.backup''],
       vb_sites = [\<lparr>vs_domain = ''a.example'', vs_apps = [(''frappe'', ''16'')], vs_scheduler = Some True,
         vs_maintenance = Some False, vs_database = ''a''\<rparr>], vb_required = None\<rparr>]\<rparr>"

definition demo_state :: json where
  "demo_state = JObj [(''status'', JStr ''ready''), (''version'', JStr ''1.0''),
     (''inventory_digest'', JStr (inventory_digest demo_inventory)), (''inventory'', canon (snapshot_json demo_inventory))]"

definition demo_heartbeat :: heartbeat_inventory where
  "demo_heartbeat = \<lparr>hb_status = ''ready'', hb_version = ''1.0'', hb_digest = inventory_digest demo_inventory,
     hb_inventory = demo_inventory\<rparr>"

definition fresh_db :: db where
  "fresh_db = empty_db\<lparr>agents := [demo_agent], benches := [demo_bench]\<rparr>"

lemma demo_inventory_good: "good_inventory demo_inventory"
  by (simp add: good_inventory_def demo_inventory_def good_bench_def good_site_def good_pairs_def good_required_def
      good_text_def clean_text_def inventory_domains_def is_bench_id_def is_capability_def capability_part_def
      is_database_def string_defs)

lemma demo_inventory_digest: "is_sha256 (inventory_digest demo_inventory)"
  by (simp add: inventory_digest_def)

lemma demo_state_parsed: "parse_heartbeat_state demo_state = Inr demo_heartbeat"
proof -
  have t: "good_text 32 ''ready''" "good_text 64 ''1.0''" by (simp_all add: good_text_def clean_text_def string_defs)
  have k: "jkeys [(''status'', JStr ''ready''), (''version'', JStr ''1.0''), (''inventory_digest'', JStr (inventory_digest demo_inventory)),
      (''inventory'', canon (snapshot_json demo_inventory))] = set [''status'', ''version'', ''inventory_digest'', ''inventory'']" by simp
  show ?thesis
    unfolding demo_state_def parse_heartbeat_state_def
    by (simp only: good_read(3) good_read(6) [OF k] bindE_Inr)
       (simp add: good_read t demo_inventory_digest sha256_text heartbeat_statuses_def demo_heartbeat_def
          parse_inventory_written [OF demo_inventory_good] del: canon.simps)
qed

lemma demo_state_texts: "texts utf8_ok demo_state"
proof -
  have "ascii (inventory_digest demo_inventory)"
    using demo_inventory_digest by (rule sha256_ascii)
  moreover have "texts utf8_ok (canon (snapshot_json demo_inventory))"
    by (simp add: snapshot_json_def demo_inventory_def bench_json_def site_json_def json_pairs_def json_flag_def ascii_utf8_ok)
  ultimately show ?thesis by (simp add: demo_state_def ascii_utf8_ok del: canon.simps)
qed

lemma fresh_ok: "inventory_ok fresh_db"
  by (simp add: inventory_ok_def places_ok_def stored_owned_def current_inventory_def find_agent_def fresh_db_def empty_db_def
      demo_agent_def demo_bench_def)

lemma demo_pairs_load: "json_loads (json_dumps (json_pairs ps)) = Inr (json_pairs ps)"
  using loads_dumps [OF keeps_hooks(1), of "json_pairs ps"] by (simp add: json_loads_def del: json_dumps.simps)

lemma demo_insert: "si_validate d None (site_values a st t ''bench-1'' v (new_site n)) = Inr ()"
  if "vs_domain v = ''a.example''" "map_option be_server_agent (get_row be_name (benches d) ''bench-1'') = Some (sa_name a)"
proof -
  have c: "json_column (Some (json_dumps (json_pairs ps))) = json_dumps (json_pairs ps)" for ps
    by (simp add: json_column_def json_pairs_def)
  have e: "json_loads ''[]'' = Inr (JList [])"
    using loads_dumps [OF keeps_hooks(1), of "JList []"] by (simp add: json_loads_def)
  show ?thesis
    using that by (simp add: si_validate_def site_values_def new_site_def rstrip_dot_def is_fqdn_def string_defs
        require_json_def c demo_pairs_load e has_shape_def json_column_def [of "Some ''[]''"] labels_ok_def
        require_link_value_def del: json_dumps.simps) (simp add: json_pairs_def)
qed

lemma demo_heartbeat_accepted: "\<exists>delta d'. reconcile_inventory frappe_inventory ''agent-1'' demo_state (Aware t) fresh_db = Inr (delta, d')"
proof -
  have f: "find_agent ''agent-1'' fresh_db = Some demo_agent" by (simp add: find_agent_def fresh_db_def demo_agent_def)
  have cur: "current_inventory ''agent-1'' fresh_db = Inr None" by (simp add: current_inventory_def f) (simp add: demo_agent_def)
  have bo: "bench_owner ''bench-1'' fresh_db = Some ''agent-1''"
    by (simp add: bench_owner_def fresh_db_def demo_agent_def demo_bench_def get_row_def)
  have so: "site_owner x fresh_db = None" for x by (simp add: site_owner_def fresh_db_def empty_db_def)
  define s where "s = hd (vi_benches demo_inventory)"
  have s: "vi_benches demo_inventory = [s]" "vb_bench_id s = ''bench-1''" "inventory_domains [s] = [''a.example'']"
    by (simp_all add: s_def demo_inventory_def inventory_domains_def)
  obtain v where v: "vb_sites s = [v]" "vs_domain v = ''a.example''" by (simp add: s_def demo_inventory_def)
  have c: "check_bench_owners frappe_inventory ''agent-1'' [s] fresh_db = Inr ()" "check_owners ''agent-1'' [s] fresh_db = Inr ()"
    by (simp_all add: check_bench_owners_def frappe_inventory_def check_owners_def s v bo so)
  define d1 where "d1 = bench_set ''bench-1'' (bench_values demo_agent ''ready'' t s) fresh_db"
  have "\<exists>d3. put_site demo_agent ''ready'' t ''bench-1'' v d1 = Inr d3"
    using v demo_insert [of v d1 demo_agent]
    by (simp add: put_site_def d1_def bench_set_def fresh_db_def empty_db_def demo_bench_def set_rows_def get_row_def
        si_insert_def insert_row_def bench_values_def)
  then obtain d3 where d3: "foldE (put_bench demo_agent ''ready'' t) [s] fresh_db = Inr d3"
    by (auto simp: put_bench_def s v d1_def fresh_db_def get_row_def demo_bench_def)
  have gone: "removed_keys [] xs = []" "inventory_domains [] = []" for xs
    by (simp_all add: removed_keys_def keys_where_def inventory_domains_def)
  have rep: "replace_inventory ''agent-1'' demo_heartbeat None 1 t fresh_db
      = Inr (agent_set ''agent-1'' (agent_seen demo_heartbeat 1 t) d3)"
    using d3 c(2) by (simp add: replace_inventory_def demo_heartbeat_def s f cur benches_before_def gone Let_def)
       (simp add: demo_agent_def)
  have i: "is_agent_id ''agent-1''" "good_text 128 ''agent-1''"
    by (simp_all add: is_agent_id_def string_defs good_text_def clean_text_def)
  show ?thesis
    unfolding reconcile_inventory_def using i rep cur c(1) s(1)
    by (simp add: good_read inv_utc_def demo_state_parsed frappe_inventory_def demo_heartbeat_def Let_def)
qed

theorem heartbeat_stored_witness:
  "\<exists>delta d' delta' d''. reconcile_inventory frappe_inventory ''agent-1'' demo_state (Aware 0) fresh_db = Inr (delta, d')
     \<and> current_inventory ''agent-1'' d' = Inr (Some \<lparr>st_digest = inventory_digest demo_inventory,
          st_benches = vi_benches demo_inventory, st_revision = 1\<rparr>)
     \<and> reconcile_inventory frappe_inventory ''agent-1'' demo_state (Aware 60000000) d' = Inr (delta', d'')
     \<and> no_change delta' \<and> dl_revision delta' = 2"
proof -
  obtain delta d' where r: "reconcile_inventory frappe_inventory ''agent-1'' demo_state (Aware 0) fresh_db = Inr (delta, d')"
    using demo_heartbeat_accepted by blast
  obtain a where "find_agent ''agent-1'' fresh_db = Some a" "current_inventory ''agent-1'' d' = Inr (Some \<lparr>st_digest =
       hb_digest demo_heartbeat, st_benches = vi_benches (hb_inventory demo_heartbeat), st_revision = sa_inventory_revision a + 1\<rparr>)"
    and again: "\<exists>delta' d''. reconcile_inventory frappe_inventory ''agent-1'' demo_state (Aware 60000000) d' = Inr (delta', d'')
       \<and> no_change delta' \<and> dl_revision delta' = sa_inventory_revision a + 2"
    using heartbeat_stored [OF r fresh_ok demo_state_texts] unfolding demo_state_parsed by auto
  moreover have "a = demo_agent" using calculation(1) by (simp add: find_agent_def fresh_db_def demo_agent_def)
  ultimately show ?thesis using r by (auto simp: demo_heartbeat_def demo_agent_def)
qed

theorem heartbeat_isolated_witness:
  "\<exists>delta d'. reconcile_inventory frappe_inventory ''agent-1'' demo_state (Aware 0) fresh_db = Inr (delta, d') \<and> inventory_ok d'"
  using demo_heartbeat_accepted [of 0] heartbeat_isolated [OF _ fresh_ok demo_state_texts] by blast

theorem heartbeat_projected_witness:
  "\<exists>delta d' p. reconcile_inventory frappe_inventory ''agent-1'' demo_state (Aware 0) fresh_db = Inr (delta, d')
     \<and> project_agent frappe_inventory 90 ''agent-1'' (Aware 89000000) d' = Inr (Some p) \<and> pj_online p
     \<and> project_agent frappe_inventory 90 ''agent-1'' (Aware 90000000) d' = Inr (Some (p\<lparr>pj_effective := ''offline'', pj_online := False\<rparr>))"
proof -
  obtain delta d' where r: "reconcile_inventory frappe_inventory ''agent-1'' demo_state (Aware 0) fresh_db = Inr (delta, d')"
    using demo_heartbeat_accepted by blast
  show ?thesis
    using r heartbeat_projected [OF r fresh_ok demo_state_texts, of 90 89000000]
      heartbeat_projected [OF r fresh_ok demo_state_texts, of 90 90000000]
    by (auto simp: seconds_def us_per_second_def demo_state_parsed demo_heartbeat_def)
qed

theorem foreign_site_id_blocks_witness:
  "\<not> is_ok (reconcile_inventory frappe_inventory ''agent-1'' demo_state (Aware 0) (fresh_db\<lparr>sites := [demo_site]\<rparr>))"
  by (rule foreign_site_id_blocks [OF demo_state_parsed, where dmn = "''a.example''" and s = demo_site])
     (simp_all add: demo_heartbeat_def demo_inventory_def inventory_domains_def demo_site_def get_row_def)

end
