(* ===== verification/AgentAuth.thy ===== *)
theory AgentAuth
  imports FrappeInventory Dispatcher
begin

text \<open>
  Who a request comes from. \<open>agent_request_auth.py\<close> checks the Ed25519 signature of an agent over its id,
  the action, a counter and the body, and stores the counter; \<open>frappe_security_store.py\<close> keeps the
  one-time enrollment tokens, the pinned keys and the certificates, with the document
  \<open>AgentCertificate\<close>. Ed25519 itself is the parameter \<open>verify\<close> (key, signature, message, all bytes).
\<close>

section \<open>Bytes\<close>

definition b64_val :: "char \<Rightarrow> nat" where
  "b64_val c =
     (if is_upper c then of_char c - 65 else if is_lower c then of_char c - 71
      else if is_digit c then of_char c + 4 else if c = CHR ''-'' then 62 else 63)"

fun b64_bytes :: "nat list \<Rightarrow> nat list" where
  "b64_bytes (a # b # c # d # r) =
     [a * 4 + b div 16, b mod 16 * 16 + c div 4, c mod 4 * 64 + d] @ b64_bytes r"
| "b64_bytes [a, b, c] = [a * 4 + b div 16, b mod 16 * 16 + c div 4]"
| "b64_bytes [a, b] = [a * 4 + b div 16]"
| "b64_bytes _ = []"

text \<open>\<open>base64.urlsafe_b64decode(text + "==")\<close> of text the signature pattern admits.\<close>

definition b64_decode :: "string \<Rightarrow> string" where
  "b64_decode s = map char_of (b64_bytes (map b64_val s))"

text \<open>\<open>bytes.fromhex\<close>: pairs of digits, with ASCII white space between the pairs.\<close>

definition is_space :: "char \<Rightarrow> bool" where
  "is_space c \<longleftrightarrow> c \<in> set [CHR 0x20, CHR 0x09, CHR 0x0A, CHR 0x0B, CHR 0x0C, CHR 0x0D]"

fun bytes_fromhex :: "string \<Rightarrow> string option" where
  "bytes_fromhex [] = Some []"
| "bytes_fromhex [c] = (if is_space c then Some [] else None)"
| "bytes_fromhex (c # e # s) =
     (if is_space c then bytes_fromhex (e # s)
      else if is_hex_any c \<and> is_hex_any e
      then map_option ((#) (char_of (16 * hex_val c + hex_val e))) (bytes_fromhex s)
      else None)"

section \<open>Signed requests\<close>

record http_request =
  rq_headers :: "(string \<Rightarrow> string option) option"
  rq_method :: string
  rq_mimetype :: string
  rq_content_length :: "int option"
  rq_body :: string

type_synonym signature_check = "string \<Rightarrow> string \<Rightarrow> string \<Rightarrow> bool"

definition is_sequence :: "string \<Rightarrow> bool" where
  "is_sequence s \<longleftrightarrow> head_tail (\<lambda>c. is_digit c \<and> c \<noteq> CHR ''0'') is_digit 19 s"

definition is_signature :: "string \<Rightarrow> bool" where
  "is_signature s \<longleftrightarrow> length s = 86 \<and> list_all (\<lambda>c. is_alnum c \<or> c = CHR ''_'' \<or> c = CHR ''-'') s"

definition max_clock_age_ns :: int where
  "max_clock_age_ns = 300000000000"

definition max_future_ns :: int where
  "max_future_ns = 30000000000"

definition max_body :: nat where
  "max_body = 1048576"

definition signed_message :: "string \<Rightarrow> string \<Rightarrow> string \<Rightarrow> string \<Rightarrow> string" where
  "signed_message agent_id action sequence body =
     ''frappe-agent-v1'' @ [CHR 0x0A] @ agent_id @ [CHR 0x0A] @ action @ [CHR 0x0A] @ sequence @ [CHR 0x0A]
       @ sha256_hex body"

definition header :: "(string \<Rightarrow> string option) \<Rightarrow> string \<Rightarrow> string" where
  "header hs k = (case hs k of None \<Rightarrow> [] | Some v \<Rightarrow> v)"

definition unauthorized :: "string \<Rightarrow> exn" where
  "unauthorized code = ControllerRequestError code 401"

text \<open>The last counter of the agent: the column holds ASCII digits, as the document requires.\<close>

definition last_sequence :: "agent_row \<Rightarrow> int option" where
  "last_sequence a =
     (let previous = (if truthy (sa_last_signed_ns a) then or_empty (sa_last_signed_ns a) else ''0'') in
      if list_all is_digit previous then Some (int (digits_val previous)) else None)"

definition signed_peer :: "string \<Rightarrow> trusted_peer result" where
  "signed_peer agent_id =
     check_peer \<lparr>tp_agent_id = agent_id, tp_serial = network_isolated_serial,
       tp_fingerprint = network_isolated_fingerprint, tp_verification = ''ed25519_signature''\<rparr>"

text \<open>The state is committed here: what the rest of the request does cannot take the counter back.\<close>

definition verify_request ::
  "signature_check \<Rightarrow> int \<Rightarrow> http_request \<Rightarrow> string \<Rightarrow> db \<Rightarrow> (trusted_peer \<times> string \<times> db) result" where
  "verify_request verify now_ns rq action d =
     bindE (require (action \<noteq> []) (ControllerRequestError ''fixed_route_mismatch'' 404)) (\<lambda>_.
     bindE (of_option (unauthorized ''agent_signature_missing'') (rq_headers rq)) (\<lambda>hs.
     let agent_id = header hs ''X-Frappe-Agent-ID''; sequence = header hs ''X-Frappe-Agent-Sequence'';
         signature = header hs ''X-Frappe-Agent-Signature''; n = int (digits_val sequence) in
     bindE (require (is_agent_id agent_id \<and> is_sequence sequence \<and> is_signature signature)
              (unauthorized ''agent_signature_invalid'')) (\<lambda>_.
     bindE (require (now_ns - max_clock_age_ns \<le> n \<and> n \<le> now_ns + max_future_ns)
              (unauthorized ''agent_signature_expired'')) (\<lambda>_.
     bindE (require (length (rq_body rq) \<le> max_body) (ControllerRequestError ''request_too_large'' 413)) (\<lambda>_.
     bindE (of_option (ControllerRequestError ''unknown_or_disabled_agent'' 403)
              (case find_agent agent_id d of Some a \<Rightarrow> if sa_enabled a then Some a else None | None \<Rightarrow> None)) (\<lambda>a.
     bindE (require (is_sha256 (or_empty (sa_signing_key a))) (unauthorized ''agent_signing_key_missing'')) (\<lambda>_.
     bindE (require (case bytes_fromhex (or_empty (sa_signing_key a)) of None \<Rightarrow> False
              | Some key \<Rightarrow> verify key (b64_decode signature) (signed_message agent_id action sequence (rq_body rq)))
              (unauthorized ''agent_signature_invalid'')) (\<lambda>_.
     bindE (require (case last_sequence a of None \<Rightarrow> False | Some l \<Rightarrow> l < n)
              (ControllerRequestError ''agent_request_replayed'' 409)) (\<lambda>_.
     bindE (signed_peer agent_id) (\<lambda>peer.
     Inr (peer, agent_id, agent_set (sa_name a) (\<lambda>x. x\<lparr>sa_last_signed_ns := Some sequence\<rparr>) d)))))))))))"

section \<open>Agent Certificate\<close>

definition ce_transitions :: "(string \<times> string list) list" where
  "ce_transitions =
     [(''Pending'', [''Active'', ''Revoked'']), (''Active'', [''Rotating'', ''Revoked'', ''Expired'']),
      (''Rotating'', [''Active'', ''Revoked'', ''Expired'']), (''Revoked'', []), (''Expired'', [])]"

definition ce_fields :: "certificate_row field list" where
  "ce_fields = [(''server_agent'', same ce_server_agent), (''serial_number'', same ce_serial),
     (''fingerprint_sha256'', same ce_fingerprint), (''public_key_sha256'', same ce_public_key),
     (''valid_from'', same ce_valid_from), (''valid_until'', same ce_valid_until), (''issued_at'', same ce_issued_at),
     (''issued_by'', same ce_issued_by)]"

definition ce_validate :: "certificate_row option \<Rightarrow> certificate_row \<Rightarrow> unit result" where
  "ce_validate prev c =
     bindE (require_sha256 (Some (ce_fingerprint c)) ''fingerprint_sha256'') (\<lambda>_.
     bindE (require_sha256 (Some (ce_public_key c)) ''public_key_sha256'') (\<lambda>_.
     bindE (require (ce_valid_from c < ce_valid_until c) (invalid ''Certificate validity interval is invalid'')) (\<lambda>_.
     bindE (require (is_ok (legal_transition ce_transitions (map_option ce_status prev) (ce_status c)))
              (invalid ''Illegal certificate status transition'')) (\<lambda>_.
     bindE (require (ce_status c = ''Revoked'' \<longrightarrow> ce_revoked_at c \<noteq> None \<and> truthy (ce_revoked_by c) \<and> truthy (ce_reason c))
              (invalid ''Revocation actor, time, and reason are required'')) (\<lambda>_.
     immutable_fields ce_fields prev c)))))"

definition ce_on_trash :: "'a result" where
  "ce_on_trash = prevent_delete ''Agent Certificate''"

text \<open>The fingerprint is the name: repeating it is a duplicate entry, repeating a serial a validation error.\<close>

definition ce_insert :: "certificate_row \<Rightarrow> db \<Rightarrow> db result" where
  "ce_insert c d =
     bindE (ce_validate None c) (\<lambda>_.
     bindE (require (get_row ce_name (certificates d) (ce_name c) = None) (DuplicateEntryError (ce_name c))) (\<lambda>_.
     bindE (require (list_all (\<lambda>x. ce_serial x \<noteq> ce_serial c) (certificates d)) (invalid ''serial_number must be unique'')) (\<lambda>_.
     Inr (d\<lparr>certificates := certificates d @ [c]\<rparr>))))"

definition certificate_set :: "string \<Rightarrow> (certificate_row \<Rightarrow> certificate_row) \<Rightarrow> db \<Rightarrow> db" where
  "certificate_set n f d = d\<lparr>certificates := set_rows (\<lambda>c. ce_name c = n) f (certificates d)\<rparr>"

section \<open>Enrollment tokens\<close>

definition forbidden :: "string \<Rightarrow> exn" where
  "forbidden code = ControllerRequestError code 403"

definition conflict409 :: "string \<Rightarrow> exn" where
  "conflict409 code = ControllerRequestError code 409"

definition check_pepper :: "string \<Rightarrow> unit result" where
  "check_pepper pepper = require (32 \<le> length pepper) (ValueError ''token pepper must contain at least 32 bytes'')"

definition token_hash :: "string \<Rightarrow> string \<Rightarrow> string result" where
  "token_hash pepper token =
     bindE (require (token \<noteq> []) (forbidden ''invalid_enrollment_token'')) (\<lambda>_.
     bindE (encodeE token) (\<lambda>b. Inr (hmac_sha256 pepper b)))"

definition lock_agent :: "string \<Rightarrow> db \<Rightarrow> agent_row result" where
  "lock_agent agent_id d = of_option (forbidden ''unknown_or_disabled_agent'') (find_agent agent_id d)"

definition create_enrollment_token ::
  "string \<Rightarrow> string \<Rightarrow> string \<Rightarrow> string \<Rightarrow> int \<Rightarrow> datetime \<Rightarrow> db \<Rightarrow> (string \<times> db) result" where
  "create_enrollment_token pepper fresh agent_id actor ttl now d =
     bindE (require_agent_id agent_id) (\<lambda>_.
     bindE (require (actor \<noteq> [] \<and> 1 \<le> ttl \<and> ttl \<le> 3600) (ValueError ''enrollment token policy is invalid'')) (\<lambda>_.
     bindE (utc now) (\<lambda>issued.
     bindE (lock_agent agent_id d) (\<lambda>a.
     bindE (token_hash pepper fresh) (\<lambda>h.
     Inr (fresh, agent_set (sa_name a) (\<lambda>x. x\<lparr>sa_token_hash := Some h,
       sa_enrollment_expires := Some (issued + seconds ttl), sa_enrollment_consumed := None,
       sa_enrollment_completed := None\<rparr>) d))))))"

definition check_token :: "string \<Rightarrow> string \<Rightarrow> agent_row \<Rightarrow> unit result" where
  "check_token pepper token a =
     bindE (token_hash pepper token) (\<lambda>h.
     require (or_empty (sa_token_hash a) = h) (forbidden ''invalid_enrollment_token''))"

definition check_expiry :: "int \<Rightarrow> agent_row \<Rightarrow> unit result" where
  "check_expiry now a =
     require (case sa_enrollment_expires a of None \<Rightarrow> False | Some e \<Rightarrow> now < e) (forbidden ''enrollment_token_expired'')"

definition pin_key :: "string \<Rightarrow> string \<Rightarrow> int \<Rightarrow> agent_row \<Rightarrow> agent_row" where
  "pin_key digest key now a =
     a\<lparr>sa_expected_key := Some digest, sa_signing_key := Some key, sa_last_signed_ns := None,
       sa_enrollment_consumed := Some now, sa_enrollment_completed := Some now, sa_enabled := True,
       sa_status := ''Offline''\<rparr>"

definition complete_signing_key_enrollment ::
  "string \<Rightarrow> string \<Rightarrow> string \<Rightarrow> string \<Rightarrow> datetime \<Rightarrow> db \<Rightarrow> db result" where
  "complete_signing_key_enrollment pepper token agent_id key now d =
     bindE (require_agent_id agent_id) (\<lambda>_.
     bindE (require (py_len key = 64) (request_error ''agent_signing_key_invalid'')) (\<lambda>_.
     bindE (of_option (request_error ''agent_signing_key_invalid'') (bytes_fromhex key)) (\<lambda>public_bytes.
     bindE (utc now) (\<lambda>current.
     bindE (lock_agent agent_id d) (\<lambda>a.
     bindE (check_token pepper token a) (\<lambda>_.
     bindE (check_expiry current a) (\<lambda>_.
     if sa_enrollment_consumed a \<noteq> None
     then (if sa_enrollment_completed a \<noteq> None \<and> or_empty (sa_signing_key a) = key then Inr d
           else Inl (conflict409 ''enrollment_token_used''))
     else Inr (agent_set (sa_name a) (pin_key (sha256_hex public_bytes) key current) d))))))))"

definition claim_enrollment_token :: "string \<Rightarrow> string \<Rightarrow> verified_csr \<Rightarrow> datetime \<Rightarrow> db \<Rightarrow> db result" where
  "claim_enrollment_token pepper token v now d =
     bindE (utc now) (\<lambda>current.
     bindE (lock_agent (vc_agent_id v) d) (\<lambda>a.
     bindE (check_token pepper token a) (\<lambda>_.
     bindE (require (sa_enrollment_consumed a = None) (conflict409 ''enrollment_token_used'')) (\<lambda>_.
     bindE (check_expiry current a) (\<lambda>_.
     bindE (require (\<not> truthy (sa_expected_key a) \<or> sa_expected_key a = Some (vc_public_key v)) (forbidden ''csr_key_mismatch'')) (\<lambda>_.
     Inr (agent_set (sa_name a) (\<lambda>x. (if truthy (sa_expected_key a) then x else x\<lparr>sa_expected_key := Some (vc_public_key v)\<rparr>)
            \<lparr>sa_enrollment_consumed := Some current\<rparr>) d)))))))"

section \<open>Certificates\<close>

definition insert_certificate :: "string \<Rightarrow> issuance \<Rightarrow> string \<Rightarrow> int \<Rightarrow> db \<Rightarrow> db result" where
  "insert_certificate server_agent i actor now d =
     bindE (utc (ci_not_before i)) (\<lambda>from. bindE (utc (ci_not_after i)) (\<lambda>till.
     bindE (require (from \<le> now \<and> now < till) (conflict409 ''certificate_not_current'')) (\<lambda>_.
     catchE (\<lambda>e. case e of DuplicateEntryError _ \<Rightarrow> Some (conflict409 ''certificate_identity_conflict'') | _ \<Rightarrow> None)
       (ce_insert \<lparr>ce_name = ci_fingerprint i, ce_server_agent = server_agent, ce_serial = ci_serial i,
          ce_fingerprint = ci_fingerprint i, ce_public_key = ci_public_key i, ce_status = ''Active'',
          ce_valid_from = from, ce_valid_until = till, ce_issued_at = now, ce_issued_by = actor,
          ce_overlap_until = None, ce_revoked_at = None, ce_revoked_by = None, ce_reason = None\<rparr> d))))"

definition complete_enrollment ::
  "string \<Rightarrow> string \<Rightarrow> verified_csr \<Rightarrow> issuance \<Rightarrow> string \<Rightarrow> datetime \<Rightarrow> db \<Rightarrow> db result" where
  "complete_enrollment pepper token v i actor now d =
     bindE (utc now) (\<lambda>current.
     bindE (require (ci_public_key i = vc_public_key v) (conflict409 ''certificate_key_mismatch'')) (\<lambda>_.
     bindE (lock_agent (vc_agent_id v) d) (\<lambda>a.
     bindE (token_hash pepper token) (\<lambda>h.
     bindE (require (or_empty (sa_token_hash a) = h \<and> sa_enrollment_consumed a \<noteq> None \<and> sa_enrollment_completed a = None)
              (conflict409 ''enrollment_completion_conflict'')) (\<lambda>_.
     bindE (require (\<not> truthy (sa_expected_key a) \<or> sa_expected_key a = Some (vc_public_key v)) (forbidden ''csr_key_mismatch'')) (\<lambda>_.
     bindE (insert_certificate (sa_name a) i actor current d) (\<lambda>d1.
     Inr (agent_set (sa_name a) (\<lambda>x. x\<lparr>sa_enrollment_completed := Some current, sa_enabled := True,
            sa_status := ''Offline''\<rparr>) d1))))))))"

definition find_certificate :: "string \<Rightarrow> string \<Rightarrow> db \<Rightarrow> (certificate_row \<times> agent_row) option" where
  "find_certificate agent_id serial d =
     Option.bind (find (\<lambda>c. ce_serial c = serial
        \<and> map_option sa_agent_id (get_row sa_name (agents d) (ce_server_agent c)) = Some agent_id) (certificates d)) (\<lambda>c.
     map_option (Pair c) (get_row sa_name (agents d) (ce_server_agent c)))"

definition certificate_current :: "int \<Rightarrow> certificate_row \<Rightarrow> bool" where
  "certificate_current now c \<longleftrightarrow>
     (ce_status c = ''Active''
      \<or> ce_status c = ''Rotating'' \<and> (case ce_overlap_until c of None \<Rightarrow> False | Some u \<Rightarrow> now < u))
     \<and> ce_valid_from c \<le> now \<and> now < ce_valid_until c"

definition authenticate_peer :: "trusted_peer \<Rightarrow> string \<Rightarrow> json \<Rightarrow> datetime \<Rightarrow> db \<Rightarrow> unit result" where
  "authenticate_peer peer path_agent body_agent now d =
     bindE (require (tp_agent_id peer = path_agent \<and> body_agent = JStr path_agent) (forbidden ''agent_binding_mismatch'')) (\<lambda>_.
     if tp_verification peer = ''ed25519_signature''
     then require (case find_agent path_agent d of None \<Rightarrow> False | Some a \<Rightarrow> sa_enabled a \<and> truthy (sa_signing_key a))
            (unauthorized ''agent_signature_not_authorized'')
     else bindE (utc now) (\<lambda>current.
          require (case find_certificate path_agent (tp_serial peer) d of None \<Rightarrow> False
                   | Some (c, a) \<Rightarrow> sa_enabled a \<and> ce_fingerprint c = tp_fingerprint peer \<and> certificate_current current c)
            (unauthorized ''certificate_not_authorized'')))"

definition rotate_certificate_row ::
  "trusted_peer \<Rightarrow> verified_csr \<Rightarrow> issuance \<Rightarrow> string \<Rightarrow> int \<Rightarrow> datetime \<Rightarrow> db \<Rightarrow> db result" where
  "rotate_certificate_row peer v i actor overlap now d =
     bindE (require (0 \<le> overlap \<and> overlap \<le> 300) (ValueError ''certificate overlap exceeds policy'')) (\<lambda>_.
     bindE (utc now) (\<lambda>current.
     bindE (authenticate_peer peer (vc_agent_id v) (JStr (vc_agent_id v)) (Aware current) d) (\<lambda>_.
     bindE (require (ci_public_key i = vc_public_key v) (conflict409 ''certificate_key_mismatch'')) (\<lambda>_.
     bindE (of_option (conflict409 ''certificate_rotation_conflict'')
              (case (find (\<lambda>a. sa_agent_id a = vc_agent_id v \<and> sa_enabled a) (agents d),
                     find_certificate (vc_agent_id v) (tp_serial peer) d) of
                 (Some a, Some (c, _)) \<Rightarrow> if ce_status c = ''Active'' then Some (a, c) else None
               | _ \<Rightarrow> None)) (\<lambda>(a, c).
     insert_certificate (sa_name a) i actor current
       (certificate_set (ce_name c) (\<lambda>x. x\<lparr>ce_status := ''Rotating'',
          ce_overlap_until := Some (current + seconds overlap)\<rparr>) d))))))"

definition revoke_certificate :: "string \<Rightarrow> string \<Rightarrow> string \<Rightarrow> string \<Rightarrow> datetime \<Rightarrow> db \<Rightarrow> db result" where
  "revoke_certificate agent_id serial actor reason now d =
     bindE (of_option (ControllerRequestError ''certificate_not_found'' 404)
              (case find_certificate agent_id serial d of
                 Some (c, _) \<Rightarrow> if ce_status c = ''Revoked'' then None else Some c | None \<Rightarrow> None)) (\<lambda>c.
     bindE (utc now) (\<lambda>current.
     Inr (certificate_set (ce_name c) (\<lambda>x. x\<lparr>ce_status := ''Revoked'', ce_overlap_until := None,
            ce_revoked_at := Some current, ce_revoked_by := Some actor, ce_reason := Some reason\<rparr>) d)))"

section \<open>A signed request counts once\<close>

definition agents_named :: "db \<Rightarrow> bool" where
  "agents_named d \<longleftrightarrow> (\<forall>a\<in>set (agents d). sa_agent_id a = sa_name a)"

definition counter :: "string \<Rightarrow> db \<Rightarrow> int option" where
  "counter n d = Option.bind (find_agent n d) last_sequence"

text \<open>What else happens to the agents leaves their counters, as heartbeats, polls and reports do.\<close>

definition counters_kept :: "db \<Rightarrow> db \<Rightarrow> bool" where
  "counters_kept d d' \<longleftrightarrow> agents_named d' \<and> (\<forall>n. counter n d' = counter n d)"

inductive signed_history :: "signature_check \<Rightarrow> db \<Rightarrow> db \<Rightarrow> bool" for verify where
  start: "signed_history verify d d"
| request: "signed_history verify d d1 \<Longrightarrow> verify_request verify now rq action d1 = Inr (peer, n, d2) \<Longrightarrow> signed_history verify d d2"
| other: "signed_history verify d d1 \<Longrightarrow> counters_kept d1 d2 \<Longrightarrow> signed_history verify d d2"

lemma find_agent_named: "agents_named d \<Longrightarrow> find_agent n d = Some a \<Longrightarrow> a \<in> set (agents d) \<and> sa_agent_id a = n \<and> sa_name a = n"
  using find_mem [of "\<lambda>a. sa_agent_id a = n" "agents d" a] by (auto simp: find_agent_def agents_named_def)

lemma agents_named_set: "agents_named d \<Longrightarrow> (\<And>x. sa_agent_id (f x) = sa_agent_id x) \<Longrightarrow> (\<And>x. sa_name (f x) = sa_name x) \<Longrightarrow>
    agents_named (agent_set n f d)"
  by (auto simp: agents_named_def agent_set_def set_rows_in)

lemma sequence_digits: "is_sequence s \<Longrightarrow> list_all is_digit s \<and> s \<noteq> []"
  by (auto simp: is_sequence_def head_tail_def split: list.splits)

text \<open>What an accepted request has passed.\<close>

lemma verify_request_ok:
  assumes "verify_request verify now rq action d = Inr (peer, n, d')"
  obtains hs a key l where "rq_headers rq = Some hs" "n = header hs ''X-Frappe-Agent-ID''"
    "is_sequence (header hs ''X-Frappe-Agent-Sequence'')" "find_agent n d = Some a" "sa_enabled a"
    "now - max_clock_age_ns \<le> int (digits_val (header hs ''X-Frappe-Agent-Sequence''))"
    "int (digits_val (header hs ''X-Frappe-Agent-Sequence'')) \<le> now + max_future_ns"
    "bytes_fromhex (or_empty (sa_signing_key a)) = Some key" "is_sha256 (or_empty (sa_signing_key a))"
    "verify key (b64_decode (header hs ''X-Frappe-Agent-Signature''))
       (signed_message n action (header hs ''X-Frappe-Agent-Sequence'') (rq_body rq))"
    "last_sequence a = Some l" "l < int (digits_val (header hs ''X-Frappe-Agent-Sequence''))"
    "is_agent_id n" "signed_peer n = Inr peer"
    "d' = agent_set (sa_name a) (\<lambda>x. x\<lparr>sa_last_signed_ns := Some (header hs ''X-Frappe-Agent-Sequence'')\<rparr>) d"
proof -
  obtain hs a where k: "rq_headers rq = Some hs" "n = header hs ''X-Frappe-Agent-ID''" "is_agent_id n"
    "is_sequence (header hs ''X-Frappe-Agent-Sequence'')"
    "(case find_agent n d of Some a \<Rightarrow> if sa_enabled a then Some a else None | None \<Rightarrow> None) = Some a"
    "now - max_clock_age_ns \<le> int (digits_val (header hs ''X-Frappe-Agent-Sequence''))"
    "int (digits_val (header hs ''X-Frappe-Agent-Sequence'')) \<le> now + max_future_ns"
    "is_sha256 (or_empty (sa_signing_key a))" "signed_peer n = Inr peer"
    "d' = agent_set (sa_name a) (\<lambda>x. x\<lparr>sa_last_signed_ns := Some (header hs ''X-Frappe-Agent-Sequence'')\<rparr>) d"
    and v: "case bytes_fromhex (or_empty (sa_signing_key a)) of None \<Rightarrow> False
       | Some key \<Rightarrow> verify key (b64_decode (header hs ''X-Frappe-Agent-Signature''))
           (signed_message n action (header hs ''X-Frappe-Agent-Sequence'') (rq_body rq))"
    and l: "case last_sequence a of None \<Rightarrow> False | Some l \<Rightarrow> l < int (digits_val (header hs ''X-Frappe-Agent-Sequence''))"
    using assms unfolding verify_request_def Let_def bindE_eq_Inr require_eq_Inr of_option_eq_Inr by auto
  obtain key where key: "bytes_fromhex (or_empty (sa_signing_key a)) = Some key"
    "verify key (b64_decode (header hs ''X-Frappe-Agent-Signature''))
       (signed_message n action (header hs ''X-Frappe-Agent-Sequence'') (rq_body rq))"
    using v by (auto split: option.splits)
  obtain m where m: "last_sequence a = Some m" "m < int (digits_val (header hs ''X-Frappe-Agent-Sequence''))"
    using l by (auto split: option.splits)
  have "find_agent n d = Some a" "sa_enabled a" using k(5) by (auto split: option.splits if_splits)
  then show ?thesis using that k key m by blast
qed

lemma counter_after:
  assumes "verify_request verify now rq action d = Inr (peer, n, d')" "agents_named d"
  shows "agents_named d'" "counter m d' = (if m = n then Some (int (digits_val (header (the (rq_headers rq)) ''X-Frappe-Agent-Sequence'')))
    else counter m d)" "\<exists>l. counter n d = Some l \<and> l < the (counter n d')"
proof -
  obtain hs a l where h: "rq_headers rq = Some hs" "is_sequence (header hs ''X-Frappe-Agent-Sequence'')" "find_agent n d = Some a"
    "last_sequence a = Some l" "l < int (digits_val (header hs ''X-Frappe-Agent-Sequence''))"
    and d': "d' = agent_set (sa_name a) (\<lambda>x. x\<lparr>sa_last_signed_ns := Some (header hs ''X-Frappe-Agent-Sequence'')\<rparr>) d"
    using verify_request_ok [OF assms(1)] by metis
  have n: "sa_name a = n" using find_agent_named [OF assms(2) h(3)] by simp
  show "agents_named d'" unfolding d' by (rule agents_named_set [OF assms(2)]) simp_all
  have c: "counter m d' = (if m = n then Some (int (digits_val (header hs ''X-Frappe-Agent-Sequence''))) else counter m d)" for m
  proof (cases "find_agent m d")
    case None
    then show ?thesis using h(3) by (auto simp: counter_def d' find_agent_set)
  next
    case (Some x)
    have "sa_name x = m" using find_agent_named [OF assms(2) Some] by simp
    then show ?thesis using Some n sequence_digits [OF h(2)] h(3)
      by (auto simp: counter_def d' find_agent_set last_sequence_def)
  qed
  then show "counter m d' = (if m = n then Some (int (digits_val (header (the (rq_headers rq)) ''X-Frappe-Agent-Sequence'')))
    else counter m d)" using h(1) by simp
  show "\<exists>l. counter n d = Some l \<and> l < the (counter n d')" using c [of n] h(3-5) by (simp add: counter_def)
qed

lemma signed_history_counters:
  "signed_history verify d d' \<Longrightarrow> agents_named d \<Longrightarrow> agents_named d' \<and> (\<forall>n l. counter n d = Some l \<longrightarrow> (\<exists>m\<ge>l. counter n d' = Some m))"
proof (induction rule: signed_history.induct)
  case (request d d1 now rq action peer n d2)
  note c = counter_after [OF request.hyps(2)]
  show ?case
  proof (intro conjI allI impI)
    show "agents_named d2" using c(1) request.IH request.prems by blast
    fix k l assume "counter k d = Some l"
    then obtain m where "m \<ge> l" "counter k d1 = Some m" using request.IH request.prems by blast
    moreover obtain l' where "counter n d1 = Some l'" "l' < the (counter n d2)" using c(3) request.IH request.prems by blast
    ultimately show "\<exists>m\<ge>l. counter k d2 = Some m" using c(2) [of k] c(2) [of n] request.IH request.prems by auto
  qed
qed (auto simp: counters_kept_def)

text \<open>
  C26: an accepted request is signed by the pinned key of an enabled agent over its id, the action,
  a counter within the clock window, and the body. It is accepted once: whatever requests are
  accepted afterwards, at any time, for any action or body, the agent's counter has to be greater.
\<close>

theorem signed_once:
  assumes "verify_request verify now rq action d = Inr (peer, n, d1)" and "agents_named d" and "signed_history verify d1 d2"
  shows "\<exists>hs a key. rq_headers rq = Some hs \<and> n = header hs ''X-Frappe-Agent-ID'' \<and> find_agent n d = Some a \<and> sa_enabled a
    \<and> bytes_fromhex (or_empty (sa_signing_key a)) = Some key
    \<and> verify key (b64_decode (header hs ''X-Frappe-Agent-Signature''))
        (signed_message n action (header hs ''X-Frappe-Agent-Sequence'') (rq_body rq))
    \<and> now - max_clock_age_ns \<le> int (digits_val (header hs ''X-Frappe-Agent-Sequence''))
    \<and> int (digits_val (header hs ''X-Frappe-Agent-Sequence'')) \<le> now + max_future_ns
    \<and> (\<forall>now' rq' action' hs'. rq_headers rq' = Some hs' \<longrightarrow> header hs' ''X-Frappe-Agent-ID'' = n \<longrightarrow>
         digits_val (header hs' ''X-Frappe-Agent-Sequence'') \<le> digits_val (header hs ''X-Frappe-Agent-Sequence'') \<longrightarrow>
         \<not> is_ok (verify_request verify now' rq' action' d2))"
proof -
  obtain hs a key where h: "rq_headers rq = Some hs" "n = header hs ''X-Frappe-Agent-ID''" "find_agent n d = Some a" "sa_enabled a"
    "now - max_clock_age_ns \<le> int (digits_val (header hs ''X-Frappe-Agent-Sequence''))"
    "int (digits_val (header hs ''X-Frappe-Agent-Sequence'')) \<le> now + max_future_ns"
    "bytes_fromhex (or_empty (sa_signing_key a)) = Some key"
    "verify key (b64_decode (header hs ''X-Frappe-Agent-Signature''))
        (signed_message n action (header hs ''X-Frappe-Agent-Sequence'') (rq_body rq))"
    using verify_request_ok [OF assms(1)] by metis
  have "counter n d1 = Some (int (digits_val (header hs ''X-Frappe-Agent-Sequence'')))"
    using counter_after(2) [OF assms(1,2), of n] h(1) by simp
  then obtain m where m: "int (digits_val (header hs ''X-Frappe-Agent-Sequence'')) \<le> m" "counter n d2 = Some m"
    using signed_history_counters [OF assms(3) counter_after(1) [OF assms(1,2)]] by blast
  have "\<not> is_ok (verify_request verify now' rq' action' d2)"
    if r: "rq_headers rq' = Some hs'" "header hs' ''X-Frappe-Agent-ID'' = n"
      "digits_val (header hs' ''X-Frappe-Agent-Sequence'') \<le> digits_val (header hs ''X-Frappe-Agent-Sequence'')"
    for now' rq' action' hs'
  proof
    assume "is_ok (verify_request verify now' rq' action' d2)"
    then obtain peer' n' d3 where "verify_request verify now' rq' action' d2 = Inr (peer', n', d3)" by (auto simp: is_ok_iff)
    from verify_request_ok [OF this] obtain hs2 a2 l2 where q: "rq_headers rq' = Some hs2" "n' = header hs2 ''X-Frappe-Agent-ID''"
      "find_agent n' d2 = Some a2" "last_sequence a2 = Some l2" "l2 < int (digits_val (header hs2 ''X-Frappe-Agent-Sequence''))"
      by metis
    then have "l2 = m" using m(2) r(1,2) by (simp add: counter_def)
    then show False using q(1,5) m(1) r(1,3) by simp
  qed
  then show ?thesis using h by blast
qed

section \<open>A token enrolls one key\<close>

definition enrolled_as :: "string \<Rightarrow> string \<Rightarrow> db \<Rightarrow> bool" where
  "enrolled_as key n d \<longleftrightarrow> (\<exists>a. find_agent n d = Some a \<and> sa_enrollment_consumed a \<noteq> None \<and> or_empty (sa_signing_key a) = key)"

lemma complete_key_ok:
  assumes "complete_signing_key_enrollment pepper token n key now d = Inr d'"
  obtains a h t b where "find_agent n d = Some a" "token_hash pepper token = Inr h" "or_empty (sa_token_hash a) = h"
    "now = Aware t" "\<exists>e. sa_enrollment_expires a = Some e \<and> t < e" "bytes_fromhex key = Some b"
    "if sa_enrollment_consumed a = None then d' = agent_set (sa_name a) (pin_key (sha256_hex b) key t) d
     else d' = d \<and> sa_enrollment_completed a \<noteq> None \<and> or_empty (sa_signing_key a) = key"
proof -
  obtain b t a where k: "bytes_fromhex key = Some b" "utc now = Inr t" "find_agent n d = Some a"
      "check_token pepper token a = Inr ()" "check_expiry t a = Inr ()"
    and r: "(if sa_enrollment_consumed a \<noteq> None
     then (if sa_enrollment_completed a \<noteq> None \<and> or_empty (sa_signing_key a) = key then Inr d
           else Inl (conflict409 ''enrollment_token_used''))
     else Inr (agent_set (sa_name a) (pin_key (sha256_hex b) key t) d)) = Inr d'"
    using assms unfolding complete_signing_key_enrollment_def bindE_eq_Inr of_option_eq_Inr lock_agent_def by auto
  have now: "now = Aware t" using k(2) by (auto simp: utc_def split: datetime.splits)
  obtain h where h: "token_hash pepper token = Inr h" "or_empty (sa_token_hash a) = h"
    using k(4) by (auto simp: check_token_def bindE_eq_Inr require_eq_Inr)
  have e: "\<exists>e. sa_enrollment_expires a = Some e \<and> t < e"
    using k(5) by (auto simp: check_expiry_def require_eq_Inr split: option.splits)
  show ?thesis
    by (rule that [OF k(3) h now e k(1)]) (use r in \<open>auto split: if_splits\<close>)
qed

text \<open>
  C27: a key is pinned only with the agent's current token before it expires, and by an unused one. From
  then on, as long as the agent is not given a new token, every enrollment that succeeds is for the
  same key and changes nothing, whatever token it brings.
\<close>

theorem token_enrolls_one_key:
  assumes "complete_signing_key_enrollment pepper token n key now d = Inr d1" and "agents_named d"
  shows "\<exists>a h t e. find_agent n d = Some a \<and> token_hash pepper token = Inr h \<and> sa_token_hash a = Some h
    \<and> now = Aware t \<and> sa_enrollment_expires a = Some e \<and> t < e
    \<and> (sa_enrollment_consumed a = None \<or> d1 = d) \<and> enrolled_as key n d1
    \<and> (\<forall>d2 token' key' now' d3. enrolled_as key n d2 \<longrightarrow>
         complete_signing_key_enrollment pepper token' n key' now' d2 = Inr d3 \<longrightarrow> d3 = d2 \<and> key' = key)"
proof -
  obtain a h t b where k: "find_agent n d = Some a" "token_hash pepper token = Inr h" "or_empty (sa_token_hash a) = h"
    "now = Aware t" "\<exists>e. sa_enrollment_expires a = Some e \<and> t < e"
    and r: "if sa_enrollment_consumed a = None then d1 = agent_set (sa_name a) (pin_key (sha256_hex b) key t) d
     else d1 = d \<and> sa_enrollment_completed a \<noteq> None \<and> or_empty (sa_signing_key a) = key"
    using complete_key_ok [OF assms(1)] by metis
  have "is_sha256 h" using k(2) by (auto simp: token_hash_def bindE_eq_Inr encodeE_eq_Inr)
  then have th: "sa_token_hash a = Some h" using k(3) by (cases "sa_token_hash a") (auto simp: is_sha256_def)
  have e: "enrolled_as key n d1"
  proof (cases "sa_enrollment_consumed a = None")
    case True
    then show ?thesis using r k(1) by (simp add: enrolled_as_def find_agent_set pin_key_def)
  next
    case False
    then show ?thesis using r k(1) by (auto simp: enrolled_as_def)
  qed
  have "d3 = d2 \<and> key' = key"
    if "enrolled_as key n d2" "complete_signing_key_enrollment pepper token' n key' now' d2 = Inr d3" for d2 token' key' now' d3
    using complete_key_ok [OF that(2)] that(1) unfolding enrolled_as_def by (metis option.inject)
  then show ?thesis using k(1,2,4,5) th r e by (metis (full_types))
qed

section \<open>An agent signs and enrolls\<close>

definition demo_check :: signature_check where
  "demo_check key signature message \<longleftrightarrow> key \<noteq> []"

definition demo_headers :: "string \<Rightarrow> string option" where
  "demo_headers = map_of [(''X-Frappe-Agent-ID'', ''agent-1''), (''X-Frappe-Agent-Sequence'', ''1000000000000''),
     (''X-Frappe-Agent-Signature'', replicate 86 CHR ''a'')]"

definition demo_http :: "string \<Rightarrow> http_request" where
  "demo_http body = \<lparr>rq_headers = Some demo_headers, rq_method = ''POST'', rq_mimetype = ''application/json'',
     rq_content_length = None, rq_body = body\<rparr>"

definition signing_agent :: agent_row where
  "signing_agent = demo_agent\<lparr>sa_signing_key := Some (replicate 64 CHR ''a'')\<rparr>"

lemma demo_key: "bytes_fromhex (replicate 64 CHR ''a'') = Some (replicate 32 (char_of (170::nat)))"
proof -
  have "bytes_fromhex (concat (replicate n ''aa'')) = Some (replicate n (char_of (170::nat)))" for n
    by (induction n) (simp_all add: is_space_def is_hex_any_def is_hex_def is_digit_def hex_val_def)
  from this [of 32] show ?thesis by (simp add: numeral_eq_Suc)
qed

lemma demo_signed:
  assumes "find_agent ''agent-1'' d = Some signing_agent" "length body \<le> max_body" "action \<noteq> []"
  shows "\<exists>peer d'. verify_request demo_check 1000000000000 (demo_http body) action d = Inr (peer, ''agent-1'', d')"
proof -
  have h: "header demo_headers ''X-Frappe-Agent-ID'' = ''agent-1''" "header demo_headers ''X-Frappe-Agent-Sequence'' = ''1000000000000''"
    "header demo_headers ''X-Frappe-Agent-Signature'' = replicate 86 CHR ''a''"
    by (simp_all add: header_def demo_headers_def)
  have n: "digits_val ''1000000000000'' = 1000000000000" by (simp add: digits_val_def digit_val_def)
  have s: "is_sequence ''1000000000000''" "is_signature (replicate 86 CHR ''a'')" "is_agent_id ''agent-1''"
    by (simp_all add: is_sequence_def is_signature_def is_agent_id_def string_defs list_all_iff)
  have k: "sa_signing_key signing_agent = Some (replicate 64 CHR ''a'')" "sa_enabled signing_agent" "sa_last_signed_ns signing_agent = None"
    by (simp_all add: signing_agent_def demo_agent_def)
  have x: "is_sha256 (replicate 64 CHR ''a'')" by (rule is_sha256_replicate) (simp add: is_hex_def is_digit_def)
  have l: "last_sequence signing_agent = Some 0" by (simp add: last_sequence_def k digits_val_def digit_val_def is_digit_def)
  have p: "\<exists>peer. signed_peer ''agent-1'' = Inr peer"
  proof -
    have "is_serial network_isolated_serial" by (simp add: is_serial_def network_isolated_serial_def string_defs)
    moreover have "is_sha256 network_isolated_fingerprint"
      unfolding network_isolated_fingerprint_def by (rule is_sha256_replicate) (simp add: is_hex_def is_digit_def)
    ultimately show ?thesis by (simp add: signed_peer_def check_peer_def require_agent_id_def s)
  qed
  show ?thesis
    using assms p by (auto simp: verify_request_def demo_http_def Let_def h n s k x demo_key demo_check_def l max_clock_age_ns_def
        max_future_ns_def simp del: replicate.simps)
qed

definition signing_db :: db where
  "signing_db = fresh_db\<lparr>agents := [signing_agent]\<rparr>"

lemma signing_agent_found: "find_agent ''agent-1'' signing_db = Some signing_agent" "agents_named signing_db"
  by (simp_all add: find_agent_def signing_db_def signing_agent_def demo_agent_def agents_named_def)

theorem signed_once_witness:
  "\<exists>peer d'. verify_request demo_check 1000000000000 (demo_http []) ''heartbeat'' signing_db = Inr (peer, ''agent-1'', d')
     \<and> \<not> is_ok (verify_request demo_check 1000000000001 (demo_http []) ''events'' d')"
proof -
  obtain peer d' where v: "verify_request demo_check 1000000000000 (demo_http []) ''heartbeat'' signing_db = Inr (peer, ''agent-1'', d')"
    using demo_signed [OF signing_agent_found(1), of "[]" "''heartbeat''"] by (auto simp: max_body_def)
  have "\<not> is_ok (verify_request demo_check 1000000000001 (demo_http []) ''events'' d')"
    using signed_once [OF v signing_agent_found(2) signed_history.start] by (auto simp: demo_http_def)
  then show ?thesis using v by blast
qed

definition demo_pepper :: string where
  "demo_pepper = replicate 32 CHR ''p''"

definition enrolling_db :: db where
  "enrolling_db = fresh_db\<lparr>agents := [demo_agent\<lparr>sa_token_hash := Some (hmac_sha256 demo_pepper ''token''),
     sa_enrollment_expires := Some 600000000\<rparr>]\<rparr>"

theorem token_enrolls_one_key_witness:
  "\<exists>d'. complete_signing_key_enrollment demo_pepper ''token'' ''agent-1'' (replicate 64 CHR ''a'') (Aware 0) enrolling_db = Inr d'
     \<and> \<not> is_ok (complete_signing_key_enrollment demo_pepper ''token'' ''agent-1'' (replicate 64 CHR ''b'') (Aware 1) d')"
proof -
  have a: "ascii (replicate 64 CHR ''a'')" by (simp add: ascii_def)
  have l: "py_len (replicate 64 CHR ''a'') = 64" by (simp add: py_len_def chunks_ascii [OF a] del: replicate.simps)
  have i: "require_agent_id ''agent-1'' = Inr ''agent-1''" by (simp add: require_agent_id_def is_agent_id_def string_defs)
  have e: "encodeE ''token'' = Inr ''token''" by (simp add: encodeE_def)
  have n: "agents_named enrolling_db" by (simp add: agents_named_def enrolling_db_def demo_agent_def)
  obtain d' where c: "complete_signing_key_enrollment demo_pepper ''token'' ''agent-1'' (replicate 64 CHR ''a'') (Aware 0) enrolling_db = Inr d'"
    by (simp add: complete_signing_key_enrollment_def l i e demo_key utc_def lock_agent_def find_agent_def enrolling_db_def
        check_token_def token_hash_def check_expiry_def demo_agent_def del: replicate.simps)
  have ne: "replicate 64 CHR ''b'' \<noteq> replicate 64 CHR ''a''" by (simp add: numeral_eq_Suc)
  have "enrolled_as (replicate 64 CHR ''a'') ''agent-1'' d'"
    "\<forall>key' d3. complete_signing_key_enrollment demo_pepper ''token'' ''agent-1'' key' (Aware 1) d' = Inr d3 \<longrightarrow> key' = replicate 64 CHR ''a''"
    using token_enrolls_one_key [OF c n] by blast+
  then show ?thesis using c ne by (auto simp: is_ok_iff)
qed

end
