(* ===== verification/AgentApi.thy ===== *)
theory AgentApi
  imports AgentAuth FrappeStore AgentIngestion Negotiation
begin

text \<open>
  \<open>api/agent.py\<close> and \<open>api/routes.py\<close>: what an agent can ask of the controller. Every route verifies the
  signature, reads the body, builds the stores from the site's configuration, authenticates the body
  and hands it to a component; an error becomes a code and a status, and what was not committed is
  rolled back. The configuration (\<open>frappe.conf\<close>, the environment, the pepper file) is the record
  \<open>route_config\<close>, the system clock the arguments \<open>now_ns\<close> and \<open>now\<close>.
\<close>

section \<open>api/agent.py\<close>

definition negotiation_version :: string where
  "negotiation_version = ''1.0''"

definition negotiation_fields :: "string list" where
  "negotiation_fields = [''negotiation_version'', ''agent_id'', ''audience'', ''supported_protocol_versions'']"

definition heartbeat_fields :: "string list" where
  "heartbeat_fields = [''protocol_version'', ''agent_id'', ''audience'', ''state'']"

definition poll_fields :: "string list" where
  "poll_fields = [''protocol_version'', ''agent_id'', ''audience'']"

definition result_fields :: "string list" where
  "result_fields = [''protocol_version'', ''agent_id'', ''audience'', ''operation_id'', ''result'']"

definition batch_fields :: "string list" where
  "batch_fields = [''protocol_version'', ''agent_id'', ''audience'', ''operation_id'', ''events'']"

definition authenticated :: "string \<Rightarrow> (string \<times> json) list \<Rightarrow> trusted_peer \<Rightarrow> int \<Rightarrow> db \<Rightarrow> string result" where
  "authenticated path_agent body peer now d =
     bindE (validate_common body path_agent) (\<lambda>agent_id.
     bindE (authenticate_peer peer agent_id (jget body ''agent_id'') (Aware now) d) (\<lambda>_. Inr agent_id))"

text \<open>The exceptions \<open>negotiate_protocol\<close> renames; the first class is a subclass of the second.\<close>

definition negotiation_error :: "exn \<Rightarrow> exn option" where
  "negotiation_error e =
     (case e of
        NoCommonProtocolVersion _ \<Rightarrow> Some (ControllerRequestError ''no_common_protocol'' 409)
      | ProtocolNegotiationError _ \<Rightarrow> Some (request_error ''invalid_supported_protocol_versions'')
      | _ \<Rightarrow> None)"

definition negotiate_protocol :: "string \<Rightarrow> raw_body \<Rightarrow> trusted_peer \<Rightarrow> int \<Rightarrow> db \<Rightarrow> json result" where
  "negotiate_protocol path_agent raw peer now d =
     bindE (parse_exact_json raw negotiation_fields 4096) (\<lambda>body.
     bindE (require (py_eq (jget body ''negotiation_version'') (JStr negotiation_version))
              (request_error ''unsupported_negotiation_contract'')) (\<lambda>_.
     bindE (require (is_agent_id path_agent) (ControllerRequestError ''invalid_agent'' 404)) (\<lambda>_.
     bindE (require (py_eq (jget body ''audience'') (JStr audience))
              (ControllerRequestError ''wrong_audience'' 403)) (\<lambda>_.
     bindE (require (py_eq (jget body ''agent_id'') (JStr path_agent))
              (ControllerRequestError ''agent_binding_mismatch'' 403)) (\<lambda>_.
     bindE (authenticate_peer peer path_agent (jget body ''agent_id'') (Aware now) d) (\<lambda>_.
     bindE (catchE negotiation_error
              (select_protocol_version (jget body ''supported_protocol_versions'') reviewed_versions)) (\<lambda>selected.
     Inr (JObj [(''negotiation_version'', JStr negotiation_version), (''agent_id'', JStr path_agent),
                (''audience'', JStr audience), (''controller_protocol_versions'', reviewed_versions),
                (''selected_protocol_version'', JStr selected)]))))))))"

text \<open>\<open>record_heartbeat\<close> and \<open>ingest_result\<close> of the route store check the body and store nothing.\<close>

definition record_heartbeat :: "(string \<times> json) list \<Rightarrow> string result" where
  "record_heartbeat state =
     bindE (validate_json True True (JObj state)) (\<lambda>_.
     bindE (canonical_json (JObj state)) (\<lambda>t. bindE (encodeE t) (\<lambda>b.
     bindE (require (length b \<le> 524288) (ControllerRequestError ''heartbeat_too_large'' 413)) (\<lambda>_.
     Inr (sha256_hex b)))))"

definition check_reported_result :: "(string \<times> json) list \<Rightarrow> unit result" where
  "check_reported_result result =
     bindE (validate_json True False (JObj result)) (\<lambda>_.
     bindE (canonical_json (JObj result)) (\<lambda>t. bindE (encodeE t) (\<lambda>b.
     require (length b \<le> 262144) (ControllerRequestError ''result_too_large'' 413))))"

text \<open>\<open>integration.inventory_hook\<close>.\<close>

definition inventory_hook :: "string \<Rightarrow> (string \<times> json) list \<Rightarrow> int \<Rightarrow> db \<Rightarrow> db result" where
  "inventory_hook agent_id state now d =
     bindE (reconcile_inventory frappe_inventory agent_id (JObj state) (Aware now) d) (\<lambda>(_, d'). Inr d')"

definition heartbeat :: "string \<Rightarrow> raw_body \<Rightarrow> trusted_peer \<Rightarrow> int \<Rightarrow> db \<Rightarrow> (json \<times> db) result" where
  "heartbeat path_agent raw peer now d =
     bindE (parse_exact_json raw heartbeat_fields max_request_bytes) (\<lambda>body.
     bindE (authenticated path_agent body peer now d) (\<lambda>agent_id.
     case jget body ''state'' of
       JObj state \<Rightarrow>
         bindE (record_heartbeat state) (\<lambda>_.
         bindE (inventory_hook agent_id state now d) (\<lambda>d'.
         bindE (timestamp (Aware now)) (\<lambda>t.
         Inr (JObj [(''accepted'', JBool True), (''server_time'', JStr t)], d'))))
     | _ \<Rightarrow> Inl (request_error ''invalid_heartbeat_state'')))"

text \<open>The parameter is the store's \<open>lease_command\<close> for an agent.\<close>

definition poll_commands ::
  "(string \<Rightarrow> db \<Rightarrow> (json option \<times> db) result) \<Rightarrow> string \<Rightarrow> raw_body \<Rightarrow> trusted_peer \<Rightarrow> int \<Rightarrow> db
     \<Rightarrow> (json \<times> db) result" where
  "poll_commands lease path_agent raw peer now d =
     bindE (parse_exact_json raw poll_fields max_request_bytes) (\<lambda>body.
     bindE (authenticated path_agent body peer now d) (\<lambda>agent_id.
     bindE (lease agent_id d) (\<lambda>(command, d').
     Inr (JObj [(''command'', case command of None \<Rightarrow> JNull | Some c \<Rightarrow> c)], d'))))"

definition operation_id_of :: "(string \<times> json) list \<Rightarrow> string result" where
  "operation_id_of body =
     of_option (request_error ''invalid_operation_id'')
       (case jget body ''operation_id'' of JStr s \<Rightarrow> py_uuid s | _ \<Rightarrow> None)"

definition submit_result ::
  "db ingestion_repository \<Rightarrow> string \<Rightarrow> raw_body \<Rightarrow> trusted_peer \<Rightarrow> int \<Rightarrow> db \<Rightarrow> (json \<times> db) result" where
  "submit_result repo path_agent raw peer now d =
     bindE (parse_exact_json raw result_fields max_request_bytes) (\<lambda>body.
     bindE (authenticated path_agent body peer now d) (\<lambda>agent_id.
     bindE (operation_id_of body) (\<lambda>operation_id.
     case jget body ''result'' of
       JObj result \<Rightarrow>
         bindE (require (operation_id = py_lower (str_of (jget body ''operation_id''))) (request_error ''invalid_result'')) (\<lambda>_.
         bindE (check_reported_result result) (\<lambda>_.
         bindE (result_ingestion_hook repo agent_id operation_id result (Aware now) d) (\<lambda>d'.
         Inr (JObj [(''accepted'', JBool True)], d'))))
     | _ \<Rightarrow> Inl (request_error ''invalid_result''))))"

definition submit_events ::
  "db ingestion_repository \<Rightarrow> string \<Rightarrow> raw_body \<Rightarrow> trusted_peer \<Rightarrow> int \<Rightarrow> db \<Rightarrow> (json \<times> db) result" where
  "submit_events repo path_agent raw peer now d =
     bindE (parse_exact_json raw batch_fields max_request_bytes) (\<lambda>body.
     bindE (authenticated path_agent body peer now d) (\<lambda>agent_id.
     bindE (operation_id_of body) (\<lambda>operation_id.
     bindE (of_option (request_error ''invalid_event_batch'')
              (case jget body ''events'' of
                 JList es \<Rightarrow> if 1 \<le> length es \<and> length es \<le> 100 then Some es else None
               | _ \<Rightarrow> None)) (\<lambda>es.
     bindE (event_ingestion_hook repo agent_id operation_id es (Aware now) d) (\<lambda>(through, d').
     bindE (require (1 \<le> through) (ControllerRequestError ''event_ingestion_failed'' 500)) (\<lambda>_.
     Inr (JObj [(''accepted'', JBool True), (''through_sequence'', JInt through)], d')))))))"

section \<open>api/routes.py\<close>

record route_config =
  rc_conf :: "string \<Rightarrow> json option"
  rc_pepper_file :: string
  rc_read :: "string \<Rightarrow> string result"

definition configuration_int :: "route_config \<Rightarrow> string \<Rightarrow> int \<Rightarrow> int \<Rightarrow> int \<Rightarrow> int result" where
  "configuration_int cfg name fallback lo hi =
     of_option (RuntimeError (''invalid '' @ name @ '' configuration''))
       (case rc_conf cfg name of
          None \<Rightarrow> if lo \<le> fallback \<and> fallback \<le> hi then Some fallback else None
        | Some (JInt n) \<Rightarrow> if lo \<le> n \<and> n \<le> hi then Some n else None
        | _ \<Rightarrow> None)"

text \<open>\<open>FrappeCertificateStore.from_environment\<close>: the pepper without its trailing line ends.\<close>

definition from_environment :: "route_config \<Rightarrow> string result" where
  "from_environment cfg =
     bindE (require (rc_pepper_file cfg \<noteq> []) (RuntimeError ''FRAPPE_CONTROLLER_TOKEN_PEPPER_FILE is required'')) (\<lambda>_.
     bindE (rc_read cfg (rc_pepper_file cfg)) (\<lambda>bytes.
     let pepper = rev (dropWhile (\<lambda>c. c = CHR 0x0A \<or> c = CHR 0x0D) (rev bytes)) in
     bindE (check_pepper pepper) (\<lambda>_. Inr pepper)))"

text \<open>The command lifetime and the clock skew, which the stores are built with.\<close>

definition components :: "route_config \<Rightarrow> (int \<times> int) result" where
  "components cfg =
     bindE (configuration_int cfg ''frappe_controller_command_lifetime_seconds'' 300 1 300) (\<lambda>lifetime.
     bindE (configuration_int cfg ''frappe_controller_clock_skew_seconds'' 30 0 300) (\<lambda>skew.
     bindE (configuration_int cfg ''frappe_controller_offline_after_seconds'' 90 1 86400) (\<lambda>offline_after.
     bindE (from_environment cfg) (\<lambda>_.
     bindE (check_timing lifetime skew) (\<lambda>_.
     bindE (check_offline_after offline_after) (\<lambda>_. Inr (lifetime, skew)))))))"

definition request_body :: "http_request \<Rightarrow> nat \<Rightarrow> string result" where
  "request_body rq limit =
     bindE (require (rq_method rq = ''POST'') (ControllerRequestError ''method_not_allowed'' 405)) (\<lambda>_.
     bindE (require (rq_mimetype rq = ''application/json'') (ControllerRequestError ''content_type_required'' 415)) (\<lambda>_.
     bindE (require (case rq_content_length rq of None \<Rightarrow> True | Some n \<Rightarrow> n \<le> int limit)
              (ControllerRequestError ''request_too_large'' 413)) (\<lambda>_.
     bindE (require (length (rq_body rq) \<le> limit) (ControllerRequestError ''request_too_large'' 413)) (\<lambda>_.
     Inr (rq_body rq)))))"

record http_response =
  rs_status :: nat
  rs_body :: string
  rs_headers :: "(string \<times> string) list"

definition response_headers :: "(string \<times> string) list" where
  "response_headers = [(''Content-Type'', ''application/json; charset=utf-8''), (''Cache-Control'', ''no-store''),
     (''Pragma'', ''no-cache''), (''X-Content-Type-Options'', ''nosniff'')]"

definition json_response :: "json \<Rightarrow> nat \<Rightarrow> http_response result" where
  "json_response payload status =
     bindE (canonical_json payload) (\<lambda>t. bindE (encodeE t) (\<lambda>b.
     Inr \<lparr>rs_status = status, rs_body = b, rs_headers = response_headers\<rparr>))"

definition mapped_error :: "exn \<Rightarrow> string \<times> nat" where
  "mapped_error e =
     (case e of
        ControllerRequestError code status \<Rightarrow> (code, status)
      | InventorySchemaError _ \<Rightarrow> (''invalid_protocol_body'', 400)
      | IngestionSchemaError _ \<Rightarrow> (''invalid_protocol_body'', 400)
      | InventoryOwnershipError _ \<Rightarrow> (''ownership_mismatch'', 403)
      | IngestionOwnershipError _ \<Rightarrow> (''ownership_mismatch'', 403)
      | UnknownOperationError _ \<Rightarrow> (''unknown_operation'', 404)
      | InventoryConflictError _ \<Rightarrow> (''state_conflict'', 409)
      | IngestionConflictError _ \<Rightarrow> (''state_conflict'', 409)
      | DispatchConflict _ \<Rightarrow> (''state_conflict'', 409)
      | _ \<Rightarrow> (''internal_error'', 500))"

definition error_payload :: "string \<Rightarrow> json" where
  "error_payload code = JObj [(''accepted'', JBool False), (''error'', JStr code)]"

text \<open>The answer to an error. The codes of the source are ASCII, so that writing it cannot fail.\<close>

definition error_response :: "exn \<Rightarrow> http_response" where
  "error_response e =
     (let (code, status) = mapped_error e in
      \<lparr>rs_status = status, rs_body = json_dumps (error_payload code), rs_headers = response_headers\<rparr>)"

text \<open>A callback is given the lifetime and the skew, the agent, the body and the peer. The flag says that it
  commits what it did (\<open>lease_command\<close> does), so that a failure to answer cannot take it back.\<close>

type_synonym callback = "int \<times> int \<Rightarrow> string \<Rightarrow> string \<Rightarrow> trusted_peer \<Rightarrow> db \<Rightarrow> (json \<times> db) result"

definition answer :: "bool \<Rightarrow> db \<Rightarrow> (json \<times> db) result \<Rightarrow> http_response \<times> db" where
  "answer durable d r =
     (case r of
        Inl e \<Rightarrow> (error_response e, d)
      | Inr (payload, d') \<Rightarrow>
          (case json_response payload 200 of
             Inl e \<Rightarrow> (error_response e, if durable then d' else d)
           | Inr response \<Rightarrow> (response, d')))"

definition route_dispatch ::
  "signature_check \<Rightarrow> route_config \<Rightarrow> int \<Rightarrow> string \<Rightarrow> bool \<Rightarrow> callback \<Rightarrow> http_request \<Rightarrow> db \<Rightarrow> http_response \<times> db" where
  "route_dispatch verify cfg now_ns action durable callback rq d =
     (case verify_request verify now_ns rq action d of
        Inl e \<Rightarrow> (error_response e, d)
      | Inr (peer, path_agent, d1) \<Rightarrow>
          answer durable d1
            (bindE (request_body rq max_request_bytes) (\<lambda>raw.
             bindE (components cfg) (\<lambda>settings. callback settings path_agent raw peer d1))))"

text \<open>\<open>_FrappeRouteStore.lease_command\<close>.\<close>

definition route_lease ::
  "(string \<Rightarrow> string result) \<Rightarrow> runtime \<Rightarrow> int \<times> int \<Rightarrow> int \<Rightarrow> string \<Rightarrow> db \<Rightarrow> (json option \<times> db) result" where
  "route_lease wide rt settings now agent_id d =
     bindE (enabled_operations_for_agent wide rt d agent_id) (\<lambda>allowed.
     lease_command (fst settings) (snd settings) agent_id (Some allowed) (route_filter wide rt) (Aware now) d)"

datatype route = RNegotiate | RHeartbeat | RPoll | REvents | RResult

definition route_action :: "route \<Rightarrow> string" where
  "route_action r =
     (case r of RNegotiate \<Rightarrow> ''protocol:negotiate'' | RHeartbeat \<Rightarrow> ''heartbeat'' | RPoll \<Rightarrow> ''commands:poll''
      | REvents \<Rightarrow> ''events'' | RResult \<Rightarrow> ''results'')"

definition route_callback :: "(string \<Rightarrow> string result) \<Rightarrow> runtime \<Rightarrow> int \<Rightarrow> route \<Rightarrow> callback" where
  "route_callback wide rt now r settings agent_id raw peer d =
     (case r of
        RNegotiate \<Rightarrow> bindE (negotiate_protocol agent_id (RawBytes raw) peer now d) (\<lambda>payload. Inr (payload, d))
      | RHeartbeat \<Rightarrow> heartbeat agent_id (RawBytes raw) peer now d
      | RPoll \<Rightarrow> poll_commands (route_lease wide rt settings now) agent_id (RawBytes raw) peer now d
      | REvents \<Rightarrow> submit_events (frappe_ingestion rt) agent_id (RawBytes raw) peer now d
      | RResult \<Rightarrow> submit_result (frappe_ingestion rt) agent_id (RawBytes raw) peer now d)"

definition agent_route ::
  "signature_check \<Rightarrow> route_config \<Rightarrow> (string \<Rightarrow> string result) \<Rightarrow> runtime \<Rightarrow> int \<Rightarrow> int \<Rightarrow> route \<Rightarrow> http_request \<Rightarrow> db
     \<Rightarrow> http_response \<times> db" where
  "agent_route verify cfg wide rt now_ns now r rq d =
     route_dispatch verify cfg now_ns (route_action r) (r = RPoll) (route_callback wide rt now r) rq d"

end
