(* ===== verification/JsonUtf8.thy ===== *)
theory JsonUtf8
  imports JsonAscii Security
begin

text \<open>
  What the routes parse is text. The strings the reader finds in UTF-8 bytes are UTF-8 or carry a
  surrogate an escape wrote; \<open>parse_exact_json\<close> encodes the body again, which a surrogate fails.
\<close>

definition unit_ok :: "string \<Rightarrow> bool" where
  "unit_ok k \<longleftrightarrow> chunk_ok k \<or> has_surrogate k"

definition units :: "string \<Rightarrow> bool" where
  "units s \<longleftrightarrow> list_all unit_ok (chunks s)"

lemma units_Nil [simp]: "units []"
  by (simp add: units_def)

text \<open>What follows ASCII characters.\<close>

definition after_ascii :: "string \<Rightarrow> string \<Rightarrow> bool" where
  "after_ascii s r \<longleftrightarrow> (\<exists>p. s = p @ r \<and> ascii p)"

lemma surrogate_append: "has_surrogate a \<Longrightarrow> has_surrogate (a @ b)" "has_surrogate b \<Longrightarrow> has_surrogate (a @ b)"
  by (induction a) auto

lemma surrogate_conts: "list_all is_cont cs \<Longrightarrow> \<not> has_surrogate cs"
  by (induction cs) (auto simp: is_cont_def)

lemma chunk_head: "chunk_ok (c # cs) \<Longrightarrow> c < CHR 0x80 \<and> cs = [] \<or> CHR 0xC2 \<le> c"
  by (auto simp: chunk_ok_def less_eq_char_def less_char_def split: list.splits)

lemma unit_head:
  assumes "unit_ok (c # cs)" "list_all is_cont cs"
  shows "\<not> is_cont c" "c < CHR 0x80 \<Longrightarrow> cs = []"
proof -
  have "has_surrogate (c # cs) \<Longrightarrow> c = CHR 0xED" using surrogate_conts [OF assms(2)] by auto
  then have "c < CHR 0x80 \<and> cs = [] \<or> CHR 0xC2 \<le> c" using assms(1) chunk_head [of c cs] by (auto simp: unit_ok_def)
  then show "\<not> is_cont c" "c < CHR 0x80 \<Longrightarrow> cs = []" by (auto simp: is_cont_def less_eq_char_def less_char_def)
qed

lemma conts_takeWhile: "list_all is_cont (takeWhile is_cont s)"
  by (auto simp: list_all_iff dest: set_takeWhileD)

lemma units_start: "units s \<Longrightarrow> takeWhile is_cont s = []"
  using unit_head(1) [OF _ conts_takeWhile] by (cases s) (auto simp: units_def)

lemma takeWhile_Nil: "takeWhile P s = [] \<Longrightarrow> dropWhile P s = s"
  by (metis append_Nil takeWhile_dropWhile_id)

lemma units_ascii: "c < CHR 0x80 \<Longrightarrow> units (c # s) \<longleftrightarrow> units s"
proof
  assume c: "c < CHR 0x80" and u: "units (c # s)"
  then have "takeWhile is_cont s = []" using unit_head(2) [OF _ conts_takeWhile] by (auto simp: units_def)
  then show "units s" using u takeWhile_Nil [of is_cont s] by (simp add: units_def)
next
  assume c: "c < CHR 0x80" and u: "units s"
  then show "units (c # s)" using units_start [OF u] takeWhile_Nil [of is_cont s] by (simp add: units_def unit_ok_def chunk_ok_def)
qed

lemma units_after: "after_ascii s r \<Longrightarrow> units s \<Longrightarrow> units r"
proof -
  have "ascii p \<Longrightarrow> units (p @ r) \<Longrightarrow> units r" for p by (induction p) (auto simp: units_ascii)
  then show "after_ascii s r \<Longrightarrow> units s \<Longrightarrow> units r" by (auto simp: after_ascii_def)
qed

lemma after_refl [simp]: "after_ascii s s"
  unfolding after_ascii_def by (rule exI [of _ "[]"]) simp

lemma after_trans: "after_ascii s r \<Longrightarrow> after_ascii r q \<Longrightarrow> after_ascii s q"
  unfolding after_ascii_def ascii_def by (metis Un_iff append.assoc set_append)

lemma after_drop: "ascii (take n s) \<Longrightarrow> after_ascii s (drop n s)"
  unfolding after_ascii_def by (metis append_take_drop_id)

lemma after_digits: "after_ascii s (drop (length (takeWhile is_digit s)) s)"
  unfolding dropWhile_eq_drop [symmetric] after_ascii_def ascii_def
  by (metis digit_ascii set_takeWhileD takeWhile_dropWhile_id)

lemma after_one: "take 1 s = [c] \<Longrightarrow> c < CHR 0x80 \<Longrightarrow> after_ascii s (drop 1 s)"
  by (rule after_drop) (simp add: ascii_def)

lemma after_ws: "after_ascii s (skip_ws s)"
  unfolding after_ascii_def skip_ws_def ascii_def
  by (rule exI [of _ "takeWhile is_ws s"]) (auto dest!: set_takeWhileD simp: is_ws_def)

section \<open>Numbers\<close>

lemma after_int_part: "after_ascii s (drop (length (int_part s)) s)"
proof (cases "take 1 (takeWhile is_digit s) = ''0''")
  case True
  then have "take 1 s = ''0''" by (cases s) (auto split: if_splits)
  then show ?thesis using after_one [of s "CHR ''0''"] True by (simp add: int_part_def Let_def)
qed (simp add: int_part_def Let_def after_digits)

lemma after_frac: "frac_part s \<noteq> [] \<Longrightarrow> after_ascii s (drop (Suc (length (frac_part s))) s)"
proof -
  assume f: "frac_part s \<noteq> []"
  then have d: "take 1 s = ''.''" by (auto simp: frac_part_def split: if_splits)
  have "after_ascii s (drop 1 s)" by (rule after_one [OF d]) simp
  moreover have "after_ascii (drop 1 s) (drop (length (frac_part s)) (drop 1 s))"
    using d after_digits [of "drop 1 s"] by (simp add: frac_part_def)
  ultimately show ?thesis using after_trans by (metis drop_drop plus_1_eq_Suc add.commute)
qed

lemma after_exp:
  assumes "exp_part s = Some (e, r)" shows "after_ascii s r"
proof -
  have e: "take 1 s = ''e'' \<or> take 1 s = ''E''" using assms by (auto simp: exp_part_def split: if_splits)
  define sg :: nat where "sg = (if take 1 (drop 1 s) = ''-'' \<or> take 1 (drop 1 s) = ''+'' then 1 else 0)"
  have r: "r = drop (length (takeWhile is_digit (drop (1 + sg) s))) (drop (1 + sg) s)"
    using assms by (auto simp: exp_part_def Let_def sg_def add.commute split: if_splits)
  have "after_ascii s (drop 1 s)" using e after_one by fastforce
  moreover have "after_ascii (drop 1 s) (drop sg (drop 1 s))"
    unfolding sg_def using after_one [of "drop 1 s" "CHR ''-''"] after_one [of "drop 1 s" "CHR ''+''"] by auto
  ultimately have "after_ascii s (drop (1 + sg) s)" using after_trans by (metis drop_drop add.commute)
  then show ?thesis unfolding r using after_digits after_trans by blast
qed

lemma after_number:
  assumes "parse_number s = Some (v, r)" shows "after_ascii s r"
proof -
  define body where "body = (if take 1 s = ''-'' then drop 1 s else s)"
  define r1 where "r1 = drop (length (int_part body)) body"
  define r2 where "r2 = (if frac_part r1 = [] then r1 else drop (Suc (length (frac_part r1))) r1)"
  have "after_ascii s body" using after_one [of s "CHR ''-''"] by (simp add: body_def)
  then have "after_ascii s r1" unfolding r1_def using after_int_part after_trans by blast
  then have 2: "after_ascii s r2" "after_ascii s r1" unfolding r2_def using after_frac [of r1] after_trans by auto
  consider "r = r1" | "r = r2" | e where "exp_part r2 = Some (e, r)"
    using assms unfolding parse_number_def Let_def body_def [symmetric] r1_def [symmetric] r2_def [symmetric]
    by (auto split: if_splits option.splits prod.splits)
  then show ?thesis using 2 after_exp after_trans by cases auto
qed

section \<open>Strings\<close>

lemma utf8_unit:
  assumes "u < 1114112"
  obtains c cs where "utf8 u = c # cs" "\<not> is_cont c" "list_all is_cont cs" "unit_ok (utf8 u)"
proof -
  have "\<exists>c cs. utf8 u = c # cs \<and> list_all is_cont cs \<and> unit_ok (c # cs)"
  proof -
    consider "u < 128" | "128 \<le> u" "u < 2048" | "2048 \<le> u" "u < 65536" | "65536 \<le> u" by linarith
    then show ?thesis
    proof cases
      case 1
      then show ?thesis by (simp add: utf8_def unit_ok_def chunk_ok_def less_char_def)
    next
      case 2
      define x y where "x = u div 64" "y = u mod 64"
      have "u = x * 64 + y" "y < 64" by (simp_all add: x_y_def)
      then have "2 \<le> x" "x < 32" using 2 by auto
      then show ?thesis using 2 \<open>y < 64\<close>
        by (simp add: utf8_def unit_ok_def chunk_ok_def is_cont_def less_eq_char_def x_y_def [symmetric])
    next
      case 3
      define x y z where "x = u div 4096" "y = u div 64 mod 64" "z = u mod 64"
      have "u = (u div 64) * 64 + z" by (simp add: x_y_z_def)
      moreover have "u div 64 = x * 64 + y" unfolding x_y_z_def utf8_div by simp
      ultimately have u: "u = (x * 64 + y) * 64 + z" by simp
      have b: "y < 64" "z < 64" by (simp_all add: x_y_z_def)
      have "x < 16" "x = 0 \<longrightarrow> 32 \<le> y" using 3 u b by auto
      then show ?thesis using 3 b
        by (auto simp: utf8_def unit_ok_def chunk_ok_def is_cont_def less_eq_char_def less_char_def lead_byte x_y_z_def [symmetric])
    next
      case 4
      define w x y z where "w = u div 262144" "x = u div 4096 mod 64" "y = u div 64 mod 64" "z = u mod 64"
      have "u = (u div 64) * 64 + z" by (simp add: w_x_y_z_def)
      moreover have "u div 64 = (u div 4096) * 64 + y" unfolding w_x_y_z_def utf8_div by simp
      moreover have "u div 4096 = w * 64 + x" unfolding w_x_y_z_def utf8_div by simp
      ultimately have u: "u = ((w * 64 + x) * 64 + y) * 64 + z" by simp
      have b: "x < 64" "y < 64" "z < 64" by (simp_all add: w_x_y_z_def)
      have "w < 5" "w = 0 \<longrightarrow> 16 \<le> x" "w = 4 \<longrightarrow> x < 16" using 4 assms u b by auto
      then show ?thesis using 4 b
        by (auto simp: utf8_def unit_ok_def chunk_ok_def is_cont_def less_eq_char_def less_char_def lead_byte w_x_y_z_def [symmetric])
    qed
  qed
  then show ?thesis using that unit_head(1) by metis
qed

lemma hex4_parts: "hex4 s = Some (u, r) \<Longrightarrow> u < 65536 \<and> after_ascii s r"
proof -
  assume h: "hex4 s = Some (u, r)"
  then have l: "4 \<le> length s" "list_all is_hex_any (take 4 s)" "r = drop 4 s"
    and u: "u = foldl (\<lambda>a c. 16 * a + hex_val c) 0 (take 4 s)" by (auto simp: hex4_def split: if_splits)
  have v: "hex_val c < 16" "c < CHR 0x80" if "is_hex_any c" for c
    using that by (auto simp: is_hex_any_def is_hex_def is_digit_def hex_val_def Let_def less_eq_char_def less_char_def)
  obtain a b c d t where s: "s = a # b # c # d # t"
    using l(1) by (auto simp: numeral_eq_Suc Suc_le_length_iff)
  have "u < 65536" using u l(2) v(1) [of a] v(1) [of b] v(1) [of c] v(1) [of d] by (simp add: s)
  moreover have "ascii (take 4 s)" using l(2) v(2) by (auto simp: ascii_def list_all_iff)
  ultimately show ?thesis using after_drop l(3) by blast
qed

lemma unicode_escape_parts:
  assumes "unicode_escape s = Some (x, r)"
  obtains u where "x = utf8 u" "u < 1114112" "after_ascii s r"
proof -
  obtain u q where h: "hex4 s = Some (u, q)" using assms by (auto simp: unicode_escape_def split: option.splits)
  note p = hex4_parts [OF h]
  consider "x = utf8 u" "r = q"
    | l where "take 2 q = [CHR 0x5C, CHR ''u'']" "hex4 (drop 2 q) = Some (l, r)" "56320 \<le> l" "l \<le> 57343" "55296 \<le> u" "u \<le> 56319"
        "x = utf8 (65536 + (u - 55296) * 1024 + (l - 56320))"
    using assms h by (auto simp: unicode_escape_def split: option.splits if_splits prod.splits)
  then show ?thesis
  proof cases
    case 1
    then show ?thesis using that [of u] p by simp
  next
    case 2
    have "after_ascii q (drop 2 q)" by (rule after_drop) (simp add: 2(1) ascii_def)
    then have "after_ascii s r" using p hex4_parts [OF 2(2)] after_trans by blast
    then show ?thesis using 2 by (intro that [of "65536 + (u - 55296) * 1024 + (l - 56320)"]) auto
  qed
qed

lemma units_utf8:
  assumes "u < 1114112" "units t"
  shows "units (utf8 u @ t)" "takeWhile is_cont (utf8 u @ t) = []"
proof -
  obtain c cs where u: "utf8 u = c # cs" "\<not> is_cont c" "list_all is_cont cs" "unit_ok (utf8 u)"
    using utf8_unit [OF assms(1)] .
  have "takeWhile is_cont (cs @ t) = cs" "dropWhile is_cont (cs @ t) = t"
    using u(3) units_start [OF assms(2)] takeWhile_Nil [of is_cont t] by (auto simp: list_all_iff)
  then show "units (utf8 u @ t)" "takeWhile is_cont (utf8 u @ t) = []" using u assms(2) by (auto simp: units_def)
qed

text \<open>A string literal, from any byte of it: the continuation bytes at its start stay in place.\<close>

lemma parse_str_units_all:
  "parse_str s = Some (t, r) \<Longrightarrow> takeWhile is_cont t = takeWhile is_cont s
     \<and> (units (dropWhile is_cont s) \<longrightarrow> units (dropWhile is_cont t) \<and> units r)"
proof (induction s arbitrary: t r rule: measure_induct_rule [where f = length])
  case (less s)
  have whole: "units t' \<and> units r'" if "length x < length s" "parse_str x = Some (t', r')" "units x" for x t' r'
    using less.IH [OF that(1,2)] that(3) units_start [OF that(3)] takeWhile_Nil [of is_cont x] takeWhile_Nil [of is_cont t'] by simp
  show ?case
  proof (cases s)
    case Nil
    then show ?thesis using less.prems by simp
  next
    case (Cons c cs)
    consider "c = CHR 0x22" | "c < CHR 0x20" | "c = CHR 0x5C" "cs = []"
      | es where "c = CHR 0x5C" "cs = CHR ''u'' # es"
      | e es where "c = CHR 0x5C" "cs = e # es" "e \<noteq> CHR ''u''"
      | "c \<noteq> CHR 0x22" "\<not> c < CHR 0x20" "c \<noteq> CHR 0x5C"
      using neq_Nil_conv [of cs] by blast
    then show ?thesis
    proof cases
      case 1
      then show ?thesis using less.prems Cons by (simp add: parse_str_quote units_ascii is_cont_def)
    next
      case 2
      then have "c \<noteq> CHR 0x22" by auto
      then show ?thesis using less.prems Cons 2 by (simp add: parse_str.simps(2))
    next
      case 3
      then show ?thesis using less.prems Cons by (simp add: parse_str.simps(2))
    next
      case 4
      obtain x es' t' where u: "unicode_escape es = Some (x, es')" and q: "parse_str es' = Some (t', r)" and t: "t = x @ t'"
        using less.prems unfolding Cons 4 parse_str_unicode by (auto split: option.splits)
      obtain k where k: "x = utf8 k" "k < 1114112" "after_ascii es es'" using unicode_escape_parts [OF u] .
      have l: "length es' < length s" using unicode_escape_length [OF u] unfolding Cons 4 by simp
      have "units t \<and> units r" "takeWhile is_cont t = []" if "units s"
      proof -
        have "units es" using that unfolding Cons 4 by (simp add: units_ascii)
        then have w: "units t' \<and> units r" using whole [OF l q] units_after [OF k(3)] by blast
        then show "units t \<and> units r" "takeWhile is_cont t = []" using units_utf8 [OF k(2)] t k(1) by auto
      qed
      moreover have "takeWhile is_cont t = []"
        using utf8_unit [OF k(2)] t k(1) by (metis append_Cons takeWhile.simps(2))
      moreover have "dropWhile is_cont s = s" "takeWhile is_cont s = []" unfolding Cons 4 by (simp_all add: is_cont_def)
      ultimately show ?thesis using takeWhile_Nil [of is_cont t] by simp
    next
      case 5
      obtain x t' where x: "simple_escape e = Some x" and q: "parse_str es = Some (t', r)" and t: "t = x # t'"
        using less.prems unfolding Cons 5(1,2) parse_str_simple [OF 5(3)] by (auto split: option.splits)
      have e: "e < CHR 0x80" "x < CHR 0x80" using x by (auto simp: simple_escape_def split: if_splits)
      have l: "length es < length s" unfolding Cons 5 by simp
      have "units t \<and> units r" if "units s"
      proof -
        have "units es" using that e unfolding Cons 5 by (simp add: units_ascii)
        then show ?thesis using whole [OF l q] t e by (simp add: units_ascii)
      qed
      moreover have "dropWhile is_cont s = s" "takeWhile is_cont s = []" unfolding Cons 5 by (simp_all add: is_cont_def)
      ultimately show ?thesis using t e by (simp add: not_is_cont)
    next
      case 6
      obtain t' where q: "parse_str cs = Some (t', r)" and t: "t = c # t'"
        using less.prems unfolding Cons parse_str_plain [OF 6] by auto
      have "length cs < length s" unfolding Cons by simp
      note i = less.IH [OF this q]
      then show ?thesis unfolding Cons t by (cases "is_cont c") (auto simp: units_def)
    qed
  qed
qed

lemma parse_str_units: "parse_str s = Some (t, r) \<Longrightarrow> units s \<Longrightarrow> units t \<and> units r"
  using parse_str_units_all [of s t r] units_start [of s] takeWhile_Nil [of is_cont s] takeWhile_Nil [of is_cont t] by simp

section \<open>Values\<close>

lemma units_one: "take 1 s = [c] \<Longrightarrow> c < CHR 0x80 \<Longrightarrow> units s \<Longrightarrow> units (drop 1 s)"
  using units_after after_one by blast

lemma units_ws: "units s \<Longrightarrow> units (skip_ws s)"
  using units_after after_ws by blast

lemma units_token: "take n s = p \<Longrightarrow> ascii p \<Longrightarrow> units s \<Longrightarrow> units (drop n s)"
  using units_after after_drop by blast

lemma strict_members: "strict_hook e kvs = Inr v \<Longrightarrow> v = JObj kvs"
  by (auto simp: strict_hook_def split: if_splits)

lemma parse_units_all:
  "(\<forall>s v r. parse_value (strict_hook x) n s = Inr (v, r) \<longrightarrow> units s \<longrightarrow> texts units v \<and> units r) \<and>
   (\<forall>s vs r. parse_items (strict_hook x) n s = Inr (vs, r) \<longrightarrow> units s \<longrightarrow> list_all (texts units) vs \<and> units r) \<and>
   (\<forall>s kvs r. parse_members (strict_hook x) n s = Inr (kvs, r) \<longrightarrow> units s \<longrightarrow> texts units (JObj kvs) \<and> units r)"
proof (induction n)
  case 0
  show ?case by simp
next
  case (Suc n)
  have V: "texts units v \<and> units r" if "parse_value (strict_hook x) n s = Inr (v, r)" "units s" for s v r
    using Suc that by blast
  have I: "list_all (texts units) vs \<and> units r" if "parse_items (strict_hook x) n s = Inr (vs, r)" "units s" for s vs r
    using Suc that by blast
  have M: "texts units (JObj kvs) \<and> units r" if "parse_members (strict_hook x) n s = Inr (kvs, r)" "units s" for s kvs r
    using Suc that by blast
  have next': "units (skip_ws (drop 1 (skip_ws s)))" "units (drop 1 (skip_ws s))"
    if "take 1 (skip_ws s) = [c]" "c < CHR 0x80" "units s" for s c
    using units_one [OF that(1,2)] units_ws that(3) by blast+
  have "texts units v \<and> units r" if p: "parse_value (strict_hook x) (Suc n) s = Inr (v, r)" and u: "units s" for s v r
  proof (cases s)
    case Nil
    then show ?thesis using p by simp
  next
    case (Cons c cs)
    have num: "parse_number s = Some (v, r) \<Longrightarrow> ?thesis"
      using units_after [OF after_number u] by (auto simp: parse_number_def Let_def split: if_splits option.splits prod.splits)
    have cs: "units cs" if "c < CHR 0x80" using u units_ascii [OF that] Cons by simp
    consider t where "c = CHR 0x22" "parse_str cs = Some (t, r)" "v = JStr t"
      | "c = CHR ''{''" "take 1 (skip_ws cs) = ''}''" "strict_hook x [] = Inr v" "r = drop 1 (skip_ws cs)"
      | kvs where "c = CHR ''{''" "parse_members (strict_hook x) n (skip_ws cs) = Inr (kvs, r)" "strict_hook x kvs = Inr v"
      | "c = CHR ''[''" "take 1 (skip_ws cs) = '']''" "v = JList []" "r = drop 1 (skip_ws cs)"
      | vs where "c = CHR ''[''" "parse_items (strict_hook x) n (skip_ws cs) = Inr (vs, r)" "v = JList vs"
      | "\<exists>m\<in>{3, 4, 5, 8, 9}. r = drop m s \<and> ascii (take m s)" "texts units v"
      | "parse_number s = Some (v, r)"
      using p unfolding Cons by (auto simp: bindE_eq_Inr split: if_splits option.splits prod.splits)
    then show ?thesis
    proof cases
      case 1
      then show ?thesis using parse_str_units [OF 1(2)] cs by simp
    next
      case 2
      then show ?thesis using next'(2) [OF 2(2)] cs strict_members [OF 2(3)] by simp
    next
      case 3
      then show ?thesis using M [OF 3(2)] units_ws cs strict_members [OF 3(3)] by simp
    next
      case 4
      then show ?thesis using next'(2) [OF 4(2)] cs by simp
    next
      case 5
      then show ?thesis using I [OF 5(2)] units_ws cs by simp
    next
      case 6
      then show ?thesis using units_token [OF refl _ u] by blast
    next
      case 7
      then show ?thesis by (rule num)
    qed
  qed
  moreover have "list_all (texts units) vs \<and> units r"
    if p: "parse_items (strict_hook x) (Suc n) s = Inr (vs, r)" and u: "units s" for s vs r
  proof -
    obtain v q where v: "parse_value (strict_hook x) n s = Inr (v, q)"
      and rest: "take 1 (skip_ws q) = '','' \<and> (\<exists>ws. parse_items (strict_hook x) n (skip_ws (drop 1 (skip_ws q))) = Inr (ws, r) \<and> vs = v # ws)
        \<or> take 1 (skip_ws q) = '']'' \<and> vs = [v] \<and> r = drop 1 (skip_ws q)"
      using p by (auto simp: bindE_eq_Inr split: if_splits)
    then show ?thesis using V [OF v u] next' [of q] I by fastforce
  qed
  moreover have "texts units (JObj kvs) \<and> units r"
    if p: "parse_members (strict_hook x) (Suc n) s = Inr (kvs, r)" and u: "units s" for s kvs r
  proof -
    obtain k q v y where k: "take 1 s = [CHR 0x22]" "parse_str (drop 1 s) = Some (k, q)" "take 1 (skip_ws q) = '':''"
      and v: "parse_value (strict_hook x) n (skip_ws (drop 1 (skip_ws q))) = Inr (v, y)"
      and rest: "take 1 (skip_ws y) = '','' \<and> (\<exists>ws. parse_members (strict_hook x) n (skip_ws (drop 1 (skip_ws y))) = Inr (ws, r) \<and> kvs = (k, v) # ws)
        \<or> take 1 (skip_ws y) = ''}'' \<and> kvs = [(k, v)] \<and> r = drop 1 (skip_ws y)"
      using p by (simp split: if_splits option.splits prod.splits) (auto simp: bindE_eq_Inr split: if_splits)
    have kq: "units k \<and> units q" using parse_str_units [OF k(2)] units_one [OF k(1) _ u] by simp
    have "units (skip_ws (drop 1 (skip_ws q)))" using next'(1) [OF k(3)] kq by simp
    from V [OF v this] show ?thesis using rest next' [of y] M kq by fastforce
  qed
  ultimately show ?case by blast
qed

lemma loads_units: "json_loads_with (strict_hook x) s = Inr v \<Longrightarrow> units s \<Longrightarrow> texts units v"
proof -
  assume l: "json_loads_with (strict_hook x) s = Inr v" and u: "units s"
  then obtain r where "parse_value (strict_hook x) (2 * length s + 2) (skip_ws s) = Inr (v, r)"
    unfolding json_loads_with_def loads_fuel_def bindE_eq_Inr by (clarsimp simp only: split: if_splits)
  then show "texts units v" using parse_units_all units_ws [OF u] by blast
qed

section \<open>Without surrogates\<close>

lemma surrogate_quote: "has_surrogate s \<Longrightarrow> has_surrogate (quote_str s)"
proof -
  have "has_surrogate s \<Longrightarrow> has_surrogate (concat (map escape_char s))"
  proof (induction s)
    case (Cons c cs)
    show ?case
    proof (cases "has_surrogate cs")
      case True
      then show ?thesis using Cons.IH surrogate_append(2) by simp
    next
      case False
      then obtain b bs where b: "c = CHR 0xED" "cs = b # bs" "CHR 0xA0 \<le> b" "b \<le> CHR 0xBF" using Cons.prems by (cases cs) auto
      have n: "160 \<le> (of_char b :: nat)" using b(3) by (simp add: less_eq_char_def)
      have "b \<noteq> CHR 0x22 \<and> b \<noteq> CHR 0x5C \<and> b \<noteq> CHR 0x0A \<and> b \<noteq> CHR 0x0D \<and> b \<noteq> CHR 0x09 \<and> b \<noteq> CHR 0x0C \<and> b \<noteq> CHR 0x08"
        by (intro conjI notI; use n in simp)
      moreover have "\<not> b < CHR 0x20" using n by (simp add: less_char_def)
      ultimately have "escape_char b = [b]" by (simp add: escape_char_def)
      then show ?thesis using b by (simp add: escape_char_def)
    qed
  qed simp
  then show "has_surrogate s \<Longrightarrow> has_surrogate (quote_str s)"
    unfolding quote_str_def using surrogate_append by blast
qed

lemma surrogate_join: "x \<in> set xs \<Longrightarrow> has_surrogate x \<Longrightarrow> has_surrogate (join sep xs)"
  by (induction sep xs rule: join.induct) (auto intro: surrogate_append)

lemma dumps_no_surrogate: "\<not> has_surrogate (json_dumps v) \<Longrightarrow> texts (\<lambda>s. \<not> has_surrogate s) v"
proof (induction v rule: json_dumps.induct)
  case (5 s)
  then show ?case using surrogate_quote by auto
next
  case (6 xs)
  have "\<not> has_surrogate (json_dumps x)" if "x \<in> set xs" for x
    using 6(2) that surrogate_join [of "json_dumps x" "map json_dumps xs" "'',''"] surrogate_append
    by (metis image_eqI json_dumps.simps(6) list.set_map)
  then show ?case using 6(1) by (simp add: list_all_iff)
next
  case (7 kvs)
  have "\<not> has_surrogate k \<and> \<not> has_surrogate (json_dumps x)" if kx: "(k, x) \<in> set kvs" for k x
  proof -
    have "quote_str k @ '':'' @ json_dumps x \<in> set (map (\<lambda>(k, v). quote_str k @ '':'' @ json_dumps v) (sort_key fst kvs))"
      using kx by force
    then have "\<not> has_surrogate (quote_str k @ '':'' @ json_dumps x)"
      using 7(2) surrogate_join surrogate_append by (metis json_dumps.simps(7))
    then show ?thesis using surrogate_append surrogate_quote by blast
  qed
  then show ?case using 7(1) by (auto simp: list_all_iff)
qed simp_all

lemma units_text: "units s \<Longrightarrow> \<not> has_surrogate s \<Longrightarrow> utf8_ok s"
proof -
  assume u: "units s" and h: "\<not> has_surrogate s"
  have "\<not> has_surrogate k" if "k \<in> set (chunks s)" for k
  proof -
    obtain ys zs where "chunks s = ys @ k # zs" using split_list [OF \<open>k \<in> set (chunks s)\<close>] by blast
    then have "concat (chunks s) = concat ys @ k @ concat zs" by simp
    then show ?thesis using h surrogate_append by (metis concat_chunks)
  qed
  then show ?thesis using u by (auto simp: units_def utf8_ok_def unit_ok_def list_all_iff)
qed

lemma texts_units: "texts units v \<Longrightarrow> texts (\<lambda>s. \<not> has_surrogate s) v \<Longrightarrow> texts utf8_ok v"
  by (induction v rule: canon.induct) (fastforce simp: list_all_iff units_text)+

lemma parse_exact_ok:
  assumes "parse_exact_json raw wanted limit = Inr kvs"
  shows "decode_body raw limit = Inr (JObj kvs)" "jkeys kvs = set wanted" "\<not> has_surrogate (json_dumps (JObj kvs))"
proof -
  obtain v where v: "decode_body raw limit = Inr v"
    and c: "(case v of JObj kvs \<Rightarrow>
         bindE (require (jkeys kvs = set wanted) (request_error ''invalid_fields'')) (\<lambda>_.
         bindE (validate_json False False v) (\<lambda>_.
         bindE (canonical_json v) (\<lambda>t. bindE (encodeE t) (\<lambda>b.
         bindE (require (length b \<le> limit) (ControllerRequestError ''request_too_large'' 413)) (\<lambda>_.
         Inr kvs)))))
     | _ \<Rightarrow> Inl (request_error ''invalid_fields'')) = Inr kvs"
    using assms unfolding parse_exact_json_def bindE_eq_Inr [of "decode_body raw limit"] by blast
  have "v = JObj kvs \<and> jkeys kvs = set wanted \<and> \<not> has_surrogate (json_dumps v)"
    using c by (cases v) (simp_all add: bindE_eq_Inr canonical_json_eq encodeE_eq_Inr require_eq_Inr del: json_dumps.simps)
  then show "decode_body raw limit = Inr (JObj kvs)" "jkeys kvs = set wanted" "\<not> has_surrogate (json_dumps (JObj kvs))"
    using v by auto
qed

lemma parsed_texts:
  assumes "parse_exact_json (RawBytes b) wanted limit = Inr kvs"
  shows "texts utf8_ok (JObj kvs)"
proof -
  note p = parse_exact_ok [OF assms]
  have d: "decodeE b = Inr b \<and> json_loads_with strict_object b = Inr (JObj kvs)"
    using p(1) by (auto simp: decode_body_def bindE_eq_Inr catchE_def decodeE_eq_Inr split: sum.splits option.splits)
  then have "units b" by (auto simp: decodeE_eq_Inr units_def unit_ok_def list_all_iff)
  then show ?thesis using texts_units [OF loads_units dumps_no_surrogate [OF p(3)]] d unfolding strict_object_def by blast
qed

end
