(* ===== verification/AgentIsolation.thy ===== *)
theory AgentIsolation
  imports AgentApi JsonUtf8
begin

text \<open>
  What one agent can do to the data of the others: nothing. \<open>isolated N d d'\<close> says that from \<open>d\<close> to \<open>d'\<close>
  only rows of agents in \<open>N\<close> changed; every step of a route keeps it, and the routes keep the
  invariants of the inventory and of the reports.
\<close>

section \<open>Whose rows\<close>

definition op_links :: "db \<Rightarrow> (string \<times> string \<times> string option) list" where
  "op_links d = map (\<lambda>o1. (op_name o1, op_server_agent o1, op_bulk_target o1)) (operations d)"

definition op_owner :: "db \<Rightarrow> string \<Rightarrow> string option" where
  "op_owner d m = map_option fst (map_of (op_links d) m)"

definition linked_to :: "string \<Rightarrow> db \<Rightarrow> string \<Rightarrow> bool" where
  "linked_to n d b \<longleftrightarrow> (\<exists>m. (m, n, Some b) \<in> set (op_links d))"

definition isolated :: "string set \<Rightarrow> db \<Rightarrow> db \<Rightarrow> bool" where
  "isolated N d d' \<longleftrightarrow>
     d' = d\<lparr>agents := agents d', benches := benches d', sites := sites d', operations := operations d',
       optargets := optargets d', events := events d', bulktargets := bulktargets d'\<rparr>
     \<and> (\<forall>a. sa_name a \<notin> N \<longrightarrow> a \<in> set (agents d) \<longleftrightarrow> a \<in> set (agents d'))
     \<and> (\<forall>b. be_server_agent b \<notin> N \<longrightarrow> b \<in> set (benches d) \<longleftrightarrow> b \<in> set (benches d'))
     \<and> (\<forall>s. si_server_agent s \<notin> N \<longrightarrow> s \<in> set (sites d) \<longleftrightarrow> s \<in> set (sites d'))
     \<and> op_links d' = op_links d
     \<and> filter (\<lambda>o1. op_server_agent o1 \<notin> N) (operations d') = filter (\<lambda>o1. op_server_agent o1 \<notin> N) (operations d)
     \<and> filter (\<lambda>t. op_owner d (ot_operation t) \<notin> Some ` N) (optargets d')
         = filter (\<lambda>t. op_owner d (ot_operation t) \<notin> Some ` N) (optargets d)
     \<and> filter (\<lambda>e. op_owner d (ev_operation e) \<notin> Some ` N) (events d')
         = filter (\<lambda>e. op_owner d (ev_operation e) \<notin> Some ` N) (events d)
     \<and> filter (\<lambda>b. \<forall>n\<in>N. \<not> linked_to n d (bx_name b)) (bulktargets d')
         = filter (\<lambda>b. \<forall>n\<in>N. \<not> linked_to n d (bx_name b)) (bulktargets d)"

lemma isolated_refl [simp]: "isolated N d d"
  by (simp add: isolated_def)

lemma isolated_links: "isolated N d d' \<Longrightarrow> op_links d' = op_links d"
  by (simp add: isolated_def)

lemma links_same: "op_links d' = op_links d \<Longrightarrow> op_owner d' = op_owner d \<and> linked_to n d' = linked_to n d"
  by (simp add: op_owner_def linked_to_def fun_eq_iff)

lemma isolated_trans:
  assumes "isolated N d d1" "isolated N d1 d2"
  shows "isolated N d d2"
proof -
  have o1: "op_owner d1 = op_owner d" "\<And>n. linked_to n d1 = linked_to n d"
    using links_same [OF isolated_links [OF assms(1)]] by blast+
  have "d2 = d\<lparr>agents := agents d2, benches := benches d2, sites := sites d2, operations := operations d2,
       optargets := optargets d2, events := events d2, bulktargets := bulktargets d2\<rparr>"
    using assms unfolding isolated_def by (cases d; cases d1; cases d2) simp
  moreover have "op_links d2 = op_links d"
    "filter (\<lambda>o1. op_server_agent o1 \<notin> N) (operations d2) = filter (\<lambda>o1. op_server_agent o1 \<notin> N) (operations d)"
    "filter (\<lambda>t. op_owner d (ot_operation t) \<notin> Some ` N) (optargets d2) = filter (\<lambda>t. op_owner d (ot_operation t) \<notin> Some ` N) (optargets d)"
    "filter (\<lambda>e. op_owner d (ev_operation e) \<notin> Some ` N) (events d2) = filter (\<lambda>e. op_owner d (ev_operation e) \<notin> Some ` N) (events d)"
    "filter (\<lambda>b. \<forall>n\<in>N. \<not> linked_to n d (bx_name b)) (bulktargets d2) = filter (\<lambda>b. \<forall>n\<in>N. \<not> linked_to n d (bx_name b)) (bulktargets d)"
    using assms unfolding isolated_def o1 by simp_all
  ultimately show ?thesis using assms unfolding isolated_def by blast
qed

lemma filter_weaker: "filter Q xs = filter Q ys \<Longrightarrow> (\<And>x. P x \<Longrightarrow> Q x) \<Longrightarrow> filter P xs = filter P ys"
proof -
  assume q: "filter Q xs = filter Q ys" and pq: "\<And>x. P x \<Longrightarrow> Q x"
  have "filter P zs = filter P (filter Q zs)" for zs using pq by (induction zs) auto
  then show ?thesis using q by metis
qed

lemma isolated_mono:
  assumes "isolated N d d'" "N \<subseteq> M" shows "isolated M d d'"
proof -
  have w: "filter P xs = filter P ys" if "filter Q xs = filter Q ys" "\<forall>x. P x \<longrightarrow> Q x" for P Q xs ys
    using filter_weaker that by metis
  have i: "op_links d' = op_links d"
    "filter (\<lambda>o1. op_server_agent o1 \<notin> N) (operations d') = filter (\<lambda>o1. op_server_agent o1 \<notin> N) (operations d)"
    "filter (\<lambda>t. op_owner d (ot_operation t) \<notin> Some ` N) (optargets d') = filter (\<lambda>t. op_owner d (ot_operation t) \<notin> Some ` N) (optargets d)"
    "filter (\<lambda>e. op_owner d (ev_operation e) \<notin> Some ` N) (events d') = filter (\<lambda>e. op_owner d (ev_operation e) \<notin> Some ` N) (events d)"
    "filter (\<lambda>b. \<forall>n\<in>N. \<not> linked_to n d (bx_name b)) (bulktargets d') = filter (\<lambda>b. \<forall>n\<in>N. \<not> linked_to n d (bx_name b)) (bulktargets d)"
    using assms(1) unfolding isolated_def by simp_all
  have f: "filter (\<lambda>o1. op_server_agent o1 \<notin> M) (operations d') = filter (\<lambda>o1. op_server_agent o1 \<notin> M) (operations d)"
    by (rule w [OF i(2)]) (use assms(2) in blast)
  have g: "filter (\<lambda>t. op_owner d (ot_operation t) \<notin> Some ` M) (optargets d') = filter (\<lambda>t. op_owner d (ot_operation t) \<notin> Some ` M) (optargets d)"
    by (rule w [OF i(3)]) (use assms(2) in blast)
  have h: "filter (\<lambda>e. op_owner d (ev_operation e) \<notin> Some ` M) (events d') = filter (\<lambda>e. op_owner d (ev_operation e) \<notin> Some ` M) (events d)"
    by (rule w [OF i(4)]) (use assms(2) in blast)
  have k: "filter (\<lambda>b. \<forall>n\<in>M. \<not> linked_to n d (bx_name b)) (bulktargets d') = filter (\<lambda>b. \<forall>n\<in>M. \<not> linked_to n d (bx_name b)) (bulktargets d)"
    by (rule w [OF i(5)]) (use assms(2) in blast)
  show ?thesis using assms f g h k i(1) unfolding isolated_def by blast
qed

text \<open>The rows of an agent's operation, and what hangs on it.\<close>

definition own_op :: "string \<Rightarrow> db \<Rightarrow> op_row \<Rightarrow> bool" where
  "own_op n d o1 \<longleftrightarrow> distinct (map fst (op_links d)) \<and> (op_name o1, n, op_bulk_target o1) \<in> set (op_links d)"

definition keeps_links :: "(op_row \<Rightarrow> op_row) \<Rightarrow> bool" where
  "keeps_links f \<longleftrightarrow> (\<forall>o1. op_name (f o1) = op_name o1 \<and> op_server_agent (f o1) = op_server_agent o1
     \<and> op_bulk_target (f o1) = op_bulk_target o1)"

lemma filter_untouched:
  "(\<And>r. r \<in> set t \<Longrightarrow> p r \<Longrightarrow> \<not> Q r \<and> \<not> Q (f r)) \<Longrightarrow> filter Q (set_rows p f t) = filter Q t"
  by (induction t) (auto simp: set_rows_def)

lemma own_op_owner: "own_op n d o1 \<Longrightarrow> op_owner d (op_name o1) = Some n"
  by (auto simp: own_op_def op_owner_def)

lemma own_op_kept: "own_op n d o1 \<Longrightarrow> isolated N d d' \<Longrightarrow> own_op n d' o1"
  by (simp add: own_op_def isolated_links)

lemma own_op_agent:
  assumes "own_op n d o1" "r \<in> set (operations d)" "op_name r = op_name o1"
  shows "op_server_agent r = n"
proof -
  have "(op_name r, op_server_agent r, op_bulk_target r) \<in> set (op_links d)" using assms(2) by (auto simp: op_links_def)
  then show ?thesis using assms(1,3) eq_key_imp_eq_value [of "op_links d" "op_name o1"] by (auto simp: own_op_def)
qed

lemma isolated_op_set:
  assumes "own_op n d o1" "keeps_links f"
  shows "isolated {n} d (op_set (op_name o1) f d)"
proof -
  have "op_links (op_set (op_name o1) f d) = op_links d"
    unfolding op_links_def operations_op_set by (rule set_rows_key) (use assms(2) in \<open>simp add: keeps_links_def\<close>)
  moreover have "filter (\<lambda>o1. op_server_agent o1 \<noteq> n) (operations (op_set (op_name o1) f d)) = filter (\<lambda>o1. op_server_agent o1 \<noteq> n) (operations d)"
    unfolding operations_op_set
    by (rule filter_untouched) (use own_op_agent [OF assms(1)] assms(2) in \<open>auto simp: keeps_links_def\<close>)
  ultimately show ?thesis by (simp add: isolated_def op_set_def)
qed

lemma isolated_target_set:
  assumes "own_op n d o1" "\<And>t. ot_operation (g t) = ot_operation t"
  shows "isolated {n} d (target_set (op_name o1) g d)"
proof -
  have "filter (\<lambda>t. op_owner d (ot_operation t) \<noteq> Some n) (set_rows (\<lambda>t. ot_operation t = op_name o1) g (optargets d))
      = filter (\<lambda>t. op_owner d (ot_operation t) \<noteq> Some n) (optargets d)"
    by (rule filter_untouched) (use own_op_owner [OF assms(1)] assms(2) in auto)
  then show ?thesis by (simp add: isolated_def target_set_def op_links_def)
qed

lemma isolated_bulk_target_set:
  assumes "own_op n d o1" "op_bulk_target o1 = Some b" "\<And>t. bx_name (h t) = bx_name t"
  shows "isolated {n} d (bulk_target_set b h d)"
proof -
  have l: "linked_to n d b" using assms(1,2) by (auto simp: own_op_def linked_to_def)
  have "filter (\<lambda>b. \<not> linked_to n d (bx_name b)) (set_rows (\<lambda>t. bx_name t = b) h (bulktargets d))
      = filter (\<lambda>b. \<not> linked_to n d (bx_name b)) (bulktargets d)"
    by (rule filter_untouched) (use l assms(3) in auto)
  then show ?thesis by (simp add: isolated_def bulk_target_set_def op_links_def)
qed

text \<open>A change of an operation, of its target and of its bulk target, as \<open>quarantine\<close> and \<open>write_result\<close> make.\<close>

lemma isolated_op_change:
  assumes own: "own_op n d o1" and f: "keeps_links f" and g: "\<And>t. ot_operation (g t) = ot_operation t"
    and h: "\<And>t. bx_name (h t) = bx_name t"
  shows "isolated {n} d (let d2 = target_set (op_name o1) g (op_set (op_name o1) f d) in
    if truthy (op_bulk_target o1) then bulk_target_set (the (op_bulk_target o1)) h d2 else d2)"
proof -
  note 1 = isolated_op_set [OF own f]
  note 2 = isolated_trans [OF 1 isolated_target_set [OF own_op_kept [OF own 1] g]]
  have "isolated {n} d (bulk_target_set b h (target_set (op_name o1) g (op_set (op_name o1) f d)))"
    if "op_bulk_target o1 = Some b" for b
    using isolated_trans [OF 2 isolated_bulk_target_set [OF own_op_kept [OF own 2] that h]] .
  then show ?thesis using 2 by (cases "op_bulk_target o1") (auto simp: Let_def)
qed

lemma isolated_event:
  assumes "own_op n d o1" "ev_operation e = op_name o1"
  shows "isolated {n} d (d\<lparr>events := events d @ [e]\<rparr>)"
  using own_op_owner [OF assms(1)] assms(2) by (simp add: isolated_def op_links_def)

lemma isolated_agent_set: "(\<And>x. sa_name (f x) = sa_name x) \<Longrightarrow> isolated {n} d (agent_set n f d)"
  by (auto simp: isolated_def agent_set_def op_links_def set_rows_in)

lemma isolated_others: "others_kept n d d' \<Longrightarrow> isolated {n} d d'"
  unfolding others_kept_def isolated_def by (cases d; cases d') (simp add: op_links_def)

section \<open>The steps of the routes\<close>

definition route_ok :: "db \<Rightarrow> bool" where
  "route_ok d \<longleftrightarrow> inventory_ok d \<and> ingest_ok d"

lemma inventory_ok_same:
  "agents d' = agents d \<Longrightarrow> benches d' = benches d \<Longrightarrow> sites d' = sites d \<Longrightarrow> inventory_ok d' = inventory_ok d"
  unfolding inventory_ok_def places_ok_def stored_owned_def owns_def current_inventory_def find_agent_def by simp

lemma ingest_ok_same: "operations d' = operations d \<Longrightarrow> events d' = events d \<Longrightarrow> ingest_ok d' = ingest_ok d"
  by (simp add: ingest_ok_def events_ok_def event_numbers_def)

lemma own_opI:
  assumes "ingest_ok d" "inventory_ok d" "o1 \<in> set (operations d)"
    "get_row sa_name (agents d) (op_server_agent o1) = Some a" "sa_agent_id a = n"
  shows "own_op n d o1"
proof -
  have a: "a \<in> set (agents d)" "sa_name a = op_server_agent o1" using get_row_Some [OF assms(4)] by auto
  then have "sa_name a = n" using assms(2,5) by (auto simp: inventory_ok_def places_ok_def)
  then have "op_server_agent o1 = n" using a by simp
  moreover have "distinct (map fst (op_links d))"
    using assms(1) by (simp add: ingest_ok_def events_ok_def op_links_def o_def)
  ultimately show ?thesis using assms(3) by (force simp: own_op_def op_links_def)
qed

lemma quarantine_isolated: "own_op n d c \<Longrightarrow> isolated {n} d (quarantine now c d)"
  using isolated_op_change [of n d c "\<lambda>x. x\<lparr>op_state := ''failed'', op_error_code := Some ''command_snapshot_conflict'',
      op_completed_at := Some now\<rparr>" "\<lambda>t. t\<lparr>ot_state := ''failed'', ot_error_code := Some ''command_snapshot_conflict''\<rparr>"
      "\<lambda>t. t\<lparr>bx_state := ''failed'', bx_error_code := Some ''command_snapshot_conflict'', bx_completed_at := Some now\<rparr>"]
  by (simp add: quarantine_def Let_def keeps_links_def)

lemma places_quarantine: "benches (quarantine now c d) = benches d" "sites (quarantine now c d) = sites d"
  by (simp_all add: quarantine_def Let_def bulk_target_set_def target_set_def)

lemma scan_queue_isolated:
  "scan_queue lifetime wanted now cs d = Inr (found, d') \<Longrightarrow> (\<And>c. c \<in> set cs \<Longrightarrow> own_op n d c) \<Longrightarrow>
   isolated {n} d d' \<and> agents d' = agents d \<and> benches d' = benches d \<and> sites d' = sites d
     \<and> (\<forall>c env. found = Some (c, env) \<longrightarrow> own_op n d' c)"
proof (induction cs arbitrary: d)
  case (Cons c cs)
  have own: "own_op n d x" if "x \<in> set (c # cs)" for x using Cons.prems(2) that by blast
  obtain w where w: "wanted c (candidate_environment d c) = Inr w" using Cons.prems(1) by (auto simp: bindE_eq_Inr)
  show ?case
  proof (cases "w \<and> is_ok (validate_persisted lifetime d (op_name c) (op_command_json c) (op_command_hash c) (Aware now))")
    case True
    then show ?thesis using Cons.prems(1) w own by (auto simp: is_ok_iff)
  next
    case False
    then have "scan_queue lifetime wanted now cs d = Inr (found, d')
        \<or> scan_queue lifetime wanted now cs (quarantine now c d) = Inr (found, d')"
      using Cons.prems(1) w by (auto simp: is_ok_iff split: if_splits sum.splits exn.splits)
    then show ?thesis
    proof
      assume "scan_queue lifetime wanted now cs d = Inr (found, d')"
      from Cons.IH [OF this] own show ?thesis by simp
    next
      assume s: "scan_queue lifetime wanted now cs (quarantine now c d) = Inr (found, d')"
      have q: "isolated {n} d (quarantine now c d)" by (rule quarantine_isolated) (simp add: own)
      have "own_op n (quarantine now c d) x" if "x \<in> set cs" for x using own_op_kept [OF _ q] own that by simp
      from Cons.IH [OF s this] show ?thesis using isolated_trans [OF q] by (simp add: places_quarantine)
    qed
  qed
qed simp

lemma lease_isolated:
  assumes l: "lease_command lifetime skew n allowed wanted clock d = Inr (r, d')" and ok: "route_ok d"
  shows "isolated {n} d d' \<and> route_ok d'"
proof -
  have h: "ingest_ok d'" using lease_harmless [OF l] ok by (simp add: harmless_def route_ok_def)
  have "isolated {n} d d' \<and> agents d' = agents d \<and> benches d' = benches d \<and> sites d' = sites d"
  proof (cases "allowed = Some []")
    case False
    define now where "now = naive_utc clock"
    obtain found d1 where sc: "scan_queue lifetime wanted now (candidates d n allowed now) d = Inr (found, d1)"
      and f: "(case found of None \<Rightarrow> Inr (None, d1)
        | Some (c, env) \<Rightarrow>
            let stamped = restamp lifetime now env;
                d2 = target_set (op_name c) (\<lambda>t. t\<lparr>ot_state := ''leased''\<rparr>)
                       (op_set (op_name c) (lease_row lifetime skew now) d1) in
            bindE (canonical_json (JObj stamped)) (\<lambda>t.
            bindE (json_loads t) (\<lambda>command. Inr (Some command, d2)))) = Inr (r, d')"
      using l unfolding lease_command_def Let_def now_def [symmetric] if_not_P [OF False] bindE_eq_Inr
      by (auto simp: bindE_eq_Inr)
    have "own_op n d c" if "c \<in> set (candidates d n allowed now)" for c
    proof -
      note c = candidates_ok [OF that]
      obtain a where a: "get_row sa_name (agents d) (op_server_agent c) = Some a" "sa_agent_id a = n"
        using c by (auto simp: leasable_def split: option.splits)
      show ?thesis by (rule own_opI [OF _ _ _ a]) (use ok c in \<open>auto simp: route_ok_def\<close>)
    qed
    note s = scan_queue_isolated [OF sc this]
    show ?thesis
    proof (cases found)
      case None
      then show ?thesis using f s by simp
    next
      case (Some x)
      obtain c env where x: "x = (c, env)" by (cases x)
      then have own: "own_op n d1 c" using s Some by simp
      have d': "d' = target_set (op_name c) (\<lambda>t. t\<lparr>ot_state := ''leased''\<rparr>) (op_set (op_name c) (lease_row lifetime skew now) d1)"
        using f unfolding Some x by (auto simp: bindE_eq_Inr Let_def)
      have 1: "isolated {n} d1 (op_set (op_name c) (lease_row lifetime skew now) d1)"
        by (rule isolated_op_set [OF own]) (simp add: keeps_links_def lease_row_def)
      have "isolated {n} d1 d'" unfolding d' by (rule isolated_trans [OF 1 isolated_target_set [OF own_op_kept [OF own 1]]]) simp
      then show ?thesis using s isolated_trans by (auto simp: d' target_set_def)
    qed
  qed (use l in \<open>simp add: lease_command_def Let_def\<close>)
  then show ?thesis using h ok inventory_ok_same [of d' d] by (simp add: route_ok_def)
qed

lemma append_event_isolated:
  assumes "append_event rt (op_name o1) n1 e (cursor, d) = Inr (c, d')" "own_op n d o1"
  shows "isolated {n} d d' \<and> agents d' = agents d \<and> benches d' = benches d \<and> sites d' = sites d"
proof -
  have i: "ev_insert rt (Some (ie_received e)) (event_document (op_name o1) n1 e) d = Inr d'"
    using assms(1) by (auto simp: append_event_def bindE_eq_Inr)
  obtain b where b: "b = (event_document (op_name o1) n1 e)\<lparr>ev_received_at := ev_received_at b, ev_name := ev_name b\<rparr>"
    and d': "d' = op_set (op_name o1) (\<lambda>o1. o1\<lparr>op_last_sequence := ie_sequence e\<rparr>) (d\<lparr>events := events d @ [b]\<rparr>)"
    by (rule ev_insert_ok [OF i]) (simp add: event_document_def)
  have "ev_operation b = op_name o1" by (subst b, simp add: event_document_def)
  note 1 = isolated_event [OF assms(2) this]
  have "isolated {n} d d'" unfolding d'
    by (rule isolated_trans [OF 1 isolated_op_set [OF own_op_kept [OF assms(2) 1]]]) (simp add: keeps_links_def)
  then show ?thesis by (simp add: d')
qed

lemma append_events_isolated:
  "foldE (append_event rt (op_name o1) n1) es (cursor, d) = Inr (c, d') \<Longrightarrow> own_op n d o1 \<Longrightarrow>
   isolated {n} d d' \<and> agents d' = agents d \<and> benches d' = benches d \<and> sites d' = sites d"
proof (induction es arbitrary: cursor d)
  case (Cons e es)
  obtain c1 d1 where s: "append_event rt (op_name o1) n1 e (cursor, d) = Inr (c1, d1)"
    and r: "foldE (append_event rt (op_name o1) n1) es (c1, d1) = Inr (c, d')"
    using Cons.prems(1) by (auto simp: bindE_eq_Inr)
  note 1 = append_event_isolated [OF s Cons.prems(2)]
  show ?case using Cons.IH [OF r] own_op_kept [OF Cons.prems(2)] 1 isolated_trans by metis
qed simp

lemma joined_own:
  assumes "operation_row m d = Some (o1, a, b, s)" "sa_agent_id a = n" "route_ok d"
  shows "own_op n d o1"
  using operation_row_ok [OF assms(1)] own_opI assms(2,3) by (auto simp: route_ok_def)

lemma append_isolated:
  assumes "fi_append rt n m k es d = Inr (c, d')" "route_ok d"
  shows "isolated {n} d d' \<and> agents d' = agents d \<and> benches d' = benches d \<and> sites d' = sites d"
proof -
  obtain row where row: "operation_row m d = Some row" "sa_agent_id (fst (snd row)) = n"
    using assms(1) unfolding fi_append_def bindE_eq_Inr [of "owned_row n m d"] owned_row_ok by blast
  obtain o1 a b s where x: "row = (o1, a, b, s)" by (cases row) auto
  have own: "own_op n d o1" by (rule joined_own [OF row(1) [unfolded x]]) (use row(2) x assms(2) in simp_all)
  have "d' = d \<or> (\<exists>k' c'. foldE (append_event rt (op_name o1) m) es (k', d) = Inr (c', d'))"
    by (rule fi_append_ok [OF assms(1)]) (use row x in auto)
  then show ?thesis using append_events_isolated own by auto
qed

lemma commit_isolated:
  assumes "fi_commit n m h r d = Inr d'" "route_ok d"
  shows "isolated {n} d d' \<and> agents d' = agents d \<and> benches d' = benches d \<and> sites d' = sites d"
  using fi_commit_ok [OF assms(1)]
proof
  assume "\<exists>row state error. operation_row m d = Some row \<and> sa_agent_id (fst (snd row)) = n
    \<and> result_state row r = Inr (state, error) \<and> d' = write_result (fst row) state error r d"
  then obtain o1 a b s state error where x: "operation_row m d = Some (o1, a, b, s)" "sa_agent_id a = n"
    and d': "d' = write_result o1 state error r d" by auto
  have own: "own_op n d o1" by (rule joined_own [OF x assms(2)])
  have "isolated {n} d d'"
    unfolding d' write_result_def using isolated_op_change [OF own, of "op_with_result state error r"
        "target_with_result state error r" "bulk_target_with_result state error r"]
    by (simp add: Let_def keeps_links_def op_with_result_def target_with_result_def bulk_target_with_result_def)
  then show ?thesis by (simp add: d' write_result_def Let_def target_set_def bulk_target_set_def)
qed simp

section \<open>Requests\<close>

lemma common_agent: "ing_common (hook_request n m field v) fs = Inr (raw, a, k) \<Longrightarrow> a = n"
  by (auto simp: ing_common_def hook_request_def ing_obj_def ing_text_def result_simps)

lemma events_isolated:
  assumes "event_ingestion_hook (frappe_ingestion rt) n m es now d = Inr (c, d')" "route_ok d"
  shows "isolated {n} d d' \<and> route_ok d'"
proof -
  have i: "ingest_events (frappe_ingestion rt) (hook_request n m ''events'' (JList es)) now d = Inr (c, d')"
    using assms(1) by (simp add: event_ingestion_hook_def)
  have "d' = d \<or> (\<exists>m k ps c. fi_append rt n m k ps d = Inr (c, d'))"
    using i unfolding ingest_events_def bindE_eq_Inr
    by (auto simp: bindE_eq_Inr frappe_ingestion_def dest!: common_agent split: if_splits)
  then have k: "isolated {n} d d' \<and> agents d' = agents d \<and> benches d' = benches d \<and> sites d' = sites d"
    using append_isolated assms(2) by fastforce
  have "ingest_ok d'" using agent_results.events_keep [OF _ i] assms(2) by (simp add: route_ok_def)
  then show ?thesis using k inventory_ok_same [of d' d] assms(2) by (simp add: route_ok_def)
qed

lemma result_isolated:
  assumes "result_ingestion_hook (frappe_ingestion rt) n m kvs now d = Inr d'" "route_ok d"
  shows "isolated {n} d d' \<and> route_ok d'"
proof -
  obtain r where i: "ingest_result (frappe_ingestion rt) (hook_request n m ''result'' (JObj kvs)) now d = Inr (r, d')"
    using assms(1) by (auto simp: result_ingestion_hook_def bindE_eq_Inr)
  obtain raw a k ex res where c: "ing_common (hook_request n m ''result'' (JObj kvs))
        [''protocol_version'', ''agent_id'', ''audience'', ''operation_id'', ''result''] = Inr (raw, a, k)"
    and acc: "accept_result (frappe_ingestion rt) a k ex res d = Inr (r, d')"
    using i unfolding ingest_result_def bindE_eq_Inr case_prod_beta by (metis prod.collapse)
  have "d' = d \<or> (\<exists>h. fi_commit n k h r d = Inr d')"
    using accept_result_cases [OF acc] common_agent [OF c] by (auto simp: frappe_ingestion_def)
  then have s: "isolated {n} d d' \<and> agents d' = agents d \<and> benches d' = benches d \<and> sites d' = sites d"
    using commit_isolated assms(2) by fastforce
  have "ingest_ok d'" using agent_results.result_keeps [OF _ i] assms(2) by (simp add: route_ok_def)
  then show ?thesis using s inventory_ok_same [of d' d] assms(2) by (simp add: route_ok_def)
qed

lemma heartbeat_isolated_step:
  assumes "inventory_hook n state now d = Inr d'" "route_ok d" "texts utf8_ok (JObj state)"
  shows "isolated {n} d d' \<and> route_ok d'"
proof -
  obtain delta where r: "reconcile_inventory frappe_inventory n (JObj state) (Aware now) d = Inr (delta, d')"
    using assms(1) by (auto simp: inventory_hook_def bindE_eq_Inr)
  have ok: "inventory_ok d" "ingest_ok d" using assms(2) by (simp_all add: route_ok_def)
  have k: "others_kept n d d'" "inventory_ok d'" by (rule heartbeat_effect [OF r ok(1) assms(3)], assumption)+
  have "ingest_ok d'" using ingest_ok_same [of d' d] k(1) ok(2) unfolding others_kept_def
    by (metis db.ext_inject db.surjective db.update_convs(1,2,3))
  then show ?thesis using isolated_others [OF k(1)] k(2) by (simp add: route_ok_def)
qed

lemma authenticated_agent: "authenticated n body peer now d = Inr a \<Longrightarrow> a = n \<and> py_eq (jget body ''agent_id'') (JStr n)
    \<and> py_eq (jget body ''audience'') (JStr audience)"
  by (auto simp: authenticated_def validate_common_def result_simps)

lemma callback_isolated:
  assumes "route_callback wide rt now r settings n raw peer d = Inr (payload, d')" "route_ok d"
  shows "isolated {n} d d' \<and> route_ok d'"
proof (cases r)
  case RNegotiate
  then show ?thesis using assms by (auto simp: route_callback_def bindE_eq_Inr)
next
  case RHeartbeat
  obtain body a where b: "parse_exact_json (RawBytes raw) heartbeat_fields max_request_bytes = Inr body"
    "authenticated n body peer now d = Inr a"
    and c: "(case jget body ''state'' of
       JObj state \<Rightarrow>
         bindE (record_heartbeat state) (\<lambda>_.
         bindE (inventory_hook a state now d) (\<lambda>d'.
         bindE (timestamp (Aware now)) (\<lambda>t.
         Inr (JObj [(''accepted'', JBool True), (''server_time'', JStr t)], d'))))
     | _ \<Rightarrow> Inl (request_error ''invalid_heartbeat_state'')) = Inr (payload, d')"
    using assms(1) RHeartbeat unfolding route_callback_def route.case heartbeat_def bindE_eq_Inr
    by (auto simp only: route.case bindE_eq_Inr)
  obtain state where s: "jget body ''state'' = JObj state" "inventory_hook n state now d = Inr d'"
    using c authenticated_agent [OF b(2)] by (auto simp: bindE_eq_Inr split: json.splits)
  have "texts utf8_ok (JObj state)" using texts_jget [OF parsed_texts [OF b(1)], of "''state''"] s(1) by simp
  then show ?thesis by (rule heartbeat_isolated_step [OF s(2) assms(2)])
next
  case RPoll
  obtain body a x where b: "authenticated n body peer now d = Inr a"
    and l: "route_lease wide rt settings now a d = Inr (x, d')"
    using assms(1) RPoll unfolding route_callback_def route.case poll_commands_def bindE_eq_Inr
    by (auto simp: bindE_eq_Inr)
  show ?thesis using l authenticated_agent [OF b] lease_isolated [OF _ assms(2)]
    by (auto simp: route_lease_def bindE_eq_Inr)
next
  case REvents
  obtain body a m es c where b: "authenticated n body peer now d = Inr a"
    and l: "event_ingestion_hook (frappe_ingestion rt) a m es (Aware now) d = Inr (c, d')"
    using assms(1) REvents unfolding route_callback_def route.case submit_events_def bindE_eq_Inr
    by (auto simp: bindE_eq_Inr)
  show ?thesis using events_isolated [OF l assms(2)] authenticated_agent [OF b] by simp
next
  case RResult
  obtain body a m where b: "authenticated n body peer now d = Inr a"
    and c: "(case jget body ''result'' of
       JObj result \<Rightarrow>
         bindE (require (m = py_lower (str_of (jget body ''operation_id''))) (request_error ''invalid_result'')) (\<lambda>_.
         bindE (check_reported_result result) (\<lambda>_.
         bindE (result_ingestion_hook (frappe_ingestion rt) a m result (Aware now) d) (\<lambda>d'.
         Inr (JObj [(''accepted'', JBool True)], d'))))
     | _ \<Rightarrow> Inl (request_error ''invalid_result'')) = Inr (payload, d')"
    using assms(1) RResult unfolding route_callback_def route.case submit_result_def bindE_eq_Inr
    by (auto simp only: route.case bindE_eq_Inr)
  obtain kvs where l: "result_ingestion_hook (frappe_ingestion rt) a m kvs (Aware now) d = Inr d'"
    using c by (auto simp: bindE_eq_Inr split: json.splits)
  show ?thesis using result_isolated [OF l assms(2)] authenticated_agent [OF b] by simp
qed

lemma counter_route_ok:
  assumes "route_ok d" shows "route_ok (agent_set m (\<lambda>x. x\<lparr>sa_last_signed_ns := v\<rparr>) d)"
proof -
  let ?d = "agent_set m (\<lambda>x. x\<lparr>sa_last_signed_ns := v\<rparr>) d"
  have p: "places_ok ?d" using assms agent_set_places by (simp add: route_ok_def inventory_ok_def)
  have c: "current_inventory k ?d = current_inventory k d" for k
    by (cases "find_agent k d") (auto simp: current_inventory_def find_agent_set)
  have o1: "owns k s ?d = owns k s d" for k s by (simp add: owns_def agent_set_def)
  have "stored_owned ?d"
    using assms unfolding route_ok_def inventory_ok_def stored_owned_def c o1
    by (fastforce simp: agent_set_def set_rows_in)
  then show ?thesis using p assms ingest_ok_same [of ?d d] by (simp add: route_ok_def inventory_ok_def agent_set_def)
qed

lemma verify_isolated:
  assumes "verify_request verify now_ns rq action d = Inr (peer, n, d1)" "route_ok d"
  shows "isolated {n} d d1 \<and> route_ok d1"
proof -
  obtain hs a where a: "find_agent n d = Some a"
    and d1: "d1 = agent_set (sa_name a) (\<lambda>x. x\<lparr>sa_last_signed_ns := Some (header hs ''X-Frappe-Agent-Sequence'')\<rparr>) d"
    by (rule verify_request_ok [OF assms(1)])
  have "sa_name a = n" using find_agent_ok [OF _ a] assms(2) by (simp add: route_ok_def inventory_ok_def)
  then show ?thesis using counter_route_ok [OF assms(2)] isolated_agent_set by (simp add: d1)
qed

lemma answer_cases:
  "answer durable d r = (resp, d') \<Longrightarrow> d' = d \<or> (\<exists>payload. r = Inr (payload, d'))"
  by (auto simp: answer_def split: sum.splits if_splits prod.splits)

lemma route_isolated:
  assumes "agent_route verify cfg wide rt now_ns now r rq d = (resp, d')" "route_ok d"
  shows "route_ok d' \<and> (d' = d \<or> (\<exists>peer n d1. verify_request verify now_ns rq (route_action r) d = Inr (peer, n, d1)
    \<and> isolated {n} d d'))"
proof (cases "verify_request verify now_ns rq (route_action r) d")
  case (Inl e)
  then show ?thesis using assms by (simp add: agent_route_def route_dispatch_def)
next
  case (Inr x)
  obtain peer n d1 where x: "x = (peer, n, d1)" by (cases x) auto
  note v = verify_isolated [OF Inr [unfolded x] assms(2)]
  have "answer (r = RPoll) d1 (bindE (request_body rq max_request_bytes) (\<lambda>raw.
      bindE (components cfg) (\<lambda>settings. route_callback wide rt now r settings n raw peer d1))) = (resp, d')"
    using assms(1) Inr x by (simp add: agent_route_def route_dispatch_def)
  from answer_cases [OF this] have "d' = d1 \<or> (\<exists>settings raw payload. route_callback wide rt now r settings n raw peer d1 = Inr (payload, d'))"
    by (auto simp: bindE_eq_Inr)
  then have "isolated {n} d d' \<and> route_ok d'" using v callback_isolated isolated_trans by blast
  then show ?thesis using Inr x by blast
qed

text \<open>What a request that changed more than a counter was.\<close>

definition route_fields :: "route \<Rightarrow> string list" where
  "route_fields r =
     (case r of RNegotiate \<Rightarrow> negotiation_fields | RHeartbeat \<Rightarrow> heartbeat_fields | RPoll \<Rightarrow> poll_fields
      | REvents \<Rightarrow> batch_fields | RResult \<Rightarrow> result_fields)"

definition bound_body :: "route \<Rightarrow> http_request \<Rightarrow> string \<Rightarrow> bool" where
  "bound_body r rq n \<longleftrightarrow>
     rq_method rq = ''POST'' \<and> rq_mimetype rq = ''application/json'' \<and> length (rq_body rq) \<le> max_request_bytes
     \<and> (\<exists>kvs. decode_body (RawBytes (rq_body rq)) max_request_bytes = Inr (JObj kvs) \<and> jkeys kvs = set (route_fields r)
          \<and> jget kvs ''agent_id'' = JStr n \<and> jget kvs ''audience'' = JStr audience)"

lemma callback_body:
  assumes "route_callback wide rt now r settings n raw peer d = Inr (payload, d')" "d' \<noteq> d"
  shows "\<exists>kvs. decode_body (RawBytes raw) max_request_bytes = Inr (JObj kvs) \<and> jkeys kvs = set (route_fields r)
    \<and> jget kvs ''agent_id'' = JStr n \<and> jget kvs ''audience'' = JStr audience"
proof -
  have "\<exists>body a. parse_exact_json (RawBytes raw) (route_fields r) max_request_bytes = Inr body \<and> authenticated n body peer now d = Inr a"
    using assms by (cases r) (auto simp: route_callback_def route_fields_def heartbeat_def poll_commands_def submit_events_def
        submit_result_def bindE_eq_Inr [of "parse_exact_json raw fs l" for raw fs l] bindE_eq_Inr [of "authenticated n b p t d" for n b p t d]
        bindE_eq_Inr [of "negotiate_protocol n r p t d" for n r p t d])
  then show ?thesis using parse_exact_ok authenticated_agent by (metis py_eq_JStr)
qed

lemma request_body_ok: "request_body rq limit = Inr raw \<Longrightarrow>
    raw = rq_body rq \<and> rq_method rq = ''POST'' \<and> rq_mimetype rq = ''application/json'' \<and> length (rq_body rq) \<le> limit"
  by (auto simp: request_body_def result_simps)

text \<open>Any number of requests of any kind, signed by agents in \<open>N\<close> or by nobody.\<close>

inductive route_run :: "signature_check \<Rightarrow> string set \<Rightarrow> db \<Rightarrow> db \<Rightarrow> bool" for verify N where
  start: "route_run verify N d d"
| request: "route_run verify N d d1 \<Longrightarrow> agent_route verify cfg wide rt now_ns now r rq d1 = (resp, d2) \<Longrightarrow>
    (\<And>peer n d'. verify_request verify now_ns rq (route_action r) d1 = Inr (peer, n, d') \<Longrightarrow> n \<in> N) \<Longrightarrow>
    route_run verify N d d2"

section \<open>Claims\<close>

text \<open>
  C28: a request that fails is answered with a code and changes at most the counter of the agent that
  signed it; the exception is a poll whose leased command cannot be written as an answer, since the
  lease is committed first. More than the counter changes only by a JSON POST of at most 1 MiB with the
  exact fields of the route, which names the agent that signed it and this controller.
\<close>

theorem request_bound:
  assumes "agent_route verify cfg wide rt now_ns now r rq d = (resp, d')"
  shows "(rs_status resp \<noteq> 200 \<longrightarrow>
      (\<exists>e. rs_status resp = snd (mapped_error e) \<and> rs_body resp = json_dumps (error_payload (fst (mapped_error e))))
      \<and> (d' = d \<or> (\<exists>peer n. verify_request verify now_ns rq (route_action r) d = Inr (peer, n, d'))
         \<or> r = RPoll \<and> (\<exists>settings n raw peer d1 payload. route_callback wide rt now r settings n raw peer d1 = Inr (payload, d')
             \<and> \<not> is_ok (json_response payload 200))))
    \<and> (d' = d \<or> (\<exists>peer n d1. verify_request verify now_ns rq (route_action r) d = Inr (peer, n, d1)
         \<and> (d' = d1 \<or> bound_body r rq n)))"
proof (cases "verify_request verify now_ns rq (route_action r) d")
  case (Inl e)
  then show ?thesis using assms by (auto simp: agent_route_def route_dispatch_def error_response_def case_prod_beta Let_def)
next
  case (Inr x)
  obtain peer n d1 where x: "x = (peer, n, d1)" by (cases x) auto
  define res where "res = bindE (request_body rq max_request_bytes) (\<lambda>raw.
      bindE (components cfg) (\<lambda>settings. route_callback wide rt now r settings n raw peer d1))"
  have a: "answer (r = RPoll) d1 res = (resp, d')"
    using assms Inr x by (simp add: agent_route_def route_dispatch_def res_def)
  have err: "\<exists>e'. rs_status (error_response e) = snd (mapped_error e')
      \<and> rs_body (error_response e) = json_dumps (error_payload (fst (mapped_error e')))" for e
    by (rule exI [of _ e]) (simp add: error_response_def case_prod_beta Let_def)
  have cb: "\<exists>settings raw. route_callback wide rt now r settings n raw peer d1 = Inr (payload, d2)
      \<and> (d2 = d1 \<or> bound_body r rq n)" if "res = Inr (payload, d2)" for payload d2
  proof -
    obtain raw settings where c: "request_body rq max_request_bytes = Inr raw"
      "route_callback wide rt now r settings n raw peer d1 = Inr (payload, d2)"
      using \<open>res = Inr (payload, d2)\<close> by (auto simp: res_def bindE_eq_Inr)
    then show ?thesis using request_body_ok [OF c(1)] callback_body [OF c(2)] unfolding bound_body_def by metis
  qed
  show ?thesis
  proof (cases res)
    case (Inl e)
    then show ?thesis using a Inr x err [of e] by (auto simp: answer_def)
  next
    case res: (Inr y)
    obtain payload d2 where y: "y = (payload, d2)" by (cases y)
    note c = cb [OF res [unfolded y]]
    show ?thesis
    proof (cases "json_response payload 200")
      case (Inl e)
      then have r': "resp = error_response e" "d' = (if r = RPoll then d2 else d1)" using a res y by (auto simp: answer_def)
      have "\<not> is_ok (json_response payload 200)" using Inl by (simp add: is_ok_def)
      then show ?thesis using c Inr x err [of e] unfolding r' by (cases "r = RPoll") auto
    next
      case (Inr resp')
      then have "resp = resp'" "d' = d2" using a res y by (auto simp: answer_def)
      moreover have "rs_status resp' = 200" using Inr by (auto simp: json_response_def bindE_eq_Inr)
      ultimately show ?thesis using c \<open>verify_request verify now_ns rq (route_action r) d = Inr x\<close> x by auto
    qed
  qed
qed

text \<open>
  C29: agents cannot reach each other. Whatever requests are made, at any time, if all that are accepted
  are signed by agents in \<open>N\<close>, then no agent, bench, site, operation, target, event or linked bulk target
  that is not of an agent in \<open>N\<close> is changed, removed or added, and no other table changes; every
  operation stays whose it was, and the invariants of the inventory and of the reports hold.
\<close>

theorem agents_isolated:
  assumes "route_run verify N d d'" and "inventory_ok d" and "ingest_ok d"
  shows "inventory_ok d' \<and> ingest_ok d' \<and> isolated N d d'"
proof -
  have "route_ok d \<Longrightarrow> route_ok d' \<and> isolated N d d'"
    using assms(1)
  proof (induction rule: route_run.induct)
    case (request d d1 cfg wide rt now_ns now r rq resp d2)
    then have "route_ok d1" "isolated N d d1" by blast+
    moreover from route_isolated [OF request.hyps(2) this(1)] have "route_ok d2 \<and> isolated N d1 d2"
      using isolated_mono request.hyps(3) by (metis empty_subsetI insert_subset isolated_refl)
    ultimately show ?case using isolated_trans by blast
  qed simp
  then show ?thesis using assms(2,3) by (simp add: route_ok_def)
qed

section \<open>An agent polls\<close>

definition demo_config :: route_config where
  "demo_config = \<lparr>rc_conf = (\<lambda>_. None), rc_pepper_file = ''pepper'', rc_read = (\<lambda>_. Inr demo_pepper)\<rparr>"

definition demo_poll :: json where
  "demo_poll = JObj [(''agent_id'', JStr ''agent-1''), (''audience'', JStr ''frappe-controller''),
     (''protocol_version'', JStr ''1.0'')]"

lemma demo_poll_parsed: "parse_exact_json (RawBytes (json_dumps demo_poll)) poll_fields max_request_bytes
    = Inr [(''agent_id'', JStr ''agent-1''), (''audience'', JStr ''frappe-controller''), (''protocol_version'', JStr ''1.0'')]"
proof -
  have a: "ascii (json_dumps demo_poll)" by (rule ascii_dumps) (simp add: demo_poll_def ascii_def)
  have k: "keeps strict_object" by (rule decode_body_keeps)
  have l: "json_loads_with strict_object (json_dumps demo_poll) = Inr demo_poll"
    using loads_dumps [OF k, of demo_poll] by (simp add: demo_poll_def del: json_dumps.simps)
  have n: "length (json_dumps demo_poll) \<le> max_request_bytes"
    by (simp add: demo_poll_def max_request_bytes_def quote_str_def escape_char_def)
  have u: "decodeE (json_dumps demo_poll) = Inr (json_dumps demo_poll)" "encodeE (json_dumps demo_poll) = Inr (json_dumps demo_poll)"
    using ascii_utf8_ok [OF a] ascii_no_surrogate [OF a] by (simp_all add: decodeE_eq_Inr utf8_ok_def encodeE_eq_Inr)
  have c: "canonical_json demo_poll = Inr (json_dumps demo_poll)"
    by (simp add: canonical_json_eq demo_poll_def del: json_dumps.simps)
  have v: "validate_json False False demo_poll = Inr ()" by (simp add: demo_poll_def)
  show ?thesis
    unfolding parse_exact_json_def decode_body_def
    by (simp add: n u l catchE_def del: json_dumps.simps)
      (simp add: demo_poll_def poll_fields_def insert_commute c [unfolded demo_poll_def] u(2) [unfolded demo_poll_def]
        n [unfolded demo_poll_def] v [unfolded demo_poll_def] del: json_dumps.simps)
qed

lemma demo_components: "components demo_config = Inr (300, 30)"
proof -
  have "rev (dropWhile (\<lambda>c. c = CHR 0x0A \<or> c = CHR 0x0D) (rev demo_pepper)) = demo_pepper" by (simp add: demo_pepper_def)
  moreover have "check_pepper demo_pepper = Inr ()" by (simp add: check_pepper_def demo_pepper_def)
  ultimately show ?thesis
    by (simp add: components_def configuration_int_def demo_config_def from_environment_def Let_def check_timing_def
        check_offline_after_def)
qed

lemma signing_route_ok: "inventory_ok signing_db" "ingest_ok signing_db"
  by (simp_all add: inventory_ok_def places_ok_def stored_owned_def current_inventory_def find_agent_def signing_db_def
      signing_agent_def fresh_db_def empty_db_def demo_agent_def demo_bench_def ingest_ok_def events_ok_def)

lemma demo_poll_answered:
  "\<exists>d'. agent_route demo_check demo_config no_wide demo_runtime 1000000000000 0 RPoll (demo_http (json_dumps demo_poll)) signing_db
      = (\<lparr>rs_status = 200, rs_body = ''{\"command\":null}'', rs_headers = response_headers\<rparr>, d') \<and> d' \<noteq> signing_db"
proof -
  have b: "length (json_dumps demo_poll) \<le> max_body"
    by (simp add: demo_poll_def max_body_def quote_str_def escape_char_def)
  obtain peer d1 where v: "verify_request demo_check 1000000000000 (demo_http (json_dumps demo_poll)) ''commands:poll'' signing_db
      = Inr (peer, ''agent-1'', d1)"
    using demo_signed [OF signing_agent_found(1) b, of "''commands:poll''"] by auto
  obtain hs a where a: "find_agent ''agent-1'' signing_db = Some a" "signed_peer ''agent-1'' = Inr peer"
    and d1: "d1 = agent_set (sa_name a) (\<lambda>x. x\<lparr>sa_last_signed_ns := Some (header hs ''X-Frappe-Agent-Sequence'')\<rparr>) signing_db"
    by (rule verify_request_ok [OF v])
  have sa: "a = signing_agent" using a(1) signing_agent_found(1) by simp
  define t where "t = header hs ''X-Frappe-Agent-Sequence''"
  have t: "agents d1 = [signing_agent\<lparr>sa_last_signed_ns := Some t\<rparr>]" "operations d1 = []"
    by (simp_all add: d1 sa agent_set_def set_rows_def signing_db_def fresh_db_def empty_db_def t_def)
  have p: "tp_agent_id peer = ''agent-1''" "tp_verification peer = ''ed25519_signature''"
    using a(2) by (auto simp: signed_peer_def check_peer_def bindE_eq_Inr)
  have f: "find_agent ''agent-1'' d1 = Some (signing_agent\<lparr>sa_last_signed_ns := Some t\<rparr>)"
    by (simp add: find_agent_def t signing_agent_def demo_agent_def)
  have au: "authenticate_peer peer ''agent-1'' (JStr ''agent-1'') (Aware 0) d1 = Inr ()"
    by (simp add: authenticate_peer_def p f signing_agent_def demo_agent_def del: replicate.simps)
  have id: "is_agent_id ''agent-1''" by (simp add: is_agent_id_def string_defs)
  obtain ops where ops: "enabled_operations_for_agent no_wide demo_runtime d1 ''agent-1'' = Inr ops"
    by (simp add: enabled_operations_for_agent_def agent_environment_def get_row_def t signing_agent_def demo_agent_def
        environment_or_none_def feature_environments_def FeatureFlags.demo_config)
  have l: "route_lease no_wide demo_runtime (300, 30) 0 ''agent-1'' d1 = Inr (None, d1)"
    by (simp add: route_lease_def ops lease_command_def candidates_def t Let_def)
  have r: "json_response (JObj [(''command'', JNull)]) 200
      = Inr \<lparr>rs_status = 200, rs_body = ''{\"command\":null}'', rs_headers = response_headers\<rparr>"
    by (simp add: json_response_def canonical_json_def dumpsE_def quote_str_def escape_char_def encodeE_def)
  have q: "request_body (demo_http (json_dumps demo_poll)) max_request_bytes = Inr (json_dumps demo_poll)"
    using b by (simp add: request_body_def demo_http_def max_body_def max_request_bytes_def del: json_dumps.simps)
  have "agent_route demo_check demo_config no_wide demo_runtime 1000000000000 0 RPoll (demo_http (json_dumps demo_poll)) signing_db
      = (\<lparr>rs_status = 200, rs_body = ''{\"command\":null}'', rs_headers = response_headers\<rparr>, d1)"
    by (simp add: agent_route_def route_dispatch_def route_action_def v q demo_components route_callback_def poll_commands_def
        demo_poll_parsed authenticated_def validate_common_def id au l answer_def r protocol_version_def audience_def)
  moreover have "d1 \<noteq> signing_db" using t by (auto simp: signing_db_def signing_agent_def demo_agent_def)
  ultimately show ?thesis by blast
qed

theorem request_bound_witness:
  "\<exists>resp d'. agent_route demo_check demo_config no_wide demo_runtime 1000000000000 0 RPoll (demo_http (json_dumps demo_poll)) signing_db
      = (resp, d') \<and> (\<exists>peer n d1. verify_request demo_check 1000000000000 (demo_http (json_dumps demo_poll)) (route_action RPoll) signing_db
      = Inr (peer, n, d1))"
proof -
  obtain resp d' where r: "agent_route demo_check demo_config no_wide demo_runtime 1000000000000 0 RPoll (demo_http (json_dumps demo_poll)) signing_db
      = (resp, d')" "d' \<noteq> signing_db" using demo_poll_answered by blast
  show ?thesis using request_bound [OF r(1)] r by blast
qed

theorem agents_isolated_witness:
  "\<exists>d'. route_run demo_check {''agent-1''} signing_db d' \<and> d' \<noteq> signing_db \<and> inventory_ok d' \<and> isolated {''agent-1''} signing_db d'"
proof -
  obtain resp d' where r: "agent_route demo_check demo_config no_wide demo_runtime 1000000000000 0 RPoll (demo_http (json_dumps demo_poll)) signing_db
      = (resp, d')" "d' \<noteq> signing_db" using demo_poll_answered by blast
  have "route_run demo_check {''agent-1''} signing_db d'"
  proof (rule route_run.request [OF route_run.start r(1)])
    fix peer n d1
    assume "verify_request demo_check 1000000000000 (demo_http (json_dumps demo_poll)) (route_action RPoll) signing_db = Inr (peer, n, d1)"
    then obtain hs where "rq_headers (demo_http (json_dumps demo_poll)) = Some hs" "n = header hs ''X-Frappe-Agent-ID''"
      using verify_request_ok by metis
    then show "n \<in> {''agent-1''}" by (auto simp: demo_http_def header_def demo_headers_def)
  qed
  from agents_isolated [OF this signing_route_ok] show ?thesis using \<open>route_run demo_check {''agent-1''} signing_db d'\<close> r(2) by blast
qed

end
