(* ===== verification/ServerAgents.thy ===== *)
theory ServerAgents
  imports AgentAuth AgentIngestion
begin

text \<open>
  The \<open>Server Agent\<close> document (\<open>doctype/server_agent/server_agent.py\<close>), the reviewed setup defaults
  (\<open>setup_profiles.py\<close>) and the readiness checks of an installation (\<open>setup_readiness.py\<close>). The document is
  where the upgrade of an agent is kept: every save checks that an active upgrade has drained the agent and
  says what is deployed, that an ended one was verified, and that its state changes along the table. The
  first argument of the checks is the flag \<open>controller_service\<close> of the services that may change them.
\<close>

section \<open>Setup\<close>

definition profiles :: "(string \<times> string \<times> string list \<times> string list) list" where
  "profiles =
     [(''inventory'', ''Inventory and verification'', [''site.verify''], [''frappe'']),
      (''backup'', ''Backup and verification'', [''site.verify'', ''site.backup''], [''frappe'']),
      (''customer_erp'', ''Customer ERP creation'', [''site.verify'', ''site.backup'', ''site.create_blank''],
         [''frappe'', ''erpnext'', ''mos_pro''])]"

definition required_apps :: "string option \<Rightarrow> string list result" where
  "required_apps value =
     bindE (json_loads (if truthy value then or_empty value else json_dumps (JList [JStr ''frappe'']))) (\<lambda>v.
     of_option (ValueError ''Required apps must be unique app names starting with frappe'')
       (case v of
          JList xs \<Rightarrow> if 1 \<le> length xs \<and> length xs \<le> 32 \<and> hd xs = JStr ''frappe''
                        \<and> list_all (\<lambda>x. is_str x \<and> AgentIngestion.app_name (str_of x)) xs \<and> distinct (map str_of xs)
                      then Some (map str_of xs) else None
        | _ \<Rightarrow> None))"

text \<open>Datetime columns are naive, and read as UTC. The limits are seconds.\<close>

definition recent :: "int \<Rightarrow> int option \<Rightarrow> int \<Rightarrow> bool" where
  "recent now value limit = (case value of None \<Rightarrow> False | Some t \<Rightarrow> 0 \<le> now - t \<and> now - t \<le> seconds limit)"

text \<open>\<open>dict(value)\<close> of a JSON value: an object, or a list of pairs, the later ones first to be found. A pair
  may also be a string of two code points or the keys of an object; a list or an object is no key.\<close>

definition json_pair :: "json \<Rightarrow> (json \<times> json) option" where
  "json_pair v =
     (case v of
        JList [k, x] \<Rightarrow> (case k of JList _ \<Rightarrow> None | JObj _ \<Rightarrow> None | _ \<Rightarrow> Some (k, x))
      | JObj [(k, _), (l, _)] \<Rightarrow> Some (JStr k, JStr l)
      | JStr s \<Rightarrow> (case chunks s of [x, y] \<Rightarrow> Some (JStr x, JStr y) | _ \<Rightarrow> None)
      | _ \<Rightarrow> None)"

definition dict_of :: "json \<Rightarrow> (json \<times> json) list option" where
  "dict_of v =
     (case v of
        JObj kvs \<Rightarrow> Some (map (\<lambda>(k, x). (JStr k, x)) kvs)
      | JList xs \<Rightarrow> if list_all (\<lambda>x. json_pair x \<noteq> None) xs then Some (rev (map (the \<circ> json_pair) xs)) else None
      | JStr [] \<Rightarrow> Some []
      | _ \<Rightarrow> None)"

definition apps_present :: "string list \<Rightarrow> json \<Rightarrow> bool" where
  "apps_present apps installed =
     (case dict_of installed of
        None \<Rightarrow> False
      | Some available \<Rightarrow>
          list_all (\<lambda>app. case map_of available (JStr app) of
            Some (JStr v) \<Rightarrow> v \<noteq> [] \<and> v \<noteq> ''unknown'' | _ \<Rightarrow> False) apps)"

definition required_apps_check :: "string list \<Rightarrow> bench_row \<Rightarrow> bool" where
  "required_apps_check apps b =
     (case (json_loads (json_column (be_installed_apps b)), json_loads (json_column (be_required_apps b))) of
        (Inr installed, Inr needed) \<Rightarrow> apps \<noteq> [] \<and> needed = JList (map JStr apps) \<and> apps_present apps installed
      | _ \<Rightarrow> False)"

record readiness =
  rd_agent_ready :: bool
  rd_signed_heartbeat :: bool
  rd_agent_inventory :: bool
  rd_bench_inventory :: bool
  rd_required_apps :: bool

definition installation_checks ::
  "agent_row option \<Rightarrow> bench_row option \<Rightarrow> string \<Rightarrow> string list \<Rightarrow> int \<Rightarrow> readiness" where
  "installation_checks agent bench agent_id apps now =
     \<lparr>rd_agent_ready = (case agent of None \<Rightarrow> False
        | Some a \<Rightarrow> sa_enabled a \<and> sa_status a = ''Online'' \<and> sa_reported_status a = Some ''ready'' \<and> \<not> sa_drain_requested a),
      rd_signed_heartbeat = (case agent of None \<Rightarrow> False | Some a \<Rightarrow> recent now (sa_last_seen a) 120),
      rd_agent_inventory = (case agent of None \<Rightarrow> False
        | Some a \<Rightarrow> truthy (sa_inventory_digest a) \<and> recent now (sa_inventory_at a) 300),
      rd_bench_inventory = (case bench of None \<Rightarrow> False
        | Some b \<Rightarrow> be_enabled b \<and> be_server_agent b = agent_id \<and> be_health b = ''healthy'' \<and> recent now (be_inventory_at b) 300),
      rd_required_apps = (case bench of None \<Rightarrow> False
        | Some b \<Rightarrow> be_server_agent b = agent_id \<and> required_apps_check apps b)\<rparr>"

section \<open>The document\<close>

definition server_agent_id :: "string \<Rightarrow> bool" where
  "server_agent_id s \<longleftrightarrow>
     head_tail (\<lambda>c. is_lower c \<or> is_digit c) (\<lambda>c. is_lower c \<or> is_digit c \<or> c \<in> set ''._-'') 127 s"

definition image_version :: "string \<Rightarrow> bool" where
  "image_version s \<longleftrightarrow> head_tail is_alnum (\<lambda>c. is_alnum c \<or> c \<in> set ''._+-'') 63 s"

definition failures :: "string list" where
  "failures = [''deployment_failed'', ''health_timeout'', ''operator_requested'', ''version_mismatch'']"

text \<open>\<open>str(ipaddress.IPv4Address(value))\<close>: four decimal octets without leading zeros.\<close>

definition octet :: "string \<Rightarrow> nat option" where
  "octet s =
     (if s \<noteq> [] \<and> length s \<le> 3 \<and> list_all is_digit s \<and> (s = ''0'' \<or> hd s \<noteq> CHR ''0'') \<and> digits_val s \<le> 255
      then Some (digits_val s) else None)"

definition ipv4_address :: "string \<Rightarrow> string option" where
  "ipv4_address s =
     (let parts = map octet (split_on (CHR ''.'') s) in
      if length parts = 4 \<and> None \<notin> set parts then Some (join ''.'' (map (nat_str \<circ> the) parts)) else None)"

definition upgrade_fields :: "agent_row field list" where
  "upgrade_fields =
     [(''drain_requested'', same sa_drain_requested), (''drain_requested_by'', same sa_drain_by),
      (''drain_requested_at'', same sa_drain_at), (''upgrade_state'', same sa_upgrade_state),
      (''desired_agent_version'', same sa_desired_version), (''desired_image_digest'', same sa_desired_digest),
      (''previous_agent_version'', same sa_previous_version), (''previous_image_digest'', same sa_previous_digest),
      (''observed_image_digest'', same sa_observed_digest), (''upgrade_requested_by'', same sa_upgrade_by),
      (''upgrade_requested_at'', same sa_upgrade_at), (''upgrade_deployed_at'', same sa_deployed_at),
      (''upgrade_verified_at'', same sa_verified_at), (''upgrade_failure_code'', same sa_failure_code)]"

definition upgrade_transitions :: "(string \<times> string list) list" where
  "upgrade_transitions =
     [(''none'', [''planned'']),
      (''planned'', [''draining'', ''ready_to_deploy'', ''cancelled'']),
      (''draining'', [''ready_to_deploy'', ''cancelled'']),
      (''ready_to_deploy'', [''draining'', ''verifying'', ''rollback_required'', ''cancelled'']),
      (''verifying'', [''succeeded'', ''rollback_required'']),
      (''succeeded'', [''planned'']),
      (''rollback_required'', [''rollback_verifying'']),
      (''rollback_verifying'', [''rolled_back'']),
      (''rolled_back'', [''planned'']),
      (''cancelled'', [''planned''])]"

definition stable_states :: "string list" where
  "stable_states = [''none'', ''succeeded'', ''rolled_back'', ''cancelled'']"

definition sha256_or_empty :: "string \<times> string option \<Rightarrow> unit result" where
  "sha256_or_empty x = (if truthy (snd x) then require_sha256 (snd x) (fst x) else Inr ())"

definition non_empty_strings :: "json \<Rightarrow> bool" where
  "non_empty_strings v = (case v of JList xs \<Rightarrow> list_all (\<lambda>x. is_str x \<and> str_of x \<noteq> []) xs | _ \<Rightarrow> False)"

text \<open>The checks up to \<open>if not self.enabled\<close>, of what an administrator or the enrollment writes.\<close>

definition sa_columns :: "agent_row \<Rightarrow> unit result" where
  "sa_columns a =
     bindE (require (server_agent_id (sa_agent_id a)) (invalid ''Agent ID has an invalid format'')) (\<lambda>_.
     bindE (require (sa_protocol_version a = ''1.0'' \<and> sa_audience a = ''frappe-controller'')
              (invalid ''Unsupported controller protocol identity'')) (\<lambda>_.
     bindE (if truthy (sa_public_ip a)
            then bindE (of_option (invalid ''Public IP must be a valid IPv4 address'') (ipv4_address (or_empty (sa_public_ip a))))
                   (\<lambda>ip. require (Some ip = sa_public_ip a) (invalid ''Public IP must use canonical IPv4 notation''))
            else Inr ()) (\<lambda>_.
     bindE (require_json (Some (json_column (sa_capabilities a))) ''capabilities_json'' List_shape) (\<lambda>_.
     bindE (require_json (Some (json_column (sa_site_suffixes a))) ''allowed_site_suffixes_json'' List_shape) (\<lambda>suffixes.
     bindE (require_json (Some (json_column (sa_operations a))) ''allowed_operations_json'' List_shape) (\<lambda>ops.
     bindE (require (non_empty_strings suffixes) (invalid ''Allowed site suffixes must be non-empty strings'')) (\<lambda>_.
     bindE (require (non_empty_strings ops) (invalid ''Allowed operations must be non-empty strings'')) (\<lambda>_.
     bindE (require (is_ok (required_apps (sa_setup_apps a)))
              (invalid ''Setup required apps must be unique app names starting with frappe'')) (\<lambda>_.
     bindE (eachE sha256_or_empty [(''enrollment_token_hash'', sa_token_hash a),
              (''expected_public_key_sha256'', sa_expected_key a), (''signing_public_key_ed25519'', sa_signing_key a)]) (\<lambda>_.
     require (truthy (sa_last_signed_ns a) \<longrightarrow> is_sequence (or_empty (sa_last_signed_ns a)))
       (invalid ''last_signed_request_at_ns is invalid'')))))))))))"

definition disabled_status :: "agent_row \<Rightarrow> agent_row" where
  "disabled_status a = (if sa_enabled a then a else a\<lparr>sa_status := ''Disabled''\<rparr>)"

definition upgrade_values :: "agent_row \<Rightarrow> unit result" where
  "upgrade_values a =
     bindE (eachE (\<lambda>(f, v). require (truthy v \<longrightarrow> image_version (or_empty v)) (invalid (f @ '' is invalid'')))
              [(''desired_agent_version'', sa_desired_version a), (''previous_agent_version'', sa_previous_version a)]) (\<lambda>_.
     bindE (eachE sha256_or_empty [(''desired_image_digest'', sa_desired_digest a),
              (''previous_image_digest'', sa_previous_digest a), (''observed_image_digest'', sa_observed_digest a)]) (\<lambda>_.
     require (truthy (sa_failure_code a) \<longrightarrow> or_empty (sa_failure_code a) \<in> set failures)
       (invalid ''upgrade_failure_code is invalid'')))"

definition upgrade_attributed :: "agent_row \<Rightarrow> bool" where
  "upgrade_attributed a \<longleftrightarrow>
     sa_drain_requested a \<and> truthy (sa_drain_by a) \<and> sa_drain_at a \<noteq> None
     \<and> truthy (sa_desired_version a) \<and> truthy (sa_desired_digest a)
     \<and> truthy (sa_previous_version a) \<and> truthy (sa_previous_digest a)
     \<and> truthy (sa_upgrade_by a) \<and> sa_upgrade_at a \<noteq> None"

definition terminal_identity :: "agent_row \<Rightarrow> (string \<times> string option \<times> string option) list" where
  "terminal_identity a =
     [(''succeeded'', sa_desired_version a, sa_desired_digest a),
      (''rolled_back'', sa_previous_version a, sa_previous_digest a)]"

definition upgrade_identity :: "agent_row \<Rightarrow> unit result" where
  "upgrade_identity a =
     bindE (require (sa_upgrade_state a \<notin> set stable_states \<longrightarrow> upgrade_attributed a)
              (invalid ''Active upgrade identity or drain attribution is incomplete'')) (\<lambda>_.
     bindE (require (sa_upgrade_state a = ''verifying'' \<longrightarrow>
                       sa_deployed_at a \<noteq> None \<and> sa_observed_digest a = sa_desired_digest a)
              (invalid ''Upgrade verification identity is incomplete'')) (\<lambda>_.
     bindE (require (sa_upgrade_state a = ''rollback_verifying'' \<longrightarrow>
                       sa_deployed_at a \<noteq> None \<and> sa_observed_digest a = sa_previous_digest a)
              (invalid ''Rollback verification identity is incomplete'')) (\<lambda>_.
     bindE (require (case map_of (terminal_identity a) (sa_upgrade_state a) of
                       None \<Rightarrow> True
                     | Some (version, digest) \<Rightarrow> \<not> sa_drain_requested a \<and> sa_verified_at a \<noteq> None
                         \<and> sa_agent_version a = version \<and> sa_observed_digest a = digest)
              (invalid ''Terminal upgrade verification is incomplete'')) (\<lambda>_.
     require (sa_upgrade_state a = ''cancelled'' \<longrightarrow>
                \<not> sa_drain_requested a \<and> sa_deployed_at a = None \<and> sa_failure_code a = Some ''operator_requested'')
       (invalid ''Cancelled upgrade identity is invalid'')))))"

definition restricted :: exn where
  "restricted = PermissionError ''Upgrade fields are restricted to the controller service''"

definition no_upgrade :: "agent_row \<Rightarrow> bool" where
  "no_upgrade a \<longleftrightarrow>
     sa_upgrade_state a = ''none'' \<and> \<not> sa_drain_requested a
     \<and> list_all (\<lambda>v. \<not> truthy v) [sa_drain_by a, sa_desired_version a, sa_desired_digest a, sa_previous_version a,
          sa_previous_digest a, sa_observed_digest a, sa_upgrade_by a, sa_failure_code a]
     \<and> list_all (\<lambda>v. v = None) [sa_drain_at a, sa_upgrade_at a, sa_deployed_at a, sa_verified_at a]"

definition upgrade_change :: "bool \<Rightarrow> agent_row option \<Rightarrow> agent_row \<Rightarrow> unit result" where
  "upgrade_change service prev a =
     (case prev of
        Some p \<Rightarrow>
          bindE (require (list_all (\<lambda>(f, eq). eq p a) upgrade_fields \<or> service) restricted) (\<lambda>_.
          require (sa_upgrade_state p = sa_upgrade_state a
                   \<or> (case map_of upgrade_transitions (sa_upgrade_state p) of None \<Rightarrow> False
                      | Some ts \<Rightarrow> sa_upgrade_state a \<in> set ts))
            (invalid ''Illegal agent upgrade state transition''))
      | None \<Rightarrow> require (no_upgrade a \<or> service) restricted)"

definition sa_fields :: "agent_row field list" where
  "sa_fields = [(''agent_id'', same sa_agent_id), (''protocol_version'', same sa_protocol_version),
     (''audience'', same sa_audience)]"

text \<open>A save writes the document as \<open>validate\<close> leaves it.\<close>

definition sa_validate :: "bool \<Rightarrow> agent_row option \<Rightarrow> agent_row \<Rightarrow> agent_row result" where
  "sa_validate service prev a =
     bindE (sa_columns a) (\<lambda>_.
     let a1 = disabled_status a in
     bindE (upgrade_values a1) (\<lambda>_.
     bindE (upgrade_identity a1) (\<lambda>_.
     bindE (upgrade_change service prev a1) (\<lambda>_.
     bindE (immutable_fields sa_fields prev a1) (\<lambda>_. Inr a1)))))"

definition sa_save :: "bool \<Rightarrow> agent_row \<Rightarrow> db \<Rightarrow> db result" where
  "sa_save service a d =
     bindE (old_row sa_name (agents d) a) (\<lambda>p.
     bindE (sa_validate service (Some p) a) (\<lambda>a1.
     Inr (d\<lparr>agents := save_row sa_name a1 (agents d)\<rparr>)))"

definition sa_insert :: "bool \<Rightarrow> agent_row \<Rightarrow> db \<Rightarrow> db result" where
  "sa_insert service a d =
     bindE (sa_validate service None a) (\<lambda>a1.
     bindE (insert_row sa_name [Some \<circ> sa_agent_id] a1 (agents d)) (\<lambda>t. Inr (d\<lparr>agents := t\<rparr>)))"

definition sa_on_trash :: "'a result" where
  "sa_on_trash = prevent_delete ''Server Agent''"

interpretation upgrade_lifecycle: lifecycle upgrade_transitions "[]"
  by unfold_locales (auto simp: upgrade_transitions_def split: if_splits)

end
