(* ===== verification/Upgrades.thy ===== *)
theory Upgrades
  imports AgentIsolation ServerAgents
begin

text \<open>
  The upgrade of an agent (\<open>api/upgrades.py\<close>, \<open>api/agent_upgrade_routes.py\<close>): an administrator requests it,
  which drains the agent; once nothing is leased or running the new image is deployed and confirmed, by the
  administrator or by the agent's own helper, and verified by a healthy heartbeat of the expected version;
  what fails is rolled back and verified the same way. Every step saves the \<open>Server Agent\<close> document, whose
  checks (\<open>ServerAgents\<close>) bind the steps together. \<open>rt_now\<close> is \<open>now_datetime()\<close>, the clock of the site.
\<close>

section \<open>Shared by both modules\<close>

definition count_ops :: "string \<Rightarrow> string \<Rightarrow> db \<Rightarrow> nat" where
  "count_ops agent state d = length (filter (\<lambda>r. op_server_agent r = agent \<and> op_state r = state) (operations d))"

definition op_counts :: "string \<Rightarrow> db \<Rightarrow> (string \<times> nat) list" where
  "op_counts agent d = map (\<lambda>s. (s, count_ops agent s d)) [''queued'', ''leased'', ''running'']"

definition has_active_operations :: "string \<Rightarrow> db \<Rightarrow> bool" where
  "has_active_operations agent d \<longleftrightarrow>
     0 < the (map_of (op_counts agent d) ''leased'') + the (map_of (op_counts agent d) ''running'')"

definition counts_json :: "(string \<times> nat) list \<Rightarrow> json" where
  "counts_json cs = JObj (map (\<lambda>(s, n). (s, JInt (int n))) cs)"

definition text_or_null :: "string option \<Rightarrow> json" where
  "text_or_null v = (case v of None \<Rightarrow> JNull | Some s \<Rightarrow> JStr s)"

definition upgrade_save :: "agent_row \<Rightarrow> db \<Rightarrow> db result" where
  "upgrade_save a d = sa_save True a d"

section \<open>api/upgrades.py\<close>

definition upgrade_request_fields :: "string list" where
  "upgrade_request_fields = [''agent_id'', ''desired_agent_version'', ''desired_image_digest'', ''previous_image_digest'']"

definition upgrade_admin :: "runtime \<Rightarrow> string result" where
  "upgrade_admin rt =
     bindE (require (rt_user rt \<noteq> [] \<and> rt_user rt \<noteq> ''Guest'' \<and> ''Controller Admin'' \<in> set (rt_roles rt (rt_user rt)))
              (PermissionError ''Controller Admin role is required'')) (\<lambda>_. Inr (rt_user rt))"

definition upgrade_text :: "json \<Rightarrow> string \<Rightarrow> (string \<Rightarrow> bool) \<Rightarrow> string result" where
  "upgrade_text value label pattern =
     (case value of
        JStr s \<Rightarrow> if pattern s then Inr s else Inl (OperationAuthoringError (label @ '' is invalid''))
      | _ \<Rightarrow> Inl (OperationAuthoringError (label @ '' is invalid'')))"

definition upgrade_agent :: "json \<Rightarrow> db \<Rightarrow> agent_row result" where
  "upgrade_agent agent_id d =
     (case agent_id of
        JStr n \<Rightarrow>
          bindE (require (server_agent_id n) (invalid ''agent id is invalid'')) (\<lambda>_.
          of_option (DoesNotExistError ''server agent does not exist'') (get_row sa_name (agents d) n))
      | _ \<Rightarrow> Inl (invalid ''agent id is invalid''))"

definition healthy_heartbeat :: "string option \<Rightarrow> agent_row \<Rightarrow> bool" where
  "healthy_heartbeat version a \<longleftrightarrow>
     sa_status a = ''Online'' \<and> sa_reported_status a = Some ''ready'' \<and> sa_agent_version a = version
     \<and> (case (sa_deployed_at a, sa_last_seen a) of (Some t, Some seen) \<Rightarrow> t \<le> seen | _ \<Rightarrow> False)"

text \<open>\<open>parse_constant\<close> raises on the literals \<open>NaN\<close>, \<open>Infinity\<close> and \<open>-Infinity\<close>: in a text that parses, what
  is outside the strings has the letters \<open>N\<close> and \<open>I\<close> in these only.\<close>

fun bare_chars :: "bool \<Rightarrow> string \<Rightarrow> string" where
  "bare_chars quoted [] = []"
| "bare_chars False (c # cs) = (if c = CHR 0x22 then bare_chars True cs else c # bare_chars False cs)"
| "bare_chars True (c # cs) =
     (if c = CHR 0x5C then bare_chars True (drop 1 cs) else bare_chars (c \<noteq> CHR 0x22) cs)"

definition upgrade_request :: "string \<Rightarrow> (string \<times> json) list result" where
  "upgrade_request text =
     bindE (encodeE text) (\<lambda>b.
     bindE (require (length b \<le> 4096) (OperationAuthoringError ''upgrade request is invalid'')) (\<lambda>_.
     case json_loads_with (strict_hook (ValueError ''duplicate JSON key'')) text of
       Inl _ \<Rightarrow> Inl (OperationAuthoringError ''upgrade request is invalid JSON'')
     | Inr v \<Rightarrow>
         bindE (require (CHR ''N'' \<notin> set (bare_chars False text) \<and> CHR ''I'' \<notin> set (bare_chars False text))
                  (OperationAuthoringError ''upgrade request is invalid JSON'')) (\<lambda>_.
         case v of
           JObj kvs \<Rightarrow> bindE (require (jkeys kvs = set upgrade_request_fields)
                        (OperationAuthoringError ''upgrade request fields do not match the contract'')) (\<lambda>_. Inr kvs)
         | _ \<Rightarrow> Inl (OperationAuthoringError ''upgrade request fields do not match the contract''))))"

definition planned_upgrade :: "string \<Rightarrow> int \<Rightarrow> string \<Rightarrow> string \<Rightarrow> string \<Rightarrow> agent_row \<Rightarrow> agent_row" where
  "planned_upgrade actor now version desired previous a =
     a\<lparr>sa_drain_requested := True, sa_drain_by := Some actor, sa_drain_at := Some now,
       sa_upgrade_state := ''planned'', sa_desired_version := Some version, sa_desired_digest := Some desired,
       sa_previous_version := sa_agent_version a, sa_previous_digest := Some previous,
       sa_upgrade_by := Some actor, sa_upgrade_at := Some now, sa_deployed_at := None,
       sa_verified_at := None, sa_failure_code := None\<rparr>"

definition thrown :: "exn \<Rightarrow> exn option" where
  "thrown e = (case e of OperationAuthoringError msg \<Rightarrow> Some (ValidationError msg) | _ \<Rightarrow> None)"

definition request_agent_upgrade ::
  "(string \<Rightarrow> string result) \<Rightarrow> runtime \<Rightarrow> string \<Rightarrow> db \<Rightarrow> (json \<times> db) result" where
  "request_agent_upgrade wide rt text d =
     bindE (upgrade_admin rt) (\<lambda>actor.
     catchE thrown
       (bindE (upgrade_request text) (\<lambda>kvs.
        bindE (upgrade_text (jget kvs ''desired_agent_version'') ''desired version'' image_version) (\<lambda>version.
        bindE (upgrade_text (jget kvs ''desired_image_digest'') ''desired image digest'' is_sha256) (\<lambda>desired.
        bindE (upgrade_text (jget kvs ''previous_image_digest'') ''previous image digest'' is_sha256) (\<lambda>previous.
        bindE (upgrade_agent (jget kvs ''agent_id'') d) (\<lambda>a.
        bindE (require_feature wide rt ''agent_upgrades'' (Some (sa_environment a))) (\<lambda>_.
        bindE (require (sa_upgrade_state a \<in> set stable_states)
                 (OperationAuthoringError ''agent already has an active upgrade'')) (\<lambda>_.
        bindE (require (sa_enabled a \<and> sa_status a = ''Online'' \<and> sa_reported_status a = Some ''ready''
                        \<and> image_version (or_empty (sa_agent_version a)))
                 (OperationAuthoringError ''agent is not online and healthy with a verified current version'')) (\<lambda>_.
        bindE (require (truthy (sa_observed_digest a) \<longrightarrow> sa_observed_digest a = Some previous)
                 (OperationAuthoringError ''previous image digest differs from the last verified deployment'')) (\<lambda>_.
        bindE (require (sa_agent_version a \<noteq> Some version \<and> desired \<noteq> previous)
                 (OperationAuthoringError ''upgrade must change both version and image digest'')) (\<lambda>_.
        bindE (upgrade_save (planned_upgrade actor (rt_now rt) version desired previous a) d) (\<lambda>d'.
        Inr (JObj [(''agent_id'', JStr (sa_agent_id a)), (''upgrade_state'', JStr ''planned''),
                   (''drain_requested'', JBool True)], d'))))))))))))))"

definition pre_deployment :: "string list" where
  "pre_deployment = [''planned'', ''draining'', ''ready_to_deploy'']"

definition drain_state :: "agent_row \<Rightarrow> db \<Rightarrow> string" where
  "drain_state a d = (if has_active_operations (sa_name a) d then ''draining'' else ''ready_to_deploy'')"

definition refresh_drain :: "agent_row \<Rightarrow> db \<Rightarrow> (agent_row \<times> db) result" where
  "refresh_drain a d =
     (if sa_upgrade_state a \<noteq> drain_state a d
      then (let a1 = a\<lparr>sa_upgrade_state := drain_state a d\<rparr> in bindE (upgrade_save a1 d) (\<lambda>d'. Inr (a1, d')))
      else Inr (a, d))"

definition refresh_agent_drain :: "runtime \<Rightarrow> string \<Rightarrow> db \<Rightarrow> (json \<times> db) result" where
  "refresh_agent_drain rt agent_id d =
     bindE (upgrade_admin rt) (\<lambda>_.
     bindE (upgrade_agent (JStr agent_id) d) (\<lambda>a.
     bindE (require (sa_upgrade_state a \<in> set pre_deployment) (invalid ''agent upgrade is not draining'')) (\<lambda>_.
     let counts = op_counts (sa_name a) d in
     bindE (refresh_drain a d) (\<lambda>(a1, d').
     Inr (JObj [(''agent_id'', JStr (sa_agent_id a1)), (''upgrade_state'', JStr (sa_upgrade_state a1)),
                (''operation_counts'', counts_json counts)], d')))))"

definition deployed :: "int \<Rightarrow> string \<Rightarrow> string \<Rightarrow> agent_row \<Rightarrow> agent_row" where
  "deployed now digest state a =
     a\<lparr>sa_observed_digest := Some digest, sa_deployed_at := Some now, sa_upgrade_state := state\<rparr>"

definition state_answer :: "agent_row \<Rightarrow> (string \<times> json) list \<Rightarrow> json" where
  "state_answer a extra = JObj ([(''agent_id'', JStr (sa_agent_id a)), (''upgrade_state'', JStr (sa_upgrade_state a))] @ extra)"

definition save_and_answer :: "agent_row \<Rightarrow> (string \<times> json) list \<Rightarrow> db \<Rightarrow> (json \<times> db) result" where
  "save_and_answer a extra d = bindE (upgrade_save a d) (\<lambda>d'. Inr (state_answer a extra, d'))"

definition confirm_agent_deployment :: "runtime \<Rightarrow> string \<Rightarrow> string \<Rightarrow> db \<Rightarrow> (json \<times> db) result" where
  "confirm_agent_deployment rt agent_id digest d =
     bindE (upgrade_admin rt) (\<lambda>_.
     bindE (upgrade_agent (JStr agent_id) d) (\<lambda>a.
     bindE (catchE thrown (upgrade_text (JStr digest) ''observed image digest'' is_sha256)) (\<lambda>observed.
     bindE (require (sa_upgrade_state a = ''ready_to_deploy'' \<and> sa_desired_digest a = Some observed)
              (PermissionError ''deployment does not match the ready upgrade'')) (\<lambda>_.
     bindE (require (\<not> has_active_operations (sa_name a) d)
              (invalid ''agent acquired active operations after drain verification'')) (\<lambda>_.
     save_and_answer (deployed (rt_now rt) observed ''verifying'' a) [] d)))))"

definition request_agent_rollback :: "runtime \<Rightarrow> string \<Rightarrow> string \<Rightarrow> db \<Rightarrow> (json \<times> db) result" where
  "request_agent_rollback rt agent_id failure_code d =
     bindE (upgrade_admin rt) (\<lambda>_.
     bindE (upgrade_agent (JStr agent_id) d) (\<lambda>a.
     bindE (require (sa_upgrade_state a = ''verifying'' \<and> failure_code \<in> set failures
                     \<or> sa_upgrade_state a = ''ready_to_deploy'' \<and> failure_code = ''deployment_failed'')
              (invalid ''rollback request is invalid'')) (\<lambda>_.
     save_and_answer (a\<lparr>sa_failure_code := Some failure_code, sa_upgrade_state := ''rollback_required''\<rparr>)
       [(''previous_agent_version'', text_or_null (sa_previous_version a)),
        (''previous_image_digest'', text_or_null (sa_previous_digest a))] d)))"

definition cancel_agent_upgrade :: "runtime \<Rightarrow> string \<Rightarrow> db \<Rightarrow> (json \<times> db) result" where
  "cancel_agent_upgrade rt agent_id d =
     bindE (upgrade_admin rt) (\<lambda>_.
     bindE (upgrade_agent (JStr agent_id) d) (\<lambda>a.
     bindE (require (sa_upgrade_state a \<in> set pre_deployment)
              (invalid ''only a pre-deployment upgrade may be cancelled'')) (\<lambda>_.
     save_and_answer (a\<lparr>sa_upgrade_state := ''cancelled'', sa_failure_code := Some ''operator_requested'',
         sa_drain_requested := False\<rparr>) [(''drain_requested'', JBool False)] d)))"

definition confirm_agent_rollback :: "runtime \<Rightarrow> string \<Rightarrow> string \<Rightarrow> db \<Rightarrow> (json \<times> db) result" where
  "confirm_agent_rollback rt agent_id digest d =
     bindE (upgrade_admin rt) (\<lambda>_.
     bindE (upgrade_agent (JStr agent_id) d) (\<lambda>a.
     bindE (catchE thrown (upgrade_text (JStr digest) ''observed image digest'' is_sha256)) (\<lambda>observed.
     bindE (require (sa_upgrade_state a = ''rollback_required'' \<and> sa_previous_digest a = Some observed)
              (PermissionError ''rollback deployment does not match the recorded prior image'')) (\<lambda>_.
     bindE (require (\<not> has_active_operations (sa_name a) d)
              (invalid ''agent has active operations during rollback'')) (\<lambda>_.
     save_and_answer (deployed (rt_now rt) observed ''rollback_verifying'' a) [] d)))))"

text \<open>What a deployment that awaits verification is to be: version, digest, and the state it ends in.\<close>

definition awaited :: "agent_row \<Rightarrow> (string option \<times> string option \<times> string) option" where
  "awaited a =
     (if sa_upgrade_state a = ''verifying'' then Some (sa_desired_version a, sa_desired_digest a, ''succeeded'')
      else if sa_upgrade_state a = ''rollback_verifying''
      then Some (sa_previous_version a, sa_previous_digest a, ''rolled_back'')
      else None)"

definition verified :: "int \<Rightarrow> string \<Rightarrow> agent_row \<Rightarrow> agent_row" where
  "verified now state a = a\<lparr>sa_upgrade_state := state, sa_verified_at := Some now, sa_drain_requested := False\<rparr>"

definition verify_agent_deployment :: "runtime \<Rightarrow> string \<Rightarrow> db \<Rightarrow> (json \<times> db) result" where
  "verify_agent_deployment rt agent_id d =
     bindE (upgrade_admin rt) (\<lambda>_.
     bindE (upgrade_agent (JStr agent_id) d) (\<lambda>a.
     bindE (of_option (invalid ''agent deployment is not awaiting verification'') (awaited a)) (\<lambda>(version, digest, state).
     bindE (require (sa_observed_digest a = digest)
              (PermissionError ''observed image digest does not match the expected deployment'')) (\<lambda>_.
     bindE (require (\<not> has_active_operations (sa_name a) d)
              (invalid ''agent has active operations during deployment verification'')) (\<lambda>_.
     bindE (require (healthy_heartbeat version a)
              (invalid ''a healthy post-deployment heartbeat from the expected version is required'')) (\<lambda>_.
     save_and_answer (verified (rt_now rt) state a) [(''drain_requested'', JBool False)] d))))))"

text \<open>The answer is the document's upgrade columns and the counts.\<close>

definition agent_upgrade_status :: "runtime \<Rightarrow> string \<Rightarrow> db \<Rightarrow> (agent_row \<times> (string \<times> nat) list) result" where
  "agent_upgrade_status rt agent_id d =
     bindE (require (rt_user rt \<noteq> [] \<and> rt_user rt \<noteq> ''Guest''
                     \<and> {''Controller Admin'', ''Auditor''} \<inter> set (rt_roles rt (rt_user rt)) \<noteq> {})
              (PermissionError ''Controller Admin or Auditor role is required'')) (\<lambda>_.
     bindE (upgrade_agent (JStr agent_id) d) (\<lambda>a. Inr (a, op_counts (sa_name a) d)))"

section \<open>api/agent_upgrade_routes.py\<close>

definition upgrade_route_fields :: "string list" where
  "upgrade_route_fields = [''agent_id'', ''action'', ''observed_image_digest'']"

definition upgrade_actions :: "string list" where
  "upgrade_actions = [''poll'', ''deployed'', ''failed'', ''verify'']"

definition invalid_upgrade :: "nat \<Rightarrow> exn" where
  "invalid_upgrade status = ControllerRequestError ''invalid_upgrade_request'' status"

text \<open>\<open>json.loads\<close> of bytes; the last of repeated keys counts. An unhashable action raises \<open>TypeError\<close>.\<close>

definition upgrade_body :: "(string \<Rightarrow> string result) \<Rightarrow> http_request \<Rightarrow> (string \<times> string \<times> string) result" where
  "upgrade_body wide rq =
     bindE (require (rq_method rq = ''POST'' \<and> rq_mimetype rq = ''application/json'') (invalid_upgrade 415)) (\<lambda>_.
     bindE (require (length (rq_body rq) \<le> 4096) (invalid_upgrade 413)) (\<lambda>_.
     bindE (catchE (\<lambda>e. if e = UnicodeDecodeError \<or> e = JSONDecodeError then Some (invalid_upgrade 400) else None)
              (bindE (json_text wide (rq_body rq)) json_loads)) (\<lambda>v.
     bindE (of_option (invalid_upgrade 400)
              (case v of JObj kvs \<Rightarrow> if jkeys kvs = set upgrade_route_fields then Some kvs else None | _ \<Rightarrow> None)) (\<lambda>kvs.
     bindE (of_option (ControllerRequestError ''invalid_agent'' 403)
              (case jget kvs ''agent_id'' of JStr n \<Rightarrow> if is_agent_id n then Some n else None | _ \<Rightarrow> None)) (\<lambda>n.
     bindE (case jget kvs ''action'' of
              JStr action \<Rightarrow> if action \<in> set upgrade_actions then Inr action else Inl (invalid_upgrade 400)
            | JList _ \<Rightarrow> Inl (TypeError ''unhashable type'')
            | JObj _ \<Rightarrow> Inl (TypeError ''unhashable type'')
            | _ \<Rightarrow> Inl (invalid_upgrade 400)) (\<lambda>action.
     case jget kvs ''observed_image_digest'' of JStr digest \<Rightarrow> Inr (n, action, digest) | _ \<Rightarrow> Inl (invalid_upgrade 400)))))))"

definition upgrade_conflict :: exn where
  "upgrade_conflict = conflict409 ''upgrade_state_conflict''"

definition instruction :: "agent_row \<Rightarrow> string \<times> string option" where
  "instruction a =
     (if sa_upgrade_state a = ''ready_to_deploy'' then (''deploy'', sa_desired_digest a)
      else if sa_upgrade_state a = ''rollback_required'' then (''rollback'', sa_previous_digest a)
      else if sa_upgrade_state a \<in> {''verifying'', ''rollback_verifying''} then (''verify'', sa_observed_digest a)
      else (''none'', Some []))"

definition accepted :: "agent_row \<Rightarrow> (string \<times> json) list \<Rightarrow> json" where
  "accepted a extra = JObj ([(''accepted'', JBool True), (''upgrade_state'', JStr (sa_upgrade_state a))] @ extra)"

definition observe_image :: "string \<Rightarrow> agent_row \<Rightarrow> db \<Rightarrow> (agent_row \<times> db) result" where
  "observe_image observed a d =
     (if is_sha256 observed \<and> sa_upgrade_state a \<in> set stable_states
      then (if \<not> truthy (sa_observed_digest a)
            then (let a1 = a\<lparr>sa_observed_digest := Some observed\<rparr> in bindE (upgrade_save a1 d) (\<lambda>d'. Inr (a1, d')))
            else bindE (require (sa_observed_digest a = Some observed) (conflict409 ''image_digest_mismatch'')) (\<lambda>_. Inr (a, d)))
      else Inr (a, d))"

definition upgrade_poll :: "string \<Rightarrow> agent_row \<Rightarrow> db \<Rightarrow> (json \<times> db) result" where
  "upgrade_poll observed a d =
     bindE (observe_image observed a d) (\<lambda>(a1, d1).
     bindE (if sa_upgrade_state a1 \<in> set pre_deployment then refresh_drain a1 d1 else Inr (a1, d1)) (\<lambda>(a2, d2).
     Inr (accepted a2 [(''action'', JStr (fst (instruction a2))), (''image_digest'', text_or_null (snd (instruction a2)))], d2)))"

definition save_and_accept :: "agent_row \<Rightarrow> db \<Rightarrow> (json \<times> db) result" where
  "save_and_accept a d = bindE (upgrade_save a d) (\<lambda>d'. Inr (accepted a [], d'))"

definition upgrade_failed :: "agent_row \<Rightarrow> db \<Rightarrow> (json \<times> db) result" where
  "upgrade_failed a d =
     bindE (require (sa_upgrade_state a \<in> {''ready_to_deploy'', ''verifying''}) upgrade_conflict) (\<lambda>_.
     save_and_accept (a\<lparr>sa_failure_code := Some ''deployment_failed'', sa_upgrade_state := ''rollback_required''\<rparr>) d)"

definition deploy_choices :: "agent_row \<Rightarrow> (string \<times> string option \<times> string) list" where
  "deploy_choices a =
     [(''ready_to_deploy'', sa_desired_digest a, ''verifying''),
      (''rollback_required'', sa_previous_digest a, ''rollback_verifying'')]"

definition upgrade_deployed :: "runtime \<Rightarrow> string \<Rightarrow> agent_row \<Rightarrow> db \<Rightarrow> (json \<times> db) result" where
  "upgrade_deployed rt observed a d =
     bindE (require (\<not> has_active_operations (sa_name a) d) (conflict409 ''upgrade_not_drained'')) (\<lambda>_.
     bindE (of_option upgrade_conflict
              (case map_of (deploy_choices a) (sa_upgrade_state a) of
                 Some (digest, state) \<Rightarrow> if digest = Some observed then Some state else None
               | None \<Rightarrow> None)) (\<lambda>state.
     save_and_accept (deployed (rt_now rt) observed state a) d))"

text \<open>The conditions in their order: comparing with a missing deployment time raises.\<close>

definition upgrade_verify :: "runtime \<Rightarrow> string \<Rightarrow> agent_row \<Rightarrow> db \<Rightarrow> (json \<times> db) result" where
  "upgrade_verify rt observed a d =
     (let pending = conflict409 ''upgrade_verification_pending'' in
      bindE (of_option pending (awaited a)) (\<lambda>(version, digest, state).
      bindE (require (digest = Some observed \<and> sa_observed_digest a = digest
                      \<and> \<not> has_active_operations (sa_name a) d \<and> sa_status a = ''Online''
                      \<and> sa_reported_status a = Some ''ready'' \<and> sa_agent_version a = version) pending) (\<lambda>_.
      bindE (of_option pending (sa_last_seen a)) (\<lambda>seen.
      bindE (of_option (TypeError ''comparison with a missing time'') (sa_deployed_at a)) (\<lambda>t.
      bindE (require (t \<le> seen) pending) (\<lambda>_.
      save_and_accept (verified (rt_now rt) state a) d))))))"

definition upgrade_action :: "runtime \<Rightarrow> string \<Rightarrow> string \<Rightarrow> string \<Rightarrow> db \<Rightarrow> (json \<times> db) result" where
  "upgrade_action rt agent_id action observed d =
     bindE (of_option (DoesNotExistError agent_id) (get_row sa_name (agents d) agent_id)) (\<lambda>a.
     if action = ''poll'' then upgrade_poll observed a d
     else bindE (require (is_sha256 observed) (ControllerRequestError ''invalid_image_digest'' 400)) (\<lambda>_.
       if action = ''failed'' then upgrade_failed a d
       else if action = ''deployed'' then upgrade_deployed rt observed a d
       else upgrade_verify rt observed a d))"

definition upgrade_headers :: "(string \<times> string) list" where
  "upgrade_headers = [(''Content-Type'', ''application/json; charset=utf-8''), (''Cache-Control'', ''no-store''),
     (''X-Content-Type-Options'', ''nosniff'')]"

definition upgrade_response :: "json \<Rightarrow> nat \<Rightarrow> http_response result" where
  "upgrade_response payload status =
     bindE (canonical_json payload) (\<lambda>t. bindE (encodeE t) (\<lambda>b.
     Inr \<lparr>rs_status = status, rs_body = b, rs_headers = upgrade_headers\<rparr>))"

definition upgrade_error :: "exn \<Rightarrow> http_response" where
  "upgrade_error e =
     (let (code, status) = (case e of ControllerRequestError code status \<Rightarrow> (code, status) | _ \<Rightarrow> (''internal_error'', 500)) in
      \<lparr>rs_status = status, rs_body = json_dumps (error_payload code), rs_headers = upgrade_headers\<rparr>)"

text \<open>Verifying the signature commits the counter; an error rolls back what came after it.\<close>

definition upgrade_route ::
  "signature_check \<Rightarrow> route_config \<Rightarrow> (string \<Rightarrow> string result) \<Rightarrow> runtime \<Rightarrow> int \<Rightarrow> int \<Rightarrow> http_request \<Rightarrow> db
     \<Rightarrow> http_response \<times> db" where
  "upgrade_route verify cfg wide rt now_ns now rq d =
     (case bindE (upgrade_body wide rq) (\<lambda>body. bindE (verify_request verify now_ns rq ''upgrade'' d) (\<lambda>v. Inr (body, v))) of
        Inl e \<Rightarrow> (upgrade_error e, d)
      | Inr ((agent_id, action, observed), (peer, routed, d1)) \<Rightarrow>
          (case bindE (from_environment cfg) (\<lambda>_.
                bindE (authenticate_peer peer routed (JStr agent_id) (Aware now) d1) (\<lambda>_.
                bindE (upgrade_action rt agent_id action observed d1) (\<lambda>(payload, d2).
                bindE (upgrade_response payload 200) (\<lambda>response. Inr (response, d2))))) of
             Inl e \<Rightarrow> (upgrade_error e, d1)
           | Inr (response, d2) \<Rightarrow> (response, d2)))"


section \<open>What a save of the document does\<close>

lemma disabled_status_simps [simp]:
  "sa_name (disabled_status a) = sa_name a" "sa_agent_id (disabled_status a) = sa_agent_id a"
  "sa_upgrade_state (disabled_status a) = sa_upgrade_state a"
  "sa_drain_requested (disabled_status a) = sa_drain_requested a"
  "sa_previous_version (disabled_status a) = sa_previous_version a"
  "upgrade_values (disabled_status a) = upgrade_values a"
  "upgrade_identity (disabled_status a) = upgrade_identity a"
  "upgrade_attributed (disabled_status a) = upgrade_attributed a"
  by (simp_all add: disabled_status_def upgrade_values_def upgrade_identity_def upgrade_attributed_def terminal_identity_def)

definition upgrade_part where
  "upgrade_part a = (sa_name a, sa_agent_id a, sa_drain_requested a, sa_drain_by a, sa_drain_at a, sa_upgrade_state a,
     sa_desired_version a, sa_desired_digest a, sa_previous_version a, sa_previous_digest a, sa_observed_digest a,
     sa_upgrade_by a, sa_upgrade_at a, sa_deployed_at a, sa_verified_at a, sa_failure_code a)"

lemma upgrade_part_disabled [simp]: "upgrade_part (disabled_status a) = upgrade_part a"
  by (simp add: disabled_status_def upgrade_part_def)

lemma sa_save_ok:
  assumes "sa_save service a d = Inr d'"
  obtains p where "get_row sa_name (agents d) (sa_name a) = Some p"
    "d' = d\<lparr>agents := save_row sa_name (disabled_status a) (agents d)\<rparr>"
    "sa_columns a = Inr ()" "upgrade_values a = Inr ()" "upgrade_identity a = Inr ()"
    "sa_agent_id p = sa_agent_id a" "list_all (\<lambda>(f, eq). eq p (disabled_status a)) upgrade_fields \<or> service"
  using assms by (auto simp: sa_save_def old_row_def of_option_def sa_validate_def upgrade_change_def Let_def bindE_eq_Inr
      require_eq_Inr sa_fields_def immutable_fields_ok same_def split: option.splits)

lemma form_keeps_upgrade:
  assumes "list_all (\<lambda>(f, eq). eq p (disabled_status a)) upgrade_fields" "sa_name p = sa_name a" "sa_agent_id p = sa_agent_id a"
  shows "upgrade_part a = upgrade_part p"
  using assms by (simp add: upgrade_fields_def same_def upgrade_part_def disabled_status_def split: if_splits)

section \<open>The moves of an upgrade\<close>

inductive upgrade_move :: "db \<Rightarrow> agent_row \<Rightarrow> agent_row \<Rightarrow> bool" for d where
  plan: "sa_upgrade_state p \<in> set stable_states \<Longrightarrow> desired \<noteq> previous \<Longrightarrow> sa_agent_version p \<noteq> Some version \<Longrightarrow>
    upgrade_move d p (planned_upgrade actor now version desired previous p)"
| drain: "sa_upgrade_state p \<in> set pre_deployment \<Longrightarrow> upgrade_move d p (p\<lparr>sa_upgrade_state := drain_state p d\<rparr>)"
| observe: "sa_upgrade_state p \<in> set stable_states \<Longrightarrow> \<not> truthy (sa_observed_digest p) \<Longrightarrow>
    upgrade_move d p (p\<lparr>sa_observed_digest := Some digest\<rparr>)"
| deploy: "sa_upgrade_state p = ''ready_to_deploy'' \<Longrightarrow> sa_desired_digest p = Some digest \<Longrightarrow>
    \<not> has_active_operations (sa_name p) d \<Longrightarrow> upgrade_move d p (deployed now digest ''verifying'' p)"
| redeploy: "sa_upgrade_state p = ''rollback_required'' \<Longrightarrow> sa_previous_digest p = Some digest \<Longrightarrow>
    \<not> has_active_operations (sa_name p) d \<Longrightarrow> upgrade_move d p (deployed now digest ''rollback_verifying'' p)"
| fail: "sa_upgrade_state p \<in> {''ready_to_deploy'', ''verifying''} \<Longrightarrow> code \<in> set failures \<Longrightarrow>
    upgrade_move d p (p\<lparr>sa_failure_code := Some code, sa_upgrade_state := ''rollback_required''\<rparr>)"
| cancel: "sa_upgrade_state p \<in> set pre_deployment \<Longrightarrow>
    upgrade_move d p (p\<lparr>sa_upgrade_state := ''cancelled'', sa_failure_code := Some ''operator_requested'', sa_drain_requested := False\<rparr>)"
| verify: "awaited p = Some (version, digest, state) \<Longrightarrow> sa_observed_digest p = digest \<Longrightarrow>
    \<not> has_active_operations (sa_name p) d \<Longrightarrow> healthy_heartbeat version p \<Longrightarrow> upgrade_move d p (verified now state p)"

definition moved :: "db \<Rightarrow> db \<Rightarrow> bool" where
  "moved d d' \<longleftrightarrow> d' = d \<or> (\<exists>p a. get_row sa_name (agents d) (sa_name p) = Some p \<and> upgrade_move d p a \<and> upgrade_save a d = Inr d')"

lemma upgrade_agent_ok:
  assumes "upgrade_agent v d = Inr a"
  shows "get_row sa_name (agents d) (sa_name a) = Some a \<and> v = JStr (sa_name a)"
proof -
  obtain n where "v = JStr n" "get_row sa_name (agents d) n = Some a"
    using assms by (cases v) (auto simp: upgrade_agent_def result_simps)
  then show ?thesis using get_row_Some [of sa_name "agents d" n a] by simp
qed

lemma save_and_answer_ok: "save_and_answer a ans d = Inr (x, d') \<Longrightarrow> upgrade_save a d = Inr d'"
  by (auto simp: save_and_answer_def bindE_eq_Inr)

lemma save_and_accept_ok: "save_and_accept a d = Inr (x, d') \<Longrightarrow> upgrade_save a d = Inr d'"
  by (auto simp: save_and_accept_def bindE_eq_Inr)

lemma movedI: "get_row sa_name (agents d) (sa_name p) = Some p \<Longrightarrow> upgrade_move d p a \<Longrightarrow> upgrade_save a d = Inr d' \<Longrightarrow> moved d d'"
  by (auto simp: moved_def)

lemma moved_request: "request_agent_upgrade wide rt text d = Inr (x, d') \<Longrightarrow> moved d d'"
  unfolding request_agent_upgrade_def bindE_eq_Inr catchE_eq_Inr require_eq_Inr
  by (elim exE conjE) (rule movedI [OF conjunct1 [OF upgrade_agent_ok]], assumption, rule upgrade_move.plan, auto)

lemma moved_refresh_drain: "refresh_drain a d = Inr (a1, d') \<Longrightarrow> sa_upgrade_state a \<in> set pre_deployment \<Longrightarrow>
    get_row sa_name (agents d) (sa_name a) = Some a \<Longrightarrow> moved d d'"
  by (auto simp: refresh_drain_def Let_def bindE_eq_Inr moved_def split: if_splits intro: upgrade_move.drain)

lemma moved_refresh: "refresh_agent_drain rt n d = Inr (x, d') \<Longrightarrow> moved d d'"
  by (auto simp: refresh_agent_drain_def Let_def result_simps dest!: upgrade_agent_ok intro: moved_refresh_drain)

lemma moved_confirm: "confirm_agent_deployment rt n digest d = Inr (x, d') \<Longrightarrow> moved d d'"
  by (auto simp: confirm_agent_deployment_def result_simps dest!: upgrade_agent_ok save_and_answer_ok
      intro: movedI [OF _ upgrade_move.deploy])

lemma moved_rollback: "request_agent_rollback rt n code d = Inr (x, d') \<Longrightarrow> moved d d'"
  by (auto simp: request_agent_rollback_def result_simps failures_def dest!: upgrade_agent_ok save_and_answer_ok
      intro!: movedI [OF _ upgrade_move.fail])

lemma moved_cancel: "cancel_agent_upgrade rt n d = Inr (x, d') \<Longrightarrow> moved d d'"
  by (auto simp: cancel_agent_upgrade_def result_simps dest!: upgrade_agent_ok save_and_answer_ok
      intro: movedI [OF _ upgrade_move.cancel])

lemma moved_confirm_rollback: "confirm_agent_rollback rt n digest d = Inr (x, d') \<Longrightarrow> moved d d'"
  by (auto simp: confirm_agent_rollback_def result_simps dest!: upgrade_agent_ok save_and_answer_ok
      intro: movedI [OF _ upgrade_move.redeploy])

lemma moved_verify: "verify_agent_deployment rt n d = Inr (x, d') \<Longrightarrow> moved d d'"
  by (auto simp: verify_agent_deployment_def result_simps dest!: upgrade_agent_ok save_and_answer_ok
      intro: movedI [OF _ upgrade_move.verify])

lemma moved_poll:
  assumes "upgrade_poll observed a d = Inr (x, d')" "get_row sa_name (agents d) (sa_name a) = Some a"
  shows "moved d d'"
proof -
  obtain a1 d1 a2 where o1: "observe_image observed a d = Inr (a1, d1)"
    and r: "(if sa_upgrade_state a1 \<in> set pre_deployment then refresh_drain a1 d1 else Inr (a1, d1)) = Inr (a2, d')"
    using assms(1) by (auto simp: upgrade_poll_def bindE_eq_Inr)
  show ?thesis
  proof (cases "a1 = a \<and> d1 = d")
    case True
    then show ?thesis using r assms(2) moved_refresh_drain by (auto simp: moved_def split: if_splits)
  next
    case False
    then have st: "sa_upgrade_state a \<in> set stable_states" "\<not> truthy (sa_observed_digest a)"
      and a1: "a1 = a\<lparr>sa_observed_digest := Some observed\<rparr>" "upgrade_save a1 d = Inr d1"
      using o1 by (auto simp: observe_image_def Let_def bindE_eq_Inr split: if_splits)
    have "sa_upgrade_state a1 \<notin> set pre_deployment" using st(1) by (auto simp: a1(1) stable_states_def pre_deployment_def)
    then have "d1 = d'" using r by simp
    then show ?thesis using movedI [OF assms(2) upgrade_move.observe [OF st] a1(2) [unfolded a1(1)]] by simp
  qed
qed

lemma moved_failed: "upgrade_failed a d = Inr (x, d') \<Longrightarrow> get_row sa_name (agents d) (sa_name a) = Some a \<Longrightarrow> moved d d'"
  by (auto simp: upgrade_failed_def result_simps failures_def dest!: save_and_accept_ok
      intro!: movedI [OF _ upgrade_move.fail])

lemma moved_deployed:
  assumes "upgrade_deployed rt observed a d = Inr (x, d')" "get_row sa_name (agents d) (sa_name a) = Some a"
  shows "moved d d'"
proof -
  obtain digest state where n: "\<not> has_active_operations (sa_name a) d"
    and m: "map_of (deploy_choices a) (sa_upgrade_state a) = Some (digest, state)" "digest = Some observed"
    and s: "upgrade_save (deployed (rt_now rt) observed state a) d = Inr d'"
    using assms(1) by (auto simp: upgrade_deployed_def result_simps dest!: save_and_accept_ok split: option.splits if_splits)
  have "upgrade_move d a (deployed (rt_now rt) observed state a)"
    using m n by (auto simp: deploy_choices_def split: if_splits intro: upgrade_move.deploy upgrade_move.redeploy)
  then show ?thesis using movedI assms(2) s by blast
qed

lemma moved_verified:
  assumes "upgrade_verify rt observed a d = Inr (x, d')" "get_row sa_name (agents d) (sa_name a) = Some a"
  shows "moved d d'"
proof -
  obtain version digest state where m: "awaited a = Some (version, digest, state)" "sa_observed_digest a = digest"
      "\<not> has_active_operations (sa_name a) d" "healthy_heartbeat version a"
    and s: "upgrade_save (verified (rt_now rt) state a) d = Inr d'"
    using assms(1) by (auto simp: upgrade_verify_def Let_def result_simps healthy_heartbeat_def dest!: save_and_accept_ok)
  show ?thesis by (rule movedI [OF assms(2) upgrade_move.verify [OF m] s])
qed

lemma moved_action:
  assumes "upgrade_action rt n action observed d = Inr (x, d')"
  shows "moved d d'"
proof -
  obtain a where a: "get_row sa_name (agents d) n = Some a"
    and r: "(if action = ''poll'' then upgrade_poll observed a d
      else bindE (require (is_sha256 observed) (ControllerRequestError ''invalid_image_digest'' 400)) (\<lambda>_.
       if action = ''failed'' then upgrade_failed a d
       else if action = ''deployed'' then upgrade_deployed rt observed a d
       else upgrade_verify rt observed a d)) = Inr (x, d')"
    using assms unfolding upgrade_action_def bindE_eq_Inr [of "of_option e m" for e m] of_option_eq_Inr by blast
  have "get_row sa_name (agents d) (sa_name a) = Some a" using get_row_Some [OF a] a by simp
  then show ?thesis using r moved_poll moved_failed moved_deployed moved_verified
    by (auto simp: result_simps split: if_splits)
qed

section \<open>The invariant\<close>

definition upgrade_sound :: "agent_row \<Rightarrow> bool" where
  "upgrade_sound a \<longleftrightarrow>
     upgrade_values a = Inr () \<and> map_of upgrade_transitions (sa_upgrade_state a) \<noteq> None
     \<and> (sa_drain_requested a \<longleftrightarrow> sa_upgrade_state a \<notin> set stable_states)
     \<and> (sa_upgrade_state a \<notin> set stable_states \<longrightarrow> upgrade_attributed a)
     \<and> (sa_upgrade_state a \<in> set pre_deployment \<longrightarrow> sa_deployed_at a = None)
     \<and> (\<forall>version digest state. awaited a = Some (version, digest, state) \<longrightarrow>
          sa_deployed_at a \<noteq> None \<and> sa_observed_digest a = digest)
     \<and> (\<forall>version digest. map_of (terminal_identity a) (sa_upgrade_state a) = Some (version, digest) \<longrightarrow>
          sa_verified_at a \<noteq> None \<and> sa_observed_digest a = digest)
     \<and> (sa_upgrade_state a = ''cancelled'' \<longrightarrow> sa_deployed_at a = None \<and> sa_failure_code a = Some ''operator_requested'')"

definition upgrades_ok :: "db \<Rightarrow> bool" where
  "upgrades_ok d \<longleftrightarrow> distinct (map sa_name (agents d))
     \<and> (\<forall>a\<in>set (agents d). sa_agent_id a = sa_name a \<and> upgrade_sound a)"

definition same_upgrades :: "db \<Rightarrow> db \<Rightarrow> bool" where
  "same_upgrades d d' \<longleftrightarrow> map upgrade_part (agents d') = map upgrade_part (agents d)"

lemma upgrade_sound_part: "upgrade_part a = upgrade_part b \<Longrightarrow> upgrade_sound a = upgrade_sound b"
  by (simp add: upgrade_part_def upgrade_sound_def upgrade_values_def upgrade_attributed_def awaited_def terminal_identity_def)

lemma state_facts:
  "sa_upgrade_state p \<in> set stable_states \<longleftrightarrow> sa_upgrade_state p \<in> {''none'', ''succeeded'', ''rolled_back'', ''cancelled''}"
  "sa_upgrade_state p \<in> set pre_deployment \<longleftrightarrow> sa_upgrade_state p \<in> {''planned'', ''draining'', ''ready_to_deploy''}"
  by (auto simp: stable_states_def pre_deployment_def)

lemma pre_not_stable: "s \<in> set pre_deployment \<Longrightarrow> s \<notin> set stable_states"
  by (auto simp: stable_states_def pre_deployment_def)

lemma drain_state_cases: "drain_state p d = ''draining'' \<or> drain_state p d = ''ready_to_deploy''"
  by (simp add: drain_state_def)

lemma identity_ok: "upgrade_identity a = Inr () \<longleftrightarrow>
    (sa_upgrade_state a \<notin> set stable_states \<longrightarrow> upgrade_attributed a)
    \<and> (sa_upgrade_state a = ''verifying'' \<longrightarrow> sa_deployed_at a \<noteq> None \<and> sa_observed_digest a = sa_desired_digest a)
    \<and> (sa_upgrade_state a = ''rollback_verifying'' \<longrightarrow> sa_deployed_at a \<noteq> None \<and> sa_observed_digest a = sa_previous_digest a)
    \<and> (\<forall>version digest. map_of (terminal_identity a) (sa_upgrade_state a) = Some (version, digest) \<longrightarrow>
         \<not> sa_drain_requested a \<and> sa_verified_at a \<noteq> None \<and> sa_agent_version a = version \<and> sa_observed_digest a = digest)
    \<and> (sa_upgrade_state a = ''cancelled'' \<longrightarrow>
         \<not> sa_drain_requested a \<and> sa_deployed_at a = None \<and> sa_failure_code a = Some ''operator_requested'')"
  by (auto simp: upgrade_identity_def bindE_eq_Inr require_eq_Inr split: option.splits)

lemma soundI:
  assumes "upgrade_values a = Inr ()" "upgrade_identity a = Inr ()" "sa_upgrade_state a \<in> set (map fst upgrade_transitions)"
    and "sa_drain_requested a \<longleftrightarrow> sa_upgrade_state a \<notin> set stable_states"
    and "sa_upgrade_state a \<in> set pre_deployment \<Longrightarrow> sa_deployed_at a = None"
  shows "upgrade_sound a"
proof -
  have "map_of upgrade_transitions (sa_upgrade_state a) \<noteq> None"
    using assms(3) by (simp add: map_of_eq_None_iff)
  moreover have "sa_deployed_at a \<noteq> None \<and> sa_observed_digest a = digest" if "awaited a = Some (version, digest, state)" for version digest state
    using assms(2) \<open>awaited a = _\<close> unfolding identity_ok awaited_def by (simp split: if_splits)
  ultimately show ?thesis using assms(1,2,4,5) unfolding upgrade_sound_def identity_ok by blast
qed

lemma sound_facts:
  assumes "upgrade_sound p"
  shows "sa_drain_requested p \<longleftrightarrow> sa_upgrade_state p \<notin> set stable_states"
    and "sa_upgrade_state p \<in> set pre_deployment \<Longrightarrow> sa_deployed_at p = None"
    and "sa_upgrade_state p \<in> set (map fst upgrade_transitions)"
  using assms unfolding upgrade_sound_def map_of_eq_None_iff set_map by blast+

lemma move_sound:
  assumes "upgrade_move d p a" "upgrade_sound p" "upgrade_values a = Inr ()" "upgrade_identity a = Inr ()"
  shows "upgrade_sound a"
proof -
  note p = sound_facts [OF assms(2)]
  have "sa_upgrade_state a \<in> set (map fst upgrade_transitions)
      \<and> (sa_drain_requested a \<longleftrightarrow> sa_upgrade_state a \<notin> set stable_states)
      \<and> (sa_upgrade_state a \<in> set pre_deployment \<longrightarrow> sa_deployed_at a = None)"
    using assms(1) p
  proof (induction rule: upgrade_move.induct)
    case (drain p)
    then have "sa_drain_requested p" "sa_deployed_at p = None" using pre_not_stable by blast+
    then show ?case using drain_state_cases [of p d]
      by (elim disjE) (simp_all add: upgrade_transitions_def stable_states_def pre_deployment_def)
  next
    case (verify p version digest state now)
    then show ?case
      by (auto simp: verified_def awaited_def upgrade_transitions_def stable_states_def pre_deployment_def split: if_splits)
  next
    case (fail p code)
    then show ?case by (auto simp: upgrade_transitions_def stable_states_def pre_deployment_def)
  qed (simp_all add: planned_upgrade_def deployed_def upgrade_transitions_def stable_states_def pre_deployment_def)
  then show ?thesis using soundI [OF assms(3,4)] by blast
qed

lemma move_name: "upgrade_move d p a \<Longrightarrow> sa_name a = sa_name p \<and> sa_agent_id a = sa_agent_id p"
  by (induction rule: upgrade_move.induct) (auto simp: planned_upgrade_def deployed_def verified_def)

lemma save_upgrades_ok:
  assumes "upgrades_ok d" "get_row sa_name (agents d) (sa_name a) = Some p" "sa_agent_id a = sa_agent_id p" "upgrade_sound a"
  shows "upgrades_ok (d\<lparr>agents := save_row sa_name (disabled_status a) (agents d)\<rparr>)"
proof -
  have "p \<in> set (agents d)" "sa_name p = sa_name a" using get_row_Some [OF assms(2)] by auto
  then have "sa_agent_id a = sa_name a" using assms(1,3) by (auto simp: upgrades_ok_def)
  moreover have "upgrade_sound (disabled_status a)" using assms(4) upgrade_sound_part [of "disabled_status a" a] by simp
  ultimately show ?thesis using assms(1) by (auto simp: upgrades_ok_def dest!: save_row_in)
qed

lemma moved_ok:
  assumes "moved d d'" "upgrades_ok d"
  shows "upgrades_ok d'"
proof -
  {
    fix p a assume p: "get_row sa_name (agents d) (sa_name p) = Some p" and m: "upgrade_move d p a" and s: "upgrade_save a d = Inr d'"
    obtain q where q: "get_row sa_name (agents d) (sa_name a) = Some q"
      and d': "d' = d\<lparr>agents := save_row sa_name (disabled_status a) (agents d)\<rparr>"
      and v: "upgrade_values a = Inr ()" "upgrade_identity a = Inr ()"
      by (rule sa_save_ok [OF s [unfolded upgrade_save_def]])
    have qp: "q = p" using p q move_name [OF m] by simp
    have "upgrade_sound p" using get_row_Some [OF p] assms(2) by (auto simp: upgrades_ok_def)
    then have "upgrade_sound a" using move_sound [OF m] v by blast
    then have "upgrades_ok d'" unfolding d' using save_upgrades_ok [OF assms(2) q] move_name [OF m] qp by simp
  }
  then show ?thesis using assms by (auto simp: moved_def)
qed

lemma form_save_ok:
  assumes "sa_save False a d = Inr d'" "upgrades_ok d"
  shows "upgrades_ok d'"
proof -
  obtain p where p: "get_row sa_name (agents d) (sa_name a) = Some p"
    and d': "d' = d\<lparr>agents := save_row sa_name (disabled_status a) (agents d)\<rparr>"
    and i: "sa_agent_id p = sa_agent_id a" and f: "list_all (\<lambda>(f, eq). eq p (disabled_status a)) upgrade_fields"
    by (rule sa_save_ok [OF assms(1)]) auto
  have "upgrade_sound p" "sa_name p = sa_name a" using get_row_Some [OF p] assms(2) by (auto simp: upgrades_ok_def)
  then have "upgrade_sound a" using form_keeps_upgrade [OF f _ i] upgrade_sound_part by metis
  then show ?thesis unfolding d' using save_upgrades_ok [OF assms(2) p] i by simp
qed

lemma insert_agent_ok:
  assumes "sa_insert False a d = Inr d'" "sa_name a = sa_agent_id a" "upgrades_ok d"
  shows "upgrades_ok d'"
proof -
  have a: "upgrade_values a = Inr ()" "no_upgrade (disabled_status a)" "insert_row sa_name [Some \<circ> sa_agent_id] (disabled_status a) (agents d) = Inr (agents d')"
    and d': "d' = d\<lparr>agents := agents d'\<rparr>"
    using assms(1) by (auto simp: sa_insert_def sa_validate_def upgrade_change_def Let_def bindE_eq_Inr require_eq_Inr)
  have "upgrade_sound (disabled_status a)"
    using a(1,2) by (simp add: upgrade_sound_def no_upgrade_def upgrade_transitions_def stable_states_def pre_deployment_def
        awaited_def terminal_identity_def)
  then show ?thesis using insert_row_ok [OF a(3)] assms(2,3) by (auto simp: upgrades_ok_def)
qed

lemma same_upgrades_ok:
  assumes "same_upgrades d d'" "upgrades_ok d"
  shows "upgrades_ok d'"
proof -
  have n: "map sa_name (agents d') = map sa_name (agents d)"
    using assms(1) by (auto simp: same_upgrades_def upgrade_part_def list_eq_iff_nth_eq dest: map_eq_imp_length_eq)
  have "\<exists>b\<in>set (agents d). upgrade_part a = upgrade_part b" if "a \<in> set (agents d')" for a
    using assms(1) that unfolding same_upgrades_def by (metis (mono_tags) imageE imageI list.set_map)
  then have "sa_agent_id a = sa_name a \<and> upgrade_sound a" if "a \<in> set (agents d')" for a
    using that assms(2) upgrade_sound_part unfolding upgrades_ok_def upgrade_part_def by (metis prod.inject)
  then show ?thesis using n assms(2) by (simp add: upgrades_ok_def)
qed


section \<open>The agents' own routes keep the upgrades\<close>

lemma same_upgrades_refl [simp]: "agents d' = agents d \<Longrightarrow> same_upgrades d d'"
  by (simp add: same_upgrades_def)

lemma same_upgrades_trans: "same_upgrades d d1 \<Longrightarrow> same_upgrades d1 d2 \<Longrightarrow> same_upgrades d d2"
  by (simp add: same_upgrades_def)

lemma same_upgrades_set: "(\<And>x. upgrade_part (f x) = upgrade_part x) \<Longrightarrow> same_upgrades d (agent_set n f d)"
  by (simp add: same_upgrades_def agent_set_def set_rows_def)

lemma scan_queue_agents: "scan_queue lifetime wanted now cs d = Inr (found, d') \<Longrightarrow> agents d' = agents d"
proof (induction cs arbitrary: d)
  case (Cons c cs)
  have q: "agents (quarantine now c d) = agents d"
    by (simp add: quarantine_def Let_def bulk_target_set_def target_set_def)
  show ?case using Cons.prems Cons.IH [of d] Cons.IH [of "quarantine now c d"] q
    by (auto simp: bindE_eq_Inr split: if_splits sum.splits exn.splits)
qed simp

lemma lease_agents: "lease_command lifetime skew n allowed wanted clock d = Inr (x, d') \<Longrightarrow> agents d' = agents d"
  by (auto simp: lease_command_def Let_def bindE_eq_Inr target_set_def dest!: scan_queue_agents split: if_splits option.splits)

lemma append_event_agents: "append_event rt o1 n e (cursor, d) = Inr (c, d') \<Longrightarrow> agents d' = agents d"
  by (auto simp: append_event_def bindE_eq_Inr elim!: ev_insert_ok)

lemma append_events_agents:
  "foldE (append_event rt o1 n) es (cursor, d) = Inr (c, d') \<Longrightarrow> agents d' = agents d"
proof (induction es arbitrary: cursor d)
  case (Cons e es)
  obtain c1 d1 where "append_event rt o1 n e (cursor, d) = Inr (c1, d1)" "foldE (append_event rt o1 n) es (c1, d1) = Inr (c, d')"
    using Cons.prems by (auto simp: bindE_eq_Inr)
  then show ?case using append_event_agents Cons.IH by metis
qed simp

lemma append_agents: "fi_append rt n m k es d = Inr (c, d') \<Longrightarrow> agents d' = agents d"
  by (erule fi_append_ok) (auto dest: append_events_agents)

lemma events_agents:
  assumes "event_ingestion_hook (frappe_ingestion rt) n m es now d = Inr (c, d')"
  shows "agents d' = agents d"
proof -
  have "ingest_events (frappe_ingestion rt) (hook_request n m ''events'' (JList es)) now d = Inr (c, d')"
    using assms by (simp add: event_ingestion_hook_def)
  then have "d' = d \<or> (\<exists>n m k ps c. fi_append rt n m k ps d = Inr (c, d'))"
    unfolding ingest_events_def bindE_eq_Inr by (auto simp: bindE_eq_Inr frappe_ingestion_def split: if_splits)
  then show ?thesis using append_agents by auto
qed

lemma commit_agents: "fi_commit n m h r d = Inr d' \<Longrightarrow> agents d' = agents d"
  using fi_commit_ok by (fastforce simp: write_result_def Let_def target_set_def bulk_target_set_def)

lemma result_agents:
  assumes "result_ingestion_hook (frappe_ingestion rt) n m kvs now d = Inr d'"
  shows "agents d' = agents d"
proof -
  obtain r where i: "ingest_result (frappe_ingestion rt) (hook_request n m ''result'' (JObj kvs)) now d = Inr (r, d')"
    using assms by (auto simp: result_ingestion_hook_def bindE_eq_Inr)
  obtain a k ex res where acc: "accept_result (frappe_ingestion rt) a k ex res d = Inr (r, d')"
    using i unfolding ingest_result_def bindE_eq_Inr case_prod_beta by metis
  have "d' = d \<or> (\<exists>a h. fi_commit a k h r d = Inr d')" using accept_result_cases [OF acc] by (auto simp: frappe_ingestion_def)
  then show ?thesis using commit_agents by auto
qed

lemma put_bench_agents: "put_bench a status seen s d = Inr d' \<Longrightarrow> agents d' = agents d"
proof -
  assume "put_bench a status seen s d = Inr d'"
  then obtain d1 where 1: "(if get_row be_name (benches d) (vb_bench_id s) \<noteq> None
            then Inr (bench_set (vb_bench_id s) (bench_values a status seen s) d)
            else be_insert (bench_values a status seen s (new_bench (vb_bench_id s))) d) = Inr d1"
    and 2: "foldE (put_site a status seen (vb_bench_id s)) (vb_sites s) d1 = Inr d'"
    unfolding put_bench_def bindE_eq_Inr by blast
  have "agents d1 = agents d" using 1 by (auto simp: bench_set_def dest: be_insert_ok split: if_splits)
  moreover have "agents d' = agents d1"
    by (rule foldE_invariant [OF 2]) (auto simp: put_site_def site_set_def dest: si_insert_ok split: if_splits)
  ultimately show ?thesis by simp
qed

lemma fold_agents: "(\<And>x d. agents (f x d) = agents d) \<Longrightarrow> agents (fold f xs d) = agents d"
  by (induction xs arbitrary: d) simp_all

lemma upgrade_part_seen [simp]: "upgrade_part (agent_seen h revision seen a) = upgrade_part a"
  by (simp add: upgrade_part_def agent_seen_def)

lemma replace_upgrades: "replace_inventory n h previous revision seen d = Inr d' \<Longrightarrow> same_upgrades d d'"
proof -
  assume "replace_inventory n h previous revision seen d = Inr d'"
  then obtain a bs d2 d3 where f: "foldE (put_bench a (hb_status h) seen) bs d2 = Inr d3" and d2: "agents d2 = agents d"
    and d': "d' = agent_set (sa_name a) (agent_seen h revision seen) d3"
    unfolding replace_inventory_def Let_def bindE_eq_Inr
    by (auto simp: fold_agents retire_bench_def retire_site_def bench_set_def site_set_def)
  have "agents d3 = agents d" by (rule foldE_invariant [OF f]) (auto simp: d2 dest: put_bench_agents)
  then show ?thesis unfolding d' by (intro same_upgrades_trans [OF same_upgrades_refl same_upgrades_set]) simp_all
qed

lemma heartbeat_upgrades: "inventory_hook n state now d = Inr d' \<Longrightarrow> same_upgrades d d'"
  unfolding inventory_hook_def reconcile_inventory_def Let_def bindE_eq_Inr
  by (auto simp: bindE_eq_Inr frappe_inventory_def dest: replace_upgrades)


lemma callback_upgrades:
  assumes "route_callback wide rt now r settings n raw peer d = Inr (payload, d')"
  shows "same_upgrades d d'"
proof (cases r)
  case RNegotiate
  then show ?thesis using assms by (auto simp: route_callback_def bindE_eq_Inr)
next
  case RHeartbeat
  obtain body a where c: "(case jget body ''state'' of
       JObj state \<Rightarrow>
         bindE (record_heartbeat state) (\<lambda>_.
         bindE (inventory_hook a state now d) (\<lambda>d'.
         bindE (timestamp (Aware now)) (\<lambda>t.
         Inr (JObj [(''accepted'', JBool True), (''server_time'', JStr t)], d'))))
     | _ \<Rightarrow> Inl (request_error ''invalid_heartbeat_state'')) = Inr (payload, d')"
    using assms RHeartbeat unfolding route_callback_def route.case heartbeat_def bindE_eq_Inr
    by (auto simp only: route.case bindE_eq_Inr)
  then show ?thesis using heartbeat_upgrades by (auto simp: bindE_eq_Inr split: json.splits)
next
  case RPoll
  then show ?thesis using assms
    by (auto simp: route_callback_def poll_commands_def route_lease_def bindE_eq_Inr dest: lease_agents)
next
  case REvents
  then show ?thesis using assms
    by (auto simp: route_callback_def submit_events_def bindE_eq_Inr dest: events_agents)
next
  case RResult
  obtain body a m where c: "(case jget body ''result'' of
       JObj result \<Rightarrow>
         bindE (require (m = py_lower (str_of (jget body ''operation_id''))) (request_error ''invalid_result'')) (\<lambda>_.
         bindE (check_reported_result result) (\<lambda>_.
         bindE (result_ingestion_hook (frappe_ingestion rt) a m result (Aware now) d) (\<lambda>d'.
         Inr (JObj [(''accepted'', JBool True)], d'))))
     | _ \<Rightarrow> Inl (request_error ''invalid_result'')) = Inr (payload, d')"
    using assms RResult unfolding route_callback_def route.case submit_result_def bindE_eq_Inr
    by (auto simp only: route.case bindE_eq_Inr)
  then show ?thesis using result_agents same_upgrades_refl by (auto simp: bindE_eq_Inr split: json.splits)
qed


lemma upgrade_part_counter [simp]: "upgrade_part (x\<lparr>sa_last_signed_ns := v\<rparr>) = upgrade_part x"
  by (simp add: upgrade_part_def)

lemma verify_upgrades: "verify_request verify now_ns rq action d = Inr (peer, n, d') \<Longrightarrow> same_upgrades d d'"
  by (erule verify_request_ok) (simp add: same_upgrades_set)

lemma agent_route_upgrades:
  assumes "agent_route verify cfg wide rt now_ns now r rq d = (resp, d')"
  shows "same_upgrades d d'"
proof (cases "verify_request verify now_ns rq (route_action r) d")
  case (Inl e)
  then show ?thesis using assms by (simp add: agent_route_def route_dispatch_def)
next
  case (Inr x)
  obtain peer n d1 where x: "x = (peer, n, d1)" by (cases x) auto
  have "answer (r = RPoll) d1 (bindE (request_body rq max_request_bytes) (\<lambda>raw.
      bindE (components cfg) (\<lambda>settings. route_callback wide rt now r settings n raw peer d1))) = (resp, d')"
    using assms Inr x by (simp add: agent_route_def route_dispatch_def)
  from answer_cases [OF this] have "d' = d1 \<or> (\<exists>settings raw payload. route_callback wide rt now r settings n raw peer d1 = Inr (payload, d'))"
    by (auto simp: bindE_eq_Inr)
  then have "same_upgrades d1 d'" using callback_upgrades by auto
  then show ?thesis by (rule same_upgrades_trans [OF verify_upgrades [OF Inr [unfolded x]]])
qed

section \<open>Histories\<close>

text \<open>What can happen to the upgrades of the agents: the calls of an administrator, the parts of a request of an
  agent's helper, the requests of agents, the form, and whatever leaves the upgrades alone.\<close>

inductive upgrade_step :: "signature_check \<Rightarrow> db \<Rightarrow> db \<Rightarrow> bool" for verify where
  request: "request_agent_upgrade wide rt text d = Inr (x, d') \<Longrightarrow> upgrade_step verify d d'"
| refresh: "refresh_agent_drain rt n d = Inr (x, d') \<Longrightarrow> upgrade_step verify d d'"
| confirm: "confirm_agent_deployment rt n digest d = Inr (x, d') \<Longrightarrow> upgrade_step verify d d'"
| rollback: "request_agent_rollback rt n code d = Inr (x, d') \<Longrightarrow> upgrade_step verify d d'"
| cancelled: "cancel_agent_upgrade rt n d = Inr (x, d') \<Longrightarrow> upgrade_step verify d d'"
| confirm_rollback: "confirm_agent_rollback rt n digest d = Inr (x, d') \<Longrightarrow> upgrade_step verify d d'"
| verified: "verify_agent_deployment rt n d = Inr (x, d') \<Longrightarrow> upgrade_step verify d d'"
| helper: "upgrade_action rt n action digest d = Inr (x, d') \<Longrightarrow> upgrade_step verify d d'"
| signed: "verify_request verify now_ns rq action d = Inr (peer, n, d') \<Longrightarrow> upgrade_step verify d d'"
| agent: "agent_route verify cfg wide rt now_ns now r rq d = (resp, d') \<Longrightarrow> upgrade_step verify d d'"
| form: "sa_save False a d = Inr d' \<Longrightarrow> upgrade_step verify d d'"
| new: "sa_insert False a d = Inr d' \<Longrightarrow> sa_name a = sa_agent_id a \<Longrightarrow> upgrade_step verify d d'"
| other: "same_upgrades d d' \<Longrightarrow> upgrade_step verify d d'"

inductive upgrade_run :: "signature_check \<Rightarrow> db \<Rightarrow> db \<Rightarrow> bool" for verify where
  start: "upgrade_run verify d d"
| step: "upgrade_run verify d d1 \<Longrightarrow> upgrade_step verify d1 d2 \<Longrightarrow> upgrade_run verify d d2"

text \<open>A step is a move, a save from the form, a new agent, or changes no upgrade.\<close>

lemma step_cases:
  assumes "upgrade_step verify d d'"
  shows "moved d d' \<or> (\<exists>a. sa_save False a d = Inr d') \<or> (\<exists>a. sa_insert False a d = Inr d' \<and> sa_name a = sa_agent_id a) \<or> same_upgrades d d'"
  using assms
  by (induction rule: upgrade_step.induct)
     (blast intro: moved_request moved_refresh moved_confirm moved_rollback moved_cancel moved_confirm_rollback
        moved_verify moved_action verify_upgrades agent_route_upgrades)+

lemma step_ok: "upgrade_step verify d d' \<Longrightarrow> upgrades_ok d \<Longrightarrow> upgrades_ok d'"
  using step_cases moved_ok form_save_ok insert_agent_ok same_upgrades_ok by metis

lemma upgrade_route_run:
  assumes "upgrade_route verify cfg wide rt now_ns now rq d = (resp, d')"
  shows "upgrade_run verify d d'"
proof (cases "bindE (upgrade_body wide rq) (\<lambda>body. bindE (verify_request verify now_ns rq ''upgrade'' d) (\<lambda>v. Inr (body, v)))")
  case (Inl e)
  then show ?thesis using assms by (simp add: upgrade_route_def upgrade_run.start)
next
  case (Inr x)
  obtain n action observed peer routed d1 where x: "x = ((n, action, observed), (peer, routed, d1))" by (cases x) auto
  have "verify_request verify now_ns rq ''upgrade'' d = Inr (peer, routed, d1)" using Inr x by (auto simp: bindE_eq_Inr)
  then have 1: "upgrade_run verify d d1" using upgrade_run.start upgrade_run.step upgrade_step.signed by metis
  have "d' = d1 \<or> (\<exists>payload. upgrade_action rt n action observed d1 = Inr (payload, d'))"
    using assms Inr x by (auto simp: upgrade_route_def bindE_eq_Inr split: sum.splits)
  then show ?thesis using 1 upgrade_run.step upgrade_step.helper by metis
qed


section \<open>What a step may change\<close>

lemma get_row_same_upgrades:
  assumes "same_upgrades d d'"
  shows "map_option upgrade_part (get_row sa_name (agents d') n) = map_option upgrade_part (get_row sa_name (agents d) n)"
proof -
  have "map upgrade_part t' = map upgrade_part t \<Longrightarrow>
      map_option upgrade_part (get_row sa_name t' n) = map_option upgrade_part (get_row sa_name t n)" for t t'
  proof (induction t arbitrary: t')
    case (Cons a t)
    then show ?case by (cases t') (auto simp: get_row_def upgrade_part_def)
  qed (simp add: get_row_def)
  then show ?thesis using assms by (simp add: same_upgrades_def)
qed

lemma upgrade_part_state: "upgrade_part a = upgrade_part b \<Longrightarrow> sa_upgrade_state a = sa_upgrade_state b"
  by (simp add: upgrade_part_def)

lemma changed_state_moved:
  assumes "upgrade_step verify d d'" "get_row sa_name (agents d) n = Some p" "get_row sa_name (agents d') n = Some a"
    "sa_upgrade_state a \<noteq> sa_upgrade_state p"
  obtains b where "upgrade_move d p b" "a = disabled_status b"
proof -
  from step_cases [OF assms(1)] consider "moved d d'" | b where "sa_save False b d = Inr d'"
    | b where "sa_insert False b d = Inr d'" | "same_upgrades d d'" by blast
  then show ?thesis
  proof cases
    case 1
    then obtain q b where q: "get_row sa_name (agents d) (sa_name q) = Some q" "upgrade_move d q b" "upgrade_save b d = Inr d'"
      using assms(2-4) by (auto simp: moved_def)
    obtain r where d': "d' = d\<lparr>agents := save_row sa_name (disabled_status b) (agents d)\<rparr>"
      by (rule sa_save_ok [OF q(3) [unfolded upgrade_save_def]])
    have "sa_name b = sa_name q" using move_name [OF q(2)] by simp
    then have "n = sa_name q \<and> a = disabled_status b"
      using assms(2-4) by (auto simp: d' get_save_row split: if_splits)
    then show ?thesis using that q assms(2) by simp
  next
    case 2
    obtain q where q: "get_row sa_name (agents d) (sa_name b) = Some q" "sa_agent_id q = sa_agent_id b"
      and d': "d' = d\<lparr>agents := save_row sa_name (disabled_status b) (agents d)\<rparr>"
      and f: "list_all (\<lambda>(f, eq). eq q (disabled_status b)) upgrade_fields"
      by (rule sa_save_ok [OF 2]) auto
    have "upgrade_part b = upgrade_part q" using form_keeps_upgrade [OF f _ q(2)] get_row_Some [OF q(1)] by simp
    then have "sa_upgrade_state b = sa_upgrade_state q" by (rule upgrade_part_state)
    then show ?thesis using assms(2-4) q by (auto simp: d' get_save_row split: if_splits)
  next
    case 3
    then obtain b1 where "agents d' = agents d @ [b1]" by (auto simp: sa_insert_def bindE_eq_Inr dest: insert_row_ok)
    then show ?thesis using assms(2-4) by (simp add: get_row_append)
  next
    case 4
    then show ?thesis using get_row_same_upgrades [OF 4, of n] assms(2-4) upgrade_part_state by auto
  qed
qed

definition state_of :: "string \<Rightarrow> db \<Rightarrow> string option" where
  "state_of n d = map_option sa_upgrade_state (get_row sa_name (agents d) n)"

section \<open>Calls that succeed\<close>

lemma deployed_simps [simp]:
  "sa_upgrade_state (deployed now digest state a) = state"
  "sa_protocol_version (deployed now digest state a) = sa_protocol_version a"
  "sa_audience (deployed now digest state a) = sa_audience a"
  "sa_previous_version (deployed now digest state a) = sa_previous_version a"
  by (simp_all add: deployed_def)

lemma verified_simps [simp]:
  "sa_upgrade_state (verified now state a) = state"
  "sa_protocol_version (verified now state a) = sa_protocol_version a"
  "sa_audience (verified now state a) = sa_audience a"
  by (simp_all add: verified_def)

lemma sa_columns_upgrade [simp]:
  "sa_columns (disabled_status a) = sa_columns a"
  "sa_columns (deployed now digest state a) = sa_columns a"
  "sa_columns (verified now state a) = sa_columns a"
  "sa_columns (a\<lparr>sa_upgrade_state := state\<rparr>) = sa_columns a"
  "sa_columns (a\<lparr>sa_failure_code := code\<rparr>) = sa_columns a"
  "sa_columns (a\<lparr>sa_drain_requested := b\<rparr>) = sa_columns a"
  by (simp_all add: sa_columns_def disabled_status_def deployed_def verified_def)

lemma upgrade_save_runs:
  assumes "get_row sa_name (agents d) (sa_name a) = Some p" "sa_agent_id a = sa_agent_id p"
    "sa_protocol_version a = sa_protocol_version p" "sa_audience a = sa_audience p"
    "sa_columns a = Inr ()" "upgrade_values a = Inr ()" "upgrade_identity a = Inr ()"
    "map_of upgrade_transitions (sa_upgrade_state p) = Some ts" "sa_upgrade_state a \<in> set ts"
  shows "upgrade_save a d = Inr (d\<lparr>agents := save_row sa_name (disabled_status a) (agents d)\<rparr>)"
proof -
  have "immutable_fields sa_fields (Some p) (disabled_status a) = Inr ()"
    using assms(2-4) by (simp add: immutable_fields_ok sa_fields_def same_def) (simp add: disabled_status_def)
  then show ?thesis using assms
    by (simp add: upgrade_save_def sa_save_def old_row_def of_option_def sa_validate_def upgrade_change_def Let_def)
qed

lemma get_saved: "get_row sa_name t (sa_name a) = Some p \<Longrightarrow> get_row sa_name (save_row sa_name (disabled_status a) t) (sa_name a) = Some (disabled_status a)"
  by (simp add: get_save_row)

text \<open>A row whose other columns pass the checks of the document.\<close>

definition clean_row :: "string \<Rightarrow> db \<Rightarrow> agent_row \<Rightarrow> bool" where
  "clean_row n d a \<longleftrightarrow> get_row sa_name (agents d) n = Some a \<and> sa_agent_id a = n \<and> sa_columns a = Inr () \<and> upgrade_sound a"

lemma clean_agent: "clean_row n d a \<Longrightarrow> upgrade_agent (JStr n) d = Inr a \<and> sa_name a = n"
  by (auto simp: clean_row_def upgrade_agent_def sa_columns_def result_simps of_option_def dest: get_row_Some)

lemma clean_saved:
  assumes "clean_row n d p" "sa_name a = n" "sa_agent_id a = n" "sa_columns a = Inr ()"
    "upgrade_move d p a" "upgrade_values a = Inr ()" "upgrade_identity a = Inr ()"
  shows "clean_row n (d\<lparr>agents := save_row sa_name (disabled_status a) (agents d)\<rparr>) (disabled_status a)"
proof -
  have "upgrade_sound a" using move_sound [OF assms(5)] assms(1,6,7) by (simp add: clean_row_def)
  then have "upgrade_sound (disabled_status a)" using upgrade_sound_part upgrade_part_disabled by metis
  then show ?thesis using assms(1-4) get_saved [of "agents d" a p] by (simp add: clean_row_def)
qed

lemma clean_move:
  assumes c: "clean_row n d p" and m: "upgrade_move d p a" and col: "sa_columns a = Inr ()"
    and same: "sa_protocol_version a = sa_protocol_version p" "sa_audience a = sa_audience p"
    and v: "upgrade_values a = Inr ()" "upgrade_identity a = Inr ()"
    and t: "map_of upgrade_transitions (sa_upgrade_state p) = Some ts" "sa_upgrade_state a \<in> set ts"
  shows "\<exists>d'. upgrade_save a d = Inr d' \<and> clean_row n d' (disabled_status a) \<and> operations d' = operations d"
proof -
  have n: "sa_name a = n" "sa_agent_id a = n" "sa_agent_id a = sa_agent_id p"
    using c move_name [OF m] clean_agent [OF c] by (simp_all add: clean_row_def)
  have g: "get_row sa_name (agents d) (sa_name a) = Some p" using c n by (simp add: clean_row_def)
  show ?thesis using upgrade_save_runs [OF g n(3) same col v t] clean_saved [OF c n(1,2) col m v] by auto
qed


lemma attributed_digests:
  assumes "upgrade_sound a" "sa_upgrade_state a \<notin> set stable_states"
  obtains dv dd pv pd where "sa_desired_version a = Some dv" "sa_desired_digest a = Some dd" "is_sha256 dd"
    "sa_previous_version a = Some pv" "sa_previous_digest a = Some pd" "is_sha256 pd" "upgrade_attributed a"
proof -
  have "upgrade_attributed a" "upgrade_values a = Inr ()" using assms by (auto simp: upgrade_sound_def)
  moreover from this obtain dv dd pv pd where "sa_desired_version a = Some dv" "sa_desired_digest a = Some dd"
    "sa_previous_version a = Some pv" "sa_previous_digest a = Some pd" "dd \<noteq> []" "pd \<noteq> []"
    by (auto simp: upgrade_attributed_def truthy_def split: option.splits)
  ultimately show ?thesis using that
    by (auto simp: upgrade_values_def sha256_or_empty_def result_simps)
qed

lemma cancel_runs:
  assumes "clean_row n d a" "sa_upgrade_state a \<in> set pre_deployment" "upgrade_admin rt = Inr user"
  shows "\<exists>x d'. cancel_agent_upgrade rt n d = Inr (x, d') \<and> state_of n d' = Some ''cancelled''
    \<and> (\<exists>b. get_row sa_name (agents d') n = Some b \<and> \<not> sa_drain_requested b)"
proof -
  let ?b = "a\<lparr>sa_upgrade_state := ''cancelled'', sa_failure_code := Some ''operator_requested'', sa_drain_requested := False\<rparr>"
  have s: "upgrade_sound a" and c: "sa_columns a = Inr ()" using assms(1) by (simp_all add: clean_row_def)
  have "sa_deployed_at a = None" using sound_facts(2) [OF s assms(2)] .
  then have i: "upgrade_identity ?b = Inr ()"
    by (simp add: identity_ok stable_states_def terminal_identity_def)
  have v: "upgrade_values ?b = Inr ()" using s by (simp add: upgrade_sound_def upgrade_values_def result_simps failures_def)
  obtain ts where t: "map_of upgrade_transitions (sa_upgrade_state a) = Some ts" "''cancelled'' \<in> set ts"
    using assms(2) by (auto simp: pre_deployment_def upgrade_transitions_def)
  have "sa_columns ?b = Inr ()" using c by simp
  with clean_move [OF assms(1) upgrade_move.cancel [OF assms(2)] _ _ _ v i t(1)] t(2)
  obtain d' where d': "upgrade_save ?b d = Inr d'" "clean_row n d' (disabled_status ?b)" by auto
  then show ?thesis using clean_agent [OF assms(1)] assms(2,3)
    by (auto simp: cancel_agent_upgrade_def save_and_answer_def state_of_def clean_row_def)
qed

lemma rollback_runs:
  assumes "clean_row n d a" "sa_upgrade_state a = ''verifying''" "upgrade_admin rt = Inr user"
  shows "\<exists>x d' b. request_agent_rollback rt n ''health_timeout'' d = Inr (x, d') \<and> clean_row n d' b
    \<and> sa_upgrade_state b = ''rollback_required'' \<and> sa_previous_version b = sa_previous_version a \<and> operations d' = operations d"
proof -
  let ?b = "a\<lparr>sa_failure_code := Some ''health_timeout'', sa_upgrade_state := ''rollback_required''\<rparr>"
  have s: "upgrade_sound a" and c: "sa_columns a = Inr ()" using assms(1) by (simp_all add: clean_row_def)
  have "upgrade_attributed a" using s assms(2) by (simp add: upgrade_sound_def stable_states_def)
  then have i: "upgrade_identity ?b = Inr ()"
    by (simp add: identity_ok stable_states_def terminal_identity_def upgrade_attributed_def)
  have v: "upgrade_values ?b = Inr ()" using s by (simp add: upgrade_sound_def upgrade_values_def result_simps failures_def)
  have m: "upgrade_move d a ?b" by (rule upgrade_move.fail) (simp_all add: assms(2) failures_def)
  have "sa_columns ?b = Inr ()" using c by simp
  with clean_move [OF assms(1) m _ _ _ v i] assms(2)
  obtain d' where d': "upgrade_save ?b d = Inr d'" "clean_row n d' (disabled_status ?b)" "operations d' = operations d"
    by (auto simp: upgrade_transitions_def)
  have "\<exists>x. request_agent_rollback rt n ''health_timeout'' d = Inr (x, d')"
    using clean_agent [OF assms(1)] assms(2,3) d'(1) by (simp add: request_agent_rollback_def save_and_answer_def failures_def)
  moreover have "sa_upgrade_state (disabled_status ?b) = ''rollback_required''" "sa_previous_version (disabled_status ?b) = sa_previous_version a"
    by (simp_all add: disabled_status_def)
  ultimately show ?thesis using d'(2,3) by blast
qed

lemma confirm_rollback_runs:
  assumes "clean_row n d a" "sa_upgrade_state a = ''rollback_required''" "upgrade_admin rt = Inr user" "\<not> has_active_operations n d"
  shows "\<exists>x d' b digest. confirm_agent_rollback rt n digest d = Inr (x, d') \<and> clean_row n d' b
    \<and> sa_upgrade_state b = ''rollback_verifying'' \<and> sa_previous_version b = sa_previous_version a \<and> operations d' = operations d"
proof -
  have s: "upgrade_sound a" and c: "sa_columns a = Inr ()" using assms(1) by (simp_all add: clean_row_def)
  obtain pd where pd: "sa_previous_digest a = Some pd" "is_sha256 pd" "upgrade_attributed a"
    by (rule attributed_digests [OF s]) (auto simp: assms(2) stable_states_def)
  let ?b = "deployed (rt_now rt) pd ''rollback_verifying'' a"
  have i: "upgrade_identity ?b = Inr ()"
    using pd by (simp add: identity_ok stable_states_def terminal_identity_def upgrade_attributed_def deployed_def)
  have v: "upgrade_values ?b = Inr ()"
    using s pd by (simp add: upgrade_sound_def upgrade_values_def result_simps deployed_def sha256_or_empty_def)
  have n: "sa_name a = n" using clean_agent [OF assms(1)] by simp
  have m: "upgrade_move d a ?b" by (rule upgrade_move.redeploy [OF assms(2) pd(1)]) (simp add: n assms(4))
  obtain d' where d': "upgrade_save ?b d = Inr d'" "clean_row n d' (disabled_status ?b)" "operations d' = operations d"
    using clean_move [OF assms(1) m _ _ _ v i] c assms(2) by (auto simp: upgrade_transitions_def)
  have "confirm_agent_rollback rt n pd d = Inr (state_answer ?b [], d')"
    using clean_agent [OF assms(1)] assms(2-4) d'(1) pd by (simp add: confirm_agent_rollback_def save_and_answer_def upgrade_text_def catchE_def)
  moreover have "sa_upgrade_state (disabled_status ?b) = ''rollback_verifying''" "sa_previous_version (disabled_status ?b) = sa_previous_version a"
    by simp_all
  ultimately show ?thesis using d'(2,3) by blast
qed

lemma capabilities_column: "sa_columns a = Inr () \<Longrightarrow> sa_columns (agent_seen h revision seen a) = Inr ()"
proof -
  let ?v = "JList (map JStr (sort (remdups (concat (map vb_capabilities (vi_benches (hb_inventory h)))))))"
  have "json_loads (json_dumps ?v) = Inr ?v"
    using loads_dumps [OF keeps_hooks(1), of ?v] by (simp add: json_loads_def list_all_iff del: json_dumps.simps)
  moreover have "json_column (Some (json_dumps ?v)) = json_dumps ?v" by (simp add: json_column_def)
  ultimately have "require_json (Some (json_column (sa_capabilities (agent_seen h revision seen a)))) ''capabilities_json'' List_shape = Inr ?v"
    by (simp add: agent_seen_def require_json_ok has_shape_def del: json_dumps.simps)
  then show "sa_columns a = Inr () \<Longrightarrow> ?thesis"
    by (auto simp: sa_columns_def bindE_eq_Inr agent_seen_def simp del: json_dumps.simps)
qed

lemma verify_runs:
  assumes "clean_row n d a" "awaited a = Some (version, digest, state)" "upgrade_admin rt = Inr user" "\<not> has_active_operations n d"
    "healthy_heartbeat version a"
  shows "\<exists>x d'. verify_agent_deployment rt n d = Inr (x, d') \<and> state_of n d' = Some state"
proof -
  have s: "upgrade_sound a" and c: "sa_columns a = Inr ()" using assms(1) by (simp_all add: clean_row_def)
  let ?b = "verified (rt_now rt) state a"
  have o1: "sa_observed_digest a = digest" using s assms(2) by (auto simp: upgrade_sound_def)
  have st: "sa_upgrade_state a = ''verifying'' \<and> version = sa_desired_version a \<and> digest = sa_desired_digest a \<and> state = ''succeeded''
     \<or> sa_upgrade_state a = ''rollback_verifying'' \<and> version = sa_previous_version a \<and> digest = sa_previous_digest a \<and> state = ''rolled_back''"
    using assms(2) by (auto simp: awaited_def split: if_splits)
  have i: "upgrade_identity ?b = Inr ()"
    using st o1 assms(5) by (auto simp: identity_ok stable_states_def terminal_identity_def verified_def healthy_heartbeat_def)
  have v: "upgrade_values ?b = Inr ()" using s by (simp add: upgrade_sound_def upgrade_values_def verified_def)
  have n: "sa_name a = n" using clean_agent [OF assms(1)] by simp
  have m: "upgrade_move d a ?b" by (rule upgrade_move.verify [OF assms(2) o1 _ assms(5)]) (simp add: n assms(4))
  obtain ts where t: "map_of upgrade_transitions (sa_upgrade_state a) = Some ts" "state \<in> set ts"
    using st by (auto simp: upgrade_transitions_def)
  obtain d' where d': "upgrade_save ?b d = Inr d'" "clean_row n d' (disabled_status ?b)"
    using clean_move [OF assms(1) m _ _ _ v i t(1)] c t(2) by auto
  then show ?thesis using clean_agent [OF assms(1)] assms(2-5) o1
    by (auto simp: verify_agent_deployment_def save_and_answer_def state_of_def clean_row_def)
qed


section \<open>Claims\<close>

lemma run_upgrades_ok: "upgrade_run verify d d' \<Longrightarrow> upgrades_ok d \<Longrightarrow> upgrades_ok d'"
  by (induction rule: upgrade_run.induct) (auto intro: step_ok)

lemma draining_not_leased:
  assumes "upgrades_ok d" "a \<in> set (agents d)" "sa_drain_requested a"
  shows "lease_command lifetime skew (sa_name a) allowed wanted clock d = Inr (None, d)"
proof -
  have "\<not> leasable d (sa_name a) allowed now r" for now r
  proof (cases "get_row sa_name (agents d) (op_server_agent r)")
    case (Some b)
    then have b: "b \<in> set (agents d)" using get_row_Some by metis
    have "sa_agent_id b = sa_name a \<Longrightarrow> b = a"
      using assms(1,2) b unfolding upgrades_ok_def by (metis distinct_map inj_on_def)
    then show ?thesis using Some assms(3) by (auto simp: leasable_def)
  qed (simp add: leasable_def)
  then have "candidates d (sa_name a) allowed now = []" for now by (simp add: candidates_def)
  then show ?thesis by (simp add: lease_command_def Let_def)
qed

lemma draining_not_dispatched:
  assumes "get_row op_name (operations d) n = Some r" "get_row sa_name (agents d) (op_server_agent r) = Some a" "sa_drain_requested a"
  shows "\<not> is_ok (dispatch lifetime n now d)"
proof
  assume "is_ok (dispatch lifetime n now d)"
  then obtain env d' where "dispatch lifetime n now d = Inr (env, d')" by (auto simp: is_ok_iff)
  then have b: "build_envelope lifetime d n now = Inr env" by (rule dispatch_ok) blast
  obtain j operation_id where j: "joined_operation d n = Some j" "check_identity_binding j = Inr operation_id"
    by (rule build_envelope_ok [OF b]) blast
  then have "\<not> sa_drain_requested (jo_agent j)" by (auto simp: check_identity_binding_def Let_def bindE_eq_Inr require_eq_Inr)
  then show False using joined_operation_ok [OF j(1)] assms by simp
qed

text \<open>
  C30: whatever administrators, agents, their helpers and the form do, an agent is drained exactly while
  its upgrade is active; an active upgrade says who asked for it and what is to replace what, what
  awaits verification and what was verified has the digest it should have. While the upgrade is
  active the agent leases no command and none is dispatched for it.
\<close>

theorem upgrades_drained:
  assumes "upgrade_run verify d d'" and "upgrades_ok d" and "a \<in> set (agents d')"
  shows "upgrade_sound a \<and> (sa_drain_requested a \<longleftrightarrow> sa_upgrade_state a \<notin> set stable_states)
    \<and> (sa_upgrade_state a \<notin> set stable_states \<longrightarrow>
        lease_command lifetime skew (sa_name a) allowed wanted clock d' = Inr (None, d')
        \<and> (\<forall>r\<in>set (operations d'). get_row op_name (operations d') (op_name r) = Some r \<longrightarrow> op_server_agent r = sa_name a \<longrightarrow>
             \<not> is_ok (dispatch lifetime (op_name r) now d')))"
proof -
  have ok: "upgrades_ok d'" using run_upgrades_ok assms(1,2) by blast
  then have s: "upgrade_sound a" and n: "distinct (map sa_name (agents d'))" using assms(3) by (auto simp: upgrades_ok_def)
  have "get_row sa_name (agents d') (sa_name a) = Some a"
  proof -
    have "get_row sa_name (agents d') (sa_name a) \<noteq> None" using assms(3) by (simp add: get_row_None)
    then obtain b where g: "get_row sa_name (agents d') (sa_name a) = Some b" by blast
    have "b \<in> set (agents d')" "sa_name b = sa_name a" using get_row_Some [OF g] by simp_all
    then have "b = a" using n assms(3) by (auto simp: distinct_map dest: inj_onD)
    then show ?thesis using g by simp
  qed
  then show ?thesis using s sound_facts(1) [OF s] draining_not_leased [OF ok assms(3)] draining_not_dispatched by auto
qed

text \<open>
  C31: an upgrade moves only along the table and only by a call of the controller. It awaits verification
  only with nothing leased or running at the agent and the expected image confirmed; it succeeds or
  is rolled back only out of that state, with nothing leased or running, the agent online and
  ready, of the expected version, and seen since the deployment.
\<close>

theorem upgrade_verified:
  assumes "upgrade_step verify d d'" and "upgrades_ok d"
    and "get_row sa_name (agents d) n = Some p" and "get_row sa_name (agents d') n = Some a"
    and "sa_upgrade_state a \<noteq> sa_upgrade_state p"
  shows "(\<exists>ts. map_of upgrade_transitions (sa_upgrade_state p) = Some ts \<and> sa_upgrade_state a \<in> set ts)
    \<and> (\<forall>version digest state. awaited a = Some (version, digest, state) \<longrightarrow>
        \<not> has_active_operations n d \<and> digest \<noteq> None \<and> sa_observed_digest a = digest \<and> sa_deployed_at a \<noteq> None)
    \<and> (\<forall>version digest. map_of (terminal_identity a) (sa_upgrade_state a) = Some (version, digest) \<longrightarrow>
        awaited p = Some (version, digest, sa_upgrade_state a) \<and> sa_observed_digest p = digest
        \<and> \<not> has_active_operations n d \<and> healthy_heartbeat version p)"
proof -
  obtain b where m: "upgrade_move d p b" and a: "a = disabled_status b"
    by (rule changed_state_moved [OF assms(1,3-5)])
  have part: "upgrade_part a = upgrade_part b" by (simp add: a)
  have n: "sa_name p = n" using get_row_Some [OF assms(3)] by simp
  have st: "sa_upgrade_state b \<noteq> sa_upgrade_state p" using assms(5) by (simp add: a)
  have "(\<exists>ts. map_of upgrade_transitions (sa_upgrade_state p) = Some ts \<and> sa_upgrade_state b \<in> set ts)
    \<and> (\<forall>version digest state. awaited b = Some (version, digest, state) \<longrightarrow>
        \<not> has_active_operations n d \<and> digest \<noteq> None \<and> sa_observed_digest b = digest \<and> sa_deployed_at b \<noteq> None)
    \<and> (\<forall>version digest. map_of (terminal_identity b) (sa_upgrade_state b) = Some (version, digest) \<longrightarrow>
        awaited p = Some (version, digest, sa_upgrade_state b) \<and> sa_observed_digest p = digest
        \<and> \<not> has_active_operations n d \<and> healthy_heartbeat version p)"
    using m n st
  proof (induction rule: upgrade_move.induct)
    case (plan p desired previous version actor now)
    then show ?case by (auto simp: planned_upgrade_def upgrade_transitions_def awaited_def terminal_identity_def stable_states_def)
  next
    case (drain p)
    then show ?case using drain_state_cases [of p d]
      by (elim disjE) (auto simp: upgrade_transitions_def awaited_def terminal_identity_def pre_deployment_def)
  next
    case (deploy p digest now)
    then show ?case by (simp add: deployed_def upgrade_transitions_def awaited_def terminal_identity_def)
  next
    case (redeploy p digest now)
    then show ?case by (simp add: deployed_def upgrade_transitions_def awaited_def terminal_identity_def)
  next
    case (fail p code)
    then show ?case by (auto simp: upgrade_transitions_def awaited_def terminal_identity_def)
  next
    case (cancel p)
    then show ?case by (auto simp: upgrade_transitions_def awaited_def terminal_identity_def pre_deployment_def)
  next
    case (verify p version digest state now)
    then show ?case by (auto simp: verified_def upgrade_transitions_def awaited_def terminal_identity_def split: if_splits)
  qed simp
  moreover have "awaited a = awaited b" "terminal_identity a = terminal_identity b" "sa_upgrade_state a = sa_upgrade_state b"
    "sa_observed_digest a = sa_observed_digest b" "sa_deployed_at a = sa_deployed_at b"
    using part by (simp_all add: upgrade_part_def awaited_def terminal_identity_def)
  ultimately show ?thesis by simp
qed

text \<open>The calls of an administrator that lead a failed deployment back.\<close>

inductive admin_run :: "runtime \<Rightarrow> string \<Rightarrow> db \<Rightarrow> db \<Rightarrow> bool" for rt n where
  stop: "admin_run rt n d d"
| rollback: "request_agent_rollback rt n code d = Inr (x, d1) \<Longrightarrow> admin_run rt n d1 d2 \<Longrightarrow> admin_run rt n d d2"
| redeployed: "confirm_agent_rollback rt n digest d = Inr (x, d1) \<Longrightarrow> admin_run rt n d1 d2 \<Longrightarrow> admin_run rt n d d2"

text \<open>The next healthy heartbeat of a version, recorded after the deployment, lets the upgrade be closed.\<close>

definition ended_by_heartbeat :: "runtime \<Rightarrow> string \<Rightarrow> string option \<Rightarrow> string \<Rightarrow> db \<Rightarrow> bool" where
  "ended_by_heartbeat rt n version state d \<longleftrightarrow>
     (\<forall>h revision seen. Some (hb_version h) = version \<longrightarrow> hb_status h = ''ready'' \<longrightarrow>
        (\<forall>a t. get_row sa_name (agents d) n = Some a \<longrightarrow> sa_deployed_at a = Some t \<longrightarrow> t \<le> seen) \<longrightarrow>
        (\<exists>x d'. verify_agent_deployment rt n (agent_set n (agent_seen h revision seen) d) = Inr (x, d') \<and> state_of n d' = Some state))"

lemma awaited_seen: "awaited (agent_seen h revision seen a) = awaited a"
  by (simp add: awaited_def agent_seen_def)

lemma ended_by_heartbeatI:
  assumes "clean_row n d a" "awaited a = Some (version, digest, state)" "upgrade_admin rt = Inr user" "\<not> has_active_operations n d"
  shows "ended_by_heartbeat rt n version state d"
  unfolding ended_by_heartbeat_def
proof (intro allI impI)
  fix h :: heartbeat_inventory and revision seen
  assume v: "Some (hb_version h) = version" "hb_status h = ''ready''"
    and t: "\<forall>a t. get_row sa_name (agents d) n = Some a \<longrightarrow> sa_deployed_at a = Some t \<longrightarrow> t \<le> seen"
  let ?d = "agent_set n (agent_seen h revision seen) d" and ?a = "agent_seen h revision seen a"
  have s: "upgrade_sound a" and g: "get_row sa_name (agents d) n = Some a" using assms(1) by (simp_all add: clean_row_def)
  have nm: "sa_name (agent_seen h revision seen x) = sa_name x" for x by (simp add: agent_seen_def)
  have "get_row sa_name (agents ?d) n = Some ?a"
    using g get_row_set_rows [of sa_name "agent_seen h revision seen" n "agents d" n] nm by (simp add: agent_set_def)
  moreover have "upgrade_sound ?a" using s upgrade_sound_part [of ?a a] by simp
  moreover have "sa_agent_id ?a = sa_agent_id a" by (simp add: agent_seen_def)
  ultimately have c: "clean_row n ?d ?a" using assms(1) capabilities_column [of a h revision seen] by (simp add: clean_row_def)
  obtain t0 where t0: "sa_deployed_at a = Some t0" using s assms(2) by (auto simp: upgrade_sound_def)
  have "healthy_heartbeat version ?a" using v t g t0 by (auto simp: healthy_heartbeat_def agent_seen_def)
  moreover have "\<not> has_active_operations n ?d"
    using assms(4) by (simp add: has_active_operations_def op_counts_def count_ops_def agent_set_def)
  ultimately show "\<exists>x d'. verify_agent_deployment rt n ?d = Inr (x, d') \<and> state_of n d' = Some state"
    using verify_runs [OF c _ assms(3)] assms(2) awaited_seen by simp
qed

lemma active_same: "operations d' = operations d \<Longrightarrow> has_active_operations n d' = has_active_operations n d"
  by (simp add: has_active_operations_def op_counts_def count_ops_def)

lemma rollback_ends:
  assumes "clean_row n d a" "sa_upgrade_state a \<in> {''verifying'', ''rollback_required'', ''rollback_verifying''}"
    "upgrade_admin rt = Inr user" "\<not> has_active_operations n d"
  shows "\<exists>d'. admin_run rt n d d' \<and> ended_by_heartbeat rt n (sa_previous_version a) ''rolled_back'' d'"
proof -
  have last: "ended_by_heartbeat rt n (sa_previous_version b) ''rolled_back'' d'"
    if "clean_row n d' b" "sa_upgrade_state b = ''rollback_verifying''" "\<not> has_active_operations n d'" for d' b
    using ended_by_heartbeatI [OF that(1) _ assms(3) that(3)] that(2) by (simp add: awaited_def)
  have mid: "\<exists>d2. admin_run rt n d1 d2 \<and> ended_by_heartbeat rt n (sa_previous_version b) ''rolled_back'' d2"
    if b: "clean_row n d1 b" "sa_upgrade_state b = ''rollback_required''" "\<not> has_active_operations n d1" for d1 b
  proof -
    obtain x d2 c digest where c: "confirm_agent_rollback rt n digest d1 = Inr (x, d2)" "clean_row n d2 c"
      "sa_upgrade_state c = ''rollback_verifying''" "sa_previous_version c = sa_previous_version b" "operations d2 = operations d1"
      using confirm_rollback_runs [OF b(1,2) assms(3) b(3)] by blast
    then show ?thesis using last [OF c(2,3)] b(3) active_same [OF c(5)] admin_run.intros by metis
  qed
  show ?thesis
    using assms(2)
  proof (elim insertE emptyE)
    assume v: "sa_upgrade_state a = ''verifying''"
    obtain x d1 b where b: "request_agent_rollback rt n ''health_timeout'' d = Inr (x, d1)" "clean_row n d1 b"
      "sa_upgrade_state b = ''rollback_required''" "sa_previous_version b = sa_previous_version a" "operations d1 = operations d"
      using rollback_runs [OF assms(1) v assms(3)] by blast
    then show ?thesis using mid [OF b(2,3)] assms(4) active_same [OF b(5)] admin_run.rollback by metis
  next
    assume "sa_upgrade_state a = ''rollback_required''"
    then show ?thesis using mid [OF assms(1)] assms(4) by blast
  next
    assume "sa_upgrade_state a = ''rollback_verifying''"
    then show ?thesis using last [OF assms(1)] assms(4) admin_run.stop by blast
  qed
qed

text \<open>A leased or running operation of the agent holds its upgrade up after the deployment.\<close>

lemma held_up:
  assumes "clean_row n d a" "sa_upgrade_state a \<notin> set pre_deployment" "has_active_operations n d"
  shows "\<not> is_ok (cancel_agent_upgrade rt n d)" "\<not> is_ok (confirm_agent_rollback rt n digest d)"
    "\<not> is_ok (verify_agent_deployment rt n d)" "\<not> is_ok (upgrade_action rt n ''deployed'' digest d)"
    "\<not> is_ok (upgrade_action rt n ''verify'' digest d)"
proof -
  have g: "get_row sa_name (agents d) n = Some a" "sa_name a = n" "upgrade_agent (JStr n) d = Inr a"
    using assms(1) clean_agent [OF assms(1)] by (simp_all add: clean_row_def)
  show "\<not> is_ok (cancel_agent_upgrade rt n d)" "\<not> is_ok (confirm_agent_rollback rt n digest d)"
    "\<not> is_ok (verify_agent_deployment rt n d)"
    using g assms(2,3) by (auto simp: is_ok_iff cancel_agent_upgrade_def confirm_agent_rollback_def verify_agent_deployment_def result_simps)
  show "\<not> is_ok (upgrade_action rt n ''deployed'' digest d)" "\<not> is_ok (upgrade_action rt n ''verify'' digest d)"
    using g assms(2,3) by (auto simp: is_ok_iff upgrade_action_def upgrade_deployed_def upgrade_verify_def Let_def result_simps)
qed

text \<open>
  C32: how an active upgrade can be ended, and what alone holds it up, for an agent whose other columns pass the
  checks of its document. Before the deployment an administrator can cancel it, whatever is leased or running, which
  ends the drain. While the deployment awaits verification he can always ask for a rollback. After the deployment,
  as long as an operation of the agent is leased or running, nobody can end it: it can no longer be cancelled, and neither
  an administrator nor the helper can confirm a rollback or verify. As soon as none is, a healthy
  heartbeat of the desired version, seen after the deployment, lets it be verified; and from every such state the
  administrator can lead it back to where a healthy heartbeat of the version before lets the rollback be verified.
\<close>

theorem upgrade_ends:
  assumes "upgrades_ok d" and "get_row sa_name (agents d) n = Some a" and "sa_columns a = Inr ()"
    and "sa_upgrade_state a \<notin> set stable_states" and "upgrade_admin rt = Inr user"
  shows "(sa_upgrade_state a \<in> set pre_deployment \<longrightarrow>
      (\<exists>x d' b. cancel_agent_upgrade rt n d = Inr (x, d') \<and> state_of n d' = Some ''cancelled''
        \<and> get_row sa_name (agents d') n = Some b \<and> \<not> sa_drain_requested b))
    \<and> (sa_upgrade_state a = ''verifying'' \<longrightarrow>
      (\<exists>x d'. request_agent_rollback rt n ''health_timeout'' d = Inr (x, d') \<and> state_of n d' = Some ''rollback_required''))
    \<and> (sa_upgrade_state a \<notin> set pre_deployment \<longrightarrow> has_active_operations n d \<longrightarrow>
        (\<forall>who digest. \<not> is_ok (cancel_agent_upgrade who n d) \<and> \<not> is_ok (confirm_agent_rollback who n digest d)
          \<and> \<not> is_ok (verify_agent_deployment who n d) \<and> \<not> is_ok (upgrade_action who n ''deployed'' digest d)
          \<and> \<not> is_ok (upgrade_action who n ''verify'' digest d)))
    \<and> (sa_upgrade_state a \<notin> set pre_deployment \<longrightarrow> \<not> has_active_operations n d \<longrightarrow>
        (sa_upgrade_state a = ''verifying'' \<longrightarrow> ended_by_heartbeat rt n (sa_desired_version a) ''succeeded'' d)
        \<and> (\<exists>d'. admin_run rt n d d' \<and> ended_by_heartbeat rt n (sa_previous_version a) ''rolled_back'' d'))"
proof -
  have a: "upgrade_sound a" "sa_agent_id a = n" using get_row_Some [OF assms(2)] assms(1) by (auto simp: upgrades_ok_def)
  then have c: "clean_row n d a" using assms(2,3) by (simp add: clean_row_def)
  have "sa_upgrade_state a \<in> set (map fst upgrade_transitions)" by (rule sound_facts(3) [OF a(1)])
  then have st: "sa_upgrade_state a \<notin> set pre_deployment \<Longrightarrow>
      sa_upgrade_state a \<in> {''verifying'', ''rollback_required'', ''rollback_verifying''}"
    using assms(4) by (auto simp: upgrade_transitions_def stable_states_def pre_deployment_def)
  have "\<exists>x d'. request_agent_rollback rt n ''health_timeout'' d = Inr (x, d') \<and> state_of n d' = Some ''rollback_required''"
    if "sa_upgrade_state a = ''verifying''"
    using rollback_runs [OF c that assms(5)] by (auto simp: state_of_def clean_row_def)
  moreover have "ended_by_heartbeat rt n (sa_desired_version a) ''succeeded'' d"
    if "sa_upgrade_state a = ''verifying''" "\<not> has_active_operations n d"
    using ended_by_heartbeatI [OF c _ assms(5) that(2)] that(1) by (simp add: awaited_def)
  ultimately show ?thesis
    using cancel_runs [OF c _ assms(5)] rollback_ends [OF c st assms(5)] held_up [OF c] by blast
qed


section \<open>A version reported after the end\<close>

text \<open>Once a verified agent reports another version, no save of its document is accepted that leaves the upgrade
  as it is: it cannot even be disabled.\<close>

lemma reported_version_blocks_saves:
  assumes "map_of (terminal_identity a) (sa_upgrade_state a) = Some (version, digest)" "Some (hb_version h) \<noteq> version"
    and "upgrade_part b = upgrade_part a" "sa_agent_version b = sa_agent_version (agent_seen h revision seen a)"
  shows "\<not> is_ok (sa_save service b d)"
proof
  assume "is_ok (sa_save service b d)"
  then obtain d' where s: "sa_save service b d = Inr d'" by (auto simp: is_ok_iff)
  have "upgrade_identity b = Inr ()" by (rule sa_save_ok [OF s])
  moreover have "map_of (terminal_identity b) (sa_upgrade_state b) = Some (version, digest)"
    using assms(1,3) by (simp add: upgrade_part_def terminal_identity_def)
  ultimately have "sa_agent_version b = version" unfolding identity_ok by blast
  then show False using assms(2,4) by (simp add: agent_seen_def)
qed

section \<open>An agent that awaits verification\<close>

definition new_digest :: string where
  "new_digest = replicate 64 CHR ''b''"

definition verifying_agent :: agent_row where
  "verifying_agent =
     demo_agent\<lparr>sa_status := ''Online'', sa_reported_status := Some ''ready'', sa_agent_version := Some ''2.0'',
       sa_last_seen := Some 10, sa_drain_requested := True, sa_drain_by := Some ''alice'', sa_drain_at := Some 0,
       sa_upgrade_state := ''verifying'', sa_desired_version := Some ''2.0'', sa_desired_digest := Some new_digest,
       sa_previous_version := Some ''1.0'', sa_previous_digest := Some (replicate 64 CHR ''a''),
       sa_observed_digest := Some new_digest, sa_upgrade_by := Some ''alice'', sa_upgrade_at := Some 0,
       sa_deployed_at := Some 5\<rparr>"

definition verifying_db :: db where
  "verifying_db = empty_db\<lparr>agents := [verifying_agent]\<rparr>"

lemma verifying_columns: "sa_columns verifying_agent = Inr ()"
proof -
  have e: "json_loads ''[]'' = Inr (JList [])"
    using loads_dumps [OF keeps_hooks(1), of "JList []"] by (simp add: json_loads_def)
  have f: "json_loads (json_dumps (JList [JStr ''frappe''])) = Inr (JList [JStr ''frappe''])"
    using loads_dumps [OF keeps_hooks(1), of "JList [JStr ''frappe'']"] by (simp add: json_loads_def del: json_dumps.simps)
  have "server_agent_id ''agent-1''" by (simp add: server_agent_id_def string_defs)
  moreover have "is_ok (required_apps None)"
    by (simp add: required_apps_def f AgentIngestion.app_name_def string_defs of_option_def del: json_dumps.simps)
  ultimately show ?thesis
    by (simp add: sa_columns_def verifying_agent_def demo_agent_def json_column_def e require_json_def has_shape_def
        non_empty_strings_def sha256_or_empty_def)
qed

lemma verifying_sound: "upgrade_sound verifying_agent"
proof (rule soundI)
  show "upgrade_values verifying_agent = Inr ()"
    by (simp add: upgrade_values_def verifying_agent_def demo_agent_def image_version_def sha256_or_empty_def new_digest_def
        require_sha256_ok string_defs del: replicate.simps) (simp add: require_sha256_def is_hex_def is_digit_def del: replicate.simps)
  show "upgrade_identity verifying_agent = Inr ()"
    by (simp add: identity_ok stable_states_def terminal_identity_def upgrade_attributed_def verifying_agent_def demo_agent_def new_digest_def)
qed (simp_all add: verifying_agent_def demo_agent_def upgrade_transitions_def stable_states_def pre_deployment_def)

lemma verifying_ok: "upgrades_ok verifying_db"
  using verifying_sound by (simp add: upgrades_ok_def verifying_db_def empty_db_def) (simp add: verifying_agent_def demo_agent_def)

lemma verifying_facts:
  "get_row sa_name (agents verifying_db) ''agent-1'' = Some verifying_agent" "sa_agent_id verifying_agent = ''agent-1''"
  "sa_upgrade_state verifying_agent = ''verifying''" "operations verifying_db = []"
  by (simp_all add: verifying_db_def empty_db_def get_row_def verifying_agent_def demo_agent_def)

lemma verifying_clean: "clean_row ''agent-1'' verifying_db verifying_agent"
  by (simp add: clean_row_def verifying_facts verifying_columns verifying_sound)

lemma verifying_idle: "\<not> has_active_operations ''agent-1'' verifying_db"
  by (simp add: has_active_operations_def op_counts_def count_ops_def verifying_facts)

lemma demo_admin: "upgrade_admin demo_runtime = Inr ''alice''"
  by (simp add: upgrade_admin_def demo_runtime_def)

lemma upgrades_drained_witness:
  "\<exists>d' b. upgrade_run demo_check verifying_db d' \<and> b \<in> set (agents d') \<and> sa_upgrade_state b = ''rollback_required''
    \<and> sa_drain_requested b \<and> lease_command 300 30 (sa_name b) None (\<lambda>_ _. Inr True) (Aware 0) d' = Inr (None, d')"
proof -
  obtain x d' b where r: "request_agent_rollback demo_runtime ''agent-1'' ''health_timeout'' verifying_db = Inr (x, d')"
    and b: "clean_row ''agent-1'' d' b" "sa_upgrade_state b = ''rollback_required''"
    using rollback_runs [OF verifying_clean verifying_facts(3) demo_admin] by blast
  have run: "upgrade_run demo_check verifying_db d'"
    by (rule upgrade_run.step [OF upgrade_run.start upgrade_step.rollback [OF r]])
  have m: "b \<in> set (agents d')" using b(1) get_row_Some [of sa_name "agents d'" "''agent-1''" b] by (simp add: clean_row_def)
  show ?thesis
    using upgrades_drained [OF run verifying_ok m, of 300 30 None "\<lambda>_ _. Inr True" "Aware 0"] run m b(2)
    by (intro exI [of _ d'] exI [of _ b]) (simp add: stable_states_def)
qed

lemma upgrade_verified_witness:
  "\<exists>d' a. upgrade_step demo_check verifying_db d' \<and> get_row sa_name (agents d') ''agent-1'' = Some a
    \<and> sa_upgrade_state a = ''succeeded'' \<and> healthy_heartbeat (sa_desired_version a) verifying_agent"
proof -
  have h: "healthy_heartbeat (Some ''2.0'') verifying_agent"
    by (simp add: healthy_heartbeat_def verifying_agent_def demo_agent_def)
  have w: "awaited verifying_agent = Some (Some ''2.0'', Some new_digest, ''succeeded'')"
    by (simp add: awaited_def verifying_agent_def demo_agent_def)
  obtain x d' where v: "verify_agent_deployment demo_runtime ''agent-1'' verifying_db = Inr (x, d')"
    and st: "state_of ''agent-1'' d' = Some ''succeeded''"
    using verify_runs [OF verifying_clean w demo_admin verifying_idle h] by blast
  obtain a where a: "get_row sa_name (agents d') ''agent-1'' = Some a" "sa_upgrade_state a = ''succeeded''"
    using st by (auto simp: state_of_def)
  have step: "upgrade_step demo_check verifying_db d'" by (rule upgrade_step.verified [OF v])
  have "\<forall>version digest. map_of (terminal_identity a) (sa_upgrade_state a) = Some (version, digest) \<longrightarrow> healthy_heartbeat version verifying_agent"
    using upgrade_verified [OF step verifying_ok verifying_facts(1) a(1)] a(2) verifying_facts(3) by auto
  then show ?thesis using step a by (auto simp: terminal_identity_def)
qed

lemma upgrade_ends_witness:
  "ended_by_heartbeat demo_runtime ''agent-1'' (Some ''2.0'') ''succeeded'' verifying_db
    \<and> (\<exists>d'. admin_run demo_runtime ''agent-1'' verifying_db d' \<and> ended_by_heartbeat demo_runtime ''agent-1'' (Some ''1.0'') ''rolled_back'' d')"
proof -
  have "sa_upgrade_state verifying_agent \<notin> set stable_states" "sa_upgrade_state verifying_agent \<notin> set pre_deployment"
    "sa_desired_version verifying_agent = Some ''2.0''" "sa_previous_version verifying_agent = Some ''1.0''"
    by (simp_all add: verifying_agent_def demo_agent_def stable_states_def pre_deployment_def)
  then show ?thesis
    using upgrade_ends [OF verifying_ok verifying_facts(1) verifying_columns _ demo_admin] verifying_idle verifying_facts(3) by simp
qed

end
