(* ===== verification/FrappeOperations.thy ===== *)
theory FrappeOperations
  imports OperationDocs PlaceDocs Negotiation
begin

text \<open>
  \<open>frappe_operation_service.py\<close>: the repository of the authoring service (\<open>OperationService\<close>) over the
  tables. A target is resolved from the rows of its agent, bench and site; an authored operation is
  stored as a \<open>Controller Operation\<close> with its \<open>Operation Target\<close>, and storing it again is accepted
  only when every stored field is the authored one.
\<close>

section \<open>The repository\<close>

definition json_string_set :: "exn \<Rightarrow> nat \<Rightarrow> string option \<Rightarrow> string list result" where
  "json_string_set e maximum raw =
     (case json_loads (json_column raw) of
        Inr (JList xs) \<Rightarrow>
          if length xs \<le> maximum \<and> list_all (\<lambda>x. is_str x \<and> str_of x \<noteq> []) xs \<and> distinct (map str_of xs)
          then Inr (map str_of xs) else Inl e
      | _ \<Rightarrow> Inl e)"

definition capability_error :: "string \<Rightarrow> exn" where
  "capability_error f = OperationAuthoringError (''target '' @ f @ '' is invalid'')"

definition resolve_site :: "db \<Rightarrow> agent_row \<Rightarrow> string \<Rightarrow> string \<Rightarrow> string option \<Rightarrow> (string option \<times> string option \<times> bool) result" where
  "resolve_site d a server_agent bench managed_site =
     (case managed_site of
        None \<Rightarrow> Inr (None, None, True)
      | Some n \<Rightarrow>
          bindE (of_option (OperationAuthoringError ''site ownership is inconsistent'')
                   (case get_row si_name (sites d) n of
                      Some s \<Rightarrow> if si_server_agent s = server_agent \<and> si_bench s = bench \<and> si_environment s = sa_environment a
                                then Some s else None
                    | None \<Rightarrow> None)) (\<lambda>s.
          Inr (Some (si_name s), Some (si_domain s), si_status s \<in> {''active'', ''maintenance''})))"

definition fr_resolve_target :: "db \<Rightarrow> string \<Rightarrow> string \<Rightarrow> string option \<Rightarrow> target_snapshot result" where
  "fr_resolve_target d server_agent bench managed_site =
     bindE (of_option (OperationAuthoringError ''unknown operation target'')
              (case (get_row sa_name (agents d) server_agent, get_row be_name (benches d) bench) of
                 (Some a, Some b) \<Rightarrow> if be_server_agent b = server_agent then Some (a, b) else None
               | _ \<Rightarrow> None)) (\<lambda>(a, b).
     bindE (require (be_environment b = sa_environment a)
              (OperationAuthoringError ''target environment ownership is inconsistent'')) (\<lambda>_.
     bindE (json_string_set (capability_error ''agent capabilities'') 256 (sa_capabilities a)) (\<lambda>agent_caps.
     bindE (json_string_set (capability_error ''bench capabilities'') 256 (be_capabilities b)) (\<lambda>bench_caps.
     bindE (resolve_site d a server_agent bench managed_site) (\<lambda>(site_name, site_domain, site_active).
     check_snapshot
       \<lparr>ts_server_agent = sa_name a, ts_agent_id = sa_agent_id a, ts_bench = be_name b, ts_bench_id = be_bench_id b,
        ts_managed_site = site_name, ts_site_domain = site_domain, ts_environment = sa_environment a,
        ts_inventory_revision = or_empty (sa_inventory_digest a),
        ts_capabilities = filter (\<lambda>c. c \<in> set bench_caps) agent_caps,
        ts_agent_enabled = (sa_enabled a \<and> sa_status a \<noteq> ''Disabled'' \<and> be_enabled b),
        ts_site_active = site_active\<rparr>)))))"

definition policy_rule :: "policy_row \<Rightarrow> approval_rule" where
  "policy_rule p =
     \<lparr>ar_name = po_name p, ar_environment = po_environment p, ar_pattern = po_pattern p, ar_minimum = po_minimum p,
      ar_backup = po_backup p, ar_enabled = po_enabled p\<rparr>"

definition fr_approval_rules :: "db \<Rightarrow> approval_rule list result" where
  "fr_approval_rules d =
     mapE (check_rule \<circ> policy_rule) (take 1000 (sort_key po_name (filter po_enabled (policies d))))"

text \<open>The columns of a stored operation that \<open>_existing_is_identical\<close> compares, and those of its target.\<close>

definition operation_fields where
  "operation_fields r =
     ((op_operation_id r, op_idempotency_key r, op_protocol_version r, op_server_agent r, op_bench r),
      (op_managed_site r, op_type r, op_payload_json r, op_payload_hash r, op_requested_by r),
      (op_policy r, op_required r, op_preview_of r, op_preview_hash r, op_retry_of r))"

definition target_fields where
  "target_fields t =
     ((ot_target_key t, ot_server_agent t, ot_bench t, ot_managed_site t, ot_site_domain t),
      (ot_type t, ot_payload_hash t, ot_revision t, ot_retry_of t))"

definition authored_row :: "authored \<Rightarrow> op_row" where
  "authored_row o1 =
     \<lparr>op_name = [], op_operation_id = ao_operation_id o1, op_idempotency_key = ao_idempotency_key o1,
      op_protocol_version = ao_protocol_version o1, op_server_agent = ao_server_agent o1, op_bench = ao_bench o1,
      op_managed_site = ao_managed_site o1, op_bulk_parent = None, op_bulk_target = None, op_retry_of = ao_retry_of o1,
      op_preview_of = ao_preview_of o1, op_preview_hash = ao_preview_hash o1, op_type = ao_operation_type o1,
      op_payload_json = Some (ao_payload_json o1), op_payload_hash = ao_payload_hash o1,
      op_requested_by = ao_requested_by o1, op_policy = ao_policy o1, op_approval_status = ao_approval_status o1,
      op_required = ao_required o1, op_approval_count = 0, op_state = ao_state o1, op_command_json = None,
      op_command_hash = None, op_issued_at = None, op_expires_at = None, op_lease_expires = None, op_last_sequence = 0,
      op_result_json = None, op_result_hash = None, op_credential = None, op_credential_received = None,
      op_credential_consumed = None, op_error_code = None, op_started_at = None, op_completed_at = None\<rparr>"

definition retry_target :: "db \<Rightarrow> authored \<Rightarrow> string option" where
  "retry_target d o1 =
     (if truthy (ao_retry_of o1) then map_option ot_name (target_of d (the (ao_retry_of o1))) else None)"

definition authored_target :: "db \<Rightarrow> authored \<Rightarrow> optarget_row" where
  "authored_target d o1 =
     \<lparr>ot_name = [], ot_operation = ao_operation_id o1, ot_target_key = ao_target_key o1,
      ot_server_agent = ao_server_agent o1, ot_bench = ao_bench o1, ot_managed_site = ao_managed_site o1,
      ot_bulk_parent = None, ot_bulk_target = None, ot_retry_of = retry_target d o1, ot_site_domain = ao_site_domain o1,
      ot_type = ao_operation_type o1, ot_payload_hash = ao_payload_hash o1, ot_revision = Some (ao_inventory_revision o1),
      ot_state = ao_state o1, ot_attempt = 0, ot_result_json = None, ot_error_code = None\<rparr>"

definition existing_is_identical :: "authored \<Rightarrow> db \<Rightarrow> bool result" where
  "existing_is_identical o1 d =
     (case get_row op_name (operations d) (ao_operation_id o1) of
        None \<Rightarrow> Inr False
      | Some r \<Rightarrow>
          bindE (require (operation_fields r = operation_fields (authored_row o1))
                   (OperationAuthoringError ''operation id is already bound to different data'')) (\<lambda>_.
          bindE (require (case target_of d (ao_operation_id o1) of None \<Rightarrow> False
                          | Some t \<Rightarrow> target_fields t = target_fields (authored_target d o1))
                   (OperationAuthoringError ''operation target is already bound to different data'')) (\<lambda>_.
          Inr True)))"

definition fr_create :: "runtime \<Rightarrow> authored \<Rightarrow> db \<Rightarrow> db result" where
  "fr_create rt o1 d =
     (if get_row op_name (operations d) (ao_operation_id o1) \<noteq> None
      then bindE (existing_is_identical o1 d) (\<lambda>identical.
           bindE (require identical (OperationAuthoringError ''operation id already exists'')) (\<lambda>_. Inr d))
      else bindE (op_insert (truthy (ao_retry_of o1)) rt (authored_row o1) d) (\<lambda>d1.
           ot_insert rt (authored_target d1 o1) d1))"

definition frappe_authoring :: "runtime \<Rightarrow> db authoring_repository" where
  "frappe_authoring rt =
     \<lparr>resolve_target = fr_resolve_target, approval_rules = fr_approval_rules, create_operation = fr_create rt\<rparr>"

section \<open>Storing twice\<close>

lemma resolve_cong:
  assumes "agents d' = agents d" "benches d' = benches d" "sites d' = sites d"
  shows "fr_resolve_target d' = fr_resolve_target d"
  by (intro ext) (unfold fr_resolve_target_def resolve_site_def assms, rule refl)

lemma rules_cong: "policies d' = policies d \<Longrightarrow> fr_approval_rules d' = fr_approval_rules d"
  by (simp add: fr_approval_rules_def)

text \<open>Every target belongs to a stored operation.\<close>

definition targets_linked :: "db \<Rightarrow> bool" where
  "targets_linked d \<longleftrightarrow> (\<forall>t\<in>set (optargets d). get_row op_name (operations d) (ot_operation t) \<noteq> None)"

lemma op_insert_row:
  assumes "op_insert svc rt r d = Inr d'" "op_requested_by r \<noteq> []"
  shows "d' = d\<lparr>operations := operations d @ [r\<lparr>op_name := op_operation_id r\<rparr>]\<rparr>
    \<and> op_operation_id r \<notin> op_name ` set (operations d)"
  using assms by (auto simp: op_insert_def op_before_insert_def Let_def bindE_eq_Inr dest!: insert_row_ok)

lemma ot_insert_row:
  assumes "ot_insert rt t d = Inr d'"
  shows "\<exists>n. d' = d\<lparr>optargets := optargets d @ [t\<lparr>ot_name := n\<rparr>]\<rparr> \<and> ot_validate d None (t\<lparr>ot_name := n\<rparr>) = Inr ()"
  using assms by (auto simp: ot_insert_def Let_def bindE_eq_Inr dest!: insert_row_ok)

lemma created_rows:
  assumes "fr_create rt o1 d = Inr d'" "get_row op_name (operations d) (ao_operation_id o1) = None" "ao_requested_by o1 \<noteq> []"
  obtains t where "d' = d\<lparr>operations := operations d @ [(authored_row o1)\<lparr>op_name := ao_operation_id o1\<rparr>], optargets := optargets d @ [t]\<rparr>"
    "\<exists>n. t = (authored_target d o1)\<lparr>ot_name := n\<rparr>"
proof -
  obtain d1 where 1: "op_insert (truthy (ao_retry_of o1)) rt (authored_row o1) d = Inr d1"
    and 2: "ot_insert rt (authored_target d1 o1) d1 = Inr d'"
    using assms(1,2) by (auto simp: fr_create_def bindE_eq_Inr)
  have d1: "d1 = d\<lparr>operations := operations d @ [(authored_row o1)\<lparr>op_name := ao_operation_id o1\<rparr>]\<rparr>"
    using op_insert_row [OF 1] assms(3) by (simp add: authored_row_def)
  have "authored_target d1 o1 = authored_target d o1"
    by (simp add: authored_target_def retry_target_def target_of_def d1)
  then show ?thesis using that ot_insert_row [OF 2] d1 by auto
qed

text \<open>An operation that retries another one names one that is stored before it.\<close>

lemma created_retry:
  assumes "fr_create rt o1 d = Inr d'" "get_row op_name (operations d) (ao_operation_id o1) = None" "truthy (ao_retry_of o1)"
    "ao_requested_by o1 \<noteq> []"
  shows "ao_retry_of o1 \<noteq> Some (ao_operation_id o1)"
proof -
  obtain d1 where "op_insert True rt (authored_row o1) d = Inr d1"
    using assms(1-3) by (auto simp: fr_create_def bindE_eq_Inr)
  then have "op_validate True d None ((authored_row o1)\<lparr>op_name := ao_operation_id o1\<rparr>) = Inr ()"
    using assms(4) by (auto simp: op_insert_def op_before_insert_def Let_def bindE_eq_Inr authored_row_def)
  then have "op_retry_lineage True d None ((authored_row o1)\<lparr>op_name := ao_operation_id o1\<rparr>) = Inr ()"
    using assms(3) unfolding op_validate_def bindE_eq_Inr by (auto simp: authored_row_def)
  then have "opt_row op_name (operations d) (ao_retry_of o1) \<noteq> None"
    unfolding op_retry_lineage_def bindE_eq_Inr by (auto simp: authored_row_def of_option_eq_Inr)
  then show ?thesis using assms(2) by (auto simp: opt_row_def)
qed

lemma created_identical:
  assumes c: "fr_create rt o1 d = Inr d'" and l: "targets_linked d" and r: "ao_requested_by o1 \<noteq> []"
  shows "fr_create rt' o1 d' = Inr d' \<and> targets_linked d'"
proof (cases "get_row op_name (operations d) (ao_operation_id o1)")
  case None
  obtain t n where d': "d' = d\<lparr>operations := operations d @ [(authored_row o1)\<lparr>op_name := ao_operation_id o1\<rparr>], optargets := optargets d @ [t]\<rparr>"
    and t: "t = (authored_target d o1)\<lparr>ot_name := n\<rparr>"
    by (rule created_rows [OF c None r]) blast
  have g: "get_row op_name (operations d') (ao_operation_id o1) = Some ((authored_row o1)\<lparr>op_name := ao_operation_id o1\<rparr>)"
    using None by (simp add: d' get_row_append)
  have "ao_operation_id o1 \<notin> ot_operation ` set (optargets d)" using None l by (auto simp: targets_linked_def)
  then have tg: "target_of d' (ao_operation_id o1) = Some t"
    using get_row_None [of ot_operation "optargets d" "ao_operation_id o1"] by (simp add: target_of_def d' get_row_append t authored_target_def)
  have same: "retry_target d' o1 = retry_target d o1"
  proof (cases "truthy (ao_retry_of o1)")
    case True
    then obtain m where m: "ao_retry_of o1 = Some m" by (cases "ao_retry_of o1") auto
    then have "m \<noteq> ao_operation_id o1" using created_retry [OF c None True r] by simp
    then show ?thesis using m by (simp add: retry_target_def target_of_def d' get_row_append t authored_target_def split: option.splits)
  qed (simp add: retry_target_def)
  have "existing_is_identical o1 d' = Inr True"
    using g tg same by (simp add: existing_is_identical_def operation_fields_def target_fields_def authored_row_def authored_target_def t)
  then have "fr_create rt' o1 d' = Inr d'" using g by (simp add: fr_create_def)
  moreover have "targets_linked d'"
    using l by (auto simp: targets_linked_def d' get_row_append t authored_target_def authored_row_def split: option.splits)
  ultimately show ?thesis by blast
next
  case (Some x)
  then show ?thesis using c l by (auto simp: fr_create_def bindE_eq_Inr)
qed


lemma created_keeps:
  assumes "fr_create rt o1 d = Inr d'" "ao_requested_by o1 \<noteq> []"
  shows "d' = d\<lparr>operations := operations d', optargets := optargets d'\<rparr>
    \<and> (\<forall>m. m \<noteq> ao_operation_id o1 \<longrightarrow> get_row op_name (operations d') m = get_row op_name (operations d) m)
    \<and> (\<exists>r t. get_row op_name (operations d') (ao_operation_id o1) = Some r \<and> operation_fields r = operation_fields (authored_row o1)
        \<and> (get_row op_name (operations d) (ao_operation_id o1) = None \<longrightarrow> r = (authored_row o1)\<lparr>op_name := ao_operation_id o1\<rparr>))"
proof (cases "get_row op_name (operations d) (ao_operation_id o1)")
  case None
  obtain t where d': "d' = d\<lparr>operations := operations d @ [(authored_row o1)\<lparr>op_name := ao_operation_id o1\<rparr>], optargets := optargets d @ [t]\<rparr>"
    by (rule created_rows [OF assms(1) None assms(2)])
  then show ?thesis using None by (simp add: get_row_append operation_fields_def authored_row_def split: option.splits)
next
  case (Some x)
  then show ?thesis using assms(1) by (auto simp: fr_create_def existing_is_identical_def result_simps)
qed

text \<open>What authoring adds: nothing, or the row of the operation and that of its target.\<close>

lemma created_adds:
  assumes "fr_create rt o1 d = Inr d'" "ao_requested_by o1 \<noteq> []"
  shows "d' = d \<or> (\<exists>r t. operations d' = operations d @ [r] \<and> optargets d' = optargets d @ [t] \<and> op_name r = ao_operation_id o1
    \<and> ot_operation t = ao_operation_id o1 \<and> target_fields t = target_fields (authored_target d o1))"
proof (cases "get_row op_name (operations d) (ao_operation_id o1)")
  case None
  obtain t where "d' = d\<lparr>operations := operations d @ [(authored_row o1)\<lparr>op_name := ao_operation_id o1\<rparr>], optargets := optargets d @ [t]\<rparr>"
    "\<exists>n. t = (authored_target d o1)\<lparr>ot_name := n\<rparr>"
    by (rule created_rows [OF assms(1) None assms(2)])
  then show ?thesis by (auto simp: target_fields_def authored_target_def)
next
  case (Some x)
  then show ?thesis using assms(1) by (auto simp: fr_create_def result_simps)
qed

lemma ex_unit: "(\<exists>x::unit. P x) = P ()"
  by (metis old.unit.exhaust)

lemma author_parts:
  assumes "author repo validator req actor d = Inr (o1, d')"
  obtains operation_uuid target a policy payload preview identity where
    "check_identity req actor = Inr operation_uuid"
    "resolve_target repo d (rq_server_agent req) (rq_bench req) (rq_managed_site req) = Inr target"
    "check_target req target = Inr ()" "validator (rq_operation_type req) (rq_payload req) = Inr a"
    "check_authorization target a = Inr ()"
    "(if au_preview a then Inr None
      else bindE (approval_rules repo d) (\<lambda>rules. select_approval_rule rules (ts_environment target) (rq_operation_type req))) = Inr policy"
    "check_policy target a policy = Inr ()" "canonical_payload (au_payload a) = Inr payload" "preview_lineage req = Inr preview"
    "target_identity operation_uuid target = Inr identity"
    "o1 = authored_operation req actor operation_uuid target policy payload preview identity" "create_operation repo o1 d = Inr d'"
  using assms unfolding author_def Let_def bindE_eq_Inr ex_unit
  by (elim exE conjE) (rule that, assumption+, simp_all)

lemma frappe_authoring_simps:
  "resolve_target (frappe_authoring rt) = fr_resolve_target" "approval_rules (frappe_authoring rt) = fr_approval_rules"
  "create_operation (frappe_authoring rt) = fr_create rt"
  by (simp_all add: frappe_authoring_def)

lemma author_again:
  assumes a: "author (frappe_authoring rt) validator req actor d = Inr (o1, d')" and l: "targets_linked d"
  shows "author (frappe_authoring rt') validator req actor d' = Inr (o1, d') \<and> targets_linked d' \<and> ao_requested_by o1 \<noteq> []
    \<and> fr_create rt o1 d = Inr d'"
  using a
proof (rule author_parts)
  fix u target a policy payload preview identity
  assume p: "check_identity req actor = Inr u"
    "resolve_target (frappe_authoring rt) d (rq_server_agent req) (rq_bench req) (rq_managed_site req) = Inr target"
    "check_target req target = Inr ()" "validator (rq_operation_type req) (rq_payload req) = Inr a"
    "check_authorization target a = Inr ()"
    "(if au_preview a then Inr None
      else bindE (approval_rules (frappe_authoring rt) d)
        (\<lambda>rules. select_approval_rule rules (ts_environment target) (rq_operation_type req))) = Inr policy"
    "check_policy target a policy = Inr ()" "canonical_payload (au_payload a) = Inr payload" "preview_lineage req = Inr preview"
    "target_identity u target = Inr identity"
    "o1 = authored_operation req actor u target policy payload preview identity"
    and c: "create_operation (frappe_authoring rt) o1 d = Inr d'"
  have r: "ao_requested_by o1 \<noteq> []" using p(1,11) by (auto simp: check_identity_def result_simps authored_operation_def Let_def)
  note c' = c [unfolded frappe_authoring_simps]
  have k: "agents d' = agents d" "benches d' = benches d" "sites d' = sites d" "policies d' = policies d"
    using created_keeps [OF c' r] by (metis db.ext_inject db.surjective db.update_convs(4,5))+
  have "fr_create rt' o1 d' = Inr d'" "targets_linked d'" using created_identical [OF c' l r] by simp_all
  then show ?thesis using p r c' unfolding author_def frappe_authoring_simps Let_def resolve_cong [OF k(1-3)] rules_cong [OF k(4)]
    by (cases "au_preview a") simp_all
qed

section \<open>Authoring over the tables\<close>

text \<open>
  C33: an authored operation is stored once. After an author succeeded over the tables the same request by the
  same actor is answered with the same operation and changes nothing, in whatever session it is repeated:
  whatever the clock, the signed-in user and the generated names (\<open>rt'\<close>) are by then; authoring adds at most the row of this operation and its target, so no other operation
  and no other table changes; and the stored row holds the payload, the hash, the policy, the threshold and
  the lineage that were authored, awaiting approval when it is new. That every target belongs to a stored
  operation, which authoring needs to recognise a repeated request, is kept.
\<close>

theorem authored_once:
  assumes a: "author (frappe_authoring rt) validator req actor d = Inr (o1, d')" and l: "targets_linked d"
  shows "(\<forall>rt'. author (frappe_authoring rt') validator req actor d' = Inr (o1, d')) \<and> targets_linked d'
    \<and> d' = d\<lparr>operations := operations d', optargets := optargets d'\<rparr>
    \<and> (d' = d \<or> (\<exists>r t. operations d' = operations d @ [r] \<and> optargets d' = optargets d @ [t] \<and> op_name r = ao_operation_id o1
        \<and> ot_operation t = ao_operation_id o1 \<and> target_fields t = target_fields (authored_target d o1)))
    \<and> (\<forall>m. m \<noteq> ao_operation_id o1 \<longrightarrow> get_row op_name (operations d') m = get_row op_name (operations d) m)
    \<and> (\<exists>r. get_row op_name (operations d') (ao_operation_id o1) = Some r \<and> operation_fields r = operation_fields (authored_row o1)
        \<and> (get_row op_name (operations d) (ao_operation_id o1) = None \<longrightarrow> op_state r = ''awaiting_approval''))"
proof -
  have b: "\<forall>rt'. author (frappe_authoring rt') validator req actor d' = Inr (o1, d')" "targets_linked d'" "ao_requested_by o1 \<noteq> []"
    "fr_create rt o1 d = Inr d'"
    using author_again [OF assms] by blast+
  have "ao_state o1 = ''awaiting_approval''" using a by (rule author_parts) (simp add: authored_operation_def Let_def)
  then have "op_state ((authored_row o1)\<lparr>op_name := ao_operation_id o1\<rparr>) = ''awaiting_approval''" by (simp add: authored_row_def)
  then show ?thesis using b(1,2) created_keeps [OF b(4,3)] created_adds [OF b(4,3)] by auto
qed

definition backup_capable :: "string option" where
  "backup_capable = Some (json_dumps (JList [JStr ''site.backup'']))"

definition authoring_db :: db where
  "authoring_db = empty_db
     \<lparr>agents := [demo_agent\<lparr>sa_capabilities := backup_capable, sa_inventory_digest := Some (replicate 64 CHR ''a'')\<rparr>],
      benches := [demo_bench\<lparr>be_capabilities := backup_capable\<rparr>], sites := [demo_site]\<rparr>"

definition backup_authorization :: authorization where
  "backup_authorization = demo_authorization\<lparr>au_payload := [(''domain'', JStr ''a.example'')], au_destructive := False\<rparr>"

definition backup_request :: operation_request where
  "backup_request = demo_request\<lparr>rq_operation_type := ''site.backup'', rq_server_agent := ''agent-1'',
     rq_bench := ''bench-1'', rq_managed_site := Some ''site-1''\<rparr>"

definition backup_target :: target_snapshot where
  "backup_target = \<lparr>ts_server_agent = ''agent-1'', ts_agent_id = ''agent-1'', ts_bench = ''bench-1'', ts_bench_id = ''bench-1'',
     ts_managed_site = Some ''site-1'', ts_site_domain = Some ''a.example'', ts_environment = ''staging'',
     ts_inventory_revision = replicate 64 CHR ''a'', ts_capabilities = [''site.backup''], ts_agent_enabled = True,
     ts_site_active = True\<rparr>"

lemma sha_a: "is_sha256 (replicate 64 CHR ''a'')"
  by (rule is_sha256_replicate) (simp add: is_hex_def)

lemma backup_capabilities: "json_string_set e 256 backup_capable = Inr [''site.backup'']"
  using loads_dumps [OF keeps_hooks(1), of "JList [JStr ''site.backup'']"]
  by (simp add: json_string_set_def json_column_def backup_capable_def json_loads_def)

lemma backup_resolved: "fr_resolve_target authoring_db ''agent-1'' ''bench-1'' (Some ''site-1'') = Inr backup_target"
  by (simp add: fr_resolve_target_def authoring_db_def get_row_def empty_db_def demo_agent_def demo_bench_def demo_site_def
      backup_capabilities resolve_site_def check_snapshot_def environments_def backup_target_def sha_a)

lemma backup_payload: "canonical_payload [(''domain'', JStr ''a.example'')] = Inr (demo_payload, sha256_hex demo_payload)"
  by (simp add: canonical_payload_def sensitive_key_def sensitive_keys_def string_defs quote_str_def escape_char_def encodeE_def
      demo_payload_def)

lemma backup_identity: "\<exists>x. target_identity demo_uuid backup_target = Inr x"
  by (simp add: target_identity_def backup_target_def demo_uuid_def json_opt_def quote_str_def escape_char_def encodeE_def numeral_eq_Suc)

lemma backup_created:
  "\<exists>d'. fr_create demo_runtime
    (authored_operation backup_request ''alice'' demo_uuid backup_target None (demo_payload, sha256_hex demo_payload) None x) authoring_db = Inr d'"
  by (simp add: fr_create_def authored_operation_def backup_request_def demo_request_def backup_target_def authoring_db_def empty_db_def
      get_row_def op_insert_def op_before_insert_def authored_row_def demo_runtime_def op_validate_def op_formats_def require_json_def
      demo_payload_json has_shape_def require_sha256_def op_data_update_def data_update_types_def op_terminal_def op_links_def
      require_link_value_def demo_bench_def demo_site_def op_approval_counts_def immutable_fields_def op_credential_owned_def
      legal_transition_def insert_row_def demo_uuid_def Let_def ot_insert_def authored_target_def retry_target_def ot_validate_def
      ot_bulk_links_def sha_a)

theorem authored_once_witness:
  "\<exists>o1 d'. author (frappe_authoring demo_runtime) (\<lambda>_ _. Inr backup_authorization) backup_request ''alice'' authoring_db = Inr (o1, d')
    \<and> author (frappe_authoring (demo_runtime\<lparr>rt_user := ''bob'', rt_now := 99, rt_fresh := (\<lambda>_. ''other'')\<rparr>))
        (\<lambda>_ _. Inr backup_authorization) backup_request ''alice'' d' = Inr (o1, d')"
proof -
  have i: "check_identity backup_request ''alice'' = Inr demo_uuid"
    using py_uuid_canonical [OF demo_uuid_canonical] py_lower_demo
    by (simp add: check_identity_def backup_request_def demo_request_def operation_type_ok_def key_char_def string_defs)
  have t: "check_target backup_request backup_target = Inr ()"
    by (simp add: check_target_def backup_request_def demo_request_def backup_target_def)
  have a: "check_authorization backup_target backup_authorization = Inr ()"
    by (simp add: check_authorization_def backup_target_def backup_authorization_def demo_authorization_def jget_def)
  have p: "check_policy backup_target backup_authorization None = Inr ()"
    by (simp add: check_policy_def backup_target_def backup_authorization_def demo_authorization_def)
  have r: "fr_approval_rules authoring_db = Inr []" by (simp add: fr_approval_rules_def authoring_db_def empty_db_def)
  obtain x d' where x: "target_identity demo_uuid backup_target = Inr x"
    and d': "fr_create demo_runtime
      (authored_operation backup_request ''alice'' demo_uuid backup_target None (demo_payload, sha256_hex demo_payload) None x) authoring_db = Inr d'"
    using backup_identity backup_created by blast
  have "\<exists>o1. author (frappe_authoring demo_runtime) (\<lambda>_ _. Inr backup_authorization) backup_request ''alice'' authoring_db = Inr (o1, d')"
    using i t a p r x d' backup_resolved backup_payload
    by (simp add: author_def frappe_authoring_simps backup_request_def demo_request_def backup_authorization_def
        demo_authorization_def select_approval_rule_def preview_lineage_def Let_def)
  moreover have "targets_linked authoring_db" by (simp add: targets_linked_def authoring_db_def empty_db_def)
  ultimately show ?thesis using authored_once by blast
qed

end
