(* ===== verification/CreationReadiness.thy ===== *)
theory CreationReadiness
  imports FrappeOperations ServerAgents JsonAscii
begin

text \<open>
  The checks before a site is created (\<open>creation_readiness.py\<close>): the agent and its inventory are fresh, the
  installation and the approval policies allow the site, the bench has the required apps, the domain is free,
  and then, only when all of that holds, the DNS zone and the public address are probed. The settings of the
  DNS provider, its answers and the connection to the address come from outside: they are the \<open>probes\<close> the
  checks are given.
\<close>

section \<open>The probes\<close>

datatype fetched = Fetched string | Unreachable | Crashed exn

text \<open>
  \<open>pr_settings\<close> is the token and the zone of \<open>load_controller_settings\<close>. \<open>pr_fetch token path\<close> is the body of the
  answer of the provider, or a failure \<open>dns_preflight\<close> catches, or another one.
\<close>

record probes =
  pr_settings :: "(string \<times> string) result"
  pr_fetch :: "string \<Rightarrow> string \<Rightarrow> fetched"
  pr_connect :: "string \<Rightarrow> bool"

definition zone_id_ok :: "string \<Rightarrow> bool" where
  "zone_id_ok z \<longleftrightarrow>
     length z = 32
     \<and> list_all (\<lambda>c. is_digit c \<or> CHR ''a'' \<le> c \<and> c \<le> CHR ''f'' \<or> CHR ''A'' \<le> c \<and> c \<le> CHR ''F'') z"

text \<open>\<open>urlencode\<close> of one text, over its UTF-8 bytes.\<close>

definition upper_hex :: "nat \<Rightarrow> char" where
  "upper_hex n = (if n < 10 then digit_char n else char_of (55 + n))"

definition url_char :: "char \<Rightarrow> string" where
  "url_char c =
     (if is_lower c \<or> is_digit c \<or> CHR ''A'' \<le> c \<and> c \<le> CHR ''Z'' \<or> c \<in> set ''_.-~'' then [c]
      else if c = CHR '' '' then ''+''
      else [CHR 0x25, upper_hex (of_char c div 16), upper_hex (of_char c mod 16)])"

definition records_path :: "string \<Rightarrow> string \<Rightarrow> string" where
  "records_path zone domain =
     ''zones/'' @ zone @ ''/dns_records?name='' @ concat (map url_char domain) @ ''&per_page=100''"

definition dns_get :: "(string \<Rightarrow> string result) \<Rightarrow> probes \<Rightarrow> string \<Rightarrow> string \<Rightarrow> json result" where
  "dns_get wide pr token path =
     (let failed = ReadinessError ''Cloudflare read-only access check failed; check token, zone and connectivity.'' in
      bindE (case pr_fetch pr token path of
               Unreachable \<Rightarrow> Inl failed
             | Crashed e \<Rightarrow> Inl e
             | Fetched raw \<Rightarrow>
                 if length raw \<le> 1024 * 1024
                 then catchE (\<lambda>e. if e = UnicodeDecodeError \<or> e = JSONDecodeError then Some failed else None)
                        (bindE (json_text wide raw) json_loads)
                 else Inr JNull) (\<lambda>value.
      bindE (require (is_obj value \<and> member_of value ''success'' = JBool True)
               (ReadinessError ''Cloudflare did not confirm read-only access to the configured zone.'')) (\<lambda>_.
      Inr (member_of value ''result''))))"

definition in_zone :: "string \<Rightarrow> string \<Rightarrow> bool" where
  "in_zone domain name \<longleftrightarrow> domain = name \<or> ends_with (''.'' @ name) domain"

text \<open>A list or an object is no element of a set: looking it up raises.\<close>

fun address_record :: "json list \<Rightarrow> bool result" where
  "address_record [] = Inr False"
| "address_record (row # rows) =
     (if \<not> is_obj row then Inr True
      else case member_of row ''type'' of
             JList _ \<Rightarrow> Inl (TypeError ''unhashable type'')
           | JObj _ \<Rightarrow> Inl (TypeError ''unhashable type'')
           | JStr t \<Rightarrow> if t \<in> {''A'', ''AAAA'', ''CNAME''} then Inr True else address_record rows
           | _ \<Rightarrow> address_record rows)"

definition dns_preflight :: "(string \<Rightarrow> string result) \<Rightarrow> probes \<Rightarrow> string \<times> string \<Rightarrow> string \<Rightarrow> unit result" where
  "dns_preflight wide pr settings domain =
     (case settings of (token, zone) \<Rightarrow>
      bindE (require (20 \<le> py_len token \<and> zone_id_ok zone)
               (ReadinessError ''Configure a valid Cloudflare token and zone in Controller Settings.'')) (\<lambda>_.
      bindE (dns_get wide pr token (''zones/'' @ zone)) (\<lambda>info.
      bindE (require (case member_of info ''name'' of
                        JStr name \<Rightarrow> member_of info ''status'' = JStr ''active'' \<and> in_zone domain name
                      | _ \<Rightarrow> False)
               (ReadinessError ''The domain is not in the configured active Cloudflare zone.'')) (\<lambda>_.
      bindE (encodeE domain) (\<lambda>_.
      bindE (dns_get wide pr token (records_path zone domain)) (\<lambda>records.
      case records of
        JList rows \<Rightarrow>
          bindE (address_record rows) (\<lambda>found.
          require (\<not> found)
            (ReadinessError ''DNS already has an address/alias record for this domain; reconcile ownership first.''))
      | _ \<Rightarrow> Inl (ReadinessError ''Cloudflare returned invalid record evidence.'')))))))"

text \<open>\<open>IPv4Address.is_global\<close>.\<close>

definition ip_value :: "nat list \<Rightarrow> nat" where
  "ip_value ns = foldl (\<lambda>v n. 256 * v + n) 0 ns"

definition in_network :: "nat \<Rightarrow> nat list \<times> nat \<Rightarrow> bool" where
  "in_network v net = (v div 2 ^ (32 - snd net) = ip_value (fst net) div 2 ^ (32 - snd net))"

definition private_networks :: "(nat list \<times> nat) list" where
  "private_networks =
     [([0, 0, 0, 0], 8), ([10, 0, 0, 0], 8), ([127, 0, 0, 0], 8), ([169, 254, 0, 0], 16), ([172, 16, 0, 0], 12),
      ([192, 0, 0, 0], 24), ([192, 0, 0, 170], 31), ([192, 0, 2, 0], 24), ([192, 168, 0, 0], 16), ([198, 18, 0, 0], 15),
      ([198, 51, 100, 0], 24), ([203, 0, 113, 0], 24), ([240, 0, 0, 0], 4), ([255, 255, 255, 255], 32)]"

definition global_address :: "string \<Rightarrow> bool" where
  "global_address ip =
     (let v = ip_value (map digits_val (split_on (CHR ''.'') ip)) in
      \<not> in_network v ([100, 64, 0, 0], 10)
      \<and> (list_all (\<lambda>net. \<not> in_network v net) private_networks
         \<or> in_network v ([192, 0, 0, 9], 32) \<or> in_network v ([192, 0, 0, 10], 32)))"

definition ingress_preflight :: "probes \<Rightarrow> string option \<Rightarrow> unit result" where
  "ingress_preflight pr address =
     require (case ipv4_address (or_empty address) of None \<Rightarrow> False | Some ip \<Rightarrow> global_address ip \<and> pr_connect pr ip)
       (ReadinessError ''The Agent must have a public IPv4 address with reachable HTTPS ingress on port 443.'')"

section \<open>The checks\<close>

record check_row =
  ck_key :: string
  ck_label :: string
  ck_passed :: bool
  ck_message :: string

record readiness_report =
  rr_ready :: bool
  rr_checks :: "check_row list"
  rr_apps :: "string list"

definition check_line :: "string \<Rightarrow> string \<Rightarrow> bool \<Rightarrow> string \<Rightarrow> string \<Rightarrow> check_row" where
  "check_line key label passed good bad =
     \<lparr>ck_key = key, ck_label = label, ck_passed = passed, ck_message = (if passed then good else bad)\<rparr>"

text \<open>A datetime column is naive and read as UTC; the limit is in seconds.\<close>

definition fresh :: "int option \<Rightarrow> int \<Rightarrow> int \<Rightarrow> bool" where
  "fresh value now maximum = (case value of None \<Rightarrow> False | Some t \<Rightarrow> 0 \<le> now - t \<and> now - t \<le> seconds maximum)"

definition heartbeat_fresh :: "agent_row \<Rightarrow> int \<Rightarrow> bool" where
  "heartbeat_fresh a now \<longleftrightarrow>
     sa_enabled a \<and> sa_status a = ''Online'' \<and> sa_reported_status a = Some ''ready'' \<and> \<not> sa_drain_requested a
     \<and> fresh (sa_last_seen a) now 120"

definition inventory_fresh :: "agent_row \<Rightarrow> bench_row \<Rightarrow> string \<Rightarrow> int \<Rightarrow> bool" where
  "inventory_fresh a b server_agent now \<longleftrightarrow>
     be_enabled b \<and> be_server_agent b = server_agent \<and> be_health b = ''healthy'' \<and> truthy (sa_inventory_digest a)
     \<and> fresh (sa_inventory_at a) now 300 \<and> fresh (be_inventory_at b) now 300"

definition suffix_allowed :: "json \<Rightarrow> string \<Rightarrow> bool" where
  "suffix_allowed suffixes domain =
     (case suffixes of
        JList xs \<Rightarrow> list_all (\<lambda>x. is_str x \<and> str_of x \<noteq> []) xs \<and> list_ex (\<lambda>x. in_zone domain (str_of x)) xs
      | _ \<Rightarrow> False)"

definition installation_allows :: "agent_row \<Rightarrow> string \<Rightarrow> bool" where
  "installation_allows a domain \<longleftrightarrow>
     suffix_allowed (json_or_null (sa_site_suffixes a)) domain
     \<and> (case json_or_null (sa_operations a) of JList ops \<Rightarrow> JStr ''site.create_blank'' \<in> set ops | _ \<Rightarrow> False)"

definition policy_allows ::
  "(string \<Rightarrow> string result) \<Rightarrow> runtime \<Rightarrow> db \<Rightarrow> string \<Rightarrow> string \<Rightarrow> string \<Rightarrow> bool result" where
  "policy_allows wide rt d domain server_agent bench =
     (let environment = target_environment d server_agent None in
      bindE (require_operation wide rt environment ''site.create_blank''
               (Some ([CHR ''{''] @ quote_ascii ''domain'' @ '': '' @ quote_ascii domain @ [CHR ''}''])) None) (\<lambda>_.
      bindE (fr_resolve_target d server_agent bench None) (\<lambda>snapshot.
      bindE (fr_approval_rules d) (\<lambda>rules.
      bindE (select_approval_rule rules (or_empty environment) ''site.create_blank'') (\<lambda>policy.
      Inr (ts_agent_enabled snapshot \<and> ''site.create_blank'' \<in> set (ts_capabilities snapshot)
           \<and> (environment \<noteq> Some ''production'' \<or> policy \<noteq> None)
           \<and> \<not> (case policy of None \<Rightarrow> False | Some p \<Rightarrow> ar_backup p)))))))"

definition policy_check ::
  "(string \<Rightarrow> string result) \<Rightarrow> runtime \<Rightarrow> db \<Rightarrow> string \<Rightarrow> string \<Rightarrow> string \<Rightarrow> check_row result" where
  "policy_check wide rt d domain server_agent bench =
     (case policy_allows wide rt d domain server_agent bench of
        Inr permitted \<Rightarrow>
          Inr (check_line ''target_policy'' ''Target and approval policy'' permitted
                 ''Feature, capabilities and approval policies allow this target.''
                 ''Target capabilities or approval policy do not permit blank-site creation.'')
      | Inl e \<Rightarrow>
          (case e of
             OperationAuthoringError _ \<Rightarrow>
               Inr (check_line ''target_policy'' ''Target and approval policy'' False []
                      ''Feature, target or approval policy prevents creation.'')
           | PermissionError _ \<Rightarrow>
               Inr (check_line ''target_policy'' ''Target and approval policy'' False []
                      ''Feature, target or approval policy prevents creation.'')
           | _ \<Rightarrow> Inl e))"

definition required_list :: "json \<Rightarrow> string list option" where
  "required_list required =
     (case required of
        JList xs \<Rightarrow> if xs \<noteq> [] \<and> list_all (\<lambda>x. is_str x \<and> AgentIngestion.app_name (str_of x)) xs
                      \<and> JStr ''frappe'' \<in> set xs \<and> distinct (map str_of xs)
                    then Some (map str_of xs) else None
      | _ \<Rightarrow> None)"

definition available_apps :: "json \<Rightarrow> string list" where
  "available_apps available =
     (case available of
        JList rows \<Rightarrow>
          concat (map (\<lambda>row. case row of
                               JList [JStr app, JStr version] \<Rightarrow> if version \<notin> {[], ''unknown''} then [app] else []
                             | _ \<Rightarrow> []) rows)
      | _ \<Rightarrow> [])"

definition apps_available :: "bench_row \<Rightarrow> bool" where
  "apps_available b =
     (case required_list (json_or_null (be_required_apps b)) of
        None \<Rightarrow> False
      | Some apps \<Rightarrow> set apps \<subseteq> set (available_apps (json_or_null (be_installed_apps b))))"

definition stored_checks ::
  "(string \<Rightarrow> string result) \<Rightarrow> runtime \<Rightarrow> db \<Rightarrow> string \<Rightarrow> string \<Rightarrow> string \<Rightarrow> agent_row \<Rightarrow> bench_row \<Rightarrow> int
     \<Rightarrow> check_row list result" where
  "stored_checks wide rt d domain server_agent bench a b now =
     bindE (policy_check wide rt d domain server_agent bench) (\<lambda>policy.
     Inr [check_line ''heartbeat'' ''Agent online'' (heartbeat_fresh a now)
            ''Agent is ready with a heartbeat within 120 seconds.''
            ''Agent is offline, unhealthy, draining, or its heartbeat is older than 120 seconds.'',
          check_line ''inventory'' ''Fresh target inventory'' (inventory_fresh a b server_agent now)
            ''Agent and target inventory are healthy and no older than 300 seconds.''
            ''Target ownership, health, or fresh inventory is missing (maximum age 300 seconds).'',
          check_line ''installation_policy'' ''Installation policy'' (installation_allows a domain)
            ''Domain and site creation are allowed by this installation.''
            ''Domain suffix or site creation is not allowed by the Agent installation policy.'',
          policy,
          check_line ''apps'' ''Required apps available'' (apps_available b)
            ''Fresh bench inventory contains the Agent's required provisioning apps.''
            ''Required-app policy or app version evidence is missing; update the Agent/policy/apps and wait for inventory.'',
          check_line ''domain_available'' ''Domain available'' (list_all (\<lambda>s. si_domain s \<noteq> domain) (sites d))
            ''Domain is not already managed.'' ''A Managed Site already exists for this domain.''])"

definition probe_line :: "string \<Rightarrow> string \<Rightarrow> string \<Rightarrow> string \<Rightarrow> unit result \<Rightarrow> check_row" where
  "probe_line key label good otherwise outcome =
     (case outcome of
        Inr _ \<Rightarrow> check_line key label True good []
      | Inl (ReadinessError msg) \<Rightarrow> check_line key label False [] msg
      | Inl _ \<Rightarrow> check_line key label False [] otherwise)"

definition probe_checks ::
  "(string \<Rightarrow> string result) \<Rightarrow> probes \<Rightarrow> string \<Rightarrow> agent_row \<Rightarrow> check_row list" where
  "probe_checks wide pr domain a =
     [probe_line ''dns'' ''DNS provider''
        ''Active zone and read access verified; no address conflict. DNS edit permission is checked on execution.''
        ''Read-only check failed; verify DNS configuration/zone access and public ingress connectivity.''
        (bindE (pr_settings pr) (\<lambda>settings. dns_preflight wide pr settings domain)),
      probe_line ''ingress'' ''Public HTTPS ingress''
        ''Public IPv4 port 443 is reachable. Agent rechecks local routing before effects; final gate verifies public HTTPS.''
        ''Public IPv4 HTTPS port 443 is unreachable or invalid.'' (ingress_preflight pr (sa_public_ip a))]"

definition unprobed :: "check_row list" where
  "unprobed = map (\<lambda>(key, label). check_line key label False [] ''Not checked until target, policy and inventory checks pass.'')
     [(''dns'', ''DNS provider''), (''ingress'', ''Public HTTPS ingress'')]"

definition check_creation_readiness ::
  "(string \<Rightarrow> string result) \<Rightarrow> runtime \<Rightarrow> probes \<Rightarrow> db \<Rightarrow> string \<Rightarrow> string \<Rightarrow> string \<Rightarrow> int \<Rightarrow> readiness_report result"
where
  "check_creation_readiness wide rt pr d domain server_agent bench now =
     (case (get_row sa_name (agents d) server_agent, get_row be_name (benches d) bench) of
        (Some a, Some b) \<Rightarrow>
          bindE (stored_checks wide rt d domain server_agent bench a b now) (\<lambda>stored.
          let checks = stored @ (if list_all ck_passed stored then probe_checks wide pr domain a else unprobed) in
          Inr \<lparr>rr_ready = list_all ck_passed checks, rr_checks = checks,
               rr_apps = (case required_list (json_or_null (be_required_apps b)) of None \<Rightarrow> [] | Some apps \<Rightarrow> apps)\<rparr>)
      | _ \<Rightarrow> Inr \<lparr>rr_ready = False,
                 rr_checks = [check_line ''target'' ''Target'' False [] ''Select an existing Agent and Bench.''], rr_apps = []\<rparr>)"

section \<open>What a ready target has\<close>

lemma check_line_passed [simp]: "ck_passed (check_line k l p g b) = p"
  by (simp add: check_line_def)

lemma probe_line_passed [simp]: "ck_passed (probe_line k l g b r) = (r = Inr ())"
  by (cases r) (auto simp: probe_line_def split: exn.splits)

lemma policy_check_passed:
  "policy_check wide rt d domain server_agent bench = Inr row \<Longrightarrow>
     ck_passed row = (policy_allows wide rt d domain server_agent bench = Inr True)"
  by (cases "policy_allows wide rt d domain server_agent bench") (auto simp: policy_check_def split: exn.splits)

definition ready_target ::
  "(string \<Rightarrow> string result) \<Rightarrow> runtime \<Rightarrow> probes \<Rightarrow> db \<Rightarrow> string \<Rightarrow> string \<Rightarrow> string \<Rightarrow> int \<Rightarrow> bool" where
  "ready_target wide rt pr d domain server_agent bench now \<longleftrightarrow>
     (case (get_row sa_name (agents d) server_agent, get_row be_name (benches d) bench) of
        (Some a, Some b) \<Rightarrow>
          heartbeat_fresh a now \<and> inventory_fresh a b server_agent now \<and> installation_allows a domain
          \<and> policy_allows wide rt d domain server_agent bench = Inr True \<and> apps_available b
          \<and> domain \<notin> si_domain ` set (sites d)
          \<and> (\<exists>settings. pr_settings pr = Inr settings \<and> dns_preflight wide pr settings domain = Inr ())
          \<and> ingress_preflight pr (sa_public_ip a) = Inr ()
      | _ \<Rightarrow> False)"

lemma readiness_iff:
  assumes "check_creation_readiness wide rt pr d domain server_agent bench now = Inr r"
  shows "rr_ready r \<longleftrightarrow> ready_target wide rt pr d domain server_agent bench now"
proof (cases "get_row sa_name (agents d) server_agent")
  case None
  then show ?thesis using assms by (auto simp: check_creation_readiness_def ready_target_def)
next
  case (Some a)
  note a = this
  show ?thesis
  proof (cases "get_row be_name (benches d) bench")
    case None
    then show ?thesis using assms a by (auto simp: check_creation_readiness_def ready_target_def)
  next
    case (Some b)
    then obtain row where row: "policy_check wide rt d domain server_agent bench = Inr row"
      using assms a by (auto simp: check_creation_readiness_def stored_checks_def bindE_eq_Inr)
    have p: "list_all ck_passed (probe_checks wide pr domain a) \<longleftrightarrow>
        (\<exists>settings. pr_settings pr = Inr settings \<and> dns_preflight wide pr settings domain = Inr ()) \<and> ingress_preflight pr (sa_public_ip a) = Inr ()"
      by (auto simp: probe_checks_def bindE_eq_Inr)
    have u: "\<not> list_all ck_passed unprobed" by (simp add: unprobed_def)
    have "rr_ready r = (\<exists>stored. stored_checks wide rt d domain server_agent bench a b now = Inr stored
        \<and> list_all ck_passed stored \<and> list_all ck_passed (probe_checks wide pr domain a))"
      using assms a Some u by (auto simp: check_creation_readiness_def bindE_eq_Inr Let_def split: if_splits)
    also have "\<dots> = ready_target wide rt pr d domain server_agent bench now"
      unfolding p ready_target_def a Some stored_checks_def row bindE_Inr by (simp add: policy_check_passed [OF row] list_all_iff image_iff) blast
    finally show ?thesis .
  qed
qed

end
