(* ===== verification/OperatorApi.thy ===== *)
theory OperatorApi
  imports CreationReadiness FrappeStore LifecycleAuthoring
begin

text \<open>
  What operators and approvers call (\<open>api/operations.py\<close>, \<open>api/site_actions.py\<close>, \<open>api/approvals.py\<close>): an
  operation is authored from a JSON request, or from one of the simple actions on a site, decided on, and
  started once it is approved. A site is created only when \<open>check_creation_readiness\<close> found its target ready.
  \<open>idna\<close> is the codec the lifecycle payloads are normalised with, \<open>as_json\<close> is \<open>frappe.as_json\<close>, \<open>conf\<close> the
  configured lifetime of a command; the times are the two readings of the clock, for the readiness and for the
  command. An exception undoes every change of its request.
\<close>

section \<open>Shared by the endpoints\<close>

definition author_roles :: "string list" where
  "author_roles = [''Controller Admin'', ''Operator'']"

definition require_author :: "runtime \<Rightarrow> string result" where
  "require_author rt =
     bindE (require (rt_user rt \<noteq> [] \<and> rt_user rt \<noteq> ''Guest'' \<and> set author_roles \<inter> set (rt_roles rt (rt_user rt)) \<noteq> {})
              (PermissionError ''Controller Admin or Operator role is required'')) (\<lambda>_. Inr (rt_user rt))"

definition command_lifetime :: "json option \<Rightarrow> int result" where
  "command_lifetime conf =
     of_option (RuntimeError ''invalid frappe_controller_command_lifetime_seconds configuration'')
       (case conf of
          None \<Rightarrow> Some 300
        | Some (JInt n) \<Rightarrow> if 1 \<le> n \<and> n \<le> 300 then Some n else None
        | _ \<Rightarrow> None)"

definition authoring_thrown :: "exn \<Rightarrow> exn option" where
  "authoring_thrown e = (case e of OperationAuthoringError msg \<Rightarrow> Some (ValidationError msg) | _ \<Rightarrow> None)"

text \<open>An operation that needs no approval is queued at once.\<close>

definition queue_unapproved :: "json option \<Rightarrow> int \<Rightarrow> authored \<Rightarrow> db \<Rightarrow> (string \<times> db) result" where
  "queue_unapproved conf now o1 d =
     (if ao_required o1 = 0
      then bindE (command_lifetime conf) (\<lambda>lifetime.
           bindE (enqueue_approved_operation lifetime (ao_operation_id o1) (Aware now) d) (\<lambda>(_, d').
           Inr (''queued'', d')))
      else Inr (ao_state o1, d))"

section \<open>Creating an operation\<close>

definition request_fields :: "string list" where
  "request_fields = [''operation_id'', ''operation_type'', ''server_agent'', ''bench'', ''managed_site'', ''payload'']"

definition plain_text :: "json \<Rightarrow> bool" where
  "plain_text v = (case v of JStr s \<Rightarrow> s \<noteq> [] \<and> s = py_strip s | _ \<Rightarrow> False)"

text \<open>The characters of a JSON text outside its strings: an N or an I among them is a constant.\<close>

primrec code_chars :: "string \<Rightarrow> nat \<Rightarrow> string" where
  "code_chars [] st = []"
| "code_chars (c # cs) st =
     (if st = 0 then (if c = CHR 0x22 then code_chars cs 1 else c # code_chars cs 0)
      else if st = 1 then (if c = CHR 0x5C then code_chars cs 2 else if c = CHR 0x22 then code_chars cs 0 else code_chars cs 1)
      else code_chars cs 1)"

definition has_constant :: "string \<Rightarrow> bool" where
  "has_constant text \<longleftrightarrow> CHR ''N'' \<in> set (code_chars text 0) \<or> CHR ''I'' \<in> set (code_chars text 0)"

text \<open>
  The hook for repeated fields raises an \<open>OperationAuthoringError\<close>, which is a \<open>ValueError\<close>: it is answered as
  invalid JSON. A constant that is no JSON number raises, too.
\<close>

definition read_request :: "string \<Rightarrow> operation_request result" where
  "read_request text =
     bindE (encodeE text) (\<lambda>encoded.
     bindE (require (length encoded \<le> 256 * 1024) (OperationAuthoringError ''operation request is invalid'')) (\<lambda>_.
     bindE (catchE (\<lambda>_. Some (OperationAuthoringError ''operation request is invalid JSON''))
              (bindE (json_loads_with (strict_hook (OperationAuthoringError ''operation request contains duplicate fields'')) text)
                 (\<lambda>v. bindE (require (\<not> has_constant text) (ValueError [])) (\<lambda>_. Inr v)))) (\<lambda>value.
     case value of
       JObj kvs \<Rightarrow>
         bindE (require (jkeys kvs = set request_fields)
                  (OperationAuthoringError ''operation request fields do not match the contract'')) (\<lambda>_.
         bindE (require (list_all (\<lambda>f. plain_text (jget kvs f)) [''operation_id'', ''operation_type'', ''server_agent'', ''bench''])
                  (OperationAuthoringError ''operation request identity is invalid'')) (\<lambda>_.
         bindE (require (jget kvs ''managed_site'' = JNull \<or> plain_text (jget kvs ''managed_site''))
                  (OperationAuthoringError ''managed site identity is invalid'')) (\<lambda>_.
         case jget kvs ''payload'' of
           JObj payload \<Rightarrow>
             Inr \<lparr>rq_operation_id = str_of (jget kvs ''operation_id''), rq_operation_type = str_of (jget kvs ''operation_type''),
                  rq_server_agent = str_of (jget kvs ''server_agent''), rq_bench = str_of (jget kvs ''bench''),
                  rq_managed_site = (case jget kvs ''managed_site'' of JStr s \<Rightarrow> Some s | _ \<Rightarrow> None), rq_payload = payload,
                  rq_preview_of = None, rq_preview_hash = None, rq_retry_of = None\<rparr>
         | _ \<Rightarrow> Inl (OperationAuthoringError ''operation payload must be an object''))))
     | _ \<Rightarrow> Inl (OperationAuthoringError ''operation request fields do not match the contract''))))"


definition readiness_failed :: "readiness_report \<Rightarrow> exn" where
  "readiness_failed r =
     ValidationError (''Site creation readiness failed: ''
       @ join ''; '' (map (\<lambda>row. ck_label row @ '': '' @ ck_message row) (filter (\<lambda>row. \<not> ck_passed row) (rr_checks r))))"

definition check_blank_creation ::
  "(string \<Rightarrow> string result) \<Rightarrow> (string \<Rightarrow> string option) \<Rightarrow> runtime \<Rightarrow> probes \<Rightarrow> int \<Rightarrow> string \<Rightarrow> string \<Rightarrow> string
     \<Rightarrow> (string \<times> json) list \<Rightarrow> db \<Rightarrow> unit result" where
  "check_blank_creation wide idna rt pr now operation server_agent bench payload d =
     (if operation \<noteq> ''site.create_blank'' then Inr ()
      else bindE (validate_lifecycle_payload idna operation payload) (\<lambda>a.
           bindE (check_creation_readiness wide rt pr d (str_of (jget (au_payload a) ''domain'')) server_agent bench now) (\<lambda>r.
           require (rr_ready r) (readiness_failed r))))"

definition create_answer :: "authored \<Rightarrow> string \<Rightarrow> json" where
  "create_answer o1 state =
     JObj [(''operation_id'', JStr (ao_operation_id o1)), (''state'', JStr state),
           (''approval_status'', JStr (ao_approval_status o1)), (''required_approvals'', JInt (ao_required o1)),
           (''payload_hash'', JStr (ao_payload_hash o1))]"

definition create_operation_request ::
  "(string \<Rightarrow> string result) \<Rightarrow> (string \<Rightarrow> string option) \<Rightarrow> runtime \<Rightarrow> probes \<Rightarrow> json option \<Rightarrow> int \<times> int \<Rightarrow> string \<Rightarrow> db
     \<Rightarrow> (json \<times> db) result" where
  "create_operation_request wide idna rt pr conf clock text d =
     bindE (require_author rt) (\<lambda>actor.
     catchE authoring_thrown (
       bindE (read_request text) (\<lambda>req.
       bindE (require_operation wide rt (target_environment d (rq_server_agent req) (rq_managed_site req))
                (rq_operation_type req) (Some (dumps_ascii (JObj (rq_payload req)))) None) (\<lambda>_.
       bindE (if get_row op_name (operations d) (rq_operation_id req) \<noteq> None then Inr ()
              else check_blank_creation wide idna rt pr (fst clock) (rq_operation_type req) (rq_server_agent req) (rq_bench req)
                     (rq_payload req) d) (\<lambda>_.
       bindE (author (frappe_authoring rt) (validate_lifecycle_payload idna) req actor d) (\<lambda>(o1, d1).
       bindE (queue_unapproved conf (snd clock) o1 d1) (\<lambda>(state, d2).
       Inr (create_answer o1 state, d2))))))))"

section \<open>Starting an approved operation\<close>

definition start_answer :: "string \<Rightarrow> json" where
  "start_answer n = JObj [(''operation_id'', JStr n), (''state'', JStr ''queued'')]"

definition start_operation ::
  "(string \<Rightarrow> string result) \<Rightarrow> (string \<Rightarrow> string option) \<Rightarrow> runtime \<Rightarrow> probes \<Rightarrow> json option \<Rightarrow> int \<times> int \<Rightarrow> string \<Rightarrow> db
     \<Rightarrow> (json \<times> db) result" where
  "start_operation wide idna rt pr conf clock operation_id d =
     bindE (require_author rt) (\<lambda>actor.
     bindE (of_option (ValidationError ''operation id must be a UUID'') (py_uuid operation_id)) (\<lambda>n.
     bindE (require (n = py_lower operation_id) (ValidationError ''operation id must be canonical'')) (\<lambda>_.
     bindE (of_option (DoesNotExistError ''operation does not exist'') (get_row op_name (operations d) n)) (\<lambda>r.
     bindE (require (op_requested_by r = actor \<or> ''Controller Admin'' \<in> set (rt_roles rt actor))
              (PermissionError ''only the requester or Controller Admin may start an operation'')) (\<lambda>_.
     bindE (require_operation wide rt (target_environment d (op_server_agent r) (op_managed_site r)) (op_type r)
              (op_payload_json r) (op_bulk_parent r)) (\<lambda>_.
     if op_state r = ''queued'' then Inr (start_answer n, d)
     else bindE (require (op_approval_status r \<in> {''approved'', ''not_required''})
                   (PermissionError ''operation approval threshold is not satisfied'')) (\<lambda>_.
          bindE (json_loads (or_empty (op_payload_json r))) (\<lambda>value.
          bindE (case value of
                   JObj payload \<Rightarrow> check_blank_creation wide idna rt pr (fst clock) (op_type r) (op_server_agent r) (op_bench r) payload d
                 | _ \<Rightarrow> require (op_type r \<noteq> ''site.create_blank'') lifecycle_error) (\<lambda>_.
          bindE (command_lifetime conf) (\<lambda>lifetime.
          bindE (enqueue_approved_operation lifetime n (Aware (snd clock)) d) (\<lambda>(_, d').
          Inr (start_answer n, d'))))))))))))"

section \<open>The simple actions on a site\<close>

definition site_actions :: "string list" where
  "site_actions = [''site.create_blank'', ''site.backup'', ''site.migrate'', ''site.scheduler.enable'',
     ''site.scheduler.disable'', ''site.maintenance.enable'', ''site.maintenance.disable'']"

definition stripped :: "string \<Rightarrow> string \<Rightarrow> string result" where
  "stripped value label =
     bindE (require (py_strip value \<noteq> []) (ValidationError (label @ '' is required''))) (\<lambda>_. Inr (py_strip value))"

definition action_target :: "db \<Rightarrow> string \<Rightarrow> string \<Rightarrow> (string option \<times> (string \<times> json) list) result" where
  "action_target d domain action =
     (case find (\<lambda>s. si_domain s = domain) (sites d) of
        Some s \<Rightarrow>
          bindE (require (action \<noteq> ''site.create_blank'') (ValidationError ''A Managed Site already exists for this domain'')) (\<lambda>_.
          Inr (Some (si_name s), (''domain'', JStr domain) # (if action = ''site.backup'' then [(''with_files'', JBool True)] else [])))
      | None \<Rightarrow>
          bindE (require (action = ''site.create_blank'') (DoesNotExistError ''Create the site first, then use this action'')) (\<lambda>_.
          Inr (None, [(''domain'', JStr domain)])))"

definition short_answer :: "string \<Rightarrow> string \<Rightarrow> json" where
  "short_answer n state = JObj [(''operation_id'', JStr n), (''state'', JStr state)]"

definition action_request ::
  "string \<Rightarrow> string \<Rightarrow> string \<Rightarrow> string \<Rightarrow> string option \<Rightarrow> (string \<times> json) list \<Rightarrow> operation_request" where
  "action_request n action server_agent bench site payload =
     \<lparr>rq_operation_id = n, rq_operation_type = action, rq_server_agent = server_agent, rq_bench = bench,
      rq_managed_site = site, rq_payload = payload, rq_preview_of = None, rq_preview_hash = None, rq_retry_of = None\<rparr>"

definition submit_site_action ::
  "(string \<Rightarrow> string result) \<Rightarrow> (string \<Rightarrow> string option) \<Rightarrow> (json \<Rightarrow> string) \<Rightarrow> runtime \<Rightarrow> json option \<Rightarrow> int \<Rightarrow> string
     \<Rightarrow> string \<Rightarrow> string \<Rightarrow> string \<Rightarrow> string \<Rightarrow> db \<Rightarrow> (json \<times> db) result" where
  "submit_site_action wide idna as_json rt conf now new_id domain_text agent_text bench_text action_text d =
     bindE (require_author rt) (\<lambda>actor.
     bindE (stripped domain_text ''Domain'') (\<lambda>domain0.
     let domain = rstrip_dots (py_lower domain0) in
     bindE (stripped agent_text ''Server Agent'') (\<lambda>server_agent.
     bindE (stripped bench_text ''Bench'') (\<lambda>bench.
     bindE (stripped action_text ''Action'') (\<lambda>action.
     bindE (require (action \<in> set site_actions) (ValidationError ''Unsupported site action'')) (\<lambda>_.
     bindE (action_target d domain action) (\<lambda>(site, payload).
     catchE authoring_thrown (
       bindE (require_operation wide rt (target_environment d server_agent site) action (Some (as_json (JObj payload))) None) (\<lambda>_.
       bindE (author (frappe_authoring rt) (validate_lifecycle_payload idna)
                (action_request new_id action server_agent bench site payload) actor d) (\<lambda>(o1, d1).
       bindE (queue_unapproved conf now o1 d1) (\<lambda>(state, d2).
       Inr (short_answer (ao_operation_id o1) state, d2))))))))))))"

section \<open>Decisions\<close>

definition decide_operation ::
  "(string \<Rightarrow> string result) \<Rightarrow> runtime \<Rightarrow> string \<Rightarrow> string \<Rightarrow> string option \<Rightarrow> db \<Rightarrow> (json \<times> db) result" where
  "decide_operation wide rt operation_id decision comment d =
     bindE (require (rt_user rt \<noteq> [] \<and> rt_user rt \<noteq> ''Guest'' \<and> ''Approver'' \<in> set (rt_roles rt (rt_user rt)))
              (PermissionError ''Approver role is required'')) (\<lambda>_.
     bindE (require (decision \<in> {''approved'', ''rejected''}) (ValidationError ''Decision must be approved or rejected'')) (\<lambda>_.
     bindE (require (py_len (py_strip (or_empty comment)) \<le> 1000) (ValidationError ''Approval comment is invalid'')) (\<lambda>_.
     bindE (of_option (DoesNotExistError ''Operation does not exist'') (get_row op_name (operations d) operation_id)) (\<lambda>r.
     bindE (require (op_approval_status r = ''pending'') (ValidationError ''Operation is not accepting approvals'')) (\<lambda>_.
     bindE (require (op_requested_by r \<noteq> rt_user rt)
              (PermissionError ''An operation requester cannot approve their own operation'')) (\<lambda>_.
     bindE (ap_insert wide rt
              \<lparr>ap_name = [], ap_operation = op_name r, ap_policy = or_empty (op_policy r), ap_decision = decision,
               ap_approver = [], ap_decided_at = 0, ap_comment = Some (py_strip (or_empty comment)), ap_payload_hash = [],
               ap_target_key = [], ap_preview_hash = None, ap_decision_hash = []\<rparr> d) (\<lambda>d'.
     bindE (of_option (AttributeError ''approval_status'') (get_row op_name (operations d') (op_name r))) (\<lambda>updated.
     Inr (JObj [(''operation_id'', JStr (op_name r)), (''approval_status'', JStr (op_approval_status updated)),
                (''approval_count'', JInt (op_approval_count updated)), (''required_approvals'', JInt (op_required updated))], d')))))))))"

section \<open>Sites are created on ready targets\<close>

text \<open>The domain a stored site creation is about.\<close>

definition creation_domain :: "(string \<Rightarrow> string option) \<Rightarrow> op_row \<Rightarrow> string \<Rightarrow> bool" where
  "creation_domain idna r domain \<longleftrightarrow>
     (\<exists>kvs. json_loads (or_empty (op_payload_json r)) = Inr (JObj kvs) \<and> lifecycle_domain idna (jget kvs ''domain'') = Inr domain)"

lemma blank_payload:
  assumes "validate_lifecycle_payload idna ''site.create_blank'' payload = Inr a"
  obtains dm t g where "au_payload a = [(''domain'', JStr dm), (''execution_timeout_seconds'', JInt t), (''expected_inventory_digest'', g)]"
    "lifecycle_domain idna (jget payload ''domain'') = Inr dm" "is_domain dm" "g = JNull \<or> is_digest_json g"
proof -
  have a: "lifecycle_base idna payload common_fields = Inr (au_payload a)"
    using assms
    by (auto simp: validate_lifecycle_payload_def normalized_payload_def confirmed_payload_def create_backup_ops_def
        destructive_ops_def result_simps)
  obtain d t g where n: "au_payload a = [(''domain'', JStr d), (''execution_timeout_seconds'', JInt t), (''expected_inventory_digest'', g)]"
    "is_domain d" "g = JNull \<or> is_digest_json g"
    by (rule lifecycle_base_ok [OF a])
  have "lifecycle_domain idna (jget payload ''domain'') = Inr d"
    using a n(1) by (auto simp: lifecycle_base_def Let_def result_simps)
  then show ?thesis using that n by blast
qed

lemma blank_stored:
  assumes "au_payload a = [(''domain'', JStr dm), (''execution_timeout_seconds'', JInt t), (''expected_inventory_digest'', g)]"
    and "is_domain dm" "g = JNull \<or> is_digest_json g" and "op_payload_json r = Some (json_dumps (JObj (au_payload a)))"
  shows "creation_domain idna r dm"
proof -
  have p: "plain_json (JObj (au_payload a))" using assms(1,3) by (auto simp: is_digest_json_def split: json.splits)
  obtain kvs where c: "canon (JObj (au_payload a)) = JObj kvs" by simp
  have "json_loads (or_empty (op_payload_json r)) = Inr (JObj kvs)"
    using loads_dumps [OF keeps_hooks(1) p] assms(4) c by (simp add: json_loads_def)
  moreover have "jget kvs ''domain'' = JStr dm" using jget_canon [OF c, of "''domain''"] assms(1) by simp
  ultimately show ?thesis using lifecycle_domain_fixed [OF assms(2)] by (auto simp: creation_domain_def)
qed

lemma check_blank_ready:
  assumes "check_blank_creation wide idna rt pr now ''site.create_blank'' server_agent bench payload d = Inr ()"
  obtains a dm where "validate_lifecycle_payload idna ''site.create_blank'' payload = Inr a"
    "lifecycle_domain idna (jget payload ''domain'') = Inr dm" "jget (au_payload a) ''domain'' = JStr dm"
    "ready_target wide rt pr d dm server_agent bench now"
proof -
  obtain a r where a: "validate_lifecycle_payload idna ''site.create_blank'' payload = Inr a"
    and r: "check_creation_readiness wide rt pr d (str_of (jget (au_payload a) ''domain'')) server_agent bench now = Inr r" "rr_ready r"
    using assms by (auto simp: check_blank_creation_def result_simps)
  obtain dm t g where n: "au_payload a = [(''domain'', JStr dm), (''execution_timeout_seconds'', JInt t), (''expected_inventory_digest'', g)]"
    "lifecycle_domain idna (jget payload ''domain'') = Inr dm" "is_domain dm" "g = JNull \<or> is_digest_json g"
    by (rule blank_payload [OF a])
  have "ready_target wide rt pr d dm server_agent bench now" using readiness_iff [OF r(1)] r(2) n(1) by simp
  then show ?thesis using that [OF a n(2)] n(1) by simp
qed

lemma enqueue_rows:
  assumes "enqueue_approved_operation lifetime n now d = Inr (env, d')" "get_row op_name (operations d') m = Some r'"
  obtains r where "get_row op_name (operations d) m = Some r" "op_type r' = op_type r" "op_payload_json r' = op_payload_json r"
    "op_server_agent r' = op_server_agent r" "op_bench r' = op_bench r" "m \<noteq> n \<Longrightarrow> r' = r"
proof -
  obtain o1 o2 digest where o: "get_row op_name (operations d) n = Some o1" "get_row op_name (operations d') n = Some o2"
    "o2 = o1\<lparr>op_state := ''queued'', op_command_json := op_command_json o2, op_command_hash := Some digest\<rparr>"
    "\<forall>m. m \<noteq> n \<longrightarrow> get_row op_name (operations d') m = get_row op_name (operations d) m"
    using op_of_dispatch assms(1) unfolding enqueue_approved_operation_def by meson
  show ?thesis
  proof (cases "m = n")
    case True
    then have "r' = o2" using o(2) assms(2) by simp
    moreover have "op_type o2 = op_type o1" "op_payload_json o2 = op_payload_json o1" "op_server_agent o2 = op_server_agent o1"
      "op_bench o2 = op_bench o1"
      using arg_cong [OF o(3), of op_type] arg_cong [OF o(3), of op_payload_json] arg_cong [OF o(3), of op_server_agent]
        arg_cong [OF o(3), of op_bench] by simp_all
    ultimately show ?thesis using that [of o1] o(1) True by simp
  next
    case False
    then show ?thesis using that [of r'] o(4) assms(2) by simp
  qed
qed

lemma resolved_names:
  "fr_resolve_target d server_agent bench site = Inr t \<Longrightarrow> ts_server_agent t = server_agent \<and> ts_bench t = bench"
  unfolding fr_resolve_target_def bindE_eq_Inr
  by (auto simp: of_option_eq_Inr check_snapshot_def bindE_eq_Inr require_eq_Inr split: option.splits if_splits dest!: get_row_Some)

lemma queued_rows:
  assumes "queue_unapproved conf now o1 d = Inr (state, d')" "get_row op_name (operations d') m = Some r'"
  obtains r where "get_row op_name (operations d) m = Some r" "op_type r' = op_type r" "op_payload_json r' = op_payload_json r"
    "op_server_agent r' = op_server_agent r" "op_bench r' = op_bench r"
proof (cases "ao_required o1 = 0")
  case True
  then obtain l env where "enqueue_approved_operation l (ao_operation_id o1) (Aware now) d = Inr (env, d')"
    using assms(1) by (auto simp: queue_unapproved_def bindE_eq_Inr)
  then show ?thesis by (rule enqueue_rows [OF _ assms(2)]) (rule that)
next
  case False
  then show ?thesis using assms that [of r'] by (simp add: queue_unapproved_def)
qed

lemma authored_new:
  assumes "author (frappe_authoring rt) validator req actor d = Inr (o1, d1)"
    and "get_row op_name (operations d) n = None" "get_row op_name (operations d1) n = Some r"
  obtains a where "n = py_lower (rq_operation_id req)" "op_type r = rq_operation_type req" "op_server_agent r = rq_server_agent req"
    "op_bench r = rq_bench req" "validator (rq_operation_type req) (rq_payload req) = Inr a"
    "op_payload_json r = Some (json_dumps (JObj (au_payload a)))"
  using assms(1)
proof (rule author_parts)
  fix u target a policy payload preview identity
  assume p: "check_identity req actor = Inr u"
    "resolve_target (frappe_authoring rt) d (rq_server_agent req) (rq_bench req) (rq_managed_site req) = Inr target"
    "validator (rq_operation_type req) (rq_payload req) = Inr a" "canonical_payload (au_payload a) = Inr payload"
    and o1: "o1 = authored_operation req actor u target policy payload preview identity"
    and c: "create_operation (frappe_authoring rt) o1 d = Inr d1"
  have u: "u = py_lower (rq_operation_id req)" "actor \<noteq> []" using p(1) by (auto simp: check_identity_def result_simps)
  have f: "ao_operation_id o1 = u" "ao_requested_by o1 \<noteq> []" "ao_operation_type o1 = rq_operation_type req"
    "ao_server_agent o1 = rq_server_agent req" "ao_bench o1 = rq_bench req" "ao_payload_json o1 = json_dumps (JObj (au_payload a))"
    using o1 u(2) resolved_names [OF p(2) [unfolded frappe_authoring_simps]] p(4)
    by (auto simp: authored_operation_def canonical_payload_def result_simps Let_def simp del: json_dumps.simps)
  note k = created_keeps [OF c [unfolded frappe_authoring_simps] f(2)]
  have n: "n = u" using k assms(2,3) f(1) by (metis option.distinct(1))
  then have "operation_fields r = operation_fields (authored_row o1)" using k assms(3) f(1) by auto
  then show thesis using that [of a] n u(1) f p(3) by (auto simp: operation_fields_def authored_row_def)
qed

text \<open>What an endpoint authors for a target it found ready.\<close>

definition found_ready ::
  "(string \<Rightarrow> string result) \<Rightarrow> (string \<Rightarrow> string option) \<Rightarrow> runtime \<Rightarrow> probes \<Rightarrow> int \<Rightarrow> operation_request \<Rightarrow> db \<Rightarrow> bool" where
  "found_ready wide idna rt pr now req d \<longleftrightarrow>
     (\<exists>dm. lifecycle_domain idna (jget (rq_payload req) ''domain'') = Inr dm
        \<and> ready_target wide rt pr d dm (rq_server_agent req) (rq_bench req) now)"

lemma authored_on_ready:
  assumes a: "author (frappe_authoring rt) (validate_lifecycle_payload idna) req actor d = Inr (o1, d1)"
    and q: "queue_unapproved conf t o1 d1 = Inr (state, d')"
    and n: "get_row op_name (operations d) n = None" "get_row op_name (operations d') n = Some r'"
    and b: "op_type r' = ''site.create_blank''"
    and f: "n = py_lower (rq_operation_id req) \<Longrightarrow> rq_operation_type req = ''site.create_blank'' \<Longrightarrow> found_ready wide idna rt pr now req d"
  shows "\<exists>dm. creation_domain idna r' dm \<and> ready_target wide rt pr d dm (op_server_agent r') (op_bench r') now"
proof -
  obtain r where r: "get_row op_name (operations d1) n = Some r" "op_type r' = op_type r" "op_payload_json r' = op_payload_json r"
    "op_server_agent r' = op_server_agent r" "op_bench r' = op_bench r"
    by (rule queued_rows [OF q n(2)])
  obtain a where a: "n = py_lower (rq_operation_id req)" "op_type r = rq_operation_type req" "op_server_agent r = rq_server_agent req"
    "op_bench r = rq_bench req" "validate_lifecycle_payload idna (rq_operation_type req) (rq_payload req) = Inr a"
    "op_payload_json r = Some (json_dumps (JObj (au_payload a)))"
    by (rule authored_new [OF a n(1) r(1)])
  have t: "rq_operation_type req = ''site.create_blank''" using b r(2) a(2) by simp
  obtain dm t g where 2: "au_payload a = [(''domain'', JStr dm), (''execution_timeout_seconds'', JInt t), (''expected_inventory_digest'', g)]"
    "lifecycle_domain idna (jget (rq_payload req) ''domain'') = Inr dm" "is_domain dm" "g = JNull \<or> is_digest_json g"
    by (rule blank_payload [OF a(5) [unfolded t]])
  have "creation_domain idna r' dm" by (rule blank_stored [OF 2(1,3,4)]) (simp add: r(3) a(6))
  then show ?thesis using f [OF a(1) t] 2(2) r(4,5) a(3,4) by (auto simp: found_ready_def)
qed

lemma created_on_ready:
  assumes c: "create_operation_request wide idna rt pr conf clock text d = Inr (x, d')"
    and names: "\<forall>r\<in>set (operations d). py_lower (op_name r) = op_name r"
    and n: "get_row op_name (operations d) n = None" "get_row op_name (operations d') n = Some r'"
    and b: "op_type r' = ''site.create_blank''"
  shows "\<exists>dm. creation_domain idna r' dm \<and> ready_target wide rt pr d dm (op_server_agent r') (op_bench r') (fst clock)"
proof -
  obtain actor req o1 d1 state where
    ck: "(if get_row op_name (operations d) (rq_operation_id req) \<noteq> None then Inr ()
          else check_blank_creation wide idna rt pr (fst clock) (rq_operation_type req) (rq_server_agent req) (rq_bench req)
                 (rq_payload req) d) = Inr ()"
    and a: "author (frappe_authoring rt) (validate_lifecycle_payload idna) req actor d = Inr (o1, d1)"
    and q: "queue_unapproved conf (snd clock) o1 d1 = Inr (state, d')"
    using c unfolding create_operation_request_def bindE_eq_Inr catchE_eq_Inr ex_unit by (auto simp: bindE_eq_Inr simp del: not_None_eq)
  have "found_ready wide idna rt pr (fst clock) req d" if m: "n = py_lower (rq_operation_id req)" "rq_operation_type req = ''site.create_blank''"
  proof -
    have "get_row op_name (operations d) (rq_operation_id req) = None"
    proof (rule ccontr)
      assume k: "get_row op_name (operations d) (rq_operation_id req) \<noteq> None"
      then obtain y where "y \<in> set (operations d)" "op_name y = rq_operation_id req" by (auto dest: get_row_Some)
      then have "n = rq_operation_id req" using names m(1) by force
      then show False using n(1) k by simp
    qed
    then have "check_blank_creation wide idna rt pr (fst clock) ''site.create_blank'' (rq_server_agent req) (rq_bench req) (rq_payload req) d = Inr ()"
      using ck m(2) by simp
    then show ?thesis unfolding found_ready_def by (rule check_blank_ready) blast
  qed
  then show ?thesis by (rule authored_on_ready [OF a q n b])
qed

lemma started_on_ready:
  assumes c: "start_operation wide idna rt pr conf clock m d = Inr (x, d')"
    and n: "get_row op_name (operations d) n = Some r" "op_state r \<noteq> ''queued''"
    and n': "get_row op_name (operations d') n = Some r'" "op_state r' = ''queued''"
    and b: "op_type r' = ''site.create_blank''"
  shows "\<exists>dm. creation_domain idna r' dm \<and> ready_target wide rt pr d dm (op_server_agent r') (op_bench r') (fst clock)"
proof -
  obtain u row where row: "get_row op_name (operations d) u = Some row"
    and rest: "(if op_state row = ''queued'' then Inr (start_answer u, d)
     else bindE (require (op_approval_status row \<in> {''approved'', ''not_required''})
                   (PermissionError ''operation approval threshold is not satisfied'')) (\<lambda>_.
          bindE (json_loads (or_empty (op_payload_json row))) (\<lambda>value.
          bindE (case value of
                   JObj payload \<Rightarrow> check_blank_creation wide idna rt pr (fst clock) (op_type row) (op_server_agent row) (op_bench row) payload d
                 | _ \<Rightarrow> require (op_type row \<noteq> ''site.create_blank'') lifecycle_error) (\<lambda>_.
          bindE (command_lifetime conf) (\<lambda>lifetime.
          bindE (enqueue_approved_operation lifetime u (Aware (snd clock)) d) (\<lambda>(_, d').
          Inr (start_answer u, d'))))))) = Inr (x, d')"
    using c unfolding start_operation_def bindE_eq_Inr of_option_eq_Inr by blast
  have nq: "op_state row \<noteq> ''queued''"
  proof
    assume "op_state row = ''queued''"
    then have "d' = d" using rest by simp
    then show False using n n' by simp
  qed
  then obtain vl lifetime env where v: "json_loads (or_empty (op_payload_json row)) = Inr vl"
    and ck: "(case vl of
                   JObj payload \<Rightarrow> check_blank_creation wide idna rt pr (fst clock) (op_type row) (op_server_agent row) (op_bench row) payload d
                 | _ \<Rightarrow> require (op_type row \<noteq> ''site.create_blank'') lifecycle_error) = Inr ()"
    and e: "enqueue_approved_operation lifetime u (Aware (snd clock)) d = Inr (env, d')"
    using rest by (auto simp: bindE_eq_Inr)
  obtain r1 where r1: "get_row op_name (operations d) n = Some r1" "op_type r' = op_type r1" "op_payload_json r' = op_payload_json r1"
    "op_server_agent r' = op_server_agent r1" "op_bench r' = op_bench r1" "n \<noteq> u \<Longrightarrow> r' = r1"
    using enqueue_rows [OF e n'(1)] by metis
  have "n = u" using r1(1,6) n n'(2) by auto
  then have same: "r1 = row" using r1(1) row by simp
  obtain payload where p: "vl = JObj payload" using ck b r1(2) same by (cases vl) (auto simp: require_def)
  have "check_blank_creation wide idna rt pr (fst clock) ''site.create_blank'' (op_server_agent row) (op_bench row) payload d = Inr ()"
    using ck b r1(2) same p by simp
  then obtain a dm where "lifecycle_domain idna (jget payload ''domain'') = Inr dm"
    "ready_target wide rt pr d dm (op_server_agent row) (op_bench row) (fst clock)"
    by (rule check_blank_ready)
  then show ?thesis using v p r1(3-5) same by (auto simp: creation_domain_def)
qed

section \<open>A small scene\<close>

definition blank_kvs :: "(string \<times> json) list" where
  "blank_kvs = [(''domain'', JStr ''a.example''), (''execution_timeout_seconds'', JInt 3600), (''expected_inventory_digest'', JNull)]"

definition blank_text :: string where
  "blank_text = json_dumps (JObj blank_kvs)"

definition text_list :: "string list \<Rightarrow> string option" where
  "text_list xs = Some (json_dumps (JList (map JStr xs)))"

definition scene_agent :: "int option \<Rightarrow> agent_row" where
  "scene_agent seen = demo_agent
     \<lparr>sa_status := ''Online'', sa_reported_status := Some ''ready'', sa_last_seen := seen, sa_inventory_at := seen,
      sa_inventory_digest := Some (replicate 64 CHR ''a''), sa_capabilities := text_list [''site.create_blank''],
      sa_site_suffixes := text_list [''example''], sa_operations := text_list [''site.create_blank''],
      sa_public_ip := Some ''8.8.8.8''\<rparr>"

definition scene_bench :: bench_row where
  "scene_bench = demo_bench
     \<lparr>be_capabilities := text_list [''site.create_blank''], be_inventory_at := Some 0, be_required_apps := text_list [''frappe''],
      be_installed_apps := Some (json_dumps (JList [JList [JStr ''frappe'', JStr ''15'']]))\<rparr>"

definition scene_db :: "int option \<Rightarrow> op_row list \<Rightarrow> optarget_row list \<Rightarrow> db" where
  "scene_db seen ops targets =
     empty_db\<lparr>agents := [scene_agent seen], benches := [scene_bench], operations := ops, optargets := targets\<rparr>"

definition scene_target :: target_snapshot where
  "scene_target = \<lparr>ts_server_agent = ''agent-1'', ts_agent_id = ''agent-1'', ts_bench = ''bench-1'', ts_bench_id = ''bench-1'',
     ts_managed_site = None, ts_site_domain = None, ts_environment = ''staging'', ts_inventory_revision = replicate 64 CHR ''a'',
     ts_capabilities = [''site.create_blank''], ts_agent_enabled = True, ts_site_active = True\<rparr>"

definition scene_op :: op_row where
  "scene_op = demo_op
     \<lparr>op_name := demo_uuid, op_operation_id := demo_uuid, op_idempotency_key := ''controller:'' @ demo_uuid,
      op_managed_site := None, op_type := ''site.create_blank'', op_payload_json := Some blank_text,
      op_payload_hash := sha256_hex blank_text, op_requested_by := ''alice'', op_policy := None,
      op_approval_status := ''not_required'', op_required := 0\<rparr>"

definition scene_optarget :: "string \<Rightarrow> optarget_row" where
  "scene_optarget key = demo_optarget
     \<lparr>ot_name := ''new'', ot_operation := demo_uuid, ot_target_key := key, ot_managed_site := None, ot_site_domain := None,
      ot_type := ''site.create_blank'', ot_payload_hash := sha256_hex blank_text, ot_revision := Some (replicate 64 CHR ''a'')\<rparr>"

lemma blank_facts:
  "json_loads blank_text = Inr (JObj blank_kvs)" "canonical_payload blank_kvs = Inr (blank_text, sha256_hex blank_text)"
  "validate_lifecycle_payload idna ''site.create_blank'' [(''domain'', JStr ''a.example'')] = Inr
     \<lparr>au_payload = blank_kvs, au_site_required = False, au_destructive = False, au_backup = False, au_approval = False,
      au_site_identity = True, au_preview = False\<rparr>"
  "validate_lifecycle_payload idna ''site.create_blank'' blank_kvs = Inr
     \<lparr>au_payload = blank_kvs, au_site_required = False, au_destructive = False, au_backup = False, au_approval = False,
      au_site_identity = True, au_preview = False\<rparr>"
proof -
  show "json_loads blank_text = Inr (JObj blank_kvs)"
    using loads_dumps [OF keeps_hooks(1), of "JObj blank_kvs"] by (simp add: json_loads_def blank_text_def blank_kvs_def)
  have "\<not> has_surrogate (json_dumps (JObj blank_kvs))"
    by (rule ascii_no_surrogate, rule ascii_dumps) (simp add: blank_kvs_def)
  moreover have "length (json_dumps (JObj blank_kvs)) \<le> 256 * 1024"
    by (simp add: blank_kvs_def quote_str_def escape_char_def int_str_def nat_str.simps)
  ultimately show "canonical_payload blank_kvs = Inr (blank_text, sha256_hex blank_text)"
    by (simp add: canonical_payload_def blank_text_def encodeE_def blank_kvs_def sensitive_key_def sensitive_keys_def string_defs
        del: json_dumps.simps)
  have dm: "lifecycle_domain idna (JStr ''a.example'') = Inr ''a.example''"
    by (rule lifecycle_domain_fixed) (simp add: string_defs)
  show "validate_lifecycle_payload idna ''site.create_blank'' [(''domain'', JStr ''a.example'')] = Inr
     \<lparr>au_payload = blank_kvs, au_site_required = False, au_destructive = False, au_backup = False, au_approval = False,
      au_site_identity = True, au_preview = False\<rparr>"
    "validate_lifecycle_payload idna ''site.create_blank'' blank_kvs = Inr
     \<lparr>au_payload = blank_kvs, au_site_required = False, au_destructive = False, au_backup = False, au_approval = False,
      au_site_identity = True, au_preview = False\<rparr>"
    using dm
    by (simp_all add: validate_lifecycle_payload_def normalized_payload_def confirmed_payload_def create_backup_ops_def base_only_ops_def
        destructive_ops_def lifecycle_operations_def lifecycle_base_def common_fields_def blank_kvs_def Let_def)
qed

lemma scene_capabilities: "json_string_set e 256 (text_list [x]) = (if x = [] then Inl e else Inr [x])"
  using loads_dumps [OF keeps_hooks(1), of "JList [JStr x]"]
  by (simp add: json_string_set_def json_column_def text_list_def json_loads_def)

lemma scene_lists: "json_or_null (text_list [x]) = JList [JStr x]"
  using loads_dumps [OF keeps_hooks(1), of "JList [JStr x]"]
  by (simp add: json_or_null_def text_list_def json_loads_def)

lemma scene_apps: "json_or_null (be_installed_apps scene_bench) = JList [JList [JStr ''frappe'', JStr ''15'']]"
  using loads_dumps [OF keeps_hooks(1), of "JList [JList [JStr ''frappe'', JStr ''15'']]"]
  by (simp add: json_or_null_def scene_bench_def json_loads_def)

lemma scene_rows:
  "get_row sa_name (agents (scene_db seen ops targets)) ''agent-1'' = Some (scene_agent seen)"
  "get_row be_name (benches (scene_db seen ops targets)) ''bench-1'' = Some scene_bench"
  "sites (scene_db seen ops targets) = []" "policies (scene_db seen ops targets) = []"
  by (simp_all add: scene_db_def get_row_def scene_agent_def demo_agent_def scene_bench_def demo_bench_def empty_db_def)

lemma scene_resolved: "fr_resolve_target (scene_db seen ops targets) ''agent-1'' ''bench-1'' None = Inr scene_target"
  by (simp add: fr_resolve_target_def scene_rows scene_agent_def demo_agent_def scene_bench_def demo_bench_def
      scene_capabilities resolve_site_def check_snapshot_def environments_def scene_target_def sha_a)

lemma scene_environment: "target_environment (scene_db seen ops targets) ''agent-1'' None = Some ''staging''"
  by (simp add: target_environment_def agent_environment_def scene_db_def get_row_def scene_agent_def demo_agent_def
      environment_or_none_def feature_environments_def)

lemma scene_gate: "require_operation no_wide demo_runtime (Some ''staging'') ''site.create_blank'' p None = Inr ()"
  by (simp add: require_operation_def demo_config environment_or_none_def feature_environments_def operation_enabled_def
      operation_feature_def data_update_types_def operation_features_def feature_enabled_def feature_set_def demo_config_def)

lemma scene_dispatched:
  "\<exists>env d'. enqueue_approved_operation 300 demo_uuid (Aware now) (scene_db seen [scene_op] [scene_optarget key]) = Inr (env, d')"
proof -
  define d where "d = scene_db seen [scene_op] [scene_optarget key]"
  define j where "j = \<lparr>jo_op = scene_op, jo_agent = scene_agent seen, jo_bench = scene_bench, jo_site = None\<rparr>"
  have j: "joined_operation d demo_uuid = Some j"
    by (simp add: joined_operation_def d_def scene_db_def j_def get_row_def scene_op_def demo_op_def scene_agent_def demo_agent_def
        scene_bench_def demo_bench_def opt_row_def)
  have i: "check_identity_binding j = Inr demo_uuid"
    using py_uuid_canonical [OF demo_uuid_canonical] py_lower_demo ends_with_append [of demo_uuid "''controller:''"]
    by (simp add: check_identity_binding_def j_def scene_op_def demo_op_def scene_agent_def demo_agent_def Let_def)
  have a: "ascii_json (JObj blank_kvs)" by (simp add: blank_kvs_def)
  have p: "dispatch_payload (jo_op j) = Inr (blank_kvs, sha256_hex blank_text)"
    using ascii_sha [OF a]
    by (simp add: dispatch_payload_def j_def scene_op_def demo_op_def blank_facts ascii_sha256 is_ok_iff validate_json_iff
        blank_text_def [symmetric] del: validate_json.simps json_dumps.simps)
       (simp add: blank_kvs_def sensitive_marker_def normalized_key_def forbidden_keys_def string_defs)
  have t: "single_target d (op_name (jo_op j)) = Inr (scene_optarget key)"
    by (simp add: single_target_def d_def scene_db_def j_def scene_op_def scene_optarget_def)
  have s: "check_snapshot_binding j (scene_optarget key) = Inr ()"
    by (simp add: check_snapshot_binding_def j_def scene_op_def demo_op_def scene_optarget_def demo_optarget_def scene_agent_def
        Let_def sha_a)
  have c: "approval_claims d (jo_op j) (scene_optarget key) = Inr []"
    by (simp add: approval_claims_def j_def scene_op_def demo_op_def d_def scene_db_def empty_db_def)
  have "\<exists>env d'. dispatch 300 demo_uuid (Aware now) d = Inr (env, d')"
    by (rule dispatch_runs [OF j i p t s c])
       (use ascii_sha256 demo_uuid_ascii in \<open>simp_all add: envelope_of_def j_def scene_op_def demo_op_def scene_agent_def
        demo_agent_def scene_bench_def demo_bench_def json_opt_def blank_kvs_def ascii_micro ascii_def [of "replicate _ _"]\<close>)
  then show ?thesis by (simp add: enqueue_approved_operation_def naive_utc_def d_def)
qed

definition scene_page :: "string \<Rightarrow> json" where
  "scene_page path = JObj [(''success'', JBool True),
     (''result'', if CHR ''?'' \<in> set path then JList []
                  else JObj [(''name'', JStr ''example''), (''status'', JStr ''active'')])]"

definition scene_probes :: probes where
  "scene_probes = \<lparr>pr_settings = Inr (replicate 20 CHR ''t'', replicate 32 CHR ''a''),
     pr_fetch = (\<lambda>_ path. Fetched (json_dumps (scene_page path))), pr_connect = (\<lambda>ip. ip = ''8.8.8.8'')\<rparr>"

lemma scene_fetched:
  "dns_get wide scene_probes token path = Inr (member_of (scene_page path) ''result'')"
proof -
  define raw where "raw = json_dumps (scene_page path)"
  have t: "json_text wide raw = Inr raw"
    unfolding raw_def by (rule json_text_ascii, rule ascii_dumps) (auto simp: scene_page_def quote_str_def escape_char_def)
  have l: "json_loads raw = Inr (canon (scene_page path))"
    using loads_dumps [OF keeps_hooks(1), of "scene_page path"] unfolding raw_def json_loads_def by (auto simp: scene_page_def)
  have n: "length raw \<le> 1024 * 1024" by (simp add: raw_def scene_page_def quote_str_def escape_char_def)
  show ?thesis
    using t l n unfolding dns_get_def scene_probes_def probes.select_convs fetched.case raw_def [symmetric]
    by (auto simp: scene_page_def jget_def simp del: json_dumps.simps)
qed

lemma scene_dns: "dns_preflight wide scene_probes (replicate 20 CHR ''t'', replicate 32 CHR ''a'') ''a.example'' = Inr ()"
proof -
  have z: "zone_id_ok (replicate 32 CHR ''a'')" by (simp add: zone_id_ok_def list_all_iff)
  have "CHR ''?'' \<notin> set (''zones/'' @ replicate 32 CHR ''a'')" by simp
  then have 1: "dns_get wide scene_probes t (''zones/'' @ replicate 32 CHR ''a'') = Inr (JObj [(''name'', JStr ''example''), (''status'', JStr ''active'')])" for t
    unfolding scene_fetched scene_page_def by simp
  have 2: "dns_get wide scene_probes t (records_path z dm) = Inr (JList [])" for t z dm
    unfolding scene_fetched scene_page_def records_path_def by simp
  show ?thesis
    by (simp only: dns_preflight_def prod.case z 1 2 bindE_Inr)
       (simp add: in_zone_def string_defs encodeE_def numeral_eq_Suc)
qed

lemma scene_ready: "ready_target no_wide demo_runtime scene_probes (scene_db (Some 0) ops targets) ''a.example'' ''agent-1'' ''bench-1'' 0"
proof -
  have p: "policy_allows no_wide demo_runtime (scene_db (Some 0) ops targets) ''a.example'' ''agent-1'' ''bench-1'' = Inr True"
    by (simp add: policy_allows_def scene_environment scene_gate scene_resolved fr_approval_rules_def scene_rows select_approval_rule_def
        scene_target_def)
  have i: "installation_allows (scene_agent (Some 0)) ''a.example''"
    by (simp add: installation_allows_def scene_agent_def scene_lists suffix_allowed_def in_zone_def string_defs)
  have a: "apps_available scene_bench"
    using scene_apps
    by (simp add: apps_available_def available_apps_def required_list_def AgentIngestion.app_name_def head_tail_def is_lower_def
        is_digit_def scene_bench_def scene_lists del: json_dumps.simps)
  have c8: "char_of (56 :: nat) = CHR ''8''" using char_of_char [of "CHR ''8''", where ?'a = nat] by simp
  have g: "ingress_preflight scene_probes (sa_public_ip (scene_agent (Some 0))) = Inr ()"
    by (simp add: ingress_preflight_def scene_agent_def scene_probes_def ipv4_address_def octet_def digits_val_def digit_val_def
        global_address_def ip_value_def in_network_def private_networks_def is_digit_def nat_str_small digit_char_def
        c8 Let_def)
  have h: "heartbeat_fresh (scene_agent (Some 0)) 0" "inventory_fresh (scene_agent (Some 0)) scene_bench ''agent-1'' 0"
    by (simp_all add: heartbeat_fresh_def inventory_fresh_def scene_agent_def demo_agent_def scene_bench_def demo_bench_def fresh_def
        seconds_def us_per_second_def)
  have v: "sites (scene_db (Some 0) ops targets) = []" by (rule scene_rows)
  have s: "pr_settings scene_probes = Inr (replicate 20 CHR ''t'', replicate 32 CHR ''a'')" by (simp add: scene_probes_def)
  show ?thesis
    using p i a g s h v scene_dns [of no_wide] by (simp add: ready_target_def scene_rows)
qed

lemma scene_author: "require_author demo_runtime = Inr ''alice''"
  by (simp add: require_author_def demo_runtime_def author_roles_def)

lemma readiness_answers:
  "policy_allows wide rt d domain server_agent bench = Inr p \<Longrightarrow>
     \<exists>r. check_creation_readiness wide rt pr d domain server_agent bench now = Inr r"
  by (simp add: check_creation_readiness_def stored_checks_def policy_check_def Let_def split: option.split)

lemma scene_started:
  "\<exists>d'. start_operation no_wide idna demo_runtime scene_probes None (0, 0) demo_uuid (scene_db (Some 0) [scene_op] [scene_optarget key])
      = Inr (start_answer demo_uuid, d')"
proof -
  define d where "d = scene_db (Some 0) [scene_op] [scene_optarget key]"
  have r: "ready_target no_wide demo_runtime scene_probes d ''a.example'' ''agent-1'' ''bench-1'' 0"
    unfolding d_def by (rule scene_ready)
  then have "policy_allows no_wide demo_runtime d ''a.example'' ''agent-1'' ''bench-1'' = Inr True"
    by (auto simp: ready_target_def split: option.splits)
  from readiness_answers [OF this] obtain rep where
    rep: "check_creation_readiness no_wide demo_runtime scene_probes d ''a.example'' ''agent-1'' ''bench-1'' 0 = Inr rep" ..
  have "rr_ready rep" using readiness_iff [OF rep] r by simp
  then have ck: "check_blank_creation no_wide idna demo_runtime scene_probes 0 ''site.create_blank'' ''agent-1'' ''bench-1'' blank_kvs d = Inr ()"
    using rep by (simp add: check_blank_creation_def blank_facts) (simp add: blank_kvs_def)
  obtain env d' where e: "enqueue_approved_operation 300 demo_uuid (Aware 0) d = Inr (env, d')"
    using scene_dispatched unfolding d_def by blast
  have row: "get_row op_name (operations d) demo_uuid = Some scene_op" by (simp add: d_def scene_db_def get_row_def scene_op_def)
  have f: "op_requested_by scene_op = ''alice''" "op_server_agent scene_op = ''agent-1''" "op_managed_site scene_op = None"
    "op_type scene_op = ''site.create_blank''" "op_bulk_parent scene_op = None" "op_state scene_op = ''awaiting_approval''"
    "op_approval_status scene_op = ''not_required''" "op_payload_json scene_op = Some blank_text" "op_bench scene_op = ''bench-1''"
    by (simp_all add: scene_op_def demo_op_def)
  have "start_operation no_wide idna demo_runtime scene_probes None (0, 0) demo_uuid d = Inr (start_answer demo_uuid, d')"
    unfolding start_operation_def scene_author py_uuid_canonical [OF demo_uuid_canonical] py_lower_demo row of_option_simps bindE_Inr f
    using scene_environment [of "Some 0" "[scene_op]" "[scene_optarget key]"] ck e
    by (simp add: scene_gate blank_facts command_lifetime_def d_def)
  then show ?thesis unfolding d_def by blast
qed

section \<open>An action skips the checks\<close>

lemma scene_identity: "\<exists>x. target_identity demo_uuid scene_target = Inr x"
  by (simp add: target_identity_def scene_target_def demo_uuid_def json_opt_def quote_str_def escape_char_def encodeE_def numeral_eq_Suc)

definition scene_authored :: "string \<Rightarrow> authored" where
  "scene_authored x = authored_operation (action_request demo_uuid ''site.create_blank'' ''agent-1'' ''bench-1'' None [(''domain'', JStr ''a.example'')])
     ''alice'' demo_uuid scene_target None (blank_text, sha256_hex blank_text) None x"

lemma scene_row: "(authored_row (scene_authored x))\<lparr>op_name := demo_uuid\<rparr> = scene_op"
  by (simp add: scene_authored_def authored_row_def authored_operation_def action_request_def scene_target_def scene_op_def demo_op_def Let_def)

lemma scene_created:
  "fr_create demo_runtime (scene_authored x) (scene_db seen [] []) = Inr (scene_db seen [scene_op] [scene_optarget (sha256_hex x)])"
proof -
  have id: "ao_operation_id (scene_authored x) = demo_uuid" "ao_retry_of (scene_authored x) = None"
    "ao_requested_by (scene_authored x) = ''alice''"
    by (simp_all add: scene_authored_def authored_operation_def action_request_def Let_def)
  have v: "op_validate False (scene_db seen [] []) None scene_op = Inr ()"
    by (simp add: op_validate_def op_formats_def require_json_def scene_op_def demo_op_def blank_facts has_shape_def require_sha256_def
        op_data_update_def data_update_types_def op_terminal_def op_links_def require_link_value_def scene_rows scene_bench_def demo_bench_def
        op_approval_counts_def immutable_fields_def op_credential_owned_def legal_transition_def Let_def)
  have i: "op_insert False demo_runtime (authored_row (scene_authored x)) (scene_db seen [] []) = Inr (scene_db seen [scene_op] [])"
    using v scene_row [of x] id(1,3)
    by (simp add: op_insert_def op_before_insert_def authored_row_def demo_runtime_def Let_def insert_row_def scene_db_def empty_db_def get_row_def)
  have t: "authored_target (scene_db seen [scene_op] []) (scene_authored x) = (scene_optarget (sha256_hex x))\<lparr>ot_name := []\<rparr>"
    by (simp add: authored_target_def retry_target_def id scene_authored_def authored_operation_def action_request_def scene_target_def
        scene_optarget_def demo_optarget_def Let_def)
  have o: "ot_insert demo_runtime ((scene_optarget (sha256_hex x))\<lparr>ot_name := []\<rparr>) (scene_db seen [scene_op] [])
      = Inr (scene_db seen [scene_op] [scene_optarget (sha256_hex x)])"
    by (simp add: ot_insert_def demo_runtime_def ot_validate_def scene_optarget_def demo_optarget_def require_sha256_def sha_a
        require_link_value_def scene_rows scene_bench_def demo_bench_def scene_op_def demo_op_def ot_bulk_links_def immutable_fields_def
        legal_transition_def insert_row_def Let_def scene_db_def empty_db_def get_row_def)
  show ?thesis using i t o id by (simp add: fr_create_def scene_db_def empty_db_def get_row_def)
qed

text \<open>
  C35: an action on a site skips the checks. \<open>submit_site_action\<close> creates a site without
  \<open>check_creation_readiness\<close>, the gate every other path runs: on a target whose agent was never seen, which
  no answer of the DNS provider and no connection makes ready at any time, it stores the site creation and
  queues it at once.
\<close>

theorem site_action_ungated:
  "\<exists>d' r. submit_site_action no_wide idna as_json demo_runtime None now demo_uuid ''a.example'' ''agent-1'' ''bench-1''
        ''site.create_blank'' (scene_db None [] []) = Inr (short_answer demo_uuid ''queued'', d')
    \<and> get_row op_name (operations d') demo_uuid = Some r \<and> op_type r = ''site.create_blank'' \<and> op_state r = ''queued''
    \<and> (\<forall>pr t. \<not> ready_target no_wide demo_runtime pr (scene_db None [] []) ''a.example'' ''agent-1'' ''bench-1'' t)"
proof -
  define d where "d = scene_db None [] []"
  define req where "req = action_request demo_uuid ''site.create_blank'' ''agent-1'' ''bench-1'' None [(''domain'', JStr ''a.example'')]"
  obtain x where x: "target_identity demo_uuid scene_target = Inr x" using scene_identity ..
  define a where "a = \<lparr>au_payload = blank_kvs, au_site_required = False, au_destructive = False, au_backup = False, au_approval = False,
      au_site_identity = True, au_preview = False\<rparr>"
  have i: "check_identity req ''alice'' = Inr demo_uuid"
    using py_uuid_canonical [OF demo_uuid_canonical] py_lower_demo
    by (simp add: check_identity_def req_def action_request_def operation_type_ok_def key_char_def string_defs)
  have t: "check_target req scene_target = Inr ()" by (simp add: check_target_def req_def action_request_def scene_target_def)
  have c: "check_authorization scene_target a = Inr ()" "check_policy scene_target a None = Inr ()"
    by (simp_all add: check_authorization_def check_policy_def scene_target_def a_def)
  have rules: "fr_approval_rules d = Inr []" by (simp add: fr_approval_rules_def d_def scene_rows)
  have o1: "authored_operation req ''alice'' demo_uuid scene_target None (blank_text, sha256_hex blank_text) None x = scene_authored x"
    by (simp add: scene_authored_def req_def)
  have au: "author (frappe_authoring demo_runtime) (validate_lifecycle_payload idna) req ''alice'' d
      = Inr (scene_authored x, scene_db None [scene_op] [scene_optarget (sha256_hex x)])"
    unfolding author_def frappe_authoring_simps i bindE_Inr
    using t c rules x o1 scene_created [of x None] scene_resolved [of None "[]" "[]"] blank_facts(2) blank_facts(3) [of idna]
    by (simp add: req_def action_request_def d_def a_def select_approval_rule_def preview_lineage_def scene_target_def Let_def)
  obtain env d' where e: "enqueue_approved_operation 300 demo_uuid (Aware now) (scene_db None [scene_op] [scene_optarget (sha256_hex x)]) = Inr (env, d')"
    using scene_dispatched by blast
  have ao: "ao_required (scene_authored x) = 0" "ao_operation_id (scene_authored x) = demo_uuid"
    by (simp_all add: scene_authored_def authored_operation_def Let_def)
  have q: "queue_unapproved None now (scene_authored x) (scene_db None [scene_op] [scene_optarget (sha256_hex x)]) = Inr (''queued'', d')"
    using e ao by (simp add: queue_unapproved_def command_lifetime_def)
  have st: "stripped ''a.example'' l = Inr ''a.example''" "stripped ''agent-1'' l = Inr ''agent-1''"
    "stripped ''bench-1'' l = Inr ''bench-1''" "stripped ''site.create_blank'' l = Inr ''site.create_blank''" for l
    by (simp_all add: stripped_def string_defs)
  have dm: "rstrip_dots (py_lower ''a.example'') = ''a.example''" by (simp add: rstrip_dots_def string_defs)
  have tg: "action_target d ''a.example'' ''site.create_blank'' = Inr (None, [(''domain'', JStr ''a.example'')])"
    by (simp add: action_target_def d_def scene_rows)
  have sub: "submit_site_action no_wide idna as_json demo_runtime None now demo_uuid ''a.example'' ''agent-1'' ''bench-1''
        ''site.create_blank'' d = Inr (short_answer demo_uuid ''queued'', d')"
    unfolding submit_site_action_def scene_author st bindE_Inr Let_def dm tg
    using au q ao scene_environment [of None "[]" "[]"]
    by (simp add: scene_gate req_def site_actions_def d_def)
  obtain r where r: "get_row op_name (operations d') demo_uuid = Some r" "op_state r = ''queued''"
    using op_of_dispatch e unfolding enqueue_approved_operation_def by meson
  have "op_type r = ''site.create_blank''"
    by (rule enqueue_rows [OF e r(1)]) (simp add: scene_db_def get_row_def scene_op_def)
  moreover have "\<not> ready_target no_wide demo_runtime pr d ''a.example'' ''agent-1'' ''bench-1'' u" for pr u
    by (simp add: ready_target_def d_def scene_rows heartbeat_fresh_def fresh_def scene_agent_def)
  ultimately show ?thesis using sub r unfolding d_def by blast
qed

end
