(* ===== verification/CustomerSites.thy ===== *)
theory CustomerSites
  imports OperatorApi
begin

text \<open>
  Customers and their sites (\<open>api/customer_sites.py\<close>, \<open>retry_operation\<close> of \<open>api/operations.py\<close>,
  \<open>api/operation_handover.py\<close>). A Customer, a document of ERPNext, carries two links that only the controller
  sets: the operation that creates its site, and the site itself once the operation succeeded with its handover
  evidence and the inventory shows the site. A scheduled job sweeps the customers in batches. \<open>env\<close> holds what
  comes from outside: the checks of the Customer document and the permissions of the user.
\<close>

section \<open>Customers\<close>

record customer_row =
  cu_name :: string
  cu_site :: "string option"
  cu_operation :: "string option"

record surroundings =
  ou_customer_ok :: "customer_row \<Rightarrow> unit result"
  ou_may_write :: "string \<Rightarrow> bool"
  ou_may_read :: "string \<Rightarrow> bool"

definition protect_managed_site_link :: "bool \<Rightarrow> customer_row option \<Rightarrow> customer_row \<Rightarrow> unit result" where
  "protect_managed_site_link service previous c =
     require (service \<or> Option.bind previous cu_site = cu_site c \<and> Option.bind previous cu_operation = cu_operation c)
       (PermissionError ''Site links are controlled by Frappe Controller'')"

definition customer_save :: "surroundings \<Rightarrow> bool \<Rightarrow> customer_row \<Rightarrow> customer_row list \<Rightarrow> customer_row list result" where
  "customer_save env service c cs =
     bindE (protect_managed_site_link service (get_row cu_name cs (cu_name c)) c) (\<lambda>_.
     bindE (ou_customer_ok env c) (\<lambda>_.
     Inr (set_rows (\<lambda>x. cu_name x = cu_name c) (\<lambda>_. c) cs)))"

definition lock_customer :: "string \<Rightarrow> customer_row list \<Rightarrow> customer_row result" where
  "lock_customer n cs = of_option (DoesNotExistError ''Customer does not exist'') (get_row cu_name cs n)"

definition set_site_operation :: "surroundings \<Rightarrow> customer_row \<Rightarrow> string \<Rightarrow> customer_row list \<Rightarrow> customer_row list result" where
  "set_site_operation env c operation_id cs = customer_save env True (c\<lparr>cu_operation := Some operation_id\<rparr>) cs"

section \<open>Linking a site\<close>

definition payload_domain :: "string option \<Rightarrow> json result" where
  "payload_domain payload =
     bindE (json_loads (or_empty payload)) (\<lambda>v.
     case v of JObj kvs \<Rightarrow> Inr (jget kvs ''domain'') | _ \<Rightarrow> Inl (AttributeError ''get''))"

definition site_of_domain :: "db \<Rightarrow> json \<Rightarrow> site_row option" where
  "site_of_domain d v = (case v of JStr s \<Rightarrow> find (\<lambda>x. si_domain x = s) (sites d) | _ \<Rightarrow> None)"

definition site_confirmed :: "site_row \<Rightarrow> op_row \<Rightarrow> bool" where
  "site_confirmed s r \<longleftrightarrow>
     si_server_agent s = op_server_agent r \<and> si_bench s = op_bench r \<and> si_status s \<in> {''active'', ''maintenance''}
     \<and> si_inventory_at s \<noteq> None"

definition reconcile_customer_site :: "surroundings \<Rightarrow> db \<Rightarrow> string \<Rightarrow> customer_row list \<Rightarrow> (bool \<times> customer_row list) result" where
  "reconcile_customer_site env d n cs =
     bindE (lock_customer n cs) (\<lambda>c.
     if truthy (cu_site c) \<or> \<not> truthy (cu_operation c) then Inr (False, cs)
     else
       bindE (of_option (DoesNotExistError (the (cu_operation c))) (get_row op_name (operations d) (the (cu_operation c)))) (\<lambda>r.
       if op_type r \<noteq> ''site.create_blank'' \<or> op_state r \<noteq> ''succeeded'' then Inr (False, cs)
       else if \<not> creation_handover_ready (op_result_json r) (op_credential_received r) None then Inr (False, cs)
       else
         bindE (payload_domain (op_payload_json r)) (\<lambda>v.
         case site_of_domain d v of
           None \<Rightarrow> Inr (False, cs)
         | Some s \<Rightarrow>
             if \<not> site_confirmed s r then Inr (False, cs)
             else bindE (customer_save env True (c\<lparr>cu_site := Some (si_name s)\<rparr>) cs) (\<lambda>cs'. Inr (True, cs')))))"

definition batch_size :: nat where
  "batch_size = 100"

text \<open>The rows of the query: \<open>JSON_EXTRACT\<close> of a payload that is no JSON object, or has no domain, matches no site.\<close>

definition sweep_candidate :: "db \<Rightarrow> customer_row \<Rightarrow> bool" where
  "sweep_candidate d c \<longleftrightarrow>
     \<not> truthy (cu_site c)
     \<and> (case opt_row op_name (operations d) (cu_operation c) of
          None \<Rightarrow> False
        | Some r \<Rightarrow> op_type r = ''site.create_blank'' \<and> op_state r = ''succeeded''
            \<and> (\<exists>s\<in>set (sites d). payload_domain (op_payload_json r) = Inr (JStr (si_domain s)) \<and> site_confirmed s r))"

definition sweep_batch :: "db \<Rightarrow> string \<Rightarrow> customer_row list \<Rightarrow> string list" where
  "sweep_batch d cursor cs =
     take batch_size (sort (map cu_name (filter (\<lambda>c. sweep_candidate d c \<and> cursor < cu_name c) cs)))"

definition next_cursor :: "string list \<Rightarrow> string" where
  "next_cursor batch = (if length batch = batch_size then last batch else [])"

definition reconcile_customer_sites ::
  "surroundings \<Rightarrow> db \<Rightarrow> string option \<times> customer_row list \<Rightarrow> (string option \<times> customer_row list) result" where
  "reconcile_customer_sites env d st =
     (let batch = sweep_batch d (or_empty (fst st)) (snd st) in
      bindE (foldE (\<lambda>n cs. bindE (reconcile_customer_site env d n cs) (\<lambda>(_, cs'). Inr cs')) batch (snd st)) (\<lambda>cs'.
      Inr (Some (next_cursor batch), cs')))"

section \<open>Requests about the site of a Customer\<close>

text \<open>\<open>check_site_readiness\<close> is the same check without any effect.\<close>

definition blank_domain :: "(string \<Rightarrow> string option) \<Rightarrow> string \<Rightarrow> (string \<times> json) list result" where
  "blank_domain idna domain =
     bindE (stripped domain ''Domain'') (\<lambda>text.
     bindE (validate_lifecycle_payload idna ''site.create_blank'' [(''domain'', JStr text)]) (\<lambda>a. Inr (au_payload a)))"

definition check_site_readiness ::
  "(string \<Rightarrow> string result) \<Rightarrow> (string \<Rightarrow> string option) \<Rightarrow> surroundings \<Rightarrow> runtime \<Rightarrow> probes \<Rightarrow> int \<Rightarrow> string \<Rightarrow> string \<Rightarrow> string
     \<Rightarrow> string \<Rightarrow> customer_row list \<Rightarrow> db \<Rightarrow> readiness_report result" where
  "check_site_readiness wide idna env rt pr now customer domain agent_text bench_text cs d =
     bindE (require_author rt) (\<lambda>_.
     bindE (stripped customer ''Customer'') (\<lambda>n.
     bindE (lock_customer n cs) (\<lambda>_.
     bindE (require (ou_may_write env n) (PermissionError ''No permission'')) (\<lambda>_.
     bindE (catchE authoring_thrown (blank_domain idna domain)) (\<lambda>payload.
     bindE (stripped agent_text ''Server Agent'') (\<lambda>server_agent.
     bindE (stripped bench_text ''Bench'') (\<lambda>bench.
     check_creation_readiness wide rt pr d (str_of (jget payload ''domain'')) server_agent bench now)))))))"

definition existing_creation :: "db \<Rightarrow> string \<Rightarrow> string \<Rightarrow> string \<Rightarrow> (string \<times> json) list \<Rightarrow> json result" where
  "existing_creation d m server_agent bench payload =
     bindE (of_option (DoesNotExistError m) (get_row op_name (operations d) m)) (\<lambda>r.
     bindE (if op_type r = ''site.create_blank'' \<and> op_server_agent r = server_agent \<and> op_bench r = bench
            then bindE (payload_domain (op_payload_json r)) (\<lambda>v. Inr (py_eq v (jget payload ''domain''))) else Inr False) (\<lambda>same.
     bindE (require same (ValidationError ''Customer already has a site creation operation; review it before requesting another'')) (\<lambda>_.
     Inr (short_answer (op_name r) (op_state r)))))"

definition create_production_site ::
  "(string \<Rightarrow> string result) \<Rightarrow> (string \<Rightarrow> string option) \<Rightarrow> (json \<Rightarrow> string) \<Rightarrow> surroundings \<Rightarrow> runtime \<Rightarrow> probes \<Rightarrow> json option
     \<Rightarrow> int \<times> int \<Rightarrow> string \<Rightarrow> string \<Rightarrow> string \<Rightarrow> string \<Rightarrow> string \<Rightarrow> customer_row list \<times> db \<Rightarrow> (json \<times> customer_row list \<times> db) result" where
  "create_production_site wide idna as_json env rt pr conf clock new_id customer domain agent_text bench_text st =
     (case st of (cs, d) \<Rightarrow>
      bindE (require_author rt) (\<lambda>actor.
      bindE (stripped customer ''Customer'') (\<lambda>n.
      bindE (lock_customer n cs) (\<lambda>c.
      bindE (require (ou_may_write env n) (PermissionError ''No permission'')) (\<lambda>_.
      bindE (require (\<not> truthy (cu_site c))
               (ValidationError ''Customer already has a Managed Site; clear or replace it before requesting another'')) (\<lambda>_.
      bindE (stripped agent_text ''Server Agent'') (\<lambda>server_agent.
      bindE (stripped bench_text ''Bench'') (\<lambda>bench.
      catchE authoring_thrown (
        bindE (blank_domain idna domain) (\<lambda>payload.
        if truthy (cu_operation c)
        then bindE (existing_creation d (the (cu_operation c)) server_agent bench payload) (\<lambda>answer. Inr (answer, cs, d))
        else
          bindE (require (site_of_domain d (jget payload ''domain'') = None)
                   (ValidationError ''A Managed Site already exists for this domain'')) (\<lambda>_.
          bindE (require_operation wide rt (target_environment d server_agent None) ''site.create_blank''
                   (Some (as_json (JObj payload))) None) (\<lambda>_.
          bindE (check_creation_readiness wide rt pr d (str_of (jget payload ''domain'')) server_agent bench (fst clock)) (\<lambda>r.
          bindE (require (rr_ready r) (readiness_failed r)) (\<lambda>_.
          bindE (author (frappe_authoring rt) (validate_lifecycle_payload idna)
                   (action_request new_id ''site.create_blank'' server_agent bench None payload) actor d) (\<lambda>(o1, d1).
          bindE (set_site_operation env c (ao_operation_id o1) cs) (\<lambda>cs'.
          bindE (queue_unapproved conf (snd clock) o1 d1) (\<lambda>(state, d2).
          Inr (short_answer (ao_operation_id o1) state, cs', d2))))))))))))))))))"

section \<open>Retrying an operation\<close>

definition tracked_customers :: "string \<Rightarrow> customer_row list \<Rightarrow> customer_row list" where
  "tracked_customers n cs = sort_key cu_name (filter (\<lambda>c. cu_operation c = Some n) cs)"

definition retry_request :: "string \<Rightarrow> op_row \<Rightarrow> (string \<times> json) list \<Rightarrow> operation_request" where
  "retry_request new_id r payload =
     \<lparr>rq_operation_id = new_id, rq_operation_type = op_type r, rq_server_agent = op_server_agent r, rq_bench = op_bench r,
      rq_managed_site = op_managed_site r, rq_payload = payload, rq_preview_of = None, rq_preview_hash = None,
      rq_retry_of = Some (op_name r)\<rparr>"

definition retry_payload :: "db \<Rightarrow> op_row \<Rightarrow> (string \<times> json) list result" where
  "retry_payload d r =
     bindE (json_loads (or_empty (op_payload_json r))) (\<lambda>v.
     case v of
       JObj payload \<Rightarrow>
         bindE (require (\<not> (op_type r \<in> set creation_types \<and> site_of_domain d (jget payload ''domain'') \<noteq> None))
                  (ValidationError ''The site is already in inventory; inspect it instead of recreating it'')) (\<lambda>_.
         Inr payload)
     | _ \<Rightarrow> Inl (if op_type r \<in> set creation_types then AttributeError ''get'' else lifecycle_error))"

definition check_customer :: "surroundings \<Rightarrow> customer_row \<Rightarrow> unit result" where
  "check_customer env c =
     bindE (require (ou_may_write env (cu_name c)) (PermissionError ''No permission'')) (\<lambda>_.
     require (\<not> truthy (cu_site c)) (ValidationError ''Customer already has a Managed Site''))"

definition retry_operation ::
  "(string \<Rightarrow> string result) \<Rightarrow> (string \<Rightarrow> string option) \<Rightarrow> surroundings \<Rightarrow> runtime \<Rightarrow> probes \<Rightarrow> json option \<Rightarrow> int \<times> int \<Rightarrow> string
     \<Rightarrow> string \<Rightarrow> bool \<Rightarrow> customer_row list \<times> db \<Rightarrow> (json \<times> customer_row list \<times> db) result" where
  "retry_operation wide idna env rt pr conf clock new_id operation_id recovery_confirmed st =
     (case st of (cs, d) \<Rightarrow>
      bindE (require_author rt) (\<lambda>actor.
      bindE (of_option (DoesNotExistError operation_id) (get_row op_name (operations d) operation_id)) (\<lambda>r.
      bindE (require (ou_may_read env (op_name r)) (PermissionError ''No permission'')) (\<lambda>_.
      bindE (require (op_requested_by r = actor \<or> ''Controller Admin'' \<in> set (rt_roles rt actor))
               (PermissionError ''Only the requester or Controller Admin may retry an operation'')) (\<lambda>_.
      catchE authoring_thrown (
        bindE (validate_retry_source r recovery_confirmed) (\<lambda>_.
        case find (\<lambda>x. op_retry_of x = Some (op_name r) \<and> \<not> truthy (op_bulk_parent x)) (operations d) of
          Some x \<Rightarrow> Inr (short_answer (op_name x) (op_state x), cs, d)
        | None \<Rightarrow>
            bindE (retry_payload d r) (\<lambda>payload.
            bindE (require_operation wide rt (target_environment d (op_server_agent r) (op_managed_site r)) (op_type r)
                     (op_payload_json r) None) (\<lambda>_.
            bindE (check_blank_creation wide idna rt pr (fst clock) (op_type r) (op_server_agent r) (op_bench r) payload d) (\<lambda>_.
            bindE (eachE (check_customer env) (tracked_customers (op_name r) cs)) (\<lambda>_.
            bindE (author (frappe_authoring rt) (validate_lifecycle_payload idna) (retry_request new_id r payload) actor d) (\<lambda>(o1, d1).
            bindE (foldE (\<lambda>c. set_site_operation env c (ao_operation_id o1)) (tracked_customers (op_name r) cs) cs) (\<lambda>cs'.
            bindE (queue_unapproved conf (snd clock) o1 d1) (\<lambda>(state, d2).
            Inr (short_answer (ao_operation_id o1) state, cs', d2)))))))))))))))"

section \<open>What the operator sees of the handover\<close>

definition get_site_handover_status :: "surroundings \<Rightarrow> db \<Rightarrow> string \<Rightarrow> customer_row list \<Rightarrow> json result" where
  "get_site_handover_status env d operation_id cs =
     bindE (of_option (DoesNotExistError operation_id) (get_row op_name (operations d) operation_id)) (\<lambda>r.
     bindE (require (ou_may_read env (op_name r)) (PermissionError ''No permission'')) (\<lambda>_.
     if op_type r \<notin> set creation_types then Inr (JObj [(''applicable'', JBool False)])
     else
       let customers = take 2 (filter (\<lambda>c. cu_operation c = Some (op_name r)) cs) in
       bindE (eachE (\<lambda>c. require (ou_may_read env (cu_name c)) (PermissionError ''No permission'')) customers) (\<lambda>_.
       let customer_linked = (customers \<noteq> [] \<and> list_all (\<lambda>c. truthy (cu_site c)) customers);
           apps = Option.bind (get_row be_name (benches d) (op_bench r)) be_required_apps;
           ready = (op_state r = ''succeeded''
             \<and> creation_handover_ready (op_result_json r) (op_credential_received r) (Some (json_column apps))) in
       Inr (JObj [(''applicable'', JBool True), (''customer_required'', JBool (customers \<noteq> [])),
                  (''customer_linked'', JBool customer_linked),
                  (''ready'', JBool (ready \<and> (customers = [] \<or> customer_linked)))]))))"

section \<open>Sites are created on ready targets\<close>

datatype operator_call =
    Create_call string
  | Start_call string
  | Customer_call string string string string
  | Retry_call string bool

definition operator_answer ::
  "(string \<Rightarrow> string result) \<Rightarrow> (string \<Rightarrow> string option) \<Rightarrow> (json \<Rightarrow> string) \<Rightarrow> surroundings \<Rightarrow> runtime \<Rightarrow> probes \<Rightarrow> json option
     \<Rightarrow> int \<times> int \<Rightarrow> string \<Rightarrow> operator_call \<Rightarrow> customer_row list \<times> db \<Rightarrow> (json \<times> customer_row list \<times> db) result" where
  "operator_answer wide idna as_json env rt pr conf clock new_id c st =
     (case c of
        Create_call body \<Rightarrow> bindE (create_operation_request wide idna rt pr conf clock body (snd st)) (\<lambda>(x, d'). Inr (x, fst st, d'))
      | Start_call n \<Rightarrow> bindE (start_operation wide idna rt pr conf clock n (snd st)) (\<lambda>(x, d'). Inr (x, fst st, d'))
      | Customer_call customer domain server_agent bench \<Rightarrow>
          create_production_site wide idna as_json env rt pr conf clock new_id customer domain server_agent bench st
      | Retry_call n confirmed \<Rightarrow> retry_operation wide idna env rt pr conf clock new_id n confirmed st)"

text \<open>What a call releases: the operation it queues, or the ones it creates.\<close>

definition released :: "operator_call \<Rightarrow> db \<Rightarrow> string \<Rightarrow> op_row \<Rightarrow> bool" where
  "released c d n r' =
     (case c of
        Start_call _ \<Rightarrow> op_state r' = ''queued'' \<and> (\<exists>r. get_row op_name (operations d) n = Some r \<and> op_state r \<noteq> ''queued'')
      | _ \<Rightarrow> get_row op_name (operations d) n = None)"

lemma customer_on_ready:
  assumes c: "create_production_site wide idna as_json env rt pr conf clock new_id customer domain agent_text bench_text (cs, d) = Inr (x, cs', d')"
    and n: "get_row op_name (operations d) n = None" "get_row op_name (operations d') n = Some r'"
    and b: "op_type r' = ''site.create_blank''"
  shows "\<exists>dm. creation_domain idna r' dm \<and> ready_target wide rt pr d dm (op_server_agent r') (op_bench r') (fst clock)"
proof -
  have "d' \<noteq> d" using n by auto
  then obtain actor payload server_agent bench r o1 d1 state where
    p: "blank_domain idna domain = Inr payload"
    and r: "check_creation_readiness wide rt pr d (str_of (jget payload ''domain'')) server_agent bench (fst clock) = Inr r" "rr_ready r"
    and a: "author (frappe_authoring rt) (validate_lifecycle_payload idna)
              (action_request new_id ''site.create_blank'' server_agent bench None payload) actor d = Inr (o1, d1)"
    and q: "queue_unapproved conf (snd clock) o1 d1 = Inr (state, d')"
    using c unfolding create_production_site_def prod.case bindE_eq_Inr catchE_eq_Inr ex_unit
    by (auto simp: bindE_eq_Inr require_eq_Inr split: if_splits)
  obtain v a0 where a0: "validate_lifecycle_payload idna ''site.create_blank'' v = Inr a0" "au_payload a0 = payload"
    using p by (auto simp: blank_domain_def bindE_eq_Inr)
  obtain dm t g where m: "payload = [(''domain'', JStr dm), (''execution_timeout_seconds'', JInt t), (''expected_inventory_digest'', g)]" "is_domain dm"
    using blank_payload [OF a0(1)] a0(2) by metis
  have "found_ready wide idna rt pr (fst clock) (action_request new_id ''site.create_blank'' server_agent bench None payload) d"
    using readiness_iff [OF r(1)] r(2) m lifecycle_domain_fixed [OF m(2)] by (simp add: found_ready_def action_request_def)
  then show ?thesis by (rule authored_on_ready [OF a q n b])
qed

lemma retried_on_ready:
  assumes c: "retry_operation wide idna env rt pr conf clock new_id m confirmed (cs, d) = Inr (x, cs', d')"
    and n: "get_row op_name (operations d) n = None" "get_row op_name (operations d') n = Some r'"
    and b: "op_type r' = ''site.create_blank''"
  shows "\<exists>dm. creation_domain idna r' dm \<and> ready_target wide rt pr d dm (op_server_agent r') (op_bench r') (fst clock)"
proof -
  have "d' \<noteq> d" using n by auto
  then obtain actor r payload o1 d1 state where
    ck: "check_blank_creation wide idna rt pr (fst clock) (op_type r) (op_server_agent r) (op_bench r) payload d = Inr ()"
    and a: "author (frappe_authoring rt) (validate_lifecycle_payload idna) (retry_request new_id r payload) actor d = Inr (o1, d1)"
    and q: "queue_unapproved conf (snd clock) o1 d1 = Inr (state, d')"
    using c unfolding retry_operation_def prod.case bindE_eq_Inr catchE_eq_Inr ex_unit
    by (auto simp: bindE_eq_Inr split: option.splits)
  have "found_ready wide idna rt pr (fst clock) (retry_request new_id r payload) d" if "op_type r = ''site.create_blank''"
    using ck unfolding that by (rule check_blank_ready) (auto simp: found_ready_def retry_request_def)
  then show ?thesis by (intro authored_on_ready [OF a q n b]) (simp add: retry_request_def)
qed

text \<open>
  C34: a site is created on a ready target. Whatever blank site creation a request of an operator, a request
  for a Customer or a retry stores, and whatever approved one a start queues, at that moment its agent was enabled
  and online with a heartbeat of at most 120 seconds and not draining, the inventory of agent and bench was at
  most 300 seconds old, the installation allowed the domain, feature, capabilities and policy allowed the
  creation, the bench had the required apps, the domain belonged to no site and, by the provider's answer, to the
  configured zone without an address record, and the public address accepted a connection. The ids of stored
  operations are in lower case.
\<close>

theorem creation_gated:
  assumes "operator_answer wide idna as_json env rt pr conf clock new_id c (cs, d) = Inr (x, cs', d')"
    and "\<forall>r\<in>set (operations d). py_lower (op_name r) = op_name r"
    and "get_row op_name (operations d') n = Some r'" "op_type r' = ''site.create_blank''" "released c d n r'"
  shows "\<exists>domain. creation_domain idna r' domain
    \<and> ready_target wide rt pr d domain (op_server_agent r') (op_bench r') (fst clock)"
proof (cases c)
  case (Create_call body)
  then show ?thesis
    using assms created_on_ready [of wide idna rt pr conf clock body d x d' n r'] by (auto simp: operator_answer_def released_def bindE_eq_Inr)
next
  case (Start_call m)
  then show ?thesis
    using assms started_on_ready [of wide idna rt pr conf clock m d x d' n _ r'] by (auto simp: operator_answer_def released_def bindE_eq_Inr)
next
  case (Customer_call customer domain server_agent bench)
  then show ?thesis using assms customer_on_ready by (auto simp: operator_answer_def released_def)
next
  case (Retry_call m confirmed)
  then show ?thesis using assms retried_on_ready by (auto simp: operator_answer_def released_def)
qed

theorem creation_gated_witness:
  "\<exists>d' r' domain. start_operation no_wide (\<lambda>_. None) demo_runtime scene_probes None (0, 0) demo_uuid (scene_db (Some 0) [scene_op] [scene_optarget []])
      = Inr (start_answer demo_uuid, d')
    \<and> get_row op_name (operations d') demo_uuid = Some r' \<and> op_state r' = ''queued'' \<and> creation_domain (\<lambda>_. None) r' domain
    \<and> ready_target no_wide demo_runtime scene_probes (scene_db (Some 0) [scene_op] [scene_optarget []]) domain (op_server_agent r') (op_bench r') 0"
proof -
  define d where "d = scene_db (Some 0) [scene_op] [scene_optarget []]"
  obtain d' where s: "start_operation no_wide (\<lambda>_. None) demo_runtime scene_probes None (0, 0) demo_uuid d = Inr (start_answer demo_uuid, d')"
    using scene_started unfolding d_def by blast
  have row: "get_row op_name (operations d) demo_uuid = Some scene_op" by (simp add: d_def scene_db_def get_row_def scene_op_def)
  obtain ev where e: "enqueue_approved_operation 300 demo_uuid (Aware 0) d = Inr (ev, d')"
    using s unfolding start_operation_def py_uuid_canonical [OF demo_uuid_canonical] row of_option_simps bindE_Inr
    by (auto simp: bindE_eq_Inr command_lifetime_def scene_op_def demo_op_def split: if_splits)
  obtain r' where r': "get_row op_name (operations d') demo_uuid = Some r'" "op_state r' = ''queued''"
    using op_of_dispatch e unfolding enqueue_approved_operation_def by meson
  have t: "op_type r' = ''site.create_blank''"
    by (rule enqueue_rows [OF e r'(1)]) (use row in \<open>simp add: scene_op_def\<close>)
  have "released (Start_call demo_uuid) d demo_uuid r'" using row r'(2) by (simp add: released_def scene_op_def demo_op_def)
  moreover have "\<forall>r\<in>set (operations d). py_lower (op_name r) = op_name r"
    using py_lower_demo by (simp add: d_def scene_db_def scene_op_def)
  moreover have "operator_answer no_wide (\<lambda>_. None) as_json env demo_runtime scene_probes None (0, 0) [] (Start_call demo_uuid) ([], d) = Inr (start_answer demo_uuid, [], d')"
    using s by (simp add: operator_answer_def)
  ultimately obtain domain where "creation_domain (\<lambda>_. None) r' domain"
    "ready_target no_wide demo_runtime scene_probes d domain (op_server_agent r') (op_bench r') 0"
    using creation_gated [of no_wide "\<lambda>_. None" as_json env demo_runtime scene_probes None "(0, 0)" "[]" "Start_call demo_uuid" "[]" d _ "[]" d' demo_uuid r'] r'(1) t by auto
  then show ?thesis using s r' unfolding d_def by blast
qed

section \<open>Only confirmed sites are linked\<close>

definition linkable :: "db \<Rightarrow> customer_row \<Rightarrow> site_row \<Rightarrow> bool" where
  "linkable d c s \<longleftrightarrow>
     \<not> truthy (cu_site c) \<and> truthy (cu_operation c)
     \<and> (\<exists>r. opt_row op_name (operations d) (cu_operation c) = Some r \<and> op_type r = ''site.create_blank'' \<and> op_state r = ''succeeded''
          \<and> creation_handover_ready (op_result_json r) (op_credential_received r) None
          \<and> payload_domain (op_payload_json r) = Inr (JStr (si_domain s)) \<and> site_of_domain d (JStr (si_domain s)) = Some s
          \<and> site_confirmed s r)"

definition linked :: "db \<Rightarrow> customer_row \<Rightarrow> customer_row \<Rightarrow> bool" where
  "linked d c c' \<longleftrightarrow> c' = c \<or> (\<exists>s. linkable d c s \<and> c' = c\<lparr>cu_site := Some (si_name s)\<rparr>)"

lemma site_of_domain_Some: "site_of_domain d v = Some s \<Longrightarrow> s \<in> set (sites d) \<and> v = JStr (si_domain s)"
  by (auto simp: site_of_domain_def split: json.splits dest!: find_mem)

lemma linked_refl: "linked d c c"
  by (simp add: linked_def)

lemma linked_trans:
  assumes "linked d a b" "linked d b c"
  shows "linked d a c"
  using assms unfolding linked_def linkable_def by (elim disjE exE conjE) auto

lemma linked_all_refl: "list_all2 (linked d) cs cs"
  by (simp add: list.rel_refl linked_refl)

lemma linked_all_trans: "list_all2 (linked d) as bs \<Longrightarrow> list_all2 (linked d) bs cs \<Longrightarrow> list_all2 (linked d) as cs"
  using list_all2_trans [of "linked d" "linked d" "linked d"] linked_trans by blast

lemma linked_name: "linked d c c' \<Longrightarrow> cu_name c' = cu_name c"
  by (auto simp: linked_def)

lemma linked_names: "list_all2 (linked d) cs cs' \<Longrightarrow> map cu_name cs' = map cu_name cs"
  by (induction rule: list_all2_induct) (auto dest: linked_name)

lemma linked_row:
  assumes "list_all2 (linked d) cs cs'"
  shows "(case get_row cu_name cs n of
            None \<Rightarrow> get_row cu_name cs' n = None
          | Some c \<Rightarrow> \<exists>c'. get_row cu_name cs' n = Some c' \<and> linked d c c')"
  using assms by (induction rule: list_all2_induct) (auto simp: get_row_def dest: linked_name split: option.splits)

text \<open>With distinct names, saving a customer changes that row only.\<close>

lemma saved_linked:
  assumes "distinct (map cu_name cs)" "get_row cu_name cs n = Some c" "linkable d c s"
  shows "list_all2 (linked d) cs (set_rows (\<lambda>x. cu_name x = n) (\<lambda>_. c\<lparr>cu_site := Some (si_name s)\<rparr>) cs)"
proof -
  have c: "c \<in> set cs" "cu_name c = n" using get_row_Some [OF assms(2)] by simp_all
  have "linked d x (if cu_name x = n then c\<lparr>cu_site := Some (si_name s)\<rparr> else x)" if "x \<in> set cs" for x
  proof (cases "cu_name x = n")
    case True
    then have "x = c" using that c assms(1) by (metis distinct_map inj_onD)
    then show ?thesis using assms(3) True by (auto simp: linked_def)
  qed (simp add: linked_refl)
  then show ?thesis unfolding set_rows_def list.rel_map by (rule list.rel_refl_strong)
qed

lemma reconciled_linked:
  assumes "reconcile_customer_site env d n cs = Inr (b, cs')" "distinct (map cu_name cs)"
  shows "list_all2 (linked d) cs cs'"
proof -
  obtain c where c: "get_row cu_name cs n = Some c" "cu_name c = n"
    using assms(1) by (auto simp: reconcile_customer_site_def lock_customer_def bindE_eq_Inr of_option_eq_Inr dest: get_row_Some)
  consider "cs' = cs" | s where "linkable d c s" "cs' = set_rows (\<lambda>x. cu_name x = n) (\<lambda>_. c\<lparr>cu_site := Some (si_name s)\<rparr>) cs"
  proof (cases "cs' = cs")
    case False
    then obtain r v s where u: "\<not> truthy (cu_site c)" "truthy (cu_operation c)"
      and r: "get_row op_name (operations d) (the (cu_operation c)) = Some r" "op_type r = ''site.create_blank''" "op_state r = ''succeeded''"
      and h: "creation_handover_ready (op_result_json r) (op_credential_received r) None"
      and v: "payload_domain (op_payload_json r) = Inr v" "site_of_domain d v = Some s" "site_confirmed s r"
      and cs': "customer_save env True (c\<lparr>cu_site := Some (si_name s)\<rparr>) cs = Inr cs'"
      using assms(1) c(1)
      by (auto simp: reconcile_customer_site_def lock_customer_def bindE_eq_Inr of_option_eq_Inr split: if_splits option.splits)
    have "opt_row op_name (operations d) (cu_operation c) = Some r" using r(1) u(2) by (cases "cu_operation c") (auto simp: opt_row_def)
    then have "linkable d c s" using u r h v site_of_domain_Some [OF v(2)] by (auto simp: linkable_def)
    moreover have "cs' = set_rows (\<lambda>x. cu_name x = n) (\<lambda>_. c\<lparr>cu_site := Some (si_name s)\<rparr>) cs"
      using cs' c(2) by (auto simp: customer_save_def bindE_eq_Inr)
    ultimately show ?thesis using that by blast
  qed
  then show ?thesis
  proof cases
    case 1
    then show ?thesis by (simp add: linked_all_refl)
  next
    case 2
    then show ?thesis using saved_linked [OF assms(2) c(1)] by simp
  qed
qed

abbreviation sweep_one :: "surroundings \<Rightarrow> db \<Rightarrow> string \<Rightarrow> customer_row list \<Rightarrow> customer_row list result" where
  "sweep_one env d n cs \<equiv> bindE (reconcile_customer_site env d n cs) (\<lambda>(_, cs'). Inr cs')"

lemma sweep_linked:
  assumes "foldE (sweep_one env d) ns cs = Inr cs'" "distinct (map cu_name cs)"
  shows "list_all2 (linked d) cs cs'"
proof (rule foldE_invariant [OF assms(1), of "\<lambda>x. list_all2 (linked d) cs x"])
  show "list_all2 (linked d) cs cs" by (rule linked_all_refl)
  fix n x y assume x: "list_all2 (linked d) cs x" and y: "sweep_one env d n x = Inr y"
  obtain b where "reconcile_customer_site env d n x = Inr (b, y)" using y by (auto simp: bindE_eq_Inr)
  then have "list_all2 (linked d) x y" using reconciled_linked linked_names [OF x] assms(2) by simp
  then show "list_all2 (linked d) cs y" using x linked_all_trans by blast
qed

text \<open>
  C36: the job links only confirmed sites. A run of the scheduled job changes nothing of a Customer but its
  link to a site, and that only from empty to the site of the domain its own creation operation was for, when
  that operation succeeded with verified apps and HTTPS and its credential received, and the inventory shows
  the site active or in maintenance on the very agent and bench of the operation.
\<close>

theorem customers_linked:
  assumes "reconcile_customer_sites env d (cursor, cs) = Inr (cursor', cs')" and "distinct (map cu_name cs)"
    and "get_row cu_name cs' n = Some c'"
  shows "\<exists>c. get_row cu_name cs n = Some c \<and> (c' = c \<or> (\<exists>s. linkable d c s \<and> c' = c\<lparr>cu_site := Some (si_name s)\<rparr>))"
proof -
  have "list_all2 (linked d) cs cs'"
    using assms(1) sweep_linked [OF _ assms(2)] by (auto simp: reconcile_customer_sites_def Let_def bindE_eq_Inr)
  from linked_row [OF this, of n] show ?thesis using assms(3) by (auto simp: linked_def split: option.splits)
qed

section \<open>Every confirmed site is linked\<close>

primrec sweeps ::
  "surroundings \<Rightarrow> db \<Rightarrow> nat \<Rightarrow> string option \<times> customer_row list \<Rightarrow> (string option \<times> customer_row list) result" where
  "sweeps env d 0 st = Inr st"
| "sweeps env d (Suc k) st = bindE (reconcile_customer_sites env d st) (sweeps env d k)"

definition candidates_of :: "db \<Rightarrow> customer_row list \<Rightarrow> string set" where
  "candidates_of d cs = cu_name ` {c \<in> set cs. sweep_candidate d c}"

definition ready_or_linked :: "db \<Rightarrow> string \<Rightarrow> site_row \<Rightarrow> customer_row list \<Rightarrow> bool" where
  "ready_or_linked d n s cs \<longleftrightarrow>
     si_name s \<noteq> [] \<and> (\<exists>c. get_row cu_name cs n = Some c \<and> (linkable d c s \<or> cu_site c = Some (si_name s)))"

definition site_linked :: "string \<Rightarrow> site_row \<Rightarrow> customer_row list \<Rightarrow> bool" where
  "site_linked n s cs \<longleftrightarrow> (\<exists>c. get_row cu_name cs n = Some c \<and> cu_site c = Some (si_name s))"

text \<open>The tables of sites as the database keeps them: every site has a name, and a domain of its own.\<close>

definition sites_wf :: "db \<Rightarrow> bool" where
  "sites_wf d \<longleftrightarrow> distinct (map si_domain (sites d)) \<and> [] \<notin> si_name ` set (sites d)"

lemma site_of_domain_unique:
  assumes "sites_wf d" "s \<in> set (sites d)"
  shows "site_of_domain d (JStr (si_domain s)) = Some s"
proof -
  obtain x where x: "find (\<lambda>y. si_domain y = si_domain s) (sites d) = Some x"
    using assms(2) by (cases "find (\<lambda>y. si_domain y = si_domain s) (sites d)") (auto simp: find_None_iff)
  then have "x \<in> set (sites d)" "si_domain x = si_domain s" using find_mem by fastforce+
  then have "x = s" using assms by (metis distinct_map inj_onD sites_wf_def)
  then show ?thesis using x by (simp add: site_of_domain_def)
qed

lemma linkable_candidate: "linkable d c s \<Longrightarrow> sweep_candidate d c"
  by (auto simp: linkable_def sweep_candidate_def dest!: site_of_domain_Some intro!: bexI [of _ s])

lemma linkable_unique: "linkable d c s \<Longrightarrow> linkable d c s' \<Longrightarrow> s' = s"
  unfolding linkable_def by (elim conjE exE) simp

lemma linkable_named:
  assumes "sites_wf d" "linkable d c s"
  shows "truthy (Some (si_name s))"
  using assms by (force simp: linkable_def sites_wf_def truthy_def dest!: site_of_domain_Some)

lemma linked_ready:
  assumes "list_all2 (linked d) cs cs'" "ready_or_linked d n s cs"
  shows "ready_or_linked d n s cs'" "site_linked n s cs \<Longrightarrow> site_linked n s cs'"
proof -
  obtain c where c: "get_row cu_name cs n = Some c" "linkable d c s \<or> cu_site c = Some (si_name s)" and nm: "si_name s \<noteq> []"
    using assms(2) by (auto simp: ready_or_linked_def)
  obtain c' where c': "get_row cu_name cs' n = Some c'" "linked d c c'" using linked_row [OF assms(1), of n] c(1) by auto
  have "linkable d c' s \<or> cu_site c' = Some (si_name s)"
    using c'(2) c(2) linkable_unique [of d c s] nm by (auto simp: linked_def) (simp_all add: linkable_def)
  then show "ready_or_linked d n s cs'" using c' nm by (simp add: ready_or_linked_def)
  show "site_linked n s cs'" if "site_linked n s cs"
    using that c(1) c' nm by (auto simp: site_linked_def linked_def linkable_def)
qed

lemma get_row_put:
  "cu_name c = n \<Longrightarrow> get_row cu_name cs n \<noteq> None \<Longrightarrow> get_row cu_name (set_rows (\<lambda>x. cu_name x = n) (\<lambda>_. c) cs) n = Some c"
  by (induction cs) (auto simp: get_row_def set_rows_def)

lemma reconcile_runs:
  assumes ok: "\<forall>x. ou_customer_ok env x = Inr ()" and wf: "sites_wf d" and c: "get_row cu_name cs n = Some c"
    and k: "truthy (cu_site c) \<or> sweep_candidate d c"
  shows "\<exists>b cs'. reconcile_customer_site env d n cs = Inr (b, cs') \<and> (\<forall>s. linkable d c s \<longrightarrow> site_linked n s cs')"
proof (cases "truthy (cu_site c)")
  case True
  then show ?thesis using c by (auto simp: reconcile_customer_site_def lock_customer_def linkable_def)
next
  case False
  then obtain r s where r: "opt_row op_name (operations d) (cu_operation c) = Some r" "op_type r = ''site.create_blank''"
    "op_state r = ''succeeded''" and s: "s \<in> set (sites d)" "payload_domain (op_payload_json r) = Inr (JStr (si_domain s))" "site_confirmed s r"
    using k by (auto simp: sweep_candidate_def split: option.splits)
  obtain m where m: "cu_operation c = Some m" "get_row op_name (operations d) m = Some r" using r(1) by (cases "cu_operation c") (auto simp: opt_row_def)
  have sd: "site_of_domain d (JStr (si_domain s)) = Some s" by (rule site_of_domain_unique [OF wf s(1)])
  have nm: "cu_name c = n" using get_row_Some [OF c] by simp
  have save: "customer_save env True (c\<lparr>cu_site := Some (si_name s)\<rparr>) cs = Inr (set_rows (\<lambda>x. cu_name x = n) (\<lambda>_. c\<lparr>cu_site := Some (si_name s)\<rparr>) cs)"
    using ok nm by (simp add: customer_save_def protect_managed_site_link_def)
  have g: "get_row cu_name (set_rows (\<lambda>x. cu_name x = n) (\<lambda>_. c\<lparr>cu_site := Some (si_name s)\<rparr>) cs) n = Some (c\<lparr>cu_site := Some (si_name s)\<rparr>)"
    using get_row_put [of "c\<lparr>cu_site := Some (si_name s)\<rparr>" n cs] nm c by simp
  have only: "linkable d c s' \<Longrightarrow> s' = s" for s'
    using r(1) s(2) sd by (auto simp: linkable_def)
  have lk: "linkable d c s' \<Longrightarrow> truthy (cu_operation c) \<and> creation_handover_ready (op_result_json r) (op_credential_received r) None" for s'
    using r(1) by (auto simp: linkable_def)
  show ?thesis
  proof (cases "truthy (cu_operation c) \<and> creation_handover_ready (op_result_json r) (op_credential_received r) None")
    case True
    then have "reconcile_customer_site env d n cs = Inr (True, set_rows (\<lambda>x. cu_name x = n) (\<lambda>_. c\<lparr>cu_site := Some (si_name s)\<rparr>) cs)"
      using False c m r s sd save by (simp add: reconcile_customer_site_def lock_customer_def)
    then show ?thesis using g only by (auto simp: site_linked_def)
  next
    case not: False
    then have "reconcile_customer_site env d n cs = Inr (False, cs)"
      using False c m r by (auto simp: reconcile_customer_site_def lock_customer_def)
    then show ?thesis using not lk by blast
  qed
qed

lemma distinct_row: "distinct (map cu_name cs) \<Longrightarrow> c \<in> set cs \<Longrightarrow> get_row cu_name cs (cu_name c) = Some c"
  by (induction cs) (auto simp: get_row_def)

definition sweepable :: "db \<Rightarrow> string \<Rightarrow> customer_row list \<Rightarrow> bool" where
  "sweepable d n cs \<longleftrightarrow> (\<exists>c. get_row cu_name cs n = Some c \<and> (truthy (cu_site c) \<or> sweep_candidate d c))"

lemma linked_sweepable:
  assumes "sites_wf d" "list_all2 (linked d) cs cs'" "sweepable d n cs"
  shows "sweepable d n cs'"
proof -
  obtain c where c: "get_row cu_name cs n = Some c" "truthy (cu_site c) \<or> sweep_candidate d c" using assms(3) by (auto simp: sweepable_def)
  obtain c' where c': "get_row cu_name cs' n = Some c'" "linked d c c'" using linked_row [OF assms(2), of n] c(1) by auto
  have "truthy (cu_site c') \<or> sweep_candidate d c'"
    using c'(2) c(2) linkable_named [OF assms(1)] unfolding linked_def by (elim disjE exE conjE) auto
  then show ?thesis using c' by (auto simp: sweepable_def)
qed

lemma linked_ready_site: "site_linked n s cs \<Longrightarrow> si_name s \<noteq> [] \<Longrightarrow> ready_or_linked d n s cs"
  by (auto simp: site_linked_def ready_or_linked_def)

lemma sweep_runs:
  assumes ok: "\<forall>x. ou_customer_ok env x = Inr ()" and wf: "sites_wf d"
  shows "distinct (map cu_name cs) \<Longrightarrow> (\<forall>n\<in>set ns. sweepable d n cs) \<Longrightarrow>
    \<exists>cs'. foldE (sweep_one env d) ns cs = Inr cs' \<and> (\<forall>n\<in>set ns. \<forall>s. ready_or_linked d n s cs \<longrightarrow> site_linked n s cs')"
proof (induction ns arbitrary: cs)
  case (Cons n ns)
  obtain c where c: "get_row cu_name cs n = Some c" "truthy (cu_site c) \<or> sweep_candidate d c" using Cons.prems(2) by (auto simp: sweepable_def)
  obtain b cs1 where r: "reconcile_customer_site env d n cs = Inr (b, cs1)" "\<forall>s. linkable d c s \<longrightarrow> site_linked n s cs1"
    using reconcile_runs [OF ok wf c] by blast
  have l: "list_all2 (linked d) cs cs1" by (rule reconciled_linked [OF r(1) Cons.prems(1)])
  have d1: "distinct (map cu_name cs1)" using linked_names [OF l] Cons.prems(1) by simp
  have "\<forall>m\<in>set ns. sweepable d m cs1" using linked_sweepable [OF wf l] Cons.prems(2) by simp
  from Cons.IH [OF d1 this] obtain cs' where f: "foldE (sweep_one env d) ns cs1 = Inr cs'"
    and t: "\<forall>m\<in>set ns. \<forall>s. ready_or_linked d m s cs1 \<longrightarrow> site_linked m s cs'" by blast
  have "site_linked n s cs'" if s: "ready_or_linked d n s cs" for s
  proof -
    have nm: "si_name s \<noteq> []" using s by (simp add: ready_or_linked_def)
    have "linkable d c s \<or> site_linked n s cs" using s c(1) by (auto simp: ready_or_linked_def site_linked_def)
    then have "site_linked n s cs1" using r(2) linked_ready(2) [OF l s] by blast
    then show ?thesis using linked_ready(2) [OF sweep_linked [OF f d1]] linked_ready_site nm by blast
  qed
  moreover have "site_linked m s cs'" if "m \<in> set ns" "ready_or_linked d m s cs" for m s
    using t that linked_ready(1) [OF l] by blast
  ultimately show ?case using r(1) f by auto
qed simp

lemma batch_sweepable:
  assumes "distinct (map cu_name cs)" "n \<in> set (sweep_batch d cursor cs)"
  shows "sweepable d n cs"
  using assms distinct_row [OF assms(1)] by (auto simp: sweep_batch_def sweepable_def dest!: in_set_takeD)

lemma sweep_step:
  assumes ok: "\<forall>x. ou_customer_ok env x = Inr ()" and wf: "sites_wf d" and ds: "distinct (map cu_name cs)"
  obtains cs' where "reconcile_customer_sites env d (cursor, cs) = Inr (Some (next_cursor (sweep_batch d (or_empty cursor) cs)), cs')"
    "list_all2 (linked d) cs cs'"
    "\<And>n s. n \<in> set (sweep_batch d (or_empty cursor) cs) \<Longrightarrow> ready_or_linked d n s cs \<Longrightarrow> site_linked n s cs'"
proof -
  obtain cs' where f: "foldE (sweep_one env d) (sweep_batch d (or_empty cursor) cs) cs = Inr cs'"
    and l: "\<forall>n\<in>set (sweep_batch d (or_empty cursor) cs). \<forall>s. ready_or_linked d n s cs \<longrightarrow> site_linked n s cs'"
    using sweep_runs [OF ok wf ds] batch_sweepable [OF ds] by meson
  then show ?thesis using that [of cs'] sweep_linked [OF f ds] by (simp add: reconcile_customer_sites_def Let_def)
qed

lemma candidates_shrink:
  assumes "sites_wf d" "list_all2 (linked d) cs cs'" "distinct (map cu_name cs)"
  shows "candidates_of d cs' \<subseteq> candidates_of d cs"
proof
  fix n assume "n \<in> candidates_of d cs'"
  then obtain c' where c': "c' \<in> set cs'" "sweep_candidate d c'" "n = cu_name c'" by (auto simp: candidates_of_def)
  have "get_row cu_name cs' n = Some c'" using distinct_row [of cs' c'] c' linked_names [OF assms(2)] assms(3) by simp
  then obtain c where c: "get_row cu_name cs n = Some c" "linked d c c'"
    using linked_row [OF assms(2), of n] by (cases "get_row cu_name cs n") auto
  have "c' = c"
    using c(2) c'(2) linkable_named [OF assms(1)] unfolding linked_def sweep_candidate_def by (elim disjE exE conjE) auto
  then show "n \<in> candidates_of d cs" using c'(2,3) get_row_Some [OF c(1)] by (auto simp: candidates_of_def)
qed

definition runs_left :: "db \<Rightarrow> string \<Rightarrow> string \<Rightarrow> customer_row list \<Rightarrow> nat" where
  "runs_left d n cursor cs =
     (if cursor < n then card {k \<in> candidates_of d cs. cursor < k \<and> k < n}
      else card (candidates_of d cs) + 1 + card {k \<in> candidates_of d cs. cursor < k})"

lemma finite_candidates [simp]: "finite (candidates_of d cs)"
  by (simp add: candidates_of_def)

text \<open>A run that does not reach a candidate brings the cursor nearer to it.\<close>

lemma sweep_progress:
  assumes ds: "distinct (map cu_name cs)" and n: "n \<in> candidates_of d cs" "n \<noteq> []" "n \<notin> set (sweep_batch d cursor cs)"
    and sub: "candidates_of d cs' \<subseteq> candidates_of d cs"
  shows "runs_left d n (next_cursor (sweep_batch d cursor cs)) cs' < runs_left d n cursor cs"
proof -
  define C where "C = candidates_of d cs"
  define C' where "C' = candidates_of d cs'"
  define L where "L = sort (map cu_name (filter (\<lambda>c. sweep_candidate d c \<and> cursor < cu_name c) cs))"
  define B where "B = take batch_size L"
  have fin: "finite C" "C' \<subseteq> C" using sub by (simp_all add: C_def C'_def)
  have setL: "set L = {k \<in> C. cursor < k}" by (auto simp: L_def C_def candidates_of_def)
  have "distinct (map cu_name (filter (\<lambda>c. sweep_candidate d c \<and> cursor < cu_name c) cs))" using ds by (rule distinct_map_filter)
  then have L: "distinct L" "sorted L" by (simp_all add: L_def)
  have B: "sweep_batch d cursor cs = B" by (simp add: sweep_batch_def B_def L_def)
  have lastB: "last B \<in> C \<and> cursor < last B" if "length B = batch_size"
  proof -
    have "B \<noteq> []" using that by (auto simp: batch_size_def)
    then show ?thesis using setL in_set_takeD [of "last B" batch_size L] by (auto simp: B_def)
  qed
  have wrap: "card C' \<le> card C" using fin card_mono by blast
  show ?thesis
  proof (cases "cursor < n")
    case True
    then have "n \<in> set L" using n(1) setL by (simp add: C_def)
    then have r: "n \<in> set (drop batch_size L)"
      using n(3) set_append [of B "drop batch_size L"] unfolding B by (auto simp: B_def)
    then have len: "length B = batch_size" by (cases "length L \<le> batch_size") (auto simp: B_def)
    have "last B \<in> set B" using len by (intro last_in_set) (auto simp: batch_size_def)
    moreover have "sorted (B @ drop batch_size L)" "distinct (B @ drop batch_size L)" using L by (simp_all add: B_def)
    ultimately have m: "last B < n" using r by (auto simp: sorted_append order_less_le)
    have "{k \<in> C'. last B < k \<and> k < n} \<subset> {k \<in> C. cursor < k \<and> k < n}"
      using fin(2) lastB [OF len] m by (auto dest: less_trans)
    then have "card {k \<in> C'. last B < k \<and> k < n} < card {k \<in> C. cursor < k \<and> k < n}"
      using fin(1) by (intro psubset_card_mono) auto
    then show ?thesis using True m len by (simp add: runs_left_def B next_cursor_def C_def C'_def)
  next
    case False
    show ?thesis
    proof (cases "length B = batch_size")
      case True
      have m: "\<not> last B < n" using False lastB [OF True] by auto
      have "{k \<in> C'. last B < k} \<subset> {k \<in> C. cursor < k}" using fin(2) lastB [OF True] by (auto dest: less_trans)
      then have "card {k \<in> C'. last B < k} < card {k \<in> C. cursor < k}" using fin(1) by (intro psubset_card_mono) auto
      then show ?thesis using False m True wrap by (simp add: runs_left_def B next_cursor_def C_def C'_def)
    next
      case short: False
      have "[] < n" using n(2) by (cases n) auto
      moreover have "card {k \<in> C'. [] < k \<and> k < n} \<le> card C'" using fin finite_subset by (intro card_mono) auto
      ultimately show ?thesis using False short wrap by (simp add: runs_left_def B next_cursor_def C_def C'_def)
    qed
  qed
qed

lemma swept:
  assumes ok: "\<forall>x. ou_customer_ok env x = Inr ()" and wf: "sites_wf d" and n: "n \<noteq> []"
  shows "distinct (map cu_name cs) \<Longrightarrow> ready_or_linked d n s cs \<Longrightarrow>
    \<exists>k cursor' cs'. k \<le> runs_left d n (or_empty cursor) cs + 1 \<and> sweeps env d k (cursor, cs) = Inr (cursor', cs') \<and> site_linked n s cs'"
proof (induction "runs_left d n (or_empty cursor) cs" arbitrary: cursor cs rule: less_induct)
  case less
  show ?case
  proof (cases "site_linked n s cs")
    case True
    then show ?thesis by (intro exI [of _ 0]) simp
  next
    case False
    obtain c where c: "get_row cu_name cs n = Some c" "linkable d c s" using less.prems(2) False by (auto simp: ready_or_linked_def site_linked_def)
    have cand: "n \<in> candidates_of d cs" using linkable_candidate [OF c(2)] get_row_Some [OF c(1)] by (auto simp: candidates_of_def)
    define B where "B = sweep_batch d (or_empty cursor) cs"
    obtain cs1 where r: "reconcile_customer_sites env d (cursor, cs) = Inr (Some (next_cursor B), cs1)" and l: "list_all2 (linked d) cs cs1"
      and h: "\<And>n s. n \<in> set B \<Longrightarrow> ready_or_linked d n s cs \<Longrightarrow> site_linked n s cs1"
      by (rule sweep_step [OF ok wf less.prems(1), of cursor, folded B_def]) (rule that)
    show ?thesis
    proof (cases "n \<in> set B")
      case True
      then show ?thesis using h less.prems(2) r by (intro exI [of _ 1]) auto
    next
      case out: False
      have d1: "distinct (map cu_name cs1)" using linked_names [OF l] less.prems(1) by simp
      have p: "runs_left d n (or_empty (Some (next_cursor B))) cs1 < runs_left d n (or_empty cursor) cs"
        using sweep_progress [OF less.prems(1) cand n] out candidates_shrink [OF wf l less.prems(1)] by (simp add: B_def)
      from less.hyps [OF p d1 linked_ready(1) [OF l less.prems(2)]] obtain k cursor' cs' where
        k: "k \<le> runs_left d n (or_empty (Some (next_cursor B))) cs1 + 1"
          "sweeps env d k (Some (next_cursor B), cs1) = Inr (cursor', cs')" "site_linked n s cs'" by blast
      then show ?thesis using p r by (intro exI [of _ "Suc k"] exI [of _ cursor'] exI [of _ cs']) simp
    qed
  qed
qed

text \<open>
  C37: every confirmed site is linked. Whatever ineligible customers there are and wherever the cursor of the
  job stands, a Customer whose site creation succeeded with its handover evidence and whose site the inventory
  shows is linked to that site after at most twice as many runs of the job as there are customers, and two, as
  long as the Customer documents can be saved and the tables of operations and sites stay as they are.
\<close>

theorem customers_reconciled:
  assumes "\<forall>x. ou_customer_ok env x = Inr ()" and "sites_wf d" and "distinct (map cu_name cs)" and "cu_name c \<noteq> []"
    and "c \<in> set cs" and "linkable d c s"
  shows "\<exists>k cursor' cs' c'. k \<le> 2 * length cs + 2 \<and> sweeps env d k (cursor, cs) = Inr (cursor', cs')
    \<and> get_row cu_name cs' (cu_name c) = Some c' \<and> cu_site c' = Some (si_name s)"
proof -
  have "card (candidates_of d cs) \<le> card (cu_name ` set cs)" by (intro card_mono) (auto simp: candidates_of_def)
  also have "\<dots> \<le> length cs" by (metis card_length length_map set_map)
  finally have b: "card (candidates_of d cs) \<le> length cs" .
  have "card {k \<in> candidates_of d cs. P k} \<le> card (candidates_of d cs)" for P by (intro card_mono) auto
  then have m: "card {k \<in> candidates_of d cs. P k} \<le> length cs" for P using b le_trans by blast
  have "runs_left d (cu_name c) (or_empty cursor) cs + 1 \<le> 2 * length cs + 2"
    using m [of "\<lambda>k. or_empty cursor < k \<and> k < cu_name c"] m [of "\<lambda>k. or_empty cursor < k"] b by (simp add: runs_left_def)
  moreover have "ready_or_linked d (cu_name c) s cs"
    using distinct_row [OF assms(3,5)] assms(6) linkable_named [OF assms(2,6)] by (auto simp: ready_or_linked_def truthy_def)
  ultimately show ?thesis using swept [OF assms(1,2,4,3)] unfolding site_linked_def by (meson le_trans)
qed

section \<open>A customer whose site is there\<close>

definition served_op :: op_row where
  "served_op = scene_op\<lparr>op_state := ''succeeded'', op_result_json := Some (json_dumps (JObj created_result)),
     op_credential_received := Some 5\<rparr>"

definition served_site :: site_row where
  "served_site = demo_site\<lparr>si_inventory_at := Some 0\<rparr>"

definition served_db :: db where
  "served_db = (scene_db (Some 0) [served_op] [])\<lparr>sites := [served_site]\<rparr>"

definition served_customer :: customer_row where
  "served_customer = \<lparr>cu_name = ''ACME'', cu_site = None, cu_operation = Some demo_uuid\<rparr>"

definition plain_outside :: surroundings where
  "plain_outside = \<lparr>ou_customer_ok = (\<lambda>_. Inr ()), ou_may_write = (\<lambda>_. True), ou_may_read = (\<lambda>_. True)\<rparr>"

lemma served_handover: "creation_handover_ready (op_result_json served_op) (op_credential_received served_op) None"
proof -
  have "json_dumps (JObj created_result) \<noteq> []" by simp
  then show ?thesis using created_reads
    by (simp add: served_op_def creation_handover_ready_def json_or_null_def Let_def created_result_def handover_evidence_def
        readiness_apps_def AgentIngestion.app_name_def string_defs del: json_dumps.simps)
qed

lemma served_linkable: "linkable served_db served_customer served_site"
proof -
  have "payload_domain (Some blank_text) = Inr (JStr ''a.example'')" by (simp add: payload_domain_def blank_facts) (simp add: blank_kvs_def)
  moreover have "demo_uuid \<noteq> []" by (simp add: demo_uuid_def)
  ultimately show ?thesis using served_handover
    by (simp add: linkable_def served_db_def served_customer_def served_site_def scene_db_def opt_row_def get_row_def served_op_def
        scene_op_def demo_op_def demo_site_def site_of_domain_def site_confirmed_def truthy_def)
qed

lemma served_facts: "sites_wf served_db" "\<forall>x. ou_customer_ok plain_outside x = Inr ()"
  by (simp_all add: sites_wf_def served_db_def served_site_def demo_site_def plain_outside_def)

theorem customers_reconciled_witness:
  "\<exists>k cursor' cs' c'. k \<le> 4 \<and> sweeps plain_outside served_db k (Some ''Z'', [served_customer]) = Inr (cursor', cs')
    \<and> get_row cu_name cs' ''ACME'' = Some c' \<and> cu_site c' = Some ''site-1''"
  using customers_reconciled [OF served_facts(2,1), of "[served_customer]" served_customer served_site "Some ''Z''"] served_linkable
  by (simp add: served_customer_def served_site_def demo_site_def)

theorem customers_linked_witness:
  "\<exists>cs' c'. reconcile_customer_sites plain_outside served_db (None, [served_customer]) = Inr (Some [], cs')
    \<and> get_row cu_name cs' ''ACME'' = Some c' \<and> (c' = served_customer \<or> cu_site c' = Some ''site-1'')"
proof -
  have ds: "distinct (map cu_name [served_customer])" by simp
  obtain cs' where r: "reconcile_customer_sites plain_outside served_db (None, [served_customer])
      = Inr (Some (next_cursor (sweep_batch served_db [] [served_customer])), cs')" and l: "list_all2 (linked served_db) [served_customer] cs'"
    by (rule sweep_step [OF served_facts(2,1) ds, of None]) simp
  have b: "next_cursor (sweep_batch served_db [] [served_customer]) = []"
    by (auto simp: next_cursor_def sweep_batch_def batch_size_def)
  obtain c' where c': "get_row cu_name cs' ''ACME'' = Some c'"
    using linked_row [OF l, of "''ACME''"] by (auto simp: get_row_def served_customer_def)
  have u: "linkable served_db served_customer s \<Longrightarrow> s = served_site" for s using linkable_unique [OF served_linkable] by simp
  obtain c where c: "get_row cu_name [served_customer] ''ACME'' = Some c"
    "c' = c \<or> (\<exists>s. linkable served_db c s \<and> c' = c\<lparr>cu_site := Some (si_name s)\<rparr>)"
    using customers_linked [OF r ds c'] by blast
  have "c = served_customer" using c(1) by (simp add: get_row_def served_customer_def)
  then have "c' = served_customer \<or> cu_site c' = Some (si_name served_site)" using c(2) by (auto dest!: u)
  then show ?thesis using r b c' by (auto simp: served_site_def demo_site_def)
qed

end
