(* ===== verification/TimeRoundtrip.thy ===== *)
theory TimeRoundtrip
  imports PyTime JsonRoundtrip
begin

text \<open>
  The calendar computes in both directions, and reading what \<open>micro_timestamp\<close> wrote gives the instant
  back. A year is counted from March, a cycle has 146097 days; the few hundred years and days of a cycle
  are checked by evaluation, everything else by arithmetic.
\<close>

section \<open>The calendar\<close>

definition year_start :: "int \<Rightarrow> int" where
  "year_start y = 365 * y + y div 4 - y div 100"

definition year_end :: "int \<Rightarrow> int" where
  "year_end y = (if y = 399 then 146096 else year_start (y + 1) - 1)"

definition year_scale :: "int \<Rightarrow> int" where
  "year_scale doe = doe - doe div 1460 + doe div 36524 - doe div 146096"

definition year_ok :: "int \<Rightarrow> bool" where
  "year_ok y \<longleftrightarrow>
     365 * y \<le> year_scale (year_start y) \<and> year_scale (year_end y) < 365 * (y + 1)
     \<and> (year_end y - year_start y = 365 \<and> is_leap (y + 1) \<or> year_end y - year_start y = 364)"

lemma years_ok: "\<forall>y\<in>set [0..399]. year_ok y"
  by code_simp

lemma year_scale_step:
  assumes "0 \<le> d" "d < 146096"
  shows "year_scale d \<le> year_scale (d + 1)"
proof (cases "d + 1 = 146096")
  case True
  then have "d = 146095" by simp
  then show ?thesis by (simp add: year_scale_def)
next
  case False
  then have "d div 146096 = 0" "(d + 1) div 146096 = 0" using assms by auto
  moreover have "(d + 1) div 1460 \<le> (d + 1460) div 1460" by (rule zdiv_mono1) simp_all
  moreover have "d div 36524 \<le> (d + 1) div 36524" by (rule zdiv_mono1) simp_all
  moreover have "(d + 1460) div 1460 = d div 1460 + 1" by simp
  ultimately show ?thesis unfolding year_scale_def by linarith
qed

lemma year_scale_mono:
  assumes "0 \<le> a" "a \<le> b" "b \<le> 146096"
  shows "year_scale a \<le> year_scale b"
proof -
  have "a + int n \<le> 146096 \<Longrightarrow> year_scale a \<le> year_scale (a + int n)" for n
  proof (induction n)
    case (Suc n)
    then have "year_scale (a + int n) \<le> year_scale (a + int n + 1)" using assms(1) by (intro year_scale_step) auto
    then show ?case using Suc by (simp add: algebra_simps)
  qed simp
  from this [of "nat (b - a)"] show ?thesis using assms by simp
qed

lemma year_of_day:
  assumes "0 \<le> doe" "doe \<le> 146096"
  defines "y \<equiv> year_scale doe div 365"
  shows "0 \<le> y" "y \<le> 399" "year_start y \<le> doe" "doe \<le> year_end y"
proof -
  have "year_scale 0 \<le> year_scale doe" "year_scale doe \<le> year_scale 146096" using assms by (auto intro: year_scale_mono)
  then have r: "0 \<le> year_scale doe" "year_scale doe \<le> 145999" by (simp_all add: year_scale_def)
  then show y: "0 \<le> y" "y \<le> 399" by (simp_all add: y_def)
  have b: "365 * y \<le> year_scale doe" "year_scale doe < 365 * (y + 1)" unfolding y_def by presburger+
  have ok: "year_ok k" if "0 \<le> k" "k \<le> 399" for k using years_ok that by simp
  have p: "0 \<le> year_start k" "year_start k \<le> 146096" if "0 \<le> k" "k \<le> 399" for k
  proof -
    have "k div 4 \<le> 399 div 4" "k div 100 \<le> 399 div 100" using that by (auto intro: zdiv_mono1)
    then show "0 \<le> year_start k" "year_start k \<le> 146096"
      using that div_int_pos_iff [of k 100] div_int_pos_iff [of k 4] zdiv_mono2 [of k 4 100] by (simp_all add: year_start_def)
  qed
  show "year_start y \<le> doe"
  proof (rule ccontr)
    assume n: "\<not> year_start y \<le> doe"
    have "y \<noteq> 0" using n assms(1) by (auto simp: year_start_def)
    then have k: "0 \<le> y - 1" "y - 1 \<le> 399" "y - 1 \<noteq> 399" using y by auto
    have "year_scale doe \<le> year_scale (year_end (y - 1))"
      using n p [of y] y k(3) assms(1) by (intro year_scale_mono) (auto simp: year_end_def)
    then show False using ok [OF k(1,2)] b(1) by (simp add: year_ok_def)
  qed
  show "doe \<le> year_end y"
  proof (rule ccontr)
    assume n: "\<not> doe \<le> year_end y"
    then have k: "0 \<le> y + 1" "y + 1 \<le> 399" using y assms(2) by (auto simp: year_end_def split: if_splits)
    have "year_scale (year_start (y + 1)) \<le> year_scale doe"
      using n p [of "y + 1"] k assms(2) by (intro year_scale_mono) (auto simp: year_end_def)
    then show False using ok [OF k] b(2) by (simp add: year_ok_def)
  qed
qed

text \<open>The month and the day of a day of the year, with their bounds and the way back.\<close>

definition month_index :: "int \<Rightarrow> int" where
  "month_index doy = (5 * doy + 2) div 153"

definition month_of :: "int \<Rightarrow> int" where
  "month_of mp = (if mp < 10 then mp + 3 else mp - 9)"

definition month_day :: "int \<Rightarrow> int" where
  "month_day doy = doy - (153 * month_index doy + 2) div 5 + 1"

definition day_ok :: "int \<Rightarrow> bool" where
  "day_ok doy \<longleftrightarrow>
     (let mp = month_index doy; m = month_of mp; d = month_day doy in
      1 \<le> m \<and> m \<le> 12 \<and> 1 \<le> d \<and> (if m > 2 then m - 3 else m + 9) = mp
      \<and> (m = 2 \<longrightarrow> d \<le> 29 \<and> (doy < 365 \<longrightarrow> d \<le> 28)) \<and> (m \<noteq> 2 \<longrightarrow> d \<le> (if m \<in> {4, 6, 9, 11} then 30 else 31))
      \<and> (306 \<le> doy \<longleftrightarrow> m \<le> 2))"

lemma days_ok: "\<forall>doy\<in>set [0..365]. day_ok doy"
  by code_simp

lemma is_leap_cycle: "is_leap (y + 400 * e) = is_leap y"
proof -
  have "y + 400 * e = y + (100 * e) * 4" "y + 400 * e = y + (4 * e) * 100" "y + 400 * e = y + e * 400" by simp_all
  then have "(y + 400 * e) mod 4 = y mod 4" "(y + 400 * e) mod 100 = y mod 100" "(y + 400 * e) mod 400 = y mod 400"
    by (metis mod_mult_self1)+
  then show ?thesis by (simp only: is_leap_def)
qed

lemma civil_parts:
  fixes z :: int
  defines "era \<equiv> (z + 719468) div 146097" and "doe \<equiv> (z + 719468) mod 146097"
  defines "y \<equiv> year_scale doe div 365"
  defines "doy \<equiv> doe - year_start y"
  shows "civil_from_days z = (y + era * 400 + (if month_of (month_index doy) \<le> 2 then 1 else 0), month_of (month_index doy), month_day doy)"
  unfolding civil_from_days_def Let_def assms month_of_def month_index_def month_day_def year_scale_def year_start_def by (rule refl)

lemma civil_round:
  assumes c: "civil_from_days z = (y, m, d)"
  shows "days_from_civil y m d = z \<and> 1 \<le> m \<and> m \<le> 12 \<and> 1 \<le> d \<and> d \<le> days_in_month y m
    \<and> (first_day \<le> z \<longrightarrow> 1 \<le> y) \<and> (z \<le> last_day \<longrightarrow> y \<le> 9999)"
proof -
  define era doe where "era = (z + 719468) div 146097" and "doe = (z + 719468) mod 146097"
  define yoe where "yoe = year_scale doe div 365"
  define doy where "doy = doe - year_start yoe"
  define m0 where "m0 = month_of (month_index doy)"
  have "(y, m, d) = (yoe + era * 400 + (if m0 \<le> 2 then 1 else 0), m0, month_day doy)"
    using civil_parts [of z] unfolding c era_def doe_def yoe_def doy_def m0_def .
  then have v: "y = yoe + era * 400 + (if m0 \<le> 2 then 1 else 0)" "m = m0" "d = month_day doy"
    by (simp_all only: prod.inject)
  have r: "0 \<le> doe" "doe \<le> 146096" by (simp_all add: doe_def)
  note yr = year_of_day [OF r, folded yoe_def]
  have yok: "year_ok yoe" using years_ok yr(1,2) by simp
  have doy: "0 \<le> doy" "doy \<le> 365" "doy = 365 \<Longrightarrow> is_leap (yoe + 1)" using yr(3,4) yok by (auto simp: doy_def year_ok_def)
  have dok: "day_ok doy" using days_ok doy by simp
  have z: "z = era * 146097 + doe - 719468" unfolding era_def doe_def by (simp add: div_mult_mod_eq)
  have d: "1 \<le> m0" "m0 \<le> 12" "1 \<le> d" "(if m0 > 2 then m0 - 3 else m0 + 9) = month_index doy"
    "m0 = 2 \<Longrightarrow> d \<le> 29" "m0 = 2 \<Longrightarrow> doy < 365 \<Longrightarrow> d \<le> 28" "m0 \<noteq> 2 \<Longrightarrow> d \<le> (if m0 \<in> {4, 6, 9, 11} then 30 else 31)"
    "306 \<le> doy \<longleftrightarrow> m0 \<le> 2"
    using dok unfolding day_ok_def Let_def m0_def v(3) by blast+
  have yd: "(if m \<le> 2 then y - 1 else y) = yoe + era * 400" using v by simp
  have cyc: "(yoe + era * 400) div 400 = era" "(yoe + era * 400) mod 400 = yoe" using yr(1,2) by simp_all
  have dd: "(153 * (if m > 2 then m - 3 else m + 9) + 2) div 5 + d - 1 = doy" unfolding v(2) d(4) v(3) month_day_def by simp
  have "days_from_civil y m d = era * 146097 + (yoe * 365 + yoe div 4 - yoe div 100 + doy) - 719468"
    unfolding days_from_civil_def Let_def yd cyc dd by simp
  also have "\<dots> = z" by (simp add: z doy_def year_start_def algebra_simps)
  finally have 1: "days_from_civil y m d = z" .
  have leap: "is_leap y" if "m0 = 2" "doy = 365"
    using doy(3) that is_leap_cycle [of "yoe + 1" era] v(1) by (simp add: algebra_simps)
  have 2: "d \<le> days_in_month y m"
    using d(5-7) leap doy(2) v(2) unfolding days_in_month_def by (cases "m0 = 2"; cases "doy = 365") auto
  have 3: "1 \<le> y" if "first_day \<le> z"
  proof -
    have f: "306 \<le> era * 146097 + doe" using that z by (simp add: first_day_def days_from_civil_def)
    then have e: "0 \<le> era" using r by auto
    show ?thesis
    proof (cases "era = 0 \<and> yoe = 0")
      case True
      then have "306 \<le> doy" using f by (simp add: doy_def year_start_def)
      then show ?thesis using d(8) v(1) True by simp
    next
      case False
      then show ?thesis using e yr(1) v(1) by (cases "era = 0") auto
    qed
  qed
  have 4: "y \<le> 9999" if "z \<le> last_day"
  proof -
    have f: "era * 146097 + doe \<le> 3652364" using that z by (simp add: last_day_def days_from_civil_def)
    then have e: "era \<le> 24" using r by auto
    show ?thesis
    proof (cases "era = 24 \<and> yoe = 399")
      case True
      then have "doy \<le> 305" using f by (simp add: doy_def year_start_def)
      then show ?thesis using d(8) v(1) True by simp
    next
      case False
      then show ?thesis using e yr(2) v(1) by (cases "era = 24") auto
    qed
  qed
  show ?thesis using 1 2 3 4 d v by simp
qed


section \<open>Numbers of a fixed width\<close>

lemma nat_str_length: "0 < n \<Longrightarrow> k < 10 ^ n \<Longrightarrow> length (nat_str k) \<le> n"
proof (induction n arbitrary: k)
  case (Suc n)
  show ?case
  proof (cases "k < 10")
    case True
    then show ?thesis by (simp add: nat_str_small)
  next
    case False
    then have "0 < n" "k div 10 < 10 ^ n" using Suc.prems by (cases n, auto intro: less_mult_imp_div_less simp: mult.commute)
    then show ?thesis using Suc.IH [of "k div 10"] by (simp add: nat_str_big [OF False])
  qed
qed simp

lemma digits_val_zeros: "digits_val (replicate k CHR ''0'' @ s) = digits_val s"
  by (induction k) (simp_all add: digits_val_def digit_val_def)

lemma pad_parts:
  assumes "0 \<le> i" "i < 10 ^ n" "0 < n"
  shows "length (pad n i) = n" "list_all is_digit (pad n i)" "int (digits_val (pad n i)) = i"
proof -
  have "nat i < 10 ^ n" using assms by (simp add: nat_less_iff)
  then have l: "length (nat_str (nat i)) \<le> n" using nat_str_length assms(3) by blast
  then show "length (pad n i) = n" by (simp add: pad_def Let_def)
  have "is_digit CHR ''0''" by (simp add: is_digit_def)
  then show "list_all is_digit (pad n i)" using nat_str_digits [of "nat i"] by (auto simp: pad_def Let_def list_all_iff)
  show "int (digits_val (pad n i)) = i" using assms(1) by (simp add: pad_def Let_def digits_val_zeros)
qed

lemma digits_at_pad:
  assumes "0 \<le> i" "i < 10 ^ n" "0 < n"
  shows "digits_at n (pad n i @ r) = Some (i, r)"
  using pad_parts [OF assms] by (simp add: digits_at_def)

section \<open>Reading a written instant\<close>

lemma digit_no_sign: "is_digit c \<Longrightarrow> c \<noteq> CHR ''Z'' \<and> c \<noteq> CHR ''W'' \<and> \<not> is_sign c \<and> c < CHR 0x80"
  by (auto simp: is_digit_def is_sign_def digit_ascii)

lemma iso_date_pad:
  assumes "0 \<le> y" "y < 10000" "0 \<le> m" "m < 100" "0 \<le> d" "d < 100"
  shows "iso_date (pad 4 y @ ''-'' @ pad 2 m @ ''-'' @ pad 2 d) = calendar_date y m d"
proof -
  have "digits_at 4 (pad 4 y @ ''-'' @ pad 2 m @ ''-'' @ pad 2 d) = Some (y, ''-'' @ pad 2 m @ ''-'' @ pad 2 d)"
    "digits_at 2 (pad 2 m @ ''-'' @ pad 2 d) = Some (m, ''-'' @ pad 2 d)" "digits_at 2 (pad 2 d) = Some (d, [])"
    using assms digits_at_pad [of d 2 "[]"] by (auto intro!: digits_at_pad)
  moreover have "take 1 (pad 2 m @ ''-'' @ pad 2 d) \<noteq> ''W''"
    using pad_parts [of m 2] assms digit_no_sign by (cases "pad 2 m") auto
  ultimately show ?thesis by (simp add: iso_date_def Let_def)
qed

definition clock_text :: "int \<Rightarrow> int \<Rightarrow> int \<Rightarrow> int \<Rightarrow> string" where
  "clock_text h m s us = pad 2 h @ '':'' @ pad 2 m @ '':'' @ pad 2 s @ ''.'' @ pad 6 us"

lemma iso_clock_text:
  assumes "0 \<le> h" "h < 100" "0 \<le> m" "m < 100" "0 \<le> s" "s < 100" "0 \<le> us" "us < 1000000"
  shows "iso_clock (clock_text h m s us) = Some (h, m, s, us)"
proof -
  have "digits_at 2 (clock_text h m s us) = Some (h, '':'' @ pad 2 m @ '':'' @ pad 2 s @ ''.'' @ pad 6 us)"
    "digits_at 2 (pad 2 m @ '':'' @ pad 2 s @ ''.'' @ pad 6 us) = Some (m, '':'' @ pad 2 s @ ''.'' @ pad 6 us)"
    "digits_at 2 (pad 2 s @ ''.'' @ pad 6 us) = Some (s, ''.'' @ pad 6 us)"
    using assms by (auto simp: clock_text_def intro!: digits_at_pad)
  moreover have "iso_fraction (''.'' @ pad 6 us) = Some us"
    using pad_parts [of us 6] assms by (auto simp: iso_fraction_def)
  ultimately show ?thesis by (simp add: iso_clock_def Let_def)
qed

lemma clock_text_length:
  assumes "0 \<le> h" "h < 100" "0 \<le> m" "m < 100" "0 \<le> s" "s < 100" "0 \<le> us" "us < 1000000"
  shows "length (clock_text h m s us) = 15"
proof -
  have "length (pad 2 h) = 2" "length (pad 2 m) = 2" "length (pad 2 s) = 2" "length (pad 6 us) = 6"
    using assms by (auto intro!: pad_parts(1))
  then show ?thesis by (simp add: clock_text_def)
qed

lemma clock_text_chars:
  assumes "0 \<le> h" "h < 100" "0 \<le> m" "m < 100" "0 \<le> s" "s < 100" "0 \<le> us" "us < 1000000"
  shows "c \<in> set (clock_text h m s us) \<Longrightarrow> is_digit c \<or> c = CHR '':'' \<or> c = CHR ''.''"
proof -
  assume "c \<in> set (clock_text h m s us)"
  moreover have "list_all is_digit (pad 2 h)" "list_all is_digit (pad 2 m)" "list_all is_digit (pad 2 s)" "list_all is_digit (pad 6 us)"
    using assms by (auto intro!: pad_parts(2))
  ultimately show ?thesis by (auto simp: clock_text_def list_all_iff)
qed

lemma clock_no_sign:
  assumes "0 \<le> h" "h < 100" "0 \<le> m" "m < 100" "0 \<le> s" "s < 100" "0 \<le> us" "us < 1000000"
  shows "c \<in> set (clock_text h m s us) \<Longrightarrow> \<not> is_sign c \<and> c \<noteq> CHR ''Z'' \<and> c < CHR 0x80"
  using clock_text_chars [OF assms, of c] digit_no_sign by (auto simp: is_sign_def)

definition date_text :: "int \<Rightarrow> int \<Rightarrow> int \<Rightarrow> string" where
  "date_text y m d = pad 4 y @ ''-'' @ pad 2 m @ ''-'' @ pad 2 d"

lemma date_text_chars:
  assumes "0 \<le> y" "y < 10000" "0 \<le> m" "m < 100" "0 \<le> d" "d < 100"
  shows "c \<in> set (date_text y m d) \<Longrightarrow> is_digit c \<or> c = CHR ''-''"
proof -
  assume "c \<in> set (date_text y m d)"
  moreover have "list_all is_digit (pad 4 y)" "list_all is_digit (pad 2 m)" "list_all is_digit (pad 2 d)"
    using assms by (auto intro!: pad_parts(2))
  ultimately show ?thesis by (auto simp: date_text_def list_all_iff)
qed

lemma date_text_parts:
  assumes "0 \<le> y" "y < 10000" "0 \<le> m" "m < 100" "0 \<le> d" "d < 100"
  shows "length (date_text y m d) = 10" "date_text y m d ! 4 = CHR ''-''" "date_text y m d ! 5 \<noteq> CHR ''W''"
    "c \<in> set (date_text y m d) \<Longrightarrow> c \<noteq> CHR ''Z'' \<and> c < CHR 0x80"
proof -
  have y: "length (pad 4 y) = 4" "list_all is_digit (pad 4 y)" using assms by (auto intro!: pad_parts)
  have m: "length (pad 2 m) = 2" "list_all is_digit (pad 2 m)" using assms by (auto intro!: pad_parts)
  have d: "length (pad 2 d) = 2" "list_all is_digit (pad 2 d)" using assms by (auto intro!: pad_parts)
  show "length (date_text y m d) = 10" "date_text y m d ! 4 = CHR ''-''" using y m d by (simp_all add: date_text_def nth_append)
  have "is_digit (pad 2 m ! 0)" using m by (simp add: list_all_length)
  then show "date_text y m d ! 5 \<noteq> CHR ''W''" using digit_no_sign y m by (auto simp: date_text_def nth_append)
  show "c \<in> set (date_text y m d) \<Longrightarrow> c \<noteq> CHR ''Z'' \<and> c < CHR 0x80"
    using date_text_chars [OF assms, of c] digit_no_sign by auto
qed

lemma code_points_ascii: "ascii s \<Longrightarrow> code_points s = s"
  by (simp add: code_points_def chunks_ascii o_def)

lemma read_instant:
  assumes d: "0 \<le> y" "y < 10000" "0 \<le> mo" "mo < 100" "0 \<le> dy" "dy < 100" and z: "calendar_date y mo dy = Some z"
    and c: "0 \<le> h" "h \<le> 23" "0 \<le> m" "m \<le> 59" "0 \<le> s" "s \<le> 59" "0 \<le> us" "us < 1000000"
  shows "fromisoformat (replace_Z (date_text y mo dy @ ''T'' @ clock_text h m s us @ ''Z''))
    = Some (Aware (z * us_per_day + clock_us (h, m, s, us)))"
proof -
  define D where "D = date_text y mo dy"
  define C where "C = clock_text h m s us"
  have k: "\<And>c. c \<in> set C \<Longrightarrow> \<not> is_sign c \<and> c \<noteq> CHR ''Z'' \<and> c < CHR 0x80"
    unfolding C_def using c by (intro clock_no_sign) auto
  note D = date_text_parts [OF d, folded D_def]
  have keep: "concat (map (\<lambda>c. if c = CHR ''Z'' then ''+00:00'' else [c]) xs) = xs" if "\<forall>c\<in>set xs. c \<noteq> CHR ''Z''" for xs
    using that by (induction xs) auto
  have r: "replace_Z (D @ ''T'' @ C @ ''Z'') = D @ ''T'' @ C @ ''+00:00''"
    using keep [of D] keep [of C] D(4) k by (simp add: replace_Z_def)
  have "ascii (D @ ''T'' @ C @ ''+00:00'')" using D(4) k by (auto simp: ascii_def)
  then have p: "code_points (D @ ''T'' @ C @ ''+00:00'') = D @ ''T'' @ C @ ''+00:00''"
    by (rule code_points_ascii)
  have sp: "separator_at (D @ ''T'' @ C @ ''+00:00'') = 10"
    using D(1-3) by (simp add: separator_at_def nth_append)
  have w: "takeWhile (\<lambda>c. \<not> is_sign c) (C @ ''+00:00'') = C" "dropWhile (\<lambda>c. \<not> is_sign c) (C @ ''+00:00'') = ''+00:00''"
    using k by (auto simp: takeWhile_append dropWhile_append is_sign_def)
  have "iso_clock C = Some (h, m, s, us)" unfolding C_def using c by (intro iso_clock_text) auto
  moreover have "iso_offset ''+00:00'' = Some (Some 0)"
    by (simp add: iso_offset_def iso_clock_def digits_at_def is_digit_def clock_us_def seconds_def us_per_day_def digits_val_def digit_val_def)
  moreover have "C @ ''+00:00'' \<noteq> []" by simp
  ultimately have "iso_time z (C @ ''+00:00'') = Some (Aware (z * us_per_day + clock_us (h, m, s, us)))"
    unfolding iso_time_def w using c by (simp add: day_and_clock_def)
  moreover have "iso_date D = Some z" using iso_date_pad [OF d] z by (simp add: D_def date_text_def)
  moreover have "\<not> length (D @ ''T'' @ C @ ''+00:00'') < 7" using D(1) by simp
  ultimately show ?thesis
    using r p sp D(1) by (simp add: fromisoformat_def Let_def D_def [symmetric] C_def [symmetric])
qed

text \<open>What \<open>micro_timestamp\<close> writes of the instants \<open>datetime\<close> can hold.\<close>

definition in_range :: "int \<Rightarrow> bool" where
  "in_range t \<longleftrightarrow> first_day * us_per_day \<le> t \<and> t < (last_day + 1) * us_per_day"

lemma timestamp_read:
  assumes "in_range t"
  shows "fromisoformat (replace_Z (micro_timestamp t)) = Some (Aware t)"
    and "length (micro_timestamp t) = 27"
    and "c \<in> set (micro_timestamp t) \<Longrightarrow> is_digit c \<or> c \<in> set ''-T:.Z''"
proof -
  define z where "z = t div us_per_day"
  obtain y m d where c: "civil_from_days z = (y, m, d)" by (metis prod_cases3)
  have "first_day \<le> z" "z \<le> last_day"
    using assms by (auto simp: in_range_def z_def us_per_day_def first_day_def last_day_def days_from_civil_def)
  then have r: "days_from_civil y m d = z" "1 \<le> m" "m \<le> 12" "1 \<le> d" "d \<le> days_in_month y m" "1 \<le> y" "y \<le> 9999"
    using civil_round [OF c] by auto
  have "days_in_month y m \<le> 31" by (simp add: days_in_month_def)
  then have b: "0 \<le> y" "y < 10000" "0 \<le> m" "m < 100" "0 \<le> d" "d < 100" using r by auto
  define s where "s = (t mod us_per_day) div us_per_second"
  have tm: "0 \<le> t mod us_per_day" "t mod us_per_day < us_per_day" by (simp_all add: us_per_day_def)
  have s: "0 \<le> s" "s < 86400" using tm by (simp_all add: s_def us_per_day_def us_per_second_def)
  have us: "0 \<le> t mod us_per_second" "t mod us_per_second < 1000000" by (simp_all add: us_per_second_def)
  have h: "0 \<le> s div 3600" "s div 3600 \<le> 23" "0 \<le> s div 60 mod 60" "s div 60 mod 60 \<le> 59" "0 \<le> s mod 60" "s mod 60 \<le> 59"
    using s by auto
  have cal: "calendar_date y m d = Some z" using r by (simp add: calendar_date_def)
  have tx: "micro_timestamp t = date_text y m d @ ''T'' @ clock_text (s div 3600) (s div 60 mod 60) (s mod 60) (t mod us_per_second) @ ''Z''"
    using c by (simp add: micro_timestamp_def iso_seconds_def date_text_def clock_text_def s_def z_def Let_def)
  have e: "z * us_per_day + clock_us (s div 3600, s div 60 mod 60, s mod 60, t mod us_per_second) = t"
  proof -
    have "s div 60 div 60 = s div 3600" by (simp add: zdiv_zmult2_eq [symmetric])
    then have "s div 3600 * 3600 + s div 60 mod 60 * 60 + s mod 60 = s"
      using div_mult_mod_eq [of s 60] div_mult_mod_eq [of "s div 60" 60] by linarith
    moreover have "t mod us_per_day = s * us_per_second + t mod us_per_day mod us_per_second"
      by (simp add: s_def)
    moreover have "t mod us_per_day mod us_per_second = t mod us_per_second"
      by (simp add: us_per_day_def us_per_second_def mod_mod_cancel)
    moreover have "z * us_per_day + t mod us_per_day = t" by (simp add: z_def)
    ultimately show ?thesis by (simp add: clock_us_def seconds_def)
  qed
  show "fromisoformat (replace_Z (micro_timestamp t)) = Some (Aware t)" unfolding tx using read_instant [OF b cal h us] e by simp
  have b': "s div 3600 < 100" "s div 60 mod 60 < 100" "s mod 60 < 100" using h by simp_all
  show "length (micro_timestamp t) = 27"
    unfolding tx using date_text_parts(1) [OF b] clock_text_length [OF h(1) b'(1) h(3) b'(2) h(5) b'(3) us] by simp
  show "c \<in> set (micro_timestamp t) \<Longrightarrow> is_digit c \<or> c \<in> set ''-T:.Z''"
    unfolding tx using date_text_chars [OF b, of c] clock_text_chars [OF h(1) b'(1) h(3) b'(2) h(5) b'(3) us, of c] by auto
qed

end
