(* ===== verification/DataUpdates.thy ===== *)
theory DataUpdates
  imports OperationService TimeRoundtrip "HOL-Library.Multiset"
begin

text \<open>
  \<open>data_update_authoring.py\<close>: what a data update may ask for, before its preview and again when the
  preview is promoted. \<open>du_value\<close> is the recursive normaliser of nested values with its depth and its
  budget of 1000 nodes, which the source counts in a shared list; the lemmas show it computes a function of
  the value alone, and that a normalised payload is normal. Unicode's NFC and case folding are parameters
  on text beyond ASCII: \<open>unicodedata\<close> is a table, and ASCII text is its own normal form.
\<close>

section \<open>Names and words\<close>

record unicode =
  uc_nfc :: "string \<Rightarrow> string"
  uc_casefold :: "string \<Rightarrow> string"

definition nfc :: "unicode \<Rightarrow> string \<Rightarrow> string" where
  "nfc u s = (if ascii s then s else uc_nfc u s)"

definition full_casefold :: "unicode \<Rightarrow> string \<Rightarrow> string" where
  "full_casefold u s = (if ascii s then py_casefold s else uc_casefold u s)"

definition maximum_rows :: int where
  "maximum_rows = 100"

definition du_error :: exn where
  "du_error = OperationAuthoringError ''data update payload is invalid''"

definition du_operators :: "string list" where
  "du_operators = [''eq'', ''ne'', ''in'', ''not_in'', ''lt'', ''lte'', ''gt'', ''gte'']"

definition system_fields :: "string list" where
  "system_fields =
     [''_assign'', ''_comments'', ''_liked_by'', ''_seen'', ''_user_tags'', ''creation'', ''docstatus'', ''doctype'', ''idx'',
      ''modified'', ''modified_by'', ''name'', ''owner'', ''parent'', ''parentfield'', ''parenttype'', ''allow_on_submit'',
      ''autoname'', ''depends_on'', ''fieldname'', ''fieldtype'', ''hidden'', ''options'', ''permlevel'', ''read_only'', ''reqd'',
      ''unique'', ''roles'', ''username'', ''user_type'']"

definition forbidden_doctypes :: "string list" where
  "forbidden_doctypes =
     [''agent certificate'', ''authentication log'', ''client script'', ''custom docperm'', ''custom field'', ''connected app'',
      ''docfield'', ''docperm'', ''doctype'', ''has role'', ''installed applications'', ''module def'', ''oauth bearer token'',
      ''oauth client'', ''oauth scope'', ''operation approval'', ''property setter'', ''role'', ''role profile'', ''server script'',
      ''singles'', ''system settings'', ''user permission'', ''user'']"

definition secret_words :: "string list" where
  "secret_words =
     [''auth'', ''authorization'', ''credential'', ''credentials'', ''password'', ''passwd'', ''secret'', ''token'', ''api_key'',
      ''api_secret'', ''private_key'', ''encryption_key'']"

text \<open>An underscore between a small letter or digit and a capital; the words of what is left.\<close>

fun snake :: "string \<Rightarrow> string" where
  "snake (a # b # cs) = (if (is_lower a \<or> is_digit a) \<and> is_upper b then a # CHR ''_'' # snake (b # cs) else a # snake (b # cs))"
| "snake s = s"

definition words :: "string \<Rightarrow> string list" where
  "words s =
     filter (\<lambda>w. w \<noteq> []) (split_on CHR ''_''
       (map (\<lambda>c. if is_lower c \<or> is_digit c then c else CHR ''_'') (py_casefold (snake s))))"

definition secret_name :: "string \<Rightarrow> bool" where
  "secret_name s \<longleftrightarrow>
     list_ex (\<lambda>w. w \<in> set [''auth'', ''authorization'', ''credential'', ''credentials'', ''password'', ''passwd'', ''secret'', ''token''])
       (words s)
     \<or> join ''_'' (words s) \<in> set secret_words"

definition field_pattern :: "string \<Rightarrow> bool" where
  "field_pattern = head_tail (\<lambda>c. is_lower c \<or> is_upper c) (\<lambda>c. is_alnum c \<or> c = CHR ''_'') 139"

definition doctype_pattern :: "string \<Rightarrow> bool" where
  "doctype_pattern = head_tail (\<lambda>c. is_lower c \<or> is_upper c)
     (\<lambda>c. is_alnum c \<or> c = CHR '' '' \<or> c = CHR ''_'' \<or> c = CHR ''-'') 139"

definition policy_pattern :: "string \<Rightarrow> bool" where
  "policy_pattern = head_tail (\<lambda>c. is_lower c \<or> is_digit c)
     (\<lambda>c. is_lower c \<or> is_digit c \<or> c = CHR ''.'' \<or> c = CHR ''_'' \<or> c = CHR '':'' \<or> c = CHR ''-'') 127"

definition du_field :: "unicode \<Rightarrow> json \<Rightarrow> string result" where
  "du_field u v =
     (case v of
        JStr s \<Rightarrow>
          bindE (require (s = nfc u s \<and> field_pattern s) du_error) (\<lambda>_.
          bindE (require (\<not> (py_casefold s \<in> set system_fields \<or> secret_name s))
                   (OperationAuthoringError ''sensitive, authentication, schema, and system fields are forbidden'')) (\<lambda>_.
          Inr s))
      | _ \<Rightarrow> Inl du_error)"

definition du_doctype :: "unicode \<Rightarrow> json \<Rightarrow> string result" where
  "du_doctype u v =
     (case v of
        JStr s \<Rightarrow>
          bindE (require (s = py_strip s \<and> s = nfc u s \<and> doctype_pattern s) du_error) (\<lambda>_.
          bindE (require (\<not> (py_casefold s \<in> set forbidden_doctypes \<or> starts_with ''oauth '' (py_casefold s)
                             \<or> starts_with ''integration request'' (py_casefold s) \<or> secret_name s))
                   (OperationAuthoringError ''authentication, schema, and system DocTypes are forbidden'')) (\<lambda>_.
          Inr s))
      | _ \<Rightarrow> Inl du_error)"

definition du_text :: "unicode \<Rightarrow> json \<Rightarrow> nat \<Rightarrow> string result" where
  "du_text u v maximum =
     (case v of
        JStr s \<Rightarrow>
          bindE (require (s \<noteq> [] \<and> s = py_strip s \<and> s = nfc u s) du_error) (\<lambda>_.
          bindE (encodeE s) (\<lambda>encoded.
          bindE (require (length encoded \<le> maximum \<and> CHR 0x00 \<notin> set s \<and> CHR 0x0D \<notin> set s \<and> CHR 0x0A \<notin> set s) du_error) (\<lambda>_.
          Inr s)))
      | _ \<Rightarrow> Inl du_error)"

section \<open>Values\<close>

definition du_enter :: "nat \<Rightarrow> nat \<Rightarrow> unit result" where
  "du_enter depth spent = require (depth \<le> 8 \<and> Suc spent \<le> 1000) du_error"

definition du_atom :: "unicode \<Rightarrow> json \<Rightarrow> json result" where
  "du_atom u v =
     (case v of
        JInt i \<Rightarrow> bindE (require (\<bar>i\<bar> \<le> 10 ^ 38 - 1) du_error) (\<lambda>_. Inr v)
      | JFloat f \<Rightarrow>
          bindE (require (case float_val f of None \<Rightarrow> False | Some q \<Rightarrow> \<bar>q\<bar> \<le> fl (10 ^ 100)) du_error) (\<lambda>_. Inr v)
      | JStr s \<Rightarrow>
          bindE (require (CHR 0x00 \<notin> set (nfc u s)) du_error) (\<lambda>_.
          bindE (encodeE (nfc u s)) (\<lambda>encoded.
          bindE (require (length encoded \<le> 32 * 1024) du_error) (\<lambda>_. Inr (JStr (nfc u s)))))
      | _ \<Rightarrow> Inr v)"

text \<open>The keys of a mapping are distinct and kept, so no key is in the result already.\<close>

definition du_key :: "unicode \<Rightarrow> string \<Rightarrow> unit result" where
  "du_key u k =
     (let e = OperationAuthoringError ''secret-shaped nested JSON fields are forbidden'' in
      bindE (require (k \<noteq> [] \<and> k = py_strip k) e) (\<lambda>_.
      bindE (encodeE k) (\<lambda>encoded.
      bindE (require (length encoded \<le> 140 \<and> \<not> secret_name k) e) (\<lambda>_.
      require (nfc u k = k) du_error))))"

fun du_value :: "unicode \<Rightarrow> nat \<Rightarrow> nat \<Rightarrow> json \<Rightarrow> (json \<times> nat) result"
  and du_items :: "unicode \<Rightarrow> nat \<Rightarrow> nat \<Rightarrow> json list \<Rightarrow> (json list \<times> nat) result"
  and du_members :: "unicode \<Rightarrow> nat \<Rightarrow> nat \<Rightarrow> (string \<times> json) list \<Rightarrow> ((string \<times> json) list \<times> nat) result"
where
  "du_value u depth spent (JList xs) =
     bindE (du_enter depth spent) (\<lambda>_.
     bindE (require (length xs \<le> 100) du_error) (\<lambda>_.
     bindE (du_items u (Suc depth) (Suc spent) xs) (\<lambda>(ys, spent'). Inr (JList ys, spent'))))"
| "du_value u depth spent (JObj kvs) =
     bindE (du_enter depth spent) (\<lambda>_.
     bindE (require (length kvs \<le> 32) du_error) (\<lambda>_.
     bindE (du_members u (Suc depth) (Suc spent) kvs) (\<lambda>(ys, spent'). Inr (JObj ys, spent'))))"
| "du_value u depth spent v =
     bindE (du_enter depth spent) (\<lambda>_. bindE (du_atom u v) (\<lambda>w. Inr (w, Suc spent)))"
| "du_items u depth spent [] = Inr ([], spent)"
| "du_items u depth spent (x # xs) =
     bindE (du_value u depth spent x) (\<lambda>(y, spent1).
     bindE (du_items u depth spent1 xs) (\<lambda>(ys, spent2). Inr (y # ys, spent2)))"
| "du_members u depth spent [] = Inr ([], spent)"
| "du_members u depth spent ((k, x) # kvs) =
     bindE (du_key u k) (\<lambda>_.
     bindE (du_value u depth spent x) (\<lambda>(y, spent1).
     bindE (du_members u depth spent1 kvs) (\<lambda>(ys, spent2). Inr ((k, y) # ys, spent2))))"

definition du_value_of :: "unicode \<Rightarrow> json \<Rightarrow> json result" where
  "du_value_of u v = bindE (du_value u 0 0 v) (\<lambda>(w, _). Inr w)"

definition du_timestamp :: "unicode \<Rightarrow> json \<Rightarrow> string result" where
  "du_timestamp u v =
     bindE (du_text u v 64) (\<lambda>s.
     case fromisoformat (replace_Z s) of
       Some (Aware t) \<Rightarrow> bindE (astimezone_utc t) (\<lambda>t'. Inr (micro_timestamp t'))
     | _ \<Rightarrow> Inl du_error)"

section \<open>The payload\<close>

definition payload_fields :: "string list" where
  "payload_fields =
     [''contract_version'', ''doctype'', ''document_names'', ''filters'', ''changes'', ''expected_modified'', ''dry_run'',
      ''maximum_rows'', ''reason'']"

definition some_items :: "json \<Rightarrow> bool" where
  "some_items v = (case v of JList xs \<Rightarrow> xs \<noteq> [] | _ \<Rightarrow> False)"

definition nested :: "json \<Rightarrow> bool" where
  "nested v = (case v of JList _ \<Rightarrow> True | JObj _ \<Rightarrow> True | _ \<Rightarrow> False)"

definition du_names :: "unicode \<Rightarrow> json \<Rightarrow> string list option result" where
  "du_names u v =
     (case v of
        JNull \<Rightarrow> Inr None
      | JList xs \<Rightarrow>
          bindE (require (xs \<noteq> [] \<and> length xs \<le> 100) du_error) (\<lambda>_.
          bindE (mapE (\<lambda>x. du_text u x 140) xs) (\<lambda>names.
          bindE (require (distinct (map (full_casefold u) names)) du_error) (\<lambda>_.
          Inr (Some names))))
      | _ \<Rightarrow> Inl du_error)"

definition filter_value_ok :: "string \<Rightarrow> json \<Rightarrow> bool" where
  "filter_value_ok operator v \<longleftrightarrow>
     (if operator \<in> {''in'', ''not_in''}
      then (case v of JList xs \<Rightarrow> xs \<noteq> [] \<and> \<not> list_ex nested xs | _ \<Rightarrow> False)
      else \<not> nested v)
     \<and> \<not> (operator \<in> {''lt'', ''lte'', ''gt'', ''gte''} \<and> v = JNull)"

definition du_operator :: "json \<Rightarrow> string result" where
  "du_operator v =
     (case v of
        JStr s \<Rightarrow> bindE (require (s \<in> set du_operators) du_error) (\<lambda>_. Inr s)
      | JList _ \<Rightarrow> Inl (TypeError ''unhashable type'')
      | JObj _ \<Rightarrow> Inl (TypeError ''unhashable type'')
      | _ \<Rightarrow> Inl du_error)"

definition du_filter :: "unicode \<Rightarrow> json \<Rightarrow> json result" where
  "du_filter u item =
     (case item of
        JObj kvs \<Rightarrow>
          bindE (require (jkeys kvs = {''field'', ''operator'', ''value''}) du_error) (\<lambda>_.
          bindE (du_operator (jget kvs ''operator'')) (\<lambda>operator.
          bindE (du_value_of u (jget kvs ''value'')) (\<lambda>v.
          bindE (require (filter_value_ok operator v) du_error) (\<lambda>_.
          bindE (du_field u (jget kvs ''field'')) (\<lambda>field.
          Inr (JObj [(''field'', JStr field), (''operator'', JStr operator), (''value'', v)]))))))
      | _ \<Rightarrow> Inl du_error)"

definition du_filters :: "unicode \<Rightarrow> json \<Rightarrow> json result" where
  "du_filters u v =
     (case v of
        JNull \<Rightarrow> Inr JNull
      | JList xs \<Rightarrow>
          bindE (require (xs \<noteq> [] \<and> length xs \<le> 20) du_error) (\<lambda>_.
          bindE (mapE (du_filter u) xs) (\<lambda>ys. Inr (JList ys)))
      | _ \<Rightarrow> Inl du_error)"

definition du_change :: "unicode \<Rightarrow> string \<times> json \<Rightarrow> (string \<times> json) result" where
  "du_change u = (\<lambda>(k, v). bindE (du_field u (JStr k)) (\<lambda>field. bindE (du_value_of u v) (\<lambda>w. Inr (field, w))))"

definition du_changes :: "unicode \<Rightarrow> json \<Rightarrow> (string \<times> json) list result" where
  "du_changes u v =
     (case v of
        JObj kvs \<Rightarrow> bindE (require (kvs \<noteq> [] \<and> length kvs \<le> 32) du_error) (\<lambda>_. mapE (du_change u) kvs)
      | _ \<Rightarrow> Inl du_error)"

definition du_expected :: "unicode \<Rightarrow> json \<Rightarrow> string option result" where
  "du_expected u v = (if v = JNull then Inr None else bindE (du_timestamp u v) (\<lambda>t. Inr (Some t)))"

definition names_json :: "string list option \<Rightarrow> json" where
  "names_json names = (case names of None \<Rightarrow> JNull | Some xs \<Rightarrow> JList (map JStr xs))"

definition du_rows :: "json \<Rightarrow> int result" where
  "du_rows v =
     (case v of JInt n \<Rightarrow> bindE (require (1 \<le> n \<and> n \<le> maximum_rows) du_error) (\<lambda>_. Inr n) | _ \<Rightarrow> Inl du_error)"

definition du_payload ::
  "string \<Rightarrow> string list option \<Rightarrow> json \<Rightarrow> (string \<times> json) list \<Rightarrow> string option \<Rightarrow> bool \<Rightarrow> int \<Rightarrow> string
     \<Rightarrow> (string \<times> json) list" where
  "du_payload doctype names filters changes expected dry_run rows reason =
     [(''contract_version'', JStr ''1.0''), (''doctype'', JStr doctype), (''document_names'', names_json names),
      (''filters'', filters), (''changes'', JObj changes), (''expected_modified'', json_opt expected),
      (''dry_run'', JBool dry_run), (''maximum_rows'', JInt rows), (''reason'', JStr reason)]"

definition encoded_payload :: "(string \<times> json) list \<Rightarrow> (string \<times> json) list result" where
  "encoded_payload p =
     bindE (bindE (dumpsE (JObj p)) encodeE) (\<lambda>encoded.
     bindE (require (length encoded \<le> 128 * 1024) du_error) (\<lambda>_. Inr p))"

definition normalize_data_update_payload :: "unicode \<Rightarrow> json \<Rightarrow> bool \<Rightarrow> (string \<times> json) list result" where
  "normalize_data_update_payload u raw dry_run =
     (case raw of
        JObj kvs \<Rightarrow>
          bindE (require (jkeys kvs = set payload_fields \<and> jget kvs ''contract_version'' = JStr ''1.0''
                          \<and> jget kvs ''dry_run'' = JBool dry_run) du_error) (\<lambda>_.
          bindE (du_rows (jget kvs ''maximum_rows'')) (\<lambda>rows.
          bindE (require (some_items (jget kvs ''document_names'') \<noteq> some_items (jget kvs ''filters'')) du_error) (\<lambda>_.
          bindE (du_names u (jget kvs ''document_names'')) (\<lambda>names.
          bindE (du_filters u (jget kvs ''filters'')) (\<lambda>filters.
          bindE (du_changes u (jget kvs ''changes'')) (\<lambda>changes.
          bindE (du_expected u (jget kvs ''expected_modified'')) (\<lambda>expected.
          bindE (require (expected = None \<or> rows = 1 \<and> (case names of None \<Rightarrow> False | Some ns \<Rightarrow> length ns = 1)) du_error) (\<lambda>_.
          bindE (du_doctype u (jget kvs ''doctype'')) (\<lambda>doctype.
          bindE (du_text u (jget kvs ''reason'') 500) (\<lambda>reason.
          encoded_payload (du_payload doctype names filters changes expected dry_run rows reason)))))))))))
      | _ \<Rightarrow> Inl du_error)"

definition normalize_data_update_command :: "unicode \<Rightarrow> string \<Rightarrow> json \<Rightarrow> bool \<Rightarrow> (string \<times> json) list result" where
  "normalize_data_update_command u operation raw dry_run =
     bindE (of_option (OperationAuthoringError ''unsupported data update operation'')
              (case raw of
                 JObj kvs \<Rightarrow> if operation \<in> {''data.update'', ''data.update.break_glass''} \<and> jkeys kvs = {''policy_id'', ''payload''}
                             then Some kvs else None
               | _ \<Rightarrow> None)) (\<lambda>kvs.
     bindE (of_option (OperationAuthoringError ''invalid local policy id'')
              (case jget kvs ''policy_id'' of JStr s \<Rightarrow> if policy_pattern s then Some s else None | _ \<Rightarrow> None)) (\<lambda>policy_id.
     bindE (normalize_data_update_payload u (jget kvs ''payload'') dry_run) (\<lambda>payload.
     Inr [(''policy_id'', JStr policy_id), (''payload'', JObj payload)])))"

definition data_update_authorization :: "unicode \<Rightarrow> bool \<Rightarrow> payload_validator" where
  "data_update_authorization u preview operation raw =
     bindE (normalize_data_update_command u operation (JObj raw) preview) (\<lambda>command.
     Inr \<lparr>au_payload = command, au_site_required = True, au_destructive = False, au_backup = False,
          au_approval = (\<not> preview), au_site_identity = False, au_preview = preview\<rparr>)"

definition canonical_hash :: "json \<Rightarrow> string result" where
  "canonical_hash v = bindE (bindE (dumpsE v) encodeE) (\<lambda>encoded. Inr (sha256_hex encoded))"


section \<open>What a value is normalised to\<close>

fun du_norm :: "unicode \<Rightarrow> json \<Rightarrow> json" where
  "du_norm u (JList xs) = JList (map (du_norm u) xs)"
| "du_norm u (JObj kvs) = JObj (map (\<lambda>(k, v). (k, du_norm u v)) kvs)"
| "du_norm u (JStr s) = JStr (nfc u s)"
| "du_norm u v = v"

fun du_nodes :: "json \<Rightarrow> nat" where
  "du_nodes (JList xs) = Suc (sum_list (map du_nodes xs))"
| "du_nodes (JObj kvs) = Suc (sum_list (map (\<lambda>(k, v). du_nodes v) kvs))"
| "du_nodes v = 1"

fun du_good :: "unicode \<Rightarrow> nat \<Rightarrow> json \<Rightarrow> bool" where
  "du_good u depth (JList xs) \<longleftrightarrow> depth \<le> 8 \<and> length xs \<le> 100 \<and> list_all (du_good u (Suc depth)) xs"
| "du_good u depth (JObj kvs) \<longleftrightarrow>
     depth \<le> 8 \<and> length kvs \<le> 32 \<and> list_all (\<lambda>(k, v). is_ok (du_key u k) \<and> du_good u (Suc depth) v) kvs"
| "du_good u depth v \<longleftrightarrow> depth \<le> 8 \<and> is_ok (du_atom u v)"

lemma du_nodes_pos: "0 < du_nodes v"
  by (cases v) simp_all

lemma du_atom_norm: "du_atom u v = Inr w \<Longrightarrow> \<not> nested v \<Longrightarrow> w = du_norm u v"
  by (auto simp: du_atom_def nested_def result_simps split: json.splits)

lemma du_value_iff:
  "du_value u depth spent v = Inr (w, spent') \<longleftrightarrow>
     du_good u depth v \<and> spent + du_nodes v \<le> 1000 \<and> w = du_norm u v \<and> spent' = spent + du_nodes v"
  "du_items u depth spent xs = Inr (ys, spent1) \<longleftrightarrow>
     list_all (du_good u depth) xs \<and> (xs = [] \<or> spent + sum_list (map du_nodes xs) \<le> 1000) \<and> ys = map (du_norm u) xs
     \<and> spent1 = spent + sum_list (map du_nodes xs)"
  "du_members u depth spent kvs = Inr (zs, spent2) \<longleftrightarrow>
     list_all (\<lambda>(k, v). is_ok (du_key u k) \<and> du_good u depth v) kvs
     \<and> (kvs = [] \<or> spent + sum_list (map (\<lambda>(k, v). du_nodes v) kvs) \<le> 1000)
     \<and> zs = map (\<lambda>(k, v). (k, du_norm u v)) kvs \<and> spent2 = spent + sum_list (map (\<lambda>(k, v). du_nodes v) kvs)"
proof (induction u depth spent v and u depth spent xs and u depth spent kvs arbitrary: w spent' and ys spent1 and zs spent2
    rule: du_value_du_items_du_members.induct)
  case (1 u depth spent xs)
  then show ?case by (cases "xs = []") (auto simp: bindE_eq_Inr require_eq_Inr du_enter_def)
next
  case (2 u depth spent kvs)
  then show ?case by (cases "kvs = []") (auto simp: bindE_eq_Inr require_eq_Inr du_enter_def)
next
  case (5 u depth spent x xs)
  show ?case
  proof (cases "du_good u depth x \<and> spent + du_nodes x \<le> 1000")
    case True
    then have v: "du_value u depth spent x = Inr (du_norm u x, spent + du_nodes x)" using "5.IH"(1) by simp
    show ?thesis using "5.IH"(2) [OF v refl] True by (cases "xs = []") (auto simp: bindE_eq_Inr v add.assoc)
  next
    case False
    then have "du_value u depth spent x \<noteq> Inr p" for p using "5.IH"(1) by (cases p) auto
    then show ?thesis using False by (auto simp: bindE_eq_Inr)
  qed
next
  case (7 u depth spent k x kvs)
  show ?case
  proof (cases "is_ok (du_key u k) \<and> du_good u depth x \<and> spent + du_nodes x \<le> 1000")
    case True
    then have k: "du_key u k = Inr ()" by (auto simp: is_ok_iff)
    have v: "du_value u depth spent x = Inr (du_norm u x, spent + du_nodes x)" using "7.IH"(1) [OF k] True by simp
    show ?thesis using "7.IH"(2) [OF k v refl] True by (cases "kvs = []") (auto simp: bindE_eq_Inr v k add.assoc)
  next
    case False
    then have "bindE (du_key u k) (\<lambda>_. du_value u depth spent x) \<noteq> Inr p" for p
      using "7.IH"(1) by (cases p) (auto simp: bindE_eq_Inr)
    then show ?thesis using False by (auto simp: bindE_eq_Inr)
  qed
qed (auto simp: bindE_eq_Inr require_eq_Inr du_enter_def is_ok_iff du_atom_def encodeE_eq_Inr)


lemma du_value_of_iff: "du_value_of u v = Inr w \<longleftrightarrow> du_good u 0 v \<and> du_nodes v \<le> 1000 \<and> w = du_norm u v"
  by (auto simp: du_value_of_def bindE_eq_Inr du_value_iff(1))

section \<open>A normalised payload is normal\<close>

definition stable :: "unicode \<Rightarrow> bool" where
  "stable u \<longleftrightarrow> (\<forall>s. uc_nfc u (uc_nfc u s) = uc_nfc u s)"

lemma nfc_again [simp]: "stable u \<Longrightarrow> nfc u (nfc u s) = nfc u s"
  by (auto simp: nfc_def stable_def)

lemma du_nodes_norm [simp]: "du_nodes (du_norm u v) = du_nodes v"
proof (induction v rule: du_nodes.induct)
  case (2 kvs)
  then have "map (\<lambda>(k, v). du_nodes v) (map (\<lambda>(k, v). (k, du_norm u v)) kvs) = map (\<lambda>(k, v). du_nodes v) kvs" by auto
  then show ?case by (simp only: du_norm.simps du_nodes.simps)
qed (auto simp: o_def cong: map_cong)

lemma du_norm_again [simp]: "stable u \<Longrightarrow> du_norm u (du_norm u v) = du_norm u v"
  by (induction u v rule: du_norm.induct) auto

lemma du_good_norm: "stable u \<Longrightarrow> du_good u depth v \<Longrightarrow> du_good u depth (du_norm u v)"
  by (induction u depth v rule: du_good.induct) (auto simp: list_all_iff is_ok_iff du_atom_def result_simps)

lemma sum_list_sorted: "sum_list (map f (sort_key g xs)) = (sum_list (map f xs) :: nat)"
  by (metis mset_map mset_sort sum_mset_sum_list)

lemma du_nodes_canon [simp]: "du_nodes (canon v) = du_nodes v"
proof (induction v rule: canon.induct)
  case (2 kvs)
  have "map (\<lambda>(k, v). du_nodes v) (map (\<lambda>(k, v). (k, canon v)) (sort_key fst kvs)) = map (\<lambda>(k, v). du_nodes v) (sort_key fst kvs)"
    using 2 by (auto simp: o_def)
  then show ?case by (simp only: canon.simps du_nodes.simps sum_list_sorted)
qed (auto simp: o_def cong: map_cong)

lemma du_norm_canon: "du_norm u (canon v) = canon (du_norm u v)"
proof (induction v rule: canon.induct)
  case (2 kvs)
  then show ?case by (auto simp: sort_key_map_fst [of "du_norm u" kvs])
qed auto

lemma du_good_canon: "du_good u depth (canon v) = du_good u depth v"
proof (induction u depth v rule: du_good.induct)
  case (1 u depth xs)
  then show ?case by (auto simp: list_all_iff)
next
  case (2 u depth kvs)
  then show ?case by (auto simp: list_all_iff)
qed (auto simp: du_atom_def)

lemma value_again:
  assumes "stable u" "du_value_of u v = Inr w"
  shows "du_value_of u (canon w) = Inr (canon w)" "du_value_of u w = Inr w"
  using assms by (simp_all add: du_value_of_iff du_good_canon du_norm_canon du_good_norm)


lemma du_text_ok: "du_text u v n = Inr s \<Longrightarrow> v = JStr s \<and> du_text u (JStr s) n = Inr s"
  by (cases v) (auto simp: du_text_def result_simps)

lemma du_field_ok: "du_field u v = Inr s \<Longrightarrow> v = JStr s \<and> du_field u (JStr s) = Inr s"
  by (cases v) (auto simp: du_field_def result_simps)

lemma du_doctype_ok: "du_doctype u v = Inr s \<Longrightarrow> v = JStr s \<and> du_doctype u (JStr s) = Inr s"
  by (cases v) (auto simp: du_doctype_def result_simps)

lemma names_again:
  assumes "du_names u v = Inr names"
  shows "du_names u (names_json names) = Inr names \<and> some_items (names_json names) = some_items v \<and> canon (names_json names) = names_json names"
proof (cases v)
  case (JList xs)
  then obtain ns where n: "names = Some ns" "mapE (\<lambda>x. du_text u x 140) xs = Inr ns" "xs \<noteq> []" "length xs \<le> 100"
    "distinct (map (full_casefold u) ns)"
    using assms by (auto simp: du_names_def result_simps)
  have l: "length ns = length xs" using n(2) by (rule mapE_length)
  have "du_text u (JStr s) 140 = Inr s" if "s \<in> set ns" for s
    using mapE_in_set [OF n(2) that] du_text_ok by blast
  then have "mapE (\<lambda>x. du_text u x 140) (map JStr ns) = Inr ns" by (induction ns) auto
  moreover have "ns \<noteq> []" using n(3) l by auto
  ultimately show ?thesis using n l JList by (auto simp: du_names_def names_json_def some_items_def o_def split: list.split)
qed (use assms in \<open>auto simp: du_names_def names_json_def some_items_def\<close>)

lemma nested_canon: "nested (canon v) = nested v"
  by (cases v) (auto simp: nested_def)

lemma filter_value_canon: "filter_value_ok operator (canon v) = filter_value_ok operator v"
  by (cases v) (auto simp: filter_value_ok_def nested_def list_ex_iff nested_canon [unfolded nested_def] split: list.split)

lemma filter_again:
  assumes "stable u" "du_filter u item = Inr f"
  shows "du_filter u (canon f) = Inr (canon f) \<and> du_filter u f = Inr f"
proof -
  obtain kvs operator v field where i: "item = JObj kvs" "du_operator (jget kvs ''operator'') = Inr operator"
    "du_value_of u (jget kvs ''value'') = Inr v" "filter_value_ok operator v" "du_field u (jget kvs ''field'') = Inr field"
    "f = JObj [(''field'', JStr field), (''operator'', JStr operator), (''value'', v)]"
    using assms(2) unfolding du_filter_def by (cases item) (auto simp: bindE_eq_Inr require_eq_Inr)
  have o1: "du_operator (JStr operator) = Inr operator"
    using i(2) by (auto simp: du_operator_def result_simps split: json.splits)
  have f: "canon f = JObj [(''field'', JStr field), (''operator'', JStr operator), (''value'', canon v)]"
    by (simp add: i(6))
  show ?thesis
    using o1 value_again [OF assms(1) i(3)] i(4) du_field_ok [OF i(5)]
    unfolding f unfolding i(6) by (auto simp: du_filter_def filter_value_canon)
qed

lemma filters_again:
  assumes "stable u" "du_filters u v = Inr fs"
  shows "du_filters u (canon fs) = Inr (canon fs) \<and> du_filters u fs = Inr fs \<and> some_items (canon fs) = some_items v \<and> some_items fs = some_items v"
proof (cases v)
  case (JList xs)
  then obtain ys where y: "fs = JList ys" "mapE (du_filter u) xs = Inr ys" "xs \<noteq> []" "length xs \<le> 20"
    using assms(2) by (auto simp: du_filters_def result_simps)
  have l: "length ys = length xs" using y(2) by (rule mapE_length)
  have "\<forall>f\<in>set ys. du_filter u (canon f) = Inr (canon f) \<and> du_filter u f = Inr f"
    using filter_again [OF assms(1)] mapE_in_set [OF y(2)] by blast
  then have "mapE (du_filter u) (map canon ys) = Inr (map canon ys)" "mapE (du_filter u) ys = Inr ys"
    by (induction ys) auto
  moreover have "ys \<noteq> []" using y(3) l by auto
  ultimately show ?thesis using y l JList by (auto simp: du_filters_def some_items_def split: list.split)
qed (use assms in \<open>auto simp: du_filters_def some_items_def\<close>)

lemma change_again:
  assumes "stable u" "du_change u kv = Inr (k, w)"
  shows "du_change u (k, canon w) = Inr (k, canon w) \<and> du_change u (k, w) = Inr (k, w) \<and> k = fst kv"
proof -
  obtain a b where kv: "kv = (a, b)" by force
  then have "du_field u (JStr a) = Inr k" and v: "du_value_of u b = Inr w" using assms(2) by (auto simp: du_change_def bindE_eq_Inr)
  then have "a = k \<and> du_field u (JStr k) = Inr k" using du_field_ok by blast
  then show ?thesis using value_again [OF assms(1) v] kv by (simp add: du_change_def)
qed

lemma mapE_id: "(\<And>x. x \<in> set xs \<Longrightarrow> f x = Inr x) \<Longrightarrow> mapE f xs = Inr xs"
  using mapE_map [of xs f "\<lambda>x. x"] by simp

lemma changes_again:
  assumes "stable u" "du_changes u v = Inr cs"
  shows "\<exists>cs'. canon (JObj cs) = JObj cs' \<and> du_changes u (JObj cs') = Inr cs' \<and> du_changes u (JObj cs) = Inr cs"
proof -
  obtain kvs where k: "v = JObj kvs" "mapE (du_change u) kvs = Inr cs" "kvs \<noteq> []" "length kvs \<le> 32"
    using assms(2) by (cases v) (auto simp: du_changes_def result_simps)
  have l: "length cs = length kvs" using k(2) by (rule mapE_length)
  have c: "du_change u (x, canon w) = Inr (x, canon w) \<and> du_change u (x, w) = Inr (x, w)" if "(x, w) \<in> set cs" for x w
    using mapE_in_set [OF k(2) that] change_again [OF assms(1)] by blast
  define cs' where "cs' = map (\<lambda>(k, v). (k, canon v)) (sort_key fst cs)"
  have "mapE (du_change u) cs' = Inr cs'" "mapE (du_change u) cs = Inr cs"
    using c by (auto simp: cs'_def intro!: mapE_id)
  moreover have "length cs' = length cs" by (simp add: cs'_def)
  moreover have "cs \<noteq> []" using l k(3) by auto
  moreover from calculation have "cs' \<noteq> []" by auto
  ultimately show ?thesis using l k(4) by (auto simp: du_changes_def cs'_def)
qed


lemma timestamp_again:
  assumes "du_timestamp u v = Inr s"
  shows "du_timestamp u (JStr s) = Inr s"
proof -
  obtain t where t: "s = micro_timestamp t" "in_range t"
  proof -
    obtain x where "(case fromisoformat (replace_Z x) of Some (Aware t) \<Rightarrow> bindE (astimezone_utc t) (\<lambda>t'. Inr (micro_timestamp t')) | _ \<Rightarrow> Inl du_error) = Inr s"
      using assms by (auto simp: du_timestamp_def bindE_eq_Inr)
    then show ?thesis
      using that by (cases "fromisoformat (replace_Z x)") (auto simp: bindE_eq_Inr astimezone_utc_ok in_range_def split: datetime.splits)
  qed
  have c: "is_digit c \<or> c \<in> set ''-T:.Z''" if "c \<in> set s" for c using timestamp_read(3) [OF t(2)] that t(1) by simp
  have "x < CHR 0x80" if "x \<in> set s" for x using c [OF that] digit_no_sign [of x] by auto
  then have a: "ascii s" by (simp add: ascii_def)
  have sp: "\<not> is_space_chunk [c]" if "c \<in> set s" for c
    using c [OF that] by (auto simp: is_space_chunk_def space_chunks_def is_digit_def)
  have n: "CHR 0x00 \<notin> set s" "CHR 0x0D \<notin> set s" "CHR 0x0A \<notin> set s"
    using c [of "CHR 0x00"] c [of "CHR 0x0D"] c [of "CHR 0x0A"] by (auto simp: is_digit_def)
  have "length s = 27" using timestamp_read(2) [OF t(2)] t(1) by simp
  moreover from this have "s \<noteq> []" by auto
  ultimately have "du_text u (JStr s) 64 = Inr s"
    using n py_strip_none [OF a sp] a ascii_no_surrogate [OF a] by (simp add: du_text_def nfc_def encodeE_def)
  then show ?thesis
    using timestamp_read(1) [OF t(2)] t by (simp add: du_timestamp_def astimezone_utc_def in_range_def)
qed

lemma expected_again: "du_expected u v = Inr e \<Longrightarrow> du_expected u (json_opt e) = Inr e"
  using timestamp_again [of u v] by (cases e) (auto simp: du_expected_def json_opt_def bindE_eq_Inr split: if_splits)

definition normal_parts ::
  "unicode \<Rightarrow> string \<Rightarrow> string list option \<Rightarrow> json \<Rightarrow> (string \<times> json) list \<Rightarrow> string option \<Rightarrow> int \<Rightarrow> string \<Rightarrow> bool" where
  "normal_parts u doctype names filters changes expected rows reason \<longleftrightarrow>
     1 \<le> rows \<and> rows \<le> maximum_rows \<and> some_items (names_json names) \<noteq> some_items filters
     \<and> du_names u (names_json names) = Inr names \<and> du_filters u filters = Inr filters \<and> du_changes u (JObj changes) = Inr changes
     \<and> du_expected u (json_opt expected) = Inr expected
     \<and> (expected = None \<or> rows = 1 \<and> (case names of None \<Rightarrow> False | Some ns \<Rightarrow> length ns = 1))
     \<and> du_doctype u (JStr doctype) = Inr doctype \<and> du_text u (JStr reason) 500 = Inr reason"

lemma encoded_payload_ok: "encoded_payload p = Inr q \<Longrightarrow> q = p"
  by (auto simp: encoded_payload_def bindE_eq_Inr)

lemma normalized_eval:
  assumes "normal_parts u doctype names filters changes expected rows reason" and "jkeys kvs = set payload_fields"
    and "\<And>k. k \<in> set payload_fields \<Longrightarrow> jget kvs k = jget (du_payload doctype names filters changes expected d rows reason) k"
  shows "normalize_data_update_payload u (JObj kvs) d = encoded_payload (du_payload doctype names filters changes expected d rows reason)"
proof -
  have g: "jget kvs ''contract_version'' = JStr ''1.0''" "jget kvs ''doctype'' = JStr doctype" "jget kvs ''document_names'' = names_json names"
    "jget kvs ''filters'' = filters" "jget kvs ''changes'' = JObj changes" "jget kvs ''expected_modified'' = json_opt expected"
    "jget kvs ''dry_run'' = JBool d" "jget kvs ''maximum_rows'' = JInt rows" "jget kvs ''reason'' = JStr reason"
    using assms(3) by (simp_all add: payload_fields_def du_payload_def)
  show ?thesis
    using assms(1,2) unfolding normalize_data_update_payload_def json.case g normal_parts_def Let_def
    by (simp add: du_rows_def)
qed

lemma normalized_parts:
  assumes s: "stable u" and n: "normalize_data_update_payload u raw d = Inr p"
  obtains doctype names filters changes expected rows reason where
    "normal_parts u doctype names filters changes expected rows reason"
    "p = du_payload doctype names filters changes expected d rows reason" "encoded_payload p = Inr p"
    "\<exists>changes'. canon (JObj changes) = JObj changes' \<and> normal_parts u doctype names (canon filters) changes' expected rows reason"
proof -
  obtain kvs rows names filters changes expected doctype reason where k: "raw = JObj kvs"
    "du_rows (jget kvs ''maximum_rows'') = Inr rows" "some_items (jget kvs ''document_names'') \<noteq> some_items (jget kvs ''filters'')"
    "du_names u (jget kvs ''document_names'') = Inr names" "du_filters u (jget kvs ''filters'') = Inr filters"
    "du_changes u (jget kvs ''changes'') = Inr changes" "du_expected u (jget kvs ''expected_modified'') = Inr expected"
    "expected = None \<or> rows = 1 \<and> (case names of None \<Rightarrow> False | Some ns \<Rightarrow> length ns = 1)"
    "du_doctype u (jget kvs ''doctype'') = Inr doctype" "du_text u (jget kvs ''reason'') 500 = Inr reason"
    "encoded_payload (du_payload doctype names filters changes expected d rows reason) = Inr p"
    using n unfolding normalize_data_update_payload_def by (cases raw) (simp_all only: json.case bindE_eq_Inr require_eq_Inr sum.distinct, blast)
  have p: "p = du_payload doctype names filters changes expected d rows reason" using encoded_payload_ok [OF k(11)] by simp
  have r: "1 \<le> rows" "rows \<le> maximum_rows" using k(2) by (auto simp: du_rows_def result_simps split: json.splits)
  note a = names_again [OF k(4)] filters_again [OF s k(5)] expected_again [OF k(7)] du_doctype_ok [OF k(9)] du_text_ok [OF k(10)]
  obtain cs' where c: "canon (JObj changes) = JObj cs'" "du_changes u (JObj cs') = Inr cs'" "du_changes u (JObj changes) = Inr changes"
    using changes_again [OF s k(6)] by blast
  have "normal_parts u doctype names filters changes expected rows reason" "normal_parts u doctype names (canon filters) cs' expected rows reason"
    unfolding normal_parts_def using r a c k(3,8) by auto
  then show ?thesis using that p k(11) c(1) by blast
qed


lemma dumps_map_canon: "json_dumps (JObj (map (\<lambda>(k, v). (k, canon v)) kvs)) = json_dumps (JObj kvs)"
  by (auto simp: sort_key_map_fst dumps_canon intro!: arg_cong [where f = "join '',''"])

lemma command_dumps:
  assumes "json_dumps y = json_dumps y'"
  shows "json_dumps (JObj [(''policy_id'', x), (''payload'', y)]) = json_dumps (JObj [(''policy_id'', x), (''payload'', y')])"
  using assms by simp

lemma command_parts:
  assumes "normalize_data_update_command u operation raw d = Inr c"
  obtains kvs policy_id p where "raw = JObj kvs" "jkeys kvs = {''policy_id'', ''payload''}" "operation \<in> {''data.update'', ''data.update.break_glass''}"
    "jget kvs ''policy_id'' = JStr policy_id" "policy_pattern policy_id" "normalize_data_update_payload u (jget kvs ''payload'') d = Inr p"
    "c = [(''policy_id'', JStr policy_id), (''payload'', JObj p)]"
proof -
  obtain kvs policy_id p where 1: "(case raw of JObj kvs \<Rightarrow> if operation \<in> {''data.update'', ''data.update.break_glass''} \<and> jkeys kvs = {''policy_id'', ''payload''}
      then Some kvs else None | _ \<Rightarrow> None) = Some kvs"
    and 2: "(case jget kvs ''policy_id'' of JStr s \<Rightarrow> if policy_pattern s then Some s else None | _ \<Rightarrow> None) = Some policy_id"
    and 3: "normalize_data_update_payload u (jget kvs ''payload'') d = Inr p" "c = [(''policy_id'', JStr policy_id), (''payload'', JObj p)]"
    using assms unfolding normalize_data_update_command_def bindE_eq_Inr of_option_eq_Inr by blast
  from 1 have "raw = JObj kvs" "jkeys kvs = {''policy_id'', ''payload''}" "operation \<in> {''data.update'', ''data.update.break_glass''}"
    by (cases raw; simp split: if_splits)+
  moreover from 2 have "jget kvs ''policy_id'' = JStr policy_id" "policy_pattern policy_id"
    by (cases "jget kvs ''policy_id''"; simp split: if_splits)+
  ultimately show ?thesis using 3 by (rule that)
qed

lemma du_payload_keys: "map fst (du_payload doctype names filters changes expected d rows reason) = payload_fields"
  by (simp add: du_payload_def payload_fields_def)

lemma canon_keys: "canon (JObj p) = JObj q \<Longrightarrow> jkeys q = jkeys p"
  by (force simp: jkeys_def)

lemma stored_payload:
  assumes s: "stable u" and n: "normalize_data_update_payload u raw d = Inr p"
  shows "\<exists>q. canon (JObj p) = JObj q \<and> normalize_data_update_payload u (JObj q) d = Inr (map (\<lambda>(k, v). (k, canon v)) p)
    \<and> (\<exists>h. canonical_hash (JObj p) = Inr h)"
  using s n
proof (rule normalized_parts)
  fix doctype names filters changes expected rows reason
  assume p: "p = du_payload doctype names filters changes expected d rows reason" and e: "encoded_payload p = Inr p"
    and "\<exists>changes'. canon (JObj changes) = JObj changes' \<and> normal_parts u doctype names (canon filters) changes' expected rows reason"
  then obtain changes' where c: "canon (JObj changes) = JObj changes'" and np: "normal_parts u doctype names (canon filters) changes' expected rows reason"
    by blast
  define p' where "p' = du_payload doctype names (canon filters) changes' expected d rows reason"
  have nm: "canon (names_json names) = names_json names" by (cases names) (simp_all add: names_json_def o_def)
  have ex: "canon (json_opt expected) = json_opt expected" by (cases expected) (simp_all add: json_opt_def)
  have p': "p' = map (\<lambda>(k, v). (k, canon v)) p" using c nm ex by (simp add: p p'_def du_payload_def)
  obtain q where q: "canon (JObj p) = JObj q" by simp
  have dist: "distinct (map fst p)" unfolding p du_payload_keys by (simp add: payload_fields_def)
  have kq: "jkeys q = set payload_fields"
    using canon_keys [OF q] du_payload_keys [of doctype names filters changes expected d rows reason] p by (simp add: jkeys_def)
  have "jget q k = jget p' k" for k
    using jget_canon [OF q dist, of k] by (simp add: p' jget_def map_of_map split: option.split)
  then have "normalize_data_update_payload u (JObj q) d = encoded_payload p'"
    unfolding p'_def by (intro normalized_eval [OF np kq]) simp
  moreover have "finite_json (JObj p') = finite_json (JObj p)" by (auto simp: p' list_all_iff finite_canon)
  moreover have "json_dumps (JObj p') = json_dumps (JObj p)" unfolding p' by (rule dumps_map_canon)
  ultimately show ?thesis
    using e q by (auto simp: p' [symmetric] encoded_payload_def dumpsE_def canonical_hash_def bindE_eq_Inr simp del: json_dumps.simps finite_json.simps
        split: if_splits)
qed

section \<open>The stored preview\<close>

text \<open>
  C38: what a preview stores is what its promotion reads. The command of a data update that was normalised and
  written as canonical JSON is read back, normalises again (timestamps, NFC text, the depth and the node
  budget included) and gives the same text, and its payload the same hash, so the hash the agent answered the
  preview with is the one the promotion compares. NFC has to be idempotent, which Unicode guarantees; a
  fractional number, whose shortest decimal is not modelled, is left out.
\<close>

theorem data_update_again:
  assumes s: "stable u" and n: "normalize_data_update_command u operation raw d = Inr c" and p: "plain_json (JObj c)"
  shows "\<exists>v c' p p'. json_loads (json_dumps (JObj c)) = Inr v \<and> normalize_data_update_command u operation v d = Inr c'
    \<and> json_dumps (JObj c') = json_dumps (JObj c) \<and> jget c ''payload'' = JObj p \<and> jget c' ''payload'' = JObj p'
    \<and> canonical_hash (JObj p') = canonical_hash (JObj p) \<and> is_ok (canonical_hash (JObj p))"
  using n
proof (rule command_parts)
  fix kvs policy_id p
  assume k: "operation \<in> {''data.update'', ''data.update.break_glass''}" "policy_pattern policy_id"
    "normalize_data_update_payload u (jget kvs ''payload'') d = Inr p" and c: "c = [(''policy_id'', JStr policy_id), (''payload'', JObj p)]"
  obtain q h where q: "canon (JObj p) = JObj q" "normalize_data_update_payload u (JObj q) d = Inr (map (\<lambda>(k, v). (k, canon v)) p)"
    and h: "canonical_hash (JObj p) = Inr h"
    using stored_payload [OF s k(3)] by blast
  define p' where "p' = map (\<lambda>(k, v). (k, canon v)) p"
  have same: "json_dumps (JObj p') = json_dumps (JObj p)" unfolding p'_def by (rule dumps_map_canon)
  have fin: "finite_json (JObj p') = finite_json (JObj p)" by (auto simp: p'_def list_all_iff finite_canon)
  have "json_loads (json_dumps (JObj c)) = Inr (canon (JObj c))"
    using loads_dumps [OF keeps_hooks(1) assms(3)] by (simp add: json_loads_def)
  moreover have "canon (JObj c) = JObj [(''payload'', JObj q), (''policy_id'', JStr policy_id)]"
    unfolding c using q(1) by (simp del: canon.simps(2) add: canon.simps(2) [of c, unfolded c])
  moreover have "normalize_data_update_command u operation (JObj [(''payload'', JObj q), (''policy_id'', JStr policy_id)]) d
      = Inr [(''policy_id'', JStr policy_id), (''payload'', JObj p')]"
    using k(1,2) q(2) by (auto simp: normalize_data_update_command_def p'_def)
  moreover have "canonical_hash (JObj p') = canonical_hash (JObj p)"
    using same fin by (simp add: canonical_hash_def dumpsE_def del: json_dumps.simps finite_json.simps)
  ultimately show ?thesis using h c command_dumps [OF same] by (auto simp del: json_dumps.simps canon.simps)
qed


section \<open>What a data update can reach\<close>

text \<open>A value with at most \<open>n\<close> levels below it, none of whose keys is named like a secret.\<close>

fun confined_value :: "nat \<Rightarrow> json \<Rightarrow> bool" where
  "confined_value n (JObj kvs) \<longleftrightarrow>
     length kvs \<le> 32
     \<and> list_all (\<lambda>(k, v). k \<noteq> [] \<and> length k \<le> 140 \<and> \<not> secret_name k \<and> 0 < n \<and> confined_value (n - 1) v) kvs"
| "confined_value n (JList xs) \<longleftrightarrow> length xs \<le> 100 \<and> list_all (\<lambda>v. 0 < n \<and> confined_value (n - 1) v) xs"
| "confined_value n (JInt i) \<longleftrightarrow> \<bar>i\<bar> < 10 ^ 38"
| "confined_value n (JFloat f) \<longleftrightarrow> (\<exists>q. float_val f = Some q \<and> \<bar>q\<bar> \<le> fl (10 ^ 100))"
| "confined_value n (JStr s) \<longleftrightarrow> length s \<le> 32 * 1024 \<and> CHR 0x00 \<notin> set s"
| "confined_value n _ \<longleftrightarrow> True"

definition small_value :: "json \<Rightarrow> bool" where
  "small_value v \<longleftrightarrow> confined_value 8 v \<and> du_nodes v \<le> 1000"

lemma du_good_depth: "du_good u depth v \<Longrightarrow> depth \<le> 8"
  by (cases v) simp_all

lemma du_good_confined: "du_good u depth v \<Longrightarrow> confined_value (8 - depth) (du_norm u v)"
proof (induction u depth v rule: du_good.induct)
  case (1 u depth xs)
  then show ?case using du_good_depth by (fastforce simp: list_all_iff Suc_diff_Suc)
next
  case (2 u depth kvs)
  have "k \<noteq> [] \<and> length k \<le> 140 \<and> \<not> secret_name k \<and> 0 < 8 - depth \<and> confined_value (8 - depth - 1) (du_norm u w)"
    if m: "(k, w) \<in> set kvs" for k w
  proof -
    have g: "is_ok (du_key u k)" "du_good u (Suc depth) w" using 2(2) m by (auto simp: list_all_iff)
    have "confined_value (8 - Suc depth) (du_norm u w)" using 2(1) [OF m refl g(2)] .
    then show ?thesis using g(1) du_good_depth [OF g(2)] by (auto simp: is_ok_iff du_key_def result_simps Let_def)
  qed
  then show ?case using 2(2) by (auto simp: list_all_iff)
qed (auto simp: is_ok_iff du_atom_def result_simps split: option.splits)

lemma value_small: "du_value_of u v = Inr w \<Longrightarrow> small_value w"
  using du_good_confined [of u 0] by (auto simp: du_value_of_iff small_value_def)

text \<open>A name on one line, a DocType and a field that are open to updates.\<close>

definition one_line :: "unicode \<Rightarrow> nat \<Rightarrow> string \<Rightarrow> bool" where
  "one_line u n s \<longleftrightarrow> s \<noteq> [] \<and> length s \<le> n \<and> s = py_strip s \<and> s = nfc u s \<and> set s \<inter> {CHR 0x00, CHR 0x0D, CHR 0x0A} = {}"

definition open_doctype :: "unicode \<Rightarrow> string \<Rightarrow> bool" where
  "open_doctype u s \<longleftrightarrow> doctype_pattern s \<and> s = py_strip s \<and> s = nfc u s \<and> py_casefold s \<notin> set forbidden_doctypes
     \<and> \<not> starts_with ''oauth '' (py_casefold s) \<and> \<not> starts_with ''integration request'' (py_casefold s) \<and> \<not> secret_name s"

definition open_field :: "unicode \<Rightarrow> string \<Rightarrow> bool" where
  "open_field u k \<longleftrightarrow> field_pattern k \<and> k = nfc u k \<and> py_casefold k \<notin> set system_fields \<and> \<not> secret_name k"

lemma du_text_line: "du_text u v n = Inr s \<Longrightarrow> one_line u n s"
  by (auto simp: du_text_def one_line_def result_simps encodeE_eq_Inr split: json.splits)

lemma du_doctype_open: "du_doctype u v = Inr s \<Longrightarrow> open_doctype u s"
  unfolding du_doctype_def open_doctype_def by (auto simp: result_simps split: json.splits)

lemma du_field_open: "du_field u v = Inr k \<Longrightarrow> open_field u k"
  by (auto simp: du_field_def open_field_def result_simps split: json.splits)

lemma changes_open:
  assumes "du_changes u v = Inr cs"
  shows "cs \<noteq> [] \<and> length cs \<le> 32 \<and> (\<forall>(k, w)\<in>set cs. open_field u k \<and> small_value w)"
proof -
  obtain kvs where k: "v = JObj kvs" "mapE (du_change u) kvs = Inr cs" "kvs \<noteq> []" "length kvs \<le> 32"
    using assms by (cases v) (auto simp: du_changes_def result_simps)
  have "open_field u k \<and> small_value w" if "(k, w) \<in> set cs" for k w
    using mapE_in_set [OF k(2) that] du_field_open value_small by (auto simp: du_change_def bindE_eq_Inr)
  then show ?thesis using mapE_length [OF k(2)] k(3,4) by auto
qed

text \<open>A condition compares an open field with a value of the right shape.\<close>

definition open_filter :: "unicode \<Rightarrow> json \<Rightarrow> bool" where
  "open_filter u f \<longleftrightarrow>
     (\<exists>k operator v. f = JObj [(''field'', JStr k), (''operator'', JStr operator), (''value'', v)] \<and> open_field u k
       \<and> operator \<in> set du_operators \<and> small_value v
       \<and> (operator \<in> {''in'', ''not_in''} \<longrightarrow> (\<exists>xs. v = JList xs \<and> xs \<noteq> [] \<and> (\<forall>x\<in>set xs. \<not> nested x)))
       \<and> (operator \<notin> {''in'', ''not_in''} \<longrightarrow> \<not> nested v)
       \<and> (operator \<in> {''lt'', ''lte'', ''gt'', ''gte''} \<longrightarrow> v \<noteq> JNull))"

lemma filter_value_shape:
  "filter_value_ok operator v \<longleftrightarrow>
     (operator \<in> {''in'', ''not_in''} \<longrightarrow> (\<exists>xs. v = JList xs \<and> xs \<noteq> [] \<and> (\<forall>x\<in>set xs. \<not> nested x)))
     \<and> (operator \<notin> {''in'', ''not_in''} \<longrightarrow> \<not> nested v)
     \<and> (operator \<in> {''lt'', ''lte'', ''gt'', ''gte''} \<longrightarrow> v \<noteq> JNull)"
proof -
  have "(case v of JList xs \<Rightarrow> xs \<noteq> [] \<and> \<not> list_ex nested xs | _ \<Rightarrow> False)
      \<longleftrightarrow> (\<exists>xs. v = JList xs \<and> xs \<noteq> [] \<and> (\<forall>x\<in>set xs. \<not> nested x))"
    by (cases v) (simp_all add: list_ex_iff)
  then show ?thesis unfolding filter_value_ok_def by argo
qed

lemma du_filter_open:
  assumes "du_filter u item = Inr f"
  shows "open_filter u f"
proof -
  obtain kvs operator w field where i: "du_operator (jget kvs ''operator'') = Inr operator"
    "du_value_of u (jget kvs ''value'') = Inr w" "filter_value_ok operator w" "du_field u (jget kvs ''field'') = Inr field"
    "f = JObj [(''field'', JStr field), (''operator'', JStr operator), (''value'', w)]"
    using assms unfolding du_filter_def by (cases item) (auto simp: result_simps)
  have "operator \<in> set du_operators" using i(1) by (auto simp: du_operator_def result_simps split: json.splits)
  then show ?thesis
    using i(3,5) du_field_open [OF i(4)] value_small [OF i(2)] unfolding open_filter_def filter_value_shape
    by (intro exI [of _ field] exI [of _ operator] exI [of _ w] conjI) simp_all
qed

lemma filters_open:
  assumes "du_filters u v = Inr fs"
  shows "fs = JNull \<or> (\<exists>xs. fs = JList xs \<and> xs \<noteq> [] \<and> length xs \<le> 20 \<and> list_all (open_filter u) xs)"
proof (cases v)
  case (JList xs)
  then obtain ys where y: "fs = JList ys" "mapE (du_filter u) xs = Inr ys" "xs \<noteq> []" "length xs \<le> 20"
    using assms by (auto simp: du_filters_def result_simps)
  have "list_all (open_filter u) ys" using mapE_in_set [OF y(2)] du_filter_open by (fastforce simp: list_all_iff)
  moreover have "ys \<noteq> []" "length ys \<le> 20" using mapE_length [OF y(2)] y(3,4) by auto
  ultimately show ?thesis using y(1) by simp
qed (use assms in \<open>auto simp: du_filters_def\<close>)

lemma names_open:
  assumes "du_names u v = Inr names"
  shows "names = None \<or> (\<exists>ns. names = Some ns \<and> ns \<noteq> [] \<and> length ns \<le> 100 \<and> list_all (one_line u 140) ns
    \<and> distinct (map (full_casefold u) ns))"
proof (cases v)
  case (JList xs)
  then obtain ns where n: "names = Some ns" "mapE (\<lambda>x. du_text u x 140) xs = Inr ns" "xs \<noteq> []" "length xs \<le> 100"
    "distinct (map (full_casefold u) ns)"
    using assms by (auto simp: du_names_def result_simps)
  have "list_all (one_line u 140) ns" using mapE_in_set [OF n(2)] du_text_line by (fastforce simp: list_all_iff)
  then show ?thesis using mapE_length [OF n(2)] n by fastforce
qed (use assms in \<open>auto simp: du_names_def\<close>)

text \<open>
  C39: what a data update can reach. A payload that is accepted, for a preview or for the update itself, asks for
  one to a hundred rows of one DocType, whose name has the plain form and is neither in the list of the schema,
  authentication and system ones, nor an OAuth or an integration request one, nor named like a secret. The rows are
  chosen either by at most a hundred names, on one line and pairwise different also without their case, or by at most twenty
  conditions of the right shape, never by both or by nothing; a time of last change can be expected of a single
  named row only. It changes one to 32 fields. No field it changes or filters by is a system field or named like a
  secret; no key inside a value is named like a secret, and a value is at most eight levels deep, of at most a thousand nodes. The
  payload has the nine fields of the contract, its flag is the one of the call and it fits in 128 KiB.
\<close>

theorem data_update_confined:
  assumes n: "normalize_data_update_payload u raw d = Inr p"
  shows "\<exists>doctype names filters changes rows reason.
      map fst p = payload_fields \<and> jget p ''contract_version'' = JStr ''1.0''
    \<and> jget p ''doctype'' = JStr doctype \<and> open_doctype u doctype
    \<and> jget p ''document_names'' = names_json names \<and> jget p ''filters'' = filters \<and> (names = None) \<noteq> (filters = JNull)
    \<and> (\<forall>ns. names = Some ns \<longrightarrow>
         ns \<noteq> [] \<and> length ns \<le> 100 \<and> list_all (one_line u 140) ns \<and> distinct (map (full_casefold u) ns))
    \<and> (filters = JNull \<or> (\<exists>xs. filters = JList xs \<and> xs \<noteq> [] \<and> length xs \<le> 20 \<and> list_all (open_filter u) xs))
    \<and> jget p ''changes'' = JObj changes \<and> changes \<noteq> [] \<and> length changes \<le> 32
    \<and> (\<forall>(k, w)\<in>set changes. open_field u k \<and> small_value w)
    \<and> (jget p ''expected_modified'' \<noteq> JNull \<longrightarrow> rows = 1 \<and> (\<exists>row. names = Some [row]))
    \<and> jget p ''maximum_rows'' = JInt rows \<and> 1 \<le> rows \<and> rows \<le> 100
    \<and> jget p ''reason'' = JStr reason \<and> one_line u 500 reason
    \<and> jget p ''dry_run'' = JBool d \<and> length (json_dumps (JObj p)) \<le> 128 * 1024"
proof -
  obtain kvs rows names filters changes expected doctype reason where k:
    "du_rows (jget kvs ''maximum_rows'') = Inr rows" "some_items (jget kvs ''document_names'') \<noteq> some_items (jget kvs ''filters'')"
    "du_names u (jget kvs ''document_names'') = Inr names" "du_filters u (jget kvs ''filters'') = Inr filters"
    "du_changes u (jget kvs ''changes'') = Inr changes" "du_doctype u (jget kvs ''doctype'') = Inr doctype"
    "encoded_payload (du_payload doctype names filters changes expected d rows reason) = Inr p"
    "expected = None \<or> rows = 1 \<and> (case names of None \<Rightarrow> False | Some ns \<Rightarrow> length ns = 1)"
    "du_text u (jget kvs ''reason'') 500 = Inr reason"
    using n unfolding normalize_data_update_payload_def by (cases raw) (simp_all only: json.case bindE_eq_Inr require_eq_Inr sum.distinct, blast)
  have p: "p = du_payload doctype names filters changes expected d rows reason" using encoded_payload_ok [OF k(7)] by simp
  have "length (json_dumps (JObj p)) \<le> 128 * 1024"
    using k(7) unfolding p [symmetric] by (auto simp: encoded_payload_def dumpsE_def bindE_eq_Inr require_eq_Inr encodeE_eq_Inr
        simp del: json_dumps.simps finite_json.simps split: if_splits)
  moreover have "1 \<le> rows" "rows \<le> 100" using k(1) by (auto simp: du_rows_def maximum_rows_def result_simps split: json.splits)
  moreover have "(names = None) \<noteq> (filters = JNull)"
    using k(2-4) names_open [OF k(3)] filters_open [OF k(4)]
    by (cases "jget kvs ''document_names''"; cases "jget kvs ''filters''")
      (auto simp: du_names_def du_filters_def some_items_def result_simps split: list.splits)
  moreover have "json_opt expected \<noteq> JNull \<longrightarrow> rows = 1 \<and> (\<exists>row. names = Some [row])"
    using k(8) by (auto simp: json_opt_def length_Suc_conv split: option.splits)
  moreover have "map fst p = payload_fields" by (simp add: p du_payload_def payload_fields_def)
  ultimately show ?thesis
    using names_open [OF k(3)] filters_open [OF k(4)] changes_open [OF k(5)] du_doctype_open [OF k(6)] du_text_line [OF k(9)]
    by (intro exI [of _ doctype] exI [of _ names] exI [of _ filters] exI [of _ changes] exI [of _ rows] exI [of _ reason])
      (auto simp: p du_payload_def simp del: json_dumps.simps)
qed


section \<open>A small update\<close>

definition no_unicode :: unicode where
  "no_unicode = \<lparr>uc_nfc = (\<lambda>s. s), uc_casefold = (\<lambda>s. s)\<rparr>"

definition small_update :: "bool \<Rightarrow> (string \<times> json) list" where
  "small_update d = du_payload ''ToDo'' (Some [''T-1'']) JNull [(''status'', JStr ''Closed'')] None d 1 ''fix''"

definition small_command :: "bool \<Rightarrow> (string \<times> json) list" where
  "small_command d = [(''policy_id'', JStr ''todo''), (''payload'', JObj (small_update d))]"

lemma stable_no_unicode: "stable no_unicode"
  by (simp add: stable_def no_unicode_def)

lemma small_parts: "normal_parts no_unicode ''ToDo'' (Some [''T-1'']) JNull [(''status'', JStr ''Closed'')] None 1 ''fix''"
proof -
  have "nfc no_unicode s = s" for s by (simp add: nfc_def no_unicode_def)
  moreover have "\<not> secret_name ''status''" "\<not> secret_name ''ToDo''"
    by (simp_all add: secret_name_def words_def is_upper_def secret_words_def string_defs)
  ultimately show ?thesis
    by (simp add: normal_parts_def maximum_rows_def names_json_def some_items_def du_names_def du_filters_def du_changes_def du_change_def
        du_field_def du_text_def du_doctype_def du_value_of_def du_enter_def du_atom_def du_expected_def json_opt_def field_pattern_def
        doctype_pattern_def system_fields_def forbidden_doctypes_def full_casefold_def encodeE_def is_upper_def is_alnum_def string_defs)
qed

lemma small_encoded: "encoded_payload (small_update d) = Inr (small_update d)"
proof -
  have "ascii_json (JObj (small_update d))"
    by (simp add: small_update_def du_payload_def names_json_def json_opt_def ascii_def)
  then have "\<not> has_surrogate (json_dumps (JObj (small_update d)))" by (intro ascii_no_surrogate ascii_dumps)
  moreover have "length (json_dumps (JObj (small_update d))) \<le> 131072"
    by (cases d) (simp_all add: small_update_def du_payload_def names_json_def json_opt_def quote_str_def escape_char_def int_str_def nat_str_small)
  ultimately show ?thesis
    by (simp add: encoded_payload_def dumpsE_def encodeE_def small_update_def du_payload_def names_json_def json_opt_def del: json_dumps.simps)
qed

lemma small_normalized: "normalize_data_update_payload no_unicode (JObj (small_update d)) d = Inr (small_update d)"
  using normalized_eval [OF small_parts, of "small_update d" d] small_encoded
  by (simp add: small_update_def du_payload_def payload_fields_def)

lemma small_command_normalized:
  "normalize_data_update_command no_unicode ''data.update'' (JObj (small_command d)) d = Inr (small_command d)"
  by (simp add: normalize_data_update_command_def small_command_def small_normalized policy_pattern_def string_defs)

theorem data_update_again_witness:
  "\<exists>v c' p. json_loads (json_dumps (JObj (small_command True))) = Inr v
    \<and> normalize_data_update_command no_unicode ''data.update'' v True = Inr c' \<and> json_dumps (JObj c') = json_dumps (JObj (small_command True))
    \<and> jget c' ''payload'' = JObj p \<and> canonical_hash (JObj p) = canonical_hash (JObj (small_update True))"
proof -
  have "plain_json (JObj (small_command True))"
    by (simp add: small_command_def small_update_def du_payload_def names_json_def json_opt_def)
  moreover have "jget (small_command True) ''payload'' = JObj (small_update True)" by (simp add: small_command_def)
  ultimately show ?thesis
    using data_update_again [OF stable_no_unicode small_command_normalized, of True] by (auto simp del: json_dumps.simps)
qed

theorem data_update_confined_witness:
  "\<exists>changes rows. jget (small_update True) ''changes'' = JObj changes \<and> (\<forall>(k, w)\<in>set changes. open_field no_unicode k \<and> small_value w)
    \<and> jget (small_update True) ''maximum_rows'' = JInt rows \<and> rows \<le> 100 \<and> length (json_dumps (JObj (small_update True))) \<le> 128 * 1024"
  using data_update_confined [OF small_normalized, of True] by (auto simp del: json_dumps.simps)

end
