(* ===== verification/DataUpdateApi.thy ===== *)
theory DataUpdateApi
  imports DataUpdates OperatorApi
begin

text \<open>
  \<open>api/data_updates.py\<close>: a data update is first a preview, an operation without approval that changes nothing;
  its requester promotes it, once it succeeded and its answer matches it, to the update itself, which has to be
  approved. The lemmas show that what is promoted is what was previewed.
\<close>

section \<open>The request\<close>

definition preview_fields :: "string list" where
  "preview_fields = [''operation_id'', ''operation_type'', ''server_agent'', ''bench'', ''managed_site'', ''policy_id'', ''payload'']"

definition answer_fields :: "string list" where
  "answer_fields =
     [''contract_version'', ''operation_id'', ''operation'', ''policy_id'', ''policy_version'', ''payload_hash'', ''actor'', ''reason'',
      ''target'', ''dry_run'', ''maximum_rows'', ''matched_count'', ''affected_count'', ''result'', ''evidence'', ''evidence_truncated'']"

definition json_request :: "string \<Rightarrow> string list \<Rightarrow> (string \<times> json) list result" where
  "json_request raw expected =
     bindE (encodeE raw) (\<lambda>encoded.
     bindE (require (length encoded \<le> 256 * 1024) (OperationAuthoringError ''data update request is invalid'')) (\<lambda>_.
     bindE (catchE (\<lambda>_. Some (OperationAuthoringError ''data update request is invalid JSON''))
              (bindE (json_loads_with (strict_hook (OperationAuthoringError ''operation request contains duplicate fields'')) raw)
                 (\<lambda>v. bindE (require (\<not> has_constant raw) (ValueError [])) (\<lambda>_. Inr v)))) (\<lambda>v.
     of_option (OperationAuthoringError ''data update request fields do not match the contract'')
       (case v of JObj kvs \<Rightarrow> if jkeys kvs = set expected then Some kvs else None | _ \<Rightarrow> None))))"

definition request_identity :: "(string \<times> json) list \<Rightarrow> unit result" where
  "request_identity value =
     bindE (require (list_all (\<lambda>f. plain_text (jget value f))
              [''operation_id'', ''operation_type'', ''server_agent'', ''bench'', ''managed_site'', ''policy_id''])
              (OperationAuthoringError ''data update request identity is invalid'')) (\<lambda>_.
     bindE (of_option (OperationAuthoringError ''operation id must be a UUID'') (py_uuid (str_of (jget value ''operation_id'')))) (\<lambda>n.
     require (n = py_lower (str_of (jget value ''operation_id''))) (OperationAuthoringError ''operation id must be canonical'')))"

section \<open>The answer to a preview\<close>

definition result_target :: "target_snapshot \<Rightarrow> json \<Rightarrow> json" where
  "result_target t doctype =
     JObj [(''agent_id'', JStr (ts_agent_id t)), (''bench_id'', JStr (ts_bench_id t)), (''site_id'', json_opt (ts_site_domain t)),
           (''site_domain'', json_opt (ts_site_domain t)), (''doctype'', doctype)]"

definition answer_identity :: "op_row \<Rightarrow> string \<Rightarrow> json \<Rightarrow> (string \<times> json) list \<Rightarrow> target_snapshot \<Rightarrow> (string \<times> json) list \<Rightarrow> bool" where
  "answer_identity preview hash policy_id payload t result \<longleftrightarrow>
     jget result ''contract_version'' = JStr ''1.0'' \<and> jget result ''operation_id'' = JStr (op_operation_id preview)
     \<and> jget result ''operation'' = JStr (op_type preview) \<and> jget result ''policy_id'' = policy_id
     \<and> jget result ''policy_version'' = JStr ''1.0'' \<and> jget result ''payload_hash'' = JStr hash
     \<and> jget result ''actor'' = JStr (op_requested_by preview) \<and> jget result ''reason'' = jget payload ''reason''
     \<and> py_eq (jget result ''target'') (result_target t (jget payload ''doctype''))
     \<and> jget result ''dry_run'' = JBool True \<and> py_eq (jget result ''maximum_rows'') (jget payload ''maximum_rows'')"

definition result_counts :: "int \<Rightarrow> (string \<times> json) list \<Rightarrow> bool" where
  "result_counts rows result \<longleftrightarrow>
     (case (jget result ''matched_count'', jget result ''affected_count'') of
        (JInt matched, JInt affected) \<Rightarrow> 0 \<le> affected \<and> affected \<le> matched \<and> matched \<le> rows
      | _ \<Rightarrow> False)"

definition result_outcome :: "(string \<times> json) list \<Rightarrow> bool result" where
  "result_outcome result =
     (case jget result ''result'' of
        JStr s \<Rightarrow> Inr (s \<in> {''would_update'', ''no_changes''})
      | JList _ \<Rightarrow> Inl (TypeError ''unhashable type'')
      | JObj _ \<Rightarrow> Inl (TypeError ''unhashable type'')
      | _ \<Rightarrow> Inr False)"

definition result_evidence :: "(string \<times> json) list \<Rightarrow> bool" where
  "result_evidence result \<longleftrightarrow>
     (case jget result ''evidence'' of JList xs \<Rightarrow> length xs \<le> 20 | _ \<Rightarrow> False) \<and> is_bool (jget result ''evidence_truncated'')"

definition read_answer :: "string option \<Rightarrow> (string \<times> json) list result" where
  "read_answer result_json =
     of_option (OperationAuthoringError ''preview result is invalid'')
       (case json_loads (or_empty result_json) of
          Inr (JObj outer) \<Rightarrow>
            (case jget outer ''result'' of
               JObj result \<Rightarrow> if jget outer ''status'' = JStr ''succeeded'' \<and> jkeys result = set answer_fields then Some result else None
             | _ \<Rightarrow> None)
        | _ \<Rightarrow> None)"

definition validate_preview_result ::
  "string option \<Rightarrow> op_row \<Rightarrow> (string \<times> json) list \<Rightarrow> target_snapshot \<Rightarrow> unit result" where
  "validate_preview_result result_json preview command t =
     bindE (read_answer result_json) (\<lambda>result.
     let payload = (case jget command ''payload'' of JObj p \<Rightarrow> p | _ \<Rightarrow> []);
         invalid_counts = OperationAuthoringError ''preview result counts or evidence are invalid'' in
     bindE (canonical_hash (JObj payload)) (\<lambda>hash.
     bindE (require (answer_identity preview hash (jget command ''policy_id'') payload t result)
              (OperationAuthoringError ''preview result identity does not match the request'')) (\<lambda>_.
     bindE (require (result_counts (int_of (jget payload ''maximum_rows'')) result) invalid_counts) (\<lambda>_.
     bindE (result_outcome result) (\<lambda>outcome.
     require (outcome \<and> result_evidence result) invalid_counts)))))"

section \<open>Previewing\<close>

definition preview_answer :: "authored \<Rightarrow> json" where
  "preview_answer o1 =
     JObj [(''preview_operation_id'', JStr (ao_operation_id o1)), (''state'', JStr ''queued''),
           (''payload_hash'', JStr (ao_payload_hash o1)), (''inventory_revision'', JStr (ao_inventory_revision o1))]"

definition preview_request :: "(string \<times> json) list \<Rightarrow> (string \<times> json) list \<Rightarrow> operation_request" where
  "preview_request value command =
     \<lparr>rq_operation_id = str_of (jget value ''operation_id''), rq_operation_type = str_of (jget value ''operation_type''),
      rq_server_agent = str_of (jget value ''server_agent''), rq_bench = str_of (jget value ''bench''),
      rq_managed_site = Some (str_of (jget value ''managed_site'')), rq_payload = command,
      rq_preview_of = None, rq_preview_hash = None, rq_retry_of = None\<rparr>"

definition preview_data_update ::
  "(string \<Rightarrow> string result) \<Rightarrow> unicode \<Rightarrow> runtime \<Rightarrow> json option \<Rightarrow> int \<Rightarrow> string \<Rightarrow> db \<Rightarrow> (json \<times> db) result" where
  "preview_data_update wide u rt conf now request_json d =
     bindE (require_author rt) (\<lambda>actor.
     catchE authoring_thrown (
       bindE (json_request request_json preview_fields) (\<lambda>value.
       bindE (request_identity value) (\<lambda>_.
       bindE (require_feature wide rt ''data_update_preview''
                (target_environment d (str_of (jget value ''server_agent'')) (Some (str_of (jget value ''managed_site''))))) (\<lambda>_.
       bindE (normalize_data_update_command u (str_of (jget value ''operation_type''))
                (JObj [(''policy_id'', jget value ''policy_id''), (''payload'', jget value ''payload'')]) True) (\<lambda>command.
       bindE (author (frappe_authoring rt) (data_update_authorization u True) (preview_request value command) actor d) (\<lambda>(o1, d1).
       bindE (command_lifetime conf) (\<lambda>lifetime.
       bindE (enqueue_approved_operation lifetime (ao_operation_id o1) (Aware now) d1) (\<lambda>(_, d2).
       Inr (preview_answer o1, d2))))))))))"

section \<open>Promoting\<close>

definition apply_command :: "(string \<times> json) list \<Rightarrow> (string \<times> json) list" where
  "apply_command command =
     AList.update ''payload''
       (JObj (AList.update ''dry_run'' (JBool False) (case jget command ''payload'' of JObj p \<Rightarrow> p | _ \<Rightarrow> []))) command"

definition promote_request :: "op_row \<Rightarrow> string \<Rightarrow> string \<Rightarrow> (string \<times> json) list \<Rightarrow> operation_request" where
  "promote_request preview preview_uuid actual_uuid command =
     \<lparr>rq_operation_id = actual_uuid, rq_operation_type = op_type preview, rq_server_agent = op_server_agent preview,
      rq_bench = op_bench preview, rq_managed_site = op_managed_site preview, rq_payload = command,
      rq_preview_of = Some preview_uuid, rq_preview_hash = op_result_hash preview, rq_retry_of = None\<rparr>"

definition promote_answer :: "string \<Rightarrow> authored \<Rightarrow> json" where
  "promote_answer preview_uuid o1 =
     JObj [(''operation_id'', JStr (ao_operation_id o1)), (''preview_operation_id'', JStr preview_uuid), (''state'', JStr (ao_state o1)),
           (''approval_status'', JStr (ao_approval_status o1)), (''required_approvals'', JInt (ao_required o1)),
           (''payload_hash'', JStr (ao_payload_hash o1)), (''preview_result_hash'', json_opt (ao_preview_hash o1))]"

definition promoted_ids :: "string \<Rightarrow> string \<Rightarrow> (string \<times> string) result" where
  "promoted_ids preview_operation_id operation_id =
     bindE (of_option (ValidationError ''operation ids must be UUIDs'') (py_uuid preview_operation_id)) (\<lambda>preview_uuid.
     bindE (of_option (ValidationError ''operation ids must be UUIDs'') (py_uuid operation_id)) (\<lambda>actual_uuid.
     bindE (require (preview_uuid = py_lower preview_operation_id \<and> actual_uuid = py_lower operation_id)
              (ValidationError ''operation ids must be canonical'')) (\<lambda>_.
     Inr (preview_uuid, actual_uuid))))"

definition own_preview :: "db \<Rightarrow> string \<Rightarrow> string \<Rightarrow> (op_row \<times> optarget_row) result" where
  "own_preview d preview_uuid actor =
     of_option (PermissionError ''only the preview requester may promote it'')
       (case (get_row op_name (operations d) preview_uuid, target_of d preview_uuid) of
          (Some r, Some t) \<Rightarrow> if op_requested_by r = actor then Some (r, t) else None
        | _ \<Rightarrow> None)"

definition promote_data_update ::
  "(string \<Rightarrow> string result) \<Rightarrow> unicode \<Rightarrow> runtime \<Rightarrow> string \<Rightarrow> string \<Rightarrow> db \<Rightarrow> (json \<times> db) result" where
  "promote_data_update wide u rt preview_operation_id operation_id d =
     bindE (require_author rt) (\<lambda>actor.
     bindE (promoted_ids preview_operation_id operation_id) (\<lambda>(preview_uuid, actual_uuid).
     bindE (own_preview d preview_uuid actor) (\<lambda>(preview, target_row).
     bindE (require_feature wide rt ''data_update_apply''
              (target_environment d (op_server_agent preview) (op_managed_site preview))) (\<lambda>_.
     bindE (require (op_state preview = ''succeeded'' \<and> truthy (op_result_hash preview) \<and> truthy (op_result_json preview))
              (ValidationError ''data update preview has not succeeded'')) (\<lambda>_.
     catchE authoring_thrown (
       bindE (json_loads (or_empty (op_payload_json preview))) (\<lambda>raw_command.
       bindE (normalize_data_update_command u (op_type preview) raw_command True) (\<lambda>command.
       bindE (fr_resolve_target d (op_server_agent preview) (op_bench preview) (op_managed_site preview)) (\<lambda>current.
       bindE (require (Some (ts_inventory_revision current) = ot_revision target_row)
                (OperationAuthoringError ''inventory changed after the preview'')) (\<lambda>_.
       bindE (validate_preview_result (op_result_json preview) preview command current) (\<lambda>_.
       bindE (author (frappe_authoring rt) (data_update_authorization u False)
                (promote_request preview preview_uuid actual_uuid (apply_command command)) actor d) (\<lambda>(o1, d1).
       Inr (promote_answer preview_uuid o1, d1)))))))))))))"


section \<open>What is promoted is what was previewed\<close>

lemma selected_rule:
  assumes "fr_approval_rules d = Inr rules" "select_approval_rule rules env operation = Inr (Some r)"
  shows "1 \<le> ar_minimum r"
proof -
  have "r \<in> set rules" using select_Some [OF assms(2)] by simp
  then obtain p where "check_rule p = Inr r" using mapE_in_set [OF assms(1) [unfolded fr_approval_rules_def]] by auto
  then show ?thesis by (auto simp: check_rule_def result_simps)
qed

lemma update_dry_run:
  "AList.update ''dry_run'' (JBool d') (du_payload doctype names filters changes expected d rows reason)
     = du_payload doctype names filters changes expected d' rows reason"
  by (simp add: du_payload_def)

text \<open>The update that is authored carries the previewed command with its flag cleared, nothing else.\<close>

lemma applied_command:
  assumes s: "stable u" and n: "normalize_data_update_command u operation raw True = Inr c"
    and a: "normalize_data_update_command u operation (JObj (apply_command c)) False = Inr c'"
  shows "c' = apply_command c \<and> apply_of (JObj c) = Some (JObj c')"
  using n
proof (rule command_parts)
  fix kvs policy_id p
  assume k: "normalize_data_update_payload u (jget kvs ''payload'') True = Inr p"
    and c: "c = [(''policy_id'', JStr policy_id), (''payload'', JObj p)]"
  define q where "q = AList.update ''dry_run'' (JBool False) p"
  have ap: "apply_command c = [(''policy_id'', JStr policy_id), (''payload'', JObj q)]" by (simp add: apply_command_def c q_def)
  from a have "normalize_data_update_payload u (JObj q) False = Inr q"
  proof (rule command_parts)
    fix kvs' pid' p'
    assume j: "JObj (apply_command c) = JObj kvs'" "normalize_data_update_payload u (jget kvs' ''payload'') False = Inr p'"
    then have n': "normalize_data_update_payload u (JObj q) False = Inr p'" using ap by auto
    from s k show ?thesis
    proof (rule normalized_parts)
      fix doctype names filters changes expected rows reason
      assume np: "normal_parts u doctype names filters changes expected rows reason"
        and p: "p = du_payload doctype names filters changes expected True rows reason"
      have q: "q = du_payload doctype names filters changes expected False rows reason" by (simp add: q_def p update_dry_run)
      have "jkeys q = set payload_fields"
        using du_payload_keys [of doctype names filters changes expected False rows reason] by (simp add: q jkeys_def)
      then have "normalize_data_update_payload u (JObj q) False = encoded_payload q"
        using normalized_eval [OF np, of q False] by (simp add: q)
      then show ?thesis using n' encoded_payload_ok by metis
    qed
  qed
  then have q': "normalize_data_update_payload u (JObj q) False = Inr q" .
  from a have "c' = [(''policy_id'', JStr policy_id), (''payload'', JObj q)]"
  proof (rule command_parts)
    fix kvs' pid' p'
    assume "JObj (apply_command c) = JObj kvs'" "jget kvs' ''policy_id'' = JStr pid'"
      "normalize_data_update_payload u (jget kvs' ''payload'') False = Inr p'" "c' = [(''policy_id'', JStr pid'), (''payload'', JObj p')]"
    then show ?thesis using q' ap by auto
  qed
  then show ?thesis unfolding ap by (simp add: apply_of_def c q_def)
qed


lemma resolve_site_name:
  assumes "resolve_site d a server_agent bench site = Inr (x, y)"
  shows "x = site"
proof (cases site)
  case (Some n)
  then show ?thesis
    using assms by (cases "get_row si_name (sites d) n")
      (auto simp: resolve_site_def bindE_eq_Inr of_option_eq_Inr split: if_splits dest: get_row_Some)
qed (use assms in \<open>simp add: resolve_site_def\<close>)

lemma resolved_site:
  assumes "fr_resolve_target d server_agent bench site = Inr t"
  shows "ts_managed_site t = site"
proof -
  obtain a dm act where "resolve_site d a server_agent bench site = Inr (ts_managed_site t, dm, act)"
    using assms unfolding fr_resolve_target_def bindE_eq_Inr
    by (auto simp: check_snapshot_def bindE_eq_Inr require_eq_Inr)
  then show ?thesis by (rule resolve_site_name)
qed

text \<open>A preview that is promoted: its row, its command, and the answer that confirmed it.\<close>

definition confirmed_preview :: "unicode \<Rightarrow> db \<Rightarrow> string \<Rightarrow> string \<Rightarrow> op_row \<Rightarrow> (string \<times> json) list \<Rightarrow> bool" where
  "confirmed_preview u d actor n p c \<longleftrightarrow>
     get_row op_name (operations d) n = Some p \<and> op_requested_by p = actor \<and> op_state p = ''succeeded''
     \<and> (\<exists>raw. json_loads (or_empty (op_payload_json p)) = Inr raw \<and> normalize_data_update_command u (op_type p) raw True = Inr c)
     \<and> (\<exists>target t. fr_resolve_target d (op_server_agent p) (op_bench p) (op_managed_site p) = Inr target
          \<and> target_of d n = Some t \<and> ot_revision t = Some (ts_inventory_revision target)
          \<and> validate_preview_result (op_result_json p) p c target = Inr ())"

lemma promote_parts:
  assumes "promote_data_update wide u rt preview_id actual_id d = Inr (x, d')"
  obtains n m p c o1 where "promoted_ids preview_id actual_id = Inr (n, m)" "confirmed_preview u d (rt_user rt) n p c"
    "author (frappe_authoring rt) (data_update_authorization u False) (promote_request p n m (apply_command c)) (rt_user rt) d = Inr (o1, d')"
    "x = promote_answer n o1" "truthy (op_result_hash p)"
proof -
  obtain actor n m p t raw c current o1 where a: "require_author rt = Inr actor" and ids: "promoted_ids preview_id actual_id = Inr (n, m)"
    and own: "own_preview d n actor = Inr (p, t)"
    and st: "op_state p = ''succeeded''" "truthy (op_result_hash p)"
    and raw: "json_loads (or_empty (op_payload_json p)) = Inr raw" and c: "normalize_data_update_command u (op_type p) raw True = Inr c"
    and cur: "fr_resolve_target d (op_server_agent p) (op_bench p) (op_managed_site p) = Inr current"
    and rev: "Some (ts_inventory_revision current) = ot_revision t"
    and val: "validate_preview_result (op_result_json p) p c current = Inr ()"
    and au: "author (frappe_authoring rt) (data_update_authorization u False) (promote_request p n m (apply_command c)) actor d = Inr (o1, d')"
    and x: "x = promote_answer n o1"
    using assms unfolding promote_data_update_def by (auto simp: bindE_eq_Inr catchE_eq_Inr require_eq_Inr)
  have actor: "actor = rt_user rt" using a by (auto simp: require_author_def result_simps)
  have "get_row op_name (operations d) n = Some p" "target_of d n = Some t" "op_requested_by p = actor"
    using own by (auto simp: own_preview_def of_option_eq_Inr split: option.splits if_splits)
  then have "confirmed_preview u d (rt_user rt) n p c"
    unfolding confirmed_preview_def using st(1) raw c cur rev val actor by metis
  then show ?thesis using that ids au x st(2) actor by simp
qed

lemma update_payload:
  assumes "author (frappe_authoring rt) (data_update_authorization u False) (promote_request p n m (apply_command c)) actor d = Inr (o1, d')"
    and s: "stable u" and c: "normalize_data_update_command u (op_type p) raw True = Inr c" and n: "py_uuid n = Some n"
  shows "ao_payload_json o1 = json_dumps (JObj (apply_command c)) \<and> ao_operation_type o1 = op_type p \<and> ao_server_agent o1 = op_server_agent p
    \<and> ao_bench o1 = op_bench p \<and> ao_managed_site o1 = op_managed_site p \<and> ao_requested_by o1 = actor \<and> ao_preview_of o1 = Some n
    \<and> ao_preview_hash o1 = op_result_hash p \<and> 1 \<le> ao_required o1 \<and> ao_policy o1 \<noteq> None \<and> ao_approval_status o1 = ''pending''
    \<and> ao_state o1 = ''awaiting_approval'' \<and> py_uuid m = Some (ao_operation_id o1) \<and> actor \<noteq> [] \<and> fr_create rt o1 d = Inr d'"
  using assms(1)
proof (rule author_parts)
  fix w target a policy payload preview identity
  assume p: "check_identity (promote_request p n m (apply_command c)) actor = Inr w"
    "resolve_target (frappe_authoring rt) d (rq_server_agent (promote_request p n m (apply_command c)))
       (rq_bench (promote_request p n m (apply_command c))) (rq_managed_site (promote_request p n m (apply_command c))) = Inr target"
    "data_update_authorization u False (rq_operation_type (promote_request p n m (apply_command c)))
       (rq_payload (promote_request p n m (apply_command c))) = Inr a"
    "(if au_preview a then Inr None else bindE (approval_rules (frappe_authoring rt) d)
       (\<lambda>rules. select_approval_rule rules (ts_environment target) (rq_operation_type (promote_request p n m (apply_command c))))) = Inr policy"
    "check_policy target a policy = Inr ()" "canonical_payload (au_payload a) = Inr payload"
    "preview_lineage (promote_request p n m (apply_command c)) = Inr preview"
    and o1: "o1 = authored_operation (promote_request p n m (apply_command c)) actor w target policy payload preview identity"
    and cr: "create_operation (frappe_authoring rt) o1 d = Inr d'"
  have q: "rq_operation_type (promote_request p n m (apply_command c)) = op_type p" "rq_payload (promote_request p n m (apply_command c)) = apply_command c"
    "rq_server_agent (promote_request p n m (apply_command c)) = op_server_agent p" "rq_bench (promote_request p n m (apply_command c)) = op_bench p"
    "rq_preview_of (promote_request p n m (apply_command c)) = Some n" "rq_preview_hash (promote_request p n m (apply_command c)) = op_result_hash p"
    "rq_operation_id (promote_request p n m (apply_command c)) = m"
    "rq_managed_site (promote_request p n m (apply_command c)) = op_managed_site p"
    by (simp_all add: promote_request_def)
  obtain c' where c': "normalize_data_update_command u (op_type p) (JObj (apply_command c)) False = Inr c'"
    "au_payload a = c'" "au_approval a" "\<not> au_preview a"
    using p(3) unfolding q by (auto simp: data_update_authorization_def bindE_eq_Inr)
  have pl: "fst payload = json_dumps (JObj (apply_command c))"
    using p(6) applied_command [OF s c c'(1)] c'(2) by (auto simp: canonical_payload_def result_simps simp del: json_dumps.simps)
  obtain r where r: "policy = Some r" using p(5) c'(3) by (auto simp: check_policy_def result_simps)
  then have "1 \<le> ar_minimum r" using p(4) c'(4) selected_rule by (auto simp: bindE_eq_Inr frappe_authoring_simps)
  moreover have "preview = Some n" using p(7) n by (auto simp: preview_lineage_def q result_simps split: if_splits)
  moreover have "py_uuid m = Some w" "actor \<noteq> []" using p(1) by (auto simp: check_identity_def q result_simps)
  moreover have "ts_server_agent target = op_server_agent p \<and> ts_bench target = op_bench p \<and> ts_managed_site target = op_managed_site p"
    using resolved_names resolved_site p(2) unfolding q frappe_authoring_simps by blast
  ultimately show ?thesis using pl r q cr by (simp add: o1 authored_operation_def Let_def frappe_authoring_simps del: json_dumps.simps)
qed


lemma promoted_once:
  assumes c: "fr_create rt o1 d = Inr d'" and n: "get_row op_name (operations d) (ao_operation_id o1) = None" "ao_requested_by o1 \<noteq> []"
    and t: "ao_operation_type o1 \<in> {''data.update'', ''data.update.break_glass''}" and v: "ao_preview_of o1 = Some preview" "preview \<noteq> []"
  shows "\<forall>y\<in>set (operations d). op_preview_of y \<noteq> Some preview"
proof -
  define r where "r = (authored_row o1)\<lparr>op_name := ao_operation_id o1\<rparr>"
  obtain d1 where "op_insert (truthy (ao_retry_of o1)) rt (authored_row o1) d = Inr d1"
    using c n by (auto simp: fr_create_def bindE_eq_Inr)
  then have "op_validate (truthy (ao_retry_of o1)) d None r = Inr ()"
    using n(2) by (auto simp: op_insert_def op_before_insert_def Let_def bindE_eq_Inr authored_row_def r_def)
  then have "op_data_update d r = Inr ()" by (rule op_validate_ok)
  then have "\<exists>command. op_preview d r command preview = Inr ()"
    using t v by (auto simp: op_data_update_def r_def authored_row_def data_update_types_def bindE_eq_Inr require_eq_Inr split: option.splits if_splits)
  then have u: "\<not> list_ex (\<lambda>x. op_preview_of x = Some preview \<and> op_name x \<noteq> op_name r) (operations d)"
    unfolding op_preview_def bindE_eq_Inr require_eq_Inr by blast
  have "op_name y \<noteq> op_name r" if "y \<in> set (operations d)" for y
    using n(1) that get_row_None [of op_name "operations d" "ao_operation_id o1"] by (auto simp: r_def image_iff)
  then show ?thesis using u by (auto simp: list_ex_iff)
qed

text \<open>
  C40: what is promoted is what was previewed. Whenever a promotion succeeds there is a preview that the same
  actor requested, that succeeded, whose stored command is a valid dry run of the target as it is now, and
  whose stored answer confirmed it (the same payload hash, actor, reason and target, no more rows than asked
  for); the operation of the promotion carries the command of the preview with its flag cleared and nothing
  else changed, on the same agent, bench and site, bound to the preview and to the hash of its answer, under an
  approval policy with at least one approval. When the operation is new it waits for its approvals and no other
  operation had been promoted from the preview; no other operation and no other table changes.
\<close>

theorem promoted_as_previewed:
  assumes s: "stable u" and a: "promote_data_update wide u rt preview_id actual_id d = Inr (x, d')"
  shows "\<exists>n m p c r. promoted_ids preview_id actual_id = Inr (n, m) \<and> confirmed_preview u d (rt_user rt) n p c
    \<and> get_row op_name (operations d') m = Some r \<and> op_payload_json r = Some (json_dumps (JObj (apply_command c)))
    \<and> op_type r = op_type p \<and> op_server_agent r = op_server_agent p \<and> op_bench r = op_bench p \<and> op_managed_site r = op_managed_site p
    \<and> op_requested_by r = rt_user rt \<and> op_preview_of r = Some n \<and> op_preview_hash r = op_result_hash p
    \<and> op_policy r \<noteq> None \<and> 1 \<le> op_required r
    \<and> (get_row op_name (operations d) m = None \<longrightarrow> op_state r = ''awaiting_approval'' \<and> op_approval_status r = ''pending''
         \<and> (\<forall>y\<in>set (operations d). op_preview_of y \<noteq> Some n))
    \<and> (\<forall>k. k \<noteq> m \<longrightarrow> get_row op_name (operations d') k = get_row op_name (operations d) k)
    \<and> d' = d\<lparr>operations := operations d', optargets := optargets d'\<rparr>"
  using a
proof (rule promote_parts)
  fix n m p c o1
  assume ids: "promoted_ids preview_id actual_id = Inr (n, m)" and cp: "confirmed_preview u d (rt_user rt) n p c"
    and au: "author (frappe_authoring rt) (data_update_authorization u False) (promote_request p n m (apply_command c)) (rt_user rt) d = Inr (o1, d')"
  have uu: "is_uuid n" "is_uuid m" using ids py_uuid_shape by (auto simp: promoted_ids_def result_simps)
  obtain raw where c: "normalize_data_update_command u (op_type p) raw True = Inr c" using cp by (auto simp: confirmed_preview_def)
  note f = update_payload [OF au s c py_uuid_canonical [OF uu(1)]]
  have m: "ao_operation_id o1 = m" using f py_uuid_canonical [OF uu(2)] by simp
  have cr: "fr_create rt o1 d = Inr d'" and rb: "ao_requested_by o1 \<noteq> []" using f by auto
  note ck = created_keeps [OF cr rb, unfolded m]
  have k: "d' = d\<lparr>operations := operations d', optargets := optargets d'\<rparr>"
    "\<forall>k. k \<noteq> m \<longrightarrow> get_row op_name (operations d') k = get_row op_name (operations d) k"
    by (rule conjunct1 [OF ck], rule conjunct1 [OF conjunct2 [OF ck]])
  obtain r where r: "get_row op_name (operations d') m = Some r" "operation_fields r = operation_fields (authored_row o1)"
    "get_row op_name (operations d) m = None \<longrightarrow> r = (authored_row o1)\<lparr>op_name := m\<rparr>"
    using conjunct2 [OF conjunct2 [OF ck]] by (simp only: simp_thms) (elim exE conjE, rule that, assumption+)
  have t: "ao_operation_type o1 \<in> {''data.update'', ''data.update.break_glass''}" using f by (metis command_parts [OF c])
  have "n \<noteq> []" using uu(1) by (auto simp: is_uuid_def no_dash_def)
  then have once: "get_row op_name (operations d) m = None \<longrightarrow> (\<forall>y\<in>set (operations d). op_preview_of y \<noteq> Some n)"
    using promoted_once [OF cr _ rb t] f m by blast
  have e: "op_payload_json r = Some (ao_payload_json o1)" "op_type r = ao_operation_type o1" "op_server_agent r = ao_server_agent o1"
    "op_bench r = ao_bench o1" "op_managed_site r = ao_managed_site o1" "op_requested_by r = ao_requested_by o1"
    "op_preview_of r = ao_preview_of o1" "op_preview_hash r = ao_preview_hash o1" "op_policy r = ao_policy o1" "op_required r = ao_required o1"
    using r(2) by (auto simp: operation_fields_def authored_row_def)
  have w: "op_state r = ''awaiting_approval'' \<and> op_approval_status r = ''pending''" if "get_row op_name (operations d) m = None"
    using r(3) that f by (auto simp: authored_row_def)
  show ?thesis
    by (rule exI [of _ n], rule exI [of _ m], rule exI [of _ p], rule exI [of _ c], rule exI [of _ r])
      (use ids cp r(1) e f w once k in \<open>simp del: json_dumps.simps\<close>)
qed


section \<open>A small promotion\<close>

definition todo_uuid :: string where
  "todo_uuid = ''7ba7b811-9dad-41d1-80b4-00c04fd430c8''"

definition command_text :: "bool \<Rightarrow> string" where
  "command_text d = json_dumps (JObj (small_command d))"

definition todo_result :: "(string \<times> json) list" where
  "todo_result =
     [(''actor'', JStr ''alice''), (''affected_count'', JInt 1), (''contract_version'', JStr ''1.0''), (''dry_run'', JBool True),
      (''evidence'', JList []), (''evidence_truncated'', JBool False), (''matched_count'', JInt 1), (''maximum_rows'', JInt 1),
      (''operation'', JStr ''data.update''), (''operation_id'', JStr todo_uuid),
      (''payload_hash'', JStr (sha256_hex (json_dumps (JObj (small_update True))))), (''policy_id'', JStr ''todo''),
      (''policy_version'', JStr ''1.0''), (''reason'', JStr ''fix''), (''result'', JStr ''would_update''),
      (''target'', JObj [(''agent_id'', JStr ''agent-1''), (''bench_id'', JStr ''bench-1''), (''doctype'', JStr ''ToDo''),
                         (''site_domain'', JStr ''a.example''), (''site_id'', JStr ''a.example'')])]"

definition todo_answer :: string where
  "todo_answer = json_dumps (JObj [(''result'', JObj todo_result), (''status'', JStr ''succeeded'')])"

definition todo_preview :: op_row where
  "todo_preview = demo_op
     \<lparr>op_name := todo_uuid, op_operation_id := todo_uuid, op_idempotency_key := ''controller:'' @ todo_uuid, op_type := ''data.update'',
      op_payload_json := Some (command_text True), op_requested_by := ''alice'', op_state := ''succeeded'',
      op_result_json := Some todo_answer, op_result_hash := Some (replicate 64 CHR ''a'')\<rparr>"

definition todo_target :: optarget_row where
  "todo_target = demo_optarget
     \<lparr>ot_name := ''t-0'', ot_operation := todo_uuid, ot_target_key := ''t'', ot_type := ''data.update'', ot_revision := Some (replicate 64 CHR ''a'')\<rparr>"

definition todo_policy :: policy_row where
  "todo_policy = \<lparr>po_name = ''updates'', po_enabled = True, po_environment = ''staging'', po_pattern = ''data.update'', po_minimum = 1,
     po_backup = False, po_bulk_threshold = 0, po_maximum_targets = 0\<rparr>"

definition todo_db :: db where
  "todo_db = empty_db
     \<lparr>agents := [demo_agent\<lparr>sa_capabilities := text_list [''data.update''], sa_inventory_digest := Some (replicate 64 CHR ''a'')\<rparr>],
      benches := [demo_bench\<lparr>be_capabilities := text_list [''data.update'']\<rparr>], sites := [demo_site], policies := [todo_policy],
      operations := [todo_preview], optargets := [todo_target]\<rparr>"

definition todo_snapshot :: target_snapshot where
  "todo_snapshot = backup_target\<lparr>ts_capabilities := [''data.update'']\<rparr>"

lemma todo_uuid_canonical: "is_uuid todo_uuid"
  by (simp add: todo_uuid_def is_uuid_def no_dash_def uuid_text_def is_hex_def is_digit_def)

lemma todo_uuid_lower: "py_lower todo_uuid = todo_uuid"
  by (simp add: todo_uuid_def string_defs)

lemma todo_resolved: "fr_resolve_target todo_db ''agent-1'' ''bench-1'' (Some ''site-1'') = Inr todo_snapshot"
  by (simp add: fr_resolve_target_def todo_db_def get_row_def empty_db_def demo_agent_def demo_bench_def demo_site_def
      scene_capabilities resolve_site_def check_snapshot_def environments_def todo_snapshot_def backup_target_def sha_a)

lemma small_canon: "canon (JObj (small_update d)) = JObj (sort_key fst (small_update d))"
  "map (\<lambda>(k, v). (k, canon v)) (small_update d) = small_update d"
  by (simp_all add: small_update_def du_payload_def names_json_def json_opt_def)

lemma loads_written: "plain_json v \<Longrightarrow> json_loads (json_dumps v) = Inr (canon v)"
  using loads_dumps [OF keeps_hooks(1)] by (simp add: json_loads_def)

lemma command_loads:
  "json_loads (command_text d) = Inr (JObj [(''payload'', JObj (sort_key fst (small_update d))), (''policy_id'', JStr ''todo'')])"
proof -
  have "plain_json (JObj (small_command d))"
    by (simp add: small_command_def small_update_def du_payload_def names_json_def json_opt_def)
  then have "json_loads (command_text d) = Inr (canon (JObj (small_command d)))"
    unfolding command_text_def by (rule loads_written)
  moreover have "canon (JObj (small_command d)) = JObj [(''payload'', canon (JObj (small_update d))), (''policy_id'', JStr ''todo'')]"
    by (simp add: small_command_def)
  ultimately show ?thesis by (simp only: small_canon(1))
qed

lemma command_again:
  "normalize_data_update_command no_unicode ''data.update''
     (JObj [(''payload'', JObj (sort_key fst (small_update d))), (''policy_id'', JStr ''todo'')]) d = Inr (small_command d)"
proof -
  have "normalize_data_update_payload no_unicode (JObj (sort_key fst (small_update d))) d = Inr (small_update d)"
    using stored_payload [OF stable_no_unicode small_normalized, of d] unfolding small_canon by (auto simp del: canon.simps)
  then show ?thesis by (auto simp: normalize_data_update_command_def small_command_def policy_pattern_def string_defs)
qed

lemma todo_validated: "validate_preview_result (op_result_json todo_preview) todo_preview (small_command True) todo_snapshot = Inr ()"
proof -
  have "plain_json (JObj [(''result'', JObj todo_result), (''status'', JStr ''succeeded'')])" by (simp add: todo_result_def del: json_dumps.simps)
  then have l0: "json_loads todo_answer = Inr (canon (JObj [(''result'', JObj todo_result), (''status'', JStr ''succeeded'')]))"
    unfolding todo_answer_def by (rule loads_written)
  have l: "json_loads todo_answer = Inr (JObj [(''result'', JObj todo_result), (''status'', JStr ''succeeded'')])"
    unfolding l0 by (simp add: todo_result_def del: json_dumps.simps)
  have r: "read_answer (op_result_json todo_preview) = Inr todo_result"
    by (simp add: read_answer_def todo_preview_def l) (auto simp: todo_result_def answer_fields_def simp del: json_dumps.simps)
  have f: "json_dumps (JObj (small_update True)) = t \<Longrightarrow> canonical_hash (JObj (small_update True)) = Inr (sha256_hex t)" for t
    using small_encoded [of True] by (auto simp: encoded_payload_def canonical_hash_def bindE_eq_Inr encodeE_eq_Inr dumpsE_def
        simp del: json_dumps.simps split: if_splits)
  have g: "jget (small_command True) ''payload'' = JObj (small_update True)" "jget (small_command True) ''policy_id'' = JStr ''todo''"
    by (simp_all add: small_command_def)
  show ?thesis
    unfolding validate_preview_result_def r bindE_Inr g json.case Let_def f [OF refl]
    by (simp add: answer_identity_def result_counts_def result_outcome_def result_evidence_def todo_result_def todo_preview_def demo_op_def
        small_update_def du_payload_def result_target_def todo_snapshot_def backup_target_def json_opt_def insert_commute del: json_dumps.simps)
qed


definition todo_request :: operation_request where
  "todo_request = promote_request todo_preview todo_uuid demo_uuid (apply_command (small_command True))"

definition todo_authored :: "string \<Rightarrow> authored" where
  "todo_authored x = authored_operation todo_request ''alice'' demo_uuid todo_snapshot (Some (policy_rule todo_policy))
     (command_text False, sha256_hex (command_text False)) (Some todo_uuid) x"

lemma todo_applied: "apply_command (small_command True) = small_command False"
  by (simp add: apply_command_def small_command_def small_update_def update_dry_run)

lemma todo_payload: "canonical_payload (small_command False) = Inr (command_text False, sha256_hex (command_text False))"
proof -
  have "ascii_json (JObj (small_command False))"
    by (simp add: small_command_def small_update_def du_payload_def names_json_def json_opt_def ascii_def)
  then have "\<not> has_surrogate (command_text False)" unfolding command_text_def by (intro ascii_no_surrogate ascii_dumps)
  moreover have "length (command_text False) \<le> 262144"
    by (simp add: command_text_def small_command_def small_update_def du_payload_def names_json_def json_opt_def quote_str_def escape_char_def
        int_str_def nat_str_small)
  moreover have "\<not> has_sensitive_key (JObj (small_command False))"
    by (simp add: small_command_def small_update_def du_payload_def names_json_def json_opt_def sensitive_key_def sensitive_keys_def string_defs)
  moreover have "finite_json (JObj (small_command False))"
    by (simp add: small_command_def small_update_def du_payload_def names_json_def json_opt_def)
  ultimately show ?thesis by (simp add: canonical_payload_def encodeE_def command_text_def del: json_dumps.simps)
qed

lemma todo_identity: "\<exists>x. target_identity demo_uuid todo_snapshot = Inr x"
  by (simp add: target_identity_def todo_snapshot_def backup_target_def demo_uuid_def json_opt_def quote_str_def escape_char_def encodeE_def
      numeral_eq_Suc)

lemma todo_rows:
  "operations todo_db = [todo_preview]" "bulktargets todo_db = []" "optargets todo_db = [todo_target]" "policies todo_db = [todo_policy]"
  "get_row op_name [todo_preview] todo_uuid = Some todo_preview"
  "get_row be_name (benches todo_db) ''bench-1'' = Some (demo_bench\<lparr>be_capabilities := text_list [''data.update'']\<rparr>)"
  "get_row si_name (sites todo_db) ''site-1'' = Some demo_site"
  by (simp_all add: todo_db_def empty_db_def get_row_def todo_preview_def demo_bench_def demo_site_def)

lemma todo_data_update:
  assumes "op_type r = ''data.update''" "op_payload_json r = Some (command_text False)" "op_preview_of r = Some todo_uuid"
    "op_preview_hash r = Some (replicate 64 CHR ''a'')" "op_server_agent r = ''agent-1''" "op_bench r = ''bench-1''"
    "op_managed_site r = Some ''site-1''" "op_requested_by r = ''alice''"
  shows "op_data_update todo_db r = Inr ()"
proof -
  have c: "data_update_command (Some (command_text False))
      = Some (JObj [(''payload'', JObj (sort_key fst (small_update False))), (''policy_id'', JStr ''todo'')], False)"
    by (simp add: data_update_command_def command_loads) (auto simp: small_update_def du_payload_def)
  have "preview_applies r (JObj [(''payload'', JObj (sort_key fst (small_update False))), (''policy_id'', JStr ''todo'')]) todo_preview"
    by (simp add: preview_applies_def assms todo_preview_def demo_op_def command_loads apply_of_def is_dry_run_def)
      (simp add: small_update_def du_payload_def names_json_def json_opt_def insert_commute)
  then show ?thesis
    by (simp add: op_data_update_def data_update_types_def assms c op_preview_def todo_rows)
      (simp add: todo_preview_def demo_op_def todo_uuid_def)
qed


lemma todo_fields:
  "ao_operation_id (todo_authored x) = demo_uuid" "ao_requested_by (todo_authored x) = ''alice''" "ao_retry_of (todo_authored x) = None"
  by (simp_all add: todo_authored_def authored_operation_def todo_request_def promote_request_def Let_def)

lemma todo_created: "\<exists>d'. fr_create demo_runtime (todo_authored x) todo_db = Inr d'"
proof -
  define r where "r = (authored_row (todo_authored x))\<lparr>op_name := demo_uuid\<rparr>"
  note defs = r_def authored_row_def todo_authored_def authored_operation_def todo_request_def promote_request_def todo_preview_def demo_op_def
    todo_snapshot_def backup_target_def policy_rule_def todo_policy_def Let_def
  have rf: "op_type r = ''data.update''" "op_payload_json r = Some (command_text False)" "op_preview_of r = Some todo_uuid"
    "op_preview_hash r = Some (replicate 64 CHR ''a'')" "op_server_agent r = ''agent-1''" "op_bench r = ''bench-1''"
    "op_managed_site r = Some ''site-1''" "op_requested_by r = ''alice''"
    by (simp_all add: defs)
  have pn: "todo_uuid \<noteq> []" "todo_uuid \<noteq> demo_uuid" by (simp_all add: todo_uuid_def demo_uuid_def)
  have f: "op_formats r = Inr ()"
    by (simp add: op_formats_def rf require_json_def command_loads has_shape_def require_sha256_def sha_a pn)
      (simp add: defs require_sha256_def)
  have v: "op_validate False todo_db None r = Inr ()"
    by (simp add: op_validate_def f todo_data_update rf op_links_def require_link_value_def)
      (simp add: defs op_terminal_def op_approval_counts_def immutable_fields_def op_credential_owned_def legal_transition_def
        todo_rows demo_bench_def demo_site_def)
  have i: "op_insert False demo_runtime (authored_row (todo_authored x)) todo_db = Inr (todo_db\<lparr>operations := [todo_preview, r]\<rparr>)"
    using v pn todo_fields
    by (simp add: op_insert_def op_before_insert_def demo_runtime_def insert_row_def r_def [symmetric] Let_def)
       (simp add: defs todo_db_def get_row_def)
  define t where "t = (authored_target (todo_db\<lparr>operations := [todo_preview, r]\<rparr>) (todo_authored x))\<lparr>ot_name := ''new''\<rparr>"
  have tf: "ot_operation t = demo_uuid" "ot_server_agent t = ''agent-1''" "ot_bench t = ''bench-1''" "ot_managed_site t = Some ''site-1''"
    "ot_type t = ''data.update''" "ot_payload_hash t = op_payload_hash r" "ot_revision t = Some (replicate 64 CHR ''a'')" "ot_retry_of t = None"
    "ot_bulk_parent t = None" "ot_bulk_target t = None" "ot_state t = ''awaiting_approval''" "ot_target_key t = sha256_hex x" "ot_name t = ''new''"
    by (simp_all add: t_def authored_target_def retry_target_def defs)
  have hash: "is_sha256 (op_payload_hash r)" by (simp add: defs)
  have gr: "get_row op_name [todo_preview, r] demo_uuid = Some r"
    using pn by (simp add: get_row_def todo_preview_def) (simp add: r_def)
  have tv: "ot_validate (todo_db\<lparr>operations := [todo_preview, r]\<rparr>) None t = Inr ()"
    by (simp add: ot_validate_def tf require_sha256_def hash sha_a require_link_value_def todo_rows gr rf ot_bulk_links_def immutable_fields_def
        legal_transition_def) (simp add: defs demo_bench_def demo_site_def)
  have "sha256_hex x \<noteq> ''t''" using sha256_hex_shape [of x] by (auto simp: is_sha256_def)
  then have t: "\<exists>d'. ot_insert demo_runtime (authored_target (todo_db\<lparr>operations := [todo_preview, r]\<rparr>) (todo_authored x))
      (todo_db\<lparr>operations := [todo_preview, r]\<rparr>) = Inr d'"
    using tv by (simp add: ot_insert_def demo_runtime_def t_def [symmetric] insert_row_def tf todo_rows get_row_def Let_def)
      (simp add: todo_target_def)
  have n: "get_row op_name (operations todo_db) demo_uuid = None" using pn by (simp add: todo_db_def get_row_def todo_preview_def)
  show ?thesis using i t n by (simp add: fr_create_def todo_fields)
qed


lemma todo_author:
  "\<exists>o1 d'. author (frappe_authoring demo_runtime) (data_update_authorization no_unicode False) todo_request ''alice'' todo_db = Inr (o1, d')"
proof -
  define a where "a = \<lparr>au_payload = small_command False, au_site_required = True, au_destructive = False, au_backup = False,
     au_approval = True, au_site_identity = False, au_preview = False\<rparr>"
  have rq: "rq_operation_type todo_request = ''data.update''" "rq_server_agent todo_request = ''agent-1''" "rq_bench todo_request = ''bench-1''"
    "rq_managed_site todo_request = Some ''site-1''" "rq_payload todo_request = small_command False" "rq_operation_id todo_request = demo_uuid"
    "rq_preview_of todo_request = Some todo_uuid" "rq_preview_hash todo_request = Some (replicate 64 CHR ''a'')"
    by (simp_all add: todo_request_def promote_request_def todo_preview_def demo_op_def todo_applied)
  have i: "check_identity todo_request ''alice'' = Inr demo_uuid"
    using py_uuid_canonical [OF demo_uuid_canonical] py_lower_demo
    by (simp add: check_identity_def rq operation_type_ok_def key_char_def string_defs)
  have t: "check_target todo_request todo_snapshot = Inr ()" by (simp add: check_target_def rq todo_snapshot_def backup_target_def)
  have v: "data_update_authorization no_unicode False ''data.update'' (small_command False) = Inr a"
    using small_command_normalized [of False] by (simp add: data_update_authorization_def a_def)
  have c: "check_authorization todo_snapshot a = Inr ()" "check_policy todo_snapshot a (Some (policy_rule todo_policy)) = Inr ()"
    by (simp_all add: check_authorization_def check_policy_def todo_snapshot_def backup_target_def a_def policy_rule_def todo_policy_def)
  have "check_rule (policy_rule todo_policy) = Inr (policy_rule todo_policy)"
    by (simp add: check_rule_def policy_rule_def todo_policy_def environments_def operation_pattern_ok_def key_char_def string_defs)
  then have rules: "fr_approval_rules todo_db = Inr [policy_rule todo_policy]"
    by (simp add: fr_approval_rules_def todo_rows) (simp add: todo_policy_def)
  have sel: "select_approval_rule [policy_rule todo_policy] ''staging'' ''data.update'' = Inr (Some (policy_rule todo_policy))"
    by (simp add: select_approval_rule_def rule_matches_def policy_rule_def todo_policy_def string_defs)
  have pl: "preview_lineage todo_request = Inr (Some todo_uuid)"
    using py_uuid_canonical [OF todo_uuid_canonical] todo_uuid_lower by (simp add: preview_lineage_def rq sha_a)
  obtain x where x: "target_identity demo_uuid todo_snapshot = Inr x" using todo_identity ..
  obtain d' where "fr_create demo_runtime (todo_authored x) todo_db = Inr d'" using todo_created ..
  then have "author (frappe_authoring demo_runtime) (data_update_authorization no_unicode False) todo_request ''alice'' todo_db
      = Inr (todo_authored x, d')"
    unfolding author_def frappe_authoring_simps i bindE_Inr rq
    using t v c rules sel pl x todo_resolved todo_payload
    by (simp add: a_def todo_authored_def Let_def) (simp add: todo_snapshot_def backup_target_def)
  then show ?thesis by blast
qed

lemma todo_promoted: "\<exists>y d'. promote_data_update no_wide no_unicode demo_runtime todo_uuid demo_uuid todo_db = Inr (y, d')"
proof -
  obtain o1 d' where au: "author (frappe_authoring demo_runtime) (data_update_authorization no_unicode False) todo_request ''alice'' todo_db = Inr (o1, d')"
    using todo_author by blast
  have ids: "promoted_ids todo_uuid demo_uuid = Inr (todo_uuid, demo_uuid)"
    using py_uuid_canonical [OF demo_uuid_canonical] py_uuid_canonical [OF todo_uuid_canonical] py_lower_demo todo_uuid_lower
    by (simp add: promoted_ids_def)
  have p: "op_requested_by todo_preview = ''alice''" "op_server_agent todo_preview = ''agent-1''" "op_bench todo_preview = ''bench-1''"
    "op_managed_site todo_preview = Some ''site-1''" "op_state todo_preview = ''succeeded''" "op_type todo_preview = ''data.update''"
    "op_payload_json todo_preview = Some (command_text True)" "truthy (op_result_hash todo_preview)" "truthy (op_result_json todo_preview)"
    "ot_revision todo_target = Some (replicate 64 CHR ''a'')" "ts_inventory_revision todo_snapshot = replicate 64 CHR ''a''"
    by (simp_all add: todo_preview_def demo_op_def todo_target_def todo_snapshot_def backup_target_def todo_answer_def)
  have own: "own_preview todo_db todo_uuid ''alice'' = Inr (todo_preview, todo_target)"
    by (simp add: own_preview_def todo_rows target_of_def) (simp add: get_row_def todo_target_def p)
  have e: "target_environment todo_db ''agent-1'' (Some ''site-1'') = Some ''staging''"
    by (simp add: target_environment_def todo_rows environment_or_none_def feature_environments_def demo_site_def)
  have g: "require_feature no_wide demo_runtime ''data_update_apply'' (Some ''staging'') = Inr ()"
    by (simp add: require_feature_def demo_config environment_or_none_def feature_environments_def feature_enabled_def feature_set_def demo_config_def)
  show ?thesis
    unfolding promote_data_update_def scene_author ids bindE_Inr prod.case own p e g
    using au todo_validated by (simp add: todo_resolved command_loads command_again todo_request_def p)
qed

theorem promoted_as_previewed_witness:
  "\<exists>y d' r. promote_data_update no_wide no_unicode demo_runtime todo_uuid demo_uuid todo_db = Inr (y, d')
    \<and> get_row op_name (operations d') demo_uuid = Some r \<and> op_payload_json r = Some (json_dumps (JObj (small_command False)))
    \<and> op_preview_of r = Some todo_uuid \<and> op_state r = ''awaiting_approval'' \<and> op_approval_status r = ''pending'' \<and> 1 \<le> op_required r"
proof -
  obtain y d' where a: "promote_data_update no_wide no_unicode demo_runtime todo_uuid demo_uuid todo_db = Inr (y, d')"
    using todo_promoted by blast
  have ids: "promoted_ids todo_uuid demo_uuid = Inr (todo_uuid, demo_uuid)"
    using py_uuid_canonical [OF demo_uuid_canonical] py_uuid_canonical [OF todo_uuid_canonical] py_lower_demo todo_uuid_lower
    by (simp add: promoted_ids_def)
  obtain p c r where r: "confirmed_preview no_unicode todo_db (rt_user demo_runtime) todo_uuid p c"
    "get_row op_name (operations d') demo_uuid = Some r" "op_payload_json r = Some (json_dumps (JObj (apply_command c)))"
    "op_preview_of r = Some todo_uuid" "1 \<le> op_required r"
    "get_row op_name (operations todo_db) demo_uuid = None \<longrightarrow> op_state r = ''awaiting_approval'' \<and> op_approval_status r = ''pending''"
    using promoted_as_previewed [OF stable_no_unicode a] unfolding ids by (auto simp del: json_dumps.simps)
  have "p = todo_preview" using r(1) by (simp add: confirmed_preview_def todo_rows)
  then have "c = small_command True"
    using r(1) command_again [of True]
    by (auto simp: confirmed_preview_def todo_preview_def demo_op_def command_loads)
  moreover have "get_row op_name (operations todo_db) demo_uuid = None"
    by (simp add: todo_rows get_row_def todo_preview_def todo_uuid_def demo_uuid_def)
  ultimately show ?thesis using a r todo_applied by (auto simp del: json_dumps.simps)
qed

end
