(* ===== verification/Spec2Isabelle.thy ===== *)
theory Spec2Isabelle
  imports Prelude PyTime Json JsonRead JsonRoundtrip Digests Security Negotiation OperationService
    LifecycleAuthoring Bulk BulkSelection BulkOrchestrator Database FeatureFlags DocRules OperationDocs Dispatcher
    BulkDocs FrappeStore FrappeBulk MessageFields Ingestion AgentIngestion JsonAscii Inventory InventoryRoundtrip
    PlaceDocs FrappeInventory AgentAuth AgentApi JsonUtf8 AgentIsolation ServerAgents Upgrades FrappeOperations
    CreationReadiness OperatorApi CustomerSites TimeRoundtrip DataUpdates DataUpdateApi
begin

text \<open>
  The Frappe controller is the control plane of a fleet of servers. An agent runs on every server;
  operators author operations on its benches and sites, approvers decide, the controller queues a
  command for the agent, the agent leases it by polling and reports events and results. A bulk
  operation fans one payload out to many sites in waves. This development models the Python code
  under \<open>src/frappe_controller\<close> as HOL functions over an explicit database and proves what makes it
  correct.

  \<^bold>\<open>How the code is modelled.\<close> A Python exception is a value of \<open>exn\<close> and a fallible function answers
  \<open>exn + 'a\<close> (Prelude: \<open>bindE\<close>, \<open>require\<close>, \<open>mapE\<close>, \<open>eachE\<close>, \<open>catchE\<close>). A \<open>str\<close> is the list of its UTF-8
  bytes, an \<open>int\<close> an \<open>int\<close>, a \<open>float\<close> its shortest decimal, a JSON document a value of \<open>json\<close> whose
  objects keep their keys in order, a datetime the microsecond of its UTC instant. A DocType is a
  record, a table the list of its rows, the database the record of its tables (Database); a
  document's save is a function of the database, of the row it replaces and of the new row. What the
  code asks of the Frappe runtime (session user, roles, clock, deployment file, fresh names) is the
  record \<open>runtime\<close>, an argument. Everything is executable, so that the witnesses evaluate.

  \<^bold>\<open>Standard library.\<close> PyTime: \<open>datetime\<close> and its renderings. Json, JsonRead, JsonRoundtrip:
  \<open>json.dumps\<close> and \<open>json.loads\<close> with its hooks; the reader runs on fuel \<open>2 * length s + 2\<close>, which
  \<open>JsonRead.json_loads_fuel\<close> shows to be enough, and \<open>JsonRoundtrip.loads_dumps\<close> is the round trip. Digests:
  SHA-256, HMAC, SHA-1, \<open>uuid5\<close> and \<open>uuid.UUID\<close> on 32-bit words. TimeRoundtrip shows that the calendar
  computes in both directions and that \<open>fromisoformat\<close> reads back every timestamp the controller writes.

  \<^bold>\<open>Protocol.\<close> Security models \<open>security.py\<close> (identities, strict JSON, the common fields of a
  request), Negotiation \<open>protocol_negotiation.py\<close> and \<open>operation_catalog.py\<close>.

  \<^bold>\<open>Authoring.\<close> OperationService models \<open>operation_service.py\<close> (approval rules, canonical payloads,
  authoring) and LifecycleAuthoring \<open>lifecycle_authoring.py\<close>. FeatureFlags models
  \<open>feature_flags.py\<close> and \<open>compat.py\<close>: the deployment's feature file, every gate, and what the Desk shows.

  \<^bold>\<open>Documents.\<close> DocRules models \<open>doctype/_invariants.py\<close> and the locale \<open>lifecycle\<close> of a table of state
  transitions, interpreted on the tables of every document. OperationDocs models Controller
  Operation, Operation Target, Operation Event and Operation Approval; BulkDocs models
  Bulk Operation, Bulk Operation Target and Bulk Operation Approval.

  \<^bold>\<open>Commands.\<close> Dispatcher models \<open>dispatcher.py\<close>: the signed envelope, its approval claims, and the
  validation of a stored command (the locale \<open>claim_check\<close> is the contract of one claim
  check, interpreted on both kinds of approvals). FrappeStore models \<open>frappe_store.py\<close>: queueing,
  leasing and quarantine.

  \<^bold>\<open>Bulk operations.\<close> Bulk models \<open>bulk.py\<close>, BulkSelection \<open>bulk_selection.py\<close>,
  BulkOrchestrator \<open>bulk_orchestrator.py\<close> against the interface \<open>BulkRepository\<close>, which the locales
  \<open>bulk_contract\<close> and \<open>bulk_counters\<close> specify. FrappeBulk models \<open>frappe_bulk_orchestration.py\<close>, shows
  that its repository meets the contract, and derives the limits, the canary order and the
  behaviour of the scheduled job over the tables.

  \<^bold>\<open>Agents.\<close> MessageFields, Ingestion and AgentIngestion model \<open>ingestion.py\<close>, the repository behind it
  and the handover check of \<open>creation_readiness.py\<close>: events and results against the locales \<open>event_log\<close>
  and \<open>result_log\<close>. Inventory models \<open>inventory.py\<close>, JsonAscii the ASCII form of
  \<open>json.dumps\<close> its digests are made of (the locale \<open>quoting\<close> of JsonRoundtrip, interpreted twice),
  InventoryRoundtrip shows that what is stored reads back; PlaceDocs models the documents of benches
  and sites, FrappeInventory the repository over the tables. AgentAuth models
  \<open>agent_request_auth.py\<close>, \<open>frappe_security_store.py\<close> and the document of certificates.
  AgentApi models \<open>api/agent.py\<close> and \<open>api/routes.py\<close>, which compose all of these; JsonUtf8 shows that
  what a route parses is text, and AgentIsolation what requests can and cannot do.

  \<^bold>\<open>Server Agents and upgrades.\<close> ServerAgents models the document of Server Agent, every check of its
  \<open>validate\<close>, \<open>setup_profiles.py\<close> and \<open>setup_readiness.py\<close>; Upgrades models \<open>api/upgrades.py\<close> and the helper's
  route of \<open>api/agent_upgrade_routes.py\<close>, as steps among the requests of agents. The agent is
  drained while its upgrade is active (\<open>upgrades_drained\<close>); an upgrade moves along its table by calls of the
  controller only, awaits verification only while nothing is leased or running, and is verified by a heartbeat of the
  expected version (\<open>upgrade_verified\<close>). Before the deployment it can be cancelled; afterwards a leased or
  running operation holds it up, and once none is a healthy heartbeat ends it (\<open>upgrade_ends\<close>).

  \<^bold>\<open>What operators call.\<close> FrappeOperations models \<open>frappe_operation_service.py\<close>, the repository of the authoring
  service over the tables: an operation is stored once, however often and whenever it is asked for (\<open>authored_once\<close>). CreationReadiness models
  \<open>creation_readiness.py\<close>; the answers of the DNS provider and of a connection are the record \<open>probes\<close>, an
  argument. OperatorApi models \<open>api/operations.py\<close>, \<open>api/site_actions.py\<close> and \<open>api/approvals.py\<close>, CustomerSites
  \<open>api/customer_sites.py\<close>, \<open>api/operation_handover.py\<close> and the scheduled sweep; Customer is a document of
  ERPNext, whose own checks are the record \<open>surroundings\<close>. Sites are created and retried on ready targets only
  (\<open>creation_gated\<close>), but for the simple actions, which skip the check (\<open>site_action_ungated\<close>); the sweep links
  only confirmed sites (\<open>customers_linked\<close>) and reaches every Customer (\<open>customers_reconciled\<close>).

  \<^bold>\<open>Data updates.\<close> DataUpdates models \<open>data_update_authoring.py\<close>: the recursive normaliser with its shared
  budget is shown equal to a function of the value (\<open>du_value_iff\<close>), a stored command normalises to itself
  (\<open>data_update_again\<close>), and what it may reach is bounded (\<open>data_update_confined\<close>). DataUpdateApi models
  \<open>api/data_updates.py\<close>: what is promoted is what was previewed (\<open>promoted_as_previewed\<close>). Unicode's NFC and case
  folding are the record \<open>unicode\<close>, arguments on text beyond ASCII.

  \<^bold>\<open>Not modelled.\<close> Row locks, \<open>SKIP LOCKED\<close>, savepoints, commits, caches and the error log: the model is
  sequential, and an operation that raises leaves the state to its caller, as a rolled-back request
  does. MariaDB's collation: names are compared as the bytes they are. X.509 and Ed25519 (\<open>pki.py\<close>,
  \<open>api/enrollment_routes.py\<close>) and the clients of S3 and DNS (\<open>api/s3_routes.py\<close>, \<open>controller_dns.py\<close>), which
  call third parties; \<open>source_data.py\<close>, the client of another HTTP API, with its endpoints; \<open>controller_store.py\<close>,
  a SQLite reference store that the deployment replaces by the Frappe one; the authoring of bulk data updates (\<open>frappe_bulk_service.py\<close>, \<open>api/bulk_operations.py\<close>),
  whose documents, selection and scheduling are modelled; metrics, reports, install hooks, patches and the
  Desk's JavaScript.
\<close>

end
